(* ===== verification/Prelude.thy ===== *)
theory Prelude
  imports Main "HOL-Library.Product_Lexorder" "HOL-Library.Multiset"
begin

text \<open>
  The vocabulary the component theories share: the type synonyms for identifiers, times and
  results, the few Python expressions that occur everywhere (\<open>min(max(x, lo), hi)\<close>,
  \<open>x or default\<close>), results that may be an exception, and database tables.

  A table is the list of its rows in insertion order. \<open>t_get\<close> is the primary-key lookup,
  \<open>t_put\<close> writes a changed row back, and the locale \<open>row_table\<close> states the laws the
  components rely on, with the consequences for a batch of writes proved once.
\<close>

named_theorems table_simps \<open>equations about table lookups after table writes\<close>
named_theorems result_simps \<open>equations and inversions for results that may be an exception\<close>

type_synonym uuid = nat
type_synonym time = int \<comment> \<open>microseconds, the resolution of the database's timestamps\<close>
type_synonym ('e, 'a) res = "'e + 'a"

abbreviation (input) Err :: "'e \<Rightarrow> ('e, 'a) res" where "Err \<equiv> Inl"
abbreviation (input) Ok :: "'a \<Rightarrow> ('e, 'a) res" where "Ok \<equiv> Inr"

text \<open>\<open>timedelta(seconds=n)\<close>.\<close>

definition seconds :: "int \<Rightarrow> time" where
  "seconds n = n * 1000000"

lemma seconds_mono [simp]: "seconds a \<le> seconds b \<longleftrightarrow> a \<le> b"
  by (simp add: seconds_def)

lemma seconds_pos [simp]: "0 < seconds a \<longleftrightarrow> 0 < a"
  by (simp add: seconds_def)

text \<open>The clamp \<open>min(max(value, lo), hi)\<close> the services apply to limits and priorities.\<close>

definition clamp :: "int \<Rightarrow> int \<Rightarrow> int \<Rightarrow> int" where
  "clamp lo hi v = min (max v lo) hi"

lemma clamp_bounds: "lo \<le> hi \<Longrightarrow> lo \<le> clamp lo hi v \<and> clamp lo hi v \<le> hi"
  by (simp add: clamp_def)

lemma clamp_id: "lo \<le> v \<Longrightarrow> v \<le> hi \<Longrightarrow> clamp lo hi v = v"
  by (simp add: clamp_def)

text \<open>\<open>value or default\<close> on an optional string: \<open>None\<close> and the empty string are falsy.\<close>

definition or_str :: "string option \<Rightarrow> string \<Rightarrow> string" where
  "or_str v d = (case v of None \<Rightarrow> d | Some s \<Rightarrow> if s = [] then d else s)"

text \<open>\<open>value or default\<close> on an optional integer: \<open>None\<close> and 0 are falsy.\<close>

definition or_int :: "int option \<Rightarrow> int \<Rightarrow> int" where
  "or_int v d = (case v of None \<Rightarrow> d | Some n \<Rightarrow> if n = 0 then d else n)"

subsection \<open>Results\<close>

definition and_then :: "('e, 'a) res \<Rightarrow> ('a \<Rightarrow> ('e, 'b) res) \<Rightarrow> ('e, 'b) res" where
  "and_then m f = (case m of Inl e \<Rightarrow> Inl e | Inr a \<Rightarrow> f a)"

lemma and_then_simps [simp]:
  "and_then (Inl e) f = Inl e"
  "and_then (Inr a) f = f a"
  by (simp_all add: and_then_def)

lemma and_then_Inr_iff [result_simps]:
  "and_then m f = Inr b \<longleftrightarrow> (\<exists>a. m = Inr a \<and> f a = Inr b)"
  by (cases m) auto

lemma and_then_Inl_iff [result_simps]:
  "and_then m f = Inl e \<longleftrightarrow> m = Inl e \<or> (\<exists>a. m = Inr a \<and> f a = Inl e)"
  by (cases m) auto

text \<open>\<open>if not condition: raise error\<close>.\<close>

definition require :: "bool \<Rightarrow> 'e \<Rightarrow> ('e, unit) res" where
  "require b e = (if b then Inr () else Inl e)"

lemma require_iff [result_simps]:
  "require b e = Inr u \<longleftrightarrow> b"
  "require b e = Inl e' \<longleftrightarrow> \<not> b \<and> e' = e"
  by (auto simp: require_def)

lemma require_simps [simp]:
  "require True e = Inr ()"
  "require False e = Inl e"
  by (simp_all add: require_def)

text \<open>\<open>x is None\<close> turned into an exception.\<close>

definition required :: "'a option \<Rightarrow> 'e \<Rightarrow> ('e, 'a) res" where
  "required v e = (case v of None \<Rightarrow> Inl e | Some a \<Rightarrow> Inr a)"

lemma required_iff [result_simps]:
  "required v e = Inr a \<longleftrightarrow> v = Some a"
  "required v e = Inl e' \<longleftrightarrow> v = None \<and> e' = e"
  by (auto simp: required_def split: option.splits)

lemma required_simps [simp]:
  "required None e = Inl e"
  "required (Some a) e = Inr a"
  by (simp_all add: required_def)

text \<open>A loop whose body may raise: the first exception leaves the loop.\<close>

fun run_all :: "('a \<Rightarrow> 's \<Rightarrow> ('e, 's) res) \<Rightarrow> 'a list \<Rightarrow> 's \<Rightarrow> ('e, 's) res" where
  "run_all f [] s = Inr s"
| "run_all f (x # xs) s = and_then (f x s) (run_all f xs)"

text \<open>
  Every element of a list without repetitions is still ready when its turn comes, if an
  iteration keeps the invariant and the readiness of the other elements.
\<close>

lemma run_all_invariant:
  assumes step: "\<And>x s. I s \<Longrightarrow> R x s \<Longrightarrow> x \<in> set ys \<Longrightarrow>
      \<exists>s'. f x s = Inr s' \<and> I s' \<and> (\<forall>y \<in> set ys. y \<noteq> x \<longrightarrow> R y s \<longrightarrow> R y s')"
    and "set xs \<subseteq> set ys" and "distinct xs" and "I s" and "\<forall>x \<in> set xs. R x s"
  shows "\<exists>s'. run_all f xs s = Inr s' \<and> I s'"
  using assms(2-)
proof (induction xs arbitrary: s)
  case Nil
  then show ?case by simp
next
  case (Cons x xs)
  then obtain s' where s': "f x s = Inr s'" "I s'"
    "\<forall>y \<in> set ys. y \<noteq> x \<longrightarrow> R y s \<longrightarrow> R y s'"
    using step [of s x] by auto
  have "\<exists>s''. run_all f xs s' = Inr s'' \<and> I s''"
    using Cons.prems s' by (intro Cons.IH) auto
  with s' show ?case by simp
qed

subsection \<open>Tables\<close>

definition t_get :: "('r \<Rightarrow> 'k) \<Rightarrow> 'r list \<Rightarrow> 'k \<Rightarrow> 'r option" where
  "t_get key t k = find (\<lambda>r. key r = k) t"

definition t_put :: "('r \<Rightarrow> 'k) \<Rightarrow> 'r list \<Rightarrow> 'r \<Rightarrow> 'r list" where
  "t_put key t r = map (\<lambda>x. if key x = key r then r else x) t"

definition t_put_all :: "('r \<Rightarrow> 'k) \<Rightarrow> 'r list \<Rightarrow> 'r list \<Rightarrow> 'r list" where
  "t_put_all key t rs = foldl (t_put key) t rs"

lemma t_get_Nil [table_simps]: "t_get key [] k = None"
  by (simp add: t_get_def)

lemma t_get_Cons [table_simps]:
  "t_get key (r # t) k = (if key r = k then Some r else t_get key t k)"
  by (simp add: t_get_def)

lemma t_get_append:
  "t_get key (t @ u) k = (case t_get key t k of None \<Rightarrow> t_get key u k | Some r \<Rightarrow> Some r)"
  by (induction t) (auto simp: table_simps)

lemma t_get_SomeD: "t_get key t k = Some r \<Longrightarrow> key r = k \<and> r \<in> set t"
  by (induction t) (auto simp: table_simps split: if_splits)

lemma t_get_None_iff: "t_get key t k = None \<longleftrightarrow> k \<notin> key ` set t"
  by (induction t) (auto simp: table_simps)

lemma t_get_in_set:
  "distinct (map key t) \<Longrightarrow> r \<in> set t \<Longrightarrow> t_get key t (key r) = Some r"
  by (induction t) (auto simp: table_simps image_iff)

lemma keys_t_put [simp]: "map key (t_put key t r) = map key t"
  by (simp add: t_put_def)

lemma length_t_put [simp]: "length (t_put key t r) = length t"
  by (simp add: t_put_def)

lemma set_t_put: "set (t_put key t r) \<subseteq> insert r (set t)"
  by (auto simp: t_put_def)

lemma t_get_t_put_same:
  "t_get key t k = Some r0 \<Longrightarrow> key r = k \<Longrightarrow> t_get key (t_put key t r) k = Some r"
  by (induction t) (auto simp: table_simps t_put_def split: if_splits)

lemma t_get_t_put_other:
  "key r \<noteq> k \<Longrightarrow> t_get key (t_put key t r) k = t_get key t k"
  by (induction t) (auto simp: table_simps t_put_def)

lemma set_t_put_iff:
  "distinct (map key t) \<Longrightarrow> r0 \<in> set t \<Longrightarrow> key r0 = key r \<Longrightarrow>
   x \<in> set (t_put key t r) \<longleftrightarrow> x = r \<or> (x \<in> set t \<and> key x \<noteq> key r)"
  by (force simp: t_put_def)

text \<open>
  The contract of a table with a primary key. Every component's tables are interpretations of
  it; what a batch of writes does to a lookup follows once and for all.
\<close>

locale row_table =
  fixes key :: "'r \<Rightarrow> 'k"
    and get :: "'r list \<Rightarrow> 'k \<Rightarrow> 'r option"
    and put :: "'r list \<Rightarrow> 'r \<Rightarrow> 'r list"
  assumes get_put_same: "get t k = Some r0 \<Longrightarrow> key r = k \<Longrightarrow> get (put t r) k = Some r"
    and get_put_other: "key r \<noteq> k \<Longrightarrow> get (put t r) k = get t k"
    and get_key: "get t k = Some r \<Longrightarrow> key r = k"
begin

lemma get_put:
  "get t (key r) \<noteq> None \<Longrightarrow> get (put t r) k = (if k = key r then Some r else get t k)"
  using get_put_same get_put_other by (metis option.exhaust)

lemma put_keeps_rows: "get t k \<noteq> None \<Longrightarrow> get (put t r) k \<noteq> None"
  using get_put_same get_put_other by (metis not_None_eq)

lemma puts_other: "k \<notin> key ` set rs \<Longrightarrow> get (foldl put t rs) k = get t k"
  by (induction rs arbitrary: t) (auto simp: get_put_other)

lemma puts_same:
  "distinct (map key rs) \<Longrightarrow> r \<in> set rs \<Longrightarrow> get t (key r) \<noteq> None \<Longrightarrow>
   get (foldl put t rs) (key r) = Some r"
proof (induction rs arbitrary: t)
  case Nil
  then show ?case by simp
next
  case (Cons a rs)
  show ?case
  proof (cases "r = a")
    case True
    with Cons.prems have "key r \<notin> key ` set rs" by auto
    then have "get (foldl put (put t a) rs) (key r) = get (put t a) (key r)"
      by (rule puts_other)
    with True Cons.prems(3) show ?thesis by (auto simp: get_put)
  next
    case False
    with Cons.prems(1,2) have "distinct (map key rs)" and "r \<in> set rs" by auto
    moreover have "get (put t a) (key r) \<noteq> None"
      using Cons.prems(3) by (rule put_keeps_rows)
    ultimately show ?thesis using Cons.IH by simp
  qed
qed

end



lemma row_table_list: "row_table key (t_get key) (t_put key)"
  by unfold_locales (auto simp: t_get_t_put_same t_get_t_put_other dest: t_get_SomeD)

lemma keys_t_put_all [simp]: "map key (t_put_all key t rs) = map key t"
  by (induction rs arbitrary: t) (simp_all add: t_put_all_def)

text \<open>Writing back changed copies of some rows of a table changes those rows in place.\<close>

lemma t_put_all_map:
  assumes "distinct (map key t)" and "set sel \<subseteq> set t" and "distinct (map key sel)"
    and "\<And>r. key (f r) = key r"
  shows "t_put_all key t (map f sel) = map (\<lambda>x. if x \<in> set sel then f x else x) t"
  using assms
proof (induction sel arbitrary: t)
  case Nil
  then show ?case by (simp add: t_put_all_def)
next
  case (Cons s sel)
  have s: "s \<in> set t" "\<And>x. x \<in> set t \<Longrightarrow> key x = key s \<Longrightarrow> x = s"
    using Cons.prems(1,2) by (auto simp: distinct_map inj_on_def)
  have new: "f s \<notin> set sel" using Cons.prems(3,4) by (metis distinct.simps(2) image_eqI list.set_map list.simps(9))
  have put: "t_put key t (f s) = map (\<lambda>x. if x = s then f s else x) t"
    using s by (auto simp: t_put_def Cons.prems(4))
  have "t_put_all key t (map f (s # sel)) = t_put_all key (t_put key t (f s)) (map f sel)"
    by (simp add: t_put_all_def)
  also have "\<dots> = map (\<lambda>x. if x \<in> set sel then f x else x) (t_put key t (f s))"
  proof (rule Cons.IH)
    show "set sel \<subseteq> set (t_put key t (f s))"
      using Cons.prems(2,3) by (auto simp: put)
  qed (use Cons.prems in auto)
  also have "\<dots> = map (\<lambda>x. if x \<in> set (s # sel) then f x else x) t"
    using Cons.prems(3) new by (auto simp: put)
  finally show ?case .
qed

text \<open>\<open>ORDER BY key LIMIT n\<close>: a stable sort on the key, then the first rows.\<close>

definition order_limit :: "('r \<Rightarrow> 'k::linorder) \<Rightarrow> int \<Rightarrow> 'r list \<Rightarrow> 'r list" where
  "order_limit key n rows = take (nat n) (sort_key key rows)"

lemma set_order_limit: "set (order_limit key n rows) \<subseteq> set rows"
  using set_take_subset by (fastforce simp: order_limit_def)

lemma order_limit_SomeD: "r \<in> set (order_limit key n rows) \<Longrightarrow> r \<in> set rows"
  using set_order_limit [of key n rows] by blast

lemma length_order_limit: "length (order_limit key n rows) \<le> nat n"
  by (simp add: order_limit_def)

lemma sorted_order_limit: "sorted (map key (order_limit key n rows))"
  by (simp add: order_limit_def sorted_wrt_take flip: take_map)

lemma distinct_order_limit:
  "distinct (map f rows) \<Longrightarrow> distinct (map f (order_limit key n rows))"
proof -
  assume d: "distinct (map f rows)"
  have "mset (map f (sort_key key rows)) = mset (map f rows)"
    by simp
  then have "distinct (map f (sort_key key rows))"
    using d by (metis mset_eq_imp_distinct_iff)
  then show ?thesis
    by (simp add: order_limit_def distinct_take flip: take_map)
qed

text \<open>A row left behind by a full batch is not better placed than any row of the batch.\<close>

lemma order_limit_minimal:
  assumes "x \<in> set (order_limit key n rows)" and "y \<in> set rows"
    and "y \<notin> set (order_limit key n rows)"
  shows "key x \<le> key y"
proof -
  let ?s = "sort_key key rows"
  have "y \<in> set (drop (nat n) ?s)"
    using assms(2,3) append_take_drop_id[of "nat n" ?s]
    by (metis (no_types) Un_iff order_limit_def set_append set_sort)
  moreover have "sorted (map key (take (nat n) ?s @ drop (nat n) ?s))"
    by simp
  ultimately show ?thesis
    using assms(1) unfolding order_limit_def map_append sorted_append by simp
qed


subsection \<open>Leases\<close>

text \<open>
  The contract of a lease on a row, which the job queue and the outbox both implement: at most
  one owner, an owner keeps the lease until it expires, and a released row has none. A table of
  leased rows adds the laws of a table with a primary key; what follows for two parties that
  compete for one row is proved here once.
\<close>

locale lease =
  fixes owns :: "'r \<Rightarrow> 'o \<Rightarrow> time \<Rightarrow> bool"
    and release :: "'r \<Rightarrow> 'r"
  assumes one_owner: "owns r a t \<Longrightarrow> owns r b t' \<Longrightarrow> a = b"
    and released: "\<not> owns (release r) a t"
    and held_before: "owns r a t \<Longrightarrow> t' \<le> t \<Longrightarrow> owns r a t'"
begin

lemma other_rejected: "owns r a t \<Longrightarrow> b \<noteq> a \<Longrightarrow> \<not> owns r b t'"
  using one_owner by blast

lemma expired_stays_expired: "\<not> owns r a t \<Longrightarrow> t \<le> t' \<Longrightarrow> \<not> owns r a t'"
  using held_before by blast

end

locale leased_table = row_table key get put + lease owns release
  for key :: "'r \<Rightarrow> 'k" and get :: "'r list \<Rightarrow> 'k \<Rightarrow> 'r option" and put :: "'r list \<Rightarrow> 'r \<Rightarrow> 'r list"
    and owns :: "'r \<Rightarrow> 'o \<Rightarrow> time \<Rightarrow> bool" and release :: "'r \<Rightarrow> 'r"
begin

text \<open>Once a holder has written the released row, nobody holds it, at any time.\<close>

lemma finished_once:
  assumes "get t k = Some r0" and "key (release x) = k"
  shows "get (put t (release x)) k = Some r \<Longrightarrow> \<not> owns r a now"
  using get_put_same [OF assms] released by auto

end

end
