(* ===== verification/Constants.thy ===== *)
theory Constants
  imports Prelude
begin

text \<open>
  The enumerations of \<open>app/core/constants.py\<close>, one datatype per \<open>StrEnum\<close> class in
  the file's order, with constructors prefixed by two letters of the class. Where the code
  compares or stores a member's string, \<open>..._value\<close> gives it; parsing a string back
  (\<open>JobType(text)\<close>, which raises \<open>ValueError\<close> on an unknown one) is
  \<open>parse_enum\<close> over the list of members.
\<close>

datatype user_role =
    UR_MARKETING
  | UR_REVIEWER
  | UR_MANAGER
  | UR_ADMIN
  | UR_SYSTEM

fun user_role_value :: "user_role \<Rightarrow> string" where
  "user_role_value UR_MARKETING = ''marketing''"
| "user_role_value UR_REVIEWER = ''reviewer''"
| "user_role_value UR_MANAGER = ''manager''"
| "user_role_value UR_ADMIN = ''admin''"
| "user_role_value UR_SYSTEM = ''system''"

datatype campaign_status =
    CS_RECEIVED
  | CS_VALIDATING
  | CS_NEEDS_CLARIFICATION
  | CS_ANALYZING
  | CS_GENERATING
  | CS_REVIEWING
  | CS_MANUAL_REVIEW_REQUIRED
  | CS_PENDING_APPROVAL
  | CS_REVISION_REQUIRED
  | CS_APPROVED
  | CS_REJECTED
  | CS_FAILED

fun campaign_status_value :: "campaign_status \<Rightarrow> string" where
  "campaign_status_value CS_RECEIVED = ''RECEIVED''"
| "campaign_status_value CS_VALIDATING = ''VALIDATING''"
| "campaign_status_value CS_NEEDS_CLARIFICATION = ''NEEDS_CLARIFICATION''"
| "campaign_status_value CS_ANALYZING = ''ANALYZING''"
| "campaign_status_value CS_GENERATING = ''GENERATING''"
| "campaign_status_value CS_REVIEWING = ''REVIEWING''"
| "campaign_status_value CS_MANUAL_REVIEW_REQUIRED = ''MANUAL_REVIEW_REQUIRED''"
| "campaign_status_value CS_PENDING_APPROVAL = ''PENDING_APPROVAL''"
| "campaign_status_value CS_REVISION_REQUIRED = ''REVISION_REQUIRED''"
| "campaign_status_value CS_APPROVED = ''APPROVED''"
| "campaign_status_value CS_REJECTED = ''REJECTED''"
| "campaign_status_value CS_FAILED = ''FAILED''"

datatype workflow_step =
    WS_RECEIVE_CAMPAIGN
  | WS_VALIDATE_INPUT
  | WS_ANALYZE_BRIEF
  | WS_GENERATE_CONTENT
  | WS_REVIEW_CONTENT
  | WS_HUMAN_REVIEW
  | WS_COMPLETE

datatype approval_decision = AD_APPROVE | AD_REJECT | AD_REQUEST_REVISION

datatype platform = PF_FACEBOOK | PF_TIKTOK | PF_DISCORD

fun platform_value :: "platform \<Rightarrow> string" where
  "platform_value PF_FACEBOOK = ''Facebook''"
| "platform_value PF_TIKTOK = ''TikTok''"
| "platform_value PF_DISCORD = ''Discord''"

datatype security_event_type =
    SE_PROMPT_INJECTION_DETECTED
  | SE_SENSITIVE_DATA_DETECTED
  | SE_UNAUTHORIZED_ACCESS
  | SE_INVALID_WEBHOOK_SIGNATURE
  | SE_RATE_LIMIT_EXCEEDED
  | SE_OPERATOR_ACTION

datatype security_severity = SV_LOW | SV_MEDIUM | SV_HIGH | SV_CRITICAL

datatype agent_name = AN_BRIEF_ANALYST | AN_CONTENT_GENERATOR | AN_CONTENT_REVIEWER

fun agent_name_value :: "agent_name \<Rightarrow> string" where
  "agent_name_value AN_BRIEF_ANALYST = ''BRIEF_ANALYST''"
| "agent_name_value AN_CONTENT_GENERATOR = ''CONTENT_GENERATOR''"
| "agent_name_value AN_CONTENT_REVIEWER = ''CONTENT_REVIEWER''"

datatype agent_run_status =
    AR_CREATED
  | AR_RUNNING
  | AR_COMPLETED
  | AR_FAILED
  | AR_LIMIT_EXCEEDED

datatype tool_call_status =
    TC_REQUESTED
  | TC_RUNNING
  | TC_COMPLETED
  | TC_FAILED
  | TC_REJECTED

datatype policy_decision = PD_SAFE | PD_APPROVAL_REQUIRED | PD_FORBIDDEN

fun policy_decision_value :: "policy_decision \<Rightarrow> string" where
  "policy_decision_value PD_SAFE = ''SAFE''"
| "policy_decision_value PD_APPROVAL_REQUIRED = ''APPROVAL_REQUIRED''"
| "policy_decision_value PD_FORBIDDEN = ''FORBIDDEN''"

datatype action_request_status =
    AQ_PROPOSED
  | AQ_PENDING_APPROVAL
  | AQ_APPROVED
  | AQ_REJECTED
  | AQ_EXECUTING
  | AQ_COMPLETED
  | AQ_FAILED
  | AQ_EXPIRED

datatype action_execution_status =
    AX_CREATED
  | AX_RUNNING
  | AX_COMPLETED
  | AX_FAILED
  | AX_CANCELLED

datatype memory_record_status = MR_NOT_REQUIRED | MR_PENDING | MR_RECORDED | MR_FAILED

datatype memory_type = MT_EPISODIC | MT_OPERATIONAL

datatype memory_event_type =
    ME_WORKFLOW_RETRY
  | ME_REVIEW_FEEDBACK
  | ME_REVISION_COMPLETED
  | ME_AGENT_FAILED
  | ME_ACTION_PROPOSED
  | ME_POLICY_DECIDED
  | ME_ACTION_APPROVED
  | ME_ACTION_REJECTED
  | ME_ACTION_COMPLETED
  | ME_ACTION_FAILED
  | ME_CAMPAIGN_APPROVAL_DECIDED

fun memory_event_type_value :: "memory_event_type \<Rightarrow> string" where
  "memory_event_type_value ME_WORKFLOW_RETRY = ''WORKFLOW_RETRY''"
| "memory_event_type_value ME_REVIEW_FEEDBACK = ''REVIEW_FEEDBACK''"
| "memory_event_type_value ME_REVISION_COMPLETED = ''REVISION_COMPLETED''"
| "memory_event_type_value ME_AGENT_FAILED = ''AGENT_FAILED''"
| "memory_event_type_value ME_ACTION_PROPOSED = ''ACTION_PROPOSED''"
| "memory_event_type_value ME_POLICY_DECIDED = ''POLICY_DECIDED''"
| "memory_event_type_value ME_ACTION_APPROVED = ''ACTION_APPROVED''"
| "memory_event_type_value ME_ACTION_REJECTED = ''ACTION_REJECTED''"
| "memory_event_type_value ME_ACTION_COMPLETED = ''ACTION_COMPLETED''"
| "memory_event_type_value ME_ACTION_FAILED = ''ACTION_FAILED''"
| "memory_event_type_value ME_CAMPAIGN_APPROVAL_DECIDED = ''CAMPAIGN_APPROVAL_DECIDED''"

datatype job_type =
    JT_WORKFLOW_RUN
  | JT_ACTION_EXECUTION
  | JT_MEMORY_RECONCILIATION
  | JT_OUTBOX_DISPATCH
  | JT_EVALUATION_RUN
  | JT_ALERT_RECONCILIATION
  | JT_PROMPT_EXPERIMENT_RUN
  | JT_PROVIDER_COMPARISON_RUN
  | JT_IMAGE_GENERATION
  | JT_DATA_ANALYSIS
  | JT_DOCUMENT_PROCESSING
  | JT_VIDEO_STORYBOARD

fun job_type_value :: "job_type \<Rightarrow> string" where
  "job_type_value JT_WORKFLOW_RUN = ''WORKFLOW_RUN''"
| "job_type_value JT_ACTION_EXECUTION = ''ACTION_EXECUTION''"
| "job_type_value JT_MEMORY_RECONCILIATION = ''MEMORY_RECONCILIATION''"
| "job_type_value JT_OUTBOX_DISPATCH = ''OUTBOX_DISPATCH''"
| "job_type_value JT_EVALUATION_RUN = ''EVALUATION_RUN''"
| "job_type_value JT_ALERT_RECONCILIATION = ''ALERT_RECONCILIATION''"
| "job_type_value JT_PROMPT_EXPERIMENT_RUN = ''PROMPT_EXPERIMENT_RUN''"
| "job_type_value JT_PROVIDER_COMPARISON_RUN = ''PROVIDER_COMPARISON_RUN''"
| "job_type_value JT_IMAGE_GENERATION = ''IMAGE_GENERATION''"
| "job_type_value JT_DATA_ANALYSIS = ''DATA_ANALYSIS''"
| "job_type_value JT_DOCUMENT_PROCESSING = ''DOCUMENT_PROCESSING''"
| "job_type_value JT_VIDEO_STORYBOARD = ''VIDEO_STORYBOARD''"

datatype job_status =
    JS_PENDING
  | JS_RUNNING
  | JS_SUCCEEDED
  | JS_FAILED
  | JS_CANCELLED
  | JS_DEAD_LETTER

datatype job_attempt_status = JA_RUNNING | JA_SUCCEEDED | JA_FAILED | JA_CANCELLED

datatype job_error_classification = JE_RETRYABLE | JE_NON_RETRYABLE

datatype worker_status = WK_STARTING | WK_RUNNING | WK_STOPPING | WK_STOPPED

datatype outbox_status =
    OS_PENDING
  | OS_PROCESSING
  | OS_PROCESSED
  | OS_FAILED
  | OS_DEAD_LETTER

datatype lease_update_result = LU_UPDATED | LU_NOT_FOUND | LU_INVALID_STATE | LU_LEASE_LOST

datatype outbox_event_type =
    OE_WORKFLOW_COMPLETED
  | OE_WORKFLOW_FAILED
  | OE_ACTION_COMPLETED
  | OE_ACTION_FAILED
  | OE_MEMORY_RECONCILIATION_REQUIRED
  | OE_EVALUATION_REQUESTED
  | OE_PROMPT_VERSION_ACTIVATED
  | OE_PROMPT_EXPERIMENT_COMPLETED
  | OE_TASK_IMPACT_RECORDED
  | OE_USER_FEEDBACK_RECEIVED
  | OE_MEDIA_READY_FOR_REVIEW
  | OE_MEDIA_APPROVED
  | OE_MEDIA_REJECTED
  | OE_DATA_ANALYSIS_COMPLETED
  | OE_DOCUMENT_PROCESSING_COMPLETED

fun outbox_event_type_value :: "outbox_event_type \<Rightarrow> string" where
  "outbox_event_type_value OE_WORKFLOW_COMPLETED = ''WORKFLOW_COMPLETED''"
| "outbox_event_type_value OE_WORKFLOW_FAILED = ''WORKFLOW_FAILED''"
| "outbox_event_type_value OE_ACTION_COMPLETED = ''ACTION_COMPLETED''"
| "outbox_event_type_value OE_ACTION_FAILED = ''ACTION_FAILED''"
| "outbox_event_type_value OE_MEMORY_RECONCILIATION_REQUIRED = ''MEMORY_RECONCILIATION_REQUIRED''"
| "outbox_event_type_value OE_EVALUATION_REQUESTED = ''EVALUATION_REQUESTED''"
| "outbox_event_type_value OE_PROMPT_VERSION_ACTIVATED = ''PROMPT_VERSION_ACTIVATED''"
| "outbox_event_type_value OE_PROMPT_EXPERIMENT_COMPLETED = ''PROMPT_EXPERIMENT_COMPLETED''"
| "outbox_event_type_value OE_TASK_IMPACT_RECORDED = ''TASK_IMPACT_RECORDED''"
| "outbox_event_type_value OE_USER_FEEDBACK_RECEIVED = ''USER_FEEDBACK_RECEIVED''"
| "outbox_event_type_value OE_MEDIA_READY_FOR_REVIEW = ''MEDIA_READY_FOR_REVIEW''"
| "outbox_event_type_value OE_MEDIA_APPROVED = ''MEDIA_APPROVED''"
| "outbox_event_type_value OE_MEDIA_REJECTED = ''MEDIA_REJECTED''"
| "outbox_event_type_value OE_DATA_ANALYSIS_COMPLETED = ''DATA_ANALYSIS_COMPLETED''"
| "outbox_event_type_value OE_DOCUMENT_PROCESSING_COMPLETED = ''DOCUMENT_PROCESSING_COMPLETED''"

datatype alert_status = AS_OPEN | AS_ACKNOWLEDGED | AS_RESOLVED

datatype alert_type =
    AT_WORKFLOW_FAILURE_RATE_HIGH
  | AT_JOB_QUEUE_BACKLOG
  | AT_JOB_DEAD_LETTER
  | AT_ACTION_EXECUTION_FAILURE
  | AT_MEMORY_RECONCILIATION_BACKLOG
  | AT_POSTGRES_UNAVAILABLE
  | AT_MIGRATION_HEAD_MISMATCH
  | AT_OUTBOX_BACKLOG

datatype evaluation_run_status =
    ER_PENDING
  | ER_RUNNING
  | ER_SUCCEEDED
  | ER_FAILED
  | ER_CANCELLED

datatype evaluation_execution_mode = EM_SNAPSHOT | EM_SYSTEM

datatype evaluation_result_status = EV_PASSED | EV_FAILED | EV_ERROR

datatype prompt_template_status = PT_ACTIVE | PT_RETIRED

datatype prompt_version_status =
    PV_DRAFT
  | PV_TESTING
  | PV_APPROVED
  | PV_ACTIVE
  | PV_RETIRED

datatype prompt_experiment_status =
    PE_DRAFT
  | PE_RUNNING
  | PE_COMPLETED
  | PE_CANCELLED
  | PE_FAILED

datatype provider_name = PN_MOCK | PN_OPENAI | PN_GEMINI | PN_ANTHROPIC

fun provider_name_value :: "provider_name \<Rightarrow> string" where
  "provider_name_value PN_MOCK = ''mock''"
| "provider_name_value PN_OPENAI = ''openai''"
| "provider_name_value PN_GEMINI = ''gemini''"
| "provider_name_value PN_ANTHROPIC = ''anthropic''"

datatype provider_comparison_status =
    PC_DRAFT
  | PC_RUNNING
  | PC_COMPLETED
  | PC_CANCELLED
  | PC_FAILED

datatype media_asset_type = MA_IMAGE | MA_VIDEO_STORYBOARD | MA_VIDEO

datatype media_asset_status =
    MS_REQUESTED
  | MS_GENERATING
  | MS_READY_FOR_REVIEW
  | MS_APPROVED
  | MS_REJECTED
  | MS_FAILED
  | MS_CANCELLED

datatype media_attempt_status = MM_STARTED | MM_COMPLETED | MM_FAILED | MM_CANCELLED

datatype media_attempt_update_result = MU_UPDATED | MU_NOT_FOUND | MU_INVALID_STATE | MU_OWNERSHIP_LOST

datatype applied_workflow_type =
    AW_CAMPAIGN_CONTENT
  | AW_DATA_ANALYSIS
  | AW_DOCUMENT_PROCESSING
  | AW_IMAGE_GENERATION
  | AW_VIDEO_STORYBOARD

fun applied_workflow_type_value :: "applied_workflow_type \<Rightarrow> string" where
  "applied_workflow_type_value AW_CAMPAIGN_CONTENT = ''CAMPAIGN_CONTENT''"
| "applied_workflow_type_value AW_DATA_ANALYSIS = ''DATA_ANALYSIS''"
| "applied_workflow_type_value AW_DOCUMENT_PROCESSING = ''DOCUMENT_PROCESSING''"
| "applied_workflow_type_value AW_IMAGE_GENERATION = ''IMAGE_GENERATION''"
| "applied_workflow_type_value AW_VIDEO_STORYBOARD = ''VIDEO_STORYBOARD''"

datatype applied_task_status =
    AP_PENDING
  | AP_PROCESSING
  | AP_READY_FOR_REVIEW
  | AP_COMPLETED
  | AP_FAILED
  | AP_CANCELLED

text \<open>The named sets of workflow statuses.\<close>

definition active_workflow_statuses :: "campaign_status list" where
  "active_workflow_statuses =
     [CS_RECEIVED, CS_VALIDATING, CS_NEEDS_CLARIFICATION, CS_ANALYZING, CS_GENERATING,
      CS_REVIEWING, CS_MANUAL_REVIEW_REQUIRED, CS_PENDING_APPROVAL, CS_REVISION_REQUIRED]"

definition terminal_workflow_statuses :: "campaign_status list" where
  "terminal_workflow_statuses = [CS_APPROVED, CS_REJECTED, CS_FAILED]"

definition workflow_creatable_campaign_statuses :: "campaign_status list" where
  "workflow_creatable_campaign_statuses = [CS_RECEIVED, CS_REVISION_REQUIRED]"

lemma active_or_terminal:
  "s \<in> set active_workflow_statuses \<longleftrightarrow> s \<notin> set terminal_workflow_statuses"
  by (cases s) (simp_all add: active_workflow_statuses_def terminal_workflow_statuses_def)

text \<open>\<open>Enum(value)\<close>: the member with that value, or a \<open>ValueError\<close> (here \<open>None\<close>).\<close>

definition parse_enum :: "('m \<Rightarrow> string) \<Rightarrow> 'm list \<Rightarrow> string \<Rightarrow> 'm option" where
  "parse_enum val members s = find (\<lambda>m. val m = s) members"

lemma parse_enum_value:
  "inj_on val (set members) \<Longrightarrow> m \<in> set members \<Longrightarrow> parse_enum val members (val m) = Some m"
  by (induction members) (auto simp: parse_enum_def inj_on_def)

lemma parse_enum_SomeD: "parse_enum val members s = Some m \<Longrightarrow> val m = s \<and> m \<in> set members"
  by (auto simp: parse_enum_def find_Some_iff)

definition user_roles :: "user_role list" where
  "user_roles = [UR_MARKETING, UR_REVIEWER, UR_MANAGER, UR_ADMIN, UR_SYSTEM]"

definition parse_user_role :: "string \<Rightarrow> user_role option" where
  "parse_user_role = parse_enum user_role_value user_roles"

definition job_types :: "job_type list" where
  "job_types =
     [JT_WORKFLOW_RUN, JT_ACTION_EXECUTION, JT_MEMORY_RECONCILIATION, JT_OUTBOX_DISPATCH,
      JT_EVALUATION_RUN, JT_ALERT_RECONCILIATION, JT_PROMPT_EXPERIMENT_RUN,
      JT_PROVIDER_COMPARISON_RUN, JT_IMAGE_GENERATION, JT_DATA_ANALYSIS,
      JT_DOCUMENT_PROCESSING, JT_VIDEO_STORYBOARD]"

definition parse_job_type :: "string \<Rightarrow> job_type option" where
  "parse_job_type = parse_enum job_type_value job_types"

lemma parse_user_role_value [simp]: "parse_user_role (user_role_value r) = Some r"
  by (cases r) (simp_all add: parse_user_role_def parse_enum_def user_roles_def)

lemma parse_job_type_value [simp]: "parse_job_type (job_type_value t) = Some t"
  by (cases t) (simp_all add: parse_job_type_def parse_enum_def job_types_def)

end
