(* ===== verification/Errors.thy ===== *)
theory Errors
  imports Constants
begin

text \<open>
  The exception classes of \<open>app/core/exceptions.py\<close> with their base classes and error codes,
  the classes of Python, SQLAlchemy and asyncio that the code catches beside them, and
  the mapping of an exception to an HTTP response (\<open>app/api/exception_handlers.py\<close>).
\<close>

datatype core_exn =
    ApplicationError
  | CampaignValidationError
  | CampaignNotFoundError
  | CampaignAlreadyExistsError
  | AuthorizationError
  | AuthenticationError
  | LLMResponseError
  | LLMProviderError
  | LLMProviderUnavailableError
  | LLMRateLimitError
  | LLMTimeoutError
  | WorkflowLimitError
  | WorkflowExecutionError
  | WorkflowNotFoundError
  | WorkflowAlreadyActiveError
  | WorkflowCreationNotAllowedError
  | InvalidStateTransitionError
  | ApprovalNotAllowedError
  | ApprovalAlreadyDecidedError
  | VersionConflictError

datatype store_exn =
    DatabaseUnavailableError
  | PersistenceError
  | UnknownConstraintPersistenceError
  | MediaPersistenceError
  | BusinessImpactPersistenceError
  | FeedbackPersistenceError
  | MediaAttemptFinalizationError
  | MediaAttemptReconciliationError
  | MediaAttemptStateConflictError
  | MediaAttemptLeaseLostError

datatype agent_exn =
    AgentRunNotFoundError
  | AgentRunAlreadyActiveError
  | AgentExecutionError
  | AgentExecutionCancelledError
  | AgentOutputValidationError
  | AgentIterationLimitError
  | AgentLLMCallLimitError
  | AgentToolCallLimitError
  | AgentTimeoutError
  | ToolNotFoundError
  | ToolNotAllowedError
  | ToolInputValidationError
  | ToolExecutionError
  | ToolTimeoutError
  | ToolCancelledError
  | InvalidAgentRunTransitionError
  | InvalidToolCallTransitionError
  | AgentContextError
  | AgentActionProposalLimitError

datatype action_exn =
    ActionRequestNotFoundError
  | ActionNotFoundError
  | ActionNotAllowedError
  | ActionApprovalRequiredError
  | ActionAlreadyDecidedError
  | ActionExpiredError
  | ActionVersionConflictError
  | ActionExecutionConflictError
  | ActionPolicyReevaluationDeniedError
  | ActionPolicyApprovalRequiredError
  | ActionStateChangedError
  | ActionScopeConflictError
  | ControlledActionExecutionError
  | PolicyDeniedError
  | MemoryEntryNotFoundError

datatype ops_exn =
    JobNotFoundError
  | JobConflictError
  | JobLeaseLostError
  | JobPayloadError
  | JobCancelledError
  | RetryableJobError
  | JobNonRetryableError
  | OutboxLeaseLostError
  | OutboxOwnershipConflictError
  | AlertNotFoundError
  | EvaluationNotFoundError
  | EvaluationConflictError
  | EvaluationExecutionError
  | EvaluationIsolationError
  | RateLimitExceededError
  | RequestBodyTooLargeError
  | M7ResourceNotFoundError
  | M7ConflictError
  | M7ValidationError
  | ProviderCapabilityError
  | WebhookAuthenticationError

text \<open>Classes of Python, asyncio and SQLAlchemy; \<open>OtherException\<close> stands for any other subclass of \<open>Exception\<close>.\<close>

datatype py_exn =
    PyBaseException
  | PyException
  | ValueError
  | KeyError
  | PyTimeoutError
  | CancelledError
  | DBAPIError
  | IntegrityError
  | OperationalError
  | OtherException

datatype exn_class =
    CoreE core_exn
  | StoreE store_exn
  | AgentE agent_exn
  | ActionE action_exn
  | OpsE ops_exn
  | PyE py_exn

fun core_exn_base :: "core_exn \<Rightarrow> exn_class" where
  "core_exn_base ApplicationError = PyE PyException"
| "core_exn_base LLMProviderUnavailableError = CoreE LLMProviderError"
| "core_exn_base LLMRateLimitError = CoreE LLMProviderError"
| "core_exn_base _ = CoreE ApplicationError"

fun core_exn_code :: "core_exn \<Rightarrow> string" where
  "core_exn_code ApplicationError = ''APPLICATION_ERROR''"
| "core_exn_code CampaignValidationError = ''CAMPAIGN_VALIDATION_ERROR''"
| "core_exn_code CampaignNotFoundError = ''CAMPAIGN_NOT_FOUND''"
| "core_exn_code CampaignAlreadyExistsError = ''CAMPAIGN_ALREADY_EXISTS''"
| "core_exn_code AuthorizationError = ''AUTHORIZATION_ERROR''"
| "core_exn_code AuthenticationError = ''AUTHENTICATION_ERROR''"
| "core_exn_code LLMResponseError = ''LLM_RESPONSE_ERROR''"
| "core_exn_code LLMProviderError = ''LLM_PROVIDER_ERROR''"
| "core_exn_code LLMProviderUnavailableError = ''LLM_PROVIDER_UNAVAILABLE''"
| "core_exn_code LLMRateLimitError = ''LLM_RATE_LIMITED''"
| "core_exn_code LLMTimeoutError = ''LLM_TIMEOUT''"
| "core_exn_code WorkflowLimitError = ''WORKFLOW_LIMIT_ERROR''"
| "core_exn_code WorkflowExecutionError = ''WORKFLOW_EXECUTION_ERROR''"
| "core_exn_code WorkflowNotFoundError = ''WORKFLOW_NOT_FOUND''"
| "core_exn_code WorkflowAlreadyActiveError = ''WORKFLOW_ALREADY_ACTIVE''"
| "core_exn_code WorkflowCreationNotAllowedError = ''WORKFLOW_CREATION_NOT_ALLOWED''"
| "core_exn_code InvalidStateTransitionError = ''INVALID_STATE_TRANSITION''"
| "core_exn_code ApprovalNotAllowedError = ''APPROVAL_NOT_ALLOWED''"
| "core_exn_code ApprovalAlreadyDecidedError = ''APPROVAL_ALREADY_DECIDED''"
| "core_exn_code VersionConflictError = ''VERSION_CONFLICT''"

fun store_exn_base :: "store_exn \<Rightarrow> exn_class" where
  "store_exn_base UnknownConstraintPersistenceError = StoreE PersistenceError"
| "store_exn_base MediaPersistenceError = StoreE PersistenceError"
| "store_exn_base BusinessImpactPersistenceError = StoreE PersistenceError"
| "store_exn_base FeedbackPersistenceError = StoreE PersistenceError"
| "store_exn_base MediaAttemptFinalizationError = StoreE PersistenceError"
| "store_exn_base MediaAttemptReconciliationError = StoreE PersistenceError"
| "store_exn_base _ = CoreE ApplicationError"

fun store_exn_code :: "store_exn \<Rightarrow> string" where
  "store_exn_code DatabaseUnavailableError = ''DATABASE_UNAVAILABLE''"
| "store_exn_code PersistenceError = ''PERSISTENCE_ERROR''"
| "store_exn_code UnknownConstraintPersistenceError = ''UNKNOWN_CONSTRAINT_PERSISTENCE_ERROR''"
| "store_exn_code MediaPersistenceError = ''MEDIA_PERSISTENCE_ERROR''"
| "store_exn_code BusinessImpactPersistenceError = ''BUSINESS_IMPACT_PERSISTENCE_ERROR''"
| "store_exn_code FeedbackPersistenceError = ''FEEDBACK_PERSISTENCE_ERROR''"
| "store_exn_code MediaAttemptFinalizationError = ''MEDIA_ATTEMPT_FINALIZATION_ERROR''"
| "store_exn_code MediaAttemptReconciliationError = ''MEDIA_ATTEMPT_RECONCILIATION_ERROR''"
| "store_exn_code MediaAttemptStateConflictError = ''MEDIA_ATTEMPT_STATE_CONFLICT''"
| "store_exn_code MediaAttemptLeaseLostError = ''MEDIA_ATTEMPT_LEASE_LOST''"

fun agent_exn_base :: "agent_exn \<Rightarrow> exn_class" where
  "agent_exn_base AgentExecutionCancelledError = AgentE AgentExecutionError"
| "agent_exn_base AgentOutputValidationError = AgentE AgentExecutionError"
| "agent_exn_base AgentIterationLimitError = AgentE AgentExecutionError"
| "agent_exn_base AgentLLMCallLimitError = AgentE AgentExecutionError"
| "agent_exn_base AgentToolCallLimitError = AgentE AgentExecutionError"
| "agent_exn_base AgentTimeoutError = AgentE AgentExecutionError"
| "agent_exn_base ToolNotFoundError = AgentE AgentExecutionError"
| "agent_exn_base ToolNotAllowedError = AgentE AgentExecutionError"
| "agent_exn_base ToolInputValidationError = AgentE AgentExecutionError"
| "agent_exn_base ToolExecutionError = AgentE AgentExecutionError"
| "agent_exn_base ToolTimeoutError = AgentE ToolExecutionError"
| "agent_exn_base ToolCancelledError = AgentE ToolExecutionError"
| "agent_exn_base InvalidAgentRunTransitionError = AgentE AgentExecutionError"
| "agent_exn_base InvalidToolCallTransitionError = AgentE AgentExecutionError"
| "agent_exn_base AgentContextError = AgentE AgentExecutionError"
| "agent_exn_base AgentActionProposalLimitError = AgentE AgentExecutionError"
| "agent_exn_base _ = CoreE ApplicationError"

fun agent_exn_code :: "agent_exn \<Rightarrow> string" where
  "agent_exn_code AgentRunNotFoundError = ''AGENT_RUN_NOT_FOUND''"
| "agent_exn_code AgentRunAlreadyActiveError = ''AGENT_RUN_ALREADY_ACTIVE''"
| "agent_exn_code AgentExecutionError = ''AGENT_EXECUTION_ERROR''"
| "agent_exn_code AgentExecutionCancelledError = ''AGENT_EXECUTION_CANCELLED''"
| "agent_exn_code AgentOutputValidationError = ''AGENT_OUTPUT_VALIDATION_ERROR''"
| "agent_exn_code AgentIterationLimitError = ''AGENT_ITERATION_LIMIT''"
| "agent_exn_code AgentLLMCallLimitError = ''AGENT_LLM_CALL_LIMIT''"
| "agent_exn_code AgentToolCallLimitError = ''AGENT_TOOL_CALL_LIMIT''"
| "agent_exn_code AgentTimeoutError = ''AGENT_TIMEOUT''"
| "agent_exn_code ToolNotFoundError = ''TOOL_NOT_FOUND''"
| "agent_exn_code ToolNotAllowedError = ''TOOL_NOT_ALLOWED''"
| "agent_exn_code ToolInputValidationError = ''TOOL_INPUT_VALIDATION_ERROR''"
| "agent_exn_code ToolExecutionError = ''TOOL_EXECUTION_ERROR''"
| "agent_exn_code ToolTimeoutError = ''TOOL_TIMEOUT''"
| "agent_exn_code ToolCancelledError = ''TOOL_CANCELLED''"
| "agent_exn_code InvalidAgentRunTransitionError = ''INVALID_AGENT_RUN_TRANSITION''"
| "agent_exn_code InvalidToolCallTransitionError = ''INVALID_TOOL_CALL_TRANSITION''"
| "agent_exn_code AgentContextError = ''AGENT_CONTEXT_ERROR''"
| "agent_exn_code AgentActionProposalLimitError = ''AGENT_ACTION_PROPOSAL_LIMIT''"

fun action_exn_base :: "action_exn \<Rightarrow> exn_class" where
  "action_exn_base _ = CoreE ApplicationError"

fun action_exn_code :: "action_exn \<Rightarrow> string" where
  "action_exn_code ActionRequestNotFoundError = ''ACTION_REQUEST_NOT_FOUND''"
| "action_exn_code ActionNotFoundError = ''ACTION_NOT_FOUND''"
| "action_exn_code ActionNotAllowedError = ''ACTION_NOT_ALLOWED''"
| "action_exn_code ActionApprovalRequiredError = ''ACTION_APPROVAL_REQUIRED''"
| "action_exn_code ActionAlreadyDecidedError = ''ACTION_ALREADY_DECIDED''"
| "action_exn_code ActionExpiredError = ''ACTION_EXPIRED''"
| "action_exn_code ActionVersionConflictError = ''ACTION_VERSION_CONFLICT''"
| "action_exn_code ActionExecutionConflictError = ''ACTION_EXECUTION_CONFLICT''"
| "action_exn_code ActionPolicyReevaluationDeniedError = ''POLICY_REEVALUATION_DENIED''"
| "action_exn_code ActionPolicyApprovalRequiredError = ''POLICY_REEVALUATION_APPROVAL_REQUIRED''"
| "action_exn_code ActionStateChangedError = ''ACTION_STATE_CHANGED''"
| "action_exn_code ActionScopeConflictError = ''ACTION_SCOPE_CONFLICT''"
| "action_exn_code ControlledActionExecutionError = ''ACTION_EXECUTION_ERROR''"
| "action_exn_code PolicyDeniedError = ''POLICY_DENIED''"
| "action_exn_code MemoryEntryNotFoundError = ''MEMORY_ENTRY_NOT_FOUND''"

fun ops_exn_base :: "ops_exn \<Rightarrow> exn_class" where
  "ops_exn_base ProviderCapabilityError = OpsE M7ValidationError"
| "ops_exn_base WebhookAuthenticationError = CoreE AuthenticationError"
| "ops_exn_base _ = CoreE ApplicationError"

fun ops_exn_code :: "ops_exn \<Rightarrow> string" where
  "ops_exn_code JobNotFoundError = ''JOB_NOT_FOUND''"
| "ops_exn_code JobConflictError = ''JOB_CONFLICT''"
| "ops_exn_code JobLeaseLostError = ''JOB_LEASE_LOST''"
| "ops_exn_code JobPayloadError = ''JOB_PAYLOAD_INVALID''"
| "ops_exn_code JobCancelledError = ''JOB_CANCELLED''"
| "ops_exn_code RetryableJobError = ''JOB_TRANSIENT_ERROR''"
| "ops_exn_code JobNonRetryableError = ''JOB_NON_RETRYABLE_ERROR''"
| "ops_exn_code OutboxLeaseLostError = ''OUTBOX_LEASE_LOST''"
| "ops_exn_code OutboxOwnershipConflictError = ''OUTBOX_OWNERSHIP_CONFLICT''"
| "ops_exn_code AlertNotFoundError = ''ALERT_NOT_FOUND''"
| "ops_exn_code EvaluationNotFoundError = ''EVALUATION_NOT_FOUND''"
| "ops_exn_code EvaluationConflictError = ''EVALUATION_CONFLICT''"
| "ops_exn_code EvaluationExecutionError = ''EVALUATION_EXECUTION_ERROR''"
| "ops_exn_code EvaluationIsolationError = ''EVALUATION_ISOLATION_ERROR''"
| "ops_exn_code RateLimitExceededError = ''RATE_LIMIT_EXCEEDED''"
| "ops_exn_code RequestBodyTooLargeError = ''REQUEST_BODY_TOO_LARGE''"
| "ops_exn_code M7ResourceNotFoundError = ''M7_RESOURCE_NOT_FOUND''"
| "ops_exn_code M7ConflictError = ''M7_CONFLICT''"
| "ops_exn_code M7ValidationError = ''M7_VALIDATION_ERROR''"
| "ops_exn_code ProviderCapabilityError = ''PROVIDER_CAPABILITY_UNAVAILABLE''"
| "ops_exn_code WebhookAuthenticationError = ''WEBHOOK_AUTHENTICATION_FAILED''"

fun py_exn_base :: "py_exn \<Rightarrow> exn_class option" where
  "py_exn_base PyBaseException = None"
| "py_exn_base PyException = Some (PyE PyBaseException)"
| "py_exn_base ValueError = Some (PyE PyException)"
| "py_exn_base KeyError = Some (PyE PyException)"
| "py_exn_base PyTimeoutError = Some (PyE PyException)"
| "py_exn_base CancelledError = Some (PyE PyBaseException)"
| "py_exn_base DBAPIError = Some (PyE PyException)"
| "py_exn_base IntegrityError = Some (PyE DBAPIError)"
| "py_exn_base OperationalError = Some (PyE DBAPIError)"
| "py_exn_base OtherException = Some (PyE PyException)"

fun base_class :: "exn_class \<Rightarrow> exn_class option" where
  "base_class (CoreE e) = Some (core_exn_base e)"
| "base_class (StoreE e) = Some (store_exn_base e)"
| "base_class (AgentE e) = Some (agent_exn_base e)"
| "base_class (ActionE e) = Some (action_exn_base e)"
| "base_class (OpsE e) = Some (ops_exn_base e)"
| "base_class (PyE e) = py_exn_base e"

fun error_code :: "exn_class \<Rightarrow> string option" where
  "error_code (CoreE e) = Some (core_exn_code e)"
| "error_code (StoreE e) = Some (store_exn_code e)"
| "error_code (AgentE e) = Some (agent_exn_code e)"
| "error_code (ActionE e) = Some (action_exn_code e)"
| "error_code (OpsE e) = Some (ops_exn_code e)"
| "error_code (PyE _) = None"

text \<open>
  \<open>isinstance(exc, cls)\<close>: walk the base classes. The deepest class has five proper
  ancestors, so five steps reach every root (\<open>class_chain_enough\<close>).
\<close>

primrec class_chain :: "nat \<Rightarrow> exn_class \<Rightarrow> exn_class list" where
  "class_chain 0 c = [c]"
| "class_chain (Suc n) c =
     c # (case base_class c of None \<Rightarrow> [] | Some b \<Rightarrow> class_chain n b)"

definition is_instance :: "exn_class \<Rightarrow> exn_class \<Rightarrow> bool" where
  "is_instance c d \<longleftrightarrow> d \<in> set (class_chain 5 c)"

lemma class_chain_root [simp]: "class_chain n (PyE PyBaseException) = [PyE PyBaseException]"
  by (cases n) simp_all

lemma exn_class_all:
  assumes "\<And>e. P (CoreE e)" and "\<And>e. P (StoreE e)" and "\<And>e. P (AgentE e)"
    and "\<And>e. P (ActionE e)" and "\<And>e. P (OpsE e)" and "\<And>e. P (PyE e)"
  shows "P c"
  using assms by (cases c) auto

lemma chain_enough_Suc:
  "class_chain (Suc (Suc (Suc (Suc (Suc n))))) c =
   class_chain (Suc (Suc (Suc (Suc (Suc 0))))) c"
proof (rule exn_class_all [of _ c])
  show "class_chain (Suc (Suc (Suc (Suc (Suc n))))) (CoreE e) =
        class_chain (Suc (Suc (Suc (Suc (Suc 0))))) (CoreE e)" for e
    by (cases e) simp_all
  show "class_chain (Suc (Suc (Suc (Suc (Suc n))))) (StoreE e) =
        class_chain (Suc (Suc (Suc (Suc (Suc 0))))) (StoreE e)" for e
    by (cases e) simp_all
  show "class_chain (Suc (Suc (Suc (Suc (Suc n))))) (AgentE e) =
        class_chain (Suc (Suc (Suc (Suc (Suc 0))))) (AgentE e)" for e
    by (cases e) simp_all
  show "class_chain (Suc (Suc (Suc (Suc (Suc n))))) (ActionE e) =
        class_chain (Suc (Suc (Suc (Suc (Suc 0))))) (ActionE e)" for e
    by (cases e) simp_all
  show "class_chain (Suc (Suc (Suc (Suc (Suc n))))) (OpsE e) =
        class_chain (Suc (Suc (Suc (Suc (Suc 0))))) (OpsE e)" for e
    by (cases e) simp_all
  show "class_chain (Suc (Suc (Suc (Suc (Suc n))))) (PyE e) =
        class_chain (Suc (Suc (Suc (Suc (Suc 0))))) (PyE e)" for e
    by (cases e) simp_all
qed

lemma class_chain_enough: "class_chain (5 + n) c = class_chain 5 c"
  using chain_enough_Suc [of n c] by (simp add: eval_nat_numeral)

lemmas is_instance_simps = is_instance_def eval_nat_numeral

text \<open>An exception in flight: its class and its message.\<close>

datatype exn = Exn (exn_cls: exn_class) (exn_msg: string)

abbreviation is_application_error :: "exn_class \<Rightarrow> bool" where
  "is_application_error c \<equiv> is_instance c (CoreE ApplicationError)"

lemma application_error_iff_code: "is_application_error c \<longleftrightarrow> error_code c \<noteq> None"
proof (rule exn_class_all [of _ c])
  show "is_application_error (CoreE e) \<longleftrightarrow> error_code (CoreE e) \<noteq> None" for e
    by (cases e) (simp_all add: is_instance_simps)
  show "is_application_error (StoreE e) \<longleftrightarrow> error_code (StoreE e) \<noteq> None" for e
    by (cases e) (simp_all add: is_instance_simps)
  show "is_application_error (AgentE e) \<longleftrightarrow> error_code (AgentE e) \<noteq> None" for e
    by (cases e) (simp_all add: is_instance_simps)
  show "is_application_error (ActionE e) \<longleftrightarrow> error_code (ActionE e) \<noteq> None" for e
    by (cases e) (simp_all add: is_instance_simps)
  show "is_application_error (OpsE e) \<longleftrightarrow> error_code (OpsE e) \<noteq> None" for e
    by (cases e) (simp_all add: is_instance_simps)
  show "is_application_error (PyE e) \<longleftrightarrow> error_code (PyE e) \<noteq> None" for e
    by (cases e) (simp_all add: is_instance_simps)
qed

definition isinstance_any :: "exn_class \<Rightarrow> exn_class list \<Rightarrow> bool" where
  "isinstance_any c ds \<longleftrightarrow> list_ex (is_instance c) ds"

subsection \<open>The HTTP error response\<close>

definition error_status_map :: "(exn_class \<times> nat) list" where
  "error_status_map =
     [(CoreE AuthenticationError, 401),
      (CoreE AuthorizationError, 403),
      (CoreE ApprovalNotAllowedError, 403),
      (CoreE CampaignNotFoundError, 404),
      (CoreE WorkflowNotFoundError, 404),
      (AgentE AgentRunNotFoundError, 404),
      (ActionE ActionRequestNotFoundError, 404),
      (ActionE ActionNotFoundError, 404),
      (ActionE MemoryEntryNotFoundError, 404),
      (OpsE JobNotFoundError, 404),
      (OpsE AlertNotFoundError, 404),
      (OpsE EvaluationNotFoundError, 404),
      (OpsE M7ResourceNotFoundError, 404),
      (CoreE CampaignAlreadyExistsError, 409),
      (CoreE WorkflowAlreadyActiveError, 409),
      (AgentE AgentRunAlreadyActiveError, 409),
      (CoreE WorkflowCreationNotAllowedError, 409),
      (CoreE InvalidStateTransitionError, 409),
      (CoreE ApprovalAlreadyDecidedError, 409),
      (CoreE VersionConflictError, 409),
      (ActionE ActionVersionConflictError, 409),
      (ActionE ActionExecutionConflictError, 409),
      (ActionE ActionAlreadyDecidedError, 409),
      (ActionE ActionApprovalRequiredError, 409),
      (ActionE ActionPolicyApprovalRequiredError, 409),
      (ActionE ActionPolicyReevaluationDeniedError, 409),
      (ActionE ActionStateChangedError, 409),
      (ActionE ActionScopeConflictError, 409),
      (OpsE JobConflictError, 409),
      (OpsE EvaluationConflictError, 409),
      (OpsE M7ConflictError, 409),
      (OpsE JobLeaseLostError, 409),
      (OpsE JobPayloadError, 422),
      (OpsE M7ValidationError, 422),
      (OpsE WebhookAuthenticationError, 401),
      (OpsE RateLimitExceededError, 429),
      (ActionE ActionExpiredError, 410),
      (ActionE ActionNotAllowedError, 403),
      (ActionE PolicyDeniedError, 403),
      (CoreE WorkflowLimitError, 409),
      (StoreE DatabaseUnavailableError, 503),
      (CoreE LLMProviderError, 500),
      (CoreE LLMResponseError, 500),
      (CoreE LLMTimeoutError, 500),
      (CoreE WorkflowExecutionError, 500),
      (StoreE PersistenceError, 500),
      (AgentE AgentExecutionError, 500),
      (ActionE ControlledActionExecutionError, 500)]"

record error_response =
  er_status :: nat
  er_code :: string
  er_message :: string

definition application_error_handler :: "exn \<Rightarrow> error_response" where
  "application_error_handler exc =
     (if \<not> is_application_error (exn_cls exc) then
        \<lparr>er_status = 500, er_code = ''INTERNAL_SERVER_ERROR'',
         er_message = ''Internal server error''\<rparr>
      else
        \<lparr>er_status =
           (case find (\<lambda>(cls, _). is_instance (exn_cls exc) cls) error_status_map of
              Some (_, st) \<Rightarrow> st | None \<Rightarrow> 400),
         er_code = the (error_code (exn_cls exc)),
         er_message = exn_msg exc\<rparr>)"

end
