(* ===== verification/Sanitization.thy ===== *)
theory Sanitization
  imports Complex_Main Prelude
begin

text \<open>
  Redaction of secrets from logged and stored text (\<open>app/core/sanitization.py\<close>).

  The three regular expressions are values of \<open>regex\<close>, matched by \<open>rmatch\<close> the way Python's
  backtracking matcher explores them: all ways to match at one position, in its order of
  preference, each with the text of group 1. A character is a code point below 256.
\<close>

subsection \<open>The part of Python's \<open>re\<close> the module uses\<close>

datatype regex =
    Chr "char \<Rightarrow> bool"         \<comment> \<open>one character of a class\<close>
  | Star "char \<Rightarrow> bool"        \<comment> \<open>greedy repetition of a class\<close>
  | Opt "char \<Rightarrow> bool"         \<comment> \<open>greedy optional character\<close>
  | Seq regex regex
  | Alt regex regex
  | Group1 regex
  | Eps

fun star_splits :: "(char \<Rightarrow> bool) \<Rightarrow> string \<Rightarrow> (string \<times> string) list" where
  "star_splits p [] = [([], [])]"
| "star_splits p (c # s) =
     (if p c then map (\<lambda>(u, r). (c # u, r)) (star_splits p s) @ [([], c # s)]
      else [([], c # s)])"

text \<open>All matches at the start of a string, best first: group 1, the match, the rest.\<close>

fun rmatch :: "regex \<Rightarrow> string \<Rightarrow> (string \<times> string \<times> string) list" where
  "rmatch (Chr p) s = (case s of [] \<Rightarrow> [] | c # r \<Rightarrow> if p c then [([], [c], r)] else [])"
| "rmatch (Star p) s = map (\<lambda>(u, r). ([], u, r)) (star_splits p s)"
| "rmatch (Opt p) s =
     (case s of [] \<Rightarrow> [([], [], [])]
      | c # r \<Rightarrow> (if p c then [([], [c], r)] else []) @ [([], [], s)])"
| "rmatch (Seq a b) s =
     concat (map (\<lambda>(g, u, r). map (\<lambda>(g', v, r'). (if g' = [] then g else g', u @ v, r'))
       (rmatch b r)) (rmatch a s))"
| "rmatch (Alt a b) s = rmatch a s @ rmatch b s"
| "rmatch (Group1 a) s = map (\<lambda>(g, u, r). (u, u, r)) (rmatch a s)"
| "rmatch Eps s = [([], [], s)]"

text \<open>
  \<open>pattern.sub(replacement, text)\<close>: leftmost matches, not overlapping. The patterns below
  match no empty text; the length test only makes the recursion visibly well-founded.
\<close>

function re_sub :: "regex \<Rightarrow> (string \<Rightarrow> string) \<Rightarrow> string \<Rightarrow> string" where
  "re_sub re repl [] = []"
| "re_sub re repl (c # s) =
     (case rmatch re (c # s) of
        (g, u, r) # _ \<Rightarrow>
          if length r \<le> length s then repl g @ re_sub re repl r else c # re_sub re repl s
      | [] \<Rightarrow> c # re_sub re repl s)"
  by pat_completeness auto
termination
  by (relation "measure (\<lambda>(re, repl, s). length s)") auto

lemma star_splits_append: "(u, r) \<in> set (star_splits p s) \<Longrightarrow> s = u @ r"
  by (induction s arbitrary: u) (auto split: if_splits)

lemma rmatch_append: "(g, u, r) \<in> set (rmatch re s) \<Longrightarrow> s = u @ r"
proof (induction re arbitrary: g u r s)
  case (Seq a b)
  then show ?case by fastforce
qed (auto split: list.splits if_splits dest: star_splits_append)

text \<open>A character every match of the expression must contain.\<close>

fun needs :: "(char \<Rightarrow> bool) \<Rightarrow> regex \<Rightarrow> bool" where
  "needs q (Chr p) = (\<forall>c. p c \<longrightarrow> q c)"
| "needs q (Star p) = False"
| "needs q (Opt p) = False"
| "needs q (Seq a b) = (needs q a \<or> needs q b)"
| "needs q (Alt a b) = (needs q a \<and> needs q b)"
| "needs q (Group1 a) = needs q a"
| "needs q Eps = False"

lemma rmatch_needs:
  "needs q re \<Longrightarrow> (g, u, r) \<in> set (rmatch re s) \<Longrightarrow> \<exists>c \<in> set u. q c"
proof (induction re arbitrary: g u r s)
  case (Seq a b)
  then show ?case by fastforce
next
  case (Alt a b)
  then show ?case by auto
qed (auto split: list.splits if_splits)

lemma rmatch_none: "needs q re \<Longrightarrow> \<forall>c \<in> set s. \<not> q c \<Longrightarrow> rmatch re s = []"
proof (rule ccontr)
  assume n: "needs q re" and no: "\<forall>c \<in> set s. \<not> q c" and "rmatch re s \<noteq> []"
  then obtain g u r where m: "(g, u, r) \<in> set (rmatch re s)"
    by (cases "rmatch re s") auto
  with n obtain c where "c \<in> set u" "q c" by (blast dest: rmatch_needs)
  with no rmatch_append [OF m] show False by auto
qed

lemma re_sub_none: "needs q re \<Longrightarrow> \<forall>c \<in> set s. \<not> q c \<Longrightarrow> re_sub re repl s = s"
  by (induction s) (auto simp: rmatch_none)

lemma re_sub_marks:
  "m \<in> set (re_sub re repl s) \<or> re_sub re repl s = s" if "\<forall>g. m \<in> set (repl g)"
  using that by (induction re repl s rule: re_sub.induct) (auto split: list.splits)

text \<open>At a position with a match the best one is replaced.\<close>

lemma re_sub_match:
  "rmatch re s = (g, u, r) # ms \<Longrightarrow> length r < length s \<Longrightarrow>
   re_sub re repl s = repl g @ re_sub re repl r"
  by (cases s) auto

lemma star_splits_all:
  "\<forall>c \<in> set u. p c \<Longrightarrow> r = [] \<or> \<not> p (hd r) \<Longrightarrow>
   \<exists>rest. star_splits p (u @ r) = (u, r) # rest"
proof (induction u)
  case Nil
  then show ?case by (cases r) auto
next
  case (Cons c u)
  then obtain rest where "star_splits p (u @ r) = (u, r) # rest" by auto
  with Cons.prems show ?case by auto
qed

declare re_sub.simps [simp del]

lemma re_sub_Nil [simp]: "re_sub re repl [] = []"
  by (simp add: re_sub.simps)

subsection \<open>The patterns\<close>

definition lower_char :: "char \<Rightarrow> char" where
  "lower_char c = (let n = of_char c :: nat in
     if 65 \<le> n \<and> n \<le> 90 then char_of (n + 32) else c)"

definition lower :: "string \<Rightarrow> string" where
  "lower = map lower_char"

text \<open>\<open>\s\<close> on code points below 256.\<close>

definition is_space :: "char \<Rightarrow> bool" where
  "is_space c = (let n = of_char c :: nat in
     (9 \<le> n \<and> n \<le> 13) \<or> (28 \<le> n \<and> n \<le> 32) \<or> n = 133 \<or> n = 160)"

definition is_token_char :: "char \<Rightarrow> bool" where
  "is_token_char c = (let n = of_char c :: nat in
     (48 \<le> n \<and> n \<le> 57) \<or> (65 \<le> n \<and> n \<le> 90) \<or> (97 \<le> n \<and> n \<le> 122) \<or>
     c = CHR ''.'' \<or> c = CHR ''_'' \<or> c = CHR ''-'')"

text \<open>A literal under \<open>re.IGNORECASE\<close> (given in lower case).\<close>

fun lit :: "string \<Rightarrow> regex" where
  "lit [] = Eps"
| "lit (c # s) = Seq (Chr (\<lambda>x. lower_char x = c)) (lit s)"

definition plus :: "(char \<Rightarrow> bool) \<Rightarrow> regex" where
  "plus p = Seq (Chr p) (Star p)"

definition url_pattern :: regex where
  "url_pattern =
     Seq (Group1 (lit ''postgresql+asyncpg://''))
       (Seq (plus (\<lambda>c. c \<noteq> CHR ''@'' \<and> \<not> is_space c)) (Chr (\<lambda>c. c = CHR ''@'')))"

definition keyword_pattern :: regex where
  "keyword_pattern =
     Alt (Seq (lit ''api'') (Seq (Opt (\<lambda>c. c = CHR ''_'' \<or> c = CHR ''-'')) (lit ''key'')))
      (Alt (lit ''authorization'') (Alt (lit ''password'') (Alt (lit ''secret'') (lit ''token''))))"

definition value_pattern :: regex where
  "value_pattern = Seq (Star is_space) (plus (\<lambda>c. \<not> is_space c))"

definition assignment_pattern :: regex where
  "assignment_pattern =
     Seq (Group1 keyword_pattern)
      (Seq (Star is_space)
        (Seq (Chr (\<lambda>c. c = CHR ''='' \<or> c = CHR '':'')) value_pattern))"

definition bearer_pattern :: regex where
  "bearer_pattern = Seq (lit ''bearer'') (Seq (plus is_space) (plus is_token_char))"

definition secret_replacements :: "(regex \<times> (string \<Rightarrow> string)) list" where
  "secret_replacements =
     [(url_pattern, \<lambda>g. g @ ''[REDACTED]@''),
      (assignment_pattern, \<lambda>g. g @ ''=[REDACTED]''),
      (bearer_pattern, \<lambda>g. ''Bearer [REDACTED]'')]"

definition sanitize_text :: "nat \<Rightarrow> string \<Rightarrow> string" where
  "sanitize_text max_characters value =
     fold (\<lambda>(re, repl) safe. re_sub re repl safe) secret_replacements
       (take max_characters value)"

lemma sanitize_text_eq:
  "sanitize_text n v =
     re_sub bearer_pattern (\<lambda>g. ''Bearer [REDACTED]'')
      (re_sub assignment_pattern (\<lambda>g. g @ ''=[REDACTED]'')
        (re_sub url_pattern (\<lambda>g. g @ ''[REDACTED]@'') (take n v)))"
  by (simp add: sanitize_text_def secret_replacements_def)

lemma needs_lit: "\<exists>c \<in> set s. \<forall>x. lower_char x = c \<longrightarrow> q x \<Longrightarrow> needs q (lit s)"
  by (induction s) auto

subsection \<open>JSON\<close>

text \<open>
  Values the callers pass: JSON, and objects of other classes (a UUID, a datetime), which the
  code turns into text with \<open>str\<close>; \<open>JOther\<close> carries that text. A dictionary is the list of its
  entries in insertion order.
\<close>

datatype json =
    JNull
  | JBool bool
  | JInt int
  | JFloat rat
  | JStr string
  | JList "json list"
  | JObj "(string \<times> json) list"
  | JOther string

fun dict_set :: "'k \<Rightarrow> 'v \<Rightarrow> ('k \<times> 'v) list \<Rightarrow> ('k \<times> 'v) list" where
  "dict_set k v [] = [(k, v)]"
| "dict_set k v ((k', v') # d) = (if k = k' then (k, v) # d else (k', v') # dict_set k v d)"

definition dict_of :: "('k \<times> 'v) list \<Rightarrow> ('k \<times> 'v) list" where
  "dict_of es = fold (\<lambda>(k, v) d. dict_set k v d) es []"

definition secret_keys :: "string list" where
  "secret_keys = [''authorization'', ''api_key'', ''password'', ''secret'', ''token'']"

fun sanitize_json :: "nat \<Rightarrow> json \<Rightarrow> json" where
  "sanitize_json n (JObj es) =
     JObj (dict_of (map (\<lambda>(k, v). (sanitize_text 100 k, sanitize_json n v))
       (filter (\<lambda>(k, _). lower k \<notin> set secret_keys) es)))"
| "sanitize_json n (JList xs) = JList (map (sanitize_json n) xs)"
| "sanitize_json n (JStr s) = JStr (sanitize_text n s)"
| "sanitize_json n (JOther s) = JStr (sanitize_text n s)"
| "sanitize_json n JNull = JNull"
| "sanitize_json n (JBool b) = JBool b"
| "sanitize_json n (JInt i) = JInt i"
| "sanitize_json n (JFloat r) = JFloat r"

text \<open>Every key of a value, at any depth.\<close>

fun json_keys :: "json \<Rightarrow> string list" where
  "json_keys (JObj es) = concat (map (\<lambda>(k, v). k # json_keys v) es)"
| "json_keys (JList xs) = concat (map json_keys xs)"
| "json_keys _ = []"

fun is_json_object :: "json \<Rightarrow> bool" where
  "is_json_object (JObj _) = True"
| "is_json_object _ = False"


subsection \<open>What is redacted\<close>

lemma needs_url_at: "needs (\<lambda>c. c = CHR ''@'') url_pattern"
  by (simp add: url_pattern_def)

lemma needs_assignment_sep:
  "needs (\<lambda>c. c = CHR ''='' \<or> c = CHR '':'') assignment_pattern"
  by (simp add: assignment_pattern_def)

lemma needs_bearer_space: "needs is_space bearer_pattern"
  by (simp add: bearer_pattern_def plus_def)

lemma re_sub_url_none: "CHR ''@'' \<notin> set s \<Longrightarrow> re_sub url_pattern repl s = s"
  by (rule re_sub_none [OF needs_url_at]) auto

lemma re_sub_assignment_none:
  "CHR ''='' \<notin> set s \<Longrightarrow> CHR '':'' \<notin> set s \<Longrightarrow> re_sub assignment_pattern repl s = s"
  by (rule re_sub_none [OF needs_assignment_sep]) auto

lemma re_sub_bearer_none: "\<forall>c \<in> set s. \<not> is_space c \<Longrightarrow> re_sub bearer_pattern repl s = s"
  by (rule re_sub_none [OF needs_bearer_space]) auto

text \<open>The redaction mark survives the later substitutions.\<close>

lemma sanitize_text_marks:
  "CHR ''['' \<in> set (sanitize_text n v) \<or> sanitize_text n v = take n v"
proof -
  let ?a = "re_sub url_pattern (\<lambda>g. g @ ''[REDACTED]@'') (take n v)"
  let ?b = "re_sub assignment_pattern (\<lambda>g. g @ ''=[REDACTED]'') ?a"
  have a: "CHR ''['' \<in> set ?a \<or> ?a = take n v" by (rule re_sub_marks) simp
  have b: "CHR ''['' \<in> set ?b \<or> ?b = ?a" by (rule re_sub_marks) simp
  have b': "CHR ''['' \<in> set ?b \<or> ?b = take n v"
  proof (cases "?b = ?a")
    case True
    then show ?thesis using a by simp
  next
    case False
    then show ?thesis using b by blast
  qed
  have c: "CHR ''['' \<in> set (sanitize_text n v) \<or> sanitize_text n v = ?b"
    unfolding sanitize_text_eq by (rule re_sub_marks) simp
  show ?thesis using b' c by (cases "sanitize_text n v = ?b") auto
qed

lemma lower_take_secret:
  assumes "lower (take 100 k) \<in> set secret_keys"
  shows "lower k \<in> set secret_keys"
proof (cases "length k \<le> 100")
  case True
  then show ?thesis using assms by simp
next
  case False
  then have "length (lower (take 100 k)) = 100" by (simp add: lower_def)
  moreover have "\<forall>s \<in> set secret_keys. length s \<noteq> 100" by (simp add: secret_keys_def)
  ultimately show ?thesis using assms by blast
qed

lemma sanitized_key_not_secret:
  assumes "lower k \<notin> set secret_keys"
  shows "lower (sanitize_text 100 k) \<notin> set secret_keys"
proof
  assume secret: "lower (sanitize_text 100 k) \<in> set secret_keys"
  have mark: "lower_char (CHR ''['') = CHR ''[''" by (simp add: lower_char_def)
  have "\<forall>s \<in> set secret_keys. CHR ''['' \<notin> set s" by (simp add: secret_keys_def)
  with secret have "CHR ''['' \<notin> set (lower (sanitize_text 100 k))" by blast
  then have "CHR ''['' \<notin> set (sanitize_text 100 k)"
    using mark by (metis image_eqI image_set lower_def)
  then have "sanitize_text 100 k = take 100 k" using sanitize_text_marks by blast
  with secret have "lower k \<in> set secret_keys" using lower_take_secret by simp
  with assms show False by simp
qed

lemma dict_set_entries: "(a, b) \<in> set (dict_set k v d) \<Longrightarrow> (a, b) \<in> insert (k, v) (set d)"
  by (induction d) (auto split: if_splits)

lemma dict_of_entries: "(a, b) \<in> set (dict_of es) \<Longrightarrow> (a, b) \<in> set es"
proof -
  have "(a, b) \<in> set (fold (\<lambda>(k, v) d. dict_set k v d) es d) \<Longrightarrow> (a, b) \<in> set es \<union> set d" for d
    by (induction es arbitrary: d) (use dict_set_entries in fastforce)+
  then show "(a, b) \<in> set (dict_of es) \<Longrightarrow> (a, b) \<in> set es"
    by (fastforce simp: dict_of_def)
qed

lemma dict_set_distinct:
  "distinct (map fst d) \<Longrightarrow> distinct (map fst (dict_set k v d)) \<and>
     fst ` set (dict_set k v d) = insert k (fst ` set d)"
  by (induction k v d rule: dict_set.induct) auto

lemma dict_of_distinct: "distinct (map fst (dict_of es))"
proof -
  have "distinct (map fst d) \<Longrightarrow> distinct (map fst (fold (\<lambda>(k, v) d. dict_set k v d) es d))" for d
    by (induction es arbitrary: d) (auto simp: dict_set_distinct)
  then show ?thesis by (simp add: dict_of_def)
qed

text \<open>C25. However deeply a payload nests, its sanitized form has no key that spells one of the
  secret names in any letter case: not among the kept keys, and not by a key turning into one
  when its own text is truncated and redacted.\<close>

theorem sanitize_json_no_secret_keys:
  "\<forall>k \<in> set (json_keys (sanitize_json n j)). lower k \<notin> set secret_keys"
proof (induction n j rule: sanitize_json.induct)
  case (1 n es)
  show ?case
  proof
    fix k
    assume "k \<in> set (json_keys (sanitize_json n (JObj es)))"
    then obtain a b where
      ab: "(a, b) \<in> set (map (\<lambda>(k, v). (sanitize_text 100 k, sanitize_json n v))
             (filter (\<lambda>(k, _). lower k \<notin> set secret_keys) es))"
      and k: "k = a \<or> k \<in> set (json_keys b)"
      by (fastforce dest!: dict_of_entries)
    then obtain k0 v0 where "(k0, v0) \<in> set es" and ok: "lower k0 \<notin> set secret_keys"
      and a: "a = sanitize_text 100 k0" and b: "b = sanitize_json n v0"
      by auto
    with "1" have "\<forall>k \<in> set (json_keys b). lower k \<notin> set secret_keys" by fastforce
    with k a ok show "lower k \<notin> set secret_keys" by (auto simp: sanitized_key_not_secret)
  qed
qed auto

theorem sanitize_json_no_secret_keys_witness:
  "json_keys (sanitize_json 9 (JObj [(''note'', JNull), (''Token'', JNull)])) =
     [sanitize_text 100 ''note''] \<and>
   lower (sanitize_text 100 ''note'') \<notin> set secret_keys"
proof -
  have "json_keys (sanitize_json 9 (JObj [(''note'', JNull), (''Token'', JNull)])) =
      [sanitize_text 100 ''note'']"
  proof -
    have "lower ''note'' \<notin> set secret_keys" "lower ''Token'' \<in> set secret_keys" by code_simp+
    then show ?thesis by (simp add: dict_of_def)
  qed
  then show ?thesis
    using bspec [OF sanitize_json_no_secret_keys, of "sanitize_text 100 ''note''" 9
        "JObj [(''note'', JNull), (''Token'', JNull)]"]
    by (simp only: list.set insertI1 simp_thms)
qed

lemma rmatch_group: "(g, u, r) \<in> set (rmatch re s) \<Longrightarrow> set g \<subseteq> set u"
proof (induction re arbitrary: g u r s)
  case (Seq a b)
  then show ?case by (fastforce split: if_splits)
next
  case (Alt a b)
  then have "(g, u, r) \<in> set (rmatch a s) \<or> (g, u, r) \<in> set (rmatch b s)" by simp
  then show ?case using Alt.IH by blast
qed (auto split: list.splits if_splits)

lemma re_sub_all:
  assumes repl: "\<And>g. \<forall>c \<in> set g. Q c \<Longrightarrow> \<forall>c \<in> set (repl g). Q c"
  shows "\<forall>c \<in> set s. Q c \<Longrightarrow> \<forall>c \<in> set (re_sub re repl s). Q c"
proof (induction s rule: length_induct)
  case (1 s)
  show ?case
  proof (cases s)
    case (Cons c s')
    have "length s' < length s" and "\<forall>c \<in> set s'. Q c" using Cons "1.prems" by simp_all
    then have tail: "\<forall>c \<in> set (re_sub re repl s'). Q c" using "1.IH" by blast
    show ?thesis
    proof (cases "rmatch re (c # s')")
      case Nil
      then show ?thesis using Cons tail "1.prems" by (simp add: re_sub.simps)
    next
      case match: (Cons m ms)
      obtain g u r where m: "m = (g, u, r)" by (cases m)
      then have in_m: "(g, u, r) \<in> set (rmatch re s)" using match Cons by simp
      then have split: "s = u @ r" and sub: "set g \<subseteq> set u"
        by (auto dest: rmatch_append rmatch_group)
      then have g: "\<forall>c \<in> set (repl g). Q c" using repl "1.prems" by auto
      have r: "\<forall>c \<in> set (re_sub re repl r). Q c" if "length r \<le> length s'"
      proof -
        have "length r < length s" using that Cons by simp
        moreover have "\<forall>c \<in> set r. Q c" using split "1.prems" by simp
        ultimately show ?thesis using "1.IH" by blast
      qed
      have "re_sub re repl s =
          (if length r \<le> length s' then repl g @ re_sub re repl r else c # re_sub re repl s')"
        using Cons match m by (simp add: re_sub.simps)
      then show ?thesis using g r tail "1.prems" Cons by (cases "length r \<le> length s'") auto
    qed
  qed simp
qed

lemma re_sub_nonempty: "s \<noteq> [] \<Longrightarrow> \<forall>g. repl g \<noteq> [] \<Longrightarrow> re_sub re repl s \<noteq> []"
  by (cases s) (auto simp: re_sub.simps split: list.splits)

lemma re_sub_url_nospace:
  assumes "s \<noteq> []" and "\<forall>c \<in> set s. \<not> is_space c"
  shows "re_sub url_pattern (\<lambda>g. g @ ''[REDACTED]@'') s \<noteq> [] \<and>
    (\<forall>c \<in> set (re_sub url_pattern (\<lambda>g. g @ ''[REDACTED]@'') s). \<not> is_space c)"
proof
  show "re_sub url_pattern (\<lambda>g. g @ ''[REDACTED]@'') s \<noteq> []"
    using assms(1) by (rule re_sub_nonempty) simp
  show "\<forall>c \<in> set (re_sub url_pattern (\<lambda>g. g @ ''[REDACTED]@'') s). \<not> is_space c"
    by (rule re_sub_all [OF _ assms(2)]) (auto simp: is_space_def)
qed

definition secret_keywords :: "string list" where
  "secret_keywords =
     [''api_key'', ''api-key'', ''apikey'', ''authorization'', ''password'', ''secret'', ''token'']"

lemma plus_nospace_match:
  assumes "w \<noteq> []" and "\<forall>c \<in> set w. \<not> is_space c"
  shows "\<exists>ms. rmatch (plus (\<lambda>c. \<not> is_space c)) w = ([], w, []) # ms"
proof -
  obtain c w' where w: "w = c # w'" using assms(1) by (cases w) auto
  then have "\<exists>rest. star_splits (\<lambda>c. \<not> is_space c) (w' @ []) = (w', []) # rest"
    by (intro star_splits_all) (use assms(2) w in auto)
  then show ?thesis using w assms(2) by (auto simp: plus_def)
qed


lemma assignment_rest_match:
  assumes "w \<noteq> []" and "\<forall>c \<in> set w. \<not> is_space c"
  shows "\<exists>ms. rmatch value_pattern w = ([], w, []) # ms"
proof -
  obtain c w' where w: "w = c # w'" using assms(1) by (cases w) auto
  then have "star_splits is_space w = [([], w)]" using assms(2) by simp
  then show ?thesis using plus_nospace_match [OF assms] by (auto simp: value_pattern_def)
qed

lemma keyword_sub_url:
  assumes "kw \<in> set secret_keywords" and "sep \<in> {CHR ''='', CHR '':''}"
  shows "re_sub url_pattern repl (kw @ sep # v) = kw @ sep # re_sub url_pattern repl v"
  using assms
  by (auto simp: secret_keywords_def url_pattern_def lower_char_def re_sub.simps
      split: list.splits)

lemma is_space_sep: "\<not> is_space (CHR ''='')" "\<not> is_space (CHR '':'')"
  by (simp_all add: is_space_def)

lemma keyword_sub_assignment:
  assumes "kw \<in> set secret_keywords" and "sep \<in> {CHR ''='', CHR '':''}"
    and "w \<noteq> []" and "\<forall>c \<in> set w. \<not> is_space c"
  shows "re_sub assignment_pattern repl (kw @ sep # w) = repl kw"
proof -
  obtain ms where rest: "rmatch value_pattern w = ([], w, []) # ms"
    using assignment_rest_match [OF assms(3,4)] by blast
  have "\<exists>ms. rmatch assignment_pattern (kw @ sep # w) = (kw, kw @ sep # w, []) # ms"
    using assms(1,2) rest
    by (auto simp: secret_keywords_def assignment_pattern_def keyword_pattern_def
        lower_char_def is_space_sep)
  then show ?thesis by (auto simp: re_sub_match)
qed


text \<open>A secret written as \<open>keyword=value\<close> or \<open>keyword:value\<close> is replaced whole, whatever
  the value is (it may itself contain a connection URL), so the sanitized text says nothing
  about it but that it was there.\<close>

theorem assignment_value_redacted:
  assumes "kw \<in> set secret_keywords" and "sep \<in> {CHR ''='', CHR '':''}"
    and "v \<noteq> []" and "\<forall>c \<in> set v. \<not> is_space c"
    and "length kw + 1 + length v \<le> n"
  shows "sanitize_text n (kw @ sep # v) = kw @ ''=[REDACTED]''"
proof -
  let ?v = "re_sub url_pattern (\<lambda>g. g @ ''[REDACTED]@'') v"
  have v: "?v \<noteq> []" "\<forall>c \<in> set ?v. \<not> is_space c"
    using re_sub_url_nospace [OF assms(3,4)] by auto
  have "\<forall>c \<in> set (kw @ ''=[REDACTED]''). \<not> is_space c"
    using assms(1) by (auto simp: secret_keywords_def is_space_def)
  then have "re_sub bearer_pattern repl (kw @ ''=[REDACTED]'') = kw @ ''=[REDACTED]''" for repl
    by (rule re_sub_bearer_none)
  then show ?thesis
    using assms(5) keyword_sub_url [OF assms(1,2)] keyword_sub_assignment [OF assms(1,2) v]
    by (simp add: sanitize_text_eq)
qed

theorem assignment_value_redacted_witness:
  "sanitize_text 500 (''password'' @ CHR ''='' # ''hunter2'') = ''password'' @ ''=[REDACTED]''"
  by (rule assignment_value_redacted) (simp_all add: secret_keywords_def is_space_def)

lemma token_char_facts:
  "is_token_char c \<Longrightarrow> \<not> is_space c \<and> c \<noteq> CHR ''@'' \<and> c \<noteq> CHR ''='' \<and> c \<noteq> CHR '':''"
  by (auto simp: is_token_char_def is_space_def Let_def)

lemma authorization_header_match:
  "\<exists>ms. rmatch assignment_pattern (''Authorization: Bearer '' @ t) =
     (''Authorization'', ''Authorization: Bearer'', CHR '' '' # t) # ms"
  by (simp add: assignment_pattern_def keyword_pattern_def value_pattern_def plus_def
      lower_char_def char_of_def bit_Suc_0_iff is_space_def)

text \<open>The text of an \<open>Authorization: Bearer <token>\<close> header keeps its token: the second
  pattern takes the scheme name \<open>Bearer\<close> as the secret value, and the third pattern, which
  was written for bearer tokens, finds no \<open>Bearer\<close> left.\<close>

theorem authorization_header_keeps_token:
  assumes "\<forall>c \<in> set t. is_token_char c" and "22 + length t \<le> n"
  shows "sanitize_text n (''Authorization: Bearer '' @ t) = ''Authorization=[REDACTED] '' @ t"
proof -
  have t: "CHR ''@'' \<notin> set t" "CHR ''='' \<notin> set t" "CHR '':'' \<notin> set t"
    "\<forall>c \<in> set t. \<not> is_space c"
    using assms(1) token_char_facts by blast+
  have url: "re_sub url_pattern repl (''Authorization: Bearer '' @ t) =
      ''Authorization: Bearer '' @ t" for repl
    using t(1) by (intro re_sub_url_none) simp
  obtain ms where "rmatch assignment_pattern (''Authorization: Bearer '' @ t) =
      (''Authorization'', ''Authorization: Bearer'', CHR '' '' # t) # ms"
    using authorization_header_match by blast
  then have assign: "re_sub assignment_pattern (\<lambda>g. g @ ''=[REDACTED]'')
      (''Authorization: Bearer '' @ t) = ''Authorization=[REDACTED] '' @ t"
    using t(2,3) re_sub_assignment_none [of "CHR '' '' # t"] by (simp add: re_sub_match)
  have "re_sub bearer_pattern repl (''Authorization=[REDACTED] '' @ t) =
      ''Authorization=[REDACTED] '' @ re_sub bearer_pattern repl t" for repl
    by (simp add: bearer_pattern_def lower_char_def char_of_def bit_Suc_0_iff re_sub.simps)
  then have bearer: "re_sub bearer_pattern repl (''Authorization=[REDACTED] '' @ t) =
      ''Authorization=[REDACTED] '' @ t" for repl
    using re_sub_bearer_none [OF t(4)] by simp
  show ?thesis
    using assms(2) url assign bearer by (simp add: sanitize_text_eq)
qed

theorem authorization_header_keeps_token_witness:
  "sanitize_text 500 (''Authorization: Bearer '' @ ''abc123'') =
   ''Authorization=[REDACTED] '' @ ''abc123''"
  by (rule authorization_header_keeps_token) (simp_all add: is_token_char_def)

lemma take_prefix: "take (length x) (x @ y) = x"
  by simp

text \<open>The text is cut before it is redacted: a connection URL whose password ends where the
  text is cut keeps its password, for without the at sign the pattern does not match.\<close>

theorem truncated_url_keeps_password:
  assumes "\<forall>c \<in> set pw. is_token_char c" and "n = 25 + length pw"
  shows "sanitize_text n (''postgresql+asyncpg://svc:'' @ pw @ ''@host'') =
    ''postgresql+asyncpg://svc:'' @ pw"
proof -
  have pw: "CHR ''@'' \<notin> set pw" "CHR ''='' \<notin> set pw" "CHR '':'' \<notin> set pw"
    "\<forall>c \<in> set pw. \<not> is_space c"
    using assms(1) token_char_facts by blast+
  have url: "re_sub url_pattern repl (''postgresql+asyncpg://svc:'' @ pw) =
      ''postgresql+asyncpg://svc:'' @ pw" for repl
    using pw(1) by (intro re_sub_url_none) simp
  have "re_sub assignment_pattern repl (''postgresql+asyncpg://svc:'' @ pw) =
      ''postgresql+asyncpg://svc:'' @ re_sub assignment_pattern repl pw" for repl
    by (simp add: assignment_pattern_def keyword_pattern_def lower_char_def re_sub.simps)
  then have assign: "re_sub assignment_pattern repl (''postgresql+asyncpg://svc:'' @ pw) =
      ''postgresql+asyncpg://svc:'' @ pw" for repl
    using re_sub_assignment_none [OF pw(2,3)] by simp
  have bearer: "re_sub bearer_pattern repl (''postgresql+asyncpg://svc:'' @ pw) =
      ''postgresql+asyncpg://svc:'' @ pw" for repl
    using pw(4) by (intro re_sub_bearer_none) (auto simp: is_space_def)
  have len: "n = length (''postgresql+asyncpg://svc:'' @ pw)" using assms(2) by simp
  have cut: "take n (''postgresql+asyncpg://svc:'' @ pw @ ''@host'') =
      ''postgresql+asyncpg://svc:'' @ pw"
    unfolding len append_assoc [symmetric] by (rule take_prefix)
  show ?thesis
    unfolding sanitize_text_eq cut url assign bearer ..
qed

theorem truncated_url_keeps_password_witness:
  "sanitize_text 31 (''postgresql+asyncpg://svc:'' @ ''s3cret'' @ ''@host'') =
   ''postgresql+asyncpg://svc:'' @ ''s3cret''"
  by (rule truncated_url_keeps_password) (simp_all add: is_token_char_def)

text \<open>The result may be longer than the bound, which is the width of the columns it is stored in.\<close>

lemma sanitized_text_exceeds_bound: "length (sanitize_text 7 ''token=a'') = 16"
  by code_simp

end
