(* ===== verification/Py_Values.thy ===== *)
theory Py_Values
  imports Complex_Main Sanitization
begin

text \<open>
  Values of Python's library the components share: the text of a UUID, IEEE double arithmetic
  as rational rounding, and the millisecond durations computed with it.
\<close>

subsection \<open>UUIDs\<close>

text \<open>\<open>str(uuid)\<close>: 32 hexadecimal digits in groups of 8, 4, 4, 4 and 12.\<close>

definition hex_digit :: "nat \<Rightarrow> char" where
  "hex_digit n = ''0123456789abcdef'' ! (n mod 16)"

fun hex_text :: "nat \<Rightarrow> nat \<Rightarrow> string" where
  "hex_text 0 n = []"
| "hex_text (Suc w) n = hex_text w (n div 16) @ [hex_digit n]"

definition uuid_str :: "uuid \<Rightarrow> string" where
  "uuid_str n = (let h = hex_text 32 n in
     take 8 h @ ''-'' @ take 4 (drop 8 h) @ ''-'' @ take 4 (drop 12 h) @ ''-'' @
     take 4 (drop 16 h) @ ''-'' @ drop 20 h)"

lemma length_hex_text [simp]: "length (hex_text w n) = w"
  by (induction w arbitrary: n) simp_all

lemma length_uuid_str [simp]: "length (uuid_str n) = 36"
  by (simp add: uuid_str_def Let_def)

lemma hex_digit_token: "is_token_char (hex_digit n)"
proof -
  have "n mod 16 < 16" by simp
  then have "n mod 16 \<in> set [0..<16]" by simp
  then show ?thesis
    by (auto simp: hex_digit_def is_token_char_def upt_rec)
qed

lemma hex_text_token: "\<forall>c \<in> set (hex_text w n). is_token_char c"
  by (induction w arbitrary: n) (auto simp: hex_digit_token)

lemma uuid_str_token: "\<forall>c \<in> set (uuid_str n). is_token_char c"
proof -
  have "is_token_char (CHR ''-'')" by (simp add: is_token_char_def)
  then show ?thesis
    using hex_text_token [of 32 n] by (auto simp: uuid_str_def Let_def dest!: in_set_takeD in_set_dropD)
qed

text \<open>Reading a UUID back: the value of the hexadecimal digits, dashes skipped.\<close>

definition hex_value :: "char \<Rightarrow> nat" where
  "hex_value c = length (takeWhile (\<lambda>d. d \<noteq> c) ''0123456789abcdef'')"

definition uuid_of_str :: "string \<Rightarrow> uuid" where
  "uuid_of_str s = foldl (\<lambda>n c. 16 * n + hex_value c) 0 (filter (\<lambda>c. c \<noteq> CHR ''-'') s)"

lemma hex_digit_cases:
  assumes "list_all (\<lambda>i. P (''0123456789abcdef'' ! i) i) [0..<16]"
  shows "P (hex_digit n) (n mod 16)"
  using assms by (simp add: hex_digit_def list_all_iff)

lemma hex_value_digit: "hex_value (hex_digit n) = n mod 16"
  by (rule hex_digit_cases [where P = "\<lambda>c i. hex_value c = i"]) code_simp

lemma hex_digit_no_dash: "hex_digit n \<noteq> CHR ''-''"
  by (rule hex_digit_cases [where P = "\<lambda>c i. c \<noteq> CHR ''-''"]) code_simp

lemma hex_text_no_dash: "CHR ''-'' \<notin> set (hex_text w n)"
  by (induction w arbitrary: n) (use hex_digit_no_dash in force)+

lemma hex_text_value: "foldl (\<lambda>n c. 16 * n + hex_value c) 0 (hex_text w n) = n mod 16 ^ w"
  by (induction w arbitrary: n) (simp_all add: hex_value_digit mod_mult2_eq mult.commute add.commute)

lemma uuid_str_digits: "filter (\<lambda>c. c \<noteq> CHR ''-'') (uuid_str n) = hex_text 32 n"
proof -
  have split: "h = take 8 h @ take 4 (drop 8 h) @ take 4 (drop 12 h) @ take 4 (drop 16 h) @ drop 20 h"
    for h :: string
  proof -
    have step: "drop n h = take k (drop n h) @ drop (n + k) h" for n k
      by (metis add.commute append_take_drop_id drop_drop)
    show ?thesis using step [of 0 8] step [of 8 4] step [of 12 4] step [of 16 4] by simp
  qed
  have sub: "filter (\<lambda>c. c \<noteq> CHR ''-'') x = x" if "set x \<subseteq> set (hex_text 32 n)" for x
    using that hex_text_no_dash [of 32 n] by (intro filter_True) auto
  let ?h = "hex_text 32 n"
  have parts: "filter (\<lambda>c. c \<noteq> CHR ''-'') (take 8 ?h) = take 8 ?h"
    "filter (\<lambda>c. c \<noteq> CHR ''-'') (take 4 (drop 8 ?h)) = take 4 (drop 8 ?h)"
    "filter (\<lambda>c. c \<noteq> CHR ''-'') (take 4 (drop 12 ?h)) = take 4 (drop 12 ?h)"
    "filter (\<lambda>c. c \<noteq> CHR ''-'') (take 4 (drop 16 ?h)) = take 4 (drop 16 ?h)"
    "filter (\<lambda>c. c \<noteq> CHR ''-'') (drop 20 ?h) = drop 20 ?h"
    by (intro sub, meson in_set_dropD in_set_takeD subsetI)+
  show ?thesis
    using split [of ?h] parts by (simp add: uuid_str_def Let_def)
qed

lemma uuid_of_str_uuid_str: "n < 16 ^ 32 \<Longrightarrow> uuid_of_str (uuid_str n) = n"
  unfolding uuid_of_str_def uuid_str_digits hex_text_value by simp

lemma uuid_str_inj: "a < 16 ^ 32 \<Longrightarrow> b < 16 ^ 32 \<Longrightarrow> uuid_str a = uuid_str b \<Longrightarrow> a = b"
  using uuid_of_str_uuid_str by metis

lemma sanitize_plain_text:
  assumes "\<forall>c \<in> set s. is_token_char c" and "length s \<le> n"
  shows "sanitize_text n s = s"
proof -
  have s: "CHR ''@'' \<notin> set s" "CHR ''='' \<notin> set s" "CHR '':'' \<notin> set s"
    "\<forall>c \<in> set s. \<not> is_space c"
    using assms(1) token_char_facts by blast+
  then show ?thesis
    using assms(2)
    by (simp add: sanitize_text_eq re_sub_url_none re_sub_assignment_none re_sub_bearer_none)
qed

subsection \<open>Doubles\<close>

text \<open>
  \<open>to_double x\<close> is the IEEE double nearest to \<open>x\<close>, ties to even, for results in the normal
  range (the values here are durations, rates and costs). An operation on floats is the exact
  operation followed by \<open>to_double\<close>.
\<close>

definition round_half_even :: "rat \<Rightarrow> int" where
  "round_half_even x = (let f = \<lfloor>x\<rfloor>; r = x - of_int f in
     if r < 1 / 2 then f else if 1 / 2 < r then f + 1 else if even f then f else f + 1)"

fun bit_count :: "nat \<Rightarrow> nat" where
  "bit_count n = (if n = 0 then 0 else Suc (bit_count (n div 2)))"

definition pow2 :: "int \<Rightarrow> rat" where
  "pow2 k = (if 0 \<le> k then 2 ^ nat k else 1 / 2 ^ nat (- k))"

definition exponent_of :: "rat \<Rightarrow> int" where
  "exponent_of x = (let (p, q) = quotient_of \<bar>x\<bar>;
     e = int (bit_count (nat p)) - int (bit_count (nat q))
     in if \<bar>x\<bar> < pow2 e then e - 1 else e)"

definition to_double :: "rat \<Rightarrow> rat" where
  "to_double x = (if x = 0 then 0 else
     let ulp = pow2 (exponent_of x - 52) in of_int (round_half_even (x / ulp)) * ulp)"

lemma pow2_pos [simp]: "0 < pow2 k"
  by (simp add: pow2_def)

lemma round_half_even_nonneg: "0 \<le> x \<Longrightarrow> 0 \<le> round_half_even x"
  by (auto simp: round_half_even_def Let_def)

lemma round_half_even_nonpos:
  assumes "x \<le> 0"
  shows "round_half_even x \<le> 0"
proof -
  have "\<lfloor>x\<rfloor> \<le> 0" using assms by (simp add: floor_le_iff)
  moreover have "\<lfloor>x\<rfloor> + 1 \<le> 0" if "0 < x - of_int \<lfloor>x\<rfloor>"
  proof -
    have "of_int \<lfloor>x\<rfloor> < (0 :: rat)" using that assms by linarith
    then have "\<lfloor>x\<rfloor> < 0" by (simp only: of_int_less_0_iff)
    then show ?thesis by linarith
  qed
  ultimately show ?thesis by (auto simp: round_half_even_def Let_def)
qed

lemma to_double_nonneg: "0 \<le> x \<Longrightarrow> 0 \<le> to_double x"
proof -
  assume "0 \<le> x"
  then have "0 \<le> x / pow2 (exponent_of x - 52)" by (simp add: less_imp_le)
  then have "0 \<le> round_half_even (x / pow2 (exponent_of x - 52))"
    by (rule round_half_even_nonneg)
  then show ?thesis by (simp add: to_double_def Let_def less_imp_le)
qed

lemma to_double_nonpos: "x \<le> 0 \<Longrightarrow> to_double x \<le> 0"
proof -
  assume "x \<le> 0"
  then have "x / pow2 (exponent_of x - 52) \<le> 0" by (simp add: divide_nonpos_pos)
  then have "round_half_even (x / pow2 (exponent_of x - 52)) \<le> 0"
    by (rule round_half_even_nonpos)
  then show ?thesis by (simp add: to_double_def Let_def mult_nonpos_nonneg less_imp_le)
qed

text \<open>The nearest double is within half a unit of the last of its 53 bits.\<close>

declare bit_count.simps [simp del]

lemma bit_count_bounds: "n < 2 ^ bit_count n \<and> (0 < n \<longrightarrow> 2 ^ bit_count n \<le> 2 * n)"
proof (induction n rule: bit_count.induct)
  case (1 n)
  show ?case
  proof (cases "n = 0")
    case False
    with 1 have "n div 2 < 2 ^ bit_count (n div 2)" "0 < n div 2 \<longrightarrow> 2 ^ bit_count (n div 2) \<le> 2 * (n div 2)"
      by auto
    moreover have "bit_count n = Suc (bit_count (n div 2))" using False by (subst bit_count.simps) simp
    moreover have "bit_count 0 = 0" by (subst bit_count.simps) simp
    ultimately show ?thesis using False by (cases "n div 2 = 0") auto
  qed (subst bit_count.simps, simp)
qed

lemma pow2_diff: "pow2 (int a - int b) = 2 ^ a / 2 ^ b"
proof (cases "b \<le> a")
  case True
  then show ?thesis by (simp add: pow2_def power_diff nat_diff_distrib)
next
  case False
  then have "(2::rat) ^ b = 2 ^ (b - a) * 2 ^ a" by (simp flip: power_add)
  with False show ?thesis by (simp add: pow2_def)
qed

lemma pow2_add: "pow2 (k + int n) = pow2 k * 2 ^ n"
proof -
  obtain a b where k: "k = int a - int b" by (metis int_diff_cases)
  then have "k + int n = int (a + n) - int b" by simp
  then show ?thesis by (simp only: k pow2_diff) (simp add: power_add)
qed

text \<open>The exponent is not above the one of the number.\<close>

lemma exponent_of_le:
  assumes "0 < x"
  shows "pow2 (exponent_of x) \<le> x"
proof -
  obtain p q where pq: "quotient_of x = (p, q)" by (cases "quotient_of x")
  have x: "x = of_int p / of_int q" and q: "0 < q" using quotient_of_div [OF pq] quotient_of_denom_pos [OF pq] by auto
  have p: "0 < p" using assms x q by (simp add: zero_less_divide_iff)
  let ?a = "bit_count (nat p)" and ?b = "bit_count (nat q)"
  have "rat_of_nat (2 ^ ?a) \<le> rat_of_nat (2 * nat p)" "rat_of_nat (nat q) < rat_of_nat (2 ^ ?b)"
    unfolding of_nat_le_iff of_nat_less_iff using bit_count_bounds p by auto
  then have a: "(2::rat) ^ ?a \<le> 2 * of_int p" and b: "(of_int q :: rat) < 2 ^ ?b"
    using p q by (simp_all add: of_nat_nat)
  have "(2::rat) ^ ?a * of_int q \<le> 2 * of_int p * 2 ^ ?b"
    using a b p q by (intro mult_mono) auto
  then have half: "pow2 (int ?a - int ?b) / 2 \<le> x"
    using q by (simp add: pow2_diff x field_simps)
  have "pow2 (int ?a - int ?b) = pow2 (int ?a - int ?b - 1) * 2"
    using pow2_add [of "int ?a - int ?b - 1" 1] by simp
  with half show ?thesis using assms pq by (simp add: exponent_of_def Let_def)
qed

lemma round_half_even_near: "\<bar>of_int (round_half_even x) - x\<bar> \<le> 1 / 2"
proof -
  have f: "of_int \<lfloor>x\<rfloor> \<le> x" "x < of_int \<lfloor>x\<rfloor> + 1" by linarith+
  then show ?thesis unfolding round_half_even_def Let_def by (auto simp: abs_le_iff not_less)
qed

lemma to_double_near: "0 \<le> x \<Longrightarrow> \<bar>to_double x - x\<bar> \<le> x / 2 ^ 53"
proof (cases "x = 0")
  case False
  assume "0 \<le> x"
  then have x: "0 < x" using False by simp
  let ?u = "pow2 (exponent_of x - 52)"
  have "pow2 (exponent_of x) = ?u * 2 ^ 52" using pow2_add [of "exponent_of x - 52" 52] by simp
  with exponent_of_le [OF x] have u: "?u \<le> x / 2 ^ 52" by (simp add: field_simps)
  have "to_double x - x = (of_int (round_half_even (x / ?u)) - x / ?u) * ?u"
    using False pow2_pos [of "exponent_of x - 52"] by (simp add: to_double_def Let_def left_diff_distrib del: pow2_pos)
  then have "\<bar>to_double x - x\<bar> = \<bar>of_int (round_half_even (x / ?u)) - x / ?u\<bar> * ?u"
    by (simp add: abs_mult abs_of_pos)
  also have "\<dots> \<le> 1 / 2 * ?u" by (intro mult_right_mono round_half_even_near) (simp add: less_imp_le)
  finally show ?thesis using u by simp
qed (simp add: to_double_def)

lemma to_double_upper: "0 \<le> x \<Longrightarrow> to_double x \<le> x + x / 9007199254740992"
  using to_double_near [of x] unfolding abs_le_iff by simp

lemma to_double_lower: "0 \<le> x \<Longrightarrow> x - x / 9007199254740992 \<le> to_double x"
  using to_double_near [of x] unfolding abs_le_iff by simp

declare bit_count.simps [simp]

text \<open>\<open>int(x)\<close> on a float truncates towards zero.\<close>

definition py_int :: "rat \<Rightarrow> int" where
  "py_int x = (if 0 \<le> x then \<lfloor>x\<rfloor> else \<lceil>x\<rceil>)"

text \<open>\<open>max(int((end - start).total_seconds() * 1000), 0)\<close>.\<close>

definition duration_ms :: "time \<Rightarrow> time \<Rightarrow> int" where
  "duration_ms from_t to_t =
     max (py_int (to_double (to_double (of_int (to_t - from_t) / 1000000) * 1000))) 0"

lemma duration_ms_nonneg [simp]: "0 \<le> duration_ms a b"
  by (simp add: duration_ms_def)

lemma duration_ms_backwards: "b \<le> a \<Longrightarrow> duration_ms a b = 0"
proof -
  assume "b \<le> a"
  have "to_double (of_int (b - a) / 1000000) \<le> 0"
    using \<open>b \<le> a\<close> by (intro to_double_nonpos) (simp add: divide_nonpos_pos)
  then have "to_double (to_double (of_int (b - a) / 1000000) * 1000) \<le> 0"
    by (intro to_double_nonpos) simp
  then show ?thesis by (auto simp: duration_ms_def py_int_def)
qed

text \<open>Durations of up to 24 days stay below \<open>2 ^ 31\<close> milliseconds; those of 25 days do not.\<close>

lemma duration_ms_short:
  assumes "b \<le> a + 24 * 86400 * 1000000"
  shows "duration_ms a b \<le> 2147483647"
proof (cases "b \<le> a")
  case False
  let ?x = "rat_of_int (b - a) / 1000000"
  have x: "0 \<le> ?x" "?x \<le> 2073600" using assms False by (auto simp: field_simps of_int_le_iff [symmetric])
  then have y: "0 \<le> to_double ?x" "to_double ?x \<le> 2073601"
    using to_double_upper [OF x(1)] to_double_nonneg [OF x(1)] by linarith+
  then have "to_double (to_double ?x * 1000) \<le> 2073601001"
    using to_double_upper [of "to_double ?x * 1000"] by linarith
  then have "\<lfloor>to_double (to_double ?x * 1000)\<rfloor> \<le> 2147483647" by linarith
  moreover have "0 \<le> to_double (to_double ?x * 1000)" using y by (intro to_double_nonneg) simp
  ultimately show ?thesis by (simp add: duration_ms_def py_int_def)
qed (simp add: duration_ms_backwards)

lemma duration_ms_long:
  assumes "a + 25 * 86400 * 1000000 \<le> b"
  shows "2147483647 < duration_ms a b"
proof -
  let ?x = "rat_of_int (b - a) / 1000000"
  have "2160000 * 1000000 \<le> rat_of_int (b - a)" using assms by linarith
  then have x: "2160000 \<le> ?x" by (simp add: field_simps)
  then have "0 \<le> ?x" by linarith
  from to_double_lower [OF this] x have y: "2159999 \<le> to_double ?x" by linarith
  then have "0 \<le> to_double ?x * 1000" by linarith
  from to_double_lower [OF this] y have "2159998000 \<le> to_double (to_double ?x * 1000)" by linarith
  then have "2159998000 \<le> \<lfloor>to_double (to_double ?x * 1000)\<rfloor>" "0 \<le> to_double (to_double ?x * 1000)"
    by (simp_all add: le_floor_iff)
  then show ?thesis by (simp add: duration_ms_def py_int_def)
qed

subsection \<open>Text of numbers\<close>

text \<open>Text the components build: \<open>str\<close> of an integer and of a boolean, and \<open>a or b\<close> on optional values.\<close>

fun nat_text :: "nat \<Rightarrow> string" where
  "nat_text n = (if n < 10 then [char_of (48 + n)] else nat_text (n div 10) @ [char_of (48 + n mod 10)])"

definition int_text :: "int \<Rightarrow> string" where
  "int_text i = (if i < 0 then CHR ''-'' # nat_text (nat (- i)) else nat_text (nat i))"

definition bool_text :: "bool \<Rightarrow> string" where
  "bool_text b = (if b then ''True'' else ''False'')"

declare nat_text.simps [simp del]

lemma nat_text_not_Nil [simp]: "nat_text n \<noteq> []"
  by (subst nat_text.simps) simp

text \<open>Reading the decimal digits back, which makes the text of a natural number unambiguous.\<close>

definition digits_value :: "string \<Rightarrow> nat" where
  "digits_value = foldl (\<lambda>n c. 10 * n + (of_char c - 48)) 0"

lemma digit_value: "d < 10 \<Longrightarrow> (of_char (char_of (48 + d) :: char) :: nat) = 48 + d"
  by simp

lemma digits_value_text: "digits_value (nat_text n) = n"
proof (induction n rule: nat_text.induct)
  case (1 n)
  show ?case
  proof (cases "n < 10")
    case True
    then show ?thesis by (subst nat_text.simps) (simp add: digits_value_def)
  next
    case False
    have "digits_value (nat_text (n div 10)) = n div 10" using 1 False by simp
    then show ?thesis using False
      by (subst nat_text.simps) (simp add: digits_value_def)
  qed
qed

lemma nat_text_inj [simp]: "nat_text a = nat_text b \<longleftrightarrow> a = b"
  using digits_value_text by metis

end
