(* ===== verification/Job_Payloads.thy ===== *)
theory Job_Payloads
  imports Errors Py_Values
begin

text \<open>
  The typed payloads of background jobs (\<open>app/jobs/definitions.py\<close>): one constructor per
  payload model, their JSON form and their validation. The conversion of a single JSON field
  to a UUID, an integer, a string, a role, a boolean, a number or a date (as a count of days) is
  Pydantic's, so it is the parameter \<open>coercions\<close>; which
  fields a model has, that no other may be present, the bounds and the defaults are the
  code's.
\<close>

record coercions =
  co_uuid :: "json \<Rightarrow> uuid option"
  co_int :: "json \<Rightarrow> int option"
  co_str :: "json \<Rightarrow> string option"
  co_role :: "json \<Rightarrow> user_role option"
  co_bool :: "json \<Rightarrow> bool option"
  co_float :: "json \<Rightarrow> rat option"
  co_date :: "json \<Rightarrow> int option"

datatype job_payload =
    WorkflowRunJobPayload (p_workflow_id: uuid)
  | ActionExecutionJobPayload (p_action_request_id: uuid) (p_expected_version: int)
      (p_actor_id: string) (p_actor_role: user_role)
  | MemoryReconciliationJobPayload (p_limit: int)
  | OutboxDispatchJobPayload (p_limit: int)
  | EvaluationRunJobPayload (p_evaluation_run_id: uuid)
  | AlertReconciliationJobPayload (p_limit: int)
  | DataAnalysisJobPayload (p_task_run_id: uuid)
  | DocumentProcessingJobPayload (p_task_run_id: uuid)
  | ImageGenerationJobPayload (p_media_asset_id: uuid)
  | VideoStoryboardJobPayload (p_media_asset_id: uuid)
  | PromptExperimentRunJobPayload (p_experiment_id: uuid)
  | ProviderComparisonRunJobPayload (p_comparison_id: uuid)

text \<open>\<open>model_dump(mode="json")\<close>.\<close>

fun dump_payload :: "job_payload \<Rightarrow> json" where
  "dump_payload (WorkflowRunJobPayload u) = JObj [(''workflow_id'', JStr (uuid_str u))]"
| "dump_payload (ActionExecutionJobPayload u v a r) =
     JObj [(''action_request_id'', JStr (uuid_str u)), (''expected_version'', JInt v),
           (''actor_id'', JStr a), (''actor_role'', JStr (user_role_value r))]"
| "dump_payload (MemoryReconciliationJobPayload n) = JObj [(''limit'', JInt n)]"
| "dump_payload (OutboxDispatchJobPayload n) = JObj [(''limit'', JInt n)]"
| "dump_payload (EvaluationRunJobPayload u) = JObj [(''evaluation_run_id'', JStr (uuid_str u))]"
| "dump_payload (AlertReconciliationJobPayload n) = JObj [(''limit'', JInt n)]"
| "dump_payload (DataAnalysisJobPayload u) = JObj [(''task_run_id'', JStr (uuid_str u))]"
| "dump_payload (DocumentProcessingJobPayload u) = JObj [(''task_run_id'', JStr (uuid_str u))]"
| "dump_payload (ImageGenerationJobPayload u) = JObj [(''media_asset_id'', JStr (uuid_str u))]"
| "dump_payload (VideoStoryboardJobPayload u) = JObj [(''media_asset_id'', JStr (uuid_str u))]"
| "dump_payload (PromptExperimentRunJobPayload u) = JObj [(''experiment_id'', JStr (uuid_str u))]"
| "dump_payload (ProviderComparisonRunJobPayload u) = JObj [(''comparison_id'', JStr (uuid_str u))]"

fun payload_type :: "job_payload \<Rightarrow> job_type" where
  "payload_type (WorkflowRunJobPayload _) = JT_WORKFLOW_RUN"
| "payload_type (ActionExecutionJobPayload _ _ _ _) = JT_ACTION_EXECUTION"
| "payload_type (MemoryReconciliationJobPayload _) = JT_MEMORY_RECONCILIATION"
| "payload_type (OutboxDispatchJobPayload _) = JT_OUTBOX_DISPATCH"
| "payload_type (EvaluationRunJobPayload _) = JT_EVALUATION_RUN"
| "payload_type (AlertReconciliationJobPayload _) = JT_ALERT_RECONCILIATION"
| "payload_type (DataAnalysisJobPayload _) = JT_DATA_ANALYSIS"
| "payload_type (DocumentProcessingJobPayload _) = JT_DOCUMENT_PROCESSING"
| "payload_type (ImageGenerationJobPayload _) = JT_IMAGE_GENERATION"
| "payload_type (VideoStoryboardJobPayload _) = JT_VIDEO_STORYBOARD"
| "payload_type (PromptExperimentRunJobPayload _) = JT_PROMPT_EXPERIMENT_RUN"
| "payload_type (ProviderComparisonRunJobPayload _) = JT_PROVIDER_COMPARISON_RUN"

text \<open>The bounds of the fields.\<close>

fun payload_wf :: "job_payload \<Rightarrow> bool" where
  "payload_wf (ActionExecutionJobPayload u v a r) = (1 \<le> v \<and> 1 \<le> length a \<and> length a \<le> 200)"
| "payload_wf (MemoryReconciliationJobPayload n) = (1 \<le> n \<and> n \<le> 100)"
| "payload_wf (OutboxDispatchJobPayload n) = (1 \<le> n \<and> n \<le> 100)"
| "payload_wf (AlertReconciliationJobPayload n) = (1 \<le> n \<and> n \<le> 500)"
| "payload_wf _ = True"

definition uuid_model ::
  "coercions \<Rightarrow> string \<Rightarrow> (uuid \<Rightarrow> job_payload) \<Rightarrow> (string \<times> json) list \<Rightarrow> job_payload option" where
  "uuid_model co f mk es =
     (if list_all (\<lambda>(k, _). k = f) es
      then map_option mk (Option.bind (map_of es f) (co_uuid co)) else None)"

definition limit_model ::
  "coercions \<Rightarrow> int \<Rightarrow> int \<Rightarrow> (int \<Rightarrow> job_payload) \<Rightarrow> (string \<times> json) list \<Rightarrow> job_payload option" where
  "limit_model co dflt hi mk es =
     (if list_all (\<lambda>(k, _). k = ''limit'') es
      then (case map_of es ''limit'' of
              None \<Rightarrow> Some (mk dflt)
            | Some v \<Rightarrow> (case co_int co v of
                None \<Rightarrow> None
              | Some n \<Rightarrow> if 1 \<le> n \<and> n \<le> hi then Some (mk n) else None))
      else None)"

definition action_model ::
  "coercions \<Rightarrow> (string \<times> json) list \<Rightarrow> job_payload option" where
  "action_model co es =
     (if list_all (\<lambda>(k, _). k \<in> set [''action_request_id'', ''expected_version'', ''actor_id'',
           ''actor_role'']) es
      then (case (Option.bind (map_of es ''action_request_id'') (co_uuid co),
                  Option.bind (map_of es ''expected_version'') (co_int co),
                  Option.bind (map_of es ''actor_id'') (co_str co),
                  Option.bind (map_of es ''actor_role'') (co_role co)) of
              (Some u, Some v, Some a, Some r) \<Rightarrow>
                if 1 \<le> v \<and> 1 \<le> length a \<and> length a \<le> 200
                then Some (ActionExecutionJobPayload u v a r) else None
            | _ \<Rightarrow> None)
      else None)"

fun parse_payload :: "coercions \<Rightarrow> job_type \<Rightarrow> (string \<times> json) list \<Rightarrow> job_payload option" where
  "parse_payload co JT_WORKFLOW_RUN = uuid_model co ''workflow_id'' WorkflowRunJobPayload"
| "parse_payload co JT_ACTION_EXECUTION = action_model co"
| "parse_payload co JT_MEMORY_RECONCILIATION =
     limit_model co 100 100 MemoryReconciliationJobPayload"
| "parse_payload co JT_OUTBOX_DISPATCH = limit_model co 50 100 OutboxDispatchJobPayload"
| "parse_payload co JT_EVALUATION_RUN =
     uuid_model co ''evaluation_run_id'' EvaluationRunJobPayload"
| "parse_payload co JT_ALERT_RECONCILIATION =
     limit_model co 100 500 AlertReconciliationJobPayload"
| "parse_payload co JT_DATA_ANALYSIS = uuid_model co ''task_run_id'' DataAnalysisJobPayload"
| "parse_payload co JT_DOCUMENT_PROCESSING =
     uuid_model co ''task_run_id'' DocumentProcessingJobPayload"
| "parse_payload co JT_IMAGE_GENERATION =
     uuid_model co ''media_asset_id'' ImageGenerationJobPayload"
| "parse_payload co JT_VIDEO_STORYBOARD =
     uuid_model co ''media_asset_id'' VideoStoryboardJobPayload"
| "parse_payload co JT_PROMPT_EXPERIMENT_RUN =
     uuid_model co ''experiment_id'' PromptExperimentRunJobPayload"
| "parse_payload co JT_PROVIDER_COMPARISON_RUN =
     uuid_model co ''comparison_id'' ProviderComparisonRunJobPayload"

definition validate_job_payload :: "coercions \<Rightarrow> job_type \<Rightarrow> json \<Rightarrow> (exn, job_payload) res" where
  "validate_job_payload co t payload =
     (case payload of
        JObj es \<Rightarrow> required (parse_payload co t es)
                     (Exn (OpsE JobPayloadError) ''Job payload is invalid'')
      | _ \<Rightarrow> Inl (Exn (OpsE JobPayloadError) ''Job payload is invalid''))"

lemma parse_payload_type: "parse_payload co t es = Some p \<Longrightarrow> payload_type p = t \<and> payload_wf p"
  by (cases t) (auto simp: uuid_model_def limit_model_def action_model_def
      split: if_splits option.splits)

lemma validate_payload_type:
  "validate_job_payload co t j = Inr p \<Longrightarrow> payload_type p = t \<and> payload_wf p"
  by (auto simp: validate_job_payload_def result_simps split: json.splits dest: parse_payload_type)

text \<open>Pydantic reads back the JSON forms of a UUID, an integer, a string and a role.\<close>

definition coercions_ok :: "coercions \<Rightarrow> bool" where
  "coercions_ok co \<longleftrightarrow>
     (\<forall>u < 16 ^ 32. co_uuid co (JStr (uuid_str u)) = Some u) \<and> (\<forall>n. co_int co (JInt n) = Some n) \<and>
     (\<forall>s. co_str co (JStr s) = Some s) \<and> (\<forall>r. co_role co (JStr (user_role_value r)) = Some r) \<and>
     (\<forall>b. co_bool co (JBool b) = Some b) \<and> (\<forall>x. co_float co (JFloat x) = Some x)"

text \<open>An instance: the readers on exactly these JSON forms.\<close>

definition strict_coercions :: coercions where
  "strict_coercions =
     \<lparr>co_uuid = (\<lambda>j. case j of JStr s \<Rightarrow> Some (uuid_of_str s) | _ \<Rightarrow> None),
      co_int = (\<lambda>j. case j of JInt n \<Rightarrow> Some n | _ \<Rightarrow> None),
      co_str = (\<lambda>j. case j of JStr s \<Rightarrow> Some s | _ \<Rightarrow> None),
      co_role = (\<lambda>j. case j of JStr s \<Rightarrow> parse_user_role s | _ \<Rightarrow> None),
      co_bool = (\<lambda>j. case j of JBool b \<Rightarrow> Some b | _ \<Rightarrow> None),
      co_float = (\<lambda>j. case j of JFloat x \<Rightarrow> Some x | _ \<Rightarrow> None),
      co_date = (\<lambda>j. case j of JInt n \<Rightarrow> Some n | _ \<Rightarrow> None)\<rparr>"

lemma strict_coercions_ok: "coercions_ok strict_coercions"
  by (simp add: coercions_ok_def strict_coercions_def uuid_of_str_uuid_str)

text \<open>The identifiers a payload carries are 128-bit numbers.\<close>

fun payload_uuid :: "job_payload \<Rightarrow> uuid option" where
  "payload_uuid (WorkflowRunJobPayload u) = Some u"
| "payload_uuid (ActionExecutionJobPayload u _ _ _) = Some u"
| "payload_uuid (EvaluationRunJobPayload u) = Some u"
| "payload_uuid (DataAnalysisJobPayload u) = Some u"
| "payload_uuid (DocumentProcessingJobPayload u) = Some u"
| "payload_uuid (ImageGenerationJobPayload u) = Some u"
| "payload_uuid (VideoStoryboardJobPayload u) = Some u"
| "payload_uuid (PromptExperimentRunJobPayload u) = Some u"
| "payload_uuid (ProviderComparisonRunJobPayload u) = Some u"
| "payload_uuid _ = None"

definition uuids_in_range :: "job_payload \<Rightarrow> bool" where
  "uuids_in_range p \<longleftrightarrow> (case payload_uuid p of None \<Rightarrow> True | Some u \<Rightarrow> u < 16 ^ 32)"

lemma sanitize_uuid_text [simp]: "sanitize_text 2000 (uuid_str u) = uuid_str u"
  by (rule sanitize_plain_text [OF uuid_str_token]) simp

lemma sanitize_role_text [simp]: "sanitize_text 2000 (user_role_value r) = user_role_value r"
  by (rule sanitize_plain_text) (cases r; simp add: is_token_char_def)+

lemma payload_keys_kept:
  "k \<in> set [''workflow_id'', ''action_request_id'', ''expected_version'', ''actor_id'',
      ''actor_role'', ''limit'', ''evaluation_run_id'', ''task_run_id'', ''media_asset_id'',
      ''experiment_id'', ''comparison_id''] \<Longrightarrow>
   sanitize_text 100 k = k \<and> lower k \<notin> set secret_keys"
  by (auto intro!: sanitize_plain_text simp: is_token_char_def secret_keys_def lower_def
      lower_char_def)

lemmas payload_key_simps =
  payload_keys_kept [of "''workflow_id''", simplified]
  payload_keys_kept [of "''action_request_id''", simplified]
  payload_keys_kept [of "''expected_version''", simplified]
  payload_keys_kept [of "''actor_id''", simplified]
  payload_keys_kept [of "''actor_role''", simplified]
  payload_keys_kept [of "''limit''", simplified]
  payload_keys_kept [of "''evaluation_run_id''", simplified]
  payload_keys_kept [of "''task_run_id''", simplified]
  payload_keys_kept [of "''media_asset_id''", simplified]
  payload_keys_kept [of "''experiment_id''", simplified]
  payload_keys_kept [of "''comparison_id''", simplified]

text \<open>What \<open>enqueue\<close> stores is what the worker reads: dumping a well-formed payload,
  sanitizing the JSON and validating it against the job's type gives the payload back, for
  every job type (for an action execution: when the actor's name holds no secret pattern).\<close>

theorem payload_roundtrip:
  assumes "coercions_ok co" and "payload_wf p" and "uuids_in_range p"
    and "\<And>u v a r. p = ActionExecutionJobPayload u v a r \<Longrightarrow> sanitize_text 2000 a = a"
  shows "validate_job_payload co (payload_type p) (sanitize_json 2000 (dump_payload p)) = Inr p"
  using assms
  by (cases p) (auto simp: coercions_ok_def uuids_in_range_def validate_job_payload_def
      uuid_model_def limit_model_def action_model_def dict_of_def payload_key_simps)

theorem payload_roundtrip_witness:
  "validate_job_payload strict_coercions JT_ACTION_EXECUTION
     (sanitize_json 2000 (dump_payload (ActionExecutionJobPayload 7 2 ''ada'' UR_MANAGER))) =
   Inr (ActionExecutionJobPayload 7 2 ''ada'' UR_MANAGER)"
proof -
  have "sanitize_text 2000 ''ada'' = ''ada''"
    by (rule sanitize_plain_text) (simp_all add: is_token_char_def)
  then show ?thesis
    using payload_roundtrip [OF strict_coercions_ok,
        of "ActionExecutionJobPayload 7 2 ''ada'' UR_MANAGER"]
    by (simp add: uuids_in_range_def)
qed

subsection \<open>Retries\<close>

text \<open>
  Error classification and back-off of background work (\<open>app/jobs/retry.py\<close>), and the
  contract of a back-off schedule that the job queue and the outbox both rely on.
\<close>

text \<open>
  A raised exception as the worker sees it: the class, and \<open>connection_invalidated\<close>, which
  SQLAlchemy sets on a \<open>DBAPIError\<close>.
\<close>

definition explicit_retryable_errors :: "exn_class list" where
  "explicit_retryable_errors =
     [OpsE RetryableJobError, CoreE LLMTimeoutError, CoreE LLMRateLimitError,
      CoreE LLMProviderUnavailableError, StoreE DatabaseUnavailableError,
      AgentE ToolTimeoutError, OpsE JobLeaseLostError, PyE OperationalError]"

definition classify_job_error :: "exn_class \<Rightarrow> bool \<Rightarrow> job_error_classification" where
  "classify_job_error cls connection_invalidated =
     (if isinstance_any cls explicit_retryable_errors then JE_RETRYABLE
      else if is_instance cls (PyE DBAPIError) \<and> connection_invalidated then JE_RETRYABLE
      else JE_NON_RETRYABLE)"

definition retry_delay_seconds :: "int \<Rightarrow> int \<Rightarrow> int \<Rightarrow> int" where
  "retry_delay_seconds attempt_count base_seconds maximum_seconds =
     (if attempt_count < 1 then base_seconds
      else min (base_seconds * 2 ^ nat (attempt_count - 1)) maximum_seconds)"

text \<open>What the queues rely on: no delay beyond the maximum, none shorter after more attempts,
  and never a delay of zero.\<close>

locale backoff =
  fixes delay :: "int \<Rightarrow> int \<Rightarrow> int \<Rightarrow> int"
  assumes delay_le_maximum: "1 \<le> a \<Longrightarrow> delay a b m \<le> m"
    and delay_mono: "1 \<le> a \<Longrightarrow> a \<le> a' \<Longrightarrow> 0 \<le> b \<Longrightarrow> delay a b m \<le> delay a' b m"
    and delay_pos: "1 \<le> a \<Longrightarrow> 0 < b \<Longrightarrow> 0 < m \<Longrightarrow> 0 < delay a b m"
begin

lemma available_later:
  "1 \<le> a \<Longrightarrow> 0 < b \<Longrightarrow> 0 < m \<Longrightarrow>
   now < now + seconds (delay a b m) \<and> now + seconds (delay a b m) \<le> now + seconds m"
  using delay_pos delay_le_maximum by simp

lemma available_mono:
  "1 \<le> a \<Longrightarrow> a \<le> a' \<Longrightarrow> 0 \<le> b \<Longrightarrow> now \<le> now' \<Longrightarrow>
   now + seconds (delay a b m) \<le> now' + seconds (delay a' b m)"
  using delay_mono [of a a' b m] by (simp add: add_mono)

end

interpretation job_backoff: backoff retry_delay_seconds
proof unfold_locales
  fix a a' b m :: int
  show "1 \<le> a \<Longrightarrow> retry_delay_seconds a b m \<le> m"
    by (simp add: retry_delay_seconds_def)
  show "1 \<le> a \<Longrightarrow> 0 < b \<Longrightarrow> 0 < m \<Longrightarrow> 0 < retry_delay_seconds a b m"
    by (simp add: retry_delay_seconds_def)
  assume "1 \<le> a" and "a \<le> a'" and "0 \<le> b"
  then have "b * 2 ^ nat (a - 1) \<le> b * 2 ^ nat (a' - 1)"
    by (intro mult_left_mono power_increasing) auto
  then show "retry_delay_seconds a b m \<le> retry_delay_seconds a' b m"
    using \<open>1 \<le> a\<close> \<open>a \<le> a'\<close> by (simp add: retry_delay_seconds_def min.coboundedI1 min_le_iff_disj)
qed

end
