(* ===== verification/Job_Queue.thy ===== *)
theory Job_Queue
  imports Job_Payloads
begin

text \<open>
  The PostgreSQL-backed job queue: the rows of \<open>background_jobs\<close>, \<open>job_attempts\<close> and
  \<open>worker_heartbeats\<close> (\<open>app/database/models.py\<close>), the operations of
  \<open>app/repositories/job_repository.py\<close> and the services of \<open>app/jobs/queue.py\<close> over them.

  An operation is one transaction: it maps the tables before it to a result and the tables
  after its commit, and leaves them as they were when it raises. \<open>now\<close> is its reading of the
  clock; \<open>locked\<close> are the rows other transactions hold, which \<open>SKIP LOCKED\<close> passes over.
  The columns the database's clock maintains (\<open>updated_at\<close>) and the surrogate key of an
  attempt are left out.
\<close>

record job_row =
  job_id :: uuid
  job_type :: string
  j_status :: job_status
  payload :: json
  priority :: int
  attempt_count :: int
  max_attempts :: int
  available_at :: time
  locked_by :: "string option"
  locked_at :: "time option"
  lease_expires_at :: "time option"
  heartbeat_at :: "time option"
  cancel_requested :: bool
  idempotency_key :: string
  correlation_id :: string
  trace_id :: "string option"
  j_created_by :: string
  j_created_at :: time
  j_started_at :: "time option"
  j_completed_at :: "time option"
  j_error_code :: "string option"
  j_error_message :: "string option"

record attempt_row =
  a_job_id :: uuid
  attempt_number :: int
  a_worker_id :: string
  a_status :: job_attempt_status
  a_started_at :: time
  a_completed_at :: "time option"
  a_duration_ms :: "int option"
  a_error_code :: "string option"
  a_error_message :: "string option"

record worker_row =
  w_worker_id :: string
  w_status :: worker_status
  w_started_at :: time
  w_last_seen_at :: time
  w_current_job_id :: "uuid option"
  w_processed_count :: int

record job_db =
  jobs :: "job_row list"
  attempts :: "attempt_row list"
  workers :: "worker_row list"

record job_settings =
  job_lease_seconds :: int
  job_max_attempts :: int
  job_retry_base_seconds :: int
  job_retry_max_seconds :: int
  job_batch_size :: int

abbreviation get_job :: "job_db \<Rightarrow> uuid \<Rightarrow> job_row option" where
  "get_job db k \<equiv> t_get job_id (jobs db) k"

definition put_job :: "job_row \<Rightarrow> job_db \<Rightarrow> job_db" where
  "put_job j db = db\<lparr>jobs := t_put job_id (jobs db) j\<rparr>"

definition attempt_key :: "attempt_row \<Rightarrow> uuid \<times> int" where
  "attempt_key a = (a_job_id a, attempt_number a)"

interpretation job_table: row_table job_id "t_get job_id" "t_put job_id"
  by (rule row_table_list)

interpretation attempt_table: row_table attempt_key "t_get attempt_key" "t_put attempt_key"
  by (rule row_table_list)

subsection \<open>Leases\<close>

definition owns_live_lease :: "job_row \<Rightarrow> string \<Rightarrow> time \<Rightarrow> bool" where
  "owns_live_lease j worker_id now \<longleftrightarrow>
     j_status j = JS_RUNNING \<and> locked_by j = Some worker_id \<and>
     (case lease_expires_at j of None \<Rightarrow> False | Some t \<Rightarrow> now < t)"

definition required_live_lease :: "job_db \<Rightarrow> uuid \<Rightarrow> string \<Rightarrow> time \<Rightarrow> (exn, job_row) res" where
  "required_live_lease db k worker_id now =
     (case get_job db k of
        Some j \<Rightarrow> if owns_live_lease j worker_id now then Inr j
          else Inl (Exn (OpsE JobLeaseLostError) ''Job lease is no longer owned by this worker'')
      | None \<Rightarrow>
          Inl (Exn (OpsE JobLeaseLostError) ''Job lease is no longer owned by this worker''))"

definition clear_lease :: "job_row \<Rightarrow> job_row" where
  "clear_lease j =
     j\<lparr>locked_by := None, locked_at := None, lease_expires_at := None, heartbeat_at := None\<rparr>"

interpretation job_lease: leased_table job_id "t_get job_id" "t_put job_id" owns_live_lease clear_lease
  by unfold_locales (auto simp: owns_live_lease_def clear_lease_def split: option.splits)

text \<open>
  \<open>duration_ms\<close> is a 32-bit column (\<open>job_attempts\<close> in \<open>app/database/models.py\<close>): the driver refuses a
  larger value, and the transaction that writes it fails.
\<close>

definition int32_max :: int where
  "int32_max = 2147483647"

definition out_of_int32 :: exn where
  "out_of_int32 = Exn (PyE DBAPIError) ''value out of int32 range''"

definition running_attempt :: "job_row \<Rightarrow> job_db \<Rightarrow> attempt_row option" where
  "running_attempt j db = find (\<lambda>a. a_job_id a = job_id j \<and> attempt_number a = attempt_count j \<and>
     a_status a = JA_RUNNING) (attempts db)"

definition finish_attempt ::
  "job_row \<Rightarrow> string \<Rightarrow> job_attempt_status \<Rightarrow> time \<Rightarrow> string option \<Rightarrow> string option \<Rightarrow>
   job_db \<Rightarrow> (exn, job_db) res" where
  "finish_attempt j worker_id status now e_code e_message db =
     (case running_attempt j db of
        None \<Rightarrow> Inl (Exn (OpsE JobConflictError) ''Active job attempt audit is missing'')
      | Some a \<Rightarrow>
          let d = duration_ms (a_started_at a) now
          in if int32_max < d then Inl out_of_int32
             else Inr (db\<lparr>attempts := t_put attempt_key (attempts db)
               (a\<lparr>a_worker_id := worker_id, a_status := status, a_completed_at := Some now,
                  a_duration_ms := Some d, a_error_code := e_code, a_error_message := e_message\<rparr>)\<rparr>))"

subsection \<open>Repository operations\<close>

definition lease_row :: "string \<Rightarrow> time \<Rightarrow> int \<Rightarrow> job_row \<Rightarrow> job_row" where
  "lease_row worker_id now lease_seconds j =
     j\<lparr>j_status := JS_RUNNING, locked_by := Some worker_id, locked_at := Some now,
       heartbeat_at := Some now, lease_expires_at := Some (now + seconds lease_seconds),
       j_started_at := (case j_started_at j of None \<Rightarrow> Some now | Some t \<Rightarrow> Some t),
       attempt_count := attempt_count j + 1, j_error_code := None, j_error_message := None\<rparr>"

definition new_attempt :: "string \<Rightarrow> time \<Rightarrow> job_row \<Rightarrow> attempt_row" where
  "new_attempt worker_id now j =
     \<lparr>a_job_id = job_id j, attempt_number = attempt_count j, a_worker_id = worker_id,
      a_status = JA_RUNNING, a_started_at = now, a_completed_at = None, a_duration_ms = None,
      a_error_code = None, a_error_message = None\<rparr>"

definition lease_job :: "string \<Rightarrow> time \<Rightarrow> int \<Rightarrow> job_row \<Rightarrow> job_db \<Rightarrow> (exn, job_db) res" where
  "lease_job worker_id now lease_seconds j db =
     (let j' = lease_row worker_id now lease_seconds j
      in Inr ((put_job j' db)\<lparr>attempts := attempts db @ [new_attempt worker_id now j']\<rparr>))"

definition leasable :: "(uuid \<Rightarrow> bool) \<Rightarrow> time \<Rightarrow> job_row \<Rightarrow> bool" where
  "leasable locked now j \<longleftrightarrow>
     j_status j = JS_PENDING \<and> available_at j \<le> now \<and> \<not> cancel_requested j \<and> \<not> locked (job_id j)"

definition lease_order :: "job_row \<Rightarrow> int \<times> time \<times> time \<times> uuid" where
  "lease_order j = (- priority j, available_at j, j_created_at j, job_id j)"

definition lease_selection :: "(uuid \<Rightarrow> bool) \<Rightarrow> time \<Rightarrow> int \<Rightarrow> job_db \<Rightarrow> job_row list" where
  "lease_selection locked now limit db =
     order_limit lease_order limit (filter (leasable locked now) (jobs db))"

definition lease_batch ::
  "(uuid \<Rightarrow> bool) \<Rightarrow> time \<Rightarrow> string \<Rightarrow> int \<Rightarrow> int \<Rightarrow> job_db \<Rightarrow> (exn, job_row list \<times> job_db) res" where
  "lease_batch locked now worker_id limit lease_seconds db =
     (let selected = lease_selection locked now limit db
      in and_then (run_all (lease_job worker_id now lease_seconds) selected db)
           (\<lambda>db'. Inr (map (lease_row worker_id now lease_seconds) selected, db')))"

definition repo_heartbeat :: "time \<Rightarrow> uuid \<Rightarrow> string \<Rightarrow> int \<Rightarrow> job_db \<Rightarrow> bool \<times> job_db" where
  "repo_heartbeat now k worker_id lease_seconds db =
     (case get_job db k of
        None \<Rightarrow> (False, db)
      | Some j \<Rightarrow>
          if owns_live_lease j worker_id now
          then (True, put_job (j\<lparr>heartbeat_at := Some now,
                  lease_expires_at := Some (now + seconds lease_seconds)\<rparr>) db)
          else (False, db))"

definition repo_complete :: "time \<Rightarrow> uuid \<Rightarrow> string \<Rightarrow> job_db \<Rightarrow> (exn, job_row \<times> job_db) res" where
  "repo_complete now k worker_id db =
     and_then (required_live_lease db k worker_id now) (\<lambda>j.
     let j' = clear_lease (j\<lparr>j_status := JS_SUCCEEDED, j_completed_at := Some now\<rparr>)
     in and_then (finish_attempt j' worker_id JA_SUCCEEDED now None None db) (\<lambda>db'.
        Inr (j', put_job j' db')))"

definition repo_fail ::
  "time \<Rightarrow> uuid \<Rightarrow> string \<Rightarrow> string \<Rightarrow> string \<Rightarrow> bool \<Rightarrow> int \<Rightarrow> int \<Rightarrow> job_db \<Rightarrow>
   (exn, job_row \<times> job_db) res" where
  "repo_fail now k worker_id code message retryable retry_base retry_max db =
     and_then (required_live_lease db k worker_id now) (\<lambda>j.
     and_then (finish_attempt j worker_id JA_FAILED now (Some code) (Some message) db) (\<lambda>db'.
     let j1 = j\<lparr>j_error_code := Some code, j_error_message := Some message\<rparr>;
         j2 = (if retryable \<and> attempt_count j < max_attempts j
               then j1\<lparr>j_status := JS_PENDING, available_at :=
                      now + seconds (retry_delay_seconds (attempt_count j) retry_base retry_max)\<rparr>
               else j1\<lparr>j_status := JS_DEAD_LETTER, j_completed_at := Some now\<rparr>);
         j3 = clear_lease j2
     in Inr (j3, put_job j3 db')))"

definition repo_cancel :: "time \<Rightarrow> uuid \<Rightarrow> job_db \<Rightarrow> (exn, job_row \<times> job_db) res" where
  "repo_cancel now k db =
     (case get_job db k of
        None \<Rightarrow> Inl (Exn (OpsE JobConflictError) ''Job is unavailable'')
      | Some j \<Rightarrow>
          if j_status j = JS_PENDING then
            let j' = j\<lparr>j_status := JS_CANCELLED, cancel_requested := True,
                       j_completed_at := Some now\<rparr> in Inr (j', put_job j' db)
          else if j_status j = JS_RUNNING then
            let j' = j\<lparr>cancel_requested := True\<rparr> in Inr (j', put_job j' db)
          else if j_status j \<notin> {JS_CANCELLED, JS_SUCCEEDED} then
            Inl (Exn (OpsE JobConflictError) ''Job cannot be cancelled in its current state'')
          else Inr (j, db))"

definition repo_mark_cancelled ::
  "time \<Rightarrow> uuid \<Rightarrow> string \<Rightarrow> job_db \<Rightarrow> (exn, job_row \<times> job_db) res" where
  "repo_mark_cancelled now k worker_id db =
     and_then (required_live_lease db k worker_id now) (\<lambda>j.
     let j' = clear_lease (j\<lparr>j_status := JS_CANCELLED, cancel_requested := True,
                             j_completed_at := Some now\<rparr>)
     in and_then (finish_attempt j' worker_id JA_CANCELLED now None None db) (\<lambda>db'.
        Inr (j', put_job j' db')))"

definition retried_row :: "time \<Rightarrow> job_row \<Rightarrow> job_row" where
  "retried_row now j =
     (let j1 = j\<lparr>j_status := JS_PENDING, cancel_requested := False, available_at := now,
                 j_completed_at := None, j_error_code := None, j_error_message := None\<rparr>;
          j2 = (if attempt_count j \<ge> max_attempts j
                then j1\<lparr>max_attempts := attempt_count j + 1\<rparr> else j1)
      in clear_lease j2)"

definition repo_retry :: "time \<Rightarrow> uuid \<Rightarrow> job_db \<Rightarrow> (exn, job_row \<times> job_db) res" where
  "repo_retry now k db =
     (case get_job db k of
        None \<Rightarrow> Inl (Exn (OpsE JobConflictError) ''Job is unavailable'')
      | Some j \<Rightarrow>
          if j_status j \<notin> {JS_FAILED, JS_DEAD_LETTER, JS_CANCELLED} then
            Inl (Exn (OpsE JobConflictError) ''Job is not retryable in its current state'')
          else let j' = retried_row now j in Inr (j', put_job j' db))"

definition lease_expired :: "(uuid \<Rightarrow> bool) \<Rightarrow> time \<Rightarrow> job_row \<Rightarrow> bool" where
  "lease_expired locked now j \<longleftrightarrow>
     j_status j = JS_RUNNING \<and> \<not> locked (job_id j) \<and>
     (case lease_expires_at j of None \<Rightarrow> False | Some t \<Rightarrow> t \<le> now)"

definition reclaimed_row :: "time \<Rightarrow> int \<Rightarrow> int \<Rightarrow> job_row \<Rightarrow> job_row" where
  "reclaimed_row now retry_base retry_max j =
     (let j1 = j\<lparr>j_error_code := Some ''JOB_LEASE_EXPIRED'',
                 j_error_message := Some ''Worker lease expired before completion''\<rparr>;
          j2 = (if attempt_count j < max_attempts j
                then j1\<lparr>j_status := JS_PENDING, available_at :=
                       now + seconds (retry_delay_seconds (attempt_count j) retry_base retry_max)\<rparr>
                else j1\<lparr>j_status := JS_DEAD_LETTER, j_completed_at := Some now\<rparr>)
      in clear_lease j2)"

definition reclaim_job :: "time \<Rightarrow> int \<Rightarrow> int \<Rightarrow> job_row \<Rightarrow> job_db \<Rightarrow> (exn, job_db) res" where
  "reclaim_job now retry_base retry_max j db =
     and_then (finish_attempt j (or_str (locked_by j) ''expired-worker'') JA_FAILED now
         (Some ''JOB_LEASE_EXPIRED'') (Some ''Worker lease expired before completion'') db) (\<lambda>db'.
     Inr (put_job (reclaimed_row now retry_base retry_max j) db'))"

definition stale_selection :: "(uuid \<Rightarrow> bool) \<Rightarrow> time \<Rightarrow> int \<Rightarrow> job_db \<Rightarrow> job_row list" where
  "stale_selection locked now limit db =
     order_limit (\<lambda>j. (case lease_expires_at j of Some t \<Rightarrow> t | None \<Rightarrow> 0, job_id j)) limit
       (filter (lease_expired locked now) (jobs db))"

definition repo_reclaim_stale ::
  "(uuid \<Rightarrow> bool) \<Rightarrow> time \<Rightarrow> int \<Rightarrow> int \<Rightarrow> int \<Rightarrow> job_db \<Rightarrow> (exn, job_db) res" where
  "repo_reclaim_stale locked now limit retry_base retry_max db =
     run_all (reclaim_job now retry_base retry_max) (stale_selection locked now limit db) db"

definition repo_cancellation_requested :: "uuid \<Rightarrow> string \<Rightarrow> job_db \<Rightarrow> bool" where
  "repo_cancellation_requested k worker_id db =
     (case find (\<lambda>j. job_id j = k \<and> j_status j = JS_RUNNING \<and> locked_by j = Some worker_id)
          (jobs db) of
        None \<Rightarrow> False | Some j \<Rightarrow> cancel_requested j)"

definition update_worker_heartbeat ::
  "time \<Rightarrow> string \<Rightarrow> worker_status \<Rightarrow> uuid option \<Rightarrow> bool \<Rightarrow> job_db \<Rightarrow> job_db" where
  "update_worker_heartbeat now worker_id status current increment db =
     (case t_get w_worker_id (workers db) worker_id of
        None \<Rightarrow> db\<lparr>workers := workers db @
          [\<lparr>w_worker_id = worker_id, w_status = status, w_started_at = now, w_last_seen_at = now,
            w_current_job_id = current, w_processed_count = (if increment then 1 else 0)\<rparr>]\<rparr>
      | Some w \<Rightarrow> db\<lparr>workers := t_put w_worker_id (workers db)
          (w\<lparr>w_status := status, w_last_seen_at := now, w_current_job_id := current,
             w_processed_count :=
               (if increment then w_processed_count w + 1 else w_processed_count w)\<rparr>)\<rparr>)"

subsection \<open>Queue services\<close>

text \<open>
  \<open>hashlib.sha256(...).hexdigest()\<close> and \<open>json.dumps\<close> with sorted keys are parameters: the code
  uses them only to derive an idempotency key from a payload.
\<close>

record hashing =
  sha256_hex :: "string \<Rightarrow> string"
  json_dumps :: "json \<Rightarrow> string"

definition build_idempotency_key :: "hashing \<Rightarrow> job_type \<Rightarrow> json \<Rightarrow> string" where
  "build_idempotency_key h t p = sha256_hex h (job_type_value t @ ''|'' @ json_dumps h p)"

record enqueue_request =
  e_job_type :: job_type
  e_payload :: json
  e_created_by :: string
  e_priority :: int
  e_max_attempts :: "int option"
  e_available_at :: "time option"
  e_idempotency_key :: "string option"
  e_correlation_id :: "string option"
  e_trace_id :: "string option"

text \<open>
  What a call finds around it: the clock, the operation context's values and the identifiers
  \<open>uuid4\<close> draws for a new row and a new correlation.
\<close>

record call_env =
  env_now :: time
  env_context :: "string \<Rightarrow> string option"
  env_row_id :: uuid
  env_correlation :: uuid

definition trace_or_context :: "string option \<Rightarrow> call_env \<Rightarrow> string option" where
  "trace_or_context t env =
     (case t of Some s \<Rightarrow> if s = [] then env_context env ''trace_id'' else Some s
      | None \<Rightarrow> env_context env ''trace_id'')"

definition correlation_or_new :: "string option \<Rightarrow> call_env \<Rightarrow> string" where
  "correlation_or_new c env =
     or_str c (or_str (env_context env ''correlation_id'') (uuid_str (env_correlation env)))"

definition new_job ::
  "job_settings \<Rightarrow> call_env \<Rightarrow> enqueue_request \<Rightarrow> json \<Rightarrow> string \<Rightarrow> job_row" where
  "new_job st env r safe_payload key =
     \<lparr>job_id = env_row_id env, job_type = job_type_value (e_job_type r), j_status = JS_PENDING,
      payload = safe_payload, priority = clamp 0 100 (e_priority r), attempt_count = 0,
      max_attempts = or_int (e_max_attempts r) (job_max_attempts st),
      available_at = (case e_available_at r of Some t \<Rightarrow> t | None \<Rightarrow> env_now env),
      locked_by = None, locked_at = None, lease_expires_at = None, heartbeat_at = None,
      cancel_requested = False, idempotency_key = key,
      correlation_id = correlation_or_new (e_correlation_id r) env,
      trace_id = trace_or_context (e_trace_id r) env,
      j_created_by = sanitize_text 200 (e_created_by r), j_created_at = env_now env,
      j_started_at = None, j_completed_at = None, j_error_code = None, j_error_message = None\<rparr>"

text \<open>
  The insertion runs in a savepoint. PostgreSQL rejects it when a check constraint fails (only
  \<open>max_attempts > 0\<close> can, the priority being clamped) or when the idempotency key is taken; in
  the second case the row that has the key is the result.
\<close>

definition enqueue ::
  "coercions \<Rightarrow> hashing \<Rightarrow> job_settings \<Rightarrow> call_env \<Rightarrow> enqueue_request \<Rightarrow> job_db \<Rightarrow>
   (exn, job_row \<times> job_db) res" where
  "enqueue co h st env r db =
     and_then (validate_job_payload co (e_job_type r) (e_payload r)) (\<lambda>typed.
     let safe_payload = sanitize_json 2000 (dump_payload typed);
         key = or_str (e_idempotency_key r) (build_idempotency_key h (e_job_type r) safe_payload);
         model = new_job st env r safe_payload key
     in if \<not> is_json_object safe_payload then
          Inl (Exn (StoreE PersistenceError) ''Unable to prepare job payload'')
        else if max_attempts model \<le> 0 then
          Inl (Exn (StoreE PersistenceError) ''Unable to persist background job'')
        else (case find (\<lambda>j. idempotency_key j = key) (jobs db) of
                Some duplicate \<Rightarrow> Inr (duplicate, db)
              | None \<Rightarrow> Inr (model, db\<lparr>jobs := jobs db @ [model]\<rparr>)))"

record leased_job =
  lj_job_id :: uuid
  lj_job_type :: job_type
  lj_payload :: json
  lj_attempt_count :: int
  lj_max_attempts :: int
  lj_correlation_id :: string
  lj_trace_id :: "string option"

definition leased_of :: "job_row \<Rightarrow> leased_job option" where
  "leased_of m =
     map_option (\<lambda>t. \<lparr>lj_job_id = job_id m, lj_job_type = t, lj_payload = payload m,
         lj_attempt_count = attempt_count m, lj_max_attempts = max_attempts m,
         lj_correlation_id = correlation_id m, lj_trace_id = trace_id m\<rparr>)
       (parse_job_type (job_type m))"

definition fail_unknown_type ::
  "job_settings \<Rightarrow> time \<Rightarrow> string \<Rightarrow> job_row \<Rightarrow> job_db \<Rightarrow> (exn, job_db) res" where
  "fail_unknown_type st now worker_id m db =
     (case parse_job_type (job_type m) of
        Some _ \<Rightarrow> Inr db
      | None \<Rightarrow> and_then (repo_fail now (job_id m) worker_id ''UNKNOWN_JOB_TYPE''
            ''Background job type is not supported'' False (job_retry_base_seconds st)
            (job_retry_max_seconds st) db) (\<lambda>(_, db'). Inr db'))"

definition queue_lease ::
  "(uuid \<Rightarrow> bool) \<Rightarrow> job_settings \<Rightarrow> time \<Rightarrow> string \<Rightarrow> int option \<Rightarrow> job_db \<Rightarrow>
   (exn, leased_job list \<times> job_db) res" where
  "queue_lease locked st now worker_id limit db =
     and_then (lease_batch locked now worker_id (clamp 1 100 (or_int limit (job_batch_size st)))
         (job_lease_seconds st) db) (\<lambda>(models, db1).
     and_then (run_all (fail_unknown_type st now worker_id) models db1) (\<lambda>db2.
     Inr (List.map_filter leased_of models, db2)))"

definition queue_fail ::
  "job_settings \<Rightarrow> time \<Rightarrow> uuid \<Rightarrow> string \<Rightarrow> string \<Rightarrow> string \<Rightarrow> bool \<Rightarrow> job_db \<Rightarrow>
   (exn, job_row \<times> job_db) res" where
  "queue_fail st now k worker_id code message retryable db =
     repo_fail now k worker_id (sanitize_text 100 code) (sanitize_text 2000 message) retryable
       (job_retry_base_seconds st) (job_retry_max_seconds st) db"

definition queue_reclaim_stale ::
  "(uuid \<Rightarrow> bool) \<Rightarrow> job_settings \<Rightarrow> time \<Rightarrow> int option \<Rightarrow> job_db \<Rightarrow> (exn, job_db) res" where
  "queue_reclaim_stale locked st now limit db =
     repo_reclaim_stale locked now (clamp 1 100 (or_int limit (job_batch_size st)))
       (job_retry_base_seconds st) (job_retry_max_seconds st) db"

definition queue_get :: "uuid \<Rightarrow> job_db \<Rightarrow> (exn, job_row \<times> attempt_row list) res" where
  "queue_get k db =
     and_then (required (get_job db k) (Exn (OpsE JobNotFoundError) ''Background job not found''))
       (\<lambda>j. Inr (j, filter (\<lambda>a. a_job_id a = k) (attempts db)))"

definition list_jobs ::
  "int \<Rightarrow> int \<Rightarrow> job_status option \<Rightarrow> job_type option \<Rightarrow> job_db \<Rightarrow> job_row list" where
  "list_jobs limit offset status jt db =
     take (nat (clamp 1 100 limit)) (drop (nat (max offset 0))
       (sort_key (\<lambda>j. (- j_created_at j, job_id j))
         (filter (\<lambda>j. (case status of None \<Rightarrow> True | Some s \<Rightarrow> j_status j = s) \<and>
             (case jt of None \<Rightarrow> True | Some t \<Rightarrow> job_type j = job_type_value t)) (jobs db))))"

end
