(* ===== verification/Outbox.thy ===== *)
theory Outbox
  imports Job_Queue
begin

text \<open>
  The transactional outbox: the rows of \<open>outbox_events\<close>, the operations of
  \<open>app/repositories/outbox_repository.py\<close>, the service that adds events
  (\<open>app/outbox/service.py\<close>), the consumers (\<open>app/outbox/consumers.py\<close>) and the dispatcher
  (\<open>app/outbox/dispatcher.py\<close>). Transactions, clock readings and locked rows are as in
  \<open>Job_Queue\<close>.
\<close>

record outbox_row =
  o_id :: uuid
  o_event_type :: outbox_event_type
  o_aggregate_type :: string
  o_aggregate_id :: string
  o_payload :: json
  o_status :: outbox_status
  o_attempt_count :: int
  o_max_attempts :: int
  o_available_at :: time
  o_locked_by :: "string option"
  o_locked_at :: "time option"
  o_lease_expires_at :: "time option"
  o_last_heartbeat_at :: "time option"
  o_lease_version :: int
  o_processed_at :: "time option"
  o_idempotency_key :: string
  o_correlation_id :: string
  o_trace_id :: "string option"
  o_error_code :: "string option"
  o_error_message :: "string option"
  o_created_at :: time

type_synonym outbox = "outbox_row list"

record outbox_settings =
  outbox_lease_seconds :: int
  outbox_max_attempts :: int
  outbox_retry_base_seconds :: int
  outbox_retry_max_seconds :: int

abbreviation get_event :: "outbox \<Rightarrow> uuid \<Rightarrow> outbox_row option" where
  "get_event t k \<equiv> t_get o_id t k"

interpretation outbox_table: row_table o_id "t_get o_id" "t_put o_id"
  by (rule row_table_list)

subsection \<open>Adding events\<close>

definition event_idempotency_key ::
  "hashing \<Rightarrow> outbox_event_type \<Rightarrow> string \<Rightarrow> string \<Rightarrow> json \<Rightarrow> string" where
  "event_idempotency_key h t aggregate_type aggregate_id p =
     sha256_hex h (outbox_event_type_value t @ ''|'' @ aggregate_type @ ''|'' @ aggregate_id @
       ''|'' @ json_dumps h p)"

record event_request =
  er_event_type :: outbox_event_type
  er_aggregate_type :: string
  er_aggregate_id :: string
  er_payload :: json
  er_idempotency_key :: "string option"
  er_correlation_id :: "string option"
  er_trace_id :: "string option"

definition new_event ::
  "outbox_settings \<Rightarrow> call_env \<Rightarrow> event_request \<Rightarrow> json \<Rightarrow> string \<Rightarrow> outbox_row" where
  "new_event st env r safe_payload key =
     \<lparr>o_id = env_row_id env, o_event_type = er_event_type r,
      o_aggregate_type = er_aggregate_type r, o_aggregate_id = er_aggregate_id r,
      o_payload = safe_payload, o_status = OS_PENDING, o_attempt_count = 0,
      o_max_attempts = outbox_max_attempts st, o_available_at = env_now env, o_locked_by = None,
      o_locked_at = None, o_lease_expires_at = None, o_last_heartbeat_at = None,
      o_lease_version = 0, o_processed_at = None, o_idempotency_key = key,
      o_correlation_id = correlation_or_new (er_correlation_id r) env,
      o_trace_id = trace_or_context (er_trace_id r) env, o_error_code = None,
      o_error_message = None, o_created_at = env_now env\<rparr>"

definition event_key :: "hashing \<Rightarrow> event_request \<Rightarrow> json \<Rightarrow> string" where
  "event_key h r safe_payload =
     (let key = or_str (er_idempotency_key r)
          (event_idempotency_key h (er_event_type r) (er_aggregate_type r) (er_aggregate_id r) safe_payload)
      in if 64 < length key then sha256_hex h key else key)"

definition add_event ::
  "hashing \<Rightarrow> outbox_settings \<Rightarrow> call_env \<Rightarrow> event_request \<Rightarrow> outbox \<Rightarrow>
   (exn, outbox_row \<times> outbox) res" where
  "add_event h st env r t =
     (let safe_payload = sanitize_json 2000 (er_payload r);
          key = event_key h r safe_payload;
          model = new_event st env r safe_payload key
      in if \<not> is_json_object safe_payload then
           Inl (Exn (StoreE PersistenceError) ''Unable to prepare outbox payload'')
         else (case find (\<lambda>e. o_idempotency_key e = key) t of
             Some existing \<Rightarrow> Inr (existing, t)
           | None \<Rightarrow> Inr (model, t @ [model])))"

subsection \<open>Repository operations\<close>

definition lease_condition :: "outbox_row \<Rightarrow> string \<times> int \<Rightarrow> time \<Rightarrow> bool" where
  "lease_condition e owner now \<longleftrightarrow>
     o_status e = OS_PROCESSING \<and> o_locked_by e = Some (fst owner) \<and>
     o_lease_version e = snd owner \<and>
     (case o_lease_expires_at e of None \<Rightarrow> False | Some t \<Rightarrow> now < t)"

definition clear_event_lease :: "outbox_row \<Rightarrow> outbox_row" where
  "clear_event_lease e =
     e\<lparr>o_locked_by := None, o_locked_at := None, o_lease_expires_at := None,
       o_last_heartbeat_at := None\<rparr>"

interpretation outbox_lease:
  leased_table o_id "t_get o_id" "t_put o_id" lease_condition clear_event_lease
  by unfold_locales (auto simp: lease_condition_def clear_event_lease_def split: option.splits)

definition classify_lease_failure :: "uuid \<Rightarrow> outbox \<Rightarrow> lease_update_result" where
  "classify_lease_failure k t =
     (case get_event t k of
        None \<Rightarrow> LU_NOT_FOUND
      | Some e \<Rightarrow> if o_status e \<noteq> OS_PROCESSING then LU_INVALID_STATE else LU_LEASE_LOST)"

text \<open>\<open>UPDATE ... WHERE lease_condition RETURNING id\<close>, then the classification of a miss.\<close>

definition guarded_update ::
  "uuid \<Rightarrow> string \<times> int \<Rightarrow> time \<Rightarrow> (outbox_row \<Rightarrow> outbox_row) \<Rightarrow> outbox \<Rightarrow>
   lease_update_result \<times> outbox" where
  "guarded_update k owner now f t =
     (case get_event t k of
        Some e \<Rightarrow> if lease_condition e owner now then (LU_UPDATED, t_put o_id t (f e))
          else (classify_lease_failure k t, t)
      | None \<Rightarrow> (classify_lease_failure k t, t))"

definition processed_row :: "time \<Rightarrow> outbox_row \<Rightarrow> outbox_row" where
  "processed_row now e =
     clear_event_lease (e\<lparr>o_status := OS_PROCESSED, o_processed_at := Some now,
       o_error_code := None, o_error_message := None\<rparr>)"

definition mark_processed ::
  "time \<Rightarrow> uuid \<Rightarrow> string \<times> int \<Rightarrow> outbox \<Rightarrow> lease_update_result \<times> outbox" where
  "mark_processed now k owner = guarded_update k owner now (processed_row now)"

definition failed_event_row ::
  "time \<Rightarrow> int \<Rightarrow> int \<Rightarrow> string \<Rightarrow> string \<Rightarrow> int \<Rightarrow> int \<Rightarrow> outbox_row \<Rightarrow> outbox_row" where
  "failed_event_row now attempts_used maximum code message retry_base retry_max e =
     clear_event_lease (e\<lparr>
       o_status := (if maximum \<le> attempts_used then OS_DEAD_LETTER else OS_FAILED),
       o_available_at := now + seconds (retry_delay_seconds attempts_used retry_base retry_max),
       o_error_code := Some code, o_error_message := Some message\<rparr>)"

definition mark_failed ::
  "time \<Rightarrow> uuid \<Rightarrow> string \<times> int \<Rightarrow> int \<Rightarrow> int \<Rightarrow> string \<Rightarrow> string \<Rightarrow> int \<Rightarrow> int \<Rightarrow> outbox \<Rightarrow>
   lease_update_result \<times> outbox" where
  "mark_failed now k owner attempts_used maximum code message retry_base retry_max =
     guarded_update k owner now
       (failed_event_row now attempts_used maximum code message retry_base retry_max)"

definition renew_lease ::
  "time \<Rightarrow> uuid \<Rightarrow> string \<times> int \<Rightarrow> int \<Rightarrow> outbox \<Rightarrow> lease_update_result \<times> outbox" where
  "renew_lease now k owner lease_seconds =
     guarded_update k owner now (\<lambda>e. e\<lparr>o_last_heartbeat_at := Some now,
       o_lease_expires_at := Some (now + seconds lease_seconds)\<rparr>)"

definition dispatchable :: "(uuid \<Rightarrow> bool) \<Rightarrow> time \<Rightarrow> outbox_row \<Rightarrow> bool" where
  "dispatchable locked now e \<longleftrightarrow>
     o_status e \<in> {OS_PENDING, OS_FAILED} \<and> o_available_at e \<le> now \<and> \<not> locked (o_id e)"

definition leased_event_row :: "string \<Rightarrow> time \<Rightarrow> int \<Rightarrow> outbox_row \<Rightarrow> outbox_row" where
  "leased_event_row worker_id now lease_seconds e =
     e\<lparr>o_status := OS_PROCESSING, o_locked_by := Some worker_id, o_locked_at := Some now,
       o_last_heartbeat_at := Some now, o_lease_expires_at := Some (now + seconds lease_seconds),
       o_lease_version := o_lease_version e + 1, o_attempt_count := o_attempt_count e + 1\<rparr>"

definition event_lease_batch ::
  "(uuid \<Rightarrow> bool) \<Rightarrow> time \<Rightarrow> string \<Rightarrow> int \<Rightarrow> int \<Rightarrow> outbox \<Rightarrow> outbox_row list \<times> outbox" where
  "event_lease_batch locked now worker_id limit lease_seconds t =
     (let selected = order_limit (\<lambda>e. (o_available_at e, o_created_at e)) limit
            (filter (dispatchable locked now) t);
          leased = map (leased_event_row worker_id now lease_seconds) selected
      in (leased, t_put_all o_id t leased))"

definition stale_event_row :: "time \<Rightarrow> outbox_row \<Rightarrow> outbox_row" where
  "stale_event_row now e =
     clear_event_lease (e\<lparr>
       o_status := (if o_max_attempts e \<le> o_attempt_count e then OS_DEAD_LETTER else OS_FAILED),
       o_available_at := now, o_error_code := Some ''OUTBOX_LEASE_EXPIRED'',
       o_error_message := Some ''Outbox consumer lease expired''\<rparr>)"

definition event_reconcile_stale ::
  "(uuid \<Rightarrow> bool) \<Rightarrow> time \<Rightarrow> int \<Rightarrow> outbox \<Rightarrow> outbox_row list \<times> outbox" where
  "event_reconcile_stale locked now limit t =
     (let selected = order_limit (\<lambda>e. (case o_locked_at e of Some u \<Rightarrow> u | None \<Rightarrow> 0, o_id e)) limit
            (filter (\<lambda>e. o_status e = OS_PROCESSING \<and> \<not> locked (o_id e) \<and>
               (case o_lease_expires_at e of None \<Rightarrow> False | Some u \<Rightarrow> u \<le> now)) t);
          events = map (stale_event_row now) selected
      in (events, t_put_all o_id t events))"

subsection \<open>Consumers\<close>

record outbox_event =
  v_id :: uuid
  v_event_type :: outbox_event_type
  v_payload :: json
  v_attempt_count :: int
  v_max_attempts :: int
  v_lease_version :: int
  v_correlation_id :: string
  v_trace_id :: "string option"

definition event_of_row :: "outbox_row \<Rightarrow> outbox_event" where
  "event_of_row e =
     \<lparr>v_id = o_id e, v_event_type = o_event_type e, v_payload = o_payload e,
      v_attempt_count = o_attempt_count e, v_max_attempts = o_max_attempts e,
      v_lease_version = o_lease_version e, v_correlation_id = o_correlation_id e,
      v_trace_id = o_trace_id e\<rparr>"

definition consumer_job_key :: "hashing \<Rightarrow> outbox_event \<Rightarrow> job_type \<Rightarrow> string" where
  "consumer_job_key h e t =
     sha256_hex h (''outbox|'' @ uuid_str (v_id e) @ ''|'' @ job_type_value t)"

definition enqueue_from_event ::
  "coercions \<Rightarrow> hashing \<Rightarrow> job_settings \<Rightarrow> call_env \<Rightarrow> outbox_event \<Rightarrow> job_payload \<Rightarrow> job_db \<Rightarrow>
   (exn, job_db) res" where
  "enqueue_from_event co h st env e p db =
     and_then (enqueue co h st env
       \<lparr>e_job_type = payload_type p, e_payload = dump_payload p, e_created_by = ''outbox-consumer'',
        e_priority = 50, e_max_attempts = None, e_available_at = None,
        e_idempotency_key = Some (consumer_job_key h e (payload_type p)),
        e_correlation_id = Some (v_correlation_id e), e_trace_id = v_trace_id e\<rparr> db)
       (\<lambda>(_, db'). Inr db')"

definition consume_event ::
  "coercions \<Rightarrow> hashing \<Rightarrow> job_settings \<Rightarrow> call_env \<Rightarrow> outbox_event \<Rightarrow> job_db \<Rightarrow> (exn, job_db) res" where
  "consume_event co h st env e db =
     (if v_event_type e = OE_MEMORY_RECONCILIATION_REQUIRED then
        enqueue_from_event co h st env e (MemoryReconciliationJobPayload 100) db
      else if v_event_type e \<in> {OE_WORKFLOW_FAILED, OE_ACTION_FAILED} then
        enqueue_from_event co h st env e (AlertReconciliationJobPayload 100) db
      else if v_event_type e = OE_EVALUATION_REQUESTED then
        (case v_payload e of
           JObj es \<Rightarrow> (case map_of es ''evaluation_run_id'' of
               None \<Rightarrow> Inl (Exn (PyE KeyError) ''evaluation_run_id'')
             | Some v \<Rightarrow> (case co_uuid co v of
                 None \<Rightarrow> Inl (Exn (PyE ValueError) ''evaluation_run_id'')
               | Some u \<Rightarrow> enqueue_from_event co h st env e (EvaluationRunJobPayload u) db))
         | _ \<Rightarrow> Inl (Exn (PyE KeyError) ''evaluation_run_id''))
      else Inr db)"

subsection \<open>The dispatcher\<close>

text \<open>
  A dispatch handles one leased event: the consumer works in an open transaction while a
  heartbeat renews the lease, which it may find lost; then the lease is renewed once more in a
  transaction of its own, and the consumer's writes are committed together with the PROCESSED
  mark, or not at all. \<open>dispatch_env\<close> is what a dispatch meets: the clock at its heartbeats and
  at its three transactions, and whether waiting for the consumer's task ended in a
  cancellation (by the heartbeat that lost the lease, or from outside).
\<close>

record dispatch_env =
  de_heartbeats :: "time list"
  de_renew_at :: time
  de_mark_at :: time
  de_fail_at :: time
  de_cancelled :: bool
  de_call :: call_env

datatype dispatch_outcome = Processed | Failed_Recorded | Lease_Lost lease_update_result | Cancelled_Out

definition failure_code :: "exn \<Rightarrow> string" where
  "failure_code x =
     (case error_code (exn_cls x) of Some c \<Rightarrow> c | None \<Rightarrow> ''OUTBOX_CONSUMER_ERROR'')"

definition failure_message :: "exn \<Rightarrow> string" where
  "failure_message x =
     (if is_application_error (exn_cls x) then sanitize_text 2000 (exn_msg x)
      else ''Outbox consumer failed'')"

definition record_failure ::
  "outbox_settings \<Rightarrow> string \<Rightarrow> time \<Rightarrow> outbox_event \<Rightarrow> exn \<Rightarrow> outbox \<Rightarrow>
   dispatch_outcome \<times> outbox" where
  "record_failure st worker_id now e x t =
     (let (result, t') = mark_failed now (v_id e) (worker_id, v_lease_version e)
            (v_attempt_count e) (v_max_attempts e) (failure_code x) (failure_message x)
            (outbox_retry_base_seconds st) (outbox_retry_max_seconds st) t
      in if result = LU_UPDATED then (Failed_Recorded, t') else (Lease_Lost result, t))"

definition renew_once ::
  "outbox_settings \<Rightarrow> string \<Rightarrow> time \<Rightarrow> outbox_event \<Rightarrow> outbox \<Rightarrow> bool \<times> outbox" where
  "renew_once st worker_id now e t =
     (let (result, t') = renew_lease now (v_id e) (worker_id, v_lease_version e)
            (outbox_lease_seconds st) t
      in if result = LU_UPDATED then (True, t') else (False, t))"

fun heartbeat_loop ::
  "outbox_settings \<Rightarrow> string \<Rightarrow> outbox_event \<Rightarrow> time list \<Rightarrow> outbox \<Rightarrow> bool \<times> outbox" where
  "heartbeat_loop st worker_id e [] t = (False, t)"
| "heartbeat_loop st worker_id e (now # ticks) t =
     (let (renewed, t') = renew_once st worker_id now e t
      in if renewed then heartbeat_loop st worker_id e ticks t' else (True, t'))"

definition dispatch_event ::
  "outbox_settings \<Rightarrow> string \<Rightarrow> (call_env \<Rightarrow> outbox_event \<Rightarrow> 'd \<Rightarrow> (exn, 'd) res) \<Rightarrow> dispatch_env \<Rightarrow>
   outbox_event \<Rightarrow> outbox \<times> 'd \<Rightarrow> dispatch_outcome \<times> outbox \<times> 'd" where
  "dispatch_event st worker_id consumer de e s =
     (let (t0, d) = s;
          (lost, t) = heartbeat_loop st worker_id e (de_heartbeats de) t0 in
      if de_cancelled de then
        (if lost then (Lease_Lost LU_LEASE_LOST, t, d) else (Cancelled_Out, t, d))
      else
        (case consumer (de_call de) e d of
           Inl x \<Rightarrow>
             (if is_instance (exn_cls x) (PyE PyException) then
                (let (out, t') = record_failure st worker_id (de_fail_at de) e x t in (out, t', d))
              else (Cancelled_Out, t, d))
         | Inr d' \<Rightarrow>
             if lost then (Lease_Lost LU_LEASE_LOST, t, d)
             else (let (renewed, t1) = renew_once st worker_id (de_renew_at de) e t in
               if \<not> renewed then (Lease_Lost LU_LEASE_LOST, t1, d)
               else (let (result, t2) = mark_processed (de_mark_at de) (v_id e)
                        (worker_id, v_lease_version e) t1
                 in if result \<noteq> LU_UPDATED then (Lease_Lost result, t1, d)
                    else (Processed, t2, d')))))"

definition lease_one ::
  "(uuid \<Rightarrow> bool) \<Rightarrow> outbox_settings \<Rightarrow> time \<Rightarrow> string \<Rightarrow> outbox \<Rightarrow> outbox_event option \<times> outbox" where
  "lease_one locked st now worker_id t =
     (case event_lease_batch locked now worker_id 1 (outbox_lease_seconds st) t of
        ([], _) \<Rightarrow> (None, t)
      | (m # _, t') \<Rightarrow> (Some (event_of_row m), t'))"

text \<open>
  The loop of \<open>dispatch_once\<close>: iteration \<open>i\<close> leases at \<open>lease_at i\<close> and dispatches under \<open>de i\<close>.
  It stops early when there is nothing to lease or a dispatch was cancelled from outside.
\<close>

fun dispatch_loop ::
  "outbox_settings \<Rightarrow> string \<Rightarrow> (call_env \<Rightarrow> outbox_event \<Rightarrow> 'd \<Rightarrow> (exn, 'd) res) \<Rightarrow>
   (nat \<Rightarrow> uuid \<Rightarrow> bool) \<Rightarrow> (nat \<Rightarrow> time) \<Rightarrow> (nat \<Rightarrow> dispatch_env) \<Rightarrow> nat \<Rightarrow> nat \<Rightarrow>
   outbox \<times> 'd \<Rightarrow> nat \<times> outbox \<times> 'd" where
  "dispatch_loop st w consumer locked lease_at de i 0 s = (i, s)"
| "dispatch_loop st w consumer locked lease_at de i (Suc n) (t, d) =
     (case lease_one (locked i) st (lease_at i) w t of
        (None, t1) \<Rightarrow> (i, t1, d)
      | (Some e, t1) \<Rightarrow>
          (case dispatch_event st w consumer (de i) e (t1, d) of
             (Cancelled_Out, s') \<Rightarrow> (Suc i, s')
           | (_, s') \<Rightarrow> dispatch_loop st w consumer locked lease_at de (Suc i) n s'))"

definition dispatch_once ::
  "outbox_settings \<Rightarrow> string \<Rightarrow> (call_env \<Rightarrow> outbox_event \<Rightarrow> 'd \<Rightarrow> (exn, 'd) res) \<Rightarrow>
   (nat \<Rightarrow> uuid \<Rightarrow> bool) \<Rightarrow> time \<Rightarrow> (nat \<Rightarrow> time) \<Rightarrow> (nat \<Rightarrow> dispatch_env) \<Rightarrow> int \<Rightarrow>
   outbox \<times> 'd \<Rightarrow> nat \<times> outbox \<times> 'd" where
  "dispatch_once st w consumer locked now lease_at de limit s =
     (let t = snd (event_reconcile_stale (locked 0) now (clamp 1 100 limit) (fst s))
      in dispatch_loop st w consumer locked lease_at de 0 (nat (clamp 1 100 limit)) (t, snd s))"

end
