(* ===== verification/Database.thy ===== *)
theory Database
  imports Outbox
begin

text \<open>
  The rows of the campaign domain (\<open>app/database/models.py\<close>), the tables that hold them and
  the sessions that change them. A status column, which the database keeps as text, is the
  enumeration its values come from. Left out are the columns only the database's clock writes
  (\<open>updated_at\<close>), \<open>lock_version\<close>, which nothing writes, and the provenance of an agent run
  (prompt template, configuration hashes, registry, policy and application versions).
\<close>

subsection \<open>Rows\<close>

record campaign_brief =
  cb_campaign_id :: string
  cb_game_name :: string
  cb_genre :: string
  cb_target_audience :: string
  cb_market :: string
  cb_platforms :: "platform list"
  cb_objective :: string
  cb_tone :: string
  cb_launch_date :: int
  cb_promotion :: string
  cb_raw_brief :: "string option"

record campaign_row =
  c_brief :: campaign_brief
  c_created_by :: string
  c_status :: campaign_status
  brief_analysis :: "json option"
  generated_content :: "json option"
  c_quality_review :: "json option"
  c_quality_score :: "int option"
  c_retry_count :: int
  c_version :: int
  c_is_evaluation :: bool
  c_evaluation_run_id :: "uuid option"
  c_evaluation_case_id :: "uuid option"
  c_created_at :: time

definition c_id :: "campaign_row \<Rightarrow> string" where
  "c_id c = cb_campaign_id (c_brief c)"

record workflow_row =
  wf_id :: uuid
  wf_campaign_id :: string
  wf_parent_id :: "uuid option"
  wf_revision_number :: int
  wf_status :: campaign_status
  wf_current_step :: workflow_step
  wf_llm_call_count :: int
  wf_retry_count :: int
  wf_quality_score :: "int option"
  wf_error_code :: "string option"
  wf_error_message :: "string option"
  wf_started_at :: time
  wf_completed_at :: "time option"
  wf_is_evaluation :: bool
  wf_evaluation_run_id :: "uuid option"
  wf_evaluation_case_id :: "uuid option"

record approval_row =
  ap_id :: uuid
  ap_campaign_id :: string
  ap_workflow_id :: uuid
  ap_decision :: approval_decision
  ap_feedback :: "string option"
  ap_actor_id :: string
  ap_actor_role :: user_role
  ap_previous_version :: int
  ap_resulting_version :: int
  ap_decided_at :: time

record agent_run_row =
  r_id :: uuid
  r_workflow_id :: uuid
  r_campaign_id :: string
  r_agent_name :: agent_name
  r_status :: agent_run_status
  r_model :: "string option"
  r_prompt_version :: string
  r_provider :: "string option"
  r_iteration_count :: int
  r_llm_call_count :: int
  r_tool_call_count :: int
  r_started_at :: time
  r_completed_at :: "time option"
  r_error_code :: "string option"
  r_error_message :: "string option"

record tool_call_row =
  tc_id :: uuid
  tc_agent_run_id :: uuid
  tc_tool_name :: string
  tc_status :: tool_call_status
  tc_arguments :: json
  tc_result_summary :: "string option"
  tc_error_code :: "string option"
  tc_error_message :: "string option"
  tc_started_at :: time
  tc_completed_at :: "time option"
  tc_duration_ms :: "int option"

text \<open>The last evaluation of the policy for an action request (its \<open>last_...\<close> columns).\<close>

record policy_columns =
  lp_decision :: policy_decision
  lp_reason_code :: string
  lp_reason :: string
  lp_required_role :: "user_role option"
  lp_campaign_status :: campaign_status
  lp_workflow_status :: campaign_status
  lp_revision_number :: int
  lp_evaluated_at :: time

record action_request_row =
  q_id :: uuid
  q_agent_run_id :: uuid
  q_workflow_id :: uuid
  q_campaign_id :: string
  q_agent_name :: agent_name
  q_action_name :: string
  q_arguments :: json
  q_rationale_summary :: string
  q_policy_decision :: policy_decision
  q_policy_reason_code :: string
  q_policy_reason :: string
  q_required_role :: "user_role option"
  q_last_policy :: policy_columns
  q_status :: action_request_status
  q_requested_at :: time
  q_expires_at :: "time option"
  q_approved_by :: "string option"
  q_approved_role :: "user_role option"
  q_approved_at :: "time option"
  q_rejected_by :: "string option"
  q_rejected_at :: "time option"
  q_rejection_reason :: "string option"
  q_version :: int
  q_idempotency_key :: string

record execution_row =
  x_id :: uuid
  x_action_request_id :: uuid
  x_status :: action_execution_status
  x_attempt_number :: int
  x_idempotency_key :: string
  x_started_at :: "time option"
  x_completed_at :: "time option"
  x_duration_ms :: "int option"
  x_result_summary :: "string option"
  x_error_code :: "string option"
  x_error_message :: "string option"
  x_reserved_campaign_status :: campaign_status
  x_reserved_campaign_version :: int
  x_reserved_workflow_status :: campaign_status
  x_reserved_revision_number :: int
  x_memory_status :: memory_record_status
  x_memory_attempts :: int
  x_memory_error_code :: "string option"
  x_memory_error_message :: "string option"
  x_memory_recorded_at :: "time option"
  x_created_at :: time

record memory_row =
  m_id :: uuid
  m_campaign_id :: string
  m_workflow_id :: "uuid option"
  m_agent_run_id :: "uuid option"
  m_action_request_id :: "uuid option"
  m_action_execution_id :: "uuid option"
  m_type :: memory_type
  m_event_type :: memory_event_type
  m_summary :: string
  m_metadata :: json
  m_importance :: int
  m_created_at :: time
  m_expires_at :: "time option"

record app_db =
  campaigns :: "campaign_row list"
  workflows :: "workflow_row list"
  approvals :: "approval_row list"
  agent_runs :: "agent_run_row list"
  tool_calls :: "tool_call_row list"
  requests :: "action_request_row list"
  executions :: "execution_row list"
  memories :: "memory_row list"
  events :: outbox

definition no_rows :: app_db where
  "no_rows = \<lparr>campaigns = [], workflows = [], approvals = [], agent_runs = [], tool_calls = [],
     requests = [], executions = [], memories = [], events = []\<rparr>"

record app_settings =
  as_outbox :: outbox_settings
  max_llm_calls_per_workflow :: int
  max_content_retries :: int
  memory_max_results :: int
  memory_default_ttl_days :: int
  action_approval_ttl_seconds :: int

text \<open>What the services share: the hash, the compact JSON text and the settings.\<close>

record services =
  sv_hashing :: hashing
  sv_dumps :: "json \<Rightarrow> string"
  sv_settings :: app_settings

definition order_page :: "('r \<Rightarrow> 'k::linorder) \<Rightarrow> int \<Rightarrow> int \<Rightarrow> 'r list \<Rightarrow> 'r list" where
  "order_page key limit offset rows = take (nat limit) (drop (nat offset) (sort_key key rows))"

lemma set_order_page: "set (order_page key limit offset rows) \<subseteq> set rows"
  unfolding order_page_def by (metis set_drop_subset set_sort set_take_subset subset_trans)

lemma length_order_page: "length (order_page key limit offset rows) \<le> nat limit"
  by (simp add: order_page_def)

subsection \<open>Tables\<close>

abbreviation get_campaign :: "app_db \<Rightarrow> string \<Rightarrow> campaign_row option" where
  "get_campaign db k \<equiv> t_get c_id (campaigns db) k"

abbreviation get_workflow_row :: "app_db \<Rightarrow> uuid \<Rightarrow> workflow_row option" where
  "get_workflow_row db k \<equiv> t_get wf_id (workflows db) k"

abbreviation get_agent_run :: "app_db \<Rightarrow> uuid \<Rightarrow> agent_run_row option" where
  "get_agent_run db k \<equiv> t_get r_id (agent_runs db) k"

abbreviation get_request :: "app_db \<Rightarrow> uuid \<Rightarrow> action_request_row option" where
  "get_request db k \<equiv> t_get q_id (requests db) k"

abbreviation get_execution :: "app_db \<Rightarrow> uuid \<Rightarrow> execution_row option" where
  "get_execution db k \<equiv> t_get x_id (executions db) k"

definition put_campaign :: "campaign_row \<Rightarrow> app_db \<Rightarrow> app_db" where
  "put_campaign c db = db\<lparr>campaigns := t_put c_id (campaigns db) c\<rparr>"

definition put_workflow :: "workflow_row \<Rightarrow> app_db \<Rightarrow> app_db" where
  "put_workflow w db = db\<lparr>workflows := t_put wf_id (workflows db) w\<rparr>"

definition put_request :: "action_request_row \<Rightarrow> app_db \<Rightarrow> app_db" where
  "put_request q db = db\<lparr>requests := t_put q_id (requests db) q\<rparr>"

definition put_execution :: "execution_row \<Rightarrow> app_db \<Rightarrow> app_db" where
  "put_execution x db = db\<lparr>executions := t_put x_id (executions db) x\<rparr>"

interpretation campaign_table: row_table c_id "t_get c_id" "t_put c_id" by (rule row_table_list)
interpretation workflow_table: row_table wf_id "t_get wf_id" "t_put wf_id" by (rule row_table_list)
interpretation request_table: row_table q_id "t_get q_id" "t_put q_id" by (rule row_table_list)
interpretation execution_table: row_table x_id "t_get x_id" "t_put x_id" by (rule row_table_list)

lemma put_simps [simp]:
  "campaigns (put_workflow w db) = campaigns db" "workflows (put_campaign c db) = workflows db"
  "approvals (put_workflow w db) = approvals db" "approvals (put_campaign c db) = approvals db"
  "events (put_workflow w db) = events db" "events (put_campaign c db) = events db"
  "memories (put_workflow w db) = memories db" "memories (put_campaign c db) = memories db"
  "requests (put_workflow w db) = requests db" "requests (put_campaign c db) = requests db"
  "executions (put_workflow w db) = executions db" "executions (put_campaign c db) = executions db"
  "agent_runs (put_workflow w db) = agent_runs db" "agent_runs (put_campaign c db) = agent_runs db"
  by (simp_all add: put_workflow_def put_campaign_def)

lemma put_action_simps [simp]:
  "campaigns (put_request q db) = campaigns db" "workflows (put_request q db) = workflows db"
  "executions (put_request q db) = executions db" "events (put_request q db) = events db"
  "memories (put_request q db) = memories db" "agent_runs (put_request q db) = agent_runs db"
  "approvals (put_request q db) = approvals db"
  "campaigns (put_execution x db) = campaigns db" "workflows (put_execution x db) = workflows db"
  "requests (put_execution x db) = requests db" "events (put_execution x db) = events db"
  "memories (put_execution x db) = memories db" "agent_runs (put_execution x db) = agent_runs db"
  "approvals (put_execution x db) = approvals db"
  by (simp_all add: put_request_def put_execution_def)

lemma get_put_campaign:
  "get_campaign db k = Some c0 \<Longrightarrow> c_id c = k \<Longrightarrow> get_campaign (put_campaign c db) k = Some c"
  by (simp add: put_campaign_def campaign_table.get_put_same)

lemma get_put_workflow:
  "get_workflow_row db k = Some w0 \<Longrightarrow> wf_id w = k \<Longrightarrow> get_workflow_row (put_workflow w db) k = Some w"
  by (simp add: put_workflow_def workflow_table.get_put_same)

lemma get_put_request:
  "get_request db k = Some q0 \<Longrightarrow> q_id q = k \<Longrightarrow> get_request (put_request q db) k = Some q"
  by (simp add: put_request_def request_table.get_put_same)

lemma get_put_execution:
  "get_execution db k = Some x0 \<Longrightarrow> x_id x = k \<Longrightarrow> get_execution (put_execution x db) k = Some x"
  by (simp add: put_execution_def execution_table.get_put_same)

subsection \<open>Sessions\<close>

text \<open>
  A call that spans several transactions: its result, and the tables with everything it
  committed, also when it raises. \<open>atomically\<close> is one transaction, whose changes an exception
  rolls back.
\<close>

type_synonym ('s, 'a) session = "'s \<Rightarrow> (exn, 'a) res \<times> 's"

definition atomically :: "('s \<Rightarrow> (exn, 'a \<times> 's) res) \<Rightarrow> ('s, 'a) session" where
  "atomically f s = (case f s of Inl x \<Rightarrow> (Inl x, s) | Inr (a, s') \<Rightarrow> (Inr a, s'))"

definition and_session :: "('s, 'a) session \<Rightarrow> ('a \<Rightarrow> ('s, 'b) session) \<Rightarrow> ('s, 'b) session" where
  "and_session m f s = (case m s of (Inl x, s') \<Rightarrow> (Inl x, s') | (Inr a, s') \<Rightarrow> f a s')"

definition returns :: "'a \<Rightarrow> ('s, 'a) session" where
  "returns a s = (Inr a, s)"

lemma atomically_Inl: "f s = Inl x \<Longrightarrow> atomically f s = (Inl x, s)"
  by (simp add: atomically_def)

lemma atomically_Inr: "f s = Inr (a, s') \<Longrightarrow> atomically f s = (Inr a, s')"
  by (simp add: atomically_def)

lemma atomically_InrD: "atomically f s = (Inr a, s') \<Longrightarrow> f s = Inr (a, s')"
  by (auto simp: atomically_def split: sum.splits)

lemma atomically_InlD: "atomically f s = (Inl x, s') \<Longrightarrow> f s = Inl x \<and> s' = s"
  by (auto simp: atomically_def split: sum.splits)

lemma and_session_Inl: "m s = (Inl x, s') \<Longrightarrow> and_session m f s = (Inl x, s')"
  by (simp add: and_session_def)

lemma and_session_Inr: "m s = (Inr a, s') \<Longrightarrow> and_session m f s = f a s'"
  by (simp add: and_session_def)

lemma and_session_InrE:
  assumes "and_session m f s = (Inr b, s')"
  obtains a s1 where "m s = (Inr a, s1)" "f a s1 = (Inr b, s')"
  using assms by (auto simp: and_session_def split: prod.splits sum.splits)

lemma returns_simp [simp]: "returns a s = (Inr a, s)"
  by (simp add: returns_def)

end
