(* ===== verification/Workflow_State.thy ===== *)
theory Workflow_State
  imports Database
begin

text \<open>
  State machines: a locale for a table of allowed transitions with final states and gates, and
  the table of \<open>app/workflows/workflow_state.py\<close>, which is its first interpretation.
\<close>

subsection \<open>Tables of transitions\<close>

fun path :: "('s \<Rightarrow> 's \<Rightarrow> bool) \<Rightarrow> 's list \<Rightarrow> bool" where
  "path allowed (a # b # p) \<longleftrightarrow> allowed a b \<and> path allowed (b # p)"
| "path allowed p \<longleftrightarrow> True"

lemma path_append: "path allowed (p @ a # q) \<Longrightarrow> path allowed (p @ [a]) \<and> path allowed (a # q)"
proof (induction p)
  case Nil
  then show ?case by simp
next
  case (Cons b p)
  then show ?case by (cases p) auto
qed

lemma path_snoc2: "path allowed (p @ [a, b]) \<Longrightarrow> allowed a b"
  using path_append [of allowed p a "[b]"] by simp

text \<open>
  The contract: nothing leaves a final state, and a gated state is entered only from its gates.
  A client that writes a state only along the table inherits both for every run.
\<close>

locale lifecycle =
  fixes allowed :: "'s \<Rightarrow> 's \<Rightarrow> bool" and final :: "'s \<Rightarrow> bool"
    and gated :: "'s \<Rightarrow> bool" and gate :: "'s \<Rightarrow> bool"
  assumes final_stuck: "final s \<Longrightarrow> \<not> allowed s s'"
    and through_gate: "allowed s s' \<Longrightarrow> gated s' \<Longrightarrow> gate s"
begin

lemma final_only_last: "path allowed (p @ s # q) \<Longrightarrow> final s \<Longrightarrow> q = []"
  using path_append [of allowed p s q] final_stuck by (cases q) auto

lemma gate_before: "path allowed (p @ [s]) \<Longrightarrow> gated s \<Longrightarrow> p \<noteq> [] \<Longrightarrow> gate (last p)"
  using through_gate [of "last p" s] path_snoc2 [of allowed "butlast p" "last p" s]
    append_butlast_last_id [of p]
  by (metis append.assoc append_Cons append_Nil)

end

subsection \<open>The campaign's table\<close>

fun allowed_transitions :: "campaign_status \<Rightarrow> campaign_status list" where
  "allowed_transitions CS_RECEIVED = [CS_VALIDATING, CS_FAILED]"
| "allowed_transitions CS_VALIDATING = [CS_ANALYZING, CS_NEEDS_CLARIFICATION, CS_FAILED]"
| "allowed_transitions CS_ANALYZING = [CS_GENERATING, CS_NEEDS_CLARIFICATION, CS_FAILED]"
| "allowed_transitions CS_GENERATING = [CS_REVIEWING, CS_FAILED]"
| "allowed_transitions CS_REVIEWING =
     [CS_GENERATING, CS_MANUAL_REVIEW_REQUIRED, CS_PENDING_APPROVAL, CS_FAILED]"
| "allowed_transitions CS_MANUAL_REVIEW_REQUIRED =
     [CS_PENDING_APPROVAL, CS_REVISION_REQUIRED, CS_REJECTED]"
| "allowed_transitions CS_PENDING_APPROVAL = [CS_APPROVED, CS_REJECTED, CS_REVISION_REQUIRED]"
| "allowed_transitions CS_REVISION_REQUIRED = [CS_GENERATING, CS_REJECTED]"
| "allowed_transitions CS_NEEDS_CLARIFICATION = [CS_VALIDATING, CS_REJECTED]"
| "allowed_transitions CS_APPROVED = []"
| "allowed_transitions CS_REJECTED = []"
| "allowed_transitions CS_FAILED = []"

definition can_transition :: "campaign_status \<Rightarrow> campaign_status \<Rightarrow> bool" where
  "can_transition current next_status \<longleftrightarrow> next_status \<in> set (allowed_transitions current)"

definition ensure_valid_transition :: "campaign_status \<Rightarrow> campaign_status \<Rightarrow> (exn, unit) res" where
  "ensure_valid_transition current next_status =
     require (can_transition current next_status) (Exn (CoreE InvalidStateTransitionError)
       (''Cannot transition from '' @ campaign_status_value current @ '' to '' @
        campaign_status_value next_status @ ''.''))"

definition final_status :: "campaign_status \<Rightarrow> bool" where
  "final_status s \<longleftrightarrow> s \<in> {CS_APPROVED, CS_REJECTED, CS_FAILED}"

interpretation approval_gate: lifecycle can_transition final_status "\<lambda>s. s = CS_APPROVED"
  "\<lambda>s. s = CS_PENDING_APPROVAL"
proof
  fix s s'
  show "final_status s \<Longrightarrow> \<not> can_transition s s'"
    by (auto simp: can_transition_def final_status_def)
  show "can_transition s s' \<Longrightarrow> s' = CS_APPROVED \<Longrightarrow> s = CS_PENDING_APPROVAL"
    by (cases s) (auto simp: can_transition_def)
qed

interpretation review_gate: lifecycle can_transition final_status "\<lambda>s. s = CS_PENDING_APPROVAL"
  "\<lambda>s. s \<in> {CS_REVIEWING, CS_MANUAL_REVIEW_REQUIRED}"
proof
  fix s s'
  show "final_status s \<Longrightarrow> \<not> can_transition s s'" by (rule approval_gate.final_stuck)
  show "can_transition s s' \<Longrightarrow> s' = CS_PENDING_APPROVAL \<Longrightarrow> s \<in> {CS_REVIEWING, CS_MANUAL_REVIEW_REQUIRED}"
    by (cases s) (auto simp: can_transition_def)
qed

lemma ensure_valid_transition_Inr [simp]:
  "ensure_valid_transition a b = Inr u \<longleftrightarrow> can_transition a b"
  by (simp add: ensure_valid_transition_def require_def)

lemma ensure_valid_transition_Inl:
  "\<not> can_transition a b \<Longrightarrow> \<exists>m. ensure_valid_transition a b = Inl (Exn (CoreE InvalidStateTransitionError) m)"
  by (simp add: ensure_valid_transition_def require_def)

subsection \<open>Properties\<close>

text \<open>Whatever the status writes of a campaign's life are, as long as each is a valid
  transition: a campaign becomes APPROVED only directly out of PENDING_APPROVAL, gets there only
  out of a review, automatic or manual, and stays in a final status for good.\<close>

theorem approval_needs_review:
  assumes "path can_transition (p @ [s])" and "p \<noteq> []"
  shows "(s = CS_APPROVED \<longrightarrow> last p = CS_PENDING_APPROVAL) \<and>
    (s = CS_PENDING_APPROVAL \<longrightarrow> last p \<in> {CS_REVIEWING, CS_MANUAL_REVIEW_REQUIRED}) \<and>
    (\<forall>s' \<in> set p. \<not> final_status s')"
proof -
  have "\<not> final_status s'" if mem: "s' \<in> set p" for s'
  proof
    assume "final_status s'"
    obtain q r where "p = q @ s' # r" using split_list [OF mem] by blast
    then have "path can_transition (q @ s' # (r @ [s]))" using assms(1) by simp
    then have "r @ [s] = []" using \<open>final_status s'\<close> by (rule approval_gate.final_only_last)
    then show False by simp
  qed
  then show ?thesis
    using approval_gate.gate_before [OF assms(1) _ assms(2)] review_gate.gate_before [OF assms(1) _ assms(2)]
    by blast
qed

theorem approval_needs_review_witness:
  "last [CS_RECEIVED, CS_VALIDATING, CS_ANALYZING, CS_GENERATING, CS_REVIEWING, CS_PENDING_APPROVAL] =
     CS_PENDING_APPROVAL"
proof -
  have "path can_transition ([CS_RECEIVED, CS_VALIDATING, CS_ANALYZING, CS_GENERATING, CS_REVIEWING,
      CS_PENDING_APPROVAL] @ [CS_APPROVED])" by (simp add: can_transition_def)
  from approval_needs_review [OF this] show ?thesis by simp
qed

end
