(* ===== verification/Campaign_Service.thy ===== *)
theory Campaign_Service
  imports Workflow_State
begin

text \<open>
  Campaigns: \<open>app/service/campaign_service.py\<close> over \<open>app/repositories/campaign_repository.py\<close>.
  Payloads are validated before they arrive (\<open>app/schemas/campaign.py\<close>), so they are records
  of their fields.
\<close>

definition new_campaign ::
  "time \<Rightarrow> campaign_brief \<Rightarrow> string \<Rightarrow> uuid option \<Rightarrow> uuid option \<Rightarrow> campaign_row" where
  "new_campaign now brief created_by evaluation_run_id evaluation_case_id =
     \<lparr>c_brief = brief, c_created_by = created_by, c_status = CS_RECEIVED, brief_analysis = None,
      generated_content = None, c_quality_review = None, c_quality_score = None,
      c_retry_count = 0, c_version = 1, c_is_evaluation = (evaluation_run_id \<noteq> None),
      c_evaluation_run_id = evaluation_run_id, c_evaluation_case_id = evaluation_case_id,
      c_created_at = now\<rparr>"

definition create_campaign ::
  "time \<Rightarrow> campaign_brief \<Rightarrow> string \<Rightarrow> uuid option \<Rightarrow> uuid option \<Rightarrow> app_db \<Rightarrow> (exn, campaign_row \<times> app_db) res" where
  "create_campaign now brief created_by run_id case_id db =
     (if get_campaign db (cb_campaign_id brief) \<noteq> None then
        Inl (Exn (CoreE CampaignAlreadyExistsError) ''Campaign already exists'')
      else let model = new_campaign now brief created_by run_id case_id
        in Inr (model, db\<lparr>campaigns := campaigns db @ [model]\<rparr>))"

definition get_campaign_record :: "string \<Rightarrow> app_db \<Rightarrow> (exn, campaign_row) res" where
  "get_campaign_record k db =
     required (get_campaign db k) (Exn (CoreE CampaignNotFoundError) ''Campaign not found'')"

definition reviewable :: "campaign_status \<Rightarrow> bool" where
  "reviewable s \<longleftrightarrow> s \<in> {CS_REVIEWING, CS_MANUAL_REVIEW_REQUIRED, CS_PENDING_APPROVAL}"

definition list_campaigns ::
  "int \<Rightarrow> int \<Rightarrow> campaign_status option \<Rightarrow> string option \<Rightarrow> bool \<Rightarrow> app_db \<Rightarrow> campaign_row list" where
  "list_campaigns limit offset status owner_id reviewable_only db =
     order_page (\<lambda>c. - c_created_at c) (clamp 1 100 limit) (max offset 0)
       (filter (\<lambda>c. \<not> c_is_evaluation c \<and> (status = None \<or> status = Some (c_status c)) \<and>
          (owner_id = None \<or> owner_id = Some (c_created_by c)) \<and>
          (reviewable_only \<longrightarrow> reviewable (c_status c))) (campaigns db))"

definition update_campaign :: "string \<Rightarrow> campaign_brief \<Rightarrow> app_db \<Rightarrow> (exn, campaign_row \<times> app_db) res" where
  "update_campaign k brief db =
     and_then (require (k = cb_campaign_id brief)
       (Exn (CoreE CampaignValidationError) ''Campaign ID cannot be changed'')) (\<lambda>_.
     and_then (get_campaign_record k db) (\<lambda>c.
     let c' = c\<lparr>c_brief := brief, c_version := c_version c + 1\<rparr> in Inr (c', put_campaign c' db)))"

record metadata_update =
  mu_tone :: "string option"
  mu_target_audience :: "string option"
  mu_promotion :: "string option"

definition update_brief :: "metadata_update \<Rightarrow> campaign_brief \<Rightarrow> campaign_brief" where
  "update_brief u b =
     b\<lparr>cb_tone := (case mu_tone u of None \<Rightarrow> cb_tone b | Some s \<Rightarrow> s),
       cb_target_audience := (case mu_target_audience u of None \<Rightarrow> cb_target_audience b | Some s \<Rightarrow> s),
       cb_promotion := (case mu_promotion u of None \<Rightarrow> cb_promotion b | Some s \<Rightarrow> s)\<rparr>"

definition metadata_row :: "metadata_update \<Rightarrow> campaign_row \<Rightarrow> campaign_row" where
  "metadata_row u c = c\<lparr>c_brief := update_brief u (c_brief c), c_version := c_version c + 1\<rparr>"

definition update_metadata :: "string \<Rightarrow> metadata_update \<Rightarrow> app_db \<Rightarrow> (exn, campaign_row \<times> app_db) res" where
  "update_metadata k u db =
     and_then (get_campaign_record k db) (\<lambda>c.
     let c' = metadata_row u c in Inr (c', put_campaign c' db))"

lemma c_id_metadata_row [simp]: "c_id (metadata_row u c) = c_id c"
  by (simp add: metadata_row_def c_id_def update_brief_def)

end
