(* ===== verification/Workflow_Service.thy ===== *)
theory Workflow_Service
  imports Campaign_Service
begin

text \<open>
  Workflows: \<open>app/service/workflow_service.py\<close> over \<open>app/repositories/workflow_repository.py\<close>.
  A workflow is created under the lock of its campaign after the check that no other is
  active, so the partial unique index behind that check cannot reject the insertion.
\<close>

definition active_workflow :: "workflow_row \<Rightarrow> bool" where
  "active_workflow w \<longleftrightarrow> wf_status w \<in> set active_workflow_statuses \<and> wf_completed_at w = None"

definition get_active_for_campaign :: "string \<Rightarrow> app_db \<Rightarrow> workflow_row option" where
  "get_active_for_campaign k db =
     (case order_limit (\<lambda>w. - wf_started_at w) 1
        (filter (\<lambda>w. wf_campaign_id w = k \<and> active_workflow w) (workflows db)) of
        [] \<Rightarrow> None | w # _ \<Rightarrow> Some w)"

definition latest_revision_parent :: "string \<Rightarrow> app_db \<Rightarrow> workflow_row option" where
  "latest_revision_parent k db =
     (case order_limit (\<lambda>w. (- wf_revision_number w, - the (wf_completed_at w))) 1
        (filter (\<lambda>w. wf_campaign_id w = k \<and> wf_status w = CS_REVISION_REQUIRED \<and>
           wf_completed_at w \<noteq> None) (workflows db)) of
        [] \<Rightarrow> None | w # _ \<Rightarrow> Some w)"

definition new_workflow ::
  "call_env \<Rightarrow> campaign_row \<Rightarrow> campaign_status \<Rightarrow> workflow_step \<Rightarrow> uuid option \<Rightarrow> int \<Rightarrow> workflow_row" where
  "new_workflow env c status step parent revision =
     \<lparr>wf_id = env_row_id env, wf_campaign_id = c_id c, wf_parent_id = parent,
      wf_revision_number = revision, wf_status = status, wf_current_step = step,
      wf_llm_call_count = 0, wf_retry_count = 0, wf_quality_score = None, wf_error_code = None,
      wf_error_message = None, wf_started_at = env_now env, wf_completed_at = None,
      wf_is_evaluation = (c_evaluation_run_id c \<noteq> None),
      wf_evaluation_run_id = c_evaluation_run_id c, wf_evaluation_case_id = c_evaluation_case_id c\<rparr>"

definition add_workflow :: "workflow_row \<Rightarrow> app_db \<Rightarrow> (exn, workflow_row \<times> app_db) res" where
  "add_workflow w db =
     (if wf_revision_number w < 0 then
        Inl (Exn (PyE ValueError) ''revision_number must be non-negative'')
      else Inr (w, db\<lparr>workflows := workflows db @ [w]\<rparr>))"

definition create_workflow :: "call_env \<Rightarrow> string \<Rightarrow> app_db \<Rightarrow> (exn, workflow_row \<times> app_db) res" where
  "create_workflow env k db =
     and_then (get_campaign_record k db) (\<lambda>c.
     and_then (require (c_status c \<in> set workflow_creatable_campaign_statuses)
       (Exn (CoreE WorkflowCreationNotAllowedError)
         (''Cannot create workflow for campaign in '' @ campaign_status_value (c_status c)))) (\<lambda>_.
     and_then (require (get_active_for_campaign k db = None)
       (Exn (CoreE WorkflowAlreadyActiveError) ''Campaign already has an active workflow'')) (\<lambda>_.
     if c_status c = CS_REVISION_REQUIRED then
       and_then (required (latest_revision_parent k db)
         (Exn (CoreE WorkflowCreationNotAllowedError)
           ''Revision workflow requires a completed parent workflow'')) (\<lambda>parent.
       add_workflow (new_workflow env c CS_REVISION_REQUIRED WS_HUMAN_REVIEW (Some (wf_id parent))
         (wf_revision_number parent + 1)) db)
     else add_workflow (new_workflow env c CS_RECEIVED WS_RECEIVE_CAMPAIGN None 0) db)))"

definition get_workflow :: "uuid \<Rightarrow> app_db \<Rightarrow> (exn, workflow_row) res" where
  "get_workflow k db =
     required (get_workflow_row db k) (Exn (CoreE WorkflowNotFoundError) ''Workflow not found'')"

definition list_workflows ::
  "int \<Rightarrow> int \<Rightarrow> string option \<Rightarrow> string option \<Rightarrow> bool \<Rightarrow> app_db \<Rightarrow> workflow_row list" where
  "list_workflows limit offset campaign_id owner_id reviewable_only db =
     order_page (\<lambda>w. (- wf_started_at w, wf_id w)) (clamp 1 100 limit) (max offset 0)
       (filter (\<lambda>w. case get_campaign db (wf_campaign_id w) of
            None \<Rightarrow> False
          | Some c \<Rightarrow> \<not> wf_is_evaluation w \<and>
              (campaign_id = None \<or> campaign_id = Some (wf_campaign_id w)) \<and>
              (owner_id = None \<or> owner_id = Some (c_created_by c)) \<and>
              (reviewable_only \<longrightarrow> reviewable (c_status c))) (workflows db))"

text \<open>The rows a workflow transaction locks: the campaign first, then the workflow.\<close>

definition load_locked_pair :: "uuid \<Rightarrow> app_db \<Rightarrow> (exn, workflow_row \<times> campaign_row) res" where
  "load_locked_pair k db =
     and_then (get_workflow k db) (\<lambda>w.
     and_then (get_campaign_record (wf_campaign_id w) db) (\<lambda>c. Inr (w, c)))"

definition put_pair :: "workflow_row \<Rightarrow> campaign_row \<Rightarrow> app_db \<Rightarrow> app_db" where
  "put_pair w c db = put_campaign c (put_workflow w db)"

text \<open>The service's transition: both statuses, and the step when one is given.\<close>

definition service_transition ::
  "uuid \<Rightarrow> campaign_status \<Rightarrow> workflow_step option \<Rightarrow> app_db \<Rightarrow> (exn, workflow_row \<times> app_db) res" where
  "service_transition k next_status step db =
     and_then (load_locked_pair k db) (\<lambda>(w, c).
     and_then (ensure_valid_transition (wf_status w) next_status) (\<lambda>_.
     let w' = w\<lparr>wf_status := next_status,
            wf_current_step := (case step of None \<Rightarrow> wf_current_step w | Some s \<Rightarrow> s)\<rparr>
     in Inr (w', put_pair w' (c\<lparr>c_status := next_status\<rparr>) db)))"

definition record_llm_call :: "app_settings \<Rightarrow> uuid \<Rightarrow> app_db \<Rightarrow> (exn, unit \<times> app_db) res" where
  "record_llm_call st k db =
     and_then (load_locked_pair k db) (\<lambda>(w, c).
     and_then (require (wf_llm_call_count w < max_llm_calls_per_workflow st)
       (Exn (CoreE WorkflowLimitError) ''LLM call budget exhausted'')) (\<lambda>_.
     Inr ((), put_workflow (w\<lparr>wf_llm_call_count := wf_llm_call_count w + 1\<rparr>) db)))"

lemma load_locked_pair_Inr:
  "load_locked_pair k db = Inr (w, c) \<longleftrightarrow>
     get_workflow_row db k = Some w \<and> get_campaign db (wf_campaign_id w) = Some c"
  by (auto simp: load_locked_pair_def get_workflow_def get_campaign_record_def result_simps)

end
