(* ===== verification/Memory_Service.thy ===== *)
theory Memory_Service
  imports Database
begin

text \<open>
  The memory of campaigns: \<open>app/service/memory_service.py\<close> over
  \<open>app/repositories/memory_repository.py\<close>, with the summarizer of
  \<open>app/agentic/memory/summarizer.py\<close> and the bounds of the schema \<open>MemoryEntryCreate\<close>.
\<close>

record memory_request =
  mr_campaign_id :: string
  mr_workflow_id :: "uuid option"
  mr_agent_run_id :: "uuid option"
  mr_action_request_id :: "uuid option"
  mr_action_execution_id :: "uuid option"
  mr_type :: memory_type
  mr_event_type :: memory_event_type
  mr_summary :: string
  mr_metadata :: json
  mr_importance :: int
  mr_expires_at :: "time option"

definition memory_entry :: "string \<Rightarrow> memory_event_type \<Rightarrow> string \<Rightarrow> json \<Rightarrow> memory_request" where
  "memory_entry campaign_id event_type summary metadata =
     \<lparr>mr_campaign_id = campaign_id, mr_workflow_id = None, mr_agent_run_id = None,
      mr_action_request_id = None, mr_action_execution_id = None, mr_type = MT_EPISODIC,
      mr_event_type = event_type, mr_summary = summary, mr_metadata = metadata,
      mr_importance = 3, mr_expires_at = None\<rparr>"

text \<open>An optional reference, with the checks the code makes of the row it names.\<close>

definition scope_check :: "uuid option \<Rightarrow> (uuid \<Rightarrow> bool) \<Rightarrow> bool" where
  "scope_check k ok \<longleftrightarrow> (case k of None \<Rightarrow> True | Some u \<Rightarrow> ok u)"

definition run_in_scope :: "app_db \<Rightarrow> memory_request \<Rightarrow> uuid \<Rightarrow> bool" where
  "run_in_scope db r k \<longleftrightarrow>
     (case get_agent_run db k of None \<Rightarrow> False
      | Some a \<Rightarrow> r_campaign_id a = mr_campaign_id r \<and>
          (case mr_workflow_id r of None \<Rightarrow> True | Some w \<Rightarrow> r_workflow_id a = w))"

definition request_in_scope :: "app_db \<Rightarrow> memory_request \<Rightarrow> uuid \<Rightarrow> bool" where
  "request_in_scope db r k \<longleftrightarrow>
     (case get_request db k of None \<Rightarrow> False
      | Some q \<Rightarrow> q_campaign_id q = mr_campaign_id r \<and>
          (case mr_workflow_id r of None \<Rightarrow> True | Some w \<Rightarrow> q_workflow_id q = w) \<and>
          (case mr_agent_run_id r of None \<Rightarrow> True | Some a \<Rightarrow> q_agent_run_id q = a))"

definition execution_in_scope :: "app_db \<Rightarrow> memory_request \<Rightarrow> uuid \<Rightarrow> bool" where
  "execution_in_scope db r k \<longleftrightarrow>
     (case get_execution db k of None \<Rightarrow> False
      | Some x \<Rightarrow> mr_action_request_id r = Some (x_action_request_id x))"

definition validate_scope :: "app_db \<Rightarrow> memory_request \<Rightarrow> (exn, unit) res" where
  "validate_scope db r =
     and_then (require (get_campaign db (mr_campaign_id r) \<noteq> None)
       (Exn (CoreE CampaignNotFoundError) ''Campaign not found'')) (\<lambda>_.
     and_then (require (scope_check (mr_workflow_id r) (\<lambda>k. get_workflow_row db k \<noteq> None))
       (Exn (CoreE WorkflowNotFoundError) ''Workflow not found'')) (\<lambda>_.
     and_then (require (scope_check (mr_workflow_id r)
         (\<lambda>k. map_option wf_campaign_id (get_workflow_row db k) = Some (mr_campaign_id r)))
       (Exn (AgentE AgentContextError) ''Memory workflow scope does not match campaign'')) (\<lambda>_.
     and_then (require (scope_check (mr_agent_run_id r) (run_in_scope db r))
       (Exn (AgentE AgentContextError) ''Memory Agent run scope is invalid'')) (\<lambda>_.
     and_then (require (scope_check (mr_action_request_id r) (request_in_scope db r))
       (Exn (AgentE AgentContextError) ''Memory action request scope is invalid'')) (\<lambda>_.
     require (scope_check (mr_action_execution_id r) (execution_in_scope db r))
       (Exn (AgentE AgentContextError) ''Memory action execution scope is invalid''))))))"

definition bounded_metadata :: "services \<Rightarrow> json \<Rightarrow> json" where
  "bounded_metadata sv v =
     (let safe = sanitize_json 2000 v; serialized = sv_dumps sv safe
      in if length serialized \<le> 12000 then safe
         else JObj [(''summary'', JStr (sanitize_text 11900 serialized))])"

definition summarize :: "memory_event_type \<Rightarrow> string \<Rightarrow> string" where
  "summarize event_type detail =
     sanitize_text 100 (memory_event_type_value event_type) @ '': '' @ sanitize_text 2800 detail"

definition memory_fields_ok :: "memory_request \<Rightarrow> string \<Rightarrow> bool" where
  "memory_fields_ok r summary \<longleftrightarrow>
     3 \<le> length (mr_campaign_id r) \<and> length (mr_campaign_id r) \<le> 100 \<and>
     1 \<le> length summary \<and> length summary \<le> 3000 \<and> 1 \<le> mr_importance r \<and> mr_importance r \<le> 5"

definition days :: "int \<Rightarrow> time" where
  "days n = seconds (86400 * n)"

definition new_memory :: "services \<Rightarrow> call_env \<Rightarrow> memory_request \<Rightarrow> memory_row" where
  "new_memory sv env r =
     \<lparr>m_id = env_row_id env, m_campaign_id = mr_campaign_id r, m_workflow_id = mr_workflow_id r,
      m_agent_run_id = mr_agent_run_id r, m_action_request_id = mr_action_request_id r,
      m_action_execution_id = mr_action_execution_id r, m_type = mr_type r,
      m_event_type = mr_event_type r, m_summary = summarize (mr_event_type r) (mr_summary r),
      m_metadata = bounded_metadata sv (mr_metadata r), m_importance = mr_importance r,
      m_created_at = env_now env,
      m_expires_at = Some (case mr_expires_at r of Some t \<Rightarrow> t
        | None \<Rightarrow> env_now env + days (memory_default_ttl_days (sv_settings sv)))\<rparr>"

definition find_by_execution_event ::
  "memory_row list \<Rightarrow> uuid option \<Rightarrow> memory_event_type \<Rightarrow> memory_row option" where
  "find_by_execution_event t k e =
     (if k = None then None else find (\<lambda>m. m_action_execution_id m = k \<and> m_event_type m = e) t)"

definition record_event :: "services \<Rightarrow> call_env \<Rightarrow> memory_request \<Rightarrow> (app_db, memory_row) session" where
  "record_event sv env r = atomically (\<lambda>db.
     and_then (validate_scope db r) (\<lambda>_.
     let model = new_memory sv env r
     in if \<not> memory_fields_ok r (m_summary model) then
          Inl (Exn (PyE ValueError) ''MemoryEntryCreate'')
        else if m_expires_at model \<noteq> None \<and> the (m_expires_at model) \<le> m_created_at model then
          Inl (Exn (StoreE PersistenceError) ''Unable to persist memory entry'')
        else (case find_by_execution_event (memories db) (m_action_execution_id model) (m_event_type model) of
            Some existing \<Rightarrow> Inr (existing, db)
          | None \<Rightarrow> Inr (model, db\<lparr>memories := memories db @ [model]\<rparr>))))"

subsection \<open>Reading\<close>

definition not_expired :: "time \<Rightarrow> memory_row \<Rightarrow> bool" where
  "not_expired now m \<longleftrightarrow> (case m_expires_at m of None \<Rightarrow> True | Some t \<Rightarrow> now < t)"

definition list_memories ::
  "time \<Rightarrow> string option \<Rightarrow> uuid option \<Rightarrow> memory_event_type option \<Rightarrow> int \<Rightarrow> int \<Rightarrow> app_db \<Rightarrow> memory_row list" where
  "list_memories now campaign_id workflow_id event_type limit offset db =
     order_page (\<lambda>m. (- m_created_at m, - int (m_id m))) limit offset
       (filter (\<lambda>m. (campaign_id = None \<or> campaign_id = Some (m_campaign_id m)) \<and>
          (workflow_id = None \<or> m_workflow_id m = workflow_id) \<and>
          (event_type = None \<or> event_type = Some (m_event_type m)) \<and> not_expired now m) (memories db))"

definition memory_limit :: "app_settings \<Rightarrow> int \<Rightarrow> int" where
  "memory_limit st value = min (max value 1) (memory_max_results st)"

definition list_campaign ::
  "app_settings \<Rightarrow> time \<Rightarrow> string \<Rightarrow> int \<Rightarrow> int \<Rightarrow> memory_event_type option \<Rightarrow> app_db \<Rightarrow> (exn, memory_row list) res" where
  "list_campaign st now campaign_id limit offset event_type db =
     (if get_campaign db campaign_id = None then
        Inl (Exn (CoreE CampaignNotFoundError) ''Campaign not found'')
      else Inr (list_memories now (Some campaign_id) None event_type (memory_limit st limit) (max offset 0) db))"

definition list_workflow ::
  "app_settings \<Rightarrow> time \<Rightarrow> uuid \<Rightarrow> int \<Rightarrow> int \<Rightarrow> memory_event_type option \<Rightarrow> app_db \<Rightarrow> (exn, memory_row list) res" where
  "list_workflow st now workflow_id limit offset event_type db =
     (if get_workflow_row db workflow_id = None then
        Inl (Exn (CoreE WorkflowNotFoundError) ''Workflow not found'')
      else Inr (list_memories now None (Some workflow_id) event_type (memory_limit st limit) (max offset 0) db))"

end
