(* ===== verification/Campaign_Workflow.thy ===== *)
theory Campaign_Workflow
  imports Workflow_Service Memory_Service
begin

text \<open>
  The workflow that takes a campaign from its reception to the human decision:
  \<open>app/workflows/campaign_workflow.py\<close>. The orchestrator of the agents is given to the
  workflow; it is a session that returns the agent's output. An iteration of the loop draws its
  clock readings and identifiers from \<open>env\<close>: 0 for the checkpoint's event, 1 to 3 for its
  memories, 4 for a failure.
\<close>

subsection \<open>Agents' outputs\<close>

datatype review_status = RV_PASS | RV_FAIL | RV_MANUAL_REVIEW_REQUIRED

fun review_status_value :: "review_status \<Rightarrow> string" where
  "review_status_value RV_PASS = ''PASS''"
| "review_status_value RV_FAIL = ''FAIL''"
| "review_status_value RV_MANUAL_REVIEW_REQUIRED = ''MANUAL_REVIEW_REQUIRED''"

record quality_review =
  qr_status :: review_status
  qr_quality_score :: int
  qr_factual_accuracy_score :: int
  qr_tone_score :: int
  qr_platform_fit_score :: int
  qr_issues :: "string list"
  qr_suggestions :: "string list"
  qr_requires_human_review :: bool

definition review_ok :: "quality_review \<Rightarrow> bool" where
  "review_ok q \<longleftrightarrow>
     (\<forall>n \<in> {qr_quality_score q, qr_factual_accuracy_score q, qr_tone_score q, qr_platform_fit_score q}.
        0 \<le> n \<and> n \<le> 100)"

definition dump_review :: "quality_review \<Rightarrow> json" where
  "dump_review q = JObj
     [(''status'', JStr (review_status_value (qr_status q))),
      (''quality_score'', JInt (qr_quality_score q)),
      (''factual_accuracy_score'', JInt (qr_factual_accuracy_score q)),
      (''tone_score'', JInt (qr_tone_score q)),
      (''platform_fit_score'', JInt (qr_platform_fit_score q)),
      (''issues'', JList (map JStr (qr_issues q))),
      (''suggestions'', JList (map JStr (qr_suggestions q))),
      (''requires_human_review'', JBool (qr_requires_human_review q))]"

record orchestrator =
  run_brief_analysis :: "string \<Rightarrow> uuid \<Rightarrow> (app_db, json) session"
  run_content_generation :: "string \<Rightarrow> uuid \<Rightarrow> (app_db, json) session"
  run_content_review :: "string \<Rightarrow> uuid \<Rightarrow> (app_db, quality_review) session"

subsection \<open>Checkpoints\<close>

definition ensure_expected_status :: "campaign_status \<Rightarrow> campaign_status \<Rightarrow> (exn, unit) res" where
  "ensure_expected_status actual expected =
     require (actual = expected)
       (Exn (CoreE VersionConflictError) ''Workflow state changed during execution'')"

definition moved_pair ::
  "campaign_status \<Rightarrow> workflow_step \<Rightarrow> workflow_row \<Rightarrow> campaign_row \<Rightarrow> app_db \<Rightarrow> app_db" where
  "moved_pair next_status next_step w c db =
     put_pair (w\<lparr>wf_status := next_status, wf_current_step := next_step\<rparr>)
       (c\<lparr>c_status := next_status\<rparr>) db"

definition transition_checkpoint ::
  "uuid \<Rightarrow> campaign_status \<Rightarrow> campaign_status \<Rightarrow> workflow_step \<Rightarrow> (app_db, unit) session" where
  "transition_checkpoint k expected next_status next_step = atomically (\<lambda>db.
     and_then (load_locked_pair k db) (\<lambda>(w, c).
     and_then (ensure_expected_status (wf_status w) expected) (\<lambda>_.
     and_then (ensure_valid_transition expected next_status) (\<lambda>_.
     Inr ((), moved_pair next_status next_step w c db)))))"

text \<open>\<open>_transition_locked\<close> on the rows the checkpoint has already changed.\<close>

definition transition_locked ::
  "workflow_row \<Rightarrow> campaign_row \<Rightarrow> campaign_status \<Rightarrow> workflow_step \<Rightarrow> app_db \<Rightarrow> (exn, app_db) res" where
  "transition_locked w c next_status next_step db =
     and_then (ensure_valid_transition (wf_status w) next_status) (\<lambda>_.
     Inr (moved_pair next_status next_step w c db))"

definition save_analysis_checkpoint :: "uuid \<Rightarrow> json \<Rightarrow> (app_db, unit) session" where
  "save_analysis_checkpoint k analysis = atomically (\<lambda>db.
     and_then (load_locked_pair k db) (\<lambda>(w, c).
     and_then (ensure_expected_status (wf_status w) CS_ANALYZING) (\<lambda>_.
     and_then (transition_locked w (c\<lparr>brief_analysis := Some analysis\<rparr>) CS_GENERATING
         WS_GENERATE_CONTENT db) (\<lambda>db'.
     Inr ((), db')))))"

definition save_content_checkpoint :: "uuid \<Rightarrow> json \<Rightarrow> (app_db, unit) session" where
  "save_content_checkpoint k content = atomically (\<lambda>db.
     and_then (load_locked_pair k db) (\<lambda>(w, c).
     and_then (ensure_expected_status (wf_status w) CS_GENERATING) (\<lambda>_.
     and_then (transition_locked w (c\<lparr>generated_content := Some content\<rparr>) CS_REVIEWING
         WS_REVIEW_CONTENT db) (\<lambda>db'.
     Inr ((), db')))))"

text \<open>What a review decides: the next status and step, and whether it is another attempt.\<close>

definition review_target ::
  "app_settings \<Rightarrow> quality_review \<Rightarrow> workflow_row \<Rightarrow> campaign_status \<times> workflow_step \<times> bool" where
  "review_target st q w =
     (if qr_status q = RV_PASS then (CS_PENDING_APPROVAL, WS_HUMAN_REVIEW, False)
      else if qr_status q = RV_MANUAL_REVIEW_REQUIRED then
        (CS_MANUAL_REVIEW_REQUIRED, WS_HUMAN_REVIEW, False)
      else if max_content_retries st \<le> wf_retry_count w then
        (CS_MANUAL_REVIEW_REQUIRED, WS_HUMAN_REVIEW, False)
      else (CS_GENERATING, WS_GENERATE_CONTENT, True))"

definition retried_workflow :: "bool \<Rightarrow> workflow_row \<Rightarrow> workflow_row" where
  "retried_workflow retry w = (if retry then w\<lparr>wf_retry_count := wf_retry_count w + 1\<rparr> else w)"

definition retried_campaign :: "bool \<Rightarrow> campaign_row \<Rightarrow> campaign_row" where
  "retried_campaign retry c = (if retry then c\<lparr>c_retry_count := c_retry_count c + 1\<rparr> else c)"

definition completed_event :: "workflow_row \<Rightarrow> campaign_row \<Rightarrow> campaign_status \<Rightarrow> quality_review \<Rightarrow> event_request" where
  "completed_event w c s q =
     \<lparr>er_event_type = OE_WORKFLOW_COMPLETED, er_aggregate_type = ''workflow'',
      er_aggregate_id = uuid_str (wf_id w),
      er_payload = JObj [(''workflow_id'', JStr (uuid_str (wf_id w))), (''campaign_id'', JStr (c_id c)),
        (''status'', JStr (campaign_status_value s)), (''quality_score'', JInt (qr_quality_score q))],
      er_idempotency_key = Some (''workflow:'' @ uuid_str (wf_id w) @ '':terminal:'' @ campaign_status_value s),
      er_correlation_id = None, er_trace_id = None\<rparr>"

definition add_outbox_event ::
  "services \<Rightarrow> call_env \<Rightarrow> event_request \<Rightarrow> app_db \<Rightarrow> (exn, app_db) res" where
  "add_outbox_event sv env r db =
     and_then (add_event (sv_hashing sv) (as_outbox (sv_settings sv)) env r (events db))
       (\<lambda>(_, es). Inr (db\<lparr>events := es\<rparr>))"

definition reviewed_workflow :: "quality_review \<Rightarrow> workflow_row \<Rightarrow> workflow_row" where
  "reviewed_workflow q w = w\<lparr>wf_quality_score := Some (qr_quality_score q)\<rparr>"

definition reviewed_campaign :: "quality_review \<Rightarrow> campaign_row \<Rightarrow> campaign_row" where
  "reviewed_campaign q c =
     c\<lparr>c_quality_review := Some (dump_review q), c_quality_score := Some (qr_quality_score q)\<rparr>"

text \<open>
  The checkpoint's transaction; it returns the workflow as it is after it, the campaign's
  identifier, whether the review asks for another attempt and whether it ends a revision.
\<close>

definition review_transaction ::
  "services \<Rightarrow> call_env \<Rightarrow> uuid \<Rightarrow> quality_review \<Rightarrow> app_db \<Rightarrow>
   (exn, (workflow_row \<times> string \<times> bool \<times> bool) \<times> app_db) res" where
  "review_transaction sv env k q db =
     and_then (load_locked_pair k db) (\<lambda>(w0, c0).
     and_then (ensure_expected_status (wf_status w0) CS_REVIEWING) (\<lambda>_.
     let (next_status, next_step, retry) = review_target (sv_settings sv) q w0;
         w = retried_workflow retry (reviewed_workflow q w0);
         c = retried_campaign retry (reviewed_campaign q c0);
         w' = w\<lparr>wf_status := next_status, wf_current_step := next_step\<rparr>;
         revision_completed = (qr_status q = RV_PASS \<and> 0 < wf_revision_number w0)
     in and_then (transition_locked w c next_status next_step db) (\<lambda>db1.
     and_then (if retry then Inr db1
         else add_outbox_event sv env (completed_event w' c next_status q) db1) (\<lambda>db2.
     Inr ((w', c_id c, retry, revision_completed), db2)))))"

fun join_strings :: "string \<Rightarrow> string list \<Rightarrow> string" where
  "join_strings sep [] = []"
| "join_strings sep [s] = s"
| "join_strings sep (s # t # ts) = s @ sep @ join_strings sep (t # ts)"

definition feedback_text :: "quality_review \<Rightarrow> string \<Rightarrow> string" where
  "feedback_text q otherwise =
     or_str (Some (join_strings ''; '' (if qr_issues q = [] then qr_suggestions q else qr_issues q))) otherwise"

definition feedback_memory :: "quality_review \<Rightarrow> workflow_row \<Rightarrow> string \<Rightarrow> memory_request" where
  "feedback_memory q w campaign_id =
     (memory_entry campaign_id ME_REVIEW_FEEDBACK
        (feedback_text q (''Review completed with status '' @ review_status_value (qr_status q)))
        (JObj [(''status'', JStr (review_status_value (qr_status q))),
          (''quality_score'', JInt (qr_quality_score q)), (''retry_count'', JInt (wf_retry_count w))]))
     \<lparr>mr_workflow_id := Some (wf_id w), mr_importance := 4\<rparr>"

definition retry_memory :: "quality_review \<Rightarrow> workflow_row \<Rightarrow> string \<Rightarrow> memory_request" where
  "retry_memory q w campaign_id =
     (memory_entry campaign_id ME_WORKFLOW_RETRY
        (feedback_text q ''Review requested bounded content regeneration'')
        (JObj [(''retry_count'', JInt (wf_retry_count w))]))
     \<lparr>mr_workflow_id := Some (wf_id w), mr_importance := 4\<rparr>"

definition revision_memory :: "quality_review \<Rightarrow> workflow_row \<Rightarrow> string \<Rightarrow> memory_request" where
  "revision_memory q w campaign_id =
     (memory_entry campaign_id ME_REVISION_COMPLETED ''Revised campaign content passed review''
        (JObj [(''revision_number'', JInt (wf_revision_number w)),
          (''quality_score'', JInt (qr_quality_score q))]))
     \<lparr>mr_workflow_id := Some (wf_id w), mr_importance := 5\<rparr>"

definition do_when :: "bool \<Rightarrow> ('s, 'a) session \<Rightarrow> ('s, unit) session" where
  "do_when b m = (if b then and_session m (\<lambda>_. returns ()) else returns ())"

definition save_review_decision_checkpoint ::
  "services \<Rightarrow> (nat \<Rightarrow> call_env) \<Rightarrow> uuid \<Rightarrow> quality_review \<Rightarrow> (app_db, unit) session" where
  "save_review_decision_checkpoint sv env k q =
     and_session (atomically (review_transaction sv (env 0) k q)) (\<lambda>(w, campaign_id, retry, revised).
     and_session (record_event sv (env 1) (feedback_memory q w campaign_id)) (\<lambda>_.
     and_session (do_when retry (record_event sv (env 2) (retry_memory q w campaign_id))) (\<lambda>_.
     do_when revised (record_event sv (env 3) (revision_memory q w campaign_id)))))"

subsection \<open>The loop\<close>

definition stop_statuses :: "campaign_status list" where
  "stop_statuses = [CS_PENDING_APPROVAL, CS_MANUAL_REVIEW_REQUIRED, CS_APPROVED, CS_REJECTED,
     CS_FAILED, CS_NEEDS_CLARIFICATION]"

definition continue_with :: "('s, unit) session \<Rightarrow> ('s, 'a option) session" where
  "continue_with m = and_session m (\<lambda>_. returns None)"

text \<open>One iteration: \<open>Some w\<close> leaves the loop with the workflow's snapshot.\<close>

definition workflow_iteration ::
  "services \<Rightarrow> orchestrator \<Rightarrow> (nat \<Rightarrow> call_env) \<Rightarrow> uuid \<Rightarrow> (app_db, workflow_row option) session" where
  "workflow_iteration sv orch env k db =
     (case load_locked_pair k db of
        Inl x \<Rightarrow> (Inl x, db)
      | Inr (w, c) \<Rightarrow>
          if wf_status w \<in> set stop_statuses then (Inr (Some w), db)
          else if wf_status w = CS_RECEIVED then
            continue_with (transition_checkpoint k CS_RECEIVED CS_VALIDATING WS_VALIDATE_INPUT) db
          else if wf_status w = CS_VALIDATING then
            continue_with (transition_checkpoint k CS_VALIDATING CS_ANALYZING WS_ANALYZE_BRIEF) db
          else if wf_status w = CS_REVISION_REQUIRED then
            continue_with (transition_checkpoint k CS_REVISION_REQUIRED CS_GENERATING WS_GENERATE_CONTENT) db
          else if wf_status w = CS_ANALYZING then
            continue_with (and_session (run_brief_analysis orch (wf_campaign_id w) k)
              (save_analysis_checkpoint k)) db
          else if wf_status w = CS_GENERATING then
            (if brief_analysis c = None then
               continue_with (transition_checkpoint k CS_GENERATING CS_ANALYZING WS_ANALYZE_BRIEF) db
             else continue_with (and_session (run_content_generation orch (wf_campaign_id w) k)
               (save_content_checkpoint k)) db)
          else if wf_status w = CS_REVIEWING then
            (if generated_content c = None then
               continue_with (transition_checkpoint k CS_REVIEWING CS_GENERATING WS_GENERATE_CONTENT) db
             else continue_with (and_session (run_content_review orch (wf_campaign_id w) k)
               (save_review_decision_checkpoint sv env k)) db)
          else (Inl (Exn (CoreE WorkflowExecutionError)
            (''Workflow cannot resume from '' @ campaign_status_value (wf_status w))), db))"

text \<open>The \<open>while True\<close> loop; \<open>None\<close> when the fuel runs out.\<close>

fun run_loop ::
  "services \<Rightarrow> orchestrator \<Rightarrow> (nat \<Rightarrow> nat \<Rightarrow> call_env) \<Rightarrow> uuid \<Rightarrow> nat \<Rightarrow> app_db \<Rightarrow>
   ((exn, workflow_row) res \<times> app_db) option" where
  "run_loop sv orch env k 0 db = None"
| "run_loop sv orch env k (Suc n) db =
     (case workflow_iteration sv orch (env n) k db of
        (Inl x, db') \<Rightarrow> Some (Inl x, db')
      | (Inr (Some w), db') \<Rightarrow> Some (Inr w, db')
      | (Inr None, db') \<Rightarrow> run_loop sv orch env k n db')"

subsection \<open>Failures\<close>

definition conflict_errors :: "exn_class list" where
  "conflict_errors = [CoreE ApprovalAlreadyDecidedError, CoreE ApprovalNotAllowedError,
     CoreE AuthenticationError, CoreE AuthorizationError, CoreE InvalidStateTransitionError,
     CoreE VersionConflictError, CoreE WorkflowAlreadyActiveError,
     CoreE WorkflowCreationNotAllowedError, CoreE WorkflowNotFoundError, CoreE CampaignNotFoundError]"

definition execution_failure_errors :: "exn_class list" where
  "execution_failure_errors = [AgentE AgentExecutionError, CoreE LLMProviderError,
     CoreE LLMResponseError, CoreE LLMTimeoutError, CoreE WorkflowExecutionError,
     CoreE WorkflowLimitError]"

definition failed_workflow :: "time \<Rightarrow> string \<Rightarrow> string \<Rightarrow> workflow_row \<Rightarrow> workflow_row" where
  "failed_workflow now code message w =
     w\<lparr>wf_status := CS_FAILED, wf_current_step := WS_COMPLETE, wf_error_code := Some code,
       wf_error_message := Some message, wf_completed_at := Some now\<rparr>"

definition workflow_failed_event :: "workflow_row \<Rightarrow> campaign_row \<Rightarrow> string \<Rightarrow> event_request" where
  "workflow_failed_event w c code =
     \<lparr>er_event_type = OE_WORKFLOW_FAILED, er_aggregate_type = ''workflow'',
      er_aggregate_id = uuid_str (wf_id w),
      er_payload = JObj [(''workflow_id'', JStr (uuid_str (wf_id w))), (''campaign_id'', JStr (c_id c)),
        (''error_code'', JStr code)],
      er_idempotency_key = Some (''workflow:'' @ uuid_str (wf_id w) @ '':failed''),
      er_correlation_id = None, er_trace_id = None\<rparr>"

definition failure_transaction ::
  "services \<Rightarrow> call_env \<Rightarrow> uuid \<Rightarrow> exn \<Rightarrow> app_db \<Rightarrow> (exn, unit \<times> app_db) res" where
  "failure_transaction sv env k x db =
     and_then (load_locked_pair k db) (\<lambda>(w, c).
     if wf_status w \<in> {CS_APPROVED, CS_REJECTED, CS_FAILED, CS_PENDING_APPROVAL, CS_MANUAL_REVIEW_REQUIRED}
     then Inr ((), db)
     else if can_transition (wf_status w) CS_FAILED then
       (let code = the (error_code (exn_cls x));
            w' = failed_workflow (env_now env) code (sanitize_text 500 (exn_msg x)) w
        in and_then (add_outbox_event sv env (workflow_failed_event w' c code)
             (put_pair w' (c\<lparr>c_status := CS_FAILED\<rparr>) db)) (\<lambda>db'.
           Inr ((), db')))
     else Inr ((), db))"

text \<open>Any exception on the way is logged, and the failure is then not recorded.\<close>

definition persist_failure :: "services \<Rightarrow> call_env \<Rightarrow> uuid \<Rightarrow> exn \<Rightarrow> app_db \<Rightarrow> app_db" where
  "persist_failure sv env k x db = snd (atomically (failure_transaction sv env k x) db)"

definition handle_failure ::
  "services \<Rightarrow> call_env \<Rightarrow> uuid \<Rightarrow> exn \<Rightarrow> app_db \<Rightarrow> exn \<times> app_db" where
  "handle_failure sv env k x db =
     (let wrapped = Exn (CoreE WorkflowExecutionError) ''Workflow execution failed''
      in if isinstance_any (exn_cls x) conflict_errors then (x, db)
         else if isinstance_any (exn_cls x) execution_failure_errors then
           (x, persist_failure sv env k x db)
         else if is_instance (exn_cls x) (PyE PyException) then
           (wrapped, persist_failure sv env k wrapped db)
         else (x, db))"

definition run_to_pending_approval ::
  "services \<Rightarrow> orchestrator \<Rightarrow> (nat \<Rightarrow> nat \<Rightarrow> call_env) \<Rightarrow> uuid \<Rightarrow> nat \<Rightarrow> app_db \<Rightarrow>
   ((exn, workflow_row) res \<times> app_db) option" where
  "run_to_pending_approval sv orch env k fuel db =
     (case run_loop sv orch env k fuel db of
        None \<Rightarrow> None
      | Some (Inr w, db') \<Rightarrow> Some (Inr w, db')
      | Some (Inl x, db') \<Rightarrow>
          (let (y, db'') = handle_failure sv (env 0 4) k x db' in Some (Inl y, db'')))"

end
