(* ===== verification/Approval_Service.thy ===== *)
theory Approval_Service
  imports Workflow_Service Memory_Service
begin

text \<open>
  Human decisions on a campaign: \<open>app/service/approval_service.py\<close> over
  \<open>app/repositories/approval_repository.py\<close>, with the request of \<open>app/schemas/approval.py\<close>.
\<close>

fun approval_decision_value :: "approval_decision \<Rightarrow> string" where
  "approval_decision_value AD_APPROVE = ''APPROVE''"
| "approval_decision_value AD_REJECT = ''REJECT''"
| "approval_decision_value AD_REQUEST_REVISION = ''REQUEST_REVISION''"

definition approver_roles :: "user_role list" where
  "approver_roles = [UR_REVIEWER, UR_MANAGER, UR_ADMIN]"

record approval_request =
  ar_campaign_id :: string
  ar_workflow_id :: uuid
  ar_decision :: approval_decision
  ar_feedback :: "string option"
  ar_expected_version :: int

definition approval_request_ok :: "approval_request \<Rightarrow> bool" where
  "approval_request_ok r \<longleftrightarrow>
     3 \<le> length (ar_campaign_id r) \<and> length (ar_campaign_id r) \<le> 100 \<and>
     (case ar_feedback r of None \<Rightarrow> True | Some f \<Rightarrow> length f \<le> 5000) \<and> 1 \<le> ar_expected_version r \<and>
     (ar_decision r \<in> {AD_REJECT, AD_REQUEST_REVISION} \<longrightarrow> ar_feedback r \<notin> {None, Some []})"

definition has_final_decision :: "uuid \<Rightarrow> app_db \<Rightarrow> bool" where
  "has_final_decision k db \<longleftrightarrow> find (\<lambda>a. ap_workflow_id a = k) (approvals db) \<noteq> None"

fun decided_status :: "approval_decision \<Rightarrow> campaign_status" where
  "decided_status AD_APPROVE = CS_APPROVED"
| "decided_status AD_REJECT = CS_REJECTED"
| "decided_status AD_REQUEST_REVISION = CS_REVISION_REQUIRED"

definition strip :: "string \<Rightarrow> string" where
  "strip s = rev (dropWhile is_space (rev (dropWhile is_space s)))"

definition new_approval ::
  "call_env \<Rightarrow> approval_request \<Rightarrow> string \<Rightarrow> user_role \<Rightarrow> int \<Rightarrow> int \<Rightarrow> approval_row" where
  "new_approval env r actor_id actor_role previous resulting =
     \<lparr>ap_id = env_row_id env, ap_campaign_id = ar_campaign_id r, ap_workflow_id = ar_workflow_id r,
      ap_decision = ar_decision r, ap_feedback = ar_feedback r, ap_actor_id = strip actor_id,
      ap_actor_role = actor_role, ap_previous_version = previous,
      ap_resulting_version = resulting, ap_decided_at = env_now env\<rparr>"

definition decided_workflow :: "time \<Rightarrow> approval_decision \<Rightarrow> workflow_row \<Rightarrow> workflow_row" where
  "decided_workflow now d w =
     w\<lparr>wf_status := decided_status d, wf_current_step := WS_COMPLETE, wf_completed_at := Some now\<rparr>"

definition decided_campaign :: "approval_decision \<Rightarrow> campaign_row \<Rightarrow> campaign_row" where
  "decided_campaign d c =
     c\<lparr>c_status := decided_status d,
       c_version := (if d = AD_REQUEST_REVISION then c_version c + 1 else c_version c)\<rparr>"

text \<open>The decision's transaction. \<open>ApprovalRecord\<close> bounds the length of the actor's name.\<close>

definition decide_transaction ::
  "call_env \<Rightarrow> approval_request \<Rightarrow> string \<Rightarrow> user_role \<Rightarrow> app_db \<Rightarrow> (exn, approval_row \<times> app_db) res" where
  "decide_transaction env r actor_id actor_role db =
     and_then (require (actor_role \<in> set approver_roles)
       (Exn (CoreE ApprovalNotAllowedError) ''Actor is not allowed to decide approvals'')) (\<lambda>_.
     and_then (get_campaign_record (ar_campaign_id r) db) (\<lambda>c.
     and_then (get_workflow (ar_workflow_id r) db) (\<lambda>w.
     and_then (require (wf_campaign_id w = ar_campaign_id r)
       (Exn (CoreE WorkflowNotFoundError) ''Workflow not found'')) (\<lambda>_.
     and_then (require (\<not> has_final_decision (ar_workflow_id r) db)
       (Exn (CoreE ApprovalAlreadyDecidedError) ''Workflow already has an approval decision'')) (\<lambda>_.
     and_then (require (wf_status w = CS_PENDING_APPROVAL)
       (Exn (CoreE ApprovalNotAllowedError) ''Workflow is not pending approval'')) (\<lambda>_.
     and_then (require (c_version c = ar_expected_version r)
       (Exn (CoreE VersionConflictError) ''Campaign version does not match'')) (\<lambda>_.
     let d = ar_decision r; c' = decided_campaign d c; w' = decided_workflow (env_now env) d w;
         record = new_approval env r actor_id actor_role (c_version c) (c_version c')
     in and_then (ensure_valid_transition (wf_status w) (decided_status d)) (\<lambda>_.
     and_then (require (1 \<le> length (ap_actor_id record) \<and> length (ap_actor_id record) \<le> 200)
       (Exn (PyE ValueError) ''ApprovalRecord'')) (\<lambda>_.
     Inr (record, (put_pair w' c' db)\<lparr>approvals := approvals db @ [record]\<rparr>))))))))))"

definition decision_memory :: "approval_row \<Rightarrow> memory_request" where
  "decision_memory a =
     (memory_entry (ap_campaign_id a) ME_CAMPAIGN_APPROVAL_DECIDED
        (''Campaign approval decision: '' @ approval_decision_value (ap_decision a))
        (JObj [(''decision'', JStr (approval_decision_value (ap_decision a))),
          (''actor_role'', JStr (user_role_value (ap_actor_role a))),
          (''resulting_version'', JInt (ap_resulting_version a))]))
     \<lparr>mr_workflow_id := Some (ap_workflow_id a), mr_importance := 5\<rparr>"

definition decide ::
  "services \<Rightarrow> call_env \<Rightarrow> call_env \<Rightarrow> approval_request \<Rightarrow> string \<Rightarrow> user_role \<Rightarrow> (app_db, approval_row) session" where
  "decide sv env env_memory r actor_id actor_role =
     and_session (atomically (decide_transaction env r actor_id actor_role)) (\<lambda>record.
     and_session (record_event sv env_memory (decision_memory record)) (\<lambda>_. returns record))"

end
