(* ===== verification/State_Guard.thy ===== *)
theory State_Guard
  imports Workflow_Service
begin

text \<open>
  The guard of an action's effects (\<open>app/service/action_state_guard_service.py\<close>): an action was
  reserved against a campaign and a workflow in certain states, and changes them only while
  they are still in those states.
\<close>

record execution_guard =
  g_campaign_id :: string
  g_workflow_id :: uuid
  g_campaign_status :: campaign_status
  g_campaign_version :: int
  g_workflow_status :: campaign_status
  g_revision_number :: int

definition guard_holds :: "execution_guard \<Rightarrow> workflow_row \<Rightarrow> campaign_row \<Rightarrow> bool" where
  "guard_holds g w c \<longleftrightarrow>
     c_status c = g_campaign_status g \<and> c_version c = g_campaign_version g \<and>
     wf_status w = g_workflow_status g \<and> wf_revision_number w = g_revision_number g"

definition guarded_pair :: "execution_guard \<Rightarrow> app_db \<Rightarrow> (exn, workflow_row \<times> campaign_row) res" where
  "guarded_pair g db =
     and_then (required (get_campaign db (g_campaign_id g))
       (Exn (ActionE ActionScopeConflictError) ''Reserved campaign scope is unavailable'')) (\<lambda>c.
     and_then (required (get_workflow_row db (g_workflow_id g))
       (Exn (ActionE ActionScopeConflictError) ''Reserved workflow scope is invalid'')) (\<lambda>w.
     and_then (require (wf_campaign_id w = c_id c)
       (Exn (ActionE ActionScopeConflictError) ''Reserved workflow scope is invalid'')) (\<lambda>_.
     and_then (require (guard_holds g w c)
       (Exn (ActionE ActionStateChangedError)
         ''Campaign or workflow changed after action reservation'')) (\<lambda>_.
     Inr (w, c)))))"

definition guard_validate :: "execution_guard \<Rightarrow> app_db \<Rightarrow> (exn, campaign_row \<times> app_db) res" where
  "guard_validate g db = and_then (guarded_pair g db) (\<lambda>(_, c). Inr (c, db))"

definition guard_update_metadata :: "execution_guard \<Rightarrow> metadata_update \<Rightarrow> app_db \<Rightarrow> (exn, unit \<times> app_db) res" where
  "guard_update_metadata g u db =
     and_then (guarded_pair g db) (\<lambda>(_, c). Inr ((), put_campaign (metadata_row u c) db))"

definition guard_transition ::
  "execution_guard \<Rightarrow> campaign_status \<Rightarrow> workflow_step \<Rightarrow> app_db \<Rightarrow> (exn, unit \<times> app_db) res" where
  "guard_transition g next_status step db =
     and_then (guarded_pair g db) (\<lambda>(w, c).
     and_then (require (can_transition (wf_status w) next_status)
       (Exn (ActionE ActionStateChangedError) ''Reserved workflow transition is no longer valid'')) (\<lambda>_.
     Inr ((), put_pair (w\<lparr>wf_status := next_status, wf_current_step := step\<rparr>)
       (c\<lparr>c_status := next_status\<rparr>) db)))"

lemma guarded_pair_Inr:
  "guarded_pair g db = Inr (w, c) \<longleftrightarrow>
     get_campaign db (g_campaign_id g) = Some c \<and> get_workflow_row db (g_workflow_id g) = Some w \<and>
     wf_campaign_id w = c_id c \<and> guard_holds g w c"
  by (auto simp: guarded_pair_def result_simps)

end
