(* ===== verification/Campaign_Invariant.thy ===== *)
theory Campaign_Invariant
  imports Campaign_Workflow Approval_Service State_Guard
begin

text \<open>
  The invariant of campaigns, workflows and decisions, and the system whose steps are the
  transactions of the services, of the workflow's loop and of the human decisions, in any
  order. Steps of the rest of the program, which leaves these three tables alone, are \<open>other\<close>.
\<close>

definition workflow_ok :: "app_settings \<Rightarrow> app_db \<Rightarrow> workflow_row \<Rightarrow> bool" where
  "workflow_ok st db w \<longleftrightarrow>
     get_campaign db (wf_campaign_id w) \<noteq> None \<and> 0 \<le> wf_revision_number w \<and>
     0 \<le> wf_retry_count w \<and> wf_retry_count w \<le> max_content_retries st \<and>
     (wf_status w = CS_APPROVED \<longrightarrow> (\<exists>a \<in> set (approvals db). ap_workflow_id a = wf_id w \<and>
        ap_decision a = AD_APPROVE))"

definition approval_ok :: "app_db \<Rightarrow> approval_row \<Rightarrow> bool" where
  "approval_ok db a \<longleftrightarrow>
     (\<exists>w. get_workflow_row db (ap_workflow_id a) = Some w \<and> wf_completed_at w \<noteq> None \<and>
        wf_campaign_id w = ap_campaign_id a) \<and>
     ap_actor_role a \<in> set approver_roles \<and> ap_previous_version a \<le> ap_resulting_version a"

definition one_active :: "app_db \<Rightarrow> bool" where
  "one_active db \<longleftrightarrow>
     (\<forall>w \<in> set (workflows db). \<forall>w' \<in> set (workflows db).
        active_workflow w \<and> active_workflow w' \<and> wf_campaign_id w = wf_campaign_id w' \<longrightarrow> w = w')"

definition campaign_inv :: "app_settings \<Rightarrow> app_db \<Rightarrow> bool" where
  "campaign_inv st db \<longleftrightarrow>
     distinct (map c_id (campaigns db)) \<and> distinct (map wf_id (workflows db)) \<and>
     distinct (map ap_workflow_id (approvals db)) \<and>
     (\<forall>w \<in> set (workflows db). workflow_ok st db w) \<and>
     (\<forall>a \<in> set (approvals db). approval_ok db a) \<and> one_active db"

definition same_tables :: "app_db \<Rightarrow> app_db \<Rightarrow> bool" where
  "same_tables db db' \<longleftrightarrow>
     campaigns db' = campaigns db \<and> workflows db' = workflows db \<and> approvals db' = approvals db"

lemma campaign_inv_same: "campaign_inv st db \<Longrightarrow> same_tables db db' \<Longrightarrow> campaign_inv st db'"
  by (simp add: campaign_inv_def same_tables_def workflow_ok_def approval_ok_def one_active_def)

lemma campaign_invD:
  assumes "campaign_inv st db"
  shows "distinct (map c_id (campaigns db))" and "distinct (map wf_id (workflows db))"
    and "distinct (map ap_workflow_id (approvals db))"
    and "\<And>w. w \<in> set (workflows db) \<Longrightarrow> workflow_ok st db w"
    and "\<And>a. a \<in> set (approvals db) \<Longrightarrow> approval_ok db a"
    and "\<And>w w'. w \<in> set (workflows db) \<Longrightarrow> w' \<in> set (workflows db) \<Longrightarrow> active_workflow w \<Longrightarrow>
      active_workflow w' \<Longrightarrow> wf_campaign_id w = wf_campaign_id w' \<Longrightarrow> w = w'"
  using assms by (auto simp: campaign_inv_def one_active_def)

subsection \<open>Changes of one workflow and its campaign\<close>

lemma put_pair_campaigns:
  "get_campaign db k \<noteq> None \<Longrightarrow> get_campaign (put_pair w c db) k \<noteq> None"
  unfolding put_pair_def put_campaign_def by (simp add: campaign_table.put_keeps_rows)

lemma put_pair_workflow:
  assumes "get_workflow_row db (wf_id w) = Some w0"
  shows "get_workflow_row (put_pair w c db) k = (if k = wf_id w then Some w else get_workflow_row db k)"
  using assms by (auto simp: put_pair_def put_workflow_def put_campaign_def workflow_table.get_put)

lemma put_pair_simps [simp]:
  "map c_id (campaigns (put_pair w c db)) = map c_id (campaigns db)"
  "map wf_id (workflows (put_pair w c db)) = map wf_id (workflows db)"
  "approvals (put_pair w c db) = approvals db" "events (put_pair w c db) = events db"
  "memories (put_pair w c db) = memories db" "requests (put_pair w c db) = requests db"
  "executions (put_pair w c db) = executions db" "agent_runs (put_pair w c db) = agent_runs db"
  by (simp_all add: put_pair_def put_campaign_def put_workflow_def)

lemma put_pair_workflows:
  assumes "distinct (map wf_id (workflows db))" and "get_workflow_row db (wf_id w) = Some w0"
  shows "x \<in> set (workflows (put_pair w c db)) \<longleftrightarrow> x = w \<or> (x \<in> set (workflows db) \<and> wf_id x \<noteq> wf_id w)"
  using assms by (auto simp: put_pair_def put_workflow_def put_campaign_def set_t_put_iff dest!: t_get_SomeD)

text \<open>A change that keeps the row well-formed, completed if it was, and not active if it was not.\<close>

definition fair_change :: "workflow_row \<Rightarrow> workflow_row \<Rightarrow> bool" where
  "fair_change w w' \<longleftrightarrow>
     wf_id w' = wf_id w \<and> wf_campaign_id w' = wf_campaign_id w \<and>
     (wf_completed_at w \<noteq> None \<longrightarrow> wf_completed_at w' \<noteq> None) \<and>
     (active_workflow w' \<longrightarrow> active_workflow w)"

lemma campaign_inv_put_pair:
  assumes inv: "campaign_inv st db" and w: "get_workflow_row db k = Some w"
    and fair: "fair_change w w'" and ok: "workflow_ok st db w'"
  shows "campaign_inv st (put_pair w' c' db)"
proof -
  note i = campaign_invD [OF inv]
  have mem: "w \<in> set (workflows db)" and id: "wf_id w = k" using w by (auto dest: t_get_SomeD)
  have w': "get_workflow_row db (wf_id w') = Some w" using w id fair by (simp add: fair_change_def)
  note in_new = put_pair_workflows [OF i(2) w', of _ c']
  have ok': "workflow_ok st (put_pair w' c' db) x" if "x \<in> set (workflows (put_pair w' c' db))" for x
  proof -
    have "workflow_ok st db x" using that ok i(4) by (auto simp: in_new)
    then show ?thesis using put_pair_campaigns [of db _ w' c'] by (auto simp: workflow_ok_def)
  qed
  have ap: "approval_ok (put_pair w' c' db) a" if "a \<in> set (approvals db)" for a
    using i(5) [OF that] fair w' id
    by (auto simp: approval_ok_def put_pair_workflow [OF w'] fair_change_def)
  have "x = y" if "x \<in> set (workflows (put_pair w' c' db))" "y \<in> set (workflows (put_pair w' c' db))"
    "active_workflow x" "active_workflow y" "wf_campaign_id x = wf_campaign_id y" for x y
    using that fair i(6) mem unfolding in_new fair_change_def by metis
  then show ?thesis
    using i ok' ap by (simp add: campaign_inv_def one_active_def)
qed

lemma workflow_ok_of:
  "campaign_inv st db \<Longrightarrow> get_workflow_row db k = Some w \<Longrightarrow> workflow_ok st db w"
  by (auto simp: campaign_inv_def dest: t_get_SomeD)

subsection \<open>The transactions\<close>

lemma t_put_map_id:
  assumes "distinct (map key t)" and "t_get key t k = Some r"
  shows "t_put key t r = t"
proof -
  have "r = x" if "x \<in> set t" "key x = key r" for x
    using that t_get_in_set [OF assms(1) that(1)] t_get_SomeD [OF assms(2)] assms(2) by simp
  then show ?thesis by (auto simp: t_put_def intro!: map_idI)
qed

lemma moved_pair_inv:
  assumes inv: "campaign_inv st db" and w0: "get_workflow_row db k = Some w0"
    and w: "fair_change w0 w" and ok: "workflow_ok st db w"
    and s: "can_transition (wf_status w0) s" "s \<noteq> CS_APPROVED"
  shows "campaign_inv st (moved_pair s step w c db)"
  unfolding moved_pair_def
proof (rule campaign_inv_put_pair [OF inv w0])
  have "wf_status w0 \<in> set active_workflow_statuses"
    using s(1) by (cases "wf_status w0") (auto simp: can_transition_def active_workflow_statuses_def)
  then show "fair_change w0 (w\<lparr>wf_status := s, wf_current_step := step\<rparr>)"
    using w by (auto simp: fair_change_def active_workflow_def)
  show "workflow_ok st db (w\<lparr>wf_status := s, wf_current_step := step\<rparr>)"
    using ok s(2) by (simp add: workflow_ok_def)
qed

lemma fair_change_refl [simp]: "fair_change w w"
  by (simp add: fair_change_def)

lemma transition_locked_inv:
  assumes inv: "campaign_inv st db" and w0: "get_workflow_row db k = Some w0"
    and w: "fair_change w0 w" "workflow_ok st db w" "wf_status w = wf_status w0" and s: "s \<noteq> CS_APPROVED"
    and r: "transition_locked w c s step db = Inr db'"
  shows "campaign_inv st db'"
  using r moved_pair_inv [OF inv w0 w(1,2) _ s] w(3)
  by (auto simp: transition_locked_def result_simps)

lemma transition_checkpoint_inv:
  assumes inv: "campaign_inv st db" and s: "s \<noteq> CS_APPROVED"
    and r: "transition_checkpoint k e s step db = (res, db')"
  shows "campaign_inv st db'"
proof (cases res)
  case (Inl x)
  then show ?thesis using r inv by (auto simp: transition_checkpoint_def dest!: atomically_InlD)
next
  case (Inr u)
  then obtain w c where w: "get_workflow_row db k = Some w" "wf_status w = e" "can_transition e s"
    and db': "db' = moved_pair s step w c db"
    using r by (auto simp: transition_checkpoint_def ensure_expected_status_def result_simps
        load_locked_pair_Inr dest!: atomically_InrD)
  show ?thesis
    unfolding db' using w s workflow_ok_of [OF inv w(1)] by (intro moved_pair_inv [OF inv w(1)]) auto
qed

lemma save_analysis_inv:
  assumes inv: "campaign_inv st db" and r: "save_analysis_checkpoint k a db = (res, db')"
  shows "campaign_inv st db'"
proof (cases res)
  case (Inl x)
  then show ?thesis using r inv by (auto simp: save_analysis_checkpoint_def dest!: atomically_InlD)
next
  case (Inr u)
  then obtain w c where w: "get_workflow_row db k = Some w"
    and t: "transition_locked w (c\<lparr>brief_analysis := Some a\<rparr>) CS_GENERATING WS_GENERATE_CONTENT db = Inr db'"
    using r by (auto simp: save_analysis_checkpoint_def result_simps load_locked_pair_Inr
        dest!: atomically_InrD)
  show ?thesis
    using transition_locked_inv [OF inv w _ _ _ _ t] workflow_ok_of [OF inv w] by simp
qed

lemma save_content_inv:
  assumes inv: "campaign_inv st db" and r: "save_content_checkpoint k a db = (res, db')"
  shows "campaign_inv st db'"
proof (cases res)
  case (Inl x)
  then show ?thesis using r inv by (auto simp: save_content_checkpoint_def dest!: atomically_InlD)
next
  case (Inr u)
  then obtain w c where w: "get_workflow_row db k = Some w"
    and t: "transition_locked w (c\<lparr>generated_content := Some a\<rparr>) CS_REVIEWING WS_REVIEW_CONTENT db = Inr db'"
    using r by (auto simp: save_content_checkpoint_def result_simps load_locked_pair_Inr
        dest!: atomically_InrD)
  show ?thesis
    using transition_locked_inv [OF inv w _ _ _ _ t] workflow_ok_of [OF inv w] by simp
qed

lemma record_event_same: "record_event sv env r db = (res, db') \<Longrightarrow> same_tables db db'"
proof (cases res)
  case (Inl x)
  then show "record_event sv env r db = (res, db') \<Longrightarrow> same_tables db db'"
    by (auto simp: record_event_def same_tables_def dest!: atomically_InlD)
next
  case (Inr m)
  then show "record_event sv env r db = (res, db') \<Longrightarrow> same_tables db db'"
    by (auto simp: record_event_def same_tables_def result_simps Let_def dest!: atomically_InrD
        split: if_splits option.splits)
qed

lemma add_outbox_event_same: "add_outbox_event sv env r db = Inr db' \<Longrightarrow> same_tables db db'"
  by (auto simp: add_outbox_event_def same_tables_def result_simps)

lemma review_target_facts:
  assumes "review_target st q w = (s, step, retry)"
  shows "s \<noteq> CS_APPROVED" and "retry \<Longrightarrow> wf_retry_count w < max_content_retries st"
  using assms by (auto simp: review_target_def split: if_splits)

lemma review_transaction_inv:
  assumes inv: "campaign_inv (sv_settings sv) db" and r: "review_transaction sv env k q db = Inr (v, db')"
  shows "campaign_inv (sv_settings sv) db'"
proof -
  obtain s step retry w0 c0 where t: "review_target (sv_settings sv) q w0 = (s, step, retry)"
    and l: "load_locked_pair k db = Inr (w0, c0)"
    using r by (auto simp: review_transaction_def result_simps) (metis prod_cases3)
  let ?w = "retried_workflow retry (reviewed_workflow q w0)"
  obtain db1 where d1: "transition_locked ?w (retried_campaign retry (reviewed_campaign q c0)) s step db = Inr db1"
    and d2: "same_tables db1 db'"
    using r t l by (cases retry)
      (auto simp: review_transaction_def result_simps Let_def same_tables_def dest: add_outbox_event_same)
  have w0: "get_workflow_row db k = Some w0" using l by (simp add: load_locked_pair_Inr)
  have "workflow_ok (sv_settings sv) db w0" using workflow_ok_of [OF inv w0] .
  then have "workflow_ok (sv_settings sv) db ?w"
    using review_target_facts(2) [OF t]
    by (auto simp: workflow_ok_def retried_workflow_def reviewed_workflow_def)
  moreover have "fair_change w0 ?w" "wf_status ?w = wf_status w0"
    by (auto simp: fair_change_def retried_workflow_def reviewed_workflow_def active_workflow_def)
  ultimately have "campaign_inv (sv_settings sv) db1"
    using transition_locked_inv [OF inv w0 _ _ _ _ d1] review_target_facts(1) [OF t] by blast
  then show ?thesis using d2 by (rule campaign_inv_same)
qed


lemma same_tables_trans: "same_tables a b \<Longrightarrow> same_tables b c \<Longrightarrow> same_tables a c"
  by (simp add: same_tables_def)

lemma same_tables_refl [simp]: "same_tables a a"
  by (simp add: same_tables_def)

text \<open>Sessions that leave the three tables alone.\<close>

definition quiet :: "(app_db, 'a) session \<Rightarrow> bool" where
  "quiet m \<longleftrightarrow> (\<forall>db. same_tables db (snd (m db)))"

lemma quietD: "quiet m \<Longrightarrow> m db = (res, db') \<Longrightarrow> same_tables db db'"
  unfolding quiet_def by (metis snd_conv)

lemma quiet_returns [intro]: "quiet (returns a)"
  by (simp add: quiet_def)

lemma quiet_record_event [intro]: "quiet (record_event sv env r)"
  unfolding quiet_def by (metis prod.collapse record_event_same)

lemma quiet_and_session [intro]:
  assumes m: "quiet m" and f: "\<And>a. quiet (f a)"
  shows "quiet (and_session m f)"
  unfolding quiet_def
proof
  fix db
  obtain r db1 where m1: "m db = (r, db1)" by (meson surj_pair)
  then have "same_tables db db1" using m by (rule quietD [rotated])
  then show "same_tables db (snd (and_session m f db))"
    using m1 f same_tables_trans by (cases r) (auto simp: quiet_def and_session_def)
qed

lemma quiet_do_when [intro]: "quiet m \<Longrightarrow> quiet (do_when b m)"
  by (cases b) (auto simp: do_when_def)

text \<open>After its transaction the review's checkpoint only writes memories.\<close>

lemma save_review_cases:
  assumes "save_review_decision_checkpoint sv env k q db = (res, db')"
  obtains (rejected) x where "review_transaction sv (env 0) k q db = Inl x" "db' = db"
    | (saved) v db1 where "review_transaction sv (env 0) k q db = Inr (v, db1)" "same_tables db1 db'"
proof (cases "review_transaction sv (env 0) k q db")
  case (Inl x)
  then have "atomically (review_transaction sv (env 0) k q) db = (Inl x, db)" by (simp only: atomically_Inl)
  then have "db' = db"
    using assms by (simp only: save_review_decision_checkpoint_def and_session_Inl prod.inject)
  then show ?thesis using Inl rejected by blast
next
  case (Inr r)
  obtain v db1 where v: "r = (v, db1)" by (cases r)
  obtain w cid retry revised where "v = (w, cid, retry, revised)" by (cases v)
  with v have r: "r = ((w, cid, retry, revised), db1)" by simp
  let ?rest = "and_session (record_event sv (env 1) (feedback_memory q w cid)) (\<lambda>_.
     and_session (do_when retry (record_event sv (env 2) (retry_memory q w cid))) (\<lambda>_.
     do_when revised (record_event sv (env 3) (revision_memory q w cid))))"
  have "quiet ?rest" by (intro quiet_and_session quiet_do_when quiet_record_event)
  moreover have "atomically (review_transaction sv (env 0) k q) db = (Inr (w, cid, retry, revised), db1)"
    using Inr r by (simp only: atomically_Inr)
  then have "?rest db1 = (res, db')"
    using assms by (simp only: save_review_decision_checkpoint_def and_session_Inr prod.case)
  ultimately have "same_tables db1 db'" by (rule quietD)
  then show ?thesis using saved Inr r by blast
qed

lemma save_review_inv:
  assumes "campaign_inv (sv_settings sv) db" and "save_review_decision_checkpoint sv env k q db = (res, db')"
  shows "campaign_inv (sv_settings sv) db'"
  using assms(2)
proof (cases rule: save_review_cases)
  case rejected
  then show ?thesis using assms(1) by simp
next
  case (saved v db1)
  then show ?thesis using review_transaction_inv [OF assms(1) saved(1)] campaign_inv_same by blast
qed

lemma failure_transaction_inv:
  assumes inv: "campaign_inv st db" and r: "failure_transaction sv env k x db = Inr (u, db')"
  shows "campaign_inv st db'"
proof (cases "db' = db")
  case False
  then obtain w c code message where l: "load_locked_pair k db = Inr (w, c)"
    and same: "same_tables (put_pair (failed_workflow (env_now env) code message w)
        (c\<lparr>c_status := CS_FAILED\<rparr>) db) db'"
    using r by (auto simp: failure_transaction_def result_simps Let_def dest!: add_outbox_event_same
        split: if_splits)
  have w: "get_workflow_row db k = Some w" using l by (simp add: load_locked_pair_Inr)
  have "campaign_inv st (put_pair (failed_workflow (env_now env) code message w)
      (c\<lparr>c_status := CS_FAILED\<rparr>) db)"
  proof (rule campaign_inv_put_pair [OF inv w])
    show "fair_change w (failed_workflow (env_now env) code message w)"
      by (auto simp: fair_change_def failed_workflow_def active_workflow_def active_workflow_statuses_def)
    show "workflow_ok st db (failed_workflow (env_now env) code message w)"
      using workflow_ok_of [OF inv w] by (simp add: workflow_ok_def failed_workflow_def)
  qed
  then show ?thesis using same by (rule campaign_inv_same)
qed (use inv in simp)

lemma persist_failure_inv:
  "campaign_inv st db \<Longrightarrow> campaign_inv st (persist_failure sv env k x db)"
  unfolding persist_failure_def atomically_def
  by (auto split: sum.splits dest: failure_transaction_inv)

lemma handle_failure_inv:
  "campaign_inv st db \<Longrightarrow> handle_failure sv env k x db = (y, db') \<Longrightarrow> campaign_inv st db'"
  by (auto simp: handle_failure_def Let_def persist_failure_inv split: if_splits)

lemma decide_transaction_inv:
  assumes inv: "campaign_inv st db" and r: "decide_transaction env r actor role db = Inr (a, db')"
  shows "campaign_inv st db'"
proof -
  note i = campaign_invD [OF inv]
  let ?d = "ar_decision r"
  obtain w c where c: "get_campaign db (ar_campaign_id r) = Some c"
    and w: "get_workflow_row db (ar_workflow_id r) = Some w" "wf_campaign_id w = ar_campaign_id r"
      "wf_status w = CS_PENDING_APPROVAL"
    and role: "role \<in> set approver_roles" and new: "\<not> has_final_decision (ar_workflow_id r) db"
    and a: "a = new_approval env r actor role (c_version c) (c_version (decided_campaign ?d c))"
    and db': "db' = (put_pair (decided_workflow (env_now env) ?d w) (decided_campaign ?d c) db)
      \<lparr>approvals := approvals db @ [a]\<rparr>"
    using r by (auto simp: decide_transaction_def result_simps get_workflow_def get_campaign_record_def Let_def)
  let ?w = "decided_workflow (env_now env) ?d w"
  let ?db1 = "db\<lparr>approvals := approvals db @ [a]\<rparr>"
  have id: "wf_id w = ar_workflow_id r" using w(1) by (auto dest: t_get_SomeD)
  have fair: "fair_change w ?w"
    by (auto simp: fair_change_def decided_workflow_def active_workflow_def)
  have wid: "get_workflow_row db (wf_id ?w) = Some w" using w(1) id by (simp add: decided_workflow_def)
  note in_new = put_pair_workflows [OF i(2) wid, of _ "decided_campaign ?d c"]
  have at: "get_workflow_row db' n = (if n = ar_workflow_id r then Some ?w else get_workflow_row db n)" for n
    using put_pair_workflow [OF wid] id by (simp add: db' decided_workflow_def)
  have w_new: "wf_completed_at ?w \<noteq> None" "wf_campaign_id ?w = ar_campaign_id r"
    using w(2) by (simp_all add: decided_workflow_def)
  have ok: "workflow_ok st db' x" if "x \<in> set (workflows db')" for x
  proof -
    have "x = ?w \<or> x \<in> set (workflows db)" using that by (auto simp: db' in_new)
    moreover have "workflow_ok st db w" using workflow_ok_of [OF inv w(1)] .
    ultimately show ?thesis
      using i(4) [of x] put_pair_campaigns [of db _ ?w "decided_campaign ?d c"] id
      by (cases ?d) (auto simp: workflow_ok_def db' decided_workflow_def a new_approval_def)
  qed
  have ap: "approval_ok db' b" if "b \<in> set (approvals db')" for b
  proof (cases "b = a")
    case True
    then show ?thesis
      using w_new role by (simp add: approval_ok_def at a new_approval_def decided_campaign_def)
  next
    case False
    then have "approval_ok db b" using that i(5) by (simp add: db')
    then show ?thesis using w(1,2) w_new by (auto simp: approval_ok_def at)
  qed
  have "x = y" if "x \<in> set (workflows db')" "y \<in> set (workflows db')"
    "active_workflow x" "active_workflow y" "wf_campaign_id x = wf_campaign_id y" for x y
  proof -
    have "\<not> active_workflow ?w" by (simp add: active_workflow_def decided_workflow_def)
    then show ?thesis using that i(6) by (auto simp: db' in_new)
  qed
  moreover have "ap_workflow_id a \<notin> ap_workflow_id ` set (approvals db)"
    using new by (auto simp: has_final_decision_def find_None_iff a new_approval_def)
  ultimately show ?thesis
    using i(1,2,3) ok ap by (simp add: campaign_inv_def one_active_def db')
qed

lemma decide_cases:
  assumes "decide sv env env' r actor role db = (res, db')"
  obtains (rejected) x where "decide_transaction env r actor role db = Inl x" "res = Inl x" "db' = db"
    | (decided) a db1 where "decide_transaction env r actor role db = Inr (a, db1)" "same_tables db1 db'"
proof (cases "decide_transaction env r actor role db")
  case (Inl x)
  then have "atomically (decide_transaction env r actor role) db = (Inl x, db)" by (simp only: atomically_Inl)
  then have "res = Inl x \<and> db' = db"
    using assms by (auto simp: decide_def and_session_Inl)
  then show ?thesis using Inl rejected by blast
next
  case (Inr v)
  obtain a db1 where v: "v = (a, db1)" by (cases v)
  have "quiet (and_session (record_event sv env' (decision_memory a)) (\<lambda>_. returns a))"
    by (intro quiet_and_session quiet_record_event quiet_returns)
  moreover have "atomically (decide_transaction env r actor role) db = (Inr a, db1)"
    using Inr v by (simp only: atomically_Inr)
  then have "and_session (record_event sv env' (decision_memory a)) (\<lambda>_. returns a) db1 = (res, db')"
    using assms by (simp only: decide_def and_session_Inr)
  ultimately have "same_tables db1 db'" by (rule quietD)
  then show ?thesis using decided Inr v by blast
qed

lemma decide_inv:
  assumes inv: "campaign_inv st db" and r: "decide sv env env' r actor role db = (res, db')"
  shows "campaign_inv st db'"
  using r
proof (cases rule: decide_cases)
  case (decided a db1)
  then show ?thesis using decide_transaction_inv [OF inv] campaign_inv_same by blast
qed (use inv in simp)

lemma create_campaign_inv:
  assumes inv: "campaign_inv st db" and r: "create_campaign now b by run cas db = Inr (c, db')"
  shows "campaign_inv st db'"
proof -
  have new: "cb_campaign_id b \<notin> c_id ` set (campaigns db)" and c: "c_id c = cb_campaign_id b"
    and db': "db' = db\<lparr>campaigns := campaigns db @ [c]\<rparr>"
    using r by (auto simp: create_campaign_def t_get_None_iff new_campaign_def c_id_def Let_def split: if_splits)
  have "get_campaign db' k \<noteq> None" if "get_campaign db k \<noteq> None" for k
    using that by (auto simp: db' t_get_append split: option.splits)
  then show ?thesis
    using inv new c by (auto simp: campaign_inv_def workflow_ok_def approval_ok_def one_active_def db')
qed

lemma put_campaign_inv:
  assumes inv: "campaign_inv st db" and c: "get_campaign db (c_id c') = Some c"
  shows "campaign_inv st (put_campaign c' db)"
proof -
  have "get_campaign (put_campaign c' db) k \<noteq> None" if "get_campaign db k \<noteq> None" for k
    using that unfolding put_campaign_def by (simp add: campaign_table.put_keeps_rows)
  moreover have "map c_id (campaigns (put_campaign c' db)) = map c_id (campaigns db)"
    by (simp add: put_campaign_def)
  ultimately show ?thesis
    using inv by (auto simp: campaign_inv_def workflow_ok_def approval_ok_def one_active_def)
qed

lemma record_llm_call_inv:
  assumes inv: "campaign_inv st db" and r: "record_llm_call st k db = Inr (u, db')"
  shows "campaign_inv st db'"
proof -
  obtain w c where w: "get_workflow_row db k = Some w" "get_campaign db (wf_campaign_id w) = Some c"
    and db': "db' = put_workflow (w\<lparr>wf_llm_call_count := wf_llm_call_count w + 1\<rparr>) db"
    using r by (auto simp: record_llm_call_def load_locked_pair_Inr result_simps)
  let ?w = "w\<lparr>wf_llm_call_count := wf_llm_call_count w + 1\<rparr>"
  have "t_put c_id (campaigns db) c = campaigns db"
    using w(2) inv t_put_map_id [of c_id "campaigns db"] by (simp add: campaign_inv_def)
  then have "db' = put_pair ?w c db"
    by (simp add: db' put_pair_def put_campaign_def put_workflow_def)
  moreover have "campaign_inv st (put_pair ?w c db)"
    using workflow_ok_of [OF inv w(1)]
    by (intro campaign_inv_put_pair [OF inv w(1)]) (auto simp: fair_change_def active_workflow_def workflow_ok_def)
  ultimately show ?thesis by simp
qed

lemma add_workflow_inv:
  assumes inv: "campaign_inv st db" and r: "add_workflow w db = Inr (w', db')"
    and new: "wf_id w \<notin> wf_id ` set (workflows db)" and ok: "workflow_ok st db w"
    and free: "\<And>x. x \<in> set (workflows db) \<Longrightarrow> active_workflow x \<Longrightarrow> wf_campaign_id x \<noteq> wf_campaign_id w"
  shows "campaign_inv st db'"
proof -
  have db': "db' = db\<lparr>workflows := workflows db @ [w]\<rparr>" using r by (auto simp: add_workflow_def split: if_splits)
  note i = campaign_invD [OF inv]
  have "approval_ok db' a" if "a \<in> set (approvals db)" for a
    using i(5) [OF that] by (auto simp: approval_ok_def db' t_get_append)
  moreover have "workflow_ok st db' x" if "x \<in> set (workflows db')" for x
    using that i(4) ok by (auto simp: workflow_ok_def db')
  moreover have "one_active db'"
    using i(6) free by (fastforce simp: one_active_def db')
  ultimately show ?thesis using i(1-3) new by (auto simp: campaign_inv_def db')
qed

lemma active_is_found:
  assumes "get_active_for_campaign k db = None" and "w \<in> set (workflows db)" and "active_workflow w"
  shows "wf_campaign_id w \<noteq> k"
proof
  assume k: "wf_campaign_id w = k"
  let ?rows = "filter (\<lambda>w. wf_campaign_id w = k \<and> active_workflow w) (workflows db)"
  have "?rows \<noteq> []" using assms(2,3) k by (auto simp: filter_empty_conv)
  then have "order_limit (\<lambda>w. - wf_started_at w) 1 ?rows \<noteq> []"
    by (simp add: order_limit_def) (metis length_0_conv length_sort)
  then show False using assms(1) by (auto simp: get_active_for_campaign_def split: list.splits)
qed

lemma create_workflow_inv:
  assumes inv: "campaign_inv st db" and r: "create_workflow env k db = Inr (w, db')"
    and new: "env_row_id env \<notin> wf_id ` set (workflows db)" and max: "0 \<le> max_content_retries st"
  shows "campaign_inv st db'"
proof -
  obtain c where c: "get_campaign db k = Some c" and none: "get_active_for_campaign k db = None"
    using r by (auto simp: create_workflow_def get_campaign_record_def result_simps)
  have id: "c_id c = k" using c by (auto dest: t_get_SomeD)
  obtain s step parent n where add: "add_workflow (new_workflow env c s step parent n) db = Inr (w, db')"
    and s: "s \<noteq> CS_APPROVED"
    using r c by (auto simp: create_workflow_def get_campaign_record_def result_simps split: if_splits)
  have "0 \<le> n" using add by (auto simp: add_workflow_def new_workflow_def split: if_splits)
  show ?thesis
  proof (rule add_workflow_inv [OF inv add])
    show "workflow_ok st db (new_workflow env c s step parent n)"
      using c id s max \<open>0 \<le> n\<close> by (simp add: workflow_ok_def new_workflow_def)
    show "wf_campaign_id x \<noteq> wf_campaign_id (new_workflow env c s step parent n)"
      if "x \<in> set (workflows db)" "active_workflow x" for x
      using active_is_found [OF none that] id by (simp add: new_workflow_def)
  qed (use new in \<open>simp add: new_workflow_def\<close>)
qed

lemma guard_transition_inv:
  assumes inv: "campaign_inv st db" and r: "guard_transition g s step db = Inr (u, db')"
    and s: "s \<noteq> CS_APPROVED"
  shows "campaign_inv st db'"
proof -
  obtain w c where w: "get_workflow_row db (g_workflow_id g) = Some w" "can_transition (wf_status w) s"
    and db': "db' = moved_pair s step w c db"
    using r by (auto simp: guard_transition_def guarded_pair_Inr result_simps moved_pair_def)
  show ?thesis
    unfolding db' using w s workflow_ok_of [OF inv w(1)] by (intro moved_pair_inv [OF inv w(1)]) auto
qed

end
