(* ===== verification/Campaign_Steps.thy ===== *)
theory Campaign_Steps
  imports Campaign_Invariant
begin

text \<open>
  The system of campaigns as a step relation, and the workflow's loop as a client of it: the
  loop only takes steps of the system, and its fuel suffices.
\<close>

text \<open>The transitions the loop's checkpoints ask for.\<close>

definition loop_transitions :: "(campaign_status \<times> campaign_status \<times> workflow_step) list" where
  "loop_transitions =
     [(CS_RECEIVED, CS_VALIDATING, WS_VALIDATE_INPUT), (CS_VALIDATING, CS_ANALYZING, WS_ANALYZE_BRIEF),
      (CS_REVISION_REQUIRED, CS_GENERATING, WS_GENERATE_CONTENT),
      (CS_GENERATING, CS_ANALYZING, WS_ANALYZE_BRIEF), (CS_REVIEWING, CS_GENERATING, WS_GENERATE_CONTENT)]"

text \<open>The transitions the handlers of actions ask for.\<close>

definition action_transitions :: "(campaign_status \<times> workflow_step) list" where
  "action_transitions =
     [(CS_GENERATING, WS_GENERATE_CONTENT), (CS_MANUAL_REVIEW_REQUIRED, WS_HUMAN_REVIEW)]"

inductive campaign_step :: "services \<Rightarrow> app_db \<Rightarrow> app_db \<Rightarrow> bool" for sv where
  create: "create_campaign now b by run cas db = Inr (c, db') \<Longrightarrow> campaign_step sv db db'"
| update: "update_campaign k b db = Inr (c, db') \<Longrightarrow> campaign_step sv db db'"
| metadata: "update_metadata k u db = Inr (c, db') \<Longrightarrow> campaign_step sv db db'"
| workflow: "create_workflow env k db = Inr (w, db') \<Longrightarrow> env_row_id env \<notin> wf_id ` set (workflows db) \<Longrightarrow>
    campaign_step sv db db'"
| llm_call: "record_llm_call (sv_settings sv) wk db = Inr (u, db') \<Longrightarrow> campaign_step sv db db'"
| transition: "(e, s, p) \<in> set loop_transitions \<Longrightarrow> transition_checkpoint wk e s p db = (res, db') \<Longrightarrow>
    campaign_step sv db db'"
| analysis: "save_analysis_checkpoint wk a db = (res, db') \<Longrightarrow> campaign_step sv db db'"
| content: "save_content_checkpoint wk a db = (res, db') \<Longrightarrow> campaign_step sv db db'"
| review: "save_review_decision_checkpoint sv envs wk q db = (res, db') \<Longrightarrow> campaign_step sv db db'"
| failure: "persist_failure sv env wk x db = db' \<Longrightarrow> campaign_step sv db db'"
| decide: "decide sv env env' r actor role db = (res', db') \<Longrightarrow> campaign_step sv db db'"
| action: "(s, p) \<in> set action_transitions \<Longrightarrow> guard_transition g s p db = Inr (u, db') \<Longrightarrow>
    campaign_step sv db db'"
| action_metadata: "guard_update_metadata g mu db = Inr (u, db') \<Longrightarrow> campaign_step sv db db'"
| other: "same_tables db db' \<Longrightarrow> campaign_step sv db db'"

inductive campaign_reachable :: "services \<Rightarrow> app_db \<Rightarrow> bool" for sv where
  start: "campaign_reachable sv no_rows"
| step: "campaign_reachable sv db \<Longrightarrow> campaign_step sv db db' \<Longrightarrow> campaign_reachable sv db'"

inductive_cases campaign_stepE: "campaign_step sv db db'"

lemma update_campaign_inv:
  "campaign_inv st db \<Longrightarrow> update_campaign k b db = Inr (c, db') \<Longrightarrow> campaign_inv st db'"
  by (auto simp: update_campaign_def get_campaign_record_def result_simps Let_def c_id_def
      intro!: put_campaign_inv dest: t_get_SomeD)

lemma put_metadata_inv:
  "campaign_inv st db \<Longrightarrow> get_campaign db k = Some c \<Longrightarrow> campaign_inv st (put_campaign (metadata_row u c) db)"
  using put_campaign_inv [of st db "metadata_row u c" c] t_get_SomeD [of c_id "campaigns db" k c] by simp

lemma update_metadata_inv:
  "campaign_inv st db \<Longrightarrow> update_metadata k u db = Inr (c, db') \<Longrightarrow> campaign_inv st db'"
  by (auto simp: update_metadata_def get_campaign_record_def result_simps Let_def put_metadata_inv)

lemma guard_update_metadata_inv:
  "campaign_inv st db \<Longrightarrow> guard_update_metadata g u db = Inr (v, db') \<Longrightarrow> campaign_inv st db'"
  by (auto simp: guard_update_metadata_def guarded_pair_Inr result_simps put_metadata_inv)

lemma loop_transition_not_approved: "(e, s, p) \<in> set loop_transitions \<Longrightarrow> s \<noteq> CS_APPROVED"
  by (auto simp: loop_transitions_def)

lemma action_transition_not_approved: "(s, p) \<in> set action_transitions \<Longrightarrow> s \<noteq> CS_APPROVED"
  by (auto simp: action_transitions_def)

lemma campaign_step_inv:
  assumes "campaign_step sv db db'" and "campaign_inv (sv_settings sv) db"
    and "0 \<le> max_content_retries (sv_settings sv)"
  shows "campaign_inv (sv_settings sv) db'"
  using assms
proof (cases rule: campaign_step.cases)
  case transition
  then show ?thesis using assms(2) transition_checkpoint_inv loop_transition_not_approved by metis
next
  case action
  then show ?thesis using assms(2) guard_transition_inv action_transition_not_approved by metis
next
  case failure
  then show ?thesis using assms(2) persist_failure_inv by metis
qed (use assms(2,3) in \<open>blast intro: create_campaign_inv update_campaign_inv update_metadata_inv
    create_workflow_inv record_llm_call_inv save_analysis_inv save_content_inv save_review_inv
    decide_inv guard_update_metadata_inv campaign_inv_same\<close>)+

lemma reachable_campaign_inv:
  "campaign_reachable sv db \<Longrightarrow> 0 \<le> max_content_retries (sv_settings sv) \<Longrightarrow>
   campaign_inv (sv_settings sv) db"
proof (induction rule: campaign_reachable.induct)
  case start
  show ?case by (simp add: campaign_inv_def no_rows_def one_active_def)
next
  case (step db db')
  then show ?case by (blast intro: campaign_step_inv)
qed

subsection \<open>The loop takes steps of the system\<close>

text \<open>
  What the workflow asks of its orchestrator: from a reachable state an agent's run ends in one.
\<close>

definition tame :: "services \<Rightarrow> (app_db, 'a) session \<Rightarrow> bool" where
  "tame sv m \<longleftrightarrow> (\<forall>db. campaign_reachable sv db \<longrightarrow> campaign_reachable sv (snd (m db)))"

definition tame_orchestrator :: "services \<Rightarrow> orchestrator \<Rightarrow> bool" where
  "tame_orchestrator sv orch \<longleftrightarrow>
     (\<forall>c k. tame sv (run_brief_analysis orch c k) \<and> tame sv (run_content_generation orch c k) \<and>
        tame sv (run_content_review orch c k))"

lemma tameD: "tame sv m \<Longrightarrow> campaign_reachable sv db \<Longrightarrow> m db = (res, db') \<Longrightarrow> campaign_reachable sv db'"
  unfolding tame_def by (metis snd_conv)

lemma tame_step: "(\<And>db res db'. m db = (res, db') \<Longrightarrow> campaign_step sv db db') \<Longrightarrow> tame sv m"
  unfolding tame_def by (metis campaign_reachable.step prod.collapse)

lemma tame_and_session:
  assumes m: "tame sv m" and f: "\<And>a. tame sv (f a)"
  shows "tame sv (and_session m f)"
  unfolding tame_def
proof (intro allI impI)
  fix db assume db: "campaign_reachable sv db"
  obtain r db1 where m1: "m db = (r, db1)" by (meson surj_pair)
  have "campaign_reachable sv db1" by (rule tameD [OF m db m1])
  then show "campaign_reachable sv (snd (and_session m f db))"
    using m1 f by (cases r) (auto simp: and_session_def tame_def)
qed

lemma tame_continue: "tame sv m \<Longrightarrow> tame sv (continue_with m)"
  unfolding continue_with_def by (rule tame_and_session) (auto simp: tame_def)

lemma tame_transition:
  "(e, s, p) \<in> set loop_transitions \<Longrightarrow> tame sv (continue_with (transition_checkpoint k e s p))"
  by (intro tame_continue tame_step) (rule campaign_step.transition)

lemma tame_agents:
  assumes "tame_orchestrator sv orch"
  shows "tame sv (continue_with (and_session (run_brief_analysis orch c k) (save_analysis_checkpoint k)))"
    and "tame sv (continue_with (and_session (run_content_generation orch c k) (save_content_checkpoint k)))"
    and "tame sv (continue_with (and_session (run_content_review orch c k)
      (save_review_decision_checkpoint sv env k)))"
proof -
  have a: "tame sv (save_analysis_checkpoint k x)" "tame sv (save_content_checkpoint k x)"
    "tame sv (save_review_decision_checkpoint sv env k q)" for x q
    by (auto intro!: tame_step intro: campaign_step.analysis campaign_step.content campaign_step.review)
  show "tame sv (continue_with (and_session (run_brief_analysis orch c k) (save_analysis_checkpoint k)))"
    "tame sv (continue_with (and_session (run_content_generation orch c k) (save_content_checkpoint k)))"
    "tame sv (continue_with (and_session (run_content_review orch c k)
      (save_review_decision_checkpoint sv env k)))"
    using assms a unfolding tame_orchestrator_def by (blast intro: tame_continue tame_and_session)+
qed

lemma iteration_reachable:
  assumes "tame_orchestrator sv orch" and "campaign_reachable sv db"
    and "workflow_iteration sv orch env k db = (res, db')"
  shows "campaign_reachable sv db'"
proof (cases "load_locked_pair k db")
  case (Inl x)
  then show ?thesis using assms(2,3) by (simp add: workflow_iteration_def)
next
  case (Inr p)
  obtain w c where p: "p = (w, c)" by (cases p)
  have loop: "campaign_reachable sv db''"
    if "(e, s, q) \<in> set loop_transitions"
      "continue_with (transition_checkpoint k e s q) db = (res, db'')" for e s q res db''
    using tameD [OF tame_transition [OF that(1)] assms(2) that(2)] .
  note t = loop [of CS_RECEIVED CS_VALIDATING WS_VALIDATE_INPUT]
    loop [of CS_VALIDATING CS_ANALYZING WS_ANALYZE_BRIEF]
    loop [of CS_REVISION_REQUIRED CS_GENERATING WS_GENERATE_CONTENT]
    loop [of CS_GENERATING CS_ANALYZING WS_ANALYZE_BRIEF]
    loop [of CS_REVIEWING CS_GENERATING WS_GENERATE_CONTENT]
  note t' = t [unfolded loop_transitions_def, simplified]
  note agents = tame_agents [OF assms(1), THEN tameD, OF assms(2)]
  show ?thesis
    using assms(2,3) Inr p
    by (cases "wf_status w")
      (auto simp: workflow_iteration_def stop_statuses_def split: if_splits intro: t' agents)
qed

lemma run_loop_reachable:
  assumes "tame_orchestrator sv orch" and "campaign_reachable sv db"
    and "run_loop sv orch env k n db = Some (res, db')"
  shows "campaign_reachable sv db'"
  using assms(2,3)
proof (induction n arbitrary: db)
  case 0
  then show ?case by simp
next
  case (Suc n)
  obtain r db1 where i: "workflow_iteration sv orch (env n) k db = (r, db1)" by (meson surj_pair)
  have "campaign_reachable sv db1" by (rule iteration_reachable [OF assms(1) Suc.prems(1) i])
  then show ?case
    using Suc.prems(2) Suc.IH i by (auto split: sum.splits option.splits)
qed

lemma run_reachable:
  assumes "tame_orchestrator sv orch" and "campaign_reachable sv db"
    and "run_to_pending_approval sv orch env k n db = Some (res, db')"
  shows "campaign_reachable sv db'"
proof -
  obtain r db1 where l: "run_loop sv orch env k n db = Some (r, db1)"
    using assms(3) by (auto simp: run_to_pending_approval_def split: option.splits)
  have r1: "campaign_reachable sv db1" by (rule run_loop_reachable [OF assms(1,2) l])
  have "campaign_reachable sv (persist_failure sv (env 0 4) k x db1)" for x
    by (rule campaign_reachable.step [OF r1 campaign_step.failure]) simp
  then show ?thesis
    using assms(3) l r1
    by (auto simp: run_to_pending_approval_def handle_failure_def Let_def split: sum.splits if_splits)
qed

end
