(* ===== verification/Campaign_Progress.thy ===== *)
theory Campaign_Progress
  imports Campaign_Steps
begin

text \<open>
  The workflow's loop ends: what is left to do, counted in iterations, decreases with every
  iteration that does not leave the loop, because a review asks for another attempt only while
  the retries last.
\<close>

fun iterations_left :: "campaign_status \<Rightarrow> nat \<Rightarrow> bool \<Rightarrow> nat" where
  "iterations_left CS_RECEIVED r fresh = 6 + 2 * r"
| "iterations_left CS_VALIDATING r fresh = 5 + 2 * r"
| "iterations_left CS_ANALYZING r fresh = 4 + 2 * r"
| "iterations_left CS_REVISION_REQUIRED r fresh = 4 + 2 * r"
| "iterations_left CS_GENERATING r fresh = 3 + 2 * r"
| "iterations_left CS_REVIEWING r fresh = (if fresh then 4 + 2 * r else 2 + 2 * r)"
| "iterations_left _ r fresh = 1"

definition work_left :: "app_settings \<Rightarrow> uuid \<Rightarrow> app_db \<Rightarrow> nat" where
  "work_left st k db =
     (case load_locked_pair k db of
        Inl x \<Rightarrow> 1
      | Inr (w, c) \<Rightarrow> iterations_left (wf_status w) (nat (max_content_retries st - wf_retry_count w))
          (generated_content c = None))"

text \<open>What an agent's run must leave alone for the loop's bound: the state of the pair.\<close>

definition pair_state :: "uuid \<Rightarrow> app_db \<Rightarrow> (campaign_status \<times> int \<times> bool \<times> bool) option" where
  "pair_state k db =
     (case load_locked_pair k db of
        Inl x \<Rightarrow> None
      | Inr (w, c) \<Rightarrow> Some (wf_status w, wf_retry_count w, brief_analysis c = None, generated_content c = None))"

definition steady :: "(app_db, 'a) session \<Rightarrow> bool" where
  "steady m \<longleftrightarrow> (\<forall>k db. pair_state k (snd (m db)) = pair_state k db)"

definition steady_orchestrator :: "orchestrator \<Rightarrow> bool" where
  "steady_orchestrator orch \<longleftrightarrow>
     (\<forall>c k. steady (run_brief_analysis orch c k) \<and> steady (run_content_generation orch c k) \<and>
        steady (run_content_review orch c k))"

lemma iterations_left_pos: "0 < iterations_left s r fresh"
  by (cases s) auto

lemma work_left_pos: "0 < work_left st k db"
  by (simp add: work_left_def iterations_left_pos split: sum.splits prod.splits)

lemma work_left_pair:
  "load_locked_pair k db = Inr (w, c) \<Longrightarrow>
   work_left st k db = iterations_left (wf_status w) (nat (max_content_retries st - wf_retry_count w))
     (generated_content c = None)"
  by (simp add: work_left_def)

lemma load_put_pair:
  assumes "load_locked_pair k db = Inr (w, c)" and "wf_id w' = wf_id w"
    and "wf_campaign_id w' = wf_campaign_id w" and "c_id c' = c_id c"
  shows "load_locked_pair k (put_pair w' c' db) = Inr (w', c')"
proof -
  have w: "get_workflow_row db k = Some w" and c: "get_campaign db (wf_campaign_id w) = Some c"
    using assms(1) by (auto simp: load_locked_pair_Inr)
  have "wf_id w = k" "c_id c = wf_campaign_id w" using w c by (auto dest: t_get_SomeD)
  then have "get_workflow_row (put_workflow w' db) k = Some w'"
    "get_campaign (put_campaign c' (put_workflow w' db)) (wf_campaign_id w) = Some c'"
    using w c assms(2,4) by (auto intro!: get_put_workflow get_put_campaign)
  then show ?thesis using assms(3) by (simp add: load_locked_pair_Inr put_pair_def)
qed

lemma load_moved_pair:
  assumes "load_locked_pair k db = Inr (w0, c0)" and "wf_id w = wf_id w0"
    and "wf_campaign_id w = wf_campaign_id w0" and "c_id c = c_id c0"
  shows "load_locked_pair k (moved_pair s p w c db) =
    Inr (w\<lparr>wf_status := s, wf_current_step := p\<rparr>, c\<lparr>c_status := s\<rparr>)"
  unfolding moved_pair_def using assms by (intro load_put_pair) (auto simp: c_id_def)

lemma load_same_tables: "same_tables db db' \<Longrightarrow> load_locked_pair k db' = load_locked_pair k db"
  by (simp add: same_tables_def load_locked_pair_def get_workflow_def get_campaign_record_def)

lemma steady_pair:
  assumes "steady m" and "load_locked_pair k db = Inr (w, c)" and "m db = (r, db1)"
  obtains w1 c1 where "load_locked_pair k db1 = Inr (w1, c1)" "wf_status w1 = wf_status w"
    "wf_retry_count w1 = wf_retry_count w" "(generated_content c1 = None) = (generated_content c = None)"
proof -
  have "pair_state k db1 = pair_state k db" using assms(1,3) by (metis snd_conv steady_def)
  then show ?thesis
    using assms(2) that by (auto simp: pair_state_def split: sum.splits prod.splits)
qed

lemma continue_withD:
  "continue_with m db = (Inr v, db') \<Longrightarrow> v = None \<and> (\<exists>u. m db = (Inr u, db'))"
  by (auto simp: continue_with_def and_session_def split: prod.splits sum.splits)

lemma transition_progress:
  assumes l: "load_locked_pair k db = Inr (w, c)"
    and r: "continue_with (transition_checkpoint k e s p) db = (Inr v, db')"
  shows "work_left st k db' =
    iterations_left s (nat (max_content_retries st - wf_retry_count w)) (generated_content c = None)"
    and "can_transition e s"
proof -
  have "db' = moved_pair s p w c db \<and> can_transition e s"
    using continue_withD [OF r] l
    by (auto simp: transition_checkpoint_def result_simps dest!: atomically_InrD)
  then show "work_left st k db' =
    iterations_left s (nat (max_content_retries st - wf_retry_count w)) (generated_content c = None)"
    and "can_transition e s"
    using load_moved_pair [OF l, of w c s p] by (simp_all add: work_left_def)
qed

lemma analysis_progress:
  assumes l: "load_locked_pair k db = Inr (w, c)"
    and r: "save_analysis_checkpoint k a db = (Inr u, db')"
  shows "work_left st k db' = 3 + 2 * nat (max_content_retries st - wf_retry_count w)"
proof -
  have "db' = moved_pair CS_GENERATING WS_GENERATE_CONTENT w (c\<lparr>brief_analysis := Some a\<rparr>) db"
    using r l by (auto simp: save_analysis_checkpoint_def transition_locked_def result_simps
        dest!: atomically_InrD)
  then show ?thesis
    using load_moved_pair [OF l, of w "c\<lparr>brief_analysis := Some a\<rparr>"] by (simp add: work_left_def c_id_def)
qed

lemma content_progress:
  assumes l: "load_locked_pair k db = Inr (w, c)"
    and r: "save_content_checkpoint k a db = (Inr u, db')"
  shows "work_left st k db' = 2 + 2 * nat (max_content_retries st - wf_retry_count w)"
proof -
  have "db' = moved_pair CS_REVIEWING WS_REVIEW_CONTENT w (c\<lparr>generated_content := Some a\<rparr>) db"
    using r l by (auto simp: save_content_checkpoint_def transition_locked_def result_simps
        dest!: atomically_InrD)
  then show ?thesis
    using load_moved_pair [OF l, of w "c\<lparr>generated_content := Some a\<rparr>"] by (simp add: work_left_def c_id_def)
qed

lemma review_transaction_pair:
  assumes l: "load_locked_pair k db = Inr (w0, c0)"
    and t: "review_target (sv_settings sv) q w0 = (s, p, retry)"
    and r: "review_transaction sv env k q db = Inr (v, db')"
  shows "\<exists>c. load_locked_pair k db' = Inr ((retried_workflow retry (reviewed_workflow q w0))
      \<lparr>wf_status := s, wf_current_step := p\<rparr>, c)"
proof -
  let ?w = "retried_workflow retry (reviewed_workflow q w0)"
  let ?c = "retried_campaign retry (reviewed_campaign q c0)"
  have "same_tables (moved_pair s p ?w ?c db) db'"
    using r l t by (cases retry)
      (auto simp: review_transaction_def transition_locked_def result_simps Let_def
        dest: add_outbox_event_same)
  moreover have "load_locked_pair k (moved_pair s p ?w ?c db) =
      Inr (?w\<lparr>wf_status := s, wf_current_step := p\<rparr>, ?c\<lparr>c_status := s\<rparr>)"
    by (rule load_moved_pair [OF l]) (auto simp: retried_workflow_def reviewed_workflow_def
        retried_campaign_def reviewed_campaign_def c_id_def)
  ultimately show ?thesis using load_same_tables by metis
qed

lemma review_progress:
  assumes l: "load_locked_pair k db = Inr (w, c)"
    and r: "save_review_decision_checkpoint sv env k q db = (Inr u, db')"
  shows "work_left (sv_settings sv) k db' < 2 + 2 * nat (max_content_retries (sv_settings sv) - wf_retry_count w)"
  using r
proof (cases rule: save_review_cases)
  case (rejected x)
  then have "atomically (review_transaction sv (env 0) k q) db = (Inl x, db)" by (simp only: atomically_Inl)
  then show ?thesis
    using r by (simp add: save_review_decision_checkpoint_def and_session_Inl)
next
  case (saved v db1)
  obtain s p retry where t: "review_target (sv_settings sv) q w = (s, p, retry)" by (metis prod_cases3)
  obtain c' where "load_locked_pair k db1 = Inr ((retried_workflow retry (reviewed_workflow q w))
      \<lparr>wf_status := s, wf_current_step := p\<rparr>, c')"
    using review_transaction_pair [OF l t saved(1)] by blast
  then have "load_locked_pair k db' = Inr ((retried_workflow retry (reviewed_workflow q w))
      \<lparr>wf_status := s, wf_current_step := p\<rparr>, c')"
    using load_same_tables [OF saved(2)] by simp
  then have "work_left (sv_settings sv) k db' = iterations_left s
      (nat (max_content_retries (sv_settings sv) - wf_retry_count (retried_workflow retry (reviewed_workflow q w))))
      (generated_content c' = None)"
    by (simp add: work_left_pair)
  then show ?thesis
    using t by (auto simp: review_target_def retried_workflow_def reviewed_workflow_def split: if_splits)
qed

text \<open>Every iteration that stays in the loop leaves less to do.\<close>

lemma agent_then:
  assumes "continue_with (and_session m f) db = (Inr v, db')"
  obtains a db1 u where "m db = (Inr a, db1)" "f a db1 = (Inr u, db')"
  using continue_withD [OF assms] by (auto elim: and_session_InrE)

lemma iteration_progress:
  assumes o: "steady_orchestrator orch"
    and r: "workflow_iteration sv orch env k db = (Inr None, db')"
  shows "work_left (sv_settings sv) k db' < work_left (sv_settings sv) k db"
proof -
  obtain w c where l: "load_locked_pair k db = Inr (w, c)"
    using r by (auto simp: workflow_iteration_def split: sum.splits)
  note wl = work_left_pair [OF l, of "sv_settings sv"]
  note tr = transition_progress(1) [OF l, where st = "sv_settings sv"] transition_progress(2) [OF l]
  have st: "steady (run_brief_analysis orch x y)" "steady (run_content_generation orch x y)"
    "steady (run_content_review orch x y)" for x y using o by (auto simp: steady_orchestrator_def)
  show ?thesis
  proof (cases "wf_status w")
    case CS_RECEIVED
    then show ?thesis using r l wl by (auto simp: workflow_iteration_def stop_statuses_def dest!: tr(1))
  next
    case CS_VALIDATING
    then show ?thesis using r l wl by (auto simp: workflow_iteration_def stop_statuses_def dest!: tr(1))
  next
    case CS_REVISION_REQUIRED
    then show ?thesis using r l wl by (auto simp: workflow_iteration_def stop_statuses_def dest!: tr(1))
  next
    case CS_ANALYZING
    then have "continue_with (and_session (run_brief_analysis orch (wf_campaign_id w) k)
        (save_analysis_checkpoint k)) db = (Inr (None :: workflow_row option), db')"
      using r l by (simp add: workflow_iteration_def stop_statuses_def)
    then obtain a db1 u where m: "run_brief_analysis orch (wf_campaign_id w) k db = (Inr a, db1)"
      and f: "save_analysis_checkpoint k a db1 = (Inr u, db')" by (rule agent_then)
    obtain w1 c1 where p: "load_locked_pair k db1 = Inr (w1, c1)" "wf_retry_count w1 = wf_retry_count w"
      using steady_pair [OF st(1) l m] by metis
    show ?thesis using analysis_progress [OF p(1) f, of "sv_settings sv"] p(2) wl CS_ANALYZING by simp
  next
    case CS_GENERATING
    show ?thesis
    proof (cases "brief_analysis c = None")
      case True
      then have "continue_with (transition_checkpoint k CS_GENERATING CS_ANALYZING WS_ANALYZE_BRIEF) db = (Inr (None :: workflow_row option), db')"
        using r l CS_GENERATING by (simp add: workflow_iteration_def stop_statuses_def split: if_splits)
      from tr(2) [OF this] show ?thesis by (simp add: can_transition_def)
    next
      case False
      then have "continue_with (and_session (run_content_generation orch (wf_campaign_id w) k)
          (save_content_checkpoint k)) db = (Inr (None :: workflow_row option), db')"
        using r l CS_GENERATING by (simp add: workflow_iteration_def stop_statuses_def split: if_splits)
      then obtain a db1 u where m: "run_content_generation orch (wf_campaign_id w) k db = (Inr a, db1)"
        and f: "save_content_checkpoint k a db1 = (Inr u, db')" by (rule agent_then)
      obtain w1 c1 where p: "load_locked_pair k db1 = Inr (w1, c1)" "wf_retry_count w1 = wf_retry_count w"
        using steady_pair [OF st(2) l m] by metis
      show ?thesis using content_progress [OF p(1) f, of "sv_settings sv"] p(2) wl CS_GENERATING by simp
    qed
  next
    case CS_REVIEWING
    show ?thesis
    proof (cases "generated_content c = None")
      case True
      then show ?thesis using r l wl CS_REVIEWING by (auto simp: workflow_iteration_def stop_statuses_def dest!: tr(1))
    next
      case False
      then have "continue_with (and_session (run_content_review orch (wf_campaign_id w) k)
          (save_review_decision_checkpoint sv env k)) db = (Inr (None :: workflow_row option), db')"
        using r l CS_REVIEWING by (simp add: workflow_iteration_def stop_statuses_def split: if_splits)
      then obtain a db1 u where m: "run_content_review orch (wf_campaign_id w) k db = (Inr a, db1)"
        and f: "save_review_decision_checkpoint sv env k a db1 = (Inr u, db')" by (rule agent_then)
      obtain w1 c1 where p: "load_locked_pair k db1 = Inr (w1, c1)" "wf_retry_count w1 = wf_retry_count w"
        using steady_pair [OF st(3) l m] by metis
      show ?thesis using review_progress [OF p(1) f] p(2) wl False CS_REVIEWING by simp
    qed
  qed (use r l in \<open>auto simp: workflow_iteration_def stop_statuses_def\<close>)
qed

lemma run_loop_returns:
  assumes "steady_orchestrator orch" and "work_left (sv_settings sv) k db \<le> n"
  shows "\<exists>res db'. run_loop sv orch env k n db = Some (res, db')"
  using assms(2)
proof (induction n arbitrary: db)
  case 0
  then show ?case using work_left_pos [of "sv_settings sv" k db] by simp
next
  case (Suc n)
  obtain r db1 where i: "workflow_iteration sv orch (env n) k db = (r, db1)" by (meson surj_pair)
  show ?case
  proof (cases "r = Inr None")
    case True
    then have "work_left (sv_settings sv) k db1 \<le> n"
      using iteration_progress [OF assms(1)] i Suc.prems by fastforce
    then show ?thesis using Suc.IH i True by simp
  next
    case False
    then show ?thesis using i by (auto split: sum.splits option.splits)
  qed
qed

lemma work_left_bound:
  assumes "campaign_inv st db"
  shows "work_left st k db \<le> 6 + 2 * nat (max_content_retries st)"
proof (cases "load_locked_pair k db")
  case (Inr p)
  obtain w c where p: "p = (w, c)" by (cases p)
  have "get_workflow_row db k = Some w" using Inr p by (simp add: load_locked_pair_Inr)
  from workflow_ok_of [OF assms this]
  have "nat (max_content_retries st - wf_retry_count w) \<le> nat (max_content_retries st)"
    using nat_mono [of "max_content_retries st - wf_retry_count w" "max_content_retries st"]
    by (simp add: workflow_ok_def)
  then show ?thesis using Inr p by (cases "wf_status w") (auto simp: work_left_def)
qed (simp add: work_left_def)

end
