(* ===== verification/Outbox_Invariant.thy ===== *)
theory Outbox_Invariant
  imports Outbox
begin

text \<open>
  The invariant of the outbox and the system of dispatchers that compete for it. A state of the
  system is the table, the events some dispatcher has leased (their snapshots) and the
  commits of consumer transactions so far; the steps are the transactions of the dispatchers
  in any order, so a lease may be lost between any two steps of a dispatch.
\<close>

definition event_ok :: "outbox_row \<Rightarrow> bool" where
  "event_ok e \<longleftrightarrow>
     0 < o_max_attempts e \<and> 0 \<le> o_attempt_count e \<and> o_attempt_count e \<le> o_max_attempts e \<and>
     o_lease_version e = o_attempt_count e \<and>
     (o_status e \<in> {OS_PENDING, OS_FAILED} \<longrightarrow> o_attempt_count e < o_max_attempts e) \<and>
     (o_status e = OS_DEAD_LETTER \<longrightarrow> o_attempt_count e = o_max_attempts e) \<and>
     (o_status e = OS_PROCESSING \<longrightarrow> 1 \<le> o_attempt_count e) \<and>
     (o_status e = OS_PROCESSING \<longleftrightarrow> o_locked_by e \<noteq> None)"

record outbox_sys =
  ox_events :: outbox
  ox_leased :: "(string \<times> outbox_event) list"
  ox_commits :: "uuid list"

text \<open>A snapshot counts its own attempt, and carries the bound of the row it was taken from.\<close>

definition snapshot_ok :: "outbox \<Rightarrow> outbox_event \<Rightarrow> bool" where
  "snapshot_ok t v \<longleftrightarrow>
     v_attempt_count v = v_lease_version v \<and>
     (\<forall>e \<in> set t. o_id e = v_id v \<longrightarrow> o_max_attempts e = v_max_attempts v)"

definition outbox_inv :: "outbox_sys \<Rightarrow> bool" where
  "outbox_inv s \<longleftrightarrow>
     distinct (map o_id (ox_events s)) \<and> distinct (map o_idempotency_key (ox_events s)) \<and>
     (\<forall>e \<in> set (ox_events s). event_ok e) \<and>
     (\<forall>(w, v) \<in> set (ox_leased s). snapshot_ok (ox_events s) v \<and> v_id v \<in> o_id ` set (ox_events s)) \<and>
     distinct (ox_commits s) \<and>
     set (ox_commits s) = o_id ` {e \<in> set (ox_events s). o_status e = OS_PROCESSED}"

inductive outbox_step ::
  "hashing \<Rightarrow> outbox_settings \<Rightarrow> outbox_sys \<Rightarrow> outbox_sys \<Rightarrow> bool" for h st where
  add: "add_event h st env r (ox_events s) = Inr (e, t) \<Longrightarrow> env_row_id env \<notin> o_id ` set (ox_events s) \<Longrightarrow>
    outbox_step h st s (s\<lparr>ox_events := t\<rparr>)"
| reconcile: "event_reconcile_stale locked now limit (ox_events s) = (es, t) \<Longrightarrow>
    outbox_step h st s (s\<lparr>ox_events := t\<rparr>)"
| lease: "lease_one locked st now w (ox_events s) = (Some v, t) \<Longrightarrow>
    outbox_step h st s (s\<lparr>ox_events := t, ox_leased := (w, v) # ox_leased s\<rparr>)"
| renew: "(w, v) \<in> set (ox_leased s) \<Longrightarrow> renew_once st w now v (ox_events s) = (ok, t) \<Longrightarrow>
    outbox_step h st s (s\<lparr>ox_events := t\<rparr>)"
| fail: "(w, v) \<in> set (ox_leased s) \<Longrightarrow> record_failure st w now v x (ox_events s) = (res, t) \<Longrightarrow>
    outbox_step h st s (s\<lparr>ox_events := t\<rparr>)"
| commit: "(w, v) \<in> set (ox_leased s) \<Longrightarrow>
    mark_processed now (v_id v) (w, v_lease_version v) (ox_events s) = (LU_UPDATED, t) \<Longrightarrow>
    outbox_step h st s (s\<lparr>ox_events := t, ox_commits := v_id v # ox_commits s\<rparr>)"

definition no_events :: outbox_sys where
  "no_events = \<lparr>ox_events = [], ox_leased = [], ox_commits = []\<rparr>"

inductive outbox_reachable :: "hashing \<Rightarrow> outbox_settings \<Rightarrow> outbox_sys \<Rightarrow> bool" for h st where
  start: "outbox_reachable h st no_events"
| step: "outbox_reachable h st s \<Longrightarrow> outbox_step h st s s' \<Longrightarrow> outbox_reachable h st s'"

inductive_cases outbox_stepE: "outbox_step h st s s'"

subsection \<open>Writes that change rows in place\<close>

definition keeps :: "(outbox_row \<Rightarrow> outbox_row) \<Rightarrow> outbox_row \<Rightarrow> bool" where
  "keeps g e \<longleftrightarrow>
     o_id (g e) = o_id e \<and> o_idempotency_key (g e) = o_idempotency_key e \<and>
     o_max_attempts (g e) = o_max_attempts e \<and> event_ok (g e) \<and>
     (o_status (g e) = OS_PROCESSED \<longleftrightarrow> o_status e = OS_PROCESSED)"

lemma map_keeps:
  assumes "\<forall>e \<in> set t. keeps g e"
  shows "map o_id (map g t) = map o_id t"
    and "map o_idempotency_key (map g t) = map o_idempotency_key t"
    and "snapshot_ok t v \<Longrightarrow> snapshot_ok (map g t) v"
    and "o_id ` set (map g t) = o_id ` set t"
    and "o_id ` {e \<in> set (map g t). o_status e = OS_PROCESSED} = o_id ` {e \<in> set t. o_status e = OS_PROCESSED}"
  using assms by (auto simp: keeps_def snapshot_ok_def image_iff) (metis+)?

lemma outbox_inv_map:
  assumes inv: "outbox_inv s" and k: "\<forall>e \<in> set (ox_events s). keeps g e"
    and t: "t = map g (ox_events s)"
  shows "outbox_inv (s\<lparr>ox_events := t\<rparr>)"
proof -
  note m = map_keeps [OF k]
  have "\<forall>e \<in> set t. event_ok e" using k by (auto simp: t keeps_def)
  moreover have "\<forall>(w, v) \<in> set (ox_leased s). snapshot_ok t v \<and> v_id v \<in> o_id ` set t"
    using inv m(3,4) by (auto simp: t outbox_inv_def)
  moreover have "distinct (map o_id t)" "distinct (map o_idempotency_key t)"
    unfolding t m(1,2) using inv by (simp_all add: outbox_inv_def)
  moreover have "set (ox_commits s) = o_id ` {e \<in> set t. o_status e = OS_PROCESSED}"
    unfolding t m(5) using inv by (simp add: outbox_inv_def)
  ultimately show ?thesis using inv by (simp add: outbox_inv_def)
qed

lemma t_put_map:
  assumes "distinct (map o_id t)" and "get_event t k = Some e" and "o_id (f e) = k"
  shows "t_put o_id t (f e) = map (\<lambda>x. if o_id x = k then f x else x) t"
proof -
  have "x = e" if "x \<in> set t" "o_id x = k" for x
    using that assms(1,2) t_get_in_set [of o_id t x] by simp
  then show ?thesis using assms(3) by (auto simp: t_put_def)
qed


text \<open>What a guarded update does: under the lease it changes its row, else nothing.\<close>

lemma guarded_update_cases:
  assumes "guarded_update k owner now f t = (r, t')"
  obtains (updated) e where "get_event t k = Some e" "lease_condition e owner now" "r = LU_UPDATED"
      "t' = t_put o_id t (f e)"
    | (rejected) "r \<noteq> LU_UPDATED" "t' = t"
      "\<And>e. get_event t k = Some e \<Longrightarrow> \<not> lease_condition e owner now"
  using assms
  by (auto simp: guarded_update_def classify_lease_failure_def split: option.splits if_splits)

lemma outbox_inv_put:
  assumes inv: "outbox_inv s" and e: "get_event (ox_events s) k = Some e"
    and same: "o_id (f e) = k" and k: "keeps f e"
  shows "outbox_inv (s\<lparr>ox_events := t_put o_id (ox_events s) (f e)\<rparr>)"
proof (rule outbox_inv_map [OF inv])
  have d: "distinct (map o_id (ox_events s))" using inv by (simp add: outbox_inv_def)
  show "t_put o_id (ox_events s) (f e) = map (\<lambda>x. if o_id x = k then f x else x) (ox_events s)"
    by (rule t_put_map [where f = f, OF d e same])
  have "x = e" if "x \<in> set (ox_events s)" "o_id x = k" for x
    using that d e t_get_in_set [of o_id "ox_events s" x] by simp
  then show "\<forall>x \<in> set (ox_events s). keeps (\<lambda>x. if o_id x = k then f x else x) x"
    using inv k by (auto simp: keeps_def outbox_inv_def)
qed

lemma outbox_inv_ok:
  "outbox_inv s \<Longrightarrow> get_event (ox_events s) k = Some e \<Longrightarrow> event_ok e \<and> o_id e = k"
  by (auto simp: outbox_inv_def dest: t_get_SomeD)

lemma renew_keeps:
  assumes inv: "outbox_inv s" and r: "renew_once st w now v (ox_events s) = (ok, t)"
  shows "outbox_inv (s\<lparr>ox_events := t\<rparr>)"
proof (cases ok)
  case False
  then show ?thesis using r inv by (auto simp: renew_once_def split: prod.splits if_splits)
next
  case True
  with r have "renew_lease now (v_id v) (w, v_lease_version v) (outbox_lease_seconds st) (ox_events s) =
      (LU_UPDATED, t)"
    by (auto simp: renew_once_def split: prod.splits if_splits)
  then obtain e where e: "get_event (ox_events s) (v_id v) = Some e" and
    t: "t = t_put o_id (ox_events s) (e\<lparr>o_last_heartbeat_at := Some now,
       o_lease_expires_at := Some (now + seconds (outbox_lease_seconds st))\<rparr>)"
    unfolding renew_lease_def by (cases rule: guarded_update_cases) auto
  show ?thesis unfolding t
    by (rule outbox_inv_put [OF inv e]) (use outbox_inv_ok [OF inv e] in \<open>auto simp: keeps_def event_ok_def\<close>)
qed

lemma failed_event_keeps:
  assumes "event_ok e" and "lease_condition e (w, v) now" and "n = v" and "m = o_max_attempts e"
  shows "keeps (failed_event_row now n m code msg b mx) e"
  using assms
  by (auto simp: keeps_def event_ok_def failed_event_row_def clear_event_lease_def lease_condition_def)

lemma fail_keeps:
  assumes inv: "outbox_inv s" and v: "(w, v) \<in> set (ox_leased s)"
    and r: "record_failure st w now v x (ox_events s) = (res, t)"
  shows "outbox_inv (s\<lparr>ox_events := t\<rparr>)"
proof -
  let ?f = "failed_event_row now (v_attempt_count v) (v_max_attempts v) (failure_code x)
     (failure_message x) (outbox_retry_base_seconds st) (outbox_retry_max_seconds st)"
  obtain r0 t0 where g: "guarded_update (v_id v) (w, v_lease_version v) now ?f (ox_events s) = (r0, t0)"
    and t: "t = (if r0 = LU_UPDATED then t0 else ox_events s)"
    using r by (auto simp: record_failure_def mark_failed_def split: prod.splits if_splits)
  from g show ?thesis
  proof (cases rule: guarded_update_cases)
    case (updated e)
    have snap: "snapshot_ok (ox_events s) v" using inv v by (auto simp: outbox_inv_def)
    have ok: "event_ok e" "o_id e = v_id v" using outbox_inv_ok [OF inv updated(1)] by auto
    moreover have "o_max_attempts e = v_max_attempts v"
      using snap ok(2) updated(1) by (auto simp: snapshot_ok_def dest: t_get_SomeD)
    ultimately have "keeps ?f e"
      using updated(2) snap by (intro failed_event_keeps) (auto simp: snapshot_ok_def)
    then show ?thesis
      using outbox_inv_put [OF inv updated(1), of ?f] updated(3,4) t ok(2) by (simp add: keeps_def)
  next
    case rejected
    then show ?thesis using t inv by simp
  qed
qed

lemma commit_keeps:
  assumes inv: "outbox_inv s"
    and r: "mark_processed now (v_id v) owner (ox_events s) = (LU_UPDATED, t)"
  shows "outbox_inv (s\<lparr>ox_events := t, ox_commits := v_id v # ox_commits s\<rparr>)"
proof -
  obtain e where e: "get_event (ox_events s) (v_id v) = Some e" "lease_condition e owner now"
    and t: "t = t_put o_id (ox_events s) (processed_row now e)"
    using r unfolding mark_processed_def by (cases rule: guarded_update_cases) auto
  have ok: "event_ok e" "o_id e = v_id v" using outbox_inv_ok [OF inv e(1)] by auto
  have d: "distinct (map o_id (ox_events s))" using inv by (simp add: outbox_inv_def)
  have new: "event_ok (processed_row now e)" "o_id (processed_row now e) = v_id v"
      "o_idempotency_key (processed_row now e) = o_idempotency_key e"
      "o_max_attempts (processed_row now e) = o_max_attempts e"
      "o_status (processed_row now e) = OS_PROCESSED"
    using ok by (auto simp: processed_row_def clear_event_lease_def event_ok_def)
  have tm: "t = map (\<lambda>x. if o_id x = v_id v then processed_row now x else x) (ox_events s)"
    unfolding t by (rule t_put_map [where f = "processed_row now", OF d e(1) new(2)])
  have eq: "x = e" if "x \<in> set (ox_events s)" "o_id x = v_id v" for x
    using that d e t_get_in_set [of o_id "ox_events s" x] by simp
  have mem: "e \<in> set (ox_events s)" using e(1) by (auto dest: t_get_SomeD)
  have set_t: "set t = insert (processed_row now e) {x \<in> set (ox_events s). o_id x \<noteq> v_id v}"
    using d mem ok new(2) by (auto simp: t set_t_put_iff)
  have ids: "map o_id t = map o_id (ox_events s)" by (simp add: t)
  have keys: "map o_idempotency_key t = map o_idempotency_key (ox_events s)"
    using eq new(3) by (auto simp: tm)
  have "v_id v \<notin> set (ox_commits s)"
    using inv e(2) eq by (auto simp: outbox_inv_def lease_condition_def)
  moreover have "insert (v_id v) (set (ox_commits s)) = o_id ` {x \<in> set t. o_status x = OS_PROCESSED}"
  proof -
    have "o_status e \<noteq> OS_PROCESSED" using e(2) by (simp add: lease_condition_def)
    then have "{x \<in> set t. o_status x = OS_PROCESSED} =
        insert (processed_row now e) {x \<in> set (ox_events s). o_status x = OS_PROCESSED}"
      using set_t new(5) eq by blast
    then show ?thesis using inv new(2) by (simp add: outbox_inv_def)
  qed
  moreover have "snapshot_ok t u \<and> v_id u \<in> o_id ` set t" if "(w, u) \<in> set (ox_leased s)" for w u
  proof -
    have u: "snapshot_ok (ox_events s) u" "v_id u \<in> o_id ` set (ox_events s)"
      using that inv by (auto simp: outbox_inv_def)
    have "o_max_attempts x = v_max_attempts u" if "x \<in> set t" "o_id x = v_id u" for x
      using that u(1) mem ok(2) new(2,4) unfolding set_t snapshot_ok_def by auto
    moreover have "o_id ` set t = o_id ` set (ox_events s)" using ids by (metis list.set_map)
    ultimately show ?thesis using u by (simp add: snapshot_ok_def)
  qed
  moreover have "event_ok x" if "x \<in> set t" for x
    using that inv new(1) unfolding set_t outbox_inv_def by auto
  moreover have "distinct (map o_id t)" "distinct (map o_idempotency_key t)" "distinct (ox_commits s)"
    using inv unfolding ids keys outbox_inv_def by simp_all
  ultimately show ?thesis by (auto simp: outbox_inv_def)
qed

text \<open>The batches: what a selection of rows satisfies, and that writing it back keeps the rest.\<close>

lemma outbox_inv_batch:
  assumes inv: "outbox_inv s" and sel: "set sel \<subseteq> set (ox_events s)" "distinct (map o_id sel)"
    and k: "\<And>e. e \<in> set sel \<Longrightarrow> keeps f e" and id: "\<And>e. o_id (f e) = o_id e"
  shows "outbox_inv (s\<lparr>ox_events := t_put_all o_id (ox_events s) (map f sel)\<rparr>)"
proof (rule outbox_inv_map [OF inv])
  have "distinct (map o_id (ox_events s))" using inv by (simp add: outbox_inv_def)
  then show "t_put_all o_id (ox_events s) (map f sel) =
      map (\<lambda>e. if e \<in> set sel then f e else e) (ox_events s)"
    using sel id by (rule t_put_all_map)
  show "\<forall>e \<in> set (ox_events s). keeps (\<lambda>e. if e \<in> set sel then f e else e) e"
    using inv k by (auto simp: keeps_def outbox_inv_def)
qed

lemma selection_distinct:
  "distinct (map o_id t) \<Longrightarrow> distinct (map o_id (order_limit key n (filter P t)))"
  by (rule distinct_order_limit) (simp add: distinct_map_filter)

lemma selection_subset: "set (order_limit key n (filter P t)) \<subseteq> set t"
  using set_order_limit by fastforce

lemma leased_event_keeps:
  "event_ok e \<Longrightarrow> dispatchable locked now e \<Longrightarrow> keeps (leased_event_row w now n) e"
  by (auto simp: event_ok_def dispatchable_def keeps_def leased_event_row_def)

lemma stale_event_keeps:
  "event_ok e \<Longrightarrow> o_status e = OS_PROCESSING \<Longrightarrow> keeps (stale_event_row now) e"
  by (auto simp: event_ok_def keeps_def stale_event_row_def clear_event_lease_def)

lemma event_lease_batch_inv:
  assumes inv: "outbox_inv s" and r: "event_lease_batch locked now w limit n (ox_events s) = (es, t)"
  shows "outbox_inv (s\<lparr>ox_events := t\<rparr>)"
    and "\<And>e. e \<in> set es \<Longrightarrow> e \<in> set t \<and> snapshot_ok t (event_of_row e)"
proof -
  let ?sel = "order_limit (\<lambda>e. (o_available_at e, o_created_at e)) limit
     (filter (dispatchable locked now) (ox_events s))"
  have d: "distinct (map o_id (ox_events s))" using inv by (simp add: outbox_inv_def)
  have sel: "set ?sel \<subseteq> set (ox_events s)" "distinct (map o_id ?sel)"
    by (rule selection_subset, rule selection_distinct [OF d])
  have k: "keeps (leased_event_row w now n) e" if "e \<in> set ?sel" for e
    using order_limit_SomeD [OF that] inv leased_event_keeps by (auto simp: outbox_inv_def)
  have es: "es = map (leased_event_row w now n) ?sel"
    and t: "t = t_put_all o_id (ox_events s) (map (leased_event_row w now n) ?sel)"
    using r by (auto simp: event_lease_batch_def Let_def)
  show inv': "outbox_inv (s\<lparr>ox_events := t\<rparr>)"
    unfolding t by (rule outbox_inv_batch [OF inv sel k]) (simp_all add: leased_event_row_def)
  have tm: "t = map (\<lambda>e. if e \<in> set ?sel then leased_event_row w now n e else e) (ox_events s)"
    unfolding t using d sel by (rule t_put_all_map) (simp add: leased_event_row_def)
  fix e assume "e \<in> set es"
  then have mem: "e \<in> set t" using sel(1) by (auto simp: es tm)
  have "x = e" if "x \<in> set t" "o_id x = o_id e" for x
    using inv' that mem by (auto simp: outbox_inv_def distinct_map inj_on_def)
  then show "e \<in> set t \<and> snapshot_ok t (event_of_row e)"
    using inv' mem by (auto simp: snapshot_ok_def event_of_row_def outbox_inv_def event_ok_def)
qed

lemma reconcile_inv:
  assumes inv: "outbox_inv s" and r: "event_reconcile_stale locked now limit (ox_events s) = (es, t)"
  shows "outbox_inv (s\<lparr>ox_events := t\<rparr>)"
proof -
  let ?sel = "order_limit (\<lambda>e. (case o_locked_at e of Some u \<Rightarrow> u | None \<Rightarrow> 0, o_id e)) limit
            (filter (\<lambda>e. o_status e = OS_PROCESSING \<and> \<not> locked (o_id e) \<and>
               (case o_lease_expires_at e of None \<Rightarrow> False | Some u \<Rightarrow> u \<le> now)) (ox_events s))"
  have d: "distinct (map o_id (ox_events s))" using inv by (simp add: outbox_inv_def)
  have sel: "set ?sel \<subseteq> set (ox_events s)" "distinct (map o_id ?sel)"
    by (rule selection_subset, rule selection_distinct [OF d])
  have k: "keeps (stale_event_row now) e" if "e \<in> set ?sel" for e
    using order_limit_SomeD [OF that] inv stale_event_keeps by (auto simp: outbox_inv_def)
  show ?thesis
    using outbox_inv_batch [OF inv sel k] r
    by (auto simp: event_reconcile_stale_def Let_def stale_event_row_def clear_event_lease_def)
qed

lemma add_inv:
  assumes inv: "outbox_inv s" and new: "env_row_id env \<notin> o_id ` set (ox_events s)"
    and max: "0 < outbox_max_attempts st"
    and r: "add_event h st env q (ox_events s) = Inr (e, t)"
  shows "outbox_inv (s\<lparr>ox_events := t\<rparr>)"
proof (cases "t = ox_events s")
  case True
  then show ?thesis using inv by simp
next
  case False
  define p where "p = sanitize_json 2000 (er_payload q)"
  define key where "key = event_key h q p"
  have t: "t = ox_events s @ [new_event st env q p key]"
    and fresh: "key \<notin> o_idempotency_key ` set (ox_events s)"
    using r False
    by (auto simp: add_event_def Let_def p_def key_def find_None_iff image_iff split: if_splits option.splits)
  have ok: "event_ok (new_event st env q p key)" using max by (simp add: event_ok_def new_event_def)
  show ?thesis
    using inv new fresh ok
    by (auto simp: outbox_inv_def t new_event_def snapshot_ok_def)
qed

lemma lease_one_inv:
  assumes inv: "outbox_inv s" and r: "lease_one locked st now w (ox_events s) = (Some v, t)"
  shows "outbox_inv (s\<lparr>ox_events := t, ox_leased := (w, v) # ox_leased s\<rparr>)"
proof -
  obtain m ms where b: "event_lease_batch locked now w 1 (outbox_lease_seconds st) (ox_events s) = (m # ms, t)"
    and v: "v = event_of_row m"
    using r by (auto simp: lease_one_def split: prod.splits list.splits)
  note l = event_lease_batch_inv [OF inv b]
  have "m \<in> set t \<and> snapshot_ok t v" using l(2) [of m] v by simp
  then show ?thesis using l(1) by (auto simp: outbox_inv_def v event_of_row_def)
qed

text \<open>Every reachable state of the outbox satisfies the invariant.\<close>

lemma outbox_step_inv:
  assumes "outbox_step h st s s'" and "0 < outbox_max_attempts st" and "outbox_inv s"
  shows "outbox_inv s'"
  using assms
  by (cases rule: outbox_step.cases)
    (blast intro: add_inv reconcile_inv lease_one_inv renew_keeps fail_keeps commit_keeps)+

lemma reachable_outbox_inv:
  "outbox_reachable h st s \<Longrightarrow> 0 < outbox_max_attempts st \<Longrightarrow> outbox_inv s"
proof (induction rule: outbox_reachable.induct)
  case start
  show ?case by (simp add: outbox_inv_def no_events_def)
next
  case (step s s')
  then show ?case by (blast intro: outbox_step_inv)
qed

end
