(* ===== verification/Job_Invariant.thy ===== *)
theory Job_Invariant
  imports Job_Queue
begin

text \<open>
  The invariant of the job tables: what a row's lease columns, counters and status say agrees,
  and the audit of attempts agrees with the jobs. Every operation of the queue keeps it, so
  every state the system reaches has it (\<open>job_reachable\<close>), and no operation can find the audit
  row of a running job missing.
\<close>

named_theorems job_defs \<open>definitions of the queue's operations\<close>

declare put_job_def [job_defs] required_live_lease_def [job_defs] owns_live_lease_def [job_defs]
  clear_lease_def [job_defs] repo_complete_def [job_defs] repo_fail_def [job_defs]
  repo_cancel_def [job_defs] repo_mark_cancelled_def [job_defs] repo_retry_def [job_defs]

definition job_ok :: "job_row \<Rightarrow> bool" where
  "job_ok j \<longleftrightarrow>
     0 \<le> attempt_count j \<and> attempt_count j \<le> max_attempts j \<and> 0 < max_attempts j \<and>
     0 \<le> priority j \<and> priority j \<le> 100 \<and>
     (j_status j = JS_PENDING \<longrightarrow> attempt_count j < max_attempts j) \<and>
     (j_status j = JS_RUNNING \<longrightarrow> 1 \<le> attempt_count j) \<and>
     (j_status j = JS_RUNNING \<longleftrightarrow> locked_by j \<noteq> None) \<and>
     (locked_by j = None \<longleftrightarrow> lease_expires_at j = None)"

definition attempt_ok :: "job_db \<Rightarrow> attempt_row \<Rightarrow> bool" where
  "attempt_ok db a \<longleftrightarrow>
     (\<exists>j. get_job db (a_job_id a) = Some j \<and> 1 \<le> attempt_number a \<and>
        attempt_number a \<le> attempt_count j \<and>
        (a_status a = JA_RUNNING \<longrightarrow> j_status j = JS_RUNNING \<and> attempt_number a = attempt_count j))"

definition has_running_attempt :: "job_db \<Rightarrow> job_row \<Rightarrow> bool" where
  "has_running_attempt db j \<longleftrightarrow>
     (\<exists>a \<in> set (attempts db). a_job_id a = job_id j \<and> attempt_number a = attempt_count j \<and>
        a_status a = JA_RUNNING)"

definition job_inv :: "job_db \<Rightarrow> bool" where
  "job_inv db \<longleftrightarrow>
     distinct (map job_id (jobs db)) \<and> distinct (map attempt_key (attempts db)) \<and>
     distinct (map idempotency_key (jobs db)) \<and>
     (\<forall>j \<in> set (jobs db). job_ok j) \<and> (\<forall>a \<in> set (attempts db). attempt_ok db a) \<and>
     (\<forall>j \<in> set (jobs db). j_status j = JS_RUNNING \<longrightarrow> has_running_attempt db j)"

lemma job_invD:
  assumes "job_inv db"
  shows "distinct (map job_id (jobs db))" and "distinct (map attempt_key (attempts db))"
    and "distinct (map idempotency_key (jobs db))"
    and "\<And>j. j \<in> set (jobs db) \<Longrightarrow> job_ok j"
    and "\<And>a. a \<in> set (attempts db) \<Longrightarrow> attempt_ok db a"
    and "\<And>j. j \<in> set (jobs db) \<Longrightarrow> j_status j = JS_RUNNING \<Longrightarrow> has_running_attempt db j"
  using assms by (auto simp: job_inv_def)

lemma get_put_job:
  "get_job db (job_id j) \<noteq> None \<Longrightarrow>
   get_job (put_job j db) k = (if k = job_id j then Some j else get_job db k)"
  by (simp add: put_job_def job_table.get_put)

lemma put_job_simps [simp]:
  "attempts (put_job j db) = attempts db"
  "workers (put_job j db) = workers db"
  "map job_id (jobs (put_job j db)) = map job_id (jobs db)"
  by (simp_all add: put_job_def)

lemma set_put_job:
  "distinct (map job_id (jobs db)) \<Longrightarrow> get_job db (job_id j) \<noteq> None \<Longrightarrow>
   x \<in> set (jobs (put_job j db)) \<longleftrightarrow> x = j \<or> (x \<in> set (jobs db) \<and> job_id x \<noteq> job_id j)"
  by (auto simp: put_job_def set_t_put_iff dest!: t_get_SomeD)

lemma keys_put_job:
  assumes "distinct (map job_id (jobs db))" and "get_job db (job_id j) = Some j0"
    and "idempotency_key j = idempotency_key j0"
  shows "map idempotency_key (jobs (put_job j db)) = map idempotency_key (jobs db)"
proof -
  have "idempotency_key x = idempotency_key j" if "x \<in> set (jobs db)" "job_id x = job_id j" for x
    using that assms t_get_in_set [of job_id "jobs db" x] by simp
  then show ?thesis by (auto simp: put_job_def t_put_def)
qed

subsection \<open>Changes of one job\<close>

lemma attempt_ok_put_job:
  assumes "attempt_ok db a" and "get_job db (job_id j') = Some j"
    and "attempt_count j \<le> attempt_count j'"
    and "a_job_id a = job_id j' \<Longrightarrow> a_status a = JA_RUNNING \<Longrightarrow>
      j_status j' = JS_RUNNING \<and> attempt_count j' = attempt_count j"
  shows "attempt_ok (put_job j' db) a"
  using assms by (auto simp: attempt_ok_def get_put_job)

lemma job_inv_put_job:
  assumes inv: "job_inv db" and j: "get_job db (job_id j') = Some j"
    and ok: "job_ok j'" and same: "attempt_count j' = attempt_count j"
      "j_status j' = JS_RUNNING \<longleftrightarrow> j_status j = JS_RUNNING"
      "idempotency_key j' = idempotency_key j"
  shows "job_inv (put_job j' db)"
proof -
  note i = job_invD [OF inv]
  have mem: "j \<in> set (jobs db)" and id: "job_id j = job_id j'" using j by (auto dest: t_get_SomeD)
  have a: "attempt_ok (put_job j' db) a" if "a \<in> set (attempts db)" for a
    using i(5) [OF that] j same by (intro attempt_ok_put_job) (auto simp: attempt_ok_def)
  have r: "has_running_attempt (put_job j' db) x"
    if "x \<in> set (jobs (put_job j' db))" "j_status x = JS_RUNNING" for x
  proof (cases "x = j'")
    case True
    then show ?thesis
      using that(2) i(6) [OF mem] id same by (simp add: has_running_attempt_def)
  next
    case False
    then have "x \<in> set (jobs db)" using that(1) i(1) j by (simp add: set_put_job)
    then show ?thesis using i(6) that(2) by (simp add: has_running_attempt_def)
  qed
  show ?thesis
    using i a r ok j keys_put_job [OF i(1) j same(3)]
    by (auto simp: job_inv_def set_put_job)
qed

text \<open>The running attempt of a job has lasted too long for its column.\<close>

definition attempt_overflows :: "time \<Rightarrow> job_row \<Rightarrow> job_db \<Rightarrow> bool" where
  "attempt_overflows now j db \<longleftrightarrow>
     (case running_attempt j db of None \<Rightarrow> False | Some a \<Rightarrow> int32_max < duration_ms (a_started_at a) now)"

lemma running_attempt_cong:
  "job_id j = job_id i \<Longrightarrow> attempt_count j = attempt_count i \<Longrightarrow> running_attempt j db = running_attempt i db"
  by (simp add: running_attempt_def)

lemma attempt_overflows_cong:
  "job_id j = job_id i \<Longrightarrow> attempt_count j = attempt_count i \<Longrightarrow>
   attempt_overflows now j db = attempt_overflows now i db"
  by (simp add: attempt_overflows_def running_attempt_cong [of j i])

lemma running_attempt_SomeD:
  "running_attempt j db = Some a \<Longrightarrow>
   a \<in> set (attempts db) \<and> a_job_id a = job_id j \<and> attempt_number a = attempt_count j \<and> a_status a = JA_RUNNING"
  by (auto simp: running_attempt_def find_Some_iff)

lemma finish_attempt_overflow:
  "attempt_overflows now j db \<Longrightarrow> finish_attempt j w st now c m db = Inl out_of_int32"
  by (simp add: attempt_overflows_def finish_attempt_def split: option.splits)

lemma finish_attempt_fits: "finish_attempt j w st now c m db = Inr db' \<Longrightarrow> \<not> attempt_overflows now j db"
  using finish_attempt_overflow by fastforce

text \<open>It takes more than 24 days.\<close>

lemma attempt_overflows_old:
  assumes "attempt_overflows now j db"
  shows "\<exists>a \<in> set (attempts db). a_job_id a = job_id j \<and> attempt_number a = attempt_count j \<and>
    a_status a = JA_RUNNING \<and> a_started_at a + seconds (24 * 86400) < now"
proof -
  obtain a where a: "running_attempt j db = Some a" "int32_max < duration_ms (a_started_at a) now"
    using assms by (auto simp: attempt_overflows_def split: option.splits)
  then have "a_started_at a + seconds (24 * 86400) < now"
    using duration_ms_short [of now "a_started_at a"] by (force simp: int32_max_def seconds_def)
  with running_attempt_SomeD [OF a(1)] show ?thesis by auto
qed

lemma find_map_other:
  "\<forall>x \<in> set xs. Q x \<longrightarrow> \<not> P x \<Longrightarrow> \<not> P y \<Longrightarrow> find P (map (\<lambda>x. if Q x then y else x) xs) = find P xs"
  by (induction xs) auto

text \<open>Finishing the running attempt of a job that leaves the running state.\<close>

lemma finish_attempt_inv:
  assumes inv: "job_inv db" and j: "get_job db (job_id j') = Some j"
    and run: "j_status j = JS_RUNNING"
    and j0: "job_id j0 = job_id j'" "attempt_count j0 = attempt_count j"
    and ok: "job_ok j'" "j_status j' \<noteq> JS_RUNNING" "attempt_count j' = attempt_count j"
      "idempotency_key j' = idempotency_key j"
    and st: "st \<noteq> JA_RUNNING" and fits: "\<not> attempt_overflows now j0 db"
  shows "\<exists>db'. finish_attempt j0 w st now c m db = Inr db' \<and> jobs db' = jobs db \<and>
    workers db' = workers db \<and> job_inv (put_job j' db') \<and>
    (\<forall>i. job_id i \<noteq> job_id j' \<longrightarrow> running_attempt i db' = running_attempt i db)"
proof -
  note i = job_invD [OF inv]
  have mem: "j \<in> set (jobs db)" and id: "job_id j = job_id j'" using j by (auto dest: t_get_SomeD)
  let ?P = "\<lambda>a. a_job_id a = job_id j0 \<and> attempt_number a = attempt_count j0 \<and> a_status a = JA_RUNNING"
  have "\<exists>a \<in> set (attempts db). ?P a"
    using i(6) [OF mem run] id j0 by (auto simp: has_running_attempt_def)
  then obtain a where a: "find ?P (attempts db) = Some a"
    by (cases "find ?P (attempts db)") (auto simp: find_None_iff)
  then have aP: "?P a" and a_in: "a \<in> set (attempts db)"
    by (auto simp: find_Some_iff)
  define a' where "a' = a\<lparr>a_worker_id := w, a_status := st, a_completed_at := Some now,
             a_duration_ms := Some (duration_ms (a_started_at a) now),
             a_error_code := c, a_error_message := m\<rparr>"
  let ?db = "db\<lparr>attempts := t_put attempt_key (attempts db) a'\<rparr>"
  have fin: "finish_attempt j0 w st now c m db = Inr ?db"
    using a fits by (simp add: finish_attempt_def attempt_overflows_def running_attempt_def a'_def Let_def)
  have key: "attempt_key a' = attempt_key a" by (simp add: attempt_key_def a'_def)
  have set_a: "x \<in> set (attempts ?db) \<longleftrightarrow>
      x = a' \<or> (x \<in> set (attempts db) \<and> attempt_key x \<noteq> attempt_key a)" for x
    using set_t_put_iff [OF i(2) a_in, of a' x] key by simp
  have get_db: "get_job ?db k = get_job db k" for k by simp
  have "attempt_ok (put_job j' ?db) x" if x: "x \<in> set (attempts ?db)" for x
  proof (cases "x = a'")
    case True
    have "attempt_ok db a" using i(5) a_in .
    then show ?thesis
      using True j ok(3) st by (auto simp: attempt_ok_def get_put_job a'_def)
  next
    case False
    then have xs: "x \<in> set (attempts db)" and "attempt_key x \<noteq> attempt_key a"
      using x set_a by auto
    then have "a_status x \<noteq> JA_RUNNING" if "a_job_id x = job_id j'"
      using that i(5) [OF xs] aP j j0 by (auto simp: attempt_ok_def attempt_key_def)
    moreover have "attempt_ok ?db x" using i(5) [OF xs] by (simp add: attempt_ok_def)
    ultimately show ?thesis using j ok(3) by (intro attempt_ok_put_job) auto
  qed
  moreover have "has_running_attempt (put_job j' ?db) x"
    if x: "x \<in> set (jobs (put_job j' ?db))" and rx: "j_status x = JS_RUNNING" for x
  proof -
    have xs: "x \<in> set (jobs db)" and ne: "job_id x \<noteq> job_id j'"
      using x rx ok(2) i(1) j set_put_job [of ?db j' x] by auto
    then obtain b where b: "b \<in> set (attempts db)" "a_job_id b = job_id x"
      "attempt_number b = attempt_count x" "a_status b = JA_RUNNING"
      using i(6) rx by (auto simp: has_running_attempt_def)
    then have "b \<in> set (attempts ?db)" using set_a [of b] ne aP j0 by (auto simp: attempt_key_def)
    with b show ?thesis by (auto simp: has_running_attempt_def)
  qed
  moreover have "job_ok x" if "x \<in> set (jobs (put_job j' ?db))" for x
    using that i(1,4) j ok(1) set_put_job [of ?db j' x] by auto
  moreover have "map idempotency_key (jobs (put_job j' ?db)) = map idempotency_key (jobs db)"
    using keys_put_job [of ?db j' j] i(1) j ok(4) by simp
  ultimately have "job_inv (put_job j' ?db)"
    using i(1,2,3) by (simp add: job_inv_def)
  moreover have "running_attempt i ?db = running_attempt i db" if "job_id i \<noteq> job_id j'" for i
  proof -
    have "attempt_key x = attempt_key a' \<Longrightarrow> a_job_id x \<noteq> job_id i" "a_job_id a' \<noteq> job_id i" for x
      using that aP j0 by (auto simp: attempt_key_def a'_def)
    then show ?thesis by (simp add: running_attempt_def t_put_def find_map_other)
  qed
  ultimately show ?thesis using fin by simp
qed

text \<open>Leasing a pending job.\<close>

lemma lease_job_inv:
  assumes inv: "job_inv db" and j: "get_job db (job_id j) = Some j"
    and pend: "j_status j = JS_PENDING"
  shows "\<exists>db'. lease_job w now ls j db = Inr db' \<and> job_inv db' \<and> workers db' = workers db \<and>
    (\<forall>k. get_job db' k = (if k = job_id j then Some (lease_row w now ls j) else get_job db k))"
proof -
  note i = job_invD [OF inv]
  have mem: "j \<in> set (jobs db)" using j by (auto dest: t_get_SomeD)
  let ?j = "lease_row w now ls j"
  let ?a = "new_attempt w now ?j"
  let ?db = "(put_job ?j db)\<lparr>attempts := attempts db @ [?a]\<rparr>"
  have id: "job_id ?j = job_id j" and cnt: "attempt_count ?j = attempt_count j + 1"
    and run: "j_status ?j = JS_RUNNING" and key: "idempotency_key ?j = idempotency_key j"
    by (simp_all add: lease_row_def)
  have ok: "job_ok ?j" using i(4) [OF mem] pend by (auto simp: job_ok_def lease_row_def)
  have notrun: "a_status x \<noteq> JA_RUNNING" "attempt_number x \<le> attempt_count j"
    if "x \<in> set (attempts db)" "a_job_id x = job_id j" for x
    using i(5) [OF that(1)] that(2) j pend by (auto simp: attempt_ok_def)
  have get: "get_job ?db k = (if k = job_id j then Some ?j else get_job db k)" for k
    using j id get_put_job [of db ?j k] by simp
  have "attempt_key ?a \<notin> attempt_key ` set (attempts db)"
    using notrun(2) id cnt by (fastforce simp: attempt_key_def new_attempt_def)
  then have d: "distinct (map attempt_key (attempts ?db))" using i(2) by simp
  have "attempt_ok ?db x" if "x \<in> set (attempts ?db)" for x
  proof (cases "x = ?a")
    case True
    then show ?thesis
      using get id cnt run i(4) [OF mem] by (simp add: attempt_ok_def new_attempt_def job_ok_def)
  next
    case False
    then have "x \<in> set (attempts db)" using that by simp
    then show ?thesis
      using i(5) [of x] notrun [of x] get cnt j by (fastforce simp: attempt_ok_def)
  qed
  moreover have "has_running_attempt ?db x"
    if "x \<in> set (jobs ?db)" "j_status x = JS_RUNNING" for x
  proof (cases "x = ?j")
    case True
    then show ?thesis by (simp add: has_running_attempt_def new_attempt_def)
  next
    case False
    then have "x \<in> set (jobs db)" using that i(1) j id set_put_job [of db ?j x] by auto
    then show ?thesis using i(6) that(2) by (fastforce simp: has_running_attempt_def)
  qed
  moreover have "job_ok x" if "x \<in> set (jobs ?db)" for x
    using that i(1,4) j id ok set_put_job [of db ?j x] by auto
  moreover have "map idempotency_key (jobs ?db) = map idempotency_key (jobs db)"
    using keys_put_job [OF i(1), of ?j j] j id key by simp
  ultimately have "job_inv ?db" using i(1,3) d by (simp add: job_inv_def)
  then show ?thesis using get by (simp add: lease_job_def Let_def)
qed

subsection \<open>Batches\<close>

lemma lease_all:
  assumes "job_inv db" and "distinct (map job_id xs)"
    and "\<forall>x \<in> set xs. get_job db (job_id x) = Some x \<and> j_status x = JS_PENDING"
  shows "\<exists>db'. run_all (lease_job w now ls) xs db = Inr db' \<and> job_inv db' \<and>
    workers db' = workers db \<and>
    (\<forall>k. get_job db' k =
       (case find (\<lambda>x. job_id x = k) xs of Some x \<Rightarrow> Some (lease_row w now ls x) | None \<Rightarrow> get_job db k))"
  using assms
proof (induction xs arbitrary: db)
  case Nil
  then show ?case by simp
next
  case (Cons x xs)
  then obtain db1 where db1: "lease_job w now ls x db = Inr db1" "job_inv db1"
    "workers db1 = workers db"
    "\<forall>k. get_job db1 k = (if k = job_id x then Some (lease_row w now ls x) else get_job db k)"
    using lease_job_inv [of db x w now ls] by auto
  have "\<forall>y \<in> set xs. job_id y \<noteq> job_id x" 
    using Cons.prems(2) by (simp add: image_iff) metis
  then obtain db' where db': "run_all (lease_job w now ls) xs db1 = Inr db'" "job_inv db'"
    "workers db' = workers db1"
    "\<forall>k. get_job db' k = (case find (\<lambda>x. job_id x = k) xs of
        Some x \<Rightarrow> Some (lease_row w now ls x) | None \<Rightarrow> get_job db1 k)"
    using Cons.IH [OF db1(2)] Cons.prems(2,3) db1(4) by fastforce
  have "find (\<lambda>y. job_id y = job_id x) xs = None"
    using Cons.prems(2) by (auto simp: find_None_iff image_iff)
  then show ?case using db1 db' by (auto split: option.splits)
qed

lemma reclaimed_row_facts:
  "job_id (reclaimed_row now b m j) = job_id j"
  "attempt_count (reclaimed_row now b m j) = attempt_count j"
  "idempotency_key (reclaimed_row now b m j) = idempotency_key j"
  "j_status (reclaimed_row now b m j) \<noteq> JS_RUNNING"
  "job_ok j \<Longrightarrow> job_ok (reclaimed_row now b m j)"
  by (auto simp: reclaimed_row_def clear_lease_def Let_def job_ok_def)

lemma reclaim_job_inv:
  assumes "job_inv db" and "get_job db (job_id j) = Some j" and "j_status j = JS_RUNNING"
    and "\<not> attempt_overflows now j db"
  shows "\<exists>db'. reclaim_job now b m j db = Inr db' \<and> job_inv db' \<and> workers db' = workers db \<and>
    (\<forall>i. job_id i \<noteq> job_id j \<longrightarrow> attempt_overflows now i db' = attempt_overflows now i db) \<and>
    (\<forall>k. get_job db' k = (if k = job_id j then Some (reclaimed_row now b m j) else get_job db k))"
proof -
  have "j \<in> set (jobs db)" using assms(2) by (auto dest: t_get_SomeD)
  with assms(1) have "job_ok j" by (rule job_invD(4))
  then obtain db1 where "finish_attempt j (or_str (locked_by j) ''expired-worker'') JA_FAILED now
      (Some ''JOB_LEASE_EXPIRED'') (Some ''Worker lease expired before completion'') db = Inr db1"
    "jobs db1 = jobs db" "workers db1 = workers db"
    "job_inv (put_job (reclaimed_row now b m j) db1)"
    "\<forall>i. job_id i \<noteq> job_id j \<longrightarrow> running_attempt i db1 = running_attempt i db"
    using finish_attempt_inv [OF assms(1), of "reclaimed_row now b m j" j j JA_FAILED]
      assms(2,3,4) reclaimed_row_facts by (metis job_attempt_status.distinct(3))
  then show ?thesis
    using assms(2) get_put_job [of db1 "reclaimed_row now b m j"]
    by (simp add: reclaim_job_def reclaimed_row_facts attempt_overflows_def running_attempt_def)
qed

lemma reclaim_job_overflow: "attempt_overflows now j db \<Longrightarrow> reclaim_job now b m j db = Inl out_of_int32"
  by (simp add: reclaim_job_def finish_attempt_overflow)

text \<open>Each attempt of the batch fits its column or not independently of the others: the batch fails as a
  whole when one does not.\<close>

lemma reclaim_all_overflow:
  assumes "job_inv db" and "distinct (map job_id xs)"
    and "\<forall>x \<in> set xs. get_job db (job_id x) = Some x \<and> j_status x = JS_RUNNING"
    and "\<exists>x \<in> set xs. attempt_overflows now x db"
  shows "run_all (reclaim_job now b m) xs db = Inl out_of_int32"
  using assms
proof (induction xs arbitrary: db)
  case (Cons x xs)
  show ?case
  proof (cases "attempt_overflows now x db")
    case True
    then show ?thesis by (simp add: reclaim_job_overflow)
  next
    case False
    then obtain db1 where db1: "reclaim_job now b m x db = Inr db1" "job_inv db1"
      "\<forall>i. job_id i \<noteq> job_id x \<longrightarrow> attempt_overflows now i db1 = attempt_overflows now i db"
      "\<forall>k. get_job db1 k = (if k = job_id x then Some (reclaimed_row now b m x) else get_job db k)"
      using reclaim_job_inv [of db x now b m] Cons.prems by auto
    have "\<forall>y \<in> set xs. job_id y \<noteq> job_id x"
      using Cons.prems(2) by (simp add: image_iff) metis
    then show ?thesis using Cons.IH [OF db1(2)] Cons.prems False db1 by auto
  qed
qed simp

lemma reclaim_all:
  assumes "job_inv db" and "distinct (map job_id xs)"
    and "\<forall>x \<in> set xs. get_job db (job_id x) = Some x \<and> j_status x = JS_RUNNING"
    and "\<forall>x \<in> set xs. \<not> attempt_overflows now x db"
  shows "\<exists>db'. run_all (reclaim_job now b m) xs db = Inr db' \<and> job_inv db' \<and>
    workers db' = workers db \<and>
    (\<forall>k. get_job db' k =
       (case find (\<lambda>x. job_id x = k) xs of Some x \<Rightarrow> Some (reclaimed_row now b m x) | None \<Rightarrow> get_job db k))"
  using assms
proof (induction xs arbitrary: db)
  case Nil
  then show ?case by simp
next
  case (Cons x xs)
  then obtain db1 where db1: "reclaim_job now b m x db = Inr db1" "job_inv db1"
    "workers db1 = workers db"
    "\<forall>i. job_id i \<noteq> job_id x \<longrightarrow> attempt_overflows now i db1 = attempt_overflows now i db"
    "\<forall>k. get_job db1 k = (if k = job_id x then Some (reclaimed_row now b m x) else get_job db k)"
    using reclaim_job_inv [of db x now b m] by auto
  have "\<forall>y \<in> set xs. job_id y \<noteq> job_id x" 
    using Cons.prems(2) by (simp add: image_iff) metis
  then obtain db' where db': "run_all (reclaim_job now b m) xs db1 = Inr db'" "job_inv db'"
    "workers db' = workers db1"
    "\<forall>k. get_job db' k = (case find (\<lambda>x. job_id x = k) xs of
        Some x \<Rightarrow> Some (reclaimed_row now b m x) | None \<Rightarrow> get_job db1 k)"
    using Cons.IH [OF db1(2)] Cons.prems(2,3,4) db1(4,5) by fastforce
  have "find (\<lambda>y. job_id y = job_id x) xs = None"
    using Cons.prems(2) by (auto simp: find_None_iff image_iff)
  then show ?case using db1 db' by (auto split: option.splits)
qed

lemma selection_facts:
  assumes "job_inv db"
  shows "distinct (map job_id (lease_selection locked now n db))"
    and "x \<in> set (lease_selection locked now n db) \<Longrightarrow>
      get_job db (job_id x) = Some x \<and> leasable locked now x"
    and "distinct (map job_id (stale_selection locked now n db))"
    and "x \<in> set (stale_selection locked now n db) \<Longrightarrow>
      get_job db (job_id x) = Some x \<and> lease_expired locked now x"
  using job_invD(1) [OF assms]
  by (auto simp: lease_selection_def stale_selection_def distinct_map_filter t_get_in_set
      intro!: distinct_order_limit dest!: order_limit_SomeD)

lemma lease_batch_spec:
  assumes "job_inv db"
  shows "\<exists>db'. lease_batch locked now w n ls db =
      Inr (map (lease_row w now ls) (lease_selection locked now n db), db') \<and> job_inv db' \<and>
    workers db' = workers db \<and>
    (\<forall>k. get_job db' k = (case find (\<lambda>x. job_id x = k) (lease_selection locked now n db) of
        Some x \<Rightarrow> Some (lease_row w now ls x) | None \<Rightarrow> get_job db k))"
  using lease_all [OF assms selection_facts(1) [OF assms], of locked now n w now ls]
    selection_facts(2) [OF assms, of _ locked now n]
  by (fastforce simp: lease_batch_def Let_def leasable_def)

lemma reclaim_stale_spec:
  assumes "job_inv db" and "\<forall>x \<in> set (stale_selection locked now n db). \<not> attempt_overflows now x db"
  shows "\<exists>db'. repo_reclaim_stale locked now n b m db = Inr db' \<and> job_inv db' \<and>
    workers db' = workers db \<and>
    (\<forall>k. get_job db' k = (case find (\<lambda>x. job_id x = k) (stale_selection locked now n db) of
        Some x \<Rightarrow> Some (reclaimed_row now b m x) | None \<Rightarrow> get_job db k))"
  unfolding repo_reclaim_stale_def
  using selection_facts(4) [OF assms(1), of _ locked now n] assms(2)
  by (intro reclaim_all [OF assms(1) selection_facts(3) [OF assms(1)]]) (auto simp: lease_expired_def)

lemma reclaim_stale_overflow:
  assumes "job_inv db" and "\<exists>x \<in> set (stale_selection locked now n db). attempt_overflows now x db"
  shows "repo_reclaim_stale locked now n b m db = Inl out_of_int32"
  unfolding repo_reclaim_stale_def
  using selection_facts(4) [OF assms(1), of _ locked now n] assms(2)
  by (intro reclaim_all_overflow [OF assms(1) selection_facts(3) [OF assms(1)]]) (auto simp: lease_expired_def)

end
