(* ===== verification/Job_Steps.thy ===== *)
theory Job_Steps
  imports Job_Invariant
begin

text \<open>
  The job queue as a state machine: one rule of \<open>job_step\<close> per transaction of
  \<open>app/jobs/queue.py\<close>, with every worker, clock reading and set of locked rows. What holds in
  every reachable state, what each operation does on each branch, and that a lease excludes
  every other worker.
\<close>

subsection \<open>Every operation keeps the invariant\<close>

lemma required_live_lease_iff:
  "required_live_lease db k w now = Inr j \<longleftrightarrow> get_job db k = Some j \<and> owns_live_lease j w now"
  by (auto simp: required_live_lease_def split: option.splits if_splits)

lemma required_live_lease_Inl:
  "required_live_lease db k w now = Inl e \<longleftrightarrow>
     e = Exn (OpsE JobLeaseLostError) ''Job lease is no longer owned by this worker'' \<and>
     (\<forall>j. get_job db k = Some j \<longrightarrow> \<not> owns_live_lease j w now)"
  by (auto simp: required_live_lease_def split: option.splits if_splits)

definition succeeded_row :: "time \<Rightarrow> job_row \<Rightarrow> job_row" where
  "succeeded_row now j = clear_lease (j\<lparr>j_status := JS_SUCCEEDED, j_completed_at := Some now\<rparr>)"

definition cancelled_row :: "time \<Rightarrow> job_row \<Rightarrow> job_row" where
  "cancelled_row now j = clear_lease
     (j\<lparr>j_status := JS_CANCELLED, cancel_requested := True, j_completed_at := Some now\<rparr>)"

definition failed_row :: "time \<Rightarrow> string \<Rightarrow> string \<Rightarrow> bool \<Rightarrow> int \<Rightarrow> int \<Rightarrow> job_row \<Rightarrow> job_row" where
  "failed_row now c m retryable b x j =
     (let j1 = j\<lparr>j_error_code := Some c, j_error_message := Some m\<rparr>
      in clear_lease (if retryable \<and> attempt_count j < max_attempts j
           then j1\<lparr>j_status := JS_PENDING,
                   available_at := now + seconds (retry_delay_seconds (attempt_count j) b x)\<rparr>
           else j1\<lparr>j_status := JS_DEAD_LETTER, j_completed_at := Some now\<rparr>))"

text \<open>The shape the three finishing operations share under the invariant.\<close>

lemma finishing_op:
  assumes inv: "job_inv db" and j: "get_job db k = Some j" and own: "owns_live_lease j w now"
    and ids: "job_id j0 = job_id j" "attempt_count j0 = attempt_count j"
    and row: "job_id j' = job_id j" "job_ok j \<Longrightarrow> job_ok j'" "j_status j' \<noteq> JS_RUNNING"
      "attempt_count j' = attempt_count j" "idempotency_key j' = idempotency_key j"
    and st: "st \<noteq> JA_RUNNING" and fits: "\<not> attempt_overflows now j db"
  shows "\<exists>db'. finish_attempt j0 w st now c m db = Inr db' \<and> job_inv (put_job j' db') \<and>
    workers db' = workers db \<and>
    (\<forall>i. get_job (put_job j' db') i = (if i = k then Some j' else get_job db i))"
proof -
  have mem: "j \<in> set (jobs db)" and id: "job_id j = k" using j by (auto dest: t_get_SomeD)
  have ok: "job_ok j'" using row(2) job_invD(4) [OF inv mem] by simp
  have run: "j_status j = JS_RUNNING" using own by (simp add: owns_live_lease_def)
  obtain db' where db': "finish_attempt j0 w st now c m db = Inr db'" "jobs db' = jobs db"
    "workers db' = workers db" "job_inv (put_job j' db')"
    using finish_attempt_inv [OF inv, of j' j j0 st] j id run ids ok row st fits attempt_overflows_cong [of j0 j]
    by metis
  then show ?thesis using get_put_job [of db' j'] row(1) id j by simp
qed

lemma complete_spec:
  assumes "job_inv db" and "get_job db k = Some j" and "owns_live_lease j w now"
    and "\<not> attempt_overflows now j db"
  shows "\<exists>db'. repo_complete now k w db = Inr (succeeded_row now j, db') \<and> job_inv db' \<and>
    workers db' = workers db \<and>
    (\<forall>i. get_job db' i = (if i = k then Some (succeeded_row now j) else get_job db i))"
proof -
  have "required_live_lease db k w now = Inr j"
    using assms by (simp add: required_live_lease_iff)
  then show ?thesis
    using finishing_op [OF assms(1-3) _ _ _ _ _ _ _ _ assms(4), of "succeeded_row now j" "succeeded_row now j" JA_SUCCEEDED None None]
    by (auto simp: repo_complete_def succeeded_row_def clear_lease_def job_ok_def Let_def)
qed

lemma mark_cancelled_spec:
  assumes "job_inv db" and "get_job db k = Some j" and "owns_live_lease j w now"
    and "\<not> attempt_overflows now j db"
  shows "\<exists>db'. repo_mark_cancelled now k w db = Inr (cancelled_row now j, db') \<and> job_inv db' \<and>
    workers db' = workers db \<and>
    (\<forall>i. get_job db' i = (if i = k then Some (cancelled_row now j) else get_job db i))"
proof -
  have "required_live_lease db k w now = Inr j"
    using assms by (simp add: required_live_lease_iff)
  then show ?thesis
    using finishing_op [OF assms(1-3) _ _ _ _ _ _ _ _ assms(4), of "cancelled_row now j" "cancelled_row now j" JA_CANCELLED None None]
    by (auto simp: repo_mark_cancelled_def cancelled_row_def clear_lease_def job_ok_def Let_def)
qed

lemma fail_spec:
  assumes "job_inv db" and "get_job db k = Some j" and "owns_live_lease j w now"
    and "\<not> attempt_overflows now j db"
  shows "\<exists>db'. repo_fail now k w c m retryable b x db =
      Inr (failed_row now c m retryable b x j, db') \<and> job_inv db' \<and> workers db' = workers db \<and>
    (\<forall>i. get_job db' i = (if i = k then Some (failed_row now c m retryable b x j) else get_job db i))"
proof -
  have "required_live_lease db k w now = Inr j"
    using assms by (simp add: required_live_lease_iff)
  then show ?thesis
    using finishing_op [OF assms(1-3) _ _ _ _ _ _ _ _ assms(4), of j "failed_row now c m retryable b x j" JA_FAILED "Some c" "Some m"]
    by (auto simp: repo_fail_def failed_row_def clear_lease_def job_ok_def Let_def)
qed

lemma complete_inv:
  assumes "job_inv db" and "repo_complete now k w db = Inr (j, db')"
  shows "job_inv db'"
proof -
  obtain j0 where j0: "get_job db k = Some j0" "owns_live_lease j0 w now" "\<not> attempt_overflows now (succeeded_row now j0) db"
    using assms(2) by (auto simp: repo_complete_def succeeded_row_def result_simps required_live_lease_iff Let_def
        dest: finish_attempt_fits)
  then have "\<not> attempt_overflows now j0 db"
    using attempt_overflows_cong [of "succeeded_row now j0" j0] by (simp add: succeeded_row_def clear_lease_def)
  with j0 show ?thesis using complete_spec [OF assms(1), of k j0 w now] assms(2) by auto
qed

lemma mark_cancelled_inv:
  assumes "job_inv db" and "repo_mark_cancelled now k w db = Inr (j, db')"
  shows "job_inv db'"
proof -
  obtain j0 where j0: "get_job db k = Some j0" "owns_live_lease j0 w now" "\<not> attempt_overflows now (cancelled_row now j0) db"
    using assms(2) by (auto simp: repo_mark_cancelled_def cancelled_row_def result_simps required_live_lease_iff Let_def
        dest: finish_attempt_fits)
  then have "\<not> attempt_overflows now j0 db"
    using attempt_overflows_cong [of "cancelled_row now j0" j0] by (simp add: cancelled_row_def clear_lease_def)
  with j0 show ?thesis using mark_cancelled_spec [OF assms(1), of k j0 w now] assms(2) by auto
qed

lemma fail_inv:
  assumes "job_inv db" and "repo_fail now k w c m r b x db = Inr (j, db')"
  shows "job_inv db'"
proof -
  obtain j0 where "get_job db k = Some j0" "owns_live_lease j0 w now" "\<not> attempt_overflows now j0 db"
    using assms(2) by (auto simp: repo_fail_def result_simps required_live_lease_iff dest: finish_attempt_fits)
  then show ?thesis using fail_spec [OF assms(1), of k j0 w now c m r b x] assms(2) by auto
qed

lemma heartbeat_inv: "job_inv db \<Longrightarrow> job_inv (snd (repo_heartbeat now k w ls db))"
proof (cases "get_job db k")
  case None
  then show "job_inv db \<Longrightarrow> ?thesis" by (simp add: repo_heartbeat_def)
next
  case (Some j)
  assume inv: "job_inv db"
  have id: "job_id j = k" and "j \<in> set (jobs db)" using Some by (auto dest: t_get_SomeD)
  then have "job_ok j" using job_invD(4) [OF inv] by blast
  then have "job_inv (put_job (j\<lparr>heartbeat_at := Some now,
      lease_expires_at := Some (now + seconds ls)\<rparr>) db)" if "owns_live_lease j w now"
    using that Some id inv
    by (intro job_inv_put_job [of _ _ j]) (auto simp: job_ok_def owns_live_lease_def)
  with Some inv show ?thesis by (simp add: repo_heartbeat_def)
qed

lemma cancel_inv:
  assumes inv: "job_inv db" and "repo_cancel now k db = Inr (j', db')"
  shows "job_inv db'"
proof -
  obtain j where j: "get_job db k = Some j"
    using assms(2) by (auto simp: repo_cancel_def split: option.splits)
  have id: "job_id j = k" and "j \<in> set (jobs db)" using j by (auto dest: t_get_SomeD)
  then have ok: "job_ok j" using job_invD(4) [OF inv] by blast
  have "job_inv (put_job (j\<lparr>j_status := JS_CANCELLED, cancel_requested := True,
      j_completed_at := Some now\<rparr>) db)" if "j_status j = JS_PENDING"
    using that j id inv ok by (intro job_inv_put_job [of _ _ j]) (auto simp: job_ok_def)
  moreover have "job_inv (put_job (j\<lparr>cancel_requested := True\<rparr>) db)"
    using j id inv ok by (intro job_inv_put_job [of _ _ j]) (auto simp: job_ok_def)
  ultimately show ?thesis
    using assms j by (auto simp: repo_cancel_def Let_def split: if_splits)
qed

lemma retry_inv:
  assumes inv: "job_inv db" and "repo_retry now k db = Inr (j', db')"
  shows "job_inv db'"
proof -
  obtain j where j: "get_job db k = Some j"
    using assms(2) by (auto simp: repo_retry_def split: option.splits)
  have id: "job_id j = k" and "j \<in> set (jobs db)" using j by (auto dest: t_get_SomeD)
  then have ok: "job_ok j" using job_invD(4) [OF inv] by blast
  have st: "j_status j \<in> {JS_FAILED, JS_DEAD_LETTER, JS_CANCELLED}"
    and row: "j' = retried_row now j" and db': "db' = put_job (retried_row now j) db"
    using assms(2) j by (auto simp: repo_retry_def Let_def split: if_splits)
  have facts: "job_id (retried_row now j) = k" "attempt_count (retried_row now j) = attempt_count j"
    "j_status (retried_row now j) = JS_PENDING"
    "idempotency_key (retried_row now j) = idempotency_key j" "job_ok (retried_row now j)"
    using id ok by (simp_all add: retried_row_def clear_lease_def Let_def job_ok_def)
  show ?thesis unfolding db'
    using j id inv st facts by (intro job_inv_put_job [of _ _ j]) auto
qed

lemma dump_payload_object: "is_json_object (sanitize_json n (dump_payload q))"
  by (cases q) simp_all

text \<open>After an enqueue under an explicit key, that key finds the row; while it does, no request
  under the key adds another.\<close>

lemma enqueue_stores_key:
  assumes "enqueue co h st env r db = Inr (j, db1)" and "e_idempotency_key r = Some key" and "key \<noteq> []"
  shows "find (\<lambda>i. idempotency_key i = key) (jobs db1) = Some j"
proof -
  have "t_get idempotency_key (jobs db1) key = Some j"
    using assms
    by (auto simp: enqueue_def result_simps Let_def or_str_def new_job_def t_get_def [symmetric]
        t_get_append table_simps split: if_splits option.splits)
  then show ?thesis by (simp add: t_get_def)
qed

lemma enqueue_finds_key:
  assumes "find (\<lambda>i. idempotency_key i = key) (jobs db) = Some j"
    and "e_idempotency_key r = Some key" and "key \<noteq> []"
    and "validate_job_payload co (e_job_type r) (e_payload r) = Inr p"
    and "0 < or_int (e_max_attempts r) (job_max_attempts st)"
  shows "enqueue co h st env r db = Inr (j, db)"
  using assms dump_payload_object by (simp add: enqueue_def Let_def or_str_def new_job_def)

lemma enqueue_inv:
  assumes inv: "job_inv db" and "enqueue co h st env r db = Inr (j, db')"
    and fresh: "env_row_id env \<notin> job_id ` set (jobs db)"
  shows "job_inv db'"
proof (cases "db' = db")
  case False
  then obtain p key where db': "db' = db\<lparr>jobs := jobs db @ [new_job st env r p key]\<rparr>"
    and pos: "0 < max_attempts (new_job st env r p key)"
    and key: "find (\<lambda>j. idempotency_key j = key) (jobs db) = None"
    using assms(2) by (auto simp: enqueue_def result_simps Let_def split: if_splits option.splits)
  let ?j = "new_job st env r p key"
  note i = job_invD [OF inv]
  have id: "job_id ?j = env_row_id env" and idk: "idempotency_key ?j = key"
    and stt: "j_status ?j = JS_PENDING"
    by (simp_all add: new_job_def)
  have ok: "job_ok ?j" using pos clamp_bounds [of 0 100 "e_priority r"]
    by (simp add: job_ok_def new_job_def)
  have old: "get_job db' k = Some x" if "get_job db k = Some x" for k x
    using that by (simp add: db' t_get_append)
  then have "attempt_ok db' a" if "a \<in> set (attempts db)" for a
    using i(5) [OF that] by (auto simp: attempt_ok_def)
  moreover have "key \<notin> idempotency_key ` set (jobs db)" using key by (auto simp: find_None_iff)
  ultimately show ?thesis
    using i fresh id idk ok stt by (auto simp: job_inv_def db' has_running_attempt_def)
qed (use inv in simp)

lemma fail_unknown_inv:
  "job_inv db \<Longrightarrow> fail_unknown_type st now w m db = Inr db' \<Longrightarrow> job_inv db'"
  by (auto simp: fail_unknown_type_def result_simps split: option.splits dest: fail_inv)

lemma run_fail_unknown_inv:
  "job_inv db \<Longrightarrow> run_all (fail_unknown_type st now w) ms db = Inr db' \<Longrightarrow> job_inv db'"
  by (induction ms arbitrary: db) (auto simp: result_simps dest: fail_unknown_inv)

lemma lease_batch_inv:
  "job_inv db \<Longrightarrow> lease_batch locked now w n ls db = Inr (ms, db') \<Longrightarrow> job_inv db'"
  using lease_batch_spec [of db locked now w n ls] by auto

lemma reclaim_stale_inv:
  "job_inv db \<Longrightarrow> repo_reclaim_stale locked now n b m db = Inr db' \<Longrightarrow> job_inv db'"
  using reclaim_stale_spec [of db locked now n b m] reclaim_stale_overflow [of db locked now n b m] by fastforce

lemma queue_lease_inv:
  assumes "job_inv db" and "queue_lease locked st now w limit db = Inr (ls, db')"
  shows "job_inv db'"
proof -
  obtain ms db1 where "lease_batch locked now w (clamp 1 100 (or_int limit (job_batch_size st)))
      (job_lease_seconds st) db = Inr (ms, db1)"
    and run: "run_all (fail_unknown_type st now w) ms db1 = Inr db'"
    using assms(2) unfolding queue_lease_def and_then_Inr_iff by (fastforce simp: result_simps)
  with assms(1) have "job_inv db1" by (blast dest: lease_batch_inv)
  then show ?thesis using run by (rule run_fail_unknown_inv)
qed

lemma job_inv_workers [simp]: "job_inv (db\<lparr>workers := ws\<rparr>) = job_inv db"
  by (simp add: job_inv_def attempt_ok_def has_running_attempt_def)

lemma worker_heartbeat_inv:
  "job_inv db \<Longrightarrow> job_inv (update_worker_heartbeat now w s c i db)"
  by (simp add: update_worker_heartbeat_def split: option.splits)

subsection \<open>Reachable states\<close>

inductive job_step :: "coercions \<Rightarrow> hashing \<Rightarrow> job_settings \<Rightarrow> job_db \<Rightarrow> job_db \<Rightarrow> bool"
  for co h st where
  enqueue: "enqueue co h st env r db = Inr (j, db') \<Longrightarrow> env_row_id env \<notin> job_id ` set (jobs db) \<Longrightarrow>
     job_step co h st db db'"
| lease: "queue_lease locked st now w limit db = Inr (ls, db') \<Longrightarrow> job_step co h st db db'"
| heartbeat: "repo_heartbeat now k w (job_lease_seconds st) db = (renewed, db') \<Longrightarrow>
     job_step co h st db db'"
| complete: "repo_complete now k w db = Inr (j, db') \<Longrightarrow> job_step co h st db db'"
| fail: "queue_fail st now k w c m retryable db = Inr (j, db') \<Longrightarrow> job_step co h st db db'"
| cancel: "repo_cancel now k db = Inr (j, db') \<Longrightarrow> job_step co h st db db'"
| mark_cancelled: "repo_mark_cancelled now k w db = Inr (j, db') \<Longrightarrow> job_step co h st db db'"
| retry: "repo_retry now k db = Inr (j, db') \<Longrightarrow> job_step co h st db db'"
| reclaim: "queue_reclaim_stale locked st now limit db = Inr db' \<Longrightarrow> job_step co h st db db'"
| worker: "job_step co h st db (update_worker_heartbeat now w s current increment db)"

inductive job_reachable :: "coercions \<Rightarrow> hashing \<Rightarrow> job_settings \<Rightarrow> job_db \<Rightarrow> bool"
  for co h st where
  start: "job_reachable co h st \<lparr>jobs = [], attempts = [], workers = []\<rparr>"
| step: "job_reachable co h st db \<Longrightarrow> job_step co h st db db' \<Longrightarrow> job_reachable co h st db'"

inductive_cases job_stepE: "job_step co h st db db'"

lemma job_step_inv: "job_step co h st db db' \<Longrightarrow> job_inv db \<Longrightarrow> job_inv db'"
proof (induction rule: job_step.induct)
  case (heartbeat now k w db renewed db')
  then show ?case using heartbeat_inv [of db now k w] by (metis snd_conv)
qed (auto simp: queue_fail_def queue_reclaim_stale_def intro: worker_heartbeat_inv
    dest: enqueue_inv queue_lease_inv complete_inv fail_inv cancel_inv mark_cancelled_inv retry_inv
      reclaim_stale_inv)

lemma reachable_job_inv: "job_reachable co h st db \<Longrightarrow> job_inv db"
proof (induction rule: job_reachable.induct)
  case start
  show ?case by (simp add: job_inv_def)
next
  case (step db db')
  then show ?case by (blast intro: job_step_inv)
qed

end
