(* ===== verification/Job_Properties.thy ===== *)
theory Job_Properties
  imports Job_Steps
begin

text \<open>
  The properties of the job queue, over the states \<open>job_reachable\<close> reaches and over single
  operations, with an example run (one job enqueued, then leased) for their witnesses.
\<close>

subsection \<open>An example run\<close>

definition ex_hashing :: hashing where
  "ex_hashing = \<lparr>sha256_hex = (\<lambda>s. replicate 64 (CHR ''0'')), json_dumps = (\<lambda>j. ''{}'')\<rparr>"

definition ex_settings :: job_settings where
  "ex_settings = \<lparr>job_lease_seconds = 60, job_max_attempts = 5, job_retry_base_seconds = 5,
     job_retry_max_seconds = 300, job_batch_size = 10\<rparr>"

definition ex_env :: call_env where
  "ex_env = \<lparr>env_now = 0, env_context = Map.empty, env_row_id = 1, env_correlation = 2\<rparr>"

definition ex_request :: enqueue_request where
  "ex_request = \<lparr>e_job_type = JT_MEMORY_RECONCILIATION, e_payload = JObj [(''limit'', JInt 5)],
     e_created_by = ''ops'', e_priority = 50, e_max_attempts = None, e_available_at = None,
     e_idempotency_key = Some ''k1'', e_correlation_id = Some ''c1'', e_trace_id = None\<rparr>"

definition ex_job :: job_row where
  "ex_job = new_job ex_settings ex_env ex_request (JObj [(''limit'', JInt 5)]) ''k1''"

definition ex_queued :: job_db where
  "ex_queued = \<lparr>jobs = [ex_job], attempts = [], workers = []\<rparr>"

definition ex_leased_job :: job_row where
  "ex_leased_job = lease_row ''w1'' 10 60 ex_job"

definition ex_leased :: job_db where
  "ex_leased = \<lparr>jobs = [ex_leased_job], attempts = [new_attempt ''w1'' 10 ex_leased_job], workers = []\<rparr>"

lemma ex_settings_simps:
  "0 < job_retry_base_seconds ex_settings" "0 < job_retry_max_seconds ex_settings"
  by (simp_all add: ex_settings_def)

lemma sanitize_ops: "sanitize_text 200 ''ops'' = ''ops''"
  by (rule sanitize_plain_text) (simp_all add: is_token_char_def)

lemma ex_job_simps:
  "job_id ex_job = 1" "job_type ex_job = ''MEMORY_RECONCILIATION''" "j_status ex_job = JS_PENDING"
  "available_at ex_job = 0" "cancel_requested ex_job = False" "attempt_count ex_job = 0"
  "max_attempts ex_job = 5" "priority ex_job = 50" "idempotency_key ex_job = ''k1''"
  by (simp_all add: ex_job_def new_job_def ex_request_def ex_env_def ex_settings_def or_int_def
      clamp_def)

lemma ex_enqueue:
  "enqueue strict_coercions ex_hashing ex_settings ex_env ex_request
     \<lparr>jobs = [], attempts = [], workers = []\<rparr> = Inr (ex_job, ex_queued)"
proof -
  have "validate_job_payload strict_coercions (e_job_type ex_request) (e_payload ex_request) =
      Inr (MemoryReconciliationJobPayload 5)"
    by (simp add: ex_request_def validate_job_payload_def limit_model_def strict_coercions_def)
  moreover have "sanitize_json 2000 (dump_payload (MemoryReconciliationJobPayload 5)) =
      JObj [(''limit'', JInt 5)]"
    by (simp add: payload_key_simps dict_of_def)
  moreover have "or_str (e_idempotency_key ex_request) d = ''k1''" for d
    by (simp add: ex_request_def or_str_def)
  moreover have "new_job ex_settings ex_env ex_request (JObj [(''limit'', JInt 5)]) ''k1'' = ex_job"
    by (simp add: ex_job_def)
  ultimately show ?thesis
    by (simp add: enqueue_def Let_def ex_job_simps ex_queued_def)
qed

lemma ex_lease:
  "queue_lease (\<lambda>_. False) ex_settings 10 ''w1'' None ex_queued =
   Inr ([\<lparr>lj_job_id = 1, lj_job_type = JT_MEMORY_RECONCILIATION,
          lj_payload = JObj [(''limit'', JInt 5)], lj_attempt_count = 1, lj_max_attempts = 5,
          lj_correlation_id = ''c1'', lj_trace_id = None\<rparr>], ex_leased)"
proof -
  have sel: "lease_selection (\<lambda>_. False) 10 10 ex_queued = [ex_job]"
    by (simp add: lease_selection_def ex_queued_def leasable_def ex_job_simps order_limit_def)
  have run: "run_all (lease_job ''w1'' 10 60) [ex_job] ex_queued = Inr ex_leased"
    by (simp add: lease_job_def Let_def ex_queued_def ex_leased_def ex_leased_job_def
        put_job_def t_put_def lease_row_def ex_job_simps)
  have ty: "parse_job_type (job_type ex_leased_job) = Some JT_MEMORY_RECONCILIATION"
    using parse_job_type_value [of JT_MEMORY_RECONCILIATION]
    by (simp add: ex_leased_job_def lease_row_def ex_job_simps)
  have lj: "leased_of ex_leased_job = Some \<lparr>lj_job_id = 1, lj_job_type = JT_MEMORY_RECONCILIATION,
          lj_payload = JObj [(''limit'', JInt 5)], lj_attempt_count = 1, lj_max_attempts = 5,
          lj_correlation_id = ''c1'', lj_trace_id = None\<rparr>"
    using ty by (simp add: leased_of_def)
      (simp add: ex_leased_job_def lease_row_def ex_job_simps,
       simp add: ex_job_def new_job_def ex_request_def correlation_or_new_def or_str_def
         trace_or_context_def ex_env_def)
  show ?thesis
    using sel run ty lj
    by (simp add: queue_lease_def lease_batch_def ex_settings_def or_int_def clamp_def
        fail_unknown_type_def ex_leased_job_def [symmetric] List.map_filter_def)
qed

lemma ex_queued_reachable: "job_reachable strict_coercions ex_hashing ex_settings ex_queued"
  by (rule job_reachable.step [OF job_reachable.start])
    (rule job_step.enqueue [OF ex_enqueue], simp)

lemma ex_leased_reachable: "job_reachable strict_coercions ex_hashing ex_settings ex_leased"
  by (rule job_reachable.step [OF ex_queued_reachable]) (rule job_step.lease [OF ex_lease])

lemma ex_leased_simps:
  "get_job ex_leased 1 = Some ex_leased_job" "t_get job_id [ex_leased_job] (Suc 0) = Some ex_leased_job"
  "jobs ex_leased = [ex_leased_job]"
  "job_id ex_leased_job = 1" "j_status ex_leased_job = JS_RUNNING"
  "attempt_count ex_leased_job = 1" "max_attempts ex_leased_job = 5"
  "locked_by ex_leased_job = Some ''w1''" "lease_expires_at ex_leased_job = Some 60000010"
  "owns_live_lease ex_leased_job ''w1'' 20"
  by (simp_all add: ex_leased_def ex_leased_job_def lease_row_def ex_job_simps t_get_def seconds_def
      owns_live_lease_def)

subsection \<open>Properties\<close>

text \<open>C5. In every reachable state of the queue a running job has exactly one running attempt,
  the one its counter names, held under a lease; any other job has none; and no job has used
  more attempts than it may.\<close>

theorem attempt_audit_agrees:
  assumes "job_reachable co h st db" and "j \<in> set (jobs db)"
  shows "(j_status j = JS_RUNNING \<longleftrightarrow>
      (\<exists>a \<in> set (attempts db). a_job_id a = job_id j \<and> a_status a = JA_RUNNING)) \<and>
    (\<forall>a \<in> set (attempts db). a_job_id a = job_id j \<longrightarrow> a_status a = JA_RUNNING \<longrightarrow>
      attempt_number a = attempt_count j) \<and>
    (j_status j = JS_RUNNING \<longleftrightarrow> locked_by j \<noteq> None) \<and>
    0 \<le> attempt_count j \<and> attempt_count j \<le> max_attempts j"
proof -
  note i = job_invD [OF reachable_job_inv [OF assms(1)]]
  have get: "get_job db (job_id j) = Some j" using i(1) assms(2) by (rule t_get_in_set)
  then have "\<And>a. a \<in> set (attempts db) \<Longrightarrow> a_job_id a = job_id j \<Longrightarrow> a_status a = JA_RUNNING \<Longrightarrow>
      j_status j = JS_RUNNING \<and> attempt_number a = attempt_count j"
    using i(5) by (fastforce simp: attempt_ok_def)
  then show ?thesis
    using i(4) [OF assms(2)] i(6) [OF assms(2)]
    by (auto simp: job_ok_def has_running_attempt_def)
qed

theorem attempt_audit_agrees_witness:
  "(\<exists>a \<in> set (attempts ex_leased). a_job_id a = job_id ex_leased_job \<and> a_status a = JA_RUNNING) \<and>
   attempt_count ex_leased_job \<le> max_attempts ex_leased_job"
  using attempt_audit_agrees [OF ex_leased_reachable, of ex_leased_job]
  by (simp add: ex_leased_simps)

text \<open>While a worker holds a live lease, every other worker is shut out at every time: it can
  neither finish the job in any way nor renew its lease, and no worker's poll leases the job
  again.\<close>

theorem live_lease_excludes_others:
  assumes "get_job db k = Some j" and "owns_live_lease j w now" and "w' \<noteq> w"
  shows "repo_complete now' k w' db =
      Inl (Exn (OpsE JobLeaseLostError) ''Job lease is no longer owned by this worker'') \<and>
    repo_fail now' k w' c m retryable b x db =
      Inl (Exn (OpsE JobLeaseLostError) ''Job lease is no longer owned by this worker'') \<and>
    repo_mark_cancelled now' k w' db =
      Inl (Exn (OpsE JobLeaseLostError) ''Job lease is no longer owned by this worker'') \<and>
    repo_heartbeat now' k w' ls db = (False, db) \<and>
    j \<notin> set (lease_selection locked now' n db)"
proof -
  have no: "\<not> owns_live_lease j w' now'"
    using assms(2,3) by (rule job_lease.other_rejected)
  have lost: "required_live_lease db k w' now' =
      Inl (Exn (OpsE JobLeaseLostError) ''Job lease is no longer owned by this worker'')"
    using assms(1) no by (simp add: required_live_lease_def)
  have "j \<notin> set (lease_selection locked now' n db)"
    using assms(2) by (auto simp: lease_selection_def leasable_def owns_live_lease_def
        dest!: order_limit_SomeD)
  then show ?thesis
    using lost no assms(1)
    by (simp add: repo_complete_def repo_fail_def repo_mark_cancelled_def repo_heartbeat_def)
qed

theorem live_lease_excludes_others_witness:
  "repo_complete 30 1 ''w2'' ex_leased =
   Inl (Exn (OpsE JobLeaseLostError) ''Job lease is no longer owned by this worker'')"
  using live_lease_excludes_others [of ex_leased 1 ex_leased_job "''w1''" 20 "''w2''" 30]
  by (simp add: ex_leased_simps)

text \<open>An attempt of the example run fits its column.\<close>

lemma ex_attempt_fits: "now \<le> 20 \<or> now = 60000010 \<Longrightarrow> \<not> attempt_overflows now ex_leased_job ex_leased"
  using attempt_overflows_old [of now ex_leased_job ex_leased]
  by (auto simp: ex_leased_def new_attempt_def seconds_def)

text \<open>In every reachable state a worker with a live lease whose attempt has not run for more than 24 days
  completes its job: the job becomes
  SUCCEEDED and loses its lease, no other job changes, and from then on nobody can complete it
  again, at any time.\<close>

theorem complete_once:
  assumes "job_reachable co h st db" and "get_job db k = Some j" and "owns_live_lease j w now"
    and "\<not> attempt_overflows now j db"
  shows "\<exists>j' db'. repo_complete now k w db = Inr (j', db') \<and> get_job db' k = Some j' \<and>
    j_status j' = JS_SUCCEEDED \<and> j_completed_at j' = Some now \<and> locked_by j' = None \<and>
    (\<forall>i. i \<noteq> k \<longrightarrow> get_job db' i = get_job db i) \<and>
    (\<forall>now' w'. repo_complete now' k w' db' =
      Inl (Exn (OpsE JobLeaseLostError) ''Job lease is no longer owned by this worker''))"
proof -
  obtain db' where db': "repo_complete now k w db = Inr (succeeded_row now j, db')"
    "\<forall>i. get_job db' i = (if i = k then Some (succeeded_row now j) else get_job db i)"
    using complete_spec [OF reachable_job_inv [OF assms(1)] assms(2-4)] by blast
  have "\<not> owns_live_lease (succeeded_row now j) w' now'" for w' now'
    unfolding succeeded_row_def by (rule job_lease.released)
  then have "required_live_lease db' k w' now' =
      Inl (Exn (OpsE JobLeaseLostError) ''Job lease is no longer owned by this worker'')" for w' now'
    using db'(2) by (simp add: required_live_lease_def)
  then have "\<forall>now' w'. repo_complete now' k w' db' =
      Inl (Exn (OpsE JobLeaseLostError) ''Job lease is no longer owned by this worker'')"
    by (simp add: repo_complete_def)
  then show ?thesis
    using db' by (intro exI conjI) (auto simp: succeeded_row_def clear_lease_def)
qed

theorem complete_once_witness:
  "\<exists>j' db'. repo_complete 20 1 ''w1'' ex_leased = Inr (j', db') \<and> j_status j' = JS_SUCCEEDED"
  using complete_once [OF ex_leased_reachable, of 1 ex_leased_job "''w1''" 20] ex_attempt_fits [of 20]
  by (auto simp: ex_leased_simps)

text \<open>A failed job is queued again exactly when its error is retryable and it has attempts
  left, not before a positive delay and not after the maximum one; otherwise it is a dead
  letter. Either way the error is recorded and the lease released.\<close>

theorem fail_outcome:
  assumes "job_reachable co h st db" and "get_job db k = Some j" and "owns_live_lease j w now"
    and "0 < job_retry_base_seconds st" and "0 < job_retry_max_seconds st" and "\<not> attempt_overflows now j db"
  shows "\<exists>j' db'. queue_fail st now k w c m retryable db = Inr (j', db') \<and>
    get_job db' k = Some j' \<and> locked_by j' = None \<and>
    j_error_code j' = Some (sanitize_text 100 c) \<and> j_error_message j' = Some (sanitize_text 2000 m) \<and>
    (if retryable \<and> attempt_count j < max_attempts j
     then j_status j' = JS_PENDING \<and> now < available_at j' \<and>
          available_at j' \<le> now + seconds (job_retry_max_seconds st)
     else j_status j' = JS_DEAD_LETTER \<and> j_completed_at j' = Some now)"
proof -
  let ?j = "failed_row now (sanitize_text 100 c) (sanitize_text 2000 m) retryable
    (job_retry_base_seconds st) (job_retry_max_seconds st) j"
  obtain db' where db': "queue_fail st now k w c m retryable db = Inr (?j, db')"
    "\<forall>i. get_job db' i = (if i = k then Some ?j else get_job db i)"
    unfolding queue_fail_def
    using fail_spec [OF reachable_job_inv [OF assms(1)] assms(2,3,6)] by blast
  have "j \<in> set (jobs db)" using assms(2) by (auto dest: t_get_SomeD)
  then have "1 \<le> attempt_count j"
    using job_invD(4) [OF reachable_job_inv [OF assms(1)]] assms(3)
    by (auto simp: job_ok_def owns_live_lease_def)
  then have "now < now + seconds (retry_delay_seconds (attempt_count j) (job_retry_base_seconds st)
        (job_retry_max_seconds st)) \<and>
      now + seconds (retry_delay_seconds (attempt_count j) (job_retry_base_seconds st)
        (job_retry_max_seconds st)) \<le> now + seconds (job_retry_max_seconds st)"
    using assms(4,5) by (rule job_backoff.available_later)
  then show ?thesis
    using db' by (intro exI conjI) (auto simp: failed_row_def clear_lease_def Let_def)
qed

theorem fail_outcome_witness:
  "\<exists>j' db'. queue_fail ex_settings 20 1 ''w1'' ''E'' ''boom'' True ex_leased = Inr (j', db') \<and>
     j_status j' = JS_PENDING"
  using fail_outcome [OF ex_leased_reachable, of 1 ex_leased_job "''w1''" 20 "''E''" "''boom''" True] ex_attempt_fits [of 20]
  by (auto simp: ex_leased_simps ex_settings_simps)

text \<open>C9. Recovery after a crashed worker fails exactly when a running attempt of its batch has lasted so
  long that its duration does not fit the 32-bit column, which takes more than 24 days; then it fails
  as a whole and changes nothing. Otherwise, in every reachable state, reclaiming stale leases
  succeeds, leaves no job of its batch running, gives each the status its attempts call for, and
  does not change the jobs outside the batch.\<close>

theorem reclaim_fails_only_for_overlong_attempts:
  assumes "job_reachable co h st db"
    and sel: "sel = stale_selection locked now (clamp 1 100 (or_int limit (job_batch_size st))) db"
  shows "if \<exists>j \<in> set sel. attempt_overflows now j db
    then queue_reclaim_stale locked st now limit db = Inl out_of_int32 \<and>
      (\<exists>j \<in> set sel. \<exists>a \<in> set (attempts db). a_job_id a = job_id j \<and> a_status a = JA_RUNNING \<and>
         a_started_at a + seconds (24 * 86400) < now)
    else \<exists>db'. queue_reclaim_stale locked st now limit db = Inr db' \<and>
      (\<forall>j \<in> set sel. \<exists>j'. get_job db' (job_id j) = Some j' \<and> locked_by j' = None \<and>
         j_status j' = (if attempt_count j < max_attempts j then JS_PENDING else JS_DEAD_LETTER)) \<and>
      (\<forall>k. k \<notin> job_id ` set sel \<longrightarrow> get_job db' k = get_job db k)"
proof (cases "\<exists>j \<in> set sel. attempt_overflows now j db")
  case True
  have "queue_reclaim_stale locked st now limit db = Inl out_of_int32"
    unfolding queue_reclaim_stale_def using True sel
    by (intro reclaim_stale_overflow reachable_job_inv [OF assms(1)]) simp
  with True show ?thesis using attempt_overflows_old by fastforce
next
  case False
  have inv: "job_inv db" using assms(1) by (rule reachable_job_inv)
  obtain db' where db': "queue_reclaim_stale locked st now limit db = Inr db'"
    and get: "\<forall>k. get_job db' k = (case find (\<lambda>x. job_id x = k) sel of
        Some x \<Rightarrow> Some (reclaimed_row now (job_retry_base_seconds st) (job_retry_max_seconds st) x)
      | None \<Rightarrow> get_job db k)"
    unfolding queue_reclaim_stale_def sel using reclaim_stale_spec [OF inv] False sel by blast
  have "find (\<lambda>x. job_id x = job_id j) sel = Some j" if "j \<in> set sel" for j
    using t_get_in_set [of job_id sel j] that selection_facts(3) [OF inv] by (simp add: t_get_def sel)
  moreover have "find (\<lambda>x. job_id x = k) sel = None" if "k \<notin> job_id ` set sel" for k
    using that by (auto simp: find_None_iff)
  ultimately have "(\<forall>j \<in> set sel. \<exists>j'. get_job db' (job_id j) = Some j' \<and> locked_by j' = None \<and>
      j_status j' = (if attempt_count j < max_attempts j then JS_PENDING else JS_DEAD_LETTER)) \<and>
    (\<forall>k. k \<notin> job_id ` set sel \<longrightarrow> get_job db' k = get_job db k)"
    using get by (auto simp: reclaimed_row_def clear_lease_def Let_def)
  with False db' show ?thesis by auto
qed

theorem reclaim_fails_only_for_overlong_attempts_witness:
  "(\<exists>db'. queue_reclaim_stale (\<lambda>_. False) ex_settings 60000010 None ex_leased = Inr db' \<and>
     (\<exists>j'. get_job db' 1 = Some j' \<and> j_status j' = JS_PENDING)) \<and>
   queue_reclaim_stale (\<lambda>_. False) ex_settings (10 + seconds (25 * 86400)) None ex_leased = Inl out_of_int32"
proof -
  have sel: "stale_selection (\<lambda>_. False) now 10 ex_leased = [ex_leased_job]" if "60000010 \<le> now" for now
    using that by (simp add: stale_selection_def lease_expired_def ex_leased_simps order_limit_def)
  have "running_attempt ex_leased_job ex_leased = Some (new_attempt ''w1'' 10 ex_leased_job)"
    by (simp add: running_attempt_def ex_leased_def new_attempt_def)
  then have "attempt_overflows (10 + seconds (25 * 86400)) ex_leased_job ex_leased"
    using duration_ms_long [of 10 "10 + seconds (25 * 86400)"]
    by (simp add: attempt_overflows_def new_attempt_def int32_max_def seconds_def)
  then show ?thesis
    using reclaim_fails_only_for_overlong_attempts [OF ex_leased_reachable, of _ "\<lambda>_. False" 60000010 None]
      reclaim_fails_only_for_overlong_attempts [OF ex_leased_reachable, of _ "\<lambda>_. False" "10 + seconds (25 * 86400)" None]
      ex_attempt_fits [of 60000010]
    by (auto simp: sel ex_leased_simps ex_settings_def or_int_def clamp_def seconds_def)
qed

text \<open>A poll leases at most its limit of jobs, only pending, due ones nobody cancelled or
  holds; each of them is now running under the poller's lease with one more attempt; and no
  leasable job left behind comes before a leased one in the order of priority, due time and age.\<close>

theorem lease_batch_takes_the_best:
  assumes "job_reachable co h st db"
  shows "\<exists>db'. lease_batch locked now w n ls db =
      Inr (map (lease_row w now ls) (lease_selection locked now n db), db') \<and>
    length (lease_selection locked now n db) \<le> nat n \<and>
    (\<forall>j \<in> set (lease_selection locked now n db).
       leasable locked now j \<and> get_job db' (job_id j) = Some (lease_row w now ls j) \<and>
       (\<forall>i \<in> set (jobs db). leasable locked now i \<longrightarrow>
          i \<notin> set (lease_selection locked now n db) \<longrightarrow> lease_order j \<le> lease_order i))"
proof -
  let ?sel = "lease_selection locked now n db"
  have inv: "job_inv db" using assms by (rule reachable_job_inv)
  obtain db' where db': "lease_batch locked now w n ls db = Inr (map (lease_row w now ls) ?sel, db')"
    and get: "\<forall>k. get_job db' k = (case find (\<lambda>x. job_id x = k) ?sel of
        Some x \<Rightarrow> Some (lease_row w now ls x) | None \<Rightarrow> get_job db k)"
    using lease_batch_spec [OF inv] by blast
  have "find (\<lambda>x. job_id x = job_id j) ?sel = Some j" if "j \<in> set ?sel" for j
    using t_get_in_set [OF selection_facts(1) [OF inv] that] by (simp add: t_get_def)
  moreover have "lease_order j \<le> lease_order i"
    if "j \<in> set ?sel" "i \<in> set (jobs db)" "leasable locked now i" "i \<notin> set ?sel" for i j
    using that unfolding lease_selection_def by (intro order_limit_minimal) auto
  moreover have "length ?sel \<le> nat n"
    unfolding lease_selection_def by (rule length_order_limit)
  ultimately show ?thesis
    using db' get selection_facts(2) [OF inv] by (intro exI conjI) auto
qed

theorem lease_batch_takes_the_best_witness:
  "\<exists>db'. lease_batch (\<lambda>_. False) 10 ''w1'' 1 60 ex_queued =
     Inr (map (lease_row ''w1'' 10 60) (lease_selection (\<lambda>_. False) 10 1 ex_queued), db')"
  using lease_batch_takes_the_best [OF ex_queued_reachable, of "\<lambda>_. False" 10 "''w1''" 1 60] by auto

text \<open>Enqueueing is idempotent: a second request with the same idempotency key, whatever its
  other fields and whenever it comes, returns the row the first one stored and changes
  nothing.\<close>

theorem enqueue_idempotent:
  assumes "enqueue co h st env r db = Inr (j, db1)"
    and "e_idempotency_key r = Some key" and "e_idempotency_key r' = Some key" and "key \<noteq> []"
    and "validate_job_payload co (e_job_type r') (e_payload r') = Inr p"
    and "0 < or_int (e_max_attempts r') (job_max_attempts st)"
  shows "enqueue co h st env' r' db1 = Inr (j, db1)"
  using enqueue_finds_key [OF enqueue_stores_key [OF assms(1,2,4)] assms(3,4,5,6)] .

theorem enqueue_idempotent_witness:
  "enqueue strict_coercions ex_hashing ex_settings (ex_env\<lparr>env_now := 99, env_row_id := 7\<rparr>)
     ex_request ex_queued = Inr (ex_job, ex_queued)"
proof (rule enqueue_idempotent [OF ex_enqueue, where key = "''k1''"])
  show "validate_job_payload strict_coercions (e_job_type ex_request) (e_payload ex_request) =
      Inr (MemoryReconciliationJobPayload 5)"
    by (simp add: ex_request_def validate_job_payload_def limit_model_def strict_coercions_def)
qed (simp_all add: ex_request_def or_int_def ex_settings_def)

end
