(* ===== verification/Outbox_Properties.thy ===== *)
theory Outbox_Properties
  imports Outbox_Invariant Job_Properties
begin

text \<open>
  The properties of the outbox: over every interleaving of dispatchers
  (\<open>outbox_reachable\<close>), of a single dispatch and of the consumers, with an example run (one
  event added, leased and processed) for their witnesses.
\<close>

subsection \<open>Dispatches as steps of the system\<close>

lemma heartbeat_reachable:
  assumes "outbox_reachable h st s" and "(w, v) \<in> set (ox_leased s)"
    and "heartbeat_loop st w v ticks (ox_events s) = (lost, t)"
  shows "outbox_reachable h st (s\<lparr>ox_events := t\<rparr>)"
  using assms
proof (induction ticks arbitrary: s)
  case Nil
  then show ?case by auto
next
  case (Cons now ticks)
  obtain ok t' where r: "renew_once st w now v (ox_events s) = (ok, t')" by force
  have s': "outbox_reachable h st (s\<lparr>ox_events := t'\<rparr>)"
    using outbox_reachable.step [OF Cons.prems(1) outbox_step.renew [OF Cons.prems(2) r]] .
  show ?case
  proof (cases ok)
    case True
    have "outbox_reachable h st ((s\<lparr>ox_events := t'\<rparr>)\<lparr>ox_events := t\<rparr>)"
      using Cons.IH [OF s'] Cons.prems(2,3) r True by simp
    then show ?thesis by simp
  next
    case False
    then show ?thesis using s' r Cons.prems(3) by simp
  qed
qed

lemma dispatch_event_cases:
  assumes "dispatch_event st w consumer de v (t0, d) = (out, t, d')"
  obtains lost t1 where "heartbeat_loop st w v (de_heartbeats de) t0 = (lost, t1)"
    and "(out \<noteq> Processed \<and> out \<noteq> Failed_Recorded \<and> t = t1 \<and> d' = d) \<or>
      (\<exists>x. consumer (de_call de) v d = Inl x \<and> record_failure st w (de_fail_at de) v x t1 = (out, t) \<and> d' = d) \<or>
      (\<exists>ok t2. renew_once st w (de_renew_at de) v t1 = (ok, t2) \<and> d' = d \<and>
         out \<noteq> Processed \<and> out \<noteq> Failed_Recorded \<and> t = t2) \<or>
      (\<exists>t2. renew_once st w (de_renew_at de) v t1 = (True, t2) \<and> out = Processed \<and>
         mark_processed (de_mark_at de) (v_id v) (w, v_lease_version v) t2 = (LU_UPDATED, t) \<and>
         consumer (de_call de) v d = Inr d')"
  using assms
  by (fastforce simp: dispatch_event_def Let_def split: prod.splits sum.splits if_splits)

lemma record_failure_not_processed: "record_failure st w now v x t \<noteq> (Processed, t')"
  by (auto simp: record_failure_def split: prod.splits if_splits)

lemma dispatch_effects:
  "dispatch_event st w consumer de v (t0, d) = (out, t, d') \<Longrightarrow>
   if out = Processed then consumer (de_call de) v d = Inr d' else d' = d"
  by (erule dispatch_event_cases) (auto simp: record_failure_not_processed)

lemma dispatch_reachable:
  assumes s: "outbox_reachable h st s" and v: "(w, v) \<in> set (ox_leased s)"
    and r: "dispatch_event st w consumer de v (ox_events s, d) = (out, t, d')"
  shows "outbox_reachable h st (s\<lparr>ox_events := t,
      ox_commits := (if out = Processed then v_id v # ox_commits s else ox_commits s)\<rparr>)"
proof -
  from r obtain lost t1 where hb: "heartbeat_loop st w v (de_heartbeats de) (ox_events s) = (lost, t1)"
    and c: "(out \<noteq> Processed \<and> out \<noteq> Failed_Recorded \<and> t = t1 \<and> d' = d) \<or>
      (\<exists>x. consumer (de_call de) v d = Inl x \<and> record_failure st w (de_fail_at de) v x t1 = (out, t) \<and> d' = d) \<or>
      (\<exists>ok t2. renew_once st w (de_renew_at de) v t1 = (ok, t2) \<and> d' = d \<and>
         out \<noteq> Processed \<and> out \<noteq> Failed_Recorded \<and> t = t2) \<or>
      (\<exists>t2. renew_once st w (de_renew_at de) v t1 = (True, t2) \<and> out = Processed \<and>
         mark_processed (de_mark_at de) (v_id v) (w, v_lease_version v) t2 = (LU_UPDATED, t) \<and>
         consumer (de_call de) v d = Inr d')"
    by (rule dispatch_event_cases)
  have s1: "outbox_reachable h st (s\<lparr>ox_events := t1\<rparr>)" by (rule heartbeat_reachable [OF s v hb])
  have v1: "(w, v) \<in> set (ox_leased (s\<lparr>ox_events := t1\<rparr>))" using v by simp
  from c show ?thesis
  proof (elim disjE exE conjE)
    assume "out \<noteq> Processed" "t = t1"
    then show ?thesis using s1 by simp
  next
    fix x assume "record_failure st w (de_fail_at de) v x t1 = (out, t)"
    moreover from this have "out \<noteq> Processed" using record_failure_not_processed by metis
    ultimately show ?thesis
      using outbox_reachable.step [OF s1 outbox_step.fail [OF v1]] by simp
  next
    fix ok t2 assume "renew_once st w (de_renew_at de) v t1 = (ok, t2)" "out \<noteq> Processed" "t = t2"
    then show ?thesis using outbox_reachable.step [OF s1 outbox_step.renew [OF v1]] by simp
  next
    fix t2 assume a: "renew_once st w (de_renew_at de) v t1 = (True, t2)" "out = Processed"
      "mark_processed (de_mark_at de) (v_id v) (w, v_lease_version v) t2 = (LU_UPDATED, t)"
    have "outbox_reachable h st (s\<lparr>ox_events := t2\<rparr>)"
      using a(1) outbox_reachable.step [OF s1 outbox_step.renew [OF v1]] by simp
    from outbox_reachable.step [OF this outbox_step.commit] a(2,3) v show ?thesis by simp
  qed
qed

text \<open>A dispatcher whose lease is gone for good.\<close>

lemma lost_lease_rejected:
  assumes "\<And>e now. get_event t k = Some e \<Longrightarrow> \<not> lease_condition e owner now"
  shows "guarded_update k owner now f t = (classify_lease_failure k t, t)"
    and "classify_lease_failure k t \<noteq> LU_UPDATED"
  using assms
  by (auto simp: guarded_update_def classify_lease_failure_def split: option.splits)

lemma lost_lease_heartbeat:
  assumes "\<And>e now. get_event t (v_id v) = Some e \<Longrightarrow> \<not> lease_condition e (w, v_lease_version v) now"
  shows "renew_once st w now v t = (False, t)"
    and "heartbeat_loop st w v ticks t = (ticks \<noteq> [], t)"
proof -
  show r: "renew_once st w now v t = (False, t)" for now
    using lost_lease_rejected [OF assms] by (simp add: renew_once_def renew_lease_def)
  show "heartbeat_loop st w v ticks t = (ticks \<noteq> [], t)"
    by (cases ticks) (simp_all add: r)
qed

subsection \<open>An example run\<close>

definition ex_outbox_settings :: outbox_settings where
  "ex_outbox_settings = \<lparr>outbox_lease_seconds = 60, outbox_max_attempts = 3,
     outbox_retry_base_seconds = 5, outbox_retry_max_seconds = 300\<rparr>"

definition ex_event_request :: event_request where
  "ex_event_request = \<lparr>er_event_type = OE_MEMORY_RECONCILIATION_REQUIRED,
     er_aggregate_type = ''action'', er_aggregate_id = ''a1'', er_payload = JObj [],
     er_idempotency_key = Some ''k1'', er_correlation_id = Some ''c1'', er_trace_id = None\<rparr>"

definition ex_event :: outbox_row where
  "ex_event = new_event ex_outbox_settings ex_env ex_event_request (JObj []) ''k1''"

definition ex_leased_event :: outbox_row where
  "ex_leased_event = leased_event_row ''w1'' 10 60 ex_event"

definition ex_snapshot :: outbox_event where
  "ex_snapshot = event_of_row ex_leased_event"

definition ex_dispatch :: dispatch_env where
  "ex_dispatch = \<lparr>de_heartbeats = [], de_renew_at = 20, de_mark_at = 21, de_fail_at = 22,
     de_cancelled = False, de_call = ex_env\<rparr>"

definition ex_sys :: outbox_sys where
  "ex_sys = \<lparr>ox_events = [ex_leased_event], ox_leased = [(''w1'', ex_snapshot)], ox_commits = []\<rparr>"

lemma ex_event_simps:
  "o_id ex_event = 1" "o_status ex_event = OS_PENDING" "o_available_at ex_event = 0"
  "o_attempt_count ex_event = 0" "o_max_attempts ex_event = 3" "o_idempotency_key ex_event = ''k1''"
  "o_lease_version ex_event = 0"
  by (simp_all add: ex_event_def new_event_def ex_event_request_def ex_env_def ex_outbox_settings_def)

lemma ex_leased_event_simps:
  "o_id ex_leased_event = 1" "o_status ex_leased_event = OS_PROCESSING"
  "o_attempt_count ex_leased_event = 1" "o_max_attempts ex_leased_event = 3"
  "o_lease_version ex_leased_event = 1" "o_locked_by ex_leased_event = Some ''w1''"
  "o_lease_expires_at ex_leased_event = Some 60000010"
  "v_id ex_snapshot = 1" "v_lease_version ex_snapshot = 1" "v_attempt_count ex_snapshot = 1"
  "v_max_attempts ex_snapshot = 3"
  "get_event [ex_leased_event] 1 = Some ex_leased_event"
  "get_event [ex_leased_event] (Suc 0) = Some ex_leased_event"
  by (simp_all add: ex_leased_event_def leased_event_row_def ex_event_simps ex_snapshot_def
      event_of_row_def seconds_def table_simps)

lemma ex_sys_simps:
  "ox_events ex_sys = [ex_leased_event]" "ox_leased ex_sys = [(''w1'', ex_snapshot)]"
  "ox_commits ex_sys = []" "0 < outbox_max_attempts ex_outbox_settings"
  by (simp_all add: ex_sys_def ex_outbox_settings_def)

lemma ex_add: "add_event ex_hashing ex_outbox_settings ex_env ex_event_request [] = Inr (ex_event, [ex_event])"
  by (simp add: add_event_def Let_def event_key_def or_str_def ex_event_def dict_of_def
      ex_event_request_def)

lemma ex_sys_reachable: "outbox_reachable ex_hashing ex_outbox_settings ex_sys"
proof -
  have "outbox_reachable ex_hashing ex_outbox_settings (no_events\<lparr>ox_events := [ex_event]\<rparr>)"
    by (rule outbox_reachable.step [OF outbox_reachable.start])
      (rule outbox_step.add [of _ _ ex_env ex_event_request _ ex_event], simp_all add: no_events_def ex_add)
  then have "outbox_reachable ex_hashing ex_outbox_settings
      ((no_events\<lparr>ox_events := [ex_event]\<rparr>)\<lparr>ox_events := [ex_leased_event],
        ox_leased := (''w1'', ex_snapshot) # ox_leased (no_events\<lparr>ox_events := [ex_event]\<rparr>)\<rparr>)"
  proof (rule outbox_reachable.step [OF _ outbox_step.lease])
    have "order_limit (\<lambda>e. (o_available_at e, o_created_at e)) 1 [ex_event] = [ex_event]"
      by (simp add: order_limit_def)
    then show "lease_one (\<lambda>_. False) ex_outbox_settings 10 ''w1''
        (ox_events (no_events\<lparr>ox_events := [ex_event]\<rparr>)) = (Some ex_snapshot, [ex_leased_event])"
      by (simp add: lease_one_def event_lease_batch_def dispatchable_def ex_event_simps
          ex_outbox_settings_def ex_snapshot_def ex_leased_event_def t_put_all_def t_put_def)
        (simp add: leased_event_row_def ex_event_simps)
  qed
  then show ?thesis by (simp add: ex_sys_def no_events_def)
qed


subsection \<open>Properties\<close>

text \<open>C2. However dispatchers interleave, lose leases and retry, the consumer's effects of an
  event are committed at most once, and they are committed exactly when the event's row is
  PROCESSED.\<close>

theorem outbox_commits_once:
  assumes "outbox_reachable h st s" and "0 < outbox_max_attempts st"
  shows "distinct (ox_commits s) \<and>
    (\<forall>e \<in> set (ox_events s). o_id e \<in> set (ox_commits s) \<longleftrightarrow> o_status e = OS_PROCESSED)"
  using reachable_outbox_inv [OF assms] by (auto simp: outbox_inv_def distinct_map inj_on_def)

theorem outbox_commits_once_witness:
  "distinct (ox_commits ex_sys) \<and> \<not> o_id ex_leased_event \<in> set (ox_commits ex_sys)"
  using outbox_commits_once [OF ex_sys_reachable]
  by (simp add: ex_sys_simps ex_leased_event_simps)

text \<open>In every reachable state an event has been leased at most as often as it may be, its
  lease version counts exactly those leases, an event waiting for another attempt has one left,
  and a dead letter has used all of them.\<close>

theorem outbox_attempts_bounded:
  assumes "outbox_reachable h st s" and "0 < outbox_max_attempts st" and "e \<in> set (ox_events s)"
  shows "o_lease_version e = o_attempt_count e \<and> o_attempt_count e \<le> o_max_attempts e \<and>
    (o_status e \<in> {OS_PENDING, OS_FAILED} \<longrightarrow> o_attempt_count e < o_max_attempts e) \<and>
    (o_status e = OS_DEAD_LETTER \<longrightarrow> o_attempt_count e = o_max_attempts e)"
  using reachable_outbox_inv [OF assms(1,2)] assms(3) by (auto simp: outbox_inv_def event_ok_def)

theorem outbox_attempts_bounded_witness:
  "o_lease_version ex_leased_event = o_attempt_count ex_leased_event \<and>
   o_attempt_count ex_leased_event \<le> o_max_attempts ex_leased_event"
  using outbox_attempts_bounded [OF ex_sys_reachable, of ex_leased_event]
  by (simp add: ex_sys_simps)

text \<open>C10. One dispatch, whatever its consumer, clock and heartbeats do, is a sequence of the
  system's transactions that ends in a commit exactly when its outcome is Processed; then the
  consumer had finished and its effects are the result, and otherwise they are rolled back.\<close>

theorem dispatch_refines_steps:
  assumes "outbox_reachable h st s" and "(w, v) \<in> set (ox_leased s)"
    and "dispatch_event st w consumer de v (ox_events s, d) = (out, t, d')"
  shows "outbox_reachable h st (s\<lparr>ox_events := t,
      ox_commits := (if out = Processed then v_id v # ox_commits s else ox_commits s)\<rparr>) \<and>
    (if out = Processed then consumer (de_call de) v d = Inr d' else d' = d)"
  using dispatch_reachable [OF assms] dispatch_effects [OF assms(3)] by blast

definition ex_consumer :: "call_env \<Rightarrow> outbox_event \<Rightarrow> nat \<Rightarrow> (exn, nat) res" where
  "ex_consumer env v n = Inr (n + 1)"

definition ex_processed_event :: outbox_row where
  "ex_processed_event = processed_row 21 (ex_leased_event\<lparr>o_last_heartbeat_at := Some 20,
     o_lease_expires_at := Some 60000020\<rparr>)"

lemma ex_processed_simps:
  "o_id ex_processed_event = 1" "o_status ex_processed_event = OS_PROCESSED"
  "o_locked_by ex_processed_event = None"
  by (simp_all add: ex_processed_event_def processed_row_def clear_event_lease_def ex_leased_event_simps)

lemma ex_dispatched:
  "dispatch_event ex_outbox_settings ''w1'' ex_consumer ex_dispatch ex_snapshot ([ex_leased_event], 0) =
   (Processed, [ex_processed_event], 1)"
  by (simp add: dispatch_event_def ex_dispatch_def ex_consumer_def renew_once_def renew_lease_def
      mark_processed_def guarded_update_def lease_condition_def ex_leased_event_simps table_simps
      t_put_def ex_outbox_settings_def seconds_def ex_processed_event_def [symmetric]
      ex_processed_simps)

theorem dispatch_refines_steps_witness:
  "outbox_reachable ex_hashing ex_outbox_settings
     (ex_sys\<lparr>ox_events := [ex_processed_event], ox_commits := [1]\<rparr>)"
  using dispatch_refines_steps [OF ex_sys_reachable, of "''w1''" ex_snapshot ex_consumer ex_dispatch 0]
  by (simp add: ex_sys_simps ex_dispatched ex_leased_event_simps)

text \<open>A dispatcher that has lost its lease, because the lease was given to another attempt
  or the event reached a state in which nobody holds it, changes nothing any more: it neither
  marks the event, nor records a failure, nor commits its consumer's effects.\<close>

theorem stale_dispatcher_changes_nothing:
  assumes "get_event t (v_id v) = Some e"
    and "o_status e \<noteq> OS_PROCESSING \<or> o_locked_by e \<noteq> Some w \<or> o_lease_version e \<noteq> v_lease_version v"
    and "dispatch_event st w consumer de v (t, d) = (out, s')"
  shows "s' = (t, d) \<and> out \<noteq> Processed \<and> out \<noteq> Failed_Recorded"
proof -
  have lost: "get_event t (v_id v) = Some e' \<Longrightarrow> \<not> lease_condition e' (w, v_lease_version v) now" for e' now
    using assms(1,2) by (auto simp: lease_condition_def)
  note l = lost_lease_heartbeat [OF lost] lost_lease_rejected [OF lost]
  obtain t' d' where s': "s' = (t', d')" by force
  have "record_failure st w now v x t \<noteq> (Failed_Recorded, u)" for now x u
    using l(3,4) by (simp add: record_failure_def mark_failed_def)
  moreover have "record_failure st w now v x t = (o', u) \<Longrightarrow> u = t" for now x o' u
    using l(3,4) by (simp add: record_failure_def mark_failed_def)
  ultimately show ?thesis
    using assms(3) unfolding s'
    by (elim dispatch_event_cases) (auto simp: l(1,2) record_failure_not_processed)
qed

theorem stale_dispatcher_changes_nothing_witness:
  "\<exists>out. dispatch_event ex_outbox_settings ''w1'' ex_consumer ex_dispatch ex_snapshot
     ([ex_processed_event], 1) = (out, [ex_processed_event], 1) \<and> out \<noteq> Processed"
proof -
  obtain out s' where d: "dispatch_event ex_outbox_settings ''w1'' ex_consumer ex_dispatch ex_snapshot
     ([ex_processed_event], 1) = (out, s')" by (meson surj_pair)
  have "get_event [ex_processed_event] (v_id ex_snapshot) = Some ex_processed_event"
    by (simp add: table_simps ex_processed_simps ex_leased_event_simps)
  from stale_dispatcher_changes_nothing [OF this _ d] show ?thesis
    using d by (auto simp: ex_processed_simps)
qed

text \<open>An undisturbed dispatch ends: when the consumer finishes and the worker still holds
  the lease as it renews it and marks the event before that renewal expires, the event is
  PROCESSED with its lease cleared and the consumer's effects are committed.\<close>

theorem undisturbed_dispatch_processes:
  assumes "get_event t (v_id v) = Some e" and "lease_condition e (w, v_lease_version v) (de_renew_at de)"
    and "de_heartbeats de = []" and "\<not> de_cancelled de" and "consumer (de_call de) v d = Inr d'"
    and "de_mark_at de < de_renew_at de + seconds (outbox_lease_seconds st)"
  shows "\<exists>t'. dispatch_event st w consumer de v (t, d) = (Processed, t', d') \<and>
    (\<exists>e'. get_event t' (v_id v) = Some e' \<and> o_status e' = OS_PROCESSED \<and>
       o_processed_at e' = Some (de_mark_at de) \<and> o_locked_by e' = None)"
proof -
  let ?e1 = "e\<lparr>o_last_heartbeat_at := Some (de_renew_at de),
     o_lease_expires_at := Some (de_renew_at de + seconds (outbox_lease_seconds st))\<rparr>"
  let ?e2 = "processed_row (de_mark_at de) ?e1"
  have id: "o_id e = v_id v" using assms(1) by (auto dest: t_get_SomeD)
  have ids: "o_id ?e1 = v_id v" "o_id ?e2 = v_id v"
    using id by (simp_all add: processed_row_def clear_event_lease_def)
  have g1: "get_event (t_put o_id t ?e1) (v_id v) = Some ?e1"
    using outbox_table.get_put_same [OF assms(1) ids(1)] .
  have g2: "get_event (t_put o_id (t_put o_id t ?e1) ?e2) (v_id v) = Some ?e2"
    using outbox_table.get_put_same [OF g1 ids(2)] .
  have renew: "renew_once st w (de_renew_at de) v t = (True, t_put o_id t ?e1)"
    using assms(1,2) by (simp add: renew_once_def renew_lease_def guarded_update_def)
  have "lease_condition ?e1 (w, v_lease_version v) (de_mark_at de)"
    using assms(2,6) by (auto simp: lease_condition_def)
  then have mark: "mark_processed (de_mark_at de) (v_id v) (w, v_lease_version v) (t_put o_id t ?e1) =
      (LU_UPDATED, t_put o_id (t_put o_id t ?e1) ?e2)"
    using g1 by (simp add: mark_processed_def guarded_update_def)
  have "dispatch_event st w consumer de v (t, d) = (Processed, t_put o_id (t_put o_id t ?e1) ?e2, d')"
    using assms(3-5) renew mark by (simp add: dispatch_event_def)
  then show ?thesis
    using g2 by (auto simp: processed_row_def clear_event_lease_def)
qed

theorem undisturbed_dispatch_processes_witness:
  "\<exists>t'. dispatch_event ex_outbox_settings ''w1'' ex_consumer ex_dispatch ex_snapshot
     ([ex_leased_event], 0) = (Processed, t', 1)"
  using undisturbed_dispatch_processes [of "[ex_leased_event]" ex_snapshot ex_leased_event "''w1''"
      ex_dispatch ex_consumer 0 1 ex_outbox_settings]
  by (auto simp: ex_leased_event_simps ex_dispatch_def ex_consumer_def lease_condition_def
      ex_outbox_settings_def seconds_def)


text \<open>A consumer's exception is recorded on its event while the lease lives: the event waits
  for its next attempt until the backoff has passed when it has attempts left, and is a dead
  letter when it has used them all; an exception that is not the application's own leaves only
  a fixed message and code behind.\<close>

theorem failed_dispatch_recorded:
  assumes "get_event t (v_id v) = Some e" and "lease_condition e (w, v_lease_version v) (de_fail_at de)"
    and "de_heartbeats de = []" and "\<not> de_cancelled de" and "consumer (de_call de) v d = Inl x"
    and "is_instance (exn_cls x) (PyE PyException)"
  shows "\<exists>t' e'. dispatch_event st w consumer de v (t, d) = (Failed_Recorded, t', d) \<and>
    get_event t' (v_id v) = Some e' \<and>
    o_status e' = (if v_max_attempts v \<le> v_attempt_count v then OS_DEAD_LETTER else OS_FAILED) \<and>
    o_available_at e' = de_fail_at de + seconds (retry_delay_seconds (v_attempt_count v)
      (outbox_retry_base_seconds st) (outbox_retry_max_seconds st)) \<and>
    o_locked_by e' = None \<and>
    (\<not> is_application_error (exn_cls x) \<longrightarrow> o_error_message e' = Some ''Outbox consumer failed'')"
proof -
  let ?f = "failed_event_row (de_fail_at de) (v_attempt_count v) (v_max_attempts v) (failure_code x)
     (failure_message x) (outbox_retry_base_seconds st) (outbox_retry_max_seconds st)"
  have id: "o_id (?f e) = v_id v"
    using assms(1) by (auto simp: failed_event_row_def clear_event_lease_def dest: t_get_SomeD)
  have "record_failure st w (de_fail_at de) v x t = (Failed_Recorded, t_put o_id t (?f e))"
    using assms(1,2) by (simp add: record_failure_def mark_failed_def guarded_update_def)
  then have "dispatch_event st w consumer de v (t, d) = (Failed_Recorded, t_put o_id t (?f e), d)"
    using assms(3-6) by (simp add: dispatch_event_def)
  moreover have "get_event (t_put o_id t (?f e)) (v_id v) = Some (?f e)"
    using outbox_table.get_put_same [OF assms(1) id] .
  ultimately show ?thesis
    by (auto simp: failed_event_row_def clear_event_lease_def failure_message_def)
qed

definition ex_broken_consumer :: "call_env \<Rightarrow> outbox_event \<Rightarrow> nat \<Rightarrow> (exn, nat) res" where
  "ex_broken_consumer env v n = Inl (Exn (PyE ValueError) ''bad payload'')"

theorem failed_dispatch_recorded_witness:
  "\<exists>t'. dispatch_event ex_outbox_settings ''w1'' ex_broken_consumer ex_dispatch ex_snapshot
     ([ex_leased_event], 0) = (Failed_Recorded, t', 0)"
  using failed_dispatch_recorded [of "[ex_leased_event]" ex_snapshot ex_leased_event "''w1''"
      ex_dispatch ex_broken_consumer 0 "Exn (PyE ValueError) ''bad payload''" ex_outbox_settings]
  by (auto simp: ex_leased_event_simps ex_dispatch_def ex_broken_consumer_def lease_condition_def
      is_instance_simps)

lemma dispatch_loop_reachable:
  assumes "outbox_reachable h st s"
    and "dispatch_loop st w consumer locked lease_at de i n (ox_events s, d) = (m, t, d')"
  shows "i \<le> m \<and> m \<le> i + n \<and> (\<exists>s'. outbox_reachable h st s' \<and> ox_events s' = t \<and>
    length (ox_commits s') \<le> length (ox_commits s) + (m - i))"
  using assms
proof (induction n arbitrary: i s d)
  case 0
  then show ?case by auto
next
  case (Suc n)
  obtain v t1 where l: "lease_one (locked i) st (lease_at i) w (ox_events s) = (v, t1)" by force
  show ?case
  proof (cases v)
    case None
    with l have "t1 = ox_events s" by (auto simp: lease_one_def split: prod.splits list.splits)
    then show ?thesis using None l Suc.prems by auto
  next
    case (Some e)
    let ?s1 = "s\<lparr>ox_events := t1, ox_leased := (w, e) # ox_leased s\<rparr>"
    have s1: "outbox_reachable h st ?s1"
      using l Some outbox_reachable.step [OF Suc.prems(1) outbox_step.lease] by blast
    obtain out t2 d2 where dis: "dispatch_event st w consumer (de i) e (t1, d) = (out, t2, d2)"
      using prod_cases3 by blast
    let ?s2 = "?s1\<lparr>ox_events := t2,
        ox_commits := (if out = Processed then v_id e # ox_commits s else ox_commits s)\<rparr>"
    have s2: "outbox_reachable h st ?s2"
      using dispatch_reachable [OF s1, of w e consumer "de i" d out t2 d2] dis
      by (cases "out = Processed") auto
    show ?thesis
    proof (cases "out = Cancelled_Out")
      case True
      then have "m = Suc i" "t = t2" using Suc.prems(2) l Some dis by auto
      then show ?thesis using s2 by (intro conjI exI [of _ ?s2]) auto
    next
      case False
      then have "dispatch_loop st w consumer locked lease_at de (Suc i) n (ox_events ?s2, d2) = (m, t, d')"
        using Suc.prems(2) l Some dis by (cases out) auto
      from Suc.IH [OF s2 this] obtain s' where "Suc i \<le> m" "m \<le> Suc i + n"
        "outbox_reachable h st s'" "ox_events s' = t"
        "length (ox_commits s') \<le> length (ox_commits ?s2) + (m - Suc i)" by blast
      then show ?thesis by (intro conjI exI [of _ s']) (auto split: if_splits)
    qed
  qed
qed


text \<open>One call of \<open>dispatch_once\<close> handles at most the requested number of events and never
  more than a hundred, and leaves the outbox in a state the interleaved system can reach, with
  at most one commit per event handled.\<close>

theorem dispatch_once_bounded:
  assumes "outbox_reachable h st s"
    and "dispatch_once st w consumer locked now lease_at de limit (ox_events s, d) = (m, t, d')"
  shows "m \<le> 100 \<and> (1 \<le> limit \<longrightarrow> int m \<le> limit) \<and>
    (\<exists>s'. outbox_reachable h st s' \<and> ox_events s' = t \<and>
      length (ox_commits s') \<le> length (ox_commits s) + m)"
proof -
  obtain es t1 where r: "event_reconcile_stale (locked 0) now (clamp 1 100 limit) (ox_events s) = (es, t1)"
    by force
  let ?s1 = "s\<lparr>ox_events := t1\<rparr>"
  have s1: "outbox_reachable h st ?s1"
    using outbox_reachable.step [OF assms(1) outbox_step.reconcile [OF r]] .
  have "dispatch_loop st w consumer locked lease_at de 0 (nat (clamp 1 100 limit)) (ox_events ?s1, d) = (m, t, d')"
    using assms(2) r by (simp add: dispatch_once_def)
  from dispatch_loop_reachable [OF s1 this]
  have "m \<le> nat (clamp 1 100 limit)" and "\<exists>s'. outbox_reachable h st s' \<and> ox_events s' = t \<and>
      length (ox_commits s') \<le> length (ox_commits s) + m" by auto
  then show ?thesis by (auto simp: clamp_def)
qed

theorem dispatch_once_bounded_witness:
  "\<exists>m t d. dispatch_once ex_outbox_settings ''w1'' ex_consumer (\<lambda>_ _. False) 0 (\<lambda>_. 10) (\<lambda>_. ex_dispatch) 500
     ([], 0) = (m, t, d) \<and> m \<le> 100"
  using dispatch_once_bounded [OF outbox_reachable.start, of ex_outbox_settings "''w1''" ex_consumer
      "\<lambda>_ _. False" 0 "\<lambda>_. 10" "\<lambda>_. ex_dispatch" 500 0]
  by (auto simp: no_events_def) (metis surj_pair)

lemma enqueue_from_event_again:
  assumes "\<forall>s. length (sha256_hex h s) = 64"
    and "enqueue_from_event co h st env v p db = Inr db'"
  shows "enqueue_from_event co h st env' v p db' = Inr db'"
proof -
  let ?r = "\<lparr>e_job_type = payload_type p, e_payload = dump_payload p, e_created_by = ''outbox-consumer'',
        e_priority = 50, e_max_attempts = None, e_available_at = None,
        e_idempotency_key = Some (consumer_job_key h v (payload_type p)),
        e_correlation_id = Some (v_correlation_id v), e_trace_id = v_trace_id v\<rparr>"
  obtain j where j: "enqueue co h st env ?r db = Inr (j, db')"
    using assms(2) by (auto simp: enqueue_from_event_def result_simps)
  then obtain q where q: "validate_job_payload co (e_job_type ?r) (e_payload ?r) = Inr q"
    and max: "0 < or_int (e_max_attempts ?r) (job_max_attempts st)"
    by (auto simp: enqueue_def result_simps Let_def new_job_def split: if_splits)
  have key: "consumer_job_key h v (payload_type p) \<noteq> []"
    using assms(1) unfolding consumer_job_key_def by (metis list.size(3) zero_neq_numeral)
  have "enqueue co h st env' ?r db' = Inr (j, db')"
    by (rule enqueue_finds_key [OF enqueue_stores_key [OF j _ key] _ key q max]) simp_all
  then show ?thesis by (simp add: enqueue_from_event_def)
qed

text \<open>An event is stored once per idempotency key: adding an event again under the same key,
  whatever its payload and whenever, returns the stored one and changes nothing.\<close>

theorem add_event_idempotent:
  assumes "add_event h st env r t = Inr (e, t1)"
    and "er_idempotency_key r = Some key" and "er_idempotency_key r' = Some key" and "key \<noteq> []"
    and "is_json_object (sanitize_json 2000 (er_payload r'))"
  shows "add_event h st env' r' t1 = Inr (e, t1)"
proof -
  define k where "k = (if 64 < length key then sha256_hex h key else key)"
  have k: "event_key h q p = k" if "er_idempotency_key q = Some key" for q p
    using that assms(4) by (simp add: event_key_def or_str_def k_def)
  have "t_get o_idempotency_key t1 k = Some e"
    using assms(1) k [OF assms(2)]
    by (auto simp: add_event_def Let_def t_get_def [symmetric] t_get_append table_simps new_event_def
        split: if_splits option.splits)
  then have "find (\<lambda>e. o_idempotency_key e = k) t1 = Some e" by (simp add: t_get_def)
  then show ?thesis using k [OF assms(3)] assms(5) by (simp add: add_event_def Let_def)
qed

theorem add_event_idempotent_witness:
  "add_event ex_hashing ex_outbox_settings (ex_env\<lparr>env_now := 7\<rparr>) ex_event_request [ex_event] =
   Inr (ex_event, [ex_event])"
  by (rule add_event_idempotent [OF ex_add, where key = "''k1''"])
    (simp_all add: ex_event_request_def)

text \<open>Consuming is idempotent, so a dispatch that is repeated after its effects were
  committed elsewhere does no harm: an event consumed a second time finds the job it enqueued
  and changes nothing.\<close>

theorem consume_event_idempotent:
  assumes "\<forall>s. length (sha256_hex h s) = 64" and "consume_event co h st env v db = Inr db'"
  shows "consume_event co h st env' v db' = Inr db'"
  using assms enqueue_from_event_again [OF assms(1)]
  by (auto simp: consume_event_def split: if_splits json.splits option.splits)

theorem consume_event_idempotent_witness:
  "\<exists>db. consume_event strict_coercions ex_hashing ex_settings ex_env ex_snapshot
       \<lparr>jobs = [], attempts = [], workers = []\<rparr> = Inr db \<and> length (jobs db) = 1 \<and>
     consume_event strict_coercions ex_hashing ex_settings (ex_env\<lparr>env_now := 5\<rparr>) ex_snapshot db = Inr db"
proof -
  have v: "v_event_type ex_snapshot = OE_MEMORY_RECONCILIATION_REQUIRED"
    by (simp add: ex_snapshot_def event_of_row_def ex_leased_event_def leased_event_row_def
        ex_event_def new_event_def ex_event_request_def)
  have "validate_job_payload strict_coercions JT_MEMORY_RECONCILIATION
      (dump_payload (MemoryReconciliationJobPayload 100)) = Inr (MemoryReconciliationJobPayload 100)"
    by (simp add: validate_job_payload_def limit_model_def strict_coercions_def)
  then obtain db where db: "consume_event strict_coercions ex_hashing ex_settings ex_env ex_snapshot
       \<lparr>jobs = [], attempts = [], workers = []\<rparr> = Inr db" "length (jobs db) = 1"
    using v dump_payload_object [of 2000 "MemoryReconciliationJobPayload 100"]
    by (simp add: consume_event_def enqueue_from_event_def enqueue_def Let_def new_job_def or_int_def
        ex_settings_def)
  then show ?thesis
    using consume_event_idempotent [of ex_hashing strict_coercions ex_settings ex_env ex_snapshot _ db]
    by (simp add: ex_hashing_def)
qed

end
