(* ===== verification/Campaign_Example.thy ===== *)
theory Campaign_Example
  imports Campaign_Progress Outbox_Properties
begin

text \<open>
  One campaign taken from its creation to its pending approval, as a run of the system: the
  example the properties' witnesses use.
\<close>

lemma add_outbox_event_ok:
  "er_payload r = JObj es \<Longrightarrow> \<exists>db'. add_outbox_event sv env r db = Inr db' \<and> same_tables db db'"
  by (auto simp: add_outbox_event_def add_event_def Let_def same_tables_def split: option.splits)

text \<open>A review of a workflow that awaits one is always saved.\<close>

lemma review_transaction_succeeds:
  assumes l: "load_locked_pair k db = Inr (w, c)" and s: "wf_status w = CS_REVIEWING"
  shows "\<exists>v db1. review_transaction sv env k q db = Inr (v, db1)"
proof -
  obtain s p retry where t: "review_target (sv_settings sv) q w = (s, p, retry)" by (metis prod_cases3)
  have "can_transition CS_REVIEWING s"
    using t by (auto simp: review_target_def can_transition_def split: if_splits)
  moreover have "wf_status (retried_workflow retry (reviewed_workflow q w)) = CS_REVIEWING"
    using s by (simp add: retried_workflow_def reviewed_workflow_def)
  moreover have "\<exists>db'. add_outbox_event sv env (completed_event w' c' st q) db1 = Inr db'" for w' c' st db1
  proof -
    have "\<exists>es. er_payload (completed_event w' c' st q) = JObj es" by (simp add: completed_event_def)
    then show ?thesis using add_outbox_event_ok by blast
  qed
  ultimately show ?thesis
    using l s t
    by (cases retry)
      (auto simp: review_transaction_def ensure_expected_status_def transition_locked_def result_simps
        Let_def require_def)
qed

subsection \<open>An example campaign\<close>

definition ex_services :: services where
  "ex_services = \<lparr>sv_hashing = ex_hashing, sv_dumps = (\<lambda>j. ''{}''),
     sv_settings = \<lparr>as_outbox = ex_outbox_settings, max_llm_calls_per_workflow = 6,
       max_content_retries = 2, memory_max_results = 20, memory_default_ttl_days = 90,
       action_approval_ttl_seconds = 3600\<rparr>\<rparr>"

definition ex_brief :: campaign_brief where
  "ex_brief = \<lparr>cb_campaign_id = ''launch'', cb_game_name = ''Cyber Legends'', cb_genre = ''RPG'',
     cb_target_audience = ''players'', cb_market = ''EU'', cb_platforms = [PF_DISCORD],
     cb_objective = ''launch'', cb_tone = ''bold'', cb_launch_date = 0, cb_promotion = ''none'',
     cb_raw_brief = None\<rparr>"

definition ex_campaign :: campaign_row where
  "ex_campaign = new_campaign 0 ex_brief ''ann'' None None"

definition ex_workflow :: workflow_row where
  "ex_workflow = new_workflow ex_env ex_campaign CS_RECEIVED WS_RECEIVE_CAMPAIGN None 0"

definition ex_review :: quality_review where
  "ex_review = \<lparr>qr_status = RV_PASS, qr_quality_score = 90, qr_factual_accuracy_score = 90,
     qr_tone_score = 90, qr_platform_fit_score = 90, qr_issues = [], qr_suggestions = [],
     qr_requires_human_review = True\<rparr>"

text \<open>The example's tables when its workflow has the row \<open>w\<close> and its campaign the row \<open>c\<close>.\<close>

definition ex_db :: "workflow_row \<Rightarrow> campaign_row \<Rightarrow> app_db" where
  "ex_db w c = no_rows\<lparr>campaigns := [c], workflows := [w]\<rparr>"

definition ex_at :: "campaign_status \<Rightarrow> workflow_step \<Rightarrow> workflow_row" where
  "ex_at s p = ex_workflow\<lparr>wf_status := s, wf_current_step := p\<rparr>"

definition ex_content :: campaign_row where
  "ex_content = ex_campaign\<lparr>brief_analysis := Some (JObj []), generated_content := Some (JObj [])\<rparr>"

lemma ex_row_simps [simp]:
  "c_id ex_campaign = ''launch''" "wf_id ex_workflow = 1" "wf_campaign_id ex_workflow = ''launch''"
  "wf_status ex_workflow = CS_RECEIVED" "c_version ex_campaign = 1" "wf_retry_count ex_workflow = 0"
  "wf_revision_number ex_workflow = 0" "wf_completed_at ex_workflow = None"
  "max_content_retries (sv_settings ex_services) = 2"
  by (simp_all add: ex_campaign_def new_campaign_def ex_brief_def c_id_def ex_workflow_def
      new_workflow_def ex_env_def ex_services_def)

lemma load_ex_db:
  "wf_id w = 1 \<Longrightarrow> wf_campaign_id w = ''launch'' \<Longrightarrow> c_id c = ''launch'' \<Longrightarrow>
   load_locked_pair 1 (ex_db w c) = Inr (w, c)"
  by (simp add: load_locked_pair_Inr ex_db_def no_rows_def table_simps)

lemma move_ex_db:
  "wf_id w = wf_id w0 \<Longrightarrow> c_id c = c_id c0 \<Longrightarrow>
   moved_pair s p w c (ex_db w0 c0) = ex_db (w\<lparr>wf_status := s, wf_current_step := p\<rparr>) (c\<lparr>c_status := s\<rparr>)"
  by (simp add: moved_pair_def put_pair_def put_workflow_def put_campaign_def ex_db_def t_put_def c_id_def)

lemma ex_created: "campaign_reachable ex_services (ex_db ex_workflow ex_campaign)"
proof -
  have "create_campaign 0 ex_brief ''ann'' None None no_rows =
      Inr (ex_campaign, no_rows\<lparr>campaigns := [ex_campaign]\<rparr>)"
    by (simp add: create_campaign_def no_rows_def table_simps ex_campaign_def Let_def)
  then have "campaign_reachable ex_services (no_rows\<lparr>campaigns := [ex_campaign]\<rparr>)"
    by (intro campaign_reachable.step [OF campaign_reachable.start] campaign_step.create)
  moreover have "get_campaign (no_rows\<lparr>campaigns := [ex_campaign]\<rparr>) ''launch'' = Some ex_campaign"
    by (simp add: table_simps)
  then have "create_workflow ex_env ''launch'' (no_rows\<lparr>campaigns := [ex_campaign]\<rparr>) =
      Inr (ex_workflow, ex_db ex_workflow ex_campaign)"
    by (simp add: create_workflow_def get_campaign_record_def required_def require_def
        get_active_for_campaign_def order_limit_def no_rows_def ex_db_def add_workflow_def
        ex_workflow_def new_workflow_def)
      (simp add: ex_campaign_def new_campaign_def workflow_creatable_campaign_statuses_def)
  ultimately show ?thesis
    by (rule campaign_reachable.step [OF _ campaign_step.workflow]) (simp add: no_rows_def)
qed


lemma ex_move:
  assumes db: "campaign_reachable ex_services (ex_db (ex_at e p0) c)" and c: "c_id c = ''launch''"
    and t: "(e, s, p) \<in> set loop_transitions" "can_transition e s"
  shows "campaign_reachable ex_services (ex_db (ex_at s p) (c\<lparr>c_status := s\<rparr>))"
proof -
  have "load_locked_pair 1 (ex_db (ex_at e p0) c) = Inr (ex_at e p0, c)"
    by (rule load_ex_db) (simp_all add: ex_at_def c)
  then have "transition_checkpoint 1 e s p (ex_db (ex_at e p0) c) =
      (Inr (), ex_db (ex_at s p) (c\<lparr>c_status := s\<rparr>))"
    using t(2) by (simp add: transition_checkpoint_def atomically_def ensure_expected_status_def
        require_def ensure_valid_transition_def move_ex_db) (simp add: ex_at_def)
  from campaign_reachable.step [OF db campaign_step.transition [OF t(1) this]] show ?thesis .
qed

lemma ex_reviewing:
  "campaign_reachable ex_services (ex_db (ex_at CS_REVIEWING WS_REVIEW_CONTENT) (ex_content\<lparr>c_status := CS_REVIEWING\<rparr>))"
proof -
  have start: "ex_workflow = ex_at CS_RECEIVED WS_RECEIVE_CAMPAIGN"
    by (simp add: ex_at_def ex_workflow_def new_workflow_def)
  have "campaign_reachable ex_services (ex_db (ex_at CS_ANALYZING WS_ANALYZE_BRIEF)
      (ex_campaign\<lparr>c_status := CS_VALIDATING, c_status := CS_ANALYZING\<rparr>))"
    by (rule ex_move [OF ex_move [OF ex_created [unfolded start]]])
      (simp_all add: loop_transitions_def can_transition_def c_id_def ex_campaign_def new_campaign_def ex_brief_def)
  then have a: "campaign_reachable ex_services (ex_db (ex_at CS_ANALYZING WS_ANALYZE_BRIEF)
      (ex_campaign\<lparr>c_status := CS_ANALYZING\<rparr>))" by simp
  have id: "c_id (ex_campaign\<lparr>brief_analysis := y, c_status := x\<rparr>) = ''launch''" for x y
    by (simp add: c_id_def ex_campaign_def new_campaign_def ex_brief_def)
  have id': "c_id (ex_campaign\<lparr>c_status := x\<rparr>) = ''launch''" for x
    by (simp add: c_id_def ex_campaign_def new_campaign_def ex_brief_def)
  have "load_locked_pair 1 (ex_db (ex_at CS_ANALYZING WS_ANALYZE_BRIEF) (ex_campaign\<lparr>c_status := CS_ANALYZING\<rparr>)) =
      Inr (ex_at CS_ANALYZING WS_ANALYZE_BRIEF, ex_campaign\<lparr>c_status := CS_ANALYZING\<rparr>)"
    by (rule load_ex_db) (simp_all add: ex_at_def id')
  then have "save_analysis_checkpoint 1 (JObj []) (ex_db (ex_at CS_ANALYZING WS_ANALYZE_BRIEF)
      (ex_campaign\<lparr>c_status := CS_ANALYZING\<rparr>)) =
    (Inr (), ex_db (ex_at CS_GENERATING WS_GENERATE_CONTENT)
      (ex_campaign\<lparr>brief_analysis := Some (JObj []), c_status := CS_GENERATING\<rparr>))"
    by (simp add: save_analysis_checkpoint_def atomically_def ensure_expected_status_def require_def
        ensure_valid_transition_def transition_locked_def move_ex_db c_id_def)
      (simp add: ex_at_def can_transition_def)
  from campaign_reachable.step [OF a campaign_step.analysis [OF this]]
  have b: "campaign_reachable ex_services (ex_db (ex_at CS_GENERATING WS_GENERATE_CONTENT)
      (ex_campaign\<lparr>brief_analysis := Some (JObj []), c_status := CS_GENERATING\<rparr>))" .
  have "load_locked_pair 1 (ex_db (ex_at CS_GENERATING WS_GENERATE_CONTENT)
      (ex_campaign\<lparr>brief_analysis := Some (JObj []), c_status := CS_GENERATING\<rparr>)) =
      Inr (ex_at CS_GENERATING WS_GENERATE_CONTENT,
        ex_campaign\<lparr>brief_analysis := Some (JObj []), c_status := CS_GENERATING\<rparr>)"
    by (rule load_ex_db) (simp_all add: ex_at_def id)
  then have "save_content_checkpoint 1 (JObj []) (ex_db (ex_at CS_GENERATING WS_GENERATE_CONTENT)
      (ex_campaign\<lparr>brief_analysis := Some (JObj []), c_status := CS_GENERATING\<rparr>)) =
    (Inr (), ex_db (ex_at CS_REVIEWING WS_REVIEW_CONTENT) (ex_content\<lparr>c_status := CS_REVIEWING\<rparr>))"
    by (simp add: save_content_checkpoint_def atomically_def ensure_expected_status_def require_def
        ensure_valid_transition_def transition_locked_def move_ex_db c_id_def)
      (simp add: ex_at_def can_transition_def ex_content_def)
  from campaign_reachable.step [OF b campaign_step.content [OF this]] show ?thesis .
qed

text \<open>The example after a passing review, without the event and the memories it also wrote.\<close>

definition ex_pending :: app_db where
  "ex_pending = ex_db
     ((reviewed_workflow ex_review ex_workflow)\<lparr>wf_status := CS_PENDING_APPROVAL, wf_current_step := WS_HUMAN_REVIEW\<rparr>)
     ((reviewed_campaign ex_review ex_content)\<lparr>c_status := CS_PENDING_APPROVAL\<rparr>)"

lemma ex_pending_reachable: "campaign_reachable ex_services ex_pending"
proof -
  let ?db = "ex_db (ex_at CS_REVIEWING WS_REVIEW_CONTENT) (ex_content\<lparr>c_status := CS_REVIEWING\<rparr>)"
  have l: "load_locked_pair 1 ?db = Inr (ex_at CS_REVIEWING WS_REVIEW_CONTENT, ex_content\<lparr>c_status := CS_REVIEWING\<rparr>)"
    by (rule load_ex_db) (simp_all add: ex_at_def ex_content_def c_id_def ex_campaign_def new_campaign_def ex_brief_def)
  obtain res db' where r: "save_review_decision_checkpoint ex_services (\<lambda>n. ex_env) 1 ex_review ?db = (res, db')"
    by (meson surj_pair)
  have t: "review_target (sv_settings ex_services) ex_review w = (CS_PENDING_APPROVAL, WS_HUMAN_REVIEW, False)" for w
    by (simp add: review_target_def ex_review_def)
  have "same_tables ex_pending db'"
    using r
  proof (cases rule: save_review_cases)
    case (rejected x)
    then show ?thesis
      using review_transaction_succeeds [OF l, of ex_services ex_env ex_review] by (auto simp: ex_at_def)
  next
    case (saved v db1)
    have "same_tables (moved_pair CS_PENDING_APPROVAL WS_HUMAN_REVIEW
        (reviewed_workflow ex_review (ex_at CS_REVIEWING WS_REVIEW_CONTENT))
        (reviewed_campaign ex_review (ex_content\<lparr>c_status := CS_REVIEWING\<rparr>)) ?db) db1"
      using saved(1) l t
      by (auto simp: review_transaction_def transition_locked_def result_simps retried_workflow_def
          retried_campaign_def Let_def dest: add_outbox_event_same)
    moreover have "moved_pair CS_PENDING_APPROVAL WS_HUMAN_REVIEW
        (reviewed_workflow ex_review (ex_at CS_REVIEWING WS_REVIEW_CONTENT))
        (reviewed_campaign ex_review (ex_content\<lparr>c_status := CS_REVIEWING\<rparr>)) ?db = ex_pending"
      by (simp add: move_ex_db reviewed_workflow_def reviewed_campaign_def c_id_def ex_pending_def ex_at_def)
    ultimately show ?thesis using saved(2) same_tables_trans by simp
  qed
  then have "same_tables db' ex_pending" by (simp add: same_tables_def)
  then show ?thesis
    using campaign_reachable.step [OF campaign_reachable.step [OF ex_reviewing campaign_step.review [OF r]]
        campaign_step.other] by blast
qed

end
