(* ===== verification/Campaign_Properties.thy ===== *)
theory Campaign_Properties
  imports Campaign_Example
begin

text \<open>
  The properties of campaigns, their workflows and the human decisions on them.
\<close>

subsection \<open>Decisions\<close>

definition ex_approval_request :: approval_request where
  "ex_approval_request = \<lparr>ar_campaign_id = ''launch'', ar_workflow_id = 1, ar_decision = AD_APPROVE,
     ar_feedback = None, ar_expected_version = 1\<rparr>"

definition ex_approval :: approval_row where
  "ex_approval = new_approval ex_env ex_approval_request ''rita'' UR_REVIEWER 1 1"

definition ex_approved :: app_db where
  "ex_approved = (ex_db
     ((reviewed_workflow ex_review ex_workflow)\<lparr>wf_status := CS_APPROVED, wf_current_step := WS_COMPLETE,
        wf_completed_at := Some 0\<rparr>)
     ((reviewed_campaign ex_review ex_content)\<lparr>c_status := CS_APPROVED\<rparr>))\<lparr>approvals := [ex_approval]\<rparr>"

lemma ex_decided:
  "decide_transaction ex_env ex_approval_request ''rita'' UR_REVIEWER ex_pending = Inr (ex_approval, ex_approved)"
proof -
  let ?w = "(reviewed_workflow ex_review ex_workflow)\<lparr>wf_status := CS_PENDING_APPROVAL, wf_current_step := WS_HUMAN_REVIEW\<rparr>"
  let ?c = "(reviewed_campaign ex_review ex_content)\<lparr>c_status := CS_PENDING_APPROVAL\<rparr>"
  have id: "c_id ?c = ''launch''" "c_version ?c = 1" "c_id (decided_campaign AD_APPROVE ?c) = ''launch''"
    by (simp_all add: reviewed_campaign_def ex_content_def c_id_def ex_campaign_def new_campaign_def
        ex_brief_def decided_campaign_def)
  have get: "get_campaign ex_pending ''launch'' = Some ?c" "get_workflow_row ex_pending 1 = Some ?w"
    "get_workflow_row ex_pending (Suc 0) = Some ?w"
    using id by (simp_all add: ex_pending_def ex_db_def table_simps reviewed_workflow_def)
  have put: "(put_pair (decided_workflow 0 AD_APPROVE ?w) (decided_campaign AD_APPROVE ?c) ex_pending)
      \<lparr>approvals := [ex_approval]\<rparr> = ex_approved"
    using id by (simp add: ex_pending_def ex_db_def put_pair_def put_workflow_def put_campaign_def t_put_def
        decided_workflow_def reviewed_workflow_def ex_approved_def)
      (simp add: decided_campaign_def reviewed_campaign_def)
  have actor: "strip ''rita'' = ''rita''" by (simp add: strip_def is_space_def)
  have "c_version (decided_campaign AD_APPROVE ?c) = 1" using id(2) by (simp add: decided_campaign_def)
  then show ?thesis
    using get put id(2) actor
    by (simp add: decide_transaction_def get_campaign_record_def get_workflow_def required_def require_def
        ex_approval_request_def approver_roles_def has_final_decision_def ex_approval_def new_approval_def
        ex_env_def ensure_valid_transition_def can_transition_def Let_def)
      (simp add: reviewed_workflow_def ex_pending_def ex_db_def no_rows_def)
qed

lemma ex_approved_reachable: "campaign_reachable ex_services ex_approved"
proof -
  obtain res db' where r: "decide ex_services ex_env ex_env ex_approval_request ''rita'' UR_REVIEWER ex_pending = (res, db')"
    by (meson surj_pair)
  have "same_tables ex_approved db'"
    using r
  proof (cases rule: decide_cases)
    case (decided a db1)
    then show ?thesis using ex_decided by simp
  qed (use ex_decided in simp)
  then have "same_tables db' ex_approved" by (simp add: same_tables_def)
  then show ?thesis
    using campaign_reachable.step [OF campaign_reachable.step [OF ex_pending_reachable campaign_step.decide [OF r]]
        campaign_step.other] by blast
qed

text \<open>C1. Only people approve: whatever the agents, the actions and the workflows do, in every
  reachable state an APPROVED workflow has the record of an APPROVE decision by a reviewer, a
  manager or an administrator, and no workflow has two decisions.\<close>

theorem approved_only_by_decision:
  assumes "campaign_reachable sv db" and "0 \<le> max_content_retries (sv_settings sv)"
  shows "distinct (map ap_workflow_id (approvals db)) \<and>
    (\<forall>w \<in> set (workflows db). wf_status w = CS_APPROVED \<longrightarrow>
       (\<exists>a \<in> set (approvals db). ap_workflow_id a = wf_id w \<and> ap_decision a = AD_APPROVE \<and>
          ap_actor_role a \<in> {UR_REVIEWER, UR_MANAGER, UR_ADMIN}))"
proof -
  note i = campaign_invD [OF reachable_campaign_inv [OF assms]]
  have "set approver_roles = {UR_REVIEWER, UR_MANAGER, UR_ADMIN}" by (auto simp: approver_roles_def)
  then show ?thesis
    using i(3-5) unfolding workflow_ok_def approval_ok_def by blast
qed

theorem approved_only_by_decision_witness:
  "distinct (map ap_workflow_id (approvals ex_approved)) \<and>
   (\<exists>w \<in> set (workflows ex_approved). wf_status w = CS_APPROVED \<and>
     (\<exists>a \<in> set (approvals ex_approved). ap_workflow_id a = wf_id w \<and> ap_decision a = AD_APPROVE))"
  using approved_only_by_decision [OF ex_approved_reachable]
  by (auto simp: ex_approved_def ex_db_def)

text \<open>C12. A decision either changes nothing, or it moves the workflow out of PENDING_APPROVAL and
  completes it: both statuses become the decision's, the version grows exactly for a revision,
  and the record keeps the version before and after. It needs an approver's role, the expected
  version and no earlier decision.\<close>

theorem decide_outcome:
  assumes "decide sv env env' r actor role db = (res, db')"
    and "get_campaign db (ar_campaign_id r) = Some c" and "get_workflow_row db (ar_workflow_id r) = Some w"
  shows "db' = db \<or>
    (role \<in> set approver_roles \<and> wf_status w = CS_PENDING_APPROVAL \<and>
     c_version c = ar_expected_version r \<and> \<not> has_final_decision (ar_workflow_id r) db \<and>
     (\<exists>w' c' a. get_workflow_row db' (ar_workflow_id r) = Some w' \<and>
        get_campaign db' (ar_campaign_id r) = Some c' \<and> approvals db' = approvals db @ [a] \<and>
        wf_status w' = decided_status (ar_decision r) \<and> c_status c' = decided_status (ar_decision r) \<and>
        wf_completed_at w' = Some (env_now env) \<and>
        c_version c' = (if ar_decision r = AD_REQUEST_REVISION then c_version c + 1 else c_version c) \<and>
        ap_workflow_id a = ar_workflow_id r \<and> ap_decision a = ar_decision r \<and>
        ap_previous_version a = c_version c \<and> ap_resulting_version a = c_version c'))"
  using assms(1)
proof (cases rule: decide_cases)
  case (decided a db1)
  let ?d = "ar_decision r"
  let ?w = "decided_workflow (env_now env) ?d w" and ?c = "decided_campaign ?d c"
  have g: "role \<in> set approver_roles" "wf_status w = CS_PENDING_APPROVAL" "c_version c = ar_expected_version r"
      "\<not> has_final_decision (ar_workflow_id r) db" "wf_campaign_id w = ar_campaign_id r"
    and a: "a = new_approval env r actor role (c_version c) (c_version ?c)"
    and db1: "db1 = (put_pair ?w ?c db)\<lparr>approvals := approvals db @ [a]\<rparr>"
    using decided(1) assms(2,3)
    by (auto simp: decide_transaction_def result_simps get_workflow_def get_campaign_record_def Let_def)
  have id: "wf_id w = ar_workflow_id r" "c_id c = ar_campaign_id r" using assms(2,3) by (auto dest: t_get_SomeD)
  have l: "load_locked_pair (ar_workflow_id r) db = Inr (w, c)"
    using assms(2,3) g(5) by (simp add: load_locked_pair_Inr)
  have "load_locked_pair (ar_workflow_id r) (put_pair ?w ?c db) = Inr (?w, ?c)"
    by (rule load_put_pair [OF l]) (simp_all add: decided_workflow_def decided_campaign_def c_id_def)
  then have "get_workflow_row db1 (ar_workflow_id r) = Some ?w" "get_campaign db1 (ar_campaign_id r) = Some ?c"
    using g(5) by (simp_all add: load_locked_pair_Inr db1 decided_workflow_def)
  then have "get_workflow_row db' (ar_workflow_id r) = Some ?w" "get_campaign db' (ar_campaign_id r) = Some ?c"
    "approvals db' = approvals db @ [a]"
    using decided(2) by (simp_all add: same_tables_def db1)
  then show ?thesis
    using g(1-4) by (simp add: a new_approval_def decided_workflow_def decided_campaign_def)
qed simp

theorem decide_outcome_witness:
  "\<exists>res db'. decide ex_services ex_env ex_env ex_approval_request ''sam'' UR_SYSTEM ex_pending = (res, db') \<and>
     db' = ex_pending"
proof -
  obtain res db' where d: "decide ex_services ex_env ex_env ex_approval_request ''sam'' UR_SYSTEM ex_pending = (res, db')"
    by (meson surj_pair)
  have "get_campaign ex_pending (ar_campaign_id ex_approval_request) \<noteq> None"
    "get_workflow_row ex_pending (ar_workflow_id ex_approval_request) \<noteq> None"
    by (simp_all add: ex_approval_request_def t_get_None_iff ex_pending_def ex_db_def c_id_def
        reviewed_campaign_def reviewed_workflow_def ex_content_def ex_campaign_def new_campaign_def ex_brief_def)
  then show ?thesis
    using decide_outcome [OF d] d by (auto simp: approver_roles_def)
qed

text \<open>A decision is final: once a workflow has one, every later request on it, from anyone and
  for anything, is refused and changes nothing.\<close>

theorem decision_is_final:
  assumes "a \<in> set (approvals db)" and "ap_workflow_id a = ar_workflow_id r"
  shows "\<exists>x. decide sv env env' r actor role db = (Inl x, db)"
proof -
  have "has_final_decision (ar_workflow_id r) db"
    using assms by (auto simp: has_final_decision_def find_None_iff)
  then have "\<exists>x. decide_transaction env r actor role db = Inl x"
    by (cases "decide_transaction env r actor role db") (auto simp: decide_transaction_def result_simps)
  then show ?thesis by (auto simp: decide_def and_session_def atomically_def)
qed

theorem decision_is_final_witness:
  "\<exists>x. decide ex_services ex_env ex_env (ex_approval_request\<lparr>ar_decision := AD_REJECT, ar_feedback := Some ''no''\<rparr>)
     ''max'' UR_ADMIN ex_approved = (Inl x, ex_approved)"
  by (rule decision_is_final [of ex_approval])
    (simp_all add: ex_approved_def ex_approval_def new_approval_def ex_approval_request_def)


subsection \<open>Workflows\<close>

text \<open>C22. In every reachable state a campaign has at most one active workflow, and no workflow has
  asked for more regenerations than the settings allow.\<close>

theorem one_active_workflow:
  assumes "campaign_reachable sv db" and "0 \<le> max_content_retries (sv_settings sv)"
    and "w \<in> set (workflows db)" and "w' \<in> set (workflows db)"
  shows "0 \<le> wf_retry_count w \<and> wf_retry_count w \<le> max_content_retries (sv_settings sv) \<and>
    (active_workflow w \<and> active_workflow w' \<and> wf_campaign_id w = wf_campaign_id w' \<longrightarrow> w = w')"
  using campaign_invD(4,6) [OF reachable_campaign_inv [OF assms(1,2)]] assms(3,4)
  unfolding workflow_ok_def by blast

theorem one_active_workflow_witness:
  "0 \<le> wf_retry_count ex_workflow \<and> wf_retry_count ex_workflow \<le> 2"
  using one_active_workflow [OF ex_created, of ex_workflow ex_workflow]
  by (simp add: ex_db_def)

lemma run_loop_stops:
  "run_loop sv orch env k n db = Some (Inr w, db') \<Longrightarrow> wf_status w \<in> set stop_statuses"
proof (induction n arbitrary: db)
  case 0
  then show ?case by simp
next
  case (Suc n)
  obtain r db1 where i: "workflow_iteration sv orch (env n) k db = (r, db1)" by (meson surj_pair)
  have "v \<in> {w. wf_status w \<in> set stop_statuses}" if "r = Inr (Some v)" for v
    using i that
    by (auto simp: workflow_iteration_def split: sum.splits if_splits dest: continue_withD)
  then show ?case
    using Suc i by (auto split: sum.splits option.splits)
qed

text \<open>A review decides what happens next, whatever becomes of the memories written after it:
  a pass goes to the human decision, a review that asks for one goes to manual review, and a
  failed review asks for another attempt, counted on both rows, exactly while the retries last.\<close>

theorem review_outcome:
  assumes "load_locked_pair k db = Inr (w, c)" and "wf_status w = CS_REVIEWING"
    and "save_review_decision_checkpoint sv env k q db = (res, db')"
  shows "\<exists>w' c'. load_locked_pair k db' = Inr (w', c') \<and>
    wf_quality_score w' = Some (qr_quality_score q) \<and>
    (if qr_status q = RV_PASS then
       wf_status w' = CS_PENDING_APPROVAL \<and> wf_retry_count w' = wf_retry_count w
     else if qr_status q = RV_FAIL \<and> wf_retry_count w < max_content_retries (sv_settings sv) then
       wf_status w' = CS_GENERATING \<and> wf_retry_count w' = wf_retry_count w + 1
     else wf_status w' = CS_MANUAL_REVIEW_REQUIRED \<and> wf_retry_count w' = wf_retry_count w)"
  using assms(3)
proof (cases rule: save_review_cases)
  case (rejected x)
  then show ?thesis
    using review_transaction_succeeds [OF assms(1,2), of sv "env 0" q] by auto
next
  case (saved v db1)
  obtain s p retry where t: "review_target (sv_settings sv) q w = (s, p, retry)" by (metis prod_cases3)
  obtain c' where "load_locked_pair k db1 = Inr ((retried_workflow retry (reviewed_workflow q w))
      \<lparr>wf_status := s, wf_current_step := p\<rparr>, c')"
    using review_transaction_pair [OF assms(1) t saved(1)] by blast
  then have "load_locked_pair k db' = Inr ((retried_workflow retry (reviewed_workflow q w))
      \<lparr>wf_status := s, wf_current_step := p\<rparr>, c')"
    using load_same_tables [OF saved(2)] by simp
  then show ?thesis
    using t by (cases "qr_status q")
      (auto simp: review_target_def retried_workflow_def reviewed_workflow_def split: if_splits)
qed

theorem review_outcome_witness:
  "\<exists>res db' w'. save_review_decision_checkpoint ex_services (\<lambda>n. ex_env) 1 (ex_review\<lparr>qr_status := RV_FAIL\<rparr>)
      (ex_db (ex_at CS_REVIEWING WS_REVIEW_CONTENT) ex_campaign) = (res, db') \<and>
    get_workflow_row db' 1 = Some w' \<and> wf_status w' = CS_GENERATING \<and> wf_retry_count w' = 1"
proof -
  let ?db = "ex_db (ex_at CS_REVIEWING WS_REVIEW_CONTENT) ex_campaign"
  have l: "load_locked_pair 1 ?db = Inr (ex_at CS_REVIEWING WS_REVIEW_CONTENT, ex_campaign)"
    by (rule load_ex_db) (simp_all add: ex_at_def)
  obtain res db' where r: "save_review_decision_checkpoint ex_services (\<lambda>n. ex_env) 1
      (ex_review\<lparr>qr_status := RV_FAIL\<rparr>) ?db = (res, db')" by (meson surj_pair)
  from review_outcome [OF l _ r] show ?thesis
    using r by (auto simp: ex_at_def load_locked_pair_Inr)
qed

text \<open>A run of the workflow ends: when the agents' runs leave the statuses and the retries of
  the pair alone, as many iterations as six and two more for every retry are enough, whatever
  the reviews say, and a run that does not raise ends in a status in which it waits or is done.
  \<open>Agent_Properties\<close> shows that the runs of the specialists are of that kind.\<close>

theorem run_terminates:
  assumes "campaign_reachable sv db" and "0 \<le> max_content_retries (sv_settings sv)"
    and "steady_orchestrator orch"
  shows "\<exists>res db'. run_to_pending_approval sv orch env k
      (6 + 2 * nat (max_content_retries (sv_settings sv))) db = Some (res, db') \<and>
    (\<forall>w. res = Inr w \<longrightarrow> wf_status w \<in> set stop_statuses)"
proof -
  let ?n = "6 + 2 * nat (max_content_retries (sv_settings sv))"
  have "work_left (sv_settings sv) k db \<le> ?n"
    by (rule work_left_bound [OF reachable_campaign_inv [OF assms(1,2)]])
  then obtain res db' where l: "run_loop sv orch env k ?n db = Some (res, db')"
    using run_loop_returns [OF assms(3)] by blast
  then show ?thesis
    using run_loop_stops [of sv orch env k ?n db _ db']
    by (cases res) (auto simp: run_to_pending_approval_def split: prod.splits)
qed

definition ex_orchestrator :: orchestrator where
  "ex_orchestrator = \<lparr>run_brief_analysis = (\<lambda>c k. returns (JObj [])),
     run_content_generation = (\<lambda>c k. returns (JObj [])), run_content_review = (\<lambda>c k. returns ex_review)\<rparr>"

lemma ex_orchestrator_facts: "steady_orchestrator ex_orchestrator" "tame_orchestrator sv ex_orchestrator"
  by (simp_all add: steady_orchestrator_def steady_def tame_orchestrator_def tame_def ex_orchestrator_def)

theorem run_terminates_witness:
  "\<exists>res db'. run_to_pending_approval ex_services ex_orchestrator (\<lambda>n i. ex_env) 1 10
     (ex_db ex_workflow ex_campaign) = Some (res, db')"
  using run_terminates [OF ex_created _ ex_orchestrator_facts(1), of "\<lambda>n i. ex_env" 1] by auto

text \<open>A run takes only steps of the system, so everything that holds of the reachable states
  holds after it too, whether it ends in a status or in an exception: for one, the workflow is
  then not APPROVED unless somebody decided so.\<close>

theorem run_keeps_reachable:
  assumes "tame_orchestrator sv orch" and "campaign_reachable sv db"
    and "run_to_pending_approval sv orch env k n db = Some (res, db')"
  shows "campaign_reachable sv db'"
  using assms by (rule run_reachable)

theorem run_keeps_reachable_witness:
  "\<exists>res db'. run_to_pending_approval ex_services ex_orchestrator (\<lambda>n i. ex_env) 1 10
     (ex_db ex_workflow ex_campaign) = Some (res, db') \<and> campaign_reachable ex_services db'"
proof -
  have "work_left (sv_settings ex_services) 1 (ex_db ex_workflow ex_campaign) \<le> 10"
    using work_left_bound [OF reachable_campaign_inv [OF ex_created], of 1] by simp
  then obtain res db' where "run_loop ex_services ex_orchestrator (\<lambda>n i. ex_env) 1 10
      (ex_db ex_workflow ex_campaign) = Some (res, db')"
    using run_loop_returns [OF ex_orchestrator_facts(1)] by blast
  then have "run_to_pending_approval ex_services ex_orchestrator (\<lambda>n i. ex_env) 1 10
      (ex_db ex_workflow ex_campaign) \<noteq> None"
    by (cases res) (auto simp: run_to_pending_approval_def Let_def split: prod.splits)
  then obtain res db' where r: "run_to_pending_approval ex_services ex_orchestrator (\<lambda>n i. ex_env) 1 10
      (ex_db ex_workflow ex_campaign) = Some (res, db')" by auto
  then show ?thesis
    using run_keeps_reachable [OF ex_orchestrator_facts(2) ex_created r] by blast
qed

text \<open>The branch that should recover a workflow in GENERATING whose campaign lost its analysis
  cannot: the transition back to ANALYZING it asks for is not in the table, so a run raises and
  changes nothing, however often it is resumed.\<close>

theorem generating_without_analysis_is_stuck:
  assumes "load_locked_pair k db = Inr (w, c)" and "wf_status w = CS_GENERATING"
    and "brief_analysis c = None"
  shows "\<exists>m. run_to_pending_approval sv orch env k (Suc n) db =
    Some (Inl (Exn (CoreE InvalidStateTransitionError) m), db)"
proof -
  obtain m where "ensure_valid_transition CS_GENERATING CS_ANALYZING =
      Inl (Exn (CoreE InvalidStateTransitionError) m)"
    using ensure_valid_transition_Inl [of CS_GENERATING CS_ANALYZING] by (auto simp: can_transition_def)
  then have "transition_checkpoint k CS_GENERATING CS_ANALYZING WS_ANALYZE_BRIEF db =
      (Inl (Exn (CoreE InvalidStateTransitionError) m), db)"
    using assms(1,2)
    by (simp add: transition_checkpoint_def atomically_def ensure_expected_status_def require_def)
  then have "workflow_iteration sv orch e k db = (Inl (Exn (CoreE InvalidStateTransitionError) m), db)" for e
    using assms by (simp add: workflow_iteration_def stop_statuses_def continue_with_def and_session_def)
  then show ?thesis
    by (simp add: run_to_pending_approval_def handle_failure_def isinstance_any_def conflict_errors_def
        is_instance_simps)
qed

theorem generating_without_analysis_is_stuck_witness:
  "\<exists>m. run_to_pending_approval ex_services ex_orchestrator (\<lambda>n i. ex_env) 1 (Suc 9)
     (ex_db (ex_at CS_GENERATING WS_GENERATE_CONTENT) ex_campaign) =
   Some (Inl (Exn (CoreE InvalidStateTransitionError) m),
     ex_db (ex_at CS_GENERATING WS_GENERATE_CONTENT) ex_campaign)"
proof (rule generating_without_analysis_is_stuck)
  show "load_locked_pair 1 (ex_db (ex_at CS_GENERATING WS_GENERATE_CONTENT) ex_campaign) =
      Inr (ex_at CS_GENERATING WS_GENERATE_CONTENT, ex_campaign)"
    by (rule load_ex_db) (simp_all add: ex_at_def)
qed (simp_all add: ex_at_def ex_campaign_def new_campaign_def)


text \<open>A workflow whose decision asked for a revision is completed, but the loop does not look:
  when the workflow runs again (a job delivered twice), it goes back to GENERATING and takes the
  campaign along, next to the revision's own workflow, and no decision on it is possible any more.\<close>

theorem completed_workflow_runs_again:
  assumes "load_locked_pair k db = Inr (w, c)" and "wf_status w = CS_REVISION_REQUIRED"
    and "wf_completed_at w = Some t" and "has_final_decision k db"
  shows "\<exists>db' w' c'. workflow_iteration sv orch env k db = (Inr None, db') \<and>
    load_locked_pair k db' = Inr (w', c') \<and> wf_status w' = CS_GENERATING \<and>
    c_status c' = CS_GENERATING \<and> wf_completed_at w' = Some t \<and>
    (\<forall>r. ar_workflow_id r = k \<longrightarrow>
       (\<exists>x. decide sv env1 env2 r actor role db' = (Inl x, db')))"
proof -
  let ?db = "moved_pair CS_GENERATING WS_GENERATE_CONTENT w c db"
  have "transition_checkpoint k CS_REVISION_REQUIRED CS_GENERATING WS_GENERATE_CONTENT db = (Inr (), ?db)"
    using assms(1,2)
    by (simp add: transition_checkpoint_def atomically_def ensure_expected_status_def require_def
        ensure_valid_transition_def can_transition_def)
  then have i: "workflow_iteration sv orch env k db = (Inr None, ?db)"
    using assms(1,2) by (simp add: workflow_iteration_def stop_statuses_def continue_with_def and_session_def)
  have l: "load_locked_pair k ?db = Inr (w\<lparr>wf_status := CS_GENERATING, wf_current_step := WS_GENERATE_CONTENT\<rparr>,
      c\<lparr>c_status := CS_GENERATING\<rparr>)"
    by (rule load_moved_pair [OF assms(1)]) simp_all
  have "\<exists>x. decide sv env1 env2 r actor role ?db = (Inl x, ?db)" if "ar_workflow_id r = k" for r
  proof -
    have "has_final_decision (ar_workflow_id r) ?db"
      using assms(4) that by (simp add: has_final_decision_def moved_pair_def)
    then have "\<exists>x. decide_transaction env1 r actor role ?db = Inl x"
      by (cases "decide_transaction env1 r actor role ?db") (auto simp: decide_transaction_def result_simps)
    then show ?thesis by (auto simp: decide_def and_session_def atomically_def)
  qed
  then show ?thesis using i l assms(3) by auto
qed

theorem completed_workflow_runs_again_witness:
  "\<exists>db'. workflow_iteration ex_services ex_orchestrator (\<lambda>n. ex_env) 1
      ((ex_db (ex_workflow\<lparr>wf_status := CS_REVISION_REQUIRED, wf_completed_at := Some 9\<rparr>) ex_campaign)
       \<lparr>approvals := [ex_approval\<lparr>ap_decision := AD_REQUEST_REVISION\<rparr>]\<rparr>) = (Inr None, db') \<and>
    map wf_status (workflows db') = [CS_GENERATING]"
proof -
  let ?w = "ex_workflow\<lparr>wf_status := CS_REVISION_REQUIRED, wf_completed_at := Some 9\<rparr>"
  let ?a = "ex_approval\<lparr>ap_decision := AD_REQUEST_REVISION\<rparr>"
  let ?db = "(ex_db ?w ex_campaign)\<lparr>approvals := [?a]\<rparr>"
  have "load_locked_pair 1 (ex_db ?w ex_campaign) = Inr (?w, ex_campaign)" by (rule load_ex_db) simp_all
  then have l: "load_locked_pair 1 ?db = Inr (?w, ex_campaign)" by (simp add: load_locked_pair_Inr)
  have "has_final_decision 1 ?db"
    by (simp add: has_final_decision_def ex_approval_def new_approval_def ex_approval_request_def)
  from completed_workflow_runs_again [OF l _ _ this, of 9 ex_services ex_orchestrator "\<lambda>n. ex_env" ex_env ex_env
      "''a''" UR_ADMIN]
  obtain db' w' c' where i: "workflow_iteration ex_services ex_orchestrator (\<lambda>n. ex_env) 1 ?db = (Inr None, db')"
    and w': "load_locked_pair 1 db' = Inr (w', c')" "wf_status w' = CS_GENERATING" by auto
  have "db' = moved_pair CS_GENERATING WS_GENERATE_CONTENT ?w ex_campaign ?db"
    using i l by (simp add: workflow_iteration_def stop_statuses_def continue_with_def and_session_def
        transition_checkpoint_def atomically_def ensure_expected_status_def require_def
        ensure_valid_transition_def can_transition_def)
  then show ?thesis
    using i by (simp add: moved_pair_def put_pair_def put_workflow_def put_campaign_def ex_db_def t_put_def)
qed

end
