(* ===== verification/Policy.thy ===== *)
theory Policy
  imports Approval_Service State_Guard
begin

text \<open>
  What an agent may propose: the naming rules of \<open>app/agentic/policies/rules.py\<close>, the action
  definitions and their registry (\<open>app/agentic/actions/definitions.py\<close>, \<open>registry.py\<close>,
  \<open>campaign_actions.py\<close>) and the engine (\<open>app/agentic/policies/engine.py\<close>). The conversion of
  one JSON field to a string, an integer or a UUID is Pydantic's (\<open>coercions\<close>).
\<close>

subsection \<open>Names\<close>

definition strip_chars :: "(char \<Rightarrow> bool) \<Rightarrow> string \<Rightarrow> string" where
  "strip_chars p s = rev (dropWhile p (rev (dropWhile p s)))"

definition is_name_char :: "char \<Rightarrow> bool" where
  "is_name_char c = (let n = of_char c :: nat in (48 \<le> n \<and> n \<le> 57) \<or> (97 \<le> n \<and> n \<le> 122))"

definition canonical_action_name :: "string \<Rightarrow> string" where
  "canonical_action_name value =
     strip_chars (\<lambda>c. c = CHR ''_'')
       (re_sub (plus (\<lambda>c. \<not> is_name_char c)) (\<lambda>_. ''_'') (lower (strip value)))"

definition forbidden_actions :: "string list" where
  "forbidden_actions =
     [''approve_campaign'', ''reject_campaign'', ''publish_campaign'', ''delete_campaign'',
      ''delete_workflow_history'', ''modify_actor_role'', ''modify_roles'', ''modify_permissions'',
      ''access_secrets'', ''execute_sql'', ''execute_shell'', ''call_arbitrary_url'',
      ''disable_audit'', ''change_policy_rules'']"

definition generic_actions :: "string list" where
  "generic_actions =
     [''update_anything'', ''modify_record'', ''execute_command'', ''run_query'', ''call_url'',
      ''patch_resource'']"

definition dangerous_argument_keys :: "string list" where
  "dangerous_argument_keys =
     [''action'', ''action_name'', ''command'', ''sql'', ''query'', ''url'', ''authorization'',
      ''api_key'', ''password'', ''secret'', ''token'']"

definition is_forbidden_alias :: "string \<Rightarrow> bool" where
  "is_forbidden_alias value =
     (let canonical = canonical_action_name value
      in canonical \<in> set forbidden_actions \<or> canonical \<in> set generic_actions)"

definition is_prefix :: "string \<Rightarrow> string \<Rightarrow> bool" where
  "is_prefix p s \<longleftrightarrow> take (length p) s = p"

fun contains_nested_danger :: "json \<Rightarrow> bool" where
  "contains_nested_danger (JObj es) =
     list_ex (\<lambda>(k, v). canonical_action_name k \<in> set dangerous_argument_keys \<or> contains_nested_danger v) es"
| "contains_nested_danger (JList vs) = list_ex contains_nested_danger vs"
| "contains_nested_danger (JStr s) \<longleftrightarrow>
     is_forbidden_alias s \<or> is_prefix ''http://'' (lower s) \<or> is_prefix ''https://'' (lower s)"
| "contains_nested_danger _ = False"

subsection \<open>Inputs of actions\<close>

record scoped_input =
  si_campaign_id :: string
  si_workflow_id :: uuid
  si_revision_number :: int

datatype action_input =
    InternalRecommendationInput (ai_scope: scoped_input) (ai_text: string)
  | CampaignSummaryInput (ai_scope: scoped_input) (ai_text: string)
  | RevisionDraftInput (ai_scope: scoped_input) (ai_feedback: string) (ai_instructions: string)
  | UpdateCampaignMetadataInput (ai_scope: scoped_input) (ai_update: metadata_update)
  | RegenerationInput (ai_scope: scoped_input) (ai_text: string)
  | ManualReviewNoteInput (ai_scope: scoped_input) (ai_text: string)
  | MarkManualReviewInput (ai_scope: scoped_input) (ai_text: string)

type_synonym fields = "(string \<times> json) list"
type_synonym input_model = "coercions \<Rightarrow> json \<Rightarrow> action_input option"

definition bounded_text :: "coercions \<Rightarrow> int \<Rightarrow> int \<Rightarrow> json \<Rightarrow> string option" where
  "bounded_text co lo hi v =
     (case co_str co v of None \<Rightarrow> None
      | Some t \<Rightarrow> let s = strip t in if lo \<le> int (length s) \<and> int (length s) \<le> hi then Some s else None)"

definition text_field :: "coercions \<Rightarrow> int \<Rightarrow> int \<Rightarrow> fields \<Rightarrow> string \<Rightarrow> string option" where
  "text_field co lo hi es f = Option.bind (map_of es f) (bounded_text co lo hi)"

text \<open>\<open>str | None\<close> with the default \<open>None\<close>.\<close>

definition optional_text_field ::
  "coercions \<Rightarrow> int \<Rightarrow> int \<Rightarrow> fields \<Rightarrow> string \<Rightarrow> string option option" where
  "optional_text_field co lo hi es f =
     (case map_of es f of None \<Rightarrow> Some None | Some JNull \<Rightarrow> Some None
      | Some v \<Rightarrow> map_option Some (bounded_text co lo hi v))"

definition scope_fields :: "string list" where
  "scope_fields = [''campaign_id'', ''workflow_id'', ''revision_number'']"

definition scoped_model :: "string list \<Rightarrow> (coercions \<Rightarrow> fields \<Rightarrow> scoped_input \<Rightarrow> action_input option) \<Rightarrow> input_model" where
  "scoped_model extra build co v =
     (case v of
        JObj es \<Rightarrow>
          if list_all (\<lambda>(k, _). k \<in> set (scope_fields @ extra)) es then
            (case (text_field co 3 100 es ''campaign_id'', Option.bind (map_of es ''workflow_id'') (co_uuid co),
                   Option.bind (map_of es ''revision_number'') (co_int co)) of
               (Some c, Some w, Some r) \<Rightarrow>
                 if 0 \<le> r then build co es \<lparr>si_campaign_id = c, si_workflow_id = w, si_revision_number = r\<rparr>
                 else None
             | _ \<Rightarrow> None)
          else None
      | _ \<Rightarrow> None)"

definition recommendation_model :: input_model where
  "recommendation_model = scoped_model [''recommendation''] (\<lambda>co es s.
     map_option (InternalRecommendationInput s) (text_field co 1 2000 es ''recommendation''))"

definition summary_model :: input_model where
  "summary_model = scoped_model [''focus''] (\<lambda>co es s.
     map_option (CampaignSummaryInput s)
       (if map_of es ''focus'' = None then Some ''current campaign'' else text_field co 1 500 es ''focus''))"

definition revision_draft_model :: input_model where
  "revision_draft_model = scoped_model [''feedback'', ''draft_instructions''] (\<lambda>co es s.
     case (text_field co 1 3000 es ''feedback'', text_field co 1 3000 es ''draft_instructions'') of
       (Some f, Some d) \<Rightarrow> Some (RevisionDraftInput s f d) | _ \<Rightarrow> None)"

definition metadata_model :: input_model where
  "metadata_model = scoped_model [''tone'', ''target_audience'', ''promotion''] (\<lambda>co es s.
     case (optional_text_field co 1 500 es ''tone'', optional_text_field co 1 300 es ''target_audience'',
           optional_text_field co 1 1000 es ''promotion'') of
       (Some t, Some a, Some p) \<Rightarrow>
         if t = None \<and> a = None \<and> p = None then None
         else Some (UpdateCampaignMetadataInput s \<lparr>mu_tone = t, mu_target_audience = a, mu_promotion = p\<rparr>)
     | _ \<Rightarrow> None)"

definition regeneration_model :: input_model where
  "regeneration_model = scoped_model [''reason''] (\<lambda>co es s.
     map_option (RegenerationInput s) (text_field co 1 2000 es ''reason''))"

definition review_note_model :: input_model where
  "review_note_model = scoped_model [''note''] (\<lambda>co es s.
     map_option (ManualReviewNoteInput s) (text_field co 1 3000 es ''note''))"

definition mark_review_model :: input_model where
  "mark_review_model = scoped_model [''reason''] (\<lambda>co es s.
     map_option (MarkManualReviewInput s) (text_field co 1 2000 es ''reason''))"

subsection \<open>Handlers\<close>

record action_result =
  ar_summary :: string
  ar_changed :: bool

type_synonym action_handler = "action_input \<Rightarrow> execution_guard \<Rightarrow> app_db \<Rightarrow> (exn, action_result) res \<times> app_db"

text \<open>\<open>InternalActionResult\<close> bounds its summary; a longer one is a \<open>ValidationError\<close>.\<close>

definition internal_result :: "string \<Rightarrow> bool \<Rightarrow> (app_db, action_result) session" where
  "internal_result summary changed db =
     (if 1 \<le> length summary \<and> length summary \<le> 5000
      then (Inr \<lparr>ar_summary = summary, ar_changed = changed\<rparr>, db)
      else (Inl (Exn (PyE ValueError) ''InternalActionResult''), db))"

definition create_recommendation :: action_handler where
  "create_recommendation p g = and_session (atomically (guard_validate g)) (\<lambda>_.
     internal_result (''Internal recommendation prepared: '' @ ai_text p) False)"

definition generate_summary :: action_handler where
  "generate_summary p g = and_session (atomically (guard_validate g)) (\<lambda>c.
     internal_result (cb_game_name (c_brief c) @ '': '' @ cb_objective (c_brief c) @ ''; focus='' @ ai_text p) False)"

definition prepare_revision :: action_handler where
  "prepare_revision p g = and_session (atomically (guard_validate g)) (\<lambda>_.
     internal_result (''Revision draft prepared from feedback: '' @ ai_feedback p @ ''. Instructions: '' @
       ai_instructions p) False)"

definition apply_metadata :: action_handler where
  "apply_metadata p g = and_session (atomically (guard_update_metadata g (ai_update p))) (\<lambda>_.
     internal_result ''Campaign metadata updated'' True)"

definition request_regeneration :: action_handler where
  "request_regeneration p g =
     and_session (atomically (guard_transition g CS_GENERATING WS_GENERATE_CONTENT)) (\<lambda>_.
     internal_result (''Campaign regeneration requested: '' @ ai_text p) True)"

definition add_manual_review_note :: action_handler where
  "add_manual_review_note p g = and_session (atomically (guard_validate g)) (\<lambda>_.
     internal_result (''Manual review note recorded: '' @ ai_text p) True)"

definition mark_for_manual_review :: action_handler where
  "mark_for_manual_review p g =
     and_session (atomically (guard_transition g CS_MANUAL_REVIEW_REQUIRED WS_HUMAN_REVIEW)) (\<lambda>_.
     internal_result (''Campaign marked for manual review: '' @ ai_text p) True)"

subsection \<open>Definitions and their registry\<close>

record action_definition =
  ad_name :: string
  ad_input_model :: input_model
  ad_default_policy :: policy_decision
  ad_reversible :: bool
  ad_allowed_agents :: "agent_name list"
  ad_handler :: action_handler
  ad_required_role :: "user_role option"
  ad_campaign_statuses :: "campaign_status list"
  ad_workflow_statuses :: "campaign_status list"
  ad_approval_ttl :: "int option"

type_synonym action_registry = "(string \<times> action_definition) list"

fun build_registry :: "action_definition list \<Rightarrow> action_registry \<Rightarrow> (exn, action_registry) res" where
  "build_registry [] registered = Inr registered"
| "build_registry (d # ds) registered =
     (if map_of registered (ad_name d) \<noteq> None
      then Inl (Exn (PyE ValueError) (''Duplicate action definition: '' @ ad_name d))
      else build_registry ds (registered @ [(ad_name d, d)]))"

definition action_get :: "action_registry \<Rightarrow> string \<Rightarrow> (exn, action_definition) res" where
  "action_get reg name = required (map_of reg name) (Exn (ActionE ActionNotFoundError) ''Action is not registered'')"

definition action_get_for_agent :: "action_registry \<Rightarrow> agent_name \<Rightarrow> string \<Rightarrow> (exn, action_definition) res" where
  "action_get_for_agent reg a name =
     and_then (action_get reg name) (\<lambda>d.
     if a \<in> set (ad_allowed_agents d) then Inr d
     else Inl (Exn (ActionE ActionNotAllowedError) ''Action is not allowed for this Agent''))"

definition actions_for_agent :: "action_registry \<Rightarrow> agent_name \<Rightarrow> action_definition list" where
  "actions_for_agent reg a = filter (\<lambda>d. a \<in> set (ad_allowed_agents d)) (map snd reg)"

definition all_agents :: "agent_name list" where
  "all_agents = [AN_BRIEF_ANALYST, AN_CONTENT_GENERATOR, AN_CONTENT_REVIEWER]"

definition active_states :: "campaign_status list" where
  "active_states = [CS_ANALYZING, CS_GENERATING, CS_REVIEWING, CS_MANUAL_REVIEW_REQUIRED,
     CS_PENDING_APPROVAL, CS_REVISION_REQUIRED]"

definition safe_definition ::
  "string \<Rightarrow> input_model \<Rightarrow> agent_name list \<Rightarrow> action_handler \<Rightarrow> campaign_status list \<Rightarrow> action_definition" where
  "safe_definition name model agents handler statuses =
     \<lparr>ad_name = name, ad_input_model = model, ad_default_policy = PD_SAFE, ad_reversible = True,
      ad_allowed_agents = agents, ad_handler = handler, ad_required_role = None,
      ad_campaign_statuses = statuses, ad_workflow_statuses = statuses, ad_approval_ttl = None\<rparr>"

definition approval_definition ::
  "int \<Rightarrow> string \<Rightarrow> input_model \<Rightarrow> agent_name list \<Rightarrow> action_handler \<Rightarrow> user_role \<Rightarrow> campaign_status list \<Rightarrow>
   action_definition" where
  "approval_definition ttl name model agents handler role statuses =
     \<lparr>ad_name = name, ad_input_model = model, ad_default_policy = PD_APPROVAL_REQUIRED, ad_reversible = True,
      ad_allowed_agents = agents, ad_handler = handler, ad_required_role = Some role,
      ad_campaign_statuses = statuses, ad_workflow_statuses = statuses, ad_approval_ttl = Some ttl\<rparr>"

definition default_definitions :: "app_settings \<Rightarrow> action_definition list" where
  "default_definitions st = (let ttl = action_approval_ttl_seconds st in
     [safe_definition ''create_internal_recommendation'' recommendation_model all_agents
        create_recommendation active_states,
      safe_definition ''generate_internal_campaign_summary'' summary_model all_agents
        generate_summary active_states,
      safe_definition ''prepare_revision_draft'' revision_draft_model [AN_CONTENT_GENERATOR]
        prepare_revision [CS_REVISION_REQUIRED, CS_GENERATING],
      approval_definition ttl ''update_campaign_metadata'' metadata_model all_agents
        apply_metadata UR_MANAGER [CS_RECEIVED, CS_NEEDS_CLARIFICATION, CS_REVISION_REQUIRED],
      approval_definition ttl ''request_campaign_regeneration'' regeneration_model [AN_CONTENT_REVIEWER]
        request_regeneration UR_MANAGER [CS_REVIEWING],
      approval_definition ttl ''add_manual_review_note'' review_note_model [AN_CONTENT_REVIEWER]
        add_manual_review_note UR_REVIEWER [CS_REVIEWING, CS_MANUAL_REVIEW_REQUIRED],
      approval_definition ttl ''mark_for_manual_review'' mark_review_model [AN_CONTENT_REVIEWER]
        mark_for_manual_review UR_REVIEWER [CS_REVIEWING]])"

definition default_registry :: "app_settings \<Rightarrow> (exn, action_registry) res" where
  "default_registry st = build_registry (default_definitions st) []"

subsection \<open>The engine\<close>

record policy_context =
  pc_agent_run_id :: uuid
  pc_workflow_id :: uuid
  pc_campaign_id :: string
  pc_agent_name :: agent_name
  pc_action_name :: string
  pc_arguments :: json
  pc_campaign_status :: campaign_status
  pc_workflow_status :: campaign_status
  pc_actor_id :: "string option"
  pc_actor_role :: "user_role option"
  pc_revision_number :: int
  pc_previous_action_count :: int

record policy_result =
  pr_decision :: policy_decision
  pr_reason_code :: string
  pr_reason :: string
  pr_required_role :: "user_role option"
  pr_expires_in :: "int option"
  pr_reversible :: bool

definition deny :: "string \<Rightarrow> string \<Rightarrow> policy_result" where
  "deny code reason =
     \<lparr>pr_decision = PD_FORBIDDEN, pr_reason_code = code, pr_reason = reason, pr_required_role = None,
      pr_expires_in = None, pr_reversible = False\<rparr>"

definition in_scope :: "policy_context \<Rightarrow> action_input \<Rightarrow> bool" where
  "in_scope ctx p \<longleftrightarrow> si_campaign_id (ai_scope p) = pc_campaign_id ctx \<and>
     si_workflow_id (ai_scope p) = pc_workflow_id ctx \<and>
     si_revision_number (ai_scope p) = pc_revision_number ctx"

definition decide_by_definition :: "action_definition \<Rightarrow> policy_result" where
  "decide_by_definition d =
     (case ad_default_policy d of
        PD_SAFE \<Rightarrow>
          \<lparr>pr_decision = PD_SAFE, pr_reason_code = ''SAFE_INTERNAL_ACTION'',
           pr_reason = ''Action is internal, bounded, reversible, and allowlisted'',
           pr_required_role = None, pr_expires_in = None, pr_reversible = ad_reversible d\<rparr>
      | PD_APPROVAL_REQUIRED \<Rightarrow>
          \<lparr>pr_decision = PD_APPROVAL_REQUIRED, pr_reason_code = ''HUMAN_APPROVAL_REQUIRED'',
           pr_reason = ''Action requires an authorized human decision'',
           pr_required_role = ad_required_role d, pr_expires_in = ad_approval_ttl d,
           pr_reversible = ad_reversible d\<rparr>
      | PD_FORBIDDEN \<Rightarrow> deny ''DEFAULT_DENY'' ''Action has no executable policy'')"

definition evaluate :: "coercions \<Rightarrow> policy_context \<Rightarrow> action_definition option \<Rightarrow> policy_result" where
  "evaluate co ctx found =
     (if is_forbidden_alias (pc_action_name ctx) then
        deny ''FORBIDDEN_ACTION'' ''Action is permanently forbidden''
      else case found of
        None \<Rightarrow> deny ''UNKNOWN_ACTION'' ''Action is not explicitly registered''
      | Some d \<Rightarrow>
          if pc_action_name ctx \<noteq> ad_name d then
            deny ''UNKNOWN_ACTION'' ''Action is not explicitly registered''
          else if pc_agent_name ctx \<notin> set (ad_allowed_agents d) then
            deny ''AGENT_NOT_ALLOWED'' ''Agent is not allowed to propose action''
          else if contains_nested_danger (pc_arguments ctx) then
            deny ''DANGEROUS_ARGUMENTS'' ''Action arguments contain a forbidden operation''
          else (case ad_input_model d co (pc_arguments ctx) of
              None \<Rightarrow> deny ''INVALID_ARGUMENTS'' ''Action arguments are invalid''
            | Some p \<Rightarrow>
                if \<not> in_scope ctx p then
                  deny ''ACTION_SCOPE_MISMATCH'' ''Action scope does not match the active Agent run''
                else if ad_campaign_statuses d \<noteq> [] \<and> pc_campaign_status ctx \<notin> set (ad_campaign_statuses d) then
                  deny ''CAMPAIGN_STATE_NOT_ALLOWED'' ''Campaign state does not allow this action''
                else if ad_workflow_statuses d \<noteq> [] \<and> pc_workflow_status ctx \<notin> set (ad_workflow_statuses d) then
                  deny ''WORKFLOW_STATE_NOT_ALLOWED'' ''Workflow state does not allow this action''
                else decide_by_definition d))"

end
