(* ===== verification/Auth.thy ===== *)
theory Auth
  imports Errors Sanitization
begin

text \<open>
  Who may do what: \<open>app/service/auth_service.py\<close>. A role column of the database is the role it
  parses to. Decoding a token's signature and claims is PyJWT's, so the decoded claims (or its
  refusal) are a parameter.
\<close>

record authenticated_actor =
  actor_id :: string
  actor_role :: user_role

definition agent_run_viewer_roles :: "user_role list" where
  "agent_run_viewer_roles = [UR_REVIEWER, UR_MANAGER, UR_ADMIN, UR_SYSTEM]"

fun action_role_level :: "user_role \<Rightarrow> int option" where
  "action_role_level UR_REVIEWER = Some 1"
| "action_role_level UR_MANAGER = Some 2"
| "action_role_level UR_ADMIN = Some 3"
| "action_role_level _ = None"

definition level_or :: "int \<Rightarrow> user_role \<Rightarrow> int" where
  "level_or dflt r = (case action_role_level r of None \<Rightarrow> dflt | Some n \<Rightarrow> n)"

definition role_satisfies_requirement :: "user_role option \<Rightarrow> user_role option \<Rightarrow> bool" where
  "role_satisfies_requirement actual wanted =
     (case (actual, wanted) of
        (Some a, Some w) \<Rightarrow> level_or 99 w \<le> level_or 0 a
      | _ \<Rightarrow> wanted = None)"

definition not_authorized :: "string \<Rightarrow> exn" where
  "not_authorized m = Exn (CoreE AuthorizationError) m"

text \<open>\<open>bool(claim)\<close> of a decoded claim, and \<open>str(claim)\<close> of the ones in use.\<close>

fun truthy :: "json \<Rightarrow> bool" where
  "truthy JNull = False"
| "truthy (JBool b) = b"
| "truthy (JInt n) = (n \<noteq> 0)"
| "truthy (JFloat x) = (x \<noteq> 0)"
| "truthy (JStr s) = (s \<noteq> [])"
| "truthy (JList vs) = (vs \<noteq> [])"
| "truthy (JObj es) = (es \<noteq> [])"
| "truthy (JOther s) = True"

definition truthy_claim :: "(string \<times> json) list \<Rightarrow> string \<Rightarrow> bool" where
  "truthy_claim claims k = (case map_of claims k of None \<Rightarrow> False | Some v \<Rightarrow> truthy v)"

definition decode_bearer_token ::
  "(string \<Rightarrow> (string \<times> json) list option) \<Rightarrow> (json \<Rightarrow> string) \<Rightarrow> string \<Rightarrow> string \<Rightarrow>
   (exn, authenticated_actor) res" where
  "decode_bearer_token jwt_decode py_str role_claim token =
     (case jwt_decode token of
        None \<Rightarrow> Inl (Exn (CoreE AuthenticationError) ''Invalid authentication token'')
      | Some claims \<Rightarrow>
          if \<not> truthy_claim claims ''sub'' \<or> \<not> truthy_claim claims role_claim then
            Inl (Exn (CoreE AuthenticationError) ''Authentication token is missing required claims'')
          else (case Option.bind (map_of claims role_claim)
                 (\<lambda>v. case v of JStr s \<Rightarrow> parse_user_role s | _ \<Rightarrow> None) of
              None \<Rightarrow> Inl (Exn (CoreE AuthenticationError) ''Authentication token role is invalid'')
            | Some role \<Rightarrow> Inr \<lparr>actor_id = py_str (the (map_of claims ''sub'')), actor_role = role\<rparr>))"

definition require_agent_run_read :: "authenticated_actor \<Rightarrow> (exn, unit) res" where
  "require_agent_run_read actor =
     require (actor_role actor \<in> set agent_run_viewer_roles)
       (not_authorized ''Actor is not allowed to view Agent run audits'')"

definition require_action_read :: "authenticated_actor \<Rightarrow> (exn, unit) res" where
  "require_action_read actor =
     require (actor_role actor \<in> set agent_run_viewer_roles)
       (not_authorized ''Actor is not allowed to view action audits'')"

definition role_or_admin :: "user_role option \<Rightarrow> user_role" where
  "role_or_admin r = (case r of None \<Rightarrow> UR_ADMIN | Some w \<Rightarrow> w)"

definition require_action_approval ::
  "authenticated_actor \<Rightarrow> user_role option \<Rightarrow> agent_name \<Rightarrow> (exn, unit) res" where
  "require_action_approval actor required_role agent =
     and_then (require (\<not> (actor_role actor = UR_SYSTEM \<or> actor_id actor = ''agent:'' @ agent_name_value agent))
       (not_authorized ''Agents and SYSTEM cannot approve actions'')) (\<lambda>_.
     require (role_satisfies_requirement (Some (actor_role actor)) (Some (role_or_admin required_role)))
       (not_authorized ''Actor role cannot approve this action''))"

definition require_action_execution ::
  "authenticated_actor \<Rightarrow> user_role option \<Rightarrow> (exn, unit) res" where
  "require_action_execution actor required_role =
     and_then (require (actor_role actor \<noteq> UR_SYSTEM)
       (not_authorized ''SYSTEM cannot execute approved human actions'')) (\<lambda>_.
     require (role_satisfies_requirement (Some (actor_role actor)) (Some (role_or_admin required_role)))
       (not_authorized ''Actor role cannot execute this action''))"

definition require_operator :: "authenticated_actor \<Rightarrow> (exn, unit) res" where
  "require_operator actor =
     require (actor_role actor \<in> {UR_MANAGER, UR_ADMIN}) (not_authorized ''Operator role is required'')"

lemma role_satisfies_some:
  "role_satisfies_requirement (Some a) (Some w) \<longleftrightarrow> level_or 99 w \<le> level_or 0 a"
  by (simp add: role_satisfies_requirement_def)

text \<open>A higher role satisfies whatever a lower one does.\<close>

lemma role_satisfies_mono:
  "role_satisfies_requirement (Some a) (Some w) \<Longrightarrow> role_satisfies_requirement (Some w) (Some v) \<Longrightarrow>
   role_satisfies_requirement (Some a) (Some v)"
  by (cases a; cases w; cases v) (simp_all add: role_satisfies_requirement_def level_or_def)

lemma satisfying_role_not_system:
  "role_satisfies_requirement (Some a) (Some w) \<Longrightarrow> a \<in> {UR_REVIEWER, UR_MANAGER, UR_ADMIN}"
  by (cases a; cases w) (simp_all add: role_satisfies_requirement_def level_or_def)

end
