(* ===== verification/Action_Store.thy ===== *)
theory Action_Store
  imports Policy Auth
begin

text \<open>
  Action requests and executions: the constraints of their tables (\<open>app/database/models.py\<close>)
  and the operations of \<open>app/repositories/action_request_repository.py\<close> and
  \<open>action_execution_repository.py\<close>. A flush that would break a \<open>CHECK\<close> constraint raises
  \<open>IntegrityError\<close>, as the database does.
\<close>

subsection \<open>Constraints\<close>

definition request_checks :: "action_request_row \<Rightarrow> bool" where
  "request_checks q \<longleftrightarrow>
     1 \<le> q_version q \<and>
     (q_policy_decision q = PD_FORBIDDEN \<longrightarrow> q_status q = AQ_REJECTED) \<and>
     (q_status q = AQ_PENDING_APPROVAL \<longrightarrow>
        (q_policy_decision q = PD_APPROVAL_REQUIRED \<or> lp_decision (q_last_policy q) = PD_APPROVAL_REQUIRED) \<and>
        q_expires_at q \<noteq> None) \<and>
     (q_status q = AQ_APPROVED \<longrightarrow> q_approved_by q \<noteq> None \<and> q_approved_at q \<noteq> None) \<and>
     (q_status q = AQ_REJECTED \<longrightarrow> q_rejected_at q \<noteq> None)"

definition execution_checks :: "execution_row \<Rightarrow> bool" where
  "execution_checks x \<longleftrightarrow>
     1 \<le> x_attempt_number x \<and>
     (case x_duration_ms x of None \<Rightarrow> True | Some d \<Rightarrow> 0 \<le> d) \<and>
     0 \<le> x_memory_attempts x \<and>
     (x_memory_status x = MR_RECORDED \<longrightarrow> x_memory_recorded_at x \<noteq> None) \<and>
     ((x_status x = AX_CREATED \<and> x_started_at x = None \<and> x_completed_at x = None) \<or>
      (x_status x = AX_RUNNING \<and> x_started_at x \<noteq> None \<and> x_completed_at x = None) \<or>
      (x_status x \<in> {AX_COMPLETED, AX_FAILED, AX_CANCELLED} \<and> x_started_at x \<noteq> None \<and> x_completed_at x \<noteq> None))"

definition integrity_error :: exn where
  "integrity_error = Exn (PyE IntegrityError) ''check constraint violated''"

definition flush_request :: "action_request_row \<Rightarrow> app_db \<Rightarrow> (exn, app_db) res" where
  "flush_request q db = (if request_checks q then Inr (put_request q db) else Inl integrity_error)"

definition flush_execution :: "execution_row \<Rightarrow> app_db \<Rightarrow> (exn, app_db) res" where
  "flush_execution x db = (if execution_checks x then Inr (put_execution x db) else Inl integrity_error)"

subsection \<open>Requests\<close>

record action_proposal =
  ap_action_name :: string
  ap_arguments :: json
  ap_rationale_summary :: string

definition policy_columns_of :: "time \<Rightarrow> policy_result \<Rightarrow> policy_context \<Rightarrow> policy_columns" where
  "policy_columns_of now p ctx =
     \<lparr>lp_decision = pr_decision p, lp_reason_code = pr_reason_code p, lp_reason = pr_reason p,
      lp_required_role = pr_required_role p, lp_campaign_status = pc_campaign_status ctx,
      lp_workflow_status = pc_workflow_status ctx, lp_revision_number = pc_revision_number ctx,
      lp_evaluated_at = now\<rparr>"

definition new_request ::
  "call_env \<Rightarrow> action_proposal \<Rightarrow> string \<Rightarrow> policy_result \<Rightarrow> policy_context \<Rightarrow> action_request_status \<Rightarrow>
   time option \<Rightarrow> time option \<Rightarrow> string option \<Rightarrow> action_request_row" where
  "new_request env proposal key p ctx status expires_at rejected_at rejection_reason =
     \<lparr>q_id = env_row_id env, q_agent_run_id = pc_agent_run_id ctx, q_workflow_id = pc_workflow_id ctx,
      q_campaign_id = pc_campaign_id ctx, q_agent_name = pc_agent_name ctx,
      q_action_name = ap_action_name proposal, q_arguments = ap_arguments proposal,
      q_rationale_summary = ap_rationale_summary proposal, q_policy_decision = pr_decision p,
      q_policy_reason_code = pr_reason_code p, q_policy_reason = pr_reason p,
      q_required_role = pr_required_role p, q_last_policy = policy_columns_of (env_now env) p ctx,
      q_status = status, q_requested_at = env_now env, q_expires_at = expires_at, q_approved_by = None,
      q_approved_role = None, q_approved_at = None, q_rejected_by = None, q_rejected_at = rejected_at,
      q_rejection_reason = rejection_reason, q_version = 1, q_idempotency_key = key\<rparr>"

definition find_request_by_key :: "string \<Rightarrow> app_db \<Rightarrow> action_request_row option" where
  "find_request_by_key key db = find (\<lambda>q. q_idempotency_key q = key) (requests db)"

definition list_action_requests ::
  "int \<Rightarrow> int \<Rightarrow> string option \<Rightarrow> uuid option \<Rightarrow> action_request_status option \<Rightarrow> app_db \<Rightarrow> action_request_row list" where
  "list_action_requests limit offset campaign_id workflow_id status db =
     order_page (\<lambda>q. (- q_requested_at q, - int (q_id q))) limit offset
       (filter (\<lambda>q. (campaign_id = None \<or> campaign_id = Some (q_campaign_id q)) \<and>
          (workflow_id = None \<or> workflow_id = Some (q_workflow_id q)) \<and>
          (status = None \<or> status = Some (q_status q))) (requests db))"

definition latest_policy ::
  "time \<Rightarrow> policy_result \<Rightarrow> policy_context \<Rightarrow> string option \<Rightarrow> string option \<Rightarrow> action_request_row \<Rightarrow> action_request_row" where
  "latest_policy now p ctx reason_code reason q =
     q\<lparr>q_last_policy := (policy_columns_of now p ctx)
         \<lparr>lp_reason_code := or_str reason_code (pr_reason_code p), lp_reason := or_str reason (pr_reason p)\<rparr>\<rparr>"

definition rejected_after_reevaluation :: "time \<Rightarrow> string \<Rightarrow> action_request_row \<Rightarrow> action_request_row" where
  "rejected_after_reevaluation now reason q =
     q\<lparr>q_status := AQ_REJECTED, q_rejected_at := Some now, q_rejection_reason := Some reason,
       q_version := q_version q + 1\<rparr>"

definition pending_approval :: "time \<Rightarrow> action_request_row \<Rightarrow> action_request_row" where
  "pending_approval expires_at q =
     q\<lparr>q_status := AQ_PENDING_APPROVAL, q_expires_at := Some expires_at, q_version := q_version q + 1\<rparr>"

text \<open>\<open>UPDATE ... WHERE id, version and status RETURNING id\<close>: whether a row was changed.\<close>

definition versioned_update ::
  "uuid \<Rightarrow> int \<Rightarrow> action_request_status list \<Rightarrow> (action_request_row \<Rightarrow> action_request_row) \<Rightarrow> app_db \<Rightarrow>
   bool \<times> app_db" where
  "versioned_update k expected_version statuses f db =
     (case get_request db k of
        None \<Rightarrow> (False, db)
      | Some q \<Rightarrow>
          if q_version q = expected_version \<and> q_status q \<in> set statuses
          then (True, put_request ((f q)\<lparr>q_version := q_version q + 1\<rparr>) db)
          else (False, db))"

definition repo_approve ::
  "time \<Rightarrow> uuid \<Rightarrow> string \<Rightarrow> user_role \<Rightarrow> int \<Rightarrow> app_db \<Rightarrow> bool \<times> app_db" where
  "repo_approve now k actor role expected_version =
     versioned_update k expected_version [AQ_PENDING_APPROVAL] (\<lambda>q. q\<lparr>q_status := AQ_APPROVED,
       q_approved_by := Some actor, q_approved_role := Some role, q_approved_at := Some now\<rparr>)"

definition repo_reject ::
  "time \<Rightarrow> uuid \<Rightarrow> string \<Rightarrow> string \<Rightarrow> int \<Rightarrow> app_db \<Rightarrow> bool \<times> app_db" where
  "repo_reject now k actor reason expected_version =
     versioned_update k expected_version [AQ_PROPOSED, AQ_PENDING_APPROVAL] (\<lambda>q. q\<lparr>q_status := AQ_REJECTED,
       q_rejected_by := Some actor, q_rejected_at := Some now, q_rejection_reason := Some reason\<rparr>)"

definition repo_expire :: "uuid \<Rightarrow> int \<Rightarrow> app_db \<Rightarrow> bool \<times> app_db" where
  "repo_expire k expected_version =
     versioned_update k expected_version [AQ_PENDING_APPROVAL, AQ_APPROVED] (\<lambda>q. q\<lparr>q_status := AQ_EXPIRED\<rparr>)"

definition moved_request :: "action_request_status \<Rightarrow> action_request_row \<Rightarrow> action_request_row" where
  "moved_request s q = q\<lparr>q_status := s, q_version := q_version q + 1\<rparr>"

subsection \<open>Executions\<close>

definition new_execution :: "call_env \<Rightarrow> uuid \<Rightarrow> string \<Rightarrow> execution_guard \<Rightarrow> execution_row" where
  "new_execution env request_id key g =
     \<lparr>x_id = env_row_id env, x_action_request_id = request_id, x_status = AX_CREATED, x_attempt_number = 1,
      x_idempotency_key = key, x_started_at = None, x_completed_at = None, x_duration_ms = None,
      x_result_summary = None, x_error_code = None, x_error_message = None,
      x_reserved_campaign_status = g_campaign_status g, x_reserved_campaign_version = g_campaign_version g,
      x_reserved_workflow_status = g_workflow_status g, x_reserved_revision_number = g_revision_number g,
      x_memory_status = MR_NOT_REQUIRED, x_memory_attempts = 0, x_memory_error_code = None,
      x_memory_error_message = None, x_memory_recorded_at = None, x_created_at = env_now env\<rparr>"

definition add_execution :: "execution_row \<Rightarrow> app_db \<Rightarrow> app_db" where
  "add_execution x db = db\<lparr>executions := executions db @ [x]\<rparr>"

definition execution_conflicts :: "execution_row \<Rightarrow> app_db \<Rightarrow> bool" where
  "execution_conflicts x db \<longleftrightarrow>
     list_ex (\<lambda>y. x_action_request_id y = x_action_request_id x \<or> x_idempotency_key y = x_idempotency_key x)
       (executions db)"

definition find_execution_by_key :: "string \<Rightarrow> app_db \<Rightarrow> execution_row option" where
  "find_execution_by_key key db = find (\<lambda>x. x_idempotency_key x = key) (executions db)"

definition list_by_request :: "uuid \<Rightarrow> app_db \<Rightarrow> execution_row list" where
  "list_by_request k db =
     sort_key (\<lambda>x. (x_created_at x, x_id x)) (filter (\<lambda>x. x_action_request_id x = k) (executions db))"

definition running_execution :: "time \<Rightarrow> execution_row \<Rightarrow> execution_row" where
  "running_execution now x = x\<lparr>x_status := AX_RUNNING, x_started_at := Some now\<rparr>"

definition completed_execution :: "time \<Rightarrow> string \<Rightarrow> int \<Rightarrow> execution_row \<Rightarrow> execution_row" where
  "completed_execution now summary duration x =
     x\<lparr>x_status := AX_COMPLETED, x_result_summary := Some summary, x_duration_ms := Some duration,
       x_completed_at := Some now, x_memory_status := MR_PENDING\<rparr>"

definition failed_execution :: "time \<Rightarrow> string \<Rightarrow> string \<Rightarrow> int \<Rightarrow> execution_row \<Rightarrow> execution_row" where
  "failed_execution now code message duration x =
     x\<lparr>x_status := AX_FAILED, x_error_code := Some code, x_error_message := Some message,
       x_duration_ms := Some duration, x_completed_at := Some now, x_memory_status := MR_PENDING\<rparr>"

definition cancelled_execution :: "time \<Rightarrow> string \<Rightarrow> int \<Rightarrow> execution_row \<Rightarrow> execution_row" where
  "cancelled_execution now message duration x =
     x\<lparr>x_status := AX_CANCELLED, x_error_code := Some ''ACTION_CANCELLED'', x_error_message := Some message,
       x_duration_ms := Some duration, x_completed_at := Some now, x_memory_status := MR_PENDING\<rparr>"

definition memory_attempt_started :: "execution_row \<Rightarrow> execution_row" where
  "memory_attempt_started x =
     x\<lparr>x_memory_status := MR_PENDING, x_memory_attempts := x_memory_attempts x + 1,
       x_memory_error_code := None, x_memory_error_message := None\<rparr>"

definition memory_recorded :: "time \<Rightarrow> execution_row \<Rightarrow> execution_row" where
  "memory_recorded now x =
     x\<lparr>x_memory_status := MR_RECORDED, x_memory_recorded_at := Some now,
       x_memory_error_code := None, x_memory_error_message := None\<rparr>"

definition memory_failed :: "string \<Rightarrow> string \<Rightarrow> execution_row \<Rightarrow> execution_row" where
  "memory_failed code message x =
     x\<lparr>x_memory_status := MR_FAILED, x_memory_error_code := Some code, x_memory_error_message := Some message\<rparr>"

definition terminal_execution :: "execution_row \<Rightarrow> bool" where
  "terminal_execution x \<longleftrightarrow> x_status x \<in> {AX_COMPLETED, AX_FAILED, AX_CANCELLED}"

text \<open>The order is by \<open>updated_at\<close>, which the model leaves to the database: any order of the rows.\<close>

definition list_reconcilable_memories :: "(execution_row \<Rightarrow> int) \<Rightarrow> int \<Rightarrow> app_db \<Rightarrow> execution_row list" where
  "list_reconcilable_memories updated_at limit db =
     order_limit (\<lambda>x. (updated_at x, x_id x)) limit
       (filter (\<lambda>x. terminal_execution x \<and> x_memory_status x \<in> {MR_PENDING, MR_FAILED}) (executions db))"

lemma moved_request_keeps [simp]:
  "q_id (moved_request s q) = q_id q" "q_status (moved_request s q) = s"
  "q_last_policy (moved_request s q) = q_last_policy q"
  "q_policy_decision (moved_request s q) = q_policy_decision q"
  "q_approved_by (moved_request s q) = q_approved_by q"
  "q_approved_role (moved_request s q) = q_approved_role q"
  "q_idempotency_key (moved_request s q) = q_idempotency_key q"
  by (simp_all add: moved_request_def)

lemma flush_request_Inr [result_simps]:
  "flush_request q db = Inr db' \<longleftrightarrow> request_checks q \<and> db' = put_request q db"
  by (auto simp: flush_request_def)

lemma flush_execution_Inr [result_simps]:
  "flush_execution x db = Inr db' \<longleftrightarrow> execution_checks x \<and> db' = put_execution x db"
  by (auto simp: flush_execution_def)

end
