(* ===== verification/Action_Executor.thy ===== *)
theory Action_Executor
  imports Action_Store Campaign_Workflow
begin

text \<open>
  Controlled execution: \<open>app/agentic/actions/executor.py\<close>. An execution is three groups of
  transactions: the reservation, which evaluates the policy afresh under the locks of the
  campaign, the workflow and the request; the action's handler; and the finalisation, followed by
  the recording of a memory. Other sessions may act between them.
\<close>

definition raises :: "exn \<Rightarrow> ('s, 'a) session" where
  "raises e s = (Inl e, s)"

definition action_error :: "action_exn \<Rightarrow> string \<Rightarrow> exn" where
  "action_error e m = Exn (ActionE e) m"

subsection \<open>Reservation\<close>

record reservation =
  rv_request :: action_request_row
  rv_execution :: execution_row
  rv_definition :: action_definition
  rv_guard :: execution_guard

definition reserve_rows ::
  "uuid \<Rightarrow> app_db \<Rightarrow> (exn, campaign_row \<times> workflow_row \<times> action_request_row) res" where
  "reserve_rows k db =
     and_then (required (get_request db k)
       (action_error ActionRequestNotFoundError ''Action request not found'')) (\<lambda>q.
     and_then (required (get_campaign db (q_campaign_id q))
       (action_error ActionScopeConflictError ''Action campaign scope is unavailable'')) (\<lambda>c.
     and_then (required (get_workflow_row db (q_workflow_id q))
       (action_error ActionScopeConflictError ''Action workflow scope is invalid'')) (\<lambda>w.
     and_then (require (wf_campaign_id w = c_id c)
       (action_error ActionScopeConflictError ''Action workflow scope is invalid'')) (\<lambda>_.
     and_then (require (q_campaign_id q = c_id c \<and> q_workflow_id q = wf_id w)
       (action_error ActionScopeConflictError ''Action request scope changed'')) (\<lambda>_.
     Inr (c, w, q))))))"

definition reserve_status :: "int option \<Rightarrow> action_request_row \<Rightarrow> (exn, unit) res" where
  "reserve_status expected q =
     (if q_status q = AQ_EXPIRED then
        Inl (action_error ActionExpiredError ''Action request has expired'')
      else if q_status q \<in> {AQ_EXECUTING, AQ_COMPLETED, AQ_FAILED, AQ_REJECTED} then
        Inl (action_error ActionExecutionConflictError ''Action has already been executed'')
      else if expected \<noteq> None \<and> expected \<noteq> Some (q_version q) then
        Inl (action_error ActionVersionConflictError ''Action request version is stale'')
      else Inr ())"

definition reserve_context ::
  "campaign_row \<Rightarrow> workflow_row \<Rightarrow> action_request_row \<Rightarrow> app_db \<Rightarrow> policy_context" where
  "reserve_context c w q db =
     \<lparr>pc_agent_run_id = q_agent_run_id q, pc_workflow_id = wf_id w, pc_campaign_id = c_id c,
      pc_agent_name = q_agent_name q, pc_action_name = q_action_name q, pc_arguments = q_arguments q,
      pc_campaign_status = c_status c, pc_workflow_status = wf_status w,
      pc_actor_id = q_approved_by q, pc_actor_role = q_approved_role q,
      pc_revision_number = wf_revision_number w,
      pc_previous_action_count = int (length (list_action_requests 100 0 None (Some (wf_id w)) None db))\<rparr>"

definition reserve_guard :: "campaign_row \<Rightarrow> workflow_row \<Rightarrow> execution_guard" where
  "reserve_guard c w =
     \<lparr>g_campaign_id = c_id c, g_workflow_id = wf_id w, g_campaign_status = c_status c,
      g_campaign_version = c_version c, g_workflow_status = wf_status w,
      g_revision_number = wf_revision_number w\<rparr>"

text \<open>Some flushes in turn, then a commit, then an exception; the first flush that fails undoes all.\<close>

fun flush_rows :: "action_request_row list \<Rightarrow> app_db \<Rightarrow> (exn, app_db) res" where
  "flush_rows [] db = Inr db"
| "flush_rows (q # qs) db = and_then (flush_request q db) (flush_rows qs)"

definition commit_and_raise :: "action_request_row list \<Rightarrow> exn \<Rightarrow> app_db \<Rightarrow> (exn, 'a) res \<times> app_db" where
  "commit_and_raise qs e db = (case flush_rows qs db of Inl x \<Rightarrow> (Inl x, db) | Inr db' \<Rightarrow> (Inl e, db'))"

definition reserve_execution ::
  "call_env \<Rightarrow> action_definition option \<Rightarrow> action_request_row \<Rightarrow> execution_guard \<Rightarrow> app_db \<Rightarrow>
   (exn, reservation \<times> app_db) res" where
  "reserve_execution env found q g db =
     and_then (require (find_execution_by_key (q_idempotency_key q) db = None)
       (action_error ActionExecutionConflictError ''Action has already been executed'')) (\<lambda>_.
     and_then (required found (action_error PolicyDeniedError ''Unregistered action cannot execute'')) (\<lambda>d.
     let x0 = new_execution env (q_id q) (q_idempotency_key q) g;
         x = running_execution (env_now env) x0;
         q' = moved_request AQ_EXECUTING q
     in and_then (require (\<not> execution_conflicts x0 db)
          (action_error ActionExecutionConflictError ''Action execution already exists'')) (\<lambda>_.
        and_then (flush_execution x (add_execution x0 db)) (\<lambda>db1.
        and_then (flush_request q' db1) (\<lambda>db2.
        Inr (\<lparr>rv_request = q', rv_execution = x, rv_definition = d, rv_guard = g\<rparr>, db2))))))"

definition insufficient_role :: string where
  "insufficient_role = ''Existing approval does not satisfy the current required role''"

text \<open>
  The branches after the fresh evaluation. \<open>db\<close> is the committed state and \<open>q\<close> the request with
  the fresh policy in its columns; a branch that raises without a commit keeps \<open>db\<close>.
\<close>

definition reserve_decide ::
  "services \<Rightarrow> call_env \<Rightarrow> action_definition option \<Rightarrow> policy_context \<Rightarrow> policy_result \<Rightarrow> execution_guard \<Rightarrow>
   action_request_row \<Rightarrow> app_db \<Rightarrow> (exn, reservation) res \<times> app_db" where
  "reserve_decide sv env found ctx p g q db =
     (let now = env_now env; k = q_id q; ttl = or_int (pr_expires_in p) (action_approval_ttl_seconds (sv_settings sv));
          denied = ''Fresh policy denied execution: '' @ pr_reason p;
          reserve_it = (case flush_request q db of Inl x \<Rightarrow> (Inl x, db)
            | Inr db1 \<Rightarrow> (case reserve_execution env found q g db1 of
                Inl x \<Rightarrow> (Inl x, db) | Inr (r, db2) \<Rightarrow> (Inr r, db2)))
      in if pr_decision p = PD_FORBIDDEN then
           (let q' = latest_policy now p ctx (Some ''POLICY_REEVALUATION_DENIED'') (Some denied) q
            in commit_and_raise [q, q', rejected_after_reevaluation now denied q']
                 (action_error ActionPolicyReevaluationDeniedError
                   ''Action is no longer allowed by current policy'') db)
         else if (case q_expires_at q of None \<Rightarrow> False | Some t \<Rightarrow> t \<le> now) then
           (case flush_request q db of Inl x \<Rightarrow> (Inl x, db)
            | Inr db1 \<Rightarrow> (Inl (action_error ActionExpiredError ''Action request has expired''),
                snd (repo_expire k (q_version q) db1)))
         else if pr_decision p = PD_APPROVAL_REQUIRED then
           (if q_status q = AQ_PROPOSED then
              (let q' = latest_policy now p ctx (Some ''POLICY_REEVALUATION_APPROVAL_REQUIRED'')
                     (Some ''Fresh policy now requires human approval'') q
               in commit_and_raise [q, q', pending_approval (now + seconds ttl) q']
                    (action_error ActionPolicyApprovalRequiredError ''Fresh policy requires human approval'') db)
            else if q_status q \<noteq> AQ_APPROVED then
              commit_and_raise [q] (action_error ActionApprovalRequiredError ''Action requires human approval'') db
            else if \<not> role_satisfies_requirement (q_approved_role q) (pr_required_role p) then
              (let q' = latest_policy now p ctx (Some ''POLICY_REEVALUATION_APPROVAL_REQUIRED'')
                     (Some insufficient_role) q
               in commit_and_raise [q, q', rejected_after_reevaluation now insufficient_role q']
                    (action_error ActionPolicyApprovalRequiredError insufficient_role) db)
            else reserve_it)
         else if q_policy_decision q = PD_APPROVAL_REQUIRED \<and> q_status q \<noteq> AQ_APPROVED then
           commit_and_raise [q] (action_error ActionPolicyApprovalRequiredError
             ''Original request lifecycle still requires human approval'') db
         else if q_status q \<notin> {AQ_PROPOSED, AQ_APPROVED} then
           (case flush_request q db of Inl x \<Rightarrow> (Inl x, db)
            | Inr _ \<Rightarrow> (Inl (action_error ActionExecutionConflictError ''Action is no longer executable''), db))
         else reserve_it)"

definition reserve ::
  "services \<Rightarrow> coercions \<Rightarrow> action_registry \<Rightarrow> call_env \<Rightarrow> uuid \<Rightarrow> int option \<Rightarrow> (app_db, reservation) session" where
  "reserve sv co reg env k expected db =
     (case and_then (reserve_rows k db) (\<lambda>(c, w, q). and_then (reserve_status expected q) (\<lambda>_. Inr (c, w, q))) of
        Inl x \<Rightarrow> (Inl x, db)
      | Inr (c, w, q) \<Rightarrow>
          (let found = map_of reg (q_action_name q); ctx = reserve_context c w q db;
               p = evaluate co ctx found
           in reserve_decide sv env found ctx p (reserve_guard c w)
                (latest_policy (env_now env) p ctx None None q) db))"

subsection \<open>Finalisation\<close>

definition required_request :: "uuid \<Rightarrow> app_db \<Rightarrow> (exn, action_request_row) res" where
  "required_request k db =
     required (get_request db k) (action_error ActionRequestNotFoundError ''Action request not found'')"

definition required_execution :: "uuid \<Rightarrow> app_db \<Rightarrow> (exn, execution_row) res" where
  "required_execution k db =
     and_then (required (get_execution db k)
       (action_error ActionExecutionConflictError ''Action execution audit is missing'')) (\<lambda>x.
     and_then (require (x_status x = AX_RUNNING)
       (action_error ActionExecutionConflictError ''Action execution is already terminal'')) (\<lambda>_. Inr x))"

definition execution_event ::
  "outbox_event_type \<Rightarrow> execution_row \<Rightarrow> action_request_row \<Rightarrow> (string \<times> json) list \<Rightarrow> string \<Rightarrow> event_request" where
  "execution_event t x q extra suffix =
     \<lparr>er_event_type = t, er_aggregate_type = ''action_execution'', er_aggregate_id = uuid_str (x_id x),
      er_payload = JObj ([(''action_execution_id'', JStr (uuid_str (x_id x))),
        (''action_request_id'', JStr (uuid_str (q_id q))), (''action_name'', JStr (q_action_name q))] @ extra),
      er_idempotency_key = Some (''action-execution:'' @ uuid_str (x_id x) @ suffix),
      er_correlation_id = None, er_trace_id = None\<rparr>"

text \<open>The end of an execution: both rows change, and an event is added, in one transaction.\<close>

definition finalize_rows ::
  "uuid \<Rightarrow> uuid \<Rightarrow> (execution_row \<Rightarrow> execution_row) \<Rightarrow> action_request_status \<Rightarrow>
   (execution_row \<Rightarrow> action_request_row \<Rightarrow> app_db \<Rightarrow> (exn, app_db) res) \<Rightarrow> app_db \<Rightarrow>
   (exn, action_request_row \<times> app_db) res" where
  "finalize_rows request_id execution_id change status publish db =
     and_then (required_request request_id db) (\<lambda>q.
     and_then (required_execution execution_id db) (\<lambda>x.
     and_then (flush_execution (change x) db) (\<lambda>db1.
     and_then (flush_request (moved_request status q) db1) (\<lambda>db2.
     and_then (publish x q db2) (\<lambda>db3. Inr (q, db3))))))"

definition action_memory ::
  "action_request_row \<Rightarrow> uuid option \<Rightarrow> memory_event_type \<Rightarrow> string \<Rightarrow> json \<Rightarrow> int \<Rightarrow> memory_request" where
  "action_memory q execution_id event_type summary metadata importance =
     (memory_entry (q_campaign_id q) event_type summary metadata)
     \<lparr>mr_workflow_id := Some (q_workflow_id q), mr_agent_run_id := Some (q_agent_run_id q),
      mr_action_request_id := Some (q_id q), mr_action_execution_id := execution_id,
      mr_importance := importance\<rparr>"

definition mark_memory_recorded :: "time \<Rightarrow> uuid \<Rightarrow> app_db \<Rightarrow> (exn, unit \<times> app_db) res" where
  "mark_memory_recorded now execution_id db =
     and_then (required (get_execution db execution_id)
       (action_error ActionExecutionConflictError ''Action execution audit is missing'')) (\<lambda>x.
     and_then (flush_execution (memory_recorded now x) db) (\<lambda>db'. Inr ((), db')))"

definition memory_failure_code :: "exn \<Rightarrow> string" where
  "memory_failure_code e =
     (case error_code (exn_cls e) of Some code \<Rightarrow> code | None \<Rightarrow> ''MEMORY_RECORDING_ERROR'')"

definition memory_failure_message :: "exn \<Rightarrow> string" where
  "memory_failure_message e =
     (if is_application_error (exn_cls e) then sanitize_text 2000 (exn_msg e)
      else ''Action memory recording failed'')"

definition reconciliation_event :: "uuid \<Rightarrow> uuid \<Rightarrow> string \<Rightarrow> event_request" where
  "reconciliation_event request_id execution_id code =
     \<lparr>er_event_type = OE_MEMORY_RECONCILIATION_REQUIRED, er_aggregate_type = ''action_execution'',
      er_aggregate_id = uuid_str execution_id,
      er_payload = JObj [(''action_execution_id'', JStr (uuid_str execution_id)),
        (''action_request_id'', JStr (uuid_str request_id)), (''error_code'', JStr code)],
      er_idempotency_key = Some (''action-execution:'' @ uuid_str execution_id @ '':memory-reconciliation''),
      er_correlation_id = None, er_trace_id = None\<rparr>"

definition memory_failure ::
  "services \<Rightarrow> call_env \<Rightarrow> uuid \<Rightarrow> uuid \<Rightarrow> exn \<Rightarrow> app_db \<Rightarrow> (exn, unit \<times> app_db) res" where
  "memory_failure sv env request_id execution_id e db =
     (case get_execution db execution_id of
        None \<Rightarrow> Inr ((), db)
      | Some x \<Rightarrow>
          and_then (flush_execution (memory_failed (memory_failure_code e) (memory_failure_message e) x) db) (\<lambda>db1.
          and_then (add_outbox_event sv env
            (reconciliation_event request_id execution_id (memory_failure_code e)) db1) (\<lambda>db2. Inr ((), db2))))"

definition memory_attempt ::
  "uuid \<Rightarrow> uuid \<Rightarrow> app_db \<Rightarrow> (exn, action_request_row option \<times> app_db) res" where
  "memory_attempt request_id execution_id db =
     and_then (required (get_execution db execution_id)
       (action_error ActionExecutionConflictError ''Action execution audit is missing'')) (\<lambda>x.
     and_then (required (get_request db request_id)
       (action_error ActionScopeConflictError ''Action memory scope is invalid'')) (\<lambda>q.
     and_then (require (x_action_request_id x = q_id q)
       (action_error ActionScopeConflictError ''Action memory scope is invalid'')) (\<lambda>_.
     if x_memory_status x = MR_RECORDED then Inr (None, db)
     else and_then (flush_execution (memory_attempt_started x) db) (\<lambda>db'. Inr (Some q, db')))))"

definition record_terminal_memory ::
  "services \<Rightarrow> (nat \<Rightarrow> call_env) \<Rightarrow> uuid \<Rightarrow> uuid \<Rightarrow> memory_event_type \<Rightarrow> string \<Rightarrow> json \<Rightarrow> int \<Rightarrow> (app_db, unit) session" where
  "record_terminal_memory sv env request_id execution_id event_type summary metadata importance =
     and_session (atomically (memory_attempt request_id execution_id)) (\<lambda>started.
     case started of
       None \<Rightarrow> returns ()
     | Some q \<Rightarrow> (\<lambda>db.
         case and_session (record_event sv (env 0)
                (action_memory q (Some execution_id) event_type summary metadata importance))
              (\<lambda>_. atomically (mark_memory_recorded (env_now (env 1)) execution_id)) db of
           (Inr u, db') \<Rightarrow> (Inr u, db')
         | (Inl e, db') \<Rightarrow>
             if is_instance (exn_cls e) (PyE PyException)
             then atomically (memory_failure sv (env 2) request_id execution_id e) db'
             else (Inl e, db')))"

definition finalize_success ::
  "services \<Rightarrow> (nat \<Rightarrow> call_env) \<Rightarrow> uuid \<Rightarrow> uuid \<Rightarrow> string \<Rightarrow> int \<Rightarrow> (app_db, execution_row) session" where
  "finalize_success sv env request_id execution_id summary duration =
     and_session (atomically (finalize_rows request_id execution_id
       (completed_execution (env_now (env 0)) summary duration) AQ_COMPLETED
       (\<lambda>x q. add_outbox_event sv (env 0) (execution_event OE_ACTION_COMPLETED x q [] '':completed'')))) (\<lambda>q.
     and_session (record_terminal_memory sv (\<lambda>n. env (n + 1)) request_id execution_id ME_ACTION_COMPLETED
       summary (JObj [(''action_name'', JStr (q_action_name q))]) 4) (\<lambda>_.
     atomically (\<lambda>db. and_then (required (get_execution db execution_id)
       (action_error ActionExecutionConflictError ''Action execution audit is missing'')) (\<lambda>x. Inr (x, db)))))"

definition execution_error_code :: "exn \<Rightarrow> string" where
  "execution_error_code e =
     (case error_code (exn_cls e) of Some code \<Rightarrow> code | None \<Rightarrow> ''ACTION_EXECUTION_ERROR'')"

definition finalize_failure ::
  "services \<Rightarrow> (nat \<Rightarrow> call_env) \<Rightarrow> uuid \<Rightarrow> uuid \<Rightarrow> exn \<Rightarrow> int \<Rightarrow> (app_db, unit) session" where
  "finalize_failure sv env request_id execution_id e duration =
     (let code = execution_error_code e; message = sanitize_text 2000 (exn_msg e)
      in and_session (atomically (finalize_rows request_id execution_id
           (failed_execution (env_now (env 0)) code message duration) AQ_FAILED
           (\<lambda>x q. add_outbox_event sv (env 0)
             (execution_event OE_ACTION_FAILED x q [(''error_code'', JStr code)] '':failed'')))) (\<lambda>q.
         record_terminal_memory sv (\<lambda>n. env (n + 1)) request_id execution_id ME_ACTION_FAILED message
           (JObj [(''action_name'', JStr (q_action_name q)), (''error_code'', JStr code)]) 5))"

definition finalize_cancelled ::
  "services \<Rightarrow> (nat \<Rightarrow> call_env) \<Rightarrow> uuid \<Rightarrow> uuid \<Rightarrow> int \<Rightarrow> (app_db, unit) session" where
  "finalize_cancelled sv env request_id execution_id duration =
     and_session (atomically (finalize_rows request_id execution_id
       (cancelled_execution (env_now (env 0)) ''Action execution was cancelled'' duration) AQ_FAILED
       (\<lambda>x q db. Inr db))) (\<lambda>q.
     record_terminal_memory sv (\<lambda>n. env (n + 1)) request_id execution_id ME_ACTION_FAILED
       ''Action execution was cancelled''
       (JObj [(''action_name'', JStr (q_action_name q)), (''cancelled'', JBool True)]) 5)"

subsection \<open>Execution\<close>

text \<open>
  How the handler ends: by itself, at the time limit, or cancelled from outside; the two
  interruptions fall before its transaction commits (\<open>False\<close>) or after it (\<open>True\<close>).
\<close>

datatype handler_fate = Handler_Ends | Handler_Times_Out bool | Handler_Cancelled bool

definition result_summary :: "services \<Rightarrow> action_result \<Rightarrow> string" where
  "result_summary sv r =
     sanitize_text 12000 (sv_dumps sv (sanitize_json 2000
       (JObj [(''summary'', JStr (ar_summary r)), (''changed'', JBool (ar_changed r))])))"

definition controlled_error :: "string \<Rightarrow> exn" where
  "controlled_error m = action_error ControlledActionExecutionError m"

text \<open>\<open>_finalize_failure(error)\<close>, then \<open>raise raised\<close>.\<close>

definition fail_with ::
  "services \<Rightarrow> (nat \<Rightarrow> call_env) \<Rightarrow> uuid \<Rightarrow> uuid \<Rightarrow> exn \<Rightarrow> int \<Rightarrow> exn \<Rightarrow> (app_db, 'a) session" where
  "fail_with sv env request_id execution_id e duration raised =
     and_session (finalize_failure sv env request_id execution_id e duration) (\<lambda>_. raises raised)"

definition execution_exception ::
  "services \<Rightarrow> (nat \<Rightarrow> call_env) \<Rightarrow> uuid \<Rightarrow> uuid \<Rightarrow> int \<Rightarrow> exn \<Rightarrow> (app_db, 'a) session" where
  "execution_exception sv env request_id execution_id duration e =
     (let timed_out = controlled_error ''Action execution timed out'';
          wrapped = (if is_application_error (exn_cls e) then e
            else controlled_error ''Controlled action execution failed'')
      in if is_instance (exn_cls e) (PyE PyTimeoutError) then
           fail_with sv env request_id execution_id timed_out duration timed_out
         else fail_with sv env request_id execution_id wrapped duration wrapped)"

definition run_handler ::
  "services \<Rightarrow> (nat \<Rightarrow> call_env) \<Rightarrow> handler_fate \<Rightarrow> int \<Rightarrow> reservation \<Rightarrow> action_input \<Rightarrow> (app_db, execution_row) session" where
  "run_handler sv env fate duration r p db =
     (let request_id = q_id (rv_request r); execution_id = x_id (rv_execution r);
          ended = ad_handler (rv_definition r) p (rv_guard r) db;
          timed_out = controlled_error ''Action execution timed out''
      in case fate of
           Handler_Cancelled committed \<Rightarrow>
             and_session (finalize_cancelled sv env request_id execution_id duration)
               (\<lambda>_. raises (Exn (PyE CancelledError) '''')) (if committed then snd ended else db)
         | Handler_Times_Out committed \<Rightarrow>
             fail_with sv env request_id execution_id timed_out duration timed_out
               (if committed then snd ended else db)
         | Handler_Ends \<Rightarrow>
             (case ended of
                (Inl e, db1) \<Rightarrow> execution_exception sv env request_id execution_id duration e db1
              | (Inr out, db1) \<Rightarrow>
                  (case finalize_success sv env request_id execution_id (result_summary sv out) duration db1 of
                     (Inr x, db2) \<Rightarrow> (Inr x, db2)
                   | (Inl e, db2) \<Rightarrow>
                       execution_exception sv (\<lambda>n. env (n + 4)) request_id execution_id duration e db2)))"

definition execute_action ::
  "services \<Rightarrow> coercions \<Rightarrow> action_registry \<Rightarrow> (nat \<Rightarrow> call_env) \<Rightarrow> handler_fate \<Rightarrow> int \<Rightarrow> uuid \<Rightarrow> int option \<Rightarrow>
   (app_db, execution_row) session" where
  "execute_action sv co reg env fate duration k expected =
     and_session (reserve sv co reg (env 0) k expected) (\<lambda>r.
     let request_id = q_id (rv_request r); execution_id = x_id (rv_execution r); rest = (\<lambda>n. env (n + 1))
     in case ad_input_model (rv_definition r) co (q_arguments (rv_request r)) of
          None \<Rightarrow> fail_with sv rest request_id execution_id (Exn (PyE ValueError) '''') 0
            (controlled_error ''Action input validation failed'')
        | Some p \<Rightarrow> run_handler sv rest fate duration r p)"

subsection \<open>Reconciliation of memories\<close>

definition reconcile_one ::
  "services \<Rightarrow> (nat \<Rightarrow> call_env) \<Rightarrow> uuid \<Rightarrow> (app_db, execution_row list) session" where
  "reconcile_one sv env execution_id db =
     (case get_execution db execution_id of None \<Rightarrow> (Inr [], db)
      | Some x \<Rightarrow> (case get_request db (x_action_request_id x) of None \<Rightarrow> (Inr [], db)
        | Some q \<Rightarrow>
            (let completed = (x_status x = AX_COMPLETED)
             in and_session (record_terminal_memory sv env (q_id q) (x_id x)
                  (if completed then ME_ACTION_COMPLETED else ME_ACTION_FAILED)
                  (or_str (if completed then x_result_summary x else x_error_message x)
                    ''Controlled action reached a terminal state'')
                  (JObj [(''action_name'', JStr (q_action_name q)), (''reconciled'', JBool True)])
                  (if completed then 4 else 5)) (\<lambda>_ db'.
                (Inr (case get_execution db' execution_id of None \<Rightarrow> [] | Some x' \<Rightarrow> [x']), db')) db)))"

fun reconcile_all ::
  "services \<Rightarrow> (nat \<Rightarrow> nat \<Rightarrow> call_env) \<Rightarrow> uuid list \<Rightarrow> (app_db, execution_row list) session" where
  "reconcile_all sv env [] = returns []"
| "reconcile_all sv env (k # ks) =
     and_session (reconcile_one sv (env (length ks)) k) (\<lambda>xs.
     and_session (reconcile_all sv env ks) (\<lambda>ys. returns (xs @ ys)))"

definition reconcile_pending_action_memories ::
  "services \<Rightarrow> (execution_row \<Rightarrow> int) \<Rightarrow> (nat \<Rightarrow> nat \<Rightarrow> call_env) \<Rightarrow> int \<Rightarrow> (app_db, execution_row list) session" where
  "reconcile_pending_action_memories sv updated_at env limit db =
     reconcile_all sv env (map x_id (list_reconcilable_memories updated_at (clamp 1 100 limit) db)) db"

end
