(* ===== verification/Action_Service.thy ===== *)
theory Action_Service
  imports Action_Executor Py_Values
begin

text \<open>
  The lifecycle of action requests: \<open>app/service/policy_service.py\<close> and
  \<open>app/service/action_service.py\<close>. An approval or a rejection first reads the request, then updates
  it only where version and status are still the ones it read, so the row it \<open>saw\<close> is an argument
  of its own: another session may have changed the row in between.
\<close>

subsection \<open>Policy of a proposal\<close>

definition proposal_context ::
  "uuid \<Rightarrow> agent_name \<Rightarrow> action_proposal \<Rightarrow> app_db \<Rightarrow> (exn, policy_context) res" where
  "proposal_context run_id agent proposal db =
     and_then (required (get_agent_run db run_id) (Exn (AgentE AgentRunNotFoundError) ''Agent run not found'')) (\<lambda>r.
     and_then (required (get_campaign db (r_campaign_id r))
       (Exn (AgentE AgentContextError) ''Action proposal scope is unavailable'')) (\<lambda>c.
     and_then (required (get_workflow_row db (r_workflow_id r))
       (Exn (AgentE AgentContextError) ''Action proposal scope is unavailable'')) (\<lambda>w.
     and_then (require (r_agent_name r = agent)
       (Exn (AgentE AgentContextError) ''Action Agent does not match Agent run'')) (\<lambda>_.
     Inr \<lparr>pc_agent_run_id = run_id, pc_workflow_id = r_workflow_id r, pc_campaign_id = r_campaign_id r,
        pc_agent_name = agent, pc_action_name = ap_action_name proposal,
        pc_arguments = ap_arguments proposal, pc_campaign_status = c_status c,
        pc_workflow_status = wf_status w, pc_actor_id = None, pc_actor_role = None,
        pc_revision_number = wf_revision_number w,
        pc_previous_action_count =
          int (length (list_action_requests 100 0 None (Some (r_workflow_id r)) None db))\<rparr>))))"

definition evaluate_proposal ::
  "coercions \<Rightarrow> action_registry \<Rightarrow> uuid \<Rightarrow> agent_name \<Rightarrow> action_proposal \<Rightarrow> app_db \<Rightarrow>
   (exn, policy_result \<times> action_definition option \<times> policy_context) res" where
  "evaluate_proposal co reg run_id agent proposal db =
     and_then (proposal_context run_id agent proposal db) (\<lambda>ctx.
     let found = map_of reg (ap_action_name proposal) in Inr (evaluate co ctx found, found, ctx))"

subsection \<open>Proposing\<close>

definition safe_proposal :: "action_proposal \<Rightarrow> action_proposal" where
  "safe_proposal p = p\<lparr>ap_arguments := sanitize_json 2000 (ap_arguments p),
     ap_rationale_summary := sanitize_text 1000 (ap_rationale_summary p)\<rparr>"

definition action_idempotency_key :: "hashing \<Rightarrow> string \<Rightarrow> uuid \<Rightarrow> int \<Rightarrow> string \<Rightarrow> json \<Rightarrow> string" where
  "action_idempotency_key h campaign_id workflow_id revision_number name arguments =
     sha256_hex h (join_strings ''|'' [campaign_id, uuid_str workflow_id, int_text revision_number, name,
       sha256_hex h (json_dumps h (sanitize_json 2000 arguments))])"

definition proposed_row ::
  "services \<Rightarrow> call_env \<Rightarrow> action_proposal \<Rightarrow> string \<Rightarrow> policy_result \<Rightarrow> policy_context \<Rightarrow> action_request_row" where
  "proposed_row sv env proposal key p ctx =
     (let now = env_now env; ttl = or_int (pr_expires_in p) (action_approval_ttl_seconds (sv_settings sv))
      in case pr_decision p of
           PD_APPROVAL_REQUIRED \<Rightarrow>
             new_request env proposal key p ctx AQ_PENDING_APPROVAL (Some (now + seconds ttl)) None None
         | PD_FORBIDDEN \<Rightarrow>
             new_request env proposal key p ctx AQ_REJECTED None (Some now) (Some (pr_reason p))
         | PD_SAFE \<Rightarrow> new_request env proposal key p ctx AQ_PROPOSED None None None)"

text \<open>
  The insertion, with the row it inserted or, when the key is taken (before the insertion or by a
  concurrent one), the row that has it. Another violated constraint, the primary key's included, is
  a PersistenceError.
\<close>

definition create_proposal ::
  "services \<Rightarrow> call_env \<Rightarrow> action_proposal \<Rightarrow> string \<Rightarrow> policy_result \<Rightarrow> policy_context \<Rightarrow> app_db \<Rightarrow>
   (exn, (action_request_row \<times> bool) \<times> app_db) res" where
  "create_proposal sv env proposal key p ctx db =
     (case find_request_by_key key db of
        Some existing \<Rightarrow> Inr ((existing, False), db)
      | None \<Rightarrow>
          (let q = proposed_row sv env proposal key p ctx
           in if request_checks q \<and> get_request db (q_id q) = None then Inr ((q, True), db\<lparr>requests := requests db @ [q]\<rparr>)
              else Inl (Exn (StoreE PersistenceError) ''Unable to persist action request'')))"

record proposal_result =
  pp_request :: action_request_row
  pp_execution_status :: "action_execution_status option"
  pp_result_summary :: "string option"

definition get_action_request :: "uuid \<Rightarrow> app_db \<Rightarrow> (exn, action_request_row) res" where
  "get_action_request k db =
     required (get_request db k) (action_error ActionRequestNotFoundError ''Action request not found'')"

definition existing_proposal :: "uuid \<Rightarrow> app_db \<Rightarrow> (exn, proposal_result \<times> app_db) res" where
  "existing_proposal k db =
     and_then (get_action_request k db) (\<lambda>q.
     Inr (case list_by_request k db of
        [] \<Rightarrow> \<lparr>pp_request = q, pp_execution_status = None, pp_result_summary = None\<rparr>
      | x # xs \<Rightarrow> (let y = last (x # xs) in
          \<lparr>pp_request = q, pp_execution_status = Some (x_status y),
           pp_result_summary = (if q_status q = AQ_COMPLETED then x_result_summary y else None)\<rparr>), db))"

definition proposal_memories :: "services \<Rightarrow> (nat \<Rightarrow> call_env) \<Rightarrow> action_request_row \<Rightarrow> (app_db, unit) session" where
  "proposal_memories sv env q =
     and_session (record_event sv (env 0) (action_memory q None ME_ACTION_PROPOSED
       (''Action proposed: '' @ q_action_name q)
       (JObj [(''policy_decision'', JStr (policy_decision_value (q_policy_decision q)))]) 3)) (\<lambda>_.
     and_session (record_event sv (env 1) (action_memory q None ME_POLICY_DECIDED (q_policy_reason q)
       (JObj [(''reason_code'', JStr (q_policy_reason_code q))]) 3)) (\<lambda>_. returns ()))"

definition execute_safe ::
  "services \<Rightarrow> coercions \<Rightarrow> action_registry \<Rightarrow> (nat \<Rightarrow> call_env) \<Rightarrow> handler_fate \<Rightarrow> int \<Rightarrow> uuid \<Rightarrow>
   (app_db, proposal_result) session" where
  "execute_safe sv co reg env fate duration k =
     and_session (execute_action sv co reg env fate duration k None) (\<lambda>x db.
     case get_action_request k db of
       Inl e \<Rightarrow> (Inl e, db)
     | Inr q \<Rightarrow> (Inr \<lparr>pp_request = q, pp_execution_status = Some (x_status x),
         pp_result_summary = x_result_summary x\<rparr>, db))"

definition propose_new ::
  "services \<Rightarrow> coercions \<Rightarrow> action_registry \<Rightarrow> (nat \<Rightarrow> call_env) \<Rightarrow> handler_fate \<Rightarrow> int \<Rightarrow> action_request_row \<Rightarrow>
   (app_db, proposal_result) session" where
  "propose_new sv co reg env fate duration q =
     and_session (proposal_memories sv env q) (\<lambda>_.
     let created = \<lparr>pp_request = q, pp_execution_status = None, pp_result_summary = None\<rparr>
     in case q_policy_decision q of
          PD_SAFE \<Rightarrow> execute_safe sv co reg (\<lambda>n. env (n + 2)) fate duration (q_id q)
        | PD_FORBIDDEN \<Rightarrow>
            and_session (record_event sv (env 2) (action_memory q None ME_ACTION_REJECTED (q_policy_reason q)
              (JObj [(''forbidden'', JBool True)]) 4)) (\<lambda>_. returns created)
        | PD_APPROVAL_REQUIRED \<Rightarrow> returns created)"

definition propose ::
  "services \<Rightarrow> coercions \<Rightarrow> action_registry \<Rightarrow> (nat \<Rightarrow> call_env) \<Rightarrow> handler_fate \<Rightarrow> int \<Rightarrow> uuid \<Rightarrow> agent_name \<Rightarrow>
   action_proposal \<Rightarrow> (app_db, proposal_result) session" where
  "propose sv co reg env fate duration run_id agent proposal db =
     (let safe = safe_proposal proposal
      in case evaluate_proposal co reg run_id agent safe db of
           Inl e \<Rightarrow> (Inl e, db)
         | Inr (p, found, ctx) \<Rightarrow>
             (let key = action_idempotency_key (sv_hashing sv) (pc_campaign_id ctx) (pc_workflow_id ctx)
                    (pc_revision_number ctx) (ap_action_name safe) (ap_arguments safe)
              in and_session (atomically (create_proposal sv (env 0) safe key p ctx)) (\<lambda>(q, created).
                   if created then propose_new sv co reg (\<lambda>n. env (n + 1)) fate duration q
                   else atomically (existing_proposal (q_id q))) db))"

subsection \<open>Deciding\<close>

definition ensure_pending :: "action_request_row \<Rightarrow> (exn, unit) res" where
  "ensure_pending q = require (q_status q = AQ_PENDING_APPROVAL)
     (action_error ActionAlreadyDecidedError ''Action request is not pending approval'')"

definition stale_version :: exn where
  "stale_version = action_error ActionVersionConflictError ''Action request version is stale''"

definition check_decidable :: "authenticated_actor \<Rightarrow> int \<Rightarrow> action_request_row \<Rightarrow> (exn, unit) res" where
  "check_decidable actor expected_version q =
     and_then (require_action_approval actor (q_required_role q) (q_agent_name q)) (\<lambda>_.
     and_then (require (q_version q = expected_version) stale_version) (\<lambda>_. ensure_pending q))"

definition approve_transaction ::
  "time \<Rightarrow> action_request_row \<Rightarrow> authenticated_actor \<Rightarrow> int \<Rightarrow> (app_db, unit) session" where
  "approve_transaction now seen actor expected_version db =
     (case check_decidable actor expected_version seen of
        Inl e \<Rightarrow> (Inl e, db)
      | Inr _ \<Rightarrow>
          if (case q_expires_at seen of None \<Rightarrow> False | Some t \<Rightarrow> t \<le> now) then
            (Inl (action_error ActionExpiredError ''Action request has expired''),
             snd (repo_expire (q_id seen) expected_version db))
          else (case repo_approve now (q_id seen) (actor_id actor) (actor_role actor) expected_version db of
              (False, _) \<Rightarrow> (Inl stale_version, db)
            | (True, db') \<Rightarrow> (Inr (), db')))"

definition reject_transaction ::
  "time \<Rightarrow> action_request_row \<Rightarrow> authenticated_actor \<Rightarrow> int \<Rightarrow> string \<Rightarrow> (app_db, unit) session" where
  "reject_transaction now seen actor expected_version reason db =
     (case check_decidable actor expected_version seen of
        Inl e \<Rightarrow> (Inl e, db)
      | Inr _ \<Rightarrow>
          (case repo_reject now (q_id seen) (actor_id actor) (sanitize_text 1000 reason) expected_version db of
             (False, _) \<Rightarrow> (Inl stale_version, db)
           | (True, db') \<Rightarrow> (Inr (), db')))"

definition decided_request ::
  "(action_request_row \<Rightarrow> (app_db, 'a) session) \<Rightarrow> uuid \<Rightarrow> (app_db, action_request_row) session" where
  "decided_request remember k db =
     (case get_action_request k db of Inl e \<Rightarrow> (Inl e, db)
      | Inr q \<Rightarrow> and_session (remember q) (\<lambda>_. returns q) db)"

definition approve ::
  "services \<Rightarrow> (nat \<Rightarrow> call_env) \<Rightarrow> uuid \<Rightarrow> authenticated_actor \<Rightarrow> int \<Rightarrow> (app_db, action_request_row) session" where
  "approve sv env k actor expected_version db =
     (case get_action_request k db of Inl e \<Rightarrow> (Inl e, db)
      | Inr seen \<Rightarrow>
          and_session (approve_transaction (env_now (env 0)) seen actor expected_version) (\<lambda>_.
          decided_request (\<lambda>q. record_event sv (env 1) (action_memory q None ME_ACTION_APPROVED
            ''Action approved by an authorized human''
            (JObj [(''actor_role'', JStr (user_role_value (actor_role actor)))]) 4)) k) db)"

definition reject ::
  "services \<Rightarrow> (nat \<Rightarrow> call_env) \<Rightarrow> uuid \<Rightarrow> authenticated_actor \<Rightarrow> int \<Rightarrow> string \<Rightarrow>
   (app_db, action_request_row) session" where
  "reject sv env k actor expected_version reason db =
     (case get_action_request k db of Inl e \<Rightarrow> (Inl e, db)
      | Inr seen \<Rightarrow>
          and_session (reject_transaction (env_now (env 0)) seen actor expected_version reason) (\<lambda>_.
          decided_request (\<lambda>q. record_event sv (env 1) (action_memory q None ME_ACTION_REJECTED
            (or_str (q_rejection_reason q) ''Action rejected'')
            (JObj [(''actor_role'', JStr (user_role_value (actor_role actor)))]) 4)) k) db)"

definition execute_request ::
  "services \<Rightarrow> coercions \<Rightarrow> action_registry \<Rightarrow> (nat \<Rightarrow> call_env) \<Rightarrow> handler_fate \<Rightarrow> int \<Rightarrow> uuid \<Rightarrow>
   authenticated_actor \<Rightarrow> int \<Rightarrow> (app_db, execution_row) session" where
  "execute_request sv co reg env fate duration k actor expected_version db =
     (case and_then (get_action_request k db) (\<lambda>q. require_action_execution actor (q_required_role q)) of
        Inl e \<Rightarrow> (Inl e, db)
      | Inr _ \<Rightarrow> execute_action sv co reg env fate duration k (Some expected_version) db)"

definition list_requests ::
  "int \<Rightarrow> int \<Rightarrow> action_request_status option \<Rightarrow> app_db \<Rightarrow> action_request_row list" where
  "list_requests limit offset status db =
     list_action_requests (clamp 1 100 limit) (max offset 0) None None status db"

definition list_executions :: "uuid \<Rightarrow> app_db \<Rightarrow> (exn, execution_row list) res" where
  "list_executions k db = and_then (get_action_request k db) (\<lambda>_. Inr (list_by_request k db))"

end
