(* ===== verification/Action_Invariant.thy ===== *)
theory Action_Invariant
  imports Action_Service
begin

text \<open>
  What the transactions of the action services do to the two tables, stated abstractly
  (\<open>action_change\<close>), the invariant of the tables, and its preservation. \<open>Action_Steps\<close> shows that
  the transactions of the code are such changes.
\<close>

subsection \<open>The lifecycle of a request\<close>

fun request_transitions :: "action_request_status \<Rightarrow> action_request_status list" where
  "request_transitions AQ_PROPOSED = [AQ_PENDING_APPROVAL, AQ_REJECTED, AQ_EXECUTING]"
| "request_transitions AQ_PENDING_APPROVAL = [AQ_APPROVED, AQ_REJECTED, AQ_EXPIRED]"
| "request_transitions AQ_APPROVED = [AQ_EXECUTING, AQ_REJECTED, AQ_EXPIRED]"
| "request_transitions AQ_EXECUTING = [AQ_COMPLETED, AQ_FAILED]"
| "request_transitions _ = []"

definition request_moves :: "action_request_status \<Rightarrow> action_request_status \<Rightarrow> bool" where
  "request_moves s s' \<longleftrightarrow> s' \<in> set (request_transitions s)"

definition request_closed :: "action_request_status \<Rightarrow> bool" where
  "request_closed s \<longleftrightarrow> s \<in> {AQ_REJECTED, AQ_EXPIRED, AQ_COMPLETED, AQ_FAILED}"

interpretation request_life: lifecycle request_moves request_closed "\<lambda>s. s = AQ_EXECUTING"
  "\<lambda>s. s \<in> {AQ_PROPOSED, AQ_APPROVED}"
proof
  fix s s'
  show "request_closed s \<Longrightarrow> \<not> request_moves s s'" by (auto simp: request_closed_def request_moves_def)
  show "request_moves s s' \<Longrightarrow> s' = AQ_EXECUTING \<Longrightarrow> s \<in> {AQ_PROPOSED, AQ_APPROVED}"
    by (cases s) (auto simp: request_moves_def)
qed

definition was_executed :: "action_request_row \<Rightarrow> bool" where
  "was_executed q \<longleftrightarrow> q_status q \<in> {AQ_EXECUTING, AQ_COMPLETED, AQ_FAILED}"

fun request_outcome :: "action_execution_status \<Rightarrow> action_request_status option" where
  "request_outcome AX_RUNNING = Some AQ_EXECUTING"
| "request_outcome AX_COMPLETED = Some AQ_COMPLETED"
| "request_outcome AX_FAILED = Some AQ_FAILED"
| "request_outcome AX_CANCELLED = Some AQ_FAILED"
| "request_outcome AX_CREATED = None"

subsection \<open>Authorisation\<close>

text \<open>An approval, if there is one, was given by a person with a sufficient role.\<close>

definition approved_properly :: "action_request_row \<Rightarrow> bool" where
  "approved_properly q \<longleftrightarrow>
     (case q_approved_by q of
        None \<Rightarrow> q_approved_role q = None
      | Some a \<Rightarrow> a \<noteq> ''agent:'' @ agent_name_value (q_agent_name q) \<and>
          (case q_approved_role q of None \<Rightarrow> False
           | Some r \<Rightarrow> r \<noteq> UR_SYSTEM \<and>
               role_satisfies_requirement (Some r) (Some (role_or_admin (q_required_role q)))))"

text \<open>What the policy, evaluated last, and the lifecycle ask of a request before it may run.\<close>

definition authorized :: "action_request_row \<Rightarrow> bool" where
  "authorized q \<longleftrightarrow>
     lp_decision (q_last_policy q) \<noteq> PD_FORBIDDEN \<and>
     (lp_decision (q_last_policy q) = PD_APPROVAL_REQUIRED \<or> q_policy_decision q = PD_APPROVAL_REQUIRED \<longrightarrow>
        q_approved_by q \<noteq> None) \<and>
     (lp_decision (q_last_policy q) = PD_APPROVAL_REQUIRED \<longrightarrow>
        role_satisfies_requirement (q_approved_role q) (lp_required_role (q_last_policy q))) \<and>
     \<not> is_forbidden_alias (q_action_name q) \<and> \<not> contains_nested_danger (q_arguments q)"

definition same_request :: "action_request_row \<Rightarrow> action_request_row \<Rightarrow> bool" where
  "same_request q q' \<longleftrightarrow>
     q_id q' = q_id q \<and> q_idempotency_key q' = q_idempotency_key q \<and> q_agent_run_id q' = q_agent_run_id q \<and>
     q_workflow_id q' = q_workflow_id q \<and> q_campaign_id q' = q_campaign_id q \<and>
     q_agent_name q' = q_agent_name q \<and> q_action_name q' = q_action_name q \<and>
     q_arguments q' = q_arguments q \<and> q_policy_decision q' = q_policy_decision q \<and>
     q_required_role q' = q_required_role q"

lemma same_request_refl [simp]: "same_request q q"
  by (simp add: same_request_def)

lemma same_request_trans: "same_request a b \<Longrightarrow> same_request b c \<Longrightarrow> same_request a c"
  by (simp add: same_request_def)

lemma same_request_id: "same_request a b \<Longrightarrow> q_id b = q_id a"
  by (simp add: same_request_def)

subsection \<open>Changes\<close>

definition same_actions :: "app_db \<Rightarrow> app_db \<Rightarrow> bool" where
  "same_actions db db' \<longleftrightarrow> requests db' = requests db \<and> executions db' = executions db"

definition fresh_request :: "action_request_row \<Rightarrow> app_db \<Rightarrow> bool" where
  "fresh_request q db \<longleftrightarrow>
     q_id q \<notin> q_id ` set (requests db) \<and> q_idempotency_key q \<notin> q_idempotency_key ` set (requests db) \<and>
     request_checks q \<and> q_status q \<in> {AQ_PROPOSED, AQ_PENDING_APPROVAL, AQ_REJECTED} \<and>
     q_approved_by q = None \<and> q_approved_role q = None"

text \<open>A change of a request outside its execution.\<close>

definition request_update :: "action_request_row \<Rightarrow> action_request_row \<Rightarrow> bool" where
  "request_update q q' \<longleftrightarrow>
     same_request q q' \<and> request_checks q' \<and> \<not> was_executed q \<and> \<not> was_executed q' \<and>
     (q_status q' = q_status q \<or> request_moves (q_status q) (q_status q')) \<and>
     (q_approved_by q' = q_approved_by q \<and> q_approved_role q' = q_approved_role q \<or> approved_properly q')"

definition execution_of :: "action_request_row \<Rightarrow> execution_row \<Rightarrow> bool" where
  "execution_of q x \<longleftrightarrow> x_action_request_id x = q_id q \<and> x_idempotency_key x = q_idempotency_key q"

definition request_starts :: "action_request_row \<Rightarrow> action_request_row \<Rightarrow> bool" where
  "request_starts q q' \<longleftrightarrow>
     same_request q q' \<and> request_checks q' \<and> q_status q \<in> {AQ_PROPOSED, AQ_APPROVED} \<and>
     q_status q' = AQ_EXECUTING \<and> authorized q' \<and>
     q_approved_by q' = q_approved_by q \<and> q_approved_role q' = q_approved_role q"

definition same_execution :: "execution_row \<Rightarrow> execution_row \<Rightarrow> bool" where
  "same_execution x x' \<longleftrightarrow>
     x_id x' = x_id x \<and> x_action_request_id x' = x_action_request_id x \<and>
     x_idempotency_key x' = x_idempotency_key x"

inductive action_change :: "app_db \<Rightarrow> app_db \<Rightarrow> bool" where
  Other: "same_actions db db' \<Longrightarrow> action_change db db'"
| Propose: "fresh_request q db \<Longrightarrow> requests db' = requests db @ [q] \<Longrightarrow> executions db' = executions db \<Longrightarrow>
    action_change db db'"
| Update: "q \<in> set (requests db) \<Longrightarrow> request_update q q' \<Longrightarrow>
    requests db' = t_put q_id (requests db) q' \<Longrightarrow> executions db' = executions db \<Longrightarrow> action_change db db'"
| Start: "q \<in> set (requests db) \<Longrightarrow> request_starts q q' \<Longrightarrow> execution_of q x \<Longrightarrow> x_status x = AX_RUNNING \<Longrightarrow>
    execution_checks x \<Longrightarrow> x_id x \<notin> x_id ` set (executions db) \<Longrightarrow> \<not> execution_conflicts x db \<Longrightarrow>
    requests db' = t_put q_id (requests db) q' \<Longrightarrow> executions db' = executions db @ [x] \<Longrightarrow> action_change db db'"
| Finish: "q \<in> set (requests db) \<Longrightarrow> x \<in> set (executions db) \<Longrightarrow> x_action_request_id x = q_id q \<Longrightarrow>
    x_status x = AX_RUNNING \<Longrightarrow> same_execution x x' \<Longrightarrow> terminal_execution x' \<Longrightarrow> execution_checks x' \<Longrightarrow>
    request_outcome (x_status x') = Some s \<Longrightarrow>
    requests db' = t_put q_id (requests db) (moved_request s q) \<Longrightarrow>
    executions db' = t_put x_id (executions db) x' \<Longrightarrow> action_change db db'"
| Remember: "x \<in> set (executions db) \<Longrightarrow> same_execution x x' \<Longrightarrow> x_status x' = x_status x \<Longrightarrow>
    execution_checks x' \<Longrightarrow> requests db' = requests db \<Longrightarrow>
    executions db' = t_put x_id (executions db) x' \<Longrightarrow> action_change db db'"

subsection \<open>The invariant\<close>

definition action_keys :: "app_db \<Rightarrow> bool" where
  "action_keys db \<longleftrightarrow>
     distinct (map q_id (requests db)) \<and> distinct (map q_idempotency_key (requests db)) \<and>
     distinct (map x_id (executions db)) \<and> distinct (map x_action_request_id (executions db)) \<and>
     distinct (map x_idempotency_key (executions db))"

definition request_ok :: "app_db \<Rightarrow> action_request_row \<Rightarrow> bool" where
  "request_ok db q \<longleftrightarrow>
     request_checks q \<and> approved_properly q \<and>
     (was_executed q \<longrightarrow> authorized q \<and> q_id q \<in> x_action_request_id ` set (executions db))"

definition execution_ok :: "app_db \<Rightarrow> execution_row \<Rightarrow> bool" where
  "execution_ok db x \<longleftrightarrow>
     execution_checks x \<and>
     (\<exists>q \<in> set (requests db). execution_of q x \<and> request_outcome (x_status x) = Some (q_status q))"

definition action_inv :: "app_db \<Rightarrow> bool" where
  "action_inv db \<longleftrightarrow> action_keys db \<and> (\<forall>q \<in> set (requests db). request_ok db q) \<and>
     (\<forall>x \<in> set (executions db). execution_ok db x)"

lemma distinct_map_t_put:
  assumes "distinct (map key t)" and "distinct (map f t)" and "r0 \<in> set t" and "key r0 = key r" and "f r0 = f r"
  shows "distinct (map f (t_put key t r))"
proof -
  have "x = r0" if "x \<in> set t" "key x = key r" for x
    using that assms(1,3,4) by (metis distinct_map inj_onD)
  then have "map f (t_put key t r) = map f t"
    unfolding t_put_def map_map using assms(5) by (intro map_cong) fastforce+
  then show ?thesis using assms(2) by simp
qed

lemma set_put:
  assumes "distinct (map key t)" and "r0 \<in> set t" and "key r0 = key r"
  shows "set (t_put key t r) = insert r (set t - {r0})"
proof -
  have "key x = key r \<longleftrightarrow> x = r0" if "x \<in> set t" for x
    using that assms by (metis distinct_map inj_onD)
  then show ?thesis using set_t_put_iff [OF assms] by blast
qed

lemma approved_properly_cong:
  "same_request q q' \<Longrightarrow> q_approved_by q' = q_approved_by q \<Longrightarrow> q_approved_role q' = q_approved_role q \<Longrightarrow>
   approved_properly q' = approved_properly q"
  by (cases "q_approved_by q"; cases "q_approved_role q") (simp_all add: approved_properly_def same_request_def)

lemma same_request_moved [simp]: "same_request q (moved_request s q)"
  by (simp add: same_request_def moved_request_def)

lemma authorized_moved [simp]: "authorized (moved_request s q) = authorized q"
  by (simp add: authorized_def moved_request_def)

lemma request_checks_moved:
  "request_checks q \<Longrightarrow> was_executed q \<Longrightarrow> s \<in> {AQ_EXECUTING, AQ_COMPLETED, AQ_FAILED} \<Longrightarrow>
   request_checks (moved_request s q)"
  by (auto simp: request_checks_def was_executed_def moved_request_def)

lemma outcome_executed: "request_outcome s = Some (q_status q) \<Longrightarrow> was_executed q"
  by (cases s) (auto simp: was_executed_def)

lemma action_invD:
  assumes "action_inv db"
  shows "distinct (map q_id (requests db))" and "distinct (map q_idempotency_key (requests db))"
    and "distinct (map x_id (executions db))" and "distinct (map x_action_request_id (executions db))"
    and "distinct (map x_idempotency_key (executions db))"
    and "q \<in> set (requests db) \<Longrightarrow> request_ok db q" and "x \<in> set (executions db) \<Longrightarrow> execution_ok db x"
  using assms by (simp_all add: action_inv_def action_keys_def)

lemma request_by_id:
  "action_inv db \<Longrightarrow> q \<in> set (requests db) \<Longrightarrow> q' \<in> set (requests db) \<Longrightarrow> q_id q = q_id q' \<Longrightarrow> q = q'"
  by (meson action_invD(1) distinct_map inj_onD)

lemma execution_by_request:
  "action_inv db \<Longrightarrow> x \<in> set (executions db) \<Longrightarrow> y \<in> set (executions db) \<Longrightarrow>
   x_action_request_id x = x_action_request_id y \<Longrightarrow> x = y"
  by (meson action_invD(4) distinct_map inj_onD)

text \<open>The execution of a request determines the request's status, and the other way round.\<close>

lemma execution_status:
  assumes "action_inv db" and "q \<in> set (requests db)" and "x \<in> set (executions db)"
    and "x_action_request_id x = q_id q"
  shows "request_outcome (x_status x) = Some (q_status q)" and "execution_of q x"
proof -
  obtain q1 where "q1 \<in> set (requests db)" "execution_of q1 x" "request_outcome (x_status x) = Some (q_status q1)"
    using action_invD(7) [OF assms(1,3)] by (auto simp: execution_ok_def)
  moreover from this have "q1 = q"
    using assms request_by_id [OF assms(1), of q1 q] by (simp add: execution_of_def)
  ultimately show "request_outcome (x_status x) = Some (q_status q)" and "execution_of q x" by simp_all
qed

lemma unexecuted_no_execution:
  "action_inv db \<Longrightarrow> q \<in> set (requests db) \<Longrightarrow> \<not> was_executed q \<Longrightarrow> x \<in> set (executions db) \<Longrightarrow>
   x_action_request_id x \<noteq> q_id q"
  using execution_status(1) outcome_executed by metis

subsection \<open>Preservation\<close>

lemma inv_other: "action_inv db \<Longrightarrow> same_actions db db' \<Longrightarrow> action_inv db'"
  by (simp add: action_inv_def action_keys_def request_ok_def execution_ok_def same_actions_def)

lemma inv_propose:
  assumes "action_inv db" "fresh_request q db" "requests db' = requests db @ [q]" "executions db' = executions db"
  shows "action_inv db'"
proof -
  have "action_keys db'" using assms by (auto simp: action_inv_def action_keys_def fresh_request_def)
  moreover have "request_ok db' r" if "r \<in> set (requests db')" for r
    using that assms action_invD(6) [OF assms(1), of r]
    by (auto simp: request_ok_def fresh_request_def was_executed_def approved_properly_def)
  moreover have "execution_ok db' x" if "x \<in> set (executions db')" for x
    using that assms action_invD(7) [OF assms(1), of x] by (auto simp: execution_ok_def)
  ultimately show ?thesis by (simp add: action_inv_def)
qed

text \<open>Replacing one request leaves the executions of the others as they were.\<close>

lemma put_request_keys:
  assumes "action_inv db" and "q \<in> set (requests db)" and "same_request q q'"
  shows "distinct (map q_id (t_put q_id (requests db) q'))"
    and "distinct (map q_idempotency_key (t_put q_id (requests db) q'))"
    and "set (t_put q_id (requests db) q') = insert q' (set (requests db) - {q})"
  using assms action_invD(1,2) [OF assms(1)]
  by (auto simp: same_request_def intro: distinct_map_t_put [where ?r0.0 = q] set_put [THEN equalityD1, THEN subsetD]
      simp: set_put [where ?r0.0 = q])

lemma execution_ok_put:
  assumes "action_inv db" and "q \<in> set (requests db)" and "x \<in> set (executions db)"
    and "x_action_request_id x \<noteq> q_id q" and "set (requests db') = insert q' (set (requests db) - {q})"
  shows "execution_ok db' x"
  using action_invD(7) [OF assms(1,3)] assms(4,5) by (auto simp: execution_ok_def execution_of_def)

lemma inv_update:
  assumes "action_inv db" "q \<in> set (requests db)" "request_update q q'"
    "requests db' = t_put q_id (requests db) q'" "executions db' = executions db"
  shows "action_inv db'"
proof -
  have same: "same_request q q'" using assms(3) by (simp add: request_update_def)
  note put = put_request_keys [OF assms(1,2) same]
  have "action_keys db'" using assms put by (simp add: action_inv_def action_keys_def)
  moreover have "request_ok db' q'"
    using action_invD(6) [OF assms(1,2)] assms(3) approved_properly_cong [OF same]
    by (auto simp: request_ok_def request_update_def)
  moreover have "request_ok db' r" if "r \<in> set (requests db)" for r
    using action_invD(6) [OF assms(1) that] assms(5) by (simp add: request_ok_def)
  moreover have "execution_ok db' x" if "x \<in> set (executions db)" for x
    using execution_ok_put [OF assms(1,2) that] unexecuted_no_execution [OF assms(1,2) _ that] assms(3,4) put(3)
    by (simp add: request_update_def)
  ultimately show ?thesis using put(3) assms(4,5) by (auto simp: action_inv_def)
qed

lemma inv_start:
  assumes "action_inv db" "q \<in> set (requests db)" "request_starts q q'" "execution_of q x"
    "x_status x = AX_RUNNING" "execution_checks x" "x_id x \<notin> x_id ` set (executions db)"
    "\<not> execution_conflicts x db" "requests db' = t_put q_id (requests db) q'"
    "executions db' = executions db @ [x]"
  shows "action_inv db'"
proof -
  have same: "same_request q q'" and open_q: "\<not> was_executed q" and q': "q_status q' = AQ_EXECUTING"
    using assms(3) by (auto simp: request_starts_def was_executed_def)
  note put = put_request_keys [OF assms(1,2) same]
  have "action_keys db'"
    using assms put by (auto simp: action_inv_def action_keys_def execution_conflicts_def list_ex_iff)
  moreover have "request_ok db' q'"
    using action_invD(6) [OF assms(1,2)] assms(3,4,10) approved_properly_cong [OF same] same
    by (auto simp: request_ok_def request_starts_def execution_of_def same_request_def)
  moreover have "request_ok db' r" if "r \<in> set (requests db)" for r
    using action_invD(6) [OF assms(1) that] assms(10) by (auto simp: request_ok_def)
  moreover have "execution_ok db' y" if "y \<in> set (executions db)" for y
    using execution_ok_put [OF assms(1,2) that] unexecuted_no_execution [OF assms(1,2) open_q that] assms(9) put(3)
    by simp
  moreover have "execution_ok db' x"
    using assms(4,5,6,9) put(3) same q' by (auto simp: execution_ok_def execution_of_def same_request_def)
  ultimately show ?thesis using put(3) assms(9,10) by (auto simp: action_inv_def)
qed

lemma put_execution_keys:
  assumes "action_inv db" and "x \<in> set (executions db)" and "same_execution x x'"
  shows "distinct (map x_id (t_put x_id (executions db) x'))"
    and "distinct (map x_action_request_id (t_put x_id (executions db) x'))"
    and "distinct (map x_idempotency_key (t_put x_id (executions db) x'))"
    and "set (t_put x_id (executions db) x') = insert x' (set (executions db) - {x})"
    and "x_action_request_id ` set (t_put x_id (executions db) x') = x_action_request_id ` set (executions db)"
proof -
  note d = action_invD(3,4,5) [OF assms(1)]
  have s: "x_id x = x_id x'" "x_action_request_id x = x_action_request_id x'" "x_idempotency_key x = x_idempotency_key x'"
    using assms(3) by (simp_all add: same_execution_def)
  show set_eq: "set (t_put x_id (executions db) x') = insert x' (set (executions db) - {x})"
    using set_put [OF d(1) assms(2) s(1)] .
  show "distinct (map x_id (t_put x_id (executions db) x'))"
    using distinct_map_t_put [OF d(1) d(1) assms(2) s(1) s(1)] .
  show "distinct (map x_action_request_id (t_put x_id (executions db) x'))"
    using distinct_map_t_put [OF d(1) d(2) assms(2) s(1) s(2)] .
  show "distinct (map x_idempotency_key (t_put x_id (executions db) x'))"
    using distinct_map_t_put [OF d(1) d(3) assms(2) s(1) s(3)] .
  show "x_action_request_id ` set (t_put x_id (executions db) x') = x_action_request_id ` set (executions db)"
    unfolding set_eq using assms(2) s(2) by (metis image_insert insert_Diff)
qed

lemma inv_finish:
  assumes "action_inv db" "q \<in> set (requests db)" "x \<in> set (executions db)" "x_action_request_id x = q_id q"
    "x_status x = AX_RUNNING" "same_execution x x'" "terminal_execution x'" "execution_checks x'"
    "request_outcome (x_status x') = Some s" "requests db' = t_put q_id (requests db) (moved_request s q)"
    "executions db' = t_put x_id (executions db) x'"
  shows "action_inv db'"
proof -
  note put = put_request_keys [OF assms(1,2) same_request_moved] and puts = put_execution_keys [OF assms(1,3,6)]
  have ex: "was_executed q" "execution_of q x"
    using execution_status [OF assms(1,2,3,4)] outcome_executed by auto
  have s: "s \<in> {AQ_EXECUTING, AQ_COMPLETED, AQ_FAILED}"
    using assms(9) by (cases "x_status x'") auto
  have "action_keys db'" using assms(10,11) put puts by (simp add: action_keys_def)
  moreover have "request_ok db' (moved_request s q)"
    using action_invD(6) [OF assms(1,2)] ex(1) request_checks_moved [OF _ ex(1) s] assms(11) puts(5) approved_properly_cong [of q "moved_request s q"]
    by (simp add: request_ok_def)
  moreover have "request_ok db' r" if "r \<in> set (requests db)" for r
    using action_invD(6) [OF assms(1) that] assms(11) puts(5) by (simp add: request_ok_def)
  moreover have "execution_ok db' y" if "y \<in> set (executions db)" "y \<noteq> x" for y
  proof -
    have "x_action_request_id y \<noteq> q_id q" using execution_by_request [OF assms(1) that(1) assms(3)] assms(4) that(2) by metis
    then show ?thesis using execution_ok_put [OF assms(1,2) that(1)] assms(10) put(3) by simp
  qed
  moreover have "execution_ok db' x'"
    using assms(6,8,9,10) ex(2) put(3) by (auto simp: execution_ok_def execution_of_def same_execution_def)
  ultimately show ?thesis using put(3) puts(4) assms(10,11) by (auto simp: action_inv_def)
qed

lemma inv_remember:
  assumes "action_inv db" "x \<in> set (executions db)" "same_execution x x'" "x_status x' = x_status x"
    "execution_checks x'" "requests db' = requests db" "executions db' = t_put x_id (executions db) x'"
  shows "action_inv db'"
proof -
  note puts = put_execution_keys [OF assms(1,2,3)]
  have "action_keys db'" using action_invD(1,2) [OF assms(1)] assms(6,7) puts by (simp add: action_keys_def)
  moreover have "request_ok db' r" if "r \<in> set (requests db)" for r
    using action_invD(6) [OF assms(1) that] assms(7) puts(5) by (simp add: request_ok_def)
  moreover have "execution_ok db' y" if "y \<in> set (executions db)" for y
    using action_invD(7) [OF assms(1) that] assms(6) by (simp add: execution_ok_def)
  moreover have "execution_ok db' x'"
    using action_invD(7) [OF assms(1,2)] assms(3-6) by (simp add: execution_ok_def execution_of_def same_execution_def)
  ultimately show ?thesis using puts(4) assms(6,7) by (auto simp: action_inv_def)
qed

theorem action_change_inv:
  assumes "action_change db db'" and "action_inv db"
  shows "action_inv db'"
  using assms
proof (induction rule: action_change.induct)
  case Other
  show ?case by (rule inv_other [OF Other.prems Other.hyps])
next
  case Propose
  show ?case by (rule inv_propose [OF Propose.prems Propose.hyps])
next
  case Update
  show ?case by (rule inv_update [OF Update.prems Update.hyps])
next
  case Start
  show ?case by (rule inv_start [OF Start.prems Start.hyps])
next
  case Finish
  show ?case by (rule inv_finish [OF Finish.prems Finish.hyps])
next
  case Remember
  show ?case by (rule inv_remember [OF Remember.prems Remember.hyps])
qed

end
