(* ===== verification/Action_Steps.thy ===== *)
theory Action_Steps
  imports Action_Invariant
begin

text \<open>
  The transactions of the action services as changes of \<open>Action_Invariant\<close>, the histories in
  which they interleave (a decision may rest on a row read in any earlier state), and the
  services' calls as pieces of such histories.
\<close>

subsection \<open>Transactions\<close>

lemma t_put_twice: "key r = key r' \<Longrightarrow> t_put key (t_put key t r) r' = t_put key t r'"
  by (auto simp: t_put_def)

lemma get_requestD: "get_request db k = Some q \<Longrightarrow> q_id q = k \<and> q \<in> set (requests db)"
  by (rule t_get_SomeD)

lemma get_executionD: "get_execution db k = Some x \<Longrightarrow> x_id x = k \<and> x \<in> set (executions db)"
  by (rule t_get_SomeD)

lemma put_request_change:
  assumes "q \<in> set (requests db)" and "request_update q q'"
  shows "action_change db (put_request q' db)"
  using assms by (intro Update [of q db q']) (simp_all add: put_request_def)

lemma create_proposal_change:
  assumes "create_proposal sv env proposal key p ctx db = Inr ((q, created), db')"
  shows "action_change db db'"
proof (cases "find_request_by_key key db")
  case None
  let ?q = "proposed_row sv env proposal key p ctx"
  have r: "request_checks ?q" "get_request db (q_id ?q) = None" "db' = db\<lparr>requests := requests db @ [?q]\<rparr>"
    using assms(1) None by (auto simp: create_proposal_def Let_def split: if_splits)
  have "q_id ?q = env_row_id env" "q_idempotency_key ?q = key" "q_approved_by ?q = None"
    "q_approved_role ?q = None" "q_status ?q \<in> {AQ_PROPOSED, AQ_PENDING_APPROVAL, AQ_REJECTED}"
    by (auto simp: proposed_row_def new_request_def Let_def split: policy_decision.splits)
  moreover have "key \<notin> q_idempotency_key ` set (requests db)"
    using None by (auto simp: find_request_by_key_def find_None_iff)
  ultimately have "fresh_request ?q db"
    using r(1,2) by (simp add: fresh_request_def t_get_None_iff)
  then show ?thesis using r(3) by (intro Propose) auto
next
  case (Some e)
  then show ?thesis using assms(1) by (auto simp: create_proposal_def same_actions_def intro: Other)
qed

text \<open>A versioned update, given what it makes of the row it finds.\<close>

lemma versioned_update_change:
  assumes "versioned_update k v statuses f db = (b, db')"
    and "\<And>q. q \<in> set (requests db) \<Longrightarrow> q_id q = k \<Longrightarrow> q_status q \<in> set statuses \<Longrightarrow>
      request_update q ((f q)\<lparr>q_version := q_version q + 1\<rparr>)"
  shows "action_change db db'"
proof (cases "get_request db k")
  case None
  then show ?thesis using assms(1) by (auto simp: versioned_update_def same_actions_def intro: Other)
next
  case (Some q)
  then show ?thesis
    using assms get_requestD [OF Some]
    by (auto simp: versioned_update_def same_actions_def intro: Other put_request_change split: if_splits)
qed

lemma check_decidable_Inr:
  "check_decidable actor v seen = Inr u \<longleftrightarrow>
     actor_role actor \<noteq> UR_SYSTEM \<and> actor_id actor \<noteq> ''agent:'' @ agent_name_value (q_agent_name seen) \<and>
     role_satisfies_requirement (Some (actor_role actor)) (Some (role_or_admin (q_required_role seen))) \<and>
     q_version seen = v \<and> q_status seen = AQ_PENDING_APPROVAL"
  by (auto simp: check_decidable_def require_action_approval_def ensure_pending_def result_simps)

lemma approve_change:
  assumes "approve_transaction now seen actor v db = (r, db')" and "action_inv db"
    and agree: "\<And>q. q \<in> set (requests db) \<Longrightarrow> q_id q = q_id seen \<Longrightarrow> same_request seen q"
  shows "action_change db db'"
proof (cases "check_decidable actor v seen")
  case (Inl e)
  then show ?thesis using assms(1) by (auto simp: approve_transaction_def same_actions_def intro: Other)
next
  case (Inr u)
  note ok = Inr [unfolded check_decidable_Inr]
  have checks: "request_checks q" if "q \<in> set (requests db)" for q
    using action_invD(6) [OF assms(2) that] by (simp add: request_ok_def)
  have expire: "action_change db (snd (repo_expire (q_id seen) v db))"
    unfolding repo_expire_def
    by (rule versioned_update_change [OF surjective_pairing])
      (auto simp: request_update_def request_checks_def same_request_def was_executed_def request_moves_def dest: checks)
  have approve: "action_change db (snd (repo_approve now (q_id seen) (actor_id actor) (actor_role actor) v db))"
    unfolding repo_approve_def
  proof (rule versioned_update_change [OF surjective_pairing], goal_cases)
    case (1 q)
    then have "same_request seen q" by (intro agree)
    with 1 ok checks [OF 1(1)] show ?case
      by (auto simp: request_update_def request_checks_def same_request_def was_executed_def request_moves_def
          approved_properly_def)
  qed
  show ?thesis
  proof (cases "repo_approve now (q_id seen) (actor_id actor) (actor_role actor) v db")
    case (Pair b db1)
    then show ?thesis using assms(1) Inr expire approve
      by (cases b) (auto simp: approve_transaction_def same_actions_def intro: Other split: if_splits)
  qed
qed

lemma reject_change:
  assumes "reject_transaction now seen actor v reason db = (r, db')" and "action_inv db"
  shows "action_change db db'"
proof (cases "check_decidable actor v seen")
  case (Inl e)
  then show ?thesis using assms(1) by (auto simp: reject_transaction_def same_actions_def intro: Other)
next
  case (Inr u)
  have checks: "request_checks q" if "q \<in> set (requests db)" for q
    using action_invD(6) [OF assms(2) that] by (simp add: request_ok_def)
  let ?u = "repo_reject now (q_id seen) (actor_id actor) (sanitize_text 1000 reason) v db"
  have "action_change db (snd ?u)"
    unfolding repo_reject_def
    by (rule versioned_update_change [OF surjective_pairing])
      (auto simp: request_update_def request_checks_def same_request_def was_executed_def request_moves_def dest: checks)
  then show ?thesis using assms(1) Inr
    by (cases ?u; cases "fst ?u") (auto simp: reject_transaction_def same_actions_def intro: Other)
qed

subsection \<open>Reservation\<close>

lemma evaluate_allows:
  assumes "pr_decision (evaluate co ctx found) \<noteq> PD_FORBIDDEN"
  shows "\<not> is_forbidden_alias (pc_action_name ctx)" and "\<not> contains_nested_danger (pc_arguments ctx)"
  using assms by (auto simp: evaluate_def deny_def split: if_splits option.splits)

lemma latest_policy_facts [simp]:
  "same_request q (latest_policy now p ctx c r q)" "q_status (latest_policy now p ctx c r q) = q_status q"
  "q_id (latest_policy now p ctx c r q) = q_id q"
  "lp_decision (q_last_policy (latest_policy now p ctx c r q)) = pr_decision p"
  "lp_required_role (q_last_policy (latest_policy now p ctx c r q)) = pr_required_role p"
  "q_approved_by (latest_policy now p ctx c r q) = q_approved_by q"
  "q_approved_role (latest_policy now p ctx c r q) = q_approved_role q"
  "q_idempotency_key (latest_policy now p ctx c r q) = q_idempotency_key q"
  "q_policy_decision (latest_policy now p ctx c r q) = q_policy_decision q"
  by (simp_all add: latest_policy_def policy_columns_of_def same_request_def)

lemma flush_rows_last:
  assumes "flush_rows qs db = Inr db'" and "qs \<noteq> []" and "\<forall>r \<in> set qs. q_id r = k"
  shows "db' = put_request (last qs) db \<and> request_checks (last qs)"
  using assms
proof (induction qs arbitrary: db)
  case Nil
  then show ?case by simp
next
  case (Cons r qs)
  then have r: "request_checks r" "flush_rows qs (put_request r db) = Inr db'" by (auto simp: result_simps)
  show ?case
  proof (cases "qs = []")
    case False
    have "db' = put_request (last qs) (put_request r db) \<and> request_checks (last qs)"
      using Cons.IH [OF r(2) False] Cons.prems(3) by simp
    moreover have "q_id r = q_id (last qs)" using Cons.prems(3) False by simp
    ultimately show ?thesis using False by (simp add: put_request_def t_put_twice)
  qed (use r in auto)
qed

lemma commit_and_raise_change:
  assumes "commit_and_raise qs e db = (r, db')" and "qs \<noteq> []" and "\<forall>r \<in> set qs. q_id r = q_id q"
    and "q \<in> set (requests db)" and "request_checks (last qs) \<Longrightarrow> request_update q (last qs)"
  shows "action_change db db'"
proof (cases "flush_rows qs db")
  case (Inl x)
  then show ?thesis using assms(1) by (auto simp: commit_and_raise_def same_actions_def intro: Other)
next
  case (Inr db1)
  then show ?thesis using assms flush_rows_last [OF Inr assms(2,3)]
    by (auto simp: commit_and_raise_def intro: put_request_change)
qed

lemma put_request_id: "q \<in> set (requests db) \<Longrightarrow> action_inv db \<Longrightarrow> requests (put_request q db) = requests db"
  using request_by_id by (fastforce simp: put_request_def t_put_def intro: map_idI)

lemma rejected_facts:
  "same_request q (rejected_after_reevaluation now reason r) = same_request q r"
  "same_request q (pending_approval t r) = same_request q r"
  "same_request q (latest_policy now p ctx c m r) = same_request q r"
  "q_status (rejected_after_reevaluation now reason q) = AQ_REJECTED"
  "q_status (pending_approval t q) = AQ_PENDING_APPROVAL"
  "q_approved_by (rejected_after_reevaluation now reason q) = q_approved_by q"
  "q_approved_role (rejected_after_reevaluation now reason q) = q_approved_role q"
  "q_approved_by (pending_approval t q) = q_approved_by q"
  "q_approved_role (pending_approval t q) = q_approved_role q"
  "q_id (rejected_after_reevaluation now reason q) = q_id q" "q_id (pending_approval t q) = q_id q"
  "\<not> was_executed (rejected_after_reevaluation now reason q)" "\<not> was_executed (pending_approval t q)"
  "request_moves AQ_PROPOSED AQ_REJECTED" "request_moves AQ_PENDING_APPROVAL AQ_REJECTED"
  "request_moves AQ_APPROVED AQ_REJECTED" "request_moves AQ_PROPOSED AQ_PENDING_APPROVAL"
  by (simp_all add: rejected_after_reevaluation_def pending_approval_def latest_policy_def same_request_def
      was_executed_def request_moves_def)

text \<open>The expiry of a row whose policy columns were just written.\<close>

lemma repo_expire_after_flush:
  assumes "q0 \<in> set (requests db)" and "action_inv db" and "same_request q0 q1" and "request_checks q1"
    and "q_status q0 \<in> {AQ_PROPOSED, AQ_PENDING_APPROVAL, AQ_APPROVED}" and "q_status q1 = q_status q0"
    and "q_approved_by q1 = q_approved_by q0" and "q_approved_role q1 = q_approved_role q0"
  shows "action_change db (snd (repo_expire (q_id q1) v (put_request q1 db)))"
proof -
  have id: "q_id q1 = q_id q0" using assms(3) by (simp add: same_request_def)
  have "get_request db (q_id q0) = Some q0"
    using t_get_in_set [OF action_invD(1) [OF assms(2)] assms(1)] .
  then have get: "get_request (put_request q1 db) (q_id q1) = Some q1"
    using get_put_request id by metis
  let ?q = "q1\<lparr>q_status := AQ_EXPIRED, q_version := q_version q1 + 1\<rparr>"
  have twice: "put_request (q1\<lparr>q_status := AQ_EXPIRED, q_version := n\<rparr>) (put_request q1 db) =
      put_request (q1\<lparr>q_status := AQ_EXPIRED, q_version := n\<rparr>) db" for n
    by (simp add: put_request_def t_put_twice)
  have keep: "request_update q0 q1"
    using assms by (auto simp: request_update_def was_executed_def)
  have expired: "request_update q0 ?q" if "q_status q1 \<in> {AQ_PENDING_APPROVAL, AQ_APPROVED}"
    using that assms by (auto simp: request_update_def was_executed_def request_checks_def same_request_def request_moves_def)
  show ?thesis
    unfolding repo_expire_def versioned_update_def get
    using put_request_change [OF assms(1) keep] put_request_change [OF assms(1) expired] by (auto simp: twice)
qed

lemma reserve_execution_change:
  assumes "reserve_execution env found q1 g db1 = Inr (rv, db2)" and "db1 = put_request q1 db"
    and "action_inv db" and "q0 \<in> set (requests db)" and "same_request q0 q1"
    and "q_status q0 \<in> {AQ_PROPOSED, AQ_APPROVED}" and "authorized q1"
    and "q_approved_by q1 = q_approved_by q0" and "q_approved_role q1 = q_approved_role q0"
    and "get_execution db (env_row_id env) = None"
  shows "action_change db db2"
proof -
  let ?new = "new_execution env (q_id q1) (q_idempotency_key q1) g"
  let ?x = "running_execution (env_now env) ?new" and ?q = "moved_request AQ_EXECUTING q1"
  have r: "\<not> execution_conflicts ?new db1" "execution_checks ?x" "request_checks ?q"
    "db2 = put_request ?q (put_execution ?x (add_execution ?new db1))"
    using assms(1) by (auto simp: reserve_execution_def Let_def result_simps)
  have ids: "x_id ?x = env_row_id env" "x_id ?new = env_row_id env" "x_action_request_id ?x = q_id q1"
    "x_idempotency_key ?x = q_idempotency_key q1" "x_status ?x = AX_RUNNING"
    "x_action_request_id ?new = q_id q1" "x_idempotency_key ?new = q_idempotency_key q1"
    by (simp_all add: running_execution_def new_execution_def)
  have new: "x_id ?x \<notin> x_id ` set (executions db)"
    using assms(10) ids(1) by (simp add: t_get_None_iff)
  then have "t_put x_id (executions db) ?x = executions db"
    unfolding t_put_def by (intro map_idI) (metis image_eqI)
  then have ex: "executions db2 = executions db @ [?x]"
    using r(4) assms(2) ids by (simp add: add_execution_def put_execution_def) (simp add: t_put_def)
  have rq: "requests db2 = t_put q_id (requests db) ?q"
    using r(4) assms(2) by (simp add: add_execution_def put_request_def put_execution_def t_put_twice)
  show ?thesis
  proof (rule Start [OF assms(4) _ _ _ r(2) new _ rq ex])
    show "request_starts q0 ?q"
      using assms(5-9) r(3) same_request_trans [OF assms(5) same_request_moved]
      by (simp add: request_starts_def)
    show "execution_of q0 ?x" using assms(5) ids by (simp add: execution_of_def same_request_def)
    show "x_status ?x = AX_RUNNING" by (rule ids(5))
    show "\<not> execution_conflicts ?x db"
      using r(1) assms(2) ids by (simp add: execution_conflicts_def)
  qed
qed

lemma reserve_change:
  assumes "reserve sv co reg env k expected db = (r, db')" and "action_inv db"
    and "get_execution db (env_row_id env) = None"
  shows "action_change db db'"
proof (cases "and_then (reserve_rows k db) (\<lambda>(c, w, q). and_then (reserve_status expected q) (\<lambda>_. Inr (c, w, q)))")
  case (Inl x)
  then show ?thesis using assms(1) by (auto simp: reserve_def same_actions_def intro: Other)
next
  case (Inr cwq)
  obtain c w q0 where cwq: "cwq = (c, w, q0)" by (cases cwq)
  then have rows: "reserve_rows k db = Inr (c, w, q0)" "reserve_status expected q0 = Inr ()"
    using Inr by (auto simp: result_simps)
  then have q0: "q0 \<in> set (requests db)" by (auto simp: reserve_rows_def result_simps dest: get_requestD)
  have open_q: "q_status q0 \<in> {AQ_PROPOSED, AQ_PENDING_APPROVAL, AQ_APPROVED}"
    using rows(2) by (cases "q_status q0") (auto simp: reserve_status_def split: if_splits)
  define found where "found = map_of reg (q_action_name q0)"
  define ctx where "ctx = reserve_context c w q0 db"
  define p where "p = evaluate co ctx found"
  define q1 where "q1 = latest_policy (env_now env) p ctx None None q0"
  have run: "reserve_decide sv env found ctx p (reserve_guard c w) q1 db = (r, db')"
    using assms(1) Inr cwq by (simp add: reserve_def Let_def found_def ctx_def p_def q1_def)
  have q1 [simp]: "same_request q0 q1" "q_status q1 = q_status q0" "q_id q1 = q_id q0"
    "lp_decision (q_last_policy q1) = pr_decision p" "lp_required_role (q_last_policy q1) = pr_required_role p"
    "q_approved_by q1 = q_approved_by q0" "q_approved_role q1 = q_approved_role q0"
    "q_policy_decision q1 = q_policy_decision q0"
    by (simp_all add: q1_def)
  have keep: "request_update q0 q'" if "request_checks q'" "same_request q0 q'" "\<not> was_executed q'"
      "q_status q' = q_status q0 \<or> request_moves (q_status q0) (q_status q')"
      "q_approved_by q' = q_approved_by q0" "q_approved_role q' = q_approved_role q0" for q'
    using that open_q by (auto simp: request_update_def was_executed_def)
  have raised: "action_change db db'"
    if "commit_and_raise qs e db = (r, db')" "qs \<noteq> []" "\<forall>r \<in> set qs. q_id r = q_id q0"
      "same_request q0 (last qs)" "\<not> was_executed (last qs)"
      "q_status (last qs) = q_status q0 \<or> request_moves (q_status q0) (q_status (last qs))"
      "q_approved_by (last qs) = q_approved_by q0" "q_approved_role (last qs) = q_approved_role q0" for qs e
    using commit_and_raise_change [OF that(1-3) q0] keep that(4-) by blast
  have start: "action_change db db'"
    if "(case flush_request q1 db of Inl x \<Rightarrow> (Inl x, db)
          | Inr db1 \<Rightarrow> (case reserve_execution env found q1 (reserve_guard c w) db1 of
              Inl x \<Rightarrow> (Inl x, db) | Inr (rv, db2) \<Rightarrow> (Inr rv, db2))) = (r, db')"
      "q_status q0 \<in> {AQ_PROPOSED, AQ_APPROVED}" "pr_decision p \<noteq> PD_FORBIDDEN"
      "pr_decision p = PD_APPROVAL_REQUIRED \<or> q_policy_decision q0 = PD_APPROVAL_REQUIRED \<Longrightarrow> q_status q0 = AQ_APPROVED"
      "pr_decision p = PD_APPROVAL_REQUIRED \<Longrightarrow> role_satisfies_requirement (q_approved_role q0) (pr_required_role p)"
  proof -
    have "q_status q0 = AQ_APPROVED \<Longrightarrow> q_approved_by q0 \<noteq> None"
      using action_invD(6) [OF assms(2) q0] by (simp add: request_ok_def request_checks_def)
    moreover have "\<not> is_forbidden_alias (q_action_name q1)" "\<not> contains_nested_danger (q_arguments q1)"
      using evaluate_allows [of co ctx found] that(3) q1(1)
      by (simp_all add: p_def ctx_def reserve_context_def same_request_def)
    ultimately have auth: "authorized q1" using that(3-) by (auto simp: authorized_def)
    show ?thesis
    proof (cases "flush_request q1 db")
      case (Inl x)
      then show ?thesis using that(1) by (auto simp: same_actions_def intro: Other)
    next
      case (Inr db1)
      then have db1: "db1 = put_request q1 db" by (simp add: result_simps)
      show ?thesis
      proof (cases "reserve_execution env found q1 (reserve_guard c w) db1")
        case (Inl x)
        then show ?thesis using that(1) Inr by (auto simp: same_actions_def intro: Other)
      next
        case (Inr r2)
        obtain rv db2 where "r2 = (rv, db2)" by (cases r2)
        then have "reserve_execution env found q1 (reserve_guard c w) db1 = Inr (rv, db2)" "db' = db2"
          using that(1) Inr \<open>flush_request q1 db = Inr db1\<close> by simp_all
        then show ?thesis
          using reserve_execution_change [OF _ db1 assms(2) q0 q1(1) that(2) auth q1(6) q1(7) assms(3)] by simp
      qed
    qed
  qed
  define denied where "denied = ''Fresh policy denied execution: '' @ pr_reason p"
  define ttl where "ttl = or_int (pr_expires_in p) (action_approval_ttl_seconds (sv_settings sv))"
  note run' = run [unfolded reserve_decide_def Let_def, folded denied_def ttl_def]
  show ?thesis
  proof (cases "pr_decision p = PD_FORBIDDEN")
    case True
    let ?q = "latest_policy (env_now env) p ctx (Some ''POLICY_REEVALUATION_DENIED'') (Some denied) q1"
    have "commit_and_raise [q1, ?q, rejected_after_reevaluation (env_now env) denied ?q]
       (action_error ActionPolicyReevaluationDeniedError ''Action is no longer allowed by current policy'') db = (r, db')"
      using run' True by simp
    then show ?thesis
      by (rule raised) (use open_q in \<open>auto simp: rejected_facts\<close>)
  next
    case allowed: False
    show ?thesis
    proof (cases "case q_expires_at q1 of None \<Rightarrow> False | Some t \<Rightarrow> t \<le> env_now env")
      case True
      show ?thesis
      proof (cases "flush_request q1 db")
        case (Inl x)
        then show ?thesis using run' allowed True by (auto simp: same_actions_def intro: Other)
      next
        case (Inr db1)
        have "db' = snd (repo_expire (q_id q1) (q_version q1) db1)" using run' allowed True Inr by auto
        moreover have "db1 = put_request q1 db" "request_checks q1" using Inr by (auto simp: result_simps)
        ultimately show ?thesis
          using repo_expire_after_flush [OF q0 assms(2) q1(1) _ open_q] q1 by simp
      qed
    next
      case unexpired: False
      show ?thesis
      proof (cases "pr_decision p = PD_APPROVAL_REQUIRED")
        case True
        consider "q_status q0 = AQ_PROPOSED" | "q_status q0 = AQ_PENDING_APPROVAL"
          | (weak) "q_status q0 = AQ_APPROVED" "\<not> role_satisfies_requirement (q_approved_role q0) (pr_required_role p)"
          | (strong) "q_status q0 = AQ_APPROVED" "role_satisfies_requirement (q_approved_role q0) (pr_required_role p)"
          using open_q by auto
        then show ?thesis
        proof cases
          case 1
          let ?q = "latest_policy (env_now env) p ctx (Some ''POLICY_REEVALUATION_APPROVAL_REQUIRED'')
              (Some ''Fresh policy now requires human approval'') q1"
          have "commit_and_raise [q1, ?q, pending_approval (env_now env + seconds ttl) ?q]
             (action_error ActionPolicyApprovalRequiredError ''Fresh policy requires human approval'') db = (r, db')"
            using run' True unexpired 1 by simp
          then show ?thesis
            by (rule raised) (use 1 in \<open>auto simp: rejected_facts\<close>)
        next
          case 2
          have "commit_and_raise [q1] (action_error ActionApprovalRequiredError ''Action requires human approval'') db = (r, db')"
            using run' True unexpired 2 by simp
          then show ?thesis by (rule raised) (use 2 in \<open>auto simp: was_executed_def\<close>)
        next
          case weak
          let ?q = "latest_policy (env_now env) p ctx (Some ''POLICY_REEVALUATION_APPROVAL_REQUIRED'')
              (Some insufficient_role) q1"
          have "commit_and_raise [q1, ?q, rejected_after_reevaluation (env_now env) insufficient_role ?q]
             (action_error ActionPolicyApprovalRequiredError insufficient_role) db = (r, db')"
            using run' True unexpired weak by simp
          then show ?thesis
            by (rule raised) (use weak in \<open>auto simp: rejected_facts\<close>)
        next
          case strong
          show ?thesis by (rule start) (use run' True unexpired strong in auto)
        qed
      next
        case safe: False
        show ?thesis
        proof (cases "q_policy_decision q0 = PD_APPROVAL_REQUIRED \<and> q_status q0 \<noteq> AQ_APPROVED")
          case True
          then have "commit_and_raise [q1] (action_error ActionPolicyApprovalRequiredError
              ''Original request lifecycle still requires human approval'') db = (r, db')"
            using run' allowed unexpired safe by simp
          then show ?thesis by (rule raised) (use open_q in \<open>auto simp: was_executed_def\<close>)
        next
          case False
          show ?thesis
          proof (cases "q_status q0 \<in> {AQ_PROPOSED, AQ_APPROVED}")
            case True
            show ?thesis by (rule start) (use run' allowed unexpired safe False True in auto)
          next
            case False
            then show ?thesis using run' allowed unexpired safe \<open>\<not> (_ \<and> _)\<close>
              by (auto simp: same_actions_def intro: Other split: sum.splits)
          qed
        qed
      qed
    qed
  qed
qed

subsection \<open>Finalisation and memories\<close>

definition quiet_publish :: "(execution_row \<Rightarrow> action_request_row \<Rightarrow> app_db \<Rightarrow> (exn, app_db) res) \<Rightarrow> bool" where
  "quiet_publish publish \<longleftrightarrow> (\<forall>x q db db'. publish x q db = Inr db' \<longrightarrow> same_actions db db')"

definition ends_execution :: "(execution_row \<Rightarrow> execution_row) \<Rightarrow> action_request_status \<Rightarrow> bool" where
  "ends_execution change s \<longleftrightarrow>
     (\<forall>x. same_execution x (change x) \<and> terminal_execution (change x) \<and> request_outcome (x_status (change x)) = Some s)"

lemma add_outbox_event_quiet: "add_outbox_event sv env e db = Inr db' \<Longrightarrow> same_actions db db'"
  by (auto simp: add_outbox_event_def result_simps same_actions_def)

lemma quiet_publishers [simp]:
  "quiet_publish (\<lambda>x q. add_outbox_event sv env (e x q))" "quiet_publish (\<lambda>x q db. Inr db)"
  by (auto simp: quiet_publish_def same_actions_def dest: add_outbox_event_quiet)

lemma execution_ends [simp]:
  "ends_execution (completed_execution now summary d) AQ_COMPLETED"
  "ends_execution (failed_execution now code message d) AQ_FAILED"
  "ends_execution (cancelled_execution now message d) AQ_FAILED"
  by (simp_all add: ends_execution_def same_execution_def terminal_execution_def completed_execution_def
      failed_execution_def cancelled_execution_def)

lemma finalize_rows_Inr:
  assumes "finalize_rows k xk change s publish db = Inr (q, db')" and "quiet_publish publish"
  obtains x where "q \<in> set (requests db)" "q_id q = k" "x \<in> set (executions db)" "x_id x = xk"
    "x_status x = AX_RUNNING" "execution_checks (change x)"
    "requests db' = t_put q_id (requests db) (moved_request s q)"
    "executions db' = t_put x_id (executions db) (change x)"
    "get_execution db xk = Some x" "get_request db k = Some q"
proof -
  obtain x where x: "get_request db k = Some q" "get_execution db xk = Some x" "x_status x = AX_RUNNING"
    "execution_checks (change x)"
    "publish x q (put_request (moved_request s q) (put_execution (change x) db)) = Inr db'"
    using assms(1) by (auto simp: finalize_rows_def required_request_def required_execution_def result_simps)
  then have "same_actions (put_request (moved_request s q) (put_execution (change x) db)) db'"
    using assms(2) by (auto simp: quiet_publish_def)
  then show ?thesis
    using that [of x] x get_requestD [OF x(1)] get_executionD [OF x(2)]
    by (simp add: same_actions_def put_request_def put_execution_def)
qed

lemma finalize_rows_change:
  assumes "finalize_rows k xk change s publish db = Inr (q, db')" and "quiet_publish publish"
    and "ends_execution change s" and "\<And>x. get_execution db xk = Some x \<Longrightarrow> x_action_request_id x = k"
  shows "action_change db db'"
proof -
  obtain x where x: "q \<in> set (requests db)" "q_id q = k" "x \<in> set (executions db)" "x_id x = xk"
    "x_status x = AX_RUNNING" "execution_checks (change x)"
    "requests db' = t_put q_id (requests db) (moved_request s q)"
    "executions db' = t_put x_id (executions db) (change x)" "get_execution db xk = Some x"
    using finalize_rows_Inr [OF assms(1,2)] by metis
  show ?thesis
    using Finish [OF x(1,3) _ x(5) _ _ x(6) _ x(7,8)] assms(3,4) x(2,9) by (simp add: ends_execution_def)
qed

lemma put_execution_change:
  assumes "get_execution db k = Some x" and "same_execution x x'" and "x_status x' = x_status x" and "execution_checks x'"
  shows "action_change db (put_execution x' db)"
  using Remember [of x db x'] get_executionD [OF assms(1)] assms(2-) by (simp add: put_execution_def)

lemma memory_marks [simp]:
  "same_execution x (memory_attempt_started x)" "x_status (memory_attempt_started x) = x_status x"
  "same_execution x (memory_recorded now x)" "x_status (memory_recorded now x) = x_status x"
  "same_execution x (memory_failed code m x)" "x_status (memory_failed code m x) = x_status x"
  by (simp_all add: same_execution_def memory_attempt_started_def memory_recorded_def memory_failed_def)

lemma memory_attempt_change:
  "memory_attempt k xk db = Inr (r, db') \<Longrightarrow> action_change db db'"
  by (auto simp: memory_attempt_def result_simps same_actions_def intro: Other put_execution_change split: if_splits)

lemma mark_memory_recorded_change:
  "mark_memory_recorded now xk db = Inr (u, db') \<Longrightarrow> action_change db db'"
  by (auto simp: mark_memory_recorded_def result_simps intro: put_execution_change)

lemma record_event_quiet: "record_event sv env r db = (res, db') \<Longrightarrow> same_actions db db'"
  by (auto simp: record_event_def atomically_def same_actions_def Let_def result_simps
      split: sum.splits if_splits option.splits)

text \<open>The failure of a recording is two changes: the execution's columns and the event.\<close>

lemma memory_failure_change:
  assumes "memory_failure sv env k xk e db = Inr (u, db')"
  shows "action_change db db'"
proof (cases "get_execution db xk")
  case None
  then show ?thesis using assms by (auto simp: memory_failure_def same_actions_def intro: Other)
next
  case (Some x)
  let ?x = "memory_failed (memory_failure_code e) (memory_failure_message e) x"
  have "execution_checks ?x" "same_actions (put_execution ?x db) db'"
    using assms Some by (auto simp: memory_failure_def result_simps dest: add_outbox_event_quiet)
  then show ?thesis
    using Remember [of x db ?x db'] get_executionD [OF Some] by (simp add: same_actions_def put_execution_def)
qed

subsection \<open>Histories\<close>

text \<open>One transaction of some session, \<open>H\<close> being the states so far.\<close>

inductive action_step :: "services \<Rightarrow> coercions \<Rightarrow> app_db set \<Rightarrow> app_db \<Rightarrow> app_db \<Rightarrow> bool"
  for sv :: services and co :: coercions and H :: "app_db set" where
  Step_propose: "create_proposal sv env proposal key p ctx db = Inr (r, db') \<Longrightarrow>
    action_step sv co H db db'"
| Step_approve: "d \<in> H \<Longrightarrow> get_request d k = Some seen \<Longrightarrow>
    approve_transaction now seen actor v db = (r, db') \<Longrightarrow> action_step sv co H db db'"
| Step_reject: "d \<in> H \<Longrightarrow> get_request d k = Some seen \<Longrightarrow>
    reject_transaction now seen actor v reason db = (r, db') \<Longrightarrow> action_step sv co H db db'"
| Step_reserve: "reserve sv co reg env k expected db = (rv, db') \<Longrightarrow>
    get_execution db (env_row_id env) = None \<Longrightarrow> action_step sv co H db db'"
| Step_finalize: "finalize_rows k xk change s publish db = Inr (q, db') \<Longrightarrow> quiet_publish publish \<Longrightarrow>
    ends_execution change s \<Longrightarrow> (\<And>x. get_execution db xk = Some x \<Longrightarrow> x_action_request_id x = k) \<Longrightarrow>
    action_step sv co H db db'"
| Step_attempt: "memory_attempt k xk db = Inr (a, db') \<Longrightarrow> action_step sv co H db db'"
| Step_recorded: "mark_memory_recorded now xk db = Inr (u, db') \<Longrightarrow> action_step sv co H db db'"
| Step_failed: "memory_failure sv env k xk e db = Inr (u, db') \<Longrightarrow> action_step sv co H db db'"
| Step_elsewhere: "same_actions db db' \<Longrightarrow> action_step sv co H db db'"

inductive action_history :: "services \<Rightarrow> coercions \<Rightarrow> app_db list \<Rightarrow> bool"
  for sv :: services and co :: coercions where
  Begin: "requests db = [] \<Longrightarrow> executions db = [] \<Longrightarrow> action_history sv co [db]"
| Continue: "action_history sv co (db # h) \<Longrightarrow> action_step sv co (set (db # h)) db db' \<Longrightarrow>
    action_history sv co (db' # db # h)"

text \<open>The rows of earlier states are still there, with the columns nothing changes.\<close>

definition descends :: "app_db \<Rightarrow> app_db \<Rightarrow> bool" where
  "descends d db \<longleftrightarrow> (\<forall>q \<in> set (requests d). \<exists>q' \<in> set (requests db). same_request q q')"

lemma descends_trans: "descends a b \<Longrightarrow> descends b c \<Longrightarrow> descends a c"
  unfolding descends_def by (meson same_request_trans)

lemma descends_put:
  assumes "action_inv db" and "q \<in> set (requests db)" and "same_request q q'"
    and "requests db' = t_put q_id (requests db) q'"
  shows "descends db db'"
  unfolding descends_def
proof
  fix r assume r: "r \<in> set (requests db)"
  have "set (requests db') = insert q' (set (requests db) - {q})"
    using put_request_keys(3) [OF assms(1-3)] assms(4) by simp
  then show "\<exists>r' \<in> set (requests db'). same_request r r'"
    using r assms(3) same_request_refl [of r] by (cases "r = q") blast+
qed

lemma same_requests_descend: "requests db' = requests db \<Longrightarrow> descends db db'"
  unfolding descends_def using same_request_refl by metis

lemma action_change_descends:
  assumes "action_change db db'" and "action_inv db"
  shows "descends db db'"
  using assms
proof (induction rule: action_change.induct)
  case (Update q db q' db')
  then show ?case by (meson descends_put request_update_def)
next
  case (Start q db q' x db')
  then show ?case by (meson descends_put request_starts_def)
next
  case (Finish q db x x' s db')
  then show ?case by (meson descends_put same_request_moved)
next
  case (Propose q db db')
  have "set (requests db) \<subseteq> set (requests db')" using Propose by auto
  then show ?case unfolding descends_def using same_request_refl by blast
qed (auto intro: same_requests_descend simp: same_actions_def)

lemma action_step_change:
  assumes "action_step sv co H db db'" and "action_inv db" and "\<forall>d \<in> H. descends d db"
  shows "action_change db db'"
  using assms(1)
proof cases
  case (Step_propose env proposal key p ctx r)
  then show ?thesis by (cases r) (auto intro: create_proposal_change)
next
  case (Step_approve d k seen now actor v r)
  have "same_request seen q" if "q \<in> set (requests db)" "q_id q = q_id seen" for q
  proof -
    have "seen \<in> set (requests d)" using get_requestD [OF Step_approve(2)] by blast
    then obtain q' where "q' \<in> set (requests db)" "same_request seen q'"
      using assms(3) Step_approve(1) by (auto simp: descends_def)
    then show ?thesis using request_by_id [OF assms(2) _ that(1)] that(2) same_request_id by metis
  qed
  then show ?thesis by (rule approve_change [OF Step_approve(3) assms(2)])
qed (auto intro: reject_change reserve_change finalize_rows_change memory_attempt_change
    mark_memory_recorded_change memory_failure_change Other assms(2))

lemma action_history_inv:
  "action_history sv co (db # h) \<Longrightarrow> action_inv db \<and> (\<forall>d \<in> set (db # h). descends d db)"
proof (induction "db # h" arbitrary: db h rule: action_history.induct)
  case (Begin db)
  then show ?case by (simp add: action_inv_def action_keys_def descends_def)
next
  case (Continue db h db')
  then have inv: "action_inv db" and anc: "\<forall>d \<in> set (db # h). descends d db" by auto
  have change: "action_change db db'" by (rule action_step_change [OF Continue(3) inv anc])
  have new: "descends db db'" by (rule action_change_descends [OF change inv])
  have "descends d db'" if "d \<in> set (db' # db # h)" for d
    using that anc new descends_trans same_requests_descend [OF refl] by auto
  then show ?case using action_change_inv [OF change inv] by blast
qed

end
