(* ===== verification/Action_Progress.thy ===== *)
theory Action_Progress
  imports Action_Steps
begin

text \<open>
  The services' calls run alone: each is a piece of a history of transactions, and an execution
  that was reserved is ended by the call that reserved it, whatever its handler does.
\<close>

subsection \<open>Pieces of histories\<close>

definition linked :: "uuid \<Rightarrow> uuid \<Rightarrow> app_db \<Rightarrow> bool" where
  "linked k xk db \<longleftrightarrow> (\<exists>x. get_execution db xk = Some x \<and> x_action_request_id x = k)"

definition running :: "uuid \<Rightarrow> uuid \<Rightarrow> app_db \<Rightarrow> bool" where
  "running k xk db \<longleftrightarrow>
     (\<exists>x. get_execution db xk = Some x \<and> x_action_request_id x = k \<and> x_status x = AX_RUNNING)"

definition ended :: "uuid \<Rightarrow> uuid \<Rightarrow> app_db \<Rightarrow> bool" where
  "ended k xk db \<longleftrightarrow>
     (\<exists>x. get_execution db xk = Some x \<and> x_action_request_id x = k \<and> terminal_execution x)"

lemma running_linked: "running k xk db \<Longrightarrow> linked k xk db"
  by (auto simp: linked_def running_def)

lemma same_actions_states:
  assumes "same_actions db db'"
  shows "linked k xk db' = linked k xk db" and "running k xk db' = running k xk db" and "ended k xk db' = ended k xk db"
  using assms by (simp_all add: linked_def running_def ended_def same_actions_def)

text \<open>An execution stays the request's, and once ended stays ended.\<close>

lemma put_execution_states:
  assumes "action_inv db" and "x \<in> set (executions db)" and "same_execution x x'"
    and "executions db' = t_put x_id (executions db) x'" and "get_execution db xk = Some y"
  shows "\<exists>y'. get_execution db' xk = Some y' \<and> same_execution y y' \<and> (y' = y \<or> y = x \<and> y' = x')"
proof (cases "x_id x' = xk")
  case True
  then have "x_id x = xk" using assms(3) by (simp add: same_execution_def)
  moreover have "get_execution db (x_id x) = Some x"
    using t_get_in_set [OF action_invD(3) [OF assms(1)] assms(2)] .
  ultimately have "y = x" using assms(5) by simp
  then show ?thesis using t_get_t_put_same [OF assms(5) True] assms(3,4) by simp
next
  case False
  then show ?thesis using t_get_t_put_other [where key = x_id, OF False] assms(4,5) by (simp add: same_execution_def)
qed

lemma action_change_execution:
  assumes "action_change db db'" and "action_inv db" and "get_execution db xk = Some y"
  shows "\<exists>y'. get_execution db' xk = Some y' \<and> same_execution y y' \<and> (terminal_execution y \<longrightarrow> terminal_execution y')"
  using assms
proof (induction rule: action_change.induct)
  case (Start q db q' x db')
  then show ?case by (simp add: t_get_append same_execution_def)
next
  case (Finish q db x x' s db')
  then show ?case using put_execution_states [of db x x' db' xk y] by (auto simp: terminal_execution_def)
next
  case (Remember x db x' db')
  then show ?case using put_execution_states [of db x x' db' xk y] by (auto simp: terminal_execution_def)
qed (auto simp: same_actions_def same_execution_def)

definition reaches :: "services \<Rightarrow> coercions \<Rightarrow> app_db \<Rightarrow> app_db \<Rightarrow> bool" where
  "reaches sv co db db' \<longleftrightarrow> (\<forall>h. action_history sv co (db # h) \<longrightarrow>
     (\<exists>h'. action_history sv co (db' # h') \<and> set (db # h) \<subseteq> set (db' # h')) \<and>
     (\<forall>k xk. (linked k xk db \<longrightarrow> linked k xk db') \<and> (ended k xk db \<longrightarrow> ended k xk db')))"

lemma reaches_refl [simp]: "reaches sv co db db"
  unfolding reaches_def by blast

lemma reaches_trans:
  assumes "reaches sv co a b" and "reaches sv co b c"
  shows "reaches sv co a c"
  unfolding reaches_def
proof (intro allI impI)
  fix h assume h: "action_history sv co (a # h)"
  obtain h1 where h1: "action_history sv co (b # h1)" "set (a # h) \<subseteq> set (b # h1)"
    using assms(1) h unfolding reaches_def by blast
  obtain h2 where h2: "action_history sv co (c # h2)" "set (b # h1) \<subseteq> set (c # h2)"
    using assms(2) h1(1) unfolding reaches_def by blast
  have "\<forall>k xk. (linked k xk a \<longrightarrow> linked k xk c) \<and> (ended k xk a \<longrightarrow> ended k xk c)"
    using assms h h1(1) unfolding reaches_def by blast
  then show "(\<exists>h'. action_history sv co (c # h') \<and> set (a # h) \<subseteq> set (c # h')) \<and>
      (\<forall>k xk. (linked k xk a \<longrightarrow> linked k xk c) \<and> (ended k xk a \<longrightarrow> ended k xk c))"
    using h1(2) h2 by blast
qed

lemma step_reaches:
  assumes "\<And>h. action_history sv co (db # h) \<Longrightarrow> action_step sv co (set (db # h)) db db'"
  shows "reaches sv co db db'"
  unfolding reaches_def
proof (intro allI impI)
  fix h assume h: "action_history sv co (db # h)"
  have inv: "action_inv db" and anc: "\<forall>d \<in> set (db # h). descends d db"
    using action_history_inv [OF h] by auto
  have change: "action_change db db'" by (rule action_step_change [OF assms [OF h] inv anc])
  have "action_history sv co (db' # db # h)" by (rule Continue [OF h assms [OF h]])
  then have "\<exists>h'. action_history sv co (db' # h') \<and> set (db # h) \<subseteq> set (db' # h')"
    by (intro exI [of _ "db # h"]) auto
  moreover have "(linked k xk db \<longrightarrow> linked k xk db') \<and> (ended k xk db \<longrightarrow> ended k xk db')" for k xk
    using action_change_execution [OF change inv, of xk]
    by (auto simp: linked_def ended_def same_execution_def)
  ultimately show "(\<exists>h'. action_history sv co (db' # h') \<and> set (db # h) \<subseteq> set (db' # h')) \<and>
      (\<forall>k xk. (linked k xk db \<longrightarrow> linked k xk db') \<and> (ended k xk db \<longrightarrow> ended k xk db'))"
    by blast
qed

lemma elsewhere_reaches: "same_actions db db' \<Longrightarrow> reaches sv co db db'"
  by (rule step_reaches) (rule Step_elsewhere)

lemma atomically_reaches:
  assumes "atomically f db = (r, db')" and "\<And>a db1. f db = Inr (a, db1) \<Longrightarrow> reaches sv co db db1"
  shows "reaches sv co db db'"
  using assms by (auto simp: atomically_def split: sum.splits)

lemma session_reaches:
  assumes "and_session m f db = (r, db')" and "\<And>a db1. m db = (a, db1) \<Longrightarrow> reaches sv co db db1"
    and "\<And>a db1. m db = (Inr a, db1) \<Longrightarrow> f a db1 = (r, db') \<Longrightarrow> reaches sv co db1 db'"
  shows "reaches sv co db db'"
proof (cases "m db")
  case (Pair a db1)
  then show ?thesis
    using assms reaches_trans [of sv co db db1 db'] by (cases a) (auto simp: and_session_def)
qed

lemma record_event_reaches: "record_event sv env m db = (r, db') \<Longrightarrow> reaches sv co db db'"
  by (intro elsewhere_reaches record_event_quiet)

lemma memory_recorded_reaches:
  "atomically (mark_memory_recorded now xk) db = (r, db') \<Longrightarrow> reaches sv co db db'"
  by (erule atomically_reaches) (intro step_reaches Step_recorded)

lemma record_terminal_memory_reaches:
  assumes "record_terminal_memory sv env k xk t s m i db = (r, db')"
  shows "reaches sv co db db'"
  using assms unfolding record_terminal_memory_def
proof (rule session_reaches)
  show "reaches sv co db db1" if "atomically (memory_attempt k xk) db = (a, db1)" for a db1
    using that by (rule atomically_reaches) (intro step_reaches Step_attempt)
next
  fix a db1
  assume run: "(case a of None \<Rightarrow> returns () | Some q \<Rightarrow> (\<lambda>db.
         case and_session (record_event sv (env 0) (action_memory q (Some xk) t s m i))
              (\<lambda>_. atomically (mark_memory_recorded (env_now (env 1)) xk)) db of
           (Inr u, db') \<Rightarrow> (Inr u, db')
         | (Inl e, db') \<Rightarrow>
             if is_instance (exn_cls e) (PyE PyException)
             then atomically (memory_failure sv (env 2) k xk e) db' else (Inl e, db'))) db1 = (r, db')"
  show "reaches sv co db1 db'"
  proof (cases a)
    case None
    then show ?thesis using run by simp
  next
    case (Some q)
    let ?m = "and_session (record_event sv (env 0) (action_memory q (Some xk) t s m i))
              (\<lambda>_. atomically (mark_memory_recorded (env_now (env 1)) xk))"
    obtain u db2 where u: "?m db1 = (u, db2)" by (cases "?m db1")
    have first: "reaches sv co db1 db2"
      using u by (rule session_reaches)
        (auto elim: record_event_reaches memory_recorded_reaches)
    have failure: "reaches sv co db2 db3" if "atomically (memory_failure sv (env 2) k xk e) db2 = (v, db3)" for e v db3
      using that by (rule atomically_reaches) (intro step_reaches Step_failed)
    show ?thesis
      using run Some u first reaches_trans [OF first failure]
      by (cases u) (auto split: if_splits)
  qed
qed

subsection \<open>Ending an execution\<close>

lemma finalize_rows_reaches:
  assumes "atomically (finalize_rows k xk change s publish) db = (r, db')" and "quiet_publish publish"
    and "ends_execution change s" and "linked k xk db"
  shows "reaches sv co db db'"
  using assms(1)
proof (rule atomically_reaches)
  fix q db1
  assume fin: "finalize_rows k xk change s publish db = Inr (q, db1)"
  have "x_action_request_id x = k" if "get_execution db xk = Some x" for x
    using that assms(4) by (simp add: linked_def)
  then show "reaches sv co db db1"
    using Step_finalize [OF fin assms(2,3)] by (blast intro: step_reaches)
qed

lemma final_read_reaches:
  "atomically (\<lambda>db. and_then (required (get_execution db xk) e) (\<lambda>x. Inr (x, db))) db = (r, db') \<Longrightarrow>
   reaches sv co db db'"
  by (erule atomically_reaches) (auto simp: result_simps)

lemma finalize_success_reaches:
  assumes "finalize_success sv env k xk summary d db = (r, db')" and "linked k xk db"
  shows "reaches sv co db db'"
  using assms(1) unfolding finalize_success_def
  by (elim session_reaches)
    (auto elim!: record_terminal_memory_reaches finalize_rows_reaches final_read_reaches session_reaches simp: assms(2))

lemma finalize_failure_reaches:
  assumes "finalize_failure sv env k xk e d db = (r, db')" and "linked k xk db"
  shows "reaches sv co db db'"
  using assms(1) unfolding finalize_failure_def Let_def
  by (rule session_reaches)
    (auto elim!: record_terminal_memory_reaches finalize_rows_reaches simp: assms(2))

lemma finalize_cancelled_reaches:
  assumes "finalize_cancelled sv env k xk d db = (r, db')" and "linked k xk db"
  shows "reaches sv co db db'"
  using assms(1) unfolding finalize_cancelled_def
  by (rule session_reaches)
    (auto elim!: record_terminal_memory_reaches finalize_rows_reaches simp: assms(2))

lemma fail_with_reaches:
  assumes "fail_with sv env k xk e d raised db = (r, db')" and "linked k xk db"
  shows "reaches sv co db db'"
  using assms(1) unfolding fail_with_def
  by (rule session_reaches) (auto intro: finalize_failure_reaches assms(2) simp: raises_def)

lemma execution_exception_reaches:
  "execution_exception sv env k xk d e db = (r, db') \<Longrightarrow> linked k xk db \<Longrightarrow> reaches sv co db db'"
  by (auto simp: execution_exception_def Let_def intro: fail_with_reaches split: if_splits)

definition quiet_handler :: "action_definition \<Rightarrow> bool" where
  "quiet_handler d \<longleftrightarrow> (\<forall>p g db. same_actions db (snd (ad_handler d p g db)))"

lemma reaches_linked:
  "action_history sv co (db # h) \<Longrightarrow> reaches sv co db db' \<Longrightarrow> linked k xk db \<Longrightarrow> linked k xk db'"
  unfolding reaches_def by blast

lemma run_handler_reaches:
  assumes "run_handler sv env fate d rv p db = (r, db')" and "quiet_handler (rv_definition rv)"
    and "linked (q_id (rv_request rv)) (x_id (rv_execution rv)) db" and h: "action_history sv co (db # h)"
  shows "reaches sv co db db'"
proof -
  let ?k = "q_id (rv_request rv)" and ?xk = "x_id (rv_execution rv)"
  obtain res db1 where run: "ad_handler (rv_definition rv) p (rv_guard rv) db = (res, db1)" by fastforce
  then have quiet: "same_actions db db1" using assms(2) by (metis quiet_handler_def snd_conv)
  then have first: "reaches sv co db db1" and link: "linked ?k ?xk db1"
    using assms(3) by (auto intro: elsewhere_reaches simp: same_actions_states)
  have later: "reaches sv co db db'" if "reaches sv co db1 db'"
    using reaches_trans [OF first that] .
  show ?thesis
  proof (cases fate)
    case Handler_Ends
    show ?thesis
    proof (cases res)
      case (Inl e)
      then show ?thesis using assms(1) Handler_Ends run link
        by (auto simp: run_handler_def Let_def intro!: later elim: execution_exception_reaches)
    next
      case (Inr out)
      obtain v db2 where fin: "finalize_success sv env ?k ?xk (result_summary sv out) d db1 = (v, db2)" by fastforce
      have second: "reaches sv co db1 db2" using fin link by (rule finalize_success_reaches)
      have link2: "linked ?k ?xk db2"
        by (rule reaches_linked [OF h reaches_trans [OF first second] assms(3)])
      have "reaches sv co db1 db'"
      proof (cases v)
        case (Inl e)
        then have "execution_exception sv (\<lambda>n. env (n + 4)) ?k ?xk d e db2 = (r, db')"
          using assms(1) Handler_Ends run Inr fin by (simp add: run_handler_def)
        then show ?thesis using execution_exception_reaches link2 reaches_trans [OF second] by blast
      next
        case (Inr x)
        then show ?thesis using assms(1) Handler_Ends run \<open>res = Inr out\<close> fin second by (simp add: run_handler_def)
      qed
      then show ?thesis by (rule later)
    qed
  next
    case (Handler_Times_Out committed)
    have "fail_with sv env ?k ?xk (controlled_error ''Action execution timed out'') d
        (controlled_error ''Action execution timed out'') (if committed then db1 else db) = (r, db')"
      using assms(1) Handler_Times_Out run by (cases committed) (simp_all add: run_handler_def Let_def)
    then have "reaches sv co (if committed then db1 else db) db'"
      by (rule fail_with_reaches) (use link assms(3) in simp)
    then show ?thesis using later by (cases committed) auto
  next
    case (Handler_Cancelled committed)
    have "and_session (finalize_cancelled sv env ?k ?xk d) (\<lambda>_. raises (Exn (PyE CancelledError) ''''))
        (if committed then db1 else db) = (r, db')"
      using assms(1) Handler_Cancelled run by (cases committed) (simp_all add: run_handler_def Let_def)
    then have "reaches sv co (if committed then db1 else db) db'"
      by (rule session_reaches) (use link assms(3) in \<open>auto elim: finalize_cancelled_reaches simp: raises_def\<close>)
    then show ?thesis using later by (cases committed) auto
  qed
qed

lemma reserve_reaches:
  assumes "reserve sv co reg env k expected db = (r, db')" and "get_execution db (env_row_id env) = None"
  shows "reaches sv co db db'"
  by (intro step_reaches Step_reserve [OF assms])

text \<open>A reservation that returns leaves a running execution of the request.\<close>

lemma reserve_execution_Inr:
  assumes "reserve_execution env found q g db = Inr (rv, db')" and "get_execution db (env_row_id env) = None"
  shows "found = Some (rv_definition rv)" and "q_id (rv_request rv) = q_id q"
    and "x_id (rv_execution rv) = env_row_id env" and "running (q_id q) (env_row_id env) db'"
    and "q_arguments (rv_request rv) = q_arguments q"
proof -
  let ?new = "new_execution env (q_id q) (q_idempotency_key q) g"
  let ?run = "running_execution (env_now env) ?new"
  obtain d where d: "found = Some d"
    "rv = \<lparr>rv_request = moved_request AQ_EXECUTING q, rv_execution = ?run, rv_definition = d, rv_guard = g\<rparr>"
    "db' = put_request (moved_request AQ_EXECUTING q) (put_execution ?run (add_execution ?new db))"
    using assms(1) by (auto simp: reserve_execution_def Let_def result_simps)
  have id: "x_id ?new = env_row_id env" "x_id ?run = env_row_id env" "x_action_request_id ?run = q_id q"
    "x_status ?run = AX_RUNNING"
    by (simp_all add: new_execution_def running_execution_def)
  have "get_execution (add_execution ?new db) (env_row_id env) = Some ?new"
    using assms(2) id(1) by (simp add: add_execution_def t_get_append table_simps)
  then have "get_execution db' (env_row_id env) = Some ?run"
    using get_put_execution [OF _ id(2)] d(3) by simp
  then show "running (q_id q) (env_row_id env) db'" using id by (auto simp: running_def)
  show "found = Some (rv_definition rv)" "q_id (rv_request rv) = q_id q" "x_id (rv_execution rv) = env_row_id env"
    "q_arguments (rv_request rv) = q_arguments q"
    using d id by (simp_all add: moved_request_def)
qed

lemma reserve_decide_Inr:
  assumes "reserve_decide sv env found ctx p g q db = (Inr rv, db')"
  obtains "reserve_execution env found q g (put_request q db) = Inr (rv, db')" "request_checks q"
  using assms that
  by (auto simp: reserve_decide_def Let_def commit_and_raise_def flush_request_def
      split: if_splits sum.splits prod.splits option.splits)

lemma reserve_Inr:
  assumes "reserve sv co reg env k expected db = (Inr rv, db')" and "get_execution db (env_row_id env) = None"
  shows "q_id (rv_request rv) = k" and "x_id (rv_execution rv) = env_row_id env"
    and "running k (env_row_id env) db'" and "map_of reg (q_action_name (rv_request rv)) = Some (rv_definition rv)"
proof -
  obtain c w q where rows: "reserve_rows k db = Inr (c, w, q)"
    and run: "reserve_decide sv env (map_of reg (q_action_name q)) (reserve_context c w q db)
      (evaluate co (reserve_context c w q db) (map_of reg (q_action_name q))) (reserve_guard c w)
      (latest_policy (env_now env) (evaluate co (reserve_context c w q db) (map_of reg (q_action_name q)))
        (reserve_context c w q db) None None q) db = (Inr rv, db')"
    using assms(1) by (auto simp: reserve_def Let_def result_simps split: sum.splits)
  have k: "q_id q = k" using rows by (auto simp: reserve_rows_def result_simps dest: get_requestD)
  let ?q = "latest_policy (env_now env) (evaluate co (reserve_context c w q db) (map_of reg (q_action_name q)))
        (reserve_context c w q db) None None q"
  have x: "get_execution (put_request ?q db) (env_row_id env) = None" using assms(2) by simp
  have res: "reserve_execution env (map_of reg (q_action_name q)) ?q (reserve_guard c w) (put_request ?q db) = Inr (rv, db')"
    using reserve_decide_Inr [OF run] by blast
  note facts = reserve_execution_Inr [OF res x]
  show "q_id (rv_request rv) = k" "x_id (rv_execution rv) = env_row_id env" "running k (env_row_id env) db'"
    using facts(2-4) k by simp_all
  have "q_action_name (rv_request rv) = q_action_name q"
    using res by (auto simp: reserve_execution_def Let_def result_simps moved_request_def latest_policy_def)
  then show "map_of reg (q_action_name (rv_request rv)) = Some (rv_definition rv)" using facts(1) by simp
qed

definition quiet_registry :: "action_registry \<Rightarrow> bool" where
  "quiet_registry reg \<longleftrightarrow> (\<forall>(name, d) \<in> set reg. quiet_handler d)"

lemma quiet_registry_get: "quiet_registry reg \<Longrightarrow> map_of reg name = Some d \<Longrightarrow> quiet_handler d"
  by (auto simp: quiet_registry_def dest: map_of_SomeD)

lemma execute_action_reaches:
  assumes "execute_action sv co reg env fate d k expected db = (r, db')" and "quiet_registry reg"
    and "get_execution db (env_row_id (env 0)) = None" and h: "action_history sv co (db # h)"
  shows "reaches sv co db db'"
  using assms(1) unfolding execute_action_def
proof (rule session_reaches)
  show "reaches sv co db db1" if "reserve sv co reg (env 0) k expected db = (a, db1)" for a db1
    using that assms(3) by (rule reserve_reaches)
next
  fix rv :: reservation and db1
  let ?k = "q_id (rv_request rv)" and ?xk = "x_id (rv_execution rv)"
  assume res: "reserve sv co reg (env 0) k expected db = (Inr rv, db1)"
    and run: "(let request_id = ?k; execution_id = ?xk; rest = (\<lambda>n. env (n + 1))
     in case ad_input_model (rv_definition rv) co (q_arguments (rv_request rv)) of
          None \<Rightarrow> fail_with sv rest request_id execution_id (Exn (PyE ValueError) '''') 0
            (controlled_error ''Action input validation failed'')
        | Some p \<Rightarrow> run_handler sv rest fate d rv p) db1 = (r, db')"
  have link: "linked ?k ?xk db1"
    using reserve_Inr [OF res assms(3)] running_linked by metis
  have quiet: "quiet_handler (rv_definition rv)"
    using reserve_Inr(4) [OF res assms(3)] quiet_registry_get [OF assms(2)] by blast
  obtain h1 where "action_history sv co (db1 # h1)"
    using reserve_reaches [OF res assms(3)] h unfolding reaches_def by blast
  then show "reaches sv co db1 db'"
    using run link quiet
    by (cases "ad_input_model (rv_definition rv) co (q_arguments (rv_request rv))")
      (auto simp: Let_def intro: fail_with_reaches run_handler_reaches)
qed

subsection \<open>Every reserved execution ends\<close>

lemma add_outbox_event_Inr:
  "is_json_object (er_payload e) \<Longrightarrow> \<exists>db'. add_outbox_event sv env e db = Inr db'"
  by (cases "er_payload e")
    (auto simp: add_outbox_event_def add_event_def Let_def split: option.splits)

definition good_end :: "(execution_row \<Rightarrow> execution_row) \<Rightarrow> bool" where
  "good_end change \<longleftrightarrow> (\<forall>x. x_status x = AX_RUNNING \<longrightarrow> execution_checks x \<longrightarrow> execution_checks (change x))"

lemma good_ends [simp]:
  "0 \<le> d \<Longrightarrow> good_end (completed_execution now summary d)"
  "0 \<le> d \<Longrightarrow> good_end (failed_execution now code message d)"
  "0 \<le> d \<Longrightarrow> good_end (cancelled_execution now message d)"
  by (simp_all add: good_end_def execution_checks_def completed_execution_def failed_execution_def
      cancelled_execution_def)

lemma finalize_rows_ends:
  assumes "action_inv db" and "running k xk db" and "ends_execution change s" and "good_end change"
    and "s \<in> {AQ_COMPLETED, AQ_FAILED}" and "quiet_publish publish" and "\<And>x q db. \<exists>db'. publish x q db = Inr db'"
  shows "\<exists>q db'. atomically (finalize_rows k xk change s publish) db = (Inr q, db') \<and> ended k xk db'"
proof -
  obtain x where x: "get_execution db xk = Some x" "x_action_request_id x = k" "x_status x = AX_RUNNING"
    using assms(2) by (auto simp: running_def)
  have xs: "x \<in> set (executions db)" "x_id x = xk" using get_executionD [OF x(1)] by simp_all
  obtain q where q: "q \<in> set (requests db)" "q_id q = k"
    using action_invD(7) [OF assms(1) xs(1)] x(2) by (auto simp: execution_ok_def execution_of_def)
  have get: "get_request db k = Some q"
    using t_get_in_set [OF action_invD(1) [OF assms(1)] q(1)] q(2) by simp
  have "was_executed q"
    by (rule outcome_executed, rule execution_status(1) [OF assms(1) q(1) xs(1)]) (simp add: x(2) q(2))
  then have qc: "request_checks (moved_request s q)"
    using request_checks_moved action_invD(6) [OF assms(1) q(1)] assms(5) by (auto simp: request_ok_def)
  have xc: "execution_checks (change x)"
    using action_invD(7) [OF assms(1) xs(1)] x(3) assms(4) by (simp add: execution_ok_def good_end_def)
  obtain db' where pub: "publish x q (put_request (moved_request s q) (put_execution (change x) db)) = Inr db'"
    using assms(7) by blast
  have run: "finalize_rows k xk change s publish db = Inr (q, db')"
    using get x xc qc pub
    by (simp add: finalize_rows_def required_request_def required_execution_def flush_execution_def flush_request_def)
  have "same_actions (put_request (moved_request s q) (put_execution (change x) db)) db'"
    using assms(6) pub by (auto simp: quiet_publish_def)
  then have "executions db' = t_put x_id (executions db) (change x)"
    by (simp add: same_actions_def put_request_def put_execution_def)
  moreover have "x_id (change x) = xk" "x_action_request_id (change x) = k" "terminal_execution (change x)"
    using assms(3) xs(2) x(2) by (auto simp: ends_execution_def same_execution_def)
  ultimately have "ended k xk db'"
    using t_get_t_put_same [OF x(1)] by (auto simp: ended_def)
  then show ?thesis using atomically_Inr [where f = "finalize_rows k xk change s publish", OF run] by blast
qed

lemma reaches_ended:
  "action_history sv co (db # h) \<Longrightarrow> reaches sv co db db' \<Longrightarrow> ended k xk db \<Longrightarrow> ended k xk db'"
  unfolding reaches_def by blast

lemma reaches_inv:
  "action_history sv co (db # h) \<Longrightarrow> reaches sv co db db' \<Longrightarrow> \<exists>h'. action_history sv co (db' # h')"
  unfolding reaches_def by blast

text \<open>The finalisations end a running execution; what follows cannot undo it.\<close>

lemma ends_then_more:
  assumes h: "action_history sv co (db # h)"
    and first: "m db = (Inr q, db1)" "ended k xk db1" "reaches sv co db db1"
    and rest: "\<And>a s s'. f q s = (a, s') \<Longrightarrow> reaches sv co s s'"
    and run: "and_session m f db = (r, db')"
  shows "ended k xk db'"
proof -
  obtain h1 where "action_history sv co (db1 # h1)" using reaches_inv [OF h first(3)] by blast
  moreover have "f q db1 = (r, db')" using run first(1) by (simp add: and_session_def)
  ultimately show ?thesis using reaches_ended rest first(2) by blast
qed

lemma execution_event_published: "\<exists>db'. add_outbox_event sv env (execution_event t x q extra suffix) db = Inr db'"
  by (rule add_outbox_event_Inr) (simp add: execution_event_def)

lemma finalize_success_ends:
  assumes h: "action_history sv co (db # h)" and "running k xk db" and "0 \<le> d"
    and "finalize_success sv env k xk summary d db = (r, db')"
  shows "ended k xk db'"
proof -
  let ?change = "completed_execution (env_now (env 0)) summary d"
  let ?pub = "\<lambda>x q. add_outbox_event sv (env 0) (execution_event OE_ACTION_COMPLETED x q [] '':completed'')"
  obtain q db1 where fin: "atomically (finalize_rows k xk ?change AQ_COMPLETED ?pub) db = (Inr q, db1)" "ended k xk db1"
    using finalize_rows_ends [of db k xk ?change AQ_COMPLETED ?pub] action_history_inv [OF h] assms(2,3)
      execution_event_published by fastforce
  have first: "reaches sv co db db1"
    using fin(1) by (rule finalize_rows_reaches) (simp_all add: assms(2) running_linked)
  show ?thesis
    by (rule ends_then_more [OF h fin first _ assms(4) [unfolded finalize_success_def]]) (auto elim!: session_reaches record_terminal_memory_reaches final_read_reaches)
qed

lemma finalize_failure_ends:
  assumes h: "action_history sv co (db # h)" and "running k xk db" and "0 \<le> d"
    and "finalize_failure sv env k xk e d db = (r, db')"
  shows "ended k xk db'"
proof -
  let ?change = "failed_execution (env_now (env 0)) (execution_error_code e) (sanitize_text 2000 (exn_msg e)) d"
  let ?pub = "\<lambda>x q. add_outbox_event sv (env 0)
    (execution_event OE_ACTION_FAILED x q [(''error_code'', JStr (execution_error_code e))] '':failed'')"
  obtain q db1 where fin: "atomically (finalize_rows k xk ?change AQ_FAILED ?pub) db = (Inr q, db1)" "ended k xk db1"
    using finalize_rows_ends [of db k xk ?change AQ_FAILED ?pub] action_history_inv [OF h] assms(2,3)
      execution_event_published by fastforce
  have first: "reaches sv co db db1"
    using fin(1) by (rule finalize_rows_reaches) (simp_all add: assms(2) running_linked)
  show ?thesis
    by (rule ends_then_more [OF h fin first _ assms(4) [unfolded finalize_failure_def Let_def]]) (erule record_terminal_memory_reaches)
qed

lemma finalize_cancelled_ends:
  assumes h: "action_history sv co (db # h)" and "running k xk db" and "0 \<le> d"
    and "finalize_cancelled sv env k xk d db = (r, db')"
  shows "ended k xk db'"
proof -
  let ?change = "cancelled_execution (env_now (env 0)) ''Action execution was cancelled'' d"
  let ?pub = "\<lambda>x q db. Inr db"
  obtain q db1 where fin: "atomically (finalize_rows k xk ?change AQ_FAILED ?pub) db = (Inr q, db1)" "ended k xk db1"
    using finalize_rows_ends [of db k xk ?change AQ_FAILED ?pub] action_history_inv [OF h] assms(2,3) by auto
  have first: "reaches sv co db db1"
    using fin(1) by (rule finalize_rows_reaches) (simp_all add: assms(2) running_linked)
  show ?thesis
    by (rule ends_then_more [OF h fin first _ assms(4) [unfolded finalize_cancelled_def]]) (erule record_terminal_memory_reaches)
qed

text \<open>A session that first ends the execution, whatever it raises afterwards.\<close>

lemma and_raise_ends:
  "and_session m (\<lambda>_. raises e) db = (r, db') \<Longrightarrow> (\<And>v db1. m db = (v, db1) \<Longrightarrow> ended k xk db1) \<Longrightarrow> ended k xk db'"
  by (auto simp: and_session_def raises_def split: prod.splits sum.splits)

lemma fail_with_ends:
  assumes "action_history sv co (db # h)" and "running k xk db" and "0 \<le> d"
    and "fail_with sv env k xk e d raised db = (r, db')"
  shows "ended k xk db'"
  using assms(4) unfolding fail_with_def
  by (rule and_raise_ends) (rule finalize_failure_ends [OF assms(1-3)])

lemma execution_exception_ends:
  "action_history sv co (db # h) \<Longrightarrow> running k xk db \<Longrightarrow> 0 \<le> d \<Longrightarrow>
   execution_exception sv env k xk d e db = (r, db') \<Longrightarrow> ended k xk db'"
  by (auto simp: execution_exception_def Let_def intro: fail_with_ends split: if_splits)

lemma ended_linked: "ended k xk db \<Longrightarrow> linked k xk db"
  by (auto simp: ended_def linked_def)

lemma run_handler_ends:
  assumes h: "action_history sv co (db # h)" and "quiet_handler (rv_definition rv)"
    and "running (q_id (rv_request rv)) (x_id (rv_execution rv)) db" and "0 \<le> d"
    and "run_handler sv env fate d rv p db = (r, db')"
  shows "ended (q_id (rv_request rv)) (x_id (rv_execution rv)) db'"
proof -
  let ?k = "q_id (rv_request rv)" and ?xk = "x_id (rv_execution rv)"
  obtain res db1 where run: "ad_handler (rv_definition rv) p (rv_guard rv) db = (res, db1)" by fastforce
  then have quiet: "same_actions db db1" using assms(2) by (metis quiet_handler_def snd_conv)
  have running1: "running ?k ?xk db1" using assms(3) same_actions_states(2) [OF quiet] by simp
  obtain h1 where h1: "action_history sv co (db1 # h1)"
    using reaches_inv [OF h elsewhere_reaches [OF quiet]] by blast
  have either: "\<exists>h'. action_history sv co ((if b then db1 else db) # h')" "running ?k ?xk (if b then db1 else db)" for b
    using h h1 assms(3) running1 by (cases b; auto)+
  show ?thesis
  proof (cases fate)
    case Handler_Ends
    show ?thesis
    proof (cases res)
      case (Inl e)
      then have "execution_exception sv env ?k ?xk d e db1 = (r, db')"
        using assms(5) Handler_Ends run by (simp add: run_handler_def)
      then show ?thesis by (rule execution_exception_ends [OF h1 running1 assms(4)])
    next
      case (Inr out)
      obtain v db2 where fin: "finalize_success sv env ?k ?xk (result_summary sv out) d db1 = (v, db2)" by fastforce
      have over: "ended ?k ?xk db2" by (rule finalize_success_ends [OF h1 running1 assms(4) fin])
      show ?thesis
      proof (cases v)
        case (Inl e)
        then have "execution_exception sv (\<lambda>n. env (n + 4)) ?k ?xk d e db2 = (r, db')"
          using assms(5) Handler_Ends run Inr fin by (simp add: run_handler_def)
        then have "reaches sv co db2 db'" using execution_exception_reaches ended_linked [OF over] by blast
        moreover have "reaches sv co db1 db2"
          by (rule finalize_success_reaches [OF fin running_linked [OF running1]])
        ultimately show ?thesis using reaches_inv [OF h1] reaches_ended over by blast
      next
        case (Inr x)
        then show ?thesis using assms(5) Handler_Ends run \<open>res = Inr out\<close> fin over by (simp add: run_handler_def)
      qed
    qed
  next
    case (Handler_Times_Out committed)
    have "fail_with sv env ?k ?xk (controlled_error ''Action execution timed out'') d
        (controlled_error ''Action execution timed out'') (if committed then db1 else db) = (r, db')"
      using assms(5) Handler_Times_Out run by (cases committed) (simp_all add: run_handler_def Let_def)
    then show ?thesis using either [of committed] fail_with_ends assms(4) by blast
  next
    case (Handler_Cancelled committed)
    have "and_session (finalize_cancelled sv env ?k ?xk d) (\<lambda>_. raises (Exn (PyE CancelledError) ''''))
        (if committed then db1 else db) = (r, db')"
      using assms(5) Handler_Cancelled run by (cases committed) (simp_all add: run_handler_def Let_def)
    then show ?thesis
      by (rule and_raise_ends) (use either [of committed] finalize_cancelled_ends assms(4) in blast)
  qed
qed

lemma execute_action_ends:
  assumes h: "action_history sv co (db # h)" and "quiet_registry reg"
    and "get_execution db (env_row_id (env 0)) = None" and "0 \<le> d"
    and "reserve sv co reg (env 0) k expected db = (Inr rv, db1)"
    and "execute_action sv co reg env fate d k expected db = (r, db')"
  shows "ended k (env_row_id (env 0)) db'"
proof -
  note rv = reserve_Inr [OF assms(5,3)]
  have quiet: "quiet_handler (rv_definition rv)" by (rule quiet_registry_get [OF assms(2) rv(4)])
  obtain h1 where h1: "action_history sv co (db1 # h1)"
    using reaches_inv [OF h reserve_reaches [OF assms(5,3)]] by blast
  have run: "running (q_id (rv_request rv)) (x_id (rv_execution rv)) db1" using rv(1-3) by simp
  have "ended (q_id (rv_request rv)) (x_id (rv_execution rv)) db'"
  proof (cases "ad_input_model (rv_definition rv) co (q_arguments (rv_request rv))")
    case None
    then have "fail_with sv (\<lambda>n. env (n + 1)) (q_id (rv_request rv)) (x_id (rv_execution rv))
        (Exn (PyE ValueError) '''') 0 (controlled_error ''Action input validation failed'') db1 = (r, db')"
      using assms(5,6) by (simp add: execute_action_def and_session_def Let_def)
    then show ?thesis by (rule fail_with_ends [OF h1 run order_refl])
  next
    case (Some p)
    then have "run_handler sv (\<lambda>n. env (n + 1)) fate d rv p db1 = (r, db')"
      using assms(5,6) by (simp add: execute_action_def and_session_def Let_def)
    then show ?thesis by (rule run_handler_ends [OF h1 quiet run assms(4)])
  qed
  then show ?thesis using rv(1,2) by simp
qed

subsection \<open>The default registry\<close>

lemma internal_result_same: "same_actions db (snd (internal_result s b db))"
  by (simp add: internal_result_def same_actions_def)

lemma guard_then_result_same:
  assumes "\<And>a db'. f db = Inr (a, db') \<Longrightarrow> same_actions db db'"
  shows "same_actions db (snd (and_session (atomically f) (\<lambda>c. internal_result (s c) b) db))"
  using assms internal_result_same
  by (cases "f db") (auto simp: and_session_def atomically_def same_actions_def)

lemma guard_validate_same: "guard_validate g db = Inr (a, db') \<Longrightarrow> same_actions db db'"
  by (auto simp: guard_validate_def result_simps same_actions_def)

lemma guard_update_same: "guard_update_metadata g u db = Inr (a, db') \<Longrightarrow> same_actions db db'"
  by (auto simp: guard_update_metadata_def result_simps same_actions_def)

lemma guard_transition_same: "guard_transition g s st db = Inr (a, db') \<Longrightarrow> same_actions db db'"
  by (auto simp: guard_transition_def result_simps same_actions_def put_pair_def)

lemmas guard_same = guard_validate_same guard_update_same guard_transition_same

lemma default_handlers_quiet: "d \<in> set (default_definitions st) \<Longrightarrow> quiet_handler d"
  unfolding default_definitions_def quiet_handler_def
  by (auto simp: Let_def safe_definition_def approval_definition_def create_recommendation_def
      generate_summary_def prepare_revision_def apply_metadata_def request_regeneration_def
      add_manual_review_note_def mark_for_manual_review_def intro!: guard_then_result_same intro: guard_same)

lemma build_registry_definitions:
  "build_registry ds reg = Inr reg' \<Longrightarrow> snd ` set reg' \<subseteq> set ds \<union> snd ` set reg"
proof (induction ds arbitrary: reg)
  case Nil
  then show ?case by simp
next
  case (Cons d ds)
  then have "build_registry ds (reg @ [(ad_name d, d)]) = Inr reg'" by (simp split: if_splits)
  from Cons.IH [OF this] show ?case by auto
qed

lemma default_registry_quiet: "default_registry st = Inr reg \<Longrightarrow> quiet_registry reg"
  using build_registry_definitions [of "default_definitions st" "[]" reg] default_handlers_quiet
  by (force simp: default_registry_def quiet_registry_def)

end
