(* ===== verification/Policy_Names.thy ===== *)
theory Policy_Names
  imports Policy Campaign_Workflow
begin

text \<open>
  The canonical form of an action's name, computed by the rules with a regular expression, is the
  lower-case words of the name joined by underscores; so a forbidden action is forbidden in every
  spelling.
\<close>

function name_words :: "string \<Rightarrow> string list" where
  "name_words [] = []"
| "name_words (c # s) =
     (if is_name_char c then (c # takeWhile is_name_char s) # name_words (dropWhile is_name_char s)
      else name_words s)"
  by pat_completeness auto
termination
  by (relation "measure length") (auto simp: le_imp_less_Suc length_dropWhile_le)

subsection \<open>The substitution\<close>

abbreviation other_char :: "char \<Rightarrow> bool" where
  "other_char c \<equiv> \<not> is_name_char c"

abbreviation squeeze :: "string \<Rightarrow> string" where
  "squeeze \<equiv> re_sub (plus other_char) (\<lambda>_. ''_'')"

lemma squeeze_name: "is_name_char c \<Longrightarrow> squeeze (c # s) = c # squeeze s"
  by (simp add: re_sub.simps plus_def)

lemma squeeze_other:
  assumes "other_char c"
  shows "squeeze (c # s) = CHR ''_'' # squeeze (dropWhile other_char s)"
proof -
  obtain rest where "star_splits other_char (takeWhile other_char s @ dropWhile other_char s) =
      (takeWhile other_char s, dropWhile other_char s) # rest"
    using star_splits_all [of "takeWhile other_char s" other_char "dropWhile other_char s"]
    by (metis hd_dropWhile set_takeWhileD)
  then have "rmatch (plus other_char) (c # s) =
      ([], c # takeWhile other_char s, dropWhile other_char s) #
        map (\<lambda>(u, r). ([], c # u, r)) rest"
    using assms by (simp add: plus_def split_def comp_def)
  from re_sub_match [OF this] show ?thesis
    by (simp add: le_imp_less_Suc length_dropWhile_le)
qed

lemma squeeze_names: "\<forall>c \<in> set u. is_name_char c \<Longrightarrow> squeeze (u @ s) = u @ squeeze s"
  by (induction u) (simp_all add: squeeze_name)

lemma name_words_other: "\<forall>c \<in> set u. other_char c \<Longrightarrow> name_words (u @ s) = name_words s"
  by (induction u) simp_all

lemma span_append:
  assumes "s = [] \<or> \<not> p (hd s)"
  shows "takeWhile p (u @ s) = takeWhile p u" and "dropWhile p (u @ s) = dropWhile p u @ s"
  using assms by (induction u; cases s; auto)+

lemma name_words_word:
  "u \<noteq> [] \<Longrightarrow> \<forall>c \<in> set u. is_name_char c \<Longrightarrow> s = [] \<or> other_char (hd s) \<Longrightarrow> name_words (u @ s) = u # name_words s"
proof (cases u)
  case (Cons c u')
  assume u: "\<forall>c \<in> set u. is_name_char c" and s: "s = [] \<or> other_char (hd s)"
  have "takeWhile is_name_char u' = u'" "dropWhile is_name_char u' = []" using u Cons by simp_all
  then have "takeWhile is_name_char (u' @ s) = u'" "dropWhile is_name_char (u' @ s) = s"
    using span_append [of s is_name_char u', OF s] by (simp_all only: append_Nil)
  moreover have "is_name_char c" using u Cons by simp
  ultimately show ?thesis unfolding Cons append_Cons name_words.simps by (simp only: if_True)
qed simp

text \<open>A text is its leading separators, a word, and what follows the word.\<close>

lemma name_cases:
  obtains (none) "\<forall>c \<in> set s. other_char c"
    | (word) u w r where "s = u @ w @ r" "\<forall>c \<in> set u. other_char c" "w \<noteq> []" "\<forall>c \<in> set w. is_name_char c"
        "r = [] \<or> other_char (hd r)"
proof (cases "\<forall>c \<in> set s. other_char c")
  case True
  then show ?thesis by (rule none)
next
  case False
  let ?u = "takeWhile other_char s" and ?t = "dropWhile other_char s"
  let ?w = "takeWhile is_name_char ?t" and ?r = "dropWhile is_name_char ?t"
  have t: "?t \<noteq> []" using False by (simp add: dropWhile_eq_Nil_conv)
  then have hd: "is_name_char (hd ?t)" using hd_dropWhile by blast
  show ?thesis
  proof (rule word [of ?u ?w ?r])
    show "s = ?u @ ?w @ ?r" by simp
    show "\<forall>c \<in> set ?u. other_char c" "\<forall>c \<in> set ?w. is_name_char c" by (blast dest: set_takeWhileD)+
    show "?w \<noteq> []" using t hd by (cases ?t) auto
    show "?r = [] \<or> other_char (hd ?r)" using hd_dropWhile by blast
  qed
qed

definition sep_if :: "bool \<Rightarrow> string" where
  "sep_if b = (if b then ''_'' else [])"

text \<open>The squeezed text: the joined words, with an underscore for separators at either end.\<close>

lemma squeeze_others: "\<forall>c \<in> set u. other_char c \<Longrightarrow> s = [] \<or> is_name_char (hd s) \<Longrightarrow>
   squeeze (u @ s) = sep_if (u \<noteq> []) @ squeeze s"
proof (cases u)
  case Nil
  then show ?thesis by (simp add: sep_if_def)
next
  case (Cons c u')
  assume u: "\<forall>c \<in> set u. other_char c" and s: "s = [] \<or> is_name_char (hd s)"
  have "dropWhile other_char (u' @ s) = s"
    using u s Cons by (cases s) (auto simp: dropWhile_append)
  then show ?thesis using Cons u squeeze_other by (simp add: sep_if_def)
qed

lemma squeeze_words:
  assumes "s = [] \<or> is_name_char (hd s)"
  shows "\<exists>b. squeeze s = join_strings ''_'' (name_words s) @ sep_if b"
  using assms
proof (induction "length s" arbitrary: s rule: less_induct)
  case less
  show ?case
  proof (cases s rule: name_cases)
    case none
    then have "s = []" using less.prems by (cases s) auto
    then show ?thesis by (auto simp: sep_if_def)
  next
    case (word u w r)
    then have u: "u = []" using less.prems by (cases u) auto
    have sq: "squeeze s = w @ squeeze r" using word u squeeze_names by simp
    have words: "name_words s = w # name_words r" using word u name_words_word by simp
    let ?v = "takeWhile other_char r" and ?t = "dropWhile other_char r"
    have t: "?t = [] \<or> is_name_char (hd ?t)" using hd_dropWhile by blast
    have r: "squeeze r = sep_if (?v \<noteq> []) @ squeeze ?t"
      using squeeze_others [of ?v ?t] t by (metis set_takeWhileD takeWhile_dropWhile_id)
    have rw: "name_words r = name_words ?t"
      using name_words_other [of ?v ?t] by (metis set_takeWhileD takeWhile_dropWhile_id)
    have "length ?t < length s"
      using word u length_dropWhile_le [of other_char r] by (cases w) auto
    then obtain b where b: "squeeze ?t = join_strings ''_'' (name_words ?t) @ sep_if b"
      using less.hyps t by blast
    show ?thesis
    proof (cases "name_words ?t")
      case Nil
      then have "?t = []" using t by (cases ?t) auto
      then have "squeeze ?t = []" by (simp only: re_sub_Nil)
      then have "squeeze s = join_strings ''_'' (name_words s) @ sep_if (?v \<noteq> [])"
        using sq words r rw Nil by simp
      then show ?thesis by blast
    next
      case (Cons x xs)
      then have "r \<noteq> []" by (cases r) auto
      then have "?v \<noteq> []" using word(5) by (cases r) auto
      then show ?thesis using sq words r rw b Cons by (auto simp: sep_if_def)
    qed
  qed
qed

subsection \<open>The canonical form\<close>

lemma words_are_names: "w \<in> set (name_words s) \<Longrightarrow> w \<noteq> [] \<and> (\<forall>c \<in> set w. is_name_char c)"
proof (induction s rule: name_words.induct)
  case 1
  then show ?case by simp
next
  case (2 c s)
  then show ?case by (cases "is_name_char c") (auto dest: set_takeWhileD [THEN conjunct2])
qed

lemma underscore_other: "other_char (CHR ''_'')"
  by code_simp

lemma join_ends:
  assumes "\<forall>w \<in> set ws. w \<noteq> [] \<and> (\<forall>c \<in> set w. is_name_char c)"
  shows "join_strings ''_'' ws = [] \<or>
    hd (join_strings ''_'' ws) \<noteq> CHR ''_'' \<and> last (join_strings ''_'' ws) \<noteq> CHR ''_''"
  using assms
proof (induction "''_''" ws rule: join_strings.induct)
  case 1
  then show ?case by simp
next
  case (2 s)
  then have "hd s \<in> set s" "last s \<in> set s" by auto
  then show ?case using 2 underscore_other by (metis join_strings.simps(2) list.set_intros(1))
next
  case (3 s t ts)
  have s: "s \<noteq> []" "hd s \<noteq> CHR ''_''" using 3 underscore_other by (metis hd_in_set list.set_intros(1))+
  have t: "join_strings ''_'' (t # ts) \<noteq> []" using 3(2) by (cases ts) auto
  then show ?case using 3 s by auto
qed

lemma strip_underscores:
  assumes "b = [] \<or> hd b \<noteq> CHR ''_'' \<and> last b \<noteq> CHR ''_''"
  shows "strip_chars (\<lambda>c. c = CHR ''_'') (sep_if x @ b @ sep_if y) = b"
proof (cases "b = []")
  case True
  then show ?thesis by (simp add: strip_chars_def sep_if_def)
next
  case False
  then have d: "dropWhile (\<lambda>c. c = CHR ''_'') (b @ z) = b @ z" for z
    using assms by (cases b) auto
  have "rev b \<noteq> [] \<and> hd (rev b) \<noteq> CHR ''_''" using False assms by (simp add: hd_rev)
  then have "dropWhile (\<lambda>c. c = CHR ''_'') (rev b) = rev b" by (cases "rev b") auto
  then show ?thesis using d by (simp add: strip_chars_def sep_if_def)
qed

lemma strip_squeeze: "strip_chars (\<lambda>c. c = CHR ''_'') (squeeze s) = join_strings ''_'' (name_words s)"
proof -
  let ?v = "takeWhile other_char s" and ?t = "dropWhile other_char s"
  have t: "?t = [] \<or> is_name_char (hd ?t)" using hd_dropWhile by blast
  then obtain b where "squeeze ?t = join_strings ''_'' (name_words ?t) @ sep_if b"
    using squeeze_words by blast
  moreover have "squeeze s = sep_if (?v \<noteq> []) @ squeeze ?t"
    using squeeze_others [of ?v ?t] t by (metis set_takeWhileD takeWhile_dropWhile_id)
  moreover have "name_words s = name_words ?t"
    using name_words_other [of ?v ?t] by (metis set_takeWhileD takeWhile_dropWhile_id)
  ultimately show ?thesis
    using strip_underscores [OF join_ends] words_are_names by simp
qed

text \<open>Surrounding white space adds no word.\<close>

lemma lower_char_id:
  "(of_char c :: nat) < 65 \<or> 90 < (of_char c :: nat) \<Longrightarrow> lower_char c = c"
  unfolding lower_char_def Let_def by (rule if_not_P) linarith

lemma space_other: "is_space c \<Longrightarrow> other_char (lower_char c)"
proof -
  assume "is_space c"
  then have n: "(of_char c :: nat) \<le> 32 \<or> 133 \<le> (of_char c :: nat)"
    unfolding is_space_def Let_def by linarith
  then have "lower_char c = c" by (intro lower_char_id) linarith
  moreover have "other_char c" using n unfolding is_name_char_def Let_def by linarith
  ultimately show ?thesis by simp
qed

lemma name_words_trailing:
  assumes "\<forall>c \<in> set u. other_char c"
  shows "name_words (s @ u) = name_words s"
proof (induction s rule: name_words.induct)
  case 1
  then show ?case using name_words_other [OF assms, of "[]"] by simp
next
  case (2 c s)
  have "u = [] \<or> other_char (hd u)" using assms by (cases u) auto
  then show ?case using 2 span_append [of u is_name_char s] by simp
qed

lemma name_words_strip: "name_words (lower (strip v)) = name_words (lower v)"
proof -
  let ?a = "takeWhile is_space v" and ?b = "dropWhile is_space v"
  let ?c = "rev (takeWhile is_space (rev ?b))"
  have b: "?b = strip v @ ?c"
    unfolding strip_def by (metis rev_append rev_rev_ident takeWhile_dropWhile_id)
  have v: "lower v = lower ?a @ lower (strip v) @ lower ?c"
    unfolding lower_def map_append [symmetric] using b by (metis takeWhile_dropWhile_id)
  have a: "\<forall>c \<in> set (lower ?a). other_char c" and c: "\<forall>c \<in> set (lower ?c). other_char c"
    unfolding lower_def using space_other by (auto dest!: set_takeWhileD)
  show ?thesis unfolding v name_words_other [OF a] name_words_trailing [OF c] ..
qed

lemma canonical_words: "canonical_action_name v = join_strings ''_'' (name_words (lower v))"
  unfolding canonical_action_name_def strip_squeeze name_words_strip ..

lemma lower_name: "is_name_char c \<Longrightarrow> lower_char c = c"
  unfolding is_name_char_def Let_def by (intro lower_char_id) linarith

lemma lower_join:
  "\<forall>w \<in> set ws. \<forall>c \<in> set w. is_name_char c \<Longrightarrow> lower (join_strings ''_'' ws) = join_strings ''_'' ws"
proof (induction "''_''" ws rule: join_strings.induct)
  case (2 s)
  then show ?case by (simp add: lower_def lower_name map_idI)
next
  case (3 s t ts)
  have "map lower_char s = s" using 3(2) by (intro map_idI) (simp add: lower_name)
  moreover have "lower_char (CHR ''_'') = CHR ''_''" by (rule lower_char_id) simp
  ultimately show ?case using 3 by (simp add: lower_def)
qed (simp add: lower_def)

lemma name_words_join:
  "\<forall>w \<in> set ws. w \<noteq> [] \<and> (\<forall>c \<in> set w. is_name_char c) \<Longrightarrow> name_words (join_strings ''_'' ws) = ws"
proof (induction "''_''" ws rule: join_strings.induct)
  case (2 s)
  then show ?case using name_words_word [of s "[]"] by simp
next
  case (3 s t ts)
  then show ?case using name_words_word [of s "''_'' @ join_strings ''_'' (t # ts)"] underscore_other by simp
qed simp

lemma canonical_idempotent: "canonical_action_name (canonical_action_name v) = canonical_action_name v"
proof -
  have w: "\<forall>w \<in> set (name_words (lower v)). w \<noteq> [] \<and> (\<forall>c \<in> set w. is_name_char c)"
    using words_are_names by blast
  then have "lower (join_strings ''_'' (name_words (lower v))) = join_strings ''_'' (name_words (lower v))"
    by (intro lower_join) blast
  then show ?thesis using name_words_join [OF w] by (simp add: canonical_words)
qed

subsection \<open>Properties\<close>

lemma evaluate_forbidden_alone:
  "pr_reason_code (evaluate co ctx found) = ''FORBIDDEN_ACTION'' \<longleftrightarrow> is_forbidden_alias (pc_action_name ctx)"
  by (auto simp: evaluate_def Let_def deny_def decide_by_definition_def
      split: if_splits option.splits policy_decision.splits)

text \<open>C13. The rules see a name as its words: whatever case its letters have and whatever separates,
  precedes or follows its words, its canonical form is the words in lower case joined by
  underscores; and an action is denied as permanently forbidden, whatever is registered under its
  name, exactly when those words are the words of a forbidden or a generic action.\<close>

theorem forbidden_in_any_spelling:
  "canonical_action_name (pc_action_name ctx) = join_strings ''_'' (name_words (lower (pc_action_name ctx))) \<and>
   (pr_reason_code (evaluate co ctx found) = ''FORBIDDEN_ACTION'' \<longleftrightarrow>
     join_strings ''_'' (name_words (lower (pc_action_name ctx))) \<in> set forbidden_actions \<union> set generic_actions)"
  by (simp add: evaluate_forbidden_alone is_forbidden_alias_def canonical_words Let_def)

end
