(* ===== verification/Action_Example.thy ===== *)
theory Action_Example
  imports Action_Progress Campaign_Example Policy_Names
begin

text \<open>
  A metadata change proposed by an agent, approved by a manager and reserved for execution, as a
  history: the example the properties of the actions are applied to.
\<close>

definition ex_metadata :: action_definition where
  "ex_metadata = approval_definition 3600 ''update_campaign_metadata'' metadata_model all_agents
     apply_metadata UR_MANAGER [CS_RECEIVED, CS_NEEDS_CLARIFICATION, CS_REVISION_REQUIRED]"

definition ex_registry :: action_registry where
  "ex_registry = [(''update_campaign_metadata'', ex_metadata)]"

definition ex_arguments :: json where
  "ex_arguments = JObj [(''campaign_id'', JStr ''launch''), (''workflow_id'', JStr (uuid_str 1)),
     (''revision_number'', JInt 0), (''tone'', JStr ''calm'')]"

definition ex_context :: policy_context where
  "ex_context = \<lparr>pc_agent_run_id = 7, pc_workflow_id = 1, pc_campaign_id = ''launch'',
     pc_agent_name = AN_BRIEF_ANALYST, pc_action_name = ''update_campaign_metadata'',
     pc_arguments = ex_arguments, pc_campaign_status = CS_RECEIVED, pc_workflow_status = CS_RECEIVED,
     pc_actor_id = None, pc_actor_role = None, pc_revision_number = 0, pc_previous_action_count = 0\<rparr>"

definition ex_policy :: policy_result where
  "ex_policy = decide_by_definition ex_metadata"

definition ex_proposal :: action_proposal where
  "ex_proposal = \<lparr>ap_action_name = ''update_campaign_metadata'', ap_arguments = ex_arguments,
     ap_rationale_summary = ''tone''\<rparr>"

definition ex_manager :: authenticated_actor where
  "ex_manager = \<lparr>actor_id = ''mia'', actor_role = UR_MANAGER\<rparr>"

lemma ex_name_allowed: "\<not> is_forbidden_alias ''update_campaign_metadata''"
  by code_simp

lemma ex_arguments_clean: "\<not> contains_nested_danger ex_arguments"
  by code_simp

lemma ex_arguments_parsed:
  "metadata_model strict_coercions ex_arguments =
     Some (UpdateCampaignMetadataInput \<lparr>si_campaign_id = ''launch'', si_workflow_id = 1, si_revision_number = 0\<rparr>
       \<lparr>mu_tone = Some ''calm'', mu_target_audience = None, mu_promotion = None\<rparr>)"
  by code_simp

lemma ex_evaluate:
  assumes "pc_action_name ctx = ''update_campaign_metadata''" "pc_arguments ctx = ex_arguments"
    "pc_campaign_status ctx = CS_RECEIVED" "pc_workflow_status ctx = CS_RECEIVED"
    "pc_campaign_id ctx = ''launch''" "pc_workflow_id ctx = 1" "pc_revision_number ctx = 0"
  shows "evaluate strict_coercions ctx (Some ex_metadata) = ex_policy"
proof -
  have "pc_agent_name ctx \<in> set all_agents" by (cases "pc_agent_name ctx") (simp_all add: all_agents_def)
  then show ?thesis
    using assms ex_name_allowed ex_arguments_clean ex_arguments_parsed
    by (simp add: evaluate_def ex_policy_def ex_metadata_def approval_definition_def in_scope_def)
qed

subsection \<open>The states\<close>

definition ex_requested :: action_request_row where
  "ex_requested = proposed_row ex_services ex_env ex_proposal ''key'' ex_policy ex_context"

definition ex_approved :: action_request_row where
  "ex_approved = ex_requested\<lparr>q_status := AQ_APPROVED, q_approved_by := Some ''mia'',
     q_approved_role := Some UR_MANAGER, q_approved_at := Some 10, q_version := 2\<rparr>"

definition ex_started :: app_db where "ex_started = ex_db ex_workflow ex_campaign"
definition ex_proposed :: app_db where "ex_proposed = ex_started\<lparr>requests := [ex_requested]\<rparr>"
definition ex_decided :: app_db where "ex_decided = ex_started\<lparr>requests := [ex_approved]\<rparr>"

lemma ex_requested_simps [simp]:
  "q_id ex_requested = 1" "q_status ex_requested = AQ_PENDING_APPROVAL" "q_version ex_requested = 1"
  "q_agent_name ex_requested = AN_BRIEF_ANALYST" "q_required_role ex_requested = Some UR_MANAGER"
  "q_expires_at ex_requested = Some (env_now ex_env + seconds 3600)" "q_campaign_id ex_requested = ''launch''"
  "q_workflow_id ex_requested = 1" "q_arguments ex_requested = ex_arguments"
  "q_action_name ex_requested = ''update_campaign_metadata''" "q_policy_decision ex_requested = PD_APPROVAL_REQUIRED"
  "q_idempotency_key ex_requested = ''key''"
  by (simp_all add: ex_requested_def proposed_row_def new_request_def ex_policy_def ex_metadata_def
      decide_by_definition_def approval_definition_def ex_context_def ex_proposal_def ex_env_def or_int_def Let_def)

lemma ex_propose:
  "create_proposal ex_services ex_env ex_proposal ''key'' ex_policy ex_context ex_started =
     Inr ((ex_requested, True), ex_proposed)"
proof -
  have "request_checks ex_requested" by (simp add: request_checks_def)
  then show ?thesis
    by (simp add: create_proposal_def find_request_by_key_def ex_started_def ex_proposed_def ex_db_def
        no_rows_def ex_requested_def Let_def table_simps)
qed

lemma ex_approve: "approve_transaction 10 ex_requested ex_manager 1 ex_proposed = (Inr (), ex_decided)"
proof -
  have "check_decidable ex_manager 1 ex_requested = Inr ()"
    by (simp add: check_decidable_Inr ex_manager_def role_satisfies_some role_or_admin_def level_or_def)
  then show ?thesis
    by (simp add: approve_transaction_def ex_env_def seconds_def repo_approve_def versioned_update_def ex_proposed_def
        table_simps ex_decided_def ex_approved_def put_request_def t_put_def ex_manager_def)
qed

lemma ex_history: "action_history ex_services co [ex_decided, ex_proposed, ex_started]"
proof -
  have "action_history ex_services co [ex_started]"
    by (rule Begin) (simp_all add: ex_started_def ex_db_def no_rows_def)
  then have h: "action_history ex_services co [ex_proposed, ex_started]"
    by (rule Continue) (rule Step_propose [OF ex_propose])
  have "get_request ex_proposed 1 = Some ex_requested"
    by (simp add: ex_proposed_def table_simps)
  then have "action_step ex_services co (set [ex_proposed, ex_started]) ex_proposed ex_decided"
    using Step_approve [OF _ _ ex_approve, of ex_proposed _ 1] by simp
  then show ?thesis by (rule Continue [OF h])
qed

lemma ex_reserve:
  "\<exists>rv db'. reserve ex_services strict_coercions ex_registry ex_env 1 (Some 2) ex_decided = (Inr rv, db')"
proof -
  let ?ctx = "reserve_context ex_campaign ex_workflow ex_approved ex_decided"
  let ?q = "latest_policy (env_now ex_env) ex_policy ?ctx None None ex_approved"
  have q: "q_id ex_approved = 1" "q_status ex_approved = AQ_APPROVED" "q_version ex_approved = 2"
    "q_campaign_id ex_approved = ''launch''" "q_workflow_id ex_approved = 1"
    "q_approved_by ex_approved = Some ''mia''" "q_approved_role ex_approved = Some UR_MANAGER"
    "q_expires_at ex_approved = Some (env_now ex_env + seconds 3600)"
    "q_action_name ex_approved = ''update_campaign_metadata''" "q_arguments ex_approved = ex_arguments"
    "q_policy_decision ex_approved = PD_APPROVAL_REQUIRED"
    by (simp_all add: ex_approved_def)
  have rows: "reserve_rows 1 ex_decided = Inr (ex_campaign, ex_workflow, ex_approved)"
    using q by (simp add: reserve_rows_def ex_decided_def ex_started_def ex_db_def no_rows_def table_simps
        required_def require_def)
  have "c_status ex_campaign = CS_RECEIVED" by (simp add: ex_campaign_def new_campaign_def)
  then have p: "evaluate strict_coercions ?ctx (map_of ex_registry (q_action_name ex_approved)) = ex_policy"
    using q ex_evaluate by (simp add: ex_registry_def reserve_context_def)
  have checks: "request_checks ?q" "request_checks (moved_request AQ_EXECUTING ?q)"
    by (simp_all add: request_checks_def ex_approved_def latest_policy_def moved_request_def)
  have xcheck: "execution_checks (running_execution (env_now ex_env) (new_execution ex_env 1 k g))" for k g
    by (simp add: execution_checks_def running_execution_def new_execution_def)
  have "pr_decision ex_policy = PD_APPROVAL_REQUIRED" "pr_required_role ex_policy = Some UR_MANAGER"
    by (simp_all add: ex_policy_def ex_metadata_def decide_by_definition_def approval_definition_def)
  then have "\<exists>rv db'. reserve_decide ex_services ex_env (Some ex_metadata) ?ctx ex_policy
      (reserve_guard ex_campaign ex_workflow) ?q ex_decided = (Inr rv, db')"
    using q checks xcheck
    by (auto simp: reserve_decide_def Let_def seconds_def latest_policy_def role_satisfies_some level_or_def
        flush_request_def reserve_execution_def find_execution_by_key_def execution_conflicts_def ex_decided_def
        ex_started_def ex_db_def no_rows_def flush_execution_def)
  moreover have "map_of ex_registry (q_action_name ex_approved) = Some ex_metadata"
    using q by (simp add: ex_registry_def)
  ultimately show ?thesis
    using rows q p by (simp add: reserve_def reserve_status_def Let_def)
qed

end
