(* ===== verification/Action_Properties.thy ===== *)
theory Action_Properties
  imports Action_Example
begin

text \<open>The properties of the action services.\<close>

subsection \<open>Closed requests\<close>

definition keeps_closed :: "app_db \<Rightarrow> app_db \<Rightarrow> bool" where
  "keeps_closed d db \<longleftrightarrow>
     (\<forall>q \<in> set (requests d). request_closed (q_status q) \<longrightarrow>
        (\<exists>q' \<in> set (requests db). same_request q q' \<and> q_status q' = q_status q))"

lemma keeps_closed_refl: "keeps_closed d d"
  unfolding keeps_closed_def using same_request_refl by blast

lemma keeps_closed_trans: "keeps_closed a b \<Longrightarrow> keeps_closed b c \<Longrightarrow> keeps_closed a c"
  unfolding keeps_closed_def by (metis same_request_trans)

lemma keeps_closed_put:
  assumes "action_inv db" and "q \<in> set (requests db)" and "same_request q q'"
    and "requests db' = t_put q_id (requests db) q'"
    and "q_status q' = q_status q \<or> request_moves (q_status q) (q_status q')"
  shows "keeps_closed db db'"
  unfolding keeps_closed_def
proof (intro ballI impI)
  fix r assume r: "r \<in> set (requests db)" "request_closed (q_status r)"
  have rows: "set (requests db') = insert q' (set (requests db) - {q})"
    using put_request_keys(3) [OF assms(1-3)] assms(4) by simp
  show "\<exists>r' \<in> set (requests db'). same_request r r' \<and> q_status r' = q_status r"
  proof (cases "r = q")
    case True
    then have "q_status q' = q_status q" using r(2) assms(5) request_life.final_stuck by blast
    then show ?thesis using True rows assms(3) by auto
  next
    case False
    then show ?thesis using r(1) rows same_request_refl [of r] by blast
  qed
qed

lemma keeps_closed_same: "requests db' = requests db \<Longrightarrow> keeps_closed db db'"
  using keeps_closed_refl by (simp add: keeps_closed_def)

lemma action_change_keeps_closed:
  assumes "action_change db db'" and "action_inv db"
  shows "keeps_closed db db'"
  using assms
proof (induction rule: action_change.induct)
  case (Propose q db db')
  have "set (requests db) \<subseteq> set (requests db')" using Propose by auto
  then show ?case unfolding keeps_closed_def using same_request_refl by blast
next
  case (Update q db q' db')
  then show ?case by (intro keeps_closed_put [of db q q' db']) (auto simp: request_update_def)
next
  case (Start q db q' x db')
  then show ?case
    by (intro keeps_closed_put [of db q q' db']) (auto simp: request_starts_def request_moves_def)
next
  case (Finish q db x x' s db')
  have "q_status q = AQ_EXECUTING"
    using execution_status(1) [OF Finish.prems Finish(1,2,3)] Finish(4) by simp
  moreover have "s \<in> {AQ_COMPLETED, AQ_FAILED}"
    using Finish(6,8) by (cases "x_status x'") (auto simp: terminal_execution_def)
  ultimately show ?case using Finish
    by (intro keeps_closed_put [of db q "moved_request s q" db']) (auto simp: request_moves_def)
qed (auto intro: keeps_closed_same simp: same_actions_def)

lemma history_keeps_closed:
  "action_history sv co (db # h) \<Longrightarrow> \<forall>d \<in> set (db # h). keeps_closed d db"
proof (induction "db # h" arbitrary: db h rule: action_history.induct)
  case (Begin db)
  then show ?case by (simp add: keeps_closed_refl)
next
  case (Continue db h db')
  note h = action_history_inv [OF Continue(1)]
  have "action_change db db'" using action_step_change [OF Continue(3)] h by blast
  then have "keeps_closed db db'" using action_change_keeps_closed h by blast
  then show ?case using Continue(2) keeps_closed_refl keeps_closed_trans by (metis set_ConsD)
qed

subsection \<open>Properties\<close>

text \<open>C3. However proposals, decisions, executions and finalisations of any number of sessions
  interleave, and whatever registry each execution consults: a request that was executed was last
  evaluated as not forbidden under its own name and arguments, was approved where either its first
  or its last evaluation demanded approval, and every approval it has was given by a person (not
  SYSTEM, not the proposing agent) whose role satisfies the demanded one.\<close>

theorem executed_requests_were_authorized:
  assumes "action_history sv co (db # h)" and "q \<in> set (requests db)" and "was_executed q"
  shows "lp_decision (q_last_policy q) \<noteq> PD_FORBIDDEN \<and>
    \<not> is_forbidden_alias (q_action_name q) \<and> \<not> contains_nested_danger (q_arguments q) \<and>
    (q_policy_decision q = PD_APPROVAL_REQUIRED \<or> lp_decision (q_last_policy q) = PD_APPROVAL_REQUIRED \<longrightarrow>
      (\<exists>a r. q_approved_by q = Some a \<and> q_approved_role q = Some r \<and>
        r \<noteq> UR_SYSTEM \<and> a \<noteq> ''agent:'' @ agent_name_value (q_agent_name q) \<and>
        role_satisfies_requirement (Some r) (Some (role_or_admin (q_required_role q))))) \<and>
    (lp_decision (q_last_policy q) = PD_APPROVAL_REQUIRED \<longrightarrow>
      role_satisfies_requirement (q_approved_role q) (lp_required_role (q_last_policy q)))"
proof -
  have "request_ok db q" using action_invD(6) action_history_inv [OF assms(1)] assms(2) by blast
  then show ?thesis using assms(3)
    by (auto simp: request_ok_def authorized_def approved_properly_def split: option.splits)
qed

theorem executed_requests_were_authorized_witness:
  "\<exists>h db q. action_history ex_services strict_coercions (db # h) \<and> q \<in> set (requests db) \<and> was_executed q \<and>
     lp_decision (q_last_policy q) \<noteq> PD_FORBIDDEN"
proof -
  obtain rv db' where res: "reserve ex_services strict_coercions ex_registry ex_env 1 (Some 2) ex_decided = (Inr rv, db')"
    using ex_reserve by blast
  have new: "get_execution ex_decided (env_row_id ex_env) = None"
    by (simp add: ex_decided_def ex_started_def ex_db_def no_rows_def table_simps)
  have h: "action_history ex_services strict_coercions (db' # [ex_decided, ex_proposed, ex_started])"
    by (rule Continue [OF ex_history Step_reserve [OF res new]])
  obtain x where "x \<in> set (executions db')" "x_action_request_id x = 1" "x_status x = AX_RUNNING"
    using reserve_Inr(3) [OF res new] get_executionD by (auto simp: running_def)
  then obtain q where "q \<in> set (requests db')" "q_status q = AQ_EXECUTING"
    using action_invD(7) [OF action_history_inv [OF h, THEN conjunct1]] by (force simp: execution_ok_def)
  then show ?thesis using h executed_requests_were_authorized [OF h, of q] by (auto simp: was_executed_def)
qed

text \<open>C4. A request is executed at most once: no two executions belong to one request or share an
  idempotency key, the request of an execution is EXECUTING, COMPLETED or FAILED exactly as the
  execution is RUNNING, COMPLETED, or FAILED or CANCELLED, and every executed request has its
  execution.\<close>

theorem requests_execute_once:
  assumes "action_history sv co (db # h)"
  shows "distinct (map x_action_request_id (executions db)) \<and> distinct (map x_idempotency_key (executions db)) \<and>
    (\<forall>x \<in> set (executions db). \<exists>q \<in> set (requests db). x_action_request_id x = q_id q \<and>
       x_idempotency_key x = q_idempotency_key q \<and> request_outcome (x_status x) = Some (q_status q)) \<and>
    (\<forall>q \<in> set (requests db). was_executed q \<longrightarrow> (\<exists>x \<in> set (executions db). x_action_request_id x = q_id q))"
proof -
  note inv = action_history_inv [OF assms, THEN conjunct1]
  have "\<forall>x \<in> set (executions db). \<exists>q \<in> set (requests db). x_action_request_id x = q_id q \<and>
       x_idempotency_key x = q_idempotency_key q \<and> request_outcome (x_status x) = Some (q_status q)"
    using action_invD(7) [OF inv] by (auto simp: execution_ok_def execution_of_def)
  moreover have "\<forall>q \<in> set (requests db). was_executed q \<longrightarrow> (\<exists>x \<in> set (executions db). x_action_request_id x = q_id q)"
    using action_invD(6) [OF inv] by (force simp: request_ok_def)
  ultimately show ?thesis using action_invD(4,5) [OF inv] by blast
qed

theorem requests_execute_once_witness:
  "distinct (map x_action_request_id (executions ex_decided))"
  using requests_execute_once [OF ex_history [of strict_coercions]] by blast

text \<open>
  The rows of both action tables are well formed in every state. The flushes of the model refuse a row
  that breaks a CHECK constraint, so for the rows written through them this holds by the database;
  what the code has to do with it is when a flush fails, which \<open>constraints_fail_only_when_escalated\<close>
  settles.
\<close>

lemma action_rows_well_formed:
  assumes "action_history sv co (db # h)"
  shows "distinct (map q_id (requests db)) \<and> distinct (map q_idempotency_key (requests db)) \<and>
    distinct (map x_id (executions db)) \<and>
    (\<forall>q \<in> set (requests db). request_checks q) \<and> (\<forall>x \<in> set (executions db). execution_checks x)"
proof -
  note inv = action_history_inv [OF assms, THEN conjunct1]
  show ?thesis using action_invD [OF inv] by (auto simp: request_ok_def execution_ok_def)
qed

lemma error_classes [simp]:
  "action_error c m \<noteq> integrity_error" "integrity_error \<noteq> action_error c m"
  by (simp_all add: action_error_def integrity_error_def)

lemma commit_and_raise_fails: "\<not> request_checks q \<Longrightarrow> commit_and_raise (q # qs) e db = (Inl integrity_error, db)"
  by (simp add: commit_and_raise_def flush_request_def)

lemma commit_and_raise_passes: "list_all request_checks qs \<Longrightarrow> fst (commit_and_raise qs e db) = Inl e"
proof -
  have "list_all request_checks qs \<Longrightarrow> \<exists>db'. flush_rows qs db = Inr db'"
    by (induction qs arbitrary: db) (simp_all add: flush_request_def)
  then show "list_all request_checks qs \<Longrightarrow> fst (commit_and_raise qs e db) = Inl e"
    by (auto simp: commit_and_raise_def)
qed

text \<open>What the policy columns of a sound row may break is the constraint on pending requests.\<close>

definition escalated :: "policy_result \<Rightarrow> action_request_row \<Rightarrow> bool" where
  "escalated p q \<longleftrightarrow> q_status q = AQ_PENDING_APPROVAL \<and> q_policy_decision q \<noteq> PD_APPROVAL_REQUIRED \<and>
     pr_decision p \<noteq> PD_APPROVAL_REQUIRED"

lemma checks_latest_policy:
  assumes "request_checks q"
  shows "request_checks (latest_policy now p ctx c m q) \<longleftrightarrow> \<not> escalated p q"
  using assms by (auto simp: request_checks_def escalated_def latest_policy_def policy_columns_of_def)

lemma checks_rejected: "request_checks q \<Longrightarrow> request_checks (rejected_after_reevaluation now m q)"
  by (simp add: request_checks_def rejected_after_reevaluation_def)

lemma checks_pending:
  "request_checks q \<Longrightarrow> q_status q = AQ_PROPOSED \<Longrightarrow> lp_decision (q_last_policy q) = PD_APPROVAL_REQUIRED \<Longrightarrow>
     request_checks (pending_approval t q)"
  by (auto simp: request_checks_def pending_approval_def)

lemma checks_new_execution: "execution_checks (running_execution now (new_execution env k key g))"
  by (simp add: execution_checks_def running_execution_def new_execution_def)

lemma reserve_execution_passes:
  assumes "request_checks q" and "q_status q \<in> {AQ_PROPOSED, AQ_APPROVED}"
  shows "reserve_execution env found q g db \<noteq> Inl integrity_error"
proof -
  have "request_checks (moved_request AQ_EXECUTING q)"
    using assms by (auto simp: request_checks_def moved_request_def)
  then show ?thesis
    by (auto simp: reserve_execution_def Let_def flush_execution_def flush_request_def checks_new_execution
        and_then_def require_def required_def split: sum.splits option.splits if_splits)
qed
lemma reserve_decide_passes:
  assumes q: "request_checks q" and last: "lp_decision (q_last_policy q) = pr_decision p"
  shows "fst (reserve_decide sv env found ctx p g q db) \<noteq> Inl integrity_error"
proof -
  have "\<not> escalated p q" using assms by (auto simp: request_checks_def escalated_def)
  then have fresh: "request_checks (latest_policy now p ctx c m q)" for now c m
    using checks_latest_policy [OF q] by simp
  have pending: "request_checks (pending_approval t (latest_policy now p ctx c m q))"
    if "pr_decision p = PD_APPROVAL_REQUIRED" "q_status q = AQ_PROPOSED" for t now c m
    by (rule checks_pending) (use fresh that in simp_all)
  have run: "x \<noteq> integrity_error"
    if "reserve_execution env found q g d = Inl x" "q_status q = AQ_PROPOSED \<or> q_status q = AQ_APPROVED" for d x
    using reserve_execution_passes [OF q] that by auto
  show ?thesis
    by (auto simp: reserve_decide_def Let_def commit_and_raise_passes fresh checks_rejected pending q flush_request_def
        split: sum.splits dest: run)
qed

lemma reserve_decide_fails:
  "\<not> request_checks q \<Longrightarrow> fst (reserve_decide sv env found ctx p g q db) = Inl integrity_error"
  by (simp add: reserve_decide_def Let_def commit_and_raise_fails flush_request_def)

text \<open>The request an execution call finds executable, and what the policy now says of it.\<close>

definition found_escalated :: "coercions \<Rightarrow> action_registry \<Rightarrow> uuid \<Rightarrow> int option \<Rightarrow> app_db \<Rightarrow> bool" where
  "found_escalated co reg k expected db \<longleftrightarrow>
     (case reserve_rows k db of Inl _ \<Rightarrow> False
      | Inr (c, w, q) \<Rightarrow> reserve_status expected q = Inr () \<and>
          escalated (evaluate co (reserve_context c w q db) (map_of reg (q_action_name q))) q)"

lemma reserve_errors [simp]:
  "reserve_rows k db \<noteq> Inl integrity_error" "reserve_status expected q \<noteq> Inl integrity_error"
  by (auto simp: reserve_rows_def reserve_status_def and_then_def required_def require_def split: option.splits if_splits sum.splits)

lemma reserve_integrity_error:
  assumes "action_inv db"
  shows "fst (reserve sv co reg env k expected db) = Inl integrity_error \<longleftrightarrow> found_escalated co reg k expected db"
proof (cases "reserve_rows k db")
  case (Inr cwq)
  then obtain c w q where rows: "reserve_rows k db = Inr (c, w, q)" by (cases cwq) auto
  then have "q \<in> set (requests db)" by (auto simp: reserve_rows_def result_simps dest: get_requestD)
  then have q: "request_checks q" using action_invD(6) [OF assms] by (simp add: request_ok_def)
  show ?thesis
  proof (cases "reserve_status expected q")
    case (Inl x)
    then show ?thesis using rows reserve_errors(2) [of expected q] by (auto simp: reserve_def found_escalated_def)
  next
    case status: (Inr u)
    define p where "p = evaluate co (reserve_context c w q db) (map_of reg (q_action_name q))"
    let ?q = "latest_policy (env_now env) p (reserve_context c w q db) None None q"
    have "reserve sv co reg env k expected db =
        reserve_decide sv env (map_of reg (q_action_name q)) (reserve_context c w q db) p (reserve_guard c w) ?q db"
      using rows status by (simp add: reserve_def Let_def p_def)
    moreover have "request_checks ?q \<longleftrightarrow> \<not> escalated p q" by (rule checks_latest_policy [OF q])
    ultimately show ?thesis
      using rows status reserve_decide_fails [of ?q] reserve_decide_passes [of ?q p]
      by (auto simp: found_escalated_def p_def)
  qed
qed (use reserve_errors(1) [of k db] in \<open>auto simp: reserve_def found_escalated_def\<close>)

lemma proposal_passes: "get_request db (env_row_id env) = None \<Longrightarrow> \<exists>r. create_proposal sv env proposal key p ctx db = Inr r"
proof -
  have "request_checks (proposed_row sv env proposal key p ctx)"
    by (cases "pr_decision p") (simp_all add: proposed_row_def Let_def new_request_def request_checks_def policy_columns_of_def)
  moreover have "q_id (proposed_row sv env proposal key p ctx) = env_row_id env"
    by (cases "pr_decision p") (simp_all add: proposed_row_def Let_def new_request_def)
  ultimately show "get_request db (env_row_id env) = None \<Longrightarrow> ?thesis"
    by (auto simp: create_proposal_def Let_def split: option.split)
qed

lemma memory_steps_pass:
  assumes "action_inv db"
  shows "memory_attempt k xk db \<noteq> Inl integrity_error" and "mark_memory_recorded now xk db \<noteq> Inl integrity_error"
    and "\<exists>r. memory_failure sv env k xk e db = Inr r"
proof -
  have x: "execution_checks x" if "get_execution db xk = Some x" for x
    using action_invD(7) [OF assms] get_executionD [OF that] by (simp add: execution_ok_def)
  have marks: "execution_checks (memory_attempt_started x)" "execution_checks (memory_recorded now x)"
    "execution_checks (memory_failed c m x)" if "execution_checks x" for x c m
    using that by (simp_all add: execution_checks_def memory_attempt_started_def memory_recorded_def memory_failed_def)
  show "memory_attempt k xk db \<noteq> Inl integrity_error" "mark_memory_recorded now xk db \<noteq> Inl integrity_error"
    using x marks by (auto simp: memory_attempt_def mark_memory_recorded_def flush_execution_def and_then_def required_def require_def
        split: option.splits sum.splits if_splits)
  have published: "\<exists>r. add_outbox_event sv env (reconciliation_event k xk c) d = Inr r" for c d
    by (rule add_outbox_event_Inr) (simp add: reconciliation_event_def)
  show "\<exists>r. memory_failure sv env k xk e db = Inr r"
  proof (cases "get_execution db xk")
    case (Some y)
    obtain db1 where "flush_execution (memory_failed (memory_failure_code e) (memory_failure_message e) y) db = Inr db1"
      using marks(3) [OF x [OF Some]] by (simp add: flush_execution_def)
    moreover obtain db2 where "add_outbox_event sv env (reconciliation_event k xk (memory_failure_code e)) db1 = Inr db2"
      using published by blast
    ultimately show ?thesis using Some by (simp add: memory_failure_def)
  qed (simp add: memory_failure_def)
qed

text \<open>How an execution may end: with the rows the three finalisations write and their events.\<close>

definition finalisation_passes :: "services \<Rightarrow> call_env \<Rightarrow> int \<Rightarrow> app_db \<Rightarrow> execution_row \<Rightarrow> bool" where
  "finalisation_passes sv env d db x \<longleftrightarrow>
     (\<forall>summary. \<exists>r. finalize_rows (x_action_request_id x) (x_id x) (completed_execution (env_now env) summary d) AQ_COMPLETED
        (\<lambda>x q. add_outbox_event sv env (execution_event OE_ACTION_COMPLETED x q [] '':completed'')) db = Inr r) \<and>
     (\<forall>code message. \<exists>r. finalize_rows (x_action_request_id x) (x_id x) (failed_execution (env_now env) code message d) AQ_FAILED
        (\<lambda>x q. add_outbox_event sv env (execution_event OE_ACTION_FAILED x q [(''error_code'', JStr code)] '':failed'')) db = Inr r) \<and>
     (\<forall>message. \<exists>r. finalize_rows (x_action_request_id x) (x_id x) (cancelled_execution (env_now env) message d) AQ_FAILED
        (\<lambda>x q db. Inr db) db = Inr r)"

lemma running_execution_finalises:
  assumes inv: "action_inv db" and x: "x \<in> set (executions db)" "x_status x = AX_RUNNING" and d: "0 \<le> d"
  shows "finalisation_passes sv env d db x"
proof -
  have "get_execution db (x_id x) = Some x" using t_get_in_set [OF action_invD(3) [OF inv] x(1)] .
  then have "running (x_action_request_id x) (x_id x) db" using x(2) by (auto simp: running_def)
  then have pass: "\<exists>r. finalize_rows (x_action_request_id x) (x_id x) change s publish db = Inr r"
    if "ends_execution change s" "good_end change" "s \<in> {AQ_COMPLETED, AQ_FAILED}" "quiet_publish publish"
      "\<And>x q db. \<exists>db'. publish x q db = Inr db'" for change s publish
    using finalize_rows_ends [OF inv _ that] by (fastforce simp: atomically_def split: sum.splits)
  show ?thesis
    unfolding finalisation_passes_def
    by (intro conjI allI pass) (simp_all add: d execution_event_published)
qed

text \<open>C14. No transaction of the actions breaks a CHECK constraint of \<open>AgentActionRequestModel\<close> or
  \<open>AgentActionExecutionModel\<close> but one. In every state of every history: reserving an execution
  raises the IntegrityError of a constraint if and only if the request was first evaluated as not
  demanding approval, was later sent to approval, is still pending, and is freshly evaluated as not
  demanding it; a proposal can always be stored under an id of its own; a running execution can always be completed,
  failed or cancelled together with its request and the event, whenever its duration is not
  negative; and the marks of its memory are always accepted.\<close>

theorem constraints_fail_only_when_escalated:
  assumes "action_history sv co (db # h)"
  shows "(fst (reserve sv co reg env k expected db) = Inl integrity_error \<longleftrightarrow> found_escalated co reg k expected db) \<and>
    (get_request db (env_row_id env) = None \<longrightarrow> (\<exists>r. create_proposal sv env proposal key p ctx db = Inr r)) \<and>
    (\<forall>x \<in> set (executions db). x_status x = AX_RUNNING \<longrightarrow> 0 \<le> d \<longrightarrow> finalisation_passes sv env d db x) \<and>
    memory_attempt k xk db \<noteq> Inl integrity_error \<and> mark_memory_recorded now xk db \<noteq> Inl integrity_error \<and>
    (\<exists>r. memory_failure sv env k xk e db = Inr r)"
proof -
  note inv = action_history_inv [OF assms, THEN conjunct1]
  show ?thesis
    by (intro conjI ballI impI reserve_integrity_error [OF inv] proposal_passes running_execution_finalises [OF inv]
        memory_steps_pass [OF inv])
qed

text \<open>A reserved execution is one that can be finalised.\<close>

theorem constraints_fail_only_when_escalated_witness:
  "\<exists>rv db x. reserve ex_services strict_coercions ex_registry ex_env 1 (Some 2) ex_decided = (Inr rv, db) \<and>
     x \<in> set (executions db) \<and> x_status x = AX_RUNNING \<and> finalisation_passes ex_services ex_env 5 db x \<and>
     fst (reserve ex_services strict_coercions ex_registry ex_env 1 None db) \<noteq> Inl integrity_error"
proof -
  obtain rv db where res: "reserve ex_services strict_coercions ex_registry ex_env 1 (Some 2) ex_decided = (Inr rv, db)"
    using ex_reserve by blast
  have new: "get_execution ex_decided (env_row_id ex_env) = None"
    by (simp add: ex_decided_def ex_started_def ex_db_def no_rows_def table_simps)
  have h: "action_history ex_services strict_coercions (db # [ex_decided, ex_proposed, ex_started])"
    by (rule Continue [OF ex_history Step_reserve [OF res new]])
  obtain x where x: "x \<in> set (executions db)" "x_action_request_id x = 1" "x_status x = AX_RUNNING"
    using reserve_Inr(3) [OF res new] get_executionD by (auto simp: running_def)
  have inv: "action_inv db" using action_history_inv [OF h] by blast
  obtain q where q: "q \<in> set (requests db)" "q_id q = 1" "q_status q = AQ_EXECUTING"
    using action_invD(7) [OF inv] x by (force simp: execution_ok_def execution_of_def)
  then have "get_request db 1 = Some q" using t_get_in_set [OF action_invD(1) [OF inv] q(1)] by simp
  then have "\<not> found_escalated strict_coercions ex_registry 1 None db"
    using q(3) by (auto simp: found_escalated_def reserve_rows_def escalated_def result_simps split: sum.split)
  then show ?thesis
    using res x constraints_fail_only_when_escalated [OF h, of ex_registry ex_env 1 None, where d = 5] by fastforce
qed

text \<open>A request that was rejected, expired, completed or failed keeps that status, and all the
  columns that say what was asked for, in every later state of any history.\<close>

theorem closed_requests_stay_closed:
  assumes "action_history sv co (db # h)" and "d \<in> set h" and "q \<in> set (requests d)"
    and "q_status q \<in> {AQ_REJECTED, AQ_EXPIRED, AQ_COMPLETED, AQ_FAILED}"
  shows "\<exists>q' \<in> set (requests db). same_request q q' \<and> q_status q' = q_status q"
  using history_keeps_closed [OF assms(1)] assms(2-4)
  by (auto simp: keeps_closed_def request_closed_def)

theorem closed_requests_stay_closed_witness:
  "\<exists>h db q'. action_history ex_services strict_coercions (db # h) \<and> q' \<in> set (requests db) \<and>
     q_id q' = 1 \<and> q_status q' = AQ_REJECTED"
proof -
  let ?q = "ex_requested\<lparr>q_status := AQ_REJECTED, q_rejected_by := Some ''mia'', q_rejected_at := Some 10,
    q_rejection_reason := Some (sanitize_text 1000 ''no''), q_version := 2\<rparr>"
  let ?db = "ex_proposed\<lparr>requests := [?q]\<rparr>"
  have "check_decidable ex_manager 1 ex_requested = Inr ()"
    by (simp add: check_decidable_Inr ex_manager_def role_satisfies_some role_or_admin_def level_or_def)
  then have run: "reject_transaction 10 ex_requested ex_manager 1 ''no'' ex_proposed = (Inr (), ?db)"
    by (simp add: reject_transaction_def repo_reject_def versioned_update_def ex_proposed_def table_simps
        put_request_def t_put_def ex_manager_def)
  have "action_history ex_services strict_coercions [ex_proposed, ex_started]"
    using ex_history [of strict_coercions] by (cases rule: action_history.cases) auto
  moreover have "get_request ex_proposed 1 = Some ex_requested" by (simp add: ex_proposed_def table_simps)
  then have "action_step ex_services strict_coercions (set [ex_proposed, ex_started]) ex_proposed ?db"
    using Step_reject [OF _ _ run, of ex_proposed _ 1] by simp
  ultimately have "action_history ex_services strict_coercions (?db # [ex_proposed, ex_started])"
    by (rule Continue)
  then have h: "action_history ex_services strict_coercions (?db # ?db # [ex_proposed, ex_started])"
    by (rule Continue) (rule Step_elsewhere, simp add: same_actions_def)
  have "\<exists>q' \<in> set (requests ?db). same_request ?q q' \<and> q_status q' = q_status ?q"
    by (rule closed_requests_stay_closed [OF h, where d = ?db]) simp_all
  then obtain q' where "q' \<in> set (requests ?db)" "q_id q' = 1" "q_status q' = AQ_REJECTED" by auto
  with h show ?thesis by blast
qed

text \<open>C11. Running an action to its end: once the reservation has succeeded, the call leaves the
  execution COMPLETED, FAILED or CANCELLED, whether the handler returns, raises, exceeds its time
  limit or is cancelled, before or after its own commit; and everything the call does is a piece
  of a history of the transactions above.\<close>

theorem reserved_execution_ends:
  assumes "action_history sv co (db # h)" and "quiet_registry reg"
    and "get_execution db (env_row_id (env 0)) = None" and "0 \<le> duration"
    and "reserve sv co reg (env 0) k expected db = (Inr rv, db1)"
    and "execute_action sv co reg env fate duration k expected db = (r, db')"
  shows "(\<exists>x. get_execution db' (env_row_id (env 0)) = Some x \<and> x_action_request_id x = k \<and> terminal_execution x) \<and>
    (\<exists>h'. action_history sv co (db' # h') \<and> set (db # h) \<subseteq> set (db' # h'))"
  using execute_action_ends [OF assms] execute_action_reaches [OF assms(6,2,3,1)] assms(1)
  unfolding ended_def reaches_def by blast

theorem reserved_execution_ends_witness:
  "\<exists>r db'. execute_action ex_services strict_coercions ex_registry (\<lambda>n. ex_env) (Handler_Times_Out True) 5 1 (Some 2)
      ex_decided = (r, db') \<and> (\<exists>x. get_execution db' 1 = Some x \<and> terminal_execution x)"
proof -
  have id: "env_row_id ex_env = 1" by (simp add: ex_env_def)
  have new: "get_execution ex_decided (env_row_id ex_env) = None"
    by (simp add: ex_decided_def ex_started_def ex_db_def no_rows_def table_simps)
  have "quiet_handler ex_metadata"
    unfolding quiet_handler_def ex_metadata_def approval_definition_def apply_metadata_def action_definition.simps
    by (intro allI guard_then_result_same) (erule guard_update_same)
  then have quiet: "quiet_registry ex_registry" by (simp add: quiet_registry_def ex_registry_def)
  obtain rv db1 where res: "reserve ex_services strict_coercions ex_registry ex_env 1 (Some 2) ex_decided = (Inr rv, db1)"
    using ex_reserve by blast
  obtain r db' where run: "execute_action ex_services strict_coercions ex_registry (\<lambda>n. ex_env)
      (Handler_Times_Out True) 5 1 (Some 2) ex_decided = (r, db')" by fastforce
  show ?thesis
    using reserved_execution_ends [OF ex_history quiet new _ res run] run by (auto simp: id)
qed

text \<open>A decision taken on a row that has changed since it was read changes nothing: the approval
  or rejection raises a version conflict, or reports the expiry it read, and leaves the tables as
  they are.\<close>

theorem stale_decision_changes_nothing:
  assumes "get_request db (q_id seen) = Some q" and "q_version q \<noteq> q_version seen"
    and "check_decidable actor v seen = Inr ()"
  shows "(\<exists>e. approve_transaction now seen actor v db = (Inl e, db) \<and>
      exn_cls e \<in> {ActionE ActionVersionConflictError, ActionE ActionExpiredError}) \<and>
    reject_transaction now seen actor v reason db = (Inl stale_version, db)"
proof -
  have "q_version q \<noteq> v" using assms(2,3) by (auto simp: check_decidable_Inr)
  then have "versioned_update (q_id seen) v st f db = (False, db)" for st f
    using assms(1) by (simp add: versioned_update_def)
  then show ?thesis using assms(3)
    by (simp add: approve_transaction_def reject_transaction_def repo_expire_def repo_approve_def repo_reject_def
        stale_version_def action_error_def)
qed

theorem stale_decision_changes_nothing_witness:
  "reject_transaction 10 ex_requested ex_manager 1 ''no'' ex_decided = (Inl stale_version, ex_decided)"
proof -
  have "get_request ex_decided (q_id ex_requested) = Some ex_approved"
    by (simp add: ex_decided_def ex_approved_def table_simps)
  moreover have "q_version ex_approved \<noteq> q_version ex_requested" by (simp add: ex_approved_def)
  moreover have "check_decidable ex_manager 1 ex_requested = Inr ()"
    by (simp add: check_decidable_Inr ex_manager_def role_satisfies_some role_or_admin_def level_or_def)
  ultimately show ?thesis using stale_decision_changes_nothing by blast
qed

subsection \<open>Two limits of the code\<close>

text \<open>
  A revision draft whose feedback and instructions are valid one by one but together do not fit the
  5000 characters of the result always fails after its state has been checked.
\<close>

lemma long_revision_draft_fails:
  assumes "guard_validate g db = Inr (c, db)" and "5000 < length feedback + length instructions"
  shows "prepare_revision (RevisionDraftInput s feedback instructions) g db =
    (Inl (Exn (PyE ValueError) ''InternalActionResult''), db)"
  using assms by (simp add: prepare_revision_def and_session_def atomically_def internal_result_def)

text \<open>
  A request first evaluated as SAFE and later sent to approval cannot be denied: writing the
  forbidding evaluation breaks the constraint on pending requests before the status can change.
\<close>

lemma escalated_request_cannot_be_denied:
  assumes "q_status q = AQ_PENDING_APPROVAL" and "q_policy_decision q = PD_SAFE"
    and "lp_decision (q_last_policy q) = PD_FORBIDDEN" and "pr_decision p = PD_FORBIDDEN"
  shows "reserve_decide sv env found ctx p g q db = (Inl integrity_error, db)"
  using assms
  by (simp add: reserve_decide_def Let_def commit_and_raise_def flush_request_def request_checks_def)

end
