(* ===== verification/Agent_Runs.thy ===== *)
theory Agent_Runs
  imports Campaign_Service
begin

text \<open>
  The audit of agent runs and their tool calls: \<open>app/service/agent_run_service.py\<close> over
  \<open>app/repositories/agent_run_repository.py\<close> and \<open>agent_tool_call_repository.py\<close>. Every
  operation is one transaction; a run and a tool call move along guarded statuses.
\<close>

subsection \<open>Tables\<close>

abbreviation get_tool_call :: "app_db \<Rightarrow> uuid \<Rightarrow> tool_call_row option" where
  "get_tool_call db k \<equiv> t_get tc_id (tool_calls db) k"

definition put_agent_run :: "agent_run_row \<Rightarrow> app_db \<Rightarrow> app_db" where
  "put_agent_run r db = db\<lparr>agent_runs := t_put r_id (agent_runs db) r\<rparr>"

definition put_tool_call :: "tool_call_row \<Rightarrow> app_db \<Rightarrow> app_db" where
  "put_tool_call c db = db\<lparr>tool_calls := t_put tc_id (tool_calls db) c\<rparr>"

interpretation agent_run_table: row_table r_id "t_get r_id" "t_put r_id" by (rule row_table_list)
interpretation tool_call_table: row_table tc_id "t_get tc_id" "t_put tc_id" by (rule row_table_list)

definition active_run :: "agent_run_row \<Rightarrow> bool" where
  "active_run r \<longleftrightarrow> r_status r \<in> {AR_CREATED, AR_RUNNING}"

text \<open>The CHECK constraints of both tables.\<close>

definition run_checks :: "agent_run_row \<Rightarrow> bool" where
  "run_checks r \<longleftrightarrow>
     0 \<le> r_iteration_count r \<and> 0 \<le> r_llm_call_count r \<and> 0 \<le> r_tool_call_count r \<and>
     (active_run r \<longleftrightarrow> r_completed_at r = None)"

definition tool_call_checks :: "tool_call_row \<Rightarrow> bool" where
  "tool_call_checks c \<longleftrightarrow>
     (case tc_duration_ms c of None \<Rightarrow> True | Some n \<Rightarrow> 0 \<le> n) \<and>
     (tc_status c \<in> {TC_REQUESTED, TC_RUNNING} \<longleftrightarrow> tc_completed_at c = None)"

fun agent_run_status_value :: "agent_run_status \<Rightarrow> string" where
  "agent_run_status_value AR_CREATED = ''CREATED''"
| "agent_run_status_value AR_RUNNING = ''RUNNING''"
| "agent_run_status_value AR_COMPLETED = ''COMPLETED''"
| "agent_run_status_value AR_FAILED = ''FAILED''"
| "agent_run_status_value AR_LIMIT_EXCEEDED = ''LIMIT_EXCEEDED''"

fun tool_call_status_value :: "tool_call_status \<Rightarrow> string" where
  "tool_call_status_value TC_REQUESTED = ''REQUESTED''"
| "tool_call_status_value TC_RUNNING = ''RUNNING''"
| "tool_call_status_value TC_COMPLETED = ''COMPLETED''"
| "tool_call_status_value TC_FAILED = ''FAILED''"
| "tool_call_status_value TC_REJECTED = ''REJECTED''"

subsection \<open>Runs\<close>

record agent_run_create =
  ac_workflow_id :: uuid
  ac_campaign_id :: string
  ac_agent_name :: agent_name
  ac_model :: "string option"
  ac_prompt_version :: string
  ac_provider :: "string option"

definition fits :: "nat \<Rightarrow> string option \<Rightarrow> bool" where
  "fits n v = (case v of None \<Rightarrow> True | Some s \<Rightarrow> length s \<le> n)"

definition run_create_ok :: "agent_run_create \<Rightarrow> bool" where
  "run_create_ok p \<longleftrightarrow>
     3 \<le> length (ac_campaign_id p) \<and> length (ac_campaign_id p) \<le> 100 \<and> fits 200 (ac_model p) \<and>
     1 \<le> length (ac_prompt_version p) \<and> length (ac_prompt_version p) \<le> 50 \<and> fits 50 (ac_provider p)"

definition new_run :: "call_env \<Rightarrow> agent_run_create \<Rightarrow> agent_run_row" where
  "new_run env p =
     \<lparr>r_id = env_row_id env, r_workflow_id = ac_workflow_id p, r_campaign_id = ac_campaign_id p,
      r_agent_name = ac_agent_name p, r_status = AR_CREATED, r_model = ac_model p,
      r_prompt_version = ac_prompt_version p, r_provider = ac_provider p, r_iteration_count = 0,
      r_llm_call_count = 0, r_tool_call_count = 0, r_started_at = env_now env, r_completed_at = None,
      r_error_code = None, r_error_message = None\<rparr>"

definition find_active :: "uuid \<Rightarrow> agent_name \<Rightarrow> app_db \<Rightarrow> agent_run_row option" where
  "find_active wk a db =
     find (\<lambda>r. r_workflow_id r = wk \<and> r_agent_name r = a \<and> active_run r) (agent_runs db)"

definition run_already_active :: exn where
  "run_already_active = Exn (AgentE AgentRunAlreadyActiveError) ''Specialist already has an active run''"

text \<open>
  After the check of \<open>find_active\<close> the insertion can only break a foreign key; a concurrent
  insertion meets the unique index and raises the same error as the check.
\<close>

definition create_run :: "call_env \<Rightarrow> agent_run_create \<Rightarrow> app_db \<Rightarrow> (exn, agent_run_row \<times> app_db) res" where
  "create_run env p db =
     and_then (require (run_create_ok p) (Exn (PyE ValueError) ''AgentRunCreate'')) (\<lambda>_.
     and_then (require (find_active (ac_workflow_id p) (ac_agent_name p) db = None) run_already_active) (\<lambda>_.
     and_then (require (get_workflow_row db (ac_workflow_id p) \<noteq> None \<and> get_campaign db (ac_campaign_id p) \<noteq> None)
       (Exn (StoreE PersistenceError) ''Unable to create agent run'')) (\<lambda>_.
     let r = new_run env p in Inr (r, db\<lparr>agent_runs := agent_runs db @ [r]\<rparr>))))"

definition required_run :: "uuid \<Rightarrow> app_db \<Rightarrow> (exn, agent_run_row) res" where
  "required_run k db =
     required (get_agent_run db k) (Exn (AgentE AgentRunNotFoundError) ''Agent run not found'')"

definition require_run_status ::
  "agent_run_row \<Rightarrow> agent_run_status list \<Rightarrow> agent_run_status option \<Rightarrow> (exn, unit) res" where
  "require_run_status r allowed target =
     require (r_status r \<in> set allowed)
       (Exn (AgentE InvalidAgentRunTransitionError)
         (''Agent run cannot transition from '' @ agent_run_status_value (r_status r) @
          (case target of None \<Rightarrow> [] | Some t \<Rightarrow> '' to '' @ agent_run_status_value t)))"

text \<open>Load the run, check its status, write the changed row.\<close>

definition change_run ::
  "uuid \<Rightarrow> agent_run_status list \<Rightarrow> agent_run_status option \<Rightarrow> (agent_run_row \<Rightarrow> agent_run_row) \<Rightarrow> app_db \<Rightarrow>
   (exn, unit \<times> app_db) res" where
  "change_run k allowed target f db =
     and_then (required_run k db) (\<lambda>r.
     and_then (require_run_status r allowed target) (\<lambda>_.
     Inr ((), put_agent_run (f r) db)))"

definition start_run :: "uuid \<Rightarrow> app_db \<Rightarrow> (exn, unit \<times> app_db) res" where
  "start_run k = change_run k [AR_CREATED] (Some AR_RUNNING) (\<lambda>r. r\<lparr>r_status := AR_RUNNING\<rparr>)"

definition record_iteration :: "uuid \<Rightarrow> app_db \<Rightarrow> (exn, unit \<times> app_db) res" where
  "record_iteration k =
     change_run k [AR_RUNNING] None (\<lambda>r. r\<lparr>r_iteration_count := r_iteration_count r + 1\<rparr>)"

definition record_run_llm_call :: "uuid \<Rightarrow> app_db \<Rightarrow> (exn, unit \<times> app_db) res" where
  "record_run_llm_call k =
     change_run k [AR_RUNNING] None (\<lambda>r. r\<lparr>r_llm_call_count := r_llm_call_count r + 1\<rparr>)"

definition finished_run ::
  "time \<Rightarrow> agent_run_status \<Rightarrow> string option \<Rightarrow> string option \<Rightarrow> agent_run_row \<Rightarrow> agent_run_row" where
  "finished_run now status code message r =
     r\<lparr>r_status := status, r_error_code := code, r_error_message := message, r_completed_at := Some now\<rparr>"

definition complete_run :: "time \<Rightarrow> uuid \<Rightarrow> app_db \<Rightarrow> (exn, unit \<times> app_db) res" where
  "complete_run now k =
     change_run k [AR_RUNNING] (Some AR_COMPLETED) (finished_run now AR_COMPLETED None None)"

definition code_or :: "string \<Rightarrow> exn \<Rightarrow> string" where
  "code_or otherwise e = (case error_code (exn_cls e) of Some code \<Rightarrow> code | None \<Rightarrow> otherwise)"

definition fail_run :: "time \<Rightarrow> uuid \<Rightarrow> exn \<Rightarrow> bool \<Rightarrow> app_db \<Rightarrow> (exn, unit \<times> app_db) res" where
  "fail_run now k e limit =
     (let status = (if limit then AR_LIMIT_EXCEEDED else AR_FAILED)
      in change_run k [AR_CREATED, AR_RUNNING] (Some status)
           (finished_run now status (Some (code_or ''AGENT_EXECUTION_ERROR'' e))
             (Some (sanitize_text 2000 (exn_msg e)))))"

subsection \<open>Tool calls\<close>

definition new_tool_call :: "call_env \<Rightarrow> uuid \<Rightarrow> string \<Rightarrow> json \<Rightarrow> tool_call_row" where
  "new_tool_call env run_id tool_name arguments =
     \<lparr>tc_id = env_row_id env, tc_agent_run_id = run_id, tc_tool_name = tool_name, tc_status = TC_REQUESTED,
      tc_arguments = sanitize_json 2000 arguments, tc_result_summary = None, tc_error_code = None,
      tc_error_message = None, tc_started_at = env_now env, tc_completed_at = None, tc_duration_ms = None\<rparr>"

definition create_tool_call ::
  "call_env \<Rightarrow> uuid \<Rightarrow> string \<Rightarrow> json \<Rightarrow> app_db \<Rightarrow> (exn, tool_call_row \<times> app_db) res" where
  "create_tool_call env run_id tool_name arguments db =
     and_then (required_run run_id db) (\<lambda>r.
     and_then (require_run_status r [AR_RUNNING] None) (\<lambda>_.
     let c = new_tool_call env run_id tool_name arguments
     in Inr (c, put_agent_run (r\<lparr>r_tool_call_count := r_tool_call_count r + 1\<rparr>)
          (db\<lparr>tool_calls := tool_calls db @ [c]\<rparr>))))"

definition required_tool_call :: "uuid \<Rightarrow> app_db \<Rightarrow> (exn, tool_call_row) res" where
  "required_tool_call k db =
     required (get_tool_call db k) (Exn (StoreE PersistenceError) ''Agent tool call not found'')"

definition require_tool_status ::
  "tool_call_row \<Rightarrow> tool_call_status list \<Rightarrow> tool_call_status \<Rightarrow> (exn, unit) res" where
  "require_tool_status c allowed target =
     require (tc_status c \<in> set allowed)
       (Exn (AgentE InvalidToolCallTransitionError)
         (''Tool call cannot transition from '' @ tool_call_status_value (tc_status c) @ '' to '' @
          tool_call_status_value target))"

definition start_tool_call :: "uuid \<Rightarrow> app_db \<Rightarrow> (exn, unit \<times> app_db) res" where
  "start_tool_call k db =
     and_then (required_tool_call k db) (\<lambda>c.
     and_then (require_tool_status c [TC_REQUESTED] TC_RUNNING) (\<lambda>_.
     Inr ((), put_tool_call (c\<lparr>tc_status := TC_RUNNING\<rparr>) db)))"

definition finished_tool_call ::
  "time \<Rightarrow> tool_call_status \<Rightarrow> string option \<Rightarrow> exn option \<Rightarrow> int option \<Rightarrow> tool_call_row \<Rightarrow> tool_call_row" where
  "finished_tool_call now status summary e duration c =
     c\<lparr>tc_status := status,
       tc_result_summary := (case summary of None \<Rightarrow> None
         | Some s \<Rightarrow> if s = [] then None else Some (sanitize_text 12000 s)),
       tc_error_code := map_option (code_or ''TOOL_EXECUTION_ERROR'') e,
       tc_error_message := map_option (\<lambda>x. sanitize_text 2000 (exn_msg x)) e,
       tc_duration_ms := duration, tc_completed_at := Some now\<rparr>"

fun finish_allowed :: "tool_call_status \<Rightarrow> tool_call_status list option" where
  "finish_allowed TC_COMPLETED = Some [TC_RUNNING]"
| "finish_allowed TC_REJECTED = Some [TC_REQUESTED]"
| "finish_allowed TC_FAILED = Some [TC_REQUESTED, TC_RUNNING]"
| "finish_allowed _ = None"

definition finish_tool_call ::
  "time \<Rightarrow> uuid \<Rightarrow> tool_call_status \<Rightarrow> string option \<Rightarrow> exn option \<Rightarrow> int option \<Rightarrow> app_db \<Rightarrow>
   (exn, unit \<times> app_db) res" where
  "finish_tool_call now k status summary e duration db =
     and_then (required_tool_call k db) (\<lambda>c.
     and_then (required (finish_allowed status) (Exn (AgentE InvalidToolCallTransitionError)
       (''Tool call cannot finish as '' @ tool_call_status_value status))) (\<lambda>allowed.
     and_then (require_tool_status c allowed status) (\<lambda>_.
     Inr ((), put_tool_call (finished_tool_call now status summary e duration c) db))))"

subsection \<open>Reading\<close>

definition get_run :: "uuid \<Rightarrow> app_db \<Rightarrow> (exn, agent_run_row) res" where
  "get_run = required_run"

definition list_runs :: "int \<Rightarrow> int \<Rightarrow> uuid option \<Rightarrow> string option \<Rightarrow> app_db \<Rightarrow> agent_run_row list" where
  "list_runs limit offset workflow_id campaign_id db =
     order_page (\<lambda>r. (- r_started_at r, - int (r_id r))) (clamp 1 100 limit) (max offset 0)
       (filter (\<lambda>r. (workflow_id = None \<or> workflow_id = Some (r_workflow_id r)) \<and>
          (campaign_id = None \<or> campaign_id = Some (r_campaign_id r))) (agent_runs db))"

definition list_tool_calls :: "uuid \<Rightarrow> app_db \<Rightarrow> (exn, tool_call_row list) res" where
  "list_tool_calls run_id db =
     and_then (required_run run_id db) (\<lambda>_.
     Inr (sort_key (\<lambda>c. (tc_started_at c, tc_id c)) (filter (\<lambda>c. tc_agent_run_id c = run_id) (tool_calls db))))"

definition list_workflow_runs :: "uuid \<Rightarrow> int \<Rightarrow> int \<Rightarrow> app_db \<Rightarrow> (exn, agent_run_row list) res" where
  "list_workflow_runs k limit offset db =
     (if get_workflow_row db k = None then Inl (Exn (CoreE WorkflowNotFoundError) ''Workflow not found'')
      else Inr (list_runs limit offset (Some k) None db))"

definition list_campaign_runs :: "string \<Rightarrow> int \<Rightarrow> int \<Rightarrow> app_db \<Rightarrow> (exn, agent_run_row list) res" where
  "list_campaign_runs k limit offset db =
     (if get_campaign db k = None then Inl (Exn (CoreE CampaignNotFoundError) ''Campaign not found'')
      else Inr (list_runs limit offset None (Some k) db))"

subsection \<open>What an operation leaves alone\<close>

lemma put_run_simps [simp]:
  "tool_calls (put_agent_run r db) = tool_calls db" "agent_runs (put_tool_call c db) = agent_runs db"
  "campaigns (put_agent_run r db) = campaigns db" "campaigns (put_tool_call c db) = campaigns db"
  "workflows (put_agent_run r db) = workflows db" "workflows (put_tool_call c db) = workflows db"
  "approvals (put_agent_run r db) = approvals db" "approvals (put_tool_call c db) = approvals db"
  "requests (put_agent_run r db) = requests db" "requests (put_tool_call c db) = requests db"
  "executions (put_agent_run r db) = executions db" "executions (put_tool_call c db) = executions db"
  by (simp_all add: put_agent_run_def put_tool_call_def)

lemma get_put_run:
  "get_agent_run db k = Some r0 \<Longrightarrow> r_id r = k \<Longrightarrow> get_agent_run (put_agent_run r db) k = Some r"
  by (simp add: put_agent_run_def agent_run_table.get_put_same)

lemma get_put_run_other: "r_id r \<noteq> k \<Longrightarrow> get_agent_run (put_agent_run r db) k = get_agent_run db k"
  by (simp add: put_agent_run_def agent_run_table.get_put_other)

lemma get_put_tool_call:
  "get_tool_call db k = Some c0 \<Longrightarrow> tc_id c = k \<Longrightarrow> get_tool_call (put_tool_call c db) k = Some c"
  by (simp add: put_tool_call_def tool_call_table.get_put_same)

lemma require_run_status_Inr: "require_run_status r allowed t = Inr u \<longleftrightarrow> r_status r \<in> set allowed"
  by (simp add: require_run_status_def require_iff)

lemma change_run_Inr:
  "change_run k allowed t f db = Inr (u, db') \<longleftrightarrow>
     (\<exists>r. get_agent_run db k = Some r \<and> r_status r \<in> set allowed \<and> db' = put_agent_run (f r) db)"
  by (auto simp: change_run_def required_run_def result_simps require_run_status_Inr)

end
