(* ===== verification/Content_Schemas.thy ===== *)
theory Content_Schemas
  imports Policy Campaign_Workflow "HOL-Library.Monad_Syntax"
begin

text \<open>
  The schemas of a campaign and of the agents' outputs (\<open>app/schemas/campaign.py\<close>): for each
  model a record, its validation from JSON and its JSON form. A model forbids other fields and
  strips its texts; the reading of a single value is the parameter \<open>coercions\<close>.
\<close>

named_theorems schema_simps \<open>reading fields back from the JSON form of a model\<close>

subsection \<open>Fields\<close>

definition model_fields :: "string list \<Rightarrow> json \<Rightarrow> fields option" where
  "model_fields names v =
     (case v of JObj es \<Rightarrow> if list_all (\<lambda>(k, _). k \<in> set names) es then Some es else None | _ \<Rightarrow> None)"

fun all_some :: "'a option list \<Rightarrow> 'a list option" where
  "all_some [] = Some []"
| "all_some (x # xs) = do {y \<leftarrow> x; ys \<leftarrow> all_some xs; Some (y # ys)}"

text \<open>\<open>list[str]\<close> with the default of an empty list; the texts are stripped.\<close>

definition texts :: "coercions \<Rightarrow> json \<Rightarrow> string list option" where
  "texts co v =
     (case v of JList vs \<Rightarrow> all_some (map (\<lambda>x. map_option strip (co_str co x)) vs) | _ \<Rightarrow> None)"

definition texts_field :: "coercions \<Rightarrow> fields \<Rightarrow> string \<Rightarrow> string list option" where
  "texts_field co es f = (case map_of es f of None \<Rightarrow> Some [] | Some v \<Rightarrow> texts co v)"

definition score_field :: "coercions \<Rightarrow> fields \<Rightarrow> string \<Rightarrow> int option" where
  "score_field co es f =
     do {v \<leftarrow> map_of es f; n \<leftarrow> co_int co v; if 0 \<le> n \<and> n \<le> 100 then Some n else None}"

text \<open>\<open>Model | None\<close> with the default \<open>None\<close>.\<close>

definition optional_model :: "(json \<Rightarrow> 'a option) \<Rightarrow> fields \<Rightarrow> string \<Rightarrow> 'a option option" where
  "optional_model f es name =
     (case map_of es name of None \<Rightarrow> Some None | Some JNull \<Rightarrow> Some None | Some v \<Rightarrow> map_option Some (f v))"

definition optional_json :: "('a \<Rightarrow> json) \<Rightarrow> 'a option \<Rightarrow> json" where
  "optional_json f v = (case v of None \<Rightarrow> JNull | Some x \<Rightarrow> f x)"

subsection \<open>Campaigns\<close>

definition platform_of :: "json \<Rightarrow> platform option" where
  "platform_of v = (case v of
     JStr s \<Rightarrow> (let n = lower (strip s) in
       if n = ''facebook'' then Some PF_FACEBOOK
       else if n = ''tiktok'' then Some PF_TIKTOK
       else if n = ''discord'' then Some PF_DISCORD else None)
   | _ \<Rightarrow> None)"

fun without_repeats :: "'a list \<Rightarrow> 'a list \<Rightarrow> 'a list" where
  "without_repeats seen [] = seen"
| "without_repeats seen (x # xs) = without_repeats (if x \<in> set seen then seen else seen @ [x]) xs"

text \<open>A list of platform names in any case; an item that is no platform fails the validation.\<close>

definition normalize_platforms :: "json \<Rightarrow> platform list option" where
  "normalize_platforms v =
     (case v of JList vs \<Rightarrow> map_option (without_repeats []) (all_some (map platform_of vs)) | _ \<Rightarrow> None)"

definition is_alnum :: "char \<Rightarrow> bool" where
  "is_alnum c = (let n = of_char c :: nat
     in (48 \<le> n \<and> n \<le> 57) \<or> (65 \<le> n \<and> n \<le> 90) \<or> (97 \<le> n \<and> n \<le> 122))"

definition campaign_id_ok :: "string \<Rightarrow> bool" where
  "campaign_id_ok s =
     (case s of [] \<Rightarrow> False
      | c # cs \<Rightarrow> is_alnum c \<and> list_all (\<lambda>d. is_alnum d \<or> d = CHR ''_'' \<or> d = CHR ''-'') cs)"

definition raw_brief_of :: "string option \<Rightarrow> string option" where
  "raw_brief_of v = (if v = Some [] then None else v)"

definition campaign_create_model :: "coercions \<Rightarrow> json \<Rightarrow> campaign_brief option" where
  "campaign_create_model co v = do {
     es \<leftarrow> model_fields [''campaign_id'', ''game_name'', ''genre'', ''target_audience'', ''market'', ''platforms'',
       ''campaign_objective'', ''tone'', ''launch_date'', ''promotion'', ''raw_brief''] v;
     k \<leftarrow> text_field co 3 100 es ''campaign_id'';
     (if campaign_id_ok k then Some () else None);
     game \<leftarrow> text_field co 1 200 es ''game_name'';
     genre \<leftarrow> text_field co 1 100 es ''genre'';
     audience \<leftarrow> text_field co 1 300 es ''target_audience'';
     market \<leftarrow> text_field co 1 100 es ''market'';
     platforms \<leftarrow> Option.bind (map_of es ''platforms'') normalize_platforms;
     (if 1 \<le> length platforms \<and> length platforms \<le> 3 then Some () else None);
     objective \<leftarrow> text_field co 1 1000 es ''campaign_objective'';
     tone \<leftarrow> text_field co 1 500 es ''tone'';
     launch \<leftarrow> Option.bind (map_of es ''launch_date'') (co_date co);
     promotion \<leftarrow> text_field co 1 1000 es ''promotion'';
     raw \<leftarrow> optional_text_field co 0 20000 es ''raw_brief'';
     Some \<lparr>cb_campaign_id = k, cb_game_name = game, cb_genre = genre, cb_target_audience = audience,
       cb_market = market, cb_platforms = platforms, cb_objective = objective, cb_tone = tone,
       cb_launch_date = launch, cb_promotion = promotion, cb_raw_brief = raw_brief_of raw\<rparr>}"

definition metadata_update_model :: "coercions \<Rightarrow> json \<Rightarrow> metadata_update option" where
  "metadata_update_model co v = do {
     es \<leftarrow> model_fields [''tone'', ''target_audience'', ''promotion''] v;
     t \<leftarrow> optional_text_field co 1 500 es ''tone'';
     a \<leftarrow> optional_text_field co 1 300 es ''target_audience'';
     p \<leftarrow> optional_text_field co 1 1000 es ''promotion'';
     if t = None \<and> a = None \<and> p = None then None
     else Some \<lparr>mu_tone = t, mu_target_audience = a, mu_promotion = p\<rparr>}"

subsection \<open>The analysis of a brief\<close>

record analysis_output =
  ba_summary :: string
  ba_objective :: string
  ba_audience :: string
  ba_message :: string
  ba_benefits :: "string list"
  ba_requirements :: "string list"
  ba_missing :: "string list"
  ba_risks :: "string list"

definition analysis_model :: "coercions \<Rightarrow> json \<Rightarrow> analysis_output option" where
  "analysis_model co v = do {
     es \<leftarrow> model_fields [''summary'', ''campaign_objective'', ''target_audience'', ''main_message'',
       ''key_benefits'', ''content_requirements'', ''missing_information'', ''risk_flags''] v;
     s \<leftarrow> text_field co 1 3000 es ''summary'';
     c \<leftarrow> text_field co 1 1000 es ''campaign_objective'';
     a \<leftarrow> text_field co 1 1000 es ''target_audience'';
     m \<leftarrow> text_field co 1 2000 es ''main_message'';
     k \<leftarrow> texts_field co es ''key_benefits'';
     r \<leftarrow> texts_field co es ''content_requirements'';
     i \<leftarrow> texts_field co es ''missing_information'';
     f \<leftarrow> texts_field co es ''risk_flags'';
     Some \<lparr>ba_summary = s, ba_objective = c, ba_audience = a, ba_message = m, ba_benefits = k,
       ba_requirements = r, ba_missing = i, ba_risks = f\<rparr>}"

abbreviation texts_json :: "string list \<Rightarrow> json" where
  "texts_json ts \<equiv> JList (map JStr ts)"

definition dump_analysis :: "analysis_output \<Rightarrow> json" where
  "dump_analysis b = JObj
     [(''summary'', JStr (ba_summary b)), (''campaign_objective'', JStr (ba_objective b)),
      (''target_audience'', JStr (ba_audience b)), (''main_message'', JStr (ba_message b)),
      (''key_benefits'', texts_json (ba_benefits b)), (''content_requirements'', texts_json (ba_requirements b)),
      (''missing_information'', texts_json (ba_missing b)), (''risk_flags'', texts_json (ba_risks b))]"

subsection \<open>Generated content\<close>

record facebook_content =
  fb_headline :: string
  fb_content :: string
  fb_cta :: string
  fb_hashtags :: "string list"

record tiktok_scene =
  sc_order :: int
  sc_duration :: rat
  sc_visual :: string
  sc_overlay :: "string option"

record tiktok_content =
  tk_hook :: string
  tk_scenes :: "tiktok_scene list"
  tk_voiceover :: string
  tk_cta :: string

record discord_content =
  dc_title :: string
  dc_message :: string
  dc_cta :: string

record content_output =
  go_facebook :: "facebook_content option"
  go_tiktok :: "tiktok_content option"
  go_discord :: "discord_content option"

definition facebook_model :: "coercions \<Rightarrow> json \<Rightarrow> facebook_content option" where
  "facebook_model co v = do {
     es \<leftarrow> model_fields [''headline'', ''content'', ''cta'', ''hashtags''] v;
     h \<leftarrow> text_field co 1 200 es ''headline'';
     c \<leftarrow> text_field co 1 5000 es ''content'';
     a \<leftarrow> text_field co 1 500 es ''cta'';
     t \<leftarrow> texts_field co es ''hashtags'';
     if length t \<le> 20 then Some \<lparr>fb_headline = h, fb_content = c, fb_cta = a, fb_hashtags = t\<rparr> else None}"

definition scene_model :: "coercions \<Rightarrow> json \<Rightarrow> tiktok_scene option" where
  "scene_model co v = do {
     es \<leftarrow> model_fields [''order'', ''duration_seconds'', ''visual'', ''text_overlay''] v;
     n \<leftarrow> Option.bind (map_of es ''order'') (co_int co);
     d \<leftarrow> Option.bind (map_of es ''duration_seconds'') (co_float co);
     w \<leftarrow> text_field co 1 1000 es ''visual'';
     t \<leftarrow> optional_text_field co 0 500 es ''text_overlay'';
     if 1 \<le> n \<and> 0 < d \<and> d \<le> 60 then Some \<lparr>sc_order = n, sc_duration = d, sc_visual = w, sc_overlay = t\<rparr>
     else None}"

definition tiktok_model :: "coercions \<Rightarrow> json \<Rightarrow> tiktok_content option" where
  "tiktok_model co v = do {
     es \<leftarrow> model_fields [''hook'', ''scenes'', ''voiceover'', ''cta''] v;
     h \<leftarrow> text_field co 1 500 es ''hook'';
     ss \<leftarrow> (case map_of es ''scenes'' of Some (JList vs) \<Rightarrow> all_some (map (scene_model co) vs) | _ \<Rightarrow> None);
     w \<leftarrow> text_field co 1 5000 es ''voiceover'';
     a \<leftarrow> text_field co 1 500 es ''cta'';
     if 1 \<le> length ss \<and> length ss \<le> 20
     then Some \<lparr>tk_hook = h, tk_scenes = ss, tk_voiceover = w, tk_cta = a\<rparr> else None}"

definition discord_model :: "coercions \<Rightarrow> json \<Rightarrow> discord_content option" where
  "discord_model co v = do {
     es \<leftarrow> model_fields [''title'', ''message'', ''cta''] v;
     t \<leftarrow> text_field co 1 200 es ''title'';
     m \<leftarrow> text_field co 1 3000 es ''message'';
     a \<leftarrow> text_field co 1 500 es ''cta'';
     Some \<lparr>dc_title = t, dc_message = m, dc_cta = a\<rparr>}"

definition content_model :: "coercions \<Rightarrow> json \<Rightarrow> content_output option" where
  "content_model co v = do {
     es \<leftarrow> model_fields [''facebook'', ''tiktok'', ''discord''] v;
     f \<leftarrow> optional_model (facebook_model co) es ''facebook'';
     t \<leftarrow> optional_model (tiktok_model co) es ''tiktok'';
     d \<leftarrow> optional_model (discord_model co) es ''discord'';
     Some \<lparr>go_facebook = f, go_tiktok = t, go_discord = d\<rparr>}"

definition optional_text_json :: "string option \<Rightarrow> json" where
  "optional_text_json = optional_json JStr"

definition dump_facebook :: "facebook_content \<Rightarrow> json" where
  "dump_facebook f = JObj
     [(''headline'', JStr (fb_headline f)), (''content'', JStr (fb_content f)), (''cta'', JStr (fb_cta f)),
      (''hashtags'', texts_json (fb_hashtags f))]"

definition dump_scene :: "tiktok_scene \<Rightarrow> json" where
  "dump_scene s = JObj
     [(''order'', JInt (sc_order s)), (''duration_seconds'', JFloat (sc_duration s)),
      (''visual'', JStr (sc_visual s)), (''text_overlay'', optional_text_json (sc_overlay s))]"

definition dump_tiktok :: "tiktok_content \<Rightarrow> json" where
  "dump_tiktok t = JObj
     [(''hook'', JStr (tk_hook t)), (''scenes'', JList (map dump_scene (tk_scenes t))),
      (''voiceover'', JStr (tk_voiceover t)), (''cta'', JStr (tk_cta t))]"

definition dump_discord :: "discord_content \<Rightarrow> json" where
  "dump_discord d = JObj
     [(''title'', JStr (dc_title d)), (''message'', JStr (dc_message d)), (''cta'', JStr (dc_cta d))]"

definition dump_content :: "content_output \<Rightarrow> json" where
  "dump_content g = JObj
     [(''facebook'', optional_json dump_facebook (go_facebook g)),
      (''tiktok'', optional_json dump_tiktok (go_tiktok g)),
      (''discord'', optional_json dump_discord (go_discord g))]"

subsection \<open>Reviews\<close>

definition review_status_of :: "json \<Rightarrow> review_status option" where
  "review_status_of v =
     (if v = JStr ''PASS'' then Some RV_PASS else if v = JStr ''FAIL'' then Some RV_FAIL
      else if v = JStr ''MANUAL_REVIEW_REQUIRED'' then Some RV_MANUAL_REVIEW_REQUIRED else None)"

definition review_model :: "coercions \<Rightarrow> json \<Rightarrow> quality_review option" where
  "review_model co v = do {
     es \<leftarrow> model_fields [''status'', ''quality_score'', ''factual_accuracy_score'', ''tone_score'',
       ''platform_fit_score'', ''issues'', ''suggestions'', ''requires_human_review''] v;
     s \<leftarrow> Option.bind (map_of es ''status'') review_status_of;
     q \<leftarrow> score_field co es ''quality_score'';
     f \<leftarrow> score_field co es ''factual_accuracy_score'';
     t \<leftarrow> score_field co es ''tone_score'';
     p \<leftarrow> score_field co es ''platform_fit_score'';
     i \<leftarrow> texts_field co es ''issues'';
     g \<leftarrow> texts_field co es ''suggestions'';
     h \<leftarrow> (case map_of es ''requires_human_review'' of None \<Rightarrow> Some True | Some v \<Rightarrow> co_bool co v);
     Some \<lparr>qr_status = s, qr_quality_score = q, qr_factual_accuracy_score = f, qr_tone_score = t,
       qr_platform_fit_score = p, qr_issues = i, qr_suggestions = g, qr_requires_human_review = h\<rparr>}"

subsection \<open>Reading back\<close>

lemma dropWhile_idem: "dropWhile p (dropWhile p s) = dropWhile p s"
  by (induction s) auto

lemma strip_strip [simp]: "strip (strip s) = strip s"
proof -
  let ?a = "dropWhile is_space s"
  have "dropWhile is_space (rev (dropWhile is_space (rev ?a))) = rev (dropWhile is_space (rev ?a))"
  proof (cases "dropWhile is_space (rev ?a)")
    case Nil
    then have none: "rev (dropWhile is_space (rev ?a)) = []" by simp
    show ?thesis unfolding none by simp
  next
    case (Cons c cs)
    have "?a \<noteq> []" using Cons by (metis dropWhile.simps(1) list.distinct(1) rev.simps(1))
    moreover have "\<not> is_space (hd ?a)" using calculation hd_dropWhile [of is_space s] by auto
    moreover have "hd (rev (dropWhile is_space (rev ?a))) = hd ?a"
    proof -
      obtain p where "rev ?a = p @ dropWhile is_space (rev ?a)" by (metis takeWhile_dropWhile_id)
      then have "?a = rev (dropWhile is_space (rev ?a)) @ rev p" by (metis rev_append rev_rev_ident)
      then show ?thesis using Cons by (metis hd_append2 list.distinct(1) rev_is_Nil_conv)
    qed
    ultimately show ?thesis using Cons by (metis dropWhile_eq_self_iff)
  qed
  then show ?thesis by (simp add: strip_def dropWhile_idem)
qed

lemma co_str_ok [schema_simps]: "coercions_ok co \<Longrightarrow> co_str co (JStr s) = Some s"
  and co_int_ok [schema_simps]: "coercions_ok co \<Longrightarrow> co_int co (JInt n) = Some n"
  and co_bool_ok [schema_simps]: "coercions_ok co \<Longrightarrow> co_bool co (JBool b) = Some b"
  and co_float_ok [schema_simps]: "coercions_ok co \<Longrightarrow> co_float co (JFloat x) = Some x"
  by (simp_all add: coercions_ok_def)

lemma bounded_text_again:
  "bounded_text co lo hi v = Some s \<Longrightarrow> coercions_ok co \<Longrightarrow> bounded_text co lo hi (JStr s) = Some s"
  by (auto simp: bounded_text_def Let_def schema_simps split: option.splits if_splits)

lemma text_field_again:
  "text_field co lo hi es f = Some s \<Longrightarrow> coercions_ok co \<Longrightarrow> bounded_text co lo hi (JStr s) = Some s"
  by (auto simp: text_field_def bind_eq_Some_conv intro: bounded_text_again)

lemma optional_text_again:
  "optional_text_field co lo hi es f = Some (Some s) \<Longrightarrow> coercions_ok co \<Longrightarrow>
   bounded_text co lo hi (JStr s) = Some s"
  by (auto simp: optional_text_field_def split: option.splits json.splits intro: bounded_text_again)

lemma all_some_Some: "all_some (map f xs) = Some ys \<Longrightarrow> list_all2 (\<lambda>x y. f x = Some y) xs ys"
  by (induction xs arbitrary: ys) (auto simp: bind_eq_Some_conv)

lemma all_some_again:
  "list_all (\<lambda>y. g (d y) = Some y) ys \<Longrightarrow> all_some (map g (map d ys)) = Some ys"
  by (induction ys) auto

lemma texts_again: "texts co v = Some ts \<Longrightarrow> coercions_ok co \<Longrightarrow> texts co (texts_json ts) = Some ts"
proof -
  assume a: "texts co v = Some ts" and ok: "coercions_ok co"
  then obtain vs where "list_all2 (\<lambda>x y. map_option strip (co_str co x) = Some y) vs ts"
    by (auto simp: texts_def split: json.splits dest: all_some_Some)
  then have "list_all (\<lambda>y. strip y = y) ts" by (induction rule: list_all2_induct) auto
  then have "all_some (map (\<lambda>x. map_option strip (co_str co x)) (map JStr ts)) = Some ts"
    using ok by (intro all_some_again) (simp add: schema_simps)
  then show ?thesis by (simp add: texts_def)
qed

lemma texts_field_again:
  "texts_field co es f = Some ts \<Longrightarrow> coercions_ok co \<Longrightarrow> texts co (texts_json ts) = Some ts"
  by (auto simp: texts_field_def texts_again split: option.splits) (simp add: texts_def)

lemma score_again:
  "score_field co es f = Some n \<Longrightarrow> coercions_ok co \<Longrightarrow> score_field co ((g, JInt n) # es') g = Some n"
  by (auto simp: score_field_def bind_eq_Some_conv schema_simps split: if_splits)

lemmas field_again = text_field_again optional_text_again texts_field_again

lemma model_fields_obj [schema_simps]:
  "model_fields names (JObj es) = (if list_all (\<lambda>(k, _). k \<in> set names) es then Some es else None)"
  by (simp add: model_fields_def)

lemma text_field_cons [schema_simps]:
  "text_field co lo hi ((g, v) # es) f = (if f = g then bounded_text co lo hi v else text_field co lo hi es f)"
  by (simp add: text_field_def)

lemma texts_field_cons [schema_simps]:
  "texts_field co ((g, v) # es) f = (if f = g then texts co v else texts_field co es f)"
  by (simp add: texts_field_def)

lemma score_field_cons [schema_simps]:
  "f \<noteq> g \<Longrightarrow> score_field co ((g, v) # es) f = score_field co es f"
  by (simp add: score_field_def)

lemma optional_text_cons [schema_simps]:
  "optional_text_field co lo hi ((g, optional_text_json v) # es) f =
     (if f = g then (case v of None \<Rightarrow> Some None | Some s \<Rightarrow> map_option Some (bounded_text co lo hi (JStr s)))
      else optional_text_field co lo hi es f)"
  by (auto simp: optional_text_field_def optional_text_json_def optional_json_def split: option.splits)

lemma optional_text_skip [schema_simps]:
  "f \<noteq> g \<Longrightarrow> optional_text_field co lo hi ((g, v) # es) f = optional_text_field co lo hi es f"
  by (simp add: optional_text_field_def)

text \<open>A model that never reads an object out of \<open>null\<close>, and reads its own JSON form back.\<close>

lemma optional_model_again:
  assumes "optional_model f es name = Some r" and "\<And>v x. f v = Some x \<Longrightarrow> f (d x) = Some x"
    and "\<And>x. d x \<noteq> JNull"
  shows "optional_model f ((g, optional_json d r) # es') g = Some r"
proof (cases r)
  case None
  then show ?thesis by (simp add: optional_model_def optional_json_def)
next
  case (Some x)
  then obtain v where "f v = Some x"
    using assms(1) by (auto simp: optional_model_def split: option.splits json.splits)
  then have "f (d x) = Some x" by (rule assms(2))
  moreover have "optional_model f ((g, d x) # es') g = map_option Some (f (d x))"
    using assms(3) [of x] by (simp add: optional_model_def split: json.splits)
  ultimately show ?thesis using Some by (simp add: optional_json_def)
qed

lemma optional_model_cons [schema_simps]:
  "f \<noteq> g \<Longrightarrow> optional_model h ((g, v) # es) f = optional_model h es f"
  by (simp add: optional_model_def)

lemma analysis_again:
  assumes "analysis_model co v = Some b" and "coercions_ok co"
  shows "analysis_model co (dump_analysis b) = Some b"
  using assms(1)
  by (auto simp: bind_eq_Some_conv dump_analysis_def analysis_model_def schema_simps
      dest!: field_again [OF _ assms(2)])

lemma facebook_again:
  assumes "facebook_model co v = Some b" and "coercions_ok co"
  shows "facebook_model co (dump_facebook b) = Some b"
  using assms(1)
  by (auto simp: bind_eq_Some_conv dump_facebook_def facebook_model_def schema_simps split: if_splits
      dest!: field_again [OF _ assms(2)])

lemma scene_again:
  assumes "scene_model co v = Some b" and "coercions_ok co"
  shows "scene_model co (dump_scene b) = Some b"
  using assms(1)
  by (auto simp: bind_eq_Some_conv dump_scene_def scene_model_def schema_simps assms(2) text_field_again
      split: if_splits option.splits dest: field_again [OF _ assms(2)])

lemma tiktok_again:
  assumes "tiktok_model co v = Some b" and "coercions_ok co"
  shows "tiktok_model co (dump_tiktok b) = Some b"
proof -
  obtain es vs where fields: "text_field co 1 500 es ''hook'' = Some (tk_hook b)"
      "text_field co 1 5000 es ''voiceover'' = Some (tk_voiceover b)" "text_field co 1 500 es ''cta'' = Some (tk_cta b)"
    and scenes: "all_some (map (scene_model co) vs) = Some (tk_scenes b)"
    and n: "1 \<le> length (tk_scenes b)" "length (tk_scenes b) \<le> 20"
    using assms(1)
    by (auto simp: tiktok_model_def bind_eq_Some_conv split: if_splits option.splits json.splits)
  have "list_all2 (\<lambda>x y. scene_model co x = Some y) vs (tk_scenes b)" by (rule all_some_Some [OF scenes])
  then have "list_all (\<lambda>y. scene_model co (dump_scene y) = Some y) (tk_scenes b)"
    by (induction rule: list_all2_induct) (auto intro: scene_again [OF _ assms(2)])
  then have "all_some (map (scene_model co) (map dump_scene (tk_scenes b))) = Some (tk_scenes b)"
    by (rule all_some_again)
  then show ?thesis using n fields [THEN text_field_again, OF assms(2)]
    by (simp add: tiktok_model_def dump_tiktok_def schema_simps del: map_map)
qed

lemma discord_again:
  assumes "discord_model co v = Some b" and "coercions_ok co"
  shows "discord_model co (dump_discord b) = Some b"
  using assms(1)
  by (auto simp: bind_eq_Some_conv dump_discord_def discord_model_def schema_simps
      dest!: field_again [OF _ assms(2)])

lemma content_again:
  assumes "content_model co v = Some b" and "coercions_ok co"
  shows "content_model co (dump_content b) = Some b"
proof -
  obtain es where "optional_model (facebook_model co) es ''facebook'' = Some (go_facebook b)"
      "optional_model (tiktok_model co) es ''tiktok'' = Some (go_tiktok b)"
      "optional_model (discord_model co) es ''discord'' = Some (go_discord b)"
    using assms(1) by (auto simp: content_model_def bind_eq_Some_conv)
  note f = optional_model_again [OF \<open>optional_model (facebook_model co) es ''facebook'' = _\<close>, of dump_facebook]
  note t = optional_model_again [OF \<open>optional_model (tiktok_model co) es ''tiktok'' = _\<close>, of dump_tiktok]
  note d = optional_model_again [OF \<open>optional_model (discord_model co) es ''discord'' = _\<close>, of dump_discord]
  show ?thesis
    using f [OF facebook_again] t [OF tiktok_again] d [OF discord_again] assms(2)
    by (simp add: content_model_def dump_content_def schema_simps dump_facebook_def dump_tiktok_def dump_discord_def)
qed

lemma review_status_again: "review_status_of (JStr (review_status_value s)) = Some s"
  by (cases s) (simp_all add: review_status_of_def)

lemma review_again:
  assumes "review_model co v = Some b" and "coercions_ok co"
  shows "review_model co (dump_review b) = Some b"
proof -
  obtain es where scores: "score_field co es ''quality_score'' = Some (qr_quality_score b)"
      "score_field co es ''factual_accuracy_score'' = Some (qr_factual_accuracy_score b)"
      "score_field co es ''tone_score'' = Some (qr_tone_score b)"
      "score_field co es ''platform_fit_score'' = Some (qr_platform_fit_score b)"
    and lists: "texts_field co es ''issues'' = Some (qr_issues b)"
      "texts_field co es ''suggestions'' = Some (qr_suggestions b)"
    using assms(1) by (auto simp: review_model_def bind_eq_Some_conv split: option.splits)
  show ?thesis
    using scores [THEN score_again, OF assms(2)] lists [THEN texts_field_again, OF assms(2)]
    by (simp add: review_model_def dump_review_def schema_simps review_status_again assms(2))
qed

lemma review_model_ok: "review_model co v = Some q \<Longrightarrow> review_ok q"
  by (auto simp: review_model_def review_ok_def bind_eq_Some_conv score_field_def split: if_splits)

end
