(* ===== verification/Agent_Tools.thy ===== *)
theory Agent_Tools
  imports Agent_Runs Content_Schemas Memory_Service "HOL-Library.List_Lexorder" "HOL-Library.Char_ord"
begin

text \<open>
  The tools an agent may call: \<open>app/agentic/tools\<close> and the queries of
  \<open>app/service/agent_query_service.py\<close>. A tool only reads; its call is audited before, during
  and after the read.
\<close>

subsection \<open>Interruptible sessions\<close>

text \<open>
  A task can be cancelled where it awaits. The state of an interruptible session has, beside the
  tables, how many awaited calls the task still enters before the cancellation arrives, if one
  does; a cancellation that falls between two transactions of one call is the cancellation before
  the call or before the next one. It is delivered once.
\<close>

type_synonym 'a awaited = "(app_db \<times> nat option, 'a) session"

definition cancelled_error :: exn where
  "cancelled_error = Exn (PyE CancelledError) ''''"

definition shielded :: "(app_db, 'a) session \<Rightarrow> 'a awaited" where
  "shielded m s = (case m (fst s) of (r, db) \<Rightarrow> (r, (db, snd s)))"

definition awaiting :: "(app_db, 'a) session \<Rightarrow> 'a awaited" where
  "awaiting m s =
     (case snd s of
        Some 0 \<Rightarrow> (Inl cancelled_error, (fst s, None))
      | n \<Rightarrow> shielded m (fst s, map_option (\<lambda>k. k - 1) n))"

definition in_transaction :: "(app_db \<Rightarrow> (exn, 'a \<times> app_db) res) \<Rightarrow> 'a awaited" where
  "in_transaction f = awaiting (atomically f)"

definition pure_result :: "(exn, 'a) res \<Rightarrow> ('s, 'a) session" where
  "pure_result r s = (r, s)"

definition catching :: "('s, 'a) session \<Rightarrow> (exn \<Rightarrow> ('s, 'a) session) \<Rightarrow> ('s, 'a) session" where
  "catching m handler s = (case m s of (Inl e, s') \<Rightarrow> handler e s' | r \<Rightarrow> r)"

definition raising :: "exn \<Rightarrow> ('s, 'a) session" where
  "raising e s = (Inl e, s)"

abbreviation is_cancelled :: "exn \<Rightarrow> bool" where
  "is_cancelled e \<equiv> exn_cls e = PyE CancelledError"

subsection \<open>Queries\<close>

definition load_pair :: "string \<Rightarrow> uuid \<Rightarrow> app_db \<Rightarrow> (exn, campaign_row \<times> workflow_row) res" where
  "load_pair campaign_id workflow_id db =
     and_then (required (get_workflow_row db workflow_id)
       (Exn (CoreE WorkflowNotFoundError) ''Workflow not found'')) (\<lambda>w.
     and_then (required (get_campaign db campaign_id)
       (Exn (CoreE CampaignNotFoundError) ''Campaign not found'')) (\<lambda>c.
     and_then (require (wf_campaign_id w = campaign_id)
       (Exn (AgentE AgentContextError) ''Workflow does not belong to campaign'')) (\<lambda>_. Inr (c, w))))"

definition parent_workflow :: "workflow_row \<Rightarrow> app_db \<Rightarrow> workflow_row option" where
  "parent_workflow w db = Option.bind (wf_parent_id w) (get_workflow_row db)"

definition json_of_option :: "('a \<Rightarrow> json) \<Rightarrow> 'a option \<Rightarrow> json" where
  "json_of_option f v = (case v of None \<Rightarrow> JNull | Some x \<Rightarrow> f x)"

definition uuid_json :: "uuid \<Rightarrow> json" where
  "uuid_json u = JStr (uuid_str u)"

definition stored_or_unavailable :: "json option \<Rightarrow> json" where
  "stored_or_unavailable v =
     (if v = None \<or> v = Some JNull \<or> v = Some (JObj []) then JObj [(''available'', JBool False)] else the v)"

definition previous_quality_review :: "string \<Rightarrow> uuid \<Rightarrow> app_db \<Rightarrow> (exn, json) res" where
  "previous_quality_review campaign_id workflow_id db =
     and_then (load_pair campaign_id workflow_id db) (\<lambda>(c, w).
     Inr (sanitize_json 2000 (stored_or_unavailable (c_quality_review c))))"

definition previous_revision :: "string \<Rightarrow> uuid \<Rightarrow> app_db \<Rightarrow> (exn, json) res" where
  "previous_revision campaign_id workflow_id db =
     and_then (load_pair campaign_id workflow_id db) (\<lambda>(c, w).
     let parent = parent_workflow w db; stored = (\<lambda>v. if parent = None then JNull else json_of_option id v)
     in Inr (sanitize_json 2000 (JObj
       [(''available'', JBool (parent \<noteq> None)),
        (''parent_workflow_id'', json_of_option (\<lambda>p. uuid_json (wf_id p)) parent),
        (''revision_number'', json_of_option (\<lambda>p. JInt (wf_revision_number p)) parent),
        (''generated_content'', stored (generated_content c)),
        (''quality_review'', stored (c_quality_review c))])))"

definition previous_workflow_summary ::
  "(time \<Rightarrow> string) \<Rightarrow> string \<Rightarrow> uuid \<Rightarrow> app_db \<Rightarrow> (exn, json) res" where
  "previous_workflow_summary date_text campaign_id workflow_id db =
     and_then (load_pair campaign_id workflow_id db) (\<lambda>(c, w).
     let parent = parent_workflow w db
     in Inr (sanitize_json 2000 (JObj
       [(''available'', JBool (parent \<noteq> None)),
        (''workflow_id'', json_of_option (\<lambda>p. uuid_json (wf_id p)) parent),
        (''status'', json_of_option (\<lambda>p. JStr (campaign_status_value (wf_status p))) parent),
        (''revision_number'', json_of_option (\<lambda>p. JInt (wf_revision_number p)) parent),
        (''quality_score'', json_of_option JInt (Option.bind parent wf_quality_score)),
        (''completed_at'', json_of_option (\<lambda>t. JStr (date_text t)) (Option.bind parent wf_completed_at))])))"

fun memory_type_value :: "memory_type \<Rightarrow> string" where
  "memory_type_value MT_EPISODIC = ''EPISODIC''"
| "memory_type_value MT_OPERATIONAL = ''OPERATIONAL''"

definition dump_memory :: "(time \<Rightarrow> string) \<Rightarrow> memory_row \<Rightarrow> json" where
  "dump_memory date_text m = JObj
     [(''campaign_id'', JStr (m_campaign_id m)), (''workflow_id'', json_of_option uuid_json (m_workflow_id m)),
      (''agent_run_id'', json_of_option uuid_json (m_agent_run_id m)),
      (''action_request_id'', json_of_option uuid_json (m_action_request_id m)),
      (''action_execution_id'', json_of_option uuid_json (m_action_execution_id m)),
      (''memory_type'', JStr (memory_type_value (m_type m))),
      (''event_type'', JStr (memory_event_type_value (m_event_type m))), (''summary'', JStr (m_summary m)),
      (''metadata'', m_metadata m), (''importance'', JInt (m_importance m)),
      (''expires_at'', json_of_option (\<lambda>t. JStr (date_text t)) (m_expires_at m)),
      (''memory_entry_id'', uuid_json (m_id m)), (''created_at'', JStr (date_text (m_created_at m)))]"

subsection \<open>Definitions\<close>

datatype tool_input =
    WorkflowToolInput (ti_campaign_id: string) (ti_workflow_id: uuid)
  | MemoryToolInput (ti_campaign_id: string) (ti_workflow_id: uuid) (ti_limit: int)

text \<open>What a handler reads beside the tables: the clock and the text of a date.\<close>

record tool_env =
  te_settings :: app_settings
  te_now :: time
  te_date_text :: "time \<Rightarrow> string"

record tool_definition =
  td_name :: string
  td_model :: "coercions \<Rightarrow> json \<Rightarrow> tool_input option"
  td_handler :: "tool_env \<Rightarrow> tool_input \<Rightarrow> app_db \<Rightarrow> (exn, json) res"
  td_read_only :: bool

definition workflow_tool_model :: "coercions \<Rightarrow> json \<Rightarrow> tool_input option" where
  "workflow_tool_model co v = do {
     es \<leftarrow> model_fields [''campaign_id'', ''workflow_id''] v;
     c \<leftarrow> Option.bind (map_of es ''campaign_id'') (co_str co);
     w \<leftarrow> Option.bind (map_of es ''workflow_id'') (co_uuid co);
     Some (WorkflowToolInput c w)}"

definition memory_tool_model :: "coercions \<Rightarrow> json \<Rightarrow> tool_input option" where
  "memory_tool_model co v = do {
     es \<leftarrow> model_fields [''campaign_id'', ''workflow_id'', ''limit''] v;
     c \<leftarrow> Option.bind (map_of es ''campaign_id'') (co_str co);
     w \<leftarrow> Option.bind (map_of es ''workflow_id'') (co_uuid co);
     n \<leftarrow> (case map_of es ''limit'' of None \<Rightarrow> Some 10 | Some v \<Rightarrow> co_int co v);
     if 3 \<le> length c \<and> length c \<le> 100 \<and> 1 \<le> n \<and> n \<le> 20 then Some (MemoryToolInput c w n) else None}"

definition campaign_tools :: "tool_definition list" where
  "campaign_tools =
     [\<lparr>td_name = ''get_previous_quality_review'', td_model = workflow_tool_model,
       td_handler = (\<lambda>e p. previous_quality_review (ti_campaign_id p) (ti_workflow_id p)), td_read_only = True\<rparr>,
      \<lparr>td_name = ''get_previous_revision'', td_model = workflow_tool_model,
       td_handler = (\<lambda>e p. previous_revision (ti_campaign_id p) (ti_workflow_id p)), td_read_only = True\<rparr>,
      \<lparr>td_name = ''get_previous_workflow_summary'', td_model = workflow_tool_model,
       td_handler = (\<lambda>e p. previous_workflow_summary (te_date_text e) (ti_campaign_id p) (ti_workflow_id p)),
       td_read_only = True\<rparr>]"

definition memory_tool :: "string \<Rightarrow> memory_event_type option \<Rightarrow> tool_definition" where
  "memory_tool name event_type =
     \<lparr>td_name = name, td_model = memory_tool_model,
      td_handler = (\<lambda>e p db. and_then
        (list_campaign (te_settings e) (te_now e) (ti_campaign_id p) (ti_limit p) 0 event_type db)
        (\<lambda>ms. Inr (JList (map (dump_memory (te_date_text e)) ms)))), td_read_only = True\<rparr>"

definition memory_tools :: "tool_definition list" where
  "memory_tools =
     [memory_tool ''get_recent_campaign_memories'' None,
      memory_tool ''get_previous_failures'' (Some ME_ACTION_FAILED),
      memory_tool ''get_previous_review_feedback'' (Some ME_REVIEW_FEEDBACK),
      memory_tool ''get_previous_action_results'' (Some ME_ACTION_COMPLETED)]"

subsection \<open>The registry\<close>

record tool_registry =
  tr_tools :: "(string \<times> tool_definition) list"
  tr_permissions :: "agent_name \<Rightarrow> string list"

fun build_tools ::
  "tool_definition list \<Rightarrow> (string \<times> tool_definition) list \<Rightarrow> (exn, (string \<times> tool_definition) list) res" where
  "build_tools [] tools = Inr tools"
| "build_tools (d # ds) tools =
     (if map_of tools (td_name d) \<noteq> None then
        Inl (Exn (PyE ValueError) (''Duplicate tool name: '' @ td_name d))
      else if \<not> td_read_only d then Inl (Exn (PyE ValueError) ''M4 registry accepts read-only tools only'')
      else build_tools ds (tools @ [(td_name d, d)]))"

fun default_permissions :: "agent_name \<Rightarrow> string list" where
  "default_permissions AN_BRIEF_ANALYST = [''get_previous_workflow_summary'', ''get_recent_campaign_memories'']"
| "default_permissions AN_CONTENT_GENERATOR =
     [''get_previous_quality_review'', ''get_previous_revision'', ''get_previous_review_feedback'',
      ''get_previous_action_results'']"
| "default_permissions AN_CONTENT_REVIEWER =
     [''get_previous_quality_review'', ''get_previous_review_feedback'', ''get_previous_failures'']"

definition needs_memory :: "string \<Rightarrow> bool" where
  "needs_memory name \<longleftrightarrow> is_prefix ''get_recent_'' name \<or>
     name \<in> {''get_previous_failures'', ''get_previous_review_feedback'', ''get_previous_action_results''}"

definition build_default_tool_registry :: "bool \<Rightarrow> (exn, tool_registry) res" where
  "build_default_tool_registry with_memory =
     and_then (build_tools (campaign_tools @ (if with_memory then memory_tools else [])) []) (\<lambda>tools.
     Inr \<lparr>tr_tools = tools, tr_permissions = (\<lambda>a. if with_memory then default_permissions a
       else filter (\<lambda>n. \<not> needs_memory n) (default_permissions a))\<rparr>)"

definition tool_get :: "tool_registry \<Rightarrow> string \<Rightarrow> (exn, tool_definition) res" where
  "tool_get reg name =
     required (map_of (tr_tools reg) name) (Exn (AgentE ToolNotFoundError) ''Unknown tool requested'')"

definition tool_get_for_agent :: "tool_registry \<Rightarrow> agent_name \<Rightarrow> string \<Rightarrow> (exn, tool_definition) res" where
  "tool_get_for_agent reg a name =
     and_then (tool_get reg name) (\<lambda>d.
     and_then (require (name \<in> set (tr_permissions reg a))
       (Exn (AgentE ToolNotAllowedError) ''Tool is not allowed for this specialist'')) (\<lambda>_. Inr d))"

definition tools_for_agent :: "tool_registry \<Rightarrow> agent_name \<Rightarrow> tool_definition list" where
  "tools_for_agent reg a =
     (let allowed = sort (remdups (tr_permissions reg a))
      in map (\<lambda>n. the (map_of (tr_tools reg) n)) (filter (\<lambda>n. map_of (tr_tools reg) n \<noteq> None) allowed))"

subsection \<open>The executor\<close>

text \<open>\<open>AgentToolRequest\<close> (\<open>app/llm/agent_turn.py\<close>).\<close>

record tool_request =
  tq_call_id :: string
  tq_tool_name :: string
  tq_arguments :: json

text \<open>The fields every \<open>CampaignContext\<close> has (\<open>app/agentic/state/campaign_context.py\<close>).\<close>

record campaign_context =
  cx_campaign_id :: string
  cx_workflow_id :: uuid
  cx_revision_number :: int
  cx_workflow_status :: campaign_status
  cx_retry_count :: int
  cx_parent_workflow_id :: "uuid option"

definition json_get :: "json \<Rightarrow> string \<Rightarrow> json option" where
  "json_get v k = (case v of JObj es \<Rightarrow> (case map_of es k of Some JNull \<Rightarrow> None | r \<Rightarrow> r) | _ \<Rightarrow> None)"

definition outside_scope :: "string \<Rightarrow> exn" where
  "outside_scope what =
     Exn (AgentE ToolNotAllowedError) (''Tool '' @ what @ '' is outside the Agent run scope'')"

text \<open>\<open>str(workflow_id)\<close> of a JSON value that is not a text is never the text of a UUID.\<close>

definition validate_tool_scope :: "campaign_context \<Rightarrow> json \<Rightarrow> (exn, unit) res" where
  "validate_tool_scope ctx args =
     and_then (require (json_get args ''campaign_id'' = Some (JStr (cx_campaign_id ctx))) (outside_scope ''campaign'')) (\<lambda>_.
     require (json_get args ''workflow_id'' \<in> {None, Some (JStr (uuid_str (cx_workflow_id ctx)))})
       (outside_scope ''workflow''))"

definition bounded_result :: "services \<Rightarrow> nat \<Rightarrow> json \<Rightarrow> json \<times> string" where
  "bounded_result sv max_characters v =
     (let safe = sanitize_json 2000 v; serialized = sv_dumps sv safe
      in if length serialized \<le> max_characters then (safe, serialized)
         else let summary = take max_characters serialized @ ''...[TRUNCATED]'' in (JStr summary, summary))"

text \<open>Whether the handler ends within the executor's time limit.\<close>

datatype tool_fate = Tool_Ends | Tool_Times_Out

record tool_config =
  tg_registry :: tool_registry
  tg_max_characters :: nat

text \<open>The readings of one call: creation, the handler's clock, the end, and the duration.\<close>

record tool_clock =
  tk_env :: call_env
  tk_handler :: tool_env
  tk_end :: time
  tk_duration :: nat
  tk_fate :: tool_fate

definition run_tool_handler :: "tool_clock \<Rightarrow> tool_definition \<Rightarrow> tool_input \<Rightarrow> (app_db, json) session" where
  "run_tool_handler ck d p db =
     (case tk_fate ck of
        Tool_Times_Out \<Rightarrow> (Inl (Exn (AgentE ToolTimeoutError) ''Tool execution timed out''), db)
      | Tool_Ends \<Rightarrow> (td_handler d (tk_handler ck) p db, db))"

definition tool_body ::
  "services \<Rightarrow> coercions \<Rightarrow> tool_config \<Rightarrow> tool_clock \<Rightarrow> agent_name \<Rightarrow> tool_request \<Rightarrow> campaign_context \<Rightarrow> uuid \<Rightarrow>
   json awaited" where
  "tool_body sv co cfg ck a rq ctx call_id =
     and_session (pure_result (tool_get_for_agent (tg_registry cfg) a (tq_tool_name rq))) (\<lambda>d.
     and_session (pure_result (validate_tool_scope ctx (tq_arguments rq))) (\<lambda>_.
     and_session (pure_result (required (td_model d co (tq_arguments rq))
       (Exn (AgentE ToolInputValidationError) ''Tool arguments are invalid''))) (\<lambda>p.
     and_session (in_transaction (start_tool_call call_id)) (\<lambda>_.
     and_session (awaiting (run_tool_handler ck d p)) (\<lambda>raw.
     let (content, summary) = bounded_result sv (tg_max_characters cfg) raw
     in and_session (in_transaction (finish_tool_call (tk_end ck) call_id TC_COMPLETED (Some summary) None
          (Some (int (tk_duration ck))))) (\<lambda>_. returns content))))))"

definition rejecting_errors :: "exn_class list" where
  "rejecting_errors = [AgentE ToolNotFoundError, AgentE ToolNotAllowedError, AgentE ToolInputValidationError]"

definition wrapped_error :: "exn \<Rightarrow> exn \<Rightarrow> exn" where
  "wrapped_error otherwise e = (if is_application_error (exn_cls e) then e else otherwise)"

text \<open>The clauses of \<open>_execute\<close>'s \<open>except\<close>: only the cancellation's update is shielded.\<close>

definition tool_failure :: "tool_clock \<Rightarrow> uuid \<Rightarrow> exn \<Rightarrow> json awaited" where
  "tool_failure ck call_id e =
     (let finish = (\<lambda>status x. atomically (finish_tool_call (tk_end ck) call_id status None (Some x)
            (Some (int (tk_duration ck)))));
          wrapped = wrapped_error (Exn (AgentE ToolExecutionError) ''Tool execution failed'') e
      in if is_cancelled e then
           and_session (shielded (finish TC_FAILED (Exn (AgentE ToolCancelledError) ''Tool execution was cancelled'')))
             (\<lambda>_. raising e)
         else if exn_cls e \<in> set rejecting_errors then
           and_session (awaiting (finish TC_REJECTED e)) (\<lambda>_. raising e)
         else and_session (awaiting (finish TC_FAILED wrapped)) (\<lambda>_. raising wrapped))"

definition execute_tool ::
  "services \<Rightarrow> coercions \<Rightarrow> tool_config \<Rightarrow> tool_clock \<Rightarrow> uuid \<Rightarrow> agent_name \<Rightarrow> tool_request \<Rightarrow> campaign_context \<Rightarrow>
   json awaited" where
  "execute_tool sv co cfg ck run_id a rq ctx =
     and_session (in_transaction (create_tool_call (tk_env ck) run_id (tq_tool_name rq) (tq_arguments rq))) (\<lambda>c.
     catching (tool_body sv co cfg ck a rq ctx (tc_id c)) (tool_failure ck (tc_id c)))"

end
