(* ===== verification/Agent_Loop.thy ===== *)
theory Agent_Loop
  imports Agent_Tools Action_Service
begin

text \<open>
  The bounded loop of a specialist agent: \<open>app/agentic/runtime/agent_loop.py\<close> with its budget
  (\<open>execution_budget.py\<close>), its working memory (\<open>app/agentic/memory/working_memory.py\<close>), its state
  (\<open>app/agentic/state/agent_state.py\<close>) and the turns of the model (\<open>app/llm/agent_turn.py\<close>). The
  language model is a function of the number of the call and the messages.
\<close>

subsection \<open>Working memory\<close>

record memory_item =
  wi_kind :: string
  wi_summary :: string

record working_memory =
  wm_max_items :: nat
  wm_max_characters :: nat
  wm_items :: "memory_item list"

definition empty_memory :: working_memory where
  "empty_memory = \<lparr>wm_max_items = 20, wm_max_characters = 12000, wm_items = []\<rparr>"

definition total_characters :: "memory_item list \<Rightarrow> nat" where
  "total_characters items = sum_list (map (\<lambda>i. length (wi_kind i) + length (wi_summary i)) items)"

definition over_capacity :: "working_memory \<Rightarrow> memory_item list \<Rightarrow> bool" where
  "over_capacity m items \<longleftrightarrow>
     wm_max_items m < length items \<or> wm_max_characters m < total_characters items"

text \<open>\<open>while ... : self.items.pop(0)\<close>.\<close>

fun drop_oldest :: "working_memory \<Rightarrow> memory_item list \<Rightarrow> memory_item list" where
  "drop_oldest m [] = []"
| "drop_oldest m (i # is) = (if over_capacity m (i # is) then drop_oldest m is else i # is)"

definition memory_item_ok :: "memory_item \<Rightarrow> bool" where
  "memory_item_ok i \<longleftrightarrow> 1 \<le> length (wi_kind i) \<and> length (wi_kind i) \<le> 50 \<and>
     1 \<le> length (wi_summary i) \<and> length (wi_summary i) \<le> 2000"

definition memory_add :: "string \<Rightarrow> string \<Rightarrow> working_memory \<Rightarrow> (exn, working_memory) res" where
  "memory_add kind summary m =
     (let i = \<lparr>wi_kind = sanitize_text 50 kind, wi_summary = sanitize_text 2000 summary\<rparr>
      in and_then (require (memory_item_ok i) (Exn (PyE ValueError) ''WorkingMemoryItem'')) (\<lambda>_.
         Inr (m\<lparr>wm_items := drop_oldest m (wm_items m @ [i])\<rparr>)))"

subsection \<open>Budget\<close>

record budget =
  bg_max_iterations :: nat
  bg_max_llm_calls :: nat
  bg_max_tool_calls :: nat
  bg_timeout_seconds :: nat
  bg_max_proposals :: nat

definition check_timeout :: "budget \<Rightarrow> nat \<Rightarrow> (exn, unit) res" where
  "check_timeout b elapsed =
     require (elapsed < bg_timeout_seconds b) (Exn (AgentE AgentTimeoutError) ''Agent execution timed out'')"

definition before_iteration :: "budget \<Rightarrow> nat \<Rightarrow> nat \<Rightarrow> (exn, unit) res" where
  "before_iteration b elapsed current =
     and_then (check_timeout b elapsed) (\<lambda>_.
     require (current < bg_max_iterations b)
       (Exn (AgentE AgentIterationLimitError) ''Agent iteration budget exhausted''))"

definition before_llm_call :: "budget \<Rightarrow> nat \<Rightarrow> nat \<Rightarrow> (exn, unit) res" where
  "before_llm_call b elapsed current =
     and_then (check_timeout b elapsed) (\<lambda>_.
     require (current < bg_max_llm_calls b)
       (Exn (AgentE AgentLLMCallLimitError) ''Agent LLM call budget exhausted''))"

definition before_tool_calls :: "budget \<Rightarrow> nat \<Rightarrow> nat \<Rightarrow> nat \<Rightarrow> (exn, unit) res" where
  "before_tool_calls b elapsed current requested =
     and_then (check_timeout b elapsed) (\<lambda>_.
     require (current + requested \<le> bg_max_tool_calls b)
       (Exn (AgentE AgentToolCallLimitError) ''Agent tool call budget exhausted''))"

definition before_action_proposals :: "budget \<Rightarrow> nat \<Rightarrow> nat \<Rightarrow> nat \<Rightarrow> (exn, unit) res" where
  "before_action_proposals b elapsed current requested =
     and_then (check_timeout b elapsed) (\<lambda>_.
     require (current + requested \<le> bg_max_proposals b)
       (Exn (AgentE AgentActionProposalLimitError) ''Agent action proposal budget exhausted''))"

subsection \<open>Messages, turns and state\<close>

datatype message_role = User | Assistant | Tool

record agent_message =
  am_role :: message_role
  am_content :: string
  am_call_id :: "string option"
  am_tool_name :: "string option"
  am_tool_calls :: "tool_request list"

definition message_ok :: "agent_message \<Rightarrow> bool" where
  "message_ok m \<longleftrightarrow> length (am_content m) \<le> 20000 \<and> fits 200 (am_call_id m) \<and>
     fits 100 (am_tool_name m) \<and> length (am_tool_calls m) \<le> 10"

definition make_message :: "agent_message \<Rightarrow> (exn, agent_message) res" where
  "make_message m = (if message_ok m then Inr m else Inl (Exn (PyE ValueError) ''AgentMessage''))"

record agent_turn =
  at_text :: "string option"
  at_tool_calls :: "tool_request list"
  at_final_output :: "json option"
  at_proposals :: "action_proposal list"

text \<open>The model validator of \<open>AgentTurn\<close>: tool calls or a final output, and not both.\<close>

definition turn_ok :: "agent_turn \<Rightarrow> bool" where
  "turn_ok t \<longleftrightarrow> length (at_tool_calls t) \<le> 10 \<and> length (at_proposals t) \<le> 10 \<and> fits 20000 (at_text t) \<and>
     (at_tool_calls t = [] \<longleftrightarrow> at_final_output t \<noteq> None)"

record agent_state =
  st_iterations :: nat
  st_llm_calls :: nat
  st_tool_calls :: nat
  st_proposals :: nat
  st_memory :: working_memory
  st_messages :: "agent_message list"

definition initial_state :: "agent_message list \<Rightarrow> agent_state" where
  "initial_state ms = \<lparr>st_iterations = 0, st_llm_calls = 0, st_tool_calls = 0, st_proposals = 0,
     st_memory = empty_memory, st_messages = ms\<rparr>"

subsection \<open>What the loop is given\<close>

text \<open>
  The collaborators and readings of a loop: the model's answer to its n-th call, the text
  \<open>json.dumps\<close> makes of a tool's content, the elapsed seconds at each check of an iteration, the
  clocks of its tool calls and the readings of its proposals.
\<close>

record loop_env =
  lp_llm :: "nat \<Rightarrow> agent_message list \<Rightarrow> (exn, agent_turn) res"
  lp_dumps :: "json \<Rightarrow> string"
  lp_elapsed :: "nat \<Rightarrow> nat \<Rightarrow> nat"
  lp_tool_clock :: "nat \<Rightarrow> tool_clock"
  lp_proposal_env :: "nat \<Rightarrow> nat \<Rightarrow> call_env"
  lp_proposal_fate :: "nat \<Rightarrow> handler_fate"
  lp_proposal_duration :: "nat \<Rightarrow> int"

record 'out specialist =
  sp_name :: agent_name
  sp_validate :: "json \<Rightarrow> 'out option"

record loop_config =
  lc_services :: services
  lc_coercions :: coercions
  lc_actions :: action_registry
  lc_tools :: tool_config
  lc_budget :: budget

text \<open>A turn of the model for the n-th time: what it sends is an \<open>AgentTurn\<close>.\<close>

definition run_agent_turn :: "loop_env \<Rightarrow> nat \<Rightarrow> agent_message list \<Rightarrow> (app_db, agent_turn) session" where
  "run_agent_turn le n ms =
     pure_result (and_then (lp_llm le n ms) (\<lambda>t.
       if turn_ok t then Inr t else Inl (Exn (PyE ValueError) ''AgentTurn'')))"

subsection \<open>The loop\<close>

fun call_tools ::
  "loop_config \<Rightarrow> loop_env \<Rightarrow> uuid \<Rightarrow> agent_name \<Rightarrow> campaign_context \<Rightarrow> tool_request list \<Rightarrow> agent_state \<Rightarrow>
   agent_state awaited" where
  "call_tools lc le run_id a ctx [] st = returns st"
| "call_tools lc le run_id a ctx (rq # rqs) st =
     and_session (execute_tool (lc_services lc) (lc_coercions lc) (lc_tools lc) (lp_tool_clock le (st_tool_calls st))
       run_id a rq ctx) (\<lambda>content.
     and_session (pure_result (make_message
       \<lparr>am_role = Tool,
        am_content = ''<UNTRUSTED_TOOL_RESULT>'' @ lp_dumps le content @ ''</UNTRUSTED_TOOL_RESULT>'',
        am_call_id = Some (tq_call_id rq), am_tool_name = Some (tq_tool_name rq), am_tool_calls = []\<rparr>)) (\<lambda>m.
     call_tools lc le run_id a ctx rqs
       (st\<lparr>st_tool_calls := st_tool_calls st + 1, st_messages := st_messages st @ [m]\<rparr>)))"

fun action_request_status_value :: "action_request_status \<Rightarrow> string" where
  "action_request_status_value AQ_PROPOSED = ''PROPOSED''"
| "action_request_status_value AQ_PENDING_APPROVAL = ''PENDING_APPROVAL''"
| "action_request_status_value AQ_APPROVED = ''APPROVED''"
| "action_request_status_value AQ_REJECTED = ''REJECTED''"
| "action_request_status_value AQ_EXECUTING = ''EXECUTING''"
| "action_request_status_value AQ_COMPLETED = ''COMPLETED''"
| "action_request_status_value AQ_FAILED = ''FAILED''"
| "action_request_status_value AQ_EXPIRED = ''EXPIRED''"

definition proposal_note :: "proposal_result \<Rightarrow> string" where
  "proposal_note r =
     q_action_name (pp_request r) @ '': '' @ action_request_status_value (q_status (pp_request r))"

fun process_proposals ::
  "loop_config \<Rightarrow> loop_env \<Rightarrow> uuid \<Rightarrow> agent_name \<Rightarrow> action_proposal list \<Rightarrow> agent_state \<Rightarrow> agent_state awaited" where
  "process_proposals lc le run_id a [] st = returns st"
| "process_proposals lc le run_id a (p # ps) st =
     and_session (awaiting (let n = st_proposals st in
       propose (lc_services lc) (lc_coercions lc) (lc_actions lc) (lp_proposal_env le n) (lp_proposal_fate le n)
         (lp_proposal_duration le n) run_id a p)) (\<lambda>r.
     and_session (pure_result (memory_add ''action_result'' (proposal_note r) (st_memory st))) (\<lambda>m.
     process_proposals lc le run_id a ps (st\<lparr>st_proposals := st_proposals st + 1, st_memory := m\<rparr>)))"

text \<open>One turn: the budget is checked, the call is counted in the run and in its workflow, the model answers.\<close>

definition take_turn ::
  "loop_config \<Rightarrow> loop_env \<Rightarrow> uuid \<Rightarrow> uuid \<Rightarrow> agent_state \<Rightarrow> (agent_turn \<times> agent_state) awaited" where
  "take_turn lc le run_id workflow_id st =
     (let b = lc_budget lc; i = st_iterations st
      in and_session (pure_result (before_iteration b (lp_elapsed le i 0) i)) (\<lambda>_.
         and_session (pure_result (before_llm_call b (lp_elapsed le i 1) (st_llm_calls st))) (\<lambda>_.
         and_session (in_transaction (record_iteration run_id)) (\<lambda>_.
         and_session (in_transaction (record_llm_call (sv_settings (lc_services lc)) workflow_id)) (\<lambda>_.
         and_session (in_transaction (record_run_llm_call run_id)) (\<lambda>_.
         and_session (awaiting (run_agent_turn le (st_llm_calls st) (st_messages st))) (\<lambda>t.
         and_session (pure_result (check_timeout b (lp_elapsed le i 2))) (\<lambda>_.
         returns (t, st\<lparr>st_iterations := i + 1, st_llm_calls := st_llm_calls st + 1\<rparr>)))))))))"

definition finish_loop ::
  "loop_config \<Rightarrow> loop_env \<Rightarrow> 'out specialist \<Rightarrow> uuid \<Rightarrow> agent_turn \<Rightarrow> json \<Rightarrow> agent_state \<Rightarrow> 'out awaited" where
  "finish_loop lc le sp run_id t v st =
     and_session (pure_result (required (sp_validate sp v)
       (Exn (AgentE AgentOutputValidationError) ''Agent final output is invalid''))) (\<lambda>out.
     and_session (pure_result (before_action_proposals (lc_budget lc) (lp_elapsed le (st_iterations st) 3)
       (st_proposals st) (length (at_proposals t)))) (\<lambda>_.
     and_session (process_proposals lc le run_id (sp_name sp) (at_proposals t) st) (\<lambda>_. returns out)))"

definition continue_loop ::
  "loop_config \<Rightarrow> loop_env \<Rightarrow> agent_name \<Rightarrow> uuid \<Rightarrow> campaign_context \<Rightarrow> agent_turn \<Rightarrow> agent_state \<Rightarrow>
   agent_state awaited" where
  "continue_loop lc le a run_id ctx t st =
     and_session (pure_result (before_tool_calls (lc_budget lc) (lp_elapsed le (st_iterations st) 4)
       (st_tool_calls st) (length (at_tool_calls t)))) (\<lambda>_.
     and_session (pure_result (make_message
       \<lparr>am_role = Assistant, am_content = (case at_text t of None \<Rightarrow> [] | Some s \<Rightarrow> s), am_call_id = None,
        am_tool_name = None, am_tool_calls = at_tool_calls t\<rparr>)) (\<lambda>m.
     call_tools lc le run_id a ctx (at_tool_calls t) (st\<lparr>st_messages := st_messages st @ [m]\<rparr>)))"

fun agent_loop ::
  "loop_config \<Rightarrow> loop_env \<Rightarrow> 'out specialist \<Rightarrow> uuid \<Rightarrow> campaign_context \<Rightarrow> nat \<Rightarrow> agent_state \<Rightarrow> 'out awaited" where
  "agent_loop lc le sp run_id ctx 0 st =
     raising (Exn (AgentE AgentIterationLimitError) ''Agent iteration budget exhausted'')"
| "agent_loop lc le sp run_id ctx (Suc n) st =
     and_session (take_turn lc le run_id (cx_workflow_id ctx) st) (\<lambda>(t, st1).
     case at_final_output t of
       Some v \<Rightarrow> finish_loop lc le sp run_id t v st1
     | None \<Rightarrow>
         and_session (continue_loop lc le (sp_name sp) run_id ctx t st1) (agent_loop lc le sp run_id ctx n))"

text \<open>
  \<open>asyncio.timeout\<close> around the loop: a cancellation that comes from its deadline is turned into a
  time-out of the agent, any other passes.
\<close>

definition run_loop_within ::
  "bool \<Rightarrow> loop_config \<Rightarrow> loop_env \<Rightarrow> 'out specialist \<Rightarrow> uuid \<Rightarrow> campaign_context \<Rightarrow>
   (exn, agent_message list) res \<Rightarrow> 'out awaited" where
  "run_loop_within deadline lc le sp run_id ctx ms =
     catching (and_session (pure_result ms)
         (\<lambda>ms. agent_loop lc le sp run_id ctx (bg_max_iterations (lc_budget lc)) (initial_state ms)))
       (\<lambda>e. if (deadline \<and> is_cancelled e) \<or> is_instance (exn_cls e) (PyE PyTimeoutError)
          then raising (Exn (AgentE AgentTimeoutError) ''Agent execution timed out'') else raising e)"

end
