(* ===== verification/Session_Logic.thy ===== *)
theory Session_Logic
  imports Orchestrator Campaign_Steps
begin

text \<open>
  A logic for sessions that may raise: a triple states what holds after a result and what holds
  after an exception. The locale \<open>side_tables\<close> collects what never looks at the tables of actions,
  memories and events; everything the actions' services do keeps it.
\<close>

subsection \<open>Triples\<close>

definition triple ::
  "('s \<Rightarrow> bool) \<Rightarrow> ('s, 'a) session \<Rightarrow> ('a \<Rightarrow> 's \<Rightarrow> bool) \<Rightarrow> (exn \<Rightarrow> 's \<Rightarrow> bool) \<Rightarrow> bool" where
  "triple P m Q E \<longleftrightarrow>
     (\<forall>s. P s \<longrightarrow> (case m s of (Inr a, s') \<Rightarrow> Q a s' | (Inl e, s') \<Rightarrow> E e s'))"

abbreviation keeps :: "('s \<Rightarrow> bool) \<Rightarrow> ('s, 'a) session \<Rightarrow> bool" where
  "keeps P m \<equiv> triple P m (\<lambda>_. P) (\<lambda>_. P)"

lemma triple_InrD: "triple P m Q E \<Longrightarrow> P s \<Longrightarrow> m s = (Inr a, s') \<Longrightarrow> Q a s'"
  by (fastforce simp: triple_def)

lemma triple_InlD: "triple P m Q E \<Longrightarrow> P s \<Longrightarrow> m s = (Inl e, s') \<Longrightarrow> E e s'"
  by (fastforce simp: triple_def)

lemma keepsD: "keeps P m \<Longrightarrow> P s \<Longrightarrow> m s = (r, s') \<Longrightarrow> P s'"
  by (cases r) (auto dest: triple_InrD triple_InlD)

lemma tripleI:
  assumes "\<And>s a s'. P s \<Longrightarrow> m s = (Inr a, s') \<Longrightarrow> Q a s'"
    and "\<And>s e s'. P s \<Longrightarrow> m s = (Inl e, s') \<Longrightarrow> E e s'"
  shows "triple P m Q E"
  using assms by (auto simp: triple_def split: prod.splits sum.splits)

lemma triple_weaken:
  assumes "triple P m Q E" and "\<And>s. P' s \<Longrightarrow> P s" and "\<And>a s. Q a s \<Longrightarrow> Q' a s"
    and "\<And>e s. E e s \<Longrightarrow> E' e s"
  shows "triple P' m Q' E'"
proof (rule tripleI)
  fix s a s' assume "P' s" "m s = (Inr a, s')"
  then show "Q' a s'" using assms(2,3) triple_InrD [OF assms(1)] by blast
next
  fix s e s' assume "P' s" "m s = (Inl e, s')"
  then show "E' e s'" using assms(2,4) triple_InlD [OF assms(1)] by blast
qed

lemma triple_and_session:
  assumes "triple P m R E" and "\<And>a. triple (R a) (f a) Q E"
  shows "triple P (and_session m f) Q E"
proof (rule tripleI)
  fix s b s' assume P: "P s" and m: "and_session m f s = (Inr b, s')"
  obtain a s1 where "m s = (Inr a, s1)" and f: "f a s1 = (Inr b, s')" using m by (rule and_session_InrE)
  then have "R a s1" using P triple_InrD [OF assms(1)] by blast
  then show "Q b s'" using triple_InrD [OF assms(2) _ f] by blast
next
  fix s e s' assume P: "P s" and m: "and_session m f s = (Inl e, s')"
  obtain r s1 where ms: "m s = (r, s1)" by fastforce
  show "E e s'"
  proof (cases r)
    case (Inl x)
    then show ?thesis using ms m P triple_InlD [OF assms(1)] by (simp add: and_session_def)
  next
    case (Inr a)
    then have "R a s1" using ms P triple_InrD [OF assms(1)] by blast
    then show ?thesis using triple_InlD [OF assms(2)] ms m Inr by (simp add: and_session_def)
  qed
qed

lemma triple_catching:
  assumes "triple P m Q R" and "\<And>e. triple (R e) (h e) Q E"
  shows "triple P (catching m h) Q E"
proof (rule tripleI)
  fix s a s' assume P: "P s" and c: "catching m h s = (Inr a, s')"
  obtain r s1 where ms: "m s = (r, s1)" by fastforce
  show "Q a s'"
  proof (cases r)
    case (Inl e)
    then have "R e s1" using ms P triple_InlD [OF assms(1)] by blast
    then show ?thesis using triple_InrD [OF assms(2)] ms c Inl by (simp add: catching_def)
  next
    case (Inr b)
    then show ?thesis using ms c P triple_InrD [OF assms(1)] by (simp add: catching_def)
  qed
next
  fix s x s' assume P: "P s" and c: "catching m h s = (Inl x, s')"
  obtain r s1 where ms: "m s = (r, s1)" by fastforce
  show "E x s'"
  proof (cases r)
    case (Inl e)
    then have "R e s1" using ms P triple_InlD [OF assms(1)] by blast
    then show ?thesis using triple_InlD [OF assms(2)] ms c Inl by (simp add: catching_def)
  next
    case (Inr b)
    then show ?thesis using ms c by (simp add: catching_def)
  qed
qed

lemma triple_returns: "(\<And>s. P s \<Longrightarrow> Q a s) \<Longrightarrow> triple P (returns a) Q E"
  by (rule tripleI) auto

lemma triple_pure:
  "(\<And>a s. r = Inr a \<Longrightarrow> P s \<Longrightarrow> Q a s) \<Longrightarrow> (\<And>e s. r = Inl e \<Longrightarrow> P s \<Longrightarrow> E e s) \<Longrightarrow> triple P (pure_result r) Q E"
  by (rule tripleI) (auto simp: pure_result_def)

lemma triple_raising: "(\<And>s. P s \<Longrightarrow> E e s) \<Longrightarrow> triple P (raising e) Q E"
  by (rule tripleI) (auto simp: raising_def)

lemma triple_raises: "(\<And>s. P s \<Longrightarrow> E e s) \<Longrightarrow> triple P (raises e) Q E"
  by (rule tripleI) (auto simp: raises_def)

lemma triple_atomically:
  assumes "\<And>s a s'. P s \<Longrightarrow> f s = Inr (a, s') \<Longrightarrow> Q a s'" and "\<And>s e. P s \<Longrightarrow> f s = Inl e \<Longrightarrow> E e s"
  shows "triple P (atomically f) Q E"
  using assms by (intro tripleI) (auto dest!: atomically_InrD atomically_InlD)

lemma keeps_atomically: "(\<And>s a s'. P s \<Longrightarrow> f s = Inr (a, s') \<Longrightarrow> P s') \<Longrightarrow> keeps P (atomically f)"
  by (rule triple_atomically)

text \<open>Interruptible sessions: the property is one of the tables.\<close>

abbreviation on_db :: "(app_db \<Rightarrow> bool) \<Rightarrow> app_db \<times> nat option \<Rightarrow> bool" where
  "on_db P s \<equiv> P (fst s)"

abbreviation atriple ::
  "(app_db \<Rightarrow> bool) \<Rightarrow> 'a awaited \<Rightarrow> ('a \<Rightarrow> app_db \<Rightarrow> bool) \<Rightarrow> (exn \<Rightarrow> app_db \<Rightarrow> bool) \<Rightarrow> bool" where
  "atriple P m Q E \<equiv> triple (on_db P) m (\<lambda>a. on_db (Q a)) (\<lambda>e. on_db (E e))"

lemma triple_shielded: "triple P m Q E \<Longrightarrow> atriple P (shielded m) Q E"
  by (rule tripleI) (auto simp: shielded_def split: prod.splits dest: triple_InrD triple_InlD)

lemma triple_awaiting:
  assumes "triple P m Q E" and "\<And>db. P db \<Longrightarrow> E cancelled_error db"
  shows "atriple P (awaiting m) Q E"
proof -
  note inner = triple_shielded [OF assms(1)]
  have "(case awaiting m s of (Inr a, s') \<Rightarrow> Q a (fst s') | (Inl e, s') \<Rightarrow> E e (fst s'))" if "P (fst s)" for s
  proof (cases "snd s = Some 0")
    case True
    then show ?thesis using assms(2) that by (simp add: awaiting_def)
  next
    case False
    then have "awaiting m s = shielded m (fst s, map_option (\<lambda>k. k - 1) (snd s))"
      by (auto simp: awaiting_def split: option.splits nat.splits)
    then show ?thesis using inner that by (simp add: triple_def)
  qed
  then show ?thesis by (simp add: triple_def)
qed

lemma keeps_awaiting: "keeps P m \<Longrightarrow> keeps (on_db P) (awaiting m)"
  by (rule triple_awaiting) auto

lemma keeps_in_transaction:
  "(\<And>s a s'. P s \<Longrightarrow> f s = Inr (a, s') \<Longrightarrow> P s') \<Longrightarrow> keeps (on_db P) (in_transaction f)"
  unfolding in_transaction_def by (intro keeps_awaiting keeps_atomically)

lemma keeps_simple [intro]: "keeps P (returns a)" "keeps P (pure_result r)" "keeps P (raising e)" "keeps P (raises e)"
  by (auto intro: triple_returns triple_pure triple_raising triple_raises)

lemmas keeps_and_session = triple_and_session [where P = P and R = "\<lambda>_. P" and Q = "\<lambda>_. P" and E = "\<lambda>_. P" for P]
lemmas keeps_catching = triple_catching [where P = P and R = "\<lambda>_. P" and Q = "\<lambda>_. P" and E = "\<lambda>_. P" for P]

subsection \<open>What actions leave alone\<close>

definition same_core :: "app_db \<Rightarrow> app_db \<Rightarrow> bool" where
  "same_core db db' \<longleftrightarrow> same_tables db db' \<and> agent_runs db' = agent_runs db \<and> tool_calls db' = tool_calls db"

lemma same_core_refl [simp]: "same_core db db"
  by (simp add: same_core_def)

lemma same_core_trans: "same_core a b \<Longrightarrow> same_core b c \<Longrightarrow> same_core a c"
  by (auto simp: same_core_def intro: same_tables_trans)

lemma put_tool_calls [simp]:
  "tool_calls (put_request q db) = tool_calls db" "tool_calls (put_execution x db) = tool_calls db"
  "tool_calls (put_campaign c db) = tool_calls db" "tool_calls (put_workflow w db) = tool_calls db"
  by (simp_all add: put_request_def put_execution_def put_campaign_def put_workflow_def)

lemma same_core_put [simp]:
  "same_core a (put_request q b) = same_core a b" "same_core a (put_execution x b) = same_core a b"
  "same_core (put_request q a) b = same_core a b" "same_core (put_execution x a) b = same_core a b"
  by (simp_all add: same_core_def same_tables_def)

lemma same_core_rows [simp]:
  "same_core a (b\<lparr>requests := rs\<rparr>) = same_core a b" "same_core a (b\<lparr>executions := xs\<rparr>) = same_core a b"
  "same_core a (b\<lparr>memories := ms\<rparr>) = same_core a b" "same_core a (b\<lparr>events := es\<rparr>) = same_core a b"
  "same_core a (add_execution x b) = same_core a b" "same_core (add_execution x a) b = same_core a b"
  by (simp_all add: same_core_def same_tables_def add_execution_def)

lemma flush_core: "flush_request q db = Inr db' \<Longrightarrow> same_core db db'"
  "flush_execution x db = Inr db' \<Longrightarrow> same_core db db'"
  by (auto simp: flush_request_def flush_execution_def split: if_splits)

lemma flush_rows_core: "flush_rows qs db = Inr db' \<Longrightarrow> same_core db db'"
  by (induction qs arbitrary: db) (fastforce simp: result_simps flush_request_def split: if_splits)+

lemma versioned_update_core: "same_core db (snd (versioned_update k v st f db))"
  by (auto simp: versioned_update_def split: option.splits)

lemma add_outbox_event_core: "add_outbox_event sv env r db = Inr db' \<Longrightarrow> same_core db db'"
  by (auto simp: add_outbox_event_def result_simps)

lemma reserve_execution_core: "reserve_execution env found q g db = Inr (r, db') \<Longrightarrow> same_core db db'"
  by (auto simp: reserve_execution_def result_simps Let_def flush_request_def flush_execution_def split: if_splits)

lemma record_event_core: "record_event sv env r db = (Inr m, db') \<Longrightarrow> same_core db db'"
  by (auto simp: record_event_def result_simps Let_def dest!: atomically_InrD split: if_splits option.splits)

lemma mark_memory_recorded_core: "mark_memory_recorded now k db = Inr (u, db') \<Longrightarrow> same_core db db'"
  by (auto simp: mark_memory_recorded_def result_simps dest: flush_core)

lemma memory_failure_core: "memory_failure sv env k xk e db = Inr (u, db') \<Longrightarrow> same_core db db'"
  by (auto simp: memory_failure_def result_simps flush_execution_def dest!: add_outbox_event_core
      split: option.splits if_splits)

lemma memory_attempt_core: "memory_attempt k xk db = Inr (u, db') \<Longrightarrow> same_core db db'"
  by (auto simp: memory_attempt_def result_simps dest: flush_core split: if_splits)

lemma create_proposal_core: "create_proposal sv env p key r ctx db = Inr (a, db') \<Longrightarrow> same_core db db'"
  by (auto simp: create_proposal_def Let_def split: option.splits if_splits)

lemma commit_and_raise_core: "commit_and_raise qs e db = (r, db') \<Longrightarrow> same_core db db' \<and> (\<exists>x. r = Inl x)"
  by (auto simp: commit_and_raise_def dest: flush_rows_core split: sum.splits)

end
