(* ===== verification/Agent_Effects.thy ===== *)
theory Agent_Effects
  imports Session_Logic
begin

text \<open>
  What the collaborators of an agent's run do to the tables: the actions' services keep every
  property of the core tables that the handlers of the SAFE actions keep, whatever the model
  proposes: a run executes a request only right after it has stored it, so no request it executes
  is approved, and a request that is not approved is executed only as SAFE.
\<close>

lemma reserve_decide_core:
  "reserve_decide sv env found ctx p g q db = (r, db') \<Longrightarrow> same_core db db'"
proof -
  have exec: "same_core db db2" if "reserve_execution env found q g (put_request q db) = Inr (rv, db2)" for rv db2
    using reserve_execution_core [OF that] by simp
  have expire: "same_core db (snd (repo_expire k v (put_request q db)))" for k v
    using versioned_update_core [of "put_request q db"] by (simp add: repo_expire_def)
  assume "reserve_decide sv env found ctx p g q db = (r, db')"
  then show "same_core db db'"
    using exec expire
    by (auto simp: reserve_decide_def Let_def flush_request_def dest: commit_and_raise_core
        split: sum.splits if_splits prod.splits option.splits)
qed

lemma reserve_decide_definition:
  "reserve_decide sv env found ctx p g q db = (Inr rv, db') \<Longrightarrow>
   found = Some (rv_definition rv) \<and> q_action_name (rv_request rv) = q_action_name q"
  by (auto simp: reserve_decide_def Let_def flush_request_def reserve_execution_def result_simps
      moved_request_def dest: commit_and_raise_core split: sum.splits if_splits prod.splits option.splits)

lemma reserve_definition:
  "reserve sv co reg env k expected db = (Inr rv, db') \<Longrightarrow>
   map_of reg (q_action_name (rv_request rv)) = Some (rv_definition rv)"
  by (auto simp: reserve_def Let_def latest_policy_def dest!: reserve_decide_definition
      split: sum.splits prod.splits)

text \<open>A request that nobody has approved is executed only under a definition that is SAFE.\<close>

definition unapproved :: "uuid \<Rightarrow> app_db \<Rightarrow> bool" where
  "unapproved k db \<longleftrightarrow> (\<forall>q. get_request db k = Some q \<longrightarrow> q_status q \<noteq> AQ_APPROVED)"

lemma evaluate_safe: "pr_decision (evaluate co ctx (Some d)) = PD_SAFE \<Longrightarrow> ad_default_policy d = PD_SAFE"
  by (auto simp: evaluate_def deny_def decide_by_definition_def split: if_splits option.splits policy_decision.splits)

lemma reserve_decide_safe:
  "reserve_decide sv env found ctx p g q db = (Inr rv, db') \<Longrightarrow> q_status q \<noteq> AQ_APPROVED \<Longrightarrow> pr_decision p = PD_SAFE"
  by (cases "pr_decision p")
    (auto simp: reserve_decide_def Let_def flush_request_def dest: commit_and_raise_core
      split: sum.splits if_splits prod.splits option.splits)

lemma reserve_safe:
  assumes "reserve sv co reg env k expected db = (Inr rv, db')" and "unapproved k db"
  shows "ad_default_policy (rv_definition rv) = PD_SAFE"
proof -
  from assms(1) obtain c w q where rows: "reserve_rows k db = Inr (c, w, q)"
    and run: "reserve_decide sv env (map_of reg (q_action_name q)) (reserve_context c w q db)
        (evaluate co (reserve_context c w q db) (map_of reg (q_action_name q))) (reserve_guard c w)
        (latest_policy (env_now env) (evaluate co (reserve_context c w q db) (map_of reg (q_action_name q)))
          (reserve_context c w q db) None None q) db = (Inr rv, db')"
    by (auto simp: reserve_def Let_def result_simps split: sum.splits)
  have "q_status q \<noteq> AQ_APPROVED"
    using rows assms(2) by (auto simp: reserve_rows_def result_simps unapproved_def)
  then have "pr_decision (evaluate co (reserve_context c w q db) (map_of reg (q_action_name q))) = PD_SAFE"
    using reserve_decide_safe [OF run] by (simp add: latest_policy_def)
  then show ?thesis using reserve_decide_definition [OF run] evaluate_safe by simp
qed

lemma created_unapproved:
  assumes "create_proposal sv env proposal key p ctx db = Inr ((q, True), db')"
  shows "unapproved (q_id q) db'"
proof -
  have q: "q = proposed_row sv env proposal key p ctx" and db': "db' = db\<lparr>requests := requests db @ [q]\<rparr>"
    and new: "get_request db (q_id q) = None"
    using assms by (auto simp: create_proposal_def Let_def split: option.splits if_splits)
  have "q_status q \<noteq> AQ_APPROVED"
    by (cases "pr_decision p") (simp_all add: q proposed_row_def new_request_def Let_def)
  moreover have "get_request db' (q_id q) = Some q"
    using new by (simp add: db' t_get_append table_simps)
  ultimately show ?thesis by (simp add: unapproved_def)
qed

lemma record_event_requests: "record_event sv env r db = (res, db') \<Longrightarrow> requests db' = requests db"
  by (auto simp: record_event_def atomically_def Let_def result_simps split: sum.splits if_splits option.splits)

locale side_tables =
  fixes P :: "app_db \<Rightarrow> bool"
  assumes side: "P db \<Longrightarrow> same_core db db' \<Longrightarrow> P db'"
begin

lemma keeps_core: "(\<And>db a db'. f db = Inr (a, db') \<Longrightarrow> same_core db db') \<Longrightarrow> keeps P (atomically f)"
  using side by (blast intro: keeps_atomically)

lemma keeps_record_event: "keeps P (record_event sv env r)"
proof (rule tripleI)
  fix db m db' assume "P db" "record_event sv env r db = (Inr m, db')"
  then show "P db'" using record_event_core side by blast
next
  fix db e db' assume "P db" "record_event sv env r db = (Inl e, db')"
  then show "P db'" by (auto simp: record_event_def dest!: atomically_InlD)
qed

lemma keeps_finalize_rows:
  assumes "\<And>x q db db'. publish x q db = Inr db' \<Longrightarrow> same_core db db'"
  shows "keeps P (atomically (finalize_rows k xk change status publish))"
  by (rule keeps_core)
    (auto simp: finalize_rows_def result_simps flush_request_def flush_execution_def split: if_splits dest!: assms)

lemma keeps_record_terminal_memory:
  "keeps P (record_terminal_memory sv env k xk et s m n)"
proof -
  have body: "keeps P (\<lambda>db. case and_session (record_event sv (env 0) (action_memory q (Some xk) et s m n))
       (\<lambda>_. atomically (mark_memory_recorded (env_now (env 1)) xk)) db of
      (Inr u, db') \<Rightarrow> (Inr u, db')
    | (Inl e, db') \<Rightarrow> if is_instance (exn_cls e) (PyE PyException)
        then atomically (memory_failure sv (env 2) k xk e) db' else (Inl e, db'))" (is "keeps P ?m") for q
  proof -
    have eq: "?m = catching (and_session (record_event sv (env 0) (action_memory q (Some xk) et s m n))
         (\<lambda>_. atomically (mark_memory_recorded (env_now (env 1)) xk)))
       (\<lambda>e. if is_instance (exn_cls e) (PyE PyException) then atomically (memory_failure sv (env 2) k xk e)
          else raising e)"
      by (rule ext) (auto simp: catching_def raising_def split: prod.splits sum.splits)
    show ?thesis unfolding eq
      by (intro keeps_catching keeps_and_session)
        (auto intro: keeps_record_event keeps_core mark_memory_recorded_core memory_failure_core)
  qed
  show ?thesis unfolding record_terminal_memory_def
  proof (rule keeps_and_session)
    show "keeps P (atomically (memory_attempt k xk))" by (rule keeps_core) (rule memory_attempt_core)
    show "keeps P (case started of None \<Rightarrow> returns () | Some q \<Rightarrow> (\<lambda>db.
         case and_session (record_event sv (env 0)
                (action_memory q (Some xk) et s m n))
              (\<lambda>_. atomically (mark_memory_recorded (env_now (env 1)) xk)) db of
           (Inr u, db') \<Rightarrow> (Inr u, db')
         | (Inl e, db') \<Rightarrow>
             if is_instance (exn_cls e) (PyE PyException)
             then atomically (memory_failure sv (env 2) k xk e) db'
             else (Inl e, db')))" for started
      by (cases started) (simp_all only: option.case body keeps_simple)
  qed
qed

lemma keeps_finalize:
  "keeps P (finalize_success sv env k xk summary duration)"
  "keeps P (finalize_failure sv env k xk e duration)"
  "keeps P (finalize_cancelled sv env k xk duration)"
  unfolding finalize_success_def finalize_failure_def finalize_cancelled_def Let_def
  by (intro keeps_and_session keeps_finalize_rows keeps_record_terminal_memory keeps_core;
      auto simp: result_simps dest: add_outbox_event_core)+

lemma keeps_fail_with: "keeps P (fail_with sv env k xk e duration x)"
  unfolding fail_with_def by (intro keeps_and_session) (auto intro: keeps_finalize)

lemma keeps_execution_exception: "keeps P (execution_exception sv env k xk duration e)"
  unfolding execution_exception_def Let_def by (auto intro: keeps_fail_with)

lemma keeps_reserve: "keeps P (reserve sv co reg env k expected)"
proof -
  have "same_core db db'" if "reserve sv co reg env k expected db = (r, db')" for db r db'
    using that reserve_decide_core
    by (auto simp: reserve_def Let_def split: sum.splits prod.splits)
  then show ?thesis using side by (intro tripleI) blast+
qed

lemma keeps_run_handler:
  assumes "\<And>p g. keeps P (ad_handler (rv_definition r) p g)"
  shows "keeps P (run_handler sv env fate duration r p)"
proof -
  have "P db'" if db: "P db" and run: "run_handler sv env fate duration r p db = (res, db')" for db res db'
  proof -
    obtain out db1 where h: "ad_handler (rv_definition r) p (rv_guard r) db = (out, db1)" by fastforce
    have db1: "P db1" by (rule keepsD [OF assms db h])
    note later = keeps_fail_with [THEN keepsD] keeps_execution_exception [THEN keepsD]
      keeps_finalize [THEN keepsD]
    have cancelled: "keeps P (and_session (finalize_cancelled sv env k xk duration)
        (\<lambda>_. raises (Exn (PyE CancelledError) '''')))" for k xk
      by (intro keeps_and_session) (auto intro: keeps_finalize)
    show ?thesis
    proof (cases fate)
      case Handler_Ends
      then show ?thesis using run h db1
        by (auto simp: run_handler_def Let_def split: sum.splits prod.splits intro: later)
    next
      case (Handler_Times_Out c)
      then show ?thesis using run h db db1
        by (auto simp: run_handler_def Let_def split: if_splits intro: later)
    next
      case (Handler_Cancelled c)
      then show ?thesis using run h db db1
        by (auto simp: run_handler_def Let_def split: if_splits intro: cancelled [THEN keepsD])
    qed
  qed
  then show ?thesis by (intro tripleI) blast+
qed

text \<open>The handlers of a registry that run without an approval.\<close>

definition handlers_keep :: "action_registry \<Rightarrow> bool" where
  "handlers_keep reg \<longleftrightarrow>
     (\<forall>name d. map_of reg name = Some d \<longrightarrow> ad_default_policy d = PD_SAFE \<longrightarrow> (\<forall>p g. keeps P (ad_handler d p g)))"

lemma unapproved_execute_action:
  assumes "handlers_keep reg"
  shows "triple (\<lambda>db. P db \<and> unapproved k db) (execute_action sv co reg env fate duration k expected) (\<lambda>_. P) (\<lambda>_. P)"
proof -
  have "triple (\<lambda>db. P db \<and> unapproved k db) (reserve sv co reg (env 0) k expected)
      (\<lambda>rv db. P db \<and> (\<forall>p g. keeps P (ad_handler (rv_definition rv) p g))) (\<lambda>_. P)"
  proof (rule tripleI)
    fix db rv db' assume "P db \<and> unapproved k db" and r: "reserve sv co reg (env 0) k expected db = (Inr rv, db')"
    then show "P db' \<and> (\<forall>p g. keeps P (ad_handler (rv_definition rv) p g))"
      using keeps_reserve [THEN keepsD] reserve_definition [OF r] reserve_safe [OF r] assms
      unfolding handlers_keep_def by blast
  qed (use keeps_reserve [THEN keepsD] in blast)
  then show ?thesis unfolding execute_action_def Let_def
  proof (rule triple_and_session)
    fix rv
    show "triple (\<lambda>db. P db \<and> (\<forall>p g. keeps P (ad_handler (rv_definition rv) p g)))
      (case ad_input_model (rv_definition rv) co (q_arguments (rv_request rv)) of
          None \<Rightarrow> fail_with sv (\<lambda>n. env (n + 1)) (q_id (rv_request rv)) (x_id (rv_execution rv))
            (Exn (PyE ValueError) '''') 0 (controlled_error ''Action input validation failed'')
        | Some p \<Rightarrow> run_handler sv (\<lambda>n. env (n + 1)) fate duration rv p) (\<lambda>_. P) (\<lambda>_. P)"
    proof (cases "\<forall>p g. keeps P (ad_handler (rv_definition rv) p g)")
      case True
      then have h: "\<And>p. keeps P (run_handler sv (\<lambda>n. env (n + 1)) fate duration rv p)"
        using keeps_run_handler by blast
      show ?thesis
        by (rule triple_weaken [where P = P]) (use h keeps_fail_with in \<open>auto split: option.split\<close>)
    next
      case False
      then show ?thesis by (intro tripleI) blast+
    qed
  qed
qed

lemma unapproved_record_event: "keeps (\<lambda>db. P db \<and> unapproved k db) (record_event sv env r)"
proof (rule tripleI)
  fix db m db' assume "P db \<and> unapproved k db" and run: "record_event sv env r db = (Inr m, db')"
  then show "P db' \<and> unapproved k db'"
    using keeps_record_event [THEN keepsD] record_event_requests [OF run] by (auto simp: unapproved_def)
next
  fix db e db' assume "P db \<and> unapproved k db" and run: "record_event sv env r db = (Inl e, db')"
  then show "P db' \<and> unapproved k db'"
    using keeps_record_event [THEN keepsD] record_event_requests [OF run] by (auto simp: unapproved_def)
qed

lemma unapproved_proposal_memories: "keeps (\<lambda>db. P db \<and> unapproved k db) (proposal_memories sv env q)"
  unfolding proposal_memories_def by (intro keeps_and_session) (auto intro: unapproved_record_event)

lemma unapproved_propose_new:
  assumes "handlers_keep reg"
  shows "triple (\<lambda>db. P db \<and> unapproved (q_id q) db) (propose_new sv co reg env fate duration q) (\<lambda>_. P) (\<lambda>_. P)"
proof -
  have read: "keeps P (\<lambda>db. case get_action_request k db of Inl e \<Rightarrow> (Inl e, db) | Inr q \<Rightarrow> (Inr (f q), db))" for k f
    by (rule tripleI) (auto split: sum.splits)
  have safe: "triple (\<lambda>db. P db \<and> unapproved (q_id q) db) (execute_safe sv co reg env' fate duration (q_id q)) (\<lambda>_. P) (\<lambda>_. P)" for env'
    unfolding execute_safe_def by (rule triple_and_session [OF unapproved_execute_action [OF assms] read])
  have noted: "keeps P (and_session (record_event sv e r) (\<lambda>_. returns v))" for e r v
    by (intro keeps_and_session) (auto intro: keeps_record_event)
  have other: "keeps P m \<Longrightarrow> triple (\<lambda>db. P db \<and> unapproved (q_id q) db) m (\<lambda>_. P) (\<lambda>_. P)"
    for m :: "(app_db, proposal_result) session"
    by (rule triple_weaken [where P = P]) auto
  have memories: "triple (\<lambda>db. P db \<and> unapproved (q_id q) db) (proposal_memories sv env q)
      (\<lambda>_ db. P db \<and> unapproved (q_id q) db) (\<lambda>_. P)"
    by (rule triple_weaken [OF unapproved_proposal_memories]) auto
  show ?thesis unfolding propose_new_def Let_def
    by (rule triple_and_session [OF memories])
      (auto split: policy_decision.split intro!: safe noted other)
qed

lemma keeps_propose:
  assumes "handlers_keep reg"
  shows "keeps P (propose sv co reg env fate duration run_id a proposal)"
proof -
  have old: "keeps P (atomically (existing_proposal k))" for k
    by (rule keeps_core) (auto simp: existing_proposal_def result_simps)
  have stored: "triple P (atomically (create_proposal sv e safe key p ctx))
      (\<lambda>x db. P db \<and> (snd x \<longrightarrow> unapproved (q_id (fst x)) db)) (\<lambda>_. P)" for e safe key p ctx
    by (rule triple_atomically) (use side create_proposal_core created_unapproved in \<open>fastforce+\<close>)
  have new: "keeps P (and_session (atomically (create_proposal sv e safe key p ctx)) (\<lambda>(q, created).
      if created then propose_new sv co reg env' fate duration q else atomically (existing_proposal (q_id q))))"
    for e safe key p ctx env'
  proof (rule triple_and_session [OF stored])
    fix x
    show "triple (\<lambda>db. P db \<and> (snd x \<longrightarrow> unapproved (q_id (fst x)) db))
       (case x of (q, created) \<Rightarrow> if created then propose_new sv co reg env' fate duration q
          else atomically (existing_proposal (q_id q))) (\<lambda>_. P) (\<lambda>_. P)"
      using unapproved_propose_new [OF assms, of "fst x"] old [of "q_id (fst x)"]
      by (cases x; cases "snd x") (auto intro: triple_weaken)
  qed
  have "P db'" if "P db" "propose sv co reg env fate duration run_id a proposal db = (r, db')" for db r db'
    using that by (auto simp: propose_def Let_def split: sum.splits prod.splits intro: new [THEN keepsD])
  then show ?thesis by (intro tripleI) blast+
qed

end

text \<open>
  A property of the campaigns, the workflows and the approvals alone: the whole run of a specialist
  keeps it, if the handlers of the actions and the count of the workflow's calls do.
\<close>

locale core_tables = side_tables +
  fixes sv :: services
  assumes core: "P db \<Longrightarrow> same_tables db db' \<Longrightarrow> P db'"
    and llm: "P db \<Longrightarrow> record_llm_call (sv_settings sv) k db = Inr (u, db') \<Longrightarrow> P db'"
begin

lemma keeps_same: "(\<And>db a db'. f db = Inr (a, db') \<Longrightarrow> same_tables db db') \<Longrightarrow> keeps (on_db P) (in_transaction f)"
  by (rule keeps_in_transaction) (blast intro: core)

lemma change_run_same: "change_run k allowed t f db = Inr (u, db') \<Longrightarrow> same_tables db db'"
  by (auto simp: change_run_Inr same_tables_def)

lemma keeps_run_changes:
  "keeps (on_db P) (in_transaction (create_run env p))" "keeps (on_db P) (in_transaction (start_run k))"
  "keeps (on_db P) (in_transaction (record_iteration k))" "keeps (on_db P) (in_transaction (record_run_llm_call k))"
  "keeps (on_db P) (in_transaction (complete_run now k))"
  by (rule keeps_same;
      auto simp: create_run_def start_run_def record_iteration_def record_run_llm_call_def complete_run_def
        result_simps Let_def same_tables_def dest: change_run_same [unfolded same_tables_def])+

lemma finish_tool_call_same: "finish_tool_call now k s m e d db = Inr (u, db') \<Longrightarrow> same_tables db db'"
  by (auto simp: finish_tool_call_def result_simps same_tables_def)

lemma keeps_tool_changes:
  "keeps (on_db P) (in_transaction (create_tool_call env k n args))" "keeps (on_db P) (in_transaction (start_tool_call k))"
  "keeps (on_db P) (in_transaction (finish_tool_call now k s m e d))"
  by (rule keeps_same;
      auto simp: create_tool_call_def start_tool_call_def result_simps Let_def same_tables_def
        dest: finish_tool_call_same [unfolded same_tables_def])+

lemma keeps_finish_tool_call: "keeps P (atomically (finish_tool_call now k s m e d))"
  by (rule keeps_atomically) (blast intro: core finish_tool_call_same)

lemma keeps_execute_tool: "keeps (on_db P) (execute_tool sv' co cfg ck k a rq ctx)"
proof -
  have handler: "keeps P (run_tool_handler ck d p)" for d p
    by (rule tripleI) (auto simp: run_tool_handler_def split: tool_fate.splits)
  have body: "keeps (on_db P) (tool_body sv' co cfg ck a rq ctx c)" for c
    unfolding tool_body_def
    by (intro keeps_and_session keeps_awaiting handler keeps_tool_changes)
      (auto split: prod.split intro!: keeps_and_session keeps_tool_changes)
  have failure: "keeps (on_db P) (tool_failure ck c e)" for c e
    unfolding tool_failure_def Let_def
    by (auto intro!: keeps_and_session keeps_awaiting triple_shielded keeps_finish_tool_call)
  show ?thesis unfolding execute_tool_def
    by (intro keeps_and_session keeps_catching keeps_tool_changes body failure)
qed

lemma keeps_call_tools: "keeps (on_db P) (call_tools lc le k a ctx rqs st)"
  by (induction rqs arbitrary: st) (auto intro!: keeps_and_session keeps_execute_tool)

lemma keeps_process_proposals:
  "handlers_keep (lc_actions lc) \<Longrightarrow> keeps (on_db P) (process_proposals lc le k a ps st)"
  by (induction ps arbitrary: st) (auto simp: Let_def intro!: keeps_and_session keeps_awaiting keeps_propose)

lemma keeps_take_turn:
  assumes "lc_services lc = sv"
  shows "keeps (on_db P) (take_turn lc le k wk st)"
proof -
  have "keeps (on_db P) (in_transaction (record_llm_call (sv_settings (lc_services lc)) wk))"
    unfolding assms by (rule keeps_in_transaction) (rule llm)
  moreover have "keeps P (run_agent_turn le n ms)" for n ms
    by (auto simp: run_agent_turn_def)
  ultimately show ?thesis unfolding take_turn_def Let_def
    by (intro keeps_and_session keeps_simple keeps_run_changes keeps_awaiting) simp
qed

lemma keeps_agent_loop:
  assumes "lc_services lc = sv" and "handlers_keep (lc_actions lc)"
  shows "keeps (on_db P) (agent_loop lc le sp k ctx n st)"
proof (induction n arbitrary: st)
  case 0
  show ?case by auto
next
  case (Suc n)
  have finish: "keeps (on_db P) (finish_loop lc le sp k t v st)" for t v st
    unfolding finish_loop_def by (intro keeps_and_session keeps_simple keeps_process_proposals assms(2))
  have continue: "keeps (on_db P) (continue_loop lc le a k ctx t st)" for a t st
    unfolding continue_loop_def by (intro keeps_and_session keeps_simple keeps_call_tools)
  show ?case
    by (auto intro!: keeps_and_session [OF keeps_take_turn [OF assms(1)]] keeps_and_session [OF continue] finish Suc
        split: prod.split option.split)
qed

lemma keeps_failure: "keeps (on_db P) (handle_agent_error sv' env k ctx e)"
proof -
  have fail: "keeps P (atomically (fail_run now k x limit))" for now k x limit
    unfolding fail_run_def Let_def by (rule keeps_atomically) (blast intro: core change_run_same)
  have memory: "keeps P (and_session (record_event sv' env r) (\<lambda>_. returns ()))" for r
    by (intro keeps_and_session keeps_record_event keeps_simple)
  have rest: "keeps (on_db P) (if is_cancelled x then raising x else returns ())" for x by auto
  have "keeps (on_db P) (record_agent_failure sv' env shield k ctx x limit)" for shield k x limit
    unfolding record_agent_failure_def Let_def
    by (cases shield)
      (auto intro!: keeps_and_session keeps_catching keeps_awaiting triple_shielded fail memory rest)
  then show ?thesis unfolding handle_agent_error_def Let_def by (auto intro!: keeps_and_session)
qed

lemma keeps_run_specialist:
  assumes "oc_services oc = sv" and "handlers_keep (oc_actions oc)"
  shows "keeps (on_db P) (run_specialist oc oe sp ctx shown)"
proof -
  have loop: "keeps (on_db P) (run_loop_within d (loop_config_of oc) le sp k ctx ms)" for d le k ms
    unfolding run_loop_within_def
    by (intro keeps_catching keeps_and_session keeps_simple keeps_agent_loop)
      (auto simp: loop_config_of_def assms)
  show ?thesis unfolding run_specialist_def
    by (auto intro!: keeps_and_session keeps_catching loop keeps_failure keeps_run_changes keeps_awaiting
        split: prod.split)
qed

lemma keeps_orchestrator:
  assumes "oc_services oc = sv" and "handlers_keep (oc_actions oc)"
  shows "keeps (on_db P) (orchestrate_analysis oc oe c k)" "keeps (on_db P) (orchestrate_generation oc oe c k)"
    "keeps (on_db P) (orchestrate_review oc oe c k)"
proof -
  have "keeps (on_db P) (in_transaction (build_brief_context co c k))"
    "keeps (on_db P) (in_transaction (build_generation_context co c k))"
    "keeps (on_db P) (in_transaction (build_review_context co c k))" for co
    by (rule keeps_in_transaction;
        auto simp: build_brief_context_def build_generation_context_def build_review_context_def result_simps Let_def)+
  then show "keeps (on_db P) (orchestrate_analysis oc oe c k)" "keeps (on_db P) (orchestrate_generation oc oe c k)"
    "keeps (on_db P) (orchestrate_review oc oe c k)"
    unfolding orchestrate_analysis_def orchestrate_generation_def orchestrate_review_def
    by (auto intro!: keeps_and_session keeps_run_specialist [OF assms])
qed

end

end
