(* ===== verification/Agent_Audit.thy ===== *)
theory Agent_Audit
  imports Agent_Effects Action_Progress Campaign_Progress
begin

text \<open>
  The audit row of a run follows the loop: its counters are those of the loop's state, they stay
  within the budget, and the row is closed when the run is over.
\<close>

subsection \<open>The orchestrator of the agents is tame\<close>

text \<open>
  The orchestrator of the agents is tame: whatever the model answers, its runs take only steps of
  the system of campaigns.
\<close>

interpretation reachable: core_tables "campaign_reachable sv" sv for sv
proof
  show "campaign_reachable sv db \<Longrightarrow> same_core db db' \<Longrightarrow> campaign_reachable sv db'" for db db'
    by (auto simp: same_core_def intro: campaign_reachable.step campaign_step.other)
  show "campaign_reachable sv db \<Longrightarrow> same_tables db db' \<Longrightarrow> campaign_reachable sv db'" for db db'
    by (auto intro: campaign_reachable.step campaign_step.other)
  show "campaign_reachable sv db \<Longrightarrow> record_llm_call (sv_settings sv) k db = Inr (u, db') \<Longrightarrow> campaign_reachable sv db'"
    for db k u db' by (auto intro: campaign_reachable.step campaign_step.llm_call)
qed

lemma internal_result_keeps: "keeps P (internal_result s b)"
  by (rule tripleI) (auto simp: internal_result_def split: if_splits)

lemma guard_then_result_keeps:
  "(\<And>db a db'. P db \<Longrightarrow> f db = Inr (a, db') \<Longrightarrow> P db') \<Longrightarrow>
   keeps P (and_session (atomically f) (\<lambda>c. internal_result (s c) b))"
  by (intro keeps_and_session keeps_atomically internal_result_keeps)

lemma default_handlers_keep_reachable:
  assumes "d \<in> set (default_definitions st)"
  shows "keeps (campaign_reachable sv) (ad_handler d p g)"
proof -
  have read: "campaign_reachable sv db \<Longrightarrow> guard_validate g db = Inr (a, db') \<Longrightarrow> campaign_reachable sv db'" for db a db'
    by (auto simp: guard_validate_def result_simps)
  have change: "campaign_reachable sv db \<Longrightarrow> guard_update_metadata g u db = Inr (a, db') \<Longrightarrow> campaign_reachable sv db'"
    for db u a db' by (auto intro: campaign_reachable.step campaign_step.action_metadata)
  have regenerate: "campaign_reachable sv db \<Longrightarrow>
      guard_transition g CS_GENERATING WS_GENERATE_CONTENT db = Inr (a, db') \<Longrightarrow> campaign_reachable sv db'"
    and review: "campaign_reachable sv db \<Longrightarrow>
      guard_transition g CS_MANUAL_REVIEW_REQUIRED WS_HUMAN_REVIEW db = Inr (a, db') \<Longrightarrow> campaign_reachable sv db'"
    for db a db'
    by (rule campaign_reachable.step [OF _ campaign_step.action], assumption, simp_all add: action_transitions_def)+
  show ?thesis using assms unfolding default_definitions_def
    by (auto simp: Let_def safe_definition_def approval_definition_def create_recommendation_def
        generate_summary_def prepare_revision_def apply_metadata_def request_regeneration_def
        add_manual_review_note_def mark_for_manual_review_def action_transitions_def
        intro!: guard_then_result_keeps intro: read change regenerate review)
qed

lemma default_registry_definition:
  "default_registry st = Inr reg \<Longrightarrow> map_of reg name = Some d \<Longrightarrow> d \<in> set (default_definitions st)"
  using build_registry_definitions [of "default_definitions st" "[]" reg] map_of_SomeD [of reg name d]
  by (force simp: default_registry_def)

lemma default_handlers_keep:
  "default_registry st = Inr reg \<Longrightarrow> reachable.handlers_keep sv reg"
  using default_registry_definition default_handlers_keep_reachable
  unfolding reachable.handlers_keep_def by blast

lemma as_session_keeps:
  assumes "keeps (on_db P) m" and "P db"
  shows "P (snd (as_session f n m db))"
proof -
  obtain r s where m: "m (db, n) = (r, s)" by (cases "m (db, n)") auto
  have "P (fst s)" using keepsD [OF assms(1) _ m] assms(2) by simp
  then show ?thesis by (simp add: as_session_def m)
qed

lemma agentic_orchestrator_tame:
  assumes "default_registry st = Inr (oc_actions oc)" and "oc_services oc = sv"
  shows "tame_orchestrator sv (agentic_orchestrator oc moment)"
  unfolding tame_orchestrator_def tame_def agentic_orchestrator_def orchestrator.simps
  by (intro allI conjI impI as_session_keeps [where P = "campaign_reachable sv"] reachable.keeps_orchestrator [OF assms(2) default_handlers_keep [OF assms(1)]])

subsection \<open>The orchestrator of the agents is steady\<close>

text \<open>
  The orchestrator of the agents leaves the state of every pair alone: the repositories count the
  calls of the model in a column of their own, and the handlers of the SAFE actions only read.
\<close>

lemma same_pair_state: "same_tables db db' \<Longrightarrow> pair_state k db' = pair_state k db"
  by (simp add: pair_state_def load_same_tables)

lemma record_llm_call_pair:
  assumes "record_llm_call st k db = Inr (u, db')"
  shows "pair_state k' db' = pair_state k' db"
proof -
  obtain w c where p: "get_workflow_row db k = Some w" "get_campaign db (wf_campaign_id w) = Some c"
    and db': "db' = put_workflow (w\<lparr>wf_llm_call_count := wf_llm_call_count w + 1\<rparr>) db"
    using assms by (auto simp: record_llm_call_def load_locked_pair_Inr result_simps)
  have "wf_id w = k" using p(1) by (auto dest: t_get_SomeD)
  then have same: "get_workflow_row db' k = Some (w\<lparr>wf_llm_call_count := wf_llm_call_count w + 1\<rparr>)"
    and other: "k' \<noteq> k \<Longrightarrow> get_workflow_row db' k' = get_workflow_row db k'"
    using p(1) by (simp_all add: db' put_workflow_def t_get_t_put_same t_get_t_put_other)
  have campaigns: "get_campaign db' x = get_campaign db x" for x by (simp add: db' put_workflow_def)
  show ?thesis
  proof (cases "k' = k")
    case True
    then show ?thesis using p same campaigns
      by (simp add: pair_state_def load_locked_pair_def get_workflow_def get_campaign_record_def)
  next
    case False
    then show ?thesis using other campaigns
      by (simp add: pair_state_def load_locked_pair_def get_workflow_def get_campaign_record_def)
  qed
qed

interpretation pairs: core_tables "\<lambda>db. \<forall>k. pair_state k db = S k" sv for S sv
  by unfold_locales (auto simp: same_core_def same_pair_state record_llm_call_pair)

lemma safe_handlers_keep_pairs:
  assumes "default_registry st = Inr reg"
  shows "pairs.handlers_keep S reg"
proof -
  have "keeps (\<lambda>db. \<forall>k. pair_state k db = S k) (ad_handler d p g)"
    if "d \<in> set (default_definitions st)" "ad_default_policy d = PD_SAFE" for d p g
    using that unfolding default_definitions_def
    by (auto simp: Let_def safe_definition_def approval_definition_def create_recommendation_def
        generate_summary_def prepare_revision_def guard_validate_def result_simps intro!: guard_then_result_keeps)
  then show ?thesis using default_registry_definition [OF assms] unfolding pairs.handlers_keep_def by blast
qed

lemma agentic_orchestrator_steady:
  assumes "default_registry st = Inr (oc_actions oc)"
  shows "steady_orchestrator (agentic_orchestrator oc moment)"
proof -
  note keep = pairs.keeps_orchestrator [OF refl safe_handlers_keep_pairs [OF assms]]
  have "\<forall>k. pair_state k (snd (as_session f n m db)) = pair_state k db"
    if "keeps (on_db (\<lambda>db'. \<forall>k. pair_state k db' = pair_state k db)) m"
    for f n db and m :: "(app_db \<times> nat option, 'a) session"
    by (rule as_session_keeps [OF that]) simp
  note steady = this [rule_format]
  show ?thesis
    unfolding steady_orchestrator_def steady_def agentic_orchestrator_def orchestrator.simps
    by (intro allI conjI; rule steady; rule keep)
qed

subsection \<open>The row of a run\<close>

definition run_counts :: "uuid \<Rightarrow> nat \<Rightarrow> nat \<Rightarrow> nat \<Rightarrow> agent_run_row list \<Rightarrow> bool" where
  "run_counts k i l t rs \<longleftrightarrow>
     (\<exists>r. t_get r_id rs k = Some r \<and> r_status r = AR_RUNNING \<and> r_iteration_count r = int i \<and>
        r_llm_call_count r = int l \<and> r_tool_call_count r = int t)"

definition within_budget :: "budget \<Rightarrow> agent_run_row \<Rightarrow> bool" where
  "within_budget b r \<longleftrightarrow>
     r_iteration_count r \<le> int (bg_max_iterations b) \<and> r_llm_call_count r \<le> int (bg_max_llm_calls b) \<and>
     r_llm_call_count r \<le> r_iteration_count r \<and> r_tool_call_count r \<le> int (bg_max_tool_calls b)"

definition runs_within :: "budget \<Rightarrow> uuid \<Rightarrow> agent_run_row list \<Rightarrow> bool" where
  "runs_within b k rs \<longleftrightarrow> (\<exists>r. t_get r_id rs k = Some r \<and> r_status r = AR_RUNNING \<and> within_budget b r)"

abbreviation counted :: "uuid \<Rightarrow> nat \<Rightarrow> nat \<Rightarrow> nat \<Rightarrow> app_db \<Rightarrow> bool" where
  "counted k i l t db \<equiv> run_counts k i l t (agent_runs db)"

abbreviation in_budget :: "budget \<Rightarrow> uuid \<Rightarrow> app_db \<Rightarrow> bool" where
  "in_budget b k db \<equiv> runs_within b k (agent_runs db)"

lemma counted_within:
  "run_counts k i l t rs \<Longrightarrow> i \<le> bg_max_iterations b \<Longrightarrow> l \<le> bg_max_llm_calls b \<Longrightarrow> l \<le> i \<Longrightarrow>
   t \<le> bg_max_tool_calls b \<Longrightarrow> runs_within b k rs"
  by (auto simp: run_counts_def runs_within_def within_budget_def)

lemma counted_put:
  assumes "counted k i l t db" and "\<And>r. r_id (f r) = r_id r" and "\<And>r. r_status (f r) = r_status r"
    and "get_agent_run db k = Some r" and "r_iteration_count (f r) = int i'"
    and "r_llm_call_count (f r) = int l'" and "r_tool_call_count (f r) = int t'"
  shows "run_counts k i' l' t' (agent_runs (put_agent_run (f r) db))"
proof -
  have "r_id r = k" using t_get_SomeD [OF assms(4)] by simp
  then have "get_agent_run (put_agent_run (f r) db) k = Some (f r)"
    using get_put_run [OF assms(4)] assms(2) by simp
  then show ?thesis using assms by (auto simp: run_counts_def)
qed

interpretation runs: side_tables "\<lambda>db. R (agent_runs db)" for R
  by unfold_locales (auto simp: same_core_def)

lemma default_handlers_keep_runs:
  assumes "default_registry st = Inr reg"
  shows "runs.handlers_keep R reg"
proof -
  have "keeps (\<lambda>db. R (agent_runs db)) (ad_handler d p g)" if "d \<in> set (default_definitions st)" for d p g
    using that unfolding default_definitions_def
    by (auto simp: Let_def safe_definition_def approval_definition_def create_recommendation_def
        generate_summary_def prepare_revision_def apply_metadata_def request_regeneration_def
        add_manual_review_note_def mark_for_manual_review_def guard_validate_def guard_update_metadata_def
        guard_transition_def put_pair_def result_simps intro!: guard_then_result_keeps)
  then show ?thesis using default_registry_definition [OF assms] unfolding runs.handlers_keep_def by blast
qed

subsection \<open>Operations of the run\<close>

lemma triple_change:
  assumes "\<And>r. r_id (f r) = r_id r" and "\<And>r. r_status (f r) = r_status r"
    and "\<And>r. r_iteration_count r = int i \<Longrightarrow> r_llm_call_count r = int l \<Longrightarrow> r_tool_call_count r = int t \<Longrightarrow>
      r_iteration_count (f r) = int i' \<and> r_llm_call_count (f r) = int l' \<and> r_tool_call_count (f r) = int t'"
  shows "triple (counted k i l t) (atomically (change_run k [AR_RUNNING] None f)) (\<lambda>_. counted k i' l' t')
    (\<lambda>_. counted k i l t)"
proof (rule triple_atomically)
  fix db u db' assume c: "counted k i l t db" and "change_run k [AR_RUNNING] None f db = Inr (u, db')"
  then obtain r where r: "get_agent_run db k = Some r" "db' = put_agent_run (f r) db"
    by (auto simp: change_run_Inr)
  moreover have "r_iteration_count r = int i" "r_llm_call_count r = int l" "r_tool_call_count r = int t"
    using c r by (auto simp: run_counts_def)
  ultimately show "counted k i' l' t' db'" using counted_put [OF c assms(1,2) r(1)] assms(3) by simp
qed

lemma count_iteration:
  "triple (counted k i l t) (atomically (record_iteration k)) (\<lambda>_. counted k (Suc i) l t) (\<lambda>_. counted k i l t)"
  unfolding record_iteration_def by (rule triple_change) auto

lemma count_llm_call:
  "triple (counted k i l t) (atomically (record_run_llm_call k)) (\<lambda>_. counted k i (Suc l) t) (\<lambda>_. counted k i l t)"
  unfolding record_run_llm_call_def by (rule triple_change) auto

lemma count_tool_call:
  "triple (counted k i l t) (atomically (create_tool_call env k n args)) (\<lambda>_. counted k i l (Suc t))
     (\<lambda>_. counted k i l t)"
proof (rule triple_atomically)
  fix db c db' assume c: "counted k i l t db" and new: "create_tool_call env k n args db = Inr (c, db')"
  then obtain r where r: "get_agent_run db k = Some r"
    and db': "agent_runs db' = agent_runs (put_agent_run (r\<lparr>r_tool_call_count := r_tool_call_count r + 1\<rparr>) db)"
    by (auto simp: create_tool_call_def required_run_def result_simps Let_def put_agent_run_def)
  have "r_iteration_count r = int i" "r_llm_call_count r = int l" "r_tool_call_count r = int t"
    using c r by (auto simp: run_counts_def)
  then show "counted k i l (Suc t) db'" unfolding db'
    by (intro counted_put [OF c, where f = "\<lambda>r. r\<lparr>r_tool_call_count := r_tool_call_count r + 1\<rparr>" and r = r] r) auto
qed

lemma keeps_runs: "(\<And>db a db'. f db = Inr (a, db') \<Longrightarrow> agent_runs db' = agent_runs db) \<Longrightarrow>
    keeps (\<lambda>db. R (agent_runs db)) (atomically f)"
  by (rule keeps_atomically) simp

lemma keeps_tool_call_rows:
  "keeps (\<lambda>db. R (agent_runs db)) (atomically (start_tool_call c))"
  "keeps (\<lambda>db. R (agent_runs db)) (atomically (finish_tool_call now c s m e d))"
  by (rule keeps_runs; auto simp: start_tool_call_def finish_tool_call_def result_simps)+

lemma tool_rest_keeps:
  "keeps (on_db (\<lambda>db. R (agent_runs db))) (catching (tool_body sv co cfg ck a rq ctx c) (tool_failure ck c))"
proof -
  note rows = keeps_tool_call_rows [where R = R, THEN keeps_awaiting] keeps_tool_call_rows [where R = R, THEN triple_shielded]
  have handler: "keeps (on_db (\<lambda>db. R (agent_runs db))) (awaiting (run_tool_handler ck d p))" for d p
    by (rule keeps_awaiting, rule tripleI) (auto simp: run_tool_handler_def split: tool_fate.splits)
  have body: "keeps (on_db (\<lambda>db. R (agent_runs db))) (tool_body sv co cfg ck a rq ctx c)"
    unfolding tool_body_def in_transaction_def
    by (intro keeps_and_session keeps_simple handler rows) (auto split: prod.split intro!: keeps_and_session rows)
  have "keeps (on_db (\<lambda>db. R (agent_runs db))) (tool_failure ck c e)" for e
    unfolding tool_failure_def Let_def by (auto intro!: keeps_and_session rows)
  then show ?thesis by (intro keeps_catching body)
qed

lemma execute_tool_counts:
  "atriple (counted k i l t) (execute_tool sv co cfg ck k a rq ctx) (\<lambda>_. counted k i l (Suc t))
     (\<lambda>_ db. counted k i l t db \<or> counted k i l (Suc t) db)"
  unfolding execute_tool_def in_transaction_def
proof (rule triple_and_session)
  show "atriple (counted k i l t) (awaiting (atomically (create_tool_call (tk_env ck) k (tq_tool_name rq) (tq_arguments rq))))
      (\<lambda>_. counted k i l (Suc t)) (\<lambda>_ db. counted k i l t db \<or> counted k i l (Suc t) db)"
    by (rule triple_awaiting [OF triple_weaken [OF count_tool_call]]) auto
  show "triple (on_db (counted k i l (Suc t))) (catching (tool_body sv co cfg ck a rq ctx (tc_id c)) (tool_failure ck (tc_id c)))
      (\<lambda>_. on_db (counted k i l (Suc t))) (\<lambda>_. on_db (\<lambda>db. counted k i l t db \<or> counted k i l (Suc t) db))" for c
    by (rule triple_weaken [OF tool_rest_keeps [where R = "run_counts k i l (Suc t)"]]) auto
qed

subsection \<open>The loop\<close>

text \<open>The row has the counters of the state, which are within the budget.\<close>

definition tracks :: "budget \<Rightarrow> uuid \<Rightarrow> agent_state \<Rightarrow> app_db \<Rightarrow> bool" where
  "tracks b k st db \<longleftrightarrow> counted k (st_iterations st) (st_llm_calls st) (st_tool_calls st) db \<and>
     st_iterations st \<le> bg_max_iterations b \<and> st_llm_calls st \<le> bg_max_llm_calls b \<and>
     st_llm_calls st \<le> st_iterations st \<and> st_tool_calls st \<le> bg_max_tool_calls b"

lemma tracks_within: "tracks b k st db \<Longrightarrow> in_budget b k db"
  by (auto simp: tracks_def intro: counted_within)

lemma call_tools_tracks:
  "atriple (\<lambda>db. tracks b k st db \<and> st_tool_calls st + length rqs \<le> bg_max_tool_calls b)
     (call_tools lc le k a ctx rqs st) (\<lambda>st'. tracks b k st') (\<lambda>_. in_budget b k)"
proof (induction rqs arbitrary: st)
  case Nil
  show ?case unfolding call_tools.simps by (rule triple_returns) auto
next
  case (Cons rq rqs)
  let ?st = "\<lambda>m. st\<lparr>st_tool_calls := st_tool_calls st + 1, st_messages := st_messages st @ [m]\<rparr>"
  let ?pre = "\<lambda>db. tracks b k st db \<and> st_tool_calls st + length (rq # rqs) \<le> bg_max_tool_calls b"
  let ?post = "\<lambda>db. tracks b k (?st undefined) db \<and> st_tool_calls st + 1 + length rqs \<le> bg_max_tool_calls b"
  have tool: "atriple ?pre (execute_tool sv co cfg ck k a rq ctx) (\<lambda>_. ?post) (\<lambda>_. in_budget b k)" for sv co cfg ck
  proof (rule tripleI)
    note t = execute_tool_counts [of k "st_iterations st" "st_llm_calls st" "st_tool_calls st"]
    show "on_db ?post s'" if "on_db ?pre s" "execute_tool sv co cfg ck k a rq ctx s = (Inr v, s')" for s v s'
      using triple_InrD [OF t _ that(2)] that(1) by (auto simp: tracks_def)
    show "on_db (in_budget b k) s'" if "on_db ?pre s" "execute_tool sv co cfg ck k a rq ctx s = (Inl e, s')" for s e s'
      using triple_InlD [OF t _ that(2)] that(1) by (auto simp: tracks_def intro: counted_within)
  qed
  have "atriple ?post (call_tools lc le k a ctx rqs (?st m)) (\<lambda>st'. tracks b k st') (\<lambda>_. in_budget b k)" for m
    by (rule triple_weaken [OF Cons.IH]) (auto simp: tracks_def)
  then show ?case unfolding call_tools.simps
    by (intro triple_and_session [OF tool] triple_and_session [OF triple_pure [where Q = "\<lambda>_. on_db ?post"]])
      (auto simp: tracks_def intro: counted_within)
qed

lemma continue_loop_tracks:
  assumes "lc_budget lc = b"
  shows "atriple (tracks b k st) (continue_loop lc le a k ctx t st) (\<lambda>st'. tracks b k st') (\<lambda>_. in_budget b k)"
proof -
  let ?ok = "\<lambda>db. tracks b k st db \<and> st_tool_calls st + length (at_tool_calls t) \<le> bg_max_tool_calls b"
  have tools: "atriple ?ok (call_tools lc le k a ctx (at_tool_calls t) (st\<lparr>st_messages := ms\<rparr>))
      (\<lambda>st'. tracks b k st') (\<lambda>_. in_budget b k)" for ms
    by (rule triple_weaken [OF call_tools_tracks]) (auto simp: tracks_def)
  show ?thesis unfolding continue_loop_def
    by (intro triple_and_session [OF triple_pure [where Q = "\<lambda>_. on_db ?ok"]] tools)
      (auto simp: before_tool_calls_def result_simps assms dest: tracks_within)
qed

lemma keeps_runs_proposals:
  assumes "runs.handlers_keep R (lc_actions lc)"
  shows "keeps (on_db (\<lambda>db. R (agent_runs db))) (process_proposals lc le k a ps st)"
proof (induction ps arbitrary: st)
  case Nil
  show ?case unfolding process_proposals.simps by blast
next
  case (Cons p ps)
  show ?case unfolding process_proposals.simps Let_def
    by (intro keeps_and_session keeps_awaiting keeps_simple Cons runs.keeps_propose [OF assms])
qed

lemma finish_loop_within:
  assumes "runs.handlers_keep (runs_within b k) (lc_actions lc)"
  shows "atriple (tracks b k st) (finish_loop lc le sp k t v st) (\<lambda>_. in_budget b k) (\<lambda>_. in_budget b k)"
proof -
  have "keeps (on_db (in_budget b k)) (finish_loop lc le sp k t v st)"
    unfolding finish_loop_def
    by (intro keeps_and_session keeps_simple keeps_runs_proposals [where R = "runs_within b k", OF assms])
  then show ?thesis by (rule triple_weaken) (auto dest: tracks_within)
qed

lemma record_llm_call_runs: "record_llm_call st wk db = Inr (u, db') \<Longrightarrow> agent_runs db' = agent_runs db"
  by (auto simp: record_llm_call_def result_simps)

lemma triple_pure_then:
  assumes "\<And>a. r = Inr a \<Longrightarrow> triple P (f a) Q E" and "\<And>e s. r = Inl e \<Longrightarrow> P s \<Longrightarrow> E e s"
  shows "triple P (and_session (pure_result r) f) Q E"
proof (cases r)
  case (Inl e)
  then show ?thesis using assms(2) by (intro tripleI) (auto simp: and_session_def pure_result_def)
next
  case (Inr a)
  then show ?thesis using assms(1) by (auto simp: triple_def and_session_def pure_result_def)
qed

text \<open>A counted step: the counters before it and after it are within the budget.\<close>

lemma counted_step:
  assumes "triple (counted k i l t) m (\<lambda>_. counted k i' l' t) (\<lambda>_. counted k i l t)"
    and "i \<le> bg_max_iterations b" "l \<le> bg_max_llm_calls b" "l \<le> i" "t \<le> bg_max_tool_calls b"
  shows "atriple (counted k i l t) (awaiting m) (\<lambda>_. counted k i' l' t) (\<lambda>_. in_budget b k)"
  by (rule triple_awaiting [OF triple_weaken [OF assms(1)]]) (auto intro: counted_within assms(2-5))

lemma take_turn_tracks:
  assumes "lc_budget lc = b"
  shows "atriple (tracks b k st) (take_turn lc le k wk st) (\<lambda>(t, st'). tracks b k st') (\<lambda>_. in_budget b k)"
proof -
  let ?i = "st_iterations st" and ?l = "st_llm_calls st" and ?t = "st_tool_calls st"
  let ?P = "\<lambda>i l. counted k i l ?t"
  have rest: "atriple (tracks b k st)
      (and_session (in_transaction (record_iteration k)) (\<lambda>_.
       and_session (in_transaction (record_llm_call (sv_settings (lc_services lc)) wk)) (\<lambda>_.
       and_session (in_transaction (record_run_llm_call k)) (\<lambda>_.
       and_session (awaiting (run_agent_turn le ?l (st_messages st))) (\<lambda>t.
       and_session (pure_result (check_timeout b (lp_elapsed le ?i 2))) (\<lambda>_.
       returns (t, st\<lparr>st_iterations := ?i + 1, st_llm_calls := ?l + 1\<rparr>)))))))
      (\<lambda>(t, st'). tracks b k st') (\<lambda>_. in_budget b k)"
    if room: "?i < bg_max_iterations b" "?l < bg_max_llm_calls b" "?l \<le> ?i" "?t \<le> bg_max_tool_calls b"
  proof -
    have llm: "triple (?P (Suc ?i) ?l) (atomically (record_llm_call (sv_settings (lc_services lc)) wk))
        (\<lambda>_. ?P (Suc ?i) ?l) (\<lambda>_. ?P (Suc ?i) ?l)"
      by (rule keeps_runs) (rule record_llm_call_runs)
    have turn: "triple (?P (Suc ?i) (Suc ?l)) (run_agent_turn le ?l (st_messages st))
        (\<lambda>_. ?P (Suc ?i) (Suc ?l)) (\<lambda>_. ?P (Suc ?i) (Suc ?l))"
      unfolding run_agent_turn_def by blast
    have ending: "atriple (?P (Suc ?i) (Suc ?l)) (and_session (pure_result (check_timeout b (lp_elapsed le ?i 2))) (\<lambda>_.
       returns (t, st\<lparr>st_iterations := ?i + 1, st_llm_calls := ?l + 1\<rparr>))) (\<lambda>(t, st'). tracks b k st') (\<lambda>_. in_budget b k)" for t
      using room by (intro triple_pure_then triple_returns) (auto simp: tracks_def intro: counted_within)
    show ?thesis unfolding in_transaction_def
      by (rule triple_weaken [where P = "on_db (?P ?i ?l)"],
          rule triple_and_session [OF counted_step [OF count_iteration]], (use room in simp_all)[4],
          rule triple_and_session [OF counted_step [OF llm]], (use room in simp_all)[4],
          rule triple_and_session [OF counted_step [OF count_llm_call]], (use room in simp_all)[4],
          rule triple_and_session [OF counted_step [OF turn]], (use room in simp_all)[4], rule ending)
        (auto simp: tracks_def)
  qed
  show ?thesis
  proof (cases "?l \<le> ?i \<and> ?t \<le> bg_max_tool_calls b")
    case True
    then show ?thesis unfolding take_turn_def Let_def assms
      by (intro triple_pure_then rest)
        (auto simp: before_iteration_def before_llm_call_def result_simps dest: tracks_within)
  next
    case False
    then show ?thesis by (intro tripleI) (auto simp: tracks_def)
  qed
qed

lemma agent_loop_within:
  assumes "lc_budget lc = b" and "runs.handlers_keep (runs_within b k) (lc_actions lc)"
  shows "atriple (tracks b k st) (agent_loop lc le sp k ctx n st) (\<lambda>_. in_budget b k) (\<lambda>_. in_budget b k)"
proof (induction n arbitrary: st)
  case 0
  show ?case unfolding agent_loop.simps by (rule triple_raising) (rule tracks_within)
next
  case (Suc n)
  have "atriple (\<lambda>db. case r of (t, st') \<Rightarrow> tracks b k st' db)
      (case r of (t, st1) \<Rightarrow> case at_final_output t of
         Some v \<Rightarrow> finish_loop lc le sp k t v st1
       | None \<Rightarrow> and_session (continue_loop lc le (sp_name sp) k ctx t st1) (agent_loop lc le sp k ctx n))
      (\<lambda>_. in_budget b k) (\<lambda>_. in_budget b k)" for r
    by (auto split: prod.split option.split
        intro!: finish_loop_within [OF assms(2)] triple_and_session [OF continue_loop_tracks [OF assms(1)] Suc])
  then show ?case unfolding agent_loop.simps
    by (intro triple_and_session [OF take_turn_tracks [OF assms(1)]]) (simp add: case_prod_unfold)
qed

lemma run_loop_within_budget:
  assumes "lc_budget lc = b" and "runs.handlers_keep (runs_within b k) (lc_actions lc)"
  shows "atriple (counted k 0 0 0) (run_loop_within d lc le sp k ctx ms) (\<lambda>_. in_budget b k) (\<lambda>_. in_budget b k)"
proof -
  have start: "counted k 0 0 0 db \<Longrightarrow> tracks b k (initial_state m) db" for m db
    by (simp add: tracks_def initial_state_def)
  have loop: "atriple (counted k 0 0 0) (agent_loop lc le sp k ctx n (initial_state m)) (\<lambda>_. in_budget b k) (\<lambda>_. in_budget b k)"
    for n m by (rule triple_weaken [OF agent_loop_within [OF assms]]) (auto intro: start)
  show ?thesis unfolding run_loop_within_def
    by (intro triple_catching [where R = "\<lambda>_. on_db (in_budget b k)"] triple_pure_then loop)
      (auto intro!: triple_raising intro: counted_within)
qed

subsection \<open>The end of a run\<close>

definition closed_run :: "budget \<Rightarrow> uuid \<Rightarrow> agent_run_status \<Rightarrow> app_db \<Rightarrow> bool" where
  "closed_run b k s db \<longleftrightarrow>
     (\<exists>r. get_agent_run db k = Some r \<and> within_budget b r \<and> r_status r = s \<and> r_completed_at r \<noteq> None)"

definition row_within :: "budget \<Rightarrow> uuid \<Rightarrow> app_db \<Rightarrow> bool" where
  "row_within b k db \<longleftrightarrow> (\<exists>r. get_agent_run db k = Some r \<and> within_budget b r)"

lemma row_withinI: "closed_run b k s db \<Longrightarrow> row_within b k db" "in_budget b k db \<Longrightarrow> row_within b k db"
  by (auto simp: closed_run_def row_within_def runs_within_def)

lemma finished_run_closed:
  assumes "in_budget b k db" and "get_agent_run db k = Some r"
  shows "closed_run b k s (put_agent_run (finished_run now s code message r) db)"
proof -
  have "r_id r = k" using t_get_SomeD [OF assms(2)] by simp
  then have "get_agent_run (put_agent_run (finished_run now s code message r) db) k =
      Some (finished_run now s code message r)"
    using get_put_run [OF assms(2)] by (simp add: finished_run_def)
  then show ?thesis using assms
    by (auto simp: closed_run_def runs_within_def within_budget_def finished_run_def)
qed

lemma complete_run_closes:
  "triple (in_budget b k) (atomically (complete_run now k)) (\<lambda>_. closed_run b k AR_COMPLETED) (\<lambda>_. in_budget b k)"
  by (rule triple_atomically) (auto simp: complete_run_def change_run_Inr intro: finished_run_closed)

lemma fail_run_closes:
  "triple (in_budget b k) (atomically (fail_run now k e limit))
     (\<lambda>_. closed_run b k (if limit then AR_LIMIT_EXCEEDED else AR_FAILED)) (\<lambda>_ _. False)"
proof (rule triple_atomically)
  fix db u db' assume "in_budget b k db" "fail_run now k e limit db = Inr (u, db')"
  then show "closed_run b k (if limit then AR_LIMIT_EXCEEDED else AR_FAILED) db'"
    by (auto simp: fail_run_def Let_def change_run_Inr intro: finished_run_closed)
next
  fix db x assume "in_budget b k db" "fail_run now k e limit db = Inl x"
  then show False
    by (auto simp: fail_run_def Let_def change_run_def required_run_def require_run_status_def result_simps
        runs_within_def)
qed

text \<open>What is left when an exception leaves the run: its row is closed, unless the exception is a cancellation.\<close>

definition run_over :: "budget \<Rightarrow> uuid \<Rightarrow> exn \<Rightarrow> app_db \<Rightarrow> bool" where
  "run_over b k e db \<longleftrightarrow> row_within b k db \<and> (is_cancelled e \<or>
     closed_run b k (if exn_cls e \<in> set limit_errors then AR_LIMIT_EXCEEDED else AR_FAILED) db)"

lemma record_agent_failure_closes:
  "atriple (in_budget b k) (record_agent_failure sv env shield k ctx e limit)
     (\<lambda>_. closed_run b k (if limit then AR_LIMIT_EXCEEDED else AR_FAILED))
     (\<lambda>x db. is_cancelled x \<and> row_within b k db)"
proof -
  let ?c = "closed_run b k (if limit then AR_LIMIT_EXCEEDED else AR_FAILED)"
  let ?g = "\<lambda>m. if shield then shielded m else awaiting m"
  have c: "?c = (\<lambda>db. (\<lambda>rs. \<exists>r. t_get r_id rs k = Some r \<and> within_budget b r \<and>
      r_status r = (if limit then AR_LIMIT_EXCEEDED else AR_FAILED) \<and> r_completed_at r \<noteq> None) (agent_runs db))"
    by (rule ext) (simp add: closed_run_def)
  have guarded: "atriple P (?g m) Q E" if "triple P m Q E" "\<And>db. P db \<Longrightarrow> E cancelled_error db" for P Q E and m :: "(app_db, unit) session"
    using that by (auto intro: triple_shielded triple_awaiting)
  have fail: "atriple (in_budget b k) (?g (atomically (fail_run (env_now env) k e limit)))
      (\<lambda>_. ?c) (\<lambda>x db. is_cancelled x \<and> row_within b k db)"
    by (rule guarded [OF triple_weaken [OF fail_run_closes]]) (auto simp: cancelled_error_def intro: row_withinI)
  have "keeps ?c (and_session (record_event sv env m) (\<lambda>_. returns ()))" for m
    unfolding c by (intro keeps_and_session runs.keeps_record_event keeps_simple)
  then have memory: "keeps (on_db ?c) (?g (and_session (record_event sv env m) (\<lambda>_. returns ())))" for m
    by (rule guarded)
  have swallow: "atriple ?c (if is_cancelled x then raising x else returns ()) (\<lambda>_. ?c)
      (\<lambda>x db. is_cancelled x \<and> row_within b k db)" for x
    by (auto intro!: triple_raising triple_returns intro: row_withinI)
  show ?thesis unfolding record_agent_failure_def Let_def
    by (intro triple_and_session [OF fail] triple_catching [OF memory] swallow)
qed

lemma handle_agent_error_closes:
  "atriple (in_budget b k) (handle_agent_error sv env k ctx e) (\<lambda>_ _. False) (run_over b k)"
proof -
  let ?w = "wrapped_error (Exn (AgentE AgentExecutionError) ''Agent specialist execution failed'') e"
  have raised: "atriple (in_budget b k) (and_session (record_agent_failure sv env shield k ctx x limit) (\<lambda>_. raising y))
      (\<lambda>_ _. False) (run_over b k)"
    if "is_cancelled y \<or> (if limit then AR_LIMIT_EXCEEDED else AR_FAILED) =
        (if exn_cls y \<in> set limit_errors then AR_LIMIT_EXCEEDED else AR_FAILED)" for shield x limit y
  proof (rule triple_and_session [where R = "\<lambda>_. on_db (closed_run b k (if limit then AR_LIMIT_EXCEEDED else AR_FAILED))"])
    show "triple (on_db (in_budget b k)) (record_agent_failure sv env shield k ctx x limit)
        (\<lambda>_. on_db (closed_run b k (if limit then AR_LIMIT_EXCEEDED else AR_FAILED))) (\<lambda>e. on_db (run_over b k e))"
      by (rule triple_weaken [OF record_agent_failure_closes]) (auto simp: run_over_def)
    show "triple (on_db (closed_run b k (if limit then AR_LIMIT_EXCEEDED else AR_FAILED))) (raising y)
        (\<lambda>_. on_db (\<lambda>_. False)) (\<lambda>e. on_db (run_over b k e))"
      using that by (intro triple_raising) (auto simp: run_over_def intro: row_withinI split: if_splits)
  qed
  have w: "\<not> exn_cls e \<in> set limit_errors \<Longrightarrow> \<not> exn_cls ?w \<in> set limit_errors"
    by (auto simp: wrapped_error_def limit_errors_def)
  show ?thesis unfolding handle_agent_error_def Let_def using w
    by (auto intro!: raised split: if_splits simp: limit_errors_def)
qed

text \<open>The whole run, from a table without the run's identifier.\<close>

definition started_run :: "uuid \<Rightarrow> agent_run_status \<Rightarrow> app_db \<Rightarrow> bool" where
  "started_run k s db \<longleftrightarrow> (\<exists>r. get_agent_run db k = Some r \<and> r_status r = s \<and> r_iteration_count r = 0 \<and>
     r_llm_call_count r = 0 \<and> r_tool_call_count r = 0)"

lemma create_run_starts:
  "triple (\<lambda>db. get_agent_run db (env_row_id env) = None) (atomically (create_run env p))
     (\<lambda>r db. r_id r = env_row_id env \<and> started_run (env_row_id env) AR_CREATED db)
     (\<lambda>_ db. get_agent_run db (env_row_id env) = None)"
  by (rule triple_atomically)
    (auto simp: create_run_def result_simps Let_def started_run_def new_run_def t_get_append table_simps)

lemma start_run_counts:
  "triple (started_run k AR_CREATED) (atomically (start_run k)) (\<lambda>_. counted k 0 0 0) (\<lambda>_ _. False)"
proof (rule triple_atomically)
  fix db u db' assume "started_run k AR_CREATED db" "start_run k db = Inr (u, db')"
  then obtain r where r: "get_agent_run db k = Some r" and zero: "r_iteration_count r = 0" "r_llm_call_count r = 0"
      "r_tool_call_count r = 0" and db': "db' = put_agent_run (r\<lparr>r_status := AR_RUNNING\<rparr>) db"
    by (auto simp: started_run_def start_run_def change_run_Inr)
  have "get_agent_run db' k = Some (r\<lparr>r_status := AR_RUNNING\<rparr>)"
    unfolding db' using r t_get_SomeD [OF r] by (intro get_put_run) auto
  then show "counted k 0 0 0 db'" using zero by (simp add: run_counts_def)
next
  fix db e assume "started_run k AR_CREATED db" "start_run k db = Inl e"
  then show False
    by (auto simp: started_run_def start_run_def change_run_def required_run_def require_run_status_def result_simps)
qed

definition over_or_absent :: "budget \<Rightarrow> uuid \<Rightarrow> exn \<Rightarrow> app_db \<Rightarrow> bool" where
  "over_or_absent b k e db \<longleftrightarrow> get_agent_run db k = None \<or> run_over b k e db"

lemma run_specialist_closes:
  assumes "k = env_row_id (oe_run_env oe)" and b: "b = ag_budget (oc_settings oc)"
    and keep: "runs.handlers_keep (runs_within b k) (oc_actions oc)"
  shows "atriple (\<lambda>db. get_agent_run db k = None) (run_specialist oc oe sp ctx shown)
     (\<lambda>_. closed_run b k AR_COMPLETED) (over_or_absent b k)"
proof -
  let ?absent = "\<lambda>db. get_agent_run db k = None"
  let ?started = "\<lambda>r db. r_id r = k \<and> started_run k AR_CREATED db"
  have created: "started_run k s db \<Longrightarrow> row_within b k db" for s db
    by (auto simp: started_run_def row_within_def within_budget_def)
  have create: "atriple ?absent (in_transaction (create_run (oe_run_env oe) p)) ?started (over_or_absent b k)" for p
    unfolding in_transaction_def assms(1)
    by (rule triple_awaiting [OF triple_weaken [OF create_run_starts]]) (auto simp: over_or_absent_def)
  have start: "atriple (started_run k AR_CREATED) (in_transaction (start_run k)) (\<lambda>_. counted k 0 0 0) (over_or_absent b k)"
    unfolding in_transaction_def
    by (rule triple_awaiting [OF triple_weaken [OF start_run_counts]])
      (auto simp: over_or_absent_def run_over_def cancelled_error_def intro: created)
  have loop: "atriple (counted k 0 0 0)
      (and_session (run_loop_within d (loop_config_of oc) le sp k ctx ms) (\<lambda>out.
         and_session (in_transaction (complete_run now k)) (\<lambda>_. returns out)))
      (\<lambda>_. closed_run b k AR_COMPLETED) (\<lambda>_. in_budget b k)" for d le ms now
  proof (rule triple_and_session)
    show "atriple (counted k 0 0 0) (run_loop_within d (loop_config_of oc) le sp k ctx ms)
        (\<lambda>_. in_budget b k) (\<lambda>_. in_budget b k)"
      by (rule run_loop_within_budget) (simp_all add: loop_config_of_def b keep [unfolded b])
    show "atriple (in_budget b k) (and_session (in_transaction (complete_run now k)) (\<lambda>_. returns out))
        (\<lambda>_. closed_run b k AR_COMPLETED) (\<lambda>_. in_budget b k)" for out
      unfolding in_transaction_def
      by (intro triple_and_session [OF triple_awaiting [OF complete_run_closes]] triple_returns)
  qed
  have failed: "atriple (in_budget b k) (handle_agent_error sv env k ctx e) (\<lambda>_. closed_run b k AR_COMPLETED)
      (over_or_absent b k)" for sv env e
    by (rule triple_weaken [OF handle_agent_error_closes]) (auto simp: over_or_absent_def)
  have run: "atriple (?started r) (and_session (in_transaction (start_run (r_id r))) (\<lambda>_.
       catching
         (and_session (run_loop_within d (loop_config_of oc) le sp (r_id r) ctx ms) (\<lambda>out.
          and_session (in_transaction (complete_run now (r_id r))) (\<lambda>_. returns out)))
         (handle_agent_error sv env (r_id r) ctx))) (\<lambda>_. closed_run b k AR_COMPLETED) (over_or_absent b k)"
    for r d le ms now sv env
  proof (cases "r_id r = k")
    case True
    show ?thesis unfolding True
      by (rule triple_weaken [OF triple_and_session [OF start triple_catching [OF loop failed]]]) auto
  next
    case False
    then show ?thesis by (intro tripleI) auto
  qed
  have resolve: "atriple ?absent (awaiting (pure_result x)) (\<lambda>_. ?absent) (over_or_absent b k)" for x :: "(exn, string \<times> string option) res"
    by (rule triple_awaiting, rule triple_pure) (auto simp: over_or_absent_def)
  show ?thesis unfolding run_specialist_def
    by (rule triple_and_session [OF resolve], clarsimp, rule triple_and_session [OF create run])
qed

end
