(* ===== verification/Agent_Properties.thy ===== *)
theory Agent_Properties
  imports Agent_Audit Campaign_Properties
begin

text \<open>The properties of the agents' runs, with the example they are applied to.\<close>

subsection \<open>An example\<close>

definition demo_turn :: agent_turn where
  "demo_turn = \<lparr>at_text = None, at_tool_calls = [], at_final_output = Some (JObj []), at_proposals = []\<rparr>"

definition demo_clock :: tool_clock where
  "demo_clock = \<lparr>tk_env = ex_env, tk_handler = \<lparr>te_settings = sv_settings ex_services, te_now = 0,
     te_date_text = (\<lambda>t. [])\<rparr>, tk_end = 0, tk_duration = 0, tk_fate = Tool_Ends\<rparr>"

fun text_size :: "json \<Rightarrow> nat" where
  "text_size (JObj es) = sum_list (map (\<lambda>(k, v). length k + text_size v) es)"
| "text_size (JList vs) = sum_list (map text_size vs)"
| "text_size (JStr s) = length s"
| "text_size _ = 0"

definition demo_loop :: loop_env where
  "demo_loop = \<lparr>lp_llm = (\<lambda>n ms. Inr demo_turn), lp_dumps = (\<lambda>v. replicate (text_size v) CHR ''x''),
     lp_elapsed = (\<lambda>i p. 0), lp_tool_clock = (\<lambda>n. demo_clock), lp_proposal_env = (\<lambda>n m. ex_env),
     lp_proposal_fate = (\<lambda>n. Handler_Ends), lp_proposal_duration = (\<lambda>n. 0)\<rparr>"

definition demo_oe :: orchestrator_env where
  "demo_oe = \<lparr>oe_prompt = (\<lambda>a s. Inl (Exn (OpsE M7ResourceNotFoundError) ''none'')), oe_day_text = (\<lambda>d. []),
     oe_run_env = ex_env, oe_loop = demo_loop, oe_deadline = False, oe_end = ex_env\<rparr>"

definition demo_oc :: orchestrator_config where
  "demo_oc = \<lparr>oc_services = ex_services, oc_coercions = strict_coercions,
     oc_settings = \<lparr>ag_provider = ''mock'', ag_model = [], ag_budget = \<lparr>bg_max_iterations = 5,
       bg_max_llm_calls = 5, bg_max_tool_calls = 8, bg_timeout_seconds = 90, bg_max_proposals = 3\<rparr>,
       ag_max_tool_result = 12000\<rparr>,
     oc_actions = (case default_registry (sv_settings ex_services) of Inr r \<Rightarrow> r | Inl e \<Rightarrow> []),
     oc_tools = \<lparr>tr_tools = [], tr_permissions = (\<lambda>a. [])\<rparr>\<rparr>"

lemma demo_actions: "default_registry (sv_settings ex_services) = Inr (oc_actions demo_oc)"
  by (simp add: demo_oc_def default_registry_def default_definitions_def Let_def safe_definition_def
      approval_definition_def)

lemma demo_services: "oc_services demo_oc = ex_services"
  by (simp add: demo_oc_def)

definition demo_ctx :: campaign_context where
  "demo_ctx = workflow_fields ex_workflow"

subsection \<open>Accounting\<close>

text \<open>C7. Every run of a specialist is accounted for. Whatever the model answers, however its tools and
  proposals end, and wherever a cancellation or the deadline strikes: the counters of its row stay
  within the budget; a run that returns an output is COMPLETED; a run that raises anything but a
  cancellation is closed as LIMIT_EXCEEDED when a limit of the budget was hit and as FAILED
  otherwise, unless it was refused before its row existed.\<close>

theorem agent_run_accounted:
  assumes "default_registry st = Inr (oc_actions oc)"
    and "get_agent_run db (env_row_id (oe_run_env oe)) = None"
    and "run_specialist oc oe sp ctx shown (db, n) = (r, (db', n'))"
  shows "case r of
      Inr out \<Rightarrow> closed_run (ag_budget (oc_settings oc)) (env_row_id (oe_run_env oe)) AR_COMPLETED db'
    | Inl e \<Rightarrow> get_agent_run db' (env_row_id (oe_run_env oe)) = None \<or>
        row_within (ag_budget (oc_settings oc)) (env_row_id (oe_run_env oe)) db' \<and>
        (is_cancelled e \<or> closed_run (ag_budget (oc_settings oc)) (env_row_id (oe_run_env oe))
          (if exn_cls e \<in> set limit_errors then AR_LIMIT_EXCEEDED else AR_FAILED) db')"
proof -
  note t = run_specialist_closes [OF refl refl default_handlers_keep_runs [OF assms(1)]]
  have s: "on_db (\<lambda>db. get_agent_run db (env_row_id (oe_run_env oe)) = None) (db, n)" using assms(2) by simp
  show ?thesis
  proof (cases r)
    case (Inl e)
    from triple_InlD [OF t s assms(3) [unfolded Inl]] Inl show ?thesis
      by (auto simp: over_or_absent_def run_over_def)
  next
    case (Inr out)
    then show ?thesis using triple_InrD [OF t s assms(3) [unfolded Inr]] by simp
  qed
qed

theorem agent_run_accounted_witness:
  "\<exists>r db' n'. run_specialist demo_oc demo_oe (content_generator strict_coercions) demo_ctx JNull
      (ex_db ex_workflow ex_campaign, Some 9) = (r, (db', n')) \<and>
    (case r of Inr out \<Rightarrow> closed_run (ag_budget (oc_settings demo_oc)) 1 AR_COMPLETED db' | Inl e \<Rightarrow> True)"
proof -
  obtain r db' n' where run: "run_specialist demo_oc demo_oe (content_generator strict_coercions) demo_ctx JNull
      (ex_db ex_workflow ex_campaign, Some 9) = (r, (db', n'))" by (metis surj_pair)
  have k: "env_row_id (oe_run_env demo_oe) = 1" by (simp add: demo_oe_def ex_env_def)
  have "get_agent_run (ex_db ex_workflow ex_campaign) (env_row_id (oe_run_env demo_oe)) = None"
    by (simp add: ex_db_def no_rows_def table_simps)
  from agent_run_accounted [OF demo_actions this run] run show ?thesis
    unfolding k by (auto split: sum.splits)
qed

subsection \<open>Autonomy\<close>

text \<open>C6. The workflow with its own orchestrator never approves anything by itself: whatever the
  language model answers, proposes or has executed in the runs of the specialists, a run of the
  workflow takes only steps of the system of campaigns, so afterwards too every APPROVED workflow
  has the record of an APPROVE decision by a reviewer, a manager or an administrator.\<close>

theorem autonomous_runs_need_a_person:
  assumes "default_registry st = Inr (oc_actions oc)" and "oc_services oc = sv"
    and "0 \<le> max_content_retries (sv_settings sv)" and "campaign_reachable sv db"
    and "run_to_pending_approval sv (agentic_orchestrator oc moment) env k n db = Some (res, db')"
  shows "campaign_reachable sv db' \<and>
    (\<forall>w \<in> set (workflows db'). wf_status w = CS_APPROVED \<longrightarrow>
       (\<exists>a \<in> set (approvals db'). ap_workflow_id a = wf_id w \<and> ap_decision a = AD_APPROVE \<and>
          ap_actor_role a \<in> {UR_REVIEWER, UR_MANAGER, UR_ADMIN}))"
proof -
  have r: "campaign_reachable sv db'"
    by (rule run_reachable [OF agentic_orchestrator_tame [OF assms(1,2)] assms(4,5)])
  note i = campaign_invD [OF reachable_campaign_inv [OF r assms(3)]]
  have "set approver_roles = {UR_REVIEWER, UR_MANAGER, UR_ADMIN}" by (auto simp: approver_roles_def)
  then show ?thesis using r i(3-5) unfolding workflow_ok_def approval_ok_def by blast
qed

text \<open>The example: the first call of the model is cancelled.\<close>

abbreviation demo_orchestrator :: orchestrator where
  "demo_orchestrator \<equiv> agentic_orchestrator demo_oc (\<lambda>db. (demo_oe, Some 0))"

abbreviation demo_db :: app_db where
  "demo_db \<equiv> ex_db (ex_at CS_ANALYZING WS_ANALYZE_BRIEF) (ex_campaign\<lparr>c_status := CS_ANALYZING\<rparr>)"

lemma demo_reachable: "campaign_reachable ex_services demo_db"
proof -
  have start: "ex_workflow = ex_at CS_RECEIVED WS_RECEIVE_CAMPAIGN"
    by (simp add: ex_at_def ex_workflow_def new_workflow_def)
  have "campaign_reachable ex_services (ex_db (ex_at CS_ANALYZING WS_ANALYZE_BRIEF)
      (ex_campaign\<lparr>c_status := CS_VALIDATING, c_status := CS_ANALYZING\<rparr>))"
    by (rule ex_move [OF ex_move [OF ex_created [unfolded start]]])
      (simp_all add: loop_transitions_def can_transition_def c_id_def ex_campaign_def new_campaign_def ex_brief_def)
  then show ?thesis by simp
qed

lemma demo_run_returns:
  "\<exists>res db'. run_to_pending_approval ex_services demo_orchestrator (\<lambda>n i. ex_env) 1 1 demo_db = Some (res, db')"
proof -
  have "load_locked_pair 1 demo_db = Inr (ex_at CS_ANALYZING WS_ANALYZE_BRIEF, ex_campaign\<lparr>c_status := CS_ANALYZING\<rparr>)"
    by (rule load_ex_db) (simp_all add: ex_at_def c_id_def ex_campaign_def new_campaign_def ex_brief_def)
  then have "workflow_iteration ex_services demo_orchestrator (\<lambda>i. ex_env) 1 demo_db = (Inl cancelled_error, demo_db)"
    by (simp add: workflow_iteration_def stop_statuses_def continue_with_def and_session_def agentic_orchestrator_def
        as_session_def orchestrate_analysis_def in_transaction_def awaiting_def)
      (simp add: ex_at_def)
  then show ?thesis by (auto simp: run_to_pending_approval_def split: prod.splits)
qed

theorem autonomous_runs_need_a_person_witness:
  "\<exists>res db'. run_to_pending_approval ex_services demo_orchestrator (\<lambda>n i. ex_env) 1 1 demo_db = Some (res, db') \<and>
    campaign_reachable ex_services db'"
proof -
  obtain res db' where run: "run_to_pending_approval ex_services demo_orchestrator (\<lambda>n i. ex_env) 1 1 demo_db = Some (res, db')"
    using demo_run_returns by blast
  have "0 \<le> max_content_retries (sv_settings ex_services)" by simp
  from autonomous_runs_need_a_person [OF demo_actions demo_services this demo_reachable run] run show ?thesis by blast
qed

subsection \<open>Termination\<close>

text \<open>C8. A run of the workflow with its own orchestrator ends: whatever the language model answers,
  however its tools and proposals end and whatever the reviews say, as many iterations as six and two
  more for every retry are enough, and a run that does not raise ends in a status in which it waits
  or is done. The run is the only one that works on its pair meanwhile, from any reachable state.\<close>

theorem autonomous_runs_terminate:
  assumes "default_registry st = Inr (oc_actions oc)"
    and "campaign_reachable sv db" and "0 \<le> max_content_retries (sv_settings sv)"
  shows "\<exists>res db'. run_to_pending_approval sv (agentic_orchestrator oc moment) env k
      (6 + 2 * nat (max_content_retries (sv_settings sv))) db = Some (res, db') \<and>
    (\<forall>w. res = Inr w \<longrightarrow> wf_status w \<in> set stop_statuses)"
  by (rule run_terminates [OF assms(2,3) agentic_orchestrator_steady [OF assms(1)]])

theorem autonomous_runs_terminate_witness:
  "\<exists>res db'. run_to_pending_approval ex_services demo_orchestrator (\<lambda>n i. ex_env) 1 10 demo_db = Some (res, db')"
  using autonomous_runs_terminate [OF demo_actions demo_reachable, of "\<lambda>db. (demo_oe, Some 0)" "\<lambda>n i. ex_env" 1] by auto

subsection \<open>Errors\<close>

text \<open>A run interrupted before it is started keeps its specialist from ever running again. A
  cancellation while the new row is being started leaves the row CREATED, since only what follows
  the start is guarded; and every later run of the specialist on the workflow, whatever its
  readings, ends with the error of a run already active and changes nothing.\<close>

theorem interrupted_start_blocks:
  assumes "resolve_prompt oe (sp_name sp) shown = Inr (label, message)"
    and "create_run (oe_run_env oe) (run_create_of (oc_settings oc) (sp_name sp) ctx label) db = Inr (run, db')"
    and "resolve_prompt oe' (sp_name sp) shown' = Inr (label', message')"
    and "run_create_ok (run_create_of (oc_settings oc) (sp_name sp) ctx label')"
  shows "run_specialist oc oe sp ctx shown (db, Some 2) = (Inl cancelled_error, (db', None)) \<and>
    run_specialist oc oe' sp ctx shown' (db', None) = (Inl run_already_active, (db', None))"
proof -
  have "run \<in> set (agent_runs db')" and run: "r_workflow_id run = cx_workflow_id ctx" "r_agent_name run = sp_name sp"
    "active_run run"
    using assms(2)
    by (auto simp: create_run_def result_simps Let_def new_run_def run_create_of_def active_run_def)
  then have "find_active (cx_workflow_id ctx) (sp_name sp) db' \<noteq> None"
    unfolding find_active_def find_None_iff by blast
  then have again: "create_run (oe_run_env oe') (run_create_of (oc_settings oc) (sp_name sp) ctx label') db' =
      Inl run_already_active"
    using assms(4) by (auto simp: create_run_def require_def run_create_of_def)
  have "run_specialist oc oe sp ctx shown (db, Some 2) = (Inl cancelled_error, (db', None))"
    using assms(1,2)
    by (simp add: run_specialist_def and_session_def awaiting_def in_transaction_def pure_result_def shielded_def
        atomically_def)
  moreover have "run_specialist oc oe' sp ctx shown' (db', None) = (Inl run_already_active, (db', None))"
    using assms(3) again
    by (simp add: run_specialist_def and_session_def awaiting_def in_transaction_def pure_result_def shielded_def
        atomically_def)
  ultimately show ?thesis ..
qed

subsection \<open>Long briefs\<close>

definition never_returns :: "('s, 'a) session \<Rightarrow> bool" where
  "never_returns m \<longleftrightarrow> (\<forall>s. \<exists>e s'. m s = (Inl e, s'))"

lemma never_returns_and:
  assumes "never_returns m"
  shows "never_returns (and_session m f)"
  unfolding never_returns_def
proof
  fix s
  obtain e s' where "m s = (Inl e, s')" using assms unfolding never_returns_def by metis
  then show "\<exists>e s'. and_session m f s = (Inl e, s')" by (simp add: and_session_def)
qed

lemma never_returns_then:
  assumes "\<And>x. never_returns (f x)"
  shows "never_returns (and_session n f)"
  unfolding never_returns_def
proof
  fix s
  obtain r s1 where n: "n s = (r, s1)" by (metis surj_pair)
  show "\<exists>e s'. and_session n f s = (Inl e, s')"
    using assms n by (cases r) (simp_all add: and_session_def never_returns_def)
qed

lemma never_returns_catching:
  assumes "never_returns m" and "\<And>e. never_returns (h e)"
  shows "never_returns (catching m h)"
  unfolding never_returns_def
proof
  fix s
  obtain e s1 where "m s = (Inl e, s1)" using assms(1) unfolding never_returns_def by metis
  then show "\<exists>e s'. catching m h s = (Inl e, s')" using assms(2) by (simp add: catching_def never_returns_def)
qed

lemma never_returns_raising: "never_returns (raising x)"
  by (simp add: never_returns_def raising_def)

lemma never_returns_pure: "never_returns (pure_result (Inl x))"
  by (simp add: never_returns_def pure_result_def)

lemma run_without_messages:
  assumes "\<And>override. oe_prompt oe (sp_name sp) (lp_dumps (oe_loop oe) shown) = Inl (Exn (OpsE M7ResourceNotFoundError) m)"
    and "build_initial_messages (lp_dumps (oe_loop oe)) None shown = Inl x"
  shows "never_returns (run_specialist oc oe sp ctx shown)"
proof -
  have prompt: "resolve_prompt oe (sp_name sp) shown = Inr (''m5-v1'', None)"
    by (simp add: resolve_prompt_def assms(1) is_instance_simps)
  have guarded: "never_returns (handle_agent_error sv env k ctx e)" for sv env k e
    unfolding handle_agent_error_def Let_def by (auto intro: never_returns_then never_returns_raising)
  have loop: "never_returns (run_loop_within d lc le sp k ctx (Inl x))" for d lc le k
    unfolding run_loop_within_def
    by (auto intro!: never_returns_catching never_returns_and never_returns_pure never_returns_raising)
  have rest: "never_returns (and_session (in_transaction (create_run (oe_run_env oe)
        (run_create_of (oc_settings oc) (sp_name sp) ctx ''m5-v1''))) (\<lambda>run.
     and_session (in_transaction (start_run (r_id run))) (\<lambda>_.
     catching
       (and_session (run_loop_within (oe_deadline oe) (loop_config_of oc) (oe_loop oe) sp (r_id run) ctx
           (build_initial_messages (lp_dumps (oe_loop oe)) None shown)) (\<lambda>out.
        and_session (in_transaction (complete_run (env_now (oe_end oe)) (r_id run))) (\<lambda>_. returns out)))
       (handle_agent_error (oc_services oc) (oe_end oe) (r_id run) ctx))))"
    unfolding assms(2)
    by (intro never_returns_then never_returns_catching never_returns_and loop guarded)
  show ?thesis
    unfolding never_returns_def
  proof
    fix s
    show "\<exists>e s'. run_specialist oc oe sp ctx shown s = (Inl e, s')"
      using rest unfolding never_returns_def run_specialist_def prompt
      by (cases "snd s") (simp_all add: and_session_def awaiting_def pure_result_def shielded_def split: nat.splits)
  qed
qed

text \<open>The longest briefs cannot be analyzed. A campaign accepts a raw brief of 20000 characters,
  but the message that carries the context to the model is bounded by 20000 characters with its
  delimiters and the other fields: with the agent's own prompt, no run of the brief analyst on such
  a campaign returns an analysis, whatever the model would answer and wherever a cancellation
  strikes.\<close>

theorem long_brief_cannot_be_analyzed:
  assumes "\<And>v. text_size v \<le> length (lp_dumps (oe_loop oe) v)"
    and "\<And>s. oe_prompt oe AN_BRIEF_ANALYST s = Inl (Exn (OpsE M7ResourceNotFoundError) m)"
    and "get_campaign db c = Some r" and "cb_raw_brief (c_brief r) = Some s"
    and "length s = 20000" and "sanitize_text 20000 s = s"
  shows "\<exists>e s'. orchestrate_analysis oc oe c k (db, n) = (Inl e, s')"
proof -
  have "never_returns (run_specialist oc oe (brief_analyst co) ctx (dump_brief_context (oe_day_text oe) x))"
    if x: "bx_raw_brief x = Some s" for co ctx x
  proof (rule run_without_messages)
    let ?v = "dump_brief_context (oe_day_text oe) x"
    have "20000 \<le> text_size ?v"
      using assms(5) by (simp add: dump_brief_context_def context_fields_json_def x json_of_option_def)
    then have "20000 \<le> length (lp_dumps (oe_loop oe) ?v)" using assms(1) [of ?v] by linarith
    then show "build_initial_messages (lp_dumps (oe_loop oe)) None ?v = Inl (Exn (PyE ValueError) ''AgentMessage'')"
      by (simp add: build_initial_messages_def make_message_def message_ok_def user_message_def)
  qed (simp add: brief_analyst_def assms(2))
  moreover have "bx_raw_brief x = Some s" if "build_brief_context (oc_coercions oc) c k db = Inr (x, db')" for x db'
    using that assms(3-6)
    by (auto simp: build_brief_context_def load_context_pair_def result_simps get_campaign_record_def
        campaign_to_record_def brief_context_of_def Let_def optional_text_def brief_context.defs campaign_context.defs
        required_def)
  ultimately show ?thesis
    unfolding orchestrate_analysis_def and_session_def in_transaction_def awaiting_def shielded_def atomically_def
      never_returns_def
    by (cases n rule: option.exhaust; cases "build_brief_context (oc_coercions oc) c k db")
      (auto split: nat.splits)
qed

lemma sanitize_replicate: "sanitize_text 20000 (replicate 20000 CHR ''a'') = replicate 20000 CHR ''a''"
  by (rule sanitize_plain_text) (simp_all add: is_token_char_def)

definition long_campaign :: campaign_row where
  "long_campaign = ex_campaign\<lparr>c_brief := ex_brief\<lparr>cb_raw_brief := Some (replicate 20000 CHR ''a'')\<rparr>\<rparr>"

theorem long_brief_cannot_be_analyzed_witness:
  "\<exists>e s'. orchestrate_analysis demo_oc demo_oe ''launch'' 1 (ex_db ex_workflow long_campaign, None) = (Inl e, s')"
proof (rule long_brief_cannot_be_analyzed [where r = long_campaign])
  show "get_campaign (ex_db ex_workflow long_campaign) ''launch'' = Some long_campaign"
    by (simp add: ex_db_def no_rows_def long_campaign_def table_simps c_id_def ex_brief_def)
  show "cb_raw_brief (c_brief long_campaign) = Some (replicate 20000 CHR ''a'')"
    by (simp add: long_campaign_def)
qed (simp_all add: demo_oe_def demo_loop_def sanitize_replicate)

theorem interrupted_start_blocks_witness:
  "\<exists>db'. run_specialist demo_oc demo_oe (content_reviewer strict_coercions) demo_ctx JNull
      (ex_db ex_workflow ex_campaign, Some 2) = (Inl cancelled_error, (db', None)) \<and>
    run_specialist demo_oc demo_oe (content_reviewer strict_coercions) demo_ctx (JObj [])
      (db', None) = (Inl run_already_active, (db', None))"
proof -
  have p: "resolve_prompt demo_oe a v = Inr (''m5-v1'', None)" for a v
    by (simp add: resolve_prompt_def demo_oe_def is_instance_simps)
  have ok: "run_create_ok (run_create_of (oc_settings demo_oc) (sp_name (content_reviewer co)) demo_ctx ''m5-v1'')" for co
    by (simp add: run_create_ok_def run_create_of_def demo_ctx_def workflow_fields_def fits_def demo_oc_def)
  moreover have "cx_workflow_id demo_ctx = 1" "cx_campaign_id demo_ctx = ''launch''"
    by (simp_all add: demo_ctx_def workflow_fields_def)
  ultimately obtain run db' where "create_run (oe_run_env demo_oe)
      (run_create_of (oc_settings demo_oc) (sp_name (content_reviewer strict_coercions)) demo_ctx ''m5-v1'')
      (ex_db ex_workflow ex_campaign) = Inr (run, db')"
    by (simp add: create_run_def find_active_def ex_db_def no_rows_def run_create_of_def require_def table_simps Let_def)
  from interrupted_start_blocks [OF p this p ok] show ?thesis by blast
qed

subsection \<open>Stored outputs\<close>

lemma stored_modelI: "f v = Some x \<Longrightarrow> v \<noteq> JNull \<Longrightarrow> v \<noteq> JObj [] \<Longrightarrow> stored_model f (Some v) = Inr (Some x)"
  by (simp add: stored_model_def)

text \<open>C23. What the agents save is read back as it was. Once the outputs of the three specialists have
  been validated and stored in the columns of their campaign, the record of the campaign holds
  exactly the validated analysis, content and review: the validation of their JSON forms neither
  fails nor changes a text.\<close>

theorem stored_outputs_read_back:
  assumes "coercions_ok co" and "analysis_model co v1 = Some a" and "content_model co v2 = Some g"
    and "review_model co v3 = Some q"
  shows "campaign_to_record co (r\<lparr>brief_analysis := Some (dump_analysis a), generated_content := Some (dump_content g),
      c_quality_review := Some (dump_review q)\<rparr>) =
    Inr \<lparr>cr_brief = c_brief r, cr_analysis = Some a, cr_content = Some g, cr_review = Some q\<rparr>"
proof -
  note a = stored_modelI [where f = "analysis_model co", OF analysis_again [OF assms(2,1)]]
  note g = stored_modelI [where f = "content_model co", OF content_again [OF assms(3,1)]]
  note q = stored_modelI [where f = "review_model co", OF review_again [OF assms(4,1)]]
  show ?thesis using a g q
    by (simp add: campaign_to_record_def dump_analysis_def dump_content_def dump_review_def)
qed

definition demo_analysis :: analysis_output where
  "demo_analysis = \<lparr>ba_summary = ''s'', ba_objective = ''o'', ba_audience = ''a'', ba_message = ''m'',
     ba_benefits = [''b''], ba_requirements = [], ba_missing = [], ba_risks = []\<rparr>"

definition demo_content :: "string \<Rightarrow> content_output" where
  "demo_content s = \<lparr>go_facebook = Some \<lparr>fb_headline = ''h'', fb_content = s, fb_cta = ''c'', fb_hashtags = []\<rparr>,
     go_tiktok = None, go_discord = None\<rparr>"

lemma demo_valid:
  "analysis_model strict_coercions (dump_analysis demo_analysis) = Some demo_analysis"
  "review_model strict_coercions (dump_review ex_review) = Some ex_review"
  by (simp_all add: demo_analysis_def dump_analysis_def analysis_model_def schema_simps strict_coercions_ok
      bounded_text_def texts_def strip_def is_space_def review_model_def dump_review_def ex_review_def
      review_status_of_def score_field_def)

theorem stored_outputs_read_back_witness:
  "campaign_to_record strict_coercions (ex_campaign\<lparr>brief_analysis := Some (dump_analysis demo_analysis),
      generated_content := Some (dump_content (demo_content ''x'')), c_quality_review := Some (dump_review ex_review)\<rparr>) =
    Inr \<lparr>cr_brief = ex_brief, cr_analysis = Some demo_analysis, cr_content = Some (demo_content ''x''),
      cr_review = Some ex_review\<rparr>"
proof -
  have g: "content_model strict_coercions (dump_content (demo_content ''x'')) = Some (demo_content ''x'')"
    by (simp add: demo_content_def dump_content_def content_model_def facebook_model_def dump_facebook_def
      optional_model_def optional_json_def schema_simps strict_coercions_ok bounded_text_def texts_def strip_def is_space_def)
  have "c_brief ex_campaign = ex_brief" by (simp add: ex_campaign_def new_campaign_def)
  with stored_outputs_read_back [OF strict_coercions_ok demo_valid(1) g demo_valid(2), of ex_campaign]
  show ?thesis by simp
qed

subsection \<open>What a reviewer is shown\<close>

lemma map_sum_and_then: "map_sum id f (and_then m g) = and_then m (\<lambda>x. map_sum id f (g x))"
  by (cases m) simp_all

lemma sanitize_text_take: "take n s = take n t \<Longrightarrow> sanitize_text n s = sanitize_text n t"
  by (simp add: sanitize_text_def)

lemma sanitized_content_eq:
  assumes "take 2000 t = take 2000 (fb_content f)" and "go_facebook g = Some f"
  shows "sanitize_json 2000 (dump_content (g\<lparr>go_facebook := Some (f\<lparr>fb_content := t\<rparr>)\<rparr>)) =
    sanitize_json 2000 (dump_content g)"
proof -
  have "sanitize_json 2000 (dump_facebook (f\<lparr>fb_content := t\<rparr>)) = sanitize_json 2000 (dump_facebook f)"
    using sanitize_text_take [OF assms(1)] by (simp add: dump_facebook_def)
  then show ?thesis using assms(2) by (simp add: dump_content_def optional_json_def)
qed

text \<open>The content reviewer judges the beginning of a post. Two campaigns whose generated content
  differs only in the text of the Facebook post, and there only after its first 2000 characters, of
  the 5000 a post may have, give the reviewer the same context: whatever is written further on
  is approved or rejected unread.\<close>

theorem review_reads_beginning:
  assumes "coercions_ok co" and "content_model co v = Some g" and "go_facebook g = Some f"
    and "content_model co v' = Some (g\<lparr>go_facebook := Some (f\<lparr>fb_content := t\<rparr>)\<rparr>)"
    and "take 2000 t = take 2000 (fb_content f)"
    and "get_campaign db c = Some r" and "generated_content r = Some (dump_content g)"
    and "get_campaign db' c = Some (r\<lparr>generated_content :=
      Some (dump_content (g\<lparr>go_facebook := Some (f\<lparr>fb_content := t\<rparr>)\<rparr>))\<rparr>)"
    and "workflows db' = workflows db"
  shows "map_sum id fst (build_review_context co c k db') = map_sum id fst (build_review_context co c k db)"
proof -
  let ?g = "g\<lparr>go_facebook := Some (f\<lparr>fb_content := t\<rparr>)\<rparr>"
  have stored: "stored_model (content_model co) (Some (dump_content x)) = Inr (Some x)"
    if "content_model co u = Some x" for u x
    by (rule stored_modelI [where f = "content_model co", OF content_again [OF that assms(1)]]) (simp_all add: dump_content_def)
  have shown: "safe_model (content_model co) dump_content ?g = safe_model (content_model co) dump_content g"
    using sanitized_content_eq [OF assms(5,3)] by (simp add: safe_model_def)
  have w: "get_workflow k db' = get_workflow k db" using assms(9) by (simp add: get_workflow_def)
  show ?thesis
    using assms(6-8) stored [OF assms(2)] stored [OF assms(4)] shown
    by (cases "stored_model (analysis_model co) (brief_analysis r)";
        cases "stored_model (review_model co) (c_quality_review r)"; cases "get_workflow k db")
      (simp_all add: build_review_context_def load_context_pair_def get_campaign_record_def required_def
        campaign_to_record_def w require_def Let_def map_sum_and_then)
qed

theorem review_reads_beginning_witness:
  "map_sum id fst (build_review_context strict_coercions ''launch'' 1 (ex_db ex_workflow (ex_campaign
      \<lparr>generated_content := Some (dump_content (demo_content (replicate 2001 CHR ''x'')))\<rparr>))) =
   map_sum id fst (build_review_context strict_coercions ''launch'' 1 (ex_db ex_workflow (ex_campaign
      \<lparr>generated_content := Some (dump_content (demo_content (replicate 2000 CHR ''x'')))\<rparr>)))"
proof -
  have strip: "strip (replicate n CHR ''x'') = replicate n CHR ''x''" for n
    by (simp add: strip_def is_space_def)
  have short: "strip ''h'' = ''h''" "strip ''c'' = ''c''" by (simp_all add: strip_def is_space_def)
  have valid: "content_model strict_coercions (dump_content (demo_content (replicate n CHR ''x''))) =
      Some (demo_content (replicate n CHR ''x''))" if "n \<in> {2000, 2001}" for n
    using that
    by (auto simp: demo_content_def dump_content_def content_model_def facebook_model_def dump_facebook_def
      optional_model_def optional_json_def schema_simps strict_coercions_ok bounded_text_def texts_def strip short Let_def)
  let ?f = "\<lparr>fb_headline = ''h'', fb_content = replicate 2000 CHR ''x'', fb_cta = ''c'', fb_hashtags = []\<rparr>"
  have g: "demo_content (replicate 2001 CHR ''x'') =
      (demo_content (replicate 2000 CHR ''x''))\<lparr>go_facebook := Some (?f\<lparr>fb_content := replicate 2001 CHR ''x''\<rparr>)\<rparr>"
    by (simp add: demo_content_def)
  show ?thesis
    unfolding g
    by (rule review_reads_beginning [where r = "ex_campaign\<lparr>generated_content :=
          Some (dump_content (demo_content (replicate 2000 CHR ''x'')))\<rparr>", OF strict_coercions_ok valid _
          valid [of 2001, unfolded g]])
      (simp_all add: demo_content_def ex_db_def no_rows_def table_simps c_id_def ex_campaign_def new_campaign_def ex_brief_def)
qed

end
