(* ===== verification/Platform_Rows.thy ===== *)
theory Platform_Rows
  imports Content_Schemas
begin

text \<open>
  The rows of the platform's features (\<open>app/database/models.py\<close>): applied tasks, media assets
  with their generation attempts and reviews, impacts, managed prompts with their experiments
  and comparisons, evaluation cases and security events. Their tables stand beside those of the
  campaigns and the queue.
\<close>

subsection \<open>Applied tasks\<close>

record task_row =
  ta_id :: uuid
  ta_workflow_type :: applied_workflow_type
  ta_status :: applied_task_status
  ta_input :: json
  ta_content :: "string option"
  ta_result :: "json option"
  ta_prompt_version_id :: "uuid option"
  ta_provider :: "string option"
  ta_model :: "string option"
  ta_configuration_hash :: "string option"
  ta_job_id :: "uuid option"
  ta_error_code :: "string option"
  ta_error_message :: "string option"
  ta_created_by :: string
  ta_created_at :: time
  ta_completed_at :: "time option"
  ta_started_at :: "time option"
  ta_duration_ms :: "int option"
  ta_input_tokens :: int
  ta_output_tokens :: int
  ta_estimated_cost :: rat

subsection \<open>Media\<close>

record asset_row =
  ma_id :: uuid
  ma_campaign_id :: "string option"
  ma_workflow_id :: "uuid option"
  ma_task_id :: "uuid option"
  ma_task_type :: string
  ma_type :: media_asset_type
  ma_status :: media_asset_status
  ma_provider :: string
  ma_model :: string
  ma_prompt_version_id :: "uuid option"
  ma_configuration_hash :: "string option"
  ma_prompt :: string
  ma_negative_prompt :: "string option"
  ma_storage_uri :: "string option"
  ma_mime_type :: "string option"
  ma_width :: "int option"
  ma_height :: "int option"
  ma_duration_seconds :: "int option"
  ma_estimated_cost :: "rat option"
  ma_safety_status :: string
  ma_created_by :: string
  ma_idempotency_key :: "string option"
  ma_created_at :: time
  ma_approved_by :: "string option"
  ma_approved_at :: "time option"
  ma_rejected_by :: "string option"
  ma_rejected_at :: "time option"
  ma_rejection_reason :: "string option"
  ma_error_code :: "string option"
  ma_error_message :: "string option"
  ma_completed_at :: "time option"

record media_attempt_row =
  mt_id :: uuid
  mt_asset_id :: uuid
  mt_job_id :: "uuid option"
  mt_worker_id :: "string option"
  mt_job_attempt_number :: "int option"
  mt_attempt_number :: int
  mt_provider :: string
  mt_model :: string
  mt_provider_job_id :: "string option"
  mt_status :: media_attempt_status
  mt_started_at :: time
  mt_completed_at :: "time option"
  mt_duration_ms :: "int option"
  mt_estimated_cost :: "rat option"
  mt_error_code :: "string option"
  mt_error_message :: "string option"

record media_review_row =
  mv_id :: uuid
  mv_asset_id :: uuid
  mv_actor_id :: string
  mv_decision :: string
  mv_rating :: "int option"
  mv_comment :: "string option"
  mv_created_at :: time

subsection \<open>Impacts and feedback\<close>

record baseline_row =
  bl_id :: uuid
  bl_task_type :: string
  bl_department :: string
  bl_manual_duration :: rat
  bl_manual_steps :: int
  bl_error_rate :: rat
  bl_cost :: rat
  bl_sample_size :: int
  bl_source :: string
  bl_version :: int
  bl_created_by :: string
  bl_created_at :: time

record impact_row =
  im_id :: uuid
  im_task_id :: uuid
  im_task_type :: string
  im_department :: "string option"
  im_workflow_id :: "uuid option"
  im_job_id :: "uuid option"
  im_agent_run_id :: "uuid option"
  im_prompt_version_id :: "uuid option"
  im_provider :: string
  im_model :: string
  im_manual_duration :: rat
  im_ai_duration :: rat
  im_minutes_saved :: rat
  im_steps_before :: int
  im_steps_after :: int
  im_automated_steps :: int
  im_automation_rate :: rat
  im_completed_successfully :: bool
  im_output_accepted :: "bool option"
  im_accepted_without_editing :: bool
  im_editing_minutes :: rat
  im_rework_count :: int
  im_error_count :: int
  im_estimated_cost :: rat
  im_created_at :: time

record feedback_row =
  uf_id :: uuid
  uf_task_id :: uuid
  uf_task_type :: string
  uf_workflow_id :: "uuid option"
  uf_agent_run_id :: "uuid option"
  uf_prompt_version_id :: "uuid option"
  uf_provider :: string
  uf_model :: string
  uf_actor_id :: string
  uf_rating :: int
  uf_helpfulness :: int
  uf_accuracy :: int
  uf_ease_of_use :: int
  uf_output_accepted :: "bool option"
  uf_accepted_without_editing :: bool
  uf_editing_minutes :: rat
  uf_rework_count :: int
  uf_would_use_again :: bool
  uf_comment :: "string option"
  uf_version :: int
  uf_created_at :: time

subsection \<open>Managed prompts\<close>

record template_row =
  pt_id :: uuid
  pt_name :: string
  pt_slug :: string
  pt_agent_name :: "string option"
  pt_task_type :: string
  pt_description :: string
  pt_input_schema :: json
  pt_output_schema :: json
  pt_status :: prompt_template_status
  pt_version :: int
  pt_created_by :: string
  pt_created_at :: time

record version_row =
  pv_id :: uuid
  pv_template_id :: uuid
  pv_version :: int
  pv_status :: prompt_version_status
  pv_system_prompt :: string
  pv_user_prompt_template :: string
  pv_variables :: "(string \<times> json) list"
  pv_change_summary :: string
  pv_model_requirements :: json
  pv_created_by :: string
  pv_approved_by :: "string option"
  pv_created_at :: time
  pv_approved_at :: "time option"
  pv_activated_at :: "time option"
  pv_retired_at :: "time option"
  pv_content_hash :: string

record experiment_row =
  pe_id :: uuid
  pe_template_id :: uuid
  pe_control_id :: uuid
  pe_candidate_id :: uuid
  pe_dataset_id :: uuid
  pe_status :: prompt_experiment_status
  pe_sample_size :: int
  pe_provider :: provider_name
  pe_model :: string
  pe_settings :: "(string \<times> json) list"
  pe_configuration_hash :: "string option"
  pe_job_id :: "uuid option"
  pe_created_by :: string
  pe_started_at :: "time option"
  pe_completed_at :: "time option"
  pe_error_code :: "string option"
  pe_error_message :: "string option"
  pe_created_at :: time

text \<open>A case result of an experiment (by its variant) or of a comparison (by its provider).\<close>

record case_result_row =
  cs_owner_id :: uuid
  cs_case_id :: uuid
  cs_variant :: string
  cs_completed :: bool
  cs_output :: "json option"
  cs_metrics :: "(string \<times> json) list"
  cs_error_code :: "string option"
  cs_error_message :: "string option"

record experiment_result_row =
  xr_experiment_id :: uuid
  xr_control_metrics :: "(string \<times> json) list"
  xr_candidate_metrics :: "(string \<times> json) list"
  xr_winner :: "string option"
  xr_decision_reason :: string

record comparison_row =
  pc_id :: uuid
  pc_prompt_version_id :: uuid
  pc_dataset_id :: uuid
  pc_providers :: "provider_name list"
  pc_models :: "(provider_name \<times> string) list"
  pc_sample_size :: int
  pc_settings :: "(string \<times> json) list"
  pc_status :: provider_comparison_status
  pc_report :: "json option"
  pc_job_id :: "uuid option"
  pc_created_by :: string
  pc_created_at :: time
  pc_started_at :: "time option"
  pc_completed_at :: "time option"
  pc_error_code :: "string option"
  pc_error_message :: "string option"

subsection \<open>Evaluation\<close>

record dataset_row =
  ds_id :: uuid
  ds_name :: string
  ds_version :: string
  ds_description :: "string option"
  ds_created_by :: string

record case_row =
  ec_id :: uuid
  ec_dataset_id :: uuid
  ec_name :: string
  ec_order :: int
  ec_input :: "(string \<times> json) list"
  ec_actual_output :: "json option"
  ec_system_config :: json
  ec_expected :: json
  ec_thresholds :: json
  ec_enabled :: bool

record security_event_row =
  sx_event_type :: security_event_type
  sx_severity :: security_severity
  sx_actor_id :: "string option"
  sx_resource_type :: "string option"
  sx_resource_id :: "string option"
  sx_source :: string
  sx_message :: string

subsection \<open>Tables\<close>

record platform_db =
  pd_core :: app_db
  pd_queue :: job_db
  pd_tasks :: "task_row list"
  pd_assets :: "asset_row list"
  pd_attempts :: "media_attempt_row list"
  pd_reviews :: "media_review_row list"
  pd_baselines :: "baseline_row list"
  pd_impacts :: "impact_row list"
  pd_feedback :: "feedback_row list"
  pd_templates :: "template_row list"
  pd_versions :: "version_row list"
  pd_experiments :: "experiment_row list"
  pd_experiment_cases :: "case_result_row list"
  pd_experiment_results :: "experiment_result_row list"
  pd_comparisons :: "comparison_row list"
  pd_comparison_cases :: "case_result_row list"
  pd_datasets :: "dataset_row list"
  pd_cases :: "case_row list"
  pd_security_events :: "security_event_row list"

abbreviation get_task :: "platform_db \<Rightarrow> uuid \<Rightarrow> task_row option" where
  "get_task db k \<equiv> t_get ta_id (pd_tasks db) k"

abbreviation get_asset :: "platform_db \<Rightarrow> uuid \<Rightarrow> asset_row option" where
  "get_asset db k \<equiv> t_get ma_id (pd_assets db) k"

abbreviation get_media_attempt :: "platform_db \<Rightarrow> uuid \<Rightarrow> media_attempt_row option" where
  "get_media_attempt db k \<equiv> t_get mt_id (pd_attempts db) k"

abbreviation get_template :: "platform_db \<Rightarrow> uuid \<Rightarrow> template_row option" where
  "get_template db k \<equiv> t_get pt_id (pd_templates db) k"

abbreviation get_version :: "platform_db \<Rightarrow> uuid \<Rightarrow> version_row option" where
  "get_version db k \<equiv> t_get pv_id (pd_versions db) k"

abbreviation get_experiment :: "platform_db \<Rightarrow> uuid \<Rightarrow> experiment_row option" where
  "get_experiment db k \<equiv> t_get pe_id (pd_experiments db) k"

abbreviation get_comparison :: "platform_db \<Rightarrow> uuid \<Rightarrow> comparison_row option" where
  "get_comparison db k \<equiv> t_get pc_id (pd_comparisons db) k"

definition put_task :: "task_row \<Rightarrow> platform_db \<Rightarrow> platform_db" where
  "put_task r db = db\<lparr>pd_tasks := t_put ta_id (pd_tasks db) r\<rparr>"

definition put_asset :: "asset_row \<Rightarrow> platform_db \<Rightarrow> platform_db" where
  "put_asset r db = db\<lparr>pd_assets := t_put ma_id (pd_assets db) r\<rparr>"

definition put_media_attempt :: "media_attempt_row \<Rightarrow> platform_db \<Rightarrow> platform_db" where
  "put_media_attempt r db = db\<lparr>pd_attempts := t_put mt_id (pd_attempts db) r\<rparr>"

definition put_template :: "template_row \<Rightarrow> platform_db \<Rightarrow> platform_db" where
  "put_template r db = db\<lparr>pd_templates := t_put pt_id (pd_templates db) r\<rparr>"

definition put_version :: "version_row \<Rightarrow> platform_db \<Rightarrow> platform_db" where
  "put_version r db = db\<lparr>pd_versions := t_put pv_id (pd_versions db) r\<rparr>"

definition put_experiment :: "experiment_row \<Rightarrow> platform_db \<Rightarrow> platform_db" where
  "put_experiment r db = db\<lparr>pd_experiments := t_put pe_id (pd_experiments db) r\<rparr>"

definition put_comparison :: "comparison_row \<Rightarrow> platform_db \<Rightarrow> platform_db" where
  "put_comparison r db = db\<lparr>pd_comparisons := t_put pc_id (pd_comparisons db) r\<rparr>"

interpretation task_table: row_table ta_id "t_get ta_id" "t_put ta_id" by (rule row_table_list)
interpretation asset_table: row_table ma_id "t_get ma_id" "t_put ma_id" by (rule row_table_list)
interpretation media_attempt_table: row_table mt_id "t_get mt_id" "t_put mt_id" by (rule row_table_list)
interpretation template_table: row_table pt_id "t_get pt_id" "t_put pt_id" by (rule row_table_list)
interpretation version_table: row_table pv_id "t_get pv_id" "t_put pv_id" by (rule row_table_list)

definition empty_platform :: platform_db where
  "empty_platform = \<lparr>pd_core = no_rows, pd_queue = \<lparr>jobs = [], attempts = [], workers = []\<rparr>, pd_tasks = [],
     pd_assets = [], pd_attempts = [], pd_reviews = [], pd_baselines = [], pd_impacts = [], pd_feedback = [],
     pd_templates = [], pd_versions = [], pd_experiments = [], pd_experiment_cases = [],
     pd_experiment_results = [], pd_comparisons = [], pd_comparison_cases = [], pd_datasets = [], pd_cases = [],
     pd_security_events = []\<rparr>"

subsection \<open>Transactions over the queue and the outbox\<close>

definition in_queue :: "(job_db \<Rightarrow> (exn, 'a \<times> job_db) res) \<Rightarrow> platform_db \<Rightarrow> (exn, 'a \<times> platform_db) res" where
  "in_queue f db = and_then (f (pd_queue db)) (\<lambda>(a, q). Inr (a, db\<lparr>pd_queue := q\<rparr>))"

definition platform_event :: "services \<Rightarrow> call_env \<Rightarrow> event_request \<Rightarrow> platform_db \<Rightarrow> (exn, platform_db) res" where
  "platform_event sv env r db =
     and_then (add_outbox_event sv env r (pd_core db)) (\<lambda>c. Inr (db\<lparr>pd_core := c\<rparr>))"

text \<open>An event without the optional keys of the request.\<close>

definition plain_event :: "outbox_event_type \<Rightarrow> string \<Rightarrow> uuid \<Rightarrow> json \<Rightarrow> string option \<Rightarrow> event_request" where
  "plain_event t aggregate k p key =
     \<lparr>er_event_type = t, er_aggregate_type = aggregate, er_aggregate_id = uuid_str k, er_payload = p,
      er_idempotency_key = key, er_correlation_id = None, er_trace_id = None\<rparr>"

text \<open>A job with the default priority and attempts.\<close>

definition plain_job :: "job_type \<Rightarrow> job_payload \<Rightarrow> string \<Rightarrow> string \<Rightarrow> enqueue_request" where
  "plain_job t p actor key =
     \<lparr>e_job_type = t, e_payload = dump_payload p, e_created_by = actor, e_priority = 50, e_max_attempts = None,
      e_available_at = None, e_idempotency_key = Some key, e_correlation_id = None, e_trace_id = None\<rparr>"

text \<open>
  The column of a job's key has 64 characters, and a longer key is an error of the database that
  is no violation of a constraint.
\<close>

definition enqueue_keyed ::
  "coercions \<Rightarrow> hashing \<Rightarrow> job_settings \<Rightarrow> call_env \<Rightarrow> enqueue_request \<Rightarrow> platform_db \<Rightarrow>
   (exn, job_row \<times> platform_db) res" where
  "enqueue_keyed co h st env r db =
     (if 64 < length (or_str (e_idempotency_key r) []) then
        Inl (Exn (PyE DBAPIError) ''value too long for type character varying(64)'')
      else in_queue (enqueue co h st env r) db)"

end
