(* ===== verification/Prompt_Renderer.thy ===== *)
theory Prompt_Renderer
  imports Platform_Rows "HOL-Library.List_Lexorder" "HOL-Library.Char_ord"
begin

text \<open>
  Rendering of managed prompts: \<open>app/prompt_management/renderer.py\<close>, over the format strings of
  Python (\<open>string.Formatter.parse\<close> and \<open>str.format_map\<close>). A field with a conversion, a format
  specification or an accessor is formatted by the parameter \<open>formatting\<close>.
\<close>

subsection \<open>Format strings\<close>

datatype format_piece = Text char | Field string "char option" string

text \<open>The name of a field up to its terminator; brackets protect what they enclose.\<close>

function scan_name :: "string \<Rightarrow> (string \<times> char \<times> string) option" where
  "scan_name [] = None"
| "scan_name (c # s) =
     (if c = CHR ''{'' then None
      else if c = CHR ''}'' \<or> c = CHR '':'' \<or> c = CHR ''!'' then Some ([], c, s)
      else if c = CHR ''['' then
        map_option (\<lambda>(n, t, r). (c # takeWhile (\<lambda>d. d \<noteq> CHR '']'') s @ n, t, r))
          (scan_name (dropWhile (\<lambda>d. d \<noteq> CHR '']'') s))
      else map_option (\<lambda>(n, t, r). (c # n, t, r)) (scan_name s))"
  by pat_completeness auto
termination
  by (relation "measure length") (auto simp: le_imp_less_Suc length_dropWhile_le)

fun scan_spec :: "nat \<Rightarrow> string \<Rightarrow> (string \<times> string) option" where
  "scan_spec n [] = None"
| "scan_spec n (c # s) =
     (if c = CHR ''}'' \<and> n = 1 then Some ([], s)
      else map_option (\<lambda>(u, r). (c # u, r))
        (scan_spec (if c = CHR ''{'' then n + 1 else if c = CHR ''}'' then n - 1 else n) s))"

definition scan_field :: "string \<Rightarrow> (format_piece \<times> string) option" where
  "scan_field s = do {
     (n, t, r) \<leftarrow> scan_name s;
     if t = CHR ''}'' then Some (Field n None [], r)
     else if t = CHR '':'' then do {(u, r') \<leftarrow> scan_spec 1 r; Some (Field n None u, r')}
     else (case r of
         v # d # r1 \<Rightarrow>
           if d = CHR ''}'' then Some (Field n (Some v) [], r1)
           else if d = CHR '':'' then do {(u, r') \<leftarrow> scan_spec 1 r1; Some (Field n (Some v) u, r')}
           else None
       | _ \<Rightarrow> None)}"

lemma scan_name_shorter: "scan_name s = Some (n, t, r) \<Longrightarrow> length r < length s"
proof (induction s arbitrary: n rule: scan_name.induct)
  case (2 c s)
  then show ?case
    by (auto split: if_splits) (metis dual_order.strict_trans1 le_imp_less_Suc length_dropWhile_le less_Suc_eq)+
qed simp

lemma scan_spec_shorter: "scan_spec k s = Some (u, r) \<Longrightarrow> length r < length s"
  by (induction k s arbitrary: u rule: scan_spec.induct) (fastforce split: if_splits)+

lemma scan_field_shorter: "scan_field s = Some (p, r) \<Longrightarrow> length r < length s"
  by (auto simp: scan_field_def bind_eq_Some_conv split: if_splits list.splits
      dest!: scan_name_shorter scan_spec_shorter)

text \<open>The pieces of a format string; \<open>None\<close> is the \<open>ValueError\<close> of an invalid one.\<close>

function format_pieces :: "string \<Rightarrow> format_piece list option" where
  "format_pieces [] = Some []"
| "format_pieces (c # s) =
     (if c = CHR ''{'' then
        (case s of
           [] \<Rightarrow> None
         | d # s' \<Rightarrow>
             if d = CHR ''{'' then map_option ((#) (Text c)) (format_pieces s')
             else (case scan_field s of None \<Rightarrow> None | Some (p, r) \<Rightarrow> map_option ((#) p) (format_pieces r)))
      else if c = CHR ''}'' then
        (case s of
           [] \<Rightarrow> None
         | d # s' \<Rightarrow> if d = CHR ''}'' then map_option ((#) (Text c)) (format_pieces s') else None)
      else map_option ((#) (Text c)) (format_pieces s))"
  by pat_completeness auto
termination
  by (relation "measure length") (auto dest: scan_field_shorter)


subsection \<open>Checks of a template\<close>

definition validation_error :: "string \<Rightarrow> exn" where
  "validation_error m = Exn (OpsE M7ValidationError) m"

text \<open>\<open>pattern.search(text)\<close> under \<open>re.IGNORECASE\<close>.\<close>

fun re_search :: "regex \<Rightarrow> string \<Rightarrow> bool" where
  "re_search re [] = (rmatch re [] \<noteq> [])"
| "re_search re (c # s) = (rmatch re (c # s) \<noteq> [] \<or> re_search re s)"

definition hidden_reasoning_pattern :: regex where
  "hidden_reasoning_pattern =
     Alt (Seq (lit ''chain'') (Seq (Chr (\<lambda>c. c \<in> {CHR ''-'', CHR ''_'', CHR '' ''}))
           (Seq (lit ''of'') (Seq (Chr (\<lambda>c. c \<in> {CHR ''-'', CHR ''_'', CHR '' ''})) (lit ''thought'')))))
      (Alt (lit ''hidden reasoning'') (lit ''show your reasoning step by step''))"

definition max_rendered_prompt_characters :: nat where
  "max_rendered_prompt_characters = 60000"

definition validate_content :: "string \<Rightarrow> string \<Rightarrow> (exn, unit) res" where
  "validate_content system_prompt user_prompt_template =
     (let content = system_prompt @ [CHR 0x0A] @ user_prompt_template in
      and_then (require (\<not> re_search assignment_pattern content)
        (validation_error ''Managed prompts cannot contain secrets'')) (\<lambda>_.
      and_then (require (\<not> re_search hidden_reasoning_pattern content)
        (validation_error ''Managed prompts cannot request hidden reasoning'')) (\<lambda>_.
      require (length content \<le> max_rendered_prompt_characters)
        (validation_error ''Managed prompt exceeds the size limit''))))"

fun field_names :: "format_piece list \<Rightarrow> string list" where
  "field_names [] = []"
| "field_names (Text c # ps) = field_names ps"
| "field_names (Field n v u # ps) = (if n = [] then field_names ps else n # field_names ps)"

definition variables :: "string \<Rightarrow> (exn, string list) res" where
  "variables template =
     and_then (required (format_pieces template) (validation_error ''Prompt template syntax is invalid'')) (\<lambda>ps.
     Inr (field_names ps))"

subsection \<open>Rendering\<close>

text \<open>
  What a field with an accessor yields from a text, and what a conversion and a specification
  (whose own fields the values fill) make of a text.
\<close>

record formatting =
  fm_access :: "string \<Rightarrow> string \<Rightarrow> (exn, string) res"
  fm_format :: "(string \<times> string) list \<Rightarrow> char option \<Rightarrow> string \<Rightarrow> string \<Rightarrow> (exn, string) res"

definition is_accessor :: "char \<Rightarrow> bool" where
  "is_accessor c \<longleftrightarrow> c = CHR ''.'' \<or> c = CHR ''[''"

definition is_digit :: "char \<Rightarrow> bool" where
  "is_digit c = (let n = of_char c :: nat in 48 \<le> n \<and> n \<le> 57)"

text \<open>An empty or numeric name is a positional field, which \<open>format_map\<close> does not have.\<close>

definition field_value :: "formatting \<Rightarrow> (string \<times> string) list \<Rightarrow> string \<Rightarrow> (exn, string) res" where
  "field_value fm values n =
     (let first = takeWhile (\<lambda>c. \<not> is_accessor c) n; rest = dropWhile (\<lambda>c. \<not> is_accessor c) n in
      if list_all is_digit first then
        Inl (Exn (PyE ValueError) ''Format string contains positional fields'')
      else and_then (required (map_of values first) (Exn (PyE KeyError) first)) (\<lambda>v.
        if rest = [] then Inr v else fm_access fm v rest))"

fun render_pieces :: "formatting \<Rightarrow> (string \<times> string) list \<Rightarrow> format_piece list \<Rightarrow> (exn, string) res" where
  "render_pieces fm values [] = Inr []"
| "render_pieces fm values (Text c # ps) = and_then (render_pieces fm values ps) (\<lambda>s. Inr (c # s))"
| "render_pieces fm values (Field n v u # ps) =
     and_then (field_value fm values n) (\<lambda>x.
     and_then (if v = None \<and> u = [] then Inr x else fm_format fm values v u x) (\<lambda>y.
     and_then (render_pieces fm values ps) (\<lambda>s. Inr (y @ s))))"

definition format_map :: "formatting \<Rightarrow> string \<Rightarrow> (string \<times> string) list \<Rightarrow> (exn, string) res" where
  "format_map fm template values =
     and_then (required (format_pieces template) (Exn (PyE ValueError) ''invalid format string''))
       (render_pieces fm values)"

definition sorted_names :: "string list \<Rightarrow> string" where
  "sorted_names ns = concat (case sort (remdups ns) of [] \<Rightarrow> [] | m # ms \<Rightarrow> m # map ((@) '', '') ms)"

definition rendering_failed :: "exn \<Rightarrow> exn" where
  "rendering_failed e =
     (if isinstance_any (exn_cls e) [PyE KeyError, PyE ValueError]
      then validation_error ''Prompt rendering failed'' else e)"

text \<open>The values are given as the texts \<open>str(value)\<close>.\<close>

definition render ::
  "formatting \<Rightarrow> string \<Rightarrow> (string \<times> string) list \<Rightarrow> string list \<Rightarrow> bool \<Rightarrow> (exn, string) res" where
  "render fm template values allowed allow_unknown =
     and_then (variables template) (\<lambda>referenced.
     let missing = filter (\<lambda>n. n \<notin> fst ` set values) referenced;
         unknown = filter (\<lambda>n. n \<notin> set allowed) (map fst values)
     in and_then (require (missing = []) (validation_error (''Missing prompt variables: '' @ sorted_names missing))) (\<lambda>_.
        and_then (require (unknown = [] \<or> allow_unknown)
          (validation_error (''Unknown prompt variables: '' @ sorted_names unknown))) (\<lambda>_.
        and_then (case format_map fm template values of Inl e \<Rightarrow> Inl (rendering_failed e) | Inr s \<Rightarrow> Inr s) (\<lambda>rendered.
        and_then (require (length rendered \<le> max_rendered_prompt_characters)
          (validation_error ''Rendered prompt exceeds the size limit'')) (\<lambda>_. Inr rendered)))))"

subsection \<open>Writing format strings\<close>

text \<open>The format string of some pieces: braces doubled, fields by their names.\<close>

fun unparse :: "format_piece list \<Rightarrow> string" where
  "unparse [] = []"
| "unparse (Text c # ps) =
     (if c = CHR ''{'' \<or> c = CHR ''}'' then c # c # unparse ps else c # unparse ps)"
| "unparse (Field n v u # ps) = CHR ''{'' # n @ CHR ''}'' # unparse ps"

definition plain_name :: "string \<Rightarrow> bool" where
  "plain_name n \<longleftrightarrow> list_all (\<lambda>c. c \<notin> set ''{}:![.'' \<and> \<not> is_digit c) n \<and> n \<noteq> []"

fun plain_piece :: "format_piece \<Rightarrow> bool" where
  "plain_piece (Text c) = True"
| "plain_piece (Field n v u) = (plain_name n \<and> v = None \<and> u = [])"

lemma scan_plain_name:
  "list_all (\<lambda>c. c \<notin> set ''{}:![.'' \<and> \<not> is_digit c) n \<Longrightarrow> scan_name (n @ CHR ''}'' # s) = Some (n, CHR ''}'', s)"
  by (induction n) auto

lemma format_pieces_unparse: "list_all plain_piece ps \<Longrightarrow> format_pieces (unparse ps) = Some ps"
proof (induction ps)
  case (Cons p ps)
  show ?case
  proof (cases p)
    case (Field n v u)
    with Cons.prems have n: "plain_name n" "v = None" "u = []" by auto
    then obtain d m where m: "n = d # m" "d \<noteq> CHR ''{''" by (cases n) (auto simp: plain_name_def)
    have "scan_field (n @ CHR ''}'' # unparse ps) = Some (Field n None [], unparse ps)"
      using n by (simp add: scan_field_def scan_plain_name plain_name_def)
    then show ?thesis using Cons m n Field by simp
  qed (use Cons in auto)
qed simp

text \<open>What a piece becomes: a field is the value of its name.\<close>

fun piece_text :: "(string \<times> string) list \<Rightarrow> format_piece \<Rightarrow> string" where
  "piece_text values (Text c) = [c]"
| "piece_text values (Field n v u) = the (map_of values n)"

lemma plain_field_value:
  assumes "plain_name n" and "map_of values n = Some v"
  shows "field_value fm values n = Inr v"
proof -
  have "list_all (\<lambda>c. \<not> is_accessor c) n" and "\<not> list_all is_digit n"
    using assms(1) by (cases n; auto simp: plain_name_def list_all_iff is_accessor_def)+
  then have t: "takeWhile (\<lambda>c. \<not> is_accessor c) n = n" and d: "dropWhile (\<lambda>c. \<not> is_accessor c) n = []"
    by (simp_all add: list_all_iff)
  show ?thesis using assms(2) \<open>\<not> list_all is_digit n\<close> unfolding field_value_def Let_def t d by simp
qed

lemma render_plain_pieces:
  "list_all plain_piece ps \<Longrightarrow> set (field_names ps) \<subseteq> fst ` set values \<Longrightarrow>
   render_pieces fm values ps = Inr (concat (map (piece_text values) ps))"
proof (induction ps)
  case (Cons p ps)
  show ?case
  proof (cases p)
    case (Field n v u)
    with Cons.prems have n: "plain_name n" "v = None" "u = []" by auto
    then have "n \<noteq> []" by (auto simp: plain_name_def)
    with Cons.prems(2) Field have "n \<in> fst ` set values" "set (field_names ps) \<subseteq> fst ` set values" by auto
    then obtain x where "map_of values n = Some x" by (metis map_of_eq_None_iff option.exhaust)
    with n Cons Field \<open>set (field_names ps) \<subseteq> fst ` set values\<close> show ?thesis by (simp add: plain_field_value)
  qed (use Cons in simp)
qed simp

text \<open>C24. Rendering a managed prompt is substitution. A template written out of texts and named fields,
  with the braces of its texts doubled, is rendered to exactly those texts with every field
  replaced by its value: the value is inserted as it is, and braces or field syntax inside it are
  never interpreted.\<close>

theorem render_substitutes:
  assumes "list_all plain_piece ps" and "set (field_names ps) \<subseteq> fst ` set values"
    and "fst ` set values \<subseteq> set allowed"
    and "length (concat (map (piece_text values) ps)) \<le> max_rendered_prompt_characters"
  shows "render fm (unparse ps) values allowed unknown = Inr (concat (map (piece_text values) ps))"
proof -
  have "variables (unparse ps) = Inr (field_names ps)"
    by (simp add: variables_def format_pieces_unparse [OF assms(1)])
  moreover have "filter (\<lambda>n. n \<notin> fst ` set values) (field_names ps) = []"
    and "filter (\<lambda>n. n \<notin> set allowed) (map fst values) = []"
    using assms(2,3) by (auto simp: filter_empty_conv)
  moreover have "format_map fm (unparse ps) values = Inr (concat (map (piece_text values) ps))"
    using assms(1,2) by (simp add: format_map_def format_pieces_unparse render_plain_pieces)
  ultimately show ?thesis using assms(4) by (simp add: render_def)
qed

definition no_formatting :: formatting where
  "no_formatting = \<lparr>fm_access = (\<lambda>s a. Inl (Exn (PyE OtherException) a)),
     fm_format = (\<lambda>vs c u s. Inl (Exn (PyE ValueError) u))\<rparr>"

theorem render_substitutes_witness:
  "render no_formatting (unparse [Text CHR ''{'', Field ''brief'' None []]) [(''brief'', ''{x}'')] [''brief''] False =
     Inr ''{{x}'' \<and> unparse [Text CHR ''{'', Field ''brief'' None []] = ''{{{brief}''"
proof -
  have "list_all plain_piece [Text CHR ''{'', Field ''brief'' None []]"
    by (simp add: plain_name_def is_digit_def)
  from render_substitutes [OF this, of "[(''brief'', ''{x}'')]" "[''brief'']"]
  show ?thesis by (simp add: max_rendered_prompt_characters_def)
qed

end
