(* ===== verification/Prompt_Service.thy ===== *)
theory Prompt_Service
  imports Prompt_Renderer Auth
begin

text \<open>
  Managed prompts: \<open>app/prompt_management/service.py\<close> over \<open>app/repositories/prompt_repository.py\<close>
  and \<open>prompt_experiment_repository.py\<close>. A template has numbered versions, of which one may be
  active; an experiment compares two versions on the cases of a dataset.

  A transition of a version reads the version first and locks its template afterwards. The
  session keeps the first reading, so these operations take the row as it was \<open>seen\<close>, and write
  the columns in which the changed copy differs from it.
\<close>

subsection \<open>Requests\<close>

record template_create =
  tq_name :: string
  tq_slug :: string
  tq_agent_name :: "string option"
  tq_task_type :: string
  tq_description :: string
  tq_input_schema :: json
  tq_output_schema :: json

record version_create =
  vq_system_prompt :: string
  vq_user_prompt_template :: string
  vq_variables :: "(string \<times> json) list"
  vq_change_summary :: string
  vq_model_requirements :: json

record experiment_create =
  xq_template_id :: uuid
  xq_control_id :: uuid
  xq_candidate_id :: uuid
  xq_dataset_id :: uuid
  xq_provider :: provider_name
  xq_model :: string
  xq_sample_size :: int
  xq_settings :: "(string \<times> json) list"

definition object_entries :: "json \<Rightarrow> (string \<times> json) list" where
  "object_entries v = (case v of JObj es \<Rightarrow> es | _ \<Rightarrow> [])"

subsection \<open>Guards and the audit\<close>

definition conflict :: "string \<Rightarrow> exn" where
  "conflict m = Exn (OpsE M7ConflictError) m"

definition not_found :: "string \<Rightarrow> exn" where
  "not_found m = Exn (OpsE M7ResourceNotFoundError) m"

definition require_manager :: "authenticated_actor \<Rightarrow> (exn, unit) res" where
  "require_manager actor =
     require (actor_role actor \<in> {UR_MANAGER, UR_ADMIN}) (conflict ''Manager or admin role is required'')"

text \<open>\<open>str(None)\<close> is the text \<open>None\<close>. The metadata of the event repeats its message.\<close>

definition prompt_audit :: "authenticated_actor \<Rightarrow> string \<Rightarrow> uuid option \<Rightarrow> platform_db \<Rightarrow> platform_db" where
  "prompt_audit actor action k db = db\<lparr>pd_security_events := pd_security_events db @
     [\<lparr>sx_event_type = SE_OPERATOR_ACTION, sx_severity = SV_LOW, sx_actor_id = Some (actor_id actor),
       sx_resource_type = Some ''managed_prompt'',
       sx_resource_id = Some (case k of None \<Rightarrow> ''None'' | Some u \<Rightarrow> uuid_str u),
       sx_source = ''prompt_management'', sx_message = action\<rparr>]\<rparr>"

definition required_template :: "uuid \<Rightarrow> platform_db \<Rightarrow> (exn, template_row) res" where
  "required_template k db = required (get_template db k) (not_found ''Prompt template not found'')"

definition required_version :: "uuid \<Rightarrow> platform_db \<Rightarrow> (exn, version_row) res" where
  "required_version k db = required (get_version db k) (not_found ''Prompt version not found'')"

definition required_experiment :: "uuid \<Rightarrow> platform_db \<Rightarrow> (exn, experiment_row) res" where
  "required_experiment k db = required (get_experiment db k) (not_found ''Prompt experiment not found'')"

subsection \<open>Templates\<close>

definition new_template :: "call_env \<Rightarrow> template_create \<Rightarrow> json \<Rightarrow> json \<Rightarrow> string \<Rightarrow> template_row" where
  "new_template env d safe_input safe_output by_actor =
     \<lparr>pt_id = env_row_id env, pt_name = tq_name d, pt_slug = tq_slug d, pt_agent_name = tq_agent_name d,
      pt_task_type = tq_task_type d, pt_description = tq_description d, pt_input_schema = safe_input,
      pt_output_schema = safe_output, pt_status = PT_ACTIVE, pt_version = 1, pt_created_by = by_actor,
      pt_created_at = env_now env\<rparr>"

definition create_template ::
  "call_env \<Rightarrow> template_create \<Rightarrow> authenticated_actor \<Rightarrow> platform_db \<Rightarrow> (exn, template_row \<times> platform_db) res" where
  "create_template env d actor db =
     and_then (require_manager actor) (\<lambda>_.
     let safe_input = sanitize_json 2000 (tq_input_schema d);
         safe_output = sanitize_json 2000 (tq_output_schema d);
         t = new_template env d safe_input safe_output (actor_id actor)
     in and_then (require (is_json_object safe_input \<and> is_json_object safe_output)
          (validation_error ''Prompt schemas must be JSON objects'')) (\<lambda>_.
        and_then (require (pt_slug t \<notin> pt_slug ` set (pd_templates db))
          (conflict ''Prompt template slug already exists'')) (\<lambda>_.
        Inr (t, prompt_audit actor ''prompt_template_created'' None
          (db\<lparr>pd_templates := pd_templates db @ [t]\<rparr>)))))"

definition list_templates :: "int \<Rightarrow> int \<Rightarrow> platform_db \<Rightarrow> template_row list" where
  "list_templates limit offset db =
     order_page (\<lambda>t. - pt_created_at t) (min limit 100) (max offset 0) (pd_templates db)"

definition find_template :: "string option \<Rightarrow> string option \<Rightarrow> platform_db \<Rightarrow> template_row option" where
  "find_template agent task db =
     (let first = (\<lambda>p. case sort_key pt_created_at (filter (\<lambda>t. pt_status t = PT_ACTIVE \<and> p t) (pd_templates db)) of
            [] \<Rightarrow> None | t # _ \<Rightarrow> Some t)
      in case agent of
           Some a \<Rightarrow> first (\<lambda>t. pt_agent_name t = Some a)
         | None \<Rightarrow> (case task of Some ty \<Rightarrow> first (\<lambda>t. pt_task_type t = ty) | None \<Rightarrow> None))"

subsection \<open>Versions\<close>

definition next_version :: "uuid \<Rightarrow> platform_db \<Rightarrow> int" where
  "next_version template_id db =
     foldr (\<lambda>v n. max (pv_version v) n) (filter (\<lambda>v. pv_template_id v = template_id) (pd_versions db)) 0 + 1"

definition prompt_content_hash :: "hashing \<Rightarrow> version_create \<Rightarrow> string" where
  "prompt_content_hash h d = sha256_hex h (json_dumps h (JObj
     [(''system_prompt'', JStr (vq_system_prompt d)),
      (''user_prompt_template'', JStr (vq_user_prompt_template d)),
      (''variables'', JObj (vq_variables d)), (''change_summary'', JStr (vq_change_summary d)),
      (''model_requirements'', vq_model_requirements d)]))"

definition new_version ::
  "hashing \<Rightarrow> call_env \<Rightarrow> uuid \<Rightarrow> int \<Rightarrow> version_create \<Rightarrow> string \<Rightarrow> version_row" where
  "new_version h env template_id n d by_actor =
     \<lparr>pv_id = env_row_id env, pv_template_id = template_id, pv_version = n, pv_status = PV_DRAFT,
      pv_system_prompt = vq_system_prompt d, pv_user_prompt_template = vq_user_prompt_template d,
      pv_variables = object_entries (sanitize_json 2000 (JObj (vq_variables d))),
      pv_change_summary = sanitize_text 1000 (vq_change_summary d),
      pv_model_requirements = sanitize_json 2000 (vq_model_requirements d), pv_created_by = by_actor,
      pv_approved_by = None, pv_created_at = env_now env, pv_approved_at = None, pv_activated_at = None,
      pv_retired_at = None, pv_content_hash = prompt_content_hash h d\<rparr>"

definition create_version ::
  "hashing \<Rightarrow> call_env \<Rightarrow> uuid \<Rightarrow> version_create \<Rightarrow> authenticated_actor \<Rightarrow> platform_db \<Rightarrow>
   (exn, version_row \<times> platform_db) res" where
  "create_version h env template_id d actor db =
     and_then (require_manager actor) (\<lambda>_.
     and_then (required_template template_id db) (\<lambda>_.
     and_then (validate_content (vq_system_prompt d) (vq_user_prompt_template d)) (\<lambda>_.
     and_then (variables (vq_user_prompt_template d)) (\<lambda>referenced.
     and_then (require (set referenced \<subseteq> fst ` set (vq_variables d))
       (validation_error ''Every prompt variable must be declared'')) (\<lambda>_.
     let v = new_version h env template_id (next_version template_id db) d (actor_id actor)
     in Inr (v, prompt_audit actor ''prompt_version_created'' None
          (db\<lparr>pd_versions := pd_versions db @ [v]\<rparr>)))))))"

definition list_versions :: "uuid \<Rightarrow> int \<Rightarrow> int \<Rightarrow> platform_db \<Rightarrow> (exn, version_row list) res" where
  "list_versions template_id limit offset db =
     and_then (required_template template_id db) (\<lambda>_.
     Inr (order_page (\<lambda>v. - pv_version v) (min limit 100) (max offset 0)
       (filter (\<lambda>v. pv_template_id v = template_id) (pd_versions db))))"

definition get_active_version :: "uuid \<Rightarrow> platform_db \<Rightarrow> version_row option" where
  "get_active_version template_id db =
     find (\<lambda>v. pv_template_id v = template_id \<and> pv_status v = PV_ACTIVE) (pd_versions db)"

subsection \<open>Transitions\<close>

text \<open>A column is written when its value is not the one that was read.\<close>

definition column :: "'a \<Rightarrow> 'a \<Rightarrow> 'a \<Rightarrow> 'a" where
  "column seen new cur = (if new = seen then cur else new)"

definition changed_version :: "version_row \<Rightarrow> version_row \<Rightarrow> version_row \<Rightarrow> version_row" where
  "changed_version seen new cur =
     cur\<lparr>pv_status := column (pv_status seen) (pv_status new) (pv_status cur),
         pv_approved_by := column (pv_approved_by seen) (pv_approved_by new) (pv_approved_by cur),
         pv_approved_at := column (pv_approved_at seen) (pv_approved_at new) (pv_approved_at cur),
         pv_activated_at := column (pv_activated_at seen) (pv_activated_at new) (pv_activated_at cur),
         pv_retired_at := column (pv_retired_at seen) (pv_retired_at new) (pv_retired_at cur)\<rparr>"

definition write_version :: "version_row \<Rightarrow> version_row \<Rightarrow> platform_db \<Rightarrow> platform_db" where
  "write_version seen new db =
     (case get_version db (pv_id seen) of
        None \<Rightarrow> db | Some cur \<Rightarrow> put_version (changed_version seen new cur) db)"

fun prompt_version_status_value :: "prompt_version_status \<Rightarrow> string" where
  "prompt_version_status_value PV_DRAFT = ''DRAFT''"
| "prompt_version_status_value PV_TESTING = ''TESTING''"
| "prompt_version_status_value PV_APPROVED = ''APPROVED''"
| "prompt_version_status_value PV_ACTIVE = ''ACTIVE''"
| "prompt_version_status_value PV_RETIRED = ''RETIRED''"

fun allowed_from :: "prompt_version_status \<Rightarrow> prompt_version_status list" where
  "allowed_from PV_TESTING = [PV_DRAFT]"
| "allowed_from PV_APPROVED = [PV_TESTING]"
| "allowed_from PV_RETIRED = [PV_ACTIVE]"
| "allowed_from _ = []"

definition moved_version ::
  "time \<Rightarrow> prompt_version_status \<Rightarrow> authenticated_actor \<Rightarrow> version_row \<Rightarrow> version_row" where
  "moved_version now target actor v =
     (let v1 = (if target = PV_APPROVED
                then v\<lparr>pv_approved_by := Some (actor_id actor), pv_approved_at := Some now\<rparr> else v);
          v2 = (if target = PV_RETIRED then v1\<lparr>pv_retired_at := Some now\<rparr> else v1)
      in v2\<lparr>pv_status := target\<rparr>)"

definition transition_seen ::
  "time \<Rightarrow> version_row \<Rightarrow> prompt_version_status \<Rightarrow> prompt_version_status \<Rightarrow> authenticated_actor \<Rightarrow> platform_db \<Rightarrow>
   (exn, version_row \<times> platform_db) res" where
  "transition_seen now seen target expected_status actor db =
     and_then (required_template (pv_template_id seen) db) (\<lambda>_.
     and_then (require (pv_status seen = expected_status)
       (conflict ''Prompt version changed; refresh and retry'')) (\<lambda>_.
     and_then (require (pv_status seen \<in> set (allowed_from target))
       (conflict (''Cannot transition prompt from '' @ prompt_version_status_value (pv_status seen) @ '' to '' @
          prompt_version_status_value target))) (\<lambda>_.
     and_then (require (target = PV_APPROVED \<longrightarrow> actor_role actor \<noteq> UR_SYSTEM)
       (conflict ''SYSTEM cannot approve prompt versions'')) (\<lambda>_.
     let new = moved_version now target actor seen
     in Inr (new, prompt_audit actor (''prompt_version_'' @ lower (prompt_version_status_value target)) (Some (pv_id seen))
          (write_version seen new db))))))"

definition transition_version ::
  "time \<Rightarrow> uuid \<Rightarrow> prompt_version_status \<Rightarrow> prompt_version_status \<Rightarrow> authenticated_actor \<Rightarrow> platform_db \<Rightarrow>
   (exn, version_row \<times> platform_db) res" where
  "transition_version now k target expected_status actor db =
     and_then (require_manager actor) (\<lambda>_.
     and_then (required_version k db) (\<lambda>seen.
     transition_seen now seen target expected_status actor db))"

subsection \<open>Activation\<close>

definition retire_previous :: "time \<Rightarrow> version_row \<Rightarrow> platform_db \<Rightarrow> platform_db" where
  "retire_previous now seen db =
     (case get_active_version (pv_template_id seen) db of
        None \<Rightarrow> db
      | Some p \<Rightarrow> if pv_id p = pv_id seen then db
          else put_version (p\<lparr>pv_status := PV_RETIRED, pv_retired_at := Some now\<rparr>) db)"

definition activated_version :: "time \<Rightarrow> version_row \<Rightarrow> version_row" where
  "activated_version now v = v\<lparr>pv_status := PV_ACTIVE, pv_activated_at := Some now, pv_retired_at := None\<rparr>"

definition activation_event :: "version_row \<Rightarrow> event_request" where
  "activation_event v = plain_event OE_PROMPT_VERSION_ACTIVATED ''prompt_version'' (pv_id v)
     (JObj [(''prompt_template_id'', JStr (uuid_str (pv_template_id v))),
            (''prompt_version_id'', JStr (uuid_str (pv_id v))), (''version'', JInt (pv_version v))]) None"

definition activate_seen ::
  "services \<Rightarrow> call_env \<Rightarrow> version_row \<Rightarrow> prompt_version_status \<Rightarrow> int \<Rightarrow> authenticated_actor \<Rightarrow> platform_db \<Rightarrow>
   (exn, version_row \<times> platform_db) res" where
  "activate_seen sv env seen expected_status expected_template_version actor db =
     and_then (required_template (pv_template_id seen) db) (\<lambda>t.
     and_then (require (pt_version t = expected_template_version)
       (conflict ''Prompt template changed; refresh and retry'')) (\<lambda>_.
     and_then (require (pv_status seen = expected_status \<and> pv_status seen \<in> {PV_APPROVED, PV_RETIRED})
       (conflict ''Only approved or retired prompt versions can activate'')) (\<lambda>_.
     let now = env_now env;
         new = activated_version now seen;
         db1 = write_version seen new (retire_previous now seen db);
         db2 = put_template (t\<lparr>pt_version := pt_version t + 1\<rparr>) db1
     in and_then (platform_event sv env (activation_event seen) db2) (\<lambda>db3.
        Inr (new, prompt_audit actor ''prompt_version_activated'' (Some (pv_id seen)) db3)))))"

definition activate ::
  "services \<Rightarrow> call_env \<Rightarrow> uuid \<Rightarrow> prompt_version_status \<Rightarrow> int \<Rightarrow> authenticated_actor \<Rightarrow> platform_db \<Rightarrow>
   (exn, version_row \<times> platform_db) res" where
  "activate sv env k expected_status expected_template_version actor db =
     and_then (require_manager actor) (\<lambda>_.
     and_then (required_version k db) (\<lambda>seen.
     activate_seen sv env seen expected_status expected_template_version actor db))"

definition rollback ::
  "services \<Rightarrow> call_env \<Rightarrow> uuid \<Rightarrow> uuid \<Rightarrow> int \<Rightarrow> authenticated_actor \<Rightarrow> platform_db \<Rightarrow>
   (exn, version_row \<times> platform_db) res" where
  "rollback sv env template_id k expected_template_version actor db =
     and_then (required_version k db) (\<lambda>v.
     and_then (require (pv_template_id v = template_id)
       (validation_error ''Prompt version does not belong to the template'')) (\<lambda>_.
     activate sv env k (pv_status v) expected_template_version actor db))"

subsection \<open>Resolution\<close>

record rendered_prompt =
  rp_template_id :: uuid
  rp_version_id :: uuid
  rp_version_number :: int
  rp_content_hash :: string
  rp_system_prompt :: string
  rp_user_prompt :: string
  rp_output_schema :: json
  rp_model_requirements :: json

definition is_control_key :: "string \<Rightarrow> bool" where
  "is_control_key k \<longleftrightarrow> take 2 k = ''__''"

definition allowed_variables :: "version_row \<Rightarrow> string list" where
  "allowed_variables v = filter (\<lambda>k. \<not> is_control_key k) (map fst (pv_variables v))"

definition allows_unknown :: "version_row \<Rightarrow> bool" where
  "allows_unknown v = (case map_of (pv_variables v) ''__allow_unknown__'' of None \<Rightarrow> False | Some x \<Rightarrow> truthy x)"

definition render_version :: "formatting \<Rightarrow> (string \<times> string) list \<Rightarrow> version_row \<Rightarrow> (exn, string) res" where
  "render_version fm values v =
     render fm (pv_user_prompt_template v) values (allowed_variables v) (allows_unknown v)"

definition resolve ::
  "formatting \<Rightarrow> (string \<times> string) list \<Rightarrow> string option \<Rightarrow> string option \<Rightarrow> platform_db \<Rightarrow>
   (exn, rendered_prompt) res" where
  "resolve fm values agent task db =
     and_then (required (find_template agent task db) (not_found ''Managed prompt template not found'')) (\<lambda>t.
     and_then (required (get_active_version (pt_id t) db)
       (not_found ''Active managed prompt version not found'')) (\<lambda>v.
     and_then (render_version fm values v) (\<lambda>user_prompt.
     Inr \<lparr>rp_template_id = pt_id t, rp_version_id = pv_id v, rp_version_number = pv_version v,
          rp_content_hash = pv_content_hash v, rp_system_prompt = pv_system_prompt v,
          rp_user_prompt = user_prompt, rp_output_schema = pt_output_schema t,
          rp_model_requirements = pv_model_requirements v\<rparr>)))"

subsection \<open>Experiments\<close>

definition enabled_cases :: "uuid \<Rightarrow> platform_db \<Rightarrow> case_row list" where
  "enabled_cases dataset_id db =
     sort_key (\<lambda>c. (ec_order c, ec_id c))
       (filter (\<lambda>c. ec_dataset_id c = dataset_id \<and> ec_enabled c) (pd_cases db))"

definition is_zero :: "json \<Rightarrow> bool" where
  "is_zero v = (case v of JInt n \<Rightarrow> n = 0 | JFloat x \<Rightarrow> x = 0 | JBool b \<Rightarrow> \<not> b | _ \<Rightarrow> False)"

definition validate_execution_settings :: "(string \<times> json) list \<Rightarrow> (exn, unit) res" where
  "validate_execution_settings settings =
     and_then (require (fst ` set settings \<subseteq> {''temperature'', ''seed'', ''max_tokens''})
       (validation_error ''Unsupported experiment execution setting'')) (\<lambda>_.
     require (case map_of settings ''temperature'' of None \<Rightarrow> True | Some v \<Rightarrow> is_zero v)
       (validation_error ''Prompt experiments require temperature 0''))"

definition model_configuration_hash :: "hashing \<Rightarrow> string \<Rightarrow> string \<Rightarrow> json \<Rightarrow> string" where
  "model_configuration_hash h provider model settings =
     sha256_hex h (json_dumps h (JObj [(''provider'', JStr provider), (''model'', JStr model), (''settings'', settings)]))"

definition new_experiment :: "hashing \<Rightarrow> call_env \<Rightarrow> experiment_create \<Rightarrow> string \<Rightarrow> experiment_row" where
  "new_experiment h env d by_actor =
     \<lparr>pe_id = env_row_id env, pe_template_id = xq_template_id d, pe_control_id = xq_control_id d,
      pe_candidate_id = xq_candidate_id d, pe_dataset_id = xq_dataset_id d, pe_status = PE_DRAFT,
      pe_sample_size = xq_sample_size d, pe_provider = xq_provider d, pe_model = xq_model d,
      pe_settings = object_entries (sanitize_json 2000 (JObj (xq_settings d))),
      pe_configuration_hash = Some (model_configuration_hash h (provider_name_value (xq_provider d))
        (xq_model d) (JObj (xq_settings d))),
      pe_job_id = None, pe_created_by = by_actor, pe_started_at = None, pe_completed_at = None,
      pe_error_code = None, pe_error_message = None, pe_created_at = env_now env\<rparr>"

definition create_experiment ::
  "hashing \<Rightarrow> call_env \<Rightarrow> experiment_create \<Rightarrow> authenticated_actor \<Rightarrow> platform_db \<Rightarrow>
   (exn, experiment_row \<times> platform_db) res" where
  "create_experiment h env d actor db =
     and_then (require_manager actor) (\<lambda>_.
     and_then (required_version (xq_control_id d) db) (\<lambda>control.
     and_then (required_version (xq_candidate_id d) db) (\<lambda>candidate.
     and_then (require (xq_control_id d \<noteq> xq_candidate_id d)
       (validation_error ''Control and candidate versions must differ'')) (\<lambda>_.
     and_then (require (pv_template_id control = xq_template_id d \<and> pv_template_id candidate = xq_template_id d)
       (validation_error ''Experiment versions must belong to one template'')) (\<lambda>_.
     and_then (required (t_get ds_id (pd_datasets db) (xq_dataset_id d)) (not_found ''Evaluation dataset not found'')) (\<lambda>_.
     and_then (require (xq_sample_size d \<le> int (length (enabled_cases (xq_dataset_id d) db)))
       (validation_error ''Sample size exceeds enabled evaluation cases'')) (\<lambda>_.
     and_then (validate_execution_settings (xq_settings d)) (\<lambda>_.
     let e = new_experiment h env d (actor_id actor)
     in Inr (e, prompt_audit actor ''prompt_experiment_created'' (Some (pe_id e))
          (db\<lparr>pd_experiments := pd_experiments db @ [e]\<rparr>))))))))))"

definition list_experiments :: "int \<Rightarrow> int \<Rightarrow> platform_db \<Rightarrow> experiment_row list" where
  "list_experiments limit offset db =
     order_page (\<lambda>e. - pe_created_at e) (min limit 100) (max offset 0) (pd_experiments db)"

definition experiment_key :: "uuid \<Rightarrow> string" where
  "experiment_key k = ''prompt-experiment:'' @ uuid_str k"

definition run_experiment ::
  "coercions \<Rightarrow> hashing \<Rightarrow> job_settings \<Rightarrow> call_env \<Rightarrow> uuid \<Rightarrow> authenticated_actor \<Rightarrow> platform_db \<Rightarrow>
   (exn, experiment_row \<times> platform_db) res" where
  "run_experiment co h st env k actor db =
     and_then (require_manager actor) (\<lambda>_.
     and_then (required_experiment k db) (\<lambda>e.
     and_then (require (pe_status e = PE_DRAFT) (conflict ''Only draft experiments can run'')) (\<lambda>_.
     and_then (enqueue_keyed co h st env (plain_job JT_PROMPT_EXPERIMENT_RUN
         (PromptExperimentRunJobPayload k) (actor_id actor) (experiment_key k)) db) (\<lambda>(j, db1).
     let e' = e\<lparr>pe_status := PE_RUNNING, pe_started_at := Some (env_now env), pe_job_id := Some (job_id j)\<rparr>
     in Inr (e', prompt_audit actor ''prompt_experiment_started'' (Some k) (put_experiment e' db1))))))"

definition cancel_experiment ::
  "time \<Rightarrow> uuid \<Rightarrow> authenticated_actor \<Rightarrow> platform_db \<Rightarrow> (exn, experiment_row \<times> platform_db) res" where
  "cancel_experiment now k actor db =
     and_then (require_manager actor) (\<lambda>_.
     and_then (required_experiment k db) (\<lambda>e.
     and_then (require (pe_status e \<in> {PE_DRAFT, PE_RUNNING}) (conflict ''Experiment cannot be cancelled'')) (\<lambda>_.
     let e' = e\<lparr>pe_status := PE_CANCELLED, pe_completed_at := Some now\<rparr>
     in and_then (case pe_job_id e of None \<Rightarrow> Inr db
          | Some j \<Rightarrow> and_then (in_queue (repo_cancel now j) db) (\<lambda>(_, db1). Inr db1)) (\<lambda>db1.
        Inr (e', prompt_audit actor ''prompt_experiment_cancelled'' (Some k) (put_experiment e' db1))))))"

definition case_results :: "uuid \<Rightarrow> platform_db \<Rightarrow> case_result_row list" where
  "case_results k db =
     sort_key (\<lambda>c. (cs_case_id c, cs_variant c)) (filter (\<lambda>c. cs_owner_id c = k) (pd_experiment_cases db))"

definition experiment_cases :: "uuid \<Rightarrow> platform_db \<Rightarrow> (exn, case_result_row list) res" where
  "experiment_cases k db = and_then (required_experiment k db) (\<lambda>_. Inr (case_results k db))"

definition get_experiment_result :: "uuid \<Rightarrow> platform_db \<Rightarrow> experiment_result_row option" where
  "get_experiment_result k db = find (\<lambda>r. xr_experiment_id r = k) (pd_experiment_results db)"

end
