(* ===== verification/Prompt_Steps.thy ===== *)
theory Prompt_Steps
  imports Prompt_Service
begin

text \<open>
  The histories of the managed prompts. A state has the tables, the versions some transaction
  has read and may still act on (readings are not locked, so they may be out of date), and the
  approvals given so far. The invariant: one active version per template, approvals by managers
  behind every version that is or was active, and contents that never change.
\<close>

record prompt_state =
  ps_db :: platform_db
  ps_seen :: "version_row list"
  ps_approvals :: "(uuid \<times> authenticated_actor) list"

inductive prompt_step :: "prompt_state \<Rightarrow> prompt_state \<Rightarrow> bool" where
  PS_template: "create_template env d actor (ps_db s) = Inr (t, db') \<Longrightarrow>
     env_row_id env \<notin> pt_id ` set (pd_templates (ps_db s)) \<Longrightarrow> prompt_step s (s\<lparr>ps_db := db'\<rparr>)"
| PS_version: "create_version h env k d actor (ps_db s) = Inr (v, db') \<Longrightarrow>
     env_row_id env \<notin> pv_id ` set (pd_versions (ps_db s)) \<Longrightarrow> prompt_step s (s\<lparr>ps_db := db'\<rparr>)"
| PS_read: "required_version k (ps_db s) = Inr v \<Longrightarrow> prompt_step s (s\<lparr>ps_seen := v # ps_seen s\<rparr>)"
| PS_transition: "seen \<in> set (ps_seen s) \<Longrightarrow> require_manager actor = Inr () \<Longrightarrow>
     transition_seen now seen target expected actor (ps_db s) = Inr (v, db') \<Longrightarrow>
     prompt_step s (s\<lparr>ps_db := db',
       ps_approvals := (if target = PV_APPROVED then (pv_id seen, actor) # ps_approvals s else ps_approvals s)\<rparr>)"
| PS_activate: "seen \<in> set (ps_seen s) \<Longrightarrow> require_manager actor = Inr () \<Longrightarrow>
     activate_seen sv env seen expected n actor (ps_db s) = Inr (v, db') \<Longrightarrow> prompt_step s (s\<lparr>ps_db := db'\<rparr>)"
| PS_elsewhere: "pd_templates db' = pd_templates (ps_db s) \<Longrightarrow> pd_versions db' = pd_versions (ps_db s) \<Longrightarrow>
     prompt_step s (s\<lparr>ps_db := db'\<rparr>)"

inductive prompt_history :: "prompt_state \<Rightarrow> bool" where
  PH_empty: "pd_templates db = [] \<Longrightarrow> pd_versions db = [] \<Longrightarrow>
     prompt_history \<lparr>ps_db = db, ps_seen = [], ps_approvals = []\<rparr>"
| PH_step: "prompt_history s \<Longrightarrow> prompt_step s s' \<Longrightarrow> prompt_history s'"

subsection \<open>The invariant\<close>

definition same_content :: "version_row \<Rightarrow> version_row \<Rightarrow> bool" where
  "same_content u v \<longleftrightarrow>
     pv_id u = pv_id v \<and> pv_template_id u = pv_template_id v \<and> pv_version u = pv_version v \<and>
     pv_system_prompt u = pv_system_prompt v \<and> pv_user_prompt_template u = pv_user_prompt_template v \<and>
     pv_variables u = pv_variables v \<and> pv_model_requirements u = pv_model_requirements v \<and>
     pv_content_hash u = pv_content_hash v"

definition approved_statuses :: "prompt_version_status list" where
  "approved_statuses = [PV_APPROVED, PV_ACTIVE, PV_RETIRED]"

definition version_ok :: "version_row \<Rightarrow> bool" where
  "version_ok v \<longleftrightarrow> (pv_status v \<in> set approved_statuses \<longrightarrow> pv_approved_by v \<noteq> None)"

definition approval_recorded :: "(uuid \<times> authenticated_actor) list \<Rightarrow> version_row \<Rightarrow> bool" where
  "approval_recorded gs v \<longleftrightarrow> (\<forall>x. pv_approved_by v = Some x \<longrightarrow>
     (\<exists>a. (pv_id v, a) \<in> set gs \<and> actor_id a = x \<and> actor_role a \<in> {UR_MANAGER, UR_ADMIN}))"

definition active_version :: "version_row \<Rightarrow> bool" where
  "active_version v \<longleftrightarrow> pv_status v = PV_ACTIVE"

definition one_active_version :: "version_row list \<Rightarrow> bool" where
  "one_active_version vs \<longleftrightarrow>
     (\<forall>u \<in> set vs. \<forall>v \<in> set vs. active_version u \<and> active_version v \<and>
        pv_template_id u = pv_template_id v \<longrightarrow> pv_id u = pv_id v)"

definition versions_inv :: "version_row list \<Rightarrow> (uuid \<times> authenticated_actor) list \<Rightarrow> bool" where
  "versions_inv vs gs \<longleftrightarrow> distinct (map pv_id vs) \<and> one_active_version vs \<and>
     (\<forall>v \<in> set vs. version_ok v \<and> approval_recorded gs v)"

text \<open>What an old reading still says of the current row.\<close>

definition reading_ok :: "version_row list \<Rightarrow> version_row \<Rightarrow> bool" where
  "reading_ok vs u \<longleftrightarrow> version_ok u \<and>
     (\<exists>cur. t_get pv_id vs (pv_id u) = Some cur \<and> same_content u cur \<and>
        (pv_approved_by u \<noteq> None \<longrightarrow> pv_approved_by cur \<noteq> None))"

definition prompt_inv :: "prompt_state \<Rightarrow> bool" where
  "prompt_inv s \<longleftrightarrow>
     versions_inv (pd_versions (ps_db s)) (ps_approvals s) \<and>
     (\<forall>u \<in> set (ps_seen s). reading_ok (pd_versions (ps_db s)) u)"

lemma same_content_refl: "same_content v v"
  by (simp add: same_content_def)

lemma same_content_trans: "same_content u v \<Longrightarrow> same_content v w \<Longrightarrow> same_content u w"
  by (simp add: same_content_def)

lemma changed_version_keeps: "same_content cur (changed_version seen new cur)"
  by (simp add: same_content_def changed_version_def)

lemma changed_version_id [simp]: "pv_id (changed_version seen new cur) = pv_id cur"
  by (simp add: changed_version_def)

lemma approval_recorded_more: "approval_recorded gs v \<Longrightarrow> set gs \<subseteq> set gs' \<Longrightarrow> approval_recorded gs' v"
  unfolding approval_recorded_def by blast

text \<open>A row is replaced by one with the same content that keeps an approval.\<close>

lemma reading_ok_put:
  assumes "reading_ok vs u" and "t_get pv_id vs (pv_id w) = Some cur" and "same_content cur w"
    and "pv_approved_by cur \<noteq> None \<longrightarrow> pv_approved_by w \<noteq> None"
  shows "reading_ok (t_put pv_id vs w) u"
proof (cases "pv_id u = pv_id w")
  case True
  with assms obtain "version_ok u" "same_content u cur" "pv_approved_by u \<noteq> None \<longrightarrow> pv_approved_by cur \<noteq> None"
    by (auto simp: reading_ok_def)
  moreover have "t_get pv_id (t_put pv_id vs w) (pv_id u) = Some w"
    using assms(2) True by (simp add: version_table.get_put_same)
  ultimately show ?thesis
    using assms(3,4) same_content_trans unfolding reading_ok_def by blast
next
  case False
  then have "t_get pv_id (t_put pv_id vs w) (pv_id u) = t_get pv_id vs (pv_id u)"
    by (metis version_table.get_put_other)
  with assms(1) show ?thesis by (simp add: reading_ok_def)
qed

lemma reading_ok_append: "reading_ok vs u \<Longrightarrow> reading_ok (vs @ [w]) u"
  by (auto simp: reading_ok_def t_get_append)

lemma get_version_row:
  assumes "t_get pv_id vs k = Some cur"
  shows "cur \<in> set vs" and "pv_id cur = k"
  using t_get_SomeD [OF assms] by auto

lemma versions_inv_put:
  assumes inv: "versions_inv vs gs" and cur: "t_get pv_id vs (pv_id w) = Some cur"
    and w: "version_ok w" "approval_recorded gs w"
    and only: "\<And>x. active_version w \<Longrightarrow> x \<in> set vs \<Longrightarrow> active_version x \<Longrightarrow>
      pv_template_id x = pv_template_id w \<Longrightarrow> pv_id x = pv_id w"
  shows "versions_inv (t_put pv_id vs w) gs"
proof -
  have d: "distinct (map pv_id vs)" and one: "one_active_version vs"
    and rows: "\<forall>v \<in> set vs. version_ok v \<and> approval_recorded gs v"
    using inv by (auto simp: versions_inv_def)
  have set_put: "x \<in> set (t_put pv_id vs w) \<longleftrightarrow> x = w \<or> (x \<in> set vs \<and> pv_id x \<noteq> pv_id w)" for x
    using set_t_put_iff [OF d, of cur w x] get_version_row [OF cur] by simp
  have "one_active_version (t_put pv_id vs w)"
    unfolding one_active_version_def
  proof (intro ballI impI)
    fix x y
    assume "x \<in> set (t_put pv_id vs w)" "y \<in> set (t_put pv_id vs w)"
      and "active_version x \<and> active_version y \<and> pv_template_id x = pv_template_id y"
    then show "pv_id x = pv_id y"
      using one only [of x] only [of y] unfolding set_put one_active_version_def by metis
  qed
  moreover have "\<forall>v \<in> set (t_put pv_id vs w). version_ok v \<and> approval_recorded gs v"
    using rows w unfolding Ball_def set_put by blast
  ultimately show ?thesis using d by (simp add: versions_inv_def)
qed

lemma versions_inv_more: "versions_inv vs gs \<Longrightarrow> set gs \<subseteq> set gs' \<Longrightarrow> versions_inv vs gs'"
  unfolding versions_inv_def using approval_recorded_more by blast

text \<open>A row with the content of its reading and a version to write.\<close>

definition write_ok :: "(uuid \<times> authenticated_actor) list \<Rightarrow> version_row \<Rightarrow> version_row \<Rightarrow> bool" where
  "write_ok gs seen new \<longleftrightarrow>
     pv_id new = pv_id seen \<and> pv_status new \<noteq> pv_status seen \<and>
     (pv_status new \<in> set approved_statuses \<longrightarrow> pv_approved_by new \<noteq> None) \<and>
     (pv_approved_by new = pv_approved_by seen \<or>
       (\<exists>a. pv_approved_by new = Some (actor_id a) \<and> (pv_id seen, a) \<in> set gs \<and> actor_role a \<in> {UR_MANAGER, UR_ADMIN}))"

lemma changed_version_ok:
  assumes w: "write_ok gs seen new" and r: "reading_ok vs seen"
    and cur: "t_get pv_id vs (pv_id seen) = Some cur" and a: "approval_recorded gs cur"
  defines "row \<equiv> changed_version seen new cur"
  shows "version_ok row" and "approval_recorded gs row" and "pv_status row = pv_status new"
    and "pv_approved_by cur \<noteq> None \<longrightarrow> pv_approved_by row \<noteq> None" and "pv_id row = pv_id seen"
proof -
  have id: "pv_id cur = pv_id seen" using get_version_row [OF cur] by simp
  have kept: "pv_approved_by seen \<noteq> None \<longrightarrow> pv_approved_by cur \<noteq> None"
    using r cur by (auto simp: reading_ok_def)
  show st: "pv_status row = pv_status new"
    using w by (simp add: row_def changed_version_def column_def write_ok_def)
  have ab: "pv_approved_by row = column (pv_approved_by seen) (pv_approved_by new) (pv_approved_by cur)"
    by (simp add: row_def changed_version_def)
  show "version_ok row"
    using w kept by (auto simp: version_ok_def st ab write_ok_def column_def)
  show "pv_approved_by cur \<noteq> None \<longrightarrow> pv_approved_by row \<noteq> None"
    using w by (auto simp: ab column_def write_ok_def)
  show i: "pv_id row = pv_id seen" by (simp add: row_def id)
  show "approval_recorded gs row"
    unfolding approval_recorded_def
  proof (intro allI impI)
    fix x
    assume "pv_approved_by row = Some x"
    then consider "pv_approved_by cur = Some x" | "pv_approved_by new \<noteq> pv_approved_by seen" "pv_approved_by new = Some x"
      unfolding ab column_def by (auto split: if_splits)
    then show "\<exists>a. (pv_id row, a) \<in> set gs \<and> actor_id a = x \<and> actor_role a \<in> {UR_MANAGER, UR_ADMIN}"
    proof cases
      case 1
      with a id i show ?thesis by (auto simp: approval_recorded_def)
    next
      case 2
      with w i show ?thesis unfolding write_ok_def by (metis option.inject)
    qed
  qed
qed

lemma write_version_inv:
  assumes inv: "versions_inv (pd_versions db) gs" and r: "reading_ok (pd_versions db) seen"
    and w: "write_ok gs seen new"
    and only: "\<And>x. pv_status new = PV_ACTIVE \<Longrightarrow> x \<in> set (pd_versions db) \<Longrightarrow> active_version x \<Longrightarrow>
      pv_template_id x = pv_template_id seen \<Longrightarrow> pv_id x = pv_id seen"
  shows "versions_inv (pd_versions (write_version seen new db)) gs"
    and "reading_ok (pd_versions db) u \<Longrightarrow> reading_ok (pd_versions (write_version seen new db)) u"
proof -
  obtain cur where cur: "get_version db (pv_id seen) = Some cur" and c: "same_content seen cur"
    using r by (auto simp: reading_ok_def)
  have a: "approval_recorded gs cur"
    using inv get_version_row [OF cur] by (auto simp: versions_inv_def)
  let ?row = "changed_version seen new cur"
  note ok = changed_version_ok [OF w r cur a]
  have vs: "pd_versions (write_version seen new db) = t_put pv_id (pd_versions db) ?row"
    using cur by (simp add: write_version_def put_version_def)
  have get: "t_get pv_id (pd_versions db) (pv_id ?row) = Some cur" using cur ok(5) by simp
  have tpl: "pv_template_id ?row = pv_template_id seen"
    using c by (simp add: changed_version_def same_content_def)
  show "versions_inv (pd_versions (write_version seen new db)) gs"
    unfolding vs
  proof (rule versions_inv_put [OF inv get ok(1,2)])
    fix x
    assume "active_version ?row" "x \<in> set (pd_versions db)" "active_version x" "pv_template_id x = pv_template_id ?row"
    then show "pv_id x = pv_id ?row" using only ok(3,5) tpl by (simp add: active_version_def)
  qed
  show "reading_ok (pd_versions (write_version seen new db)) u" if "reading_ok (pd_versions db) u"
    unfolding vs by (rule reading_ok_put [OF that get changed_version_keeps ok(4)])
qed

subsection \<open>Every step keeps it\<close>

lemma prompt_audit_rows [simp]:
  "pd_versions (prompt_audit actor m k db) = pd_versions db"
  "pd_templates (prompt_audit actor m k db) = pd_templates db"
  by (simp_all add: prompt_audit_def)

lemma put_template_versions [simp]: "pd_versions (put_template t db) = pd_versions db"
  by (simp add: put_template_def)

lemma platform_event_rows:
  "platform_event sv env r db = Inr db' \<Longrightarrow>
   pd_versions db' = pd_versions db \<and> pd_templates db' = pd_templates db"
  by (auto simp: platform_event_def result_simps)

lemma get_active_versionD:
  assumes "get_active_version k db = Some p"
  shows "p \<in> set (pd_versions db)" and "active_version p" and "pv_template_id p = k"
  using assms by (auto simp: get_active_version_def active_version_def find_Some_iff)

lemma no_active_version: "get_active_version k db = None \<Longrightarrow> x \<in> set (pd_versions db) \<Longrightarrow>
   active_version x \<Longrightarrow> pv_template_id x \<noteq> k"
  by (auto simp: get_active_version_def active_version_def find_None_iff)

lemma retire_previous_inv:
  assumes inv: "versions_inv (pd_versions db) gs"
  shows "versions_inv (pd_versions (retire_previous now seen db)) gs"
    and "reading_ok (pd_versions db) u \<Longrightarrow> reading_ok (pd_versions (retire_previous now seen db)) u"
    and "x \<in> set (pd_versions (retire_previous now seen db)) \<Longrightarrow> active_version x \<Longrightarrow>
      pv_template_id x = pv_template_id seen \<Longrightarrow> pv_id x = pv_id seen"
proof -
  have d: "distinct (map pv_id (pd_versions db))" and one: "one_active_version (pd_versions db)"
    and rows: "\<forall>v \<in> set (pd_versions db). version_ok v \<and> approval_recorded gs v"
    using inv by (auto simp: versions_inv_def)
  consider (none) "get_active_version (pv_template_id seen) db = None"
    | (same) p where "get_active_version (pv_template_id seen) db = Some p" "pv_id p = pv_id seen"
    | (other) p where "get_active_version (pv_template_id seen) db = Some p" "pv_id p \<noteq> pv_id seen"
    by fastforce
  then have "versions_inv (pd_versions (retire_previous now seen db)) gs \<and>
      (reading_ok (pd_versions db) u \<longrightarrow> reading_ok (pd_versions (retire_previous now seen db)) u) \<and>
      (x \<in> set (pd_versions (retire_previous now seen db)) \<and> active_version x \<and>
        pv_template_id x = pv_template_id seen \<longrightarrow> pv_id x = pv_id seen)"
  proof cases
    case none
    then have "retire_previous now seen db = db" by (simp add: retire_previous_def)
    with inv no_active_version [OF none] show ?thesis by metis
  next
    case (same p)
    then have r: "retire_previous now seen db = db" by (simp add: retire_previous_def)
    from one same(2) get_active_versionD [OF same(1)]
    have "x \<in> set (pd_versions db) \<and> active_version x \<and> pv_template_id x = pv_template_id seen \<longrightarrow> pv_id x = pv_id seen"
      unfolding one_active_version_def by metis
    with inv show ?thesis unfolding r by blast
  next
    case (other p)
    note p = get_active_versionD [OF other(1)]
    let ?w = "p\<lparr>pv_status := PV_RETIRED, pv_retired_at := Some now\<rparr>"
    have vs: "pd_versions (retire_previous now seen db) = t_put pv_id (pd_versions db) ?w"
      using other by (simp add: retire_previous_def put_version_def)
    have cur: "t_get pv_id (pd_versions db) (pv_id ?w) = Some p"
      using t_get_in_set [OF d p(1)] by simp
    have w: "version_ok ?w" "approval_recorded gs ?w" "same_content p ?w" "\<not> active_version ?w"
      using rows p(1,2)
      by (auto simp: version_ok_def approval_recorded_def same_content_def active_version_def approved_statuses_def)
    have "pv_id x = pv_id seen" if "x \<in> set (t_put pv_id (pd_versions db) ?w)" "active_version x"
        "pv_template_id x = pv_template_id seen"
    proof -
      from that(1) w(4) that(2) set_t_put_iff [OF d p(1), of ?w x]
      have "x \<in> set (pd_versions db)" "pv_id x \<noteq> pv_id p" by auto
      with one p that(2,3) show ?thesis unfolding one_active_version_def by metis
    qed
    then show ?thesis
      unfolding vs using versions_inv_put [OF inv cur w(1,2)] reading_ok_put [OF _ cur w(3)] w(4) by simp
  qed
  then show "versions_inv (pd_versions (retire_previous now seen db)) gs"
    and "reading_ok (pd_versions db) u \<Longrightarrow> reading_ok (pd_versions (retire_previous now seen db)) u"
    and "x \<in> set (pd_versions (retire_previous now seen db)) \<Longrightarrow> active_version x \<Longrightarrow>
      pv_template_id x = pv_template_id seen \<Longrightarrow> pv_id x = pv_id seen"
    by blast+
qed

lemma moved_version_write:
  assumes "version_ok seen" and "pv_status seen \<in> set (allowed_from target)"
    and "actor_role actor \<in> {UR_MANAGER, UR_ADMIN}" and "target = PV_APPROVED \<longrightarrow> (pv_id seen, actor) \<in> set gs"
  shows "write_ok gs seen (moved_version now target actor seen)"
  using assms by (cases target) (auto simp: write_ok_def moved_version_def version_ok_def approved_statuses_def)

lemma activated_version_write:
  assumes "version_ok seen" and "pv_status seen \<in> {PV_APPROVED, PV_RETIRED}"
  shows "write_ok gs seen (activated_version now seen)"
  using assms by (auto simp: write_ok_def activated_version_def version_ok_def approved_statuses_def)

lemma create_template_versions:
  "create_template env d actor db = Inr (t, db') \<Longrightarrow> pd_versions db' = pd_versions db"
  by (auto simp: create_template_def Let_def result_simps)

lemma create_version_versions:
  assumes "create_version h env k d actor db = Inr (v, db')"
  shows "pd_versions db' = pd_versions db @ [v]" and "pv_id v = env_row_id env" and "pv_status v = PV_DRAFT"
    and "pv_approved_by v = None"
  using assms by (auto simp: create_version_def new_version_def Let_def result_simps)

lemma versions_inv_append:
  assumes inv: "versions_inv vs gs" and v: "pv_id v \<notin> pv_id ` set vs" "pv_status v = PV_DRAFT" "pv_approved_by v = None"
  shows "versions_inv (vs @ [v]) gs"
proof -
  have "\<not> active_version v" "version_ok v" "approval_recorded gs v"
    using v by (simp_all add: active_version_def version_ok_def approval_recorded_def approved_statuses_def)
  moreover have "one_active_version (vs @ [v])"
    using inv \<open>\<not> active_version v\<close> unfolding versions_inv_def one_active_version_def
    by (metis append_Nil2 append_is_Nil_conv set_ConsD rotate1.simps(2) set_rotate1)
  ultimately show ?thesis using inv v(1) unfolding versions_inv_def by auto
qed

lemma transition_seen_Inr:
  assumes "transition_seen now seen target expected actor db = Inr (v, db')"
  shows "pv_status seen \<in> set (allowed_from target)"
    and "pd_versions db' = pd_versions (write_version seen (moved_version now target actor seen) db)"
  using assms by (auto simp: transition_seen_def Let_def result_simps)

lemma activate_seen_Inr:
  assumes "activate_seen sv env seen expected n actor db = Inr (v, db')"
  shows "pv_status seen \<in> {PV_APPROVED, PV_RETIRED}"
    and "pd_versions db' = pd_versions (write_version seen (activated_version (env_now env) seen)
      (retire_previous (env_now env) seen db))"
proof -
  note e = assms [unfolded activate_seen_def Let_def and_then_Inr_iff require_iff sum.inject prod.inject]
  show "pv_status seen \<in> {PV_APPROVED, PV_RETIRED}" using e by (elim exE conjE) simp
  show "pd_versions db' = pd_versions (write_version seen (activated_version (env_now env) seen)
      (retire_previous (env_now env) seen db))"
    using e by (elim exE conjE) (drule platform_event_rows, clarsimp)
qed

lemma require_managerD: "require_manager actor = Inr () \<Longrightarrow> actor_role actor \<in> {UR_MANAGER, UR_ADMIN}"
  by (auto simp: require_manager_def result_simps)

lemma moved_status [simp]: "pv_status (moved_version now target actor seen) = target"
  by (simp add: moved_version_def)

lemma prompt_step_inv:
  assumes "prompt_step s s'" and "prompt_inv s"
  shows "prompt_inv s'"
  using assms
proof (cases rule: prompt_step.cases)
  case (PS_template env d actor t db')
  with create_template_versions assms(2) show ?thesis by (simp add: prompt_inv_def)
next
  case (PS_version h env k d actor v db')
  note v = create_version_versions [OF PS_version(2)]
  have "versions_inv (pd_versions (ps_db s) @ [v]) (ps_approvals s)"
    using assms(2) v PS_version(3) by (intro versions_inv_append) (auto simp: prompt_inv_def)
  with PS_version(1) v(1) assms(2) reading_ok_append show ?thesis by (simp add: prompt_inv_def)
next
  case (PS_read k v)
  then have v: "get_version (ps_db s) k = Some v" by (simp add: required_version_def result_simps)
  with assms(2) get_version_row [OF v] have "reading_ok (pd_versions (ps_db s)) v"
    unfolding prompt_inv_def versions_inv_def reading_ok_def using same_content_refl by metis
  with PS_read(1) assms(2) show ?thesis by (simp add: prompt_inv_def)
next
  case (PS_transition seen actor now target expected v db')
  let ?gs = "if target = PV_APPROVED then (pv_id seen, actor) # ps_approvals s else ps_approvals s"
  have old: "versions_inv (pd_versions (ps_db s)) (ps_approvals s)" and r: "reading_ok (pd_versions (ps_db s)) seen"
    using assms(2) PS_transition(2) by (auto simp: prompt_inv_def)
  have inv: "versions_inv (pd_versions (ps_db s)) ?gs" by (rule versions_inv_more [OF old]) auto
  note t = transition_seen_Inr [OF PS_transition(4)]
  have ok: "version_ok seen" using r by (simp add: reading_ok_def)
  have w: "write_ok ?gs seen (moved_version now target actor seen)"
    by (rule moved_version_write [OF ok t(1) require_managerD [OF PS_transition(3)]]) simp
  have "target \<noteq> PV_ACTIVE" using t(1) by auto
  then have only: "pv_status (moved_version now target actor seen) = PV_ACTIVE \<Longrightarrow> P" for P by simp
  note wv = write_version_inv [OF inv r w only]
  show ?thesis
    using PS_transition(1) t(2) wv(1) wv(2) assms(2) by (auto simp: prompt_inv_def)
next
  case (PS_activate seen actor sv env expected n v db')
  have inv: "versions_inv (pd_versions (ps_db s)) (ps_approvals s)" and r: "reading_ok (pd_versions (ps_db s)) seen"
    using assms(2) PS_activate(2) by (auto simp: prompt_inv_def)
  note a = activate_seen_Inr [OF PS_activate(4)]
  let ?db = "retire_previous (env_now env) seen (ps_db s)"
  have ok: "version_ok seen" using r by (simp add: reading_ok_def)
  note old = retire_previous_inv(1) [OF inv] retire_previous_inv(2) [OF inv r] activated_version_write [OF ok a(1)]
  have only: "pv_id x = pv_id seen" if "x \<in> set (pd_versions ?db)" "active_version x"
      "pv_template_id x = pv_template_id seen" for x
    by (rule retire_previous_inv(3) [OF inv that])
  have "versions_inv (pd_versions db') (ps_approvals s)"
    unfolding a(2) by (rule write_version_inv(1) [OF old]) (rule only)
  moreover have "reading_ok (pd_versions db') u" if "u \<in> set (ps_seen s)" for u
  proof -
    have u: "reading_ok (pd_versions (ps_db s)) u" using assms(2) that by (simp add: prompt_inv_def)
    show ?thesis
      unfolding a(2) by (rule write_version_inv(2) [OF old _ retire_previous_inv(2) [OF inv u]]) (rule only)
  qed
  ultimately show ?thesis using PS_activate(1) by (simp add: prompt_inv_def)
next
  case (PS_elsewhere db')
  then show ?thesis using assms(2) by (simp add: prompt_inv_def)
qed

theorem prompt_history_inv: "prompt_history s \<Longrightarrow> prompt_inv s"
proof (induction rule: prompt_history.induct)
  case (PH_empty db)
  then show ?case by (simp add: prompt_inv_def versions_inv_def one_active_version_def)
qed (rule prompt_step_inv)

end
