(* ===== verification/Prompt_Properties.thy ===== *)
theory Prompt_Properties
  imports Prompt_Steps Campaign_Example
begin

text \<open>
  What holds of managed prompts in every history of their operations, however the readings of
  concurrent requests interleave, and three ways in which they disappoint.
\<close>

subsection \<open>Approval\<close>

text \<open>C16. Only approved prompts reach a model. In every reachable state, with any interleaving of
  readings and transitions, a template has at most one active version; a prompt resolved for an
  agent or a task is an active version that a manager or an admin approved, with the contents it
  was created with; and no version that was ever read has changed its contents or disappeared.\<close>

theorem active_prompts_were_approved:
  assumes "prompt_history s"
  shows "one_active_version (pd_versions (ps_db s)) \<and>
    (resolve fm values agent task (ps_db s) = Inr p \<longrightarrow>
      (\<exists>v a. v \<in> set (pd_versions (ps_db s)) \<and> pv_id v = rp_version_id p \<and> active_version v \<and>
         pv_approved_by v = Some (actor_id a) \<and> (pv_id v, a) \<in> set (ps_approvals s) \<and>
         actor_role a \<in> {UR_MANAGER, UR_ADMIN} \<and>
         rp_system_prompt p = pv_system_prompt v \<and> render_version fm values v = Inr (rp_user_prompt p))) \<and>
    (\<forall>u \<in> set (ps_seen s). \<exists>v \<in> set (pd_versions (ps_db s)). same_content u v)"
proof -
  have inv: "prompt_inv s" using assms by (rule prompt_history_inv)
  then have one: "one_active_version (pd_versions (ps_db s))"
    and rows: "\<forall>v \<in> set (pd_versions (ps_db s)). version_ok v \<and> approval_recorded (ps_approvals s) v"
    and seen: "\<forall>u \<in> set (ps_seen s). reading_ok (pd_versions (ps_db s)) u"
    by (auto simp: prompt_inv_def versions_inv_def)
  have approved: "\<exists>a. pv_approved_by v = Some (actor_id a) \<and> (pv_id v, a) \<in> set (ps_approvals s) \<and>
      actor_role a \<in> {UR_MANAGER, UR_ADMIN}" if v: "v \<in> set (pd_versions (ps_db s))" "active_version v" for v
  proof -
    from rows v obtain x where "pv_approved_by v = Some x"
      by (auto simp: version_ok_def active_version_def approved_statuses_def)
    with rows v(1) show ?thesis unfolding approval_recorded_def by blast
  qed
  have "\<exists>v a. v \<in> set (pd_versions (ps_db s)) \<and> pv_id v = rp_version_id p \<and> active_version v \<and>
         pv_approved_by v = Some (actor_id a) \<and> (pv_id v, a) \<in> set (ps_approvals s) \<and>
         actor_role a \<in> {UR_MANAGER, UR_ADMIN} \<and>
         rp_system_prompt p = pv_system_prompt v \<and> render_version fm values v = Inr (rp_user_prompt p)"
    if r: "resolve fm values agent task (ps_db s) = Inr p"
  proof -
    from r obtain t where t: "find_template agent task (ps_db s) = Some t"
      by (auto simp: resolve_def result_simps)
    with r obtain v where v: "get_active_version (pt_id t) (ps_db s) = Some v"
      by (auto simp: resolve_def result_simps)
    with r t obtain u where u: "render_version fm values v = Inr u"
      by (auto simp: resolve_def result_simps)
    note p = r [unfolded resolve_def, simplified t v u required_simps and_then_simps sum.inject, symmetric]
    have "rp_version_id p = pv_id v" "rp_system_prompt p = pv_system_prompt v"
      "render_version fm values v = Inr (rp_user_prompt p)" using u by (simp_all add: p)
    with get_active_versionD(1,2) [OF v] approved show ?thesis by metis
  qed
  moreover have "\<exists>v \<in> set (pd_versions (ps_db s)). same_content u v" if "u \<in> set (ps_seen s)" for u
    using seen that get_version_row(1) unfolding reading_ok_def by blast
  ultimately show ?thesis using one by blast
qed

definition demo_manager :: authenticated_actor where
  "demo_manager = \<lparr>actor_id = ''ann'', actor_role = UR_MANAGER\<rparr>"

definition demo_template_create :: template_create where
  "demo_template_create = \<lparr>tq_name = ''Briefs'', tq_slug = ''briefs'', tq_agent_name = Some ''BRIEF_ANALYST'',
     tq_task_type = ''brief'', tq_description = ''d'', tq_input_schema = JObj [], tq_output_schema = JObj []\<rparr>"

definition demo_version_create :: version_create where
  "demo_version_create = \<lparr>vq_system_prompt = ''s'', vq_user_prompt_template = ''{b}'',
     vq_variables = [(''b'', JStr ''x'')], vq_change_summary = ''c'', vq_model_requirements = JObj []\<rparr>"

definition demo_template :: template_row where
  "demo_template = new_template ex_env demo_template_create (JObj []) (JObj []) ''ann''"

definition demo_version :: version_row where
  "demo_version = new_version ex_hashing ex_env 1 1 demo_version_create ''ann''"

definition demo_prompts1 :: platform_db where
  "demo_prompts1 = prompt_audit demo_manager ''prompt_template_created'' None
     (empty_platform\<lparr>pd_templates := [demo_template]\<rparr>)"

definition demo_prompts2 :: platform_db where
  "demo_prompts2 = prompt_audit demo_manager ''prompt_version_created'' None
     (demo_prompts1\<lparr>pd_versions := [demo_version]\<rparr>)"

lemma empty_prompts: "pd_templates empty_platform = []" "pd_versions empty_platform = []"
  by (simp_all add: empty_platform_def)

lemma demo_create: "create_template ex_env demo_template_create demo_manager empty_platform = Inr (demo_template, demo_prompts1)"
proof -
  have "sanitize_json 2000 (JObj []) = JObj []" by (simp add: dict_of_def)
  then show ?thesis
    by (simp add: create_template_def require_manager_def demo_template_def demo_template_create_def
        empty_prompts demo_prompts1_def demo_manager_def Let_def del: sanitize_json.simps)
qed

lemma lower_char_h: "lower_char c = CHR ''h'' \<Longrightarrow> c = CHR ''h'' \<or> c = CHR ''H''"
proof -
  assume l: "lower_char c = CHR ''h''"
  define n where "n = (of_char c :: nat)"
  have c: "c = char_of n" by (simp add: n_def)
  from l have "if 65 \<le> n \<and> n \<le> 90 then char_of (n + 32) = CHR ''h'' else c = CHR ''h''"
    by (auto simp: lower_char_def n_def Let_def split: if_splits)
  then show ?thesis
  proof (cases "65 \<le> n \<and> n \<le> 90")
    case True
    then have "char_of (n + 32) = CHR ''h''" using \<open>if _ then _ else _\<close> by simp
    then have "(of_char (char_of (n + 32) :: char) :: nat) = 104" by simp
    with True have "n = 72" by simp
    moreover have "char_of (72::nat) = CHR ''H''" by code_simp
    ultimately show ?thesis by (simp add: c)
  qed (use \<open>if _ then _ else _\<close> in simp)
qed

lemma re_search_none: "needs q re \<Longrightarrow> \<forall>c \<in> set s. \<not> q c \<Longrightarrow> \<not> re_search re s"
  by (induction s) (auto simp: rmatch_none)

lemma validate_content_plain:
  assumes "\<forall>c \<in> set (a @ b). c \<notin> set ''=:hH''" and "length a + length b < max_rendered_prompt_characters"
  shows "validate_content a b = Inr ()"
proof -
  let ?s = "a @ [CHR 0x0A] @ b"
  have c: "\<forall>c \<in> set ?s. c \<noteq> CHR ''='' \<and> c \<noteq> CHR '':'' \<and> c \<noteq> CHR ''h'' \<and> c \<noteq> CHR ''H''" using assms(1) by auto
  have "\<not> re_search assignment_pattern ?s"
    by (rule re_search_none [OF needs_assignment_sep]) (use c in auto)
  moreover have "needs (\<lambda>c. lower_char c = CHR ''h'') hidden_reasoning_pattern"
    by (simp add: hidden_reasoning_pattern_def)
  then have "\<not> re_search hidden_reasoning_pattern ?s"
    by (rule re_search_none) (use c in \<open>auto dest!: lower_char_h\<close>)
  ultimately show ?thesis using assms(2) by (simp add: validate_content_def Let_def)
qed

lemma demo_create_version:
  "create_version ex_hashing ex_env 1 demo_version_create demo_manager demo_prompts1 = Inr (demo_version, demo_prompts2)"
proof -
  have "required_template 1 demo_prompts1 = Inr demo_template"
    by (simp add: required_template_def demo_prompts1_def prompt_audit_def table_simps demo_template_def new_template_def ex_env_def)
  moreover have "validate_content ''s'' ''{b}'' = Inr ()" by (rule validate_content_plain) (auto simp: max_rendered_prompt_characters_def)
  moreover have "variables ''{b}'' = Inr [''b'']" by code_simp
  moreover have "next_version 1 demo_prompts1 = 1"
    by (simp add: next_version_def demo_prompts1_def empty_platform_def)
  moreover have "pd_versions demo_prompts1 = []" by (simp add: demo_prompts1_def empty_platform_def)
  ultimately show ?thesis
    by (simp add: create_version_def require_manager_def demo_manager_def demo_version_create_def demo_version_def
        demo_prompts2_def Let_def)
qed

definition demo_testing :: version_row where
  "demo_testing = demo_version\<lparr>pv_status := PV_TESTING\<rparr>"

definition demo_approved :: version_row where
  "demo_approved = demo_version\<lparr>pv_status := PV_APPROVED, pv_approved_by := Some ''ann'', pv_approved_at := Some 5\<rparr>"

lemma demo_version_simps [simp]:
  "pv_id demo_version = 1" "pv_template_id demo_version = 1" "pv_status demo_version = PV_DRAFT"
  "pv_user_prompt_template demo_version = ''{b}''" "pv_system_prompt demo_version = ''s''"
  "pt_id demo_template = 1" "pt_status demo_template = PT_ACTIVE" "pt_version demo_template = 1"
  "pt_agent_name demo_template = Some ''BRIEF_ANALYST''"
  by (simp_all add: demo_version_def new_version_def demo_template_def new_template_def ex_env_def
      demo_version_create_def demo_template_create_def)

text \<open>The two steps of a transition whose reading is current.\<close>

lemma fresh_transition:
  assumes "prompt_history s" and "get_version (ps_db s) k = Some v" and "actor_role actor \<in> {UR_MANAGER, UR_ADMIN}"
    and "transition_seen now v target (pv_status v) actor (ps_db s) = Inr (v', db')"
  shows "\<exists>s'. prompt_history s' \<and> ps_db s' = db' \<and> v \<in> set (ps_seen s')"
proof -
  have "prompt_history (s\<lparr>ps_seen := v # ps_seen s\<rparr>)"
    by (rule PH_step [OF assms(1) PS_read [where k = k]]) (simp add: required_version_def assms(2))
  from PH_step [OF this PS_transition [where seen = v and actor = actor and target = target]] assms(3,4)
  show ?thesis by (fastforce simp: require_manager_def)
qed

lemma fresh_activation:
  assumes "prompt_history s" and "get_version (ps_db s) k = Some v" and "actor_role actor \<in> {UR_MANAGER, UR_ADMIN}"
    and "activate_seen sv env v (pv_status v) n actor (ps_db s) = Inr (v', db')"
  shows "\<exists>s'. prompt_history s' \<and> ps_db s' = db' \<and> set (ps_seen s) \<subseteq> set (ps_seen s')"
proof -
  have "prompt_history (s\<lparr>ps_seen := v # ps_seen s\<rparr>)"
    by (rule PH_step [OF assms(1) PS_read [where k = k]]) (simp add: required_version_def assms(2))
  from PH_step [OF this PS_activate [where seen = v and actor = actor]] assms(3,4)
  show ?thesis by (fastforce simp: require_manager_def)
qed

definition demo_prompts3 :: platform_db where
  "demo_prompts3 = prompt_audit demo_manager ''prompt_version_testing'' (Some 1)
     (demo_prompts2\<lparr>pd_versions := [demo_testing]\<rparr>)"

definition demo_prompts4 :: platform_db where
  "demo_prompts4 = prompt_audit demo_manager ''prompt_version_approved'' (Some 1)
     (demo_prompts3\<lparr>pd_versions := [demo_approved]\<rparr>)"

lemma demo_rows [simp]:
  "pd_templates demo_prompts2 = [demo_template]" "pd_versions demo_prompts2 = [demo_version]"
  "pd_templates demo_prompts3 = [demo_template]" "pd_versions demo_prompts3 = [demo_testing]"
  "pd_templates demo_prompts4 = [demo_template]" "pd_versions demo_prompts4 = [demo_approved]"
  by (simp_all add: demo_prompts1_def demo_prompts2_def demo_prompts3_def demo_prompts4_def prompt_audit_def empty_prompts)

lemma demo_to_testing:
  "transition_seen 0 demo_version PV_TESTING PV_DRAFT demo_manager demo_prompts2 = Inr (demo_testing, demo_prompts3)"
proof -
  have "lower ''TESTING'' = ''testing''" by code_simp
  then show ?thesis
    by (simp add: transition_seen_def required_template_def table_simps moved_version_def write_version_def
        changed_version_def column_def put_version_def t_put_def demo_prompts3_def demo_testing_def Let_def)
qed

lemma demo_to_approved:
  "transition_seen 5 demo_testing PV_APPROVED PV_TESTING demo_manager demo_prompts3 = Inr (demo_approved, demo_prompts4)"
proof -
  have "lower ''APPROVED'' = ''approved''" by code_simp
  then show ?thesis
    by (simp add: transition_seen_def required_template_def table_simps moved_version_def write_version_def
        changed_version_def column_def put_version_def t_put_def demo_prompts4_def demo_testing_def demo_approved_def
        demo_manager_def Let_def)
qed

lemma demo_history: "\<exists>s. prompt_history s \<and> ps_db s = demo_prompts4 \<and> demo_testing \<in> set (ps_seen s)"
proof -
  have "prompt_history \<lparr>ps_db = empty_platform, ps_seen = [], ps_approvals = []\<rparr>"
    by (rule PH_empty) (simp_all add: empty_prompts)
  from PH_step [OF this PS_template [where env = ex_env and d = demo_template_create and actor = demo_manager]] demo_create
  have "prompt_history \<lparr>ps_db = demo_prompts1, ps_seen = [], ps_approvals = []\<rparr>" by (simp add: empty_prompts)
  from PH_step [OF this PS_version [where env = ex_env and d = demo_version_create and actor = demo_manager]]
    demo_create_version
  have "prompt_history \<lparr>ps_db = demo_prompts2, ps_seen = [], ps_approvals = []\<rparr>"
    by (simp add: demo_prompts1_def prompt_audit_def empty_prompts)
  from fresh_transition [OF this, of 1 demo_version demo_manager 0 PV_TESTING] demo_to_testing
  obtain s where s: "prompt_history s" "ps_db s = demo_prompts3" by (auto simp: table_simps demo_manager_def)
  from fresh_transition [OF s(1), of 1 demo_testing demo_manager 5 PV_APPROVED] demo_to_approved
  show ?thesis by (auto simp: s(2) table_simps demo_manager_def demo_testing_def)
qed

lemma demo_approved_simps [simp]:
  "pv_id demo_approved = 1" "pv_template_id demo_approved = 1" "pv_status demo_approved = PV_APPROVED"
  by (simp_all add: demo_approved_def)

definition demo_active :: version_row where
  "demo_active = activated_version 0 demo_approved"

lemma platform_event_ok:
  "er_payload r = JObj es \<Longrightarrow> \<exists>db'. platform_event sv env r db = Inr db' \<and> pd_versions db' = pd_versions db \<and>
     pd_templates db' = pd_templates db"
  using add_outbox_event_ok [of r es sv env "pd_core db"] by (auto simp: platform_event_def)

lemma demo_activation:
  "\<exists>v db'. activate_seen ex_services ex_env demo_approved PV_APPROVED 1 demo_manager demo_prompts4 = Inr (v, db') \<and>
     pd_versions db' = [demo_active] \<and> pd_templates db' = [demo_template\<lparr>pt_version := 2\<rparr>]"
proof -
  let ?db = "put_template (demo_template\<lparr>pt_version := 2\<rparr>) (write_version demo_approved demo_active demo_prompts4)"
  have e: "er_payload (activation_event demo_approved) =
      JObj [(''prompt_template_id'', JStr (uuid_str (pv_template_id demo_approved))),
            (''prompt_version_id'', JStr (uuid_str (pv_id demo_approved))), (''version'', JInt (pv_version demo_approved))]"
    by (simp add: activation_event_def plain_event_def)
  have rows: "pd_versions ?db = [demo_active]" "pd_templates ?db = [demo_template\<lparr>pt_version := 2\<rparr>]"
    by (simp_all add: put_template_def write_version_def table_simps put_version_def t_put_def changed_version_def
        column_def demo_active_def activated_version_def demo_approved_def)
  from platform_event_ok [OF e, of ex_services ex_env ?db] obtain db3 where
    "platform_event ex_services ex_env (activation_event demo_approved) ?db = Inr db3"
    "pd_versions db3 = [demo_active]" "pd_templates db3 = [demo_template\<lparr>pt_version := 2\<rparr>]"
    unfolding rows by blast
  moreover have "retire_previous 0 demo_approved demo_prompts4 = demo_prompts4"
    by (simp add: retire_previous_def get_active_version_def)
  moreover have "env_now ex_env = 0" by (simp add: ex_env_def)
  ultimately show ?thesis
    by (simp add: activate_seen_def required_template_def table_simps Let_def flip: demo_active_def)
qed

lemma demo_active_history:
  "\<exists>s. prompt_history s \<and> pd_versions (ps_db s) = [demo_active] \<and>
     pd_templates (ps_db s) = [demo_template\<lparr>pt_version := 2\<rparr>] \<and> demo_testing \<in> set (ps_seen s)"
proof -
  from demo_history obtain s where s: "prompt_history s" "ps_db s = demo_prompts4" "demo_testing \<in> set (ps_seen s)" by blast
  from demo_activation obtain v db' where
    "activate_seen ex_services ex_env demo_approved PV_APPROVED 1 demo_manager demo_prompts4 = Inr (v, db')"
    and rows: "pd_versions db' = [demo_active]" "pd_templates db' = [demo_template\<lparr>pt_version := 2\<rparr>]" by blast
  with fresh_activation [OF s(1), of 1 demo_approved demo_manager ex_services ex_env 1 v db']
  obtain s' where "prompt_history s'" "ps_db s' = db'" "set (ps_seen s) \<subseteq> set (ps_seen s')"
    by (auto simp: s(2) table_simps demo_manager_def)
  with rows s(3) show ?thesis by blast
qed

lemma demo_resolves:
  assumes "pd_versions db = [demo_active]" and "pd_templates db = [demo_template\<lparr>pt_version := 2\<rparr>]"
  shows "\<exists>p. resolve no_formatting [(''b'', ''hi'')] (Some ''BRIEF_ANALYST'') None db = Inr p \<and>
    rp_version_id p = 1 \<and> rp_user_prompt p = ''hi''"
proof -
  have "sanitize_text 2000 ''x'' = ''x''" "sanitize_text 100 ''b'' = ''b''"
    by (rule sanitize_plain_text; simp add: is_token_char_def)+
  moreover have "lower ''b'' \<notin> set secret_keys" by (simp add: secret_keys_def lower_def)
  ultimately have "sanitize_json 2000 (JObj [(''b'', JStr ''x'')]) = JObj [(''b'', JStr ''x'')]"
    by (simp add: dict_of_def)
  then have "pv_variables demo_active = [(''b'', JStr ''x'')]"
    by (simp add: demo_active_def activated_version_def demo_approved_def demo_version_def new_version_def
        demo_version_create_def object_entries_def del: sanitize_json.simps)
  moreover have "pv_user_prompt_template demo_active = ''{b}''"
    by (simp add: demo_active_def activated_version_def demo_approved_def)
  moreover have "format_pieces ''{b}'' = Some [Field ''b'' None []]"
    using format_pieces_unparse [of "[Field ''b'' None []]"] by (simp add: plain_name_def is_digit_def)
  then have "render no_formatting ''{b}'' [(''b'', ''hi'')] [''b''] False = Inr ''hi''"
    by (simp add: render_def variables_def format_map_def field_value_def is_accessor_def is_digit_def
        max_rendered_prompt_characters_def Let_def)
  ultimately have "render_version no_formatting [(''b'', ''hi'')] demo_active = Inr ''hi''"
    by (simp add: render_version_def allowed_variables_def allows_unknown_def is_control_key_def)
  then show ?thesis
    using assms by (simp add: resolve_def find_template_def get_active_version_def demo_active_def
        activated_version_def demo_approved_def)
qed

theorem active_prompts_were_approved_witness:
  "\<exists>s p v a. prompt_history s \<and>
     resolve no_formatting [(''b'', ''hi'')] (Some ''BRIEF_ANALYST'') None (ps_db s) = Inr p \<and>
     rp_user_prompt p = ''hi'' \<and> pv_id v = rp_version_id p \<and> active_version v \<and>
     (pv_id v, a) \<in> set (ps_approvals s) \<and> actor_role a \<in> {UR_MANAGER, UR_ADMIN}"
proof -
  from demo_active_history obtain s where s: "prompt_history s" "pd_versions (ps_db s) = [demo_active]"
    "pd_templates (ps_db s) = [demo_template\<lparr>pt_version := 2\<rparr>]" by blast
  from demo_resolves [OF s(2,3)] obtain p where p:
    "resolve no_formatting [(''b'', ''hi'')] (Some ''BRIEF_ANALYST'') None (ps_db s) = Inr p"
    "rp_user_prompt p = ''hi''" by blast
  from active_prompts_were_approved [OF s(1), of no_formatting "[(''b'', ''hi'')]" "Some ''BRIEF_ANALYST''" None p]
  show ?thesis using s(1) p by blast
qed

subsection \<open>A lost update\<close>

text \<open>An approval that read its version too early deactivates it. A manager whose request read a
  version in TESTING before another manager approved and activated it is not refused: the update
  puts the active version back to APPROVED, so its template has no active version any more and
  resolving a prompt for it fails.\<close>

theorem stale_approval_deactivates:
  assumes "prompt_history s" and "seen \<in> set (ps_seen s)" and "pv_status seen = PV_TESTING"
    and "get_version (ps_db s) (pv_id seen) = Some cur" and "pv_status cur = PV_ACTIVE"
    and "get_template (ps_db s) (pv_template_id seen) \<noteq> None" and "actor_role actor \<in> {UR_MANAGER, UR_ADMIN}"
  shows "\<exists>v db'. transition_seen now seen PV_APPROVED PV_TESTING actor (ps_db s) = Inr (v, db') \<and>
    get_active_version (pv_template_id seen) db' = None"
proof -
  have inv: "prompt_inv s" using assms(1) by (rule prompt_history_inv)
  then have one: "one_active_version (pd_versions (ps_db s))" and d: "distinct (map pv_id (pd_versions (ps_db s)))"
    and r: "reading_ok (pd_versions (ps_db s)) seen"
    using assms(2) by (auto simp: prompt_inv_def versions_inv_def)
  note cur = get_version_row [OF assms(4)]
  from r assms(4) have t: "pv_template_id cur = pv_template_id seen" by (auto simp: reading_ok_def same_content_def)
  let ?w = "changed_version seen (moved_version now PV_APPROVED actor seen) cur"
  let ?db = "write_version seen (moved_version now PV_APPROVED actor seen) (ps_db s)"
  have w: "pv_id ?w = pv_id cur" "pv_status ?w = PV_APPROVED"
    using assms(3) by (simp_all add: changed_version_def column_def)
  have vs: "pd_versions ?db = t_put pv_id (pd_versions (ps_db s)) ?w"
    using assms(4) by (simp add: write_version_def put_version_def)
  have "get_active_version (pv_template_id seen) ?db = None"
  proof (rule ccontr)
    assume "get_active_version (pv_template_id seen) ?db \<noteq> None"
    then obtain x where "get_active_version (pv_template_id seen) ?db = Some x" by blast
    from get_active_versionD [OF this] have x: "x \<in> set (pd_versions (ps_db s))" "pv_id x \<noteq> pv_id cur"
        "active_version x" "pv_template_id x = pv_template_id seen"
      using set_t_put_iff [OF d cur(1), of ?w x] w by (auto simp: vs active_version_def)
    moreover have "active_version cur" using assms(5) by (simp add: active_version_def)
    ultimately show False using one cur(1) t unfolding one_active_version_def by metis
  qed
  moreover obtain tr where "required_template (pv_template_id seen) (ps_db s) = Inr tr"
    using assms(6) by (auto simp: required_template_def)
  ultimately show ?thesis
    using assms(3,7) by (auto simp: transition_seen_def Let_def get_active_version_def)
qed

theorem stale_approval_deactivates_witness:
  "\<exists>s v db'. prompt_history s \<and> get_active_version 1 (ps_db s) \<noteq> None \<and>
     transition_seen 9 demo_testing PV_APPROVED PV_TESTING demo_manager (ps_db s) = Inr (v, db') \<and>
     get_active_version 1 db' = None"
proof -
  from demo_active_history obtain s where s: "prompt_history s" "demo_testing \<in> set (ps_seen s)"
    and vs: "pd_versions (ps_db s) = [demo_active]" and ts: "pd_templates (ps_db s) = [demo_template\<lparr>pt_version := 2\<rparr>]"
    by blast
  have a: "pv_id demo_active = 1" "pv_status demo_active = PV_ACTIVE" "pv_template_id demo_active = 1"
    by (simp_all add: demo_active_def activated_version_def)
  have t: "pv_id demo_testing = 1" "pv_status demo_testing = PV_TESTING" "pv_template_id demo_testing = 1"
    by (simp_all add: demo_testing_def)
  have "\<exists>v db'. transition_seen 9 demo_testing PV_APPROVED PV_TESTING demo_manager (ps_db s) = Inr (v, db') \<and>
      get_active_version (pv_template_id demo_testing) db' = None"
    by (rule stale_approval_deactivates [OF s t(2), of demo_active])
      (simp_all add: vs ts a t table_simps demo_manager_def)
  with s(1) show ?thesis by (auto simp: t get_active_version_def vs a)
qed

subsection \<open>A lost event\<close>

lemma platform_event_keyed:
  assumes "platform_event sv env r db = Inr db'"
  shows "\<exists>x \<in> set (events (pd_core db')). o_idempotency_key x =
    event_key (sv_hashing sv) r (sanitize_json 2000 (er_payload r))"
  using assms
  by (auto simp: platform_event_def add_outbox_event_def add_event_def Let_def result_simps new_event_def
      find_Some_iff split: if_splits option.splits)

lemma platform_event_duplicate:
  assumes "platform_event sv env r db = Inr db'" and "x \<in> set (events (pd_core db))"
    and "o_idempotency_key x = event_key (sv_hashing sv) r (sanitize_json 2000 (er_payload r))"
  shows "events (pd_core db') = events (pd_core db)"
  using assms
  by (auto simp: platform_event_def add_outbox_event_def add_event_def Let_def result_simps find_None_iff
      split: if_splits option.splits)

text \<open>Activating a version again publishes nothing. The key of the event is derived from its
  payload, which names the template, the version and its number: a rollback to a version that was
  active before finds the event of the first activation and adds none.\<close>

theorem reactivation_publishes_nothing:
  assumes "activate_seen sv env seen e n actor db = Inr (v, db1)"
    and "activate_seen sv env' seen' e' n' actor' db2 = Inr (v', db3)" and "same_content seen seen'"
    and "set (events (pd_core db1)) \<subseteq> set (events (pd_core db2))"
  shows "events (pd_core db3) = events (pd_core db2)"
proof -
  have ev: "activation_event seen' = activation_event seen"
    using assms(3) by (simp add: activation_event_def same_content_def)
  define key where "key = event_key (sv_hashing sv) (activation_event seen)
    (sanitize_json 2000 (er_payload (activation_event seen)))"
  from assms(1) obtain da d1 where "platform_event sv env (activation_event seen) da = Inr d1"
    and d1: "pd_core db1 = pd_core d1"
    unfolding activate_seen_def Let_def and_then_Inr_iff require_iff by (auto simp: prompt_audit_def)
  then have "\<exists>x \<in> set (events (pd_core db1)). o_idempotency_key x = key"
    using platform_event_keyed unfolding key_def by metis
  then have k: "\<exists>x \<in> set (events (pd_core db2)). o_idempotency_key x = key" using assms(4) by blast
  from assms(2) obtain db' d3 where e: "platform_event sv env' (activation_event seen) db' = Inr d3"
    and d3: "pd_core db3 = pd_core d3" and db': "pd_core db' = pd_core db2"
    unfolding activate_seen_def Let_def and_then_Inr_iff require_iff
    by (auto simp: prompt_audit_def ev put_template_def write_version_def retire_previous_def put_version_def
        split: option.splits if_splits)
  show ?thesis using platform_event_duplicate [OF e] k unfolding d3 db' key_def by blast
qed

lemma activate_seen_ok:
  assumes "get_template db (pv_template_id seen) = Some t" and "pv_status seen \<in> {PV_APPROVED, PV_RETIRED}"
  shows "\<exists>v db'. activate_seen sv env seen (pv_status seen) (pt_version t) actor db = Inr (v, db')"
proof -
  let ?db = "put_template (t\<lparr>pt_version := pt_version t + 1\<rparr>)
    (write_version seen (activated_version (env_now env) seen) (retire_previous (env_now env) seen db))"
  have e: "er_payload (activation_event seen) =
      JObj [(''prompt_template_id'', JStr (uuid_str (pv_template_id seen))),
            (''prompt_version_id'', JStr (uuid_str (pv_id seen))), (''version'', JInt (pv_version seen))]"
    by (simp add: activation_event_def plain_event_def)
  from platform_event_ok [OF e] obtain db3 where "platform_event sv env (activation_event seen) ?db = Inr db3" by blast
  then show ?thesis using assms by (simp add: activate_seen_def required_template_def Let_def)
qed

theorem reactivation_publishes_nothing_witness:
  "\<exists>v db1 w db2 u db3.
     activate_seen ex_services ex_env demo_approved PV_APPROVED 1 demo_manager demo_prompts4 = Inr (v, db1) \<and>
     transition_seen 9 demo_active PV_RETIRED PV_ACTIVE demo_manager db1 = Inr (w, db2) \<and>
     activate_seen ex_services (ex_env\<lparr>env_now := 20\<rparr>) w PV_RETIRED 2 demo_manager db2 = Inr (u, db3) \<and>
     events (pd_core db3) = events (pd_core db2)"
proof -
  from demo_activation obtain v db1 where a:
    "activate_seen ex_services ex_env demo_approved PV_APPROVED 1 demo_manager demo_prompts4 = Inr (v, db1)"
    and rows: "pd_versions db1 = [demo_active]" "pd_templates db1 = [demo_template\<lparr>pt_version := 2\<rparr>]" by blast
  have d: "pv_status demo_active = PV_ACTIVE" "pv_template_id demo_active = 1" "pv_id demo_active = 1"
    by (simp_all add: demo_active_def activated_version_def)
  let ?w = "moved_version 9 PV_RETIRED demo_manager demo_active"
  obtain db2 where t: "transition_seen 9 demo_active PV_RETIRED PV_ACTIVE demo_manager db1 = Inr (?w, db2)"
    and db2: "pd_core db2 = pd_core db1" "pd_templates db2 = pd_templates db1"
    by (auto simp: transition_seen_def required_template_def rows d table_simps Let_def prompt_audit_def
        write_version_def put_version_def)
  have same: "same_content demo_approved ?w"
    by (simp add: same_content_def moved_version_def demo_active_def activated_version_def)
  have w: "pv_status ?w = PV_RETIRED" "pv_template_id ?w = 1" using d by (simp_all add: moved_version_def)
  have "\<exists>u db3. activate_seen ex_services (ex_env\<lparr>env_now := 20\<rparr>) ?w (pv_status ?w)
      (pt_version (demo_template\<lparr>pt_version := 2\<rparr>)) demo_manager db2 = Inr (u, db3)"
    by (rule activate_seen_ok) (simp_all add: db2 rows table_simps w(2))
  then obtain u db3 where r:
    "activate_seen ex_services (ex_env\<lparr>env_now := 20\<rparr>) ?w PV_RETIRED 2 demo_manager db2 = Inr (u, db3)"
    unfolding w by auto
  have "events (pd_core db3) = events (pd_core db2)"
    by (rule reactivation_publishes_nothing [OF a r same]) (simp add: db2)
  with a t r show ?thesis by blast
qed

subsection \<open>A lost variable\<close>

text \<open>A variable named like a secret makes a version unusable. Its creation accepts a template
  with a declared variable such as \<open>token\<close>, but the declaration is stored without the keys that
  spell a secret, so whatever values are given, rendering that version (active or in an
  experiment) fails.\<close>

theorem secret_variable_unusable:
  assumes "create_version h env k d actor db = Inr (v0, db')" and "same_content v0 v"
    and "variables (vq_user_prompt_template d) = Inr ns" and "n \<in> set ns" and "lower n \<in> set secret_keys"
    and "\<not> allows_unknown v"
  shows "\<exists>m. render_version fm values v = Inl (validation_error m)"
proof -
  let ?es = "map (\<lambda>(k, v). (sanitize_text 100 k, sanitize_json 2000 v))
    (filter (\<lambda>(k, _). lower k \<notin> set secret_keys) (vq_variables d))"
  have vars: "pv_variables v = dict_of ?es" and tpl: "pv_user_prompt_template v = vq_user_prompt_template d"
    using assms(1,2) by (auto simp: create_version_def new_version_def same_content_def object_entries_def Let_def result_simps)
  have "n \<notin> set (allowed_variables v)"
  proof
    assume "n \<in> set (allowed_variables v)"
    then obtain b where "(n, b) \<in> set (dict_of ?es)" by (auto simp: allowed_variables_def vars)
    then have "(n, b) \<in> set ?es" by (rule dict_of_entries)
    then show False using assms(5) sanitized_key_not_secret by auto
  qed
  with assms(4) have "filter (\<lambda>x. x \<notin> fst ` set values) ns \<noteq> [] \<or>
      filter (\<lambda>x. x \<notin> set (allowed_variables v)) (map fst values) \<noteq> []"
    unfolding filter_empty_conv by (metis imageE image_eqI image_set)
  then show ?thesis
    using assms(3,6) by (auto simp: render_version_def render_def tpl Let_def require_def)
qed

definition demo_token_create :: version_create where
  "demo_token_create = demo_version_create\<lparr>vq_user_prompt_template := ''{token}'', vq_variables := [(''token'', JNull)]\<rparr>"

lemma demo_create_token:
  "\<exists>v db. create_version ex_hashing ex_env 1 demo_token_create demo_manager demo_prompts1 = Inr (v, db) \<and> \<not> allows_unknown v"
proof -
  have "required_template 1 demo_prompts1 = Inr demo_template"
    by (simp add: required_template_def demo_prompts1_def prompt_audit_def table_simps)
  moreover have "validate_content ''s'' ''{token}'' = Inr ()"
    by (rule validate_content_plain) (auto simp: max_rendered_prompt_characters_def)
  moreover have "variables ''{token}'' = Inr [''token'']" by code_simp
  moreover have "lower ''token'' \<in> set secret_keys" by code_simp
  ultimately show ?thesis
    by (simp add: create_version_def require_manager_def demo_manager_def demo_token_create_def demo_version_create_def
        new_version_def allows_unknown_def object_entries_def dict_of_def Let_def)
qed

theorem secret_variable_unusable_witness:
  "\<exists>v db m. create_version ex_hashing ex_env 1 demo_token_create demo_manager demo_prompts1 = Inr (v, db) \<and>
     render_version no_formatting [(''token'', ''spring'')] v = Inl (validation_error m)"
proof -
  from demo_create_token obtain v db where
    v: "create_version ex_hashing ex_env 1 demo_token_create demo_manager demo_prompts1 = Inr (v, db)"
    and u: "\<not> allows_unknown v" by blast
  have t: "variables (vq_user_prompt_template demo_token_create) = Inr [''token'']"
    unfolding demo_token_create_def demo_version_create_def by code_simp
  have "lower ''token'' \<in> set secret_keys" by code_simp
  with secret_variable_unusable [OF v same_content_refl t, of "''token''" no_formatting "[(''token'', ''spring'')]"] u v
  show ?thesis by auto
qed

end
