(* ===== verification/Media_Service.thy ===== *)
theory Media_Service
  imports Prompt_Service
begin

text \<open>
  Media assets: the requests, listings and reviews of \<open>MediaService\<close> (\<open>app/media/service.py\<close>) and
  the operations of \<open>app/repositories/media_repository.py\<close>, with the schemas of
  \<open>app/schemas/media.py\<close> they use. The provenance columns of an asset other than its prompt
  version and configuration hash are left out.
\<close>

subsection \<open>Requests\<close>

record image_request =
  igr_campaign_id :: "string option"
  igr_workflow_id :: "uuid option"
  igr_task_type :: string
  igr_prompt :: string
  igr_negative_prompt :: "string option"
  igr_width :: int
  igr_height :: int

record storyboard_request =
  vsr_campaign_id :: "string option"
  vsr_campaign_brief :: string
  vsr_objective :: string
  vsr_target_duration :: int
  vsr_aspect_ratio :: string

record review_request =
  mrr_approve :: bool
  mrr_rating :: "int option"
  mrr_comment :: "string option"

record media_settings =
  md_image_provider :: string
  md_image_model :: string
  md_llm_provider :: string
  md_llm_model :: "string option"
  md_max_cost :: rat

definition optional_uuid_json :: "uuid option \<Rightarrow> json" where
  "optional_uuid_json v = (case v of None \<Rightarrow> JNull | Some u \<Rightarrow> JStr (uuid_str u))"

definition dump_image_request :: "image_request \<Rightarrow> json" where
  "dump_image_request d = JObj
     [(''campaign_id'', optional_text_json (igr_campaign_id d)),
      (''workflow_id'', optional_uuid_json (igr_workflow_id d)), (''task_type'', JStr (igr_task_type d)),
      (''prompt'', JStr (igr_prompt d)), (''negative_prompt'', optional_text_json (igr_negative_prompt d)),
      (''width'', JInt (igr_width d)), (''height'', JInt (igr_height d))]"

definition dump_storyboard_request :: "storyboard_request \<Rightarrow> json" where
  "dump_storyboard_request d = JObj
     [(''campaign_id'', optional_text_json (vsr_campaign_id d)),
      (''campaign_brief'', JStr (vsr_campaign_brief d)), (''objective'', JStr (vsr_objective d)),
      (''target_duration_seconds'', JInt (vsr_target_duration d)), (''aspect_ratio'', JStr (vsr_aspect_ratio d))]"

text \<open>\<open>if text\<close>: neither \<open>None\<close> nor empty.\<close>

definition present :: "string option \<Rightarrow> bool" where
  "present v \<longleftrightarrow> v \<noteq> None \<and> v \<noteq> Some []"

definition sanitized_if_present :: "nat \<Rightarrow> string option \<Rightarrow> string option" where
  "sanitized_if_present n v = (if present v then map_option (sanitize_text n) v else None)"

subsection \<open>Rows\<close>

definition new_task ::
  "call_env \<Rightarrow> applied_workflow_type \<Rightarrow> json \<Rightarrow> string \<Rightarrow> string \<Rightarrow> uuid option \<Rightarrow> string \<Rightarrow> uuid \<Rightarrow> string \<Rightarrow> task_row" where
  "new_task env w input provider model version hash job by_actor =
     \<lparr>ta_id = env_row_id env, ta_workflow_type = w, ta_status = AP_PENDING, ta_input = input, ta_content = None,
      ta_result = None, ta_prompt_version_id = version, ta_provider = Some provider, ta_model = Some model,
      ta_configuration_hash = Some hash, ta_job_id = Some job, ta_error_code = None, ta_error_message = None,
      ta_created_by = by_actor, ta_created_at = env_now env, ta_completed_at = None, ta_started_at = None,
      ta_duration_ms = None, ta_input_tokens = 0, ta_output_tokens = 0, ta_estimated_cost = 0\<rparr>"

definition new_asset ::
  "call_env \<Rightarrow> media_asset_type \<Rightarrow> string option \<Rightarrow> uuid option \<Rightarrow> string \<Rightarrow> string \<Rightarrow> string \<Rightarrow> uuid option \<Rightarrow>
   string \<Rightarrow> string \<Rightarrow> string \<Rightarrow> string \<Rightarrow> asset_row" where
  "new_asset env ty campaign workflow task_type provider model version hash prompt safety by_actor =
     \<lparr>ma_id = env_row_id env, ma_campaign_id = campaign, ma_workflow_id = workflow,
      ma_task_id = Some (env_row_id env), ma_task_type = task_type, ma_type = ty, ma_status = MS_REQUESTED,
      ma_provider = provider, ma_model = model, ma_prompt_version_id = version,
      ma_configuration_hash = Some hash, ma_prompt = prompt, ma_negative_prompt = None, ma_storage_uri = None,
      ma_mime_type = None, ma_width = None, ma_height = None, ma_duration_seconds = None,
      ma_estimated_cost = None, ma_safety_status = safety, ma_created_by = by_actor, ma_idempotency_key = None,
      ma_created_at = env_now env, ma_approved_by = None, ma_approved_at = None, ma_rejected_by = None,
      ma_rejected_at = None, ma_rejection_reason = None, ma_error_code = None, ma_error_message = None,
      ma_completed_at = None\<rparr>"

text \<open>The foreign keys of an asset and its unique key per actor.\<close>

definition asset_insertable :: "asset_row \<Rightarrow> platform_db \<Rightarrow> bool" where
  "asset_insertable a db \<longleftrightarrow>
     (case ma_campaign_id a of None \<Rightarrow> True | Some c \<Rightarrow> get_campaign (pd_core db) c \<noteq> None) \<and>
     (case ma_workflow_id a of None \<Rightarrow> True | Some w \<Rightarrow> get_workflow_row (pd_core db) w \<noteq> None) \<and>
     (case ma_idempotency_key a of None \<Rightarrow> True
      | Some k \<Rightarrow> list_all (\<lambda>b. (ma_created_by b, ma_idempotency_key b) \<noteq> (ma_created_by a, Some k)) (pd_assets db))"

definition get_asset_by_idempotency :: "string \<Rightarrow> string \<Rightarrow> platform_db \<Rightarrow> asset_row option" where
  "get_asset_by_idempotency actor key db =
     find (\<lambda>a. ma_created_by a = actor \<and> ma_idempotency_key a = Some key) (pd_assets db)"

definition get_asset_by_task :: "uuid \<Rightarrow> platform_db \<Rightarrow> asset_row option" where
  "get_asset_by_task k db = find (\<lambda>a. ma_task_id a = Some k) (pd_assets db)"

subsection \<open>Requesting an image\<close>

definition image_configuration_hash :: "hashing \<Rightarrow> media_settings \<Rightarrow> image_request \<Rightarrow> string" where
  "image_configuration_hash h ms d = model_configuration_hash h (md_image_provider ms) (md_image_model ms)
     (JObj [(''width'', JInt (igr_width d)), (''height'', JInt (igr_height d))])"

definition image_asset ::
  "hashing \<Rightarrow> media_settings \<Rightarrow> call_env \<Rightarrow> image_request \<Rightarrow> rendered_prompt \<Rightarrow> string option \<Rightarrow> string \<Rightarrow> asset_row" where
  "image_asset h ms env d managed key by_actor =
     (new_asset env MA_IMAGE (igr_campaign_id d) (igr_workflow_id d) (igr_task_type d) (md_image_provider ms)
        (md_image_model ms) (Some (rp_version_id managed)) (image_configuration_hash h ms d)
        (sanitize_text 10000 (rp_user_prompt managed)) ''PENDING'' by_actor)
     \<lparr>ma_negative_prompt := sanitized_if_present 3000 (igr_negative_prompt d), ma_width := Some (igr_width d),
      ma_height := Some (igr_height d), ma_idempotency_key := key\<rparr>"

definition image_job_key :: "string \<Rightarrow> string option \<Rightarrow> uuid \<Rightarrow> string" where
  "image_job_key actor key k =
     (if present key then ''image-generation:'' @ actor @ '':'' @ the key else ''image-generation:'' @ uuid_str k)"

text \<open>
  The request that finds its key takes the asset that has it. The insertions are one transaction
  with that lookup, so a conflict on the key is left for the empty key only, which is never
  looked up.
\<close>

definition request_image ::
  "coercions \<Rightarrow> hashing \<Rightarrow> job_settings \<Rightarrow> media_settings \<Rightarrow> formatting \<Rightarrow> call_env \<Rightarrow> image_request \<Rightarrow>
   authenticated_actor \<Rightarrow> string option \<Rightarrow> platform_db \<Rightarrow> (exn, asset_row \<times> platform_db) res" where
  "request_image co h st ms fm env d actor key db =
     (let key1 = (if present key then map_option (sanitize_text 200) key else key) in
      case (if present key1 then get_asset_by_idempotency (actor_id actor) (the key1) db else None) of
        Some existing \<Rightarrow> Inr (existing, db)
      | None \<Rightarrow>
          and_then (resolve fm [(''brief'', igr_prompt d)] None (Some ''image_generation'') db) (\<lambda>managed.
          let a = image_asset h ms env d managed key1 (actor_id actor)
          in and_then (require (asset_insertable a db)
               (Exn (StoreE MediaPersistenceError) ''Unable to persist image request'')) (\<lambda>_.
             and_then (enqueue_keyed co h st env (plain_job JT_IMAGE_GENERATION
               (ImageGenerationJobPayload (ma_id a)) (actor_id actor) (image_job_key (actor_id actor) key1 (ma_id a))) db) (\<lambda>(j, db1).
             let t = new_task env AW_IMAGE_GENERATION (dump_image_request d) (md_image_provider ms)
                   (md_image_model ms) (Some (rp_version_id managed)) (image_configuration_hash h ms d) (job_id j)
                   (actor_id actor)
             in Inr (a, db1\<lparr>pd_tasks := pd_tasks db1 @ [t], pd_assets := pd_assets db1 @ [a]\<rparr>)))))"

subsection \<open>Requesting a storyboard\<close>

definition storyboard_model :: "media_settings \<Rightarrow> string" where
  "storyboard_model ms = or_str (md_llm_model ms) ''mock-applied-ai''"

definition storyboard_asset ::
  "hashing \<Rightarrow> media_settings \<Rightarrow> call_env \<Rightarrow> storyboard_request \<Rightarrow> rendered_prompt \<Rightarrow> string \<Rightarrow> asset_row" where
  "storyboard_asset h ms env d managed by_actor =
     (new_asset env MA_VIDEO_STORYBOARD (vsr_campaign_id d) None ''video_storyboard'' (md_llm_provider ms)
        (storyboard_model ms) (Some (rp_version_id managed))
        (model_configuration_hash h (md_llm_provider ms) (storyboard_model ms) (JObj [(''temperature'', JInt 0)]))
        (rp_user_prompt managed) ''NOT_APPLICABLE'' by_actor)
     \<lparr>ma_duration_seconds := Some (vsr_target_duration d)\<rparr>"

definition request_storyboard ::
  "coercions \<Rightarrow> hashing \<Rightarrow> job_settings \<Rightarrow> media_settings \<Rightarrow> formatting \<Rightarrow> call_env \<Rightarrow> storyboard_request \<Rightarrow>
   authenticated_actor \<Rightarrow> platform_db \<Rightarrow> (exn, asset_row \<times> platform_db) res" where
  "request_storyboard co h st ms fm env d actor db =
     and_then (resolve fm [(''brief'', vsr_campaign_brief d)] None (Some ''video_storyboard'') db) (\<lambda>managed.
     let a = storyboard_asset h ms env d managed (actor_id actor)
     in and_then (require (asset_insertable a db) (Exn (PyE IntegrityError) ''media_assets'')) (\<lambda>_.
        and_then (enqueue_keyed co h st env (plain_job JT_VIDEO_STORYBOARD
          (VideoStoryboardJobPayload (ma_id a)) (actor_id actor) (''video-storyboard:'' @ uuid_str (ma_id a))) db) (\<lambda>(j, db1).
        let t = new_task env AW_VIDEO_STORYBOARD (dump_storyboard_request d) (md_llm_provider ms)
              (storyboard_model ms) (Some (rp_version_id managed)) (the (ma_configuration_hash a)) (job_id j)
              (actor_id actor)
        in Inr (a, db1\<lparr>pd_tasks := pd_tasks db1 @ [t], pd_assets := pd_assets db1 @ [a]\<rparr>))))"

subsection \<open>Reading\<close>

definition required_asset :: "uuid \<Rightarrow> platform_db \<Rightarrow> (exn, asset_row) res" where
  "required_asset k db = required (get_asset db k) (not_found ''Media asset not found'')"

definition list_assets ::
  "int \<Rightarrow> int \<Rightarrow> string option \<Rightarrow> media_asset_type option \<Rightarrow> media_asset_status option \<Rightarrow> string option \<Rightarrow>
   platform_db \<Rightarrow> asset_row list" where
  "list_assets limit offset owner ty status campaign db =
     order_page (\<lambda>a. (- ma_created_at a, int (ma_id a))) (clamp 1 100 limit) (max offset 0)
       (filter (\<lambda>a. (owner = None \<or> owner = Some (ma_created_by a)) \<and> (ty = None \<or> ty = Some (ma_type a)) \<and>
          (status = None \<or> status = Some (ma_status a)) \<and> (campaign = None \<or> ma_campaign_id a = campaign)) (pd_assets db))"

subsection \<open>Reviews\<close>

definition decision_value :: "bool \<Rightarrow> string" where
  "decision_value approve = (if approve then ''APPROVE'' else ''REJECT'')"

definition reviewed_asset :: "time \<Rightarrow> review_request \<Rightarrow> string \<Rightarrow> asset_row \<Rightarrow> asset_row" where
  "reviewed_asset now d by_actor a =
     (if mrr_approve d
      then a\<lparr>ma_status := MS_APPROVED, ma_approved_by := Some by_actor, ma_approved_at := Some now\<rparr>
      else a\<lparr>ma_status := MS_REJECTED, ma_rejected_by := Some by_actor, ma_rejected_at := Some now,
             ma_rejection_reason := map_option (sanitize_text 1000) (mrr_comment d)\<rparr>)"

definition accept_impact :: "bool \<Rightarrow> impact_row \<Rightarrow> impact_row" where
  "accept_impact approve i = i\<lparr>im_output_accepted := Some approve,
     im_accepted_without_editing := (if approve then im_accepted_without_editing i else False)\<rparr>"

text \<open>The impact of a task is unique.\<close>

definition record_acceptance :: "bool \<Rightarrow> uuid option \<Rightarrow> platform_db \<Rightarrow> platform_db" where
  "record_acceptance approve task db =
     (case task of None \<Rightarrow> db
      | Some k \<Rightarrow> db\<lparr>pd_impacts := map (\<lambda>i. if im_task_id i = k then accept_impact approve i else i) (pd_impacts db)\<rparr>)"

definition new_review :: "call_env \<Rightarrow> uuid \<Rightarrow> review_request \<Rightarrow> string \<Rightarrow> media_review_row" where
  "new_review env k d by_actor =
     \<lparr>mv_id = env_row_id env, mv_asset_id = k, mv_actor_id = by_actor, mv_decision = decision_value (mrr_approve d),
      mv_rating = mrr_rating d, mv_comment = sanitized_if_present 2000 (mrr_comment d), mv_created_at = env_now env\<rparr>"

definition review_event :: "uuid \<Rightarrow> bool \<Rightarrow> event_request" where
  "review_event k approve =
     plain_event (if approve then OE_MEDIA_APPROVED else OE_MEDIA_REJECTED) ''media_asset'' k
       (JObj [(''media_asset_id'', JStr (uuid_str k)), (''decision'', JStr (decision_value approve))])
       (Some (''media-review:'' @ uuid_str k @ '':'' @ decision_value approve))"

definition review_asset ::
  "services \<Rightarrow> call_env \<Rightarrow> uuid \<Rightarrow> review_request \<Rightarrow> authenticated_actor \<Rightarrow> platform_db \<Rightarrow>
   (exn, asset_row \<times> platform_db) res" where
  "review_asset sv env k d actor db =
     and_then (require (actor_role actor \<in> {UR_REVIEWER, UR_MANAGER, UR_ADMIN})
       (conflict ''Reviewer role is required'')) (\<lambda>_.
     and_then (required_asset k db) (\<lambda>a.
     and_then (require (ma_status a = MS_READY_FOR_REVIEW) (conflict ''Media asset is not ready for review'')) (\<lambda>_.
     and_then (require (mrr_approve d \<or> present (mrr_comment d))
       (validation_error ''A rejection reason is required'')) (\<lambda>_.
     and_then (require (list_all (\<lambda>v. (mv_asset_id v, mv_actor_id v) \<noteq> (k, actor_id actor)) (pd_reviews db))
       (Exn (PyE IntegrityError) ''uq_media_reviews_asset_actor'')) (\<lambda>_.
     let a' = reviewed_asset (env_now env) d (actor_id actor) a;
         db1 = put_asset a' (record_acceptance (mrr_approve d) (ma_task_id a) db)
     in and_then (platform_event sv env (review_event k (mrr_approve d))
            (db1\<lparr>pd_reviews := pd_reviews db1 @ [new_review env k d (actor_id actor)]\<rparr>)) (\<lambda>db2.
        Inr (a', db2)))))))"

end
