(* ===== verification/Media_Processor.thy ===== *)
theory Media_Processor
  imports Media_Service
begin

text \<open>
  Generation of media: \<open>MediaProcessor\<close> (\<open>app/media/service.py\<close>) over the attempts of
  \<open>app/repositories/media_repository.py\<close>, with \<open>definitions.py\<close>, \<open>safety.py\<close> and \<open>storage.py\<close> of
  \<open>app/media\<close>. A generation is three transactions, start, finalisation and, when something
  fails, the end of the attempt; what others commit between them is the parameter
  \<open>ge_meanwhile\<close>. The image provider, the language model, the checkpoint of the job and the disk
  are parameters too. A started attempt is inserted under the lock of its asset, so its number
  is free and the second allocation is never needed.
\<close>

subsection \<open>Attempts\<close>

definition max_attempt_number :: "uuid \<Rightarrow> platform_db \<Rightarrow> int" where
  "max_attempt_number asset_id db =
     foldr (\<lambda>a n. max (mt_attempt_number a) n) (filter (\<lambda>a. mt_asset_id a = asset_id) (pd_attempts db)) 0"

definition next_attempt_number :: "uuid \<Rightarrow> platform_db \<Rightarrow> int" where
  "next_attempt_number asset_id db = max_attempt_number asset_id db + 1"

definition started_attempt ::
  "call_env \<Rightarrow> asset_row \<Rightarrow> uuid \<Rightarrow> string \<Rightarrow> int \<Rightarrow> int \<Rightarrow> media_attempt_row" where
  "started_attempt env a job worker job_attempt n =
     \<lparr>mt_id = env_row_id env, mt_asset_id = ma_id a, mt_job_id = Some job, mt_worker_id = Some worker,
      mt_job_attempt_number = Some job_attempt, mt_attempt_number = n, mt_provider = ma_provider a,
      mt_model = ma_model a, mt_provider_job_id = None, mt_status = MM_STARTED, mt_started_at = env_now env,
      mt_completed_at = None, mt_duration_ms = None, mt_estimated_cost = None, mt_error_code = None,
      mt_error_message = None\<rparr>"

definition find_active_attempts :: "uuid option \<Rightarrow> uuid option \<Rightarrow> platform_db \<Rightarrow> media_attempt_row list" where
  "find_active_attempts asset job db =
     filter (\<lambda>a. mt_status a = MM_STARTED \<and> (asset = None \<or> asset = Some (mt_asset_id a)) \<and>
       (job = None \<or> mt_job_id a = job)) (pd_attempts db)"

record attempt_end =
  ae_status :: media_attempt_status
  ae_code :: "string option"
  ae_message :: "string option"
  ae_provider_job_id :: "string option"
  ae_cost :: "rat option"

definition apply_terminal_values :: "time \<Rightarrow> attempt_end \<Rightarrow> media_attempt_row \<Rightarrow> media_attempt_row" where
  "apply_terminal_values now e a =
     a\<lparr>mt_status := ae_status e, mt_completed_at := Some now, mt_duration_ms := Some (duration_ms (mt_started_at a) now),
       mt_error_code := ae_code e, mt_error_message := sanitized_if_present 2000 (ae_message e),
       mt_provider_job_id := ae_provider_job_id e, mt_estimated_cost := ae_cost e\<rparr>"

definition mark_terminal ::
  "time \<Rightarrow> uuid \<Rightarrow> string option \<Rightarrow> attempt_end \<Rightarrow> platform_db \<Rightarrow> media_attempt_update_result \<times> platform_db" where
  "mark_terminal now k worker e db =
     (case get_media_attempt db k of
        None \<Rightarrow> (MU_NOT_FOUND, db)
      | Some a \<Rightarrow>
          if worker \<noteq> None \<and> mt_worker_id a \<noteq> worker then (MU_OWNERSHIP_LOST, db)
          else if mt_status a \<noteq> MM_STARTED then (MU_INVALID_STATE, db)
          else (MU_UPDATED, put_media_attempt (apply_terminal_values now e a) db))"

definition terminalize_active_attempts :: "time \<Rightarrow> uuid \<Rightarrow> attempt_end \<Rightarrow> platform_db \<Rightarrow> platform_db" where
  "terminalize_active_attempts now asset_id e db =
     db\<lparr>pd_attempts := map (\<lambda>a. if mt_asset_id a = asset_id \<and> mt_status a = MM_STARTED
          then apply_terminal_values now e a else a) (pd_attempts db)\<rparr>"

definition owns_live_job_lease :: "uuid \<Rightarrow> string \<Rightarrow> int \<Rightarrow> time \<Rightarrow> platform_db \<Rightarrow> bool" where
  "owns_live_job_lease k worker n now db =
     (case get_job (pd_queue db) k of
        None \<Rightarrow> False
      | Some j \<Rightarrow> owns_live_lease j worker now \<and> attempt_count j = n)"

subsection \<open>Images\<close>

record image_input =
  ii_prompt :: string
  ii_negative_prompt :: "string option"
  ii_width :: int
  ii_height :: int
  ii_model :: string

definition image_input_ok :: "image_input \<Rightarrow> bool" where
  "image_input_ok i \<longleftrightarrow>
     1 \<le> length (ii_prompt i) \<and> length (ii_prompt i) \<le> 10000 \<and>
     (case ii_negative_prompt i of None \<Rightarrow> True | Some s \<Rightarrow> length s \<le> 3000) \<and>
     256 \<le> ii_width i \<and> ii_width i \<le> 2048 \<and> 256 \<le> ii_height i \<and> ii_height i \<le> 2048 \<and>
     1 \<le> length (ii_model i) \<and> length (ii_model i) \<le> 200"

text \<open>The bytes of an image are characters.\<close>

record generated_image =
  gi_content :: string
  gi_mime_type :: string
  gi_width :: int
  gi_height :: int
  gi_provider_job_id :: "string option"
  gi_cost :: rat
  gi_safety_flags :: "string list"

definition png_magic :: string where
  "png_magic = [CHR 0x89] @ ''PNG'' @ [CHR 0x0D, CHR 0x0A, CHR 0x1A, CHR 0x0A]"

definition jpeg_magic :: string where
  "jpeg_magic = [CHR 0xFF, CHR 0xD8, CHR 0xFF]"

definition starts_with :: "string \<Rightarrow> string \<Rightarrow> bool" where
  "starts_with s p \<longleftrightarrow> take (length p) s = p"

definition validate_generated_image :: "generated_image \<Rightarrow> (exn, unit) res" where
  "validate_generated_image i =
     and_then (require (gi_content i \<noteq> [] \<and> int (length (gi_content i)) \<le> 20000000)
       (validation_error ''Generated image is missing or exceeds the size limit'')) (\<lambda>_.
     and_then (require (gi_mime_type i \<noteq> ''image/png'' \<or> starts_with (gi_content i) png_magic)
       (validation_error ''Generated PNG is corrupt'')) (\<lambda>_.
     and_then (require (gi_mime_type i \<noteq> ''image/jpeg'' \<or> starts_with (gi_content i) jpeg_magic)
       (validation_error ''Generated JPEG is corrupt'')) (\<lambda>_.
     and_then (require (gi_mime_type i \<in> {''image/png'', ''image/jpeg''})
       (validation_error ''Generated image MIME type is unsupported'')) (\<lambda>_.
     and_then (require (1 \<le> gi_width i \<and> 1 \<le> gi_height i \<and> gi_width i \<le> 4096 \<and> gi_height i \<le> 4096)
       (validation_error ''Generated image dimensions are unsafe'')) (\<lambda>_.
     require (gi_safety_flags i = []) (validation_error ''Provider safety checks flagged the generated image''))))))"

definition media_extension :: "string \<Rightarrow> string option" where
  "media_extension mime =
     (if mime = ''image/png'' then Some ''.png'' else if mime = ''image/jpeg'' then Some ''.jpg'' else None)"

text \<open>The name of a stored file is that of the asset, so its path stays below the root.\<close>

definition store_media ::
  "(string \<Rightarrow> string \<Rightarrow> (exn, unit) res) \<Rightarrow> uuid \<Rightarrow> string \<Rightarrow> string \<Rightarrow> (exn, string) res" where
  "store_media write_bytes k content mime =
     and_then (required (media_extension mime) (validation_error ''Media MIME type is not supported'')) (\<lambda>ext.
     and_then (write_bytes (uuid_str k @ ext) content) (\<lambda>_. Inr (''media://'' @ uuid_str k @ ext)))"

definition validate_uri :: "string \<Rightarrow> (exn, unit) res" where
  "validate_uri uri =
     require (starts_with uri ''media://'' \<and> CHR ''/'' \<notin> set (drop 8 uri))
       (validation_error ''Media storage URI is invalid'')"

subsection \<open>What a generation finds around it\<close>

record storyboard_completion =
  sbc_structured :: json
  sbc_input_tokens :: int
  sbc_output_tokens :: int
  sbc_cost :: rat

record generation_env =
  ge_start :: call_env
  ge_generate :: "string \<Rightarrow> image_input \<Rightarrow> (exn, generated_image) res"
  ge_complete :: "string \<Rightarrow> string \<Rightarrow> string \<Rightarrow> (exn, storyboard_completion) res"
  ge_asset_json :: "asset_row \<Rightarrow> json"
  ge_write_bytes :: "string \<Rightarrow> string \<Rightarrow> (exn, unit) res"
  ge_checkpoint :: "(exn, unit) res"
  ge_meanwhile :: "nat \<Rightarrow> platform_db \<Rightarrow> platform_db"
  ge_finalize :: call_env
  ge_end :: time

definition conflict_state :: "string \<Rightarrow> exn" where
  "conflict_state m = Exn (StoreE MediaAttemptStateConflictError) m"

definition was_cancelled :: "exn \<Rightarrow> bool" where
  "was_cancelled e \<longleftrightarrow> isinstance_any (exn_cls e) [PyE CancelledError, OpsE JobCancelledError]"

definition safe_media_error :: "exn \<Rightarrow> media_attempt_status \<Rightarrow> string \<times> string" where
  "safe_media_error e status =
     (if status = MM_CANCELLED then (''JOB_CANCELLED'', ''Media generation was cancelled'')
      else (case error_code (exn_cls e) of
              Some code \<Rightarrow> (code, sanitize_text 2000 (exn_msg e))
            | None \<Rightarrow> (''MEDIA_ERROR'', ''Media generation failed'')))"

text \<open>A lost ownership is left uncommitted, and nothing was changed then.\<close>

definition finish_media_attempt ::
  "time \<Rightarrow> uuid \<Rightarrow> string \<Rightarrow> exn \<Rightarrow> string option \<Rightarrow> rat option \<Rightarrow> platform_db \<Rightarrow> platform_db" where
  "finish_media_attempt now k worker e provider_job cost db =
     (let status = (if was_cancelled e then MM_CANCELLED else MM_FAILED);
          (code, message) = safe_media_error e status
      in snd (mark_terminal now k (Some worker) \<lparr>ae_status = status, ae_code = Some code, ae_message = Some message,
           ae_provider_job_id = provider_job, ae_cost = cost\<rparr> db))"

text \<open>The step in which an exception occurred decides what is known of the provider's job.\<close>

definition knowing :: "'c \<Rightarrow> (exn, 'a) res \<Rightarrow> (exn \<times> 'c, 'a) res" where
  "knowing c r = (case r of Inl e \<Rightarrow> Inl (e, c) | Inr a \<Rightarrow> Inr a)"

text \<open>An exception after the start ends the attempt and is raised again.\<close>

definition ending_attempt ::
  "generation_env \<Rightarrow> uuid \<Rightarrow> string \<Rightarrow> (exn \<times> string option \<times> rat option, unit \<times> platform_db) res \<Rightarrow>
   platform_db \<Rightarrow> (exn, unit) res \<times> platform_db" where
  "ending_attempt g k worker r db =
     (case r of
        Inr (_, db') \<Rightarrow> (Inr (), db')
      | Inl (e, provider_job, cost) \<Rightarrow>
          (Inl e, finish_media_attempt (ge_end g) k worker e provider_job cost (ge_meanwhile g 1 db)))"

subsection \<open>Starting an attempt\<close>

definition processing_task :: "time \<Rightarrow> task_row \<Rightarrow> task_row" where
  "processing_task now t = t\<lparr>ta_status := AP_PROCESSING,
     ta_started_at := (case ta_started_at t of None \<Rightarrow> Some now | Some s \<Rightarrow> Some s)\<rparr>"

definition start_task :: "time \<Rightarrow> uuid option \<Rightarrow> platform_db \<Rightarrow> platform_db" where
  "start_task now task db =
     (case Option.bind task (get_task db) of None \<Rightarrow> db | Some t \<Rightarrow> put_task (processing_task now t) db)"

text \<open>The new row refers to its job and counts the job's attempts from one.\<close>

definition create_started_attempt ::
  "call_env \<Rightarrow> asset_row \<Rightarrow> leased_job \<Rightarrow> string \<Rightarrow> platform_db \<Rightarrow> (exn, media_attempt_row \<times> platform_db) res" where
  "create_started_attempt env a job worker db =
     (let t = started_attempt env a (lj_job_id job) worker (lj_attempt_count job) (next_attempt_number (ma_id a) db)
      in and_then (require (get_job (pd_queue db) (lj_job_id job) \<noteq> None \<and> 0 < lj_attempt_count job)
           (Exn (StoreE MediaPersistenceError) ''Unable to persist media attempt'')) (\<lambda>_.
         Inr (t, db\<lparr>pd_attempts := pd_attempts db @ [t]\<rparr>)))"

definition start_image_attempt ::
  "call_env \<Rightarrow> uuid \<Rightarrow> leased_job \<Rightarrow> string \<Rightarrow> platform_db \<Rightarrow>
   (exn, (media_attempt_row \<times> asset_row) option \<times> platform_db) res" where
  "start_image_attempt env k job worker db =
     and_then (required_asset k db) (\<lambda>a.
     if ma_status a \<in> {MS_READY_FOR_REVIEW, MS_APPROVED} then Inr (None, db)
     else let a' = a\<lparr>ma_status := MS_GENERATING, ma_error_code := None, ma_error_message := None\<rparr>;
              db1 = start_task (env_now env) (ma_task_id a) (put_asset a' db)
          in and_then (create_started_attempt env a' job worker db1) (\<lambda>(t, db2). Inr (Some (t, a'), db2)))"

subsection \<open>Finalisation\<close>

definition attempt_current :: "leased_job \<Rightarrow> string \<Rightarrow> media_attempt_row \<Rightarrow> bool" where
  "attempt_current job worker t \<longleftrightarrow>
     mt_status t = MM_STARTED \<and> mt_worker_id t = Some worker \<and> mt_job_id t = Some (lj_job_id job) \<and>
     mt_job_attempt_number t = Some (lj_attempt_count job) \<and> mt_attempt_number t = lj_attempt_count job"

definition finalization_task :: "asset_row \<Rightarrow> platform_db \<Rightarrow> (exn, task_row option) res" where
  "finalization_task a db =
     (case Option.bind (ma_task_id a) (get_task db) of
        None \<Rightarrow> Inr None
      | Some t \<Rightarrow> if ta_status t = AP_PROCESSING then Inr (Some t)
          else Inl (conflict_state ''Media task changed before finalization''))"

definition ready_event :: "uuid \<Rightarrow> (string \<times> json) list \<Rightarrow> event_request" where
  "ready_event k extra = plain_event OE_MEDIA_READY_FOR_REVIEW ''media_asset'' k
     (JObj ((''media_asset_id'', JStr (uuid_str k)) # extra)) (Some (''media-ready:'' @ uuid_str k))"

definition finalize_media ::
  "services \<Rightarrow> call_env \<Rightarrow> uuid \<Rightarrow> uuid \<Rightarrow> leased_job \<Rightarrow> string \<Rightarrow> (asset_row \<Rightarrow> asset_row) \<Rightarrow>
   (asset_row \<Rightarrow> task_row \<Rightarrow> task_row) \<Rightarrow> string option \<Rightarrow> rat \<Rightarrow> (string \<times> json) list \<Rightarrow> platform_db \<Rightarrow>
   (exn, unit \<times> platform_db) res" where
  "finalize_media sv env k attempt_id job worker fa ft provider_job cost extra db =
     (let now = env_now env in
      and_then (require (owns_live_job_lease (lj_job_id job) worker (lj_attempt_count job) now db)
        (Exn (StoreE MediaAttemptLeaseLostError) ''Media job lease is no longer owned'')) (\<lambda>_.
      and_then (required (get_asset db k)
        (Exn (StoreE MediaAttemptFinalizationError) ''Media finalization target is missing'')) (\<lambda>a.
      and_then (required (get_media_attempt db attempt_id)
        (Exn (StoreE MediaAttemptFinalizationError) ''Media finalization target is missing'')) (\<lambda>t.
      and_then (require (attempt_current job worker t)
        (conflict_state ''Media attempt changed before finalization'')) (\<lambda>_.
      and_then (require (ma_status a = MS_GENERATING)
        (conflict_state ''Media asset changed before finalization'')) (\<lambda>_.
      and_then (finalization_task a db) (\<lambda>task.
      let a' = (fa a)\<lparr>ma_status := MS_READY_FOR_REVIEW, ma_completed_at := Some now\<rparr>;
          db1 = put_asset a' db;
          db2 = (case task of None \<Rightarrow> db1
                 | Some x \<Rightarrow> put_task ((ft a' x)\<lparr>ta_status := AP_COMPLETED, ta_completed_at := Some now,
                     ta_duration_ms := Some (case ta_started_at x of None \<Rightarrow> 0 | Some s \<Rightarrow> duration_ms s now)\<rparr>) db1);
          (r, db3) = mark_terminal now attempt_id (Some worker) \<lparr>ae_status = MM_COMPLETED, ae_code = None,
            ae_message = None, ae_provider_job_id = provider_job, ae_cost = Some cost\<rparr> db2
      in and_then (require (r = MU_UPDATED) (conflict_state ''Media attempt could not be completed'')) (\<lambda>_.
         and_then (platform_event sv env (ready_event k extra) db3) (\<lambda>db4. Inr ((), db4))))))))))"

definition finalize_image_success ::
  "services \<Rightarrow> generation_env \<Rightarrow> uuid \<Rightarrow> uuid \<Rightarrow> leased_job \<Rightarrow> string \<Rightarrow> string \<Rightarrow> generated_image \<Rightarrow> platform_db \<Rightarrow>
   (exn, unit \<times> platform_db) res" where
  "finalize_image_success sv g k attempt_id job worker uri i =
     finalize_media sv (ge_finalize g) k attempt_id job worker
       (\<lambda>a. a\<lparr>ma_storage_uri := Some uri, ma_mime_type := Some (gi_mime_type i), ma_width := Some (gi_width i),
          ma_height := Some (gi_height i), ma_estimated_cost := Some (gi_cost i),
          ma_safety_status := ''PASSED_PROVIDER_AND_DETERMINISTIC_CHECKS''\<rparr>)
       (\<lambda>a t. t\<lparr>ta_result := Some (ge_asset_json g a), ta_estimated_cost := gi_cost i\<rparr>)
       (gi_provider_job_id i) (gi_cost i) []"

subsection \<open>Generating an image\<close>

definition image_provider :: "generation_env \<Rightarrow> string \<Rightarrow> image_input \<Rightarrow> (exn, generated_image) res" where
  "image_provider g provider i =
     (if provider \<notin> {''mock'', ''openai''} then Inl (validation_error ''Image provider is not configured'')
      else if image_input_ok i then ge_generate g provider i
      else Inl (Exn (PyE ValueError) ''ImageGenerationInput''))"

definition image_input_of :: "asset_row \<Rightarrow> image_input" where
  "image_input_of a = \<lparr>ii_prompt = ma_prompt a, ii_negative_prompt = ma_negative_prompt a,
     ii_width = or_int (ma_width a) 1024, ii_height = or_int (ma_height a) 1024, ii_model = ma_model a\<rparr>"

definition produce_image ::
  "services \<Rightarrow> media_settings \<Rightarrow> generation_env \<Rightarrow> uuid \<Rightarrow> media_attempt_row \<Rightarrow> asset_row \<Rightarrow> leased_job \<Rightarrow> string \<Rightarrow>
   platform_db \<Rightarrow> (exn \<times> string option \<times> rat option, unit \<times> platform_db) res" where
  "produce_image sv ms g k t a job worker db =
     and_then (knowing (None, None) (image_provider g (ma_provider a) (image_input_of a))) (\<lambda>i.
     knowing (gi_provider_job_id i, Some (gi_cost i))
       (and_then (validate_generated_image i) (\<lambda>_.
        and_then (require (gi_cost i \<le> md_max_cost ms)
          (validation_error ''Image generation exceeded the configured cost limit'')) (\<lambda>_.
        and_then (store_media (ge_write_bytes g) k (gi_content i) (gi_mime_type i)) (\<lambda>uri.
        and_then (ge_checkpoint g) (\<lambda>_.
        finalize_image_success sv g k (mt_id t) job worker uri i db))))))"

definition generate_image ::
  "services \<Rightarrow> media_settings \<Rightarrow> generation_env \<Rightarrow> uuid \<Rightarrow> leased_job \<Rightarrow> string \<Rightarrow> (platform_db, unit) session" where
  "generate_image sv ms g k job worker =
     and_session (atomically (start_image_attempt (ge_start g) k job worker)) (\<lambda>started.
     case started of
       None \<Rightarrow> returns ()
     | Some (t, a) \<Rightarrow> (\<lambda>db.
         let mid = ge_meanwhile g 0 db
         in ending_attempt g (mt_id t) worker (produce_image sv ms g k t a job worker mid) mid))"

subsection \<open>Generating a storyboard\<close>

text \<open>The models of \<open>app/schemas/media.py\<close>: read, checked and written back as JSON.\<close>

definition raw_text :: "coercions \<Rightarrow> fields \<Rightarrow> string \<Rightarrow> string option" where
  "raw_text co es f = Option.bind (map_of es f) (co_str co)"

definition storyboard_scene_of :: "coercions \<Rightarrow> json \<Rightarrow> json option" where
  "storyboard_scene_of co v = do {
     es \<leftarrow> model_fields [''order'', ''duration_seconds'', ''shot_description'', ''voice_over'', ''on_screen_text'',
       ''generation_prompt''] v;
     n \<leftarrow> Option.bind (map_of es ''order'') (co_int co);
     d \<leftarrow> Option.bind (map_of es ''duration_seconds'') (co_int co);
     shot \<leftarrow> raw_text co es ''shot_description'';
     voice \<leftarrow> raw_text co es ''voice_over'';
     screen \<leftarrow> raw_text co es ''on_screen_text'';
     p \<leftarrow> raw_text co es ''generation_prompt'';
     if 1 \<le> n \<and> 1 \<le> d \<and> d \<le> 120
     then Some (JObj [(''order'', JInt n), (''duration_seconds'', JInt d), (''shot_description'', JStr shot),
       (''voice_over'', JStr voice), (''on_screen_text'', JStr screen), (''generation_prompt'', JStr p)])
     else None}"

definition storyboard_of :: "coercions \<Rightarrow> json \<Rightarrow> json option" where
  "storyboard_of co v = do {
     es \<leftarrow> model_fields [''title'', ''objective'', ''target_duration_seconds'', ''aspect_ratio'', ''scenes'',
       ''voice_over'', ''music_mood'', ''call_to_action'', ''provider_prompt''] v;
     title \<leftarrow> raw_text co es ''title'';
     objective \<leftarrow> raw_text co es ''objective'';
     d \<leftarrow> Option.bind (map_of es ''target_duration_seconds'') (co_int co);
     ratio \<leftarrow> raw_text co es ''aspect_ratio'';
     scenes \<leftarrow> (case map_of es ''scenes'' of Some (JList vs) \<Rightarrow> all_some (map (storyboard_scene_of co) vs) | _ \<Rightarrow> None);
     voice \<leftarrow> raw_text co es ''voice_over'';
     mood \<leftarrow> raw_text co es ''music_mood'';
     action \<leftarrow> raw_text co es ''call_to_action'';
     p \<leftarrow> raw_text co es ''provider_prompt'';
     Some (JObj [(''title'', JStr title), (''objective'', JStr objective), (''target_duration_seconds'', JInt d),
       (''aspect_ratio'', JStr ratio), (''scenes'', JList scenes), (''voice_over'', JStr voice),
       (''music_mood'', JStr mood), (''call_to_action'', JStr action), (''provider_prompt'', JStr p)])}"

definition bounded_raw_text :: "coercions \<Rightarrow> nat \<Rightarrow> fields \<Rightarrow> string \<Rightarrow> string option" where
  "bounded_raw_text co hi es f =
     do {s \<leftarrow> raw_text co es f; if 1 \<le> length s \<and> length s \<le> hi then Some s else None}"

definition storyboard_request_of :: "coercions \<Rightarrow> json \<Rightarrow> storyboard_request option" where
  "storyboard_request_of co v = do {
     es \<leftarrow> model_fields [''campaign_id'', ''campaign_brief'', ''objective'', ''target_duration_seconds'',
       ''aspect_ratio''] v;
     c \<leftarrow> (case map_of es ''campaign_id'' of None \<Rightarrow> Some None | Some JNull \<Rightarrow> Some None
            | Some x \<Rightarrow> do {s \<leftarrow> co_str co x; if length s \<le> 100 then Some (Some s) else None});
     b \<leftarrow> bounded_raw_text co 20000 es ''campaign_brief'';
     objective \<leftarrow> bounded_raw_text co 1000 es ''objective'';
     d \<leftarrow> (case map_of es ''target_duration_seconds'' of None \<Rightarrow> Some 30 | Some x \<Rightarrow> co_int co x);
     ratio \<leftarrow> (case map_of es ''aspect_ratio'' of None \<Rightarrow> Some ''16:9'' | Some (JStr s) \<Rightarrow> Some s | _ \<Rightarrow> None);
     if 5 \<le> d \<and> d \<le> 300 \<and> ratio \<in> {''16:9'', ''9:16'', ''1:1''}
     then Some \<lparr>vsr_campaign_id = c, vsr_campaign_brief = b, vsr_objective = objective, vsr_target_duration = d,
            vsr_aspect_ratio = ratio\<rparr>
     else None}"

definition start_storyboard ::
  "coercions \<Rightarrow> call_env \<Rightarrow> uuid \<Rightarrow> leased_job \<Rightarrow> string \<Rightarrow> platform_db \<Rightarrow>
   (exn, (media_attempt_row \<times> storyboard_request \<times> version_row) option \<times> platform_db) res" where
  "start_storyboard co env k job worker db =
     and_then (required_asset k db) (\<lambda>a.
     if ma_status a = MS_READY_FOR_REVIEW then Inr (None, db)
     else and_then (required (Option.bind (ma_task_id a) (get_task db)) (not_found ''Storyboard task not found'')) (\<lambda>task.
          and_then (required (storyboard_request_of co (ta_input task)) (Exn (PyE ValueError) ''VideoStoryboardRequest'')) (\<lambda>r.
          and_then (required (Option.bind (ma_prompt_version_id a) (get_version db))
            (not_found ''Managed storyboard prompt not found'')) (\<lambda>v.
          let a' = a\<lparr>ma_status := MS_GENERATING\<rparr>;
              db1 = put_task (processing_task (env_now env) task) (put_asset a' db)
          in and_then (create_started_attempt env a' job worker db1) (\<lambda>(t, db2). Inr (Some (t, r, v), db2))))))"

definition finalize_storyboard_success ::
  "services \<Rightarrow> generation_env \<Rightarrow> uuid \<Rightarrow> uuid \<Rightarrow> leased_job \<Rightarrow> string \<Rightarrow> json \<Rightarrow> storyboard_completion \<Rightarrow> platform_db \<Rightarrow>
   (exn, unit \<times> platform_db) res" where
  "finalize_storyboard_success sv g k attempt_id job worker storyboard c =
     finalize_media sv (ge_finalize g) k attempt_id job worker
       (\<lambda>a. a\<lparr>ma_safety_status := ''READY_FOR_HUMAN_REVIEW''\<rparr>)
       (\<lambda>a t. t\<lparr>ta_result := Some storyboard, ta_input_tokens := sbc_input_tokens c,
          ta_output_tokens := sbc_output_tokens c, ta_estimated_cost := sbc_cost c\<rparr>)
       None (sbc_cost c) [(''asset_type'', JStr ''VIDEO_STORYBOARD'')]"

definition produce_storyboard ::
  "coercions \<Rightarrow> services \<Rightarrow> media_settings \<Rightarrow> formatting \<Rightarrow> generation_env \<Rightarrow> uuid \<Rightarrow> media_attempt_row \<Rightarrow>
   storyboard_request \<Rightarrow> version_row \<Rightarrow> leased_job \<Rightarrow> string \<Rightarrow> platform_db \<Rightarrow>
   (exn \<times> string option \<times> rat option, unit \<times> platform_db) res" where
  "produce_storyboard co sv ms fm g k t r v job worker db =
     and_then (knowing (None, None)
       (and_then (render_version fm [(''brief'', vsr_campaign_brief r)] v) (\<lambda>prompt.
        and_then (ge_complete g (pv_system_prompt v) prompt (storyboard_model ms)) (\<lambda>c.
        and_then (required (storyboard_of co (sbc_structured c)) (Exn (PyE ValueError) ''VideoStoryboard'')) (\<lambda>b.
        Inr (c, b)))))) (\<lambda>(c, b).
     knowing (None, Some (sbc_cost c))
       (and_then (ge_checkpoint g) (\<lambda>_. finalize_storyboard_success sv g k (mt_id t) job worker b c db)))"

definition generate_storyboard ::
  "coercions \<Rightarrow> services \<Rightarrow> media_settings \<Rightarrow> formatting \<Rightarrow> generation_env \<Rightarrow> uuid \<Rightarrow> leased_job \<Rightarrow> string \<Rightarrow>
   (platform_db, unit) session" where
  "generate_storyboard co sv ms fm g k job worker =
     and_session (atomically (start_storyboard co (ge_start g) k job worker)) (\<lambda>started.
     case started of
       None \<Rightarrow> returns ()
     | Some (t, r, v) \<Rightarrow> (\<lambda>db.
         let mid = ge_meanwhile g 0 db
         in ending_attempt g (mt_id t) worker (produce_storyboard co sv ms fm g k t r v job worker mid) mid))"

end
