(* ===== verification/Job_Lifecycle.thy ===== *)
theory Job_Lifecycle
  imports Media_Processor
begin

text \<open>
  What the end of a background job means for the rows it works on:
  \<open>JobTerminalReconciler\<close> (\<open>app/jobs/lifecycle.py\<close>), and the routes of \<open>app/api/jobs.py\<close> through which
  operators retry and cancel jobs.
\<close>

subsection \<open>Terminal reconciliation\<close>

definition task_duration :: "task_row \<Rightarrow> time \<Rightarrow> int" where
  "task_duration t now = (case ta_started_at t of None \<Rightarrow> 0 | Some s \<Rightarrow> duration_ms s now)"

definition ended_task ::
  "applied_task_status \<Rightarrow> time \<Rightarrow> string option \<Rightarrow> string option \<Rightarrow> task_row \<Rightarrow> task_row" where
  "ended_task status now code message t =
     t\<lparr>ta_status := status, ta_error_code := code, ta_error_message := message, ta_completed_at := Some now,
       ta_duration_ms := Some (task_duration t now)\<rparr>"

definition change_task :: "(task_row \<Rightarrow> task_row) \<Rightarrow> uuid option \<Rightarrow> platform_db \<Rightarrow> platform_db" where
  "change_task f k db =
     (case Option.bind k (get_task db) of None \<Rightarrow> db | Some t \<Rightarrow> put_task (f t) db)"

record terminal_cause =
  tn_cancelled :: bool
  tn_code :: "string option"
  tn_message :: "string option"

definition safe_message :: "terminal_cause \<Rightarrow> string option" where
  "safe_message c = sanitized_if_present 2000 (tn_message c)"

definition reconcile_task :: "time \<Rightarrow> terminal_cause \<Rightarrow> uuid \<Rightarrow> platform_db \<Rightarrow> platform_db" where
  "reconcile_task now c k db =
     (case get_task db k of
        None \<Rightarrow> db
      | Some t \<Rightarrow> if ta_status t \<in> {AP_COMPLETED, AP_CANCELLED} then db
          else put_task (ended_task (if tn_cancelled c then AP_CANCELLED else AP_FAILED) now (tn_code c)
            (safe_message c) t) db)"

definition settled_asset :: "asset_row \<Rightarrow> bool" where
  "settled_asset a \<longleftrightarrow> ma_status a \<in> {MS_APPROVED, MS_REJECTED, MS_READY_FOR_REVIEW}"

definition ended_asset ::
  "media_asset_status \<Rightarrow> time \<Rightarrow> string option \<Rightarrow> string option \<Rightarrow> asset_row \<Rightarrow> asset_row" where
  "ended_asset status now code message a =
     a\<lparr>ma_status := status, ma_error_code := code, ma_error_message := message, ma_completed_at := Some now\<rparr>"

definition reconcile_media :: "time \<Rightarrow> terminal_cause \<Rightarrow> uuid \<Rightarrow> platform_db \<Rightarrow> platform_db" where
  "reconcile_media now c k db =
     (let e = \<lparr>ae_status = (if tn_cancelled c then MM_CANCELLED else MM_FAILED),
              ae_code = Some (or_str (tn_code c) ''JOB_TERMINAL_RECONCILIATION''),
              ae_message = Some (or_str (safe_message c) ''Terminal job reconciled media attempt''),
              ae_provider_job_id = None, ae_cost = None\<rparr>;
          db1 = terminalize_active_attempts now k e db
      in case get_asset db1 k of
           None \<Rightarrow> db1
         | Some a \<Rightarrow> if settled_asset a then db1
             else change_task (ended_task (if tn_cancelled c then AP_CANCELLED else AP_FAILED) now (tn_code c) (safe_message c))
                    (ma_task_id a)
                    (put_asset (ended_asset (if tn_cancelled c then MS_CANCELLED else MS_FAILED) now (tn_code c)
                       (safe_message c) a) db1))"

definition reconcile_experiment :: "time \<Rightarrow> terminal_cause \<Rightarrow> uuid \<Rightarrow> platform_db \<Rightarrow> platform_db" where
  "reconcile_experiment now c k db =
     (case get_experiment db k of
        None \<Rightarrow> db
      | Some e \<Rightarrow> put_experiment (e\<lparr>pe_status := (if tn_cancelled c then PE_CANCELLED else PE_FAILED),
          pe_error_code := tn_code c, pe_error_message := safe_message c, pe_completed_at := Some now\<rparr>) db)"

definition reconcile_comparison :: "time \<Rightarrow> terminal_cause \<Rightarrow> uuid \<Rightarrow> platform_db \<Rightarrow> platform_db" where
  "reconcile_comparison now c k db =
     (case get_comparison db k of
        None \<Rightarrow> db
      | Some e \<Rightarrow> put_comparison (e\<lparr>pc_status := (if tn_cancelled c then PC_CANCELLED else PC_FAILED),
          pc_error_code := tn_code c, pc_error_message := safe_message c, pc_completed_at := Some now\<rparr>) db)"

fun reconcile_payload :: "time \<Rightarrow> terminal_cause \<Rightarrow> job_payload \<Rightarrow> platform_db \<Rightarrow> platform_db" where
  "reconcile_payload now c (DataAnalysisJobPayload k) db = reconcile_task now c k db"
| "reconcile_payload now c (DocumentProcessingJobPayload k) db = reconcile_task now c k db"
| "reconcile_payload now c (ImageGenerationJobPayload k) db = reconcile_media now c k db"
| "reconcile_payload now c (VideoStoryboardJobPayload k) db = reconcile_media now c k db"
| "reconcile_payload now c (PromptExperimentRunJobPayload k) db = reconcile_experiment now c k db"
| "reconcile_payload now c (ProviderComparisonRunJobPayload k) db = reconcile_comparison now c k db"
| "reconcile_payload now c _ db = db"

definition job_reconcile ::
  "coercions \<Rightarrow> time \<Rightarrow> leased_job \<Rightarrow> terminal_cause \<Rightarrow> platform_db \<Rightarrow> (exn, unit \<times> platform_db) res" where
  "job_reconcile co now job c db =
     and_then (validate_job_payload co (lj_job_type job) (lj_payload job)) (\<lambda>p.
     Inr ((), reconcile_payload now c p db))"

subsection \<open>Consistency after a success\<close>

fun media_payload :: "job_payload \<Rightarrow> uuid option" where
  "media_payload (ImageGenerationJobPayload k) = Some k"
| "media_payload (VideoStoryboardJobPayload k) = Some k"
| "media_payload _ = None"

definition orphaned :: "time \<Rightarrow> uuid \<Rightarrow> platform_db \<Rightarrow> platform_db" where
  "orphaned now k db =
     (let db1 = terminalize_active_attempts now k \<lparr>ae_status = MM_FAILED, ae_code = Some ''MEDIA_ATTEMPT_ORPHANED'',
            ae_message = Some ''Successful handler left an active media attempt'', ae_provider_job_id = None,
            ae_cost = None\<rparr> db;
          message = Some ''Media generation finalization was incomplete''
      in case get_asset db1 k of
           None \<Rightarrow> db1
         | Some a \<Rightarrow> change_task (ended_task AP_FAILED now (Some ''MEDIA_ATTEMPT_ORPHANED'') message) (ma_task_id a)
             (put_asset (ended_asset MS_FAILED now (Some ''MEDIA_ATTEMPT_ORPHANED'') message a) db1))"

text \<open>An inconsistent state is repaired, committed and then raised.\<close>

definition ensure_success_consistency ::
  "coercions \<Rightarrow> time \<Rightarrow> leased_job \<Rightarrow> (platform_db, bool) session" where
  "ensure_success_consistency co now job db =
     (case validate_job_payload co (lj_job_type job) (lj_payload job) of
        Inl e \<Rightarrow> (Inl e, db)
      | Inr p \<Rightarrow>
          (case media_payload p of
             None \<Rightarrow> (Inr False, db)
           | Some k \<Rightarrow>
               if find_active_attempts (Some k) None db = [] \<and>
                  (case get_asset db k of None \<Rightarrow> False | Some a \<Rightarrow> settled_asset a)
               then (Inr True, db)
               else (Inl (Exn (StoreE MediaAttemptReconciliationError)
                 ''Media handler completed without consistent terminal state''), orphaned now k db)))"

subsection \<open>Retries\<close>

definition reset_task :: "task_row \<Rightarrow> task_row" where
  "reset_task t = t\<lparr>ta_status := AP_PENDING, ta_error_code := None, ta_error_message := None, ta_completed_at := None\<rparr>"

definition retry_media :: "uuid \<Rightarrow> platform_db \<Rightarrow> platform_db" where
  "retry_media k db =
     (case get_asset db k of
        None \<Rightarrow> db
      | Some a \<Rightarrow> change_task reset_task (ma_task_id a)
          (put_asset (a\<lparr>ma_status := MS_REQUESTED, ma_error_code := None, ma_error_message := None,
             ma_completed_at := None\<rparr>) db))"

fun retry_payload :: "job_payload \<Rightarrow> platform_db \<Rightarrow> platform_db" where
  "retry_payload (DataAnalysisJobPayload k) db = change_task reset_task (Some k) db"
| "retry_payload (DocumentProcessingJobPayload k) db = change_task reset_task (Some k) db"
| "retry_payload (ImageGenerationJobPayload k) db = retry_media k db"
| "retry_payload (VideoStoryboardJobPayload k) db = retry_media k db"
| "retry_payload (PromptExperimentRunJobPayload k) db =
     (case get_experiment db k of None \<Rightarrow> db
      | Some e \<Rightarrow> put_experiment (e\<lparr>pe_status := PE_RUNNING, pe_error_code := None, pe_error_message := None,
          pe_completed_at := None\<rparr>) db)"
| "retry_payload (ProviderComparisonRunJobPayload k) db =
     (case get_comparison db k of None \<Rightarrow> db
      | Some e \<Rightarrow> put_comparison (e\<lparr>pc_status := PC_RUNNING, pc_error_code := None, pc_error_message := None,
          pc_completed_at := None\<rparr>) db)"
| "retry_payload _ db = db"

definition prepare_retry :: "coercions \<Rightarrow> leased_job \<Rightarrow> platform_db \<Rightarrow> (exn, unit \<times> platform_db) res" where
  "prepare_retry co job db =
     and_then (validate_job_payload co (lj_job_type job) (lj_payload job)) (\<lambda>p. Inr ((), retry_payload p db))"

subsection \<open>The routes of operators\<close>

text \<open>\<open>app/api/jobs.py\<close>: the view of a job as a leased one, and the two routes in their transactions.\<close>

definition leased_view :: "job_row \<Rightarrow> leased_job option" where
  "leased_view j = map_option (\<lambda>l. l\<lparr>lj_attempt_count := max (lj_attempt_count l) 1, lj_max_attempts := max (lj_max_attempts l) 1\<rparr>)
     (leased_of j)"

definition viewed :: "job_row \<Rightarrow> (exn, leased_job) res" where
  "viewed j = required (leased_view j) (Exn (PyE ValueError) ''JobType'')"

text \<open>\<open>record_operator_action\<close> (\<open>app/operations/audit.py\<close>), in a transaction of its own; the
  metadata of the event is left out.\<close>

definition record_operator_action :: "authenticated_actor \<Rightarrow> string \<Rightarrow> (platform_db, unit) session" where
  "record_operator_action actor action = atomically (\<lambda>db.
     let who = strip (actor_id actor) in
     if 200 < length who then Inl (Exn (PyE ValueError) ''SecurityEvent'')
     else Inr ((), db\<lparr>pd_security_events := pd_security_events db @
       [\<lparr>sx_event_type = SE_OPERATOR_ACTION, sx_severity = SV_LOW, sx_actor_id = Some who, sx_resource_type = None,
         sx_resource_id = None, sx_source = ''operator-api'', sx_message = ''Operator performed '' @ action\<rparr>]\<rparr>))"

definition retry_route :: "coercions \<Rightarrow> time \<Rightarrow> uuid \<Rightarrow> authenticated_actor \<Rightarrow> (platform_db, unit) session" where
  "retry_route co now k actor =
     and_session (atomically (\<lambda>db. and_then (require_operator actor) (\<lambda>_. in_queue (repo_retry now k) db))) (\<lambda>j.
     and_session (atomically (\<lambda>db. and_then (viewed j) (\<lambda>l. prepare_retry co l db))) (\<lambda>_.
     record_operator_action actor ''job_retry''))"

definition cancel_route :: "coercions \<Rightarrow> time \<Rightarrow> uuid \<Rightarrow> authenticated_actor \<Rightarrow> (platform_db, unit) session" where
  "cancel_route co now k actor =
     and_session (atomically (\<lambda>db. and_then (require_operator actor) (\<lambda>_. in_queue (repo_cancel now k) db))) (\<lambda>j.
     and_session
       (if j_status j = JS_CANCELLED then
          atomically (\<lambda>db. and_then (viewed j) (\<lambda>l. job_reconcile co now l
            \<lparr>tn_cancelled = True, tn_code = Some ''JOB_CANCELLED'', tn_message = Some ''Background job was cancelled''\<rparr> db))
        else returns ()) (\<lambda>_.
     record_operator_action actor ''job_cancel''))"

end
