(* ===== verification/Media_Steps.thy ===== *)
theory Media_Steps
  imports Job_Lifecycle
begin

text \<open>
  The histories of the media assets. Every transaction of requests, generations, reviews and of
  the reconciliation of jobs is a step, in any order; beside the tables a state keeps the
  reviewers whose decisions were recorded. The invariant says what stands behind an asset that
  is ready, approved or rejected.
\<close>

record media_state =
  md_db :: platform_db
  md_decisions :: "(uuid \<times> authenticated_actor) list"

text \<open>A generation finalises the attempt it has started for its asset.\<close>

definition attempt_of :: "uuid \<Rightarrow> uuid \<Rightarrow> platform_db \<Rightarrow> bool" where
  "attempt_of attempt_id k db \<longleftrightarrow> (\<exists>t. get_media_attempt db attempt_id = Some t \<and> mt_asset_id t = k)"

inductive media_step :: "media_state \<Rightarrow> media_state \<Rightarrow> bool" where
  MS_image: "request_image co h st ms fm env d actor key (md_db s) = Inr (a, db') \<Longrightarrow>
     env_row_id env \<notin> ma_id ` set (pd_assets (md_db s)) \<Longrightarrow> media_step s (s\<lparr>md_db := db'\<rparr>)"
| MS_storyboard: "request_storyboard co h st ms fm env d actor (md_db s) = Inr (a, db') \<Longrightarrow>
     env_row_id env \<notin> ma_id ` set (pd_assets (md_db s)) \<Longrightarrow> media_step s (s\<lparr>md_db := db'\<rparr>)"
| MS_start_image: "start_image_attempt env k job worker (md_db s) = Inr (r, db') \<Longrightarrow>
     env_row_id env \<notin> mt_id ` set (pd_attempts (md_db s)) \<Longrightarrow> media_step s (s\<lparr>md_db := db'\<rparr>)"
| MS_start_storyboard: "start_storyboard co env k job worker (md_db s) = Inr (r', db') \<Longrightarrow>
     env_row_id env \<notin> mt_id ` set (pd_attempts (md_db s)) \<Longrightarrow> media_step s (s\<lparr>md_db := db'\<rparr>)"
| MS_finalize_image: "finalize_image_success sv g k attempt_id job worker uri i (md_db s) = Inr ((), db') \<Longrightarrow>
     attempt_of attempt_id k (md_db s) \<Longrightarrow> media_step s (s\<lparr>md_db := db'\<rparr>)"
| MS_finalize_storyboard: "finalize_storyboard_success sv g k attempt_id job worker b c (md_db s) = Inr ((), db') \<Longrightarrow>
     attempt_of attempt_id k (md_db s) \<Longrightarrow> media_step s (s\<lparr>md_db := db'\<rparr>)"
| MS_finish: "media_step s (s\<lparr>md_db := finish_media_attempt now k worker e provider_job cost (md_db s)\<rparr>)"
| MS_review: "review_asset sv env k d' actor (md_db s) = Inr (a, db') \<Longrightarrow>
     media_step s (s\<lparr>md_db := db', md_decisions := (k, actor) # md_decisions s\<rparr>)"
| MS_reconcile: "job_reconcile co now job cause (md_db s) = Inr ((), db') \<Longrightarrow> media_step s (s\<lparr>md_db := db'\<rparr>)"
| MS_consistency: "ensure_success_consistency co now job (md_db s) = (r'', db') \<Longrightarrow> media_step s (s\<lparr>md_db := db'\<rparr>)"
| MS_retry: "prepare_retry co job (md_db s) = Inr ((), db') \<Longrightarrow> media_step s (s\<lparr>md_db := db'\<rparr>)"
| MS_elsewhere: "pd_assets db' = pd_assets (md_db s) \<Longrightarrow> pd_attempts db' = pd_attempts (md_db s) \<Longrightarrow>
     pd_reviews db' = pd_reviews (md_db s) \<Longrightarrow> media_step s (s\<lparr>md_db := db'\<rparr>)"

inductive media_history :: "media_state \<Rightarrow> bool" where
  MH_empty: "pd_assets db = [] \<Longrightarrow> pd_attempts db = [] \<Longrightarrow> pd_reviews db = [] \<Longrightarrow>
     media_history \<lparr>md_db = db, md_decisions = []\<rparr>"
| MH_step: "media_history s \<Longrightarrow> media_step s s' \<Longrightarrow> media_history s'"

subsection \<open>The invariant\<close>

definition reviewer_roles :: "user_role list" where
  "reviewer_roles = [UR_REVIEWER, UR_MANAGER, UR_ADMIN]"

definition decided_by ::
  "media_review_row list \<Rightarrow> (uuid \<times> authenticated_actor) list \<Rightarrow> uuid \<Rightarrow> string option \<Rightarrow> bool \<Rightarrow> bool" where
  "decided_by rs gs k who approve \<longleftrightarrow>
     (\<exists>p. who = Some (actor_id p) \<and> actor_role p \<in> set reviewer_roles \<and> (k, p) \<in> set gs \<and>
        (\<exists>v \<in> set rs. mv_asset_id v = k \<and> mv_actor_id v = actor_id p \<and> mv_decision v = decision_value approve))"

definition generated :: "media_attempt_row list \<Rightarrow> uuid \<Rightarrow> bool" where
  "generated ts k \<longleftrightarrow> (\<exists>t \<in> set ts. mt_asset_id t = k \<and> mt_status t = MM_COMPLETED)"

definition asset_ok ::
  "media_attempt_row list \<Rightarrow> media_review_row list \<Rightarrow> (uuid \<times> authenticated_actor) list \<Rightarrow> asset_row \<Rightarrow> bool" where
  "asset_ok ts rs gs a \<longleftrightarrow>
     (settled_asset a \<longrightarrow> generated ts (ma_id a)) \<and>
     (ma_status a = MS_APPROVED \<longrightarrow> decided_by rs gs (ma_id a) (ma_approved_by a) True) \<and>
     (ma_status a = MS_REJECTED \<longrightarrow> decided_by rs gs (ma_id a) (ma_rejected_by a) False)"

definition media_attempt_ok :: "media_attempt_row \<Rightarrow> bool" where
  "media_attempt_ok t \<longleftrightarrow> (mt_status t = MM_STARTED \<longleftrightarrow> mt_completed_at t = None)"

definition review_key :: "media_review_row \<Rightarrow> uuid \<times> string" where
  "review_key v = (mv_asset_id v, mv_actor_id v)"

definition media_rows_inv :: "platform_db \<Rightarrow> (uuid \<times> authenticated_actor) list \<Rightarrow> bool" where
  "media_rows_inv db gs \<longleftrightarrow>
     distinct (map ma_id (pd_assets db)) \<and> distinct (map mt_id (pd_attempts db)) \<and>
     distinct (map review_key (pd_reviews db)) \<and>
     (\<forall>t \<in> set (pd_attempts db). media_attempt_ok t) \<and>
     (\<forall>a \<in> set (pd_assets db). asset_ok (pd_attempts db) (pd_reviews db) gs a)"

definition media_inv :: "media_state \<Rightarrow> bool" where
  "media_inv s = media_rows_inv (md_db s) (md_decisions s)"

lemma media_rows_inv_cong:
  "pd_assets db' = pd_assets db \<Longrightarrow> pd_attempts db' = pd_attempts db \<Longrightarrow> pd_reviews db' = pd_reviews db \<Longrightarrow>
   media_rows_inv db' gs = media_rows_inv db gs"
  by (simp add: media_rows_inv_def)

lemma asset_ok_unsettled: "\<not> settled_asset a \<Longrightarrow> asset_ok ts rs gs a"
  by (auto simp: asset_ok_def settled_asset_def)

lemma asset_ok_more:
  assumes "asset_ok ts rs gs a" and "\<And>k. generated ts k \<Longrightarrow> generated ts' k" and "set rs \<subseteq> set rs'" and "set gs \<subseteq> set gs'"
  shows "asset_ok ts' rs' gs' a"
proof -
  have "decided_by rs' gs' k w b" if "decided_by rs gs k w b" for k w b
    using that assms(3,4) unfolding decided_by_def by blast
  with assms(1,2) show ?thesis unfolding asset_ok_def by blast
qed

text \<open>Writing an asset, writing attempts, and adding rows.\<close>

lemma inv_put_asset:
  assumes inv: "media_rows_inv db gs" and a: "get_asset db (ma_id a') = Some a"
    and ok: "asset_ok (pd_attempts db) (pd_reviews db) gs a'"
  shows "media_rows_inv (put_asset a' db) gs"
proof -
  have d: "distinct (map ma_id (pd_assets db))" using inv by (simp add: media_rows_inv_def)
  from t_get_SomeD [OF a] have "a \<in> set (pd_assets db)" "ma_id a = ma_id a'" by auto
  then have "x \<in> set (pd_assets (put_asset a' db)) \<longleftrightarrow> x = a' \<or> (x \<in> set (pd_assets db) \<and> ma_id x \<noteq> ma_id a')" for x
    using set_t_put_iff [OF d] by (simp add: put_asset_def)
  moreover have "map ma_id (pd_assets (put_asset a' db)) = map ma_id (pd_assets db)"
    and "pd_attempts (put_asset a' db) = pd_attempts db" and "pd_reviews (put_asset a' db) = pd_reviews db"
    by (simp_all add: put_asset_def)
  ultimately show ?thesis
    using inv ok unfolding media_rows_inv_def Ball_def by metis
qed

lemma inv_attempts:
  assumes inv: "media_rows_inv db gs" and "pd_assets db' = pd_assets db" and "pd_reviews db' = pd_reviews db"
    and "distinct (map mt_id (pd_attempts db'))" and "\<And>t. t \<in> set (pd_attempts db') \<Longrightarrow> media_attempt_ok t"
    and "\<And>k. generated (pd_attempts db) k \<Longrightarrow> generated (pd_attempts db') k"
  shows "media_rows_inv db' gs"
  using assms asset_ok_more [OF _ assms(6) subset_refl subset_refl] unfolding media_rows_inv_def by metis

lemma inv_new_asset:
  assumes "media_rows_inv db gs" and "ma_id a \<notin> ma_id ` set (pd_assets db)" and "\<not> settled_asset a"
    and "pd_assets db' = pd_assets db @ [a]" and "pd_attempts db' = pd_attempts db" and "pd_reviews db' = pd_reviews db"
  shows "media_rows_inv db' gs"
  using assms asset_ok_unsettled [OF assms(3)] by (auto simp: media_rows_inv_def)

lemma inv_map_attempts:
  assumes inv: "media_rows_inv db gs" and ts: "pd_attempts db' = map f (pd_attempts db)"
    and same: "pd_assets db' = pd_assets db" "pd_reviews db' = pd_reviews db"
    and f: "\<And>t. t \<in> set (pd_attempts db) \<Longrightarrow>
      f t = t \<or> (mt_status t = MM_STARTED \<and> mt_id (f t) = mt_id t \<and> media_attempt_ok (f t))"
  shows "media_rows_inv db' gs"
proof (rule inv_attempts [OF inv same])
  have "map mt_id (map f (pd_attempts db)) = map mt_id (pd_attempts db)"
    using f by (auto simp: map_eq_conv) metis
  then show "distinct (map mt_id (pd_attempts db'))" using inv unfolding ts media_rows_inv_def by metis
  show "media_attempt_ok t" if t: "t \<in> set (pd_attempts db')" for t
  proof -
    from t ts obtain t0 where "t0 \<in> set (pd_attempts db)" "t = f t0" by auto
    with f [of t0] inv show ?thesis unfolding media_rows_inv_def by metis
  qed
  show "generated (pd_attempts db') k" if g: "generated (pd_attempts db) k" for k
  proof -
    from g obtain t where t: "t \<in> set (pd_attempts db)" "mt_asset_id t = k" "mt_status t = MM_COMPLETED"
      by (auto simp: generated_def)
    with f [OF t(1)] have "f t = t" by auto
    with t show ?thesis unfolding generated_def ts by force
  qed
qed

lemma apply_terminal_ok:
  "ae_status e \<noteq> MM_STARTED \<Longrightarrow> media_attempt_ok (apply_terminal_values now e t)"
  "mt_id (apply_terminal_values now e t) = mt_id t"
  by (simp_all add: media_attempt_ok_def apply_terminal_values_def)

lemma mark_terminal_rows [simp]:
  "pd_assets (snd (mark_terminal now k w e db)) = pd_assets db"
  "pd_reviews (snd (mark_terminal now k w e db)) = pd_reviews db"
  "pd_tasks (snd (mark_terminal now k w e db)) = pd_tasks db"
  "pd_queue (snd (mark_terminal now k w e db)) = pd_queue db"
  by (auto simp: mark_terminal_def put_media_attempt_def split: option.splits)

lemma mark_terminal_inv:
  assumes inv: "media_rows_inv db gs" and e: "ae_status e \<noteq> MM_STARTED"
  shows "media_rows_inv (snd (mark_terminal now k w e db)) gs"
proof (cases "fst (mark_terminal now k w e db) = MU_UPDATED")
  case True
  then obtain a where a: "get_media_attempt db k = Some a" "mt_status a = MM_STARTED"
    and db': "snd (mark_terminal now k w e db) = put_media_attempt (apply_terminal_values now e a) db"
    by (auto simp: mark_terminal_def split: option.splits if_splits)
  have d: "distinct (map mt_id (pd_attempts db))" using inv by (simp add: media_rows_inv_def)
  from t_get_SomeD [OF a(1)] have k: "a \<in> set (pd_attempts db)" "mt_id a = k" by auto
  let ?f = "\<lambda>x. if mt_id x = k then apply_terminal_values now e a else x"
  have "pd_attempts (put_media_attempt (apply_terminal_values now e a) db) = map ?f (pd_attempts db)"
    by (simp add: put_media_attempt_def t_put_def apply_terminal_ok(2) k(2))
  then show ?thesis unfolding db'
  proof (rule inv_map_attempts [OF inv])
    fix t assume t: "t \<in> set (pd_attempts db)"
    show "?f t = t \<or> (mt_status t = MM_STARTED \<and> mt_id (?f t) = mt_id t \<and> media_attempt_ok (?f t))"
    proof (cases "mt_id t = k")
      case True
      then have "t = a" using d t k by (auto simp: distinct_map inj_on_def)
      then show ?thesis using a(2) apply_terminal_ok(1) [OF e] apply_terminal_ok(2) by auto
    qed simp
  qed (simp_all add: put_media_attempt_def)
next
  case False
  then have "snd (mark_terminal now k w e db) = db"
    by (auto simp: mark_terminal_def split: option.splits if_splits)
  then show ?thesis using inv by simp
qed

lemma terminalize_inv:
  assumes inv: "media_rows_inv db gs" and e: "ae_status e \<noteq> MM_STARTED"
  shows "media_rows_inv (terminalize_active_attempts now k e db) gs"
  using apply_terminal_ok(1) [OF e] apply_terminal_ok(2)
  by (intro inv_map_attempts [OF inv, where f = "\<lambda>a. if mt_asset_id a = k \<and> mt_status a = MM_STARTED
        then apply_terminal_values now e a else a"]) (auto simp: terminalize_active_attempts_def)

lemma finish_media_attempt_inv:
  "media_rows_inv db gs \<Longrightarrow> media_rows_inv (finish_media_attempt now k w e pj cost db) gs"
  by (cases "safe_media_error e (if was_cancelled e then MM_CANCELLED else MM_FAILED)")
    (simp add: finish_media_attempt_def Let_def mark_terminal_inv)

text \<open>Operations that leave the media alone.\<close>

definition same_media :: "platform_db \<Rightarrow> platform_db \<Rightarrow> bool" where
  "same_media db db' \<longleftrightarrow>
     pd_assets db' = pd_assets db \<and> pd_attempts db' = pd_attempts db \<and> pd_reviews db' = pd_reviews db"

lemma same_media_inv: "same_media db db' \<Longrightarrow> media_rows_inv db gs \<Longrightarrow> media_rows_inv db' gs"
  by (simp add: same_media_def media_rows_inv_def)

lemma same_media_task [simp]:
  "same_media db (put_task t db)" "same_media db (start_task now k db)" "same_media db (change_task f k db)"
  by (auto simp: same_media_def put_task_def start_task_def change_task_def split: option.splits)

lemma enqueue_keyed_media: "enqueue_keyed co h st env r db = Inr (j, db') \<Longrightarrow> same_media db db'"
  by (auto simp: enqueue_keyed_def in_queue_def same_media_def result_simps split: if_splits)

lemma platform_event_media: "platform_event sv env r db = Inr db' \<Longrightarrow> same_media db db'"
  by (auto simp: platform_event_def same_media_def result_simps)

lemma same_media_refl: "same_media db db"
  by (simp add: same_media_def)

lemma same_media_trans: "same_media a b \<Longrightarrow> same_media b c \<Longrightarrow> same_media a c"
  by (simp add: same_media_def)

subsection \<open>Every step keeps it\<close>

lemma request_image_rows:
  assumes "request_image co h st ms fm env d actor key db = Inr (a, db')"
  shows "db' = db \<or> (ma_id a = env_row_id env \<and> ma_status a = MS_REQUESTED \<and>
     pd_assets db' = pd_assets db @ [a] \<and> pd_attempts db' = pd_attempts db \<and> pd_reviews db' = pd_reviews db)"
  using assms
  by (auto simp: request_image_def Let_def result_simps image_asset_def new_asset_def same_media_def
      dest!: enqueue_keyed_media split: option.splits)

lemma request_storyboard_rows:
  assumes "request_storyboard co h st ms fm env d actor db = Inr (a, db')"
  shows "ma_id a = env_row_id env \<and> ma_status a = MS_REQUESTED \<and>
     pd_assets db' = pd_assets db @ [a] \<and> pd_attempts db' = pd_attempts db \<and> pd_reviews db' = pd_reviews db"
  using assms
  by (auto simp: request_storyboard_def Let_def result_simps storyboard_asset_def new_asset_def same_media_def
      dest!: enqueue_keyed_media)

lemma create_started_attempt_inv:
  assumes inv: "media_rows_inv db gs" and new: "env_row_id env \<notin> mt_id ` set (pd_attempts db)"
    and c: "create_started_attempt env a job worker db = Inr (t, db')"
  shows "media_rows_inv db' gs"
proof -
  have t: "mt_id t = env_row_id env" "media_attempt_ok t" and ts: "pd_attempts db' = pd_attempts db @ [t]"
    and same: "pd_assets db' = pd_assets db" "pd_reviews db' = pd_reviews db"
    using c by (auto simp: create_started_attempt_def Let_def result_simps started_attempt_def media_attempt_ok_def)
  show ?thesis
    using inv new t by (intro inv_attempts [OF inv same]) (auto simp: ts media_rows_inv_def generated_def)
qed

lemma generating_inv:
  assumes inv: "media_rows_inv db gs" and a: "get_asset db k = Some a"
    and a': "ma_id a' = ma_id a" "ma_status a' = MS_GENERATING"
  shows "media_rows_inv (put_asset a' db) gs"
proof (rule inv_put_asset [OF inv])
  show "get_asset db (ma_id a') = Some a" using a a'(1) t_get_SomeD [OF a] by simp
  show "asset_ok (pd_attempts db) (pd_reviews db) gs a'"
    by (rule asset_ok_unsettled) (simp add: settled_asset_def a'(2))
qed

lemma put_asset_attempts [simp]: "pd_attempts (put_asset a db) = pd_attempts db" "pd_reviews (put_asset a db) = pd_reviews db"
  by (simp_all add: put_asset_def)

lemma start_image_attempt_inv:
  assumes inv: "media_rows_inv db gs" and new: "env_row_id env \<notin> mt_id ` set (pd_attempts db)"
    and s: "start_image_attempt env k job worker db = Inr (r, db')"
  shows "media_rows_inv db' gs"
proof (cases "db' = db")
  case False
  with s obtain a t where a: "get_asset db k = Some a"
    and c: "create_started_attempt env (a\<lparr>ma_status := MS_GENERATING, ma_error_code := None, ma_error_message := None\<rparr>)
        job worker (start_task (env_now env) (ma_task_id a)
          (put_asset (a\<lparr>ma_status := MS_GENERATING, ma_error_code := None, ma_error_message := None\<rparr>) db)) = Inr (t, db')"
    by (auto simp: start_image_attempt_def required_asset_def result_simps Let_def split: if_splits)
  show ?thesis
  proof (rule create_started_attempt_inv [OF _ _ c])
    show "media_rows_inv (start_task (env_now env) (ma_task_id a)
        (put_asset (a\<lparr>ma_status := MS_GENERATING, ma_error_code := None, ma_error_message := None\<rparr>) db)) gs"
      by (rule same_media_inv [OF same_media_task(2) generating_inv [OF inv a]]) simp_all
    show "env_row_id env \<notin> mt_id ` set (pd_attempts (start_task (env_now env) (ma_task_id a)
        (put_asset (a\<lparr>ma_status := MS_GENERATING, ma_error_code := None, ma_error_message := None\<rparr>) db)))"
      using new same_media_task(2) by (simp add: same_media_def)
  qed
qed (simp add: inv)

lemma start_storyboard_inv:
  assumes inv: "media_rows_inv db gs" and new: "env_row_id env \<notin> mt_id ` set (pd_attempts db)"
    and s: "start_storyboard co env k job worker db = Inr (r, db')"
  shows "media_rows_inv db' gs"
proof (cases "db' = db")
  case False
  with s obtain a t task where a: "get_asset db k = Some a"
    and c: "create_started_attempt env (a\<lparr>ma_status := MS_GENERATING\<rparr>) job worker
        (put_task (processing_task (env_now env) task) (put_asset (a\<lparr>ma_status := MS_GENERATING\<rparr>) db)) = Inr (t, db')"
    by (auto simp: start_storyboard_def required_asset_def result_simps Let_def split: if_splits)
  show ?thesis
  proof (rule create_started_attempt_inv [OF _ _ c])
    show "media_rows_inv (put_task (processing_task (env_now env) task) (put_asset (a\<lparr>ma_status := MS_GENERATING\<rparr>) db)) gs"
      by (rule same_media_inv [OF same_media_task(1) generating_inv [OF inv a]]) simp_all
    show "env_row_id env \<notin> mt_id ` set (pd_attempts
        (put_task (processing_task (env_now env) task) (put_asset (a\<lparr>ma_status := MS_GENERATING\<rparr>) db)))"
      using new same_media_task(1) by (simp add: same_media_def)
  qed
qed (simp add: inv)

lemma mark_terminal_cong:
  "pd_attempts db' = pd_attempts db \<Longrightarrow>
   fst (mark_terminal now k w e db') = fst (mark_terminal now k w e db) \<and>
   pd_attempts (snd (mark_terminal now k w e db')) = pd_attempts (snd (mark_terminal now k w e db))"
  by (simp add: mark_terminal_def put_media_attempt_def split: option.splits)

lemma finalize_media_Inr:
  assumes "finalize_media sv env k attempt_id job worker fa ft pj cost extra db = Inr ((), db')"
  shows "\<exists>a t e a'. get_asset db k = Some a \<and> get_media_attempt db attempt_id = Some t \<and>
     attempt_current job worker t \<and> ma_status a = MS_GENERATING \<and>
     a' = (fa a)\<lparr>ma_status := MS_READY_FOR_REVIEW, ma_completed_at := Some (env_now env)\<rparr> \<and> ae_status e = MM_COMPLETED \<and>
     pd_assets db' = pd_assets (put_asset a' db) \<and> pd_reviews db' = pd_reviews db \<and>
     pd_attempts db' = pd_attempts (snd (mark_terminal (env_now env) attempt_id (Some worker) e db)) \<and>
     fst (mark_terminal (env_now env) attempt_id (Some worker) e db) = MU_UPDATED"
proof -
  let ?e = "\<lparr>ae_status = MM_COMPLETED, ae_code = None, ae_message = None, ae_provider_job_id = pj, ae_cost = Some cost\<rparr>"
  let ?now = "env_now env"
  from assms obtain a t task where at: "get_asset db k = Some a" "get_media_attempt db attempt_id = Some t"
    "attempt_current job worker t" "ma_status a = MS_GENERATING" "finalization_task a db = Inr task"
    by (auto simp: finalize_media_def Let_def result_simps)
  define a' where "a' = (fa a)\<lparr>ma_status := MS_READY_FOR_REVIEW, ma_completed_at := Some ?now\<rparr>"
  define db2 where "db2 = (case task of None \<Rightarrow> put_asset a' db
     | Some x \<Rightarrow> put_task ((ft a' x)\<lparr>ta_status := AP_COMPLETED, ta_completed_at := Some ?now,
         ta_duration_ms := Some (case ta_started_at x of None \<Rightarrow> 0 | Some s \<Rightarrow> duration_ms s ?now)\<rparr>) (put_asset a' db))"
  obtain r db3 where m: "mark_terminal ?now attempt_id (Some worker) ?e db2 = (r, db3)" by fastforce
  from assms at have "and_then (require (r = MU_UPDATED) (conflict_state ''Media attempt could not be completed'')) (\<lambda>_.
      and_then (platform_event sv env (ready_event k extra) db3) (\<lambda>db4. Inr ((), db4))) = Inr ((), db')"
    using m unfolding finalize_media_def Let_def a'_def db2_def by (auto simp: result_simps split: option.splits)
  then obtain r': "r = MU_UPDATED" and e: "platform_event sv env (ready_event k extra) db3 = Inr db'"
    by (auto simp: result_simps)
  have "same_media (put_asset a' db) db2"
    by (auto simp: db2_def same_media_refl split: option.splits)
  then have rows: "pd_assets db2 = pd_assets (put_asset a' db)" "pd_reviews db2 = pd_reviews db" "pd_attempts db2 = pd_attempts db"
    by (simp_all add: same_media_def)
  have "db3 = snd (mark_terminal ?now attempt_id (Some worker) ?e db2)" by (simp add: m)
  with platform_event_media [OF e] rows mark_terminal_cong [OF rows(3), of ?now attempt_id "Some worker" ?e]
  have "pd_assets db' = pd_assets (put_asset a' db)" "pd_reviews db' = pd_reviews db"
    "pd_attempts db' = pd_attempts (snd (mark_terminal ?now attempt_id (Some worker) ?e db))"
    by (simp_all add: same_media_def)
  moreover have "fst (mark_terminal ?now attempt_id (Some worker) ?e db) = MU_UPDATED"
    using mark_terminal_cong [OF rows(3), of ?now attempt_id "Some worker" ?e] m r' by simp
  moreover have "ae_status ?e = MM_COMPLETED" by simp
  ultimately show ?thesis using at(1-4) a'_def by blast
qed

lemma finalize_media_inv:
  assumes inv: "media_rows_inv db gs" and of_k: "attempt_of attempt_id k db"
    and f: "finalize_media sv env k attempt_id job worker fa ft pj cost extra db = Inr ((), db')"
    and fa: "\<And>a. ma_id (fa a) = ma_id a"
  shows "media_rows_inv db' gs"
proof -
  let ?now = "env_now env"
  from finalize_media_Inr [OF f] obtain a t e a' where a: "get_asset db k = Some a"
    and t: "get_media_attempt db attempt_id = Some t" "attempt_current job worker t"
    and a': "a' = (fa a)\<lparr>ma_status := MS_READY_FOR_REVIEW, ma_completed_at := Some ?now\<rparr>" and e: "ae_status e = MM_COMPLETED"
    and rows: "pd_assets db' = pd_assets (put_asset a' db)" "pd_reviews db' = pd_reviews db"
      "pd_attempts db' = pd_attempts (snd (mark_terminal ?now attempt_id (Some worker) e db))"
    and u: "fst (mark_terminal ?now attempt_id (Some worker) e db) = MU_UPDATED"
    by blast
  let ?db = "snd (mark_terminal ?now attempt_id (Some worker) e db)"
  have inv': "media_rows_inv ?db gs" by (rule mark_terminal_inv [OF inv]) (simp add: e)
  have k: "ma_id a = k" using t_get_SomeD [OF a] by simp
  have done': "get_media_attempt ?db attempt_id = Some (apply_terminal_values ?now e t)"
    using t u t_get_SomeD [OF t(1)]
    by (auto simp: mark_terminal_def put_media_attempt_def apply_terminal_ok(2) media_attempt_table.get_put_same split: if_splits)
  have "mt_asset_id t = k" using of_k t(1) by (simp add: attempt_of_def)
  then have "generated (pd_attempts ?db) k"
    using t_get_SomeD [OF done'] e unfolding generated_def
    by (intro bexI [of _ "apply_terminal_values ?now e t"]) (auto simp: apply_terminal_values_def)
  then have "asset_ok (pd_attempts ?db) (pd_reviews ?db) gs a'"
    using k fa by (simp add: asset_ok_def a')
  moreover have "get_asset ?db (ma_id a') = Some a" using a k fa by (simp add: a')
  ultimately have "media_rows_inv (put_asset a' ?db) gs" by (intro inv_put_asset [OF inv'])
  then show ?thesis using media_rows_inv_cong [of db' "put_asset a' ?db"] rows by (simp add: put_asset_def)
qed

lemma record_acceptance_media [simp]: "same_media db (record_acceptance b k db)"
  by (simp add: same_media_def record_acceptance_def split: option.splits)

lemma inv_new_review:
  assumes inv: "media_rows_inv db gs" and v: "review_key v \<notin> review_key ` set (pd_reviews db)"
    and db': "pd_assets db' = pd_assets db" "pd_attempts db' = pd_attempts db" "pd_reviews db' = pd_reviews db @ [v]"
    and gs: "set gs \<subseteq> set gs'"
  shows "media_rows_inv db' gs'"
proof -
  have "asset_ok (pd_attempts db) (pd_reviews db @ [v]) gs' a" if "a \<in> set (pd_assets db)" for a
  proof (rule asset_ok_more [of "pd_attempts db" "pd_reviews db" gs])
    show "asset_ok (pd_attempts db) (pd_reviews db) gs a" using inv that by (simp add: media_rows_inv_def)
  qed (simp_all add: gs subset_insertI)
  then show ?thesis using inv v by (simp add: media_rows_inv_def db')
qed

text \<open>A key that is unique finds one row.\<close>

lemma filter_unique_key:
  "distinct (map f xs) \<Longrightarrow> x \<in> set xs \<Longrightarrow> filter (\<lambda>y. f y = f x) xs = [x]"
proof (induction xs)
  case (Cons y ys)
  then show ?case
  proof (cases "y = x")
    case True
    with Cons.prems(1) have "\<forall>z \<in> set ys. f z \<noteq> f x" by (force simp: image_iff)
    with True show ?thesis by simp
  qed auto
qed simp

lemma review_asset_Inr:
  assumes "review_asset sv env k d actor db = Inr (x, db')"
  obtains a where "actor_role actor \<in> set reviewer_roles" "get_asset db k = Some a"
    "ma_status a = MS_READY_FOR_REVIEW"
    "list_all (\<lambda>v. (mv_asset_id v, mv_actor_id v) \<noteq> (k, actor_id actor)) (pd_reviews db)"
    "platform_event sv env (review_event k (mrr_approve d))
      ((put_asset (reviewed_asset (env_now env) d (actor_id actor) a) (record_acceptance (mrr_approve d) (ma_task_id a) db))
       \<lparr>pd_reviews := pd_reviews (put_asset (reviewed_asset (env_now env) d (actor_id actor) a)
          (record_acceptance (mrr_approve d) (ma_task_id a) db)) @ [new_review env k d (actor_id actor)]\<rparr>) = Inr db'"
proof -
  note e = assms [unfolded review_asset_def Let_def and_then_Inr_iff require_iff sum.inject prod.inject]
  from e obtain a db2 where role: "actor_role actor \<in> {UR_REVIEWER, UR_MANAGER, UR_ADMIN}"
    and a: "required_asset k db = Inr a" and s: "ma_status a = MS_READY_FOR_REVIEW"
    and n: "list_all (\<lambda>v. (mv_asset_id v, mv_actor_id v) \<noteq> (k, actor_id actor)) (pd_reviews db)"
    and p: "platform_event sv env (review_event k (mrr_approve d))
      ((put_asset (reviewed_asset (env_now env) d (actor_id actor) a) (record_acceptance (mrr_approve d) (ma_task_id a) db))
       \<lparr>pd_reviews := pd_reviews (put_asset (reviewed_asset (env_now env) d (actor_id actor) a)
          (record_acceptance (mrr_approve d) (ma_task_id a) db)) @ [new_review env k d (actor_id actor)]\<rparr>) = Inr db2"
    and db2: "db2 = db'"
    by (elim exE conjE) simp
  have "get_asset db k = Some a" using a by (simp add: required_asset_def required_iff)
  moreover have "actor_role actor \<in> set reviewer_roles" using role by (simp add: reviewer_roles_def)
  ultimately show thesis using that s n p db2 by blast
qed

lemma review_asset_inv:
  assumes inv: "media_rows_inv db gs" and r: "review_asset sv env k d actor db = Inr (x, db')"
  shows "media_rows_inv db' ((k, actor) # gs)"
proof -
  let ?v = "new_review env k d (actor_id actor)"
  from review_asset_Inr [OF r] obtain a where role: "actor_role actor \<in> set reviewer_roles" and a: "get_asset db k = Some a"
    and ready: "ma_status a = MS_READY_FOR_REVIEW"
    and new: "list_all (\<lambda>v. (mv_asset_id v, mv_actor_id v) \<noteq> (k, actor_id actor)) (pd_reviews db)"
    and e: "platform_event sv env (review_event k (mrr_approve d))
      ((put_asset (reviewed_asset (env_now env) d (actor_id actor) a) (record_acceptance (mrr_approve d) (ma_task_id a) db))
       \<lparr>pd_reviews := pd_reviews (put_asset (reviewed_asset (env_now env) d (actor_id actor) a)
          (record_acceptance (mrr_approve d) (ma_task_id a) db)) @ [?v]\<rparr>) = Inr db'"
    by blast
  let ?a' = "reviewed_asset (env_now env) d (actor_id actor) a"
  let ?db = "db\<lparr>pd_reviews := pd_reviews db @ [?v]\<rparr>"
  have k: "ma_id a = k" and in_db: "a \<in> set (pd_assets db)" using t_get_SomeD [OF a] by auto
  have inv1: "media_rows_inv ?db ((k, actor) # gs)"
    using new by (intro inv_new_review [OF inv, of ?v]) (auto simp: review_key_def new_review_def list_all_iff)
  have "asset_ok (pd_attempts db) (pd_reviews db) gs a" using inv in_db by (simp add: media_rows_inv_def)
  then have "generated (pd_attempts db) k" using ready k by (simp add: asset_ok_def settled_asset_def)
  moreover have id': "ma_id ?a' = k" using k by (simp add: reviewed_asset_def)
  moreover have "decided_by (pd_reviews db @ [?v]) ((k, actor) # gs) k (Some (actor_id actor)) (mrr_approve d)"
    using role unfolding decided_by_def by (intro exI [of _ actor]) (simp add: new_review_def)
  ultimately have ok: "asset_ok (pd_attempts ?db) (pd_reviews ?db) ((k, actor) # gs) ?a'"
    by (auto simp: asset_ok_def reviewed_asset_def)
  have "media_rows_inv (put_asset ?a' ?db) ((k, actor) # gs)"
    by (rule inv_put_asset [OF inv1 _ ok]) (simp add: id' a)
  moreover have "same_media (put_asset ?a' ?db) db'"
    using platform_event_media [OF e] record_acceptance_media [of db "mrr_approve d" "ma_task_id a"]
    by (simp add: same_media_def put_asset_def)
  ultimately show ?thesis by (rule same_media_inv [rotated])
qed

lemma ended_asset_inv:
  assumes inv: "media_rows_inv db gs" and a: "get_asset db k = Some a"
    and a': "ma_id a' = ma_id a" "\<not> settled_asset a'"
  shows "media_rows_inv (put_asset a' db) gs"
  using asset_ok_unsettled [OF a'(2)] t_get_SomeD [OF a] a
  by (intro inv_put_asset [OF inv]) (auto simp: a'(1))

lemma reconcile_media_inv:
  assumes "media_rows_inv db gs"
  shows "media_rows_inv (reconcile_media now c k db) gs"
proof -
  define e where "e = \<lparr>ae_status = (if tn_cancelled c then MM_CANCELLED else MM_FAILED),
     ae_code = Some (or_str (tn_code c) ''JOB_TERMINAL_RECONCILIATION''),
     ae_message = Some (or_str (safe_message c) ''Terminal job reconciled media attempt''),
     ae_provider_job_id = None, ae_cost = None\<rparr>"
  have inv: "media_rows_inv (terminalize_active_attempts now k e db) gs"
    by (rule terminalize_inv [OF assms]) (simp add: e_def)
  show ?thesis
  proof (cases "get_asset (terminalize_active_attempts now k e db) k")
    case (Some a)
    have "media_rows_inv (put_asset (ended_asset s now x y a) (terminalize_active_attempts now k e db)) gs"
      if "s \<in> {MS_CANCELLED, MS_FAILED}" for s x y
      using that by (intro ended_asset_inv [OF inv Some]) (auto simp: ended_asset_def settled_asset_def)
    then show ?thesis
      using Some inv same_media_inv [OF same_media_task(3)]
      by (simp add: reconcile_media_def Let_def flip: e_def)
  qed (use inv in \<open>simp add: reconcile_media_def Let_def flip: e_def\<close>)
qed

lemma reconcile_payload_inv:
  assumes "media_rows_inv db gs"
  shows "media_rows_inv (reconcile_payload now c p db) gs"
proof (cases p)
  case (DataAnalysisJobPayload k)
  then show ?thesis using assms same_media_inv [OF same_media_task(1) assms]
    by (simp add: reconcile_task_def split: option.splits)
next
  case (DocumentProcessingJobPayload k)
  then show ?thesis using assms same_media_inv [OF same_media_task(1) assms]
    by (simp add: reconcile_task_def split: option.splits)
next
  case (PromptExperimentRunJobPayload k)
  then show ?thesis using assms
    by (simp add: reconcile_experiment_def put_experiment_def media_rows_inv_def split: option.splits)
next
  case (ProviderComparisonRunJobPayload k)
  then show ?thesis using assms
    by (simp add: reconcile_comparison_def put_comparison_def media_rows_inv_def split: option.splits)
qed (use assms reconcile_media_inv in simp_all)

lemma orphaned_inv:
  assumes "media_rows_inv db gs"
  shows "media_rows_inv (orphaned now k db) gs"
proof -
  define e where "e = \<lparr>ae_status = MM_FAILED, ae_code = Some ''MEDIA_ATTEMPT_ORPHANED'',
     ae_message = Some ''Successful handler left an active media attempt'', ae_provider_job_id = None, ae_cost = None\<rparr>"
  have inv: "media_rows_inv (terminalize_active_attempts now k e db) gs"
    by (rule terminalize_inv [OF assms]) (simp add: e_def)
  show ?thesis
  proof (cases "get_asset (terminalize_active_attempts now k e db) k")
    case (Some a)
    have "media_rows_inv (put_asset (ended_asset MS_FAILED now x y a) (terminalize_active_attempts now k e db)) gs" for x y
      by (rule ended_asset_inv [OF inv Some]) (simp_all add: ended_asset_def settled_asset_def)
    then show ?thesis
      using Some same_media_inv [OF same_media_task(3)] by (simp add: orphaned_def Let_def flip: e_def)
  qed (use inv in \<open>simp add: orphaned_def Let_def flip: e_def\<close>)
qed

lemma ensure_success_consistency_db:
  "snd (ensure_success_consistency co now job db) = db \<or>
   (\<exists>k. snd (ensure_success_consistency co now job db) = orphaned now k db)"
proof (cases "validate_job_payload co (lj_job_type job) (lj_payload job)")
  case (Inr p)
  then show ?thesis by (cases "media_payload p") (auto simp: ensure_success_consistency_def)
qed (simp add: ensure_success_consistency_def)

lemma retry_payload_inv:
  assumes inv: "media_rows_inv db gs"
  shows "media_rows_inv (retry_payload p db) gs"
proof -
  have m: "media_rows_inv (retry_media k db) gs" for k
  proof (cases "get_asset db k")
    case (Some a)
    have "media_rows_inv (put_asset (a\<lparr>ma_status := MS_REQUESTED, ma_error_code := None, ma_error_message := None,
        ma_completed_at := None\<rparr>) db) gs"
      by (rule ended_asset_inv [OF inv Some]) (simp_all add: settled_asset_def)
    then show ?thesis using Some same_media_inv [OF same_media_task(3)] by (simp add: retry_media_def)
  qed (use inv in \<open>simp add: retry_media_def\<close>)
  show ?thesis
  proof (cases p)
    case (PromptExperimentRunJobPayload k)
    then show ?thesis using inv by (simp add: put_experiment_def media_rows_inv_def split: option.splits)
  next
    case (ProviderComparisonRunJobPayload k)
    then show ?thesis using inv by (simp add: put_comparison_def media_rows_inv_def split: option.splits)
  qed (use inv m same_media_inv [OF same_media_task(3) inv] in simp_all)
qed

lemma media_step_inv:
  assumes "media_step s s'" and "media_inv s"
  shows "media_inv s'"
  using assms
proof (cases rule: media_step.cases)
  case (MS_image co h st ms fm env d actor key a db')
  have inv: "media_rows_inv (md_db s) (md_decisions s)" using assms(2) by (simp add: media_inv_def)
  have "media_rows_inv db' (md_decisions s)"
    using request_image_rows [OF MS_image(2)]
  proof (elim disjE conjE)
    assume a: "ma_id a = env_row_id env" "ma_status a = MS_REQUESTED" "pd_assets db' = pd_assets (md_db s) @ [a]"
      "pd_attempts db' = pd_attempts (md_db s)" "pd_reviews db' = pd_reviews (md_db s)"
    show ?thesis
      by (rule inv_new_asset [OF inv _ _ a(3-5)]) (use MS_image(3) a(1,2) in \<open>simp_all add: settled_asset_def\<close>)
  qed (simp add: inv)
  then show ?thesis by (simp add: MS_image(1) media_inv_def)
next
  case (MS_storyboard co h st ms fm env d actor a db')
  have inv: "media_rows_inv (md_db s) (md_decisions s)" using assms(2) by (simp add: media_inv_def)
  from request_storyboard_rows [OF MS_storyboard(2)]
  have a: "ma_id a = env_row_id env" "ma_status a = MS_REQUESTED" "pd_assets db' = pd_assets (md_db s) @ [a]"
      "pd_attempts db' = pd_attempts (md_db s)" "pd_reviews db' = pd_reviews (md_db s)" by simp_all
  have "media_rows_inv db' (md_decisions s)"
    by (rule inv_new_asset [OF inv _ _ a(3-5)]) (use MS_storyboard(3) a(1,2) in \<open>simp_all add: settled_asset_def\<close>)
  then show ?thesis by (simp add: MS_storyboard(1) media_inv_def)
next
  case (MS_start_image env k job worker r db')
  then show ?thesis using assms(2) start_image_attempt_inv by (simp add: media_inv_def)
next
  case (MS_start_storyboard co env k job worker r db')
  then show ?thesis using assms(2) start_storyboard_inv by (simp add: media_inv_def)
next
  case (MS_finalize_image sv g k i job worker uri x db')
  then show ?thesis using assms(2) finalize_media_inv [of "md_db s" "md_decisions s" i k]
    by (simp add: media_inv_def finalize_image_success_def)
next
  case (MS_finalize_storyboard sv g k i job worker b c db')
  then show ?thesis using assms(2) finalize_media_inv [of "md_db s" "md_decisions s" i k]
    by (simp add: media_inv_def finalize_storyboard_success_def)
next
  case (MS_finish now k worker e provider_job cost)
  then show ?thesis using assms(2) finish_media_attempt_inv by (simp add: media_inv_def)
next
  case (MS_review sv env k d actor a db')
  then show ?thesis using assms(2) review_asset_inv by (simp add: media_inv_def)
next
  case (MS_reconcile co now job cause db')
  have "media_rows_inv (md_db s) (md_decisions s)" using assms(2) by (simp add: media_inv_def)
  moreover from MS_reconcile(2) obtain p where "db' = reconcile_payload now cause p (md_db s)"
    by (simp add: job_reconcile_def and_then_Inr_iff) blast
  ultimately show ?thesis using reconcile_payload_inv by (simp add: MS_reconcile(1) media_inv_def)
next
  case (MS_consistency co now job r db')
  have inv: "media_rows_inv (md_db s) (md_decisions s)" using assms(2) by (simp add: media_inv_def)
  have "db' = md_db s \<or> (\<exists>k. db' = orphaned now k (md_db s))"
    using ensure_success_consistency_db [of co now job "md_db s"] by (simp add: MS_consistency(2))
  then have "media_rows_inv db' (md_decisions s)" using inv orphaned_inv [OF inv] by blast
  then show ?thesis by (simp add: MS_consistency(1) media_inv_def)
next
  case (MS_retry co job db')
  have "media_rows_inv (md_db s) (md_decisions s)" using assms(2) by (simp add: media_inv_def)
  moreover from MS_retry(2) obtain p where "db' = retry_payload p (md_db s)"
    by (simp add: prepare_retry_def and_then_Inr_iff) blast
  ultimately show ?thesis using retry_payload_inv by (simp add: MS_retry(1) media_inv_def)
next
  case (MS_elsewhere db')
  then show ?thesis using assms(2) media_rows_inv_cong [OF MS_elsewhere(2-4)] by (simp add: media_inv_def)
qed

theorem media_history_inv: "media_history s \<Longrightarrow> media_inv s"
proof (induction rule: media_history.induct)
  case (MH_empty db)
  then show ?case by (simp add: media_inv_def media_rows_inv_def)
qed (rule media_step_inv)

end
