(* ===== verification/Media_Example.thy ===== *)
theory Media_Example
  imports Media_Steps Prompt_Properties
begin

text \<open>
  One image from its request to its approval: the example the witnesses of the media properties use.
\<close>

definition demo_media_settings :: media_settings where
  "demo_media_settings = \<lparr>md_image_provider = ''mock'', md_image_model = ''m'', md_llm_provider = ''mock'',
     md_llm_model = None, md_max_cost = 1\<rparr>"

definition demo_image_request :: image_request where
  "demo_image_request = \<lparr>igr_campaign_id = None, igr_workflow_id = None, igr_task_type = ''image'',
     igr_prompt = ''hi'', igr_negative_prompt = None, igr_width = 512, igr_height = 512\<rparr>"

definition demo_image_version :: version_row where
  "demo_image_version = demo_active\<lparr>pv_user_prompt_template := ''{brief}'', pv_variables := [(''brief'', JNull)]\<rparr>"

definition demo_image_template :: template_row where
  "demo_image_template = demo_template\<lparr>pt_task_type := ''image_generation''\<rparr>"

definition demo_media0 :: platform_db where
  "demo_media0 = empty_platform\<lparr>pd_templates := [demo_image_template], pd_versions := [demo_image_version]\<rparr>"

lemma demo_media0_rows [simp]:
  "pd_templates demo_media0 = [demo_image_template]" "pd_versions demo_media0 = [demo_image_version]"
  "pd_assets demo_media0 = []" "pd_attempts demo_media0 = []" "pd_reviews demo_media0 = []" "pd_tasks demo_media0 = []"
  "jobs (pd_queue demo_media0) = []"
  by (simp_all add: demo_media0_def empty_platform_def)

lemma demo_image_resolves:
  "\<exists>p. resolve no_formatting [(''brief'', ''hi'')] None (Some ''image_generation'') demo_media0 = Inr p"
proof -
  have "format_pieces ''{brief}'' = Some [Field ''brief'' None []]"
    using format_pieces_unparse [of "[Field ''brief'' None []]"] by (simp add: plain_name_def is_digit_def)
  then have "render no_formatting ''{brief}'' [(''brief'', ''hi'')] [''brief''] False = Inr ''hi''"
    by (simp add: render_def variables_def format_map_def field_value_def is_accessor_def is_digit_def
        max_rendered_prompt_characters_def Let_def)
  then have "render_version no_formatting [(''brief'', ''hi'')] demo_image_version = Inr ''hi''"
    by (simp add: render_version_def allowed_variables_def allows_unknown_def is_control_key_def demo_image_version_def)
  then show ?thesis
    by (simp add: resolve_def find_template_def get_active_version_def demo_image_template_def)
      (simp add: demo_image_version_def demo_active_def activated_version_def)
qed

text \<open>A job whose payload is well-formed can be enqueued in an empty queue.\<close>

lemma enqueue_keyed_first:
  assumes "payload_wf p" and "uuids_in_range p" and "length key \<le> 64" and "key \<noteq> []" and "jobs (pd_queue db) = []"
    and "payload_type p = t" and "\<And>u v a r. p \<noteq> ActionExecutionJobPayload u v a r"
    and v: "validate_job_payload co t (dump_payload p) = Inr p"
  shows "\<exists>j db'. enqueue_keyed co h ex_settings ex_env (plain_job t p who key) db = Inr (j, db') \<and> job_id j = 1 \<and>
    j_status j = JS_PENDING \<and> attempt_count j = 0 \<and>
    db' = db\<lparr>pd_queue := (pd_queue db)\<lparr>jobs := [j]\<rparr>\<rparr>"
proof -
  define j where "j = new_job ex_settings ex_env (plain_job t p who key) (sanitize_json 2000 (dump_payload p)) key"
  have "max_attempts j = 5" by (simp add: j_def new_job_def plain_job_def ex_settings_def or_int_def)
  moreover have "is_json_object (sanitize_json 2000 (dump_payload p))" by (rule dump_payload_object)
  ultimately have "enqueue_keyed co h ex_settings ex_env (plain_job t p who key) db =
      Inr (j, db\<lparr>pd_queue := (pd_queue db)\<lparr>jobs := [j]\<rparr>\<rparr>)"
    using assms(3-5) v by (simp add: enqueue_keyed_def in_queue_def enqueue_def plain_job_def or_str_def Let_def flip: j_def)
      (simp add: j_def plain_job_def)
  then show ?thesis by (simp add: j_def new_job_def ex_env_def)
qed

lemma demo_request:
  "\<exists>a j db. request_image strict_coercions ex_hashing ex_settings demo_media_settings no_formatting ex_env
      demo_image_request demo_manager None demo_media0 = Inr (a, db) \<and>
    ma_id a = 1 \<and> ma_status a = MS_REQUESTED \<and> ma_task_id a = Some 1 \<and> ma_provider a = ''mock'' \<and>
    pd_assets db = [a] \<and> pd_attempts db = [] \<and> pd_reviews db = [] \<and> jobs (pd_queue db) = [j] \<and> job_id j = 1 \<and>
    j_status j = JS_PENDING \<and> attempt_count j = 0 \<and>
    (\<exists>t. pd_tasks db = [t] \<and> ta_id t = 1)"
proof -
  obtain p where p: "resolve no_formatting [(''brief'', ''hi'')] None (Some ''image_generation'') demo_media0 = Inr p"
    using demo_image_resolves by blast
  define a where "a = image_asset ex_hashing demo_media_settings ex_env demo_image_request p None ''ann''"
  have a: "ma_id a = 1" "ma_status a = MS_REQUESTED" "ma_task_id a = Some 1" "ma_provider a = ''mock''"
    "ma_campaign_id a = None" "ma_workflow_id a = None" "ma_idempotency_key a = None"
    by (simp_all add: a_def image_asset_def new_asset_def ex_env_def demo_media_settings_def demo_image_request_def)
  have v: "validate_job_payload strict_coercions JT_IMAGE_GENERATION (dump_payload (ImageGenerationJobPayload 1)) =
      Inr (ImageGenerationJobPayload 1)"
    by (simp add: validate_job_payload_def uuid_model_def strict_coercions_def uuid_of_str_uuid_str)
  have key: "length (image_job_key ''ann'' None 1) \<le> 64" "image_job_key ''ann'' None 1 \<noteq> []"
    by (simp_all add: image_job_key_def present_def)
  have "\<exists>j db'. enqueue_keyed strict_coercions ex_hashing ex_settings ex_env
      (plain_job JT_IMAGE_GENERATION (ImageGenerationJobPayload 1) ''ann'' (image_job_key ''ann'' None 1)) demo_media0 = Inr (j, db') \<and>
      job_id j = 1 \<and> j_status j = JS_PENDING \<and> attempt_count j = 0 \<and>
      db' = demo_media0\<lparr>pd_queue := (pd_queue demo_media0)\<lparr>jobs := [j]\<rparr>\<rparr>"
    by (rule enqueue_keyed_first [OF _ _ key _ _ _ v]) (simp_all add: uuids_in_range_def)
  then obtain j db where e: "enqueue_keyed strict_coercions ex_hashing ex_settings ex_env
      (plain_job JT_IMAGE_GENERATION (ImageGenerationJobPayload 1) ''ann'' (image_job_key ''ann'' None 1)) demo_media0 = Inr (j, db)"
    and j: "job_id j = 1" "j_status j = JS_PENDING" "attempt_count j = 0"
    and db: "db = demo_media0\<lparr>pd_queue := (pd_queue demo_media0)\<lparr>jobs := [j]\<rparr>\<rparr>"
    by blast
  have "asset_insertable a demo_media0" using a by (simp add: asset_insertable_def)
  moreover have "igr_prompt demo_image_request = ''hi''" "actor_id demo_manager = ''ann''"
    by (simp_all add: demo_image_request_def demo_manager_def)
  moreover have "ta_id (new_task ex_env w x y m v h k b) = 1" for w x y m v h k b by (simp add: new_task_def ex_env_def)
  ultimately show ?thesis
    using p e a j by (simp add: request_image_def present_def Let_def flip: a_def) (simp add: db)
qed


definition demo_image :: generated_image where
  "demo_image = \<lparr>gi_content = png_magic, gi_mime_type = ''image/png'', gi_width = 512, gi_height = 512,
     gi_provider_job_id = None, gi_cost = 0, gi_safety_flags = []\<rparr>"

definition demo_generation :: generation_env where
  "demo_generation = \<lparr>ge_start = ex_env\<lparr>env_now := 2\<rparr>, ge_generate = (\<lambda>_ _. Inr demo_image),
     ge_complete = (\<lambda>_ _ _. Inl (validation_error ''no model'')), ge_asset_json = (\<lambda>_. JNull),
     ge_write_bytes = (\<lambda>_ _. Inr ()), ge_checkpoint = Inr (), ge_meanwhile = (\<lambda>_ db. db),
     ge_finalize = ex_env\<lparr>env_now := 3\<rparr>, ge_end = 4\<rparr>"

definition demo_leased :: "int \<Rightarrow> leased_job" where
  "demo_leased n = \<lparr>lj_job_id = 1, lj_job_type = JT_IMAGE_GENERATION, lj_payload = JObj [], lj_attempt_count = n,
     lj_max_attempts = 5, lj_correlation_id = ''c'', lj_trace_id = None\<rparr>"

text \<open>The state in which the worker \<open>w1\<close> has leased the job.\<close>

definition demo_requested :: "asset_row \<Rightarrow> platform_db \<Rightarrow> bool" where
  "demo_requested a db \<longleftrightarrow>
     ma_id a = 1 \<and> ma_status a = MS_REQUESTED \<and> ma_task_id a = Some 1 \<and> ma_provider a = ''mock'' \<and>
     pd_assets db = [a] \<and> pd_attempts db = [] \<and> pd_reviews db = [] \<and>
     (\<exists>j. jobs (pd_queue db) = [j] \<and> job_id j = 1 \<and> attempt_count j = 1 \<and> owns_live_lease j ''w1'' 3) \<and>
     (\<exists>t. pd_tasks db = [t] \<and> ta_id t = 1)"

lemma demo_requested_history: "\<exists>a db. media_history \<lparr>md_db = db, md_decisions = []\<rparr> \<and> demo_requested a db"
proof -
  from demo_request obtain a j db where r: "request_image strict_coercions ex_hashing ex_settings demo_media_settings
      no_formatting ex_env demo_image_request demo_manager None demo_media0 = Inr (a, db)"
    and a: "ma_id a = 1" "ma_status a = MS_REQUESTED" "ma_task_id a = Some 1" "ma_provider a = ''mock''"
    and rows: "pd_assets db = [a]" "pd_attempts db = []" "pd_reviews db = []" "\<exists>t. pd_tasks db = [t] \<and> ta_id t = 1"
    and j: "jobs (pd_queue db) = [j]" "job_id j = 1" "attempt_count j = 0"
    by blast
  have h0: "media_history \<lparr>md_db = demo_media0, md_decisions = []\<rparr>" by (rule MH_empty) simp_all
  have h1: "media_history \<lparr>md_db = db, md_decisions = []\<rparr>"
    using MH_step [OF h0 MS_image] r by fastforce
  let ?j = "lease_row ''w1'' 1 60 j"
  let ?db = "db\<lparr>pd_queue := (pd_queue db)\<lparr>jobs := [?j]\<rparr>\<rparr>"
  have "media_history \<lparr>md_db = ?db, md_decisions = []\<rparr>"
    using MH_step [OF h1 MS_elsewhere [of ?db]] by simp
  moreover have "job_id ?j = 1" "attempt_count ?j = 1" "owns_live_lease ?j ''w1'' 3"
    using j by (simp_all add: lease_row_def owns_live_lease_def seconds_def)
  ultimately show ?thesis using a rows by (intro exI [of _ a] exI [of _ ?db]) (simp add: demo_requested_def)
qed

text \<open>The state in which its attempt has started.\<close>

definition demo_started :: "asset_row \<Rightarrow> media_attempt_row \<Rightarrow> task_row \<Rightarrow> platform_db \<Rightarrow> bool" where
  "demo_started a t task db \<longleftrightarrow>
     ma_id a = 1 \<and> ma_status a = MS_GENERATING \<and> ma_task_id a = Some 1 \<and>
     mt_id t = 1 \<and> mt_asset_id t = 1 \<and> attempt_current (demo_leased 1) ''w1'' t \<and>
     ta_id task = 1 \<and> ta_status task = AP_PROCESSING \<and>
     pd_assets db = [a] \<and> pd_attempts db = [t] \<and> pd_reviews db = [] \<and> pd_tasks db = [task] \<and>
     (\<exists>j. jobs (pd_queue db) = [j] \<and> job_id j = 1 \<and> attempt_count j = 1 \<and> owns_live_lease j ''w1'' 3)"

lemma demo_leased_simps: "lj_job_id (demo_leased n) = 1" "lj_attempt_count (demo_leased n) = n"
  by (simp_all add: demo_leased_def)

lemma demo_starts:
  assumes "demo_requested a db"
  shows "\<exists>t a1 task db1. start_image_attempt (ge_start demo_generation) 1 (demo_leased 1) ''w1'' db = Inr (Some (t, a1), db1) \<and>
    demo_started a1 t task db1"
proof -
  from assms obtain j task where a: "ma_id a = 1" "ma_status a = MS_REQUESTED" "ma_task_id a = Some 1"
    and rows: "pd_assets db = [a]" "pd_attempts db = []" "pd_reviews db = []" "jobs (pd_queue db) = [j]" "pd_tasks db = [task]"
    and j: "job_id j = 1" "attempt_count j = 1" "owns_live_lease j ''w1'' 3" and task: "ta_id task = 1"
    unfolding demo_requested_def by blast
  define a1 where "a1 = a\<lparr>ma_status := MS_GENERATING, ma_error_code := None, ma_error_message := None\<rparr>"
  define t where "t = started_attempt (ge_start demo_generation) a1 1 ''w1'' 1 1"
  define task1 where "task1 = processing_task (env_now (ge_start demo_generation)) task"
  define db1 where "db1 = db\<lparr>pd_assets := [a1], pd_tasks := [task1], pd_attempts := [t]\<rparr>"
  have a1: "ma_id a1 = 1" "ma_status a1 = MS_GENERATING" "ma_task_id a1 = Some 1" using a by (simp_all add: a1_def)
  have t: "mt_id t = 1" "mt_asset_id t = 1" "attempt_current (demo_leased 1) ''w1'' t"
    using a1 by (simp_all add: t_def started_attempt_def attempt_current_def demo_leased_simps demo_generation_def ex_env_def)
  have task1: "ta_id task1 = 1" "ta_status task1 = AP_PROCESSING" using task by (simp_all add: task1_def processing_task_def)
  have put: "put_asset a1 db = db\<lparr>pd_assets := [a1]\<rparr>" by (simp add: put_asset_def t_put_def rows a a1)
  have st: "start_task n (ma_task_id a) (db\<lparr>pd_assets := [a1]\<rparr>) = db\<lparr>pd_assets := [a1], pd_tasks := [processing_task n task]\<rparr>" for n
    using task by (simp add: start_task_def a(3) rows table_simps put_task_def t_put_def processing_task_def)
  have next1: "next_attempt_number 1 (db\<lparr>pd_assets := [a1], pd_tasks := [task1]\<rparr>) = 1"
    by (simp add: next_attempt_number_def max_attempt_number_def rows)
  have "create_started_attempt (ge_start demo_generation) a1 (demo_leased 1) ''w1''
      (db\<lparr>pd_assets := [a1], pd_tasks := [task1]\<rparr>) = Inr (t, db1)"
    unfolding create_started_attempt_def demo_leased_simps a1(1) next1 Let_def t_def [symmetric]
    by (simp add: rows table_simps j db1_def)
  then have "start_image_attempt (ge_start demo_generation) 1 (demo_leased 1) ''w1'' db = Inr (Some (t, a1), db1)"
    by (simp add: start_image_attempt_def required_asset_def rows table_simps a(1,2) put st Let_def flip: a1_def task1_def)
  moreover have "demo_started a1 t task1 db1" using a1 t task1 rows j by (simp add: demo_started_def db1_def)
  ultimately show ?thesis by blast
qed

lemma ready_event_ok:
  "\<exists>db2. platform_event ex_services env (ready_event 1 []) db = Inr db2 \<and> same_media db db2"
proof -
  have "er_payload (ready_event 1 []) = JObj [(''media_asset_id'', JStr (uuid_str 1))]" by (simp add: ready_event_def plain_event_def)
  from platform_event_ok [OF this] platform_event_media show ?thesis by blast
qed

lemma demo_finalizes:
  assumes d: "demo_started a t task db" and fa: "\<And>x. ma_id (fa x) = ma_id x" and env: "env_now env = 3"
  shows "\<exists>db2 a2. finalize_media ex_services env 1 1 (demo_leased 1) ''w1'' fa ft pj cost [] db = Inr ((), db2) \<and>
    pd_reviews db2 = [] \<and> pd_assets db2 = [a2] \<and> ma_id a2 = 1 \<and> ma_status a2 = MS_READY_FOR_REVIEW"
proof -
  from d obtain j where a: "ma_id a = 1" "ma_status a = MS_GENERATING" "ma_task_id a = Some 1"
    and t: "mt_id t = 1" "mt_asset_id t = 1" "attempt_current (demo_leased 1) ''w1'' t"
    and task: "ta_id task = 1" "ta_status task = AP_PROCESSING"
    and rows: "pd_assets db = [a]" "pd_attempts db = [t]" "pd_reviews db = []" "pd_tasks db = [task]" "jobs (pd_queue db) = [j]"
    and j: "job_id j = 1" "attempt_count j = 1" "owns_live_lease j ''w1'' 3"
    unfolding demo_started_def by blast
  define a2 where "a2 = (fa a)\<lparr>ma_status := MS_READY_FOR_REVIEW, ma_completed_at := Some 3\<rparr>"
  define e where "e = \<lparr>ae_status = MM_COMPLETED, ae_code = None, ae_message = None, ae_provider_job_id = pj, ae_cost = Some cost\<rparr>"
  define task2 where "task2 = (ft a2 task)\<lparr>ta_status := AP_COMPLETED, ta_completed_at := Some 3,
    ta_duration_ms := Some (case ta_started_at task of None \<Rightarrow> 0 | Some s \<Rightarrow> duration_ms s 3)\<rparr>"
  define db2 where "db2 = put_task task2 (put_asset a2 db)"
  have a2: "pd_assets db2 = [a2]" "ma_id a2 = 1" "ma_status a2 = MS_READY_FOR_REVIEW"
    using fa a by (simp_all add: db2_def put_asset_def t_put_def rows a2_def put_task_def)
  have ts: "pd_attempts db2 = [t]" "pd_reviews db2 = []" by (simp_all add: db2_def put_asset_def put_task_def rows)
  have m: "mark_terminal 3 1 (Some ''w1'') e db2 = (MU_UPDATED, put_media_attempt (apply_terminal_values 3 e t) db2)"
    using t by (simp add: mark_terminal_def ts table_simps attempt_current_def)
  obtain db3 where db3: "platform_event ex_services env (ready_event 1 [])
      (put_media_attempt (apply_terminal_values 3 e t) db2) = Inr db3" "pd_assets db3 = [a2]" "pd_reviews db3 = []"
    using ready_event_ok [of env "put_media_attempt (apply_terminal_values 3 e t) db2"]
    by (auto simp: put_media_attempt_def a2 ts same_media_def)
  have lease: "owns_live_job_lease 1 ''w1'' 1 3 db" using j by (simp add: owns_live_job_lease_def rows table_simps)
  have ft': "finalization_task a db = Inr (Some task)"
    using task by (simp add: finalization_task_def a rows table_simps)
  have got: "get_asset db 1 = Some a" "get_media_attempt db 1 = Some t" by (simp_all add: rows table_simps a t)
  have "finalize_media ex_services env 1 1 (demo_leased 1) ''w1'' fa ft pj cost [] db = Inr ((), db3)"
    unfolding finalize_media_def env demo_leased_simps Let_def
    using lease t(3) ft' a(2) m db3(1)
    by (simp only: got required_simps and_then_simps require_simps option.case flip: a2_def e_def task2_def db2_def) simp
  with a2 db3 show ?thesis by blast
qed

text \<open>From the leased job to an asset that is ready for review.\<close>

lemma demo_ready_history:
  "\<exists>db a. media_history \<lparr>md_db = db, md_decisions = []\<rparr> \<and> pd_reviews db = [] \<and>
     pd_assets db = [a] \<and> ma_id a = 1 \<and> ma_status a = MS_READY_FOR_REVIEW"
proof -
  from demo_requested_history obtain a db where h: "media_history \<lparr>md_db = db, md_decisions = []\<rparr>" and d: "demo_requested a db" by blast
  from demo_starts [OF d] obtain t a1 task db1 where
    st: "start_image_attempt (ge_start demo_generation) 1 (demo_leased 1) ''w1'' db = Inr (Some (t, a1), db1)"
    and d1: "demo_started a1 t task db1" by blast
  have "pd_attempts db = []" using d by (simp add: demo_requested_def)
  then have h1: "media_history \<lparr>md_db = db1, md_decisions = []\<rparr>"
    using MH_step [OF h MS_start_image] st by fastforce
  have own: "attempt_of 1 1 db1" using d1 by (auto simp: demo_started_def attempt_of_def table_simps)
  have env: "env_now (ge_finalize demo_generation) = 3" by (simp add: demo_generation_def)
  have "\<exists>db2 a2. finalize_image_success ex_services demo_generation 1 1 (demo_leased 1) ''w1'' ''media://1.png'' demo_image db1 = Inr ((), db2) \<and>
      pd_reviews db2 = [] \<and> pd_assets db2 = [a2] \<and> ma_id a2 = 1 \<and> ma_status a2 = MS_READY_FOR_REVIEW"
    unfolding finalize_image_success_def by (rule demo_finalizes [OF d1 _ env]) simp
  then obtain db2 a2 where f: "finalize_image_success ex_services demo_generation 1 1 (demo_leased 1) ''w1'' ''media://1.png'' demo_image db1 = Inr ((), db2)"
    and r: "pd_reviews db2 = []" "pd_assets db2 = [a2]" "ma_id a2 = 1" "ma_status a2 = MS_READY_FOR_REVIEW"
    by blast
  have "media_history \<lparr>md_db = db2, md_decisions = []\<rparr>"
    using MH_step [OF h1 MS_finalize_image [of ex_services demo_generation 1 1]] f own by fastforce
  with r show ?thesis by blast
qed

definition demo_reviewer :: authenticated_actor where
  "demo_reviewer = \<lparr>actor_id = ''rob'', actor_role = UR_REVIEWER\<rparr>"

definition demo_review :: review_request where
  "demo_review = \<lparr>mrr_approve = True, mrr_rating = None, mrr_comment = None\<rparr>"

lemma demo_approved_history:
  "\<exists>s a. media_history s \<and> get_asset (md_db s) 1 = Some a \<and> ma_status a = MS_APPROVED"
proof -
  from demo_ready_history obtain db a where h: "media_history \<lparr>md_db = db, md_decisions = []\<rparr>"
    and rows: "pd_reviews db = []" "pd_assets db = [a]" "ma_id a = 1" "ma_status a = MS_READY_FOR_REVIEW" by blast
  define a' where "a' = reviewed_asset (env_now ex_env) demo_review ''rob'' a"
  define db1 where "db1 = put_asset a' (record_acceptance True (ma_task_id a) db)"
  define db2 where "db2 = db1\<lparr>pd_reviews := pd_reviews db1 @ [new_review ex_env 1 demo_review ''rob'']\<rparr>"
  have a': "ma_id a' = 1" "ma_status a' = MS_APPROVED" using rows by (simp_all add: a'_def reviewed_asset_def demo_review_def)
  have "pd_assets (record_acceptance True (ma_task_id a) db) = [a]"
    using record_acceptance_media [of db True "ma_task_id a"] rows by (simp add: same_media_def)
  then have as: "pd_assets db2 = [a']" using a' rows by (simp add: db2_def db1_def put_asset_def t_put_def)
  have "er_payload (review_event 1 True) = JObj [(''media_asset_id'', JStr (uuid_str 1)), (''decision'', JStr (decision_value True))]"
    by (simp add: review_event_def plain_event_def)
  from platform_event_ok [OF this] obtain db3 where e: "platform_event ex_services ex_env (review_event 1 True) db2 = Inr db3" by blast
  have "pd_assets db3 = [a']" using platform_event_media [OF e] as by (simp add: same_media_def)
  moreover have "review_asset ex_services ex_env 1 demo_review demo_reviewer db = Inr (a', db3)"
    using rows e by (simp add: review_asset_def required_asset_def table_simps demo_reviewer_def Let_def
        flip: a'_def) (simp add: demo_review_def flip: db1_def db2_def, simp add: db2_def db1_def demo_review_def)
  ultimately show ?thesis
    using MH_step [OF h MS_review] a'
    by (intro exI [of _ "\<lparr>md_db = db3, md_decisions = [(1, demo_reviewer)]\<rparr>"] exI [of _ a']) (fastforce simp: table_simps)
qed

lemma demo_generation_ready:
  assumes "demo_requested a db"
  shows "get_asset db 1 = Some a" "ma_status a \<notin> {MS_READY_FOR_REVIEW, MS_APPROVED}"
    "get_job (pd_queue db) (lj_job_id (demo_leased n)) \<noteq> None"
    "env_row_id (ge_start demo_generation) \<notin> mt_id ` set (pd_attempts db)"
    "pd_attempts (ge_meanwhile demo_generation i x) = pd_attempts x"
  using assms by (auto simp: demo_requested_def table_simps demo_leased_simps demo_generation_def)

text \<open>A storyboard that was approved while its job was to be leased again.\<close>

definition demo_storyboard_request :: storyboard_request where
  "demo_storyboard_request = \<lparr>vsr_campaign_id = None, vsr_campaign_brief = ''brief'', vsr_objective = ''o'',
     vsr_target_duration = 30, vsr_aspect_ratio = ''16:9''\<rparr>"

definition demo_storyboard :: asset_row where
  "demo_storyboard = (new_asset ex_env MA_VIDEO_STORYBOARD None None ''video_storyboard'' ''mock'' ''m'' (Some 1) ''h'' ''p''
     ''READY_FOR_HUMAN_REVIEW'' ''ann'')\<lparr>ma_status := MS_APPROVED, ma_approved_by := Some ''rob''\<rparr>"

definition demo_storyboard_task :: task_row where
  "demo_storyboard_task = new_task ex_env AW_VIDEO_STORYBOARD (dump_storyboard_request demo_storyboard_request) ''mock'' ''m''
     (Some 1) ''h'' 1 ''ann''"

definition demo_approved_storyboard :: platform_db where
  "demo_approved_storyboard = demo_media0\<lparr>pd_assets := [demo_storyboard], pd_tasks := [demo_storyboard_task],
     pd_queue := ex_leased\<rparr>"

lemma demo_approved_storyboard_simps:
  "get_asset demo_approved_storyboard 1 = Some demo_storyboard"
  "ma_status demo_storyboard = MS_APPROVED"
  "Option.bind (ma_task_id demo_storyboard) (get_task demo_approved_storyboard) = Some demo_storyboard_task"
  "storyboard_request_of strict_coercions (ta_input demo_storyboard_task) = Some demo_storyboard_request"
  "Option.bind (ma_prompt_version_id demo_storyboard) (get_version demo_approved_storyboard) = Some demo_image_version"
  "get_job (pd_queue demo_approved_storyboard) (lj_job_id (demo_leased 2)) \<noteq> None"
  "ma_approved_by demo_storyboard = Some ''rob''"
proof -
  have "pv_id demo_image_version = 1" by (simp add: demo_image_version_def demo_active_def activated_version_def)
  then show "Option.bind (ma_prompt_version_id demo_storyboard) (get_version demo_approved_storyboard) = Some demo_image_version"
    by (simp add: demo_storyboard_def new_asset_def demo_approved_storyboard_def table_simps)
  show "get_job (pd_queue demo_approved_storyboard) (lj_job_id (demo_leased 2)) \<noteq> None"
    by (simp add: demo_approved_storyboard_def ex_leased_def ex_leased_job_def lease_row_def ex_job_simps demo_leased_simps table_simps)
  show "storyboard_request_of strict_coercions (ta_input demo_storyboard_task) = Some demo_storyboard_request"
    by (simp add: demo_storyboard_task_def new_task_def demo_storyboard_request_def dump_storyboard_request_def
        storyboard_request_of_def model_fields_def optional_text_json_def optional_json_def bounded_raw_text_def raw_text_def strict_coercions_def)
qed (simp_all add: demo_storyboard_def new_asset_def demo_approved_storyboard_def table_simps demo_storyboard_task_def
    new_task_def ex_env_def)

end
