(* ===== verification/Media_Properties.thy ===== *)
theory Media_Properties
  imports Media_Example
begin

text \<open>
  What holds of generated media in every history of their operations, that a generation is such
  a history, and the cases in which a retried generation goes wrong.
\<close>

subsection \<open>Approval\<close>

text \<open>C15. Approved media were generated and reviewed. In every history of requests, generations by
  any number of workers, reviews, retries and reconciliations of jobs, an asset that is approved
  has a completed attempt and was approved by an actor with the role of a reviewer, manager or
  admin, whose decision is on record once; an asset that is ready for review or rejected was
  generated as well.\<close>

theorem approved_media_was_generated_and_reviewed:
  assumes "media_history s" and "get_asset (md_db s) k = Some a" and "settled_asset a"
  shows "(\<exists>t \<in> set (pd_attempts (md_db s)). mt_asset_id t = k \<and> mt_status t = MM_COMPLETED) \<and>
    (ma_status a = MS_APPROVED \<longrightarrow>
      (\<exists>p. ma_approved_by a = Some (actor_id p) \<and> actor_role p \<in> {UR_REVIEWER, UR_MANAGER, UR_ADMIN} \<and>
         (k, p) \<in> set (md_decisions s) \<and>
         (\<exists>v. filter (\<lambda>v. mv_asset_id v = k \<and> mv_actor_id v = actor_id p) (pd_reviews (md_db s)) = [v] \<and>
            mv_decision v = ''APPROVE'')))"
proof -
  have inv: "media_rows_inv (md_db s) (md_decisions s)"
    using media_history_inv [OF assms(1)] by (simp add: media_inv_def)
  have a: "ma_id a = k" "a \<in> set (pd_assets (md_db s))" using t_get_SomeD [OF assms(2)] by auto
  with inv have ok: "asset_ok (pd_attempts (md_db s)) (pd_reviews (md_db s)) (md_decisions s) a"
    by (simp add: media_rows_inv_def)
  have d: "distinct (map review_key (pd_reviews (md_db s)))" using inv by (simp add: media_rows_inv_def)
  have "\<exists>p. ma_approved_by a = Some (actor_id p) \<and> actor_role p \<in> {UR_REVIEWER, UR_MANAGER, UR_ADMIN} \<and>
      (k, p) \<in> set (md_decisions s) \<and>
      (\<exists>v. filter (\<lambda>v. mv_asset_id v = k \<and> mv_actor_id v = actor_id p) (pd_reviews (md_db s)) = [v] \<and>
         mv_decision v = ''APPROVE'')" if "ma_status a = MS_APPROVED"
  proof -
    from ok that a(1) have "decided_by (pd_reviews (md_db s)) (md_decisions s) k (ma_approved_by a) True"
      by (simp add: asset_ok_def)
    then obtain p v where p: "ma_approved_by a = Some (actor_id p)" "actor_role p \<in> set reviewer_roles"
        "(k, p) \<in> set (md_decisions s)"
      and v: "v \<in> set (pd_reviews (md_db s))" "review_key v = (k, actor_id p)" "mv_decision v = ''APPROVE''"
      by (auto simp: decided_by_def decision_value_def review_key_def)
    have "filter (\<lambda>u. review_key u = review_key v) (pd_reviews (md_db s)) = [v]"
      using d v(1) by (rule filter_unique_key)
    with p v show ?thesis by (auto simp: review_key_def reviewer_roles_def)
  qed
  moreover have "generated (pd_attempts (md_db s)) k" using ok assms(3) a(1) by (simp add: asset_ok_def)
  ultimately show ?thesis by (simp add: generated_def)
qed


theorem approved_media_was_generated_and_reviewed_witness:
  "\<exists>s a t p. media_history s \<and> get_asset (md_db s) 1 = Some a \<and> ma_status a = MS_APPROVED \<and>
     t \<in> set (pd_attempts (md_db s)) \<and> mt_status t = MM_COMPLETED \<and> (1, p) \<in> set (md_decisions s)"
proof -
  from demo_approved_history obtain s a where s: "media_history s" "get_asset (md_db s) 1 = Some a" "ma_status a = MS_APPROVED"
    by blast
  moreover have "settled_asset a" using s(3) by (simp add: settled_asset_def)
  ultimately show ?thesis using approved_media_was_generated_and_reviewed [OF s(1,2)] by blast
qed

subsection \<open>The end of a generation\<close>

lemma foldr_max_snoc: "foldr (\<lambda>a n. max (f a) n) (xs @ [x]) (0 :: int) = max (f x) (foldr (\<lambda>a n. max (f a) n) xs 0)"
  by (induction xs) (auto simp: max.left_commute)

lemma max_attempt_number_snoc:
  "pd_attempts db' = pd_attempts db @ [t] \<Longrightarrow>
   max_attempt_number k db' =
     (if mt_asset_id t = k then max (mt_attempt_number t) (max_attempt_number k db) else max_attempt_number k db)"
  using foldr_max_snoc [of mt_attempt_number "filter (\<lambda>a. mt_asset_id a = k) (pd_attempts db)" t]
  by (simp add: max_attempt_number_def del: foldr_append)

lemma t_get_append_fresh: "mt_id t \<notin> mt_id ` set ts \<Longrightarrow> t_get mt_id (ts @ [t]) (mt_id t) = Some t"
  by (induction ts) (auto simp: table_simps)

lemma t_put_last:
  "mt_id t \<notin> mt_id ` set ts \<Longrightarrow> mt_id t' = mt_id t \<Longrightarrow> t_put mt_id (ts @ [t]) t' = ts @ [t']"
  by (auto simp: t_put_def image_iff intro!: map_idI)

text \<open>The attempt a generation starts.\<close>

definition fresh_attempt :: "platform_db \<Rightarrow> uuid \<Rightarrow> call_env \<Rightarrow> string \<Rightarrow> media_attempt_row \<Rightarrow> bool" where
  "fresh_attempt db k env worker t \<longleftrightarrow>
     mt_id t = env_row_id env \<and> mt_asset_id t = k \<and> mt_status t = MM_STARTED \<and> mt_worker_id t = Some worker \<and>
     mt_attempt_number t = next_attempt_number k db"

lemma create_started_attempt_fresh:
  assumes "create_started_attempt env a job worker db1 = Inr (t, db')" and "ma_id a = k"
    and "pd_attempts db1 = pd_attempts db"
  shows "pd_attempts db' = pd_attempts db @ [t] \<and> fresh_attempt db k env worker t"
  using assms
  by (auto simp: create_started_attempt_def Let_def result_simps started_attempt_def fresh_attempt_def
      next_attempt_number_def max_attempt_number_def)

lemma media_rows_kept [simp]:
  "pd_attempts (change_task f k db) = pd_attempts db" "pd_attempts (put_asset a db) = pd_attempts db"
  "pd_attempts (put_task t db) = pd_attempts db" "pd_attempts (start_task now k db) = pd_attempts db"
  "pd_queue (put_asset a db) = pd_queue db" "pd_queue (start_task now k db) = pd_queue db"
  by (auto simp: change_task_def put_task_def put_asset_def start_task_def split: option.splits)

lemma start_image_attempt_rows:
  assumes "start_image_attempt env k job worker db = Inr (r, db')"
  shows "(r = None \<and> db' = db) \<or> (\<exists>t a. r = Some (t, a) \<and> pd_attempts db' = pd_attempts db @ [t] \<and>
    fresh_attempt db k env worker t)"
proof -
  from assms obtain a where a: "get_asset db k = Some a"
    by (auto simp: start_image_attempt_def required_asset_def result_simps)
  then have k: "ma_id a = k" using t_get_SomeD [OF a] by simp
  show ?thesis
  proof (cases "ma_status a \<in> {MS_READY_FOR_REVIEW, MS_APPROVED}")
    case False
    with assms a obtain t a' where "r = Some (t, a')" and "create_started_attempt env
        (a\<lparr>ma_status := MS_GENERATING, ma_error_code := None, ma_error_message := None\<rparr>) job worker
        (start_task (env_now env) (ma_task_id a) (put_asset
          (a\<lparr>ma_status := MS_GENERATING, ma_error_code := None, ma_error_message := None\<rparr>) db)) = Inr (t, db')"
      by (auto simp: start_image_attempt_def required_asset_def Let_def and_then_Inr_iff)
    with create_started_attempt_fresh [OF this(2), where db = db and k = k] k show ?thesis by simp
  qed (use assms a in \<open>simp add: start_image_attempt_def required_asset_def\<close>)
qed

lemma start_storyboard_rows:
  assumes "start_storyboard co env k job worker db = Inr (r, db')"
  shows "(r = None \<and> db' = db) \<or> (\<exists>t q v. r = Some (t, q, v) \<and> pd_attempts db' = pd_attempts db @ [t] \<and>
    fresh_attempt db k env worker t)"
proof (cases "db' = db \<and> r = None")
  case False
  note e = assms [unfolded start_storyboard_def Let_def and_then_Inr_iff required_asset_def required_iff]
  from e obtain a where a: "get_asset db k = Some a" by blast
  then have k: "ma_id a = k" using t_get_SomeD [OF a] by simp
  from e a False obtain task t q v where "create_started_attempt env (a\<lparr>ma_status := MS_GENERATING\<rparr>) job worker
      (put_task (processing_task (env_now env) task) (put_asset (a\<lparr>ma_status := MS_GENERATING\<rparr>) db)) = Inr (t, db')"
    and "r = Some (t, q, v)"
    by (auto simp: and_then_Inr_iff required_iff split: if_splits)
  with create_started_attempt_fresh [OF this(1), where db = db and k = k] k show ?thesis by simp
qed simp

lemma start_image_attempt_starts:
  assumes "get_asset db k = Some a" and "ma_status a \<notin> {MS_READY_FOR_REVIEW, MS_APPROVED}"
    and "get_job (pd_queue db) (lj_job_id job) \<noteq> None" and "0 < lj_attempt_count job"
  shows "\<exists>t a' db'. start_image_attempt env k job worker db = Inr (Some (t, a'), db')"
  using assms by (simp add: start_image_attempt_def required_asset_def create_started_attempt_def Let_def)

text \<open>How the row of a started attempt ends.\<close>

lemma finish_media_attempt_end:
  "\<exists>e. ae_status e = (if was_cancelled x then MM_CANCELLED else MM_FAILED) \<and>
     finish_media_attempt now k worker x pj cost db = snd (mark_terminal now k (Some worker) e db)"
proof (cases "safe_media_error x (if was_cancelled x then MM_CANCELLED else MM_FAILED)")
  case (Pair c m)
  show ?thesis
    by (intro exI [of _ "\<lparr>ae_status = (if was_cancelled x then MM_CANCELLED else MM_FAILED), ae_code = Some c,
      ae_message = Some m, ae_provider_job_id = pj, ae_cost = cost\<rparr>"]) (simp add: finish_media_attempt_def Pair Let_def)
qed

definition ends_as :: "(exn, unit) res \<Rightarrow> media_attempt_status" where
  "ends_as r = (case r of Inr _ \<Rightarrow> MM_COMPLETED | Inl x \<Rightarrow> if was_cancelled x then MM_CANCELLED else MM_FAILED)"

definition own_attempt :: "uuid \<Rightarrow> string \<Rightarrow> media_attempt_row \<Rightarrow> platform_db \<Rightarrow> bool" where
  "own_attempt i worker t db \<longleftrightarrow>
     get_media_attempt db i = Some t \<and> mt_status t = MM_STARTED \<and> mt_worker_id t = Some worker"

lemma mark_terminal_own:
  "own_attempt i worker t db \<Longrightarrow>
   pd_attempts (snd (mark_terminal now i (Some worker) e db)) = t_put mt_id (pd_attempts db) (apply_terminal_values now e t)"
  by (simp add: own_attempt_def mark_terminal_def put_media_attempt_def)

lemma get_ended:
  assumes "own_attempt i worker t x" and "pd_attempts db' = t_put mt_id (pd_attempts x) (apply_terminal_values n e t)"
  shows "get_media_attempt db' i = Some (apply_terminal_values n e t)"
proof -
  have "mt_id t = i" using assms(1) t_get_SomeD by (fastforce simp: own_attempt_def)
  then show ?thesis
    using assms by (auto simp: own_attempt_def apply_terminal_ok(2) intro: t_get_t_put_same)
qed

lemma finalize_media_own:
  assumes "own_attempt i worker t mid"
    and "finalize_media sv env k i job worker fa ft pj cost extra mid = Inr ((), db')"
  shows "attempt_current job worker t \<and> (\<exists>e. ae_status e = MM_COMPLETED \<and>
    pd_attempts db' = t_put mt_id (pd_attempts mid) (apply_terminal_values (env_now env) e t))"
  using finalize_media_Inr [OF assms(2)] mark_terminal_own [OF assms(1)] assms(1)
  unfolding own_attempt_def by fastforce

lemma knowing_Inr: "knowing c r = Inr a \<longleftrightarrow> r = Inr a"
  by (cases r) (simp_all add: knowing_def)

lemma produce_image_Inr:
  assumes "produce_image sv ms g k t a job worker db = Inr ((), db')"
  obtains i uri where "finalize_image_success sv g k (mt_id t) job worker uri i db = Inr ((), db')"
  using assms unfolding produce_image_def by (auto simp: and_then_Inr_iff knowing_Inr)

lemma produce_storyboard_Inr:
  assumes "produce_storyboard co sv ms fm g k t q v job worker db = Inr ((), db')"
  obtains b c where "finalize_storyboard_success sv g k (mt_id t) job worker b c db = Inr ((), db')"
  using assms unfolding produce_storyboard_def by (auto simp: and_then_Inr_iff knowing_Inr)

text \<open>What is left after the start: the attempt is current and completed, or ended by the exception.\<close>

lemma ending_attempt_own:
  assumes mid: "own_attempt i worker t mid" and others: "own_attempt i worker t (ge_meanwhile g 1 mid)"
    and ok: "\<And>db'. p = Inr ((), db') \<Longrightarrow> attempt_current job worker t \<and> (\<exists>n e. ae_status e = MM_COMPLETED \<and>
      pd_attempts db' = t_put mt_id (pd_attempts mid) (apply_terminal_values n e t))"
    and run: "ending_attempt g i worker p mid = (r, db')"
  shows "\<exists>x n e. x \<in> {mid, ge_meanwhile g 1 mid} \<and> ae_status e = ends_as r \<and>
    pd_attempts db' = t_put mt_id (pd_attempts x) (apply_terminal_values n e t) \<and>
    (r = Inr () \<longrightarrow> attempt_current job worker t)"
proof (cases p)
  case (Inl y)
  obtain x pj cost where y: "y = (x, pj, cost)" by (cases y) auto
  obtain e where "ae_status e = (if was_cancelled x then MM_CANCELLED else MM_FAILED)"
    and f: "finish_media_attempt (ge_end g) i worker x pj cost (ge_meanwhile g 1 mid) =
      snd (mark_terminal (ge_end g) i (Some worker) e (ge_meanwhile g 1 mid))"
    using finish_media_attempt_end by blast
  moreover have "r = Inl x" "db' = finish_media_attempt (ge_end g) i worker x pj cost (ge_meanwhile g 1 mid)"
    using run by (simp_all add: ending_attempt_def Inl y)
  ultimately have "ae_status e = ends_as r \<and>
      pd_attempts db' = t_put mt_id (pd_attempts (ge_meanwhile g 1 mid)) (apply_terminal_values (ge_end g) e t) \<and> r \<noteq> Inr ()"
    using mark_terminal_own [OF others, of "ge_end g" e] by (simp add: ends_as_def)
  then show ?thesis by blast
next
  case (Inr y)
  then have "r = Inr ()" "p = Inr ((), db')" using run by (cases y; simp add: ending_attempt_def)+
  with ok [of db'] show ?thesis by (auto simp: ends_as_def)
qed

definition generation_end ::
  "generation_env \<Rightarrow> uuid \<Rightarrow> leased_job \<Rightarrow> string \<Rightarrow> media_attempt_row \<Rightarrow> platform_db \<Rightarrow> (exn, unit) res \<Rightarrow> platform_db \<Rightarrow> bool" where
  "generation_end g k job worker t db1 r db' \<longleftrightarrow>
     (\<exists>x n e. x \<in> {ge_meanwhile g 0 db1, ge_meanwhile g 1 (ge_meanwhile g 0 db1)} \<and> own_attempt (mt_id t) worker t x \<and>
        ae_status e = ends_as r \<and> pd_attempts db' = t_put mt_id (pd_attempts x) (apply_terminal_values n e t) \<and>
        (r = Inr () \<longrightarrow> attempt_current job worker t))"

lemma started_own:
  assumes "pd_attempts db1 = pd_attempts db @ [t]" and "fresh_attempt db k env worker t"
    and "env_row_id env \<notin> mt_id ` set (pd_attempts db)"
  shows "own_attempt (mt_id t) worker t db1"
  using assms t_get_append_fresh [of t "pd_attempts db"] by (simp add: own_attempt_def fresh_attempt_def)

lemma own_meanwhile:
  assumes "own_attempt i worker t db" and "\<And>n x. get_media_attempt (ge_meanwhile g n x) i = get_media_attempt x i"
  shows "own_attempt i worker t (ge_meanwhile g n db)"
  using assms by (simp add: own_attempt_def)

lemma generate_image_ends:
  assumes st: "start_image_attempt (ge_start g) k job worker db = Inr (Some (t, a), db1)"
    and run: "generate_image sv ms g k job worker db = (r, db')"
    and fresh: "env_row_id (ge_start g) \<notin> mt_id ` set (pd_attempts db)"
    and others: "\<And>n x. get_media_attempt (ge_meanwhile g n x) (env_row_id (ge_start g)) = get_media_attempt x (env_row_id (ge_start g))"
  shows "pd_attempts db1 = pd_attempts db @ [t] \<and> fresh_attempt db k (ge_start g) worker t \<and>
    generation_end g k job worker t db1 r db'"
proof -
  from start_image_attempt_rows [OF st] have t: "pd_attempts db1 = pd_attempts db @ [t]" "fresh_attempt db k (ge_start g) worker t"
    by auto
  then have id: "mt_id t = env_row_id (ge_start g)" by (simp add: fresh_attempt_def)
  note own = own_meanwhile [OF _ others [folded id]]
  let ?mid = "ge_meanwhile g 0 db1"
  have mid: "own_attempt (mt_id t) worker t ?mid" by (rule own [OF started_own [OF t fresh]])
  have "ending_attempt g (mt_id t) worker (produce_image sv ms g k t a job worker ?mid) ?mid = (r, db')"
    using run st by (simp add: generate_image_def and_session_def atomically_def Let_def)
  from ending_attempt_own [OF mid own [OF mid] _ this, of job] finalize_media_own [OF mid] t own [OF mid] mid
  show ?thesis unfolding generation_end_def finalize_image_success_def
    by (metis (no_types, lifting) produce_image_Inr finalize_image_success_def insertE singletonD)
qed

lemma generate_storyboard_ends:
  assumes st: "start_storyboard co (ge_start g) k job worker db = Inr (Some (t, q, v), db1)"
    and run: "generate_storyboard co sv ms fm g k job worker db = (r, db')"
    and fresh: "env_row_id (ge_start g) \<notin> mt_id ` set (pd_attempts db)"
    and others: "\<And>n x. get_media_attempt (ge_meanwhile g n x) (env_row_id (ge_start g)) = get_media_attempt x (env_row_id (ge_start g))"
  shows "pd_attempts db1 = pd_attempts db @ [t] \<and> fresh_attempt db k (ge_start g) worker t \<and>
    generation_end g k job worker t db1 r db'"
proof -
  from start_storyboard_rows [OF st] have t: "pd_attempts db1 = pd_attempts db @ [t]" "fresh_attempt db k (ge_start g) worker t"
    by auto
  then have id: "mt_id t = env_row_id (ge_start g)" by (simp add: fresh_attempt_def)
  note own = own_meanwhile [OF _ others [folded id]]
  let ?mid = "ge_meanwhile g 0 db1"
  have mid: "own_attempt (mt_id t) worker t ?mid" by (rule own [OF started_own [OF t fresh]])
  have "ending_attempt g (mt_id t) worker (produce_storyboard co sv ms fm g k t q v job worker ?mid) ?mid = (r, db')"
    using run st by (simp add: generate_storyboard_def and_session_def atomically_def Let_def)
  from ending_attempt_own [OF mid own [OF mid] _ this, of job] finalize_media_own [OF mid] t own [OF mid] mid
  show ?thesis unfolding generation_end_def finalize_storyboard_success_def
    by (metis (no_types, lifting) produce_storyboard_Inr finalize_storyboard_success_def insertE singletonD)
qed

text \<open>C18. A generation accounts for its attempt. A generation of an image or of a storyboard that starts
  adds one attempt with the next number of the asset, and has ended it when it is over: COMPLETED when
  it returns, CANCELLED when it was cancelled, FAILED for any other exception of the provider, the
  checks, the disk or the finalisation. Others may commit anything between its transactions but
  changes of this very attempt (a reconciliation of its job would end it first).\<close>

theorem generation_ends_its_attempt:
  assumes "(\<exists>a. start_image_attempt (ge_start g) k job worker db = Inr (Some (t0, a), db1)) \<and>
        generate_image sv ms g k job worker db = (r, db') \<or>
      (\<exists>q v. start_storyboard co (ge_start g) k job worker db = Inr (Some (t0, q, v), db1)) \<and>
        generate_storyboard co sv ms fm g k job worker db = (r, db')"
    and "env_row_id (ge_start g) \<notin> mt_id ` set (pd_attempts db)"
    and "\<And>n x. get_media_attempt (ge_meanwhile g n x) (env_row_id (ge_start g)) = get_media_attempt x (env_row_id (ge_start g))"
  shows "pd_attempts db1 = pd_attempts db @ [t0] \<and> mt_attempt_number t0 = next_attempt_number k db \<and>
    (\<exists>t. get_media_attempt db' (mt_id t0) = Some t \<and> mt_asset_id t = k \<and>
       mt_attempt_number t = next_attempt_number k db \<and> mt_completed_at t \<noteq> None \<and>
       mt_status t = (case r of Inr _ \<Rightarrow> MM_COMPLETED | Inl x \<Rightarrow> if was_cancelled x then MM_CANCELLED else MM_FAILED))"
proof -
  have "pd_attempts db1 = pd_attempts db @ [t0]" and t: "fresh_attempt db k (ge_start g) worker t0"
    and e: "generation_end g k job worker t0 db1 r db'"
    using assms(1) generate_image_ends [where g = g, OF _ _ assms(2,3)] generate_storyboard_ends [where g = g, OF _ _ assms(2,3)]
    by metis+
  moreover from e obtain x n e where "own_attempt (mt_id t0) worker t0 x" "ae_status e = ends_as r"
    "pd_attempts db' = t_put mt_id (pd_attempts x) (apply_terminal_values n e t0)"
    unfolding generation_end_def by blast
  with get_ended [OF this(1,3)] t have "get_media_attempt db' (mt_id t0) = Some (apply_terminal_values n e t0)"
    "mt_status (apply_terminal_values n e t0) = ends_as r" by (simp_all add: apply_terminal_values_def)
  ultimately show ?thesis
    by (auto simp: fresh_attempt_def ends_as_def apply_terminal_values_def)
qed

theorem generation_ends_its_attempt_witness:
  "\<exists>a db (t0 :: media_attempt_row) r db' t. demo_requested a db \<and> mt_attempt_number t0 = 1 \<and>
     generate_image ex_services demo_media_settings demo_generation 1 (demo_leased 1) ''w1'' db = (r, db') \<and>
     get_media_attempt db' (mt_id t0) = Some t \<and> mt_completed_at t \<noteq> None"
proof -
  from demo_requested_history obtain a db where d: "demo_requested a db" by blast
  from demo_starts [OF d] obtain t0 a1 db1 where
    s: "start_image_attempt (ge_start demo_generation) 1 (demo_leased 1) ''w1'' db = Inr (Some (t0, a1), db1)" by blast
  obtain r db' where run: "generate_image ex_services demo_media_settings demo_generation 1 (demo_leased 1) ''w1'' db = (r, db')"
    by fastforce
  have "pd_attempts db1 = pd_attempts db @ [t0] \<and> mt_attempt_number t0 = next_attempt_number 1 db \<and>
    (\<exists>t. get_media_attempt db' (mt_id t0) = Some t \<and> mt_asset_id t = 1 \<and>
       mt_attempt_number t = next_attempt_number 1 db \<and> mt_completed_at t \<noteq> None \<and>
       mt_status t = (case r of Inr _ \<Rightarrow> MM_COMPLETED | Inl x \<Rightarrow> if was_cancelled x then MM_CANCELLED else MM_FAILED))"
    by (rule generation_ends_its_attempt [where g = demo_generation])
      (use s run d in \<open>auto simp: demo_requested_def demo_generation_def\<close>)
  then obtain t where t: "mt_attempt_number t0 = next_attempt_number 1 db"
    "get_media_attempt db' (mt_id t0) = Some t" "mt_completed_at t \<noteq> None" by blast
  have "next_attempt_number 1 db = 1"
    using d by (simp add: demo_requested_def next_attempt_number_def max_attempt_number_def)
  with t(1) have "mt_attempt_number t0 = 1" by simp
  with d run t(2,3) show ?thesis by blast
qed

subsection \<open>A retry that cannot succeed\<close>

text \<open>A skipped attempt is never made up. The attempts of an asset are numbered on their own, but a
  generation is only finalised when its number is that of the job's attempt. Once a job's attempt
  has ended before its generation started (its worker died, or it was cancelled first and retried
  later), the next generation fails whatever the provider answers, with the provider already
  called, and leaves the same gap behind for the attempt after it.\<close>

theorem skipped_attempt_never_succeeds:
  assumes "get_asset db k = Some a" and "ma_status a \<notin> {MS_READY_FOR_REVIEW, MS_APPROVED}"
    and "get_job (pd_queue db) (lj_job_id job) \<noteq> None" and "0 < lj_attempt_count job"
    and "next_attempt_number k db \<noteq> lj_attempt_count job"
    and "env_row_id (ge_start g) \<notin> mt_id ` set (pd_attempts db)"
    and "\<And>n x. pd_attempts (ge_meanwhile g n x) = pd_attempts x"
  shows "\<exists>e db'. generate_image sv ms g k job worker db = (Inl e, db') \<and>
    next_attempt_number k db' - (lj_attempt_count job + 1) = next_attempt_number k db - lj_attempt_count job"
proof -
  from start_image_attempt_starts [OF assms(1-4)] obtain t a' db1 where
    st: "start_image_attempt (ge_start g) k job worker db = Inr (Some (t, a'), db1)" by blast
  obtain r db' where run: "generate_image sv ms g k job worker db = (r, db')" by fastforce
  from generate_image_ends [where g = g, OF st run assms(6)] assms(7) have ts: "pd_attempts db1 = pd_attempts db @ [t]"
    and t: "fresh_attempt db k (ge_start g) worker t" and e: "generation_end g k job worker t db1 r db'" by auto
  from e obtain x n e where x: "x \<in> {ge_meanwhile g 0 db1, ge_meanwhile g 1 (ge_meanwhile g 0 db1)}"
    "pd_attempts db' = t_put mt_id (pd_attempts x) (apply_terminal_values n e t)"
    and ok: "r = Inr () \<longrightarrow> attempt_current job worker t"
    unfolding generation_end_def by blast
  let ?t = "apply_terminal_values n e t"
  have "pd_attempts x = pd_attempts db @ [t]" using x(1) assms(7) ts by auto
  moreover have "mt_id t \<notin> mt_id ` set (pd_attempts db)" using t assms(6) by (simp add: fresh_attempt_def)
  ultimately have "pd_attempts db' = pd_attempts db @ [?t]"
    using x(2) t_put_last [OF _ apply_terminal_ok(2)] by metis
  from max_attempt_number_snoc [OF this, of k] have "next_attempt_number k db' = next_attempt_number k db + 1"
    using t by (simp add: fresh_attempt_def next_attempt_number_def apply_terminal_values_def)
  moreover have "r \<noteq> Inr ()" using ok t assms(5) by (auto simp: attempt_current_def fresh_attempt_def)
  ultimately show ?thesis using run by (cases r) auto
qed

theorem skipped_attempt_never_succeeds_witness:
  "\<exists>a db e db'. demo_requested a db \<and> next_attempt_number 1 db = 1 \<and>
     generate_image ex_services demo_media_settings demo_generation 1 (demo_leased 2) ''w1'' db = (Inl e, db') \<and>
     next_attempt_number 1 db' = 2"
proof -
  from demo_requested_history obtain a db where d: "demo_requested a db" by blast
  then have n: "next_attempt_number 1 db = 1"
    by (simp add: demo_requested_def next_attempt_number_def max_attempt_number_def)
  from demo_generation_ready [OF d] have "\<exists>e db'. generate_image ex_services demo_media_settings demo_generation 1 (demo_leased 2) ''w1'' db = (Inl e, db') \<and>
      next_attempt_number 1 db' - (lj_attempt_count (demo_leased 2) + 1) = next_attempt_number 1 db - lj_attempt_count (demo_leased 2)"
    by (intro skipped_attempt_never_succeeds) (simp_all add: demo_leased_simps n [simplified])
  with d n show ?thesis by (force simp: demo_leased_simps)
qed

subsection \<open>A generation is a history of its transactions\<close>

lemma t_get_map: "(\<And>x. key (f x) = key x) \<Longrightarrow> t_get key (map f xs) k = map_option f (t_get key xs k)"
  by (induction xs) (auto simp: table_simps)

definition attempts_kept :: "platform_db \<Rightarrow> platform_db \<Rightarrow> bool" where
  "attempts_kept db db' \<longleftrightarrow> (\<forall>i k. attempt_of i k db \<longrightarrow> attempt_of i k db')"

lemma attempts_kept_same: "pd_attempts db' = pd_attempts db \<Longrightarrow> attempts_kept db db'"
  by (simp add: attempts_kept_def attempt_of_def)

lemma attempts_kept_snoc: "pd_attempts db' = pd_attempts db @ [t] \<Longrightarrow> attempts_kept db db'"
  by (auto simp: attempts_kept_def attempt_of_def t_get_append)

lemma attempts_kept_map:
  assumes "pd_attempts db' = map f (pd_attempts db)" and "\<And>x. mt_id (f x) = mt_id x" and "\<And>x. mt_asset_id (f x) = mt_asset_id x"
  shows "attempts_kept db db'"
  using assms by (auto simp: attempts_kept_def attempt_of_def t_get_map [where f = f and key = mt_id, OF assms(2)])

lemma attempts_kept_terminalize:
  "pd_attempts db' = pd_attempts (terminalize_active_attempts now k e db) \<Longrightarrow> attempts_kept db db'"
  by (rule attempts_kept_map [where f = "\<lambda>a. if mt_asset_id a = k \<and> mt_status a = MM_STARTED
      then apply_terminal_values now e a else a"])
    (auto simp: terminalize_active_attempts_def apply_terminal_values_def)

lemma attempts_kept_mark:
  "pd_attempts db' = pd_attempts (snd (mark_terminal now k w e db)) \<Longrightarrow> attempts_kept db db'"
proof (cases "fst (mark_terminal now k w e db) = MU_UPDATED")
  case True
  assume db': "pd_attempts db' = pd_attempts (snd (mark_terminal now k w e db))"
  from True obtain a where a: "get_media_attempt db k = Some a"
    and m: "snd (mark_terminal now k w e db) = put_media_attempt (apply_terminal_values now e a) db"
    by (auto simp: mark_terminal_def split: option.splits if_splits)
  let ?a = "apply_terminal_values now e a"
  have ts: "pd_attempts db' = t_put mt_id (pd_attempts db) ?a" by (simp add: db' m put_media_attempt_def)
  have id: "mt_id ?a = k" "mt_asset_id ?a = mt_asset_id a"
    using t_get_SomeD [OF a] by (simp_all add: apply_terminal_values_def)
  show ?thesis
    unfolding attempts_kept_def attempt_of_def ts
  proof (intro allI impI, elim exE conjE)
    fix i j t assume t: "get_media_attempt db i = Some t" "mt_asset_id t = j"
    show "\<exists>t. t_get mt_id (t_put mt_id (pd_attempts db) ?a) i = Some t \<and> mt_asset_id t = j"
    proof (cases "i = k")
      case True
      then show ?thesis using t a t_get_t_put_same [OF a id(1)] id(2) by simp
    qed (use t t_get_t_put_other [of mt_id ?a i] id(1) in auto)
  qed
next
  case False
  then have "snd (mark_terminal now k w e db) = db"
    by (auto simp: mark_terminal_def split: option.splits if_splits)
  moreover assume "pd_attempts db' = pd_attempts (snd (mark_terminal now k w e db))"
  ultimately show ?thesis by (simp add: attempts_kept_same)
qed

lemma reconcile_payload_kept: "attempts_kept db (reconcile_payload now c p db)"
proof -
  have m: "attempts_kept db (reconcile_media now c k db)" for k
    by (rule attempts_kept_terminalize [where now = now and k = k and e = "\<lparr>ae_status = (if tn_cancelled c then MM_CANCELLED else MM_FAILED),
       ae_code = Some (or_str (tn_code c) ''JOB_TERMINAL_RECONCILIATION''),
       ae_message = Some (or_str (safe_message c) ''Terminal job reconciled media attempt''),
       ae_provider_job_id = None, ae_cost = None\<rparr>"])
      (simp add: reconcile_media_def Let_def split: option.split)
  show ?thesis
  proof (cases p)
    case (PromptExperimentRunJobPayload k)
    then show ?thesis
      by (intro attempts_kept_same) (simp add: reconcile_experiment_def put_experiment_def split: option.split)
  next
    case (ProviderComparisonRunJobPayload k)
    then show ?thesis
      by (intro attempts_kept_same) (simp add: reconcile_comparison_def put_comparison_def split: option.split)
  qed (simp_all add: m, (intro attempts_kept_same, simp add: reconcile_task_def split: option.split)+)
qed

lemma retry_payload_kept: "pd_attempts (retry_payload p db) = pd_attempts db"
  by (cases p) (auto simp: retry_media_def put_experiment_def put_comparison_def split: option.split)

lemma media_step_kept:
  assumes "media_step s s'"
  shows "attempts_kept (md_db s) (md_db s')"
  using assms
proof (cases rule: media_step.cases)
  case (MS_image co h st ms fm env d actor key a db')
  then show ?thesis using request_image_rows [OF MS_image(2)] by (auto intro: attempts_kept_same)
next
  case (MS_storyboard co h st ms fm env d actor a db')
  then show ?thesis using request_storyboard_rows [OF MS_storyboard(2)] by (auto intro: attempts_kept_same)
next
  case (MS_start_image env k job worker r db')
  then show ?thesis using start_image_attempt_rows [OF MS_start_image(2)]
    by (auto intro: attempts_kept_same attempts_kept_snoc)
next
  case (MS_start_storyboard co env k job worker r db')
  then show ?thesis using start_storyboard_rows [OF MS_start_storyboard(2)]
    by (auto intro: attempts_kept_same attempts_kept_snoc)
next
  case (MS_finalize_image sv g k i job worker uri x db')
  from finalize_media_Inr [OF MS_finalize_image(2) [unfolded finalize_image_success_def]] obtain e where
    "pd_attempts db' = pd_attempts (snd (mark_terminal (env_now (ge_finalize g)) i (Some worker) e (md_db s)))" by blast
  then show ?thesis by (simp add: MS_finalize_image(1) attempts_kept_mark)
next
  case (MS_finalize_storyboard sv g k i job worker b c db')
  from finalize_media_Inr [OF MS_finalize_storyboard(2) [unfolded finalize_storyboard_success_def]] obtain e where
    "pd_attempts db' = pd_attempts (snd (mark_terminal (env_now (ge_finalize g)) i (Some worker) e (md_db s)))" by blast
  then show ?thesis by (simp add: MS_finalize_storyboard(1) attempts_kept_mark)
next
  case (MS_finish now k worker e pj cost)
  obtain x where "finish_media_attempt now k worker e pj cost (md_db s) = snd (mark_terminal now k (Some worker) x (md_db s))"
    using finish_media_attempt_end by blast
  then show ?thesis by (simp add: MS_finish(1) attempts_kept_mark)
next
  case (MS_review sv env k d actor a db')
  have "pd_attempts db' = pd_attempts (md_db s)"
    using MS_review(2)
  proof (rule review_asset_Inr)
    fix x
    assume "platform_event sv env (review_event k (mrr_approve d))
      ((put_asset (reviewed_asset (env_now env) d (actor_id actor) x)
          (record_acceptance (mrr_approve d) (ma_task_id x) (md_db s)))
       \<lparr>pd_reviews := pd_reviews (put_asset (reviewed_asset (env_now env) d (actor_id actor) x)
          (record_acceptance (mrr_approve d) (ma_task_id x) (md_db s))) @ [new_review env k d (actor_id actor)]\<rparr>) = Inr db'"
    from platform_event_media [OF this] record_acceptance_media [of "md_db s" "mrr_approve d" "ma_task_id x"]
    show ?thesis by (simp add: same_media_def)
  qed
  then show ?thesis by (simp add: MS_review(1) attempts_kept_same)
next
  case (MS_reconcile co now job cause db')
  then obtain p where "db' = reconcile_payload now cause p (md_db s)"
    by (simp add: job_reconcile_def and_then_Inr_iff) blast
  then show ?thesis by (simp add: MS_reconcile(1) reconcile_payload_kept)
next
  case (MS_consistency co now job r db')
  have o: "attempts_kept (md_db s) (orphaned now k (md_db s))" for k
    by (rule attempts_kept_terminalize [where now = now and k = k and e = "\<lparr>ae_status = MM_FAILED,
      ae_code = Some ''MEDIA_ATTEMPT_ORPHANED'', ae_message = Some ''Successful handler left an active media attempt'',
      ae_provider_job_id = None, ae_cost = None\<rparr>"]) (simp add: orphaned_def Let_def split: option.split)
  have "db' = md_db s \<or> (\<exists>k. db' = orphaned now k (md_db s))"
    using ensure_success_consistency_db [of co now job "md_db s"] by (simp add: MS_consistency(2))
  then show ?thesis using o by (auto simp: MS_consistency(1) attempts_kept_same)
next
  case (MS_retry co job db')
  then obtain p where "db' = retry_payload p (md_db s)"
    by (simp add: prepare_retry_def and_then_Inr_iff) blast
  then show ?thesis by (simp add: MS_retry(1) attempts_kept_same retry_payload_kept)
next
  case (MS_elsewhere db')
  then show ?thesis by (simp add: attempts_kept_same)
qed


text \<open>The steps of a history, the reviewers of the decisions left open.\<close>

definition media_reaches :: "media_state \<Rightarrow> platform_db \<Rightarrow> bool" where
  "media_reaches s db \<longleftrightarrow> (\<exists>gs. media_step\<^sup>*\<^sup>* s \<lparr>md_db = db, md_decisions = gs\<rparr>)"

lemma media_reaches_refl [simp]: "media_reaches s (md_db s)"
  unfolding media_reaches_def by (rule exI [of _ "md_decisions s"]) (cases s, simp)

lemma media_reaches_trans:
  assumes "media_reaches s db" and "\<And>gs. media_reaches \<lparr>md_db = db, md_decisions = gs\<rparr> db'"
  shows "media_reaches s db'"
  using assms unfolding media_reaches_def by (meson rtranclp_trans)

lemma media_reaches_step:
  assumes "media_reaches s db" and "\<And>s'. md_db s' = db \<Longrightarrow> media_step s' (s'\<lparr>md_db := db'\<rparr>)"
  shows "media_reaches s db'"
proof (rule media_reaches_trans [OF assms(1)])
  fix gs
  from assms(2) [of "\<lparr>md_db = db, md_decisions = gs\<rparr>"] show "media_reaches \<lparr>md_db = db, md_decisions = gs\<rparr> db'"
    unfolding media_reaches_def by auto
qed

lemma media_reaches_kept:
  assumes "media_reaches s db"
  shows "attempts_kept (md_db s) db"
proof -
  from assms obtain gs where "media_step\<^sup>*\<^sup>* s \<lparr>md_db = db, md_decisions = gs\<rparr>" by (auto simp: media_reaches_def)
  then have "attempts_kept (md_db s) (md_db \<lparr>md_db = db, md_decisions = gs\<rparr>)"
  proof (induction rule: rtranclp_induct)
    case (step x y)
    then show ?case using media_step_kept [of x y] by (simp add: attempts_kept_def)
  qed (simp add: attempts_kept_def)
  then show ?thesis by simp
qed

text \<open>The end of a generation: what is left is the finalisation or the end of its attempt.\<close>

lemma ending_attempt_reaches:
  assumes mid: "media_reaches s mid" and others: "\<And>n s. media_reaches s (ge_meanwhile g n (md_db s))"
    and p: "\<And>db2 s'. p = Inr ((), db2) \<Longrightarrow> md_db s' = mid \<Longrightarrow> media_step s' (s'\<lparr>md_db := db2\<rparr>)"
    and e: "ending_attempt g i worker p mid = (r, db')"
  shows "media_reaches s db'"
proof (cases p)
  case (Inl y)
  obtain x pj cost where y: "y = (x, pj, cost)" by (cases y) auto
  have "media_reaches s (ge_meanwhile g 1 mid)"
    by (rule media_reaches_trans [OF mid]) (metis others media_state.select_convs(1))
  then have "media_reaches s (finish_media_attempt (ge_end g) i worker x pj cost (ge_meanwhile g 1 mid))"
    by (rule media_reaches_step) (metis MS_finish)
  then show ?thesis using e by (simp add: ending_attempt_def Inl y)
next
  case (Inr y)
  then show ?thesis
    using e media_reaches_step [OF mid p] by (cases y) (simp add: ending_attempt_def)
qed

lemma attempt_of_snoc:
  "pd_attempts db' = ts @ [t] \<Longrightarrow> mt_id t \<notin> mt_id ` set ts \<Longrightarrow> attempt_of (mt_id t) (mt_asset_id t) db'"
  by (simp add: attempt_of_def t_get_append_fresh)

lemma start_image_attempt_of:
  assumes "start_image_attempt env k job worker db = Inr (Some (t, a), db')"
    and "env_row_id env \<notin> mt_id ` set (pd_attempts db)"
  shows "attempt_of (mt_id t) k db'"
  using start_image_attempt_rows [OF assms(1)] assms(2) attempt_of_snoc [of db' "pd_attempts db" t]
  by (auto simp: fresh_attempt_def)

lemma start_storyboard_of:
  assumes "start_storyboard co env k job worker db = Inr (Some (t, q, v), db')"
    and "env_row_id env \<notin> mt_id ` set (pd_attempts db)"
  shows "attempt_of (mt_id t) k db'"
  using start_storyboard_rows [OF assms(1)] assms(2) attempt_of_snoc [of db' "pd_attempts db" t]
  by (auto simp: fresh_attempt_def)

lemma generate_image_reaches:
  assumes run: "generate_image sv ms g k job worker (md_db s) = (r, db')"
    and fresh: "env_row_id (ge_start g) \<notin> mt_id ` set (pd_attempts (md_db s))"
    and others: "\<And>n s. media_reaches s (ge_meanwhile g n (md_db s))"
  shows "media_reaches s db'"
proof (cases "start_image_attempt (ge_start g) k job worker (md_db s)")
  case (Inl e)
  then have "db' = md_db s" using run by (simp add: generate_image_def and_session_def atomically_def)
  then show ?thesis by simp
next
  case (Inr y)
  obtain x db1 where y: "y = (x, db1)" by (cases y)
  note st = Inr [unfolded y]
  have one: "media_reaches s db1"
    by (rule media_reaches_step [OF media_reaches_refl]) (use st fresh in \<open>auto intro: MS_start_image\<close>)
  show ?thesis
  proof (cases x)
    case None
    then show ?thesis using run st one by (simp add: generate_image_def and_session_def atomically_def returns_def)
  next
    case (Some ta)
    obtain t a where ta: "ta = (t, a)" by (cases ta)
    define mid where "mid = ge_meanwhile g 0 db1"
    have "media_reaches \<lparr>md_db = db1, md_decisions = gs\<rparr> mid" for gs
      using others [of "\<lparr>md_db = db1, md_decisions = gs\<rparr>" 0] by (simp add: mid_def)
    note two = media_reaches_trans [OF one this] media_reaches_kept [OF this]
    from start_image_attempt_of [OF st [unfolded Some ta] fresh] two(2)
    have own: "attempt_of (mt_id t) k mid" by (simp add: attempts_kept_def)
    have "ending_attempt g (mt_id t) worker (produce_image sv ms g k t a job worker mid) mid = (r, db')"
      using run st by (simp add: generate_image_def and_session_def atomically_def Some ta Let_def flip: mid_def)
    then show ?thesis
    proof (rule ending_attempt_reaches [OF two(1) others, rotated])
      fix db2 and s' :: media_state
      assume "produce_image sv ms g k t a job worker mid = Inr ((), db2)" and "md_db s' = mid"
      then show "media_step s' (s'\<lparr>md_db := db2\<rparr>)"
        using own by (metis produce_image_Inr MS_finalize_image)
    qed
  qed
qed

lemma generate_storyboard_reaches:
  assumes run: "generate_storyboard co sv ms fm g k job worker (md_db s) = (r, db')"
    and fresh: "env_row_id (ge_start g) \<notin> mt_id ` set (pd_attempts (md_db s))"
    and others: "\<And>n s. media_reaches s (ge_meanwhile g n (md_db s))"
  shows "media_reaches s db'"
proof (cases "start_storyboard co (ge_start g) k job worker (md_db s)")
  case (Inl e)
  then have "db' = md_db s" using run by (simp add: generate_storyboard_def and_session_def atomically_def)
  then show ?thesis by simp
next
  case (Inr y)
  obtain x db1 where y: "y = (x, db1)" by (cases y)
  note st = Inr [unfolded y]
  have one: "media_reaches s db1"
    by (rule media_reaches_step [OF media_reaches_refl]) (use st fresh in \<open>auto intro: MS_start_storyboard\<close>)
  show ?thesis
  proof (cases x)
    case None
    then show ?thesis using run st one by (simp add: generate_storyboard_def and_session_def atomically_def returns_def)
  next
    case (Some ta)
    obtain t q v where ta: "ta = (t, q, v)" by (cases ta) auto
    define mid where "mid = ge_meanwhile g 0 db1"
    have "media_reaches \<lparr>md_db = db1, md_decisions = gs\<rparr> mid" for gs
      using others [of "\<lparr>md_db = db1, md_decisions = gs\<rparr>" 0] by (simp add: mid_def)
    note two = media_reaches_trans [OF one this] media_reaches_kept [OF this]
    from start_storyboard_of [OF st [unfolded Some ta] fresh] two(2)
    have own: "attempt_of (mt_id t) k mid" by (simp add: attempts_kept_def)
    have "ending_attempt g (mt_id t) worker (produce_storyboard co sv ms fm g k t q v job worker mid) mid = (r, db')"
      using run st by (simp add: generate_storyboard_def and_session_def atomically_def Some ta Let_def flip: mid_def)
    then show ?thesis
    proof (rule ending_attempt_reaches [OF two(1) others, rotated])
      fix db2 and s' :: media_state
      assume "produce_storyboard co sv ms fm g k t q v job worker mid = Inr ((), db2)" and "md_db s' = mid"
      then show "media_step s' (s'\<lparr>md_db := db2\<rparr>)"
        using own by (metis produce_storyboard_Inr MS_finalize_storyboard)
    qed
  qed
qed

text \<open>C17. A generation is a history of its transactions. Whatever others commit between them, as long as
  they take the steps of a media history themselves, the whole of a generation of an image or of a
  storyboard, with its provider, checkpoint, finalisation and the end of a failed attempt, is a
  sequence of those steps. Every invariant of the histories holds when it is over.\<close>

theorem generation_refines_steps:
  assumes "generate_image sv ms g k job worker (md_db s) = (r, db') \<or>
      generate_storyboard co sv ms fm g k job worker (md_db s) = (r, db')"
    and "env_row_id (ge_start g) \<notin> mt_id ` set (pd_attempts (md_db s))"
    and "\<And>n s. media_reaches s (ge_meanwhile g n (md_db s))"
  shows "media_reaches s db'"
  using assms(1) generate_image_reaches [OF _ assms(2,3)] generate_storyboard_reaches [OF _ assms(2,3)] by blast

theorem generation_refines_steps_witness:
  "\<exists>a db r db'. demo_requested a db \<and>
     generate_image ex_services demo_media_settings demo_generation 1 (demo_leased 1) ''w1'' db = (r, db') \<and>
     media_reaches \<lparr>md_db = db, md_decisions = []\<rparr> db'"
proof -
  from demo_requested_history obtain a db where d: "demo_requested a db" by blast
  obtain r db' where r: "generate_image ex_services demo_media_settings demo_generation 1 (demo_leased 1) ''w1'' db = (r, db')"
    by fastforce
  have "media_reaches \<lparr>md_db = db, md_decisions = []\<rparr> db'"
  proof (rule generation_refines_steps)
    show "generate_image ex_services demo_media_settings demo_generation 1 (demo_leased 1) ''w1''
        (md_db \<lparr>md_db = db, md_decisions = []\<rparr>) = (r, db') \<or>
      generate_storyboard strict_coercions ex_services demo_media_settings no_formatting demo_generation 1 (demo_leased 1) ''w1''
        (md_db \<lparr>md_db = db, md_decisions = []\<rparr>) = (r, db')" using r by simp
  qed (use d in \<open>simp_all add: demo_requested_def demo_generation_def\<close>)
  with d r show ?thesis by blast
qed

subsection \<open>An approval that is generated over\<close>

text \<open>An approved storyboard is generated again. A worker that dies after the finalisation leaves its
  job to be leased again. An image is then left alone when it is ready or approved; a storyboard only
  when it is ready. One that a reviewer has approved meanwhile goes back to GENERATING, with the
  approval still on its row, while its job starts over.\<close>

theorem approved_storyboard_regenerated:
  assumes "get_asset db k = Some a" and "ma_status a = MS_APPROVED"
    and "Option.bind (ma_task_id a) (get_task db) = Some task" and "storyboard_request_of co (ta_input task) = Some q"
    and "Option.bind (ma_prompt_version_id a) (get_version db) = Some v"
    and "get_job (pd_queue db) (lj_job_id job) \<noteq> None" and "0 < lj_attempt_count job"
  shows "start_image_attempt env k job worker db = Inr (None, db) \<and>
    (\<exists>t db' a'. start_storyboard co env k job worker db = Inr (Some (t, q, v), db') \<and> get_asset db' k = Some a' \<and>
       ma_status a' = MS_GENERATING \<and> ma_approved_by a' = ma_approved_by a)"
proof -
  let ?db = "put_task (processing_task (env_now env) task) (put_asset (a\<lparr>ma_status := MS_GENERATING\<rparr>) db)"
  have k: "ma_id a = k" using t_get_SomeD [OF assms(1)] by simp
  have "get_asset ?db k = Some (a\<lparr>ma_status := MS_GENERATING\<rparr>)"
    using assms(1) k by (simp add: put_task_def put_asset_def t_get_t_put_same)
  then show ?thesis
    using assms by (auto simp: start_image_attempt_def start_storyboard_def required_asset_def create_started_attempt_def
        put_task_def put_asset_def Let_def)
qed

theorem approved_storyboard_regenerated_witness:
  "\<exists>t db a. get_asset demo_approved_storyboard 1 = Some demo_storyboard \<and> ma_status demo_storyboard = MS_APPROVED \<and>
     start_storyboard strict_coercions ex_env 1 (demo_leased 2) ''w2'' demo_approved_storyboard =
       Inr (Some (t, demo_storyboard_request, demo_image_version), db) \<and>
     get_asset db 1 = Some a \<and> ma_status a = MS_GENERATING \<and> ma_approved_by a = Some ''rob''"
proof -
  note rows = demo_approved_storyboard_simps
  have "0 < lj_attempt_count (demo_leased 2)" by (simp add: demo_leased_simps)
  from approved_storyboard_regenerated [OF rows(1-6) this] rows(1,2,7) show ?thesis by metis
qed

end
