(* ===== verification/LLM_Clients.thy ===== *)
theory LLM_Clients
  imports Agent_Loop
begin

text \<open>
  The clients of the language models: \<open>capabilities.py\<close>, \<open>provider_http.py\<close>, the clients of
  OpenAI, Gemini and Anthropic, \<open>factory.py\<close>, \<open>registry.py\<close> and \<open>router.py\<close> of \<open>app/llm\<close>. The
  transport (\<open>httpx\<close>, the package \<open>openai\<close>) and the JSON texts are parameters; an answer schema is
  the reader that validates a JSON value and dumps it again. Metrics and tracing are left out.
\<close>

subsection \<open>Python on JSON values\<close>

record py_env =
  py_str :: "json \<Rightarrow> string"
  py_int_of_str :: "string \<Rightarrow> int option"
  py_loads :: "string \<Rightarrow> json option"
  py_dumps :: "json \<Rightarrow> string"

type_synonym output_schema = "json \<Rightarrow> json option"

definition py_raise :: "string \<Rightarrow> (exn, 'a) res" where
  "py_raise m = Inl (Exn (PyE OtherException) m)"

definition value_error :: "string \<Rightarrow> exn" where
  "value_error m = Exn (PyE ValueError) m"

fun json_truthy :: "json \<Rightarrow> bool" where
  "json_truthy JNull = False"
| "json_truthy (JBool b) = b"
| "json_truthy (JInt n) = (n \<noteq> 0)"
| "json_truthy (JFloat x) = (x \<noteq> 0)"
| "json_truthy (JStr s) = (s \<noteq> [])"
| "json_truthy (JList vs) = (vs \<noteq> [])"
| "json_truthy (JObj es) = (es \<noteq> [])"
| "json_truthy _ = True"

text \<open>\<open>value.get(key, default)\<close>.\<close>

fun py_get :: "json \<Rightarrow> string \<Rightarrow> json \<Rightarrow> (exn, json) res" where
  "py_get (JObj es) k d = Inr (case map_of es k of None \<Rightarrow> d | Some v \<Rightarrow> v)"
| "py_get _ _ _ = py_raise ''AttributeError''"

fun int_of_json :: "py_env \<Rightarrow> json \<Rightarrow> (exn, int) res" where
  "int_of_json py (JInt n) = Inr n"
| "int_of_json py (JBool b) = Inr (if b then 1 else 0)"
| "int_of_json py (JFloat x) = Inr (if x < 0 then - \<lfloor>- x\<rfloor> else \<lfloor>x\<rfloor>)"
| "int_of_json py (JStr s) = required (py_int_of_str py s) (value_error ''int'')"
| "int_of_json _ _ = py_raise ''TypeError''"

text \<open>\<open>dict(value)\<close>: a mapping, or pairs with text keys.\<close>

fun pair_of :: "json \<Rightarrow> (string \<times> json) option" where
  "pair_of (JList [JStr k, v]) = Some (k, v)"
| "pair_of (JStr [a, b]) = Some ([a], JStr [b])"
| "pair_of _ = None"

fun py_dict :: "json \<Rightarrow> (exn, json) res" where
  "py_dict (JObj es) = Inr (JObj es)"
| "py_dict (JList vs) = map_sum id (\<lambda>ps. JObj (dict_of ps)) (required (all_some (map pair_of vs)) (value_error ''dict''))"
| "py_dict (JStr []) = Inr (JObj [])"
| "py_dict (JStr (c # cs)) = Inl (value_error ''dict'')"
| "py_dict _ = py_raise ''TypeError''"

fun is_dict :: "json \<Rightarrow> bool" where
  "is_dict (JObj _) = True"
| "is_dict _ = False"

subsection \<open>Requests and completions\<close>

record model_capabilities =
  mc_structured_output :: bool
  mc_tool_calling :: bool
  mc_image_input :: bool
  mc_image_generation :: bool
  mc_max_context_tokens :: int
  mc_supports_system_prompt :: bool

record completion_request =
  rq_system_prompt :: string
  rq_user_prompt :: string
  rq_model :: string
  rq_tools :: "json list"
  rq_temperature :: rat
  rq_max_output_tokens :: int

definition completion_request_ok :: "completion_request \<Rightarrow> bool" where
  "completion_request_ok r \<longleftrightarrow> length (rq_system_prompt r) \<le> 30000 \<and> 1 \<le> length (rq_user_prompt r) \<and>
     length (rq_user_prompt r) \<le> 60000 \<and> 1 \<le> length (rq_model r) \<and> length (rq_model r) \<le> 200 \<and>
     length (rq_tools r) \<le> 50 \<and> list_all is_dict (rq_tools r) \<and> 0 \<le> rq_temperature r \<and> rq_temperature r \<le> 2 \<and>
     1 \<le> rq_max_output_tokens r \<and> rq_max_output_tokens r \<le> 32000"

definition make_completion_request :: "completion_request \<Rightarrow> (exn, completion_request) res" where
  "make_completion_request r = (if completion_request_ok r then Inr r else Inl (value_error ''CompletionRequest''))"

definition plain_request :: "string \<Rightarrow> string \<Rightarrow> string \<Rightarrow> json list \<Rightarrow> completion_request" where
  "plain_request system user model tools =
     \<lparr>rq_system_prompt = system, rq_user_prompt = user, rq_model = model, rq_tools = tools, rq_temperature = 0,
      rq_max_output_tokens = 2048\<rparr>"

record normalized_usage =
  nu_input_tokens :: int
  nu_output_tokens :: int
  nu_estimated_cost :: rat

definition no_usage :: normalized_usage where
  "no_usage = \<lparr>nu_input_tokens = 0, nu_output_tokens = 0, nu_estimated_cost = 0\<rparr>"

definition token_usage :: "int \<Rightarrow> int \<Rightarrow> (exn, normalized_usage) res" where
  "token_usage i n = (if 0 \<le> i \<and> 0 \<le> n then Inr (no_usage\<lparr>nu_input_tokens := i, nu_output_tokens := n\<rparr>)
     else Inl (value_error ''NormalizedUsage''))"

record normalized_tool_call =
  ntc_call_id :: string
  ntc_name :: string
  ntc_arguments :: json

record normalized_completion =
  nc_provider :: provider_name
  nc_model :: string
  nc_content :: "string option"
  nc_structured :: "json option"
  nc_tool_calls :: "normalized_tool_call list"
  nc_usage :: normalized_usage
  nc_finish_reason :: "string option"
  nc_fallback_from :: "provider_name option"

definition plain_completion :: "provider_name \<Rightarrow> string \<Rightarrow> normalized_completion" where
  "plain_completion p model = \<lparr>nc_provider = p, nc_model = model, nc_content = None, nc_structured = None,
     nc_tool_calls = [], nc_usage = no_usage, nc_finish_reason = None, nc_fallback_from = None\<rparr>"

text \<open>The operations of a client (\<open>app/llm/base.py\<close>).\<close>

record llm_client =
  cl_complete :: "completion_request \<Rightarrow> (exn, normalized_completion) res"
  cl_complete_structured :: "completion_request \<Rightarrow> output_schema \<Rightarrow> (exn, normalized_completion) res"
  cl_complete_with_tools :: "completion_request \<Rightarrow> (exn, normalized_completion) res"
  cl_generate_structured :: "string \<Rightarrow> string \<Rightarrow> output_schema \<Rightarrow> (exn, json) res"
  cl_agent_turn :: "string \<Rightarrow> json list \<Rightarrow> output_schema \<Rightarrow> agent_message list \<Rightarrow> (exn, agent_turn) res"

record llm_settings =
  ls_provider :: string
  ls_model :: "string option"
  ls_llm_key :: "string option"
  ls_openai_key :: "string option"
  ls_gemini_key :: "string option"
  ls_anthropic_key :: "string option"
  ls_demo_aliases :: bool

subsection \<open>Agent turns\<close>

definition tool_request_ok :: "tool_request \<Rightarrow> bool" where
  "tool_request_ok r \<longleftrightarrow> 1 \<le> length (tq_call_id r) \<and> length (tq_call_id r) \<le> 200 \<and>
     1 \<le> length (tq_tool_name r) \<and> length (tq_tool_name r) \<le> 100 \<and> is_dict (tq_arguments r)"

definition make_turn :: "agent_turn \<Rightarrow> (exn, agent_turn) res" where
  "make_turn t = (if turn_ok t \<and> list_all tool_request_ok (at_tool_calls t) then Inr t
     else Inl (value_error ''AgentTurn''))"

definition turn_of_calls :: "string option \<Rightarrow> tool_request list \<Rightarrow> agent_turn" where
  "turn_of_calls text calls = \<lparr>at_text = text, at_tool_calls = calls, at_final_output = None, at_proposals = []\<rparr>"

definition turn_of_output :: "json \<Rightarrow> action_proposal list \<Rightarrow> agent_turn" where
  "turn_of_output out proposals = \<lparr>at_text = None, at_tool_calls = [], at_final_output = Some out, at_proposals = proposals\<rparr>"

definition request_of_call :: "normalized_tool_call \<Rightarrow> tool_request" where
  "request_of_call c = \<lparr>tq_call_id = ntc_call_id c, tq_tool_name = ntc_name c, tq_arguments = ntc_arguments c\<rparr>"

fun join_lines :: "string list \<Rightarrow> string" where
  "join_lines [] = []"
| "join_lines [x] = x"
| "join_lines (x # xs) = x @ [CHR 0x0A] @ join_lines xs"

text \<open>The texts of the messages, one per line, are what Gemini and Anthropic are sent of a run.\<close>

definition flattened_messages :: "agent_message list \<Rightarrow> string" where
  "flattened_messages ms = or_str (Some (join_lines (map am_content ms))) ''Continue the task''"

definition flat_turn ::
  "py_env \<Rightarrow> string \<Rightarrow> (completion_request \<Rightarrow> (exn, normalized_completion) res) \<Rightarrow> string \<Rightarrow> string \<Rightarrow> json list \<Rightarrow>
   output_schema \<Rightarrow> agent_message list \<Rightarrow> (exn, agent_turn) res" where
  "flat_turn py failure complete_with_tools model system tools schema ms =
     and_then (make_completion_request (plain_request system (flattened_messages ms) model tools)) (\<lambda>r.
     and_then (complete_with_tools r) (\<lambda>c.
     if nc_tool_calls c \<noteq> [] then make_turn (turn_of_calls (nc_content c) (map request_of_call (nc_tool_calls c)))
     else and_then (required (Option.bind (py_loads py (or_str (nc_content c) [])) schema)
            (Exn (CoreE LLMResponseError) failure)) (\<lambda>out.
          make_turn (turn_of_output out []))))"

subsection \<open>HTTP\<close>

datatype http_result = Http_Timeout | Http_Network | Http_Raised exn | Http_Response int string

type_synonym http_post = "string \<Rightarrow> (string \<times> string) list \<Rightarrow> json \<Rightarrow> http_result"

definition llm_error :: "core_exn \<Rightarrow> string \<Rightarrow> exn" where
  "llm_error c m = Exn (CoreE c) m"

fun post_json :: "py_env \<Rightarrow> http_result \<Rightarrow> (exn, json) res" where
  "post_json py Http_Timeout = Inl (llm_error LLMTimeoutError ''LLM provider timed out'')"
| "post_json py Http_Network = Inl (llm_error LLMProviderUnavailableError ''LLM provider is unavailable'')"
| "post_json py (Http_Raised e) = Inl e"
| "post_json py (Http_Response status body) =
     (if status = 429 then Inl (llm_error LLMRateLimitError ''LLM provider rate limit exceeded'')
      else if 500 \<le> status then Inl (llm_error LLMProviderUnavailableError ''LLM provider is unavailable'')
      else if 400 \<le> status then Inl (llm_error LLMProviderError ''LLM provider rejected the request'')
      else case py_loads py body of
             None \<Rightarrow> Inl (llm_error LLMResponseError ''LLM provider returned malformed JSON'')
           | Some data \<Rightarrow> if is_dict data then Inr data
               else Inl (llm_error LLMResponseError ''LLM provider response must be an object''))"

definition json_only :: "completion_request \<Rightarrow> completion_request" where
  "json_only r = r\<lparr>rq_user_prompt := rq_user_prompt r @ [CHR 0x0A] @ ''Return JSON only.''\<rparr>"

text \<open>The common half of \<open>complete_structured\<close>: the content is read as JSON and validated.\<close>

definition structured_of ::
  "py_env \<Rightarrow> string \<Rightarrow> output_schema \<Rightarrow> normalized_completion \<Rightarrow> (exn, normalized_completion) res" where
  "structured_of py failure schema c =
     and_then (required (Option.bind (py_loads py (or_str (nc_content c) [])) schema)
       (llm_error LLMResponseError failure)) (\<lambda>v.
     Inr (c\<lparr>nc_content := None, nc_structured := Some v\<rparr>))"

definition generate_with ::
  "(completion_request \<Rightarrow> output_schema \<Rightarrow> (exn, normalized_completion) res) \<Rightarrow> string \<Rightarrow> string \<Rightarrow> string \<Rightarrow>
   output_schema \<Rightarrow> (exn, json) res" where
  "generate_with complete_structured model system user schema =
     and_then (make_completion_request (plain_request system user model [])) (\<lambda>r.
     and_then (complete_structured r schema) (\<lambda>c.
     required (Option.bind (nc_structured c) schema) (value_error ''ValidationError'')))"

subsection \<open>Gemini\<close>

definition gemini_request_json :: "completion_request \<Rightarrow> json" where
  "gemini_request_json r = JObj
     ([(''systemInstruction'', JObj [(''parts'', JList [JObj [(''text'', JStr (rq_system_prompt r))]])]),
       (''contents'', JList [JObj [(''role'', JStr ''user''),
          (''parts'', JList [JObj [(''text'', JStr (rq_user_prompt r))]])]]),
       (''generationConfig'', JObj [(''temperature'', JFloat (rq_temperature r)),
          (''maxOutputTokens'', JInt (rq_max_output_tokens r))])] @
      (if rq_tools r = [] then [] else [(''tools'', JList [JObj [(''functionDeclarations'', JList (rq_tools r))]])]))"

definition gemini_url :: "string \<Rightarrow> string" where
  "gemini_url model = ''https://generativelanguage.googleapis.com/v1beta/models/'' @ model @ '':generateContent''"

definition gemini_request :: "py_env \<Rightarrow> http_post \<Rightarrow> string \<Rightarrow> completion_request \<Rightarrow> (exn, json) res" where
  "gemini_request py post key r = post_json py (post (gemini_url (rq_model r))
     [(''x-goog-api-key'', key), (''content-type'', ''application/json'')] (gemini_request_json r))"

text \<open>\<open>data["candidates"][0]\<close>, when it is an object.\<close>

definition first_candidate :: "json \<Rightarrow> (string \<times> json) list option" where
  "first_candidate data =
     (case data of JObj es \<Rightarrow> (case map_of es ''candidates'' of Some (JList (JObj fs # _)) \<Rightarrow> Some fs | _ \<Rightarrow> None) | _ \<Rightarrow> None)"

definition gemini_parts :: "json \<Rightarrow> (exn, json list) res" where
  "gemini_parts data =
     (case Option.bind (first_candidate data) (\<lambda>fs. map_of fs ''content'') of
        Some (JObj es) \<Rightarrow> (case map_of es ''parts'' of
            Some (JList vs) \<Rightarrow> Inr (filter is_dict vs)
          | Some _ \<Rightarrow> Inl (llm_error LLMResponseError ''Gemini returned malformed content'')
          | None \<Rightarrow> Inl (llm_error LLMResponseError ''Gemini returned an empty response''))
      | _ \<Rightarrow> Inl (llm_error LLMResponseError ''Gemini returned an empty response''))"

text \<open>\<open>str(value.get(name, ""))\<close> of an object.\<close>

definition text_of :: "py_env \<Rightarrow> string \<Rightarrow> json \<Rightarrow> string" where
  "text_of py name v = (case v of
     JObj es \<Rightarrow> (case map_of es name of None \<Rightarrow> [] | Some x \<Rightarrow> py_str py x) | _ \<Rightarrow> [])"

definition gemini_text :: "py_env \<Rightarrow> json \<Rightarrow> (exn, string) res" where
  "gemini_text py data = and_then (gemini_parts data) (\<lambda>ps.
     let t = concat (map (text_of py ''text'') ps)
     in if t = [] then Inl (llm_error LLMResponseError ''Gemini returned empty text'') else Inr t)"

definition gemini_finish_reason :: "py_env \<Rightarrow> json \<Rightarrow> string option" where
  "gemini_finish_reason py data = map_option (\<lambda>fs. py_str py (case map_of fs ''finishReason'' of None \<Rightarrow> JNull | Some v \<Rightarrow> v))
     (first_candidate data)"

definition gemini_complete ::
  "py_env \<Rightarrow> http_post \<Rightarrow> string \<Rightarrow> completion_request \<Rightarrow> (exn, normalized_completion) res" where
  "gemini_complete py post key r =
     and_then (gemini_request py post key r) (\<lambda>data.
     and_then (gemini_text py data) (\<lambda>content.
     and_then (py_get data ''usageMetadata'' (JObj [])) (\<lambda>usage.
     and_then (and_then (py_get usage ''promptTokenCount'' (JInt 0)) (int_of_json py)) (\<lambda>i.
     and_then (and_then (py_get usage ''candidatesTokenCount'' (JInt 0)) (int_of_json py)) (\<lambda>n.
     and_then (token_usage i n) (\<lambda>u.
     Inr ((plain_completion PN_GEMINI (rq_model r))\<lparr>nc_content := Some content, nc_usage := u,
       nc_finish_reason := gemini_finish_reason py data\<rparr>)))))))"

fun gemini_calls :: "py_env \<Rightarrow> nat \<Rightarrow> json list \<Rightarrow> (exn, normalized_tool_call list) res" where
  "gemini_calls py n [] = Inr []"
| "gemini_calls py n (p # ps) =
     and_then (py_get p ''functionCall'' JNull) (\<lambda>f.
     if \<not> json_truthy f then gemini_calls py (Suc n) ps
     else and_then (py_get f ''name'' (JStr [])) (\<lambda>name.
          and_then (and_then (py_get f ''args'' (JObj [])) py_dict) (\<lambda>arguments.
          map_sum id (\<lambda>cs. \<lparr>ntc_call_id = ''gemini-'' @ py_str py (JInt (int n)), ntc_name = py_str py name,
            ntc_arguments = arguments\<rparr> # cs) (gemini_calls py (Suc n) ps))))"

definition optional_content :: "string \<Rightarrow> string option" where
  "optional_content t = (if t = [] then None else Some t)"

definition gemini_complete_with_tools ::
  "py_env \<Rightarrow> http_post \<Rightarrow> string \<Rightarrow> completion_request \<Rightarrow> (exn, normalized_completion) res" where
  "gemini_complete_with_tools py post key r =
     and_then (gemini_request py post key r) (\<lambda>data.
     and_then (gemini_parts data) (\<lambda>ps.
     and_then (gemini_calls py 0 ps) (\<lambda>calls.
     Inr ((plain_completion PN_GEMINI (rq_model r))\<lparr>nc_content := optional_content (concat (map (text_of py ''text'') ps)),
       nc_tool_calls := calls, nc_finish_reason := gemini_finish_reason py data\<rparr>))))"

definition gemini_complete_structured ::
  "py_env \<Rightarrow> http_post \<Rightarrow> string \<Rightarrow> completion_request \<Rightarrow> output_schema \<Rightarrow> (exn, normalized_completion) res" where
  "gemini_complete_structured py post key r schema =
     and_then (gemini_complete py post key (json_only r))
       (structured_of py ''Gemini returned invalid structured output'' schema)"

definition gemini_model :: "llm_settings \<Rightarrow> string" where
  "gemini_model st = or_str (ls_model st) ''gemini-2.0-flash''"

definition gemini_client :: "py_env \<Rightarrow> http_post \<Rightarrow> llm_settings \<Rightarrow> (exn, llm_client) res" where
  "gemini_client py post st =
     and_then (required (ls_gemini_key st) (value_error ''Gemini API key is not configured'')) (\<lambda>key.
     Inr \<lparr>cl_complete = gemini_complete py post key, cl_complete_structured = gemini_complete_structured py post key,
       cl_complete_with_tools = gemini_complete_with_tools py post key,
       cl_generate_structured = generate_with (gemini_complete_structured py post key) (gemini_model st),
       cl_agent_turn = flat_turn py ''Gemini returned invalid agent output'' (gemini_complete_with_tools py post key)
         (gemini_model st)\<rparr>)"

subsection \<open>Anthropic\<close>

definition anthropic_request_json :: "completion_request \<Rightarrow> json" where
  "anthropic_request_json r = JObj
     ([(''model'', JStr (rq_model r)), (''system'', JStr (rq_system_prompt r)),
       (''messages'', JList [JObj [(''role'', JStr ''user''), (''content'', JStr (rq_user_prompt r))]]),
       (''temperature'', JFloat (rq_temperature r)), (''max_tokens'', JInt (rq_max_output_tokens r))] @
      (if rq_tools r = [] then [] else [(''tools'', JList (rq_tools r))]))"

definition anthropic_request :: "py_env \<Rightarrow> http_post \<Rightarrow> string \<Rightarrow> completion_request \<Rightarrow> (exn, json) res" where
  "anthropic_request py post key r = post_json py (post ''https://api.anthropic.com/v1/messages''
     [(''x-api-key'', key), (''anthropic-version'', ''2023-06-01''), (''content-type'', ''application/json'')]
     (anthropic_request_json r))"

fun has_type :: "string \<Rightarrow> json \<Rightarrow> bool" where
  "has_type t (JObj es) = (map_of es ''type'' = Some (JStr t))"
| "has_type t _ = False"

definition text_blocks :: "py_env \<Rightarrow> json list \<Rightarrow> string" where
  "text_blocks py blocks = concat (map (text_of py ''text'') (filter (has_type ''text'') blocks))"

definition anthropic_text :: "py_env \<Rightarrow> json \<Rightarrow> (exn, string) res" where
  "anthropic_text py data = and_then (py_get data ''content'' JNull) (\<lambda>blocks.
     case blocks of
       JList vs \<Rightarrow> (let t = text_blocks py vs
         in if t = [] then Inl (llm_error LLMResponseError ''Anthropic returned empty text'') else Inr t)
     | _ \<Rightarrow> Inl (llm_error LLMResponseError ''Anthropic returned malformed content''))"

definition anthropic_finish_reason :: "py_env \<Rightarrow> json \<Rightarrow> (exn, string option) res" where
  "anthropic_finish_reason py data = map_sum id (\<lambda>v. if json_truthy v then Some (py_str py v) else None)
     (py_get data ''stop_reason'' JNull)"

definition anthropic_complete ::
  "py_env \<Rightarrow> http_post \<Rightarrow> string \<Rightarrow> completion_request \<Rightarrow> (exn, normalized_completion) res" where
  "anthropic_complete py post key r =
     and_then (anthropic_request py post key r) (\<lambda>data.
     and_then (anthropic_text py data) (\<lambda>content.
     and_then (py_get data ''usage'' (JObj [])) (\<lambda>usage.
     and_then (and_then (py_get usage ''input_tokens'' (JInt 0)) (int_of_json py)) (\<lambda>i.
     and_then (and_then (py_get usage ''output_tokens'' (JInt 0)) (int_of_json py)) (\<lambda>n.
     and_then (token_usage i n) (\<lambda>u.
     and_then (anthropic_finish_reason py data) (\<lambda>f.
     Inr ((plain_completion PN_ANTHROPIC (rq_model r))\<lparr>nc_content := Some content, nc_usage := u,
       nc_finish_reason := f\<rparr>))))))))"

definition anthropic_complete_structured ::
  "py_env \<Rightarrow> http_post \<Rightarrow> string \<Rightarrow> completion_request \<Rightarrow> output_schema \<Rightarrow> (exn, normalized_completion) res" where
  "anthropic_complete_structured py post key r schema =
     and_then (anthropic_complete py post key (json_only r))
       (structured_of py ''Anthropic returned invalid structured output'' schema)"

text \<open>Iterating over a text or an object yields texts, none of which is a block.\<close>

fun blocks_of :: "json \<Rightarrow> (exn, json list) res" where
  "blocks_of (JList vs) = Inr vs"
| "blocks_of (JStr _) = Inr []"
| "blocks_of (JObj _) = Inr []"
| "blocks_of _ = py_raise ''TypeError''"

fun anthropic_calls :: "py_env \<Rightarrow> json list \<Rightarrow> (exn, normalized_tool_call list) res" where
  "anthropic_calls py [] = Inr []"
| "anthropic_calls py (b # bs) =
     (if has_type ''tool_use'' b then
        and_then (and_then (py_get b ''input'' (JObj [])) py_dict) (\<lambda>arguments.
        map_sum id (\<lambda>cs. \<lparr>ntc_call_id = text_of py ''id'' b, ntc_name = text_of py ''name'' b, ntc_arguments = arguments\<rparr> # cs)
          (anthropic_calls py bs))
      else anthropic_calls py bs)"

definition anthropic_complete_with_tools ::
  "py_env \<Rightarrow> http_post \<Rightarrow> string \<Rightarrow> completion_request \<Rightarrow> (exn, normalized_completion) res" where
  "anthropic_complete_with_tools py post key r =
     and_then (anthropic_request py post key r) (\<lambda>data.
     and_then (py_get data ''content'' (JList [])) (\<lambda>c.
     and_then (blocks_of c) (\<lambda>blocks.
     and_then (anthropic_calls py blocks) (\<lambda>calls.
     and_then (anthropic_finish_reason py data) (\<lambda>f.
     Inr ((plain_completion PN_ANTHROPIC (rq_model r))\<lparr>nc_content := optional_content (text_blocks py blocks),
       nc_tool_calls := calls, nc_finish_reason := f\<rparr>))))))"

definition anthropic_model :: "llm_settings \<Rightarrow> string" where
  "anthropic_model st = or_str (ls_model st) ''claude-3-5-sonnet-latest''"

definition anthropic_client :: "py_env \<Rightarrow> http_post \<Rightarrow> llm_settings \<Rightarrow> (exn, llm_client) res" where
  "anthropic_client py post st =
     and_then (required (ls_anthropic_key st) (value_error ''Anthropic API key is not configured'')) (\<lambda>key.
     Inr \<lparr>cl_complete = anthropic_complete py post key,
       cl_complete_structured = anthropic_complete_structured py post key,
       cl_complete_with_tools = anthropic_complete_with_tools py post key,
       cl_generate_structured = generate_with (anthropic_complete_structured py post key) (anthropic_model st),
       cl_agent_turn = flat_turn py ''Anthropic returned invalid agent output'' (anthropic_complete_with_tools py post key)
         (anthropic_model st)\<rparr>)"

subsection \<open>OpenAI\<close>

record chat_call =
  ch_id :: string
  ch_name :: string
  ch_arguments :: string

record chat_completion =
  ch_content :: "string option"
  ch_parsed :: "json option"
  ch_tool_calls :: "chat_call list"
  ch_usage :: "(int \<times> int) option"
  ch_finish_reason :: "string option"

text \<open>What the package answers: a chat with at least one choice, or one of its errors.\<close>

datatype chat_result = Chat_Timeout | Chat_Connection | Chat_Status int | Chat_Raised exn | Chat_Completion chat_completion

text \<open>The parameter: the parameters of the request and, for \<open>parse\<close>, the schema.\<close>

type_synonym chat_api = "json \<Rightarrow> output_schema option \<Rightarrow> chat_result"

definition provider_status_error :: "int \<Rightarrow> exn" where
  "provider_status_error status =
     (if status = 429 then llm_error LLMRateLimitError ''LLM provider rate limit exceeded''
      else if 500 \<le> status then llm_error LLMProviderUnavailableError ''LLM provider is temporarily unavailable''
      else llm_error LLMProviderError ''LLM provider rejected the request'')"

fun chat_of :: "chat_result \<Rightarrow> (exn, chat_completion) res" where
  "chat_of Chat_Timeout = Inl (llm_error LLMTimeoutError ''LLM provider timed out'')"
| "chat_of Chat_Connection = Inl (llm_error LLMProviderUnavailableError ''LLM provider is temporarily unavailable'')"
| "chat_of (Chat_Status s) = Inl (provider_status_error s)"
| "chat_of (Chat_Raised e) = Inl e"
| "chat_of (Chat_Completion c) = Inr c"

definition prompt_messages :: "string \<Rightarrow> string \<Rightarrow> json" where
  "prompt_messages system user = JList [JObj [(''role'', JStr ''system''), (''content'', JStr system)],
     JObj [(''role'', JStr ''user''), (''content'', JStr user)]]"

definition function_tools :: "json list \<Rightarrow> json" where
  "function_tools tools = JList (map (\<lambda>t. JObj [(''type'', JStr ''function''), (''function'', t)]) tools)"

definition request_parameters :: "completion_request \<Rightarrow> (string \<times> json) list \<Rightarrow> json" where
  "request_parameters r extra = JObj
     ([(''model'', JStr (rq_model r)), (''messages'', prompt_messages (rq_system_prompt r) (rq_user_prompt r))] @ extra @
      [(''temperature'', JFloat (rq_temperature r)), (''max_tokens'', JInt (rq_max_output_tokens r))])"

definition chat_token_usage :: "chat_completion \<Rightarrow> (exn, normalized_usage) res" where
  "chat_token_usage c = (case ch_usage c of None \<Rightarrow> token_usage 0 0 | Some (i, n) \<Rightarrow> token_usage i n)"

definition openai_complete :: "chat_api \<Rightarrow> completion_request \<Rightarrow> (exn, normalized_completion) res" where
  "openai_complete api r =
     and_then (chat_of (api (request_parameters r []) None)) (\<lambda>c.
     and_then (chat_token_usage c) (\<lambda>u.
     Inr ((plain_completion PN_OPENAI (rq_model r))\<lparr>nc_content := ch_content c, nc_usage := u,
       nc_finish_reason := ch_finish_reason c\<rparr>)))"

fun chat_calls :: "py_env \<Rightarrow> chat_call list \<Rightarrow> (exn, normalized_tool_call list) res" where
  "chat_calls py [] = Inr []"
| "chat_calls py (c # cs) =
     and_then (required (py_loads py (ch_arguments c)) (llm_error LLMResponseError ''LLM returned malformed tool arguments'')) (\<lambda>v.
     and_then (require (is_dict v) (value_error ''NormalizedToolCall'')) (\<lambda>_.
     map_sum id (\<lambda>ns. \<lparr>ntc_call_id = ch_id c, ntc_name = ch_name c, ntc_arguments = v\<rparr> # ns) (chat_calls py cs)))"

definition openai_complete_with_tools ::
  "py_env \<Rightarrow> chat_api \<Rightarrow> completion_request \<Rightarrow> (exn, normalized_completion) res" where
  "openai_complete_with_tools py api r =
     and_then (chat_of (api (request_parameters r [(''tools'', function_tools (rq_tools r))]) None)) (\<lambda>c.
     and_then (chat_calls py (ch_tool_calls c)) (\<lambda>calls.
     and_then (chat_token_usage c) (\<lambda>u.
     Inr ((plain_completion PN_OPENAI (rq_model r))\<lparr>nc_content := ch_content c, nc_tool_calls := calls, nc_usage := u,
       nc_finish_reason := ch_finish_reason c\<rparr>))))"

definition chat_model :: "string option \<Rightarrow> json" where
  "chat_model m = (case m of None \<Rightarrow> JNull | Some s \<Rightarrow> JStr s)"

definition openai_generate_structured ::
  "chat_api \<Rightarrow> llm_settings \<Rightarrow> string \<Rightarrow> string \<Rightarrow> output_schema \<Rightarrow> (exn, json) res" where
  "openai_generate_structured api st system user schema =
     and_then (chat_of (api (JObj [(''model'', chat_model (ls_model st)), (''messages'', prompt_messages system user)])
       (Some schema))) (\<lambda>c.
     required (ch_parsed c) (llm_error LLMProviderError ''LLM provider returned an empty structured response''))"

definition openai_complete_structured ::
  "chat_api \<Rightarrow> llm_settings \<Rightarrow> completion_request \<Rightarrow> output_schema \<Rightarrow> (exn, normalized_completion) res" where
  "openai_complete_structured api st r schema =
     and_then (openai_generate_structured api st (rq_system_prompt r) (rq_user_prompt r) schema) (\<lambda>v.
     Inr ((plain_completion PN_OPENAI (rq_model r))\<lparr>nc_structured := Some v, nc_finish_reason := Some ''stop''\<rparr>))"

text \<open>The messages of a run, with the tool calls of the assistant.\<close>

fun message_role_value :: "message_role \<Rightarrow> string" where
  "message_role_value User = ''user''"
| "message_role_value Assistant = ''assistant''"
| "message_role_value Tool = ''tool''"

definition chat_message :: "py_env \<Rightarrow> agent_message \<Rightarrow> json" where
  "chat_message py m = JObj
     ([(''role'', JStr (message_role_value (am_role m))), (''content'', JStr (am_content m))] @
      (if or_str (am_call_id m) [] = [] then [] else [(''tool_call_id'', JStr (or_str (am_call_id m) []))]) @
      (if am_tool_calls m = [] then []
       else [(''tool_calls'', JList (map (\<lambda>r. JObj [(''id'', JStr (tq_call_id r)), (''type'', JStr ''function''),
          (''function'', JObj [(''name'', JStr (tq_tool_name r)), (''arguments'', JStr (py_dumps py (tq_arguments r)))])])
          (am_tool_calls m)))]))"

definition turn_parameters :: "py_env \<Rightarrow> llm_settings \<Rightarrow> string \<Rightarrow> json list \<Rightarrow> agent_message list \<Rightarrow> json" where
  "turn_parameters py st system tools ms = JObj
     [(''model'', chat_model (ls_model st)),
      (''messages'', JList (JObj [(''role'', JStr ''system''), (''content'', JStr system)] # map (chat_message py) ms)),
      (''tools'', if tools = [] then JNull else function_tools tools),
      (''response_format'', JObj [(''type'', JStr ''json_object'')])]"

fun chat_requests :: "py_env \<Rightarrow> chat_call list \<Rightarrow> (exn, tool_request list) res" where
  "chat_requests py [] = Inr []"
| "chat_requests py (c # cs) =
     and_then (required (py_loads py (ch_arguments c)) (llm_error LLMResponseError ''LLM returned malformed tool arguments'')) (\<lambda>v.
     let r = \<lparr>tq_call_id = ch_id c, tq_tool_name = ch_name c, tq_arguments = v\<rparr>
     in and_then (require (tool_request_ok r) (value_error ''AgentToolRequest'')) (\<lambda>_.
        map_sum id (\<lambda>rs. r # rs) (chat_requests py cs)))"

definition proposal_of :: "coercions \<Rightarrow> json \<Rightarrow> action_proposal option" where
  "proposal_of co v = do {
     es \<leftarrow> model_fields [''action_name'', ''arguments'', ''rationale_summary''] v;
     name \<leftarrow> map_option strip (Option.bind (map_of es ''action_name'') (co_str co));
     arguments \<leftarrow> (case map_of es ''arguments'' of None \<Rightarrow> Some (JObj []) | Some (JObj as) \<Rightarrow> Some (JObj as) | _ \<Rightarrow> None);
     why \<leftarrow> map_option strip (Option.bind (map_of es ''rationale_summary'') (co_str co));
     if 1 \<le> length name \<and> length name \<le> 100 \<and> 1 \<le> length why \<and> length why \<le> 1000
     then Some \<lparr>ap_action_name = name, ap_arguments = arguments, ap_rationale_summary = why\<rparr> else None}"

definition proposals_of :: "coercions \<Rightarrow> json \<Rightarrow> (exn, action_proposal list) res" where
  "proposals_of co v = (case v of
     JList vs \<Rightarrow> required (all_some (map (proposal_of co) vs)) (value_error ''AgentTurn'')
   | _ \<Rightarrow> Inl (value_error ''AgentTurn''))"

text \<open>\<open>payload.pop\<close> of a list is a \<open>TypeError\<close>, which is caught; a number or a text has no \<open>pop\<close>.\<close>

fun pop_proposals :: "json \<Rightarrow> (exn, json \<times> json) res" where
  "pop_proposals (JObj es) =
     Inr ((case map_of es ''action_proposals'' of None \<Rightarrow> JList [] | Some v \<Rightarrow> v),
          JObj (filter (\<lambda>(k, _). k \<noteq> ''action_proposals'') es))"
| "pop_proposals (JList vs) = Inl (llm_error LLMResponseError ''LLM returned invalid agent output'')"
| "pop_proposals _ = py_raise ''AttributeError''"

definition openai_agent_turn ::
  "py_env \<Rightarrow> coercions \<Rightarrow> chat_api \<Rightarrow> llm_settings \<Rightarrow> string \<Rightarrow> json list \<Rightarrow> output_schema \<Rightarrow> agent_message list \<Rightarrow>
   (exn, agent_turn) res" where
  "openai_agent_turn py co api st system tools schema ms =
     and_then (chat_of (api (turn_parameters py st system tools ms) None)) (\<lambda>c.
     if ch_tool_calls c \<noteq> [] then
       and_then (chat_requests py (ch_tool_calls c)) (\<lambda>rs. make_turn (turn_of_calls (ch_content c) rs))
     else let failed = llm_error LLMResponseError ''LLM returned invalid agent output'' in
       and_then (required (py_loads py (or_str (ch_content c) [])) failed) (\<lambda>v.
       and_then (pop_proposals v) (\<lambda>(ps, rest).
       and_then (required (schema rest) failed) (\<lambda>out.
       and_then (proposals_of co ps) (\<lambda>proposals.
       make_turn (turn_of_output out proposals))))))"

text \<open>The key the client is given is the transport's.\<close>

definition openai_key :: "llm_settings \<Rightarrow> string option" where
  "openai_key st = (case ls_openai_key st of Some (c # cs) \<Rightarrow> Some (c # cs) | _ \<Rightarrow> ls_llm_key st)"

definition openai_client :: "py_env \<Rightarrow> coercions \<Rightarrow> (string option \<Rightarrow> chat_api) \<Rightarrow> llm_settings \<Rightarrow> llm_client" where
  "openai_client py co chat st = (let api = chat (openai_key st) in
     \<lparr>cl_complete = openai_complete api, cl_complete_structured = openai_complete_structured api st,
      cl_complete_with_tools = openai_complete_with_tools py api,
      cl_generate_structured = openai_generate_structured api st,
      cl_agent_turn = openai_agent_turn py co api st\<rparr>)"

subsection \<open>The factory and the registry\<close>

text \<open>The transports, and the mock client of the tests and demos.\<close>

record llm_world =
  lw_py :: py_env
  lw_coercions :: coercions
  lw_post :: http_post
  lw_chat :: "string option \<Rightarrow> chat_api"
  lw_mock :: llm_client

definition build_llm_client :: "llm_world \<Rightarrow> llm_settings \<Rightarrow> (exn, llm_client) res" where
  "build_llm_client w st =
     (if ls_provider st = ''mock'' then Inr (lw_mock w)
      else if ls_provider st = ''openai'' then Inr (openai_client (lw_py w) (lw_coercions w) (lw_chat w) st)
      else if ls_provider st = ''gemini'' then gemini_client (lw_py w) (lw_post w) st
      else anthropic_client (lw_py w) (lw_post w) st)"

fun default_capabilities :: "provider_name \<Rightarrow> model_capabilities" where
  "default_capabilities PN_MOCK = \<lparr>mc_structured_output = True, mc_tool_calling = True, mc_image_input = True,
     mc_image_generation = True, mc_max_context_tokens = 100000, mc_supports_system_prompt = True\<rparr>"
| "default_capabilities PN_OPENAI = \<lparr>mc_structured_output = True, mc_tool_calling = True, mc_image_input = True,
     mc_image_generation = True, mc_max_context_tokens = 128000, mc_supports_system_prompt = True\<rparr>"
| "default_capabilities PN_GEMINI = \<lparr>mc_structured_output = True, mc_tool_calling = True, mc_image_input = True,
     mc_image_generation = False, mc_max_context_tokens = 1000000, mc_supports_system_prompt = True\<rparr>"
| "default_capabilities PN_ANTHROPIC = \<lparr>mc_structured_output = True, mc_tool_calling = True, mc_image_input = True,
     mc_image_generation = False, mc_max_context_tokens = 200000, mc_supports_system_prompt = True\<rparr>"

type_synonym provider_registry = "provider_name \<rightharpoonup> llm_client"

definition capability_error :: "provider_name \<Rightarrow> string \<Rightarrow> exn" where
  "capability_error p m = Exn (OpsE ProviderCapabilityError) (''Provider '' @ provider_name_value p @ m)"

definition registry_get :: "provider_registry \<Rightarrow> provider_name \<Rightarrow> (exn, llm_client) res" where
  "registry_get reg p = required (reg p) (capability_error p '' is not configured'')"

text \<open>What a caller requires, with the names of the capabilities.\<close>

record capability_needs =
  cn_structured_output :: bool
  cn_tool_calling :: bool
  cn_image_input :: bool
  cn_image_generation :: bool

definition needs_structured :: capability_needs where
  "needs_structured = \<lparr>cn_structured_output = True, cn_tool_calling = False, cn_image_input = False,
     cn_image_generation = False\<rparr>"

definition registry_validate ::
  "provider_registry \<Rightarrow> provider_name \<Rightarrow> capability_needs \<Rightarrow> (exn, model_capabilities) res" where
  "registry_validate reg p n =
     (let c = default_capabilities p;
          check = (\<lambda>needed has name. require (needed \<longrightarrow> has) (capability_error p ('' does not support '' @ name)))
      in and_then (check (cn_structured_output n) (mc_structured_output c) ''structured_output'') (\<lambda>_.
         and_then (check (cn_tool_calling n) (mc_tool_calling c) ''tool_calling'') (\<lambda>_.
         and_then (check (cn_image_input n) (mc_image_input c) ''image_input'') (\<lambda>_.
         and_then (check (cn_image_generation n) (mc_image_generation c) ''image_generation'') (\<lambda>_.
         and_then (registry_get reg p) (\<lambda>_. Inr c))))))"

definition capabilities_json :: "model_capabilities \<Rightarrow> json" where
  "capabilities_json c = JObj [(''structured_output'', JBool (mc_structured_output c)),
     (''tool_calling'', JBool (mc_tool_calling c)), (''image_input'', JBool (mc_image_input c)),
     (''image_generation'', JBool (mc_image_generation c)), (''max_context_tokens'', JInt (mc_max_context_tokens c)),
     (''supports_system_prompt'', JBool (mc_supports_system_prompt c))]"

definition registry_catalog :: "provider_registry \<Rightarrow> json list" where
  "registry_catalog reg = map (\<lambda>p. JObj [(''provider'', JStr (provider_name_value p)),
     (''configured'', JBool (reg p \<noteq> None)), (''capabilities'', capabilities_json (default_capabilities p))])
     [PN_MOCK, PN_OPENAI, PN_GEMINI, PN_ANTHROPIC]"

text \<open>The demo alias of Gemini fails whatever it is asked that needs a structured answer.\<close>

definition demo_failing_client :: "llm_client \<Rightarrow> llm_client" where
  "demo_failing_client mock =
     (let e = llm_error LLMProviderError ''Deterministic demo provider failure''
      in mock\<lparr>cl_generate_structured := (\<lambda>_ _ _. Inl e), cl_complete_structured := (\<lambda>_ _. Inl e),
           cl_agent_turn := (\<lambda>_ _ _ _. Inl e)\<rparr>)"

definition build_provider_registry :: "llm_world \<Rightarrow> llm_settings \<Rightarrow> provider_registry" where
  "build_provider_registry w st =
     (let mock = [PN_MOCK \<mapsto> lw_mock w];
          register = (\<lambda>p present client reg. if present then (case client of Inr c \<Rightarrow> reg(p \<mapsto> c) | Inl _ \<Rightarrow> reg) else reg);
          has = (\<lambda>k. or_str k [] \<noteq> [])
      in if ls_demo_aliases st then
           mock(PN_OPENAI \<mapsto> lw_mock w, PN_GEMINI \<mapsto> demo_failing_client (lw_mock w), PN_ANTHROPIC \<mapsto> lw_mock w)
         else register PN_ANTHROPIC (has (ls_anthropic_key st)) (anthropic_client (lw_py w) (lw_post w) st)
                (register PN_GEMINI (has (ls_gemini_key st)) (gemini_client (lw_py w) (lw_post w) st)
                  (register PN_OPENAI (has (ls_openai_key st) \<or> has (ls_llm_key st))
                    (Inr (openai_client (lw_py w) (lw_coercions w) (lw_chat w) st :: llm_client) :: (exn, llm_client) res) mock)))"

subsection \<open>The router\<close>

definition fallback_error :: "exn \<Rightarrow> bool" where
  "fallback_error e \<longleftrightarrow> isinstance_any (exn_cls e)
     [CoreE LLMProviderUnavailableError, CoreE LLMRateLimitError, CoreE LLMTimeoutError]"

definition routed_completion ::
  "llm_client \<Rightarrow> rat \<Rightarrow> completion_request \<Rightarrow> output_schema \<Rightarrow> (exn, normalized_completion) res" where
  "routed_completion c max_cost r schema =
     and_then (cl_complete_structured c r schema) (\<lambda>n.
     and_then (require (nu_estimated_cost (nc_usage n) \<le> max_cost)
       (llm_error LLMRateLimitError ''Provider response exceeded the configured cost limit'')) (\<lambda>_. Inr n))"

fun route_chain ::
  "provider_registry \<Rightarrow> rat \<Rightarrow> completion_request \<Rightarrow> output_schema \<Rightarrow> provider_name \<Rightarrow> bool \<Rightarrow> exn \<Rightarrow>
   provider_name list \<Rightarrow> (exn, normalized_completion) res" where
  "route_chain reg max_cost r schema original first last_error [] = Inl last_error"
| "route_chain reg max_cost r schema original first last_error (p # ps) =
     and_then (registry_validate reg p needs_structured) (\<lambda>_.
     and_then (registry_get reg p) (\<lambda>c.
     case routed_completion c max_cost r schema of
       Inr n \<Rightarrow> Inr (if first then n else n\<lparr>nc_fallback_from := Some original\<rparr>)
     | Inl e \<Rightarrow> if fallback_error e then route_chain reg max_cost r schema original False e ps else Inl e))"

definition route_structured ::
  "provider_registry \<Rightarrow> provider_name list \<Rightarrow> rat \<Rightarrow> provider_name \<Rightarrow> completion_request \<Rightarrow> output_schema \<Rightarrow>
   (exn, normalized_completion) res" where
  "route_structured reg fallbacks max_cost p r schema =
     route_chain reg max_cost r schema p True
       (llm_error LLMProviderUnavailableError ''No provider was available'')
       (take 4 (p # filter (\<lambda>q. q \<noteq> p) fallbacks))"


end
