(* ===== verification/Job_Worker.thy ===== *)
theory Job_Worker
  imports Job_Lifecycle
begin

text \<open>
  The processing of one leased job by \<open>JobWorker\<close> (\<open>app/jobs/worker.py\<close>). The handler is a
  session over the tables. The heartbeats run beside it; what they have found when the handler
  ends (a lost lease, a requested cancellation) is part of the environment, as are the readings
  of the clock. Logging, metrics and tracing are left out.
\<close>

record process_env =
  pr_now :: "nat \<Rightarrow> time"
  pr_lease_lost :: bool
  pr_cancellation :: bool
  pr_connection_invalidated :: bool

definition checkpoint :: "uuid \<Rightarrow> string \<Rightarrow> platform_db \<Rightarrow> (exn, unit) res" where
  "checkpoint k worker db =
     require (\<not> repo_cancellation_requested k worker (pd_queue db))
       (Exn (OpsE JobCancelledError) ''Job cancellation was requested'')"

definition worker_heartbeat ::
  "time \<Rightarrow> string \<Rightarrow> worker_status \<Rightarrow> uuid option \<Rightarrow> bool \<Rightarrow> platform_db \<Rightarrow> platform_db" where
  "worker_heartbeat now worker status current increment db =
     db\<lparr>pd_queue := update_worker_heartbeat now worker status current increment (pd_queue db)\<rparr>"

text \<open>What is stored of the error of a handler.\<close>

definition stored_error :: "exn \<Rightarrow> string \<times> string" where
  "stored_error e =
     (case error_code (exn_cls e) of
        Some code \<Rightarrow> (code, exn_msg e)
      | None \<Rightarrow> (''JOB_HANDLER_ERROR'', ''Background job handler failed''))"

definition fail_job ::
  "coercions \<Rightarrow> job_settings \<Rightarrow> (nat \<Rightarrow> time) \<Rightarrow> leased_job \<Rightarrow> string \<Rightarrow> exn \<Rightarrow> bool \<Rightarrow> (platform_db, unit) session" where
  "fail_job co st now job worker e retryable =
     (let (code, message) = stored_error e in
      and_session (atomically (in_queue (queue_fail st (now 0) (lj_job_id job) worker code message retryable))) (\<lambda>j.
      if j_status j = JS_DEAD_LETTER then
        atomically (job_reconcile co (now 1) job
          \<lparr>tn_cancelled = False, tn_code = Some code, tn_message = Some message\<rparr>)
      else returns ()))"

definition cancel_job :: "coercions \<Rightarrow> (nat \<Rightarrow> time) \<Rightarrow> leased_job \<Rightarrow> string \<Rightarrow> (platform_db, unit) session" where
  "cancel_job co now job worker =
     and_session (atomically (in_queue (repo_mark_cancelled (now 0) (lj_job_id job) worker))) (\<lambda>_.
     atomically (job_reconcile co (now 1) job
       \<lparr>tn_cancelled = True, tn_code = Some ''JOB_CANCELLED'', tn_message = Some ''Background job was cancelled''\<rparr>))"

definition is_retryable :: "process_env \<Rightarrow> exn \<Rightarrow> bool" where
  "is_retryable pe e \<longleftrightarrow> classify_job_error (exn_cls e) (pr_connection_invalidated pe) = JE_RETRYABLE"

text \<open>After the handler has returned: the media of the job are consistent, or nobody has asked
  for a cancellation, and the job is completed.\<close>

definition complete_job ::
  "coercions \<Rightarrow> process_env \<Rightarrow> leased_job \<Rightarrow> string \<Rightarrow> (platform_db, unit) session" where
  "complete_job co pe job worker =
     and_session (ensure_success_consistency co (pr_now pe 1) job) (\<lambda>media_success.
     and_session (\<lambda>db. (if media_success then Inr () else checkpoint (lj_job_id job) worker db, db)) (\<lambda>_.
     and_session (atomically (in_queue (repo_complete (pr_now pe 2) (lj_job_id job) worker))) (\<lambda>_. returns ())))"

definition settle_job ::
  "coercions \<Rightarrow> job_settings \<Rightarrow> process_env \<Rightarrow> leased_job \<Rightarrow> string \<Rightarrow> exn \<Rightarrow> (platform_db, unit) session" where
  "settle_job co st pe job worker e =
     (let now = (\<lambda>n. pr_now pe (n + 3)) in
      if isinstance_any (exn_cls e) [OpsE JobCancelledError] then cancel_job co now job worker
      else if isinstance_any (exn_cls e) [PyE CancelledError] then
        (if pr_cancellation pe then cancel_job co now job worker
         else if pr_lease_lost pe then returns () else (\<lambda>db. (Inl e, db)))
      else if isinstance_any (exn_cls e) [StoreE MediaAttemptLeaseLostError] then returns ()
      else if isinstance_any (exn_cls e) [PyE PyException] then
        (if pr_lease_lost pe then returns () else fail_job co st now job worker e (is_retryable pe e))
      else (\<lambda>db. (Inl e, db)))"

definition run_job ::
  "coercions \<Rightarrow> job_settings \<Rightarrow> process_env \<Rightarrow> leased_job \<Rightarrow> string \<Rightarrow> (platform_db, unit) session \<Rightarrow>
   (platform_db, unit) session" where
  "run_job co st pe job worker handle db =
     (case and_session handle (\<lambda>_.
         if pr_lease_lost pe then (\<lambda>db. (Inl (Exn (OpsE JobLeaseLostError) ''Job lease was lost during execution''), db))
         else complete_job co pe job worker) db of
        (Inr _, db') \<Rightarrow> (Inr (), db')
      | (Inl e, db') \<Rightarrow> settle_job co st pe job worker e db')"

definition process_job ::
  "coercions \<Rightarrow> job_settings \<Rightarrow> process_env \<Rightarrow> leased_job \<Rightarrow> string \<Rightarrow> (platform_db, unit) session option \<Rightarrow>
   (platform_db, unit) session" where
  "process_job co st pe job worker handler db =
     (let db1 = worker_heartbeat (pr_now pe 0) worker WK_RUNNING (Some (lj_job_id job)) False db in
      case handler of
        None \<Rightarrow> fail_job co st (\<lambda>n. pr_now pe (n + 3)) job worker
          (Exn (OpsE JobPayloadError) ''No handler is registered for this job type'') False db1
      | Some handle \<Rightarrow>
          (let (r, db2) = run_job co st pe job worker handle db1
           in (r, worker_heartbeat (pr_now pe 5) worker WK_RUNNING None True db2)))"

text \<open>One reading of the heartbeat loop: a requested cancellation goes before the renewal.\<close>

datatype beat = Beat_Renewed | Beat_Cancelled | Beat_Lost

definition heartbeat_once :: "time \<Rightarrow> job_settings \<Rightarrow> uuid \<Rightarrow> string \<Rightarrow> platform_db \<Rightarrow> beat \<times> platform_db" where
  "heartbeat_once now st k worker db =
     (if repo_cancellation_requested k worker (pd_queue db) then (Beat_Cancelled, db)
      else let (ok, q) = repo_heartbeat now k worker (job_lease_seconds st) (pd_queue db)
           in (if ok then Beat_Renewed else Beat_Lost, db\<lparr>pd_queue := q\<rparr>))"

text \<open>
  The polling of a worker, without the outbox dispatcher that runs before it: stale jobs are
  reclaimed, then jobs are leased. A dead letter of the first is not reconciled.
\<close>

definition poll_queue ::
  "(uuid \<Rightarrow> bool) \<Rightarrow> job_settings \<Rightarrow> (nat \<Rightarrow> time) \<Rightarrow> string \<Rightarrow> (platform_db, leased_job list) session" where
  "poll_queue locked st now worker =
     and_session (atomically (in_queue (\<lambda>q. and_then (queue_reclaim_stale locked st (now 0) None q) (\<lambda>q'. Inr ((), q'))))) (\<lambda>_.
     atomically (in_queue (queue_lease locked st (now 1) worker None)))"

end
