(* ===== verification/Prompt_Execution.thy ===== *)
theory Prompt_Execution
  imports LLM_Clients Job_Worker
begin

text \<open>
  The execution of one evaluation case with a managed prompt, and the metrics of many of them:
  \<open>app/prompt_management/execution.py\<close>. The floats of the metrics are rationals, and the metrics
  of a row are numbers, as the runners write them.
\<close>

subsection \<open>The output of a case\<close>

record applied_output =
  ao_response :: string
  ao_requires_manual_review :: bool
  ao_accepted_without_editing :: bool
  ao_revision_required :: bool
  ao_action_proposals :: "json list"

definition bool_field :: "coercions \<Rightarrow> fields \<Rightarrow> string \<Rightarrow> bool \<Rightarrow> bool option" where
  "bool_field co es f d = (case map_of es f of None \<Rightarrow> Some d | Some v \<Rightarrow> co_bool co v)"

definition applied_output_of :: "coercions \<Rightarrow> json \<Rightarrow> applied_output option" where
  "applied_output_of co v = do {
     es \<leftarrow> model_fields [''response'', ''requires_manual_review'', ''accepted_without_editing'', ''revision_required'',
       ''action_proposals''] v;
     response \<leftarrow> bounded_raw_text co 20000 es ''response'';
     manual \<leftarrow> bool_field co es ''requires_manual_review'' False;
     accepted \<leftarrow> bool_field co es ''accepted_without_editing'' True;
     revision \<leftarrow> bool_field co es ''revision_required'' False;
     proposals \<leftarrow> (case map_of es ''action_proposals'' of None \<Rightarrow> Some []
       | Some (JList vs) \<Rightarrow> if list_all is_dict vs \<and> length vs \<le> 20 then Some vs else None | _ \<Rightarrow> None);
     Some \<lparr>ao_response = response, ao_requires_manual_review = manual, ao_accepted_without_editing = accepted,
       ao_revision_required = revision, ao_action_proposals = proposals\<rparr>}"

definition dump_applied_output :: "applied_output \<Rightarrow> json" where
  "dump_applied_output o' = JObj [(''response'', JStr (ao_response o')),
     (''requires_manual_review'', JBool (ao_requires_manual_review o')),
     (''accepted_without_editing'', JBool (ao_accepted_without_editing o')),
     (''revision_required'', JBool (ao_revision_required o')),
     (''action_proposals'', JList (ao_action_proposals o'))]"

definition applied_schema :: "coercions \<Rightarrow> output_schema" where
  "applied_schema co v = map_option dump_applied_output (applied_output_of co v)"

subsection \<open>Executing a case\<close>

text \<open>The parts of Python and of the package a case uses; \<open>xl_dumps_sorted\<close> is \<open>json.dumps(value, sort_keys=True)\<close>.\<close>

record execution_library =
  xl_py :: py_env
  xl_float_of_str :: "string \<Rightarrow> rat option"
  xl_dumps_sorted :: "json \<Rightarrow> string"
  xl_coercions :: coercions
  xl_formatting :: formatting

fun py_float :: "execution_library \<Rightarrow> json \<Rightarrow> (exn, rat) res" where
  "py_float x (JInt n) = Inr (of_int n)"
| "py_float x (JFloat f) = Inr f"
| "py_float x (JBool b) = Inr (if b then 1 else 0)"
| "py_float x (JStr s) = required (xl_float_of_str x s) (value_error ''float'')"
| "py_float x _ = py_raise ''TypeError''"

definition get_or :: "(string \<times> json) list \<Rightarrow> string \<Rightarrow> json \<Rightarrow> json" where
  "get_or es k d = (case map_of es k of None \<Rightarrow> d | Some v \<Rightarrow> v)"

text \<open>The one variable of a prompt may take the whole input.\<close>

definition case_values :: "execution_library \<Rightarrow> version_row \<Rightarrow> (string \<times> json) list \<Rightarrow> (string \<times> string) list" where
  "case_values x v input =
     (let names = allowed_variables v in
      if length names = 1 \<and> map_of input (hd names) = None then [(hd names, xl_dumps_sorted x (JObj input))]
      else List.map_filter (\<lambda>k. map_option (\<lambda>w. (k, py_str (xl_py x) w)) (map_of input k)) names)"

fun scalar_values :: "json \<Rightarrow> json list" where
  "scalar_values (JObj es) = concat (map (\<lambda>(_, v). scalar_values v) es)"
| "scalar_values (JList vs) = concat (map scalar_values vs)"
| "scalar_values v = [v]"

fun contains_text :: "string \<Rightarrow> string \<Rightarrow> bool" where
  "contains_text needle [] = (needle = [])"
| "contains_text needle (c # s) = (starts_with (c # s) needle \<or> contains_text needle s)"

definition expected_texts :: "execution_library \<Rightarrow> json \<Rightarrow> string list" where
  "expected_texts x expected =
     filter (\<lambda>s. s \<noteq> []) (map (\<lambda>v. lower (strip (py_str (xl_py x) v))) (scalar_values expected))"

definition quality_score :: "execution_library \<Rightarrow> applied_output \<Rightarrow> json \<Rightarrow> rat" where
  "quality_score x o' expected =
     (let texts = expected_texts x expected; actual = lower (xl_dumps_sorted x (dump_applied_output o'))
      in if texts = [] then 1
         else of_nat (length (filter (\<lambda>t. contains_text t actual) texts)) / of_nat (length texts))"

type_synonym metrics = "(string \<times> json) list"

record executed_case =
  xc_output :: json
  xc_metrics :: metrics

definition rate :: "bool \<Rightarrow> json" where
  "rate b = JFloat (if b then 1 else 0)"

definition case_metrics :: "execution_library \<Rightarrow> int \<Rightarrow> normalized_completion \<Rightarrow> applied_output \<Rightarrow> json \<Rightarrow> metrics" where
  "case_metrics x latency c o' expected =
     [(''schema_validity'', JFloat 1), (''quality'', JFloat (quality_score x o' expected)), (''success'', JFloat 1),
      (''failure'', JFloat 0), (''manual_review'', rate (ao_requires_manual_review o')),
      (''first_pass_acceptance'', rate (ao_accepted_without_editing o')),
      (''revision'', rate (ao_revision_required o')), (''latency_ms'', JInt (max latency 0)),
      (''input_tokens'', JInt (nu_input_tokens (nc_usage c))), (''output_tokens'', JInt (nu_output_tokens (nc_usage c))),
      (''estimated_cost'', JFloat (nu_estimated_cost (nc_usage c))), (''llm_calls'', JInt 1),
      (''tool_calls'', JInt (int (length (nc_tool_calls c)))),
      (''action_proposals'', JInt (int (length (ao_action_proposals o'))))]"

definition case_request ::
  "execution_library \<Rightarrow> version_row \<Rightarrow> case_row \<Rightarrow> string \<Rightarrow> (string \<times> json) list \<Rightarrow> (exn, completion_request) res" where
  "case_request x v c model settings =
     and_then (render_version (xl_formatting x) (case_values x v (ec_input c)) v) (\<lambda>user_prompt.
     and_then (py_float x (get_or settings ''temperature'' (JInt 0))) (\<lambda>t.
     and_then (int_of_json (xl_py x) (get_or settings ''max_tokens'' (JInt 2048))) (\<lambda>n.
     make_completion_request \<lparr>rq_system_prompt = pv_system_prompt v, rq_user_prompt = user_prompt, rq_model = model,
       rq_tools = [], rq_temperature = t, rq_max_output_tokens = n\<rparr>)))"

definition execute_prompt_case ::
  "execution_library \<Rightarrow> llm_client \<Rightarrow> int \<Rightarrow> version_row \<Rightarrow> case_row \<Rightarrow> string \<Rightarrow> (string \<times> json) list \<Rightarrow>
   (exn, executed_case) res" where
  "execute_prompt_case x client latency v c model settings =
     and_then (case_request x v c model settings) (\<lambda>r.
     and_then (cl_complete_structured client r (applied_schema (xl_coercions x))) (\<lambda>completion.
     and_then (required (Option.bind (nc_structured completion) (applied_output_of (xl_coercions x)))
       (value_error ''AppliedEvaluationOutput'')) (\<lambda>o'.
     Inr \<lparr>xc_output = dump_applied_output o', xc_metrics = case_metrics x latency completion o' (ec_expected c)\<rparr>)))"

subsection \<open>Aggregation\<close>

text \<open>\<open>float(row.get(key, 0))\<close> of a number.\<close>

definition number_at :: "metrics \<Rightarrow> string \<Rightarrow> rat" where
  "number_at m key = (case map_of m key of Some (JInt n) \<Rightarrow> of_int n | Some (JFloat f) \<Rightarrow> f | _ \<Rightarrow> 0)"

definition average :: "string \<Rightarrow> metrics list \<Rightarrow> rat" where
  "average key rows = sum_list (map (\<lambda>m. number_at m key) rows) / of_nat (length rows)"

definition truncated :: "rat \<Rightarrow> int" where
  "truncated r = (if r < 0 then - \<lfloor>- r\<rfloor> else \<lfloor>r\<rfloor>)"

definition total :: "string \<Rightarrow> metrics list \<Rightarrow> int" where
  "total key rows = sum_list (map (\<lambda>m. truncated (number_at m key)) rows)"

definition aggregate_case_metrics :: "metrics list \<Rightarrow> metrics" where
  "aggregate_case_metrics rows =
     (if rows = [] then
        [(''case_count'', JInt 0), (''schema_validity_rate'', JFloat 0), (''quality_score'', JFloat 0),
         (''success_rate'', JFloat 0), (''failure_rate'', JFloat 0), (''manual_review_rate'', JFloat 0),
         (''first_pass_acceptance_rate'', JFloat 0), (''revision_rate'', JFloat 0), (''latency_ms'', JFloat 0),
         (''input_tokens'', JInt 0), (''output_tokens'', JInt 0), (''estimated_cost'', JFloat 0), (''llm_calls'', JInt 0),
         (''tool_calls'', JInt 0), (''action_proposals'', JInt 0)]
      else
        [(''case_count'', JInt (int (length rows))), (''schema_validity_rate'', JFloat (average ''schema_validity'' rows)),
         (''quality_score'', JFloat (average ''quality'' rows)), (''success_rate'', JFloat (average ''success'' rows)),
         (''failure_rate'', JFloat (average ''failure'' rows)),
         (''manual_review_rate'', JFloat (average ''manual_review'' rows)),
         (''first_pass_acceptance_rate'', JFloat (average ''first_pass_acceptance'' rows)),
         (''revision_rate'', JFloat (average ''revision'' rows)), (''latency_ms'', JFloat (average ''latency_ms'' rows)),
         (''input_tokens'', JInt (total ''input_tokens'' rows)), (''output_tokens'', JInt (total ''output_tokens'' rows)),
         (''estimated_cost'', JFloat (sum_list (map (\<lambda>m. number_at m ''estimated_cost'') rows))),
         (''llm_calls'', JInt (total ''llm_calls'' rows)), (''tool_calls'', JInt (total ''tool_calls'' rows)),
         (''action_proposals'', JInt (total ''action_proposals'' rows))])"

definition experiment_score :: "metrics \<Rightarrow> rat" where
  "experiment_score m =
     number_at m ''quality_score'' + number_at m ''schema_validity_rate'' + number_at m ''success_rate''
     + number_at m ''first_pass_acceptance_rate'' - number_at m ''failure_rate''
     - number_at m ''manual_review_rate'' * (1 / 4) - number_at m ''revision_rate'' * (1 / 4)
     - number_at m ''estimated_cost'' - number_at m ''latency_ms'' * (1 / 10000)"

definition choose_winner :: "metrics \<Rightarrow> metrics \<Rightarrow> string option \<times> string" where
  "choose_winner control candidate =
     (let a = experiment_score control; b = experiment_score candidate
      in if \<bar>a - b\<bar> < 1 / 1000 then (None, ''No deterministic winner; human review is required'')
         else let winner = (if a < b then ''candidate'' else ''control'')
              in (Some winner, winner @ '' has the higher server-calculated score''))"

definition provider_score :: "metrics \<Rightarrow> rat" where
  "provider_score m =
     number_at m ''quality_score'' + number_at m ''schema_validity_rate'' + number_at m ''success_rate''
     - number_at m ''failure_rate'' - number_at m ''estimated_cost'' - number_at m ''latency_ms'' * (1 / 10000)"

end
