(* ===== verification/Prompt_Runs.thy ===== *)
theory Prompt_Runs
  imports Prompt_Execution
begin

text \<open>
  The runners of experiments and comparisons (\<open>app/prompt_management/runners.py\<close>) and the service
  of comparisons (\<open>app/service/provider_comparison_service.py\<close> over its repository). A run is one
  transaction for the start, one for each case that is recorded and one for the completion;
  \<open>rn_others\<close> is what others commit before each item of the loop and before the completion, and
  \<open>rn_during\<close> what they commit while an item executes, between the test that its case is not
  completed and the recording of its result. The recording reads the case's row and writes it in
  one step. The factory makes a client, given as its behaviour at each item; in production it looks the
  provider up in the registry.
\<close>

record run_world =
  rn_library :: execution_library
  rn_factory :: "provider_name \<Rightarrow> (exn, nat \<Rightarrow> llm_client) res"
  rn_latency :: "nat \<Rightarrow> int"
  rn_checkpoint :: "platform_db \<Rightarrow> (exn, unit) res"
  rn_others :: "nat \<Rightarrow> platform_db \<Rightarrow> platform_db"
  rn_during :: "nat \<Rightarrow> platform_db \<Rightarrow> platform_db"
  rn_start :: time
  rn_end :: call_env

definition registry_factory :: "provider_registry \<Rightarrow> provider_name \<Rightarrow> (exn, nat \<Rightarrow> llm_client) res" where
  "registry_factory reg p = map_sum id (\<lambda>c _. c) (registry_get reg p)"

definition key_error :: exn where
  "key_error = Exn (PyE KeyError) ''''"

definition is_exception :: "exn \<Rightarrow> bool" where
  "is_exception e \<longleftrightarrow> isinstance_any (exn_cls e) [PyE PyException]"

definition interfering :: "('s \<Rightarrow> 's) \<Rightarrow> ('s, 'a) session \<Rightarrow> ('s, 'a) session" where
  "interfering f m s = m (f s)"

subsection \<open>Case results\<close>

definition case_of :: "uuid \<Rightarrow> uuid \<Rightarrow> string \<Rightarrow> case_result_row \<Rightarrow> bool" where
  "case_of owner case_id variant r \<longleftrightarrow> cs_owner_id r = owner \<and> cs_case_id r = case_id \<and> cs_variant r = variant"

definition is_completed :: "uuid \<Rightarrow> uuid \<Rightarrow> string \<Rightarrow> case_result_row list \<Rightarrow> bool" where
  "is_completed owner case_id variant rows =
     (case find (case_of owner case_id variant) rows of None \<Rightarrow> False | Some r \<Rightarrow> cs_completed r)"

definition case_error_fields :: "exn option \<Rightarrow> string option \<times> string option" where
  "case_error_fields e = (case e of None \<Rightarrow> (None, None)
     | Some x \<Rightarrow> (case error_code (exn_cls x) of
         Some code \<Rightarrow> (Some code, Some (sanitize_text 2000 (exn_msg x)))
       | None \<Rightarrow> (Some ''EXECUTION_ERROR'', Some (sanitize_text 2000 ''Provider execution failed''))))"

definition recorded_case :: "(exn, executed_case) res \<Rightarrow> case_result_row \<Rightarrow> case_result_row" where
  "recorded_case x r =
     (let (code, message) = case_error_fields (case x of Inl e \<Rightarrow> Some e | Inr _ \<Rightarrow> None) in
      r\<lparr>cs_completed := (case x of Inl _ \<Rightarrow> False | Inr _ \<Rightarrow> True),
        cs_output := (case x of Inl _ \<Rightarrow> None | Inr c \<Rightarrow> Some (xc_output c)),
        cs_metrics := (case x of Inl _ \<Rightarrow> [(''success'', JFloat 0), (''failure'', JFloat 1)] | Inr c \<Rightarrow> xc_metrics c),
        cs_error_code := code, cs_error_message := message\<rparr>)"

text \<open>The row of a case is updated, or inserted when there is none.\<close>

definition record_case ::
  "uuid \<Rightarrow> uuid \<Rightarrow> string \<Rightarrow> (exn, executed_case) res \<Rightarrow> case_result_row list \<Rightarrow> case_result_row list" where
  "record_case owner case_id variant x rows =
     (if find (case_of owner case_id variant) rows = None then
        rows @ [recorded_case x \<lparr>cs_owner_id = owner, cs_case_id = case_id, cs_variant = variant, cs_completed = False,
          cs_output = None, cs_metrics = [], cs_error_code = None, cs_error_message = None\<rparr>]
      else map (\<lambda>r. if case_of owner case_id variant r then recorded_case x r else r) rows)"

subsection \<open>Experiments\<close>

text \<open>The inputs of a run: the cases with the two versions, the provider, the model and the settings.\<close>

definition start_experiment ::
  "time \<Rightarrow> uuid \<Rightarrow> platform_db \<Rightarrow>
   (exn, (experiment_row \<times> version_row \<times> version_row \<times> case_row list) option \<times> platform_db) res" where
  "start_experiment now k db =
     and_then (required_experiment k db) (\<lambda>e.
     if pe_status e = PE_COMPLETED then Inr (None, db)
     else if pe_status e = PE_CANCELLED then Inr (None, db)
     else let e' = e\<lparr>pe_status := PE_RUNNING, pe_started_at := (case pe_started_at e of None \<Rightarrow> Some now | s \<Rightarrow> s)\<rparr>;
              cases = take (nat (pe_sample_size e)) (enabled_cases (pe_dataset_id e) db)
          in and_then (required (get_version db (pe_control_id e)) (not_found ''Experiment inputs are unavailable'')) (\<lambda>control.
             and_then (required (get_version db (pe_candidate_id e)) (not_found ''Experiment inputs are unavailable'')) (\<lambda>candidate.
             and_then (require (cases \<noteq> []) (not_found ''Experiment inputs are unavailable'')) (\<lambda>_.
             Inr (Some (e', control, candidate, cases), put_experiment e' db)))))"

definition experiment_items :: "version_row \<Rightarrow> version_row \<Rightarrow> case_row list \<Rightarrow> (case_row \<times> string \<times> version_row) list" where
  "experiment_items control candidate cases =
     concat (map (\<lambda>c. [(c, ''control'', control), (c, ''candidate'', candidate)]) cases)"

definition record_experiment_case ::
  "uuid \<Rightarrow> uuid \<Rightarrow> string \<Rightarrow> (exn, executed_case) res \<Rightarrow> platform_db \<Rightarrow> platform_db" where
  "record_experiment_case k c variant x db =
     db\<lparr>pd_experiment_cases := record_case k c variant x (pd_experiment_cases db)\<rparr>"

definition run_experiment_case ::
  "run_world \<Rightarrow> (nat \<Rightarrow> llm_client) \<Rightarrow> experiment_row \<Rightarrow> nat \<Rightarrow> case_row \<times> string \<times> version_row \<Rightarrow>
   (platform_db, unit) session" where
  "run_experiment_case w client e n item =
     (let (c, variant, v) = item in
      and_session (\<lambda>db. (rn_checkpoint w db, db)) (\<lambda>_ db.
      if is_completed (pe_id e) (ec_id c) variant (pd_experiment_cases db) then (Inr (), db)
      else let later = rn_during w n db
           in (case execute_prompt_case (rn_library w) (client n) (rn_latency w n) v c (pe_model e) (pe_settings e) of
              Inl x \<Rightarrow> (Inl x, if is_exception x then record_experiment_case (pe_id e) (ec_id c) variant (Inl x) later else later)
            | Inr r \<Rightarrow> (Inr (), record_experiment_case (pe_id e) (ec_id c) variant (Inr r) later))))"

fun run_items :: "('i \<Rightarrow> nat \<Rightarrow> (platform_db, unit) session) \<Rightarrow> (nat \<Rightarrow> platform_db \<Rightarrow> platform_db) \<Rightarrow> nat \<Rightarrow> 'i list \<Rightarrow>
   (platform_db, unit) session" where
  "run_items f others n [] = returns ()"
| "run_items f others n (i # is) = and_session (interfering (others n) (f i n)) (\<lambda>_. run_items f others (Suc n) is)"

definition variant_metrics :: "string \<Rightarrow> case_result_row list \<Rightarrow> metrics list" where
  "variant_metrics variant rows = map cs_metrics (filter (\<lambda>r. cs_variant r = variant) rows)"

definition experiment_completed_event :: "uuid \<Rightarrow> string option \<Rightarrow> event_request" where
  "experiment_completed_event k winner = plain_event OE_PROMPT_EXPERIMENT_COMPLETED ''prompt_experiment'' k
     (JObj [(''experiment_id'', JStr (uuid_str k)), (''winner'', (case winner of None \<Rightarrow> JNull | Some s \<Rightarrow> JStr s))])
     (Some (''prompt-experiment-completed:'' @ uuid_str k))"

definition complete_experiment ::
  "services \<Rightarrow> call_env \<Rightarrow> uuid \<Rightarrow> platform_db \<Rightarrow> (exn, unit \<times> platform_db) res" where
  "complete_experiment sv env k db =
     and_then (required_experiment k db) (\<lambda>e.
     if pe_status e = PE_CANCELLED then Inr ((), db)
     else let rows = case_results k db;
              control = aggregate_case_metrics (variant_metrics ''control'' rows);
              candidate = aggregate_case_metrics (variant_metrics ''candidate'' rows);
              (winner, reason) = choose_winner control candidate;
              result = \<lparr>xr_experiment_id = k, xr_control_metrics = control, xr_candidate_metrics = candidate,
                xr_winner = winner, xr_decision_reason = reason\<rparr>;
              db1 = (if get_experiment_result k db = None
                then db\<lparr>pd_experiment_results := pd_experiment_results db @ [result]\<rparr> else db);
              db2 = put_experiment (e\<lparr>pe_status := PE_COMPLETED, pe_completed_at := Some (env_now env),
                pe_error_code := None, pe_error_message := None\<rparr>) db1
          in and_then (platform_event sv env (experiment_completed_event k winner) db2) (\<lambda>db3. Inr ((), db3)))"

definition run_prompt_experiment :: "services \<Rightarrow> run_world \<Rightarrow> uuid \<Rightarrow> (platform_db, unit) session" where
  "run_prompt_experiment sv w k =
     and_session (atomically (start_experiment (rn_start w) k)) (\<lambda>started.
     case started of
       None \<Rightarrow> returns ()
     | Some (e, control, candidate, cases) \<Rightarrow>
         and_session (\<lambda>db. (rn_factory w (pe_provider e), db)) (\<lambda>client.
         let items = experiment_items control candidate cases
         in and_session (run_items (\<lambda>i n. run_experiment_case w client e n i) (rn_others w) 0 items) (\<lambda>_.
            interfering (rn_others w (length items)) (atomically (complete_experiment sv (rn_end w) k)))))"

subsection \<open>Comparisons\<close>

definition required_comparison :: "uuid \<Rightarrow> platform_db \<Rightarrow> (exn, comparison_row) res" where
  "required_comparison k db = required (get_comparison db k) (not_found ''Provider comparison not found'')"

definition start_comparison ::
  "time \<Rightarrow> uuid \<Rightarrow> platform_db \<Rightarrow> (exn, (comparison_row \<times> version_row \<times> case_row list) option \<times> platform_db) res" where
  "start_comparison now k db =
     and_then (required_comparison k db) (\<lambda>e.
     if pc_status e = PC_COMPLETED then Inr (None, db)
     else if pc_status e = PC_CANCELLED then Inr (None, db)
     else let e' = e\<lparr>pc_status := PC_RUNNING, pc_started_at := (case pc_started_at e of None \<Rightarrow> Some now | s \<Rightarrow> s)\<rparr>;
              cases = take (nat (pc_sample_size e)) (enabled_cases (pc_dataset_id e) db)
          in and_then (required (get_version db (pc_prompt_version_id e)) (not_found ''Comparison inputs are unavailable'')) (\<lambda>v.
             and_then (require (cases \<noteq> []) (not_found ''Comparison inputs are unavailable'')) (\<lambda>_.
             Inr (Some (e', v, cases), put_comparison e' db))))"

definition comparison_items :: "provider_name list \<Rightarrow> case_row list \<Rightarrow> (provider_name \<times> case_row) list" where
  "comparison_items providers cases = concat (map (\<lambda>p. map (Pair p) cases) providers)"

definition record_provider_case ::
  "uuid \<Rightarrow> uuid \<Rightarrow> provider_name \<Rightarrow> (exn, executed_case) res \<Rightarrow> platform_db \<Rightarrow> platform_db" where
  "record_provider_case k c p x db =
     db\<lparr>pd_comparison_cases := record_case k c (provider_name_value p) x (pd_comparison_cases db)\<rparr>"

definition provider_case_completed :: "uuid \<Rightarrow> uuid \<Rightarrow> provider_name \<Rightarrow> platform_db \<Rightarrow> bool" where
  "provider_case_completed k c p db = is_completed k c (provider_name_value p) (pd_comparison_cases db)"

text \<open>A client that cannot be made fails every case of its provider, completed ones included.\<close>

definition run_comparison_case ::
  "run_world \<Rightarrow> comparison_row \<Rightarrow> version_row \<Rightarrow> nat \<Rightarrow> provider_name \<times> case_row \<Rightarrow> (platform_db, unit) session" where
  "run_comparison_case w e v n item =
     (let (p, c) = item;
          record = (\<lambda>x. atomically (\<lambda>db. and_then (required (map_of (pc_models e) p) key_error) (\<lambda>_.
            Inr ((), record_provider_case (pc_id e) (ec_id c) p x db))));
          failed = (\<lambda>x. if is_exception x then record (Inl x) else (\<lambda>db. (Inl x, db)))
      in case rn_factory w p of
           Inl x \<Rightarrow> failed x
         | Inr client \<Rightarrow>
             and_session (\<lambda>db. (rn_checkpoint w db, db)) (\<lambda>_ db.
             if provider_case_completed (pc_id e) (ec_id c) p db then (Inr (), db)
             else (case map_of (pc_models e) p of
                     None \<Rightarrow> (Inl key_error, db)
                   | Some model \<Rightarrow>
                       (case execute_prompt_case (rn_library w) (client n) (rn_latency w n) v c model (pc_settings e) of
                          Inl x \<Rightarrow> failed x (rn_during w n db)
                        | Inr r \<Rightarrow> record (Inr r) (rn_during w n db)))))"

record comparison_entry =
  cq_provider :: provider_name
  cq_model :: string
  cq_metrics :: metrics
  cq_score :: rat

definition provider_metrics :: "provider_name \<Rightarrow> case_result_row list \<Rightarrow> metrics" where
  "provider_metrics p rows =
     (let mine = filter (\<lambda>r. cs_variant r = provider_name_value p) rows;
          completed = filter cs_completed mine;
          failed = length mine - length completed;
          attempted = length completed + failed;
          m = aggregate_case_metrics (map cs_metrics completed)
      in dict_set ''failure_rate'' (JFloat (if attempted = 0 then 0 else of_nat failed / of_nat attempted))
           (dict_set ''failed_case_count'' (JInt (int failed))
             (dict_set ''attempted_case_count'' (JInt (int attempted)) m)))"

definition comparison_entry_of ::
  "comparison_row \<Rightarrow> case_result_row list \<Rightarrow> provider_name \<Rightarrow> (exn, comparison_entry) res" where
  "comparison_entry_of e rows p =
     and_then (required (map_of (pc_models e) p) key_error) (\<lambda>model.
     let m = provider_metrics p rows
     in Inr \<lparr>cq_provider = p, cq_model = model, cq_metrics = m, cq_score = provider_score m\<rparr>)"

fun comparison_entries ::
  "comparison_row \<Rightarrow> case_result_row list \<Rightarrow> provider_name list \<Rightarrow> (exn, comparison_entry list) res" where
  "comparison_entries e rows [] = Inr []"
| "comparison_entries e rows (p # ps) =
     and_then (comparison_entry_of e rows p) (\<lambda>x. map_sum id ((#) x) (comparison_entries e rows ps))"

text \<open>\<open>max\<close> with a key: the first of the best.\<close>

fun first_best :: "('a \<Rightarrow> rat) \<Rightarrow> 'a \<Rightarrow> 'a list \<Rightarrow> 'a" where
  "first_best f a [] = a"
| "first_best f a (x # xs) = first_best f (if f a < f x then x else a) xs"

definition executed_entry :: "comparison_entry \<Rightarrow> bool" where
  "executed_entry x \<longleftrightarrow> number_at (cq_metrics x) ''case_count'' \<noteq> 0"

definition entry_json :: "comparison_entry \<Rightarrow> json" where
  "entry_json x = JObj [(''provider'', JStr (provider_name_value (cq_provider x))), (''model'', JStr (cq_model x)),
     (''metrics'', JObj (cq_metrics x)), (''score'', JFloat (cq_score x))]"

definition comparison_report :: "comparison_entry list \<Rightarrow> provider_name \<Rightarrow> json" where
  "comparison_report entries p = JObj [(''comparisons'', JList (map entry_json entries)),
     (''recommended_provider'', JStr (provider_name_value p)), (''human_decision_required'', JBool True)]"

definition comparison_results :: "uuid \<Rightarrow> platform_db \<Rightarrow> case_result_row list" where
  "comparison_results k db =
     sort_key (\<lambda>c. (cs_variant c, cs_case_id c)) (filter (\<lambda>c. cs_owner_id c = k) (pd_comparison_cases db))"

definition complete_comparison :: "time \<Rightarrow> uuid \<Rightarrow> platform_db \<Rightarrow> (exn, unit \<times> platform_db) res" where
  "complete_comparison now k db =
     and_then (required_comparison k db) (\<lambda>e.
     if pc_status e = PC_CANCELLED then Inr ((), db)
     else and_then (comparison_entries e (comparison_results k db) (pc_providers e)) (\<lambda>entries.
       (case filter executed_entry entries of
          [] \<Rightarrow> Inl (Exn (PyE OtherException) ''All provider comparison executions failed'')
        | x # xs \<Rightarrow> Inr ((), put_comparison (e\<lparr>
              pc_report := Some (comparison_report entries (cq_provider (first_best cq_score x xs))),
              pc_status := PC_COMPLETED, pc_completed_at := Some now, pc_error_code := None,
              pc_error_message := None\<rparr>) db))))"

definition run_provider_comparison :: "run_world \<Rightarrow> uuid \<Rightarrow> (platform_db, unit) session" where
  "run_provider_comparison w k =
     and_session (atomically (start_comparison (rn_start w) k)) (\<lambda>started.
     case started of
       None \<Rightarrow> returns ()
     | Some (e, v, cases) \<Rightarrow>
         (let items = comparison_items (pc_providers e) cases
          in and_session (run_items (\<lambda>i n. run_comparison_case w e v n i) (rn_others w) 0 items) (\<lambda>_.
             interfering (rn_others w (length items)) (atomically (complete_comparison (env_now (rn_end w)) k)))))"

subsection \<open>The service of comparisons\<close>

record comparison_create =
  cc_prompt_version_id :: uuid
  cc_dataset_id :: uuid
  cc_providers :: "provider_name list"
  cc_models :: "(provider_name \<times> string) list"
  cc_sample_size :: int
  cc_settings :: "(string \<times> json) list"

definition comparison_create_ok :: "comparison_create \<Rightarrow> bool" where
  "comparison_create_ok d \<longleftrightarrow> 2 \<le> length (cc_providers d) \<and> length (cc_providers d) \<le> 3 \<and>
     1 \<le> cc_sample_size d \<and> cc_sample_size d \<le> 10000"

definition validate_comparison_settings :: "(string \<times> json) list \<Rightarrow> (exn, unit) res" where
  "validate_comparison_settings settings =
     and_then (require (fst ` set settings \<subseteq> {''temperature'', ''seed'', ''max_tokens''})
       (validation_error ''Unsupported provider comparison execution setting'')) (\<lambda>_.
     require (case map_of settings ''temperature'' of None \<Rightarrow> True | Some v \<Rightarrow> is_zero v)
       (validation_error ''Provider comparisons require temperature 0''))"

fun validate_providers :: "provider_registry \<Rightarrow> provider_name list \<Rightarrow> (exn, unit) res" where
  "validate_providers reg [] = Inr ()"
| "validate_providers reg (p # ps) =
     and_then (registry_validate reg p needs_structured) (\<lambda>_. validate_providers reg ps)"

definition new_comparison :: "call_env \<Rightarrow> comparison_create \<Rightarrow> string \<Rightarrow> comparison_row" where
  "new_comparison env d by_actor =
     \<lparr>pc_id = env_row_id env, pc_prompt_version_id = cc_prompt_version_id d, pc_dataset_id = cc_dataset_id d,
      pc_providers = cc_providers d,
      pc_models = map (\<lambda>p. (p, the (map_of (cc_models d) p))) (cc_providers d),
      pc_sample_size = cc_sample_size d, pc_settings = object_entries (sanitize_json 2000 (JObj (cc_settings d))),
      pc_status = PC_DRAFT, pc_report = None, pc_job_id = None, pc_created_by = by_actor,
      pc_created_at = env_now env, pc_started_at = None, pc_completed_at = None, pc_error_code = None,
      pc_error_message = None\<rparr>"

definition create_comparison ::
  "provider_registry \<Rightarrow> call_env \<Rightarrow> comparison_create \<Rightarrow> authenticated_actor \<Rightarrow> platform_db \<Rightarrow>
   (exn, comparison_row \<times> platform_db) res" where
  "create_comparison reg env d actor db =
     and_then (require (distinct (cc_providers d)) (validation_error ''Comparison providers must be unique'')) (\<lambda>_.
     and_then (require (fst ` set (cc_models d) = set (cc_providers d))
       (validation_error ''Every provider requires exactly one model'')) (\<lambda>_.
     and_then (validate_comparison_settings (cc_settings d)) (\<lambda>_.
     and_then (validate_providers reg (cc_providers d)) (\<lambda>_.
     and_then (required (get_version db (cc_prompt_version_id d)) (not_found ''Prompt version not found'')) (\<lambda>_.
     and_then (required (t_get ds_id (pd_datasets db) (cc_dataset_id d)) (not_found ''Evaluation dataset not found'')) (\<lambda>_.
     and_then (require (cc_sample_size d \<le> int (length (enabled_cases (cc_dataset_id d) db)))
       (validation_error ''Sample size exceeds enabled evaluation cases'')) (\<lambda>_.
     let e = new_comparison env d (actor_id actor)
     in Inr (e, db\<lparr>pd_comparisons := pd_comparisons db @ [e]\<rparr>))))))))"

definition list_comparisons :: "int \<Rightarrow> int \<Rightarrow> platform_db \<Rightarrow> comparison_row list" where
  "list_comparisons limit offset db =
     order_page (\<lambda>e. (- pc_created_at e, pc_id e)) (min limit 100) (max offset 0) (pd_comparisons db)"

definition comparison_key :: "uuid \<Rightarrow> string" where
  "comparison_key k = ''provider-comparison:'' @ uuid_str k"

definition run_comparison ::
  "coercions \<Rightarrow> hashing \<Rightarrow> job_settings \<Rightarrow> call_env \<Rightarrow> uuid \<Rightarrow> authenticated_actor \<Rightarrow> platform_db \<Rightarrow>
   (exn, comparison_row \<times> platform_db) res" where
  "run_comparison co h st env k actor db =
     and_then (required_comparison k db) (\<lambda>e.
     and_then (require (pc_status e = PC_DRAFT) (conflict ''Only draft provider comparisons can run'')) (\<lambda>_.
     and_then (enqueue_keyed co h st env (plain_job JT_PROVIDER_COMPARISON_RUN
         (ProviderComparisonRunJobPayload k) (actor_id actor) (comparison_key k)) db) (\<lambda>(j, db1).
     let e' = e\<lparr>pc_status := PC_RUNNING, pc_started_at := Some (env_now env), pc_job_id := Some (job_id j)\<rparr>
     in Inr (e', put_comparison e' db1))))"

definition cancel_comparison :: "time \<Rightarrow> uuid \<Rightarrow> platform_db \<Rightarrow> (exn, comparison_row \<times> platform_db) res" where
  "cancel_comparison now k db =
     and_then (required_comparison k db) (\<lambda>e.
     and_then (require (pc_status e \<in> {PC_DRAFT, PC_RUNNING}) (conflict ''Provider comparison cannot be cancelled'')) (\<lambda>_.
     let e' = e\<lparr>pc_status := PC_CANCELLED, pc_completed_at := Some now\<rparr>
     in and_then (case pc_job_id e of None \<Rightarrow> Inr db
          | Some j \<Rightarrow> and_then (in_queue (repo_cancel now j) db) (\<lambda>(_, db1). Inr db1)) (\<lambda>db1.
        Inr (e', put_comparison e' db1))))"

definition comparison_case_reads :: "uuid \<Rightarrow> platform_db \<Rightarrow> (exn, case_result_row list) res" where
  "comparison_case_reads k db = and_then (required_comparison k db) (\<lambda>_. Inr (comparison_results k db))"

subsection \<open>The handlers of the jobs\<close>

definition job_world :: "run_world \<Rightarrow> leased_job \<Rightarrow> string \<Rightarrow> run_world" where
  "job_world w job worker = w\<lparr>rn_checkpoint := checkpoint (lj_job_id job) worker\<rparr>"

definition payload_mismatch :: "string \<Rightarrow> exn" where
  "payload_mismatch m = Exn (OpsE JobPayloadError) m"

definition prompt_experiment_handler ::
  "coercions \<Rightarrow> services \<Rightarrow> run_world \<Rightarrow> leased_job \<Rightarrow> string \<Rightarrow> (platform_db, unit) session" where
  "prompt_experiment_handler co sv w job worker =
     (case validate_job_payload co (lj_job_type job) (lj_payload job) of
        Inl e \<Rightarrow> (\<lambda>db. (Inl e, db))
      | Inr (PromptExperimentRunJobPayload k) \<Rightarrow> run_prompt_experiment sv (job_world w job worker) k
      | Inr _ \<Rightarrow> (\<lambda>db. (Inl (payload_mismatch ''Prompt experiment payload does not match its type''), db)))"

definition provider_comparison_handler ::
  "coercions \<Rightarrow> run_world \<Rightarrow> leased_job \<Rightarrow> string \<Rightarrow> (platform_db, unit) session" where
  "provider_comparison_handler co w job worker =
     (case validate_job_payload co (lj_job_type job) (lj_payload job) of
        Inl e \<Rightarrow> (\<lambda>db. (Inl e, db))
      | Inr (ProviderComparisonRunJobPayload k) \<Rightarrow> run_provider_comparison (job_world w job worker) k
      | Inr _ \<Rightarrow> (\<lambda>db. (Inl (payload_mismatch ''Provider comparison payload does not match its type''), db)))"

end
