(* ===== verification/LLM_Properties.thy ===== *)
theory LLM_Properties
  imports LLM_Clients
begin

text \<open>
  What the clients and the router promise: the router answers with the first candidate of its
  chain that succeeds, an unconfigured candidate ends the chain, no client reports a cost, and
  the structured requests to OpenAI drop the model that was asked for.
\<close>

subsection \<open>No client reports a cost\<close>

definition costless :: "(exn, normalized_completion) res \<Rightarrow> bool" where
  "costless x \<longleftrightarrow> (\<forall>n. x = Inr n \<longrightarrow> nu_estimated_cost (nc_usage n) = 0)"

lemma costless_Inl [simp]: "costless (Inl e)"
  by (simp add: costless_def)

lemma costless_Inr [simp]: "costless (Inr n) \<longleftrightarrow> nu_estimated_cost (nc_usage n) = 0"
  by (simp add: costless_def)

lemma costless_and_then: "(\<And>a. x = Inr a \<Longrightarrow> costless (f a)) \<Longrightarrow> costless (and_then x f)"
  by (cases x) simp_all

lemma token_usage_cost: "token_usage i n = Inr u \<Longrightarrow> nu_estimated_cost u = 0"
  by (auto simp: token_usage_def no_usage_def split: if_splits)

lemma gemini_costless: "costless (gemini_complete py post key r)"
  unfolding gemini_complete_def
  by (intro costless_and_then) (auto dest: token_usage_cost)

lemma anthropic_costless: "costless (anthropic_complete py post key r)"
  unfolding anthropic_complete_def
  by (intro costless_and_then) (auto dest: token_usage_cost)

lemma structured_costless:
  assumes "costless x"
  shows "costless (and_then x (structured_of py failure schema))"
proof (rule costless_and_then)
  fix c assume "x = Inr c"
  then have "nu_estimated_cost (nc_usage c) = 0" using assms by simp
  then show "costless (structured_of py failure schema c)"
    unfolding structured_of_def by (intro costless_and_then) simp
qed

lemma openai_costless: "costless (openai_complete_structured api st r schema)"
  unfolding openai_complete_structured_def
  by (intro costless_and_then) (simp add: plain_completion_def no_usage_def)

lemma gemini_client_structured:
  "gemini_client py post st = Inr c \<Longrightarrow> \<exists>key. cl_complete_structured c = gemini_complete_structured py post key"
  by (auto simp: gemini_client_def and_then_Inr_iff)

lemma anthropic_client_structured:
  "anthropic_client py post st = Inr c \<Longrightarrow> \<exists>key. cl_complete_structured c = anthropic_complete_structured py post key"
  by (auto simp: anthropic_client_def and_then_Inr_iff)

lemma registered_client:
  assumes reg: "build_provider_registry w st p = Some c" and real: "\<not> ls_demo_aliases st" and p: "p \<noteq> PN_MOCK"
  shows "gemini_client (lw_py w) (lw_post w) st = Inr c \<or> anthropic_client (lw_py w) (lw_post w) st = Inr c \<or>
    c = openai_client (lw_py w) (lw_coercions w) (lw_chat w) st"
  using assms by (auto simp: build_provider_registry_def Let_def split: if_splits sum.splits)

lemma registered_client_costless:
  assumes "build_provider_registry w st p = Some c" "\<not> ls_demo_aliases st" "p \<noteq> PN_MOCK"
  shows "costless (cl_complete_structured c r schema)"
  using registered_client [OF assms]
proof (elim disjE)
  assume "gemini_client (lw_py w) (lw_post w) st = Inr c"
  from gemini_client_structured [OF this] obtain key where
    "cl_complete_structured c = gemini_complete_structured (lw_py w) (lw_post w) key" by blast
  then show ?thesis using structured_costless [OF gemini_costless] by (simp add: gemini_complete_structured_def)
next
  assume "anthropic_client (lw_py w) (lw_post w) st = Inr c"
  from anthropic_client_structured [OF this] obtain key where
    "cl_complete_structured c = anthropic_complete_structured (lw_py w) (lw_post w) key" by blast
  then show ?thesis using structured_costless [OF anthropic_costless] by (simp add: anthropic_complete_structured_def)
qed (simp add: openai_client_def Let_def openai_costless)

text \<open>A world of transports for the examples: every text is read as the object the schema wants.\<close>

definition example_env :: py_env where
  "example_env = \<lparr>py_str = (\<lambda>_. ''?''), py_int_of_str = (\<lambda>_. None),
     py_loads = (\<lambda>s. if s = ''busy'' then None else Some (JObj [(''content'', JList
       [JObj [(''type'', JStr ''text''), (''text'', JStr ''{}'')]])])), py_dumps = (\<lambda>_. ''{}'')\<rparr>"

definition example_chat :: "string option \<Rightarrow> chat_api" where
  "example_chat key parameters schema = Chat_Completion
     \<lparr>ch_content = None, ch_parsed = Some (JObj []), ch_tool_calls = [], ch_usage = Some (120, 45),
      ch_finish_reason = Some ''stop''\<rparr>"

definition example_settings :: llm_settings where
  "example_settings = \<lparr>ls_provider = ''openai'', ls_model = Some ''small'', ls_llm_key = None, ls_openai_key = Some ''key'',
     ls_gemini_key = None, ls_anthropic_key = Some ''key'', ls_demo_aliases = False\<rparr>"

definition example_llm_world :: "coercions \<Rightarrow> llm_world" where
  "example_llm_world co = \<lparr>lw_py = example_env, lw_coercions = co,
     lw_post = (\<lambda>url headers body. Http_Response 429 []), lw_chat = example_chat,
     lw_mock = openai_client example_env co example_chat example_settings\<rparr>"

definition example_llm_request :: completion_request where
  "example_llm_request = plain_request ''be brief'' ''hello'' ''large'' []"

lemmas example_llm_defs = example_env_def example_chat_def example_settings_def example_llm_world_def
  example_llm_request_def plain_request_def

text \<open>The configured cost limit of the router never rejects an answer of OpenAI, Gemini or
  Anthropic: their clients report tokens but leave the estimated cost at zero, so with any limit
  that is not negative the answer is passed on as the client gave it.\<close>

theorem cost_limit_never_binds:
  assumes "build_provider_registry w st p = Some c" "\<not> ls_demo_aliases st" "p \<noteq> PN_MOCK" "0 \<le> max_cost"
  shows "routed_completion c max_cost r schema = cl_complete_structured c r schema"
  using registered_client_costless [OF assms(1-3), of r schema] assms(4)
  by (cases "cl_complete_structured c r schema") (auto simp: routed_completion_def require_def)

lemma cost_limit_never_binds_witness:
  "routed_completion (openai_client example_env strict_coercions example_chat example_settings) 5 example_llm_request Some =
   cl_complete_structured (openai_client example_env strict_coercions example_chat example_settings) example_llm_request Some"
  by (rule cost_limit_never_binds [where w = "example_llm_world strict_coercions" and st = example_settings and p = PN_OPENAI])
     (simp_all add: build_provider_registry_def example_llm_defs Let_def anthropic_client_def required_def or_str_def)

subsection \<open>OpenAI\<close>

text \<open>The structured requests to OpenAI use the configured model: whatever model, temperature and
  token limit the caller asks for, the same call is made, and its answer is reported under the
  requested model with no tokens used.\<close>

theorem openai_ignores_requested_model:
  assumes "openai_complete_structured api st r schema = Inr n"
  shows "nc_model n = rq_model r \<and> nc_usage n = no_usage \<and>
    openai_complete_structured api st (r\<lparr>rq_model := m, rq_temperature := t, rq_max_output_tokens := k\<rparr>) schema =
      Inr (n\<lparr>nc_model := m\<rparr>)"
  using assms by (auto simp: openai_complete_structured_def and_then_Inr_iff plain_completion_def)

lemma openai_ignores_requested_model_witness:
  "openai_complete_structured (example_chat None) example_settings
     (example_llm_request\<lparr>rq_model := ''larger'', rq_temperature := 1, rq_max_output_tokens := 9\<rparr>) Some =
   Inr \<lparr>nc_provider = PN_OPENAI, nc_model = ''larger'', nc_content = None, nc_structured = Some (JObj []),
     nc_tool_calls = [], nc_usage = no_usage, nc_finish_reason = Some ''stop'', nc_fallback_from = None\<rparr>"
proof -
  have "openai_complete_structured (example_chat None) example_settings example_llm_request Some =
    Inr \<lparr>nc_provider = PN_OPENAI, nc_model = ''large'', nc_content = None, nc_structured = Some (JObj []),
      nc_tool_calls = [], nc_usage = no_usage, nc_finish_reason = Some ''stop'', nc_fallback_from = None\<rparr>"
    by (simp add: openai_complete_structured_def openai_generate_structured_def example_llm_defs required_def
          plain_completion_def)
  from openai_ignores_requested_model [OF this, where m = "''larger''" and t = 1 and k = 9] show ?thesis by simp
qed

subsection \<open>The router\<close>

lemma registry_validate_structured:
  "registry_validate reg p needs_structured =
     (case reg p of None \<Rightarrow> Inl (capability_error p '' is not configured'') | Some c \<Rightarrow> Inr (default_capabilities p))"
  by (cases p; cases "reg p")
     (simp_all add: registry_validate_def needs_structured_def require_def registry_get_def required_def)

text \<open>One candidate of the chain.\<close>

lemma route_chain_Cons:
  "route_chain reg max_cost r schema original first e0 (p # ps) =
     (case reg p of
        None \<Rightarrow> Inl (capability_error p '' is not configured'')
      | Some c \<Rightarrow> (case routed_completion c max_cost r schema of
            Inr n \<Rightarrow> Inr (if first then n else n\<lparr>nc_fallback_from := Some original\<rparr>)
          | Inl e \<Rightarrow> if fallback_error e then route_chain reg max_cost r schema original False e ps else Inl e))"
  by (cases "reg p") (simp_all add: registry_validate_structured registry_get_def required_def)

declare route_chain.simps(2) [simp del]

definition falls_back :: "provider_registry \<Rightarrow> rat \<Rightarrow> completion_request \<Rightarrow> output_schema \<Rightarrow> provider_name \<Rightarrow> bool" where
  "falls_back reg max_cost r schema p \<longleftrightarrow> (case reg p of None \<Rightarrow> False
     | Some c \<Rightarrow> (case routed_completion c max_cost r schema of Inl e \<Rightarrow> fallback_error e | Inr _ \<Rightarrow> False))"

lemma route_chain_success:
  assumes "route_chain reg max_cost r schema original first e0 ps = Inr n"
  shows "\<exists>before p after c m. ps = before @ p # after \<and> list_all (falls_back reg max_cost r schema) before \<and>
    reg p = Some c \<and> routed_completion c max_cost r schema = Inr m \<and>
    n = (if first \<and> before = [] then m else m\<lparr>nc_fallback_from := Some original\<rparr>)"
  using assms
proof (induction ps arbitrary: first e0)
  case (Cons p ps)
  then obtain c where c: "reg p = Some c" by (auto simp: route_chain_Cons split: option.splits)
  show ?case
  proof (cases "routed_completion c max_cost r schema")
    case (Inr m)
    with Cons.prems c have "n = (if first then m else m\<lparr>nc_fallback_from := Some original\<rparr>)"
      by (simp add: route_chain_Cons)
    with c Inr show ?thesis by (intro exI [of _ "[]"] exI [of _ p] exI [of _ ps]) auto
  next
    case (Inl e)
    with Cons.prems c have e: "fallback_error e" and rest: "route_chain reg max_cost r schema original False e ps = Inr n"
      by (auto simp: route_chain_Cons split: if_splits)
    from Cons.IH [OF rest] obtain before q after d m where
      "ps = before @ q # after" "list_all (falls_back reg max_cost r schema) before"
      "reg q = Some d" "routed_completion d max_cost r schema = Inr m" "n = m\<lparr>nc_fallback_from := Some original\<rparr>"
      by auto
    moreover have "falls_back reg max_cost r schema p" using c Inl e by (simp add: falls_back_def)
    ultimately show ?thesis by (intro exI [of _ "p # before"] exI [of _ q] exI [of _ after]) auto
  qed
qed simp

lemma routed_within_cost:
  "routed_completion c max_cost r schema = Inr m \<Longrightarrow>
     cl_complete_structured c r schema = Inr m \<and> nu_estimated_cost (nc_usage m) \<le> max_cost"
  by (auto simp: routed_completion_def and_then_Inr_iff require_iff)

text \<open>C20. An answer of the router is that of the first provider, among the requested one and its
  fallbacks (four at most), whose client succeeds within the cost limit: every provider before it
  was configured and failed with an unavailability, a rate limit or a timeout. A fallback's answer
  names the provider that was asked for.\<close>

theorem router_takes_first_success:
  assumes "route_structured reg fallbacks max_cost p r schema = Inr n"
  shows "\<exists>before q after c m. take 4 (p # filter (\<lambda>x. x \<noteq> p) fallbacks) = before @ q # after \<and>
    list_all (falls_back reg max_cost r schema) before \<and> reg q = Some c \<and>
    cl_complete_structured c r schema = Inr m \<and> nu_estimated_cost (nc_usage m) \<le> max_cost \<and>
    n = (if before = [] then m else m\<lparr>nc_fallback_from := Some p\<rparr>)"
proof -
  from route_chain_success [OF assms [unfolded route_structured_def]] obtain before q after c m where
    "take 4 (p # filter (\<lambda>x. x \<noteq> p) fallbacks) = before @ q # after"
    "list_all (falls_back reg max_cost r schema) before" "reg q = Some c" and
    m: "routed_completion c max_cost r schema = Inr m" and
    "n = (if before = [] then m else m\<lparr>nc_fallback_from := Some p\<rparr>)"
    by (simp only: simp_thms) blast
  then show ?thesis using routed_within_cost [OF m] by blast
qed

text \<open>Anthropic answers 429, and OpenAI is asked instead.\<close>

abbreviation example_registry :: provider_registry where
  "example_registry \<equiv> build_provider_registry (example_llm_world strict_coercions) example_settings"

lemma example_registry_simps:
  "example_registry PN_GEMINI = None"
  "example_registry PN_OPENAI = Some (openai_client example_env strict_coercions example_chat example_settings)"
  "\<exists>c. example_registry PN_ANTHROPIC = Some c \<and>
     (\<forall>r schema. routed_completion c 5 r schema = Inl (llm_error LLMRateLimitError ''LLM provider rate limit exceeded''))"
  by (simp_all add: build_provider_registry_def example_llm_defs Let_def anthropic_client_def required_def or_str_def
        routed_completion_def anthropic_complete_structured_def anthropic_complete_def anthropic_request_def)

lemma rate_limit_falls_back: "fallback_error (llm_error LLMRateLimitError m)"
  by (simp add: fallback_error_def llm_error_def isinstance_any_def is_instance_simps)


lemma router_takes_first_success_witness:
  "\<exists>n. route_structured example_registry [PN_OPENAI, PN_GEMINI] 5 PN_ANTHROPIC example_llm_request Some = Inr n \<and>
    nc_fallback_from n = Some PN_ANTHROPIC"
proof -
  obtain c where c: "example_registry PN_ANTHROPIC = Some c" and busy: "\<And>r schema. routed_completion c 5 r schema =
      Inl (llm_error LLMRateLimitError ''LLM provider rate limit exceeded'')"
    using example_registry_simps(3) by blast
  let ?o = "openai_client example_env strict_coercions example_chat example_settings"
  have o: "routed_completion ?o 5 example_llm_request Some =
    Inr ((plain_completion PN_OPENAI ''large'')\<lparr>nc_structured := Some (JObj []), nc_finish_reason := Some ''stop''\<rparr>)"
    by (simp add: routed_completion_def openai_complete_structured_def openai_generate_structured_def openai_client_def
          example_chat_def example_llm_request_def plain_request_def Let_def plain_completion_def no_usage_def require_def)
  have run: "route_structured example_registry [PN_OPENAI, PN_GEMINI] 5 PN_ANTHROPIC example_llm_request Some =
    Inr ((plain_completion PN_OPENAI ''large'')\<lparr>nc_structured := Some (JObj []), nc_finish_reason := Some ''stop'',
      nc_fallback_from := Some PN_ANTHROPIC\<rparr>)"
    by (simp add: route_structured_def route_chain_Cons c busy rate_limit_falls_back example_registry_simps(2) o)
  from router_takes_first_success [OF run] run show ?thesis by auto
qed

text \<open>A fallback that is not configured ends the chain: its capability error is raised in place of
  the failure of the requested provider, and the fallbacks after it are not asked, whether they are
  configured or not.\<close>

theorem unconfigured_fallback_ends_chain:
  assumes "falls_back reg max_cost r schema p" and "reg q = None" and "q \<noteq> p"
  shows "route_structured reg (q # fallbacks) max_cost p r schema =
    Inl (capability_error q '' is not configured'')"
  using assms
  by (auto simp: route_structured_def route_chain_Cons falls_back_def split: option.splits sum.splits if_splits)

lemma unconfigured_fallback_ends_chain_witness:
  "route_structured example_registry [PN_GEMINI, PN_OPENAI] 5 PN_ANTHROPIC example_llm_request Some =
   Inl (capability_error PN_GEMINI '' is not configured'')"
proof (rule unconfigured_fallback_ends_chain)
  show "falls_back example_registry 5 example_llm_request Some PN_ANTHROPIC"
    using example_registry_simps(3) rate_limit_falls_back by (auto simp: falls_back_def)
qed (simp_all add: example_registry_simps)


end
