(* ===== verification/Run_Properties.thy ===== *)
theory Run_Properties
  imports Prompt_Runs Prompt_Properties LLM_Properties Job_Properties
begin

text \<open>
  What the runs of experiments and comparisons guarantee: a completed experiment has both
  variants of every sampled case, a repeated run executes only what is missing, and the
  recommended provider is the best of those that executed something. Two things are lost: a late
  cancellation overwrites a completed experiment, and a client that cannot be made overwrites
  the completed cases of its provider.
\<close>

interpretation experiment_table: row_table pe_id "t_get pe_id" "t_put pe_id" by (rule row_table_list)
interpretation comparison_table: row_table pc_id "t_get pc_id" "t_put pc_id" by (rule row_table_list)

subsection \<open>Recorded cases\<close>

lemma find_map_keys:
  "(\<And>r. P (f r) = P r) \<Longrightarrow> find P (map f rows) = map_option f (find P rows)"
  by (induction rows) simp_all

lemma recorded_case_keys [simp]:
  "cs_owner_id (recorded_case x r) = cs_owner_id r" "cs_case_id (recorded_case x r) = cs_case_id r"
  "cs_variant (recorded_case x r) = cs_variant r" "cs_completed (recorded_case x r) = (case x of Inl _ \<Rightarrow> False | Inr _ \<Rightarrow> True)"
  by (simp_all add: recorded_case_def Let_def split: prod.split)

lemma case_of_recorded [simp]: "case_of k c v (recorded_case x r) = case_of k c v r"
  by (simp add: case_of_def)

lemma find_append: "find P (xs @ ys) = (case find P xs of None \<Rightarrow> find P ys | Some x \<Rightarrow> Some x)"
  by (induction xs) simp_all

lemma is_completed_record_case:
  "is_completed k c v (record_case k' c' v' x rows) =
     (if (k, c, v) = (k', c', v') then (\<exists>r. x = Inr r) else is_completed k c v rows)"
proof (cases "find (case_of k' c' v') rows")
  case None
  then show ?thesis
    by (auto simp: is_completed_def record_case_def find_append case_of_def split: option.splits sum.splits)
next
  case (Some r0)
  have same: "find (case_of k c v) (map (\<lambda>r. if case_of k' c' v' r then recorded_case x r else r) rows) =
    map_option (\<lambda>r. if case_of k' c' v' r then recorded_case x r else r) (find (case_of k c v) rows)"
    by (rule find_map_keys) simp
  have r0: "case_of k' c' v' r0" using Some by (auto simp: find_Some_iff)
  have other: "find (case_of k c v) rows = Some r \<Longrightarrow> (k, c, v) \<noteq> (k', c', v') \<Longrightarrow> \<not> case_of k' c' v' r" for r
    by (auto simp: find_Some_iff case_of_def)
  show ?thesis
  proof (cases "(k, c, v) = (k', c', v')")
    case True
    with Some r0 same show ?thesis
      by (auto simp: is_completed_def record_case_def split: sum.splits)
  next
    case False
    with Some same other show ?thesis
      by (auto simp: is_completed_def record_case_def split: option.splits)
  qed
qed

subsection \<open>Items\<close>

text \<open>A loop that ends: what an item establishes and the others keep holds of every item.\<close>

lemma run_items_establish:
  assumes run: "run_items f others n is db = (Inr (), db')" and items: "set is \<subseteq> S"
    and item: "\<And>i n db db'. i \<in> S \<Longrightarrow> f i n db = (Inr (), db') \<Longrightarrow> Q i db' \<and> (\<forall>j \<in> S. Q j db \<longrightarrow> Q j db')"
    and others: "\<And>n j db. j \<in> S \<Longrightarrow> Q j db \<Longrightarrow> Q j (others n db)"
  shows "(\<forall>i \<in> set is. Q i db') \<and> (\<forall>j \<in> S. Q j db \<longrightarrow> Q j db')"
  using run items
proof (induction "is" arbitrary: n db)
  case Nil
  then show ?case by (simp add: returns_def)
next
  case (Cons i "is")
  from Cons.prems(1) obtain mid where mid: "f i n (others n db) = (Inr (), mid)"
    and rest: "run_items f others (Suc n) is mid = (Inr (), db')"
    by (auto simp: and_session_def interfering_def split: prod.splits sum.splits)
  have "Q i mid" and kept: "\<forall>j \<in> S. Q j (others n db) \<longrightarrow> Q j mid"
    using item [OF _ mid] Cons.prems(2) by auto
  with Cons.IH [OF rest] Cons.prems(2) others show ?case by (auto dest!: others)
qed

lemma run_items_cong:
  assumes "\<And>i n db. i \<in> set is \<Longrightarrow> P db \<Longrightarrow> f i n db = g i n db \<and> P (snd (g i n db))"
    and "\<And>n db. P db \<Longrightarrow> P (others n db)" and "P db"
  shows "run_items f others n is db = run_items g others n is db"
  using assms
proof (induction "is" arbitrary: n db)
  case (Cons i "is")
  have P: "P (others n db)" using Cons.prems(2,3) by simp
  then have i: "f i n (others n db) = g i n (others n db)" and mid: "P (snd (g i n (others n db)))"
    using Cons.prems(1) [of i "others n db" n] by auto
  have "run_items f others (Suc n) is (snd (g i n (others n db))) = run_items g others (Suc n) is (snd (g i n (others n db)))"
    using Cons.prems(1,2) mid by (intro Cons.IH) auto
  then show ?case by (auto simp: and_session_def interfering_def i split: prod.split sum.split)
qed simp

subsection \<open>Experiments\<close>

definition experiment_case_done :: "uuid \<Rightarrow> platform_db \<Rightarrow> case_row \<times> string \<times> version_row \<Rightarrow> bool" where
  "experiment_case_done k db i = (case i of (c, variant, _) \<Rightarrow> is_completed k (ec_id c) variant (pd_experiment_cases db))"

text \<open>What others may do while an experiment runs: its completed cases stay.\<close>

definition keeps_done :: "uuid \<Rightarrow> (platform_db \<Rightarrow> platform_db) \<Rightarrow> bool" where
  "keeps_done k f \<longleftrightarrow> (\<forall>db i. experiment_case_done k db i \<longrightarrow> experiment_case_done k (f db) i)"

definition keeps_unfinished :: "uuid \<Rightarrow> provider_name \<Rightarrow> (platform_db \<Rightarrow> platform_db) \<Rightarrow> bool" where
  "keeps_unfinished k p f \<longleftrightarrow>
     (\<forall>c db. \<not> provider_case_completed k c p db \<longrightarrow> \<not> provider_case_completed k c p (f db))"

lemma keeps_doneD: "keeps_done k f \<Longrightarrow> experiment_case_done k db i \<Longrightarrow> experiment_case_done k (f db) i"
  unfolding keeps_done_def by blast

lemma run_experiment_case_done:
  assumes "run_experiment_case w client e n i db = (Inr (), db')" and during: "keeps_done (pe_id e) (rn_during w n)"
  shows "experiment_case_done (pe_id e) db' i \<and>
    (\<forall>j. experiment_case_done (pe_id e) db j \<longrightarrow> experiment_case_done (pe_id e) db' j)"
proof -
  obtain c variant v where i: "i = (c, variant, v)" by (cases i) auto
  note during' = keeps_doneD [OF during, of db]
  from assms(1) consider "experiment_case_done (pe_id e) db i" "db' = db"
    | r where "db' = record_experiment_case (pe_id e) (ec_id c) variant (Inr r) (rn_during w n db)"
    by (auto simp: i run_experiment_case_def experiment_case_done_def and_session_def Let_def
          split: sum.splits if_splits)
  then show ?thesis
  proof cases
    case 2
    then show ?thesis using during'
      by (auto simp: i experiment_case_done_def record_experiment_case_def is_completed_record_case)
  qed simp
qed

lemma run_experiment_case_skips:
  "experiment_case_done (pe_id e) db i \<Longrightarrow>
     run_experiment_case w client e n i db = (case rn_checkpoint w db of Inl x \<Rightarrow> (Inl x, db) | Inr _ \<Rightarrow> (Inr (), db))"
  by (auto simp: run_experiment_case_def experiment_case_done_def and_session_def Let_def split: prod.splits sum.splits)

lemma experiment_items_set:
  "(c, variant, v) \<in> set (experiment_items control candidate cases) \<longleftrightarrow>
     c \<in> set cases \<and> ((variant = ''control'' \<and> v = control) \<or> (variant = ''candidate'' \<and> v = candidate))"
  by (auto simp: experiment_items_def)

lemma start_experiment_Some:
  assumes "start_experiment now k db = Inr (Some (e', control, candidate, cases), db1)"
  shows "\<exists>e. get_experiment db k = Some e \<and> pe_status e \<noteq> PE_COMPLETED \<and> pe_status e \<noteq> PE_CANCELLED \<and> pe_id e' = k \<and>
    pe_provider e' = pe_provider e \<and>
    cases = take (nat (pe_sample_size e)) (enabled_cases (pe_dataset_id e) db) \<and>
    pd_experiment_cases db1 = pd_experiment_cases db"
  using assms experiment_table.get_key [of "pd_experiments db" k]
  by (auto simp: start_experiment_def and_then_Inr_iff Let_def required_experiment_def required_iff put_experiment_def
        split: if_splits)

lemma start_experiment_None:
  assumes "start_experiment now k db = Inr (None, db1)"
  shows "\<exists>e. get_experiment db k = Some e \<and> (pe_status e = PE_COMPLETED \<or> pe_status e = PE_CANCELLED)"
  using assms by (auto simp: start_experiment_def and_then_Inr_iff Let_def required_experiment_def required_iff split: if_splits)

lemma platform_event_tables:
  assumes "platform_event sv env r db = Inr db'"
  shows "\<exists>c. db' = db\<lparr>pd_core := c\<rparr>"
  using assms by (auto simp: platform_event_def and_then_Inr_iff)

lemma complete_experiment_Inr:
  assumes "complete_experiment sv env k db = Inr ((), db')"
  shows "pd_experiment_cases db' = pd_experiment_cases db \<and>
    (\<exists>e. get_experiment db' k = Some e \<and> (pe_status e = PE_CANCELLED \<and> get_experiment db k = Some e \<or>
      pe_status e = PE_COMPLETED \<and> get_experiment_result k db' \<noteq> None))"
proof -
  from assms obtain e where e: "get_experiment db k = Some e"
    by (auto simp: complete_experiment_def and_then_Inr_iff required_experiment_def required_iff)
  show ?thesis
  proof (cases "pe_status e = PE_CANCELLED")
    case True
    with assms e show ?thesis by (simp add: complete_experiment_def required_experiment_def)
  next
    case False
    with assms e obtain e' db1 where p: "platform_event sv env (experiment_completed_event k (fst (choose_winner
        (aggregate_case_metrics (variant_metrics ''control'' (case_results k db)))
        (aggregate_case_metrics (variant_metrics ''candidate'' (case_results k db)))))) (put_experiment e' db1) = Inr db'"
      and e': "pe_id e' = pe_id e" "pe_status e' = PE_COMPLETED"
      and db1: "pd_experiment_cases db1 = pd_experiment_cases db" "pd_experiments db1 = pd_experiments db"
        "get_experiment_result k db1 \<noteq> None"
      by (auto simp: complete_experiment_def required_experiment_def Let_def and_then_Inr_iff split_beta
            get_experiment_result_def find_append split: if_splits)
    from platform_event_tables [OF p] obtain c where db': "db' = (put_experiment e' db1)\<lparr>pd_core := c\<rparr>" by blast
    have "pe_id e = k" using e by (rule experiment_table.get_key)
    then have "get_experiment db' k = Some e'"
      using e e' db1 by (simp add: db' put_experiment_def experiment_table.get_put_same)
    with db1 e' show ?thesis by (simp add: db' put_experiment_def get_experiment_result_def)
  qed
qed

text \<open>The cases an experiment of the database compares.\<close>

definition sampled_cases :: "uuid \<Rightarrow> platform_db \<Rightarrow> case_row list" where
  "sampled_cases k db = (case get_experiment db k of None \<Rightarrow> []
     | Some e \<Rightarrow> take (nat (pe_sample_size e)) (enabled_cases (pe_dataset_id e) db))"

definition both_variants_done :: "uuid \<Rightarrow> case_row list \<Rightarrow> platform_db \<Rightarrow> bool" where
  "both_variants_done k cases db \<longleftrightarrow>
     list_all (\<lambda>c. is_completed k (ec_id c) ''control'' (pd_experiment_cases db) \<and>
       is_completed k (ec_id c) ''candidate'' (pd_experiment_cases db)) cases"

definition experiment_status :: "uuid \<Rightarrow> platform_db \<Rightarrow> prompt_experiment_status option" where
  "experiment_status k db = map_option pe_status (get_experiment db k)"

lemma both_variants_items:
  "both_variants_done k cases db \<longleftrightarrow>
     (\<forall>i \<in> set (experiment_items control candidate cases). experiment_case_done k db i)"
  by (auto simp: both_variants_done_def list_all_iff experiment_items_def experiment_case_done_def)

subsection \<open>An example\<close>

text \<open>One case, two versions of a prompt, and a client that always answers \<open>ok\<close>.\<close>

definition run_version :: "uuid \<Rightarrow> version_row" where
  "run_version k = demo_version\<lparr>pv_id := k, pv_system_prompt := ''s'', pv_user_prompt_template := ''hi'', pv_variables := []\<rparr>"

definition run_case :: case_row where
  "run_case = \<lparr>ec_id = 4, ec_dataset_id = 6, ec_name = ''one'', ec_order = 1, ec_input = [], ec_actual_output = None,
     ec_system_config = JObj [], ec_expected = JObj [], ec_thresholds = JObj [], ec_enabled = True\<rparr>"

definition run_client :: llm_client where
  "run_client = (openai_client example_env strict_coercions example_chat example_settings)\<lparr>
     cl_complete_structured := (\<lambda>r schema. Inr ((plain_completion PN_MOCK (rq_model r))\<lparr>
       nc_structured := Some (JObj [(''response'', JStr ''ok'')])\<rparr>))\<rparr>"

definition run_library :: execution_library where
  "run_library = \<lparr>xl_py = example_env, xl_float_of_str = (\<lambda>_. None), xl_dumps_sorted = (\<lambda>_. ''{}''),
     xl_coercions = strict_coercions, xl_formatting = no_formatting\<rparr>"

definition run_world_of :: "(provider_name \<Rightarrow> (exn, nat \<Rightarrow> llm_client) res) \<Rightarrow> run_world" where
  "run_world_of f = \<lparr>rn_library = run_library, rn_factory = f, rn_latency = (\<lambda>_. 5), rn_checkpoint = (\<lambda>_. Inr ()),
     rn_others = (\<lambda>_ db. db), rn_during = (\<lambda>_ db. db), rn_start = 1, rn_end = ex_env\<rparr>"

lemma run_version_renders: "render_version no_formatting [] (run_version k) = Inr ''hi''"
proof -
  have "format_pieces ''hi'' = Some [Text CHR ''h'', Text CHR ''i'']"
    using format_pieces_unparse [of "[Text CHR ''h'', Text CHR ''i'']"] by simp
  then show ?thesis
    by (simp add: render_version_def run_version_def allowed_variables_def allows_unknown_def render_def variables_def
        format_map_def max_rendered_prompt_characters_def Let_def)
qed

lemma run_case_executes:
  "\<exists>r. execute_prompt_case run_library run_client n (run_version k) run_case ''m'' [] = Inr r"
proof -
  have "case_request run_library (run_version k) run_case ''m'' [] = Inr \<lparr>rq_system_prompt = ''s'', rq_user_prompt = ''hi'',
      rq_model = ''m'', rq_tools = [], rq_temperature = 0, rq_max_output_tokens = 2048\<rparr>"
    using run_version_renders [of k]
    by (simp add: case_request_def case_values_def run_library_def run_version_def allowed_variables_def get_or_def
        make_completion_request_def completion_request_ok_def run_case_def map_filter_simps Let_def)
  moreover have "applied_output_of strict_coercions (JObj [(''response'', JStr ''ok'')]) = Some \<lparr>ao_response = ''ok'',
      ao_requires_manual_review = False, ao_accepted_without_editing = True, ao_revision_required = False,
      ao_action_proposals = []\<rparr>"
    by (simp add: applied_output_of_def model_fields_def bounded_raw_text_def raw_text_def bool_field_def strict_coercions_def)
  ultimately show ?thesis
    by (simp add: execute_prompt_case_def run_client_def) (simp add: run_library_def)
qed

definition run_experiment_row :: experiment_row where
  "run_experiment_row = \<lparr>pe_id = 5, pe_template_id = 1, pe_control_id = 2, pe_candidate_id = 3, pe_dataset_id = 6,
     pe_status = PE_RUNNING, pe_sample_size = 1, pe_provider = PN_MOCK, pe_model = ''m'', pe_settings = [],
     pe_configuration_hash = None, pe_job_id = Some 1, pe_created_by = ''ann'', pe_started_at = Some 1,
     pe_completed_at = None, pe_error_code = None, pe_error_message = None, pe_created_at = 0\<rparr>"

definition run_experiment_db :: platform_db where
  "run_experiment_db = empty_platform\<lparr>pd_experiments := [run_experiment_row],
     pd_versions := [run_version 2, run_version 3], pd_cases := [run_case]\<rparr>"

lemma run_experiment_starts:
  "start_experiment t 5 run_experiment_db =
     Inr (Some (run_experiment_row, run_version 2, run_version 3, [run_case]), run_experiment_db)"
  by (simp add: start_experiment_def required_experiment_def run_experiment_db_def run_experiment_row_def table_simps
      enabled_cases_def run_case_def run_version_def put_experiment_def t_put_def Let_def)

lemma run_experiment_returns:
  "\<exists>db'. run_prompt_experiment ex_services (run_world_of (\<lambda>_. Inr (\<lambda>_. run_client))) 5 run_experiment_db = (Inr (), db') \<and>
    experiment_status 5 db' = Some PE_COMPLETED"
proof -
  let ?w = "run_world_of (\<lambda>_. Inr (\<lambda>_. run_client))"
  obtain r1 r2 where r: "execute_prompt_case run_library run_client 5 (run_version 2) run_case ''m'' [] = Inr r1"
    "execute_prompt_case run_library run_client 5 (run_version 3) run_case ''m'' [] = Inr r2"
    using run_case_executes by metis
  let ?db1 = "record_experiment_case 5 4 ''control'' (Inr r1) run_experiment_db"
  let ?db2 = "record_experiment_case 5 4 ''candidate'' (Inr r2) ?db1"
  have ids: "pe_id run_experiment_row = 5" "pe_model run_experiment_row = ''m''" "pe_settings run_experiment_row = []"
    "ec_id run_case = 4" "pd_experiment_cases run_experiment_db = []"
    by (simp_all add: run_experiment_row_def run_case_def run_experiment_db_def empty_platform_def)
  have w: "rn_checkpoint ?w db = Inr ()" "rn_library ?w = run_library" "rn_latency ?w n = 5" "rn_others ?w n db = db"
    "rn_during ?w n db = db" "rn_factory ?w p = Inr (\<lambda>_. run_client)" "rn_start ?w = 1" "rn_end ?w = ex_env" for db n p
    by (simp_all add: run_world_of_def)
  have "run_experiment_case ?w (\<lambda>_. run_client) run_experiment_row 0 (run_case, ''control'', run_version 2) run_experiment_db =
      (Inr (), ?db1)"
    by (simp add: run_experiment_case_def and_session_def w ids r is_completed_def)
  moreover have "\<not> is_completed 5 4 ''candidate'' (pd_experiment_cases ?db1)"
    by (simp add: record_experiment_case_def is_completed_record_case ids) (simp add: is_completed_def)
  then have "run_experiment_case ?w (\<lambda>_. run_client) run_experiment_row (Suc 0) (run_case, ''candidate'', run_version 3) ?db1 =
      (Inr (), ?db2)"
    by (simp add: run_experiment_case_def and_session_def w ids r)
  moreover have "\<exists>db'. complete_experiment ex_services ex_env 5 ?db2 = Inr ((), db') \<and> experiment_status 5 db' = Some PE_COMPLETED"
  proof -
    have e: "get_experiment ?db2 5 = Some run_experiment_row"
      by (simp add: record_experiment_case_def run_experiment_db_def table_simps ids)
    have "er_payload (experiment_completed_event 5 x) = JObj [(''experiment_id'', JStr (uuid_str 5)),
        (''winner'', (case x of None \<Rightarrow> JNull | Some s \<Rightarrow> JStr s))]" for x
      by (simp add: experiment_completed_event_def plain_event_def)
    note ev = platform_event_ok [OF this, where sv = ex_services and env = ex_env]
    have "pe_status run_experiment_row \<noteq> PE_CANCELLED" by (simp add: run_experiment_row_def)
    then have "\<exists>db'. complete_experiment ex_services ex_env 5 ?db2 = Inr ((), db')"
      using e by (simp add: complete_experiment_def required_experiment_def Let_def split_beta and_then_Inr_iff)
        (use ev in blast)
    then show ?thesis
      using complete_experiment_Inr [of ex_services ex_env 5 ?db2] e \<open>pe_status run_experiment_row \<noteq> PE_CANCELLED\<close>
      by (auto simp: experiment_status_def)
  qed
  ultimately show ?thesis
    using run_experiment_starts
    by (auto simp: run_prompt_experiment_def and_session_def atomically_def interfering_def w experiment_items_def returns_def)
qed

text \<open>C19. A run of an experiment that is neither completed nor cancelled at its start, and that
  returns, has completed both variants of every case sampled at its start, and the experiment is
  completed with a stored result unless somebody has cancelled it meanwhile. Others may commit before
  every item and while it executes, as long as they keep the experiment's completed cases; a second
  run of the same experiment does not, see \<open>second_run_overwrites_completed\<close>.\<close>

theorem completed_experiment_is_paired:
  assumes run: "run_prompt_experiment sv w k db = (Inr (), db')"
    and live: "experiment_status k db \<notin> {Some PE_COMPLETED, Some PE_CANCELLED}"
    and others: "\<forall>n. keeps_done k (rn_others w n) \<and> keeps_done k (rn_during w n)"
  shows "both_variants_done k (sampled_cases k db) db' \<and>
    (experiment_status k db' = Some PE_CANCELLED \<or>
     experiment_status k db' = Some PE_COMPLETED \<and> get_experiment_result k db' \<noteq> None)"
proof -
  from run obtain started db1 where s: "start_experiment (rn_start w) k db = Inr (started, db1)"
    by (auto simp: run_prompt_experiment_def and_session_def atomically_def split: sum.splits prod.splits)
  with start_experiment_None [of "rn_start w" k db db1] live obtain e control candidate cases
    where st: "started = Some (e, control, candidate, cases)"
    by (cases started) (auto simp: experiment_status_def)
  note f = start_experiment_Some [OF s [unfolded st]]
  let ?items = "experiment_items control candidate cases"
  from run s st obtain client db2 where items:
      "run_items (\<lambda>i n. run_experiment_case w client e n i) (rn_others w) 0 ?items db1 = (Inr (), db2)"
    and c: "complete_experiment sv (rn_end w) k (rn_others w (length ?items) db2) = Inr ((), db')"
    by (auto simp: run_prompt_experiment_def and_session_def atomically_def interfering_def Let_def
          split: sum.splits prod.splits)
  have k: "pe_id e = k" and cases: "cases = sampled_cases k db" using f by (auto simp: sampled_cases_def)
  have "(\<forall>i \<in> set ?items. experiment_case_done k db2 i) \<and>
    (\<forall>j \<in> UNIV. experiment_case_done k db1 j \<longrightarrow> experiment_case_done k db2 j)"
  proof (rule run_items_establish [where Q = "\<lambda>i db. experiment_case_done k db i", OF items])
    show "experiment_case_done k db' i \<and> (\<forall>j \<in> UNIV. experiment_case_done k db j \<longrightarrow> experiment_case_done k db' j)"
      if "run_experiment_case w client e n i db = (Inr (), db')" for i n db db'
      using run_experiment_case_done [OF that] others by (simp add: k)
  qed (use others keeps_doneD in auto)
  then have "\<forall>i \<in> set ?items. experiment_case_done k (rn_others w (length ?items) db2) i"
    using others keeps_doneD by blast
  then have "\<forall>i \<in> set ?items. experiment_case_done k db' i"
    using complete_experiment_Inr [OF c] by (auto simp: experiment_case_done_def)
  then have "both_variants_done k (sampled_cases k db) db'"
    using both_variants_items cases by blast
  with complete_experiment_Inr [OF c] show ?thesis by (auto simp: experiment_status_def)
qed

lemma undisturbed_world [simp]:
  "keeps_done k (rn_others (run_world_of f) n)" "keeps_done k (rn_during (run_world_of f) n)"
  "keeps_unfinished k p (rn_others (run_world_of f) n)" "keeps_unfinished k p (rn_during (run_world_of f) n)"
  by (simp_all add: keeps_done_def keeps_unfinished_def run_world_of_def)

lemma completed_experiment_is_paired_witness:
  "\<exists>db'. run_prompt_experiment ex_services (run_world_of (\<lambda>_. Inr (\<lambda>_. run_client))) 5 run_experiment_db = (Inr (), db') \<and>
    both_variants_done 5 [run_case] db' \<and>
    (experiment_status 5 db' = Some PE_CANCELLED \<or>
     experiment_status 5 db' = Some PE_COMPLETED \<and> get_experiment_result 5 db' \<noteq> None)"
proof -
  obtain db' where run: "run_prompt_experiment ex_services (run_world_of (\<lambda>_. Inr (\<lambda>_. run_client))) 5 run_experiment_db = (Inr (), db')"
    using run_experiment_returns by blast
  have live: "experiment_status 5 run_experiment_db \<notin> {Some PE_COMPLETED, Some PE_CANCELLED}"
    "sampled_cases 5 run_experiment_db = [run_case]"
    by (simp_all add: experiment_status_def sampled_cases_def run_experiment_db_def run_experiment_row_def table_simps
          enabled_cases_def run_case_def)
  from completed_experiment_is_paired [OF run live(1)] live(2) run show ?thesis by auto
qed

text \<open>
  A run does not refuse an experiment that is running, and the recording of a failure does not look at
  what it replaces: a second run, of a job whose lease has expired, can find its first case open,
  fail on it while the first run completes the whole experiment, and overwrite the completed case.
\<close>

lemma second_run_overwrites_completed:
  assumes start: "start_experiment (rn_start w) k db = Inr (Some (e, control, candidate, c # cases), db1)"
    and client: "rn_factory w (pe_provider e) = Inr client" and quiet: "rn_others w 0 db1 = db1" "rn_checkpoint w db1 = Inr ()"
    and missing: "\<not> is_completed k (ec_id c) ''control'' (pd_experiment_cases db1)"
    and fails: "execute_prompt_case (rn_library w) (client 0) (rn_latency w 0) control c (pe_model e) (pe_settings e) = Inl x"
      "is_exception x"
    and first: "experiment_status k (rn_during w 0 db1) = Some PE_COMPLETED"
  shows "\<exists>db'. run_prompt_experiment sv w k db = (Inl x, db') \<and> experiment_status k db' = Some PE_COMPLETED \<and>
    \<not> is_completed k (ec_id c) ''control'' (pd_experiment_cases db')"
proof -
  have "pe_id e = k" using start_experiment_Some [OF start] by blast
  then have "run_prompt_experiment sv w k db = (Inl x, record_experiment_case k (ec_id c) ''control'' (Inl x) (rn_during w 0 db1))"
    using start client quiet missing fails
    by (simp add: run_prompt_experiment_def and_session_def atomically_def interfering_def experiment_items_def
        run_experiment_case_def Let_def)
  moreover have "experiment_status k (record_experiment_case k c' v r d) = experiment_status k d" for c' v r d
    by (simp add: experiment_status_def record_experiment_case_def)
  ultimately show ?thesis
    using first by (simp add: record_experiment_case_def is_completed_record_case)
qed

text \<open>So it happens with a client that fails and a first run that has completed everything meanwhile.\<close>

definition overtaking_world :: run_world where
  "overtaking_world = (run_world_of (\<lambda>_. Inr (\<lambda>_. demo_failing_client run_client)))\<lparr>rn_during :=
     (\<lambda>_. snd \<circ> run_prompt_experiment ex_services (run_world_of (\<lambda>_. Inr (\<lambda>_. run_client))) 5)\<rparr>"

lemma second_run_overwrites_completed_example:
  "\<exists>x db'. run_prompt_experiment ex_services overtaking_world 5 run_experiment_db = (Inl x, db') \<and>
    experiment_status 5 db' = Some PE_COMPLETED \<and> \<not> both_variants_done 5 [run_case] db'"
proof -
  let ?x = "llm_error LLMProviderError ''Deterministic demo provider failure''"
  obtain r where "execute_prompt_case run_library run_client 5 (run_version 2) run_case ''m'' [] = Inr r"
    using run_case_executes by blast
  then have fails: "execute_prompt_case run_library (demo_failing_client run_client) 5 (run_version 2) run_case ''m'' [] = Inl ?x"
    by (auto simp: execute_prompt_case_def and_then_Inr_iff demo_failing_client_def Let_def)
  have w: "rn_checkpoint overtaking_world d = Inr ()" "rn_library overtaking_world = run_library" "rn_latency overtaking_world n = 5"
    "rn_others overtaking_world n d = d" "rn_factory overtaking_world p = Inr (\<lambda>_. demo_failing_client run_client)"
    "rn_start overtaking_world = 1"
    "rn_during overtaking_world n d = snd (run_prompt_experiment ex_services (run_world_of (\<lambda>_. Inr (\<lambda>_. run_client))) 5 d)"
    for d n p
    by (simp_all add: overtaking_world_def run_world_of_def)
  have row: "pe_model run_experiment_row = ''m''" "pe_settings run_experiment_row = []" "ec_id run_case = 4"
    "pd_experiment_cases run_experiment_db = []"
    by (simp_all add: run_experiment_row_def run_case_def run_experiment_db_def empty_platform_def)
  obtain first where first: "run_prompt_experiment ex_services (run_world_of (\<lambda>_. Inr (\<lambda>_. run_client))) 5 run_experiment_db = (Inr (), first)"
    "experiment_status 5 first = Some PE_COMPLETED"
    using run_experiment_returns by blast
  have "\<exists>db'. run_prompt_experiment ex_services overtaking_world 5 run_experiment_db = (Inl ?x, db') \<and>
      experiment_status 5 db' = Some PE_COMPLETED \<and> \<not> is_completed 5 (ec_id run_case) ''control'' (pd_experiment_cases db')"
  proof (rule second_run_overwrites_completed [OF run_experiment_starts])
    show "rn_factory overtaking_world (pe_provider run_experiment_row) = Inr (\<lambda>_. demo_failing_client run_client)" by (rule w)
    show "execute_prompt_case (rn_library overtaking_world) (demo_failing_client run_client) (rn_latency overtaking_world 0)
        (run_version 2) run_case (pe_model run_experiment_row) (pe_settings run_experiment_row) = Inl ?x"
      unfolding w row by (rule fails)
    show "is_exception ?x"
      by (simp add: is_exception_def isinstance_any_def llm_error_def is_instance_simps)
    show "experiment_status 5 (rn_during overtaking_world 0 run_experiment_db) = Some PE_COMPLETED"
      unfolding w by (simp only: first snd_conv)
  qed (simp_all add: w row is_completed_def)
  then show ?thesis by (auto simp: both_variants_done_def)
qed

text \<open>A run that finds both variants of every sampled case completed asks no client: whatever
  clients the factory makes, the run does the same.\<close>

theorem resumed_experiment_asks_no_client:
  assumes did: "both_variants_done k (sampled_cases k db) db"
    and others: "\<forall>n. keeps_done k (rn_others w n)"
  shows "run_prompt_experiment sv (w\<lparr>rn_factory := (\<lambda>p. Inr (f p))\<rparr>) k db =
    run_prompt_experiment sv (w\<lparr>rn_factory := (\<lambda>p. Inr (g p))\<rparr>) k db"
proof (cases "start_experiment (rn_start w) k db")
  case (Inl x)
  then show ?thesis by (simp add: run_prompt_experiment_def and_session_def atomically_def)
next
  case (Inr sd)
  then obtain started db1 where s: "start_experiment (rn_start w) k db = Inr (started, db1)" by (cases sd) auto
  show ?thesis
  proof (cases started)
    case None
    with s show ?thesis by (simp add: run_prompt_experiment_def and_session_def atomically_def)
  next
    case (Some x)
    then obtain e control candidate cases where st: "started = Some (e, control, candidate, cases)" by (cases x) auto
    note start = start_experiment_Some [OF s [unfolded st]]
    let ?items = "experiment_items control candidate cases" and ?P = "both_variants_done k cases"
    let ?run = "\<lambda>h i n. run_experiment_case (w\<lparr>rn_factory := (\<lambda>p. Inr (h p))\<rparr>) (h (pe_provider e)) e n i"
    have k: "pe_id e = k" and P: "?P db1"
      using start did by (auto simp: sampled_cases_def both_variants_done_def)
    have skip: "?run h i n db = (case rn_checkpoint w db of Inl x \<Rightarrow> (Inl x, db) | Inr _ \<Rightarrow> (Inr (), db))"
      if "i \<in> set ?items" "?P db" for h i n db
      using that run_experiment_case_skips [of e db i "w\<lparr>rn_factory := (\<lambda>p. Inr (h p))\<rparr>" "h (pe_provider e)" n]
        both_variants_items [of k cases db control candidate] by (simp add: k)
    have "run_items (?run f) (rn_others w) 0 ?items db1 = run_items (?run g) (rn_others w) 0 ?items db1"
    proof (rule run_items_cong [where P = ?P])
      show "?run f i n db = ?run g i n db \<and> ?P (snd (?run g i n db))" if "i \<in> set ?items" "?P db" for i n db
        using skip [OF that] that(2) by (simp split: sum.split)
      show "?P (rn_others w n db)" if "?P db" for n db
        using that others keeps_doneD both_variants_items [of k cases _ control candidate] by blast
    qed (rule P)
    then show ?thesis
      using s st by (simp add: run_prompt_experiment_def and_session_def atomically_def Let_def)
  qed
qed

definition finished_case :: "uuid \<Rightarrow> string \<Rightarrow> case_result_row" where
  "finished_case k variant = \<lparr>cs_owner_id = k, cs_case_id = 4, cs_variant = variant, cs_completed = True,
     cs_output = Some (JObj []), cs_metrics = [(''success'', JFloat 1)], cs_error_code = None, cs_error_message = None\<rparr>"

lemma resumed_experiment_asks_no_client_witness:
  "run_prompt_experiment ex_services ((run_world_of (\<lambda>p. Inr (\<lambda>n. run_client)))\<lparr>rn_factory := (\<lambda>p. Inr (\<lambda>n. run_client))\<rparr>) 5
     (run_experiment_db\<lparr>pd_experiment_cases := [finished_case 5 ''control'', finished_case 5 ''candidate'']\<rparr>) =
   run_prompt_experiment ex_services ((run_world_of (\<lambda>p. Inr (\<lambda>n. run_client)))\<lparr>rn_factory := (\<lambda>p. Inr (\<lambda>n. demo_failing_client run_client))\<rparr>) 5
     (run_experiment_db\<lparr>pd_experiment_cases := [finished_case 5 ''control'', finished_case 5 ''candidate'']\<rparr>)"
   by (rule resumed_experiment_asks_no_client)
    (simp_all add: both_variants_done_def sampled_cases_def run_experiment_db_def run_experiment_row_def table_simps
      enabled_cases_def run_case_def is_completed_def case_of_def finished_case_def)

subsection \<open>Comparisons\<close>

lemma provider_name_value_inj: "provider_name_value p = provider_name_value q \<longleftrightarrow> p = q"
  by (cases p; cases q) simp_all

definition provider_executed :: "provider_name \<Rightarrow> case_result_row list \<Rightarrow> bool" where
  "provider_executed p rows \<longleftrightarrow> (\<exists>r \<in> set rows. cs_variant r = provider_name_value p \<and> cs_completed r)"

lemma map_of_dict_set: "map_of (dict_set k v m) = (map_of m)(k \<mapsto> v)"
  by (induction k v m rule: dict_set.induct) auto

lemma number_at_dict_set [simp]: "k \<noteq> k' \<Longrightarrow> number_at (dict_set k v m) k' = number_at m k'"
  by (simp add: number_at_def map_of_dict_set)

lemma number_at_case_count: "number_at (aggregate_case_metrics rows) ''case_count'' = of_nat (length rows)"
  by (simp add: aggregate_case_metrics_def number_at_def)

lemma executed_metrics:
  "number_at (provider_metrics p rows) ''case_count'' \<noteq> 0 \<longleftrightarrow> provider_executed p rows"
proof -
  have "number_at (provider_metrics p rows) ''case_count'' =
    of_nat (length (filter cs_completed (filter (\<lambda>r. cs_variant r = provider_name_value p) rows)))"
    by (simp add: provider_metrics_def Let_def number_at_case_count)
  then show ?thesis by (auto simp: provider_executed_def filter_empty_conv)
qed

lemma comparison_entries_Inr:
  "comparison_entries e rows ps = Inr xs \<Longrightarrow>
     map cq_provider xs = ps \<and>
     (\<forall>x \<in> set xs. cq_metrics x = provider_metrics (cq_provider x) rows \<and> cq_score x = provider_score (cq_metrics x))"
proof (induction ps arbitrary: xs)
  case (Cons p ps)
  from Cons.prems obtain x ys where x: "comparison_entry_of e rows p = Inr x" and ys: "comparison_entries e rows ps = Inr ys"
    and xs: "xs = x # ys"
    by (cases "comparison_entries e rows ps") (auto simp: and_then_Inr_iff)
  from x have "cq_provider x = p \<and> cq_metrics x = provider_metrics p rows \<and> cq_score x = provider_score (cq_metrics x)"
    by (auto simp: comparison_entry_of_def and_then_Inr_iff Let_def)
  with Cons.IH [OF ys] xs show ?case by auto
qed simp

lemma first_best_is_best:
  "first_best f a xs \<in> set (a # xs) \<and> (\<forall>y \<in> set (a # xs). f y \<le> f (first_best f a xs))"
proof (induction xs arbitrary: a)
  case (Cons x xs)
  show ?case
  proof (cases "f a < f x")
    case True
    with Cons.IH [of x] show ?thesis by (auto intro: order_trans [OF less_imp_le])
  next
    case False
    with Cons.IH [of a] show ?thesis by (auto intro: order_trans)
  qed
qed simp

definition reported_comparison ::
  "time \<Rightarrow> comparison_entry list \<Rightarrow> comparison_entry \<Rightarrow> comparison_entry list \<Rightarrow> comparison_row \<Rightarrow> comparison_row" where
  "reported_comparison now entries x xs e = e\<lparr>
     pc_report := Some (comparison_report entries (cq_provider (first_best cq_score x xs))),
     pc_status := PC_COMPLETED, pc_completed_at := Some now, pc_error_code := None, pc_error_message := None\<rparr>"

lemma complete_comparison_Inr:
  assumes "complete_comparison now k db = Inr ((), db')"
  shows "\<exists>e. get_comparison db k = Some e \<and> (pc_status e = PC_CANCELLED \<and> db' = db \<or>
    (\<exists>entries x xs. comparison_entries e (comparison_results k db) (pc_providers e) = Inr entries \<and>
       filter executed_entry entries = x # xs \<and> db' = put_comparison (reported_comparison now entries x xs e) db))"
proof -
  from assms obtain e where e: "get_comparison db k = Some e"
    by (auto simp: complete_comparison_def and_then_Inr_iff required_comparison_def required_iff)
  show ?thesis
  proof (cases "pc_status e = PC_CANCELLED")
    case True
    with assms e show ?thesis by (simp add: complete_comparison_def required_comparison_def)
  next
    case False
    with assms e obtain entries where "comparison_entries e (comparison_results k db) (pc_providers e) = Inr entries"
      and "(case filter executed_entry entries of
          [] \<Rightarrow> Inl (Exn (PyE OtherException) ''All provider comparison executions failed'')
        | x # xs \<Rightarrow> Inr ((), put_comparison (reported_comparison now entries x xs e) db)) = Inr ((), db')"
      unfolding reported_comparison_def by (auto simp: complete_comparison_def required_comparison_def and_then_Inr_iff)
    with e show ?thesis by (cases "filter executed_entry entries") auto
  qed
qed

text \<open>C21. The report of a completed comparison recommends one of its providers that has completed at
  least one case, and no other such provider has a higher score.\<close>

theorem recommended_provider_is_best:
  assumes "complete_comparison now k db = Inr ((), db')" and "get_comparison db k = Some e"
    and "pc_status e \<noteq> PC_CANCELLED"
  shows "\<exists>p entries e'. get_comparison db' k = Some e' \<and> pc_status e' = PC_COMPLETED \<and>
    pc_report e' = Some (comparison_report entries p) \<and> map cq_provider entries = pc_providers e \<and>
    p \<in> set (pc_providers e) \<and> provider_executed p (comparison_results k db) \<and>
    list_all (\<lambda>q. provider_executed q (comparison_results k db) \<longrightarrow>
      provider_score (provider_metrics q (comparison_results k db)) \<le>
      provider_score (provider_metrics p (comparison_results k db))) (pc_providers e)"
proof -
  let ?rows = "comparison_results k db"
  from complete_comparison_Inr [OF assms(1)] assms(2,3) obtain entries x xs
    where entries: "comparison_entries e ?rows (pc_providers e) = Inr entries"
    and best: "filter executed_entry entries = x # xs" and db': "db' = put_comparison (reported_comparison now entries x xs e) db"
    by auto
  note en = comparison_entries_Inr [OF entries]
  let ?b = "first_best cq_score x xs" and ?p = "cq_provider (first_best cq_score x xs)"
  have "?b \<in> set (filter executed_entry entries) \<and> (\<forall>y \<in> set (filter executed_entry entries). cq_score y \<le> cq_score ?b)"
    unfolding best by (rule first_best_is_best)
  then have b: "?b \<in> set entries" "executed_entry ?b"
    and max: "\<forall>y \<in> set entries. executed_entry y \<longrightarrow> cq_score y \<le> cq_score ?b" by auto
  have scores: "cq_score y = provider_score (provider_metrics (cq_provider y) ?rows)"
    "executed_entry y \<longleftrightarrow> provider_executed (cq_provider y) ?rows" if "y \<in> set entries" for y
    using en that by (auto simp: executed_entry_def executed_metrics)
  have "pc_id e = k" using assms(2) by (rule comparison_table.get_key)
  then have "get_comparison db' k = Some (reported_comparison now entries x xs e)"
    using assms(2) by (simp add: db' put_comparison_def comparison_table.get_put_same reported_comparison_def)
  moreover have "?p \<in> set (pc_providers e)" "provider_executed ?p ?rows"
    using en b scores(2) [OF b(1)] by (metis image_eqI list.set_map, simp)
  moreover have "list_all (\<lambda>q. provider_executed q ?rows \<longrightarrow>
      provider_score (provider_metrics q ?rows) \<le> provider_score (provider_metrics ?p ?rows)) (pc_providers e)"
    unfolding list_all_iff
  proof (intro ballI impI)
    fix q assume q: "q \<in> set (pc_providers e)" "provider_executed q ?rows"
    then obtain y where y: "y \<in> set entries" "cq_provider y = q" using en by (metis imageE list.set_map)
    with max scores q b(1) show "provider_score (provider_metrics q ?rows) \<le> provider_score (provider_metrics ?p ?rows)"
      by metis
  qed
  ultimately show ?thesis using en
    by (intro exI [of _ ?p] exI [of _ entries] exI [of _ "reported_comparison now entries x xs e"])
       (simp add: reported_comparison_def)
qed

definition compared_cases :: "comparison_row \<Rightarrow> platform_db \<Rightarrow> case_row list" where
  "compared_cases e db = take (nat (pc_sample_size e)) (enabled_cases (pc_dataset_id e) db)"

definition run_comparison_row :: comparison_row where
  "run_comparison_row = \<lparr>pc_id = 5, pc_prompt_version_id = 2, pc_dataset_id = 6, pc_providers = [PN_MOCK, PN_OPENAI],
     pc_models = [(PN_MOCK, ''m''), (PN_OPENAI, ''o'')], pc_sample_size = 1, pc_settings = [], pc_status = PC_RUNNING,
     pc_report = None, pc_job_id = Some 1, pc_created_by = ''ann'', pc_created_at = 0, pc_started_at = Some 1,
     pc_completed_at = None, pc_error_code = None, pc_error_message = None\<rparr>"

definition run_comparison_db :: platform_db where
  "run_comparison_db = empty_platform\<lparr>pd_comparisons := [run_comparison_row],
     pd_versions := [run_version 2], pd_cases := [run_case],
     pd_comparison_cases := [finished_case 5 ''mock'', finished_case 5 ''openai'']\<rparr>"

lemma run_comparison_row_simps [simp]:
  "pc_id run_comparison_row = 5" "pc_providers run_comparison_row = [PN_MOCK, PN_OPENAI]"
  "pc_models run_comparison_row = [(PN_MOCK, ''m''), (PN_OPENAI, ''o'')]" "pc_status run_comparison_row = PC_RUNNING"
  "get_comparison run_comparison_db 5 = Some run_comparison_row"
  "compared_cases run_comparison_row run_comparison_db = [run_case]" "ec_id run_case = 4"
  by (simp_all add: run_comparison_row_def run_comparison_db_def table_simps compared_cases_def enabled_cases_def run_case_def)

lemma completes_if_executed:
  assumes "get_comparison db 5 = Some run_comparison_row"
    and "provider_executed PN_MOCK (comparison_results 5 db)"
  shows "\<exists>db'. complete_comparison now 5 db = Inr ((), db')"
proof -
  obtain entries where entries: "comparison_entries run_comparison_row (comparison_results 5 db) [PN_MOCK, PN_OPENAI] = Inr entries"
    by (simp add: comparison_entry_of_def Let_def)
  with comparison_entries_Inr [OF entries] assms(2) have "filter executed_entry entries \<noteq> []"
    by (auto simp: filter_empty_conv executed_entry_def executed_metrics)
  with assms(1) entries show ?thesis
    by (cases "filter executed_entry entries") (auto simp: complete_comparison_def required_comparison_def)
qed

lemma recommended_provider_is_best_witness:
  "\<exists>db' p entries e'. complete_comparison 9 5 run_comparison_db = Inr ((), db') \<and> get_comparison db' 5 = Some e' \<and>
    pc_report e' = Some (comparison_report entries p) \<and> p \<in> {PN_MOCK, PN_OPENAI}"
proof -
  have "provider_executed PN_MOCK (comparison_results 5 run_comparison_db)"
    by (simp add: provider_executed_def comparison_results_def run_comparison_db_def finished_case_def)
  then obtain db' where c: "complete_comparison 9 5 run_comparison_db = Inr ((), db')"
    using completes_if_executed [of run_comparison_db 9] by auto
  from recommended_provider_is_best [OF c, of run_comparison_row] c show ?thesis by (auto; metis)
qed

lemma run_comparison_case_Inr:
  assumes "run_comparison_case w e v n (p, c) db = (Inr (), db')"
  shows "(case rn_factory w p of
      Inl x \<Rightarrow> db' = record_provider_case (pc_id e) (ec_id c) p (Inl x) db
    | Inr client \<Rightarrow> db' = db \<or> (\<exists>x. db' = record_provider_case (pc_id e) (ec_id c) p x (rn_during w n db)))"
  using assms
  by (cases "map_of (pc_models e) p")
     (auto simp: run_comparison_case_def Let_def and_session_def atomically_def split: sum.splits if_splits prod.splits option.splits)

lemma start_comparison_Some:
  assumes "start_comparison now k db = Inr (Some (e', v, cases), db1)"
  shows "\<exists>e. get_comparison db k = Some e \<and> pc_id e' = k \<and> pc_providers e' = pc_providers e \<and>
    cases = take (nat (pc_sample_size e)) (enabled_cases (pc_dataset_id e) db)"
  using assms comparison_table.get_key [of "pd_comparisons db" k]
  by (auto simp: start_comparison_def and_then_Inr_iff Let_def required_comparison_def required_iff split: if_splits)

lemma start_comparison_None:
  assumes "start_comparison now k db = Inr (None, db1)"
  shows "\<exists>e. get_comparison db k = Some e \<and> (pc_status e = PC_COMPLETED \<or> pc_status e = PC_CANCELLED)"
  using assms by (auto simp: start_comparison_def and_then_Inr_iff Let_def required_comparison_def required_iff split: if_splits)

lemma complete_comparison_cases:
  "complete_comparison now k db = Inr ((), db') \<Longrightarrow> pd_comparison_cases db' = pd_comparison_cases db"
  using complete_comparison_Inr [of now k db db'] by (auto simp: put_comparison_def)

text \<open>When the client of a provider cannot be made, a run of a comparison that returns leaves none
  of the provider's sampled cases completed, not even those an earlier attempt had completed: their
  outputs are overwritten with the failure.\<close>

theorem unmade_client_discards_completed_cases:
  assumes run: "run_provider_comparison w k db = (Inr (), db')" and e: "get_comparison db k = Some e"
    and live: "pc_status e \<noteq> PC_COMPLETED" "pc_status e \<noteq> PC_CANCELLED"
    and p: "p \<in> set (pc_providers e)" "rn_factory w p = Inl x" and c: "c \<in> set (compared_cases e db)"
    and others: "\<forall>n. keeps_unfinished k p (rn_others w n) \<and> keeps_unfinished k p (rn_during w n)"
  shows "\<not> provider_case_completed k (ec_id c) p db'"
proof -
  from run obtain started db1 where s: "start_comparison (rn_start w) k db = Inr (started, db1)"
    by (auto simp: run_provider_comparison_def and_session_def atomically_def split: sum.splits prod.splits)
  with start_comparison_None [of "rn_start w" k db db1] live e obtain e' v cases where st: "started = Some (e', v, cases)"
    by (cases started) auto
  note start = start_comparison_Some [OF s [unfolded st]]
  let ?items = "comparison_items (pc_providers e') cases"
  from run s st obtain db2 where items:
      "run_items (\<lambda>i n. run_comparison_case w e' v n i) (rn_others w) 0 ?items db1 = (Inr (), db2)"
    and f: "complete_comparison (env_now (rn_end w)) k (rn_others w (length ?items) db2) = Inr ((), db')"
    by (auto simp: run_provider_comparison_def and_session_def atomically_def interfering_def Let_def
          split: sum.splits prod.splits)
  let ?Q = "\<lambda>(i :: provider_name \<times> case_row) (db :: platform_db). fst i = p \<longrightarrow> \<not> provider_case_completed k (ec_id (snd i)) p db"
  have "(\<forall>i \<in> set ?items. ?Q i db2) \<and> (\<forall>j \<in> UNIV. ?Q j db1 \<longrightarrow> ?Q j db2)"
  proof (rule run_items_establish [where Q = ?Q, OF items])
    show "?Q i db' \<and> (\<forall>j \<in> UNIV. ?Q j db \<longrightarrow> ?Q j db')"
      if "run_comparison_case w e' v n i db = (Inr (), db')" for i n db db'
    proof (cases i)
      case (Pair q d)
      have later: "\<not> provider_case_completed k c p db \<Longrightarrow> \<not> provider_case_completed k c p (rn_during w n db)" for c
        using others by (simp add: keeps_unfinished_def)
      from Pair run_comparison_case_Inr [of w e' v n q d db db'] that p start later show ?thesis
        by (auto simp: provider_case_completed_def record_provider_case_def is_completed_record_case provider_name_value_inj
              split: sum.splits if_splits)
    qed
    show "?Q j (rn_others w n db)" if "?Q j db" for n j db
      using that others by (auto simp: keeps_unfinished_def)
  qed simp
  moreover have "(p, c) \<in> set ?items" using start e p c by (auto simp: comparison_items_def compared_cases_def)
  ultimately have "\<not> provider_case_completed k (ec_id c) p db2" by fastforce
  then have "\<not> provider_case_completed k (ec_id c) p (rn_others w (length ?items) db2)"
    using others by (simp add: keeps_unfinished_def)
  then show ?thesis using complete_comparison_cases [OF f] by (simp add: provider_case_completed_def)
qed

lemma unmade_client_discards_completed_cases_witness:
  "\<exists>db'. run_provider_comparison (run_world_of (\<lambda>p. if p = PN_OPENAI then Inl (value_error ''no key'') else Inr (\<lambda>n. run_client)))
      5 run_comparison_db = (Inr (), db') \<and>
    provider_case_completed 5 4 PN_OPENAI run_comparison_db \<and> \<not> provider_case_completed 5 4 PN_OPENAI db'"
proof -
  let ?w = "run_world_of (\<lambda>p. if p = PN_OPENAI then Inl (value_error ''no key'') else Inr (\<lambda>n. run_client))"
  let ?db2 = "record_provider_case 5 4 PN_OPENAI (Inl (value_error ''no key'')) run_comparison_db"
  have w: "rn_checkpoint ?w db = Inr ()" "rn_others ?w n db = db" "rn_start ?w = 1"
    "rn_factory ?w PN_OPENAI = Inl (value_error ''no key'')" "rn_factory ?w PN_MOCK = Inr (\<lambda>n. run_client)" for db n
    by (simp_all add: run_world_of_def)
  have cmp: "provider_case_completed 5 4 PN_MOCK run_comparison_db" "provider_case_completed 5 4 PN_OPENAI run_comparison_db"
    by (simp_all add: provider_case_completed_def is_completed_def run_comparison_db_def finished_case_def case_of_def)
  have start: "start_comparison 1 5 run_comparison_db = Inr (Some (run_comparison_row, run_version 2, [run_case]), run_comparison_db)"
    by (simp add: start_comparison_def required_comparison_def run_comparison_db_def run_comparison_row_def table_simps
        enabled_cases_def run_case_def run_version_def put_comparison_def t_put_def Let_def)
  have "run_comparison_case ?w run_comparison_row (run_version 2) 0 (PN_MOCK, run_case) run_comparison_db = (Inr (), run_comparison_db)"
    by (simp add: run_comparison_case_def w and_session_def cmp)
  moreover have "run_comparison_case ?w run_comparison_row (run_version 2) (Suc 0) (PN_OPENAI, run_case) run_comparison_db = (Inr (), ?db2)"
    by (simp add: run_comparison_case_def w is_exception_def isinstance_any_def is_instance_simps value_error_def atomically_def)
  moreover have "\<exists>db'. complete_comparison (env_now (rn_end ?w)) 5 ?db2 = Inr ((), db')"
  proof (rule completes_if_executed)
    show "get_comparison ?db2 5 = Some run_comparison_row"
      by (simp add: record_provider_case_def run_comparison_db_def table_simps)
    show "provider_executed PN_MOCK (comparison_results 5 ?db2)"
      by (simp add: provider_executed_def comparison_results_def record_provider_case_def record_case_def run_comparison_db_def
          finished_case_def case_of_def)
  qed
  ultimately obtain db' where run: "run_provider_comparison ?w 5 run_comparison_db = (Inr (), db')"
    using start by (auto simp: run_provider_comparison_def and_session_def atomically_def interfering_def w
      comparison_items_def returns_def)
  have "\<not> provider_case_completed 5 (ec_id run_case) PN_OPENAI db'"
    by (rule unmade_client_discards_completed_cases [OF run, where e = run_comparison_row and x = "value_error ''no key''"])
      (simp_all add: w)
  with run cmp show ?thesis by auto
qed

subsection \<open>Late cancellations\<close>

definition cancelled_job :: terminal_cause where
  "cancelled_job = \<lparr>tn_cancelled = True, tn_code = Some ''JOB_CANCELLED'',
     tn_message = Some ''Background job was cancelled''\<rparr>"

text \<open>A cancellation that is requested while the handler of an experiment completes is noticed after
  it: the job is cancelled, and the experiment, which is completed and has its results stored and its
  event published, is set to cancelled.\<close>

theorem late_cancellation_overwrites_completed:
  assumes kind: "validate_job_payload co (lj_job_type job) (lj_payload job) = Inr (PromptExperimentRunJobPayload k)"
    and handler: "prompt_experiment_handler co sv w job worker db = (Inr (), db1)"
    and completed: "get_experiment db1 k = Some e" "pe_status e = PE_COMPLETED"
    and requested: "repo_cancellation_requested (lj_job_id job) worker (pd_queue db1)" "\<not> pr_lease_lost pe"
    and leased: "repo_mark_cancelled (pr_now pe 3) (lj_job_id job) worker (pd_queue db1) = Inr (j, q)"
  shows "\<exists>db'. run_job co st pe job worker (prompt_experiment_handler co sv w job worker) db = (Inr (), db') \<and>
    experiment_status k db' = Some PE_CANCELLED \<and> pd_experiment_results db' = pd_experiment_results db1 \<and>
    pd_core db' = pd_core db1 \<and> pd_queue db' = q"
proof -
  let ?db2 = "db1\<lparr>pd_queue := q\<rparr>"
  have "pe_id e = k" using completed(1) by (rule experiment_table.get_key)
  have c: "complete_job co pe job worker db1 = (Inl (Exn (OpsE JobCancelledError) ''Job cancellation was requested''), db1)"
    using kind requested(1)
    by (simp add: complete_job_def and_session_def ensure_success_consistency_def checkpoint_def require_def)
  have r: "job_reconcile co (pr_now pe 4) job cancelled_job ?db2 = Inr ((), reconcile_experiment (pr_now pe 4) cancelled_job k ?db2)"
    using kind by (simp add: job_reconcile_def)
  have "run_job co st pe job worker (prompt_experiment_handler co sv w job worker) db =
      cancel_job co (\<lambda>n. pr_now pe (n + 3)) job worker db1"
    using handler c requested(2)
    by (auto simp: run_job_def and_session_def settle_job_def Let_def isinstance_any_def is_instance_simps cancel_job_def
          atomically_def split: sum.splits prod.splits)
  moreover have "cancel_job co (\<lambda>n. pr_now pe (n + 3)) job worker db1 =
      (Inr (), reconcile_experiment (pr_now pe 4) cancelled_job k ?db2)"
    using leased r by (simp add: cancel_job_def and_session_def atomically_def in_queue_def cancelled_job_def)
  moreover have "experiment_status k (reconcile_experiment (pr_now pe 4) cancelled_job k ?db2) = Some PE_CANCELLED"
    using completed(1) \<open>pe_id e = k\<close>
    by (simp add: reconcile_experiment_def experiment_status_def put_experiment_def cancelled_job_def
          experiment_table.get_put_same)
  moreover have "pd_experiment_results (reconcile_experiment (pr_now pe 4) cancelled_job k ?db2) = pd_experiment_results db1"
    "pd_core (reconcile_experiment (pr_now pe 4) cancelled_job k ?db2) = pd_core db1"
    "pd_queue (reconcile_experiment (pr_now pe 4) cancelled_job k ?db2) = q"
    by (simp_all add: reconcile_experiment_def put_experiment_def split: option.split)
  ultimately show ?thesis by (intro exI [of _ "reconcile_experiment (pr_now pe 4) cancelled_job k ?db2"]) simp
qed

definition cancelled_leased :: leased_job where
  "cancelled_leased = \<lparr>lj_job_id = 7, lj_job_type = JT_PROMPT_EXPERIMENT_RUN,
     lj_payload = dump_payload (PromptExperimentRunJobPayload 5), lj_attempt_count = 1, lj_max_attempts = 5,
     lj_correlation_id = ''c'', lj_trace_id = None\<rparr>"

definition late_job_row :: job_row where
  "late_job_row = ex_leased_job\<lparr>job_id := 7, cancel_requested := True\<rparr>"

definition late_db :: platform_db where
  "late_db = run_experiment_db\<lparr>pd_experiments := [run_experiment_row\<lparr>pe_status := PE_COMPLETED\<rparr>],
     pd_queue := \<lparr>jobs = [late_job_row], attempts = [new_attempt ''w1'' 10 late_job_row], workers = []\<rparr>\<rparr>"

lemma late_cancellation_overwrites_completed_witness:
  "\<exists>db'. run_job strict_coercions ex_settings \<lparr>pr_now = (\<lambda>_. 11), pr_lease_lost = False, pr_cancellation = False,
       pr_connection_invalidated = False\<rparr> cancelled_leased ''w1''
      (prompt_experiment_handler strict_coercions ex_services (run_world_of (\<lambda>_. Inr (\<lambda>_. run_client))) cancelled_leased ''w1'')
      late_db = (Inr (), db') \<and>
    experiment_status 5 late_db = Some PE_COMPLETED \<and> experiment_status 5 db' = Some PE_CANCELLED"
proof -
  let ?w = "run_world_of (\<lambda>_. Inr (\<lambda>_. run_client))"
  let ?pe = "\<lparr>pr_now = (\<lambda>_. 11), pr_lease_lost = False, pr_cancellation = False, pr_connection_invalidated = False\<rparr> :: process_env"
  have kind: "validate_job_payload strict_coercions (lj_job_type cancelled_leased) (lj_payload cancelled_leased) =
      Inr (PromptExperimentRunJobPayload 5)"
    by (simp add: cancelled_leased_def validate_job_payload_def uuid_model_def strict_coercions_def uuid_of_str_uuid_str)
  have e: "get_experiment late_db 5 = Some (run_experiment_row\<lparr>pe_status := PE_COMPLETED\<rparr>)"
    by (simp add: late_db_def table_simps run_experiment_row_def)
  then have "run_prompt_experiment ex_services (job_world ?w cancelled_leased ''w1'') 5 late_db = (Inr (), late_db)"
    by (simp add: run_prompt_experiment_def and_session_def atomically_def start_experiment_def required_experiment_def returns_def)
  with kind have handler: "prompt_experiment_handler strict_coercions ex_services ?w cancelled_leased ''w1'' late_db = (Inr (), late_db)"
    by (simp add: prompt_experiment_handler_def)
  have row: "job_id late_job_row = 7" "j_status late_job_row = JS_RUNNING" "locked_by late_job_row = Some ''w1''"
    "lease_expires_at late_job_row = Some (10 + seconds 60)" "cancel_requested late_job_row"
    by (simp_all add: late_job_row_def ex_leased_job_def lease_row_def)
  have requested: "repo_cancellation_requested (lj_job_id cancelled_leased) ''w1'' (pd_queue late_db)"
    by (simp add: repo_cancellation_requested_def late_db_def cancelled_leased_def row)
  have "\<exists>j q. repo_mark_cancelled (pr_now ?pe 3) (lj_job_id cancelled_leased) ''w1'' (pd_queue late_db) = Inr (j, q)"
    by (simp add: repo_mark_cancelled_def required_live_lease_def owns_live_lease_def late_db_def cancelled_leased_def row
        table_simps finish_attempt_def running_attempt_def clear_lease_def new_attempt_def Let_def seconds_def
        duration_ms_short [of 11 10] int32_max_def not_less)
  then obtain j q where "repo_mark_cancelled (pr_now ?pe 3) (lj_job_id cancelled_leased) ''w1'' (pd_queue late_db) = Inr (j, q)"
    by blast
  from late_cancellation_overwrites_completed [OF kind handler e _ requested _ this, where st = ex_settings] e
  show ?thesis by (auto simp: experiment_status_def)
qed

end
