(* ===== verification/Rate_Limit.thy ===== *)
theory Rate_Limit
  imports Complex_Main Errors
begin

text \<open>
  The rate limit of sensitive routes (\<open>app/operations/rate_limit.py\<close>): a sliding window of
  accepted calls per key. The lock makes a call atomic; the clock is monotonic, its seconds are
  rationals.
\<close>

type_synonym limiter = "string \<Rightarrow> rat list"

definition no_calls :: limiter where
  "no_calls = (\<lambda>_. [])"

definition recent :: "rat \<Rightarrow> int \<Rightarrow> rat list \<Rightarrow> rat list" where
  "recent now window = dropWhile (\<lambda>t. t \<le> now - of_int window)"

definition allow :: "int \<Rightarrow> int \<Rightarrow> rat \<Rightarrow> string \<Rightarrow> limiter \<Rightarrow> bool \<times> limiter" where
  "allow limit window now key l =
     (let events = recent now window (l key)
      in if limit \<le> int (length events) then (False, l(key := events)) else (True, l(key := events @ [now])))"

record http_request =
  hr_method :: string
  hr_path :: string
  hr_actor :: "string option"
  hr_client :: "string option"

definition limit_key :: "http_request \<Rightarrow> string" where
  "limit_key r =
     (let client = (case hr_client r of None \<Rightarrow> ''unknown'' | Some c \<Rightarrow> c);
          identity = (case hr_actor r of Some (c # cs) \<Rightarrow> c # cs | _ \<Rightarrow> client)
      in hr_method r @ '':'' @ hr_path r @ '':'' @ identity)"

definition enforce_sensitive_rate_limit ::
  "int \<Rightarrow> int \<Rightarrow> rat \<Rightarrow> http_request \<Rightarrow> limiter \<Rightarrow> (exn, unit) res \<times> limiter" where
  "enforce_sensitive_rate_limit limit window now r l =
     (let (ok, l') = allow limit window now (limit_key r) l
      in (require ok (Exn (OpsE RateLimitExceededError) ''Too many requests for this operation''), l'))"

text \<open>The answers to the calls of a trace.\<close>

fun serve :: "int \<Rightarrow> int \<Rightarrow> limiter \<Rightarrow> (rat \<times> http_request) list \<Rightarrow> bool list" where
  "serve limit window l [] = []"
| "serve limit window l ((now, r) # calls) =
     (let (x, l') = enforce_sensitive_rate_limit limit window now r l
      in (case x of Inl _ \<Rightarrow> False | Inr _ \<Rightarrow> True) # serve limit window l' calls)"

subsection \<open>Accepted calls\<close>

fun accepted :: "string \<Rightarrow> bool list \<Rightarrow> (rat \<times> http_request) list \<Rightarrow> rat list" where
  "accepted key (a # as) ((t, r) # calls) = (if a \<and> limit_key r = key then [t] else []) @ accepted key as calls"
| "accepted key _ _ = []"

definition within_window :: "int \<Rightarrow> rat \<Rightarrow> rat list \<Rightarrow> rat list" where
  "within_window window u = filter (\<lambda>t. u - of_int window < t \<and> t \<le> u)"

text \<open>What was accepted for a key, and what the limiter still remembers of it.\<close>

definition remembers :: "int \<Rightarrow> int \<Rightarrow> rat \<Rightarrow> rat list \<Rightarrow> rat list \<Rightarrow> bool" where
  "remembers limit window now past events \<longleftrightarrow>
     (\<exists>forgotten. past = forgotten @ events \<and> (\<forall>t \<in> set forgotten. t \<le> now - of_int window)) \<and>
     (\<forall>t \<in> set past. t \<le> now) \<and> (\<forall>u. int (length (within_window window u past)) \<le> max limit 0)"

lemma recent_split: "\<exists>old. events = old @ recent now window events \<and> (\<forall>t \<in> set old. t \<le> now - of_int window)"
  unfolding recent_def
  by (intro exI [of _ "takeWhile (\<lambda>t. t \<le> now - of_int window) events"]) (auto dest: set_takeWhileD)

lemma remembers_later:
  assumes "remembers limit window now past events" and "now \<le> now'"
  shows "remembers limit window now' past (recent now' window events)"
proof -
  obtain old where old: "events = old @ recent now' window events" "\<forall>t \<in> set old. t \<le> now' - of_int window"
    using recent_split by blast
  from assms obtain forgotten where f: "past = forgotten @ events" "\<forall>t \<in> set forgotten. t \<le> now - of_int window"
    by (auto simp: remembers_def)
  then have "past = (forgotten @ old) @ recent now' window events \<and> (\<forall>t \<in> set (forgotten @ old). t \<le> now' - of_int window)"
    using old assms(2) by (metis (no_types, lifting) append_assoc diff_right_mono order_trans set_append Un_iff)
  moreover have "\<forall>t \<in> set past. t \<le> now'" "\<forall>u. int (length (within_window window u past)) \<le> max limit 0"
    using assms by (auto simp: remembers_def)
  ultimately show ?thesis unfolding remembers_def by (intro conjI exI [of _ "forgotten @ old"]) auto
qed

lemma remembers_idle:
  assumes "remembers limit window now past events" and "now \<le> now'"
  shows "remembers limit window now' past events"
proof -
  from assms(1) obtain forgotten where "past = forgotten @ events" "\<forall>t \<in> set forgotten. t \<le> now - of_int window"
    by (auto simp: remembers_def)
  moreover have "\<forall>t \<in> set past. t \<le> now'" "\<forall>u. int (length (within_window window u past)) \<le> max limit 0"
    using assms by (auto simp: remembers_def)
  ultimately show ?thesis using assms(2) unfolding remembers_def by (intro conjI exI [of _ forgotten]) auto
qed

lemma remembers_accept:
  assumes "remembers limit window now past events" and room: "int (length events) < limit"
  shows "remembers limit window now (past @ [now]) (events @ [now])"
proof -
  from assms obtain forgotten where f: "past = forgotten @ events" "\<forall>t \<in> set forgotten. t \<le> now - of_int window"
    and le: "\<forall>t \<in> set past. t \<le> now" and bound: "\<forall>u. int (length (within_window window u past)) \<le> max limit 0"
    by (auto simp: remembers_def)
  have "int (length (within_window window u (past @ [now]))) \<le> max limit 0" for u
  proof (cases "u < now")
    case True
    with bound show ?thesis by (simp add: within_window_def)
  next
    case False
    have "filter (\<lambda>t. u - of_int window < t \<and> t \<le> u) forgotten = []"
      using f(2) False by (fastforce simp: filter_empty_conv)
    then have "length (within_window window u (past @ [now])) =
        length (filter (\<lambda>t. u - of_int window < t \<and> t \<le> u) (events @ [now]))"
      by (simp add: within_window_def f(1))
    also have "\<dots> \<le> length (events @ [now])" by (rule length_filter_le)
    finally have "length (within_window window u (past @ [now])) \<le> length (events @ [now])" .
    with room show ?thesis by simp
  qed
  with f le show ?thesis by (auto simp: remembers_def)
qed

lemma serve_remembers:
  assumes "remembers limit window now past (l key)" and "sorted (now # map fst calls)"
  shows "int (length (within_window window u (past @ accepted key (serve limit window l calls) calls))) \<le> max limit 0"
  using assms
proof (induction calls arbitrary: now past l)
  case Nil
  then show ?case by (simp add: remembers_def)
next
  case (Cons c calls)
  obtain t r where c: "c = (t, r)" by (cases c) auto
  have t: "now \<le> t" "sorted (t # map fst calls)" using Cons.prems(2) c by auto
  let ?e = "recent t window (l (limit_key r))"
  have step: "remembers limit window t past (recent t window (l key))"
    using remembers_later [OF Cons.prems(1) t(1)] .
  show ?case
  proof (cases "limit_key r = key")
    case False
    have "remembers limit window t past (l key)"
      using Cons.prems(1) t(1) by (rule remembers_idle)
    with False have "int (length (within_window window u (past @
        accepted key (serve limit window (l(limit_key r := x)) calls) calls))) \<le> max limit 0" for x
      by (intro Cons.IH [OF _ t(2)]) simp
    from this [of ?e] this [of "?e @ [t]"] False show ?thesis
      by (cases "limit \<le> int (length ?e)")
         (simp_all add: c enforce_sensitive_rate_limit_def allow_def Let_def require_def)
  next
    case True
    show ?thesis
    proof (cases "limit \<le> int (length ?e)")
      case refused: True
      have "int (length (within_window window u (past @
          accepted key (serve limit window (l(limit_key r := ?e)) calls) calls))) \<le> max limit 0"
        by (rule Cons.IH [OF _ t(2)]) (use step True in simp)
      with refused show ?thesis
        by (simp add: c enforce_sensitive_rate_limit_def allow_def Let_def require_def)
    next
      case room: False
      have "remembers limit window t (past @ [t]) ((l(limit_key r := ?e @ [t])) key)"
        using remembers_accept [OF step] True room by simp
      then have "int (length (within_window window u ((past @ [t]) @
          accepted key (serve limit window (l(limit_key r := ?e @ [t])) calls) calls))) \<le> max limit 0"
        by (rule Cons.IH [OF _ t(2)])
      with True room show ?thesis
        by (simp add: c enforce_sensitive_rate_limit_def allow_def Let_def require_def)
    qed
  qed
qed

text \<open>C26. Whatever calls arrive at a clock that does not go back, in every window of the configured
  length at most as many calls of one key are accepted as the limit says.\<close>

theorem window_never_exceeds_limit:
  assumes "sorted (map fst calls)"
  shows "int (length (within_window window u (accepted key (serve limit window no_calls calls) calls))) \<le> max limit 0"
proof (cases calls)
  case (Cons c cs)
  have "remembers limit window (fst c) [] (no_calls key)" by (simp add: remembers_def no_calls_def within_window_def)
  from serve_remembers [where l = no_calls, OF this, of calls u] assms Cons show ?thesis by simp
qed (simp add: within_window_def)

definition some_request :: "string \<Rightarrow> http_request" where
  "some_request who = \<lparr>hr_method = ''POST'', hr_path = ''/jobs'', hr_actor = Some who, hr_client = None\<rparr>"

lemma window_never_exceeds_limit_witness:
  "int (length (within_window 10 12 (accepted ''POST:/jobs:ann''
     (serve 2 10 no_calls [(1, some_request ''ann''), (2, some_request ''ann''), (3, some_request ''bob''), (4, some_request ''ann''), (12, some_request ''ann'')])
     [(1, some_request ''ann''), (2, some_request ''ann''), (3, some_request ''bob''), (4, some_request ''ann''), (12, some_request ''ann'')]))) \<le> 2"
  by (rule order_trans [OF window_never_exceeds_limit]) simp_all

text \<open>A call is refused only when the window is full of accepted calls of its key.\<close>

lemma refused_only_when_full:
  assumes "allow limit window now key l = (False, l')"
  shows "limit \<le> int (length (recent now window (l key)))"
  using assms by (auto simp: allow_def Let_def split: if_splits)

text \<open>The key is made of a header the caller chooses, so a new name is a new budget.\<close>

lemma chosen_identity_evades_limit:
  assumes "who \<noteq> [] \<and> l (limit_key (r\<lparr>hr_actor := Some who\<rparr>)) = []" and "0 < limit"
  shows "fst (enforce_sensitive_rate_limit limit window now (r\<lparr>hr_actor := Some who\<rparr>) l) = Inr ()"
  using assms by (simp add: enforce_sensitive_rate_limit_def allow_def recent_def Let_def require_def)

end
