(* ===== verification/Resource_Access.thy ===== *)
theory Resource_Access
  imports Platform_Rows Auth Campaign_Example
begin

text \<open>
  Who may read or change a resource: \<open>ResourceAccessService\<close> (\<open>app/security/resource_access.py\<close>).
\<close>

definition denied :: "string \<Rightarrow> exn" where
  "denied m = Exn (CoreE AuthorizationError) m"

definition has_business_override :: "authenticated_actor \<Rightarrow> bool" where
  "has_business_override actor \<longleftrightarrow> actor_role actor \<in> {UR_MANAGER, UR_ADMIN, UR_SYSTEM}"

definition reviewable_campaign_statuses :: "campaign_status list" where
  "reviewable_campaign_statuses = [CS_REVIEWING, CS_MANUAL_REVIEW_REQUIRED, CS_PENDING_APPROVAL]"

definition require_campaign_access ::
  "authenticated_actor \<Rightarrow> string \<Rightarrow> bool \<Rightarrow> platform_db \<Rightarrow> (exn, campaign_row) res" where
  "require_campaign_access actor k write db =
     and_then (required (get_campaign (pd_core db) k) (Exn (CoreE CampaignNotFoundError) ''Campaign not found'')) (\<lambda>c.
     let owner = (has_business_override actor \<or> c_created_by c = actor_id actor);
         allowed = (if \<not> write \<and> actor_role actor = UR_REVIEWER
           then c_status c \<in> set reviewable_campaign_statuses else owner)
     in and_then (require allowed (denied ''Actor cannot access this campaign'')) (\<lambda>_. Inr c))"

definition require_workflow_access ::
  "authenticated_actor \<Rightarrow> uuid \<Rightarrow> bool \<Rightarrow> platform_db \<Rightarrow> (exn, workflow_row) res" where
  "require_workflow_access actor k write db =
     and_then (required (get_workflow_row (pd_core db) k) (Exn (CoreE WorkflowNotFoundError) ''Workflow not found'')) (\<lambda>w.
     and_then (require_campaign_access actor (wf_campaign_id w) write db) (\<lambda>_. Inr w))"

definition require_task_access :: "authenticated_actor \<Rightarrow> uuid \<Rightarrow> platform_db \<Rightarrow> (exn, task_row) res" where
  "require_task_access actor k db =
     and_then (required (get_task db k) (Exn (OpsE M7ResourceNotFoundError) ''Applied workflow task not found'')) (\<lambda>t.
     and_then (require (has_business_override actor \<or> ta_created_by t = actor_id actor)
       (denied ''Actor cannot access this applied workflow task'')) (\<lambda>_. Inr t))"

definition require_media_access ::
  "authenticated_actor \<Rightarrow> uuid \<Rightarrow> bool \<Rightarrow> platform_db \<Rightarrow> (exn, asset_row) res" where
  "require_media_access actor k review db =
     and_then (required (get_asset db k) (Exn (OpsE M7ResourceNotFoundError) ''Media asset not found'')) (\<lambda>a.
     if review then
       and_then (require (actor_role actor \<in> {UR_REVIEWER, UR_MANAGER, UR_ADMIN}) (denied ''Reviewer role is required'')) (\<lambda>_.
       and_then (require (actor_role actor = UR_REVIEWER \<longrightarrow> ma_status a = MS_READY_FOR_REVIEW)
         (denied ''Media asset is not available for review'')) (\<lambda>_. Inr a))
     else if has_business_override actor \<or> ma_created_by a = actor_id actor then Inr a
     else if actor_role actor = UR_REVIEWER \<and> ma_status a = MS_READY_FOR_REVIEW then Inr a
     else (case ma_campaign_id a of
             Some c \<Rightarrow> and_then (require_campaign_access actor c False db) (\<lambda>_. Inr a)
           | None \<Rightarrow> Inl (denied ''Actor cannot access this media asset'')))"

text \<open>
  The resource a job works on. Its payload was validated when it was enqueued, so the entry that
  is looked up is a text which \<open>UUID\<close> reads; \<open>as_uuid\<close> is that reading.
\<close>

definition payload_id :: "(json \<Rightarrow> uuid option) \<Rightarrow> string \<Rightarrow> json \<Rightarrow> (exn, uuid) res option" where
  "payload_id as_uuid name v =
     (case v of
        JObj es \<Rightarrow> (case map_of es name of
            None \<Rightarrow> None
          | Some x \<Rightarrow> if truthy x
              then Some (required (as_uuid x) (Exn (PyE ValueError) ''badly formed hexadecimal UUID string'')) else None)
      | _ \<Rightarrow> None)"

fun job_resource_access ::
  "(json \<Rightarrow> uuid option) \<Rightarrow> authenticated_actor \<Rightarrow> job_type \<Rightarrow> json \<Rightarrow> platform_db \<Rightarrow> (exn, unit) res option" where
  "job_resource_access u actor JT_WORKFLOW_RUN v db = map_option (\<lambda>k. and_then k (\<lambda>w.
     and_then (require_workflow_access actor w False db) (\<lambda>_. Inr ()))) (payload_id u ''workflow_id'' v)"
| "job_resource_access u actor JT_DATA_ANALYSIS v db = map_option (\<lambda>k. and_then k (\<lambda>t.
     and_then (require_task_access actor t db) (\<lambda>_. Inr ()))) (payload_id u ''task_run_id'' v)"
| "job_resource_access u actor JT_DOCUMENT_PROCESSING v db = map_option (\<lambda>k. and_then k (\<lambda>t.
     and_then (require_task_access actor t db) (\<lambda>_. Inr ()))) (payload_id u ''task_run_id'' v)"
| "job_resource_access u actor JT_IMAGE_GENERATION v db = map_option (\<lambda>k. and_then k (\<lambda>a.
     and_then (require_media_access actor a False db) (\<lambda>_. Inr ()))) (payload_id u ''media_asset_id'' v)"
| "job_resource_access u actor JT_VIDEO_STORYBOARD v db = map_option (\<lambda>k. and_then k (\<lambda>a.
     and_then (require_media_access actor a False db) (\<lambda>_. Inr ()))) (payload_id u ''media_asset_id'' v)"
| "job_resource_access u actor JT_PROMPT_EXPERIMENT_RUN v db =
     Option.bind (payload_id u ''experiment_id'' v) (\<lambda>k. case k of Inl e \<Rightarrow> Some (Inl e)
       | Inr x \<Rightarrow> (case get_experiment db x of None \<Rightarrow> None
           | Some e \<Rightarrow> if pe_created_by e = actor_id actor then Some (Inr ()) else None))"
| "job_resource_access u actor JT_PROVIDER_COMPARISON_RUN v db =
     Option.bind (payload_id u ''comparison_id'' v) (\<lambda>k. case k of Inl e \<Rightarrow> Some (Inl e)
       | Inr x \<Rightarrow> (case get_comparison db x of None \<Rightarrow> None
           | Some e \<Rightarrow> if pc_created_by e = actor_id actor then Some (Inr ()) else None))"
| "job_resource_access u actor _ v db = None"

definition require_job_access ::
  "(json \<Rightarrow> uuid option) \<Rightarrow> authenticated_actor \<Rightarrow> uuid \<Rightarrow> platform_db \<Rightarrow> (exn, job_row) res" where
  "require_job_access u actor k db =
     and_then (required (get_job (pd_queue db) k) (Exn (OpsE JobNotFoundError) ''Background job not found'')) (\<lambda>j.
     if has_business_override actor \<or> j_created_by j = actor_id actor then Inr j
     else and_then (required (parse_job_type (job_type j)) (Exn (PyE ValueError) ''JobType'')) (\<lambda>t.
          case job_resource_access u actor t (payload j) db of
            Some r \<Rightarrow> and_then r (\<lambda>_. Inr j)
          | None \<Rightarrow> Inl (denied ''Actor cannot access this background job'')))"

subsection \<open>What the rules allow\<close>

definition owns_campaign :: "string \<Rightarrow> string \<Rightarrow> platform_db \<Rightarrow> bool" where
  "owns_campaign who k db = (case get_campaign (pd_core db) k of None \<Rightarrow> False | Some c \<Rightarrow> c_created_by c = who)"

definition owns_media :: "string \<Rightarrow> uuid \<Rightarrow> platform_db \<Rightarrow> bool" where
  "owns_media who k db = (case get_asset db k of None \<Rightarrow> False
     | Some a \<Rightarrow> ma_created_by a = who \<or> (case ma_campaign_id a of None \<Rightarrow> False | Some c \<Rightarrow> owns_campaign who c db))"

definition owns_task :: "string \<Rightarrow> uuid \<Rightarrow> platform_db \<Rightarrow> bool" where
  "owns_task who k db = (case get_task db k of None \<Rightarrow> False | Some t \<Rightarrow> ta_created_by t = who)"

definition owns_workflow :: "string \<Rightarrow> uuid \<Rightarrow> platform_db \<Rightarrow> bool" where
  "owns_workflow who k db = (case get_workflow_row (pd_core db) k of None \<Rightarrow> False
     | Some w \<Rightarrow> owns_campaign who (wf_campaign_id w) db)"

definition owns_experiment :: "string \<Rightarrow> uuid \<Rightarrow> platform_db \<Rightarrow> bool" where
  "owns_experiment who k db = (case get_experiment db k of None \<Rightarrow> False | Some e \<Rightarrow> pe_created_by e = who)"

definition owns_comparison :: "string \<Rightarrow> uuid \<Rightarrow> platform_db \<Rightarrow> bool" where
  "owns_comparison who k db = (case get_comparison db k of None \<Rightarrow> False | Some e \<Rightarrow> pc_created_by e = who)"

text \<open>The job works on a resource of the actor.\<close>

definition works_on_own :: "(json \<Rightarrow> uuid option) \<Rightarrow> string \<Rightarrow> job_row \<Rightarrow> platform_db \<Rightarrow> bool" where
  "works_on_own u who j db =
     (let names = (\<lambda>name P. case payload_id u name (payload j) of Some (Inr k) \<Rightarrow> P who k db | _ \<Rightarrow> False)
      in names ''workflow_id'' owns_workflow \<or> names ''task_run_id'' owns_task \<or> names ''media_asset_id'' owns_media \<or>
         names ''experiment_id'' owns_experiment \<or> names ''comparison_id'' owns_comparison)"

lemma campaign_access_own:
  "require_campaign_access actor k write db = Inr c \<Longrightarrow> actor_role actor = UR_MARKETING \<Longrightarrow> owns_campaign (actor_id actor) k db"
  by (auto simp: require_campaign_access_def and_then_Inr_iff required_iff require_iff has_business_override_def
        owns_campaign_def Let_def)

lemma workflow_access_own:
  "require_workflow_access actor k write db = Inr w \<Longrightarrow> actor_role actor = UR_MARKETING \<Longrightarrow> owns_workflow (actor_id actor) k db"
  by (auto simp: require_workflow_access_def and_then_Inr_iff required_iff owns_workflow_def dest: campaign_access_own)

lemma task_access_own:
  "require_task_access actor k db = Inr t \<Longrightarrow> actor_role actor = UR_MARKETING \<Longrightarrow> owns_task (actor_id actor) k db"
  by (auto simp: require_task_access_def and_then_Inr_iff required_iff require_iff has_business_override_def owns_task_def)

lemma media_access_own:
  "require_media_access actor k review db = Inr a \<Longrightarrow> actor_role actor = UR_MARKETING \<Longrightarrow> owns_media (actor_id actor) k db"
  by (auto simp: require_media_access_def and_then_Inr_iff required_iff require_iff has_business_override_def owns_media_def
        dest: campaign_access_own split: if_splits option.splits)

lemma works_on_ownI:
  "payload_id u ''workflow_id'' (payload j) = Some (Inr k) \<Longrightarrow> owns_workflow who k db \<Longrightarrow> works_on_own u who j db"
  "payload_id u ''task_run_id'' (payload j) = Some (Inr k) \<Longrightarrow> owns_task who k db \<Longrightarrow> works_on_own u who j db"
  "payload_id u ''media_asset_id'' (payload j) = Some (Inr k) \<Longrightarrow> owns_media who k db \<Longrightarrow> works_on_own u who j db"
  "payload_id u ''experiment_id'' (payload j) = Some (Inr k) \<Longrightarrow> owns_experiment who k db \<Longrightarrow> works_on_own u who j db"
  "payload_id u ''comparison_id'' (payload j) = Some (Inr k) \<Longrightarrow> owns_comparison who k db \<Longrightarrow> works_on_own u who j db"
  by (simp_all add: works_on_own_def)

lemma checked_payload:
  assumes "map_option (\<lambda>k. and_then k (\<lambda>x. and_then (f x) (\<lambda>_. Inr ()))) p = Some (Inr ())"
  obtains k y where "p = Some (Inr k)" "f k = Inr y"
  using assms by (cases p) (auto simp: and_then_Inr_iff)

lemma checked_owner:
  assumes "Option.bind p (\<lambda>k. case k of Inl e \<Rightarrow> Some (Inl e)
       | Inr x \<Rightarrow> (case f x of None \<Rightarrow> None | Some e \<Rightarrow> if g e then Some (Inr ()) else None)) = Some (Inr ())"
  obtains x e where "p = Some (Inr x)" "f x = Some e" "g e"
proof -
  from assms obtain k where k: "p = Some k" "(case k of Inl e \<Rightarrow> Some (Inl e)
       | Inr x \<Rightarrow> (case f x of None \<Rightarrow> None | Some e \<Rightarrow> if g e then Some (Inr ()) else None)) = Some (Inr ())"
    by (cases p) auto
  from k(2) obtain x where "k = Inr x" by (cases k) auto
  with k that show thesis by (auto split: option.splits if_splits)
qed

lemma job_resource_own:
  assumes r: "job_resource_access u actor t (payload j) db = Some (Inr ())" and role: "actor_role actor = UR_MARKETING"
  shows "works_on_own u (actor_id actor) j db"
proof (cases t)
  case JT_WORKFLOW_RUN
  with r show ?thesis
    by (simp del: map_option_eq_Some) (erule checked_payload, rule works_on_ownI(1), assumption, rule workflow_access_own [OF _ role])
next
  case JT_DATA_ANALYSIS
  with r show ?thesis
    by (simp del: map_option_eq_Some) (erule checked_payload, rule works_on_ownI(2), assumption, rule task_access_own [OF _ role])
next
  case JT_DOCUMENT_PROCESSING
  with r show ?thesis
    by (simp del: map_option_eq_Some) (erule checked_payload, rule works_on_ownI(2), assumption, rule task_access_own [OF _ role])
next
  case JT_IMAGE_GENERATION
  with r show ?thesis
    by (simp del: map_option_eq_Some) (erule checked_payload, rule works_on_ownI(3), assumption, rule media_access_own [OF _ role])
next
  case JT_VIDEO_STORYBOARD
  with r show ?thesis
    by (simp del: map_option_eq_Some) (erule checked_payload, rule works_on_ownI(3), assumption, rule media_access_own [OF _ role])
next
  case JT_PROMPT_EXPERIMENT_RUN
  with r obtain k where "payload_id u ''experiment_id'' (payload j) = Some (Inr k)" "owns_experiment (actor_id actor) k db"
    by (auto simp: owns_experiment_def simp del: bind_eq_Some_conv elim!: checked_owner)
  then show ?thesis by (rule works_on_ownI(4))
next
  case JT_PROVIDER_COMPARISON_RUN
  with r obtain k where "payload_id u ''comparison_id'' (payload j) = Some (Inr k)" "owns_comparison (actor_id actor) k db"
    by (auto simp: owns_comparison_def simp del: bind_eq_Some_conv elim!: checked_owner)
  then show ?thesis by (rule works_on_ownI(5))
qed (use r in simp_all)

text \<open>C27. A marketing actor is given a job only when the actor has created it, or when the workflow, the
  task, the asset, the experiment or the comparison its payload names is the actor's own, where
  workflows and assets also count through their campaign.\<close>

theorem marketing_reads_own_jobs:
  assumes "require_job_access u actor k db = Inr j" and "actor_role actor = UR_MARKETING"
  shows "j_created_by j = actor_id actor \<or> works_on_own u (actor_id actor) j db"
proof (cases "j_created_by j = actor_id actor")
  case False
  with assms obtain t where "job_resource_access u actor t (payload j) db = Some (Inr ())"
    by (auto simp: require_job_access_def and_then_Inr_iff has_business_override_def split: if_splits option.splits)
  then show ?thesis using job_resource_own assms(2) by blast
qed simp

subsection \<open>A workflow of the actor\<close>

text \<open>The job of the example's workflow was enqueued by somebody else.\<close>

definition launch_job :: job_row where
  "launch_job = ex_job\<lparr>job_type := ''WORKFLOW_RUN'', payload := JObj [(''workflow_id'', JStr ''1'')]\<rparr>"

definition launch_db :: platform_db where
  "launch_db = empty_platform\<lparr>pd_core := ex_db ex_workflow ex_campaign,
     pd_queue := \<lparr>jobs = [launch_job], attempts = [], workers = []\<rparr>\<rparr>"

definition only_one :: "json \<Rightarrow> uuid option" where
  "only_one v = (if v = JStr ''1'' then Some 1 else None)"

definition ann :: "user_role \<Rightarrow> authenticated_actor" where
  "ann r = \<lparr>actor_id = ''ann'', actor_role = r\<rparr>"

lemma launch_rows:
  "get_campaign (pd_core launch_db) ''launch'' = Some ex_campaign"
  "get_workflow_row (pd_core launch_db) 1 = Some ex_workflow"
  "get_job (pd_queue launch_db) 1 = Some launch_job"
  "c_created_by ex_campaign = ''ann''" "c_status ex_campaign = CS_RECEIVED" "j_created_by launch_job = ''ops''"
  "parse_job_type (job_type launch_job) = Some JT_WORKFLOW_RUN"
  "payload launch_job = JObj [(''workflow_id'', JStr ''1'')]"
  using parse_job_type_value [of JT_WORKFLOW_RUN]
  by (simp_all add: sanitize_ops launch_db_def ex_db_def launch_job_def ex_job_def new_job_def ex_request_def ex_campaign_def
      new_campaign_def c_id_def table_simps ex_brief_def ex_workflow_def new_workflow_def ex_env_def)

lemma launch_access:
  "require_job_access only_one (ann UR_MARKETING) 1 launch_db = Inr launch_job"
  by (simp add: require_job_access_def launch_rows [simplified] ann_def has_business_override_def payload_id_def only_one_def
      require_workflow_access_def require_campaign_access_def require_def)

lemma marketing_reads_own_jobs_witness:
  "require_job_access only_one (ann UR_MARKETING) 1 launch_db = Inr launch_job \<and>
   (j_created_by launch_job = actor_id (ann UR_MARKETING) \<or> works_on_own only_one (actor_id (ann UR_MARKETING)) launch_job launch_db)"
  using marketing_reads_own_jobs [OF launch_access] launch_access by (simp add: ann_def)

text \<open>A reviewer who owns a campaign may change it, but may read it only while it is up for review:
  the rule for reviewers replaces that of the owner.\<close>

theorem reviewer_writes_what_it_cannot_read:
  assumes "get_campaign (pd_core db) k = Some c" and "c_created_by c = actor_id actor" and "actor_role actor = UR_REVIEWER"
    and "c_status c \<notin> {CS_REVIEWING, CS_MANUAL_REVIEW_REQUIRED, CS_PENDING_APPROVAL}"
  shows "require_campaign_access actor k True db = Inr c \<and>
    require_campaign_access actor k False db = Inl (denied ''Actor cannot access this campaign'')"
  using assms by (simp add: require_campaign_access_def require_def reviewable_campaign_statuses_def)

lemma reviewer_writes_what_it_cannot_read_witness:
  "require_campaign_access (ann UR_REVIEWER) ''launch'' True launch_db = Inr ex_campaign \<and>
    require_campaign_access (ann UR_REVIEWER) ''launch'' False launch_db = Inl (denied ''Actor cannot access this campaign'')"
  by (rule reviewer_writes_what_it_cannot_read) (simp_all add: launch_rows ann_def)

end
