(* ===== verification/Business_Impact.thy ===== *)
theory Business_Impact
  imports Media_Service Py_Values
begin

text \<open>
  Business impact: the rounding of \<open>app/business_impact/calculator.py\<close>, the service of
  \<open>app/business_impact/service.py\<close>, its two repositories and the bodies of
  \<open>app/schemas/business_impact.py\<close>. A \<open>Decimal\<close> is the rational it stands for: the values here stay
  within the 28 digits of the context, but for the averages and the minutes of a run, which are
  exact here.
\<close>

subsection \<open>Decimals\<close>

text \<open>\<open>quantize(10 ** -d, ROUND_HALF_UP)\<close> rounds ties away from zero.\<close>

definition quantize :: "nat \<Rightarrow> rat \<Rightarrow> rat" where
  "quantize d x = (let n = \<lfloor>\<bar>x\<bar> * 10 ^ d + 1 / 2\<rfloor> in (if x < 0 then - of_int n else of_int n) / 10 ^ d)"

text \<open>\<open>str\<close> of a decimal with \<open>d\<close> digits after the point, for at most six digits.\<close>

definition zero_padded :: "nat \<Rightarrow> string \<Rightarrow> string" where
  "zero_padded d s = replicate (d - length s) CHR ''0'' @ s"

definition decimal_text :: "nat \<Rightarrow> rat \<Rightarrow> string" where
  "decimal_text d x =
     (let n = \<lfloor>\<bar>x\<bar> * 10 ^ d\<rfloor>
      in (if x < 0 then ''-'' else []) @ int_text (n div 10 ^ d) @ ''.'' @ zero_padded d (int_text (n mod 10 ^ d)))"

lemma floor_half: "\<lfloor>1 / 2 :: rat\<rfloor> = 0"
  by (simp add: floor_eq_iff)

lemma quantize_0 [simp]: "quantize d 0 = 0"
  by (simp add: quantize_def floor_half)

lemma quantize_of_int:
  assumes "0 \<le> n"
  shows "quantize d (of_int n) = of_int n"
proof -
  have "\<lfloor>of_int (n * 10 ^ d) + 1 / 2 :: rat\<rfloor> = n * 10 ^ d + \<lfloor>1 / 2 :: rat\<rfloor>"
    by (rule int_add_floor [symmetric])
  then show ?thesis using assms by (simp add: quantize_def Let_def floor_half)
qed

lemma quantize_mono: "0 \<le> x \<Longrightarrow> x \<le> y \<Longrightarrow> quantize d x \<le> quantize d y"
  by (simp add: quantize_def Let_def divide_right_mono floor_mono mult_right_mono)

lemma quantize_nonneg: "0 \<le> x \<Longrightarrow> 0 \<le> quantize d x"
  using quantize_mono [of 0 x d] by simp

lemma quantize_1 [simp]: "quantize d 1 = 1"
  using quantize_of_int [of 1 d] by simp

lemma quantize_rate: "0 \<le> x \<Longrightarrow> x \<le> 1 \<Longrightarrow> quantize d x \<in> {0..1}"
  using quantize_mono [of x 1 d] by (simp add: quantize_nonneg)

definition minutes_saved :: "rat \<Rightarrow> rat \<Rightarrow> rat" where
  "minutes_saved manual ai = quantize 2 (max (manual - ai) 0)"

definition automation_rate :: "int \<Rightarrow> int \<Rightarrow> rat" where
  "automation_rate automated before =
     quantize 6 (min (of_int (max automated 0) / of_int (max before 1)) 1)"

definition ratio :: "int \<Rightarrow> int \<Rightarrow> rat" where
  "ratio numerator denominator =
     (if denominator \<le> 0 then 0 else quantize 6 (of_int (max numerator 0) / of_int denominator))"

definition user_satisfaction :: "int list \<Rightarrow> rat" where
  "user_satisfaction ratings =
     (if ratings = [] then 0 else quantize 2 (of_int (sum_list ratings) / of_int (int (length ratings))))"

subsection \<open>Bodies\<close>

record acceptance =
  ac_output_accepted :: "bool option"
  ac_without_editing :: bool
  ac_editing_minutes :: rat
  ac_rework_count :: int

text \<open>The validator of \<open>AcceptanceFields\<close>; the check constraints of both tables repeat it.\<close>

definition first_pass :: "bool \<Rightarrow> bool option \<Rightarrow> rat \<Rightarrow> int \<Rightarrow> bool" where
  "first_pass without_editing accepted minutes rework \<longleftrightarrow>
     (without_editing \<longrightarrow> accepted = Some True \<and> minutes = 0 \<and> rework = 0)"

definition valid_acceptance :: "acceptance \<Rightarrow> bool" where
  "valid_acceptance a \<longleftrightarrow>
     0 \<le> ac_editing_minutes a \<and> 0 \<le> ac_rework_count a \<and>
     first_pass (ac_without_editing a) (ac_output_accepted a) (ac_editing_minutes a) (ac_rework_count a)"

record baseline_request =
  bq_task_type :: string
  bq_department :: string
  bq_manual_duration :: rat
  bq_manual_steps :: int
  bq_error_rate :: rat
  bq_cost :: rat
  bq_sample_size :: int
  bq_source :: string

definition text_within :: "nat \<Rightarrow> nat \<Rightarrow> string \<Rightarrow> bool" where
  "text_within a b s \<longleftrightarrow> a \<le> length s \<and> length s \<le> b"

text \<open>The bounds of the body, but for the numbers of digits.\<close>

definition valid_baseline :: "baseline_request \<Rightarrow> bool" where
  "valid_baseline d \<longleftrightarrow>
     text_within 1 100 (bq_task_type d) \<and> text_within 1 100 (bq_department d) \<and> 0 \<le> bq_manual_duration d \<and>
     0 \<le> bq_manual_steps d \<and> bq_manual_steps d \<le> 100000 \<and> 0 \<le> bq_error_rate d \<and> bq_error_rate d \<le> 1 \<and>
     0 \<le> bq_cost d \<and> 1 \<le> bq_sample_size d \<and> text_within 1 500 (bq_source d)"

record impact_request = acceptance +
  iq_department :: "string option"
  iq_manual_override :: "rat option"
  iq_steps_before :: int
  iq_automated_steps :: int
  iq_error_count :: int

definition valid_impact_request :: "impact_request \<Rightarrow> bool" where
  "valid_impact_request d \<longleftrightarrow>
     valid_acceptance (acceptance.truncate d) \<and>
     (case iq_department d of None \<Rightarrow> True | Some s \<Rightarrow> text_within 0 100 s) \<and>
     (case iq_manual_override d of None \<Rightarrow> True | Some m \<Rightarrow> 0 \<le> m) \<and>
     0 \<le> iq_steps_before d \<and> 0 \<le> iq_automated_steps d \<and> 0 \<le> iq_error_count d"

record feedback_request = acceptance +
  fq_rating :: int
  fq_helpfulness :: int
  fq_accuracy :: int
  fq_ease_of_use :: int
  fq_would_use_again :: bool
  fq_comment :: "string option"
  fq_expected_version :: "int option"

definition valid_feedback_request :: "feedback_request \<Rightarrow> bool" where
  "valid_feedback_request d \<longleftrightarrow>
     valid_acceptance (acceptance.truncate d) \<and> fq_rating d \<in> {1..5} \<and> fq_helpfulness d \<in> {1..5} \<and>
     fq_accuracy d \<in> {1..5} \<and> fq_ease_of_use d \<in> {1..5} \<and>
     (case fq_comment d of None \<Rightarrow> True | Some s \<Rightarrow> text_within 0 2000 s) \<and>
     (case fq_expected_version d of None \<Rightarrow> True | Some n \<Rightarrow> 1 \<le> n)"

subsection \<open>Baselines\<close>

definition new_baseline :: "call_env \<Rightarrow> baseline_request \<Rightarrow> string \<Rightarrow> baseline_row" where
  "new_baseline env d by_actor =
     \<lparr>bl_id = env_row_id env, bl_task_type = bq_task_type d, bl_department = bq_department d,
      bl_manual_duration = bq_manual_duration d, bl_manual_steps = bq_manual_steps d,
      bl_error_rate = quantize 6 (bq_error_rate d), bl_cost = bq_cost d, bl_sample_size = bq_sample_size d,
      bl_source = bq_source d, bl_version = 1, bl_created_by = by_actor, bl_created_at = env_now env\<rparr>"

definition create_baseline :: "call_env \<Rightarrow> baseline_request \<Rightarrow> string \<Rightarrow> platform_db \<Rightarrow> baseline_row \<times> platform_db" where
  "create_baseline env d by_actor db =
     (let b = new_baseline env d by_actor in (b, db\<lparr>pd_baselines := pd_baselines db @ [b]\<rparr>))"

definition list_baselines :: "int \<Rightarrow> int \<Rightarrow> platform_db \<Rightarrow> baseline_row list" where
  "list_baselines limit offset db =
     take (nat (min limit 100)) (drop (nat (max offset 0)) (sort_key (\<lambda>b. - bl_created_at b) (pd_baselines db)))"

text \<open>The highest version first, then the youngest.\<close>

definition latest_baseline :: "string \<Rightarrow> string option \<Rightarrow> platform_db \<Rightarrow> baseline_row option" where
  "latest_baseline task_type department db =
     (case sort_key (\<lambda>b. - bl_version b) (sort_key (\<lambda>b. - bl_created_at b)
         (filter (\<lambda>b. bl_task_type b = task_type \<and>
            (case department of None \<Rightarrow> True | Some d \<Rightarrow> bl_department b = d)) (pd_baselines db)))
      of [] \<Rightarrow> None | b # _ \<Rightarrow> Some b)"

subsection \<open>Impacts\<close>

text \<open>\<open>_metadata_uuid\<close>; \<open>as_uuid\<close> is \<open>UUID(str(value))\<close>.\<close>

definition metadata_uuid :: "(json \<Rightarrow> uuid option) \<Rightarrow> json \<Rightarrow> string \<Rightarrow> uuid option" where
  "metadata_uuid as_uuid v name =
     (case v of JObj es \<Rightarrow> (case map_of es name of None \<Rightarrow> None | Some JNull \<Rightarrow> None | Some x \<Rightarrow> as_uuid x) | _ \<Rightarrow> None)"

definition task_type_of :: "task_row \<Rightarrow> string" where
  "task_type_of t = lower (applied_workflow_type_value (ta_workflow_type t))"

definition eligible_task ::
  "uuid \<Rightarrow> authenticated_actor \<Rightarrow> bool \<Rightarrow> platform_db \<Rightarrow> (exn, task_row) res" where
  "eligible_task k actor with_review db =
     and_then (required (get_task db k) (not_found ''Applied workflow task not found'')) (\<lambda>t.
     and_then (require (actor_id actor = ta_created_by t \<or> actor_role actor \<in> {UR_MANAGER, UR_ADMIN})
       (Exn (CoreE AuthorizationError) ''Actor cannot access this applied workflow task'')) (\<lambda>_.
     and_then (require (ta_status t \<in> {AP_COMPLETED} \<union> (if with_review then {AP_READY_FOR_REVIEW} else {}))
       (conflict ''Applied workflow task is not eligible'')) (\<lambda>_. Inr t)))"

definition get_impact_by_task :: "uuid \<Rightarrow> platform_db \<Rightarrow> impact_row option" where
  "get_impact_by_task k db = t_get im_task_id (pd_impacts db) k"

definition manual_minutes :: "impact_request \<Rightarrow> task_row \<Rightarrow> platform_db \<Rightarrow> (exn, rat) res" where
  "manual_minutes d t db =
     (case iq_manual_override d of
        Some m \<Rightarrow> Inr m
      | None \<Rightarrow> and_then (required (latest_baseline (task_type_of t) (iq_department d) db)
          (conflict ''No task baseline is available'')) (\<lambda>b. Inr (bl_manual_duration b)))"

text \<open>Without a decision in the body, that of the reviewer of the task's asset counts.\<close>

definition accepted_output :: "impact_request \<Rightarrow> uuid \<Rightarrow> platform_db \<Rightarrow> bool option" where
  "accepted_output d k db =
     (case ac_output_accepted d of
        Some b \<Rightarrow> Some b
      | None \<Rightarrow> (case get_asset_by_task k db of
            None \<Rightarrow> None
          | Some a \<Rightarrow> if ma_status a = MS_APPROVED then Some True
              else if ma_status a = MS_REJECTED then Some False else None))"

text \<open>The columns round what they are given.\<close>

definition new_impact ::
  "(json \<Rightarrow> uuid option) \<Rightarrow> call_env \<Rightarrow> impact_request \<Rightarrow> task_row \<Rightarrow> string \<Rightarrow> string \<Rightarrow> rat \<Rightarrow> platform_db \<Rightarrow> impact_row" where
  "new_impact u env d t provider model manual db =
     (let ai = of_int (case ta_duration_ms t of None \<Rightarrow> 0 | Some n \<Rightarrow> n) / 60000 in
     \<lparr>im_id = env_row_id env, im_task_id = ta_id t, im_task_type = task_type_of t, im_department = iq_department d,
      im_workflow_id = metadata_uuid u (ta_input t) ''workflow_id'', im_job_id = ta_job_id t,
      im_agent_run_id = metadata_uuid u (ta_input t) ''agent_run_id'',
      im_prompt_version_id = ta_prompt_version_id t, im_provider = provider, im_model = model,
      im_manual_duration = quantize 2 manual, im_ai_duration = quantize 2 ai,
      im_minutes_saved = minutes_saved manual ai, im_steps_before = iq_steps_before d,
      im_steps_after = max (iq_steps_before d - iq_automated_steps d) 0, im_automated_steps = iq_automated_steps d,
      im_automation_rate = automation_rate (iq_automated_steps d) (iq_steps_before d),
      im_completed_successfully = True, im_output_accepted = accepted_output d (ta_id t) db,
      im_accepted_without_editing = ac_without_editing d, im_editing_minutes = quantize 2 (ac_editing_minutes d),
      im_rework_count = ac_rework_count d, im_error_count = iq_error_count d,
      im_estimated_cost = ta_estimated_cost t, im_created_at = env_now env\<rparr>)"

definition impact_checks :: "impact_row \<Rightarrow> bool" where
  "impact_checks i \<longleftrightarrow>
     0 \<le> im_minutes_saved i \<and> 0 \<le> im_automation_rate i \<and> im_automation_rate i \<le> 1 \<and>
     first_pass (im_accepted_without_editing i) (im_output_accepted i) (im_editing_minutes i) (im_rework_count i)"

definition known_run :: "uuid option \<Rightarrow> uuid option \<Rightarrow> platform_db \<Rightarrow> bool" where
  "known_run workflow run db \<longleftrightarrow>
     (case workflow of None \<Rightarrow> True | Some w \<Rightarrow> get_workflow_row (pd_core db) w \<noteq> None) \<and>
     (case run of None \<Rightarrow> True | Some r \<Rightarrow> get_agent_run (pd_core db) r \<noteq> None)"

definition impact_event :: "impact_row \<Rightarrow> event_request" where
  "impact_event i =
     plain_event OE_TASK_IMPACT_RECORDED ''applied_task'' (im_task_id i)
       (JObj [(''task_run_id'', JStr (uuid_str (im_task_id i))),
              (''minutes_saved'', JStr (decimal_text 2 (im_minutes_saved i))),
              (''automation_rate'', JStr (decimal_text 6 (im_automation_rate i)))]) None"

text \<open>The insertion breaks the constraint on the task, or another one.\<close>

definition insert_impact :: "impact_row \<Rightarrow> platform_db \<Rightarrow> (exn, platform_db) res" where
  "insert_impact i db =
     and_then (require (impact_checks i)
       (Exn (StoreE BusinessImpactPersistenceError) ''Unable to persist business impact'')) (\<lambda>_.
     and_then (require (get_impact_by_task (im_task_id i) db = None)
       (conflict ''Impact already exists for this task run'')) (\<lambda>_.
     and_then (require (known_run (im_workflow_id i) (im_agent_run_id i) db)
       (Exn (StoreE BusinessImpactPersistenceError) ''Unable to persist business impact'')) (\<lambda>_.
     Inr (db\<lparr>pd_impacts := pd_impacts db @ [i]\<rparr>))))"

definition record_impact ::
  "services \<Rightarrow> (json \<Rightarrow> uuid option) \<Rightarrow> call_env \<Rightarrow> uuid \<Rightarrow> impact_request \<Rightarrow> authenticated_actor \<Rightarrow> platform_db \<Rightarrow>
   (exn, impact_row \<times> platform_db) res" where
  "record_impact sv u env k d actor db =
     and_then (eligible_task k actor False db) (\<lambda>t.
     and_then (require (actor_role actor \<in> {UR_MANAGER, UR_ADMIN})
       (Exn (CoreE AuthorizationError) ''Operator role is required to record impact'')) (\<lambda>_.
     and_then (manual_minutes d t db) (\<lambda>manual.
     and_then (required (ta_provider t) (conflict ''Task execution provenance is incomplete'')) (\<lambda>provider.
     and_then (required (ta_model t) (conflict ''Task execution provenance is incomplete'')) (\<lambda>model.
     let i = new_impact u env d t provider model manual db in
     and_then (insert_impact i db) (\<lambda>db1.
     and_then (platform_event sv env (impact_event i) db1) (\<lambda>db2. Inr (i, db2))))))))"

subsection \<open>Feedback\<close>

definition get_for_actor :: "uuid \<Rightarrow> string \<Rightarrow> platform_db \<Rightarrow> feedback_row option" where
  "get_for_actor k who db = find (\<lambda>f. uf_task_id f = k \<and> uf_actor_id f = who) (pd_feedback db)"

text \<open>What the body and the task say of the row, over the columns that stay.\<close>

definition feedback_of ::
  "(json \<Rightarrow> uuid option) \<Rightarrow> feedback_request \<Rightarrow> task_row \<Rightarrow> uuid \<Rightarrow> string \<Rightarrow> int \<Rightarrow> time \<Rightarrow> feedback_row" where
  "feedback_of u d t k who version created =
     \<lparr>uf_id = k, uf_task_id = ta_id t, uf_task_type = task_type_of t,
      uf_workflow_id = metadata_uuid u (ta_input t) ''workflow_id'',
      uf_agent_run_id = metadata_uuid u (ta_input t) ''agent_run_id'', uf_prompt_version_id = ta_prompt_version_id t,
      uf_provider = or_str (ta_provider t) ''unknown'', uf_model = or_str (ta_model t) ''unknown'', uf_actor_id = who,
      uf_rating = fq_rating d, uf_helpfulness = fq_helpfulness d, uf_accuracy = fq_accuracy d,
      uf_ease_of_use = fq_ease_of_use d, uf_output_accepted = ac_output_accepted d,
      uf_accepted_without_editing = ac_without_editing d, uf_editing_minutes = quantize 2 (ac_editing_minutes d),
      uf_rework_count = ac_rework_count d, uf_would_use_again = fq_would_use_again d,
      uf_comment = sanitized_if_present 2000 (fq_comment d), uf_version = version, uf_created_at = created\<rparr>"

definition feedback_checks :: "feedback_row \<Rightarrow> bool" where
  "feedback_checks f \<longleftrightarrow>
     1 \<le> uf_rating f \<and> uf_rating f \<le> 5 \<and> 0 \<le> uf_editing_minutes f \<and> 0 \<le> uf_rework_count f \<and>
     first_pass (uf_accepted_without_editing f) (uf_output_accepted f) (uf_editing_minutes f) (uf_rework_count f)"

text \<open>
  A row is read without a lock, changed as an object and flushed: the UPDATE names the row and sets the
  columns that differ from what was read, with no condition on its version. So a column is the one
  written where the object changed, and the one others have committed meanwhile where it did not.
\<close>

definition flushed :: "('r \<Rightarrow> 'c) \<Rightarrow> 'r \<Rightarrow> 'r \<Rightarrow> 'r \<Rightarrow> 'c" where
  "flushed c old new cur = (if c new = c old then c cur else c new)"

definition accept_by_feedback :: "feedback_request \<Rightarrow> impact_row \<Rightarrow> impact_row \<Rightarrow> impact_row" where
  "accept_by_feedback d old cur =
     (let new = old\<lparr>im_output_accepted := ac_output_accepted d, im_accepted_without_editing := ac_without_editing d,
        im_editing_minutes := quantize 2 (ac_editing_minutes d), im_rework_count := ac_rework_count d\<rparr>
      in cur\<lparr>im_output_accepted := flushed im_output_accepted old new cur,
           im_accepted_without_editing := flushed im_accepted_without_editing old new cur,
           im_editing_minutes := flushed im_editing_minutes old new cur,
           im_rework_count := flushed im_rework_count old new cur\<rparr>)"

definition feedback_on_impact :: "feedback_request \<Rightarrow> uuid \<Rightarrow> impact_row option \<Rightarrow> impact_row list \<Rightarrow> impact_row list" where
  "feedback_on_impact d k seen is =
     (case seen of
        None \<Rightarrow> is
      | Some old \<Rightarrow> if ac_output_accepted d = None then is
          else map (\<lambda>i. if im_task_id i = k then accept_by_feedback d old i else i) is)"

definition feedback_event :: "feedback_row \<Rightarrow> event_request" where
  "feedback_event f =
     plain_event OE_USER_FEEDBACK_RECEIVED ''applied_task'' (uf_task_id f)
       (JObj [(''task_run_id'', JStr (uuid_str (uf_task_id f))), (''actor_id'', JStr (uf_actor_id f)),
              (''rating'', JInt (uf_rating f))])
       (Some (''feedback:'' @ uuid_str (uf_id f) @ '':v'' @ int_text (uf_version f)))"

definition flushed_feedback :: "feedback_row \<Rightarrow> feedback_row \<Rightarrow> feedback_row \<Rightarrow> feedback_row" where
  "flushed_feedback old new cur =
     cur\<lparr>uf_task_type := flushed uf_task_type old new cur, uf_workflow_id := flushed uf_workflow_id old new cur,
       uf_agent_run_id := flushed uf_agent_run_id old new cur,
       uf_prompt_version_id := flushed uf_prompt_version_id old new cur,
       uf_provider := flushed uf_provider old new cur, uf_model := flushed uf_model old new cur,
       uf_rating := flushed uf_rating old new cur, uf_helpfulness := flushed uf_helpfulness old new cur,
       uf_accuracy := flushed uf_accuracy old new cur, uf_ease_of_use := flushed uf_ease_of_use old new cur,
       uf_output_accepted := flushed uf_output_accepted old new cur,
       uf_accepted_without_editing := flushed uf_accepted_without_editing old new cur,
       uf_editing_minutes := flushed uf_editing_minutes old new cur,
       uf_rework_count := flushed uf_rework_count old new cur,
       uf_would_use_again := flushed uf_would_use_again old new cur, uf_comment := flushed uf_comment old new cur,
       uf_version := flushed uf_version old new cur\<rparr>"

text \<open>
  \<open>seen\<close> is the actor's row as \<open>get_for_actor\<close> read it, earlier and without a lock. The version of
  the body is compared with that reading. Someone else's first feedback of the same actor makes the
  insertion break its unique constraint; a row that is gone would make the UPDATE match nothing.
\<close>

definition stored_feedback ::
  "(json \<Rightarrow> uuid option) \<Rightarrow> call_env \<Rightarrow> feedback_request \<Rightarrow> task_row \<Rightarrow> string \<Rightarrow> feedback_row option \<Rightarrow> platform_db \<Rightarrow>
   (exn, feedback_row \<times> platform_db) res" where
  "stored_feedback u env d t who seen db =
     (case seen of
        None \<Rightarrow>
          and_then (require (fq_expected_version d = None)
            (conflict ''Feedback does not exist at the expected version'')) (\<lambda>_.
          and_then (require (get_for_actor (ta_id t) who db = None)
            (conflict ''Feedback changed or already exists; refresh and retry'')) (\<lambda>_.
          let f = feedback_of u d t (env_row_id env) who 1 (env_now env)
          in Inr (f, db\<lparr>pd_feedback := pd_feedback db @ [f]\<rparr>)))
      | Some old \<Rightarrow>
          and_then (require (fq_expected_version d = Some (uf_version old))
            (conflict ''Feedback changed; refresh and retry'')) (\<lambda>_.
          and_then (required (t_get uf_id (pd_feedback db) (uf_id old)) (Exn (PyE OtherException) ''StaleDataError'')) (\<lambda>cur.
          let f = feedback_of u d t (uf_id old) who (uf_version old + 1) (uf_created_at old)
          in Inr (f, db\<lparr>pd_feedback := t_put uf_id (pd_feedback db) (flushed_feedback old f cur)\<rparr>))))"

text \<open>
  The task, the actor's feedback and the impact are read, without locks, from the state \<open>seen\<close>; what
  is flushed is written to the state \<open>db\<close> of that later moment and checked there.
\<close>

definition record_feedback ::
  "services \<Rightarrow> (json \<Rightarrow> uuid option) \<Rightarrow> call_env \<Rightarrow> uuid \<Rightarrow> feedback_request \<Rightarrow> authenticated_actor \<Rightarrow> platform_db \<Rightarrow>
   platform_db \<Rightarrow> (exn, feedback_row \<times> platform_db) res" where
  "record_feedback sv u env k d actor seen db =
     and_then (eligible_task k actor True seen) (\<lambda>t.
     let db1 = db\<lparr>pd_impacts := feedback_on_impact d k (get_impact_by_task k seen) (pd_impacts db)\<rparr> in
     and_then (stored_feedback u env d t (actor_id actor) (get_for_actor k (actor_id actor) seen) db1) (\<lambda>(f, db2).
     and_then (require (list_all (\<lambda>x. uf_id x = uf_id f \<longrightarrow>
           feedback_checks x \<and> known_run (uf_workflow_id x) (uf_agent_run_id x) db2) (pd_feedback db2) \<and>
         list_all (\<lambda>i. im_task_id i = k \<longrightarrow> impact_checks i) (pd_impacts db2))
       (Exn (StoreE FeedbackPersistenceError) ''Unable to persist feedback'')) (\<lambda>_.
     and_then (platform_event sv env (feedback_event f) db2) (\<lambda>db3. Inr (f, db3)))))"

subsection \<open>Analytics\<close>

record impact_filter =
  fl_task_type :: "string option"
  fl_department :: "string option"
  fl_provider :: "string option"
  fl_model :: "string option"
  fl_prompt_version_id :: "uuid option"
  fl_created_from :: "time option"
  fl_created_to :: "time option"

definition matches :: "'a option \<Rightarrow> 'a option \<Rightarrow> bool" where
  "matches wanted v \<longleftrightarrow> (case wanted of None \<Rightarrow> True | Some w \<Rightarrow> v = Some w)"

definition created_between :: "impact_filter \<Rightarrow> time \<Rightarrow> bool" where
  "created_between q t \<longleftrightarrow>
     (case fl_created_from q of None \<Rightarrow> True | Some a \<Rightarrow> a \<le> t) \<and>
     (case fl_created_to q of None \<Rightarrow> True | Some b \<Rightarrow> t \<le> b)"

definition list_impacts :: "impact_filter \<Rightarrow> platform_db \<Rightarrow> impact_row list" where
  "list_impacts q db = sort_key im_created_at (filter (\<lambda>i.
     matches (fl_task_type q) (Some (im_task_type i)) \<and> matches (fl_department q) (im_department i) \<and>
     matches (fl_provider q) (Some (im_provider i)) \<and> matches (fl_model q) (Some (im_model i)) \<and>
     matches (fl_prompt_version_id q) (im_prompt_version_id i) \<and> created_between q (im_created_at i)) (pd_impacts db))"

definition list_feedback :: "impact_filter \<Rightarrow> platform_db \<Rightarrow> feedback_row list" where
  "list_feedback q db = filter (\<lambda>f.
     matches (fl_task_type q) (Some (uf_task_type f)) \<and>
     matches (fl_provider q) (Some (uf_provider f)) \<and> matches (fl_model q) (Some (uf_model f)) \<and>
     matches (fl_prompt_version_id q) (uf_prompt_version_id f) \<and> created_between q (uf_created_at f)) (pd_feedback db)"

record impact_analytics =
  an_completed_tasks :: int
  an_total_minutes_saved :: rat
  an_average_automation_rate :: rat
  an_technical_success_rate :: rat
  an_human_acceptance_rate :: rat
  an_first_pass_acceptance_rate :: rat
  an_revision_rate :: rat
  an_error_rate :: rat
  an_user_satisfaction :: rat
  an_would_use_again_rate :: rat
  an_total_estimated_cost :: rat
  an_series :: "json list"

definition count_of :: "('a \<Rightarrow> bool) \<Rightarrow> 'a list \<Rightarrow> int" where
  "count_of P xs = int (length (filter P xs))"

definition series_entry :: "(time \<Rightarrow> string) \<Rightarrow> impact_row \<Rightarrow> json" where
  "series_entry isoformat i = JObj
     [(''task_run_id'', JStr (uuid_str (im_task_id i))), (''task_type'', JStr (im_task_type i)),
      (''provider'', JStr (im_provider i)), (''model'', JStr (im_model i)),
      (''minutes_saved'', JStr (decimal_text 2 (im_minutes_saved i))),
      (''automation_rate'', JStr (decimal_text 6 (im_automation_rate i))),
      (''created_at'', JStr (isoformat (im_created_at i)))]"

definition analytics :: "(time \<Rightarrow> string) \<Rightarrow> impact_filter \<Rightarrow> platform_db \<Rightarrow> impact_analytics" where
  "analytics isoformat q db =
     (let is = list_impacts q db;
          fs = list_feedback q db;
          completed = int (length is);
          known = filter (\<lambda>i. im_output_accepted i \<noteq> None) is
      in \<lparr>an_completed_tasks = completed,
          an_total_minutes_saved = sum_list (map im_minutes_saved is),
          an_average_automation_rate = (if is = [] then 0 else sum_list (map im_automation_rate is) / of_int completed),
          an_technical_success_rate = ratio (count_of im_completed_successfully is) completed,
          an_human_acceptance_rate = ratio (count_of (\<lambda>i. im_output_accepted i = Some True) known) (int (length known)),
          an_first_pass_acceptance_rate = ratio (count_of im_accepted_without_editing known) (int (length known)),
          an_revision_rate = ratio (count_of (\<lambda>i. 0 < im_rework_count i) is) completed,
          an_error_rate = ratio (count_of (\<lambda>i. 0 < im_error_count i) is) completed,
          an_user_satisfaction = user_satisfaction (map uf_rating fs),
          an_would_use_again_rate = ratio (count_of uf_would_use_again fs) (int (length fs)),
          an_total_estimated_cost = sum_list (map im_estimated_cost is),
          an_series = map (series_entry isoformat) is\<rparr>)"

end
