(* ===== verification/Business_Properties.thy ===== *)
theory Business_Properties
  imports Business_Impact Prompt_Properties
begin

text \<open>
  The properties of business impact: what holds of the impacts and the feedback in every history
  of the service and of the media reviews, which also write impacts, and what follows for the
  rates that analytics computes.
\<close>

subsection \<open>Rounding\<close>

lemma automation_rate_bounds: "automation_rate a b \<in> {0..1}"
  unfolding automation_rate_def by (rule quantize_rate) auto

lemma ratio_bounds: "n \<le> m \<Longrightarrow> ratio n m \<in> {0..1}"
  unfolding ratio_def using quantize_rate [of "of_int (max n 0) / of_int m" 6] by (auto simp: divide_le_eq_1)

lemma ratio_mono: "a \<le> b \<Longrightarrow> ratio a m \<le> ratio b m"
  unfolding ratio_def by (auto intro!: quantize_mono divide_right_mono)

lemma minutes_saved_nonneg: "0 \<le> minutes_saved a b"
  unfolding minutes_saved_def by (rule quantize_nonneg) simp

lemma satisfaction_bounds:
  assumes "\<forall>r \<in> set rs. 1 \<le> r \<and> r \<le> 5" and "rs \<noteq> []"
  shows "user_satisfaction rs \<in> {1..5}"
proof -
  have "int (length rs) \<le> sum_list rs \<and> sum_list rs \<le> 5 * int (length rs)"
    using assms(1) by (induction rs) auto
  then have "of_int (int (length rs)) \<le> (of_int (sum_list rs) :: rat)"
    and "of_int (sum_list rs) \<le> (of_int (5 * int (length rs)) :: rat)"
    by (simp_all only: of_int_le_iff)
  then have "1 \<le> of_int (sum_list rs) / (of_int (int (length rs)) :: rat)"
    and "of_int (sum_list rs) / (of_int (int (length rs)) :: rat) \<le> 5"
    using assms(2) by (simp_all add: field_simps)
  then show ?thesis
    using assms(2) quantize_mono [of 1 _ 2] quantize_mono [of _ 5 2] quantize_of_int [of 5 2]
    by (simp add: user_satisfaction_def)
qed

lemma count_le: "count_of P xs \<le> int (length xs)"
  by (simp add: count_of_def)

lemma count_mono: "(\<And>x. x \<in> set xs \<Longrightarrow> P x \<Longrightarrow> Q x) \<Longrightarrow> count_of P xs \<le> count_of Q xs"
  unfolding count_of_def by (induction xs) auto

subsection \<open>Histories\<close>

text \<open>
  What feedback rests on, \<open>seen\<close>, is a reading of any state of the past: others have committed
  meanwhile.
\<close>

inductive impact_step :: "platform_db set \<Rightarrow> platform_db \<Rightarrow> platform_db \<Rightarrow> bool" for past where
  IS_impact: "valid_impact_request d \<Longrightarrow> record_impact sv u env k d actor db = Inr (i, db') \<Longrightarrow> impact_step past db db'"
| IS_feedback: "valid_feedback_request d \<Longrightarrow> seen \<in> past \<Longrightarrow>
     record_feedback sv u env k d actor seen db = Inr (f, db') \<Longrightarrow>
     env_row_id env \<notin> uf_id ` set (pd_feedback db) \<Longrightarrow> impact_step past db db'"
| IS_review: "review_asset sv env k d actor db = Inr (a, db') \<Longrightarrow> impact_step past db db'"
| IS_baseline: "valid_baseline d \<Longrightarrow> create_baseline env d who db = (b, db') \<Longrightarrow> impact_step past db db'"
| IS_elsewhere: "pd_impacts db' = pd_impacts db \<Longrightarrow> pd_feedback db' = pd_feedback db \<Longrightarrow> impact_step past db db'"

text \<open>The states of a run, the last one first.\<close>

inductive impact_run :: "platform_db list \<Rightarrow> bool" where
  IR_start: "pd_impacts db = [] \<Longrightarrow> pd_feedback db = [] \<Longrightarrow> impact_run [db]"
| IR_step: "impact_run (db # past) \<Longrightarrow> impact_step (set (db # past)) db db' \<Longrightarrow> impact_run (db' # db # past)"

definition impact_history :: "platform_db \<Rightarrow> bool" where
  "impact_history db \<longleftrightarrow> (\<exists>past. impact_run (db # past))"

definition impact_ok :: "impact_row \<Rightarrow> bool" where
  "impact_ok i \<longleftrightarrow>
     impact_checks i \<and> im_completed_successfully i \<and> 0 \<le> im_rework_count i \<and> 0 \<le> im_editing_minutes i \<and>
     im_automation_rate i = automation_rate (im_automated_steps i) (im_steps_before i) \<and>
     im_steps_after i = max (im_steps_before i - im_automated_steps i) 0"

definition feedback_key :: "feedback_row \<Rightarrow> uuid \<times> string" where
  "feedback_key f = (uf_task_id f, uf_actor_id f)"

definition feedback_ok :: "feedback_row \<Rightarrow> bool" where
  "feedback_ok f \<longleftrightarrow> feedback_checks f \<and> 1 \<le> uf_version f"

definition impacts_inv :: "platform_db \<Rightarrow> bool" where
  "impacts_inv db \<longleftrightarrow>
     distinct (map im_task_id (pd_impacts db)) \<and> list_all impact_ok (pd_impacts db) \<and>
     distinct (map uf_id (pd_feedback db)) \<and> distinct (map feedback_key (pd_feedback db)) \<and>
     list_all feedback_ok (pd_feedback db)"

lemma impacts_inv_cong:
  "pd_impacts db' = pd_impacts db \<Longrightarrow> pd_feedback db' = pd_feedback db \<Longrightarrow> impacts_inv db \<Longrightarrow> impacts_inv db'"
  by (simp add: impacts_inv_def)

lemma event_impacts:
  "platform_event sv env r db = Inr db' \<Longrightarrow> pd_impacts db' = pd_impacts db \<and> pd_feedback db' = pd_feedback db"
  by (auto simp: platform_event_def result_simps)

text \<open>A change of single impacts that keeps their tasks.\<close>

lemma mapped_impacts_inv:
  assumes "impacts_inv db" and "\<And>i. i \<in> set (pd_impacts db) \<Longrightarrow> im_task_id (g i) = im_task_id i \<and> impact_ok (g i)"
  shows "impacts_inv (db\<lparr>pd_impacts := map g (pd_impacts db)\<rparr>)"
proof -
  have "map im_task_id (map g (pd_impacts db)) = map im_task_id (pd_impacts db)" using assms(2) by auto
  then have "distinct (map im_task_id (map g (pd_impacts db)))" using assms(1) by (simp only: impacts_inv_def)
  with assms show ?thesis unfolding impacts_inv_def by (simp add: list_all_iff del: map_map)
qed

lemma accept_impact_ok: "impact_ok i \<Longrightarrow> impact_ok (accept_impact b i) \<and> im_task_id (accept_impact b i) = im_task_id i"
  by (auto simp: impact_ok_def impact_checks_def first_pass_def accept_impact_def)

lemma record_acceptance_inv: "impacts_inv db \<Longrightarrow> impacts_inv (record_acceptance b task db)"
proof (cases task)
  case (Some k)
  assume inv: "impacts_inv db"
  then have "impact_ok i" if "i \<in> set (pd_impacts db)" for i using that by (simp add: impacts_inv_def list_all_iff)
  then show ?thesis
    unfolding record_acceptance_def Some option.simps
    by (intro mapped_impacts_inv [OF inv]) (auto dest: accept_impact_ok)
qed (simp add: record_acceptance_def)

lemma accept_by_feedback_ok:
  assumes "impact_ok i" and "valid_feedback_request d" and "impact_checks (accept_by_feedback d old i)"
  shows "impact_ok (accept_by_feedback d old i)"
  using assms
  by (auto simp: impact_ok_def accept_by_feedback_def flushed_def Let_def valid_feedback_request_def valid_acceptance_def
      acceptance.defs quantize_nonneg)

lemma accept_by_feedback_task [simp]: "im_task_id (accept_by_feedback d old i) = im_task_id i"
  by (simp add: accept_by_feedback_def Let_def)

text \<open>A row that is as it was read becomes what the object says.\<close>

lemma accept_by_feedback_same [simp]:
  "accept_by_feedback d i i = i\<lparr>im_output_accepted := ac_output_accepted d,
     im_accepted_without_editing := ac_without_editing d, im_editing_minutes := quantize 2 (ac_editing_minutes d),
     im_rework_count := ac_rework_count d\<rparr>"
  by (simp add: accept_by_feedback_def flushed_def Let_def)

lemma new_impact_ok:
  assumes "valid_impact_request d" and "impact_checks (new_impact u env d t p m manual db)"
  shows "impact_ok (new_impact u env d t p m manual db)"
  using assms
  by (auto simp: impact_ok_def new_impact_def valid_impact_request_def valid_acceptance_def acceptance.defs
      quantize_nonneg Let_def)

lemma record_impact_Inr:
  assumes "record_impact sv u env k d actor db = Inr (i, db')"
  obtains t p m manual where "get_task db k = Some t" "ta_id t = k" "ta_status t = AP_COMPLETED"
    "i = new_impact u env d t p m manual db" "impact_checks i" "get_impact_by_task k db = None" "im_task_id i = k"
    "pd_impacts db' = pd_impacts db @ [i]" "pd_feedback db' = pd_feedback db"
    "actor_role actor \<in> {UR_MANAGER, UR_ADMIN}" "manual_minutes d t db = Inr manual"
proof -
  from assms obtain t p m manual db1 where
    t: "get_task db k = Some t" "ta_status t = AP_COMPLETED" "actor_role actor \<in> {UR_MANAGER, UR_ADMIN}"
      "manual_minutes d t db = Inr manual"
    and i: "i = new_impact u env d t p m manual db" "insert_impact i db = Inr db1"
      "platform_event sv env (impact_event i) db1 = Inr db'"
    by (auto simp: record_impact_def eligible_task_def and_then_Inr_iff required_iff require_iff Let_def)
  from t(1) have k: "ta_id t = k" by (auto dest: t_get_SomeD)
  then have "im_task_id i = k" by (simp add: i(1) new_impact_def Let_def)
  moreover from i(2) have "impact_checks i" "get_impact_by_task (im_task_id i) db = None"
    "db1 = db\<lparr>pd_impacts := pd_impacts db @ [i]\<rparr>"
    by (auto simp: insert_impact_def and_then_Inr_iff require_iff)
  ultimately show thesis using that [OF t(1) k t(2) i(1)] t event_impacts [OF i(3)] by simp
qed

lemma record_impact_inv:
  assumes inv: "impacts_inv db" and "valid_impact_request d"
    and r: "record_impact sv u env k d actor db = Inr (i, db')"
  shows "impacts_inv db'"
proof -
  from r obtain t p m manual where i: "i = new_impact u env d t p m manual db" "impact_checks i"
    "get_impact_by_task k db = None" "im_task_id i = k"
    "pd_impacts db' = pd_impacts db @ [i]" "pd_feedback db' = pd_feedback db"
    by (rule record_impact_Inr)
  moreover have "impact_ok i" using new_impact_ok assms(2) i(1,2) by blast
  moreover have "k \<notin> im_task_id ` set (pd_impacts db)"
    using i(3) by (auto simp: get_impact_by_task_def t_get_def find_None_iff)
  ultimately show ?thesis using inv by (simp add: impacts_inv_def)
qed

subsection \<open>Feedback\<close>

lemma feedback_of_simps [simp]:
  "uf_id (feedback_of u d t k who n c) = k" "feedback_key (feedback_of u d t k who n c) = (ta_id t, who)"
  "uf_version (feedback_of u d t k who n c) = n" "uf_created_at (feedback_of u d t k who n c) = c"
  "uf_task_id (feedback_of u d t k who n c) = ta_id t" "uf_actor_id (feedback_of u d t k who n c) = who"
  by (simp_all add: feedback_of_def feedback_key_def)

lemma get_for_actorD:
  assumes "get_for_actor k who db = Some f"
  shows "f \<in> set (pd_feedback db)" and "feedback_key f = (k, who)"
  using assms by (auto simp: get_for_actor_def find_Some_iff feedback_key_def)

lemma get_for_actor_None: "get_for_actor k who db = None \<Longrightarrow> (k, who) \<notin> feedback_key ` set (pd_feedback db)"
  by (auto simp: get_for_actor_def find_None_iff feedback_key_def)

lemma flushed_feedback_simps [simp]:
  "uf_id (flushed_feedback old new cur) = uf_id cur" "feedback_key (flushed_feedback old new cur) = feedback_key cur"
  "uf_created_at (flushed_feedback old new cur) = uf_created_at cur"
  "uf_version (flushed_feedback old new cur) = flushed uf_version old new cur"
  by (simp_all add: flushed_feedback_def feedback_key_def)


lemma record_feedback_Inr:
  assumes "record_feedback sv u env k d actor seen db = Inr (f, db')"
  obtains t db2 where "get_task seen k = Some t" "ta_id t = k"
    "stored_feedback u env d t (actor_id actor) (get_for_actor k (actor_id actor) seen)
       (db\<lparr>pd_impacts := feedback_on_impact d k (get_impact_by_task k seen) (pd_impacts db)\<rparr>) = Inr (f, db2)"
    "\<forall>x \<in> set (pd_feedback db2). uf_id x = uf_id f \<longrightarrow> feedback_checks x"
    "\<forall>i \<in> set (pd_impacts db2). im_task_id i = k \<longrightarrow> impact_checks i"
    "pd_impacts db' = pd_impacts db2" "pd_feedback db' = pd_feedback db2"
proof -
  from assms obtain t db2 where t: "get_task seen k = Some t"
    and s: "stored_feedback u env d t (actor_id actor) (get_for_actor k (actor_id actor) seen)
       (db\<lparr>pd_impacts := feedback_on_impact d k (get_impact_by_task k seen) (pd_impacts db)\<rparr>) = Inr (f, db2)"
    and "list_all (\<lambda>x. uf_id x = uf_id f \<longrightarrow>
           feedback_checks x \<and> known_run (uf_workflow_id x) (uf_agent_run_id x) db2) (pd_feedback db2)"
    and "list_all (\<lambda>i. im_task_id i = k \<longrightarrow> impact_checks i) (pd_impacts db2)"
    and "platform_event sv env (feedback_event f) db2 = Inr db'"
    by (auto simp: record_feedback_def eligible_task_def and_then_Inr_iff required_iff require_iff Let_def)
  moreover from t have "ta_id t = k" by (auto dest: t_get_SomeD)
  ultimately show thesis using that event_impacts by (simp add: list_all_iff)
qed

text \<open>A new row, or the row that was read at the expected version with the next one.\<close>

lemma stored_feedback_Inr:
  assumes "stored_feedback u env d t who seen db = Inr (f, db')"
  obtains (new) "seen = None" "fq_expected_version d = None" "get_for_actor (ta_id t) who db = None"
      "f = feedback_of u d t (env_row_id env) who 1 (env_now env)" "db' = db\<lparr>pd_feedback := pd_feedback db @ [f]\<rparr>"
    | (old) old cur where "seen = Some old" "fq_expected_version d = Some (uf_version old)"
      "t_get uf_id (pd_feedback db) (uf_id old) = Some cur"
      "f = feedback_of u d t (uf_id old) who (uf_version old + 1) (uf_created_at old)"
      "db' = db\<lparr>pd_feedback := t_put uf_id (pd_feedback db) (flushed_feedback old f cur)\<rparr>"
  using assms
  by (cases seen) (auto simp: stored_feedback_def and_then_Inr_iff require_iff required_iff Let_def)

lemma replaced_feedback_inv:
  assumes inv: "impacts_inv db" and old: "old \<in> set (pd_feedback db)"
    and f: "uf_id f = uf_id old" "feedback_key f = feedback_key old" "feedback_ok f"
  shows "impacts_inv (db\<lparr>pd_feedback := t_put uf_id (pd_feedback db) f\<rparr>)"
proof -
  have d: "distinct (map uf_id (pd_feedback db))" using inv by (simp add: impacts_inv_def)
  have same: "x = old" if "x \<in> set (pd_feedback db)" "uf_id x = uf_id f" for x
    using that old d f(1) by (metis inj_onD distinct_map)
  let ?g = "\<lambda>x. if uf_id x = uf_id f then f else x"
  have "map uf_id (map ?g (pd_feedback db)) = map uf_id (pd_feedback db)" by (auto simp: map_eq_conv)
  moreover have "map feedback_key (map ?g (pd_feedback db)) = map feedback_key (pd_feedback db)"
    using same f(2) by (auto simp: map_eq_conv)
  moreover have "list_all feedback_ok (map ?g (pd_feedback db))"
    using inv f(3) by (auto simp: impacts_inv_def list_all_iff)
  ultimately show ?thesis using inv unfolding impacts_inv_def t_put_def by (simp del: map_map)
qed

lemma feedback_on_impact_inv:
  assumes inv: "impacts_inv db" and v: "valid_feedback_request d"
    and checks: "\<forall>i \<in> set (feedback_on_impact d k seen (pd_impacts db)). im_task_id i = k \<longrightarrow> impact_checks i"
  shows "impacts_inv (db\<lparr>pd_impacts := feedback_on_impact d k seen (pd_impacts db)\<rparr>)"
proof (cases "seen = None \<or> ac_output_accepted d = None")
  case False
  then obtain old b where "seen = Some old" "ac_output_accepted d = Some b" by auto
  then have f: "feedback_on_impact d k seen is = map (\<lambda>i. if im_task_id i = k then accept_by_feedback d old i else i) is"
    for "is" by (simp add: feedback_on_impact_def)
  have ok: "impact_ok i" if "i \<in> set (pd_impacts db)" for i using that inv by (simp add: impacts_inv_def list_all_iff)
  have "impact_checks (accept_by_feedback d old i)" if "i \<in> set (pd_impacts db)" "im_task_id i = k" for i
    using that checks unfolding f by auto
  with ok accept_by_feedback_ok [OF _ v] show ?thesis unfolding f
    by (intro mapped_impacts_inv [OF inv]) auto
qed (use inv in \<open>auto simp: feedback_on_impact_def split: option.split\<close>)

lemma record_feedback_inv:
  assumes inv: "impacts_inv db" and v: "valid_feedback_request d" and past: "impacts_inv seen"
    and r: "record_feedback sv u env k d actor seen db = Inr (f, db')"
    and fresh: "env_row_id env \<notin> uf_id ` set (pd_feedback db)"
  shows "impacts_inv db'"
proof -
  let ?is = "feedback_on_impact d k (get_impact_by_task k seen) (pd_impacts db)"
  let ?db1 = "db\<lparr>pd_impacts := ?is\<rparr>"
  from r obtain t db2 where
    s: "stored_feedback u env d t (actor_id actor) (get_for_actor k (actor_id actor) seen) ?db1 = Inr (f, db2)"
    and checks: "\<forall>x \<in> set (pd_feedback db2). uf_id x = uf_id f \<longrightarrow> feedback_checks x"
      "\<forall>i \<in> set (pd_impacts db2). im_task_id i = k \<longrightarrow> impact_checks i"
    and rows: "pd_impacts db' = pd_impacts db2" "pd_feedback db' = pd_feedback db2"
    by (rule record_feedback_Inr)
  have "pd_impacts db2 = ?is" using s by (cases rule: stored_feedback_Inr) simp_all
  then have inv1: "impacts_inv ?db1" using checks(2) by (intro feedback_on_impact_inv [OF inv v]) simp
  from s have "impacts_inv db2"
  proof (cases rule: stored_feedback_Inr)
    case new
    have "(ta_id t, actor_id actor) \<notin> feedback_key ` set (pd_feedback db)"
      using get_for_actor_None [OF new(3)] by simp
    moreover have "feedback_ok f" using checks(1) new(4,5) by (simp add: feedback_ok_def)
    ultimately show ?thesis using inv1 fresh new(4,5) by (simp add: impacts_inv_def)
  next
    case (old old cur)
    have "1 \<le> uf_version old"
      using past get_for_actorD [OF old(1)] by (simp add: impacts_inv_def list_all_iff feedback_ok_def)
    then have version: "1 \<le> uf_version (flushed_feedback old f cur)" using old(4) by (simp add: flushed_def)
    have cur: "cur \<in> set (pd_feedback ?db1)" "uf_id cur = uf_id f" using t_get_SomeD [OF old(3)] old(4) by simp_all
    then have "flushed_feedback old f cur \<in> set (pd_feedback db2)" unfolding old(5) by (force simp: t_put_def)
    then have "feedback_ok (flushed_feedback old f cur)" using checks(1) cur(2) version by (simp add: feedback_ok_def)
    then show ?thesis unfolding old(5) by (intro replaced_feedback_inv [OF inv1 cur(1)]) simp_all
  qed
  then show ?thesis using impacts_inv_cong rows by metis
qed

lemma review_asset_rows:
  assumes "review_asset sv env k d actor db = Inr (a, db')"
  obtains a0 where "get_asset db k = Some a0" "pd_feedback db' = pd_feedback db"
    "pd_impacts db' = pd_impacts (record_acceptance (mrr_approve d) (ma_task_id a0) db)"
proof -
  from assms obtain a0 rs where a0: "get_asset db k = Some a0"
    and e: "platform_event sv env (review_event k (mrr_approve d))
      ((put_asset a (record_acceptance (mrr_approve d) (ma_task_id a0) db))\<lparr>pd_reviews := rs\<rparr>) = Inr db'"
    unfolding review_asset_def Let_def by (simp add: and_then_Inr_iff required_asset_def required_iff) blast
  have "pd_feedback (record_acceptance b t db) = pd_feedback db" for b t
    by (simp add: record_acceptance_def split: option.split)
  with event_impacts [OF e] a0 show thesis by (intro that) (simp_all add: put_asset_def)
qed

lemma reviewed_impacts_inv:
  assumes inv: "impacts_inv db" and r: "review_asset sv env k d actor db = Inr (a, db')"
  shows "impacts_inv db'"
  using r
proof (rule review_asset_rows)
  fix a0
  assume "pd_feedback db' = pd_feedback db"
    and "pd_impacts db' = pd_impacts (record_acceptance (mrr_approve d) (ma_task_id a0) db)"
  moreover have "pd_feedback (record_acceptance b t db) = pd_feedback db" for b t
    by (simp add: record_acceptance_def split: option.split)
  ultimately show ?thesis using impacts_inv_cong [OF _ _ record_acceptance_inv [OF inv]] by simp
qed

lemma create_baseline_inv: "create_baseline env d who db = (b, db') \<Longrightarrow> impacts_inv db \<Longrightarrow> impacts_inv db'"
  by (auto simp: create_baseline_def Let_def impacts_inv_def)

lemma impact_step_inv: "impact_step past db db' \<Longrightarrow> \<forall>s \<in> past. impacts_inv s \<Longrightarrow> impacts_inv db \<Longrightarrow> impacts_inv db'"
  by (induction rule: impact_step.induct)
    (auto intro: record_impact_inv record_feedback_inv reviewed_impacts_inv create_baseline_inv impacts_inv_cong)

lemma impact_run_inv: "impact_run dbs \<Longrightarrow> \<forall>s \<in> set dbs. impacts_inv s"
proof (induction rule: impact_run.induct)
  case (IR_start db)
  then show ?case by (simp add: impacts_inv_def)
next
  case (IR_step db past db')
  then show ?case using impact_step_inv [OF IR_step(2)] by simp
qed

lemma impact_history_inv: "impact_history db \<Longrightarrow> impacts_inv db"
  using impact_run_inv by (fastforce simp: impact_history_def)

lemma impact_history_start: "pd_impacts db = [] \<Longrightarrow> pd_feedback db = [] \<Longrightarrow> impact_history db"
  using IR_start by (auto simp: impact_history_def)

text \<open>Without others in between, what is seen is the state that is changed.\<close>

lemma impact_history_step: "impact_history db \<Longrightarrow> impact_step {db} db db' \<Longrightarrow> impact_history db'"
proof -
  have "impact_step (set (db # past)) db db'" if "impact_step {db} db db'" for past
    using that
  proof (cases rule: impact_step.cases)
    case (IS_feedback d seen sv u env k actor f)
    then show ?thesis by (intro impact_step.IS_feedback [of d seen]) auto
  qed (blast intro: impact_step.intros)+
  then show "impact_history db \<Longrightarrow> impact_step {db} db db' \<Longrightarrow> impact_history db'"
    unfolding impact_history_def using IR_step by blast
qed

text \<open>C28. Whatever impacts, feedback and media reviews are recorded, and in any order, a task has at most
  one impact and an actor at most one feedback on it; every impact satisfies the checks of its table,
  its rate and its remaining steps are those of its step counts, and output that was accepted
  without editing was accepted.\<close>

theorem impacts_consistent:
  assumes "impact_history db"
  shows "distinct (map im_task_id (pd_impacts db)) \<and> distinct (map feedback_key (pd_feedback db)) \<and>
    list_all impact_ok (pd_impacts db) \<and> list_all feedback_ok (pd_feedback db)"
  using impact_history_inv [OF assms] by (simp add: impacts_inv_def)

subsection \<open>Rates\<close>

definition rates_ok :: "impact_analytics \<Rightarrow> bool" where
  "rates_ok a \<longleftrightarrow>
     list_all (\<lambda>x. 0 \<le> x \<and> x \<le> 1)
       [an_average_automation_rate a, an_technical_success_rate a, an_human_acceptance_rate a,
        an_first_pass_acceptance_rate a, an_revision_rate a, an_error_rate a, an_would_use_again_rate a] \<and>
     an_first_pass_acceptance_rate a \<le> an_human_acceptance_rate a \<and>
     0 \<le> an_total_minutes_saved a \<and> 0 \<le> an_user_satisfaction a \<and> an_user_satisfaction a \<le> 5"

lemma average_rate:
  assumes "\<forall>x \<in> set xs. 0 \<le> x \<and> x \<le> 1" and "xs \<noteq> []"
  shows "sum_list xs / of_int (int (length xs)) \<in> {0..1 :: rat}"
proof -
  have "0 \<le> sum_list xs \<and> sum_list xs \<le> of_int (int (length xs))" using assms(1) by (induction xs) auto
  then show ?thesis using assms(2) by (simp add: divide_le_eq_1)
qed

lemma average_automation:
  assumes "\<forall>i \<in> set is. impact_ok i"
  shows "(if is = [] then 0 else sum_list (map im_automation_rate is) / of_int (int (length is))) \<in> {0..1}"
proof (cases "is = []")
  case False
  have "\<forall>x \<in> set (map im_automation_rate is). 0 \<le> x \<and> x \<le> 1"
    using assms by (auto simp only: set_map impact_ok_def impact_checks_def)
  from average_rate [OF this] False show ?thesis by simp
qed simp

lemma ratio_count: "0 \<le> ratio (count_of P xs) (int (length xs))" "ratio (count_of P xs) (int (length xs)) \<le> 1"
  using ratio_bounds [OF count_le [of P xs]] by simp_all

lemma first_pass_counts:
  assumes "\<forall>i \<in> set is. impact_ok i"
  shows "count_of im_accepted_without_editing is \<le> count_of (\<lambda>i. im_output_accepted i = Some True) is"
  by (rule count_mono) (use assms in \<open>auto simp: impact_ok_def impact_checks_def first_pass_def\<close>)

lemma satisfaction_range:
  assumes "\<forall>r \<in> set rs. 1 \<le> r \<and> r \<le> 5"
  shows "0 \<le> user_satisfaction rs \<and> user_satisfaction rs \<le> 5"
  using satisfaction_bounds [OF assms] by (cases "rs = []") (auto simp: user_satisfaction_def)

text \<open>C29. In every history and for every filter all the rates of analytics lie between 0 and 1, the
  satisfaction is at most 5, no time is lost in total, and the rate of output accepted at the first
  pass never exceeds that of accepted output.\<close>

theorem analytics_rates_bounded:
  assumes "impact_history db"
  shows "rates_ok (analytics isoformat q db)"
proof -
  let ?is = "list_impacts q db" and ?fs = "list_feedback q db"
  let ?known = "filter (\<lambda>i. im_output_accepted i \<noteq> None) ?is"
  have rows: "\<forall>i \<in> set ?is. impact_ok i" and fs: "\<forall>f \<in> set ?fs. feedback_ok f"
    using impact_history_inv [OF assms] by (auto simp: impacts_inv_def list_impacts_def list_feedback_def list_all_iff)
  have known: "\<forall>i \<in> set ?known. impact_ok i" using rows by simp
  have "0 \<le> sum_list (map im_minutes_saved ?is)"
    using rows by (intro sum_list_nonneg) (auto simp: impact_ok_def impact_checks_def)
  moreover have "0 \<le> user_satisfaction (map uf_rating ?fs) \<and> user_satisfaction (map uf_rating ?fs) \<le> 5"
    by (rule satisfaction_range) (use fs in \<open>auto simp: feedback_ok_def feedback_checks_def\<close>)
  moreover have "ratio (count_of im_accepted_without_editing ?known) (int (length ?known)) \<le>
      ratio (count_of (\<lambda>i. im_output_accepted i = Some True) ?known) (int (length ?known))"
    by (rule ratio_mono [OF first_pass_counts [OF known]])
  ultimately show ?thesis
    using average_automation [OF rows] unfolding rates_ok_def analytics_def Let_def
    by (simp add: ratio_count del: of_int_of_nat_eq)
qed

subsection \<open>What one feedback changes\<close>



text \<open>A stale submission is accepted: whatever version the row has reached since it was read, the store
  only asks for the version of the reading and sets its successor again, so the update of another
  submission with the same expected version is lost.\<close>

lemma stale_feedback_accepted:
  assumes "t_get uf_id (pd_feedback db) (uf_id old) = Some cur" and "fq_expected_version d = Some (uf_version old)"
    and "fq_rating d \<noteq> uf_rating old"
  shows "\<exists>f db' x. stored_feedback u env d t who (Some old) db = Inr (f, db') \<and>
    t_get uf_id (pd_feedback db') (uf_id old) = Some x \<and> uf_version x = uf_version old + 1 \<and> uf_rating x = fq_rating d"
proof -
  let ?f = "feedback_of u d t (uf_id old) who (uf_version old + 1) (uf_created_at old)"
  let ?x = "flushed_feedback old ?f cur"
  let ?db = "db\<lparr>pd_feedback := t_put uf_id (pd_feedback db) ?x\<rparr>"
  have id: "uf_id ?x = uf_id old" using t_get_SomeD [OF assms(1)] by simp
  have "stored_feedback u env d t who (Some old) db = Inr (?f, ?db)"
    using assms(1,2) by (simp add: stored_feedback_def Let_def)
  moreover have "t_get uf_id (pd_feedback ?db) (uf_id old) = Some ?x"
    using assms(1) id by (simp add: t_get_t_put_same del: flushed_feedback_simps)
  moreover have "uf_version ?x = uf_version old + 1" by (simp add: flushed_def)
  moreover have "uf_rating ?x = fq_rating d" using assms(3) by (simp add: flushed_feedback_def flushed_def feedback_of_def)
  ultimately show ?thesis by blast
qed

lemma impacts_put_feedback [simp]:
  "pd_impacts (db\<lparr>pd_feedback := fs\<rparr>) = pd_impacts db" "pd_assets (db\<lparr>pd_feedback := fs\<rparr>) = pd_assets db"
  by simp_all

lemma record_feedback_impacts:
  assumes "record_feedback sv u env k d actor seen db = Inr (f, db')"
  shows "pd_impacts db' = feedback_on_impact d k (get_impact_by_task k seen) (pd_impacts db)"
  using assms
proof (rule record_feedback_Inr)
  fix t db2
  assume "stored_feedback u env d t (actor_id actor) (get_for_actor k (actor_id actor) seen)
      (db\<lparr>pd_impacts := feedback_on_impact d k (get_impact_by_task k seen) (pd_impacts db)\<rparr>) = Inr (f, db2)"
    and "pd_impacts db' = pd_impacts db2"
  then show ?thesis by (auto elim: stored_feedback_Inr)
qed

text \<open>The acceptance that is counted is that of the last actor who spoke: feedback of a task's owner
  replaces the decision of the reviewer of its asset, whatever the asset's status is.\<close>

lemma feedback_overrides_review:
  assumes "record_feedback sv u env k d actor db db = Inr (f, db')" and "ac_output_accepted d = Some b"
    and "get_impact_by_task k db = Some i"
  shows "\<exists>i'. get_impact_by_task k db' = Some i' \<and> im_output_accepted i' = Some b"
proof -
  let ?g = "\<lambda>j. if im_task_id j = k then accept_by_feedback d i j else j"
  have "t_get im_task_id (map ?g is) k = map_option ?g (t_get im_task_id is k)" for "is"
    by (induction "is") (auto simp: t_get_def)
  then have "get_impact_by_task k db' = Some (?g i)"
    using record_feedback_impacts [OF assms(1)] assms(2,3) by (simp add: get_impact_by_task_def feedback_on_impact_def)
  moreover have "im_task_id i = k" using assms(3) by (auto simp: get_impact_by_task_def dest: t_get_SomeD)
  ultimately show ?thesis using assms(2) by simp
qed

subsection \<open>An example\<close>

text \<open>A task of 90 seconds that would have taken half an hour, with the impact a manager records of it
  and the feedback of its creator.\<close>

definition done_task :: task_row where
  "done_task = (new_task ex_env AW_IMAGE_GENERATION (JObj []) ''mock'' ''m'' None ''h'' 5 ''ann'')
     \<lparr>ta_status := AP_COMPLETED, ta_duration_ms := Some 90000\<rparr>"

definition done_db :: platform_db where
  "done_db = empty_platform\<lparr>pd_tasks := [done_task]\<rparr>"

definition demo_impact :: impact_request where
  "demo_impact = \<lparr>ac_output_accepted = None, ac_without_editing = False, ac_editing_minutes = 0, ac_rework_count = 0,
     iq_department = None, iq_manual_override = Some 30, iq_steps_before = 3, iq_automated_steps = 2, iq_error_count = 0\<rparr>"

definition demo_feedback :: "int option \<Rightarrow> feedback_request" where
  "demo_feedback v = \<lparr>ac_output_accepted = Some True, ac_without_editing = True, ac_editing_minutes = 0, ac_rework_count = 0,
     fq_rating = 5, fq_helpfulness = 4, fq_accuracy = 4, fq_ease_of_use = 5, fq_would_use_again = True,
     fq_comment = None, fq_expected_version = v\<rparr>"

definition no_uuid :: "json \<Rightarrow> uuid option" where
  "no_uuid v = None"

lemma done_task_simps [simp]:
  "ta_id done_task = 1" "ta_status done_task = AP_COMPLETED" "ta_created_by done_task = ''ann''"
  "ta_provider done_task = Some ''mock''" "ta_model done_task = Some ''m''" "ta_duration_ms done_task = Some 90000"
  "ta_input done_task = JObj []" "ta_workflow_type done_task = AW_IMAGE_GENERATION"
  by (simp_all add: done_task_def new_task_def ex_env_def)

lemma demo_bodies: "valid_impact_request demo_impact" "valid_feedback_request (demo_feedback None)"
  by (simp_all add: valid_impact_request_def valid_feedback_request_def demo_impact_def demo_feedback_def
      valid_acceptance_def acceptance.defs first_pass_def)

lemma demo_recorded_impact:
  "\<exists>i db'. record_impact ex_services no_uuid ex_env 1 demo_impact demo_manager done_db = Inr (i, db') \<and>
     pd_impacts db' = [i] \<and> pd_feedback db' = [] \<and> pd_tasks db' = [done_task] \<and> im_task_id i = 1"
proof -
  let ?i = "new_impact no_uuid ex_env demo_impact done_task ''mock'' ''m'' 30 done_db"
  have "0 \<le> automation_rate a b" "automation_rate a b \<le> 1" for a b using automation_rate_bounds by simp_all
  then have checks: "impact_checks ?i"
    by (simp add: new_impact_def impact_checks_def minutes_saved_nonneg first_pass_def demo_impact_def Let_def)
  have ids: "im_task_id ?i = 1" "im_workflow_id ?i = None" "im_agent_run_id ?i = None"
    by (simp_all add: new_impact_def metadata_uuid_def Let_def)
  have none: "get_impact_by_task 1 done_db = None" by (simp add: get_impact_by_task_def t_get_def done_db_def empty_platform_def)
  have empty: "pd_impacts done_db = []" by (simp add: done_db_def empty_platform_def)
  have ins: "insert_impact ?i done_db = Inr (done_db\<lparr>pd_impacts := [?i]\<rparr>)"
    using empty by (simp add: insert_impact_def checks ids none known_run_def require_def and_then_def del: One_nat_def)
  have payload: "\<exists>es. er_payload (impact_event ?i) = JObj es" by (simp add: impact_event_def plain_event_def)
  then obtain es where es: "er_payload (impact_event ?i) = JObj es" by blast
  from add_outbox_event_ok [OF es, of ex_services ex_env "pd_core (done_db\<lparr>pd_impacts := [?i]\<rparr>)"]
  obtain c where e: "platform_event ex_services ex_env (impact_event ?i) (done_db\<lparr>pd_impacts := [?i]\<rparr>) =
      Inr (done_db\<lparr>pd_impacts := [?i], pd_core := c\<rparr>)"
    by (auto simp: platform_event_def)
  have t: "get_task done_db 1 = Some done_task" by (simp add: done_db_def table_simps)
  have override: "iq_manual_override demo_impact = Some 30" by (simp add: demo_impact_def)
  have m: "actor_id demo_manager = ''ann''" "actor_role demo_manager = UR_MANAGER" by (simp_all add: demo_manager_def)
  have "record_impact ex_services no_uuid ex_env 1 demo_impact demo_manager done_db =
      Inr (?i, done_db\<lparr>pd_impacts := [?i], pd_core := c\<rparr>)"
    unfolding record_impact_def eligible_task_def t manual_minutes_def Let_def
    by (simp add: m require_def and_then_def override ins e del: One_nat_def)
  then show ?thesis using ids by (simp add: done_db_def empty_platform_def)
qed

lemma demo_recorded_feedback:
  "\<exists>db f db'. impact_history db \<and> (\<exists>i. get_impact_by_task 1 db = Some i) \<and> get_for_actor 1 ''ann'' db = None \<and>
     record_feedback ex_services no_uuid ex_env 1 (demo_feedback None) demo_manager db db = Inr (f, db') \<and>
     impact_history db' \<and> length (pd_impacts db') = 1 \<and> pd_feedback db' = [f]"
proof -
  obtain i db where r: "record_impact ex_services no_uuid ex_env 1 demo_impact demo_manager done_db = Inr (i, db)"
    and rows: "pd_impacts db = [i]" "pd_feedback db = []" "pd_tasks db = [done_task]" and i: "im_task_id i = 1"
    using demo_recorded_impact by blast
  have "impact_history done_db" by (rule impact_history_start) (simp_all add: done_db_def empty_platform_def)
  then have h: "impact_history db" using IS_impact [OF demo_bodies(1) r] by (rule impact_history_step)
  then have ok: "impact_ok i" using impact_history_inv [OF h] rows(1) by (simp add: impacts_inv_def)
  let ?d = "demo_feedback None" and ?i = "accept_by_feedback (demo_feedback None) i i"
  let ?f = "feedback_of no_uuid ?d done_task 1 ''ann'' 1 0"
  have seen: "get_impact_by_task 1 db = Some i" by (simp add: get_impact_by_task_def rows t_get_def i)
  have impacts: "feedback_on_impact ?d 1 (Some i) (pd_impacts db) = [?i]"
    using i rows(1) by (simp add: feedback_on_impact_def demo_feedback_def del: accept_by_feedback_same)
  have checks: "impact_checks ?i"
    using ok by (simp add: impact_ok_def impact_checks_def demo_feedback_def first_pass_def)
  have f: "feedback_checks ?f" "uf_workflow_id ?f = None" "uf_agent_run_id ?f = None"
    by (simp_all add: feedback_checks_def feedback_of_def demo_feedback_def first_pass_def metadata_uuid_def)
  have t: "get_task db 1 = Some done_task" by (simp add: rows table_simps)
  have none: "get_for_actor 1 ''ann'' db = None" "get_for_actor 1 ''ann'' (db\<lparr>pd_impacts := [?i]\<rparr>) = None"
    by (simp_all add: get_for_actor_def rows)
  have m: "actor_id demo_manager = ''ann''" by (simp add: demo_manager_def)
  have env: "env_row_id ex_env = 1" "env_now ex_env = 0" "fq_expected_version ?d = None"
    by (simp_all add: ex_env_def demo_feedback_def)
  have s: "stored_feedback no_uuid ex_env ?d done_task ''ann'' None (db\<lparr>pd_impacts := [?i]\<rparr>) =
      Inr (?f, db\<lparr>pd_impacts := [?i], pd_feedback := [?f]\<rparr>)"
    by (simp add: stored_feedback_def none env require_def and_then_def rows Let_def del: One_nat_def accept_by_feedback_same)
  let ?db2 = "db\<lparr>pd_impacts := [?i], pd_feedback := [?f]\<rparr>"
  have "er_payload (feedback_event ?f) = JObj [(''task_run_id'', JStr (uuid_str (uf_task_id ?f))),
      (''actor_id'', JStr (uf_actor_id ?f)), (''rating'', JInt (uf_rating ?f))]"
    by (simp add: feedback_event_def plain_event_def)
  from add_outbox_event_ok [OF this, of ex_services ex_env "pd_core ?db2"]
  obtain c where e: "platform_event ex_services ex_env (feedback_event ?f) ?db2 = Inr (?db2\<lparr>pd_core := c\<rparr>)"
    by (auto simp: platform_event_def)
  have f2: "record_feedback ex_services no_uuid ex_env 1 ?d demo_manager db db = Inr (?f, ?db2\<lparr>pd_core := c\<rparr>)"
    unfolding record_feedback_def eligible_task_def t m seen impacts none Let_def
    by (simp add: m s f checks e require_def and_then_def known_run_def del: One_nat_def accept_by_feedback_same)
  then have "impact_history (?db2\<lparr>pd_core := c\<rparr>)"
    using impact_history_step [OF h IS_feedback [OF demo_bodies(2) _ f2]] by (simp add: rows)
  then show ?thesis using h f2 none(1) seen
    by (intro exI [of _ db] exI [of _ ?f] exI [of _ "?db2\<lparr>pd_core := c\<rparr>"]) auto
qed

lemma impacts_consistent_witness:
  "\<exists>db :: platform_db. length (pd_impacts db) = 1 \<and> distinct (map im_task_id (pd_impacts db)) \<and>
     distinct (map feedback_key (pd_feedback db)) \<and> list_all impact_ok (pd_impacts db) \<and>
     list_all feedback_ok (pd_feedback db)"
proof -
  obtain db where "impact_history db" and one: "length (pd_impacts db) = 1" using demo_recorded_feedback by blast
  from one impacts_consistent [OF this(1)] show ?thesis by (intro exI [of _ db]) simp
qed

lemma analytics_rates_bounded_witness:
  "\<exists>db f. pd_feedback db = [f] \<and> rates_ok (analytics (\<lambda>_. []) \<lparr>fl_task_type = None, fl_department = None,
     fl_provider = Some ''mock'', fl_model = None, fl_prompt_version_id = None, fl_created_from = Some 0,
     fl_created_to = None\<rparr> db)"
proof -
  obtain db f where "impact_history db" "pd_feedback db = [f]" using demo_recorded_feedback by blast
  with analytics_rates_bounded [of db] show ?thesis by blast
qed


end
