(* ===== verification/Alerts.thy ===== *)
theory Alerts
  imports Platform_Rows
begin

text \<open>
  Operational alerts: \<open>AlertService\<close> (\<open>app/operations/alerts.py\<close>), \<open>AlertRepository\<close>
  (\<open>app/repositories/alert_repository.py\<close>) and \<open>AlertReconciler\<close> (\<open>app/operations/alert_rules.py\<close>),
  which opens an alert for every condition it finds in the queue, the action executions and the
  outbox, and resolves those whose condition is gone.
\<close>

fun alert_type_value :: "alert_type \<Rightarrow> string" where
  "alert_type_value AT_WORKFLOW_FAILURE_RATE_HIGH = ''WORKFLOW_FAILURE_RATE_HIGH''"
| "alert_type_value AT_JOB_QUEUE_BACKLOG = ''JOB_QUEUE_BACKLOG''"
| "alert_type_value AT_JOB_DEAD_LETTER = ''JOB_DEAD_LETTER''"
| "alert_type_value AT_ACTION_EXECUTION_FAILURE = ''ACTION_EXECUTION_FAILURE''"
| "alert_type_value AT_MEMORY_RECONCILIATION_BACKLOG = ''MEMORY_RECONCILIATION_BACKLOG''"
| "alert_type_value AT_POSTGRES_UNAVAILABLE = ''POSTGRES_UNAVAILABLE''"
| "alert_type_value AT_MIGRATION_HEAD_MISMATCH = ''MIGRATION_HEAD_MISMATCH''"
| "alert_type_value AT_OUTBOX_BACKLOG = ''OUTBOX_BACKLOG''"

record alert_row =
  al_id :: uuid
  al_type :: alert_type
  al_status :: alert_status
  al_severity :: security_severity
  al_resource_type :: string
  al_resource_id :: string
  al_key :: string
  al_summary :: string
  al_details :: json
  al_first_seen :: time
  al_last_seen :: time
  al_acknowledged_by :: "string option"
  al_acknowledged_at :: "time option"
  al_resolved_by :: "string option"
  al_resolved_at :: "time option"
  al_count :: int
  al_correlation_id :: string

record alert_condition =
  cd_type :: alert_type
  cd_severity :: security_severity
  cd_resource_type :: string
  cd_resource_id :: string
  cd_summary :: string
  cd_details :: json

text \<open>What the service finds around it: the hash, and \<open>strftime("%Y%m%d%H")\<close>.\<close>

record alert_env =
  ae_hashing :: hashing
  ae_hour :: "time \<Rightarrow> string"

definition alert_key :: "alert_env \<Rightarrow> alert_condition \<Rightarrow> time \<Rightarrow> string" where
  "alert_key ae c now = sha256_hex (ae_hashing ae)
     (alert_type_value (cd_type c) @ ''|'' @ cd_resource_type c @ ''|'' @ cd_resource_id c @ ''|'' @ ae_hour ae now)"

definition new_alert :: "call_env \<Rightarrow> alert_condition \<Rightarrow> string \<Rightarrow> json \<Rightarrow> alert_row" where
  "new_alert env c key details =
     \<lparr>al_id = env_row_id env, al_type = cd_type c, al_status = AS_OPEN, al_severity = cd_severity c,
      al_resource_type = sanitize_text 100 (cd_resource_type c), al_resource_id = sanitize_text 200 (cd_resource_id c),
      al_key = key, al_summary = sanitize_text 1000 (cd_summary c), al_details = details,
      al_first_seen = env_now env, al_last_seen = env_now env, al_acknowledged_by = None,
      al_acknowledged_at = None, al_resolved_by = None, al_resolved_at = None, al_count = 1,
      al_correlation_id = or_str (env_context env ''correlation_id'') (uuid_str (env_correlation env))\<rparr>"

text \<open>The update of the row that has the key already.\<close>

definition incremented_alert :: "alert_row \<Rightarrow> alert_row \<Rightarrow> alert_row" where
  "incremented_alert n a =
     a\<lparr>al_status := AS_OPEN, al_severity := al_severity n, al_summary := al_summary n, al_details := al_details n,
       al_last_seen := al_last_seen n, al_count := al_count a + 1, al_acknowledged_by := None,
       al_acknowledged_at := None, al_resolved_by := None, al_resolved_at := None,
       al_correlation_id := al_correlation_id n\<rparr>"

definition open_or_increment :: "alert_row \<Rightarrow> alert_row list \<Rightarrow> alert_row \<times> alert_row list" where
  "open_or_increment n as =
     (case find (\<lambda>a. al_key a = al_key n) as of
        None \<Rightarrow> (n, as @ [n])
      | Some a \<Rightarrow> (incremented_alert n a, map (\<lambda>b. if al_key b = al_key n then incremented_alert n b else b) as))"

definition open_alert ::
  "alert_env \<Rightarrow> call_env \<Rightarrow> alert_condition \<Rightarrow> alert_row list \<Rightarrow> (exn, alert_row \<times> alert_row list) res" where
  "open_alert ae env c as =
     (case sanitize_json 2000 (cd_details c) of
        JObj es \<Rightarrow> Inr (open_or_increment (new_alert env c (alert_key ae c (env_now env)) (JObj es)) as)
      | _ \<Rightarrow> Inl (Exn (StoreE PersistenceError) ''Unable to prepare alert details''))"

definition required_alert :: "uuid \<Rightarrow> alert_row list \<Rightarrow> (exn, alert_row) res" where
  "required_alert k as = required (t_get al_id as k) (Exn (OpsE AlertNotFoundError) ''Operational alert not found'')"

definition list_alerts ::
  "int \<Rightarrow> int \<Rightarrow> alert_status option \<Rightarrow> alert_type option \<Rightarrow> alert_row list \<Rightarrow> alert_row list" where
  "list_alerts limit offset status ty as =
     take (nat (min (max limit 1) 100)) (drop (nat (max offset 0))
       (sort_key (\<lambda>a. - al_last_seen a) (sort_key al_id (filter (\<lambda>a.
          (case status of None \<Rightarrow> True | Some s \<Rightarrow> al_status a = s) \<and>
          (case ty of None \<Rightarrow> True | Some t \<Rightarrow> al_type a = t)) as))))"

definition acknowledge ::
  "time \<Rightarrow> uuid \<Rightarrow> string \<Rightarrow> alert_row list \<Rightarrow> (exn, alert_row \<times> alert_row list) res" where
  "acknowledge now k actor as =
     and_then (required_alert k as) (\<lambda>a.
     and_then (require (al_status a \<noteq> AS_RESOLVED)
       (Exn (OpsE JobConflictError) ''Resolved alert cannot be acknowledged'')) (\<lambda>_.
     let a' = a\<lparr>al_status := AS_ACKNOWLEDGED, al_acknowledged_by := Some (sanitize_text 200 actor),
                al_acknowledged_at := Some now\<rparr>
     in Inr (a', t_put al_id as a')))"

definition resolved_alert :: "time \<Rightarrow> string \<Rightarrow> alert_row \<Rightarrow> alert_row" where
  "resolved_alert now who a =
     a\<lparr>al_status := AS_RESOLVED, al_resolved_by := Some who, al_resolved_at := Some now\<rparr>"

definition resolve_alert ::
  "time \<Rightarrow> uuid \<Rightarrow> string \<Rightarrow> alert_row list \<Rightarrow> (exn, alert_row \<times> alert_row list) res" where
  "resolve_alert now k actor as =
     and_then (required_alert k as) (\<lambda>a.
     if al_status a = AS_RESOLVED then Inr (a, as)
     else let a' = resolved_alert now (sanitize_text 200 actor) a in Inr (a', t_put al_id as a'))"

type_synonym alert_subject = "alert_type \<times> string \<times> string"

definition alert_identity :: "alert_row \<Rightarrow> alert_subject" where
  "alert_identity a = (al_type a, al_resource_type a, al_resource_id a)"

definition condition_identity :: "alert_condition \<Rightarrow> alert_subject" where
  "condition_identity c = (cd_type c, cd_resource_type c, cd_resource_id c)"

definition active_alert :: "alert_row \<Rightarrow> bool" where
  "active_alert a \<longleftrightarrow> al_status a \<in> {AS_OPEN, AS_ACKNOWLEDGED}"

definition cleared :: "alert_type set \<Rightarrow> alert_subject set \<Rightarrow> alert_row \<Rightarrow> bool" where
  "cleared managed identities a \<longleftrightarrow>
     al_type a \<in> managed \<and> active_alert a \<and> alert_identity a \<notin> identities"

text \<open>
  The rows are selected \<open>FOR UPDATE SKIP LOCKED\<close>: a row that another transaction has \<open>locked\<close> at that
  moment is not seen and stays as it is.
\<close>

definition resolve_cleared ::
  "(uuid \<Rightarrow> bool) \<Rightarrow> time \<Rightarrow> alert_type set \<Rightarrow> alert_subject set \<Rightarrow> string \<Rightarrow> alert_row list \<Rightarrow> nat \<times> alert_row list" where
  "resolve_cleared locked now managed identities who as =
     (length (filter (\<lambda>a. \<not> locked (al_id a) \<and> cleared managed identities a) as),
      map (\<lambda>a. if \<not> locked (al_id a) \<and> cleared managed identities a then resolved_alert now who a else a) as)"

subsection \<open>Reconciliation\<close>

definition managed_types :: "alert_type set" where
  "managed_types = {AT_JOB_QUEUE_BACKLOG, AT_JOB_DEAD_LETTER, AT_ACTION_EXECUTION_FAILURE,
     AT_MEMORY_RECONCILIATION_BACKLOG, AT_OUTBOX_BACKLOG}"

text \<open>\<open>completed_at DESC\<close>: the rows without a time come first.\<close>

definition latest_first :: "('r \<Rightarrow> time option) \<Rightarrow> ('r \<Rightarrow> uuid) \<Rightarrow> 'r list \<Rightarrow> 'r list" where
  "latest_first completed k rs =
     (let sorted = sort_key k rs
      in filter (\<lambda>r. completed r = None) sorted @
         sort_key (\<lambda>r. - the (completed r)) (filter (\<lambda>r. completed r \<noteq> None) sorted))"

definition dead_jobs :: "nat \<Rightarrow> platform_db \<Rightarrow> job_row list" where
  "dead_jobs n db = take n (latest_first j_completed_at job_id (filter (\<lambda>j. j_status j = JS_DEAD_LETTER) (jobs (pd_queue db))))"

definition failed_actions :: "nat \<Rightarrow> platform_db \<Rightarrow> execution_row list" where
  "failed_actions n db =
     take n (latest_first x_completed_at x_id (filter (\<lambda>x. x_status x = AX_FAILED) (executions (pd_core db))))"

definition dead_job_condition :: "job_row \<Rightarrow> alert_condition" where
  "dead_job_condition j =
     \<lparr>cd_type = AT_JOB_DEAD_LETTER, cd_severity = SV_HIGH, cd_resource_type = ''job'',
      cd_resource_id = uuid_str (job_id j), cd_summary = ''Background job reached dead letter'',
      cd_details = JObj [(''job_type'', JStr (job_type j)),
        (''error_code'', case j_error_code j of None \<Rightarrow> JNull | Some e \<Rightarrow> JStr e)]\<rparr>"

definition failed_action_condition :: "execution_row \<Rightarrow> alert_condition" where
  "failed_action_condition x =
     \<lparr>cd_type = AT_ACTION_EXECUTION_FAILURE, cd_severity = SV_HIGH, cd_resource_type = ''action_execution'',
      cd_resource_id = uuid_str (x_id x), cd_summary = ''Controlled action execution failed'',
      cd_details = JObj [(''error_code'', case x_error_code x of None \<Rightarrow> JNull | Some e \<Rightarrow> JStr e)]\<rparr>"

definition system_condition :: "alert_type \<Rightarrow> security_severity \<Rightarrow> string \<Rightarrow> string \<Rightarrow> nat \<Rightarrow> alert_condition" where
  "system_condition ty severity name summary n =
     \<lparr>cd_type = ty, cd_severity = severity, cd_resource_type = ''system'', cd_resource_id = name,
      cd_summary = summary, cd_details = JObj [(''count'', JInt (int n))]\<rparr>"

definition memory_backlog :: "platform_db \<Rightarrow> nat" where
  "memory_backlog db = length (filter (\<lambda>x. x_memory_status x = MR_FAILED) (executions (pd_core db)))"

definition queue_backlog :: "platform_db \<Rightarrow> nat" where
  "queue_backlog db = length (filter (\<lambda>j. j_status j = JS_PENDING) (jobs (pd_queue db)))"

definition outbox_backlog :: "platform_db \<Rightarrow> nat" where
  "outbox_backlog db = length (filter (\<lambda>e. o_status e \<in> {OS_PENDING, OS_FAILED, OS_DEAD_LETTER}) (events (pd_core db)))"

definition conditions :: "int \<Rightarrow> int \<Rightarrow> nat \<Rightarrow> platform_db \<Rightarrow> alert_condition list" where
  "conditions batch_size backlog_limit n db =
     map dead_job_condition (dead_jobs n db) @ map failed_action_condition (failed_actions n db) @
     (if memory_backlog db = 0 then [] else
        [system_condition AT_MEMORY_RECONCILIATION_BACKLOG SV_MEDIUM ''memory''
           ''Action memory reconciliation is pending'' (memory_backlog db)]) @
     (if int (queue_backlog db) > batch_size * 10 then
        [system_condition AT_JOB_QUEUE_BACKLOG SV_MEDIUM ''job-queue''
           ''Background job queue exceeds its operational threshold'' (queue_backlog db)] else []) @
     (if int (outbox_backlog db) > backlog_limit then
        [system_condition AT_OUTBOX_BACKLOG SV_HIGH ''outbox''
           ''Transactional outbox exceeds its operational threshold'' (outbox_backlog db)] else [])"

text \<open>Every alert is opened in a transaction of its own.\<close>

fun open_all ::
  "alert_env \<Rightarrow> (nat \<Rightarrow> call_env) \<Rightarrow> alert_condition list \<Rightarrow> alert_row list \<Rightarrow> (exn, unit) res \<times> alert_row list" where
  "open_all ae envs [] as = (Inr (), as)"
| "open_all ae envs (c # cs) as =
     (case open_alert ae (envs (length cs)) c as of
        Inl e \<Rightarrow> (Inl e, as)
      | Inr (_, as') \<Rightarrow> open_all ae envs cs as')"

definition reconcile_alerts ::
  "alert_env \<Rightarrow> (nat \<Rightarrow> call_env) \<Rightarrow> (uuid \<Rightarrow> bool) \<Rightarrow> time \<Rightarrow> int \<Rightarrow> int \<Rightarrow> int \<Rightarrow> platform_db \<Rightarrow>
   alert_row list \<Rightarrow> (exn, nat \<times> nat) res \<times> alert_row list" where
  "reconcile_alerts ae envs locked now batch_size backlog_limit limit db as =
     (let cs = conditions batch_size backlog_limit (nat (min (max limit 1) 500)) db
      in case open_all ae envs cs as of
           (Inl e, as') \<Rightarrow> (Inl e, as')
         | (Inr _, as') \<Rightarrow>
             let (n, as'') = resolve_cleared locked now managed_types (set (map condition_identity cs))
                               ''alert-reconciler'' as'
             in (Inr (length cs, n), as''))"

end
