(* ===== verification/Alert_Properties.thy ===== *)
theory Alert_Properties
  imports Alerts
begin

text \<open>
  The properties of alerts: the well-formedness of their rows in every history, and what a
  reconciliation leaves open.
\<close>

subsection \<open>Rows\<close>

text \<open>The reconciler's resources are names and identifiers, which sanitization leaves alone.\<close>

definition plain_condition :: "alert_condition \<Rightarrow> bool" where
  "plain_condition c \<longleftrightarrow>
     list_all is_token_char (cd_resource_type c) \<and> length (cd_resource_type c) \<le> 100 \<and>
     list_all is_token_char (cd_resource_id c) \<and> length (cd_resource_id c) \<le> 200 \<and>
     (\<exists>es. cd_details c = JObj es)"

definition alert_material :: "alert_env \<Rightarrow> alert_subject \<Rightarrow> time \<Rightarrow> string" where
  "alert_material ae i now = (case i of (ty, r, k) \<Rightarrow>
     alert_type_value ty @ CHR ''|'' # r @ CHR ''|'' # k @ CHR ''|'' # ae_hour ae now)"

text \<open>The hash keeps the keys of these subjects apart, at whatever hours they are computed.\<close>

definition collision_free :: "alert_env \<Rightarrow> alert_subject set \<Rightarrow> bool" where
  "collision_free ae I \<longleftrightarrow> inj_on (sha256_hex (ae_hashing ae)) {alert_material ae i t | i t. i \<in> I}"

definition alert_ok :: "alert_env \<Rightarrow> alert_row \<Rightarrow> bool" where
  "alert_ok ae a \<longleftrightarrow>
     (al_status a = AS_RESOLVED \<longleftrightarrow> al_resolved_at a \<noteq> None) \<and> (al_resolved_at a = None \<longleftrightarrow> al_resolved_by a = None) \<and>
     (al_status a = AS_OPEN \<longrightarrow> al_acknowledged_at a = None) \<and>
     (al_status a = AS_ACKNOWLEDGED \<longrightarrow> al_acknowledged_at a \<noteq> None) \<and>
     (al_acknowledged_at a = None \<longleftrightarrow> al_acknowledged_by a = None) \<and> 1 \<le> al_count a \<and>
     list_all is_token_char (al_resource_type a) \<and> list_all is_token_char (al_resource_id a) \<and>
     (\<exists>t. al_key a = sha256_hex (ae_hashing ae) (alert_material ae (alert_identity a) t))"

definition alerts_inv :: "alert_env \<Rightarrow> alert_row list \<Rightarrow> bool" where
  "alerts_inv ae as \<longleftrightarrow> distinct (map al_key as) \<and> distinct (map al_id as) \<and> (\<forall>a \<in> set as. alert_ok ae a)"

inductive alert_step :: "alert_env \<Rightarrow> alert_row list \<Rightarrow> alert_row list \<Rightarrow> bool" for ae where
  AS_open: "plain_condition c \<Longrightarrow> env_row_id env \<notin> al_id ` set as \<Longrightarrow>
     open_alert ae env c as = Inr (a, as') \<Longrightarrow> alert_step ae as as'"
| AS_acknowledge: "acknowledge now k actor as = Inr (a, as') \<Longrightarrow> alert_step ae as as'"
| AS_resolve: "resolve_alert now k actor as = Inr (a, as') \<Longrightarrow> alert_step ae as as'"
| AS_clear: "resolve_cleared locked now managed identities who as = (n, as') \<Longrightarrow> alert_step ae as as'"

inductive alert_history :: "alert_env \<Rightarrow> alert_row list \<Rightarrow> bool" for ae where
  AH_empty: "alert_history ae []"
| AH_step: "alert_history ae as \<Longrightarrow> alert_step ae as as' \<Longrightarrow> alert_history ae as'"

lemma plain_texts:
  assumes "plain_condition c"
  shows "sanitize_text 100 (cd_resource_type c) = cd_resource_type c"
    and "sanitize_text 200 (cd_resource_id c) = cd_resource_id c"
  using assms sanitize_plain_text by (auto simp: plain_condition_def list_all_iff)

lemma new_alert_identity: "plain_condition c \<Longrightarrow> alert_identity (new_alert env c key v) = condition_identity c"
  by (simp add: alert_identity_def new_alert_def condition_identity_def plain_texts)

lemma alert_key_material:
  "alert_key ae c t = sha256_hex (ae_hashing ae) (alert_material ae (condition_identity c) t)"
  by (simp add: alert_key_def alert_material_def condition_identity_def)

lemma new_alert_ok:
  assumes "plain_condition c"
  shows "alert_ok ae (new_alert env c (alert_key ae c (env_now env)) v)"
  using assms new_alert_identity [OF assms] alert_key_material [of ae c "env_now env"]
  unfolding alert_ok_def by (auto simp: new_alert_def plain_texts plain_condition_def)

lemma incremented_simps [simp]:
  "al_id (incremented_alert n a) = al_id a" "al_key (incremented_alert n a) = al_key a"
  "alert_identity (incremented_alert n a) = alert_identity a" "al_status (incremented_alert n a) = AS_OPEN"
  "al_type (incremented_alert n a) = al_type a"
  by (simp_all add: incremented_alert_def alert_identity_def)

lemma incremented_ok: "alert_ok ae a \<Longrightarrow> alert_ok ae (incremented_alert n a)"
  unfolding alert_ok_def by (simp add: incremented_alert_def alert_identity_def)

lemma resolved_simps [simp]:
  "al_id (resolved_alert now who a) = al_id a" "al_key (resolved_alert now who a) = al_key a"
  "alert_identity (resolved_alert now who a) = alert_identity a"
  "al_status (resolved_alert now who a) = AS_RESOLVED" "al_type (resolved_alert now who a) = al_type a"
  by (simp_all add: resolved_alert_def alert_identity_def)

lemma resolved_ok: "alert_ok ae a \<Longrightarrow> alert_ok ae (resolved_alert now who a)"
  unfolding alert_ok_def by (simp add: resolved_alert_def alert_identity_def)

lemma map_rows_inv:
  assumes "alerts_inv ae as" and "\<And>a. a \<in> set as \<Longrightarrow> al_key (g a) = al_key a \<and> al_id (g a) = al_id a \<and> alert_ok ae (g a)"
  shows "alerts_inv ae (map g as)"
proof -
  have "map al_key (map g as) = map al_key as" "map al_id (map g as) = map al_id as"
    using assms(2) by (auto simp: map_eq_conv)
  with assms show ?thesis unfolding alerts_inv_def by (metis (no_types, lifting) imageE set_map)
qed

lemma put_alert_inv:
  assumes inv: "alerts_inv ae as" and a: "t_get al_id as (al_id a') = Some a"
    and a': "al_key a' = al_key a" "alert_ok ae a'"
  shows "alerts_inv ae (t_put al_id as a')"
  unfolding t_put_def
proof (rule map_rows_inv [OF inv])
  fix x
  assume x: "x \<in> set as"
  from t_get_SomeD [OF a] have "a \<in> set as" "al_id a = al_id a'" by auto
  then have "al_id x = al_id a' \<Longrightarrow> x = a" using x inv by (metis alerts_inv_def distinct_map inj_onD)
  with a' x inv show "al_key (if al_id x = al_id a' then a' else x) = al_key x \<and>
      al_id (if al_id x = al_id a' then a' else x) = al_id x \<and> alert_ok ae (if al_id x = al_id a' then a' else x)"
    by (auto simp: alerts_inv_def)
qed

lemma open_alert_Inr:
  assumes "open_alert ae env c as = Inr (a, as')"
  obtains es where "(a, as') = open_or_increment (new_alert env c (alert_key ae c (env_now env)) (JObj es)) as"
proof (cases "sanitize_json 2000 (cd_details c)")
  case (JObj es)
  with assms show thesis by (intro that [of es]) (simp add: open_alert_def)
qed (use assms in \<open>simp_all add: open_alert_def\<close>)

lemma open_or_increment_cases:
  assumes "(a, as') = open_or_increment n as"
  obtains (new) "a = n" "as' = as @ [n]" "al_key n \<notin> al_key ` set as"
    | (known) a0 where "a0 \<in> set as" "al_key a0 = al_key n" "a = incremented_alert n a0"
        "as' = map (\<lambda>b. if al_key b = al_key n then incremented_alert n b else b) as"
proof (cases "find (\<lambda>a. al_key a = al_key n) as")
  case None
  then have "al_key n \<notin> al_key ` set as" by (auto simp: find_None_iff)
  with None assms new show thesis by (simp add: open_or_increment_def)
next
  case (Some a0)
  then have "a0 \<in> set as" "al_key a0 = al_key n" by (auto simp: find_Some_iff)
  with Some assms known show thesis by (simp add: open_or_increment_def)
qed

lemma open_alert_inv:
  assumes inv: "alerts_inv ae as" and c: "plain_condition c" and fresh: "env_row_id env \<notin> al_id ` set as"
    and o: "open_alert ae env c as = Inr (a, as')"
  shows "alerts_inv ae as'"
proof -
  from o obtain es where "(a, as') = open_or_increment (new_alert env c (alert_key ae c (env_now env)) (JObj es)) as"
    by (rule open_alert_Inr)
  then show ?thesis
  proof (cases rule: open_or_increment_cases)
    case new
    then show ?thesis using inv fresh new_alert_ok [OF c] by (simp add: alerts_inv_def) (simp add: new_alert_def)
  next
    case known
    then show ?thesis using inv unfolding known(4)
      by (intro map_rows_inv [OF inv]) (auto simp: alerts_inv_def incremented_ok)
  qed
qed

lemma acknowledge_inv:
  assumes inv: "alerts_inv ae as" and r: "acknowledge now k actor as = Inr (a', as')"
  shows "alerts_inv ae as'"
proof -
  from r obtain a where a: "t_get al_id as k = Some a" "al_status a \<noteq> AS_RESOLVED"
    and a': "a' = a\<lparr>al_status := AS_ACKNOWLEDGED, al_acknowledged_by := Some (sanitize_text 200 actor),
      al_acknowledged_at := Some now\<rparr>" "as' = t_put al_id as a'"
    by (auto simp: acknowledge_def required_alert_def and_then_Inr_iff required_iff require_iff Let_def)
  from t_get_SomeD [OF a(1)] have "a \<in> set as" "al_id a = k" by auto
  then have "alert_ok ae a" using inv by (simp add: alerts_inv_def)
  then have "alert_ok ae a'" using a(2) unfolding alert_ok_def by (auto simp: a'(1) alert_identity_def)
  then show ?thesis unfolding a'(2)
    by (intro put_alert_inv [OF inv, of _ a]) (use a(1) \<open>al_id a = k\<close> in \<open>simp_all add: a'(1)\<close>)
qed

lemma resolve_alert_inv:
  assumes inv: "alerts_inv ae as" and r: "resolve_alert now k actor as = Inr (a', as')"
  shows "alerts_inv ae as'"
proof -
  from r obtain a where a: "t_get al_id as k = Some a"
    and a': "as' = as \<or> (a' = resolved_alert now (sanitize_text 200 actor) a \<and> as' = t_put al_id as a')"
    by (auto simp: resolve_alert_def required_alert_def and_then_Inr_iff required_iff Let_def split: if_splits)
  from t_get_SomeD [OF a] have a0: "a \<in> set as" "al_id a = k" by auto
  from a' show ?thesis
  proof
    assume r: "a' = resolved_alert now (sanitize_text 200 actor) a \<and> as' = t_put al_id as a'"
    have "alert_ok ae a" using inv a0(1) by (simp add: alerts_inv_def)
    with r a0 a show ?thesis by (auto intro!: put_alert_inv [OF inv, of _ a] resolved_ok)
  qed (simp add: inv)
qed

lemma resolve_cleared_inv:
  "alerts_inv ae as \<Longrightarrow> resolve_cleared locked now managed identities who as = (n, as') \<Longrightarrow> alerts_inv ae as'"
  by (auto simp: resolve_cleared_def intro!: map_rows_inv resolved_ok) (auto simp: alerts_inv_def)

lemma alert_step_inv: "alert_step ae as as' \<Longrightarrow> alerts_inv ae as \<Longrightarrow> alerts_inv ae as'"
  by (induction rule: alert_step.induct)
    (auto intro: open_alert_inv acknowledge_inv resolve_alert_inv resolve_cleared_inv)

lemma alert_history_inv: "alert_history ae as \<Longrightarrow> alerts_inv ae as"
proof (induction rule: alert_history.induct)
  case AH_empty
  then show ?case by (simp add: alerts_inv_def)
next
  case (AH_step as as')
  then show ?case using alert_step_inv by blast
qed

text \<open>C31. In every history of openings, acknowledgements, resolutions and reconciliations the alerts have
  distinct identifiers and distinct keys, an alert is resolved exactly when it says by whom and when, an open one carries no
  acknowledgement, an acknowledged one does, and its key is that of its resource in some hour.\<close>

theorem alerts_well_formed:
  assumes "alert_history ae as"
  shows "distinct (map al_id as) \<and> distinct (map al_key as) \<and> (\<forall>a \<in> set as. alert_ok ae a)"
  using alert_history_inv [OF assms] by (simp add: alerts_inv_def)

subsection \<open>Reconciliation\<close>

lemma no_bar: "\<not> is_token_char CHR ''|''"
  by (simp add: is_token_char_def Let_def)

lemma alert_type_no_bar: "CHR ''|'' \<notin> set (alert_type_value ty)"
  by (cases ty) simp_all

lemma alert_type_value_inj: "alert_type_value a = alert_type_value b \<Longrightarrow> a = b"
  by (cases a; cases b) simp_all

lemma bar_split:
  assumes "xs @ CHR ''|'' # rest = ys @ CHR ''|'' # rest'" and "CHR ''|'' \<notin> set xs" "CHR ''|'' \<notin> set ys"
  shows "xs = ys \<and> rest = rest'"
  using assms by (induction xs arbitrary: ys) (auto simp: Cons_eq_append_conv)

text \<open>The key of an alert names its resource.\<close>

lemma alert_material_identity:
  assumes eq: "alert_material ae (ty, r, k) t = alert_material ae (ty', r', k') t'"
    and "list_all is_token_char r" "list_all is_token_char k" "list_all is_token_char r'" "list_all is_token_char k'"
  shows "(ty, r, k) = (ty', r', k')"
proof -
  have bars: "CHR ''|'' \<notin> set r" "CHR ''|'' \<notin> set k" "CHR ''|'' \<notin> set r'" "CHR ''|'' \<notin> set k'"
    using assms(2-) no_bar by (auto simp: list_all_iff)
  from eq have e: "alert_type_value ty @ CHR ''|'' # r @ CHR ''|'' # k @ CHR ''|'' # ae_hour ae t =
      alert_type_value ty' @ CHR ''|'' # r' @ CHR ''|'' # k' @ CHR ''|'' # ae_hour ae t'"
    by (simp add: alert_material_def)
  from bar_split [OF e alert_type_no_bar alert_type_no_bar]
  have ty: "ty = ty'" and e2: "r @ CHR ''|'' # k @ CHR ''|'' # ae_hour ae t = r' @ CHR ''|'' # k' @ CHR ''|'' # ae_hour ae t'"
    using alert_type_value_inj by auto
  from bar_split [OF e2 bars(1,3)] have r: "r = r'" and e3: "k @ CHR ''|'' # ae_hour ae t = k' @ CHR ''|'' # ae_hour ae t'"
    by auto
  from bar_split [OF e3 bars(2,4)] ty r show ?thesis by simp
qed

lemma key_identity:
  assumes free: "collision_free ae I" and I: "alert_identity a \<in> I" "condition_identity c \<in> I"
    and c: "plain_condition c" and a: "alert_ok ae a" and key: "al_key a = alert_key ae c t"
  shows "alert_identity a = condition_identity c"
proof -
  from a obtain t' where "al_key a = sha256_hex (ae_hashing ae) (alert_material ae (alert_identity a) t')"
    by (auto simp: alert_ok_def)
  with key have h: "sha256_hex (ae_hashing ae) (alert_material ae (alert_identity a) t') =
      sha256_hex (ae_hashing ae) (alert_material ae (condition_identity c) t)"
    unfolding alert_key_material by simp
  have mem: "alert_material ae i u \<in> {alert_material ae i t | i t. i \<in> I}" if "i \<in> I" for i u
    using that by blast
  note eq = inj_onD [OF free [unfolded collision_free_def] h mem [OF I(1)] mem [OF I(2)]]
  have tokens: "list_all is_token_char (al_resource_type a)" "list_all is_token_char (al_resource_id a)"
    "list_all is_token_char (cd_resource_type c)" "list_all is_token_char (cd_resource_id c)"
    using a c by (simp_all add: alert_ok_def plain_condition_def)
  show ?thesis
    using alert_material_identity [OF eq [unfolded alert_identity_def condition_identity_def] tokens]
    by (simp add: alert_identity_def condition_identity_def)
qed

definition open_for :: "alert_row list \<Rightarrow> alert_subject \<Rightarrow> bool" where
  "open_for as i \<longleftrightarrow> (\<exists>a \<in> set as. al_status a = AS_OPEN \<and> alert_identity a = i)"

lemma open_alert_opens:
  assumes free: "collision_free ae I" and inv: "\<forall>a \<in> set as. alert_ok ae a" and c: "plain_condition c"
    and I: "alert_identity ` set as \<subseteq> I" "condition_identity c \<in> I" and o: "open_alert ae env c as = Inr (a, as')"
  shows "open_for as' (condition_identity c)" and "\<And>i. open_for as i \<Longrightarrow> open_for as' i"
    and "filter (\<lambda>a. al_type a \<noteq> cd_type c) as' = filter (\<lambda>a. al_type a \<noteq> cd_type c) as"
    and "\<forall>a \<in> set as'. alert_ok ae a" and "alert_identity ` set as' \<subseteq> I"
proof -
  from o obtain es where oi: "(a, as') = open_or_increment (new_alert env c (alert_key ae c (env_now env)) (JObj es)) as"
    by (rule open_alert_Inr)
  let ?n = "new_alert env c (alert_key ae c (env_now env)) (JObj es)"
  have n: "al_status ?n = AS_OPEN" "alert_identity ?n = condition_identity c" "al_type ?n = cd_type c"
    using new_alert_identity [OF c] by (simp_all add: new_alert_def)
  have key: "al_key ?n = alert_key ae c (env_now env)" by (simp add: new_alert_def)
  have id: "alert_identity b = condition_identity c" if "b \<in> set as" "al_key b = al_key ?n" for b
    using key_identity [OF free _ I(2) c] that inv I(1) unfolding key by blast
  have ty: "al_type b = cd_type c" if "b \<in> set as" "al_key b = al_key ?n" for b
    using id [OF that] by (simp add: alert_identity_def condition_identity_def)
  let ?g = "\<lambda>b. if al_key b = al_key ?n then incremented_alert ?n b else b"
  from oi have "open_for as' (condition_identity c) \<and> (\<forall>i. open_for as i \<longrightarrow> open_for as' i) \<and>
    filter (\<lambda>a. al_type a \<noteq> cd_type c) as' = filter (\<lambda>a. al_type a \<noteq> cd_type c) as \<and> (\<forall>a \<in> set as'. alert_ok ae a) \<and>
    alert_identity ` set as' \<subseteq> I"
  proof (cases rule: open_or_increment_cases)
    case new
    with n inv I new_alert_ok [OF c] show ?thesis by (auto simp: open_for_def)
  next
    case (known a0)
    have "open_for as' (condition_identity c)"
      unfolding open_for_def known(4) using known(1,2) id by (intro bexI [of _ "?g a0"]) auto
    moreover have "open_for as' i" if "open_for as i" for i
    proof -
      from that obtain b where "b \<in> set as" "al_status b = AS_OPEN" "alert_identity b = i" by (auto simp: open_for_def)
      then show ?thesis unfolding open_for_def known(4) by (intro bexI [of _ "?g b"]) auto
    qed
    moreover have "filter (\<lambda>a. al_type a \<noteq> cd_type c) (map ?g bs) = filter (\<lambda>a. al_type a \<noteq> cd_type c) bs"
      if "set bs \<subseteq> set as" for bs
      using that ty by (induction bs) auto
    moreover have "\<forall>a \<in> set as'. alert_ok ae a" using inv known(4) by (auto simp: incremented_ok)
    moreover have "alert_identity ` set as' \<subseteq> I" using I(1) known(4) by auto
    ultimately show ?thesis using known(4) by blast
  qed
  then show "open_for as' (condition_identity c)" and "\<And>i. open_for as i \<Longrightarrow> open_for as' i"
    and "filter (\<lambda>a. al_type a \<noteq> cd_type c) as' = filter (\<lambda>a. al_type a \<noteq> cd_type c) as"
    and "\<forall>a \<in> set as'. alert_ok ae a" and "alert_identity ` set as' \<subseteq> I"
    by blast+
qed

lemma open_alert_succeeds: "plain_condition c \<Longrightarrow> \<exists>a as'. open_alert ae env c as = Inr (a, as')"
  by (auto simp: open_alert_def plain_condition_def)

lemma open_all_opens:
  assumes "collision_free ae I" and "\<forall>a \<in> set as. alert_ok ae a" and "\<forall>c \<in> set cs. plain_condition c"
    and "cd_type ` set cs \<subseteq> T" and "alert_identity ` set as \<subseteq> I" and "condition_identity ` set cs \<subseteq> I"
  shows "\<exists>as'. open_all ae envs cs as = (Inr (), as') \<and>
    (\<forall>i \<in> condition_identity ` set cs. open_for as' i) \<and> (\<forall>i. open_for as i \<longrightarrow> open_for as' i) \<and>
    filter (\<lambda>a. al_type a \<notin> T) as' = filter (\<lambda>a. al_type a \<notin> T) as"
  using assms
proof (induction cs arbitrary: as)
  case (Cons c cs)
  then have c: "plain_condition c" and T: "cd_type c \<in> T" and I: "condition_identity c \<in> I" by auto
  obtain a as1 where o: "open_alert ae (envs (length cs)) c as = Inr (a, as1)" using open_alert_succeeds [OF c] by blast
  note opened = open_alert_opens [OF Cons.prems(1,2) c Cons.prems(5) I o]
  have "filter (\<lambda>a. al_type a \<notin> T) xs = filter (\<lambda>a. al_type a \<notin> T) (filter (\<lambda>a. al_type a \<noteq> cd_type c) xs)" for xs
    using T by (induction xs) auto
  with opened(3) have unmanaged: "filter (\<lambda>a. al_type a \<notin> T) as1 = filter (\<lambda>a. al_type a \<notin> T) as" by metis
  from Cons.prems have "\<forall>c \<in> set cs. plain_condition c" "cd_type ` set cs \<subseteq> T" "condition_identity ` set cs \<subseteq> I" by auto
  from Cons.IH [OF Cons.prems(1) opened(4) this(1,2) opened(5) this(3)] obtain as' where
    as': "open_all ae envs cs as1 = (Inr (), as')" "\<forall>i \<in> condition_identity ` set cs. open_for as' i"
      "\<forall>i. open_for as1 i \<longrightarrow> open_for as' i" "filter (\<lambda>a. al_type a \<notin> T) as' = filter (\<lambda>a. al_type a \<notin> T) as1"
    by blast
  then show ?case using o opened(1,2) unmanaged by (simp del: split_paired_All)
qed simp

lemma conditions_plain: "c \<in> set (conditions batch backlog n db) \<Longrightarrow> plain_condition c \<and> cd_type c \<in> managed_types"
proof -
  have u: "list_all is_token_char (uuid_str k)" for k using uuid_str_token by (simp add: list_all_iff)
  assume "c \<in> set (conditions batch backlog n db)"
  then show ?thesis
    by (auto simp: conditions_def dead_job_condition_def failed_action_condition_def system_condition_def
        plain_condition_def managed_types_def u is_token_char_def split: if_splits)
qed

lemma reconciliation_exact_facts:
  assumes "alert_history ae as"
    and cs_def: "cs = conditions batch backlog (nat (min (max limit 1) 500)) db"
    and "collision_free ae (alert_identity ` set as \<union> condition_identity ` set cs)"
  shows "\<exists>n as'. reconcile_alerts ae envs locked now batch backlog limit db as = (Inr (length cs, n), as') \<and>
    (\<forall>c \<in> set cs. open_for as' (condition_identity c)) \<and>
    (\<forall>a \<in> set as'. active_alert a \<longrightarrow> al_type a \<in> managed_types \<longrightarrow> \<not> locked (al_id a) \<longrightarrow>
       alert_identity a \<in> condition_identity ` set cs) \<and>
    filter (\<lambda>a. al_type a \<notin> managed_types) as' = filter (\<lambda>a. al_type a \<notin> managed_types) as"
proof -
  have ok: "\<forall>a \<in> set as. alert_ok ae a" using alert_history_inv [OF assms(1)] by (simp add: alerts_inv_def)
  have cs: "\<forall>c \<in> set cs. plain_condition c" "cd_type ` set cs \<subseteq> managed_types"
    using conditions_plain unfolding cs_def by blast+
  from open_all_opens [OF assms(3) ok cs] obtain as1 where
    o: "open_all ae envs cs as = (Inr (), as1)" "\<forall>i \<in> condition_identity ` set cs. open_for as1 i"
      "filter (\<lambda>a. al_type a \<notin> managed_types) as1 = filter (\<lambda>a. al_type a \<notin> managed_types) as"
    by blast
  let ?I = "set (map condition_identity cs)"
  let ?g = "\<lambda>a. if \<not> locked (al_id a) \<and> cleared managed_types ?I a then resolved_alert now ''alert-reconciler'' a else a"
  define as2 where "as2 = map ?g as1"
  have opened: "open_for as2 i" if i: "i \<in> ?I" for i
  proof -
    from o(2) i obtain a where a: "a \<in> set as1" "al_status a = AS_OPEN" "alert_identity a = i" by (auto simp: open_for_def)
    then have "?g a = a" using i by (simp add: cleared_def)
    with a show ?thesis unfolding open_for_def as2_def by (intro bexI [of _ a]) (auto intro: rev_image_eqI)
  qed
  have managed: "alert_identity a \<in> ?I"
    if "a \<in> set as2" "active_alert a" "al_type a \<in> managed_types" "\<not> locked (al_id a)" for a
    using that by (auto simp: as2_def cleared_def active_alert_def split: if_splits)
  have "filter (\<lambda>a. al_type a \<notin> managed_types) as2 = filter (\<lambda>a. al_type a \<notin> managed_types) as1"
    unfolding as2_def by (induction as1) (auto simp: cleared_def)
  then have rest: "filter (\<lambda>a. al_type a \<notin> managed_types) as2 = filter (\<lambda>a. al_type a \<notin> managed_types) as"
    using o(3) by simp
  obtain n where r: "reconcile_alerts ae envs locked now batch backlog limit db as = (Inr (length cs, n), as2)"
    using o(1) by (simp add: reconcile_alerts_def resolve_cleared_def as2_def Let_def flip: cs_def)
  show ?thesis
  proof (intro exI conjI ballI impI)
    show "open_for as2 (condition_identity c)" if "c \<in> set cs" for c using opened that by simp
    show "alert_identity a \<in> condition_identity ` set cs"
      if "a \<in> set as2" "active_alert a" "al_type a \<in> managed_types" "\<not> locked (al_id a)" for a
      using managed [OF that] by simp
  qed (rule r, rule rest)
qed

text \<open>C32. A reconciliation that runs without others writing alerts between its transactions succeeds, in
  every history, if the hash keeps apart the keys of the subjects there are alerts or conditions for.
  After it every condition it found has an open alert, an active alert of a managed type has its
  condition among those found unless its row was locked by another transaction at the moment of
  clearing (such rows are skipped), and the alerts of the other types are as they were.\<close>

theorem reconciliation_exact:
  assumes "alert_history ae as"
    and cs_def: "cs = conditions batch backlog (nat (min (max limit 1) 500)) db"
    and "collision_free ae (alert_identity ` set as \<union> condition_identity ` set cs)"
  shows "\<exists>n as'. reconcile_alerts ae envs locked now batch backlog limit db as = (Inr (length cs, n), as') \<and>
    (\<forall>c \<in> set cs. open_for as' (condition_identity c)) \<and>
    (\<forall>a \<in> set as'. active_alert a \<longrightarrow> al_type a \<in> managed_types \<longrightarrow> \<not> locked (al_id a) \<longrightarrow>
       alert_identity a \<in> condition_identity ` set cs) \<and>
    filter (\<lambda>a. al_type a \<notin> managed_types) as' = filter (\<lambda>a. al_type a \<notin> managed_types) as"
  by (rule reconciliation_exact_facts [OF assms])

lemma dead_condition:
  "c \<in> set (conditions batch backlog n db) \<Longrightarrow> cd_type c = AT_JOB_DEAD_LETTER \<Longrightarrow>
   cd_resource_id c \<in> (\<lambda>j. uuid_str (job_id j)) ` set (dead_jobs n db)"
  by (auto simp: conditions_def dead_job_condition_def failed_action_condition_def system_condition_def split: if_splits)

text \<open>The limit of a reconciliation is also one on what stays open: however many jobs are dead letters, at
  most \<open>limit\<close> of them keep an active alert that is not locked, and the alerts of the others are resolved.\<close>

lemma dead_letter_alerts_capped:
  assumes "alert_history ae as"
    and "collision_free ae (alert_identity ` set as \<union>
      condition_identity ` set (conditions batch backlog (nat (min (max limit 1) 500)) db))"
    and r: "reconcile_alerts ae envs locked now batch backlog limit db as = (Inr (m, n), as')"
  shows "card {al_resource_id a | a. a \<in> set as' \<and> active_alert a \<and> al_type a = AT_JOB_DEAD_LETTER \<and>
      \<not> locked (al_id a)} \<le> nat (min (max limit 1) 500)"
proof -
  let ?n = "nat (min (max limit 1) 500)"
  let ?cs = "conditions batch backlog ?n db" and ?ids = "(\<lambda>j. uuid_str (job_id j)) ` set (dead_jobs ?n db)"
  from reconciliation_exact_facts [OF assms(1) refl assms(2), where envs = envs and now = now and locked = locked] r
  have facts: "\<forall>a \<in> set as'. active_alert a \<longrightarrow> al_type a \<in> managed_types \<longrightarrow> \<not> locked (al_id a) \<longrightarrow>
      alert_identity a \<in> condition_identity ` set ?cs"
    by auto
  have dead: "al_resource_id a \<in> ?ids" if "a \<in> set as'" "active_alert a" "al_type a = AT_JOB_DEAD_LETTER" "\<not> locked (al_id a)" for a
  proof -
    have "al_type a \<in> managed_types" using that(3) by (simp add: managed_types_def)
    with facts that obtain c where "c \<in> set ?cs" "alert_identity a = condition_identity c" by auto
    then show ?thesis using dead_condition that(3) by (auto simp: alert_identity_def condition_identity_def)
  qed
  have "{al_resource_id a | a. a \<in> set as' \<and> active_alert a \<and> al_type a = AT_JOB_DEAD_LETTER \<and> \<not> locked (al_id a)} \<subseteq> ?ids"
    using dead by blast
  then have "card {al_resource_id a | a. a \<in> set as' \<and> active_alert a \<and> al_type a = AT_JOB_DEAD_LETTER \<and> \<not> locked (al_id a)} \<le> card ?ids"
    by (rule card_mono [rotated]) simp
  also have "\<dots> \<le> card (set (dead_jobs ?n db))" by (rule card_image_le) simp
  also have "\<dots> \<le> length (dead_jobs ?n db)" by (rule card_length)
  also have "\<dots> \<le> ?n" by (simp add: dead_jobs_def)
  finally show ?thesis .
qed

subsection \<open>An example\<close>

definition ex_alert_env :: alert_env where
  "ex_alert_env = \<lparr>ae_hashing = \<lparr>sha256_hex = (\<lambda>s. s), json_dumps = (\<lambda>j. [])\<rparr>, ae_hour = (\<lambda>_. ''2024010100'')\<rparr>"

definition quiet_env :: call_env where
  "quiet_env = \<lparr>env_now = 0, env_context = Map.empty, env_row_id = 1, env_correlation = 2\<rparr>"

definition outbox_condition :: alert_condition where
  "outbox_condition = system_condition AT_OUTBOX_BACKLOG SV_HIGH ''outbox'' ''Outbox'' 7"

lemma ex_collision_free: "collision_free ex_alert_env I"
  by (simp add: collision_free_def ex_alert_env_def inj_on_def)

lemma ex_alert_history: "\<exists>a. alert_history ex_alert_env [a] \<and> al_status a = AS_OPEN \<and> al_type a = AT_OUTBOX_BACKLOG"
proof -
  have c: "plain_condition outbox_condition"
    by (simp add: outbox_condition_def system_condition_def plain_condition_def is_token_char_def)
  then obtain a as' where o: "open_alert ex_alert_env quiet_env outbox_condition [] = Inr (a, as')"
    using open_alert_succeeds by blast
  from o obtain es where oi: "(a, as') =
      open_or_increment (new_alert quiet_env outbox_condition (alert_key ex_alert_env outbox_condition (env_now quiet_env)) (JObj es)) []"
    by (rule open_alert_Inr)
  then have a: "as' = [a]" "al_status a = AS_OPEN" "al_type a = AT_OUTBOX_BACKLOG"
    by (simp_all add: open_or_increment_def new_alert_def outbox_condition_def system_condition_def)
  have "alert_history ex_alert_env as'" by (rule AH_step [OF AH_empty AS_open [OF c _ o]]) simp
  with a show ?thesis by auto
qed

lemma alerts_well_formed_witness:
  "\<exists>a. al_status a = AS_OPEN \<and> distinct (map al_id [a]) \<and> distinct (map al_key [a]) \<and> (\<forall>b \<in> set [a]. alert_ok ex_alert_env b)"
proof -
  obtain a where "alert_history ex_alert_env [a]" and a: "al_status a = AS_OPEN" using ex_alert_history by blast
  from alerts_well_formed [OF this(1)] a show ?thesis by (intro exI [of _ a]) simp
qed

text \<open>The outbox has recovered: its alert is resolved, unless someone else has it locked.\<close>

lemma reconciliation_exact_witness:
  "\<exists>a n as'. al_status a = AS_OPEN \<and>
     reconcile_alerts ex_alert_env (\<lambda>_. quiet_env) (\<lambda>k. k \<noteq> al_id a) 5 10 100 50 empty_platform [a] = (Inr (0, n), as') \<and>
     (\<forall>b \<in> set as'. al_type b \<in> managed_types \<longrightarrow> al_id b = al_id a \<longrightarrow> \<not> active_alert b)"
proof -
  obtain a where h: "alert_history ex_alert_env [a]" and a: "al_status a = AS_OPEN" using ex_alert_history by blast
  have "[] = conditions 10 100 (nat (min (max 50 1) 500)) empty_platform"
    by (simp add: conditions_def dead_jobs_def failed_actions_def memory_backlog_def queue_backlog_def
        outbox_backlog_def latest_first_def empty_platform_def no_rows_def)
  from reconciliation_exact [OF h this ex_collision_free, of "\<lambda>_. quiet_env" "\<lambda>k. k \<noteq> al_id a" 5]
  obtain n as' where "reconcile_alerts ex_alert_env (\<lambda>_. quiet_env) (\<lambda>k. k \<noteq> al_id a) 5 10 100 50 empty_platform [a]
      = (Inr (0, n), as')"
    and "\<forall>b \<in> set as'. active_alert b \<longrightarrow> al_type b \<in> managed_types \<longrightarrow> \<not> al_id b \<noteq> al_id a \<longrightarrow>
      alert_identity b \<in> condition_identity ` set []"
    by auto
  with a show ?thesis by (intro exI [of _ a] exI [of _ n] exI [of _ as']) auto
qed

end
