(* ===== verification/Csv.thy ===== *)
theory Csv
  imports Py_Values Errors
begin

text \<open>
  The reader of Python's \<open>csv\<close> module with its default dialect, as \<open>DictReader\<close> uses it: the states
  of its parser, fed with the lines of a text opened with \<open>newline=""\<close> and with the end of each
  line (\<open>None\<close>).
\<close>

datatype csv_state = Start_Record | Start_Field | In_Field | In_Quoted | Quote_In_Quoted | Eat_Crnl

record csv_parse =
  cp_state :: csv_state
  cp_field :: string
  cp_fields :: "string list"

definition csv_start :: csv_parse where
  "csv_start = \<lparr>cp_state = Start_Record, cp_field = [], cp_fields = []\<rparr>"

definition csv_error :: "string \<Rightarrow> exn" where
  "csv_error m = Exn (PyE OtherException) m"

definition is_newline :: "char \<Rightarrow> bool" where
  "is_newline c \<longleftrightarrow> (of_char c :: nat) = 10 \<or> (of_char c :: nat) = 13"

definition csv_save :: "csv_state \<Rightarrow> csv_parse \<Rightarrow> csv_parse" where
  "csv_save s p = p\<lparr>cp_state := s, cp_fields := cp_fields p @ [cp_field p], cp_field := []\<rparr>"

definition csv_add :: "char \<Rightarrow> csv_state \<Rightarrow> csv_parse \<Rightarrow> (exn, csv_parse) res" where
  "csv_add c s p =
     (if 131072 \<le> length (cp_field p) then Inl (csv_error ''field larger than field limit (131072)'')
      else Inr (p\<lparr>cp_state := s, cp_field := cp_field p @ [c]\<rparr>))"

definition csv_field_start :: "char option \<Rightarrow> csv_parse \<Rightarrow> (exn, csv_parse) res" where
  "csv_field_start c p =
     (case c of
        None \<Rightarrow> Inr (csv_save Start_Record p)
      | Some x \<Rightarrow>
          if is_newline x then Inr (csv_save Eat_Crnl p)
          else if x = CHR 0x22 then Inr (p\<lparr>cp_state := In_Quoted\<rparr>)
          else if x = CHR '','' then Inr (csv_save Start_Field p)
          else csv_add x In_Field p)"

definition csv_step :: "char option \<Rightarrow> csv_parse \<Rightarrow> (exn, csv_parse) res" where
  "csv_step c p =
     (case cp_state p of
        Start_Record \<Rightarrow> (case c of
            None \<Rightarrow> Inr p
          | Some x \<Rightarrow> if is_newline x then Inr (p\<lparr>cp_state := Eat_Crnl\<rparr>) else csv_field_start c p)
      | Start_Field \<Rightarrow> csv_field_start c p
      | In_Field \<Rightarrow> (case c of
            None \<Rightarrow> Inr (csv_save Start_Record p)
          | Some x \<Rightarrow> if is_newline x then Inr (csv_save Eat_Crnl p)
              else if x = CHR '','' then Inr (csv_save Start_Field p) else csv_add x In_Field p)
      | In_Quoted \<Rightarrow> (case c of
            None \<Rightarrow> Inr p
          | Some x \<Rightarrow> if x = CHR 0x22 then Inr (p\<lparr>cp_state := Quote_In_Quoted\<rparr>) else csv_add x In_Quoted p)
      | Quote_In_Quoted \<Rightarrow> (case c of
            None \<Rightarrow> Inr (csv_save Start_Record p)
          | Some x \<Rightarrow> if x = CHR 0x22 then csv_add x In_Quoted p
              else if x = CHR '','' then Inr (csv_save Start_Field p)
              else if is_newline x then Inr (csv_save Eat_Crnl p) else csv_add x In_Field p)
      | Eat_Crnl \<Rightarrow> (case c of
            None \<Rightarrow> Inr (p\<lparr>cp_state := Start_Record\<rparr>)
          | Some x \<Rightarrow> if is_newline x then Inr p
              else Inl (csv_error ''new-line character seen in unquoted field'')))"

fun csv_line :: "string \<Rightarrow> csv_parse \<Rightarrow> (exn, csv_parse) res" where
  "csv_line [] p = csv_step None p"
| "csv_line (c # s) p = and_then (csv_step (Some c) p) (csv_line s)"

text \<open>The lines of the text, each with its end.\<close>

fun csv_lines :: "string \<Rightarrow> string \<Rightarrow> string list" where
  "csv_lines cur [] = (if cur = [] then [] else [cur])"
| "csv_lines cur (c # s) =
     (if (of_char c :: nat) = 10 then (cur @ [c]) # csv_lines [] s
      else if (of_char c :: nat) = 13 then
        (case s of
           [] \<Rightarrow> [cur @ [c]]
         | d # s' \<Rightarrow> if (of_char d :: nat) = 10 then (cur @ [c, d]) # csv_lines [] s'
             else (cur @ [c]) # csv_lines [] s)
      else csv_lines (cur @ [c]) s)"

text \<open>The records, in the order they are read; an error ends the reading.\<close>

fun csv_records :: "csv_parse \<Rightarrow> string list \<Rightarrow> (exn, string list) res list" where
  "csv_records p [] =
     (if cp_field p \<noteq> [] \<or> cp_state p = In_Quoted then [Inr (cp_fields p @ [cp_field p])] else [])"
| "csv_records p (l # ls) =
     (case csv_line l p of
        Inl e \<Rightarrow> [Inl e]
      | Inr p' \<Rightarrow>
          if cp_state p' = Start_Record then Inr (cp_fields p') # csv_records csv_start ls
          else csv_records p' ls)"

definition csv_read :: "string \<Rightarrow> (exn, string list) res list" where
  "csv_read text = csv_records csv_start (csv_lines [] text)"

lemma csv_read_example:
  "csv_read (''a,b'' @ [CHR 0x0A] @ ''1,'' @ [CHR 0x22] @ ''x,'' @ [CHR 0x22, CHR 0x22, CHR 0x22, CHR 0x0A, CHR 0x0A] @ ''2'') =
     [Inr [''a'', ''b''], Inr [''1'', ''x,'' @ [CHR 0x22]], Inr [], Inr [''2'']]"
  by (simp add: csv_read_def csv_start_def csv_step_def csv_field_start_def csv_save_def csv_add_def is_newline_def
      and_then_def)

end
