(* ===== verification/Data_Analysis.thy ===== *)
theory Data_Analysis
  imports Csv Business_Impact LLM_Clients
begin

text \<open>
  The analysis of an uploaded table (\<open>app/applied_workflows/data_analysis/processor.py\<close>, the report of
  \<open>app/schemas/data_analysis.py\<close>). Sums, quotients and deviations are exact; the code rounds a
  decimal to 28 digits and takes means and deviations of floats. A cell may spell an infinity or
  NaN, which \<open>Decimal\<close> accepts: how the analysis of such a table ends is an argument.
\<close>

definition supported_columns :: "string list" where
  "supported_columns = [''date'', ''platform'', ''country'', ''campaign'', ''impressions'', ''clicks'', ''spend'',
     ''conversions'', ''retention'', ''sessions'', ''revenue'']"

text \<open>In the order \<open>sorted\<close> gives.\<close>

definition numeric_columns :: "string list" where
  "numeric_columns = [''clicks'', ''conversions'', ''impressions'', ''retention'', ''revenue'', ''sessions'', ''spend'']"

subsection \<open>Decimals\<close>

datatype decimal =
    Finite bool nat int     \<comment> \<open>sign, coefficient, exponent\<close>
  | Non_Finite string

definition split_sign :: "string \<Rightarrow> bool \<times> string" where
  "split_sign s = (case s of [] \<Rightarrow> (False, [])
     | c # r \<Rightarrow> if c = CHR ''-'' then (True, r) else if c = CHR ''+'' then (False, r) else (False, s))"

definition decimal_exponent :: "string \<Rightarrow> int option" where
  "decimal_exponent s =
     (case s of [] \<Rightarrow> Some 0
      | c # r \<Rightarrow> if lower [c] \<noteq> ''e'' then None
          else let (neg, ds) = split_sign r
               in if ds = [] \<or> \<not> list_all is_digit ds then None
                  else Some (if neg then - int (digits_value ds) else int (digits_value ds)))"

definition special_decimal :: "string \<Rightarrow> bool" where
  "special_decimal t \<longleftrightarrow>
     lower t \<in> {''inf'', ''infinity''} \<or>
     (is_prefix ''nan'' (lower t) \<and> list_all is_digit (drop 3 t)) \<or>
     (is_prefix ''snan'' (lower t) \<and> list_all is_digit (drop 4 t))"

text \<open>\<open>Decimal(text)\<close>.\<close>

definition decimal_of_text :: "string \<Rightarrow> decimal option" where
  "decimal_of_text v =
     (let s = filter (\<lambda>c. c \<noteq> CHR ''_'') (strip v);
          (neg, t) = split_sign s;
          whole = takeWhile is_digit t;
          r = dropWhile is_digit t;
          (fraction, r') = (case r of [] \<Rightarrow> ([], [])
             | c # q \<Rightarrow> if c = CHR ''.'' then (takeWhile is_digit q, dropWhile is_digit q) else ([], r))
      in if whole = [] \<and> fraction = [] then (if special_decimal t then Some (Non_Finite v) else None)
         else map_option (\<lambda>e. Finite neg (digits_value (whole @ fraction)) (e - int (length fraction)))
           (decimal_exponent r'))"

definition power_of_ten :: "int \<Rightarrow> rat" where
  "power_of_ten e = (if 0 \<le> e then 10 ^ nat e else 1 / 10 ^ nat (- e))"

definition decimal_value :: "decimal \<Rightarrow> rat" where
  "decimal_value d = (case d of Finite neg n e \<Rightarrow> (if neg then - 1 else 1) * of_nat n * power_of_ten e | Non_Finite _ \<Rightarrow> 0)"

text \<open>\<open>str(decimal)\<close>.\<close>

definition decimal_repr :: "decimal \<Rightarrow> string" where
  "decimal_repr d =
     (case d of
        Non_Finite s \<Rightarrow> s
      | Finite neg n e \<Rightarrow>
          (let ds = nat_text n;
               left = e + int (length ds);
               point = (if e \<le> 0 \<and> left > - 6 then left else 1);
               digits = (if point \<le> 0 then ''0.'' @ replicate (nat (- point)) CHR ''0'' @ ds
                 else if int (length ds) \<le> point then ds @ replicate (nat point - length ds) CHR ''0''
                 else take (nat point) ds @ ''.'' @ drop (nat point) ds);
               exponent = (if left = point then []
                 else ''E'' @ (if left < point then [] else ''+'') @ int_text (left - point))
           in (if neg then ''-'' else []) @ digits @ exponent))"

definition invalid_operation :: exn where
  "invalid_operation = Exn (PyE OtherException) ''InvalidOperation''"

text \<open>The quantization needs at most 28 digits.\<close>

definition decimal_string :: "rat \<Rightarrow> (exn, string) res" where
  "decimal_string x =
     (if 10 ^ 28 \<le> \<bar>quantize 6 x\<bar> * 10 ^ 6 then Inl invalid_operation
      else Inr ((if x < 0 then ''-'' else []) @ decimal_text 6 \<bar>quantize 6 x\<bar>))"

definition optional_decimal :: "rat option \<Rightarrow> (exn, json) res" where
  "optional_decimal v = (case v of None \<Rightarrow> Inr JNull | Some x \<Rightarrow> and_then (decimal_string x) (\<lambda>s. Inr (JStr s)))"

subsection \<open>Reading the table\<close>

type_synonym text_row = "(string \<times> string) list"

definition text_cells :: "string list \<Rightarrow> string list \<Rightarrow> text_row" where
  "text_cells columns values =
     map (\<lambda>(k, v). (k, strip v)) (zip columns values @ map (\<lambda>k. (k, [])) (drop (length values) columns))"

fun read_rows :: "int \<Rightarrow> string list \<Rightarrow> nat \<Rightarrow> (exn, string list) res list \<Rightarrow> (exn, text_row list) res" where
  "read_rows max_rows columns i [] = Inr []"
| "read_rows max_rows columns i (Inl e # rs) = Inl e"
| "read_rows max_rows columns i (Inr values # rs) =
     (if values = [] then read_rows max_rows columns i rs
      else and_then (require (int i < max_rows) (validation_error ''CSV row count exceeds the configured limit'')) (\<lambda>_.
        and_then (read_rows max_rows columns (i + 1) rs) (\<lambda>rows. Inr (text_cells columns values # rows))))"

record table_limits =
  tb_max_bytes :: int
  tb_max_columns :: int
  tb_max_rows :: int

definition ends_with :: "string \<Rightarrow> string \<Rightarrow> bool" where
  "ends_with suffix s \<longleftrightarrow> length suffix \<le> length s \<and> drop (length s - length suffix) s = suffix"

definition read_table ::
  "table_limits \<Rightarrow> (string \<Rightarrow> string option) \<Rightarrow> string \<Rightarrow> string \<Rightarrow> (exn, string list \<times> text_row list) res" where
  "read_table limits decode content filename =
     and_then (require (int (length content) \<le> tb_max_bytes limits) (validation_error ''CSV exceeds the configured size limit'')) (\<lambda>_.
     and_then (require (ends_with ''.csv'' (lower filename)) (validation_error ''Only CSV files are supported'')) (\<lambda>_.
     and_then (required (decode content) (validation_error ''CSV must be UTF-8 encoded'')) (\<lambda>text.
     case csv_read text of
       [] \<Rightarrow> Inl (validation_error ''CSV header is required'')
     | Inl e # _ \<Rightarrow> Inl e
     | Inr header # records \<Rightarrow>
         (let columns = map (\<lambda>c. lower (strip c)) header in
          and_then (require (distinct columns \<and> int (length columns) \<le> tb_max_columns limits)
            (validation_error ''CSV columns are duplicated or exceed the configured limit'')) (\<lambda>_.
          and_then (read_rows (tb_max_rows limits) columns 0 records) (\<lambda>rows.
          and_then (require (rows \<noteq> []) (validation_error ''CSV must contain at least one data row'')) (\<lambda>_.
          Inr (columns, rows))))))))"

datatype cell = Text_Cell string | No_Cell | Number decimal

type_synonym parsed_row = "(string \<times> cell) list"

definition numeric_error :: "string \<Rightarrow> nat \<Rightarrow> exn" where
  "numeric_error col row_number = validation_error
     (''Column '' @ col @ '' contains a non-numeric value at row '' @ nat_text row_number)"

text \<open>Of several columns with an error the code names any, the model the first.\<close>

fun numeric_row :: "text_row \<Rightarrow> nat \<Rightarrow> (exn, parsed_row) res" where
  "numeric_row [] row_number = Inr []"
| "numeric_row ((k, v) # cells) row_number =
     and_then (if k \<notin> set numeric_columns then Inr (Text_Cell v)
       else if v = [] then Inr No_Cell
       else map_sum id Number (required (decimal_of_text (filter (\<lambda>c. c \<noteq> CHR '','') v)) (numeric_error k row_number))) (\<lambda>x.
     and_then (numeric_row cells row_number) (\<lambda>xs. Inr ((k, x) # xs)))"

fun numeric_rows :: "nat \<Rightarrow> text_row list \<Rightarrow> (exn, parsed_row list) res" where
  "numeric_rows i [] = Inr []"
| "numeric_rows i (r # rs) =
     and_then (numeric_row r (i + 2)) (\<lambda>x. and_then (numeric_rows (i + 1) rs) (\<lambda>xs. Inr (x # xs)))"

definition non_finite_cell :: "string \<times> cell \<Rightarrow> bool" where
  "non_finite_cell kc = (case snd kc of Number (Non_Finite s) \<Rightarrow> True | _ \<Rightarrow> False)"

subsection \<open>Metrics\<close>

definition number_of :: "parsed_row \<Rightarrow> string \<Rightarrow> decimal option" where
  "number_of r col = (case map_of r col of Some (Number d) \<Rightarrow> Some d | _ \<Rightarrow> None)"

definition column_values :: "parsed_row list \<Rightarrow> string \<Rightarrow> rat list" where
  "column_values rows col = map decimal_value (List.map_filter (\<lambda>r. number_of r col) rows)"

definition column_sum :: "parsed_row list \<Rightarrow> string \<Rightarrow> rat option" where
  "column_sum rows col = (let vs = column_values rows col in if vs = [] then None else Some (sum_list vs))"

definition rate_of :: "rat option \<Rightarrow> rat option \<Rightarrow> (exn, json) res" where
  "rate_of numerator denominator =
     (case (numerator, denominator) of
        (Some n, Some d) \<Rightarrow> if d \<le> 0 then Inr JNull else optional_decimal (Some (n / d))
      | _ \<Rightarrow> Inr JNull)"

definition or_number :: "rat option \<Rightarrow> rat option \<Rightarrow> rat option" where
  "or_number a b = (if a = None \<or> a = Some 0 then b else a)"

fun named :: "(string \<times> (exn, json) res) list \<Rightarrow> (exn, (string \<times> json) list) res" where
  "named [] = Inr []"
| "named ((k, r) # rs) = and_then r (\<lambda>v. and_then (named rs) (\<lambda>es. Inr ((k, v) # es)))"

definition column_metrics :: "parsed_row list \<Rightarrow> (exn, (string \<times> json) list) res" where
  "column_metrics rows =
     (let impressions = column_sum rows ''impressions''; clicks = column_sum rows ''clicks'';
          spend = column_sum rows ''spend''; conversions = column_sum rows ''conversions'';
          sessions = column_sum rows ''sessions''; revenue = column_sum rows ''revenue'';
          retention = column_values rows ''retention''
      in named
       [(''rows'', Inr (JInt (int (length rows)))), (''impressions'', optional_decimal impressions),
        (''clicks'', optional_decimal clicks), (''spend'', optional_decimal spend),
        (''conversions'', optional_decimal conversions), (''revenue'', optional_decimal revenue),
        (''ctr'', rate_of clicks impressions), (''cpc'', rate_of spend clicks), (''cpa'', rate_of spend conversions),
        (''conversion_rate'', rate_of conversions (or_number clicks sessions)), (''roas'', rate_of revenue spend),
        (''retention_average'', optional_decimal
           (if retention = [] then None else Some (sum_list retention / of_nat (length retention))))])"

subsection \<open>Segments\<close>

definition segment_column :: "parsed_row list \<Rightarrow> string option" where
  "segment_column rows =
     (case rows of [] \<Rightarrow> None
      | r # _ \<Rightarrow> find (\<lambda>n. map_of r n \<noteq> None) [''platform'', ''country'', ''campaign''])"

definition segment_of :: "string \<Rightarrow> parsed_row \<Rightarrow> string" where
  "segment_of col r = (case map_of r col of Some (Text_Cell (c # s)) \<Rightarrow> c # s | _ \<Rightarrow> ''unknown'')"

definition segment_names :: "string \<Rightarrow> parsed_row list \<Rightarrow> string list" where
  "segment_names col rows = sort (remdups (map (segment_of col) rows))"

definition segment_rows :: "string \<Rightarrow> string \<Rightarrow> parsed_row list \<Rightarrow> parsed_row list" where
  "segment_rows col name rows = filter (\<lambda>r. segment_of col r = name) rows"

fun segment_entries :: "string \<Rightarrow> parsed_row list \<Rightarrow> string list \<Rightarrow> (exn, json list) res" where
  "segment_entries col rows [] = Inr []"
| "segment_entries col rows (name # names) =
     and_then (column_metrics (segment_rows col name rows)) (\<lambda>m.
     and_then (segment_entries col rows names) (\<lambda>es.
     Inr (JObj [(''segment_by'', JStr col), (''segment'', JStr name), (''metrics'', JObj m)] # es)))"

definition segments :: "parsed_row list \<Rightarrow> (exn, json list) res" where
  "segments rows = (case segment_column rows of None \<Rightarrow> Inr []
     | Some col \<Rightarrow> segment_entries col rows (segment_names col rows))"

subsection \<open>Anomalies\<close>

definition mean_of :: "rat list \<Rightarrow> rat" where
  "mean_of vs = sum_list vs / of_nat (length vs)"

definition variance_of :: "rat list \<Rightarrow> rat" where
  "variance_of vs = sum_list (map (\<lambda>v. (v - mean_of vs) ^ 2) vs) / of_nat (length vs)"

text \<open>Farther than two standard deviations from the mean, with both sides squared.\<close>

definition is_outlier :: "rat list \<Rightarrow> rat \<Rightarrow> bool" where
  "is_outlier vs x \<longleftrightarrow> 4 * variance_of vs < (x - mean_of vs) ^ 2"

definition anomaly_entry :: "string \<Rightarrow> nat \<times> decimal \<Rightarrow> json" where
  "anomaly_entry col p = JObj [(''row'', JInt (int (fst p + 2))), (''column'', JStr col),
     (''value'', JStr (decimal_repr (snd p))), (''method'', JStr ''zscore_gt_2'')]"

definition numbered_cells :: "parsed_row list \<Rightarrow> string \<Rightarrow> (nat \<times> decimal) list" where
  "numbered_cells rows col =
     List.map_filter (\<lambda>(i, r). map_option (Pair i) (number_of r col)) (enumerate 0 rows)"

definition column_outliers :: "parsed_row list \<Rightarrow> string \<Rightarrow> (nat \<times> decimal) list" where
  "column_outliers rows col =
     (let vs = column_values rows col
      in if length vs < 3 \<or> variance_of vs = 0 then []
         else filter (\<lambda>p. is_outlier vs (decimal_value (snd p))) (numbered_cells rows col))"

definition anomalies :: "parsed_row list \<Rightarrow> json list" where
  "anomalies rows =
     take 100 (concat (map (\<lambda>col. map (anomaly_entry col) (column_outliers rows col)) numeric_columns))"

subsection \<open>Trends\<close>

definition date_text :: "parsed_row \<Rightarrow> string" where
  "date_text r = (case map_of r ''date'' of Some (Text_Cell s) \<Rightarrow> s | _ \<Rightarrow> [])"

definition trend_entry :: "parsed_row list \<Rightarrow> string \<Rightarrow> (exn, json list) res" where
  "trend_entry ordered col =
     (let vs = List.map_filter (\<lambda>r. number_of r col) ordered
      in if length vs < 2 \<or> decimal_value (hd vs) = 0 then Inr []
         else and_then (decimal_string ((decimal_value (last vs) - decimal_value (hd vs)) / \<bar>decimal_value (hd vs)\<bar>)) (\<lambda>d.
           Inr [JObj [(''metric'', JStr col), (''first'', JStr (decimal_repr (hd vs))),
             (''last'', JStr (decimal_repr (last vs))), (''delta_rate'', JStr d)]]))"

fun trend_entries :: "parsed_row list \<Rightarrow> string list \<Rightarrow> (exn, json list) res" where
  "trend_entries ordered [] = Inr []"
| "trend_entries ordered (c # cs) =
     and_then (trend_entry ordered c) (\<lambda>a. and_then (trend_entries ordered cs) (\<lambda>b. Inr (a @ b)))"

definition trends :: "parsed_row list \<Rightarrow> (exn, json list) res" where
  "trends rows =
     (case rows of [] \<Rightarrow> Inr []
      | r # _ \<Rightarrow> if map_of r ''date'' = None then Inr [] else trend_entries (sort_key date_text rows) numeric_columns)"

subsection \<open>The report\<close>

definition safe_cell :: "string \<Rightarrow> string" where
  "safe_cell v = (case v of [] \<Rightarrow> []
     | c # s \<Rightarrow> if c \<in> {CHR ''='', CHR ''+'', CHR ''-'', CHR ''@''} then CHR 0x27 # v else take 500 v)"

record data_quality =
  dq_row_count :: nat
  dq_column_count :: nat
  dq_columns :: "string list"
  dq_missing_value_rate :: string
  dq_duplicate_row_count :: nat
  dq_unsupported_columns :: "string list"
  dq_preview :: "text_row list"

definition missing_values :: "text_row list \<Rightarrow> nat" where
  "missing_values rows = length (filter (\<lambda>kv. snd kv = []) (concat rows))"

definition data_quality_of :: "string list \<Rightarrow> text_row list \<Rightarrow> (exn, data_quality) res" where
  "data_quality_of columns rows =
     and_then (decimal_string (of_nat (missing_values rows) / of_nat (max (length rows * length columns) 1))) (\<lambda>missing.
     Inr \<lparr>dq_row_count = length rows, dq_column_count = length columns, dq_columns = columns,
          dq_missing_value_rate = missing, dq_duplicate_row_count = length rows - length (remdups rows),
          dq_unsupported_columns = sort (filter (\<lambda>c. c \<notin> set supported_columns) columns),
          dq_preview = map (map (\<lambda>(k, v). (k, safe_cell v))) (take 5 rows)\<rparr>)"

record analysis_report =
  dr_quality :: data_quality
  dr_metrics :: "(string \<times> json) list"
  dr_segments :: "json list"
  dr_anomalies :: "json list"
  dr_trends :: "json list"
  dr_explanation :: string
  dr_generated_at :: time

definition explanation_request ::
  "formatting \<Rightarrow> (json \<Rightarrow> string) \<Rightarrow> string option \<Rightarrow> version_row \<Rightarrow> (string \<times> json) list \<Rightarrow> json list \<Rightarrow> json list \<Rightarrow>
   (exn, completion_request) res" where
  "explanation_request fm text_of_value model v metrics anomalous trending =
     and_then (render_version fm [(''metrics'', text_of_value (JObj [(''metrics'', JObj metrics),
       (''anomalies'', JList (take 10 anomalous)), (''trends'', JList (take 10 trending))]))] v) (\<lambda>user.
     make_completion_request ((plain_request (pv_system_prompt v) user (or_str model ''mock-applied-ai'') [])
       \<lparr>rq_max_output_tokens := 800\<rparr>))"

text \<open>What the analysis finds around it.\<close>

record analysis_world =
  aw_limits :: table_limits
  aw_model :: "string option"
  aw_formatting :: formatting
  aw_str :: "json \<Rightarrow> string"
  aw_decode :: "string \<Rightarrow> string option"
  aw_client :: llm_client
  aw_now :: time
  aw_non_finite :: "parsed_row list \<Rightarrow> (exn, analysis_report) res"

definition analyze_rows ::
  "analysis_world \<Rightarrow> version_row \<Rightarrow> string list \<Rightarrow> text_row list \<Rightarrow> parsed_row list \<Rightarrow> (exn, analysis_report) res" where
  "analyze_rows w v columns rows parsed =
     and_then (column_metrics parsed) (\<lambda>metrics.
     and_then (segments parsed) (\<lambda>segs.
     and_then (trends parsed) (\<lambda>trending.
     and_then (data_quality_of columns rows) (\<lambda>quality.
     and_then (explanation_request (aw_formatting w) (aw_str w) (aw_model w) v metrics (anomalies parsed) trending) (\<lambda>r.
     and_then (cl_complete (aw_client w) r) (\<lambda>completion.
     Inr \<lparr>dr_quality = quality, dr_metrics = metrics, dr_segments = segs, dr_anomalies = anomalies parsed,
          dr_trends = trending, dr_explanation = take 5000
            (or_str (nc_content completion) ''Deterministic metrics were computed successfully.''),
          dr_generated_at = aw_now w\<rparr>))))))"

definition analyze_csv :: "analysis_world \<Rightarrow> version_row \<Rightarrow> string \<Rightarrow> string \<Rightarrow> (exn, analysis_report) res" where
  "analyze_csv w v content filename =
     and_then (read_table (aw_limits w) (aw_decode w) content filename) (\<lambda>(columns, rows).
     and_then (numeric_rows 0 rows) (\<lambda>parsed.
     if list_ex (list_ex non_finite_cell) parsed then aw_non_finite w parsed
     else analyze_rows w v columns rows parsed))"

definition recommendations :: "string list" where
  "recommendations = [''Review flagged anomalies with the campaign owner.'',
     ''Validate source completeness before making budget changes.'']"

definition limitations :: "string list" where
  "limitations = [''Metrics are limited to columns present in the uploaded CSV.'',
     ''Anomalies are statistical indicators and require human validation.'']"

definition text_list :: "string list \<Rightarrow> json" where
  "text_list ss = JList (map JStr ss)"

definition dump_quality :: "data_quality \<Rightarrow> json" where
  "dump_quality q = JObj
     [(''row_count'', JInt (int (dq_row_count q))), (''column_count'', JInt (int (dq_column_count q))),
      (''columns'', text_list (dq_columns q)), (''missing_value_rate'', JStr (dq_missing_value_rate q)),
      (''duplicate_row_count'', JInt (int (dq_duplicate_row_count q))),
      (''unsupported_columns'', text_list (dq_unsupported_columns q)),
      (''preview'', JList (map (\<lambda>r. JObj (map (\<lambda>(k, v). (k, JStr v)) r)) (dq_preview q)))]"

definition dump_report :: "(time \<Rightarrow> string) \<Rightarrow> analysis_report \<Rightarrow> json" where
  "dump_report isoformat r = JObj
     [(''data_quality'', dump_quality (dr_quality r)), (''summary_metrics'', JObj (dr_metrics r)),
      (''segment_performance'', JList (dr_segments r)), (''anomalies'', JList (dr_anomalies r)),
      (''trends'', JList (dr_trends r)), (''explanation'', JStr (dr_explanation r)),
      (''recommendations'', text_list recommendations), (''limitations'', text_list limitations),
      (''generated_at'', JStr (isoformat (dr_generated_at r)))]"

end
