(* ===== verification/Data_Properties.thy ===== *)
theory Data_Properties
  imports Data_Analysis
begin

text \<open>
  The properties of the analysis of tables: the shape of what is read, the quality report and its
  preview, the partition of the rows into segments, and the bound on the flagged values.
\<close>

subsection \<open>The table\<close>












subsection \<open>Segments\<close>






subsection \<open>Anomalies\<close>

lemma sum_squares_ge:
  assumes "\<forall>x \<in> set xs. P x \<longrightarrow> c < (f x :: rat)" and "\<forall>x \<in> set xs. 0 \<le> f x" and "filter P xs \<noteq> []"
  shows "of_nat (length (filter P xs)) * c < sum_list (map f xs)"
  using assms
proof (induction xs)
  case (Cons x xs)
  have nonneg: "0 \<le> sum_list (map f xs)" using Cons.prems(2) by (intro sum_list_nonneg) auto
  show ?case
  proof (cases "filter P xs = []")
    case True
    with Cons.prems nonneg show ?thesis by auto
  next
    case False
    with Cons have "of_nat (length (filter P xs)) * c < sum_list (map f xs)" by auto
    then show ?thesis using Cons.prems by (auto simp: algebra_simps intro: add_strict_mono add_nonneg_pos
          order.strict_trans2) 
  qed
qed simp

lemma numbered_values:
  "map snd (List.map_filter (\<lambda>(i, r). map_option (Pair i) (number_of r c)) (enumerate n rows)) =
   List.map_filter (\<lambda>r. number_of r c) rows"
  by (induction rows arbitrary: n) (auto simp: map_filter_simps split: option.splits)

lemma column_values_numbered: "column_values rows c = map (decimal_value \<circ> snd) (numbered_cells rows c)"
  using numbered_values [of c 0 rows] by (simp add: column_values_def numbered_cells_def flip: map_map)

lemma variance_nonneg: "0 \<le> variance_of vs"
  unfolding variance_of_def by (intro divide_nonneg_nonneg sum_list_nonneg) auto

lemma outlier_count:
  assumes "vs \<noteq> []" and "variance_of vs \<noteq> 0" and some: "filter (is_outlier vs) vs \<noteq> []"
  shows "4 * length (filter (is_outlier vs) vs) < length vs"
proof -
  let ?v = "variance_of vs" and ?k = "length (filter (is_outlier vs) vs)"
  have v: "0 < ?v" using assms(2) variance_nonneg [of vs] by simp
  have "of_nat ?k * (4 * ?v) < sum_list (map (\<lambda>x. (x - mean_of vs) ^ 2) vs)"
    by (rule sum_squares_ge [OF _ _ some]) (auto simp: is_outlier_def)
  also have "\<dots> = of_nat (length vs) * ?v" using assms(1) by (simp add: variance_of_def)
  finally have "of_nat (4 * ?k) * ?v < of_nat (length vs) * ?v" by (simp add: algebra_simps)
  then have "of_nat (4 * ?k) < (of_nat (length vs) :: rat)" using v by (simp only: mult_less_cancel_right_pos)
  then show ?thesis by (simp only: of_nat_less_iff)
qed

lemma numbered_cellsD:
  "(i, d) \<in> set (numbered_cells rows c) \<Longrightarrow> i < length rows \<and> number_of (rows ! i) c = Some d"
  by (auto simp: numbered_cells_def map_filter_def in_set_enumerate_eq)

text \<open>Every flagged value is that of a numeric cell of the row it names, and by Chebyshev's inequality
  fewer than a quarter of the values of a column are flagged; the report has at most 100.\<close>

theorem flagged_values_bounded:
  "(\<forall>(i, d) \<in> set (column_outliers rows c). i < length rows \<and> number_of (rows ! i) c = Some d) \<and>
   (column_outliers rows c = [] \<or> 4 * length (column_outliers rows c) < length (column_values rows c)) \<and>
   length (anomalies rows) \<le> 100"
proof -
  let ?vs = "column_values rows c"
  have sub: "set (column_outliers rows c) \<subseteq> set (numbered_cells rows c)" by (auto simp: column_outliers_def Let_def)
  have "4 * length (column_outliers rows c) < length ?vs" if "column_outliers rows c \<noteq> []"
  proof -
    have eq: "length (column_outliers rows c) = length (filter (is_outlier ?vs) ?vs)" and v: "variance_of ?vs \<noteq> 0"
      using that by (auto simp: column_outliers_def Let_def column_values_numbered filter_map comp_def split: if_splits)
    then have some: "filter (is_outlier ?vs) ?vs \<noteq> []" using that by (metis length_0_conv)
    then have "?vs \<noteq> []" by auto
    from outlier_count [OF this v some] eq show ?thesis by simp
  qed
  moreover have "length (anomalies rows) \<le> 100" by (simp add: anomalies_def)
  moreover have "\<forall>(i, d) \<in> set (column_outliers rows c). i < length rows \<and> number_of (rows ! i) c = Some d"
    using sub numbered_cellsD by fastforce
  ultimately show ?thesis by blast
qed

subsection \<open>An example\<close>

definition ex_limits :: table_limits where
  "ex_limits = \<lparr>tb_max_bytes = 1000, tb_max_columns = 10, tb_max_rows = 10\<rparr>"









definition skewed_rows :: "parsed_row list" where
  "skewed_rows = map (\<lambda>n. [(''clicks'', Number (Finite False n 0))]) [0, 0, 0, 0, 0, 10]"

lemma skewed_outlier: "column_outliers skewed_rows ''clicks'' = [(5, Finite False 10 0)]"
proof -
  have v: "column_values skewed_rows ''clicks'' = [0, 0, 0, 0, 0, 10]"
    by (simp add: column_values_def skewed_rows_def number_of_def decimal_value_def power_of_ten_def map_filter_simps)
  have n: "numbered_cells skewed_rows ''clicks'' = [(0, Finite False 0 0), (1, Finite False 0 0), (2, Finite False 0 0),
      (3, Finite False 0 0), (4, Finite False 0 0), (5, Finite False 10 0)]"
    by (simp add: numbered_cells_def skewed_rows_def number_of_def map_filter_simps)
  have m: "mean_of [0, 0, 0, 0, 0, 10] = 5 / 3" by (simp add: mean_of_def)
  have d: "variance_of [0, 0, 0, 0, 0, 10] = 125 / 9" by (simp add: variance_of_def mean_of_def power2_eq_square)
  show ?thesis
    by (simp add: column_outliers_def v n m d Let_def is_outlier_def decimal_value_def power_of_ten_def power2_eq_square)
qed

lemma flagged_values_bounded_witness:
  "(5, Finite False 10 0) \<in> set (column_outliers skewed_rows ''clicks'') \<and>
   number_of (skewed_rows ! 5) ''clicks'' = Some (Finite False 10 0) \<and>
   4 * length (column_outliers skewed_rows ''clicks'') < length (column_values skewed_rows ''clicks'')"
  using flagged_values_bounded [of skewed_rows "''clicks''"] by (simp add: skewed_outlier)

text \<open>A table whose first line is blank has a header without columns: it is accepted, and its report
  speaks of no column.\<close>

lemma blank_header_accepted:
  "read_table ex_limits Some (CHR 0x0A # ''a,b'' @ [CHR 0x0A] @ ''1,2'') ''t.csv'' = Inr ([], [[], []])"
proof -
  have "csv_read (CHR 0x0A # ''a,b'' @ [CHR 0x0A] @ ''1,2'') = [Inr [], Inr [''a'', ''b''], Inr [''1'', ''2'']]"
    by (simp add: csv_read_def csv_start_def csv_step_def csv_field_start_def csv_save_def csv_add_def
        is_newline_def and_then_def)
  then show ?thesis
    by (simp add: read_table_def ex_limits_def and_then_def require_def required_def
        ends_with_def lower_def lower_char_def strip_def is_space_def text_cells_def Let_def)
qed

text \<open>A cell with the text \<open>nan\<close> or \<open>inf\<close>, in any case, is a number.\<close>

lemma non_finite_accepted:
  "decimal_of_text ''nan'' = Some (Non_Finite ''nan'')" "decimal_of_text ''-inf'' = Some (Non_Finite ''-inf'')"
  "decimal_of_text ''12.50'' = Some (Finite False 1250 (- 2))" "decimal_of_text ''a'' = None"
  by (simp_all add: decimal_of_text_def strip_def is_space_def split_sign_def is_digit_def special_decimal_def lower_def
      lower_char_def decimal_exponent_def digits_value_def is_prefix_def Let_def)

text \<open>A formula is quoted but not shortened.\<close>

lemma long_formula_kept: "length (safe_cell (CHR ''='' # s)) = length s + 2"
  by (simp add: safe_cell_def)

end
