(* ===== verification/Document_Processing.thy ===== *)
theory Document_Processing
  imports Prompt_Execution Csv
begin

text \<open>
  The processing of an uploaded document (\<open>app/applied_workflows/document_processing/processor.py\<close>, the
  result of \<open>app/schemas/document_processing.py\<close>). The packages that open PDF, DOCX and ZIP files are
  parameters, as is the decoding of UTF-8; case folding is that of ASCII letters.
\<close>

datatype document_type =
    DT_MARKETING_BRIEF
  | DT_CAMPAIGN_REPORT
  | DT_GAME_DESIGN_DOCUMENT
  | DT_PRODUCT_REQUIREMENT_DOCUMENT
  | DT_MEETING_NOTES
  | DT_UNKNOWN

fun document_type_value :: "document_type \<Rightarrow> string" where
  "document_type_value DT_MARKETING_BRIEF = ''MARKETING_BRIEF''"
| "document_type_value DT_CAMPAIGN_REPORT = ''CAMPAIGN_REPORT''"
| "document_type_value DT_GAME_DESIGN_DOCUMENT = ''GAME_DESIGN_DOCUMENT''"
| "document_type_value DT_PRODUCT_REQUIREMENT_DOCUMENT = ''PRODUCT_REQUIREMENT_DOCUMENT''"
| "document_type_value DT_MEETING_NOTES = ''MEETING_NOTES''"
| "document_type_value DT_UNKNOWN = ''UNKNOWN''"

fun section_requirements :: "document_type \<Rightarrow> string list" where
  "section_requirements DT_MARKETING_BRIEF = [''objective'', ''audience'', ''message'', ''budget'', ''timeline'']"
| "section_requirements DT_CAMPAIGN_REPORT = [''summary'', ''results'', ''metrics'', ''learnings'']"
| "section_requirements DT_GAME_DESIGN_DOCUMENT = [''gameplay'', ''mechanics'', ''progression'', ''art'']"
| "section_requirements DT_PRODUCT_REQUIREMENT_DOCUMENT = [''problem'', ''requirements'', ''acceptance'', ''risks'']"
| "section_requirements DT_MEETING_NOTES = [''attendees'', ''decisions'', ''actions'']"
| "section_requirements DT_UNKNOWN = []"

subsection \<open>Untrusted instructions\<close>

definition injection_pattern :: regex where
  "injection_pattern =
     Alt (Seq (lit ''ignore '') (Seq (Alt (lit ''all'') (lit ''previous'')) (lit '' instructions'')))
      (Alt (lit ''system prompt'') (Alt (lit ''developer message'') (lit ''reveal secrets'')))"

text \<open>\<open>pattern.search(text)\<close>.\<close>

fun re_found :: "regex \<Rightarrow> string \<Rightarrow> bool" where
  "re_found re [] = (rmatch re [] \<noteq> [])"
| "re_found re (c # s) = (rmatch re (c # s) \<noteq> [] \<or> re_found re s)"

definition untrusted_instruction :: string where
  "untrusted_instruction = ''[UNTRUSTED_INSTRUCTION]''"

definition safe_excerpt :: "string \<Rightarrow> string" where
  "safe_excerpt text = re_sub injection_pattern (\<lambda>_. untrusted_instruction) (take 20000 text)"

subsection \<open>Lines and words\<close>

definition is_line_end :: "char \<Rightarrow> bool" where
  "is_line_end c = (let n = of_char c :: nat in n \<in> {10, 11, 12, 13, 28, 29, 30, 133})"

text \<open>\<open>str.splitlines()\<close>.\<close>

fun py_splitlines :: "string \<Rightarrow> string \<Rightarrow> string list" where
  "py_splitlines cur [] = (if cur = [] then [] else [cur])"
| "py_splitlines cur (c # s) =
     (if \<not> is_line_end c then py_splitlines (cur @ [c]) s
      else (case s of
          [] \<Rightarrow> [cur]
        | d # s' \<Rightarrow> if (of_char c :: nat) = 13 \<and> (of_char d :: nat) = 10 then cur # py_splitlines [] s'
            else cur # py_splitlines [] s))"

text \<open>\<open>\w\<close> on code points below 256.\<close>

definition is_word_char :: "char \<Rightarrow> bool" where
  "is_word_char c = (let n = of_char c :: nat in
     (48 \<le> n \<and> n \<le> 57) \<or> (65 \<le> n \<and> n \<le> 90) \<or> n = 95 \<or> (97 \<le> n \<and> n \<le> 122) \<or>
     n \<in> {170, 178, 179, 181, 185, 186, 188, 189, 190} \<or> (192 \<le> n \<and> n \<noteq> 215 \<and> n \<noteq> 247))"

definition word_starts :: "string list \<Rightarrow> string \<Rightarrow> bool" where
  "word_starts ws s \<longleftrightarrow>
     list_ex (\<lambda>w. take (length w) (lower s) = w \<and>
       (case drop (length w) s of [] \<Rightarrow> True | c # _ \<Rightarrow> \<not> is_word_char c)) ws"

text \<open>\<open>re.search(r"(?i)\b(w1|w2)\b", line)\<close>; the flag says that a word may start here.\<close>

fun has_word :: "string list \<Rightarrow> bool \<Rightarrow> string \<Rightarrow> bool" where
  "has_word ws start [] = False"
| "has_word ws start (c # s) = ((start \<and> word_starts ws (c # s)) \<or> has_word ws (\<not> is_word_char c) s)"

definition is_bullet :: "char \<Rightarrow> bool" where
  "is_bullet c \<longleftrightarrow> c = CHR '' '' \<or> c = CHR ''-'' \<or> (of_char c :: nat) = 9"

definition document_lines :: "string \<Rightarrow> string list" where
  "document_lines text =
     map (strip_chars is_bullet) (filter (\<lambda>l. strip l \<noteq> []) (py_splitlines [] text))"

definition lines_with :: "string list \<Rightarrow> string list \<Rightarrow> string list" where
  "lines_with ws ls = take 30 (map (take 500) (filter (has_word ws True) ls))"

definition questions_of :: "string list \<Rightarrow> string list" where
  "questions_of ls = take 30 (map (take 500) (filter (\<lambda>l. l \<noteq> [] \<and> last l = CHR ''?'') ls))"

subsection \<open>Classification\<close>

definition signals :: "(document_type \<times> string list) list" where
  "signals =
     [(DT_MARKETING_BRIEF, [''marketing brief'', ''target audience'', ''campaign objective'', ''key message'']),
      (DT_CAMPAIGN_REPORT, [''campaign results'', ''impressions'', ''conversion rate'']),
      (DT_GAME_DESIGN_DOCUMENT, [''gameplay'', ''game mechanics'', ''level design'']),
      (DT_PRODUCT_REQUIREMENT_DOCUMENT, [''product requirement'', ''acceptance criteria'', ''user story'']),
      (DT_MEETING_NOTES, [''meeting notes'', ''attendees'', ''action items''])]"

definition scores_of :: "string \<Rightarrow> (document_type \<times> nat) list" where
  "scores_of low = map (\<lambda>(kind, items). (kind, length (filter (\<lambda>i. contains_text i low) items))) signals"

text \<open>\<open>max\<close> takes the first of several maxima.\<close>

fun first_max :: "'k \<times> nat \<Rightarrow> ('k \<times> nat) list \<Rightarrow> 'k \<times> nat" where
  "first_max best [] = best"
| "first_max best (x # xs) = first_max (if snd best < snd x then x else best) xs"

definition classify_document :: "string \<Rightarrow> document_type \<times> rat" where
  "classify_document text =
     (let scores = scores_of (lower text); (winner, score) = first_max (hd scores) (tl scores)
      in if score = 0 then (DT_UNKNOWN, 25 / 100)
         else (winner, min (50 / 100 + of_nat score * (15 / 100)) (95 / 100)))"

definition missing_sections :: "document_type \<Rightarrow> string \<Rightarrow> string list" where
  "missing_sections kind text = filter (\<lambda>s. \<not> contains_text s (lower text)) (section_requirements kind)"

subsection \<open>Inconsistencies\<close>

record inconsistency =
  ic_type :: string
  ic_severity :: string
  ic_locations :: "string list"
  ic_description :: string
  ic_evidence :: string
  ic_method :: string
  ic_confidence :: rat
  ic_resolution :: string

definition aliases :: "(string \<times> string list) list" where
  "aliases =
     [(''DATE'', [''date'', ''launch date'', ''start date'']), (''DEADLINE'', [''deadline'', ''due date'']),
      (''BUDGET'', [''budget'', ''campaign budget'']),
      (''PRODUCT_NAME'', [''product'', ''product name'', ''campaign'', ''campaign name'']),
      (''PRIORITY'', [''priority'', ''priority level'']), (''TOTAL'', [''total'', ''grand total''])]"

definition alias_names :: "string list" where
  "alias_names = concat (map snd aliases)"

text \<open>\<open>re.sub(r"\s+", " ", text)\<close>.\<close>

fun collapse_spaces :: "bool \<Rightarrow> string \<Rightarrow> string" where
  "collapse_spaces after [] = []"
| "collapse_spaces after (c # s) =
     (if is_space c then (if after then [] else '' '') @ collapse_spaces True s else c # collapse_spaces False s)"

text \<open>\<open>str.lower\<close> of a label, on code points below 256.\<close>

definition lower_label :: "string \<Rightarrow> string" where
  "lower_label = map (\<lambda>c. let n = of_char c :: nat in
     if 192 \<le> n \<and> n \<le> 222 \<and> n \<noteq> 215 then char_of (n + 32) else lower_char c)"

text \<open>
  The label and the value of a line \<open>label: value\<close>. The line is stripped, so the pattern
  \<open>^([^:]{1,80}):\s*(.+)$\<close> takes all after the first colon and the spaces behind it.
\<close>

definition label_of_line :: "string \<Rightarrow> (string \<times> string) option" where
  "label_of_line raw =
     (let line = strip raw;
          label = takeWhile (\<lambda>c. c \<noteq> CHR '':'') line;
          rest = drop (length label + 1) line
      in if label = [] \<or> 80 < length label \<or> length line = length label \<or> rest = [] then None
         else Some (collapse_spaces False (lower_label (strip label)), collapse_spaces False (strip rest)))"

text \<open>The declarations of a document: label, value and number of the line.\<close>

type_synonym declared_line = "string \<times> string \<times> nat"

definition declarations :: "string \<Rightarrow> declared_line list" where
  "declarations text = List.map_filter (\<lambda>(i, l). map_option (\<lambda>(label, v). (label, v, i)) (label_of_line l))
     (enumerate 1 (py_splitlines [] text))"

text \<open>What follows \<open>requirements?\s+\<close> at the start of the label.\<close>

definition requirement_of_label :: "string \<Rightarrow> string option" where
  "requirement_of_label label =
     (if take 11 label \<noteq> ''requirement'' then None
      else let r = drop 11 label; r' = (case r of c # q \<Rightarrow> if c = CHR ''s'' then q else r | [] \<Rightarrow> [])
           in case r' of [] \<Rightarrow> None
              | c # q \<Rightarrow> if is_space c \<and> dropWhile is_space q \<noteq> [] then Some (dropWhile is_space q) else None)"

type_synonym entries = "(string \<times> nat) list"

text \<open>\<open>d.setdefault(k, []).append(v)\<close>, over all declarations.\<close>

fun dict_append :: "string \<Rightarrow> string \<times> nat \<Rightarrow> (string \<times> entries) list \<Rightarrow> (string \<times> entries) list" where
  "dict_append k v [] = [(k, [v])]"
| "dict_append k v ((k', vs) # d) = (if k = k' then (k', vs @ [v]) # d else (k', vs) # dict_append k v d)"

definition grouped :: "(string \<Rightarrow> string option) \<Rightarrow> declared_line list \<Rightarrow> (string \<times> entries) list" where
  "grouped key ds =
     foldl (\<lambda>d (label, v, i). case key label of None \<Rightarrow> d | Some k \<Rightarrow> dict_append k (v, i) d) [] ds"

definition entries_of :: "string list \<Rightarrow> declared_line list \<Rightarrow> entries" where
  "entries_of names ds = map snd (filter (\<lambda>(label, _). label \<in> set names) ds)"

definition join_text :: "string \<Rightarrow> string list \<Rightarrow> string" where
  "join_text sep xs = (case xs of [] \<Rightarrow> [] | y # ys \<Rightarrow> y @ concat (map (\<lambda>z. sep @ z) ys))"

definition subject_of :: "string \<Rightarrow> string option \<Rightarrow> string" where
  "subject_of kind label =
     (case label of Some (c # s) \<Rightarrow> c # s | _ \<Rightarrow> map (\<lambda>c. if c = CHR ''_'' then CHR '' '' else c) (lower kind))"

text \<open>
  \<open>str.casefold\<close> on code points below 256: the letters with a capital lose it and the sharp s becomes
  two. The micro sign, which folds to a letter beyond, stands for that one; nothing else here folds to it.
\<close>

definition casefold_char :: "char \<Rightarrow> string" where
  "casefold_char c = (let n = of_char c :: nat in
     if (65 \<le> n \<and> n \<le> 90) \<or> (192 \<le> n \<and> n \<le> 222 \<and> n \<noteq> 215) then [char_of (n + 32)]
     else if n = 223 then ''ss'' else [c])"

definition casefold :: "string \<Rightarrow> string" where
  "casefold s = concat (map casefold_char s)"

definition conflict_finding :: "string \<Rightarrow> entries \<Rightarrow> string option \<Rightarrow> inconsistency option" where
  "conflict_finding kind es label =
     (if length (remdups (map (\<lambda>(v, _). casefold v) es)) < 2 then None
      else let subject = subject_of kind label in
       Some \<lparr>ic_type = kind, ic_severity = (if kind \<in> {''BUDGET'', ''DEADLINE'', ''TOTAL''} then ''HIGH'' else ''MEDIUM''),
         ic_locations = map (\<lambda>(_, i). ''line '' @ nat_text i) es,
         ic_description = ''Conflicting values were declared for '' @ subject @ ''.'',
         ic_evidence = take 1000 (join_text ''; '' (map (\<lambda>(v, i). ''line '' @ nat_text i @ '': '' @ take 120 v) es)),
         ic_method = ''DETERMINISTIC'', ic_confidence = 1,
         ic_resolution = ''Confirm one authoritative '' @ subject @ '' value and update duplicates.''\<rparr>)"

definition all_findings :: "declared_line list \<Rightarrow> inconsistency list" where
  "all_findings ds =
     List.map_filter (\<lambda>(kind, names). conflict_finding kind (entries_of names ds) None) aliases @
     List.map_filter (\<lambda>(label, es). if label \<in> set alias_names then None
       else conflict_finding ''DUPLICATED_SECTION'' es (Some label)) (grouped Some ds) @
     List.map_filter (\<lambda>(r, es). conflict_finding ''CONTRADICTORY_REQUIREMENT'' es (Some r)) (grouped requirement_of_label ds)"

definition deterministic_inconsistencies :: "string \<Rightarrow> inconsistency list" where
  "deterministic_inconsistencies text = take 50 (all_findings (declarations text))"

subsection \<open>Findings of the model\<close>

definition inconsistency_of :: "coercions \<Rightarrow> json \<Rightarrow> inconsistency option" where
  "inconsistency_of co v = do {
     es \<leftarrow> model_fields [''type'', ''severity'', ''source_locations'', ''description'', ''evidence_summary'',
       ''detection_method'', ''confidence'', ''suggested_resolution''] v;
     let texts = (\<lambda>k. Option.bind (map_of es k) (co_str co));
     kind \<leftarrow> texts ''type''; severity \<leftarrow> texts ''severity'';
     locations \<leftarrow> (case map_of es ''source_locations'' of Some (JList vs) \<Rightarrow> all_some (map (co_str co) vs) | _ \<Rightarrow> None);
     description \<leftarrow> texts ''description''; evidence \<leftarrow> texts ''evidence_summary''; found_by \<leftarrow> texts ''detection_method'';
     confidence \<leftarrow> Option.bind (map_of es ''confidence'') (co_float co);
     resolution \<leftarrow> texts ''suggested_resolution'';
     if 0 \<le> confidence \<and> confidence \<le> 1 then
       Some \<lparr>ic_type = kind, ic_severity = severity, ic_locations = locations, ic_description = description,
         ic_evidence = evidence, ic_method = found_by, ic_confidence = confidence, ic_resolution = resolution\<rparr>
     else None}"

definition dump_inconsistency :: "inconsistency \<Rightarrow> json" where
  "dump_inconsistency i = JObj
     [(''type'', JStr (ic_type i)), (''severity'', JStr (ic_severity i)),
      (''source_locations'', JList (map JStr (ic_locations i))), (''description'', JStr (ic_description i)),
      (''evidence_summary'', JStr (ic_evidence i)), (''detection_method'', JStr (ic_method i)),
      (''confidence'', JFloat (ic_confidence i)), (''suggested_resolution'', JStr (ic_resolution i))]"

definition consistency_of :: "coercions \<Rightarrow> json \<Rightarrow> inconsistency list option" where
  "consistency_of co v = do {
     es \<leftarrow> model_fields [''findings''] v;
     (case map_of es ''findings'' of None \<Rightarrow> Some []
      | Some (JList vs) \<Rightarrow> if length vs \<le> 50 then all_some (map (inconsistency_of co) vs) else None
      | _ \<Rightarrow> None)}"

definition consistency_schema :: "coercions \<Rightarrow> output_schema" where
  "consistency_schema co v = map_option (\<lambda>is. JObj [(''findings'', JList (map dump_inconsistency is))]) (consistency_of co v)"

subsection \<open>Extraction\<close>

text \<open>
  What opens files: the texts of the pages, the entries of an archive (name, compressed and
  uncompressed size) and the paragraphs; \<open>None\<close> stands for an error of the package.
\<close>

record document_world =
  dw_max_bytes :: int
  dw_max_pages :: int
  dw_model :: "string option"
  dw_decode :: "string \<Rightarrow> string option"
  dw_pdf_pages :: "string \<Rightarrow> string list option"
  dw_zip_entries :: "string \<Rightarrow> (string \<times> int \<times> int) list option"
  dw_docx_paragraphs :: "string \<Rightarrow> string list option"
  dw_formatting :: formatting
  dw_coercions :: coercions
  dw_client :: llm_client
  dw_now :: time

definition newline_text :: string where
  "newline_text = [CHR 0x0A]"

definition extract_pdf :: "document_world \<Rightarrow> string \<Rightarrow> (exn, string \<times> int) res" where
  "extract_pdf w content =
     and_then (required (dw_pdf_pages w content) (validation_error ''PDF could not be extracted safely'')) (\<lambda>pages.
     and_then (require (int (length pages) \<le> dw_max_pages w)
       (validation_error ''PDF page count exceeds the configured limit'')) (\<lambda>_.
     Inr (join_text newline_text pages, int (length pages))))"

definition validate_docx_archive :: "document_world \<Rightarrow> string \<Rightarrow> (exn, unit) res" where
  "validate_docx_archive w content =
     and_then (required (dw_zip_entries w content) (validation_error ''DOCX archive is invalid'')) (\<lambda>infos.
     and_then (require (length infos \<le> 2000) (validation_error ''DOCX archive contains too many entries'')) (\<lambda>_.
     let compressed = sum_list (map (\<lambda>(_, c, _). c) infos); uncompressed = sum_list (map (\<lambda>(_, _, u). u) infos) in
     and_then (require (\<not> (uncompressed > 50000000 \<or> uncompressed > max compressed 1 * 100))
       (validation_error ''DOCX archive expansion is unsafe'')) (\<lambda>_.
     require (\<not> list_ex (\<lambda>(name, _). contains_text ''vbaProject.bin'' name) infos)
       (validation_error ''Macro-enabled documents are not supported''))))"

definition extract_docx :: "document_world \<Rightarrow> string \<Rightarrow> (exn, string \<times> int) res" where
  "extract_docx w content =
     and_then (required (dw_docx_paragraphs w content) (validation_error ''DOCX could not be extracted safely'')) (\<lambda>ps.
     let text = join_text newline_text ps in Inr (text, max 1 (int (length text) div 3000 + 1)))"

definition extension_of :: "string \<Rightarrow> string" where
  "extension_of filename =
     (let low = lower filename in
      if CHR ''.'' \<in> set low then rev (takeWhile (\<lambda>c. c \<noteq> CHR ''.'') (rev low)) else [])"

definition extract_text :: "document_world \<Rightarrow> string \<Rightarrow> string \<Rightarrow> string \<Rightarrow> (exn, string \<times> int) res" where
  "extract_text w content filename content_type =
     (let extension = extension_of filename; octets = ''application/octet-stream'' in
      if extension = ''pdf'' then
        and_then (require (starts_with content ''%PDF'' \<and> content_type \<in> {''application/pdf'', octets})
          (validation_error ''PDF extension, MIME type, and signature do not match'')) (\<lambda>_. extract_pdf w content)
      else if extension = ''docx'' then
        and_then (require (starts_with content ''PK'' \<and>
            content_type \<in> {''application/vnd.openxmlformats-officedocument.wordprocessingml.document'', octets})
          (validation_error ''DOCX extension, MIME type, and signature do not match'')) (\<lambda>_.
        and_then (validate_docx_archive w content) (\<lambda>_. extract_docx w content))
      else if extension = ''txt'' then
        and_then (require (CHR 0x00 \<notin> set content \<and> content_type \<in> {''text/plain'', octets})
          (validation_error ''TXT file type is invalid'')) (\<lambda>_.
        and_then (required (dw_decode w content) (validation_error ''TXT documents must be UTF-8 encoded'')) (\<lambda>text.
        Inr (text, 1)))
      else Inl (validation_error ''Supported document types are PDF, DOCX, and TXT''))"

subsection \<open>The result\<close>

record document_result =
  do_type :: document_type
  do_summary :: string
  do_key_points :: "string list"
  do_missing_sections :: "string list"
  do_inconsistencies :: "inconsistency list"
  do_risks :: "string list"
  do_action_items :: "string list"
  do_open_questions :: "string list"
  do_confidence :: rat
  do_injection_warning :: bool
  do_page_count :: int
  do_character_count :: nat
  do_generated_at :: time

definition consistency_instruction :: string where
  "consistency_instruction = newline_text @ ''Return only structured consistency findings. Label model-assisted '' @
     ''findings and do not include hidden reasoning.''"

definition document_request ::
  "document_world \<Rightarrow> version_row \<Rightarrow> string \<Rightarrow> string \<Rightarrow> int \<Rightarrow> (exn, completion_request) res" where
  "document_request w v excerpt suffix tokens =
     and_then (render_version (dw_formatting w) [(''document'', excerpt)] v) (\<lambda>user.
     make_completion_request ((plain_request (pv_system_prompt v) (user @ suffix) (or_str (dw_model w) ''mock-applied-ai'') [])
       \<lparr>rq_max_output_tokens := tokens\<rparr>))"

definition model_findings ::
  "document_world \<Rightarrow> version_row \<Rightarrow> string \<Rightarrow> (exn, inconsistency list) res" where
  "model_findings w v excerpt =
     and_then (document_request w v excerpt consistency_instruction 1500) (\<lambda>r.
     and_then (cl_complete_structured (dw_client w) r (consistency_schema (dw_coercions w))) (\<lambda>completion.
     and_then (required (Option.bind (nc_structured completion) (consistency_of (dw_coercions w)))
       (value_error ''DocumentConsistencyAnalysis'')) (\<lambda>found.
     Inr (map (\<lambda>i. i\<lparr>ic_method := ''MODEL_ASSISTED''\<rparr>) found))))"

definition describe_document ::
  "document_world \<Rightarrow> version_row \<Rightarrow> string \<Rightarrow> int \<Rightarrow> (exn, document_result) res" where
  "describe_document w v text pages =
     (let (kind, confidence) = classify_document text; excerpt = safe_excerpt text; ls = document_lines text in
      and_then (document_request w v excerpt [] 1000) (\<lambda>r.
      and_then (cl_complete (dw_client w) r) (\<lambda>completion.
      and_then (model_findings w v excerpt) (\<lambda>found.
      Inr \<lparr>do_type = kind,
           do_summary = take 5000 (or_str (nc_content completion) ''Document extracted successfully.''),
           do_key_points = take 10 ls, do_missing_sections = missing_sections kind text,
           do_inconsistencies = deterministic_inconsistencies text @ found,
           do_risks = lines_with [''risk'', ''blocker'', ''issue''] ls,
           do_action_items = lines_with [''action'', ''todo'', ''owner'', ''due''] ls,
           do_open_questions = questions_of ls, do_confidence = confidence,
           do_injection_warning = re_found injection_pattern text, do_page_count = pages,
           do_character_count = length text, do_generated_at = dw_now w\<rparr>))))"

definition process_document ::
  "document_world \<Rightarrow> version_row \<Rightarrow> string \<Rightarrow> string \<Rightarrow> string \<Rightarrow> (exn, document_result) res" where
  "process_document w v content filename content_type =
     and_then (require (int (length content) \<le> dw_max_bytes w)
       (validation_error ''Document exceeds the configured size limit'')) (\<lambda>_.
     and_then (extract_text w content filename content_type) (\<lambda>(text, pages).
     and_then (require (strip text \<noteq> []) (validation_error ''Document contains no extractable text; OCR is disabled'')) (\<lambda>_.
     describe_document w v (take 200000 (map (\<lambda>c. if c = CHR 0x00 then CHR '' '' else c) text)) pages)))"

definition document_limitations :: "string list" where
  "document_limitations = [''Document content is treated as untrusted data.'',
     ''No OCR, macro execution, attachment execution, or external link fetching was performed.'']"

definition dump_document :: "(time \<Rightarrow> string) \<Rightarrow> document_result \<Rightarrow> json" where
  "dump_document isoformat r =
     (let texts = (\<lambda>ss. JList (map JStr ss)) in JObj
       [(''document_type'', JStr (document_type_value (do_type r))), (''executive_summary'', JStr (do_summary r)),
        (''key_points'', texts (do_key_points r)), (''missing_sections'', texts (do_missing_sections r)),
        (''inconsistencies'', JList (map dump_inconsistency (do_inconsistencies r))), (''risks'', texts (do_risks r)),
        (''action_items'', texts (do_action_items r)), (''open_questions'', texts (do_open_questions r)),
        (''confidence'', JFloat (do_confidence r)), (''limitations'', texts document_limitations),
        (''prompt_injection_warning'', JBool (do_injection_warning r)), (''page_count'', JInt (do_page_count r)),
        (''character_count'', JInt (int (do_character_count r))), (''generated_at'', JStr (isoformat (do_generated_at r)))])"

end
