(* ===== verification/Document_Properties.thy ===== *)
theory Document_Properties
  imports Document_Processing
begin

text \<open>
  The properties of document processing: no injection phrase survives in the excerpt that is sent to
  the model, conflicting declarations are found exactly, and the classification is supported by
  the text.
\<close>

subsection \<open>Injection phrases\<close>

definition prefix_of :: "string \<Rightarrow> string \<Rightarrow> bool" where
  "prefix_of w s \<longleftrightarrow> length w \<le> length s \<and> lower (take (length w) s) = w"

lemma prefix_of_Cons [simp]: "prefix_of (w # ws) (c # s) \<longleftrightarrow> lower_char c = w \<and> prefix_of ws s"
  by (auto simp: prefix_of_def lower_def)

lemma prefix_of_Nil [simp]: "prefix_of [] s" "\<not> prefix_of (w # ws) []"
  by (simp_all add: prefix_of_def lower_def)

lemma prefix_of_append: "prefix_of (v @ w) s \<longleftrightarrow> prefix_of v s \<and> prefix_of w (drop (length v) s)"
proof (induction v arbitrary: s)
  case (Cons c v)
  then show ?case by (cases s) auto
qed simp

lemma rmatch_lit: "rmatch (lit w) s = (if prefix_of w s then [([], take (length w) s, drop (length w) s)] else [])"
proof (induction w arbitrary: s)
  case (Cons c w)
  then show ?case by (cases s) auto
qed simp

definition injection_phrases :: "string list" where
  "injection_phrases = [''ignore all instructions'', ''ignore previous instructions'', ''system prompt'',
     ''developer message'', ''reveal secrets'']"

lemma injection_match:
  "rmatch injection_pattern s \<noteq> [] \<longleftrightarrow> (\<exists>w \<in> set injection_phrases. prefix_of w s)"
proof -
  have split: "''ignore all instructions'' = ''ignore '' @ ''all'' @ '' instructions''"
    "''ignore previous instructions'' = ''ignore '' @ ''previous'' @ '' instructions''" by simp_all
  have "rmatch injection_pattern s \<noteq> [] \<longleftrightarrow>
      prefix_of (''ignore '' @ ''all'' @ '' instructions'') s \<or> prefix_of (''ignore '' @ ''previous'' @ '' instructions'') s \<or>
      prefix_of ''system prompt'' s \<or> prefix_of ''developer message'' s \<or> prefix_of ''reveal secrets'' s"
    unfolding injection_pattern_def prefix_of_append by (auto simp: rmatch_lit simp del: lit.simps prefix_of_Cons)
  then show ?thesis unfolding injection_phrases_def split by simp
qed

text \<open>A phrase that starts before a bracket ends before it.\<close>

lemma prefix_before_bracket:
  assumes "prefix_of w (k @ r)" and "r = [] \<or> hd r = CHR ''[''" and "CHR ''['' \<notin> set w"
  shows "prefix_of w k"
  using assms
proof (induction k arbitrary: w)
  case Nil
  then show ?case by (cases w; cases r) (auto simp: lower_char_def)
next
  case (Cons c k)
  then show ?case by (cases w) auto
qed

lemma prefix_of_longer: "prefix_of w k \<Longrightarrow> prefix_of w (k @ r)"
proof (induction w arbitrary: k)
  case (Cons c w)
  then show ?case by (cases k) auto
qed simp

definition neutralized :: "string \<Rightarrow> string" where
  "neutralized = re_sub injection_pattern (\<lambda>_. untrusted_instruction)"

text \<open>The result starts with a part of the text up to the next replacement.\<close>

lemma re_sub_kept:
  assumes "\<And>g. \<exists>x. repl g = CHR ''['' # x"
  shows "\<exists>k rest r. s = k @ rest \<and> re_sub re repl s = k @ r \<and> (r = [] \<or> hd r = CHR ''['')"
proof (induction s)
  case (Cons c s)
  then obtain k rest r where s: "s = k @ rest" "re_sub re repl s = k @ r" "r = [] \<or> hd r = CHR ''[''" by blast
  then have keep: "\<exists>k' rest' r'. c # s = k' @ rest' \<and> c # re_sub re repl s = k' @ r' \<and> (r' = [] \<or> hd r' = CHR ''['')"
    by (intro exI [of _ "c # k"] exI [of _ rest] exI [of _ r]) simp
  have "re_sub re repl (c # s) = c # re_sub re repl s \<or> (\<exists>g t. re_sub re repl (c # s) = repl g @ t)"
    by (auto simp: re_sub.simps split: list.split)
  then show ?case
  proof
    assume "re_sub re repl (c # s) = c # re_sub re repl s"
    with keep show ?thesis by simp
  next
    assume "\<exists>g t. re_sub re repl (c # s) = repl g @ t"
    then obtain g t where "re_sub re repl (c # s) = repl g @ t" by blast
    moreover from assms obtain x where "repl g = CHR ''['' # x" by blast
    ultimately show ?thesis by (intro exI [of _ "[]"] exI [of _ "c # s"] exI [of _ "repl g @ t"]) simp
  qed
qed simp

lemma neutralized_kept: "\<exists>k rest r. s = k @ rest \<and> neutralized s = k @ r \<and> (r = [] \<or> hd r = CHR ''['')"
  unfolding neutralized_def by (rule re_sub_kept) (simp add: untrusted_instruction_def)

lemma phrases_no_bracket: "w \<in> set injection_phrases \<Longrightarrow> CHR ''['' \<notin> set w"
  by (auto simp: injection_phrases_def)

lemma kept_no_match:
  assumes "rmatch injection_pattern (c # s) = []"
  shows "rmatch injection_pattern (c # neutralized s) = []"
proof -
  obtain k rest r where k: "s = k @ rest" "neutralized s = k @ r" "r = [] \<or> hd r = CHR ''[''"
    using neutralized_kept by blast
  have "\<not> prefix_of w (c # neutralized s)" if w: "w \<in> set injection_phrases" for w
  proof
    assume "prefix_of w (c # neutralized s)"
    then have "prefix_of w ((c # k) @ r)" using k(2) by simp
    then have "prefix_of w (c # k)" using prefix_before_bracket k(3) phrases_no_bracket [OF w] by blast
    then have "prefix_of w (c # s)" using prefix_of_longer [of w "c # k" rest] k(1) by simp
    with w assms injection_match show False by blast
  qed
  then show ?thesis using injection_match by blast
qed

lemma no_match: "rmatch injection_pattern s = [] \<longleftrightarrow> (\<forall>w \<in> set injection_phrases. \<not> prefix_of w s)"
  using injection_match by blast

lemma replaced_no_match: "\<not> re_found injection_pattern s \<Longrightarrow> \<not> re_found injection_pattern (untrusted_instruction @ s)"
  unfolding untrusted_instruction_def by (simp add: no_match injection_phrases_def lower_char_def)

lemma neutralized_clean: "\<not> re_found injection_pattern (neutralized s)"
proof (induction "length s" arbitrary: s rule: less_induct)
  case less
  show ?case
  proof (cases s)
    case Nil
    then show ?thesis by (simp add: neutralized_def no_match injection_phrases_def)
  next
    case (Cons c t)
    have t: "\<not> re_found injection_pattern (neutralized t)" using less Cons by simp
    show ?thesis
    proof (cases "rmatch injection_pattern s")
      case Nil
      then have "neutralized s = c # neutralized t" by (simp add: Cons neutralized_def re_sub.simps)
      moreover have "rmatch injection_pattern (c # neutralized t) = []" using kept_no_match Nil Cons by simp
      ultimately show ?thesis using t by simp
    next
      case m: (Cons m ms)
      obtain g u r where "m = (g, u, r)" by (cases m) auto
      then have gur: "(g, u, r) \<in> set (rmatch injection_pattern s)" "rmatch injection_pattern s = (g, u, r) # ms"
        using m by simp_all
      have "u \<noteq> []"
      proof
        assume "u = []"
        with gur(1) have "[] \<in> (\<lambda>(g, u, r). u) ` set (rmatch injection_pattern s)" by force
        then show False
          by (auto simp: injection_pattern_def rmatch_lit simp del: lit.simps split: if_splits) 
      qed
      then have "length r < length s" using rmatch_append [OF gur(1)] by (cases u) auto
      then have "neutralized s = untrusted_instruction @ neutralized r"
        using re_sub_match [OF gur(2)] by (simp add: neutralized_def)
      moreover have "\<not> re_found injection_pattern (neutralized r)" using less \<open>length r < length s\<close> by blast
      ultimately show ?thesis using replaced_no_match by simp
    qed
  qed
qed

text \<open>C35. Whatever a document says, the excerpt of it that is put into the prompts contains none of the
  phrases of the injection pattern: none is left over, and none arises from a replacement.\<close>

theorem excerpt_contains_no_injection:
  "\<not> re_found injection_pattern (safe_excerpt document)"
  using neutralized_clean by (simp add: safe_excerpt_def neutralized_def)

subsection \<open>Conflicting declarations\<close>

lemma two_values: "2 \<le> length (remdups xs) \<longleftrightarrow> (\<exists>x \<in> set xs. \<exists>y \<in> set xs. x \<noteq> y)"
proof -
  have "card (set xs) \<le> 1 \<longleftrightarrow> (\<forall>x \<in> set xs. \<forall>y \<in> set xs. x = y)" using card_le_Suc0_iff_eq [of "set xs"] by simp
  then show ?thesis by (auto simp: length_remdups_card_conv not_le [symmetric])
qed

lemma conflict_finding_iff:
  "conflict_finding kind es label \<noteq> None \<longleftrightarrow> (\<exists>(v, i) \<in> set es. \<exists>(v', i') \<in> set es. casefold v \<noteq> casefold v')"
proof -
  have "conflict_finding kind es label \<noteq> None \<longleftrightarrow> 2 \<le> length (remdups (map (\<lambda>(v, _). casefold v) es))"
    by (simp add: conflict_finding_def Let_def)
  then show ?thesis unfolding two_values by (auto simp: case_prod_unfold)
qed

lemma conflict_findingD:
  assumes "conflict_finding kind es label = Some f"
  shows "ic_type f = kind" and "2 \<le> length (ic_locations f)" and "ic_method f = ''DETERMINISTIC''"
    and "ic_description f = ''Conflicting values were declared for '' @ subject_of kind label @ ''.''"
proof -
  have "length (remdups (map (\<lambda>(v, _). casefold v) es)) \<le> length es" using length_remdups_leq by (metis length_map)
  then show "ic_type f = kind" and "2 \<le> length (ic_locations f)" and "ic_method f = ''DETERMINISTIC''"
    and "ic_description f = ''Conflicting values were declared for '' @ subject_of kind label @ ''.''"
    using assms by (auto simp: conflict_finding_def Let_def split: if_splits)
qed

text \<open>Two of the lines with such a label declare values that differ in more than case.\<close>

definition values_differ :: "(string \<Rightarrow> bool) \<Rightarrow> declared_line list \<Rightarrow> bool" where
  "values_differ P ds \<longleftrightarrow>
     (\<exists>(l, v, i) \<in> set ds. \<exists>(l', v', i') \<in> set ds. P l \<and> P l' \<and> casefold v \<noteq> casefold v')"

lemma conflict_finding_differ:
  assumes "es = map snd (filter (\<lambda>(l, _). P l) ds)"
  shows "conflict_finding kind es label \<noteq> None \<longleftrightarrow> values_differ P ds"
  unfolding conflict_finding_iff values_differ_def assms by fastforce

text \<open>The groups of the lines by a key.\<close>

definition lines_under :: "(string \<Rightarrow> string option) \<Rightarrow> string \<Rightarrow> declared_line list \<Rightarrow> entries" where
  "lines_under key k ds = map snd (filter (\<lambda>(l, _). key l = Some k) ds)"

lemma dict_append_keys: "(x, es) \<in> set (dict_append k v d) \<Longrightarrow> x = k \<or> x \<in> fst ` set d"
proof (induction k v d rule: dict_append.induct)
  case (2 k v k' vs d)
  then show ?case by (cases "k = k'") (auto intro: rev_image_eqI)
qed simp

lemma dict_append_distinct: "distinct (map fst d) \<Longrightarrow> distinct (map fst (dict_append k v d))"
  by (induction k v d rule: dict_append.induct) (auto dest: dict_append_keys)

lemma dict_append_set:
  assumes "distinct (map fst d)"
  shows "(x, es) \<in> set (dict_append k v d) \<longleftrightarrow>
      (if x = k then es = (case map_of d k of None \<Rightarrow> [] | Some vs \<Rightarrow> vs) @ [v] else (x, es) \<in> set d)"
  using assms
proof (induction d)
  case (Cons p d)
  obtain k0 vs where p: "p = (k0, vs)" by (cases p)
  have "(k, w) \<notin> set d" if "k0 = k" for w using Cons.prems that by (force simp: p)
  then show ?case using Cons by (auto simp: p)
qed auto

lemma grouped_set:
  "distinct (map fst (grouped key ds)) \<and>
   (\<forall>k es. (k, es) \<in> set (grouped key ds) \<longleftrightarrow> es = lines_under key k ds \<and> es \<noteq> [])"
proof (induction ds rule: rev_induct)
  case (snoc d ds)
  obtain label v i where d: "d = (label, v, i)" by (cases d)
  show ?case
  proof (cases "key label")
    case None
    then show ?thesis using snoc by (simp add: grouped_def d lines_under_def)
  next
    case (Some k)
    have g: "grouped key (ds @ [d]) = dict_append k (v, i) (grouped key ds)" by (simp add: grouped_def d Some)
    have "(case map_of (grouped key ds) k of None \<Rightarrow> [] | Some vs \<Rightarrow> vs) = lines_under key k ds"
    proof (cases "map_of (grouped key ds) k")
      case None
      then have "(k, lines_under key k ds) \<notin> set (grouped key ds)" by (force simp: map_of_eq_None_iff)
      then have "lines_under key k ds = []" using snoc by blast
      then show ?thesis using None by simp
    next
      case (Some vs)
      then show ?thesis using snoc map_of_SomeD by fastforce
    qed
    moreover have "lines_under key k' (ds @ [d]) = lines_under key k' ds @ (if k' = k then [(v, i)] else [])" for k'
      by (auto simp: lines_under_def d Some)
    ultimately show ?thesis
      using snoc dict_append_distinct [of "grouped key ds" k "(v, i)"]
        dict_append_set [of "grouped key ds", where k = k and v = "(v, i)"]
      unfolding g by auto
  qed
qed (simp add: grouped_def lines_under_def)

lemma grouped_conflict:
  "(\<exists>es. (k, es) \<in> set (grouped key ds) \<and> conflict_finding kind es label \<noteq> None) \<longleftrightarrow>
   values_differ (\<lambda>l. key l = Some k) ds"
proof -
  have "conflict_finding kind [] label = None" by (simp add: conflict_finding_def)
  then show ?thesis
    using grouped_set [of key ds] conflict_finding_differ [of "lines_under key k ds" "\<lambda>l. key l = Some k" ds]
    by (metis lines_under_def)
qed

lemma map_filter_set: "y \<in> set (List.map_filter f xs) \<longleftrightarrow> (\<exists>x \<in> set xs. f x = Some y)"
  by (induction xs) (auto simp: map_filter_simps split: option.splits)

lemma alias_kinds: "(k, ns) \<in> set aliases \<Longrightarrow> (k, ns') \<in> set aliases \<Longrightarrow> ns = ns'"
  "(k, ns) \<in> set aliases \<Longrightarrow> k \<noteq> ''DUPLICATED_SECTION'' \<and> k \<noteq> ''CONTRADICTORY_REQUIREMENT''"
  by (auto simp: aliases_def)

lemma all_findings_kind:
  assumes "(kind, names) \<in> set aliases"
  shows "(\<exists>f \<in> set (all_findings ds). ic_type f = kind) \<longleftrightarrow> conflict_finding kind (entries_of names ds) None \<noteq> None"
proof
  assume "\<exists>f \<in> set (all_findings ds). ic_type f = kind"
  then obtain f where f: "f \<in> set (all_findings ds)" "ic_type f = kind" by blast
  from f(1) obtain k es l where "conflict_finding k es l = Some f"
    and k: "k \<in> {''DUPLICATED_SECTION'', ''CONTRADICTORY_REQUIREMENT''} \<or>
      (\<exists>ns. (k, ns) \<in> set aliases \<and> es = entries_of ns ds \<and> l = None)"
    by (auto simp: all_findings_def map_filter_set split: if_splits)
  moreover from this(1) f(2) have "k = kind" using conflict_findingD(1) by blast
  ultimately show "conflict_finding kind (entries_of names ds) None \<noteq> None"
    using alias_kinds [OF assms] by auto
next
  assume "conflict_finding kind (entries_of names ds) None \<noteq> None"
  then obtain f where f: "conflict_finding kind (entries_of names ds) None = Some f" by blast
  then have "f \<in> set (all_findings ds)" using assms by (auto simp: all_findings_def map_filter_set)
  with conflict_findingD(1) [OF f] show "\<exists>f \<in> set (all_findings ds). ic_type f = kind" by blast
qed

lemma all_findingsD:
  "f \<in> set (all_findings ds) \<Longrightarrow> 2 \<le> length (ic_locations f) \<and> ic_method f = ''DETERMINISTIC''"
  by (auto simp: all_findings_def map_filter_set dest: conflict_findingD split: if_splits)

definition conflict_text :: "string \<Rightarrow> string" where
  "conflict_text subject = ''Conflicting values were declared for '' @ subject @ ''.''"

lemma subject_label: "k \<noteq> [] \<Longrightarrow> subject_of kind (Some k) = k"
  by (cases k) (simp_all add: subject_of_def)

lemma grouped_label_nonempty:
  assumes "(r, es) \<in> set (grouped requirement_of_label ds)"
  shows "r \<noteq> []"
proof -
  have "lines_under requirement_of_label r ds \<noteq> []" using assms grouped_set by metis
  then obtain l where "requirement_of_label l = Some r" by (auto simp: lines_under_def filter_empty_conv)
  then show ?thesis by (auto simp: requirement_of_label_def Let_def split: if_splits list.splits)
qed

lemma all_findings_mem:
  "f \<in> set (all_findings ds) \<longleftrightarrow>
     (\<exists>kind names. (kind, names) \<in> set aliases \<and> conflict_finding kind (entries_of names ds) None = Some f) \<or>
     (\<exists>k es. (k, es) \<in> set (grouped Some ds) \<and> k \<notin> set alias_names \<and>
        conflict_finding ''DUPLICATED_SECTION'' es (Some k) = Some f) \<or>
     (\<exists>k es. (k, es) \<in> set (grouped requirement_of_label ds) \<and>
        conflict_finding ''CONTRADICTORY_REQUIREMENT'' es (Some k) = Some f)"
proof -
  have "f \<in> set (List.map_filter (\<lambda>(label, es). if label \<in> set alias_names then None
       else conflict_finding ''DUPLICATED_SECTION'' es (Some label)) gs) \<longleftrightarrow>
     (\<exists>k es. (k, es) \<in> set gs \<and> k \<notin> set alias_names \<and>
        conflict_finding ''DUPLICATED_SECTION'' es (Some k) = Some f)" for gs
    unfolding map_filter_set by (intro iffI; force split: if_splits)
  moreover have "f \<in> set (List.map_filter (\<lambda>(kind, names). conflict_finding kind (entries_of names ds) None) aliases) \<longleftrightarrow>
     (\<exists>kind names. (kind, names) \<in> set aliases \<and> conflict_finding kind (entries_of names ds) None = Some f)"
    unfolding map_filter_set by (intro iffI; force)
  moreover have "f \<in> set (List.map_filter (\<lambda>(r, es). conflict_finding ''CONTRADICTORY_REQUIREMENT'' es (Some r))
       (grouped requirement_of_label ds)) \<longleftrightarrow>
     (\<exists>k es. (k, es) \<in> set (grouped requirement_of_label ds) \<and>
        conflict_finding ''CONTRADICTORY_REQUIREMENT'' es (Some k) = Some f)"
    unfolding map_filter_set by (intro iffI; force)
  ultimately show ?thesis by (simp only: all_findings_def set_append Un_iff)
qed

lemma section_findings:
  "f \<in> set (all_findings ds) \<and> ic_type f = ''DUPLICATED_SECTION'' \<longleftrightarrow>
     (\<exists>k es. (k, es) \<in> set (grouped Some ds) \<and> k \<notin> set alias_names \<and>
        conflict_finding ''DUPLICATED_SECTION'' es (Some k) = Some f)"
proof -
  have "ic_type f \<noteq> ''DUPLICATED_SECTION''" if "conflict_finding ''CONTRADICTORY_REQUIREMENT'' es l = Some f" for es l
    using conflict_findingD(1) [OF that] by simp
  moreover have "ic_type f \<noteq> ''DUPLICATED_SECTION''"
    if "(kind, names) \<in> set aliases" "conflict_finding kind es l = Some f" for kind names es l
    using conflict_findingD(1) [OF that(2)] alias_kinds(2) [OF that(1)] by simp
  moreover have "ic_type f = ''DUPLICATED_SECTION''" if "conflict_finding ''DUPLICATED_SECTION'' es l = Some f" for es l
    using conflict_findingD(1) [OF that] .
  ultimately show ?thesis unfolding all_findings_mem by blast
qed

lemma requirement_findings:
  "f \<in> set (all_findings ds) \<and> ic_type f = ''CONTRADICTORY_REQUIREMENT'' \<longleftrightarrow>
     (\<exists>k es. (k, es) \<in> set (grouped requirement_of_label ds) \<and>
        conflict_finding ''CONTRADICTORY_REQUIREMENT'' es (Some k) = Some f)"
proof -
  have "ic_type f \<noteq> ''CONTRADICTORY_REQUIREMENT''" if "conflict_finding ''DUPLICATED_SECTION'' es l = Some f" for es l
    using conflict_findingD(1) [OF that] by simp
  moreover have "ic_type f \<noteq> ''CONTRADICTORY_REQUIREMENT''"
    if "(kind, names) \<in> set aliases" "conflict_finding kind es l = Some f" for kind names es l
    using conflict_findingD(1) [OF that(2)] alias_kinds(2) [OF that(1)] by simp
  moreover have "ic_type f = ''CONTRADICTORY_REQUIREMENT''"
    if "conflict_finding ''CONTRADICTORY_REQUIREMENT'' es l = Some f" for es l
    using conflict_findingD(1) [OF that] .
  ultimately show ?thesis unfolding all_findings_mem by blast
qed

text \<open>The finding on a group names its key.\<close>

lemma finding_named:
  assumes "conflict_finding kind es (Some k) = Some f" and "k \<noteq> []"
  shows "ic_description f = conflict_text l \<longleftrightarrow> k = l"
  using conflict_findingD(4) [OF assms(1)] subject_label [OF assms(2)] by (simp add: conflict_text_def)

lemma grouped_named:
  assumes "\<And>k es. (k, es) \<in> set (grouped key ds) \<Longrightarrow> k \<noteq> []"
  shows "(\<exists>f. (\<exists>k es. (k, es) \<in> set (grouped key ds) \<and> P k \<and> conflict_finding kind es (Some k) = Some f) \<and>
      ic_description f = conflict_text l) \<longleftrightarrow> P l \<and> values_differ (\<lambda>x. key x = Some l) ds"
    (is "?found \<longleftrightarrow> _")
proof -
  have "?found \<longleftrightarrow> P l \<and> (\<exists>es. (l, es) \<in> set (grouped key ds) \<and> conflict_finding kind es (Some l) \<noteq> None)" (is "_ \<longleftrightarrow> ?own")
  proof
    assume ?found
    then obtain f k es where g: "(k, es) \<in> set (grouped key ds)" "P k" "conflict_finding kind es (Some k) = Some f"
      "ic_description f = conflict_text l" by blast
    then have "k = l" using finding_named [OF g(3) assms [OF g(1)]] by simp
    with g show ?own by auto
  next
    assume ?own
    then obtain es f where g: "P l" "(l, es) \<in> set (grouped key ds)" "conflict_finding kind es (Some l) = Some f" by auto
    then have "ic_description f = conflict_text l" using finding_named [OF g(3) assms [OF g(2)]] by simp
    with g show ?found by blast
  qed
  then show ?thesis by (simp only: grouped_conflict)
qed

lemma all_findings_section:
  assumes "\<forall>(l', _) \<in> set ds. l' \<noteq> []"
  shows "(\<exists>f. (f \<in> set (all_findings ds) \<and> ic_type f = ''DUPLICATED_SECTION'') \<and> ic_description f = conflict_text l) \<longleftrightarrow>
    l \<notin> set alias_names \<and> values_differ (\<lambda>x. x = l) ds"
proof -
  have "k \<noteq> []" if "(k, es) \<in> set (grouped Some ds)" for k es
  proof -
    have "lines_under Some k ds \<noteq> []" using that grouped_set by metis
    then show ?thesis using assms by (auto simp: lines_under_def filter_empty_conv)
  qed
  from grouped_named [of Some ds "\<lambda>k. k \<notin> set alias_names" "''DUPLICATED_SECTION''", OF this] show ?thesis
    unfolding section_findings by simp
qed

lemma all_findings_requirement:
  "(\<exists>f. (f \<in> set (all_findings ds) \<and> ic_type f = ''CONTRADICTORY_REQUIREMENT'') \<and> ic_description f = conflict_text r) \<longleftrightarrow>
    values_differ (\<lambda>l. requirement_of_label l = Some r) ds"
  using grouped_named [of requirement_of_label ds "\<lambda>_. True" "''CONTRADICTORY_REQUIREMENT''", OF grouped_label_nonempty]
  unfolding requirement_findings by simp

lemma strip_head: "strip s = [] \<or> \<not> is_space (hd (strip s))"
proof (cases "strip s = []")
  case False
  define xs where "xs = dropWhile is_space s"
  have "strip s @ rev (takeWhile is_space (rev xs)) = xs"
    unfolding strip_def xs_def [symmetric] by (simp flip: rev_append)
  then have "hd (strip s) = hd xs" "xs \<noteq> []" using False by (metis hd_append2, force)
  then show ?thesis unfolding xs_def by (metis hd_dropWhile)
qed simp

lemma declared_label_nonempty:
  assumes "(l, v, i) \<in> set (declarations document)"
  shows "l \<noteq> []"
proof -
  from assms obtain raw where raw: "label_of_line raw = Some (l, v)"
    by (auto simp: declarations_def map_filter_set)
  let ?label = "takeWhile (\<lambda>c. c \<noteq> CHR '':'') (strip raw)"
  from raw have label: "?label \<noteq> []" and l: "l = collapse_spaces False (lower_label (strip ?label))"
    by (auto simp: label_of_line_def Let_def split: if_splits)
  have "hd ?label = hd (strip raw)" using label by (cases "strip raw") (auto split: if_splits)
  then have "\<not> is_space (hd ?label)" using strip_head [of raw] label by auto
  then have "strip ?label \<noteq> []" using label by (cases ?label) (auto simp: strip_def)
  then show ?thesis unfolding l by (cases "strip ?label") (simp_all add: lower_label_def)
qed

text \<open>C36. The findings of a document, before they are cut to the first 50, are exactly its conflicts, up to
  case: one of the kind of a date, a deadline, a budget, a product, a priority or a total when two
  lines with one of the kind's names declare different values; one on any other label when two of its
  lines do; and one on a requirement when two lines on it do. Those reported are the first 50, and
  each names at least two lines.\<close>

theorem conflicts_found_exactly:
  "let ds = declarations document; fs = all_findings ds in
   (\<forall>(kind, names) \<in> set aliases. (\<exists>f \<in> set fs. ic_type f = kind) \<longleftrightarrow> values_differ (\<lambda>l. l \<in> set names) ds) \<and>
   (\<forall>l.
      (\<exists>f. (f \<in> set fs \<and> ic_type f = ''DUPLICATED_SECTION'') \<and> ic_description f = conflict_text l) \<longleftrightarrow>
      l \<notin> set alias_names \<and> values_differ (\<lambda>x. x = l) ds) \<and>
   (\<forall>r.
      (\<exists>f. (f \<in> set fs \<and> ic_type f = ''CONTRADICTORY_REQUIREMENT'') \<and> ic_description f = conflict_text r) \<longleftrightarrow>
      values_differ (\<lambda>l. requirement_of_label l = Some r) ds) \<and>
   deterministic_inconsistencies document = take 50 fs \<and>
   (\<forall>f \<in> set fs. 2 \<le> length (ic_locations f) \<and> ic_method f = ''DETERMINISTIC'')"
proof -
  let ?ds = "declarations document"
  have "(\<exists>f \<in> set (all_findings ?ds). ic_type f = kind) \<longleftrightarrow> values_differ (\<lambda>l. l \<in> set names) ?ds"
    if "(kind, names) \<in> set aliases" for kind names
    unfolding all_findings_kind [OF that] by (rule conflict_finding_differ) (simp add: entries_of_def)
  then have kinds: "\<forall>(kind, names) \<in> set aliases. (\<exists>f \<in> set (all_findings ?ds). ic_type f = kind) \<longleftrightarrow>
      values_differ (\<lambda>l. l \<in> set names) ?ds" by fast
  have labels: "\<forall>(l, _) \<in> set ?ds. l \<noteq> []" using declared_label_nonempty by fast
  show ?thesis
    unfolding Let_def
  proof (intro conjI allI)
    show "deterministic_inconsistencies document = take 50 (all_findings ?ds)" by (simp add: deterministic_inconsistencies_def)
  qed (rule kinds all_findings_section [OF labels] all_findings_requirement, (use all_findingsD in blast)?)+
qed

definition two_budgets :: string where
  "two_budgets = ''budget: 5'' @ [CHR 0x0A] @ ''campaign  budget: 6''"

lemma two_budgets_declared: "declarations two_budgets = [(''budget'', ''5'', 1), (''campaign budget'', ''6'', 2)]"
  by (simp add: declarations_def two_budgets_def is_line_end_def label_of_line_def strip_def is_space_def lower_label_def
      lower_char_def map_filter_simps Let_def del: One_nat_def)

lemma conflicts_found_exactly_witness:
  "\<exists>f \<in> set (all_findings (declarations two_budgets)). ic_type f = ''BUDGET''"
proof -
  have b: "(''BUDGET'', [''budget'', ''campaign budget'']) \<in> set aliases" by (simp add: aliases_def)
  have "casefold ''5'' \<noteq> casefold ''6''" by (simp add: casefold_def casefold_char_def)
  then have "values_differ (\<lambda>l. l \<in> set [''budget'', ''campaign budget'']) (declarations two_budgets)"
    by (simp add: values_differ_def two_budgets_declared)
  with b conflicts_found_exactly [of two_budgets] show ?thesis unfolding Let_def by fast
qed

subsection \<open>Classification\<close>

lemma first_max_best:
  "first_max b xs \<in> set (b # xs) \<and> (\<forall>x \<in> set (b # xs). snd x \<le> snd (first_max b xs))"
proof (induction xs arbitrary: b)
  case (Cons x xs)
  show ?case using Cons.IH [of "if snd b < snd x then x else b"] by (auto split: if_splits) 
qed simp

text \<open>A document has a type other than \<open>UNKNOWN\<close> only if a signal of that type occurs in it, and no type
  has more signals; the confidence lies between 0.25 and 0.95.\<close>

lemma classification_supported:
  assumes "classify_document text = (kind, confidence)"
  shows "1 / 4 \<le> confidence \<and> confidence \<le> 95 / 100 \<and>
    (kind = DT_UNKNOWN \<or> (\<exists>items n. (kind, items) \<in> set signals \<and> (kind, n) \<in> set (scores_of (lower text)) \<and>
       (\<exists>i \<in> set items. contains_text i (lower text)) \<and> (\<forall>(k, m) \<in> set (scores_of (lower text)). m \<le> n)))"
proof -
  let ?scores = "scores_of (lower text)"
  have ne: "?scores \<noteq> []" by (simp add: scores_of_def signals_def)
  obtain winner score where w: "first_max (hd ?scores) (tl ?scores) = (winner, score)" by fastforce
  have set: "set (hd ?scores # tl ?scores) = set ?scores" using ne by (metis list.collapse)
  from first_max_best [of "hd ?scores" "tl ?scores"] have best: "(winner, score) \<in> set ?scores"
    "\<forall>(k, m) \<in> set ?scores. m \<le> score"
    unfolding set w by auto
  show ?thesis
  proof (cases "score = 0")
    case True
    with assms w show ?thesis by (simp add: classify_document_def Let_def)
  next
    case False
    with assms w have eq: "kind = winner" "confidence = min (50 / 100 + of_nat score * (15 / 100)) (95 / 100)"
      by (simp_all add: classify_document_def Let_def)
    from best(1) obtain items where items: "(winner, items) \<in> set signals"
      "score = length (filter (\<lambda>i. contains_text i (lower text)) items)"
      by (auto simp: scores_of_def)
    then have "\<exists>i \<in> set items. contains_text i (lower text)" using False by (metis filter_False list.size(3))
    moreover have "confidence \<le> 95 / 100" unfolding eq(2) by (rule min.cobounded2)
    moreover have "0 \<le> (of_nat score * (15 / 100) :: rat)" by simp
    then have "1 / 4 \<le> confidence" unfolding eq(2) by (simp add: min_def) 
    ultimately show ?thesis using eq(1) items(1) best by blast
  qed
qed

end
