(* ===== verification/Applied_Tasks.thy ===== *)
theory Applied_Tasks
  imports Data_Analysis Document_Processing Prompt_Runs
begin

text \<open>
  Applied workflows: the registry (\<open>app/applied_workflows/registry.py\<close>), the tasks of
  \<open>app/service/applied_workflow_service.py\<close> with \<open>app/repositories/applied_workflow_repository.py\<close>, the
  requests of \<open>data_analysis_service.py\<close> and \<open>document_processing_service.py\<close>, and the handlers of their
  jobs (\<open>app/jobs/handlers.py\<close>). Of a prompt's provenance a task keeps the version.
\<close>

subsection \<open>Registry\<close>

record workflow_definition =
  wd_type :: applied_workflow_type
  wd_display_name :: string
  wd_description :: string
  wd_required_capabilities :: "string list"
  wd_allowed_roles :: "user_role list"
  wd_job_type :: "job_type option"
  wd_task_type :: string
  wd_template_slug :: "string option"
  wd_enabled :: bool

definition common_roles :: "user_role list" where
  "common_roles = [UR_MARKETING, UR_REVIEWER, UR_MANAGER, UR_ADMIN]"

definition workflow_definition_of ::
  "applied_workflow_type \<Rightarrow> string \<Rightarrow> string \<Rightarrow> string list \<Rightarrow> job_type \<Rightarrow> string \<Rightarrow> string \<Rightarrow> workflow_definition" where
  "workflow_definition_of ty name description capabilities job task_type slug =
     \<lparr>wd_type = ty, wd_display_name = name, wd_description = description, wd_required_capabilities = capabilities,
      wd_allowed_roles = common_roles, wd_job_type = Some job, wd_task_type = task_type, wd_template_slug = Some slug,
      wd_enabled = True\<rparr>"

fun applied_definition :: "applied_workflow_type \<Rightarrow> workflow_definition" where
  "applied_definition AW_CAMPAIGN_CONTENT = workflow_definition_of AW_CAMPAIGN_CONTENT ''Campaign Content''
     ''Create and review multi-channel campaign content.'' [''structured_output'', ''tool_calling'']
     JT_WORKFLOW_RUN ''campaign_content'' ''campaign-content''"
| "applied_definition AW_DATA_ANALYSIS = workflow_definition_of AW_DATA_ANALYSIS ''CSV Data Analysis''
     ''Compute deterministic campaign and game analytics.'' [''structured_output'']
     JT_DATA_ANALYSIS ''data_analysis'' ''data-analysis-explanation''"
| "applied_definition AW_DOCUMENT_PROCESSING = workflow_definition_of AW_DOCUMENT_PROCESSING ''Document Processing''
     ''Extract and structure business documents safely.'' [''structured_output'']
     JT_DOCUMENT_PROCESSING ''document_processing'' ''document-processing''"
| "applied_definition AW_IMAGE_GENERATION = workflow_definition_of AW_IMAGE_GENERATION ''Image Generation''
     ''Generate review-gated campaign imagery.'' [''image_generation'']
     JT_IMAGE_GENERATION ''image_generation'' ''campaign-image-generation''"
| "applied_definition AW_VIDEO_STORYBOARD = workflow_definition_of AW_VIDEO_STORYBOARD ''Video Storyboard''
     ''Create a structured storyboard for human review.'' [''structured_output'']
     JT_VIDEO_STORYBOARD ''video_storyboard'' ''video-storyboard''"

definition applied_definitions :: "workflow_definition list" where
  "applied_definitions = map applied_definition
     [AW_CAMPAIGN_CONTENT, AW_DATA_ANALYSIS, AW_DOCUMENT_PROCESSING, AW_IMAGE_GENERATION, AW_VIDEO_STORYBOARD]"

text \<open>The task types of the registry are those impacts and feedback are recorded under.\<close>

lemma registry_task_types:
  "wd_type (applied_definition ty) = ty"
  "ta_workflow_type t = ty \<Longrightarrow> task_type_of t = wd_task_type (applied_definition ty)"
proof -
  show "wd_type (applied_definition ty) = ty" by (cases ty) (simp_all add: workflow_definition_of_def)
  assume t: "ta_workflow_type t = ty"
  have "lower (applied_workflow_type_value ty) = wd_task_type (applied_definition ty)"
    by (cases ty) (simp_all add: workflow_definition_of_def, code_simp+)
  with t show "task_type_of t = wd_task_type (applied_definition ty)" by (simp add: task_type_of_def)
qed

subsection \<open>Tasks\<close>

definition required_task :: "uuid \<Rightarrow> platform_db \<Rightarrow> (exn, task_row) res" where
  "required_task k db = required (get_task db k) (not_found ''Applied workflow task not found'')"

definition list_tasks ::
  "int \<Rightarrow> int \<Rightarrow> string option \<Rightarrow> applied_workflow_type option \<Rightarrow> applied_task_status option \<Rightarrow> platform_db \<Rightarrow>
   task_row list" where
  "list_tasks limit offset owner ty status db =
     take (nat (min (max limit 1) 100)) (drop (nat (max offset 0))
       (sort_key (\<lambda>t. - ta_created_at t) (sort_key ta_id (filter (\<lambda>t.
          matches owner (Some (ta_created_by t)) \<and> matches ty (Some (ta_workflow_type t)) \<and>
          matches status (Some (ta_status t))) (pd_tasks db)))))"

definition completed_task :: "time \<Rightarrow> json \<Rightarrow> applied_task_status \<Rightarrow> task_row \<Rightarrow> task_row" where
  "completed_task now result status t =
     t\<lparr>ta_status := status, ta_result := Some result, ta_completed_at := Some now,
       ta_duration_ms := Some (task_duration t now)\<rparr>"

definition complete_task ::
  "time \<Rightarrow> uuid \<Rightarrow> json \<Rightarrow> applied_task_status \<Rightarrow> platform_db \<Rightarrow> (exn, task_row \<times> platform_db) res" where
  "complete_task now k result status db =
     and_then (required_task k db) (\<lambda>t.
     let t' = completed_task now result status t in Inr (t', put_task t' db))"

definition claimed_task :: "time \<Rightarrow> task_row \<Rightarrow> task_row" where
  "claimed_task now t =
     t\<lparr>ta_status := AP_PROCESSING, ta_started_at := (case ta_started_at t of None \<Rightarrow> Some now | s \<Rightarrow> s),
       ta_error_code := None, ta_error_message := None\<rparr>"

definition mark_task_processing :: "time \<Rightarrow> uuid \<Rightarrow> platform_db \<Rightarrow> (exn, task_row \<times> platform_db) res" where
  "mark_task_processing now k db =
     and_then (required_task k db) (\<lambda>t. let t' = claimed_task now t in Inr (t', put_task t' db))"

subsection \<open>Requests\<close>

record applied_settings =
  ap_llm_provider :: string
  ap_llm_model :: "string option"

definition applied_model :: "applied_settings \<Rightarrow> string" where
  "applied_model ap = or_str (ap_llm_model ap) ''mock-applied-ai''"

definition applied_hash :: "hashing \<Rightarrow> applied_settings \<Rightarrow> string" where
  "applied_hash h ap = model_configuration_hash h (ap_llm_provider ap) (applied_model ap) (JObj [(''temperature'', JInt 0)])"

definition applied_task ::
  "hashing \<Rightarrow> applied_settings \<Rightarrow> call_env \<Rightarrow> applied_workflow_type \<Rightarrow> json \<Rightarrow> string \<Rightarrow> rendered_prompt \<Rightarrow> uuid \<Rightarrow>
   string \<Rightarrow> task_row" where
  "applied_task h ap env ty metadata content managed job actor =
     (new_task env ty metadata (ap_llm_provider ap) (applied_model ap) (Some (rp_version_id managed))
        (applied_hash h ap) job actor)\<lparr>ta_content := Some content\<rparr>"

definition request_data_analysis ::
  "coercions \<Rightarrow> hashing \<Rightarrow> job_settings \<Rightarrow> applied_settings \<Rightarrow> formatting \<Rightarrow> call_env \<Rightarrow> string \<Rightarrow> string \<Rightarrow> string \<Rightarrow>
   platform_db \<Rightarrow> (exn, task_row \<times> platform_db) res" where
  "request_data_analysis co h st ap fm env content filename actor db =
     and_then (resolve fm [(''metrics'', ''pending deterministic analysis'')] None (Some ''data_analysis'') db) (\<lambda>managed.
     and_then (enqueue_keyed co h st env (plain_job JT_DATA_ANALYSIS (DataAnalysisJobPayload (env_row_id env)) actor
       (''data-analysis:'' @ uuid_str (env_row_id env))) db) (\<lambda>(j, db1).
     let t = applied_task h ap env AW_DATA_ANALYSIS (JObj
         [(''filename'', JStr filename), (''size_bytes'', JInt (int (length content))),
          (''sha256'', JStr (sha256_hex h content)), (''mime_type'', JStr ''text/csv'')]) content managed (job_id j) actor
     in Inr (t, db1\<lparr>pd_tasks := pd_tasks db1 @ [t]\<rparr>)))"

definition request_document_processing ::
  "coercions \<Rightarrow> hashing \<Rightarrow> job_settings \<Rightarrow> applied_settings \<Rightarrow> formatting \<Rightarrow> call_env \<Rightarrow> string \<Rightarrow> string \<Rightarrow> string \<Rightarrow>
   string \<Rightarrow> platform_db \<Rightarrow> (exn, task_row \<times> platform_db) res" where
  "request_document_processing co h st ap fm env content filename content_type actor db =
     and_then (resolve fm [(''document'', ''pending untrusted document'')] None (Some ''document_processing'') db) (\<lambda>managed.
     and_then (enqueue_keyed co h st env (plain_job JT_DOCUMENT_PROCESSING (DocumentProcessingJobPayload (env_row_id env))
       actor (''document-processing:'' @ uuid_str (env_row_id env))) db) (\<lambda>(j, db1).
     let t = applied_task h ap env AW_DOCUMENT_PROCESSING (JObj
         [(''filename'', JStr filename), (''content_type'', JStr content_type),
          (''size_bytes'', JInt (int (length content))), (''sha256'', JStr (sha256_hex h content))])
         content managed (job_id j) actor
     in Inr (t, db1\<lparr>pd_tasks := pd_tasks db1 @ [t]\<rparr>)))"

subsection \<open>Handlers\<close>

text \<open>
  What a handler finds around it: the readings of the clock, what others commit before its
  checkpoint and its last transaction, and the client factory.
\<close>

record task_world =
  tw_now :: "nat \<Rightarrow> time"
  tw_end :: call_env
  tw_others :: "nat \<Rightarrow> platform_db \<Rightarrow> platform_db"
  tw_client :: "(exn, llm_client) res"
  tw_str :: "json \<Rightarrow> string"
  tw_isoformat :: "time \<Rightarrow> string"

definition metadata_text :: "(json \<Rightarrow> string) \<Rightarrow> json \<Rightarrow> string \<Rightarrow> string \<Rightarrow> string" where
  "metadata_text str_of v key d =
     (case v of JObj es \<Rightarrow> (case map_of es key of None \<Rightarrow> d | Some (JStr s) \<Rightarrow> s | Some x \<Rightarrow> str_of x) | _ \<Rightarrow> d)"

text \<open>The first transaction: nothing is left to do for a completed task.\<close>

definition begin_task ::
  "string \<Rightarrow> time \<Rightarrow> uuid \<Rightarrow> platform_db \<Rightarrow> (exn, (task_row \<times> version_row) option \<times> platform_db) res" where
  "begin_task message now k db =
     and_then (required_task k db) (\<lambda>t.
     if ta_status t = AP_COMPLETED then Inr (None, db)
     else and_then (mark_task_processing now k db) (\<lambda>(t', db1).
       and_then (required (Option.bind (ta_prompt_version_id t') (get_version db1)) (payload_mismatch message)) (\<lambda>v.
       Inr (Some (t', v), db1))))"

definition task_event :: "outbox_event_type \<Rightarrow> uuid \<Rightarrow> event_request" where
  "task_event ty k = plain_event ty ''applied_task'' k (JObj [(''task_run_id'', JStr (uuid_str k))]) None"

definition finish_task ::
  "services \<Rightarrow> task_world \<Rightarrow> outbox_event_type \<Rightarrow> uuid \<Rightarrow> json \<Rightarrow> platform_db \<Rightarrow> (exn, unit \<times> platform_db) res" where
  "finish_task sv w ty k result db =
     and_then (complete_task (tw_now w 1) k result AP_COMPLETED db) (\<lambda>(t, db1).
     and_then (platform_event sv (tw_end w) (task_event ty k) db1) (\<lambda>db2. Inr ((), db2)))"

definition check_job :: "leased_job \<Rightarrow> string \<Rightarrow> (platform_db, unit) session" where
  "check_job job worker db = (checkpoint (lj_job_id job) worker db, db)"

definition run_task ::
  "services \<Rightarrow> task_world \<Rightarrow> leased_job \<Rightarrow> string \<Rightarrow> string \<Rightarrow> outbox_event_type \<Rightarrow>
   (llm_client \<Rightarrow> task_row \<Rightarrow> version_row \<Rightarrow> (exn, json) res) \<Rightarrow> uuid \<Rightarrow> (platform_db, unit) session" where
  "run_task sv w job worker message ty work k =
     and_session (check_job job worker) (\<lambda>_.
     and_session (atomically (begin_task message (tw_now w 0) k)) (\<lambda>started.
     case started of
       None \<Rightarrow> returns ()
     | Some (t, v) \<Rightarrow>
         and_session (\<lambda>db. (and_then (tw_client w) (\<lambda>c. work c t v), db)) (\<lambda>result.
         and_session (interfering (tw_others w 0) (check_job job worker)) (\<lambda>_.
         interfering (tw_others w 1) (atomically (finish_task sv w ty k result))))))"

definition content_of :: "task_row \<Rightarrow> string" where
  "content_of t = (case ta_content t of None \<Rightarrow> [] | Some c \<Rightarrow> c)"

definition data_analysis_work ::
  "task_world \<Rightarrow> analysis_world \<Rightarrow> llm_client \<Rightarrow> task_row \<Rightarrow> version_row \<Rightarrow> (exn, json) res" where
  "data_analysis_work w aw client t v =
     and_then (analyze_csv (aw\<lparr>aw_client := client\<rparr>) v (content_of t)
       (metadata_text (tw_str w) (ta_input t) ''filename'' ''upload.csv'')) (\<lambda>r. Inr (dump_report (tw_isoformat w) r))"

definition data_analysis_handler ::
  "coercions \<Rightarrow> services \<Rightarrow> task_world \<Rightarrow> analysis_world \<Rightarrow> leased_job \<Rightarrow> string \<Rightarrow> (platform_db, unit) session" where
  "data_analysis_handler co sv w aw job worker =
     (case validate_job_payload co (lj_job_type job) (lj_payload job) of
        Inl e \<Rightarrow> (\<lambda>db. (Inl e, db))
      | Inr (DataAnalysisJobPayload k) \<Rightarrow>
          run_task sv w job worker ''Managed data-analysis prompt is unavailable'' OE_DATA_ANALYSIS_COMPLETED
            (data_analysis_work w aw) k
      | Inr _ \<Rightarrow> (\<lambda>db. (Inl (payload_mismatch ''Data analysis payload does not match its type''), db)))"

definition document_work ::
  "task_world \<Rightarrow> document_world \<Rightarrow> llm_client \<Rightarrow> task_row \<Rightarrow> version_row \<Rightarrow> (exn, json) res" where
  "document_work w dw client t v =
     and_then (process_document (dw\<lparr>dw_client := client\<rparr>) v (content_of t)
       (metadata_text (tw_str w) (ta_input t) ''filename'' ''upload.txt'')
       (metadata_text (tw_str w) (ta_input t) ''content_type'' ''application/octet-stream''))
       (\<lambda>r. Inr (dump_document (tw_isoformat w) r))"

definition document_processing_handler ::
  "coercions \<Rightarrow> services \<Rightarrow> task_world \<Rightarrow> document_world \<Rightarrow> leased_job \<Rightarrow> string \<Rightarrow> (platform_db, unit) session" where
  "document_processing_handler co sv w dw job worker =
     (case validate_job_payload co (lj_job_type job) (lj_payload job) of
        Inl e \<Rightarrow> (\<lambda>db. (Inl e, db))
      | Inr (DocumentProcessingJobPayload k) \<Rightarrow>
          run_task sv w job worker ''Managed document prompt is unavailable'' OE_DOCUMENT_PROCESSING_COMPLETED
            (document_work w dw) k
      | Inr _ \<Rightarrow> (\<lambda>db. (Inl (payload_mismatch ''Document processing payload does not match its type''), db)))"

end
