(* ===== verification/Applied_Properties.thy ===== *)
theory Applied_Properties
  imports Applied_Tasks Business_Properties Run_Properties
begin

text \<open>
  The properties of the handlers of applied tasks: what a run that returns and a run that raises
  leave behind, whatever others commit between its transactions.
\<close>

lemma task_event_payload: "er_payload (task_event ty k) = JObj [(''task_run_id'', JStr (uuid_str k))]"
  by (simp add: task_event_def plain_event_def)

lemma platform_event_tasks: "platform_event sv env r db = Inr db' \<Longrightarrow> pd_tasks db' = pd_tasks db"
  by (auto simp: platform_event_def result_simps)

lemma put_task_get: "get_task db k = Some t0 \<Longrightarrow> ta_id t = k \<Longrightarrow> get_task (put_task t db) k = Some t"
  by (simp add: put_task_def task_table.get_put_same)

lemma put_task_other: "ta_id t \<noteq> k \<Longrightarrow> get_task (put_task t db) k = get_task db k"
  by (simp add: put_task_def task_table.get_put_other)

lemma finish_task_Inr:
  assumes "finish_task sv w ty k result db = Inr ((), db')"
  obtains t where "get_task db k = Some t" "get_task db' k = Some (completed_task (tw_now w 1) result AP_COMPLETED t)"
    "\<exists>x \<in> set (events (pd_core db')). o_idempotency_key x =
       event_key (sv_hashing sv) (task_event ty k) (sanitize_json 2000 (er_payload (task_event ty k)))"
proof -
  from assms obtain t db1 where t: "get_task db k = Some t"
    and db1: "db1 = put_task (completed_task (tw_now w 1) result AP_COMPLETED t) db"
    and e: "platform_event sv (tw_end w) (task_event ty k) db1 = Inr db'"
    by (auto simp: finish_task_def complete_task_def required_task_def and_then_Inr_iff required_iff Let_def)
  have "ta_id (completed_task (tw_now w 1) result AP_COMPLETED t) = k"
    using t by (auto simp: completed_task_def dest: t_get_SomeD)
  then have "get_task db' k = Some (completed_task (tw_now w 1) result AP_COMPLETED t)"
    using put_task_get [OF t] platform_event_tasks [OF e] db1 by simp
  with t platform_event_keyed [OF e] that show thesis by blast
qed

lemma begin_task_Inr:
  assumes "begin_task message now k db = Inr (started, db')"
  obtains (completed) t where "started = None" "db' = db" "get_task db k = Some t" "ta_status t = AP_COMPLETED"
    | (begun) t v where "started = Some (claimed_task now t, v)" "get_task db k = Some t" "ta_status t \<noteq> AP_COMPLETED"
        "db' = put_task (claimed_task now t) db" "Option.bind (ta_prompt_version_id t) (get_version db') = Some v"
proof -
  from assms obtain t where t: "get_task db k = Some t"
    and r: "(if ta_status t = AP_COMPLETED then Inr (None, db)
      else and_then (mark_task_processing now k db) (\<lambda>(t', db1).
       and_then (required (Option.bind (ta_prompt_version_id t') (get_version db1)) (payload_mismatch message)) (\<lambda>v.
       Inr (Some (t', v), db1)))) = Inr (started, db')"
    by (auto simp: begin_task_def required_task_def and_then_Inr_iff required_iff)
  show thesis
  proof (cases "ta_status t = AP_COMPLETED")
    case True
    with r t completed show thesis by simp
  next
    case False
    with r t begun show thesis
      by (auto simp: mark_task_processing_def required_task_def and_then_Inr_iff required_iff Let_def claimed_task_def)
  qed
qed

lemma check_job_Inr: "check_job job worker db = (Inr u, db') \<Longrightarrow> db' = db"
  by (auto simp: check_job_def)

lemma and_session_step: "m s = (Inr a, s') \<Longrightarrow> f a s' = r \<Longrightarrow> and_session m f s = r"
  by (simp add: and_session_def)

lemma atomically_Inr_iff: "atomically f s = (Inr a, s') \<longleftrightarrow> f s = Inr (a, s')"
  by (auto simp: atomically_def split: sum.splits prod.splits)

text \<open>What a run that returns has done.\<close>

lemma run_task_Inr:
  assumes "run_task sv w job worker message ty work k db = (Inr (), db')"
  obtains (already) t where "get_task db k = Some t" "ta_status t = AP_COMPLETED" "db' = db"
    | (worked) c t v result db2 where "tw_client w = Inr c" "get_task db k = Some t" "ta_status t \<noteq> AP_COMPLETED"
        "work c (claimed_task (tw_now w 0) t) v = Inr result" "finish_task sv w ty k result db2 = Inr ((), db')"
proof -
  let ?finish = "\<lambda>result. interfering (tw_others w 1) (atomically (finish_task sv w ty k result))"
  let ?close = "\<lambda>result. and_session (interfering (tw_others w 0) (check_job job worker)) (\<lambda>_. ?finish result)"
  let ?work = "\<lambda>t v. and_session (\<lambda>db. (and_then (tw_client w) (\<lambda>c. work c t v), db)) ?close"
  let ?rest = "\<lambda>started. case started of None \<Rightarrow> returns () | Some (t, v) \<Rightarrow> ?work t v"
  from assms [unfolded run_task_def] obtain u s where checked: "check_job job worker db = (Inr u, s)"
    and r0: "and_session (atomically (begin_task message (tw_now w 0) k)) ?rest s = (Inr (), db')"
    by (rule and_session_InrE)
  from checked have "s = db" by (rule check_job_Inr)
  with r0 have "and_session (atomically (begin_task message (tw_now w 0) k)) ?rest db = (Inr (), db')" by (simp only:)
  then obtain started db1 where "atomically (begin_task message (tw_now w 0) k) db = (Inr started, db1)"
    and r: "?rest started db1 = (Inr (), db')"
    by (rule and_session_InrE)
  then have b: "begin_task message (tw_now w 0) k db = Inr (started, db1)" by (simp only: atomically_Inr_iff)
  from b show thesis
  proof (cases rule: begin_task_Inr)
    case (completed t)
    from r completed(1,2) have "db' = db" by (simp add: returns_def)
    with completed(3,4) show thesis by (rule already)
  next
    case (begun t v)
    from r begun(1) have "?work (claimed_task (tw_now w 0) t) v db1 = (Inr (), db')" by simp
    then obtain result s1 where "(and_then (tw_client w) (\<lambda>c. work c (claimed_task (tw_now w 0) t) v), db1) = (Inr result, s1)"
      and e: "?close result s1 = (Inr (), db')"
      by (rule and_session_InrE)
    then have "and_then (tw_client w) (\<lambda>c. work c (claimed_task (tw_now w 0) t) v) = Inr result" by simp
    then obtain c where c: "tw_client w = Inr c" "work c (claimed_task (tw_now w 0) t) v = Inr result"
      unfolding and_then_Inr_iff by blast
    from e obtain u s2 where "?finish result s2 = (Inr (), db')" by (rule and_session_InrE)
    then have "finish_task sv w ty k result (tw_others w 1 s2) = Inr ((), db')"
      unfolding interfering_def atomically_Inr_iff .
    note c(2) this
    with begun(2,3) show thesis by (intro worked [OF c(1)])
  qed
qed

text \<open>C37. A run of a task's job that returns leaves the task completed. If it was not completed before, its
  result is what the work made of the stored content, and its event stands in the outbox, whatever
  others have committed between the transactions.\<close>

theorem finished_run_completes_task:
  assumes "run_task sv w job worker message ty work k db = (Inr (), db')"
  shows "\<exists>t t'. get_task db k = Some t \<and> get_task db' k = Some t' \<and> ta_status t' = AP_COMPLETED \<and>
    (if ta_status t = AP_COMPLETED then db' = db
     else (\<exists>c v result. tw_client w = Inr c \<and> work c (claimed_task (tw_now w 0) t) v = Inr result \<and>
         ta_result t' = Some result) \<and>
       (\<exists>x \<in> set (events (pd_core db')). o_idempotency_key x =
          event_key (sv_hashing sv) (task_event ty k) (sanitize_json 2000 (er_payload (task_event ty k)))))"
  using assms
proof (cases rule: run_task_Inr)
  case (already t)
  then show ?thesis by auto
next
  case (worked c t v result db2)
  from worked(5) obtain t2 where "get_task db' k = Some (completed_task (tw_now w 1) result AP_COMPLETED t2)"
    "\<exists>x \<in> set (events (pd_core db')). o_idempotency_key x =
       event_key (sv_hashing sv) (task_event ty k) (sanitize_json 2000 (er_payload (task_event ty k)))"
    by (rule finish_task_Inr)
  with worked show ?thesis
    by (intro exI [of _ t] exI [of _ "completed_task (tw_now w 1) result AP_COMPLETED t2"]) (auto simp: completed_task_def)
qed

text \<open>A task that was cancelled in the meantime is completed all the same: neither its start nor its
  completion looks at the status.\<close>

lemma cancelled_task_completed:
  assumes "finish_task sv w ty k result db = Inr ((), db')" and "get_task db k = Some t" and "ta_status t = AP_CANCELLED"
  shows "\<exists>t'. get_task db' k = Some t' \<and> ta_status t' = AP_COMPLETED"
  using assms(1) by (rule finish_task_Inr) (auto simp: completed_task_def)

subsection \<open>An example\<close>

definition open_task :: task_row where
  "open_task = done_task\<lparr>ta_status := AP_PENDING, ta_prompt_version_id := Some 2\<rparr>"

definition open_task_db :: platform_db where
  "open_task_db = empty_platform\<lparr>pd_tasks := [open_task], pd_versions := [run_version 2]\<rparr>"

definition quiet_world :: task_world where
  "quiet_world = \<lparr>tw_now = (\<lambda>n. 5), tw_end = ex_env, tw_others = (\<lambda>_ db. db), tw_client = Inr run_client,
     tw_str = (\<lambda>_. []), tw_isoformat = (\<lambda>_. [])\<rparr>"

definition data_job :: leased_job where
  "data_job = \<lparr>lj_job_id = 1, lj_job_type = JT_DATA_ANALYSIS, lj_payload = JObj [(''task_run_id'', JStr (uuid_str 1))],
     lj_attempt_count = 1, lj_max_attempts = 5, lj_correlation_id = ''c'', lj_trace_id = None\<rparr>"

lemma open_task_runs:
  "\<exists>db'. run_task ex_services quiet_world data_job ''w1'' ''none'' OE_DATA_ANALYSIS_COMPLETED
     (\<lambda>_ t _. Inr (JStr (content_of t))) 1 open_task_db = (Inr (), db')"
proof -
  let ?t = "claimed_task 5 open_task" and ?w = quiet_world
  let ?db1 = "put_task ?t open_task_db"
  have ids: "ta_id open_task = 1" "ta_status open_task = AP_PENDING" "ta_prompt_version_id open_task = Some 2"
    by (simp_all add: open_task_def)
  have t: "get_task open_task_db 1 = Some open_task" by (simp add: open_task_db_def table_simps ids)
  have v: "get_version ?db1 2 = Some (run_version 2)"
    by (simp add: put_task_def open_task_db_def table_simps run_version_def)
  have check: "checkpoint k wk db = Inr ()" if "jobs (pd_queue db) = []" for k wk and db :: platform_db
    using that by (simp add: checkpoint_def repo_cancellation_requested_def table_simps require_def)
  have q: "jobs (pd_queue open_task_db) = []" "jobs (pd_queue ?db1) = []"
    by (simp_all add: open_task_db_def put_task_def empty_platform_def)
  have b: "begin_task ''none'' 5 1 open_task_db = Inr (Some (?t, run_version 2), ?db1)"
    using v by (simp add: begin_task_def required_task_def t ids mark_task_processing_def and_then_def
        claimed_task_def Let_def del: One_nat_def)
  have t1: "get_task ?db1 1 = Some ?t" by (rule put_task_get [OF t]) (simp add: claimed_task_def ids)
  let ?r = "JStr (content_of ?t)"
  let ?db2 = "put_task (completed_task 5 ?r AP_COMPLETED ?t) ?db1"
  from add_outbox_event_ok [OF task_event_payload, of ex_services ex_env OE_DATA_ANALYSIS_COMPLETED 1 "pd_core ?db2"]
  obtain db2 where "platform_event ex_services ex_env (task_event OE_DATA_ANALYSIS_COMPLETED 1)
      (put_task (completed_task 5 ?r AP_COMPLETED ?t) ?db1) = Inr db2"
    by (auto simp: platform_event_def)
  then have f: "finish_task ex_services ?w OE_DATA_ANALYSIS_COMPLETED 1 ?r ?db1 = Inr ((), db2)"
    by (simp add: finish_task_def complete_task_def required_task_def t1 quiet_world_def and_then_def Let_def del: One_nat_def)
  have c0: "check_job data_job ''w1'' open_task_db = (Inr (), open_task_db)" by (simp add: check_job_def check [OF q(1)])
  have b0: "atomically (begin_task ''none'' (tw_now ?w 0) 1) open_task_db = (Inr (Some (?t, run_version 2)), ?db1)"
    using b by (simp add: atomically_def quiet_world_def del: One_nat_def)
  have w0: "(and_then (tw_client ?w) (\<lambda>c. Inr ?r), ?db1) = (Inr ?r, ?db1)" by (simp add: quiet_world_def and_then_def)
  have c1: "interfering (tw_others ?w 0) (check_job data_job ''w1'') ?db1 = (Inr (), ?db1)"
    by (simp add: interfering_def quiet_world_def check_job_def check [OF q(2)])
  have f0: "interfering (tw_others ?w 1) (atomically (finish_task ex_services ?w OE_DATA_ANALYSIS_COMPLETED 1 ?r)) ?db1 = (Inr (), db2)"
    using f by (simp add: interfering_def atomically_def) (simp add: quiet_world_def)
  have "run_task ex_services ?w data_job ''w1'' ''none'' OE_DATA_ANALYSIS_COMPLETED
     (\<lambda>_ t _. Inr (JStr (content_of t))) 1 open_task_db = (Inr (), db2)"
    unfolding run_task_def
    by (rule and_session_step, rule c0, rule and_session_step, rule b0, unfold option.case prod.case,
        rule and_session_step, rule w0, rule and_session_step, rule c1, rule f0)
  then show ?thesis ..
qed

lemma finished_run_completes_task_witness:
  "\<exists>db' t. run_task ex_services quiet_world data_job ''w1'' ''none'' OE_DATA_ANALYSIS_COMPLETED
     (\<lambda>_ t _. Inr (JStr (content_of t))) 1 open_task_db = (Inr (), db') \<and>
     get_task db' 1 = Some t \<and> ta_status t = AP_COMPLETED"
proof -
  obtain db' where "run_task ex_services quiet_world data_job ''w1'' ''none'' OE_DATA_ANALYSIS_COMPLETED
     (\<lambda>_ t _. Inr (JStr (content_of t))) 1 open_task_db = (Inr (), db')" using open_task_runs by blast
  with finished_run_completes_task [OF this] show ?thesis by blast
qed

end
