(* ===== verification/Webhooks.thy ===== *)
theory Webhooks
  imports Applied_Tasks Business_Properties
begin

text \<open>
  The webhooks of the automation server (\<open>app/integrations/n8n\<close>: \<open>signatures.py\<close>, \<open>schemas.py\<close>,
  \<open>service.py\<close>, with \<open>app/repositories/n8n_repository.py\<close>): a delivery is authenticated by its
  signature, recognised by its key, and carried out with its receipt in one transaction.

  A body is the text of its bytes. HMAC, the reading of JSON and of base64 are arguments. What a
  transaction reads at its start (\<open>seen\<close>) can be older than what it writes to (\<open>db\<close>): nothing is locked
  in between, and the constraints of the tables decide.
\<close>

record receipt_row =
  rc_id :: uuid
  rc_key :: string
  rc_signature_hash :: string
  rc_endpoint :: string
  rc_correlation_id :: string
  rc_status :: int
  rc_body :: json
  rc_received_at :: time

record webhook_db =
  wd_platform :: platform_db
  wd_receipts :: "receipt_row list"

record webhook_world =
  wh_hmac :: "string \<Rightarrow> string \<Rightarrow> string"
  wh_hashing :: hashing
  wh_json :: "string \<Rightarrow> json option"
  wh_base64 :: "string \<Rightarrow> string option"
  wh_coercions :: coercions
  wh_formatting :: formatting
  wh_secret :: string
  wh_tolerance :: int
  wh_max_body :: int
  wh_jobs :: job_settings
  wh_applied :: applied_settings

record delivery =
  dl_body :: string
  dl_timestamp :: string
  dl_signature :: string
  dl_key :: string
  dl_correlation :: "string option"

subsection \<open>Signatures\<close>

text \<open>\<open>int(text)\<close>: spaces around, a sign, and digits with single underscores between them.\<close>

fun plain_digits :: "string \<Rightarrow> string option" where
  "plain_digits [] = None"
| "plain_digits (c # cs) =
     (if \<not> is_digit c then None
      else case cs of [] \<Rightarrow> Some [c]
      | d # ds \<Rightarrow> map_option ((#) c) (plain_digits (if d = CHR ''_'' then ds else cs)))"

definition int_of_text :: "string \<Rightarrow> int option" where
  "int_of_text s =
     (let t = strip s;
          u = (if t \<noteq> [] \<and> hd t \<in> {CHR ''-'', CHR ''+''} then tl t else t)
      in case plain_digits u of
           None \<Rightarrow> None
         | Some ds \<Rightarrow> if 4300 < length ds then None
             else Some (if u \<noteq> t \<and> hd t = CHR ''-'' then - int (digits_value ds) else int (digits_value ds)))"

definition is_ascii :: "string \<Rightarrow> bool" where
  "is_ascii s = list_all (\<lambda>c. of_char c < (128 :: nat)) s"

text \<open>A timestamp that is no ASCII raises a \<open>UnicodeEncodeError\<close>, a \<open>ValueError\<close>.\<close>

definition sign_webhook :: "webhook_world \<Rightarrow> string \<Rightarrow> string \<Rightarrow> (exn, string) res" where
  "sign_webhook w timestamp body =
     and_then (require (is_ascii timestamp) (Exn (PyE ValueError) ''UnicodeEncodeError'')) (\<lambda>_.
     Inr (wh_hmac w (wh_secret w) (timestamp @ ''.'' @ body)))"

definition webhook_error :: "string \<Rightarrow> exn" where
  "webhook_error m = Exn (OpsE WebhookAuthenticationError) m"

definition remove_prefix :: "string \<Rightarrow> string \<Rightarrow> string" where
  "remove_prefix p s = (if starts_with s p then drop (length p) s else s)"

text \<open>\<open>hmac.compare_digest\<close> refuses texts that are no ASCII with a \<open>TypeError\<close>.\<close>

definition verify_webhook :: "webhook_world \<Rightarrow> time \<Rightarrow> delivery \<Rightarrow> (exn, string) res" where
  "verify_webhook w now d =
     and_then (required (int_of_text (dl_timestamp d)) (webhook_error ''Webhook timestamp is invalid'')) (\<lambda>t.
     and_then (require (\<bar>now div 1000000 - t\<bar> \<le> wh_tolerance w)
       (webhook_error ''Webhook timestamp is outside the allowed window'')) (\<lambda>_.
     and_then (sign_webhook w (dl_timestamp d) (dl_body d)) (\<lambda>expected.
     let normalized = remove_prefix ''sha256='' (dl_signature d) in
     and_then (require (is_ascii normalized) (Exn (PyE OtherException) ''TypeError'')) (\<lambda>_.
     and_then (require (expected = normalized) (webhook_error ''Webhook signature is invalid'')) (\<lambda>_.
     Inr (sha256_hex (wh_hashing w) normalized))))))"

subsection \<open>Responses\<close>

record webhook_response =
  wr_accepted :: bool
  wr_duplicate :: bool
  wr_resource_type :: string
  wr_resource_id :: string
  wr_job_id :: "string option"

definition dump_response :: "webhook_response \<Rightarrow> json" where
  "dump_response r = JObj [(''accepted'', JBool (wr_accepted r)), (''duplicate'', JBool (wr_duplicate r)),
     (''resource_type'', JStr (wr_resource_type r)), (''resource_id'', JStr (wr_resource_id r)),
     (''job_id'', (case wr_job_id r of None \<Rightarrow> JNull | Some j \<Rightarrow> JStr j))]"

definition response_of :: "coercions \<Rightarrow> json \<Rightarrow> webhook_response option" where
  "response_of co v = do {
     es \<leftarrow> model_fields [''accepted'', ''duplicate'', ''resource_type'', ''resource_id'', ''job_id''] v;
     a \<leftarrow> Option.bind (map_of es ''accepted'') (co_bool co);
     d \<leftarrow> bool_field co es ''duplicate'' False;
     ty \<leftarrow> raw_text co es ''resource_type'';
     k \<leftarrow> raw_text co es ''resource_id'';
     j \<leftarrow> (case map_of es ''job_id'' of None \<Rightarrow> Some None | Some JNull \<Rightarrow> Some None | Some x \<Rightarrow> map_option Some (co_str co x));
     Some \<lparr>wr_accepted = a, wr_duplicate = d, wr_resource_type = ty, wr_resource_id = k, wr_job_id = j\<rparr>}"

definition duplicate_response :: "coercions \<Rightarrow> receipt_row \<Rightarrow> (exn, webhook_response) res" where
  "duplicate_response co r =
     required (response_of co (case rc_body r of JObj es \<Rightarrow> JObj (dict_set ''duplicate'' (JBool True) es) | v \<Rightarrow> v))
       (Exn (PyE ValueError) ''ValidationError'')"

subsection \<open>Receipts\<close>

definition receipt_by_key :: "string \<Rightarrow> webhook_db \<Rightarrow> receipt_row option" where
  "receipt_by_key key db = find (\<lambda>r. rc_key r = key) (wd_receipts db)"

definition receipt_by_signature :: "string \<Rightarrow> webhook_db \<Rightarrow> receipt_row option" where
  "receipt_by_signature hash db = find (\<lambda>r. rc_signature_hash r = hash) (wd_receipts db)"

definition new_receipt :: "call_env \<Rightarrow> delivery \<Rightarrow> string \<Rightarrow> string \<Rightarrow> webhook_response \<Rightarrow> receipt_row" where
  "new_receipt env d hash endpoint r =
     \<lparr>rc_id = env_row_id env, rc_key = dl_key d, rc_signature_hash = hash, rc_endpoint = endpoint,
      rc_correlation_id = or_str (dl_correlation d) (uuid_str (env_correlation env)),
      rc_status = 202, rc_body = dump_response r, rc_received_at = env_now env\<rparr>"

definition insert_receipt :: "receipt_row \<Rightarrow> webhook_db \<Rightarrow> (exn, webhook_db) res" where
  "insert_receipt r db =
     and_then (require (list_all (\<lambda>x. rc_key x \<noteq> rc_key r \<and> rc_signature_hash x \<noteq> rc_signature_hash r) (wd_receipts db))
       (Exn (PyE IntegrityError) ''n8n_webhook_receipts'')) (\<lambda>_.
     Inr (db\<lparr>wd_receipts := wd_receipts db @ [r]\<rparr>))"

definition check_delivery :: "webhook_world \<Rightarrow> time \<Rightarrow> delivery \<Rightarrow> (exn, string) res" where
  "check_delivery w now d =
     and_then (require (int (length (dl_body d)) \<le> wh_max_body w)
       (validation_error ''Webhook body exceeds the size limit'')) (\<lambda>_.
     and_then (require (dl_key d \<noteq> [] \<and> length (dl_key d) \<le> 200)
       (validation_error ''Webhook idempotency key is invalid'')) (\<lambda>_.
     verify_webhook w now d))"

subsection \<open>Campaigns\<close>

definition campaign_request_of :: "coercions \<Rightarrow> json \<Rightarrow> (campaign_brief \<times> bool) option" where
  "campaign_request_of co v = do {
     es \<leftarrow> model_fields [''campaign'', ''run_async''] v;
     c \<leftarrow> Option.bind (map_of es ''campaign'') (campaign_create_model co);
     a \<leftarrow> bool_field co es ''run_async'' True;
     Some (c, a)}"

text \<open>The job, its row read again; a job only when the request asks for it.\<close>

definition enqueue_workflow ::
  "webhook_world \<Rightarrow> call_env \<Rightarrow> delivery \<Rightarrow> uuid \<Rightarrow> bool \<Rightarrow> platform_db \<Rightarrow> (exn, string option \<times> platform_db) res" where
  "enqueue_workflow w env d k run_async db =
     (if \<not> run_async then Inr (None, db)
      else and_then (enqueue_keyed (wh_coercions w) (wh_hashing w) (wh_jobs w) env
        ((plain_job JT_WORKFLOW_RUN (WorkflowRunJobPayload k) ''n8n-webhook'' (''n8n:'' @ dl_key d @ '':workflow''))
           \<lparr>e_correlation_id := dl_correlation d\<rparr>) db) (\<lambda>(j, db1).
      Inr (Some (uuid_str (job_id j)), db1)))"

definition insert_campaign :: "call_env \<Rightarrow> campaign_brief \<Rightarrow> app_db \<Rightarrow> (exn, campaign_row \<times> app_db) res" where
  "insert_campaign env b db =
     (let c = new_campaign (env_now env) b ''n8n-webhook'' None None
      in and_then (require (get_campaign db (c_id c) = None) (Exn (PyE IntegrityError) ''campaigns'')) (\<lambda>_.
         Inr (c, db\<lparr>campaigns := campaigns db @ [c]\<rparr>)))"

text \<open>A webhook's campaign with its first workflow, its job and its receipt.\<close>

definition start_campaign ::
  "webhook_world \<Rightarrow> (nat \<Rightarrow> call_env) \<Rightarrow> delivery \<Rightarrow> string \<Rightarrow> campaign_brief \<Rightarrow> bool \<Rightarrow> webhook_db \<Rightarrow>
   (exn, webhook_response \<times> webhook_db) res" where
  "start_campaign w env d hash b run_async db =
     and_then (insert_campaign (env 0) b (pd_core (wd_platform db))) (\<lambda>(c, core1).
     and_then (add_workflow (new_workflow (env 1) c CS_RECEIVED WS_RECEIVE_CAMPAIGN None 0) core1) (\<lambda>(wf, core2).
     and_then (enqueue_workflow w (env 2) d (wf_id wf) run_async ((wd_platform db)\<lparr>pd_core := core2\<rparr>)) (\<lambda>(j, p).
     let r = \<lparr>wr_accepted = True, wr_duplicate = False, wr_resource_type = ''campaign'', wr_resource_id = c_id c,
              wr_job_id = j\<rparr>
     in and_then (insert_receipt (new_receipt (env 3) d hash ''campaigns'' r) (db\<lparr>wd_platform := p\<rparr>)) (\<lambda>db'.
        Inr (r, db')))))"

definition accept_campaign ::
  "webhook_world \<Rightarrow> time \<Rightarrow> (nat \<Rightarrow> call_env) \<Rightarrow> delivery \<Rightarrow> webhook_db \<Rightarrow> webhook_db \<Rightarrow>
   (exn, webhook_response \<times> webhook_db) res" where
  "accept_campaign w now env d seen db =
     and_then (check_delivery w now d) (\<lambda>hash.
     case receipt_by_key (dl_key d) seen of
       Some r \<Rightarrow> and_then (duplicate_response (wh_coercions w) r) (\<lambda>x. Inr (x, db))
     | None \<Rightarrow>
         and_then (require (receipt_by_signature hash seen = None) (conflict ''Webhook replay was rejected'')) (\<lambda>_.
         and_then (required (Option.bind (wh_json w (dl_body d)) (campaign_request_of (wh_coercions w)))
           (validation_error ''Webhook payload is invalid'')) (\<lambda>(b, run_async).
         and_then (require (get_campaign (pd_core (wd_platform seen)) (cb_campaign_id b) = None)
           (conflict ''Campaign already exists'')) (\<lambda>_.
         start_campaign w env d hash b run_async db))))"

subsection \<open>Files\<close>

record file_request =
  fq_filename :: string
  fq_content :: string
  fq_content_type :: string

definition file_request_of :: "webhook_world \<Rightarrow> json \<Rightarrow> file_request option" where
  "file_request_of w v = do {
     es \<leftarrow> model_fields [''filename'', ''content_base64'', ''content_type''] v;
     n \<leftarrow> raw_text (wh_coercions w) es ''filename'';
     b \<leftarrow> raw_text (wh_coercions w) es ''content_base64'';
     ty \<leftarrow> (case map_of es ''content_type'' of None \<Rightarrow> Some ''application/octet-stream'' | Some x \<Rightarrow> co_str (wh_coercions w) x);
     content \<leftarrow> wh_base64 w b;
     Some \<lparr>fq_filename = n, fq_content = content, fq_content_type = ty\<rparr>}"

definition verify_file_request ::
  "webhook_world \<Rightarrow> time \<Rightarrow> string \<Rightarrow> delivery \<Rightarrow> webhook_db \<Rightarrow> (exn, string \<times> webhook_response option) res" where
  "verify_file_request w now endpoint d seen =
     and_then (check_delivery w now d) (\<lambda>hash.
     case receipt_by_key (dl_key d) seen of
       Some r \<Rightarrow>
         and_then (require (rc_endpoint r = endpoint) (conflict ''Webhook idempotency key belongs to another endpoint'')) (\<lambda>_.
         and_then (duplicate_response (wh_coercions w) r) (\<lambda>x. Inr (hash, Some x)))
     | None \<Rightarrow>
         and_then (require (receipt_by_signature hash seen = None) (conflict ''Webhook replay was rejected'')) (\<lambda>_.
         Inr (hash, None)))"

definition request_file_task ::
  "webhook_world \<Rightarrow> call_env \<Rightarrow> string \<Rightarrow> file_request \<Rightarrow> platform_db \<Rightarrow> (exn, task_row \<times> platform_db) res" where
  "request_file_task w env endpoint f db =
     (if endpoint = ''data-analysis'' then
        request_data_analysis (wh_coercions w) (wh_hashing w) (wh_jobs w) (wh_applied w) (wh_formatting w) env
          (fq_content f) (fq_filename f) ''n8n-webhook'' db
      else if endpoint = ''document-processing'' then
        request_document_processing (wh_coercions w) (wh_hashing w) (wh_jobs w) (wh_applied w) (wh_formatting w) env
          (fq_content f) (fq_filename f) (fq_content_type f) ''n8n-webhook'' db
      else Inl (validation_error ''Webhook endpoint is unsupported''))"

definition accept_file_task ::
  "webhook_world \<Rightarrow> time \<Rightarrow> (nat \<Rightarrow> call_env) \<Rightarrow> string \<Rightarrow> delivery \<Rightarrow> webhook_db \<Rightarrow> webhook_db \<Rightarrow>
   (exn, webhook_response \<times> webhook_db) res" where
  "accept_file_task w now env endpoint d seen db =
     and_then (verify_file_request w now endpoint d seen) (\<lambda>(hash, duplicate).
     case duplicate of
       Some x \<Rightarrow> Inr (x, db)
     | None \<Rightarrow>
         and_then (required (Option.bind (wh_json w (dl_body d)) (file_request_of w))
           (validation_error ''Webhook file payload is invalid'')) (\<lambda>f.
         and_then (request_file_task w (env 0) endpoint f (wd_platform db)) (\<lambda>(t, p).
         let r = \<lparr>wr_accepted = True, wr_duplicate = False, wr_resource_type = ''applied_task'',
                  wr_resource_id = uuid_str (ta_id t), wr_job_id = map_option uuid_str (ta_job_id t)\<rparr>
         in and_then (insert_receipt (new_receipt (env 1) d hash endpoint r) (db\<lparr>wd_platform := p\<rparr>)) (\<lambda>db'.
            Inr (r, db')))))"

subsection \<open>Listing and outbound messages\<close>

record delivery_read =
  dr_receipt :: uuid
  dr_endpoint :: string
  dr_correlation_id :: string
  dr_status :: int
  dr_resource_type :: "json option"
  dr_resource_id :: "json option"
  dr_job_id :: "json option"
  dr_received_at :: time

definition body_field :: "json \<Rightarrow> string \<Rightarrow> json option" where
  "body_field v f = (case v of JObj es \<Rightarrow> (case map_of es f of Some JNull \<Rightarrow> None | x \<Rightarrow> x) | _ \<Rightarrow> None)"

definition delivery_read_of :: "receipt_row \<Rightarrow> delivery_read" where
  "delivery_read_of r =
     \<lparr>dr_receipt = rc_id r, dr_endpoint = rc_endpoint r, dr_correlation_id = rc_correlation_id r, dr_status = rc_status r,
      dr_resource_type = body_field (rc_body r) ''resource_type'', dr_resource_id = body_field (rc_body r) ''resource_id'',
      dr_job_id = body_field (rc_body r) ''job_id'', dr_received_at = rc_received_at r\<rparr>"

definition list_deliveries :: "int \<Rightarrow> int \<Rightarrow> string option \<Rightarrow> webhook_db \<Rightarrow> delivery_read list" where
  "list_deliveries limit offset endpoint db =
     map delivery_read_of (order_page (\<lambda>r. (- rc_received_at r, rc_id r)) (clamp 1 100 limit) (max offset 0)
       (filter (\<lambda>r. endpoint = None \<or> endpoint = Some (rc_endpoint r)) (wd_receipts db)))"

record outbound_envelope =
  oe_event_type :: string
  oe_aggregate_id :: string
  oe_payload :: json
  oe_timestamp :: string
  oe_signature :: string

definition outbound_envelope_of ::
  "webhook_world \<Rightarrow> time \<Rightarrow> string \<Rightarrow> string \<Rightarrow> json \<Rightarrow> (exn, outbound_envelope) res" where
  "outbound_envelope_of w now event_type aggregate message =
     (let timestamp = int_text (now div 1000000)
      in and_then (sign_webhook w timestamp (json_dumps (wh_hashing w) message)) (\<lambda>s.
         Inr \<lparr>oe_event_type = event_type, oe_aggregate_id = aggregate, oe_payload = message, oe_timestamp = timestamp,
              oe_signature = s\<rparr>))"

subsection \<open>What a delivery commits\<close>

text \<open>What a response says was created, and what the rest of the program keeps of it.\<close>

definition carried_out :: "platform_db \<Rightarrow> string \<Rightarrow> webhook_response \<Rightarrow> bool" where
  "carried_out db endpoint r \<longleftrightarrow>
     (if endpoint = ''campaigns'' then get_campaign (pd_core db) (wr_resource_id r) \<noteq> None
      else \<exists>t \<in> set (pd_tasks db). uuid_str (ta_id t) = wr_resource_id r)"

definition keeps_rows :: "platform_db \<Rightarrow> platform_db \<Rightarrow> bool" where
  "keeps_rows db db' \<longleftrightarrow> c_id ` set (campaigns (pd_core db)) \<subseteq> c_id ` set (campaigns (pd_core db')) \<and>
     ta_id ` set (pd_tasks db) \<subseteq> ta_id ` set (pd_tasks db')"

lemma carried_out_kept:
  assumes "carried_out db ep r" and k: "keeps_rows db db'"
  shows "carried_out db' ep r"
proof (cases "ep = ''campaigns''")
  case True
  with assms(1) have "wr_resource_id r \<in> c_id ` set (campaigns (pd_core db))" by (simp add: carried_out_def t_get_None_iff)
  with k have "wr_resource_id r \<in> c_id ` set (campaigns (pd_core db'))" unfolding keeps_rows_def by blast
  with True show ?thesis by (simp add: carried_out_def t_get_None_iff)
next
  case False
  with assms(1) obtain t where t: "t \<in> set (pd_tasks db)" "uuid_str (ta_id t) = wr_resource_id r"
    unfolding carried_out_def by auto
  from t(1) k have "ta_id t \<in> ta_id ` set (pd_tasks db')" unfolding keeps_rows_def by blast
  then obtain t' where "t' \<in> set (pd_tasks db')" "ta_id t = ta_id t'" by (rule imageE)
  with t(2) False show ?thesis unfolding carried_out_def by auto
qed

definition committed ::
  "webhook_world \<Rightarrow> time \<Rightarrow> string \<Rightarrow> delivery \<Rightarrow> webhook_response \<Rightarrow> webhook_db \<Rightarrow> webhook_db \<Rightarrow> receipt_row \<Rightarrow> bool" where
  "committed w now ep d r db db' x \<longleftrightarrow>
     wd_receipts db' = wd_receipts db @ [x] \<and>
     rc_key x \<notin> rc_key ` set (wd_receipts db) \<and> rc_signature_hash x \<notin> rc_signature_hash ` set (wd_receipts db) \<and>
     check_delivery w now d = Inr (rc_signature_hash x) \<and> rc_key x = dl_key d \<and> rc_endpoint x = ep \<and>
     rc_body x = dump_response r \<and> \<not> wr_duplicate r \<and>
     carried_out (wd_platform db') ep r \<and> keeps_rows (wd_platform db) (wd_platform db')"

lemma insert_receipt_Inr:
  "insert_receipt x db = Inr db' \<longleftrightarrow> db' = db\<lparr>wd_receipts := wd_receipts db @ [x]\<rparr> \<and>
     rc_key x \<notin> rc_key ` set (wd_receipts db) \<and> rc_signature_hash x \<notin> rc_signature_hash ` set (wd_receipts db)"
  unfolding insert_receipt_def and_then_Inr_iff require_iff list_all_iff by (auto dest: sym)

lemma new_receipt_simps [simp]:
  "rc_key (new_receipt env d h ep r) = dl_key d" "rc_signature_hash (new_receipt env d h ep r) = h"
  "rc_endpoint (new_receipt env d h ep r) = ep" "rc_body (new_receipt env d h ep r) = dump_response r"
  by (simp_all add: new_receipt_def)

lemma enqueue_keyed_core: "enqueue_keyed co h st env q db = Inr (j, db') \<Longrightarrow> pd_core db' = pd_core db \<and> pd_tasks db' = pd_tasks db"
  by (auto simp: enqueue_keyed_def in_queue_def and_then_Inr_iff split: if_splits)

lemma enqueue_workflow_core:
  "enqueue_workflow w env d k a db = Inr (j, db') \<Longrightarrow> pd_core db' = pd_core db \<and> pd_tasks db' = pd_tasks db"
  by (auto simp: enqueue_workflow_def and_then_Inr_iff split: if_splits dest: enqueue_keyed_core)

lemma start_campaign_commits:
  assumes c: "check_delivery w now d = Inr hash" and s: "start_campaign w env d hash b a db = Inr (r, db')"
  shows "\<exists>x. committed w now ''campaigns'' d r db db' x"
proof -
  let ?p = "wd_platform db"
  from s obtain c core1 wf core2 j p where i: "insert_campaign (env 0) b (pd_core ?p) = Inr (c, core1)"
    and a: "add_workflow (new_workflow (env 1) c CS_RECEIVED WS_RECEIVE_CAMPAIGN None 0) core1 = Inr (wf, core2)"
    and e: "enqueue_workflow w (env 2) d (wf_id wf) a (?p\<lparr>pd_core := core2\<rparr>) = Inr (j, p)"
    and r: "r = \<lparr>wr_accepted = True, wr_duplicate = False, wr_resource_type = ''campaign'', wr_resource_id = c_id c, wr_job_id = j\<rparr>"
    and n: "insert_receipt (new_receipt (env 3) d hash ''campaigns'' r) (db\<lparr>wd_platform := p\<rparr>) = Inr db'"
    by (auto simp: start_campaign_def and_then_Inr_iff Let_def)
  have core: "campaigns core2 = campaigns (pd_core ?p) @ [c]"
    using i a by (auto simp: insert_campaign_def add_workflow_def and_then_Inr_iff require_iff Let_def split: if_splits)
  have p: "pd_core p = core2" "pd_tasks p = pd_tasks ?p" using enqueue_workflow_core [OF e] by simp_all
  have "carried_out p ''campaigns'' r" using core p by (auto simp: carried_out_def r t_get_None_iff)
  moreover have "keeps_rows ?p p" using core p by (auto simp: keeps_rows_def)
  ultimately show ?thesis using n c
    by (auto simp: committed_def insert_receipt_Inr r intro!: exI [of _ "new_receipt (env 3) d hash ''campaigns'' r"])
qed

lemma accept_campaign_commits:
  assumes "accept_campaign w now env d seen db = Inr (r, db')"
  shows "db' = db \<or> (\<exists>x. committed w now ''campaigns'' d r db db' x)"
proof -
  from assms obtain hash where c: "check_delivery w now d = Inr hash" by (auto simp: accept_campaign_def and_then_Inr_iff)
  show ?thesis
  proof (cases "receipt_by_key (dl_key d) seen")
    case None
    with assms c obtain b a where "start_campaign w env d hash b a db = Inr (r, db')"
      by (auto simp: accept_campaign_def and_then_Inr_iff)
    with c show ?thesis using start_campaign_commits by blast
  qed (use assms c in \<open>auto simp: accept_campaign_def and_then_Inr_iff\<close>)
qed

lemma request_file_task_Inr:
  "request_file_task w env ep f db = Inr (t, db') \<Longrightarrow>
   ep \<noteq> ''campaigns'' \<and> pd_core db' = pd_core db \<and> pd_tasks db' = pd_tasks db @ [t]"
  by (auto simp: request_file_task_def request_data_analysis_def request_document_processing_def and_then_Inr_iff Let_def
      split: if_splits dest: enqueue_keyed_core)

lemma verify_file_request_Inr:
  "verify_file_request w now ep d seen = Inr (hash, x) \<Longrightarrow> check_delivery w now d = Inr hash"
  by (auto simp: verify_file_request_def and_then_Inr_iff split: option.splits)

lemma accept_file_task_commits:
  assumes "accept_file_task w now env ep d seen db = Inr (r, db')"
  shows "db' = db \<or> (\<exists>x. committed w now ep d r db db' x)"
proof -
  from assms obtain hash x where v: "verify_file_request w now ep d seen = Inr (hash, x)"
    by (auto simp: accept_file_task_def and_then_Inr_iff)
  show ?thesis
  proof (cases x)
    case None
    with assms v obtain f t p where q: "request_file_task w (env 0) ep f (wd_platform db) = Inr (t, p)"
      and r: "r = \<lparr>wr_accepted = True, wr_duplicate = False, wr_resource_type = ''applied_task'',
                  wr_resource_id = uuid_str (ta_id t), wr_job_id = map_option uuid_str (ta_job_id t)\<rparr>"
      and n: "insert_receipt (new_receipt (env 1) d hash ep r) (db\<lparr>wd_platform := p\<rparr>) = Inr db'"
      by (auto simp: accept_file_task_def and_then_Inr_iff Let_def)
    note p = request_file_task_Inr [OF q]
    have "carried_out p ep r" using p by (auto simp: carried_out_def r)
    moreover have "keeps_rows (wd_platform db) p" using p by (auto simp: keeps_rows_def)
    ultimately show ?thesis using n verify_file_request_Inr [OF v]
      by (auto simp: committed_def insert_receipt_Inr r intro!: exI [of _ "new_receipt (env 1) d hash ep r"])
  qed (use assms v in \<open>auto simp: accept_file_task_def and_then_Inr_iff\<close>)
qed

subsection \<open>Histories\<close>

record log_entry =
  le_now :: time
  le_endpoint :: string
  le_delivery :: delivery
  le_response :: webhook_response

definition logged :: "webhook_db \<Rightarrow> webhook_db \<Rightarrow> log_entry \<Rightarrow> log_entry list \<Rightarrow> log_entry list" where
  "logged db db' e es = (if wd_receipts db' = wd_receipts db then es else es @ [e])"

text \<open>
  The deliveries that were carried out, in their order: a delivery can have read any older or
  stranger state than it writes to, and the rest of the program changes the other tables as long
  as it keeps campaigns and tasks.
\<close>

inductive webhook_history :: "webhook_world \<Rightarrow> log_entry list \<Rightarrow> webhook_db \<Rightarrow> bool" for w where
  start: "wd_receipts db = [] \<Longrightarrow> webhook_history w [] db"
| campaign: "webhook_history w es db \<Longrightarrow> accept_campaign w now env d seen db = Inr (r, db') \<Longrightarrow>
    webhook_history w (logged db db' \<lparr>le_now = now, le_endpoint = ''campaigns'', le_delivery = d, le_response = r\<rparr> es) db'"
| upload: "webhook_history w es db \<Longrightarrow> accept_file_task w now env ep d seen db = Inr (r, db') \<Longrightarrow>
    webhook_history w (logged db db' \<lparr>le_now = now, le_endpoint = ep, le_delivery = d, le_response = r\<rparr> es) db'"
| other: "webhook_history w es db \<Longrightarrow> wd_receipts db' = wd_receipts db \<Longrightarrow>
    keeps_rows (wd_platform db) (wd_platform db') \<Longrightarrow> webhook_history w es db'"

definition entry_ok :: "webhook_world \<Rightarrow> platform_db \<Rightarrow> log_entry \<Rightarrow> receipt_row \<Rightarrow> bool" where
  "entry_ok w db e x \<longleftrightarrow>
     check_delivery w (le_now e) (le_delivery e) = Inr (rc_signature_hash x) \<and> rc_key x = dl_key (le_delivery e) \<and>
     rc_endpoint x = le_endpoint e \<and> rc_body x = dump_response (le_response e) \<and> \<not> wr_duplicate (le_response e) \<and>
     carried_out db (le_endpoint e) (le_response e)"

definition webhook_inv :: "webhook_world \<Rightarrow> log_entry list \<Rightarrow> webhook_db \<Rightarrow> bool" where
  "webhook_inv w es db \<longleftrightarrow> list_all2 (entry_ok w (wd_platform db)) es (wd_receipts db) \<and>
     distinct (map rc_key (wd_receipts db)) \<and> distinct (map rc_signature_hash (wd_receipts db))"

lemma entries_kept:
  "list_all2 (entry_ok w db) es xs \<Longrightarrow> keeps_rows db db' \<Longrightarrow> list_all2 (entry_ok w db') es xs"
  by (erule list_all2_mono) (auto simp: entry_ok_def intro: carried_out_kept)

lemma committed_inv:
  assumes "webhook_inv w es db" and c: "committed w now ep d r db db' x"
  shows "webhook_inv w (logged db db' \<lparr>le_now = now, le_endpoint = ep, le_delivery = d, le_response = r\<rparr> es) db'"
proof -
  let ?e = "\<lparr>le_now = now, le_endpoint = ep, le_delivery = d, le_response = r\<rparr>"
  from c have rows: "wd_receipts db' = wd_receipts db @ [x]" "keeps_rows (wd_platform db) (wd_platform db')"
    and fresh: "rc_key x \<notin> rc_key ` set (wd_receipts db)" "rc_signature_hash x \<notin> rc_signature_hash ` set (wd_receipts db)"
    unfolding committed_def by blast+
  have "list_all2 (entry_ok w (wd_platform db')) es (wd_receipts db)"
    using assms(1) rows(2) entries_kept unfolding webhook_inv_def by blast
  moreover have "entry_ok w (wd_platform db') ?e x" using c by (simp add: committed_def entry_ok_def)
  ultimately have "list_all2 (entry_ok w (wd_platform db')) (es @ [?e]) (wd_receipts db @ [x])"
    by (intro list_all2_appendI) simp_all
  then show ?thesis using assms(1) fresh unfolding webhook_inv_def logged_def rows(1) by simp
qed

lemma delivered_inv:
  assumes "webhook_inv w es db" and "db' = db \<or> (\<exists>x. committed w now ep d r db db' x)"
  shows "webhook_inv w (logged db db' \<lparr>le_now = now, le_endpoint = ep, le_delivery = d, le_response = r\<rparr> es) db'"
  using assms(2)
proof
  assume "db' = db"
  with assms(1) show ?thesis by (simp add: logged_def)
qed (use committed_inv [OF assms(1)] in blast)

lemma webhook_history_inv: "webhook_history w es db \<Longrightarrow> webhook_inv w es db"
proof (induction rule: webhook_history.induct)
  case (campaign es db now env d seen r db')
  show ?case by (rule delivered_inv [OF campaign.IH accept_campaign_commits [OF campaign.hyps(2)]])
next
  case (upload es db now env ep d seen r db')
  show ?case by (rule delivered_inv [OF upload.IH accept_file_task_commits [OF upload.hyps(2)]])
next
  case (other es db db')
  then show ?case using entries_kept by (auto simp: webhook_inv_def)
qed (simp add: webhook_inv_def)

lemma check_delivery_Inr:
  assumes "check_delivery w now d = Inr hash"
  obtains t where "int_of_text (dl_timestamp d) = Some t" "\<bar>now div 1000000 - t\<bar> \<le> wh_tolerance w"
    "remove_prefix ''sha256='' (dl_signature d) = wh_hmac w (wh_secret w) (dl_timestamp d @ ''.'' @ dl_body d)"
    "hash = sha256_hex (wh_hashing w) (wh_hmac w (wh_secret w) (dl_timestamp d @ ''.'' @ dl_body d))"
  using assms by (auto simp: check_delivery_def verify_webhook_def sign_webhook_def and_then_Inr_iff require_iff required_iff Let_def)

lemma list_all2_partner: "list_all2 P xs ys \<Longrightarrow> x \<in> set xs \<Longrightarrow> \<exists>y \<in> set ys. P x y"
  by (induction rule: list_all2_induct) auto

lemma list_all2_map: "list_all2 P xs ys \<Longrightarrow> (\<And>x y. P x y \<Longrightarrow> g y = f x) \<Longrightarrow> map g ys = map f xs"
  by (induction rule: list_all2_induct) auto

definition signed_material :: "delivery \<Rightarrow> string \<times> string" where
  "signed_material d = (dl_timestamp d, dl_body d)"

text \<open>C38. Whatever deliveries arrive, with whatever they have read before others committed: each key is carried
  out at most once, each signed message at most once even under other keys, and only with the
  signature of the secret over the timestamp and the body and a clock within the tolerance. What its
  response says was created is there.\<close>

theorem webhooks_carried_out_once:
  assumes "webhook_history w es db"
  shows "distinct (map (dl_key \<circ> le_delivery) es) \<and> distinct (map (signed_material \<circ> le_delivery) es) \<and>
    (\<forall>e \<in> set es. let d = le_delivery e in
       carried_out (wd_platform db) (le_endpoint e) (le_response e) \<and>
       remove_prefix ''sha256='' (dl_signature d) = wh_hmac w (wh_secret w) (dl_timestamp d @ ''.'' @ dl_body d) \<and>
       (\<exists>t. int_of_text (dl_timestamp d) = Some t \<and> \<bar>le_now e div 1000000 - t\<bar> \<le> wh_tolerance w))"
proof (intro conjI ballI)
  let ?hash = "\<lambda>(t, b). sha256_hex (wh_hashing w) (wh_hmac w (wh_secret w) (t @ ''.'' @ b))"
  from webhook_history_inv [OF assms]
  have all: "list_all2 (entry_ok w (wd_platform db)) es (wd_receipts db)"
    and keys: "distinct (map rc_key (wd_receipts db))" "distinct (map rc_signature_hash (wd_receipts db))"
    unfolding webhook_inv_def by blast+
  have ok: "rc_key x = (dl_key \<circ> le_delivery) e" "rc_signature_hash x = (?hash \<circ> (signed_material \<circ> le_delivery)) e"
    if "entry_ok w (wd_platform db) e x" for e x
    using that by (auto simp: entry_ok_def signed_material_def elim: check_delivery_Inr)
  have "map rc_key (wd_receipts db) = map (dl_key \<circ> le_delivery) es" by (rule list_all2_map [OF all]) (rule ok(1))
  then show "distinct (map (dl_key \<circ> le_delivery) es)" using keys(1) by (simp only:)
  have "map rc_signature_hash (wd_receipts db) = map (?hash \<circ> (signed_material \<circ> le_delivery)) es"
    by (rule list_all2_map [OF all]) (rule ok(2))
  then have "distinct (map ?hash (map (signed_material \<circ> le_delivery) es))" using keys(2) by (simp only: map_map)
  then show "distinct (map (signed_material \<circ> le_delivery) es)" by (simp only: distinct_map)
  fix e assume "e \<in> set es"
  with list_all2_partner [OF all] obtain x where "entry_ok w (wd_platform db) e x" by blast
  then show "let d = le_delivery e in
       carried_out (wd_platform db) (le_endpoint e) (le_response e) \<and>
       remove_prefix ''sha256='' (dl_signature d) = wh_hmac w (wh_secret w) (dl_timestamp d @ ''.'' @ dl_body d) \<and>
       (\<exists>t. int_of_text (dl_timestamp d) = Some t \<and> \<bar>le_now e div 1000000 - t\<bar> \<le> wh_tolerance w)"
    unfolding Let_def entry_ok_def by (auto elim: check_delivery_Inr)
qed

subsection \<open>Repeated deliveries\<close>

lemma duplicate_read_back:
  assumes "coercions_ok co" and "rc_body x = dump_response r"
  shows "duplicate_response co x = Inr (r\<lparr>wr_duplicate := True\<rparr>)"
  using assms by (cases r; cases "wr_job_id r")
    (simp_all add: duplicate_response_def dump_response_def response_of_def model_fields_def coercions_ok_def
      bool_field_def raw_text_def required_def)

lemma receipt_of_entry:
  assumes inv: "webhook_inv w es db" and e: "e \<in> set es"
  obtains x where "receipt_by_key (dl_key (le_delivery e)) db = Some x" "rc_endpoint x = le_endpoint e"
    "rc_body x = dump_response (le_response e)"
proof -
  from inv have all: "list_all2 (entry_ok w (wd_platform db)) es (wd_receipts db)"
    and keys: "distinct (map rc_key (wd_receipts db))"
    unfolding webhook_inv_def by simp_all
  from list_all2_partner [OF all e] obtain x where x: "x \<in> set (wd_receipts db)" "entry_ok w (wd_platform db) e x" by (rule bexE)
  then have key: "rc_key x = dl_key (le_delivery e)" by (simp add: entry_ok_def)
  with x(1) obtain y where y: "receipt_by_key (dl_key (le_delivery e)) db = Some y"
    unfolding receipt_by_key_def by (cases "find (\<lambda>r. rc_key r = dl_key (le_delivery e)) (wd_receipts db)") (auto simp: find_None_iff)
  then have "y \<in> set (wd_receipts db)" "rc_key y = rc_key x" using key
    unfolding receipt_by_key_def by (auto simp: find_Some_iff)
  with keys x(1) have "y = x" by (simp add: distinct_map inj_on_def)
  with y x(2) that show thesis by (simp add: entry_ok_def)
qed

text \<open>A delivery whose key was carried out is answered with the first response and changes nothing. The
  route for campaigns does not look at the endpoint of the receipt, nor any route at the body.\<close>

lemma repeated_delivery_answered:
  assumes h: "webhook_history w es db" and e: "e \<in> set es" and co: "coercions_ok (wh_coercions w)"
    and c: "check_delivery w now d = Inr hash" and key: "dl_key d = dl_key (le_delivery e)"
  shows "accept_campaign w now env d db db = Inr ((le_response e)\<lparr>wr_duplicate := True\<rparr>, db)"
    and "accept_file_task w now env (le_endpoint e) d db db = Inr ((le_response e)\<lparr>wr_duplicate := True\<rparr>, db)"
    and "ep \<noteq> le_endpoint e \<Longrightarrow> accept_file_task w now env ep d db db =
      Inl (conflict ''Webhook idempotency key belongs to another endpoint'')"
proof -
  from receipt_of_entry [OF webhook_history_inv [OF h] e] obtain x where
    x: "receipt_by_key (dl_key d) db = Some x" "rc_endpoint x = le_endpoint e" "rc_body x = dump_response (le_response e)"
    by (metis key)
  note read = duplicate_read_back [OF co x(3)]
  show "accept_campaign w now env d db db = Inr ((le_response e)\<lparr>wr_duplicate := True\<rparr>, db)"
    using x(1) by (simp add: accept_campaign_def c read and_then_def)
  show "accept_file_task w now env (le_endpoint e) d db db = Inr ((le_response e)\<lparr>wr_duplicate := True\<rparr>, db)"
    using x(1,2) by (simp add: accept_file_task_def verify_file_request_def c read and_then_def require_def)
  show "accept_file_task w now env ep d db db = Inl (conflict ''Webhook idempotency key belongs to another endpoint'')"
    if "ep \<noteq> le_endpoint e"
    using x(1,2) that by (auto simp: accept_file_task_def verify_file_request_def c and_then_def require_def)
qed

text \<open>A signature that is no ASCII is not refused but raises a \<open>TypeError\<close>.\<close>

lemma non_ascii_signature_raises:
  assumes "int_of_text (dl_timestamp d) = Some t" and "\<bar>now div 1000000 - t\<bar> \<le> wh_tolerance w"
    and "is_ascii (dl_timestamp d)" and "\<not> is_ascii (remove_prefix ''sha256='' (dl_signature d))"
  shows "verify_webhook w now d = Inl (Exn (PyE OtherException) ''TypeError'')"
  using assms by (simp add: verify_webhook_def sign_webhook_def and_then_def required_def require_def)

subsection \<open>An example\<close>

definition demo_world :: webhook_world where
  "demo_world = \<lparr>wh_hmac = (\<lambda>_ _. ''ab''), wh_hashing = ex_hashing,
     wh_json = (\<lambda>_. Some (JObj [(''campaign'', JObj [(''campaign_id'', JStr ''spring''), (''game_name'', JStr ''Game''),
       (''genre'', JStr ''RPG''), (''target_audience'', JStr ''players''), (''market'', JStr ''EU''),
       (''platforms'', JList [JStr ''facebook'']), (''campaign_objective'', JStr ''installs''), (''tone'', JStr ''bold''),
       (''launch_date'', JInt 5), (''promotion'', JStr ''gift'')]), (''run_async'', JBool False)])),
     wh_base64 = Some, wh_coercions = strict_coercions, wh_formatting = no_formatting, wh_secret = ''key'',
     wh_tolerance = 300, wh_max_body = 1000, wh_jobs = ex_settings, wh_applied = \<lparr>ap_llm_provider = ''mock'', ap_llm_model = None\<rparr>\<rparr>"

definition demo_delivery :: delivery where
  "demo_delivery = \<lparr>dl_body = ''{}'', dl_timestamp = ''12'', dl_signature = ''sha256=ab'', dl_key = ''first'', dl_correlation = None\<rparr>"

definition demo_receipts :: webhook_db where
  "demo_receipts = \<lparr>wd_platform = empty_platform, wd_receipts = []\<rparr>"

lemma demo_check: "check_delivery demo_world 12000000 demo_delivery = Inr (sha256_hex ex_hashing ''ab'')"
proof -
  have "int_of_text ''12'' = Some 12"
    by (simp add: int_of_text_def strip_def is_space_def is_digit_def digits_value_def)
  then show ?thesis
    by (simp add: check_delivery_def verify_webhook_def sign_webhook_def demo_world_def demo_delivery_def and_then_def
        require_def required_def is_ascii_def remove_prefix_def starts_with_def)
qed

lemma demo_campaign_request:
  "\<exists>b. Option.bind (wh_json demo_world (dl_body demo_delivery)) (campaign_request_of (wh_coercions demo_world)) = Some (b, False) \<and>
     cb_campaign_id b = ''spring''"
  by (simp add: demo_world_def campaign_request_of_def campaign_create_model_def model_fields_def text_field_def
      bounded_text_def strict_coercions_def strip_def is_space_def campaign_id_ok_def is_alnum_def normalize_platforms_def
      platform_of_def lower_def lower_char_def optional_text_field_def bool_field_def raw_brief_of_def)

lemma demo_accepted:
  "\<exists>r db'. accept_campaign demo_world 12000000 (\<lambda>_. ex_env) demo_delivery demo_receipts demo_receipts = Inr (r, db') \<and>
     wr_resource_id r = ''spring'' \<and> wd_receipts db' \<noteq> []"
proof -
  obtain b where b: "Option.bind (wh_json demo_world (dl_body demo_delivery)) (campaign_request_of (wh_coercions demo_world)) =
      Some (b, False)" "cb_campaign_id b = ''spring''" using demo_campaign_request by blast
  then show ?thesis
    by (simp add: accept_campaign_def demo_check receipt_by_key_def receipt_by_signature_def demo_receipts_def
        start_campaign_def insert_campaign_def add_workflow_def new_workflow_def new_campaign_def enqueue_workflow_def
        insert_receipt_def and_then_def require_def required_def empty_platform_def no_rows_def c_id_def t_get_Nil Let_def)
qed

lemma webhooks_carried_out_once_witness:
  "\<exists>es db. webhook_history demo_world es db \<and> length es = 1 \<and> get_campaign (pd_core (wd_platform db)) ''spring'' \<noteq> None"
proof -
  obtain r db' where a: "accept_campaign demo_world 12000000 (\<lambda>_. ex_env) demo_delivery demo_receipts demo_receipts = Inr (r, db')"
    "wr_resource_id r = ''spring''" "wd_receipts db' \<noteq> []" using demo_accepted by blast
  have none: "wd_receipts demo_receipts = []" by (simp add: demo_receipts_def)
  let ?e = "\<lparr>le_now = 12000000, le_endpoint = ''campaigns'', le_delivery = demo_delivery, le_response = r\<rparr>"
  have h: "webhook_history demo_world [?e] db'"
    using webhook_history.campaign [OF webhook_history.start [OF none] a(1)] a(3) none by (simp add: logged_def)
  have "carried_out (wd_platform db') (le_endpoint ?e) (le_response ?e)"
    using webhooks_carried_out_once [OF h] unfolding Let_def by simp
  with h a(2) show ?thesis by (intro exI [of _ "[?e]"] exI [of _ db']) (simp add: carried_out_def)
qed

end
