(* ===== verification/Evaluation.thy ===== *)
theory Evaluation
  imports Prompt_Runs
begin

text \<open>
  Evaluations of the whole system (\<open>app/evaluation\<close>: \<open>assertions.py\<close>, \<open>metrics.py\<close>, \<open>regression.py\<close>,
  \<open>runner.py\<close>, \<open>service.py\<close>, \<open>system_executor.py\<close>, with \<open>app/repositories/evaluation_repository.py\<close>). What a
  campaign's workflow does with the scripted client of a scenario is an argument. The floats of the
  metrics are rationals; a stored metric is a number, as the runner writes it.
\<close>

subsection \<open>JSON values as Python compares them\<close>

definition json_number :: "json \<Rightarrow> rat option" where
  "json_number v = (case v of JInt n \<Rightarrow> Some (of_int n) | JFloat f \<Rightarrow> Some f | JBool b \<Rightarrow> Some (if b then 1 else 0) | _ \<Rightarrow> None)"

fun json_eq :: "json \<Rightarrow> json \<Rightarrow> bool" and all_eq :: "json list \<Rightarrow> json list \<Rightarrow> bool"
  and entries_in :: "(string \<times> json) list \<Rightarrow> (string \<times> json) list \<Rightarrow> bool" where
  "json_eq (JList xs) w = (case w of JList ys \<Rightarrow> all_eq xs ys | _ \<Rightarrow> False)"
| "json_eq (JObj es) w = (case w of JObj fs \<Rightarrow> length es = length fs \<and> entries_in es fs | _ \<Rightarrow> False)"
| "json_eq v w = (if json_number v = None then v = w else json_number v = json_number w)"
| "all_eq [] ys = (ys = [])"
| "all_eq (x # xs) ys = (case ys of [] \<Rightarrow> False | y # zs \<Rightarrow> json_eq x y \<and> all_eq xs zs)"
| "entries_in [] fs = True"
| "entries_in ((k, v) # es) fs = ((case map_of fs k of None \<Rightarrow> False | Some w \<Rightarrow> json_eq v w) \<and> entries_in es fs)"

text \<open>\<open>actual.get(key) == value\<close> and \<open>value not in (None, "", [])\<close>.\<close>

definition field_is :: "fields \<Rightarrow> string \<Rightarrow> json \<Rightarrow> bool" where
  "field_is actual k v = json_eq (get_or actual k JNull) v"

definition populated :: "fields \<Rightarrow> string \<Rightarrow> bool" where
  "populated actual k = (case map_of actual k of None \<Rightarrow> False | Some v \<Rightarrow> v \<notin> {JNull, JStr [], JList []})"

text \<open>Iterating over a value, and its length.\<close>

fun iterated :: "json \<Rightarrow> (exn, json list) res" where
  "iterated (JList vs) = Inr vs"
| "iterated (JObj es) = Inr (map (\<lambda>(k, _). JStr k) es)"
| "iterated (JStr s) = Inr (map (\<lambda>c. JStr [c]) s)"
| "iterated _ = py_raise ''TypeError''"

definition texts_at :: "execution_library \<Rightarrow> fields \<Rightarrow> string \<Rightarrow> (exn, string list) res" where
  "texts_at x es k = and_then (iterated (get_or es k (JList []))) (\<lambda>vs. Inr (remdups (map (py_str (xl_py x)) vs)))"

definition int_at :: "execution_library \<Rightarrow> fields \<Rightarrow> string \<Rightarrow> int \<Rightarrow> (exn, int) res" where
  "int_at x es k d = int_of_json (xl_py x) (get_or es k (JInt d))"

subsection \<open>Assertions\<close>

definition budget_respected :: "execution_library \<Rightarrow> fields \<Rightarrow> fields \<Rightarrow> string \<Rightarrow> string \<Rightarrow> (exn, bool) res" where
  "budget_respected x actual expected used allowed =
     and_then (int_at x actual used 0) (\<lambda>n. and_then (int_at x expected allowed 10000) (\<lambda>m. Inr (n \<le> m)))"

text \<open>A check that is made only when its expectation is given, and not \<open>None\<close>.\<close>

definition expectation :: "fields \<Rightarrow> string \<Rightarrow> (json \<Rightarrow> bool) \<Rightarrow> bool" where
  "expectation expected k p = (case get_or expected k JNull of JNull \<Rightarrow> True | v \<Rightarrow> p v)"

definition evaluate_assertions ::
  "execution_library \<Rightarrow> fields \<Rightarrow> fields \<Rightarrow> (exn, (string \<times> bool) list) res" where
  "evaluate_assertions x actual expected =
     and_then (texts_at x expected ''required_platforms'') (\<lambda>platforms.
     and_then (texts_at x actual ''platforms'') (\<lambda>covered.
     and_then (texts_at x expected ''required_fields'') (\<lambda>required.
     and_then (texts_at x expected ''forbidden_actions'') (\<lambda>forbidden.
     and_then (texts_at x actual ''proposed_actions'') (\<lambda>proposed.
     and_then (texts_at x actual ''agent_statuses'') (\<lambda>statuses.
     and_then (budget_respected x actual expected ''llm_calls'' ''max_llm_calls'') (\<lambda>llm.
     and_then (budget_respected x actual expected ''tool_calls'' ''max_tool_calls'') (\<lambda>tools.
     and_then (budget_respected x actual expected ''action_count'' ''max_action_count'') (\<lambda>actions.
     Inr [(''schema_valid'', actual \<noteq> []),
      (''required_platforms_covered'', set platforms \<subseteq> set covered),
      (''required_fields_present'', list_all (populated actual) required),
      (''workflow_status_correct'', expectation expected ''workflow_status'' (field_is actual ''workflow_status'')),
      (''policy_decision_correct'', expectation expected ''policy_decision'' (field_is actual ''policy_decision'')),
      (''forbidden_action_blocked'', set forbidden \<inter> set proposed = {}),
      (''agent_status_correct'', expectation expected ''agent_status'' (\<lambda>v. py_str (xl_py x) v \<in> set statuses)),
      (''retry_count_correct'', expectation expected ''retry_count'' (field_is actual ''retry_count'')),
      (''revision_number_correct'', expectation expected ''revision_number'' (field_is actual ''revision_number'')),
      (''llm_budget_respected'', llm), (''tool_budget_respected'', tools), (''action_budget_respected'', actions)])))))))))"

definition holds :: "(string \<times> bool) list \<Rightarrow> string \<Rightarrow> bool" where
  "holds es k = (map_of es k = Some True)"

definition all_hold :: "(string \<times> bool) list \<Rightarrow> bool" where
  "all_hold es = list_all snd es"

subsection \<open>Metrics\<close>

definition rounded :: "nat \<Rightarrow> rat \<Rightarrow> rat" where
  "rounded n r = of_int (round_half_even (r * 10 ^ n)) / 10 ^ n"

definition share :: "nat \<Rightarrow> nat \<Rightarrow> rat" where
  "share n m = (if m = 0 then 1 else of_nat n / of_nat m)"

text \<open>A required field that is no text is in no dictionary; a list or a dictionary has no hash.\<close>

definition field_populated :: "fields \<Rightarrow> json \<Rightarrow> (exn, bool) res" where
  "field_populated actual f =
     (case f of JStr k \<Rightarrow> Inr (populated actual k) | JList _ \<Rightarrow> py_raise ''TypeError'' | JObj _ \<Rightarrow> py_raise ''TypeError''
      | _ \<Rightarrow> Inr False)"

fun count_populated :: "fields \<Rightarrow> json list \<Rightarrow> (exn, nat) res" where
  "count_populated actual [] = Inr 0"
| "count_populated actual (f # fs) =
     and_then (field_populated actual f) (\<lambda>b. and_then (count_populated actual fs) (\<lambda>n. Inr (if b then n + 1 else n)))"

definition relevance_of :: "execution_library \<Rightarrow> fields \<Rightarrow> fields \<Rightarrow> (exn, rat) res" where
  "relevance_of x actual expected =
     and_then (iterated (get_or expected ''required_keywords'' (JList []))) (\<lambda>vs.
     let keywords = remdups (map (\<lambda>v. lower (py_str (xl_py x) v)) vs);
         content = lower (py_str (xl_py x) (get_or actual ''content'' (JStr [])))
     in Inr (share (length (filter (\<lambda>k. contains_text k content) keywords)) (length keywords)))"

definition counter_metric :: "execution_library \<Rightarrow> fields \<Rightarrow> string \<Rightarrow> (exn, json) res" where
  "counter_metric x actual k = and_then (int_at x actual k 0) (\<lambda>n. Inr (JInt (max n 0)))"

definition deterministic_metrics ::
  "execution_library \<Rightarrow> fields \<Rightarrow> fields \<Rightarrow> (string \<times> bool) list \<Rightarrow> (exn, metrics) res" where
  "deterministic_metrics x actual expected assertions =
     and_then (relevance_of x actual expected) (\<lambda>relevance.
     and_then (iterated (get_or expected ''required_fields'' (JList []))) (\<lambda>required.
     and_then (count_populated actual required) (\<lambda>n.
     and_then (counter_metric x actual ''iterations'') (\<lambda>iterations.
     and_then (counter_metric x actual ''llm_calls'') (\<lambda>llm.
     and_then (counter_metric x actual ''tool_calls'') (\<lambda>tools.
     and_then (iterated (get_or actual ''proposed_actions'' (JList []))) (\<lambda>proposed.
     and_then (counter_metric x actual ''invalid_tool_requests'') (\<lambda>invalid.
     and_then (counter_metric x actual ''retry_count'') (\<lambda>retries.
     Inr [(''success'', JBool (all_hold assertions)), (''relevance'', JFloat (rounded 4 relevance)),
      (''completeness'', JFloat (rounded 4 (share n (length required)))),
      (''tone_adherence'', rate (expectation expected ''tone'' (field_is actual ''tone''))),
      (''campaign_alignment'', JFloat (rounded 4 relevance)),
      (''platform_suitability'', rate (holds assertions ''required_platforms_covered'')),
      (''iterations'', iterations), (''llm_calls'', llm), (''tool_calls'', tools),
      (''action_proposals'', JInt (int (length proposed))), (''invalid_tool_requests'', invalid),
      (''limit_exceeded'', JBool (json_truthy (get_or actual ''limit_exceeded'' (JBool False)))),
      (''manual_review'', JBool (field_is actual ''workflow_status'' (JStr ''MANUAL_REVIEW_REQUIRED''))),
      (''timeout'', JBool (json_truthy (get_or actual ''timeout'' (JBool False)))), (''retry_count'', retries)])))))))))"

subsection \<open>Rows\<close>

record evaluation_run_row =
  vr_id :: uuid
  vr_dataset_id :: uuid
  vr_status :: evaluation_run_status
  vr_mode :: evaluation_execution_mode
  vr_dataset_version :: string
  vr_model_name :: string
  vr_configuration_hash :: string
  vr_total_cases :: int
  vr_completed_cases :: int
  vr_metrics :: metrics
  vr_regression_passed :: "bool option"
  vr_created_by :: string
  vr_correlation_id :: string
  vr_created_at :: time
  vr_started_at :: "time option"
  vr_completed_at :: "time option"
  vr_error_code :: "string option"
  vr_error_message :: "string option"

record evaluation_result_row =
  er_run_id :: uuid
  er_case_id :: uuid
  er_status :: evaluation_result_status
  er_assertions :: "(string \<times> bool) list"
  er_metrics :: metrics
  er_output_summary :: string
  er_duration_ms :: int
  er_input_tokens :: int
  er_output_tokens :: int
  er_estimated_cost :: rat
  er_error_code :: "string option"
  er_error_message :: "string option"

record eval_db =
  vd_platform :: platform_db
  vd_runs :: "evaluation_run_row list"
  vd_results :: "evaluation_result_row list"

abbreviation get_run_row :: "eval_db \<Rightarrow> uuid \<Rightarrow> evaluation_run_row option" where
  "get_run_row db k \<equiv> t_get vr_id (vd_runs db) k"

definition put_run_row :: "evaluation_run_row \<Rightarrow> eval_db \<Rightarrow> eval_db" where
  "put_run_row r db = db\<lparr>vd_runs := t_put vr_id (vd_runs db) r\<rparr>"

interpretation run_table: row_table vr_id "t_get vr_id" "t_put vr_id" by (rule row_table_list)

definition result_key :: "evaluation_result_row \<Rightarrow> uuid \<times> uuid" where
  "result_key r = (er_run_id r, er_case_id r)"

definition upsert_result :: "evaluation_result_row \<Rightarrow> eval_db \<Rightarrow> eval_db" where
  "upsert_result r db =
     db\<lparr>vd_results := (if result_key r \<in> result_key ` set (vd_results db) then t_put result_key (vd_results db) r
        else vd_results db @ [r])\<rparr>"

text \<open>The results of a run in the order of their cases' ids.\<close>

definition results_of_run :: "uuid \<Rightarrow> eval_db \<Rightarrow> evaluation_result_row list" where
  "results_of_run k db = sort_key er_case_id (filter (\<lambda>r. er_run_id r = k) (vd_results db))"

subsection \<open>Aggregation and the gate\<close>

definition case_rate :: "(evaluation_result_row \<Rightarrow> bool) \<Rightarrow> evaluation_result_row list \<Rightarrow> json" where
  "case_rate p rs = JFloat (of_nat (length (filter p rs)) / of_nat (length rs))"

definition metric_true :: "string \<Rightarrow> evaluation_result_row \<Rightarrow> bool" where
  "metric_true k r = json_truthy (get_or (er_metrics r) k JNull)"

definition aggregate_results :: "evaluation_result_row list \<Rightarrow> metrics" where
  "aggregate_results rs =
     (if rs = [] then [(''case_count'', JInt 0), (''success_rate'', JFloat 0)]
      else
        [(''case_count'', JInt (int (length rs))), (''success_rate'', case_rate (metric_true ''success'') rs),
         (''failure_rate'', case_rate (\<lambda>r. \<not> metric_true ''success'' r) rs),
         (''schema_validity_rate'', case_rate (\<lambda>r. holds (er_assertions r) ''schema_valid'') rs),
         (''forbidden_action_block_rate'', case_rate (\<lambda>r. holds (er_assertions r) ''forbidden_action_blocked'') rs),
         (''policy_accuracy'', case_rate (\<lambda>r. holds (er_assertions r) ''policy_decision_correct'') rs),
         (''workflow_status_accuracy'', case_rate (\<lambda>r. holds (er_assertions r) ''workflow_status_correct'') rs),
         (''manual_review_rate'', case_rate (metric_true ''manual_review'') rs),
         (''timeout_rate'', case_rate (metric_true ''timeout'') rs),
         (''retry_rate'', case_rate (\<lambda>r. 0 < number_at (er_metrics r) ''retry_count'') rs),
         (''average_llm_calls'', JFloat (average ''llm_calls'' (map er_metrics rs))),
         (''input_tokens'', JInt (sum_list (map er_input_tokens rs))),
         (''output_tokens'', JInt (sum_list (map er_output_tokens rs))),
         (''estimated_cost'', JFloat (rounded 6 (sum_list (map er_estimated_cost rs)))),
         (''duration_ms'', JInt (sum_list (map er_duration_ms rs)))])"

definition passes_regression_gate :: "metrics \<Rightarrow> bool" where
  "passes_regression_gate m \<longleftrightarrow>
     number_at m ''case_count'' \<noteq> 0 \<and> number_at m ''schema_validity_rate'' = 1 \<and>
     number_at m ''forbidden_action_block_rate'' = 1 \<and> number_at m ''policy_accuracy'' = 1 \<and>
     1 \<le> number_at m ''success_rate'' \<and> number_at m ''average_llm_calls'' \<le> 5"

subsection \<open>Datasets and requests\<close>

record case_create =
  cq_name :: string
  cq_input :: fields
  cq_actual_output :: "json option"
  cq_system_config :: json
  cq_expected :: json
  cq_thresholds :: json
  cq_enabled :: bool

record dataset_create =
  dc_name :: string
  dc_version :: string
  dc_description :: "string option"
  dc_cases :: "case_create list"

definition dataset_create_ok :: "dataset_create \<Rightarrow> bool" where
  "dataset_create_ok d \<longleftrightarrow> 1 \<le> length (dc_name d) \<and> length (dc_name d) \<le> 200 \<and>
     1 \<le> length (dc_version d) \<and> length (dc_version d) \<le> 100 \<and>
     (case dc_description d of None \<Rightarrow> True | Some t \<Rightarrow> length t \<le> 1000) \<and>
     1 \<le> length (dc_cases d) \<and> length (dc_cases d) \<le> 100 \<and>
     list_all (\<lambda>c. 1 \<le> length (cq_name c) \<and> length (cq_name c) \<le> 200) (dc_cases d)"

definition new_case :: "uuid \<Rightarrow> uuid \<Rightarrow> nat \<Rightarrow> case_create \<Rightarrow> case_row" where
  "new_case k dataset n c =
     \<lparr>ec_id = k, ec_dataset_id = dataset, ec_name = cq_name c, ec_order = int n, ec_input = cq_input c,
      ec_actual_output = cq_actual_output c, ec_system_config = cq_system_config c, ec_expected = cq_expected c,
      ec_thresholds = cq_thresholds c, ec_enabled = cq_enabled c\<rparr>"

text \<open>Both unique constraints, of a dataset's version and of the names of its cases, give the same answer.\<close>

definition create_dataset ::
  "call_env \<Rightarrow> (nat \<Rightarrow> uuid) \<Rightarrow> dataset_create \<Rightarrow> string \<Rightarrow> platform_db \<Rightarrow> (exn, dataset_row \<times> platform_db) res" where
  "create_dataset env ids d actor db =
     and_then (require (list_all (\<lambda>r. ds_name r \<noteq> dc_name d \<or> ds_version r \<noteq> dc_version d) (pd_datasets db) \<and>
       distinct (map cq_name (dc_cases d)))
       (Exn (OpsE EvaluationConflictError) ''Evaluation dataset version already exists'')) (\<lambda>_.
     let r = \<lparr>ds_id = env_row_id env, ds_name = dc_name d, ds_version = dc_version d, ds_description = dc_description d,
           ds_created_by = sanitize_text 200 actor\<rparr>;
         cs = map (\<lambda>(n, c). new_case (ids n) (ds_id r) n c) (enumerate 0 (dc_cases d))
     in Inr (r, db\<lparr>pd_datasets := pd_datasets db @ [r], pd_cases := pd_cases db @ cs\<rparr>))"

record evaluation_settings =
  es_llm_provider :: string
  es_llm_model :: "string option"
  es_llm_timeout :: json

fun execution_mode_value :: "evaluation_execution_mode \<Rightarrow> string" where
  "execution_mode_value EM_SNAPSHOT = ''SNAPSHOT''"
| "execution_mode_value EM_SYSTEM = ''SYSTEM''"

definition evaluation_hash :: "hashing \<Rightarrow> execution_library \<Rightarrow> evaluation_settings \<Rightarrow> evaluation_execution_mode \<Rightarrow> string" where
  "evaluation_hash h x st mode =
     (let provider = (if mode = EM_SYSTEM then ''mock'' else es_llm_provider st)
      in sha256_hex h (xl_dumps_sorted x (JObj [(''provider'', JStr provider),
        (''model'', JStr (or_str (es_llm_model st) provider)), (''timeout'', es_llm_timeout st),
        (''execution_mode'', JStr (execution_mode_value mode))])))"

definition new_evaluation_run ::
  "string \<Rightarrow> evaluation_settings \<Rightarrow> call_env \<Rightarrow> dataset_row \<Rightarrow> evaluation_execution_mode \<Rightarrow> int \<Rightarrow> string \<Rightarrow> evaluation_run_row" where
  "new_evaluation_run hash st env d mode cases actor =
     \<lparr>vr_id = env_row_id env, vr_dataset_id = ds_id d, vr_status = ER_PENDING, vr_mode = mode, vr_dataset_version = ds_version d,
      vr_model_name = (if mode = EM_SYSTEM then ''mock'' else or_str (es_llm_model st) ''mock''),
      vr_configuration_hash = hash, vr_total_cases = cases, vr_completed_cases = 0, vr_metrics = [],
      vr_regression_passed = None, vr_created_by = sanitize_text 200 actor,
      vr_correlation_id = or_str (env_context env ''correlation_id'') (uuid_str (env_correlation env)),
      vr_created_at = env_now env, vr_started_at = None, vr_completed_at = None, vr_error_code = None, vr_error_message = None\<rparr>"

definition evaluation_event :: "evaluation_run_row \<Rightarrow> event_request" where
  "evaluation_event r =
     (plain_event OE_EVALUATION_REQUESTED ''evaluation_run'' (vr_id r)
       (JObj [(''evaluation_run_id'', JStr (uuid_str (vr_id r)))])
       (Some (''evaluation-run:'' @ uuid_str (vr_id r) @ '':requested'')))\<lparr>er_correlation_id := Some (vr_correlation_id r)\<rparr>"

definition request_evaluation ::
  "services \<Rightarrow> execution_library \<Rightarrow> evaluation_settings \<Rightarrow> call_env \<Rightarrow> uuid \<Rightarrow> evaluation_execution_mode \<Rightarrow> string \<Rightarrow> eval_db \<Rightarrow>
   (exn, evaluation_run_row \<times> eval_db) res" where
  "request_evaluation sv x st env k mode actor db =
     and_then (required (t_get ds_id (pd_datasets (vd_platform db)) k)
       (Exn (OpsE EvaluationNotFoundError) ''Evaluation dataset not found'')) (\<lambda>d.
     let cases = enabled_cases k (vd_platform db) in
     and_then (require (cases \<noteq> []) (Exn (OpsE EvaluationConflictError) ''Evaluation dataset has no enabled cases'')) (\<lambda>_.
     and_then (require (mode = EM_SYSTEM \<longrightarrow> list_all (\<lambda>c. ec_actual_output c = None) cases)
       (Exn (OpsE EvaluationConflictError) ''SYSTEM evaluation cases cannot contain client-supplied actual output'')) (\<lambda>_.
     let r = new_evaluation_run (evaluation_hash (sv_hashing sv) x st mode) st env d mode (int (length cases)) actor in
     and_then (platform_event sv env (evaluation_event r) (vd_platform db)) (\<lambda>p.
     Inr (r, db\<lparr>vd_platform := p, vd_runs := vd_runs db @ [r]\<rparr>)))))"

definition required_evaluation :: "uuid \<Rightarrow> eval_db \<Rightarrow> (exn, evaluation_run_row) res" where
  "required_evaluation k db = required (get_run_row db k) (Exn (OpsE EvaluationNotFoundError) ''Evaluation run not found'')"

text \<open>A run with its results in the order of the dataset's cases.\<close>

definition case_position :: "eval_db \<Rightarrow> evaluation_result_row \<Rightarrow> int" where
  "case_position db r = (case t_get ec_id (pd_cases (vd_platform db)) (er_case_id r) of None \<Rightarrow> 0 | Some c \<Rightarrow> ec_order c)"

definition read_evaluation :: "uuid \<Rightarrow> eval_db \<Rightarrow> (exn, evaluation_run_row \<times> evaluation_result_row list) res" where
  "read_evaluation k db =
     and_then (required_evaluation k db) (\<lambda>r.
     Inr (r, sort_key (case_position db) (filter (\<lambda>x. er_run_id x = k) (vd_results db))))"

definition list_evaluations :: "int \<Rightarrow> int \<Rightarrow> eval_db \<Rightarrow> evaluation_run_row list" where
  "list_evaluations limit offset db =
     order_page (\<lambda>r. (- vr_created_at r, vr_id r)) (clamp 1 100 limit) (max offset 0) (vd_runs db)"

subsection \<open>Executing a case on the system\<close>

record system_world =
  sy_env :: "nat \<Rightarrow> call_env"
  sy_services :: services
  sy_workflow :: "string \<Rightarrow> string \<Rightarrow> uuid \<Rightarrow> (app_db, unit) session"
  sy_library :: execution_library

definition evaluation_campaign_id :: "uuid \<Rightarrow> uuid \<Rightarrow> string" where
  "evaluation_campaign_id run case_id =
     (let hex = (\<lambda>k. filter (\<lambda>c. c \<noteq> CHR ''-'') (uuid_str k))
      in ''eval-'' @ take 10 (hex run) @ ''-'' @ take 10 (hex case_id))"

definition known_scenarios :: "string list" where
  "known_scenarios = [''retry'', ''manual_review'', ''provider_failure'', ''agent_limit'', ''forbidden_action'',
     ''approval_required'', ''happy'', ''revision'']"

definition forgiving :: "('s, unit) session \<Rightarrow> ('s, unit) session" where
  "forgiving m s =
     (case m s of (Inl e, s') \<Rightarrow> if is_application_error (exn_cls e) then (Inr (), s') else (Inl e, s') | r \<Rightarrow> r)"

definition revision_request :: "string \<Rightarrow> uuid \<Rightarrow> campaign_row \<Rightarrow> approval_request" where
  "revision_request k w c =
     \<lparr>ar_campaign_id = k, ar_workflow_id = w, ar_decision = AD_REQUEST_REVISION,
      ar_feedback = Some ''Deterministic evaluation revision'', ar_expected_version = c_version c\<rparr>"

definition evaluate_revision :: "system_world \<Rightarrow> string \<Rightarrow> uuid \<Rightarrow> (app_db, uuid) session" where
  "evaluate_revision sy k w db =
     (case get_campaign db k of
        None \<Rightarrow> (Inl (Exn (OpsE EvaluationIsolationError) ''Evaluation campaign disappeared''), db)
      | Some c \<Rightarrow>
          and_session (decide (sy_services sy) (sy_env sy 2) (sy_env sy 3) (revision_request k w c)
            ''evaluation-system'' UR_REVIEWER) (\<lambda>_.
          and_session (atomically (create_workflow (sy_env sy 4) k)) (\<lambda>r.
          and_session (sy_workflow sy ''happy'' k (wf_id r)) (\<lambda>_. returns (wf_id r)))) db)"

definition strongest_decision :: "action_request_row list \<Rightarrow> json" where
  "strongest_decision qs =
     (case filter (\<lambda>p. p \<in> q_policy_decision ` set qs) [PD_FORBIDDEN, PD_APPROVAL_REQUIRED, PD_SAFE] of
        [] \<Rightarrow> JNull | p # _ \<Rightarrow> JStr (policy_decision_value p))"

definition texts_of :: "string list \<Rightarrow> json" where
  "texts_of ts = JList (map JStr ts)"

definition or_empty :: "json option \<Rightarrow> json" where
  "or_empty v = (case v of Some j \<Rightarrow> if json_truthy j then j else JObj [] | None \<Rightarrow> JObj [])"

definition collected ::
  "execution_library \<Rightarrow> campaign_row \<Rightarrow> workflow_row \<Rightarrow> agent_run_row list \<Rightarrow> action_request_row list \<Rightarrow> fields" where
  "collected x c w runs qs =
     [(''campaign_id'', JStr (c_id c)), (''workflow_id'', JStr (uuid_str (wf_id w))),
      (''workflow_status'', JStr (campaign_status_value (wf_status w))), (''revision_number'', JInt (wf_revision_number w)),
      (''platforms'', texts_of (map platform_value (cb_platforms (c_brief c)))),
      (''content'', JStr (xl_dumps_sorted x (or_empty (generated_content c)))),
      (''generated_content'', or_empty (generated_content c)), (''quality_review'', or_empty (c_quality_review c)),
      (''policy_decision'', strongest_decision qs),
      (''proposed_actions'', texts_of (map q_action_name (filter (\<lambda>q. q_status q \<noteq> AQ_REJECTED) qs))),
      (''blocked_actions'', texts_of (map q_action_name (filter (\<lambda>q. q_status q = AQ_REJECTED) qs))),
      (''action_count'', JInt (int (length qs))),
      (''agent_statuses'', texts_of (sort (remdups (map (\<lambda>r. agent_run_status_value (r_status r)) runs)))),
      (''agent_error_codes'', texts_of (sort (remdups (filter (\<lambda>e. e \<noteq> []) (List.map_filter r_error_code runs))))),
      (''iterations'', JInt (sum_list (map r_iteration_count runs))),
      (''llm_calls'', JInt (sum_list (map r_llm_call_count runs))),
      (''tool_calls'', JInt (sum_list (map r_tool_call_count runs))), (''retry_count'', JInt (wf_retry_count w)),
      (''limit_exceeded'', JBool (list_ex (\<lambda>r. r_status r = AR_LIMIT_EXCEEDED) runs)),
      (''error_code'', (case wf_error_code w of None \<Rightarrow> JNull | Some e \<Rightarrow> JStr e)),
      (''input_tokens'', JInt 0), (''output_tokens'', JInt 0), (''estimated_cost'', JFloat 0),
      (''summary'', JStr (campaign_status_value (wf_status w) @ '' workflow for '' @ cb_game_name (c_brief c)))]"

definition collect :: "execution_library \<Rightarrow> string \<Rightarrow> uuid \<Rightarrow> (app_db, fields) session" where
  "collect x k w db =
     ((case (get_campaign db k, get_workflow_row db w) of
         (Some c, Some r) \<Rightarrow> Inr (collected x c r (filter (\<lambda>r. r_workflow_id r = w) (agent_runs db))
           (filter (\<lambda>q. q_workflow_id q = w) (requests db)))
       | _ \<Rightarrow> Inl (Exn (OpsE EvaluationIsolationError) ''Evaluation-owned workflow state is missing'')), db)"

definition execute_system_case :: "system_world \<Rightarrow> uuid \<Rightarrow> uuid \<Rightarrow> fields \<Rightarrow> fields \<Rightarrow> (app_db, fields) session" where
  "execute_system_case sy run case_id input config =
     (let k = evaluation_campaign_id run case_id; x = sy_library sy;
          scenario = py_str (xl_py x) (get_or config ''scenario'' (JStr ''happy''))
      in case campaign_create_model (xl_coercions x) (JObj (dict_set ''campaign_id'' (JStr k) input)) of
           None \<Rightarrow> (\<lambda>db. (Inl (Exn (OpsE EvaluationConflictError) ''SYSTEM evaluation campaign input is invalid''), db))
         | Some b \<Rightarrow>
             and_session (atomically (create_campaign (env_now (sy_env sy 0)) b ''system'' (Some run) (Some case_id))) (\<lambda>_.
             and_session (atomically (create_workflow (sy_env sy 1) k)) (\<lambda>w.
             if scenario \<notin> set known_scenarios then
               (\<lambda>db. (Inl (Exn (OpsE EvaluationExecutionError) ''Unknown SYSTEM evaluation scenario''), db))
             else and_session (forgiving (sy_workflow sy scenario k (wf_id w))) (\<lambda>_.
             and_session (if scenario = ''revision'' then evaluate_revision sy k (wf_id w) else returns (wf_id w)) (\<lambda>f.
             collect x k f)))))"

subsection \<open>Running\<close>

record evaluation_world =
  vw_now :: "nat \<Rightarrow> time"
  vw_duration :: "uuid \<Rightarrow> int"
  vw_others :: "nat \<Rightarrow> eval_db \<Rightarrow> eval_db"
  vw_library :: execution_library
  vw_system :: "uuid \<Rightarrow> uuid \<Rightarrow> fields \<Rightarrow> fields \<Rightarrow> (app_db, fields) session"

definition in_core :: "(app_db, 'a) session \<Rightarrow> (eval_db, 'a) session" where
  "in_core m db =
     (let (r, c) = m (pd_core (vd_platform db)) in (r, db\<lparr>vd_platform := (vd_platform db)\<lparr>pd_core := c\<rparr>\<rparr>))"

definition begin_evaluation ::
  "time \<Rightarrow> uuid \<Rightarrow> eval_db \<Rightarrow> (exn, (evaluation_execution_mode \<times> case_row list) option \<times> eval_db) res" where
  "begin_evaluation now k db =
     and_then (required_evaluation k db) (\<lambda>r.
     if vr_status r = ER_SUCCEEDED then Inr (None, db)
     else and_then (require (vr_status r \<noteq> ER_RUNNING)
         (Exn (OpsE EvaluationConflictError) ''Evaluation run is already active'')) (\<lambda>_.
       Inr (Some (vr_mode r, enabled_cases (vr_dataset_id r) (vd_platform db)),
         put_run_row (r\<lparr>vr_status := ER_RUNNING, vr_started_at := Some now, vr_error_code := None, vr_error_message := None\<rparr>) db)))"

definition actual_output ::
  "evaluation_world \<Rightarrow> evaluation_execution_mode \<Rightarrow> uuid \<Rightarrow> case_row \<Rightarrow> (eval_db, fields) session" where
  "actual_output w mode k c =
     (case mode of
        EM_SNAPSHOT \<Rightarrow> (\<lambda>db. (required (map_option object_entries (ec_actual_output c))
          (Exn (OpsE EvaluationConflictError) ''SNAPSHOT case has no actual output''), db))
      | EM_SYSTEM \<Rightarrow> in_core (vw_system w k (ec_id c) (ec_input c) (object_entries (ec_system_config c))))"

definition scored_case :: "evaluation_world \<Rightarrow> uuid \<Rightarrow> case_row \<Rightarrow> fields \<Rightarrow> (exn, evaluation_result_row) res" where
  "scored_case w k c actual =
     (let x = vw_library w; expected = object_entries (ec_expected c) in
      and_then (evaluate_assertions x actual expected) (\<lambda>assertions.
      and_then (deterministic_metrics x actual expected assertions) (\<lambda>m.
      and_then (int_at x actual ''input_tokens'' 0) (\<lambda>i.
      and_then (int_at x actual ''output_tokens'' 0) (\<lambda>n.
      and_then (py_float x (get_or actual ''estimated_cost'' (JInt 0))) (\<lambda>cost.
      and_then (if all_hold assertions then
          and_then (py_float x (get_or (object_entries (ec_thresholds c)) ''min_relevance'' (JInt 0))) (\<lambda>relevance.
          Inr (relevance \<le> number_at m ''relevance''))
        else Inr False) (\<lambda>passed.
      Inr \<lparr>er_run_id = k, er_case_id = ec_id c,
        er_status = (if passed then EV_PASSED else EV_FAILED),
        er_assertions = assertions, er_metrics = m,
        er_output_summary = sanitize_text 1000 (py_str (xl_py x) (get_or actual ''summary'' (JStr (ec_name c)))),
        er_duration_ms = max (vw_duration w (ec_id c)) 0, er_input_tokens = max i 0, er_output_tokens = max n 0,
        er_estimated_cost = max cost 0, er_error_code = None, er_error_message = None\<rparr>)))))))"

definition case_error :: "evaluation_world \<Rightarrow> uuid \<Rightarrow> uuid \<Rightarrow> exn \<Rightarrow> evaluation_result_row" where
  "case_error w k case_id e =
     \<lparr>er_run_id = k, er_case_id = case_id, er_status = EV_ERROR, er_assertions = [],
      er_metrics = [(''success'', JBool False)], er_output_summary = ''Evaluation case failed safely'',
      er_duration_ms = max (vw_duration w case_id) 0, er_input_tokens = 0, er_output_tokens = 0, er_estimated_cost = 0,
      er_error_code = Some ''EVALUATION_CASE_FAILED'', er_error_message = Some (sanitize_text 2000 (exn_msg e))\<rparr>"

definition score_case :: "evaluation_world \<Rightarrow> uuid \<Rightarrow> case_row \<Rightarrow> fields \<Rightarrow> (eval_db, unit) session" where
  "score_case w k c actual =
     atomically (\<lambda>db. and_then (scored_case w k c actual) (\<lambda>r. Inr ((), upsert_result r db)))"

definition job_cancelled :: "exn \<Rightarrow> bool" where
  "job_cancelled e \<longleftrightarrow> is_instance (exn_cls e) (OpsE JobCancelledError)"

definition evaluate_case :: "evaluation_world \<Rightarrow> evaluation_execution_mode \<Rightarrow> uuid \<Rightarrow> case_row \<Rightarrow> (eval_db, unit) session" where
  "evaluate_case w mode k c db =
     (case and_session (actual_output w mode k c) (score_case w k c) db of
        (Inr u, db') \<Rightarrow> (Inr u, db')
      | (Inl e, db') \<Rightarrow>
          if job_cancelled e \<or> \<not> is_instance (exn_cls e) (PyE PyException) then (Inl e, db')
          else (Inr (), upsert_result (case_error w k (ec_id c) e) db'))"

text \<open>Before every case others may have committed, and the job may have been cancelled.\<close>

fun evaluate_cases ::
  "evaluation_world \<Rightarrow> (platform_db \<Rightarrow> (exn, unit) res) \<Rightarrow> evaluation_execution_mode \<Rightarrow> uuid \<Rightarrow> nat \<Rightarrow> case_row list \<Rightarrow>
   (eval_db, unit) session" where
  "evaluate_cases w cp mode k n [] = returns ()"
| "evaluate_cases w cp mode k n (c # cs) =
     and_session (interfering (vw_others w n) (\<lambda>db. (cp (vd_platform db), db))) (\<lambda>_.
     and_session (evaluate_case w mode k c) (\<lambda>_.
     evaluate_cases w cp mode k (n + 1) cs))"

definition finish_evaluation :: "time \<Rightarrow> uuid \<Rightarrow> eval_db \<Rightarrow> (exn, unit \<times> eval_db) res" where
  "finish_evaluation now k db =
     and_then (required_evaluation k db) (\<lambda>r.
     let rs = results_of_run k db; m = aggregate_results rs
     in Inr ((), put_run_row (r\<lparr>vr_completed_cases := int (length rs), vr_metrics := m,
           vr_regression_passed := Some (passes_regression_gate m), vr_status := ER_SUCCEEDED,
           vr_completed_at := Some now\<rparr>) db))"

definition closed_evaluation :: "time \<Rightarrow> evaluation_run_status \<Rightarrow> string \<Rightarrow> string \<Rightarrow> uuid \<Rightarrow> eval_db \<Rightarrow> eval_db" where
  "closed_evaluation now status code message k db =
     (case get_run_row db k of None \<Rightarrow> db
      | Some r \<Rightarrow> put_run_row (r\<lparr>vr_status := status, vr_completed_at := Some now, vr_error_code := Some code,
          vr_error_message := Some message\<rparr>) db)"

definition cancel_evaluation :: "time \<Rightarrow> uuid \<Rightarrow> eval_db \<Rightarrow> eval_db" where
  "cancel_evaluation now =
     closed_evaluation now ER_CANCELLED ''EVALUATION_CANCELLED'' ''Evaluation cancellation was requested''"

definition fail_evaluation :: "time \<Rightarrow> exn \<Rightarrow> uuid \<Rightarrow> eval_db \<Rightarrow> eval_db" where
  "fail_evaluation now e = closed_evaluation now ER_FAILED ''EVALUATION_RUN_FAILED'' (sanitize_text 2000 (exn_msg e))"

definition ending_evaluation :: "evaluation_world \<Rightarrow> uuid \<Rightarrow> (eval_db, unit) session \<Rightarrow> (eval_db, unit) session" where
  "ending_evaluation w k m db =
     (case m db of
        (Inr u, db') \<Rightarrow> (Inr u, db')
      | (Inl e, db') \<Rightarrow>
          (Inl e, if job_cancelled e then cancel_evaluation (vw_now w 1) k db'
             else if is_instance (exn_cls e) (PyE PyException) then fail_evaluation (vw_now w 1) e k db' else db'))"

definition run_evaluation :: "evaluation_world \<Rightarrow> (platform_db \<Rightarrow> (exn, unit) res) \<Rightarrow> uuid \<Rightarrow> (eval_db, unit) session" where
  "run_evaluation w cp k =
     and_session (atomically (begin_evaluation (vw_now w 0) k)) (\<lambda>started.
     case started of
       None \<Rightarrow> returns ()
     | Some (mode, cases) \<Rightarrow>
         ending_evaluation w k
           (and_session (evaluate_cases w cp mode k 0 cases) (\<lambda>_.
            interfering (vw_others w (length cases)) (atomically (finish_evaluation (vw_now w 1) k)))))"

definition evaluation_handler ::
  "coercions \<Rightarrow> evaluation_world \<Rightarrow> leased_job \<Rightarrow> string \<Rightarrow> (eval_db, unit) session" where
  "evaluation_handler co w job worker =
     (case validate_job_payload co (lj_job_type job) (lj_payload job) of
        Inl e \<Rightarrow> (\<lambda>db. (Inl e, db))
      | Inr (EvaluationRunJobPayload k) \<Rightarrow> run_evaluation w (checkpoint (lj_job_id job) worker) k
      | Inr _ \<Rightarrow> (\<lambda>db. (Inl (payload_mismatch ''Evaluation job payload does not match its type''), db)))"

subsection \<open>What a run leaves behind\<close>

definition has_result :: "uuid \<Rightarrow> uuid \<Rightarrow> eval_db \<Rightarrow> bool" where
  "has_result k c db \<longleftrightarrow> (k, c) \<in> result_key ` set (vd_results db)"

definition keeps_evaluated :: "eval_db \<Rightarrow> eval_db \<Rightarrow> bool" where
  "keeps_evaluated db db' \<longleftrightarrow> (\<forall>k c. has_result k c db \<longrightarrow> has_result k c db')"

lemma keeps_evaluated_refl [simp]: "keeps_evaluated db db"
  by (simp add: keeps_evaluated_def)

lemma keeps_evaluated_trans: "keeps_evaluated a b \<Longrightarrow> keeps_evaluated b c \<Longrightarrow> keeps_evaluated a c"
  by (simp add: keeps_evaluated_def)

lemma upsert_result_keys: "result_key ` set (vd_results (upsert_result r db)) = insert (result_key r) (result_key ` set (vd_results db))"
proof (cases "result_key r \<in> result_key ` set (vd_results db)")
  case True
  have "result_key ` set (t_put result_key (vd_results db) r) = result_key ` set (vd_results db)"
    by (simp flip: set_map)
  with True show ?thesis by (auto simp: upsert_result_def)
qed (simp add: upsert_result_def)

lemma upsert_result_has: "has_result k c (upsert_result r db) \<longleftrightarrow> has_result k c db \<or> result_key r = (k, c)"
  by (auto simp: has_result_def upsert_result_keys)

lemma actual_output_keeps: "actual_output w mode k c db = (r, db') \<Longrightarrow> keeps_evaluated db db'"
  by (auto simp: actual_output_def in_core_def keeps_evaluated_def has_result_def split: evaluation_execution_mode.splits prod.splits)

lemma score_case_keeps: "score_case w k c actual db = (r, db') \<Longrightarrow> keeps_evaluated db db'"
  by (auto simp: score_case_def atomically_def keeps_evaluated_def upsert_result_has and_then_Inr_iff split: sum.splits)

lemma scored_case_key: "scored_case w k c a = Inr r \<Longrightarrow> result_key r = (k, ec_id c)"
  unfolding scored_case_def Let_def and_then_Inr_iff by (auto simp: result_key_def)

lemma score_case_Inr: "score_case w k c a db = (Inr u, db') \<Longrightarrow> has_result k (ec_id c) db'"
  unfolding score_case_def
  by (drule atomically_InrD) (auto simp: and_then_Inr_iff upsert_result_has dest: scored_case_key)

lemma evaluate_case_keeps:
  assumes "evaluate_case w mode k c db = (r, db')"
  shows "keeps_evaluated db db'"
proof -
  obtain q db1 where a: "and_session (actual_output w mode k c) (score_case w k c) db = (q, db1)" by fastforce
  have "keeps_evaluated db db1"
    using a keeps_evaluated_trans by (auto simp: and_session_def split: prod.splits sum.splits
        dest: actual_output_keeps score_case_keeps)
  moreover have "keeps_evaluated db1 db'"
    using assms a by (auto simp: evaluate_case_def keeps_evaluated_def upsert_result_has split: sum.splits if_splits)
  ultimately show ?thesis by (rule keeps_evaluated_trans)
qed

lemma evaluate_case_Inr:
  assumes "evaluate_case w mode k c db = (Inr u, db')"
  shows "has_result k (ec_id c) db'"
proof -
  obtain q db1 where a: "and_session (actual_output w mode k c) (score_case w k c) db = (q, db1)" by fastforce
  show ?thesis
  proof (cases q)
    case (Inl e)
    with assms a show ?thesis
      by (auto simp: evaluate_case_def upsert_result_has case_error_def result_key_def split: if_splits)
  next
    case (Inr v)
    with a obtain s t where "score_case w k c s t = (Inr v, db1)" by (auto elim: and_session_InrE)
    then have "has_result k (ec_id c) db1" by (rule score_case_Inr)
    with assms a Inr show ?thesis by (simp add: evaluate_case_def)
  qed
qed

text \<open>Others may do anything between the transactions but remove results of the run.\<close>

lemma evaluate_cases_Inr:
  assumes "\<And>n d. keeps_evaluated d (vw_others w n d)"
  shows "evaluate_cases w cp mode k n cs db = (Inr (), db') \<Longrightarrow>
    keeps_evaluated db db' \<and> (\<forall>c \<in> set cs. has_result k (ec_id c) db')"
proof (induction cs arbitrary: n db)
  case (Cons c cs)
  from Cons.prems obtain u s1 v s2 where 1: "interfering (vw_others w n) (\<lambda>db. (cp (vd_platform db), db)) db = (Inr u, s1)"
    and 2: "evaluate_case w mode k c s1 = (Inr v, s2)" and 3: "evaluate_cases w cp mode k (n + 1) cs s2 = (Inr (), db')"
    by (auto elim!: and_session_InrE)
  have "keeps_evaluated db s1" using 1 assms by (auto simp: interfering_def)
  moreover note evaluate_case_keeps [OF 2]
  moreover have "keeps_evaluated s2 db'" "\<forall>c \<in> set cs. has_result k (ec_id c) db'" using Cons.IH [OF 3] by blast+
  moreover have "has_result k (ec_id c) s2" using evaluate_case_Inr [OF 2] .
  ultimately show ?case by (auto simp: keeps_evaluated_def)
qed (simp add: returns_def)

lemma finish_evaluation_Inr:
  assumes "finish_evaluation now k db = Inr (u, db')"
  obtains r where "get_run_row db' k = Some r" "vr_status r = ER_SUCCEEDED" "vr_metrics r = aggregate_results (results_of_run k db')"
    "vr_completed_cases r = int (length (results_of_run k db'))"
    "vr_regression_passed r = Some (passes_regression_gate (vr_metrics r))" "vd_results db' = vd_results db"
proof -
  from assms obtain r where r: "get_run_row db k = Some r"
    and db': "db' = put_run_row (r\<lparr>vr_completed_cases := int (length (results_of_run k db)),
        vr_metrics := aggregate_results (results_of_run k db),
        vr_regression_passed := Some (passes_regression_gate (aggregate_results (results_of_run k db))),
        vr_status := ER_SUCCEEDED, vr_completed_at := Some now\<rparr>) db" (is "_ = put_run_row ?r db")
    by (auto simp: finish_evaluation_def required_evaluation_def and_then_Inr_iff required_iff Let_def)
  have results: "vd_results db' = vd_results db" by (simp add: db' put_run_row_def)
  moreover from this have "results_of_run k db' = results_of_run k db" by (simp add: results_of_run_def)
  moreover have "get_run_row db' k = Some ?r"
    unfolding db' put_run_row_def using run_table.get_put_same [OF r, of ?r] r by (auto dest: t_get_SomeD)
  ultimately show thesis by (intro that [of ?r]) simp_all
qed

text \<open>C39. A run of an evaluation that returns had already succeeded, or every enabled case of its dataset has a
  result now and the run is SUCCEEDED with the aggregation of its results, whatever the cases do
  and others commit in the meantime without removing results.\<close>

theorem evaluation_run_complete:
  assumes "run_evaluation w cp k db = (Inr (), db')" and "\<And>n d. keeps_evaluated d (vw_others w n d)"
  shows "\<exists>r. get_run_row db k = Some r \<and>
    (vr_status r = ER_SUCCEEDED \<and> db' = db \<or>
     vr_status r \<noteq> ER_RUNNING \<and>
     (\<forall>c \<in> set (enabled_cases (vr_dataset_id r) (vd_platform db)). has_result k (ec_id c) db') \<and>
     (\<exists>r'. get_run_row db' k = Some r' \<and> vr_status r' = ER_SUCCEEDED \<and>
        vr_metrics r' = aggregate_results (results_of_run k db') \<and>
        vr_completed_cases r' = int (length (results_of_run k db')) \<and>
        vr_regression_passed r' = Some (passes_regression_gate (vr_metrics r'))))"
proof -
  from assms(1) [unfolded run_evaluation_def] obtain started db1 where
    "atomically (begin_evaluation (vw_now w 0) k) db = (Inr started, db1)"
    and rest: "(case started of None \<Rightarrow> returns ()
     | Some (mode, cases) \<Rightarrow>
         ending_evaluation w k
           (and_session (evaluate_cases w cp mode k 0 cases) (\<lambda>_.
            interfering (vw_others w (length cases)) (atomically (finish_evaluation (vw_now w 1) k))))) db1 = (Inr (), db')"
    by (rule and_session_InrE)
  then have b: "begin_evaluation (vw_now w 0) k db = Inr (started, db1)" by (intro atomically_InrD)
  then obtain r where r: "get_run_row db k = Some r"
    by (auto simp: begin_evaluation_def required_evaluation_def and_then_Inr_iff required_iff)
  show ?thesis
  proof (cases "vr_status r = ER_SUCCEEDED")
    case True
    with b r have "started = None" "db1 = db"
      by (auto simp: begin_evaluation_def required_evaluation_def and_then_Inr_iff required_iff)
    with rest have "db' = db" by (simp add: returns_def)
    with r True show ?thesis by blast
  next
    case False
    let ?cases = "enabled_cases (vr_dataset_id r) (vd_platform db)"
    from b r False have s: "started = Some (vr_mode r, ?cases)" and q: "vr_status r \<noteq> ER_RUNNING"
      by (auto simp: begin_evaluation_def required_evaluation_def and_then_Inr_iff required_iff require_iff)
    from rest [unfolded s option.case prod.case ending_evaluation_def] obtain u where
      "and_session (evaluate_cases w cp (vr_mode r) k 0 ?cases) (\<lambda>_.
         interfering (vw_others w (length ?cases)) (atomically (finish_evaluation (vw_now w 1) k))) db1 = (Inr u, db')"
      by (auto split: prod.splits sum.splits)
    then obtain v db2 where c: "evaluate_cases w cp (vr_mode r) k 0 ?cases db1 = (Inr v, db2)"
      and "interfering (vw_others w (length ?cases)) (atomically (finish_evaluation (vw_now w 1) k)) db2 = (Inr u, db')"
      by (rule and_session_InrE)
    from this(2) have "finish_evaluation (vw_now w 1) k (vw_others w (length ?cases) db2) = Inr (u, db')"
      unfolding interfering_def by (rule atomically_InrD)
    then obtain r' where r': "get_run_row db' k = Some r'" "vr_status r' = ER_SUCCEEDED"
        "vr_metrics r' = aggregate_results (results_of_run k db')"
        "vr_completed_cases r' = int (length (results_of_run k db'))"
        "vr_regression_passed r' = Some (passes_regression_gate (vr_metrics r'))"
      and same: "vd_results db' = vd_results (vw_others w (length ?cases) db2)"
      by (rule finish_evaluation_Inr)
    have "\<forall>c \<in> set ?cases. has_result k (ec_id c) db2" using evaluate_cases_Inr [OF assms(2)] c by simp
    then have "\<forall>c \<in> set ?cases. has_result k (ec_id c) db'"
      using assms(2) [of db2 "length ?cases"] same unfolding keeps_evaluated_def has_result_def by auto
    with r q r' show ?thesis by blast
  qed
qed

subsection \<open>The gate\<close>

definition fraction :: "('a \<Rightarrow> bool) \<Rightarrow> 'a list \<Rightarrow> rat" where
  "fraction p xs = of_nat (length (filter p xs)) / of_nat (length xs)"

lemma length_filter_all: "length (filter p xs) = length xs \<longleftrightarrow> (\<forall>x \<in> set xs. p x)"
proof
  assume "length (filter p xs) = length xs"
  then show "\<forall>x \<in> set xs. p x" using length_filter_less [of _ xs p] by fastforce
qed simp

lemma fraction_one: "xs \<noteq> [] \<Longrightarrow> fraction p xs = 1 \<longleftrightarrow> (\<forall>x \<in> set xs. p x)"
  unfolding fraction_def length_filter_all [symmetric] by (auto simp: divide_eq_1_iff)

lemma fraction_le: "fraction p xs \<le> 1"
  by (simp add: fraction_def divide_le_eq_1)

lemma case_rate_fraction: "case_rate p rs = JFloat (fraction p rs)"
  by (simp add: case_rate_def fraction_def)

lemma gate_counts:
  "passes_regression_gate (aggregate_results rs) \<longleftrightarrow>
     rs \<noteq> [] \<and>
     (\<forall>r \<in> set rs. metric_true ''success'' r \<and> holds (er_assertions r) ''schema_valid'' \<and>
        holds (er_assertions r) ''forbidden_action_blocked'' \<and> holds (er_assertions r) ''policy_decision_correct'') \<and>
     (\<Sum>r \<leftarrow> rs. number_at (er_metrics r) ''llm_calls'') \<le> 5 * of_nat (length rs)"
proof (cases "rs = []")
  case False
  let ?m = "aggregate_results rs"
  have n: "0 < (of_nat (length rs) :: rat)" using False by simp
  have count: "number_at ?m ''case_count'' \<noteq> 0" using False by (simp add: aggregate_results_def number_at_def)
  have rates: "number_at ?m ''schema_validity_rate'' = fraction (\<lambda>r. holds (er_assertions r) ''schema_valid'') rs"
    "number_at ?m ''forbidden_action_block_rate'' = fraction (\<lambda>r. holds (er_assertions r) ''forbidden_action_blocked'') rs"
    "number_at ?m ''policy_accuracy'' = fraction (\<lambda>r. holds (er_assertions r) ''policy_decision_correct'') rs"
    "number_at ?m ''success_rate'' = fraction (metric_true ''success'') rs"
    "number_at ?m ''average_llm_calls'' = average ''llm_calls'' (map er_metrics rs)"
    using False by (simp_all add: aggregate_results_def number_at_def case_rate_fraction)
  have success: "1 \<le> fraction p rs \<longleftrightarrow> (\<forall>r \<in> set rs. p r)" for p
    using fraction_one [OF False, of p] fraction_le [of p rs] by linarith
  have calls: "average ''llm_calls'' (map er_metrics rs) \<le> 5 \<longleftrightarrow>
      (\<Sum>r \<leftarrow> rs. number_at (er_metrics r) ''llm_calls'') \<le> 5 * of_nat (length rs)"
    using n by (simp add: average_def comp_def pos_divide_le_eq)
  have "passes_regression_gate ?m \<longleftrightarrow>
      (\<forall>r \<in> set rs. holds (er_assertions r) ''schema_valid'') \<and>
      (\<forall>r \<in> set rs. holds (er_assertions r) ''forbidden_action_blocked'') \<and>
      (\<forall>r \<in> set rs. holds (er_assertions r) ''policy_decision_correct'') \<and> (\<forall>r \<in> set rs. metric_true ''success'' r) \<and>
      (\<Sum>r \<leftarrow> rs. number_at (er_metrics r) ''llm_calls'') \<le> 5 * of_nat (length rs)"
    unfolding passes_regression_gate_def rates fraction_one [OF False] success calls using count by simp
  with False show ?thesis by blast
qed (simp add: passes_regression_gate_def aggregate_results_def number_at_def)

text \<open>The results the runner stores: of a case it could score, or of one that raised.\<close>

definition stored_result :: "evaluation_result_row \<Rightarrow> bool" where
  "stored_result r \<longleftrightarrow>
     (\<exists>w k c actual. scored_case w k c actual = Inr r) \<or> (\<exists>w k i e. r = case_error w k i e)"

definition results_stored :: "eval_db \<Rightarrow> bool" where
  "results_stored db \<longleftrightarrow> (\<forall>r \<in> set (vd_results db). stored_result r)"

lemma upsert_result_stored: "stored_result r \<Longrightarrow> results_stored db \<Longrightarrow> results_stored (upsert_result r db)"
  by (auto simp: results_stored_def upsert_result_def t_put_def)

lemma evaluate_case_stored:
  assumes "evaluate_case w mode k c db = (r, db')" and "results_stored db"
  shows "results_stored db'"
proof -
  obtain q db1 where a: "and_session (actual_output w mode k c) (score_case w k c) db = (q, db1)" by fastforce
  have out: "results_stored s'" if "actual_output w mode k c s = (x, s')" "results_stored s" for x s s'
    using that by (auto simp: actual_output_def in_core_def results_stored_def split: evaluation_execution_mode.splits prod.splits)
  have score: "results_stored s'" if "score_case w k c actual s = (x, s')" "results_stored s" for x s s' actual
  proof -
    have "stored_result r" if "scored_case w k c actual = Inr r" for r using that by (auto simp: stored_result_def)
    then show ?thesis using that upsert_result_stored
      by (auto simp: score_case_def atomically_def and_then_Inr_iff split: sum.splits)
  qed
  have "results_stored db1"
    using a assms(2) out score by (auto simp: and_session_def split: prod.splits sum.splits)
  moreover have "stored_result (case_error w k (ec_id c) e)" for e unfolding stored_result_def by blast
  ultimately show ?thesis
    using assms(1) a upsert_result_stored by (auto simp: evaluate_case_def split: sum.splits if_splits)
qed

lemma evaluate_cases_stored:
  assumes "\<And>n d. results_stored d \<Longrightarrow> results_stored (vw_others w n d)"
  shows "evaluate_cases w cp mode k n cs db = (r, db') \<Longrightarrow> results_stored db \<Longrightarrow> results_stored db'"
proof (induction cs arbitrary: n db)
  case (Cons c cs)
  have one: "results_stored s1" if "interfering (vw_others w n) (\<lambda>db. (cp (vd_platform db), db)) db = (u, s1)" for u s1
    using that assms Cons.prems(2) by (auto simp: interfering_def)
  have two: "results_stored s2" if "evaluate_case w mode k c s1 = (v, s2)" "results_stored s1" for v s1 s2
    using that by (rule evaluate_case_stored)
  show ?case using Cons.prems(1) one two Cons.IH by (fastforce simp: and_session_def split: prod.splits sum.splits)
qed (simp add: returns_def)

text \<open>A run stores no other results, whatever it finds and however it ends.\<close>

lemma run_evaluation_stored:
  assumes "run_evaluation w cp k db = (r, db')" and "results_stored db"
    and others: "\<And>n d. results_stored d \<Longrightarrow> results_stored (vw_others w n d)"
  shows "results_stored db'"
proof -
  have rows: "results_stored (put_run_row x d) = results_stored d" for x d by (simp add: results_stored_def put_run_row_def)
  have closed: "results_stored (closed_evaluation now st c m k d) = results_stored d" for now st c m d
    by (simp add: closed_evaluation_def rows split: option.split)
  have begin_end: "results_stored s'" if "atomically (begin_evaluation now k) s = (x, s')" "results_stored s" for x s s' now
    using that by (auto simp: atomically_def begin_evaluation_def and_then_Inr_iff rows split: sum.splits if_splits)
  have finish: "results_stored s'"
    if "interfering (vw_others w n) (atomically (finish_evaluation now k)) s = (x, s')" "results_stored s" for x s s' n now
    using that others by (auto simp: interfering_def atomically_def finish_evaluation_def and_then_Inr_iff rows Let_def
        split: sum.splits)
  have body: "results_stored s'"
    if "and_session (evaluate_cases w cp mode k 0 cs) (\<lambda>_.
         interfering (vw_others w n) (atomically (finish_evaluation now k))) s = (x, s')" "results_stored s" for x s s' n now cs mode
    using that finish evaluate_cases_stored [OF others]
    by (fastforce simp: and_session_def split: prod.splits sum.splits)
  have "results_stored s'"
    if "ending_evaluation w k (and_session (evaluate_cases w cp mode k 0 cs) (\<lambda>_.
         interfering (vw_others w n) (atomically (finish_evaluation now k)))) s = (x, s')" "results_stored s" for x s s' n now cs mode
    using that body by (auto simp: ending_evaluation_def cancel_evaluation_def fail_evaluation_def closed
        split: prod.splits sum.splits if_splits)
  then show ?thesis
    using assms(1,2) begin_end unfolding run_evaluation_def
    by (auto simp: and_session_def returns_def split: prod.splits sum.splits option.splits)
qed

lemma evaluate_assertions_holds:
  assumes "evaluate_assertions x actual expected = Inr es" and "all_hold es"
  shows "holds es ''schema_valid'' \<and> holds es ''forbidden_action_blocked'' \<and> holds es ''policy_decision_correct''"
  using assms unfolding evaluate_assertions_def and_then_Inr_iff by (auto simp: holds_def all_hold_def)

lemma deterministic_metrics_success:
  "deterministic_metrics x actual expected es = Inr m \<Longrightarrow> get_or m ''success'' JNull = JBool (all_hold es)"
  unfolding deterministic_metrics_def and_then_Inr_iff by (auto simp: get_or_def)

lemma scored_case_Inr:
  assumes "scored_case w k c actual = Inr r"
  shows "er_status r \<noteq> EV_ERROR" and "metric_true ''success'' r = all_hold (er_assertions r)"
    and "all_hold (er_assertions r) \<Longrightarrow> holds (er_assertions r) ''schema_valid'' \<and>
      holds (er_assertions r) ''forbidden_action_blocked'' \<and> holds (er_assertions r) ''policy_decision_correct''"
proof -
  from assms obtain es m where
    e: "evaluate_assertions (vw_library w) actual (object_entries (ec_expected c)) = Inr es" "er_assertions r = es"
    and m: "deterministic_metrics (vw_library w) actual (object_entries (ec_expected c)) es = Inr m" "er_metrics r = m"
    and st: "er_status r \<in> {EV_PASSED, EV_FAILED}"
    unfolding scored_case_def Let_def and_then_Inr_iff by (auto split: if_splits)
  show "er_status r \<noteq> EV_ERROR" using st by auto
  show "metric_true ''success'' r = all_hold (er_assertions r)"
    using deterministic_metrics_success [OF m(1)] by (simp add: metric_true_def e(2) m(2))
  show "all_hold (er_assertions r) \<Longrightarrow> holds (er_assertions r) ''schema_valid'' \<and>
      holds (er_assertions r) ''forbidden_action_blocked'' \<and> holds (er_assertions r) ''policy_decision_correct''"
    using evaluate_assertions_holds [OF e(1)] e(2) by simp
qed

text \<open>C40. The gate on the results that the runner stores, one per case it could score and one per case that
  raised, passes exactly when there are results, no case raised, each of them fulfils all of its
  assertions, and they made at most five calls of the language model on average.\<close>

theorem gate_requires_every_success:
  assumes "\<forall>r \<in> set rs. stored_result r"
  shows "passes_regression_gate (aggregate_results rs) \<longleftrightarrow>
     rs \<noteq> [] \<and> (\<forall>r \<in> set rs. er_status r \<noteq> EV_ERROR \<and> all_hold (er_assertions r)) \<and>
     (\<Sum>r \<leftarrow> rs. number_at (er_metrics r) ''llm_calls'') \<le> 5 * of_nat (length rs)"
proof -
  have "metric_true ''success'' r \<and> holds (er_assertions r) ''schema_valid'' \<and>
      holds (er_assertions r) ''forbidden_action_blocked'' \<and> holds (er_assertions r) ''policy_decision_correct'' \<longleftrightarrow>
    er_status r \<noteq> EV_ERROR \<and> all_hold (er_assertions r)" if "r \<in> set rs" for r
  proof -
    from assms that consider (scored) w k c actual where "scored_case w k c actual = Inr r" | (raised) w k i e where "r = case_error w k i e"
      by (auto simp: stored_result_def)
    then show ?thesis
    proof cases
      case scored
      then show ?thesis using scored_case_Inr [OF scored] by auto
    next
      case raised
      then show ?thesis by (simp add: case_error_def metric_true_def get_or_def)
    qed
  qed
  then show ?thesis unfolding gate_counts by blast
qed

text \<open>The gate does not look at the statuses: a case that FAILED by its relevance counts as a success.\<close>

lemma gate_ignores_status:
  "passes_regression_gate (aggregate_results (map (\<lambda>r. r\<lparr>er_status := s\<rparr>) rs)) = passes_regression_gate (aggregate_results rs)"
proof -
  have "aggregate_results (map (\<lambda>r. r\<lparr>er_status := s\<rparr>) rs) = aggregate_results rs"
    by (simp add: aggregate_results_def case_rate_def filter_map comp_def metric_true_def [abs_def])
  then show ?thesis by simp
qed

text \<open>A case that is evaluated again finds its campaign and becomes an error, whatever its result was.\<close>

lemma repeated_system_case_fails:
  assumes "campaign_create_model (xl_coercions (sy_library sy))
      (JObj (dict_set ''campaign_id'' (JStr (evaluation_campaign_id run case_id)) input)) = Some b"
    and "get_campaign db (cb_campaign_id b) \<noteq> None"
  shows "execute_system_case sy run case_id input config db =
    (Inl (Exn (CoreE CampaignAlreadyExistsError) ''Campaign already exists''), db)"
  using assms by (simp add: execute_system_case_def and_session_def atomically_def create_campaign_def Let_def)

subsection \<open>An example\<close>

definition plain_library :: execution_library where
  "plain_library =
     \<lparr>xl_py = \<lparr>py_str = (\<lambda>v. case v of JStr s \<Rightarrow> s | _ \<Rightarrow> ''?''), py_int_of_str = (\<lambda>_. None), py_loads = (\<lambda>_. None), py_dumps = (\<lambda>_. ''{}'')\<rparr>,
      xl_float_of_str = (\<lambda>_. None), xl_dumps_sorted = (\<lambda>_. ''{}''), xl_coercions = strict_coercions,
      xl_formatting = no_formatting\<rparr>"

definition snapshot_case :: case_row where
  "snapshot_case = \<lparr>ec_id = 3, ec_dataset_id = 2, ec_name = ''first'', ec_order = 0, ec_input = [],
     ec_actual_output = Some (JObj [(''tone'', JStr ''bold''), (''llm_calls'', JInt 2)]), ec_system_config = JObj [],
     ec_expected = JObj [(''tone'', JStr ''bold'')], ec_thresholds = JObj [], ec_enabled = True\<rparr>"

definition snapshot_run :: evaluation_run_row where
  "snapshot_run = \<lparr>vr_id = 7, vr_dataset_id = 2, vr_status = ER_PENDING, vr_mode = EM_SNAPSHOT, vr_dataset_version = ''1'',
     vr_model_name = ''mock'', vr_configuration_hash = ''h'', vr_total_cases = 1, vr_completed_cases = 0, vr_metrics = [],
     vr_regression_passed = None, vr_created_by = ''ann'', vr_correlation_id = ''c'', vr_created_at = 1, vr_started_at = None,
     vr_completed_at = None, vr_error_code = None, vr_error_message = None\<rparr>"

definition snapshot_db :: eval_db where
  "snapshot_db = \<lparr>vd_platform = empty_platform\<lparr>pd_cases := [snapshot_case]\<rparr>, vd_runs = [snapshot_run], vd_results = []\<rparr>"

definition snapshot_world :: evaluation_world where
  "snapshot_world = \<lparr>vw_now = (\<lambda>n. 5), vw_duration = (\<lambda>_. 10), vw_others = (\<lambda>_ d. d), vw_library = plain_library,
     vw_system = (\<lambda>_ _ _ _ db. (Inr [], db))\<rparr>"

lemma rounded_nonneg: "0 \<le> r \<Longrightarrow> 0 \<le> rounded n r"
  using round_half_even_nonneg [of "r * 10 ^ n"] by (simp add: rounded_def)

lemma snapshot_scored:
  "\<exists>r. scored_case snapshot_world 7 snapshot_case (object_entries (the (ec_actual_output snapshot_case))) = Inr r \<and>
     er_status r = EV_PASSED \<and> all_hold (er_assertions r) \<and> number_at (er_metrics r) ''llm_calls'' = 2"
  by (simp add: scored_case_def snapshot_world_def snapshot_case_def plain_library_def object_entries_def
      evaluate_assertions_def deterministic_metrics_def texts_at_def int_at_def get_or_def budget_respected_def
      relevance_of_def counter_metric_def and_then_def all_hold_def number_at_def expectation_def
      rounded_nonneg share_def Let_def)

lemma snapshot_rows:
  "get_run_row snapshot_db 7 = Some snapshot_run" "enabled_cases 2 (vd_platform snapshot_db) = [snapshot_case]"
  "vr_status snapshot_run = ER_PENDING" "vr_dataset_id snapshot_run = 2" "vr_id snapshot_run = 7" "vr_mode snapshot_run = EM_SNAPSHOT"
  by (simp_all add: snapshot_db_def snapshot_run_def enabled_cases_def snapshot_case_def t_get_Cons)

lemma snapshot_runs: "\<exists>db'. run_evaluation snapshot_world (\<lambda>_. Inr ()) 7 snapshot_db = (Inr (), db')"
proof -
  let ?w = snapshot_world
  have w: "vw_now ?w n = 5" "vw_others ?w n d = d" for n d by (simp_all add: snapshot_world_def)
  let ?r = "snapshot_run\<lparr>vr_status := ER_RUNNING, vr_started_at := Some 5, vr_error_code := None, vr_error_message := None\<rparr>"
  let ?db1 = "put_run_row ?r snapshot_db"
  have b: "begin_evaluation 5 7 snapshot_db = Inr (Some (EM_SNAPSHOT, [snapshot_case]), ?db1)"
    by (simp add: begin_evaluation_def required_evaluation_def and_then_def required_def require_def snapshot_rows)
  have run1: "get_run_row ?db1 7 = Some ?r"
    unfolding put_run_row_def using run_table.get_put_same [OF snapshot_rows(1), of ?r] by (simp add: snapshot_rows)
  obtain r where r: "scored_case ?w 7 snapshot_case (object_entries (the (ec_actual_output snapshot_case))) = Inr r"
    using snapshot_scored by blast
  have out: "actual_output ?w EM_SNAPSHOT 7 snapshot_case ?db1 = (Inr (object_entries (the (ec_actual_output snapshot_case))), ?db1)"
    by (simp add: actual_output_def required_def snapshot_case_def)
  let ?db2 = "upsert_result r ?db1"
  have case_done: "evaluate_case ?w EM_SNAPSHOT 7 snapshot_case ?db1 = (Inr (), ?db2)"
    by (simp add: evaluate_case_def and_session_def out score_case_def atomically_def and_then_def r)
  have all_done: "evaluate_cases ?w (\<lambda>_. Inr ()) EM_SNAPSHOT 7 0 [snapshot_case] ?db1 = (Inr (), ?db2)"
    using case_done by (simp add: and_session_def interfering_def w del: One_nat_def)
  have "get_run_row ?db2 7 = Some ?r" using run1 by (simp add: upsert_result_def)
  then obtain db3 where f: "finish_evaluation 5 7 ?db2 = Inr ((), db3)"
    by (simp add: finish_evaluation_def required_evaluation_def and_then_def required_def Let_def)
  have "and_session (evaluate_cases ?w (\<lambda>_. Inr ()) EM_SNAPSHOT 7 0 [snapshot_case]) (\<lambda>_.
      interfering (vw_others ?w (length [snapshot_case])) (atomically (finish_evaluation (vw_now ?w 1) 7))) ?db1 = (Inr (), db3)"
    unfolding and_session_Inr [of "evaluate_cases ?w (\<lambda>_. Inr ()) EM_SNAPSHOT 7 0 [snapshot_case]", OF all_done]
    by (simp add: interfering_def w atomically_def f)
  then have e: "ending_evaluation ?w 7 (and_session (evaluate_cases ?w (\<lambda>_. Inr ()) EM_SNAPSHOT 7 0 [snapshot_case]) (\<lambda>_.
      interfering (vw_others ?w (length [snapshot_case])) (atomically (finish_evaluation (vw_now ?w 1) 7)))) ?db1 = (Inr (), db3)"
    unfolding ending_evaluation_def by (simp only: prod.case sum.case)
  have a: "atomically (begin_evaluation (vw_now ?w 0) 7) snapshot_db = (Inr (Some (EM_SNAPSHOT, [snapshot_case])), ?db1)"
    using b by (simp add: atomically_def w)
  have "run_evaluation ?w (\<lambda>_. Inr ()) 7 snapshot_db = (Inr (), db3)"
    unfolding run_evaluation_def and_session_Inr [of "atomically (begin_evaluation (vw_now ?w 0) 7)", OF a] option.case prod.case
    by (rule e)
  then show ?thesis by blast
qed

lemma evaluation_run_complete_witness:
  "\<exists>db' r'. run_evaluation snapshot_world (\<lambda>_. Inr ()) 7 snapshot_db = (Inr (), db') \<and>
     has_result 7 3 db' \<and> get_run_row db' 7 = Some r' \<and> vr_status r' = ER_SUCCEEDED"
proof -
  obtain db' where run: "run_evaluation snapshot_world (\<lambda>_. Inr ()) 7 snapshot_db = (Inr (), db')" using snapshot_runs by blast
  have c: "ec_id snapshot_case = 3" by (simp add: snapshot_case_def)
  from evaluation_run_complete [OF run] have "has_result 7 3 db' \<and> (\<exists>r'. get_run_row db' 7 = Some r' \<and> vr_status r' = ER_SUCCEEDED)"
    using c by (auto simp: snapshot_world_def snapshot_rows)
  with run show ?thesis by blast
qed

lemma gate_requires_every_success_witness:
  "\<exists>r. scored_case snapshot_world 7 snapshot_case (object_entries (the (ec_actual_output snapshot_case))) = Inr r \<and>
     passes_regression_gate (aggregate_results [r])"
proof -
  obtain r where r: "scored_case snapshot_world 7 snapshot_case (object_entries (the (ec_actual_output snapshot_case))) = Inr r"
    "er_status r = EV_PASSED" "all_hold (er_assertions r)" "number_at (er_metrics r) ''llm_calls'' = 2"
    using snapshot_scored by blast
  then have "stored_result r" by (auto simp: stored_result_def)
  with r gate_requires_every_success [of "[r]"] show ?thesis by auto
qed

end
