(* ===== verification/Operations.thy ===== *)
theory Operations
  imports Alerts Evaluation Campaign_Progress
begin

text \<open>
  What operators see of the tables, and the handlers of the remaining jobs: the timelines of a
  campaign and of a workflow (\<open>app/operations/timelines.py\<close>), the counts of the summary
  (\<open>app/operations/summary.py\<close>), the readiness (\<open>app/operations/health.py\<close>), and the jobs that run a workflow, execute an action, reconcile
  memories or alerts and dispatch events (\<open>app/jobs/handlers.py\<close>). The columns of a creation that
  the rows do not keep are arguments; the client of the language model is made by a factory that may
  raise.
\<close>

subsection \<open>Timelines\<close>

record timeline_event =
  te_at :: time
  te_type :: string
  te_resource_type :: string
  te_resource_id :: string
  te_status :: string
  te_summary :: string
  te_correlation_id :: "string option"
  te_metadata :: "(string \<times> json) list"

definition plain_entry :: "time \<Rightarrow> string \<Rightarrow> string \<Rightarrow> string \<Rightarrow> string \<Rightarrow> string \<Rightarrow> timeline_event" where
  "plain_entry t ty resource k status summary =
     \<lparr>te_at = t, te_type = ty, te_resource_type = resource, te_resource_id = k, te_status = status, te_summary = summary,
      te_correlation_id = None, te_metadata = []\<rparr>"

fun action_execution_status_value :: "action_execution_status \<Rightarrow> string" where
  "action_execution_status_value AX_CREATED = ''CREATED''"
| "action_execution_status_value AX_RUNNING = ''RUNNING''"
| "action_execution_status_value AX_COMPLETED = ''COMPLETED''"
| "action_execution_status_value AX_FAILED = ''FAILED''"
| "action_execution_status_value AX_CANCELLED = ''CANCELLED''"

fun job_status_value :: "job_status \<Rightarrow> string" where
  "job_status_value JS_PENDING = ''PENDING''"
| "job_status_value JS_RUNNING = ''RUNNING''"
| "job_status_value JS_SUCCEEDED = ''SUCCEEDED''"
| "job_status_value JS_FAILED = ''FAILED''"
| "job_status_value JS_CANCELLED = ''CANCELLED''"
| "job_status_value JS_DEAD_LETTER = ''DEAD_LETTER''"

fun outbox_status_value :: "outbox_status \<Rightarrow> string" where
  "outbox_status_value OS_PENDING = ''PENDING''"
| "outbox_status_value OS_PROCESSING = ''PROCESSING''"
| "outbox_status_value OS_PROCESSED = ''PROCESSED''"
| "outbox_status_value OS_FAILED = ''FAILED''"
| "outbox_status_value OS_DEAD_LETTER = ''DEAD_LETTER''"

fun workflow_step_value :: "workflow_step \<Rightarrow> string" where
  "workflow_step_value WS_RECEIVE_CAMPAIGN = ''RECEIVE_CAMPAIGN''"
| "workflow_step_value WS_VALIDATE_INPUT = ''VALIDATE_INPUT''"
| "workflow_step_value WS_ANALYZE_BRIEF = ''ANALYZE_BRIEF''"
| "workflow_step_value WS_GENERATE_CONTENT = ''GENERATE_CONTENT''"
| "workflow_step_value WS_REVIEW_CONTENT = ''REVIEW_CONTENT''"
| "workflow_step_value WS_HUMAN_REVIEW = ''HUMAN_REVIEW''"
| "workflow_step_value WS_COMPLETE = ''COMPLETE''"

definition run_entry :: "agent_run_row \<Rightarrow> timeline_event" where
  "run_entry r =
     (let status = agent_run_status_value (r_status r)
      in (plain_entry (r_started_at r) ''AGENT_RUN'' ''agent_run'' (uuid_str (r_id r)) status
           (agent_name_value (r_agent_name r) @ '' run '' @ lower status))
         \<lparr>te_metadata := [(''iterations'', JInt (r_iteration_count r)), (''llm_calls'', JInt (r_llm_call_count r)),
            (''tool_calls'', JInt (r_tool_call_count r))]\<rparr>)"

definition tool_entry :: "tool_call_row \<Rightarrow> timeline_event" where
  "tool_entry t =
     (let status = tool_call_status_value (tc_status t)
      in plain_entry (tc_started_at t) ''TOOL_CALL'' ''tool_call'' (uuid_str (tc_id t)) status
           (''Tool '' @ tc_tool_name t @ '' '' @ lower status))"

definition request_entry :: "action_request_row \<Rightarrow> timeline_event" where
  "request_entry q =
     (let status = action_request_status_value (q_status q)
      in (plain_entry (q_requested_at q) ''ACTION_REQUEST'' ''action_request'' (uuid_str (q_id q)) status
           (''Action '' @ q_action_name q @ '' '' @ lower status))
         \<lparr>te_metadata := [(''policy_decision'', JStr (policy_decision_value (q_policy_decision q)))]\<rparr>)"

definition execution_entry :: "(uuid \<Rightarrow> time) \<Rightarrow> execution_row \<Rightarrow> timeline_event" where
  "execution_entry created x =
     (let status = action_execution_status_value (x_status x)
      in plain_entry (case x_started_at x of None \<Rightarrow> created (x_id x) | Some t \<Rightarrow> t) ''ACTION_EXECUTION'' ''action_execution''
           (uuid_str (x_id x)) status
           (or_str (x_result_summary x) (or_str (x_error_message x) (''Action execution '' @ lower status))))"

definition memory_entry_of :: "memory_row \<Rightarrow> timeline_event" where
  "memory_entry_of m =
     plain_entry (m_created_at m) ''MEMORY_RECORDED'' ''memory'' (uuid_str (m_id m)) (memory_event_type_value (m_event_type m))
       (m_summary m)"

definition job_entry :: "job_row \<Rightarrow> timeline_event" where
  "job_entry j =
     (let status = job_status_value (j_status j)
      in (plain_entry (j_created_at j) ''BACKGROUND_JOB'' ''job'' (uuid_str (job_id j)) status
           (job_type j @ '' job '' @ lower status))\<lparr>te_correlation_id := Some (correlation_id j)\<rparr>)"

definition outbox_entry :: "(uuid \<Rightarrow> time) \<Rightarrow> outbox_row \<Rightarrow> timeline_event" where
  "outbox_entry created e =
     (let ty = outbox_event_type_value (o_event_type e)
      in (plain_entry (created (o_id e)) ty ''outbox_event'' (uuid_str (o_id e)) (outbox_status_value (o_status e))
           (''Outbox event '' @ lower ty))\<lparr>te_correlation_id := Some (o_correlation_id e)\<rparr>)"

text \<open>The text of a field of a JSON payload.\<close>

definition payload_text :: "json \<Rightarrow> string \<Rightarrow> string option" where
  "payload_text v k =
     (case v of JObj es \<Rightarrow> (case map_of es k of Some (JStr s) \<Rightarrow> Some s | _ \<Rightarrow> None) | _ \<Rightarrow> None)"

definition workflow_related :: "(uuid \<Rightarrow> time) \<Rightarrow> uuid \<Rightarrow> platform_db \<Rightarrow> timeline_event list" where
  "workflow_related created k db =
     (let core = pd_core db;
          runs = filter (\<lambda>r. r_workflow_id r = k) (agent_runs core);
          qs = filter (\<lambda>q. q_workflow_id q = k) (requests core)
      in map run_entry runs @
         map tool_entry (filter (\<lambda>t. tc_agent_run_id t \<in> r_id ` set runs) (tool_calls core)) @
         map request_entry qs @
         map (execution_entry created) (filter (\<lambda>x. x_action_request_id x \<in> q_id ` set qs) (executions core)) @
         map memory_entry_of (filter (\<lambda>m. m_workflow_id m = Some k) (memories core)) @
         map job_entry (filter (\<lambda>j. payload_text (payload j) ''workflow_id'' = Some (uuid_str k)) (jobs (pd_queue db))) @
         map (outbox_entry created)
           (filter (\<lambda>e. o_aggregate_type e = ''workflow'' \<and> o_aggregate_id e = uuid_str k) (events core)))"

text \<open>The last entries, of at most 500.\<close>

definition timeline_key :: "timeline_event \<Rightarrow> time \<times> string \<times> string" where
  "timeline_key e = (te_at e, te_type e, te_resource_id e)"

definition latest_entries :: "int \<Rightarrow> timeline_event list \<Rightarrow> timeline_event list" where
  "latest_entries limit es =
     (let n = nat (min (max limit 1) 500) in drop (length es - n) (sort_key timeline_key es))"

definition workflow_timeline ::
  "(uuid \<Rightarrow> time) \<Rightarrow> int \<Rightarrow> uuid \<Rightarrow> platform_db \<Rightarrow> (exn, timeline_event list) res" where
  "workflow_timeline created limit k db =
     and_then (get_workflow k (pd_core db)) (\<lambda>w.
     let status = campaign_status_value (wf_status w);
         first = (plain_entry (wf_started_at w) ''WORKFLOW_CREATED'' ''workflow'' (uuid_str (wf_id w)) status
             (''Workflow entered '' @ status))
           \<lparr>te_metadata := [(''step'', JStr (workflow_step_value (wf_current_step w))), (''revision'', JInt (wf_revision_number w))]\<rparr>
     in Inr (latest_entries limit (first # workflow_related created k db)))"

definition campaign_timeline ::
  "(uuid \<Rightarrow> time) \<Rightarrow> int \<Rightarrow> string \<Rightarrow> platform_db \<Rightarrow> (exn, timeline_event list) res" where
  "campaign_timeline created limit k db =
     and_then (get_campaign_record k (pd_core db)) (\<lambda>c.
     let status = campaign_status_value (c_status c);
         first = plain_entry (c_created_at c) ''CAMPAIGN_CREATED'' ''campaign'' (c_id c) status (''Campaign entered '' @ status);
         ws = sort_key (\<lambda>w. (wf_started_at w, wf_id w)) (filter (\<lambda>w. wf_campaign_id w = k) (workflows (pd_core db)));
         entries = (\<lambda>w. let s = campaign_status_value (wf_status w) in
           plain_entry (wf_started_at w) ''WORKFLOW_CREATED'' ''workflow'' (uuid_str (wf_id w)) s
             (''Workflow revision '' @ int_text (wf_revision_number w) @ '' entered '' @ s)
           # workflow_related created (wf_id w) db)
     in Inr (latest_entries limit (first # concat (map entries ws))))"

subsection \<open>The summary\<close>

text \<open>The rows of a table grouped by a column.\<close>

definition status_counts :: "('r \<Rightarrow> string) \<Rightarrow> 'r list \<Rightarrow> (string \<times> nat) list" where
  "status_counts status rows = map (\<lambda>s. (s, length (filter (\<lambda>r. status r = s) rows))) (remdups (map status rows))"

fun alert_status_value :: "alert_status \<Rightarrow> string" where
  "alert_status_value AS_OPEN = ''OPEN''"
| "alert_status_value AS_ACKNOWLEDGED = ''ACKNOWLEDGED''"
| "alert_status_value AS_RESOLVED = ''RESOLVED''"

fun evaluation_run_status_value :: "evaluation_run_status \<Rightarrow> string" where
  "evaluation_run_status_value ER_PENDING = ''PENDING''"
| "evaluation_run_status_value ER_RUNNING = ''RUNNING''"
| "evaluation_run_status_value ER_SUCCEEDED = ''SUCCEEDED''"
| "evaluation_run_status_value ER_FAILED = ''FAILED''"
| "evaluation_run_status_value ER_CANCELLED = ''CANCELLED''"

definition fresh_workers :: "time \<Rightarrow> int \<Rightarrow> worker_row list \<Rightarrow> nat" where
  "fresh_workers now stale_after ws =
     length (filter (\<lambda>w. w_status w \<in> {WK_STARTING, WK_RUNNING} \<and> now - seconds stale_after \<le> w_last_seen_at w) ws)"

record operations_summary =
  os_jobs :: "(string \<times> nat) list"
  os_alerts :: "(string \<times> nat) list"
  os_workflows :: "(string \<times> nat) list"
  os_actions :: "(string \<times> nat) list"
  os_evaluations :: "(string \<times> nat) list"
  os_outbox :: "(string \<times> nat) list"
  os_fresh_workers :: nat

definition summary_of :: "time \<Rightarrow> int \<Rightarrow> eval_db \<Rightarrow> alert_row list \<Rightarrow> operations_summary" where
  "summary_of now stale_after edb as =
     (let db = vd_platform edb in
      \<lparr>os_jobs = status_counts (\<lambda>j. job_status_value (j_status j)) (jobs (pd_queue db)),
       os_alerts = status_counts (\<lambda>a. alert_status_value (al_status a)) as,
       os_workflows = status_counts (\<lambda>w. campaign_status_value (wf_status w)) (workflows (pd_core db)),
       os_actions = status_counts (\<lambda>x. action_execution_status_value (x_status x)) (executions (pd_core db)),
       os_evaluations = status_counts (\<lambda>r. evaluation_run_status_value (vr_status r)) (vd_runs edb),
       os_outbox = status_counts (\<lambda>e. outbox_status_value (o_status e)) (events (pd_core db)),
       os_fresh_workers = fresh_workers now stale_after (workers (pd_queue db))\<rparr>)"

text \<open>
  Readiness: the revisions of the database and of the code are what two queries return, each of which
  may raise.
\<close>

definition readiness ::
  "(exn, string option \<times> string option) res \<Rightarrow> string \<times> string option \<Rightarrow> time \<Rightarrow> int \<Rightarrow> int \<Rightarrow> platform_db \<Rightarrow>
   bool \<times> (string \<times> json) list" where
  "readiness revisions llm now stale_after backlog_limit db =
     (case revisions of
        Inl _ \<Rightarrow> (False, [(''postgres'', JStr ''unavailable'')])
      | Inr (database_revision, code_revision) \<Rightarrow>
          let revision = (\<lambda>r. case r of None \<Rightarrow> JNull | Some v \<Rightarrow> JStr v);
              migration_ok = (database_revision = code_revision);
              pending = length (filter (\<lambda>j. j_status j \<in> {JS_PENDING, JS_RUNNING}) (jobs (pd_queue db)));
              fresh = fresh_workers now stale_after (workers (pd_queue db));
              worker_ok = (pending = 0 \<or> 0 < fresh);
              backlog = length (filter (\<lambda>e. o_status e \<in> {OS_PENDING, OS_FAILED, OS_PROCESSING}) (events (pd_core db)));
              outbox_ok = (int backlog \<le> backlog_limit)
          in (migration_ok \<and> worker_ok \<and> outbox_ok,
              [(''postgres'', JStr ''ok''),
               (''migration'', JObj [(''status'', JStr (if migration_ok then ''ok'' else ''mismatch'')),
                  (''database_revision'', revision database_revision), (''code_revision'', revision code_revision)]),
               (''queue'', JObj [(''status'', JStr ''ok''), (''pending_or_running'', JInt (int pending))]),
               (''worker'', JObj [(''status'', JStr (if worker_ok then ''ok'' else ''stale'')), (''fresh_workers'', JInt (int fresh))]),
               (''outbox'', JObj [(''status'', JStr (if outbox_ok then ''ok'' else ''backlog'')), (''pending'', JInt (int backlog))]),
               (''configuration'', JStr ''ok''),
               (''llm'', JObj [(''status'', JStr ''configured''), (''provider'', JStr (fst llm)),
                  (''model'', JStr (or_str (snd llm) ''mock''))])]))"

subsection \<open>Handlers of jobs\<close>

definition on_core :: "(app_db, 'a) session \<Rightarrow> (platform_db, 'a) session" where
  "on_core m db = (let (r, c) = m (pd_core db) in (r, db\<lparr>pd_core := c\<rparr>))"

definition finished_workflow_statuses :: "campaign_status list" where
  "finished_workflow_statuses =
     [CS_PENDING_APPROVAL, CS_MANUAL_REVIEW_REQUIRED, CS_APPROVED, CS_REJECTED, CS_FAILED]"

definition workflow_handler ::
  "coercions \<Rightarrow> services \<Rightarrow> (exn, orchestrator) res \<Rightarrow> (nat \<Rightarrow> nat \<Rightarrow> call_env) \<Rightarrow> nat \<Rightarrow> leased_job \<Rightarrow> string \<Rightarrow>
   platform_db \<Rightarrow> ((exn, unit) res \<times> platform_db) option" where
  "workflow_handler co sv orch env fuel job worker db =
     (case validate_job_payload co (lj_job_type job) (lj_payload job) of
        Inl e \<Rightarrow> Some (Inl e, db)
      | Inr (WorkflowRunJobPayload k) \<Rightarrow>
          (case and_then (checkpoint (lj_job_id job) worker db) (\<lambda>_. get_workflow k (pd_core db)) of
             Inl e \<Rightarrow> Some (Inl e, db)
           | Inr w \<Rightarrow>
               if wf_status w \<in> set finished_workflow_statuses then Some (Inr (), db)
               else (case orch of
                  Inl e \<Rightarrow> Some (Inl e, db)
                | Inr orch \<Rightarrow>
                    map_option (\<lambda>(r, c). (map_sum id (\<lambda>_. ()) r, db\<lparr>pd_core := c\<rparr>))
                      (run_to_pending_approval sv orch env k fuel (pd_core db))))
      | Inr _ \<Rightarrow> Some (Inl (payload_mismatch ''Workflow job payload does not match its type''), db))"

definition action_execution_handler ::
  "coercions \<Rightarrow> services \<Rightarrow> action_registry \<Rightarrow> (nat \<Rightarrow> call_env) \<Rightarrow> handler_fate \<Rightarrow> int \<Rightarrow> leased_job \<Rightarrow> string \<Rightarrow>
   (platform_db, unit) session" where
  "action_execution_handler co sv reg env fate duration job worker db =
     (case validate_job_payload co (lj_job_type job) (lj_payload job) of
        Inl e \<Rightarrow> (Inl e, db)
      | Inr (ActionExecutionJobPayload k expected actor role) \<Rightarrow>
          (case checkpoint (lj_job_id job) worker db of
             Inl e \<Rightarrow> (Inl e, db)
           | Inr _ \<Rightarrow>
               if \<exists>x \<in> set (list_by_request k (pd_core db)). x_status x \<in> {AX_COMPLETED, AX_FAILED, AX_CANCELLED}
               then (Inr (), db)
               else and_session (on_core (execute_request sv co reg env fate duration k
                       \<lparr>actor_id = actor, actor_role = role\<rparr> expected)) (\<lambda>_. returns ()) db)
      | Inr _ \<Rightarrow> (Inl (payload_mismatch ''Action job payload does not match its type''), db))"

definition memory_reconciliation_handler ::
  "coercions \<Rightarrow> services \<Rightarrow> (execution_row \<Rightarrow> int) \<Rightarrow> (nat \<Rightarrow> nat \<Rightarrow> call_env) \<Rightarrow> leased_job \<Rightarrow> string \<Rightarrow>
   (platform_db, unit) session" where
  "memory_reconciliation_handler co sv updated_at env job worker db =
     (case validate_job_payload co (lj_job_type job) (lj_payload job) of
        Inl e \<Rightarrow> (Inl e, db)
      | Inr (MemoryReconciliationJobPayload limit) \<Rightarrow>
          (case checkpoint (lj_job_id job) worker db of
             Inl e \<Rightarrow> (Inl e, db)
           | Inr _ \<Rightarrow> and_session (on_core (reconcile_pending_action_memories sv updated_at env limit)) (\<lambda>_. returns ()) db)
      | Inr _ \<Rightarrow> (Inl (payload_mismatch ''Memory job payload does not match its type''), db))"

text \<open>The dispatcher of a job calls itself after its worker, and its consumers enqueue jobs.\<close>

definition outbox_dispatch_handler ::
  "coercions \<Rightarrow> hashing \<Rightarrow> job_settings \<Rightarrow> outbox_settings \<Rightarrow> (nat \<Rightarrow> uuid \<Rightarrow> bool) \<Rightarrow> time \<Rightarrow> (nat \<Rightarrow> time) \<Rightarrow>
   (nat \<Rightarrow> dispatch_env) \<Rightarrow> leased_job \<Rightarrow> string \<Rightarrow> (platform_db, unit) session" where
  "outbox_dispatch_handler co h js st locked now lease_at de job worker db =
     (case validate_job_payload co (lj_job_type job) (lj_payload job) of
        Inl e \<Rightarrow> (Inl e, db)
      | Inr (OutboxDispatchJobPayload limit) \<Rightarrow>
          (case checkpoint (lj_job_id job) worker db of
             Inl e \<Rightarrow> (Inl e, db)
           | Inr _ \<Rightarrow>
               (let (_, t, q) = dispatch_once st (worker @ '':outbox'') (consume_event co h js) locked now lease_at de
                      limit (events (pd_core db), pd_queue db)
                in (Inr (), db\<lparr>pd_core := (pd_core db)\<lparr>events := t\<rparr>, pd_queue := q\<rparr>)))
      | Inr _ \<Rightarrow> (Inl (payload_mismatch ''Outbox job payload does not match its type''), db))"

definition alert_reconciliation_handler ::
  "coercions \<Rightarrow> alert_env \<Rightarrow> (nat \<Rightarrow> call_env) \<Rightarrow> (uuid \<Rightarrow> bool) \<Rightarrow> time \<Rightarrow> int \<Rightarrow> int \<Rightarrow> leased_job \<Rightarrow> string \<Rightarrow>
   (platform_db \<times> alert_row list, unit) session" where
  "alert_reconciliation_handler co ae envs locked now batch_size backlog_limit job worker s =
     (case validate_job_payload co (lj_job_type job) (lj_payload job) of
        Inl e \<Rightarrow> (Inl e, s)
      | Inr (AlertReconciliationJobPayload limit) \<Rightarrow>
          (case checkpoint (lj_job_id job) worker (fst s) of
             Inl e \<Rightarrow> (Inl e, s)
           | Inr _ \<Rightarrow>
               (let (r, as) = reconcile_alerts ae envs locked now batch_size backlog_limit limit (fst s) (snd s)
                in (map_sum id (\<lambda>_. ()) r, fst s, as)))
      | Inr _ \<Rightarrow> (Inl (payload_mismatch ''Alert job payload does not match its type''), s))"

subsection \<open>What they keep\<close>

text \<open>A timeline holds at most 500 entries in order, and leaves out only older ones.\<close>

lemma latest_entries_sorted: "sorted (map timeline_key (latest_entries limit es))"
  by (simp add: latest_entries_def Let_def drop_map [symmetric] sorted_wrt_drop)

lemma latest_entries_bounded: "length (latest_entries limit es) \<le> 500"
  by (simp add: latest_entries_def Let_def)

lemma latest_entries_leave_older:
  assumes "e \<in> set es" and "e \<notin> set (latest_entries limit es)" and "e' \<in> set (latest_entries limit es)"
  shows "timeline_key e \<le> timeline_key e'"
proof -
  define xs n where "xs = sort_key timeline_key es" and
    "n = length es - nat (min (max limit 1) 500)"
  have l: "latest_entries limit es = drop n xs" by (simp add: latest_entries_def Let_def xs_def n_def)
  have "e \<in> set (take n xs)"
    using assms(1,2) l by (metis append_take_drop_id set_append set_sort Un_iff xs_def)
  moreover have "sorted (map timeline_key (take n xs) @ map timeline_key (drop n xs))"
    by (metis append_take_drop_id map_append sorted_sort_key xs_def)
  ultimately show ?thesis using assms(3) l by (auto simp: sorted_append)
qed

text \<open>The counts of the summary add up to the rows of the table.\<close>

lemma status_counts_total: "sum_list (map snd (status_counts status rows)) = length rows"
proof -
  have "sum_list (map snd (status_counts status rows)) =
      (\<Sum>s \<in> set (map status rows). count_list (map status rows) s)"
    by (simp add: status_counts_def comp_def sum_list_distinct_conv_sum_set count_list_eq_length_filter
        filter_map eq_commute)
  then show ?thesis by (simp add: sum_count_set)
qed

text \<open>
  A job that is run again finds its work done: the workflow waits or has ended, or the action has a
  final execution, and nothing changes. Enough fuel is there for the run of a workflow, so its job
  always ends.
\<close>

lemma finished_workflow_untouched:
  assumes "validate_job_payload co (lj_job_type job) (lj_payload job) = Inr (WorkflowRunJobPayload k)"
    and "checkpoint (lj_job_id job) worker db = Inr ()"
    and "get_workflow k (pd_core db) = Inr w" and "wf_status w \<in> set finished_workflow_statuses"
  shows "workflow_handler co sv orch env fuel job worker db = Some (Inr (), db)"
  using assms by (simp add: workflow_handler_def)

lemma ended_action_untouched:
  assumes "validate_job_payload co (lj_job_type job) (lj_payload job) = Inr (ActionExecutionJobPayload k v a r)"
    and "checkpoint (lj_job_id job) worker db = Inr ()"
    and "x \<in> set (list_by_request k (pd_core db))" and "x_status x \<in> {AX_COMPLETED, AX_FAILED, AX_CANCELLED}"
  shows "action_execution_handler co sv reg env fate duration job worker db = (Inr (), db)"
  using assms by (auto simp: action_execution_handler_def)

lemma workflow_handler_ends:
  assumes "campaign_reachable sv (pd_core db)" and "0 \<le> max_content_retries (sv_settings sv)"
    and "\<And>orch. client = Inr orch \<Longrightarrow> steady_orchestrator orch"
  shows "\<exists>res db'. workflow_handler co sv client env (6 + 2 * nat (max_content_retries (sv_settings sv))) job worker db
      = Some (res, db')"
proof -
  have "\<exists>res c. run_to_pending_approval sv orch env k (6 + 2 * nat (max_content_retries (sv_settings sv))) (pd_core db)
      = Some (res, c)" if c: "client = Inr orch" for orch k
  proof -
    obtain r c where "run_loop sv orch env k (6 + 2 * nat (max_content_retries (sv_settings sv))) (pd_core db) = Some (r, c)"
      using run_loop_returns [OF assms(3) [OF c] work_left_bound [OF reachable_campaign_inv [OF assms(1,2)]]] by blast
    then show ?thesis by (cases r) (auto simp: run_to_pending_approval_def split: prod.splits)
  qed
  then show ?thesis
    by (fastforce simp: workflow_handler_def split: sum.splits job_payload.splits)
qed

end
