(* ===== verification/Spec2Isabelle.thy ===== *)
theory Spec2Isabelle
  imports Campaign_Properties Action_Properties Policy_Names Agent_Properties Prompt_Properties Media_Properties Run_Properties
    Rate_Limit Resource_Access Business_Properties Alert_Properties Data_Properties Document_Properties Applied_Properties Webhooks Operations
begin

text \<open>
  A model of the marketing-content backend under \<open>src/app\<close>: an application in which specialist
  agents, driven by a language model, analyse a campaign brief, write content and review it; a person
  decides; agents may propose actions that a policy engine admits; and background jobs, an outbox,
  managed prompts, generated media, applied workflows, webhooks and evaluations surround that core.

  \<^bold>\<open>How the parts interact.\<close> Requests (\<open>app/api\<close>, not modelled but for what a route decides
  itself) call services; a service is one or more transactions over repositories of rows. Work that
  takes long is a job: a row of the queue, leased by a worker under a lease that expires, whose handler
  calls the services again. Facts that other parts must learn are rows of the outbox, written in the
  transaction that establishes them and dispatched at most once each; the consumers of the outbox
  enqueue jobs. The workflow of a campaign loops over the specialists until it waits for a person, and
  only the approval service moves it further.

  \<^bold>\<open>How code is read.\<close> A row is a record, a table the list of its rows in insertion order with
  lookup and write-back by key (\<open>Prelude\<close>), the database a record of tables: \<open>job_db\<close> (queue),
  \<open>app_db\<close> (campaigns, agents, actions, memories, outbox), \<open>platform_db\<close> (both of them and the
  platform's features), \<open>eval_db\<close> (evaluations). An enumeration is a datatype, an exception the value
  \<open>Exn class message\<close>, a call that may raise a value of \<open>res\<close>. One transaction is a function from
  tables to a result and the committed tables; a call of several transactions is a \<open>session\<close>, which
  keeps what it committed before an exception. Clock readings, identifiers and the commits of other
  sessions between two transactions are arguments, so a theorem holds for all of them; rows that
  other transactions have locked are an argument of every \<open>SKIP LOCKED\<close> selection, the clearing of
  alerts included; what a transaction read without a lock before it writes (feedback, prompts,
  webhooks) is an earlier state. Where many sessions interleave, the transactions are the rules of an
  \<open>inductive\<close> step relation and the theorems are about every reachable state. A flush refuses a row
  that breaks a CHECK constraint; the theorem about the actions says when that happens.

  \<^bold>\<open>Shared vocabulary.\<close>
  \<^item> \<open>Prelude\<close>, \<open>Py_Values\<close>, \<open>Csv\<close>: results, tables, UUID texts, IEEE doubles, the CSV parser.
  \<^item> \<open>Constants\<close>, \<open>Errors\<close>: \<open>core/constants.py\<close>, \<open>core/exceptions.py\<close>, \<open>api/exception_handlers.py\<close>.
  \<^item> \<open>Sanitization\<close>: \<open>core/sanitization.py\<close> on a backtracking matcher; no secret key survives
    \<open>sanitize_json\<close>.
  \<^item> \<open>Database\<close>, \<open>Platform_Rows\<close>: the rows of \<open>database/models.py\<close>. \<open>Content_Schemas\<close>: \<open>schemas/campaign.py\<close>.

  \<^bold>\<open>Jobs and outbox.\<close>
  \<^item> \<open>Job_Payloads\<close>, \<open>Job_Queue\<close>: \<open>jobs/definitions.py\<close>, \<open>retry.py\<close>, \<open>queue.py\<close>, the job repository.
    \<open>Job_Invariant\<close>, \<open>Job_Steps\<close>, \<open>Job_Properties\<close>: in every reachable state leases, counters and the
    audit of attempts agree, and reclaiming stale leases fails only when an attempt of the batch has
    lasted longer than the 32-bit column of its duration can say, some 24 days.
  \<^item> \<open>Job_Lifecycle\<close>, \<open>Job_Worker\<close>: \<open>jobs/lifecycle.py\<close>, \<open>worker.py\<close>, the retry and cancel routes.
  \<^item> \<open>Outbox\<close>: \<open>outbox/*\<close> and its repository. \<open>Outbox_Invariant\<close>, \<open>Outbox_Properties\<close>: effects of an
    event are committed at most once over all interleavings of dispatchers; a dispatch refines the
    step relation.

  \<^bold>\<open>Campaigns.\<close>
  \<^item> \<open>Workflow_State\<close>, \<open>Campaign_Service\<close>, \<open>Workflow_Service\<close>, \<open>Memory_Service\<close>, \<open>Approval_Service\<close>,
    \<open>State_Guard\<close>: the services and repositories of these names; \<open>Auth\<close>: \<open>service/auth_service.py\<close>.
  \<^item> \<open>Campaign_Workflow\<close>: \<open>workflows/campaign_workflow.py\<close>, with the orchestrator as an argument.
  \<^item> \<open>Campaign_Invariant\<close>, \<open>Campaign_Steps\<close>, \<open>Campaign_Progress\<close>, \<open>Campaign_Example\<close>,
    \<open>Campaign_Properties\<close>: an approved campaign has the decision of an approver, a campaign has one
    active workflow, a run terminates if its orchestrator leaves the state of the pair alone.

  \<^bold>\<open>Actions and agents.\<close>
  \<^item> \<open>Policy\<close>, \<open>Policy_Names\<close>: \<open>agentic/policies\<close> and the registry of \<open>agentic/actions\<close>; a forbidden
    name is refused in every spelling.
  \<^item> \<open>Action_Store\<close>, \<open>Action_Executor\<close>, \<open>Action_Service\<close>: repositories, \<open>agentic/actions/executor.py\<close>,
    \<open>service/action_service.py\<close>. \<open>Action_Invariant\<close>, \<open>Action_Steps\<close>, \<open>Action_Progress\<close>,
    \<open>Action_Example\<close>, \<open>Action_Properties\<close>: an executed request was authorised and is executed once;
    an execution that was reserved is ended; a CHECK constraint fails only when a request first taken
    as safe was sent to approval and is evaluated again as not demanding it.
  \<^item> \<open>Agent_Runs\<close>, \<open>Agent_Tools\<close>, \<open>Agent_Loop\<close>, \<open>Orchestrator\<close>: the audit service, \<open>agentic/tools\<close>,
    \<open>agentic/runtime\<close>, \<open>agentic/memory\<close>, \<open>agentic/state\<close>. \<open>Session_Logic\<close>, \<open>Agent_Effects\<close>,
    \<open>Agent_Audit\<close>, \<open>Agent_Properties\<close>: whatever the model answers, a run stays within its budget, is
    closed, and takes only steps of the campaign system; since the actions it executes without an
    approval only read, it is steady, and the workflow driven by it terminates.

  \<^bold>\<open>Language models and prompts.\<close>
  \<^item> \<open>LLM_Clients\<close>, \<open>LLM_Properties\<close>: \<open>app/llm\<close>; the router answers with the first success.
  \<^item> \<open>Prompt_Renderer\<close>, \<open>Prompt_Service\<close>, \<open>Prompt_Steps\<close>, \<open>Prompt_Properties\<close>: managed prompts; an
    active version was approved, whatever stale readings interleave.
  \<^item> \<open>Prompt_Execution\<close>, \<open>Prompt_Runs\<close>, \<open>Run_Properties\<close>: experiments and comparisons of providers; a
    completed run is paired, unless a second run of the same experiment overwrites its cases, and its
    recommendation is the best. Others may commit before an item and while it executes.

  \<^bold>\<open>Platform.\<close>
  \<^item> \<open>Media_Service\<close>, \<open>Media_Processor\<close>, \<open>Media_Steps\<close>, \<open>Media_Example\<close>, \<open>Media_Properties\<close>:
    \<open>app/media\<close>; an approved asset was generated and reviewed; a generation ends its attempt, if
    nobody else writes that attempt meanwhile.
  \<^item> \<open>Data_Analysis\<close>, \<open>Document_Processing\<close>, \<open>Applied_Tasks\<close> and their \<open>_Properties\<close> (\<open>Data\<close>,
    \<open>Document\<close>, \<open>Applied\<close>): \<open>app/applied_workflows\<close> and its services; reports are right, no injection
    phrase reaches the model, the findings of a document are its conflicts, a run that returns
    completes its task.
  \<^item> \<open>Business_Impact\<close>, \<open>Business_Properties\<close>: impacts, feedback, analytics and their bounds; feedback
    replaces the version its submission has read, and a change since then is lost.
  \<^item> \<open>Rate_Limit\<close>, \<open>Resource_Access\<close>: \<open>operations/rate_limit.py\<close>, \<open>security/resource_access.py\<close>.
  \<^item> \<open>Alerts\<close>, \<open>Alert_Properties\<close>, \<open>Operations\<close>: the rest of \<open>app/operations\<close> and the handlers of
    jobs that belong to no other theory; after a reconciliation every condition has an open alert and
    an active managed alert a condition, but for rows that were locked. The theorem assumes of SHA-256
    only that it keeps apart the keys of the subjects concerned.
  \<^item> \<open>Webhooks\<close>: \<open>integrations/n8n\<close>; a delivery is carried out at most once.
  \<^item> \<open>Evaluation\<close>: \<open>app/evaluation\<close>; a run that returns has evaluated every case, and the regression
    gate on the results the runner stores asks for every assertion of every case.

  \<^bold>\<open>Interfaces.\<close> \<open>row_table\<close> (what a lookup returns after a write), \<open>lease\<close> and \<open>leased_table\<close> are
  locales of \<open>Prelude\<close>, interpreted on every table whose rows are looked up and on the leases of jobs
  and of events; \<open>backoff\<close> (\<open>Job_Payloads\<close>) on the delay of retries; \<open>lifecycle\<close> (\<open>Workflow_State\<close>)
  on the table of transitions, for each of its gates, and on the statuses of requests; \<open>side_tables\<close>
  and \<open>core_tables\<close> (\<open>Agent_Effects\<close>) on the audit of runs, on the reachable states of campaigns and on the states of
  the pairs.

  \<^bold>\<open>Bounds.\<close> The loop of a campaign's workflow has fuel: 6 + 2 * \<open>max_content_retries\<close> iterations
  suffice from every reachable state, because a review regenerates only while the
  retries last. The loop of an agent recurses over its budget of iterations, the dispatcher over its
  limit, the router over its candidates, the runners over their cases; \<open>format_map\<close>, the matcher of
  regular expressions and the parser of CSV files over their text. The point at which a run is
  cancelled is a number of awaits.

  \<^bold>\<open>Parameters.\<close> Code that is not part of the repository is an argument of the definitions: the
  conversion of single values by Pydantic, SHA-256 and HMAC, \<open>json.dumps\<close> and the reading of JSON and
  base64, JWT, the transports of the language models and of the image provider, the disk, the readers
  of PDF, DOCX, ZIP and UTF-8, \<open>strftime\<close> and \<open>isoformat\<close>. So is the scripted mock client.

  \<^bold>\<open>Not modelled.\<close> Metrics, logging and tracing; the columns \<open>updated_at\<close> and \<open>lock_version\<close> and the
  provenance columns of agent runs and assets; errors of the width of a column, but for the key of a
  job and the duration of an attempt; characters beyond 255 (case is folded as in ASCII, but for the
  labels and values of documents, which are folded as Latin-1); the rounding of decimals to 28 digits and
  of statistical floats, which are rationals; several readings of a clock within a transaction, which
  are one; a cancellation during a finalisation, and the death of a process (an execution then stays
  EXECUTING). \<open>service_transition\<close> is modelled but not a step of the campaign system. The routes and
  response schemas of the API, the settings, the polling loop of the worker with its signals,
  migrations, seeds and the frontend are left out.

  Where the code falls short of what it means to do, a lemma next to the properties of the component
  says so, for one \<open>completed_workflow_runs_again\<close>, \<open>stale_approval_deactivates\<close>,
  \<open>skipped_attempt_never_succeeds\<close> or \<open>repeated_system_case_fails\<close>.
\<close>

end
